(* ===== verification/Prelude.thy ===== *)
theory Prelude
  imports Complex_Main "HOL-Library.AList" "HOL-Library.Sublist" "HOL-Library.Multiset"
begin

text \<open>
  Shared vocabulary of the development: the parts of JavaScript that the wallet services
  rely on (error values, the clock, string and array helpers, rounding and number
  formatting), the effect type in which fallible stateful code is written, and the generic
  lemmas on lists and sums that the component theories use.

  JavaScript numbers that carry money or rates are real numbers (\<open>jsnum\<close>): the
  rounding of binary floating point is not modelled. Counts, time stamps and block numbers
  are integers.
\<close>

section \<open>Names of the model's types\<close>

type_synonym jsnum = real

text \<open>
  The \<open>k\<close>-th call of \<open>Date.now()\<close> made by one operation is \<open>clk k\<close>, in
  milliseconds.
\<close>

type_synonym clock = "nat \<Rightarrow> int"

text \<open>
  Thrown errors. An error whose message has a number in it keeps the number: how a number that
  was not formatted with \<open>toFixed\<close> prints is not modelled.
\<close>

datatype js_error = Error string | ErrorNum string jsnum string

fun message :: "js_error \<Rightarrow> string" where
  "message (Error m) = m"
| "message (ErrorNum a x b) = a @ b"

named_theorems eff_simps
  \<open>inversion rules for computations that may throw\<close>

section \<open>Computations that change state and may throw\<close>

text \<open>
  A method body is a function from the state to its outcome and the state it leaves. A
  \<open>throw\<close> keeps the changes made before it, as it does in JavaScript.
\<close>

type_synonym ('s, 'a) eff = "'s \<Rightarrow> (js_error + 'a) \<times> 's"

definition eret :: "'a \<Rightarrow> ('s, 'a) eff" where
  "eret x s = (Inr x, s)"

definition ethrow :: "js_error \<Rightarrow> ('s, 'a) eff" where
  "ethrow e s = (Inl e, s)"

definition ebind :: "('s, 'a) eff \<Rightarrow> ('a \<Rightarrow> ('s, 'b) eff) \<Rightarrow> ('s, 'b) eff" where
  "ebind m f s = (case m s of (Inl e, s') \<Rightarrow> (Inl e, s') | (Inr x, s') \<Rightarrow> f x s')"

definition eresult :: "js_error + 'a \<Rightarrow> ('s, 'a) eff" where
  "eresult r s = (r, s)"

text \<open>\<open>try { m } catch (error) { h }\<close>\<close>

definition ecatch :: "('s, 'a) eff \<Rightarrow> (js_error \<Rightarrow> ('s, 'a) eff) \<Rightarrow> ('s, 'a) eff" where
  "ecatch m h s = (case m s of (Inl e, s') \<Rightarrow> h e s' | (Inr x, s') \<Rightarrow> (Inr x, s'))"

lemma eret_iff [eff_simps]: "eret x s = (r, t) \<longleftrightarrow> r = Inr x \<and> t = s"
  by (auto simp: eret_def)

lemma ethrow_iff [eff_simps]: "ethrow e s = (r, t) \<longleftrightarrow> r = Inl e \<and> t = s"
  by (auto simp: ethrow_def)

lemma ebind_Inr_iff [eff_simps]:
  "ebind m f s = (Inr y, t) \<longleftrightarrow> (\<exists>x u. m s = (Inr x, u) \<and> f x u = (Inr y, t))"
  by (auto simp: ebind_def split: prod.splits sum.splits)

lemma ebind_Inl_iff [eff_simps]:
  "ebind m f s = (Inl e, t) \<longleftrightarrow>
     m s = (Inl e, t) \<or> (\<exists>x u. m s = (Inr x, u) \<and> f x u = (Inl e, t))"
  by (auto simp: ebind_def split: prod.splits sum.splits)

lemma ecatch_Inr_iff [eff_simps]:
  "ecatch m h s = (Inr y, t) \<longleftrightarrow>
     m s = (Inr y, t) \<or> (\<exists>e u. m s = (Inl e, u) \<and> h e u = (Inr y, t))"
  by (auto simp: ecatch_def split: prod.splits sum.splits)

lemma ecatch_Inl_iff [eff_simps]:
  "ecatch m h s = (Inl e', t) \<longleftrightarrow> (\<exists>e u. m s = (Inl e, u) \<and> h e u = (Inl e', t))"
  by (auto simp: ecatch_def split: prod.splits sum.splits)

text \<open>An invariant of the state that both parts of a sequence keep is kept by the sequence.\<close>

lemma ebind_state:
  assumes "I (snd (m s))" and "\<And>x u. I u \<Longrightarrow> I (snd (f x u))"
  shows "I (snd (ebind m f s))"
  using assms by (auto simp: ebind_def split: prod.splits sum.splits)

lemma ecatch_state:
  assumes "I (snd (m s))" and "\<And>e u. I u \<Longrightarrow> I (snd (h e u))"
  shows "I (snd (ecatch m h s))"
  using assms by (auto simp: ecatch_def split: prod.splits sum.splits)

text \<open>
  \<open>try { m } catch (error) { if (!allowFallback) throw error; h }\<close>, the shape of every call of
  the wallet's backend.
\<close>

definition with_fallback :: "bool \<Rightarrow> ('s, 'a) eff \<Rightarrow> ('s, 'a) eff \<Rightarrow> ('s, 'a) eff" where
  "with_fallback allow m h = ecatch m (\<lambda>e. if \<not> allow then ethrow e else h)"

definition never_throws :: "('s, 'a) eff \<Rightarrow> bool" where
  "never_throws m \<longleftrightarrow> (\<forall>s. \<exists>x t. m s = (Inr x, t))"

lemma never_throws_ret [intro]: "never_throws (eret x)"
  by (simp add: never_throws_def eret_def)

lemma never_throws_bind [intro]: "never_throws m \<Longrightarrow> (\<And>x. never_throws (f x)) \<Longrightarrow> never_throws (ebind m f)"
  unfolding never_throws_def ebind_def by (metis (no_types, lifting) old.prod.case sum.case(2))

lemma never_throws_fallback [intro]:
  assumes "never_throws h"
  shows "never_throws (with_fallback True m h)"
  unfolding never_throws_def
proof
  fix s
  obtain r t where m: "m s = (r, t)" by force
  show "\<exists>x t. with_fallback True m h s = (Inr x, t)"
  proof (cases r)
    case (Inl e)
    with m assms show ?thesis by (simp add: with_fallback_def ecatch_def never_throws_def)
  next
    case (Inr x)
    with m show ?thesis by (simp add: with_fallback_def ecatch_def)
  qed
qed

lemma with_fallback_state:
  assumes "I (snd (m s))" and "\<And>u. I u \<Longrightarrow> I (snd (h u))"
  shows "I (snd (with_fallback allow m h s))"
  unfolding with_fallback_def by (rule ecatch_state [of I]) (use assms in \<open>auto simp: ethrow_def\<close>)

text \<open>When the request fails the fallback runs in the state before it.\<close>

lemma fallback_used [simp]: "with_fallback True (ebind (eresult (Inl e)) f) h s = h s"
  by (simp add: with_fallback_def ecatch_def ebind_def eresult_def)

section \<open>Truthiness\<close>

text \<open>\<open>undefined\<close>, the empty string and zero are falsy.\<close>

fun truthy_string :: "string option \<Rightarrow> bool" where
  "truthy_string None = False"
| "truthy_string (Some s) = (s \<noteq> [])"

fun truthy_num :: "jsnum option \<Rightarrow> bool" where
  "truthy_num None = False"
| "truthy_num (Some x) = (x \<noteq> 0)"

lemma truthy_string_iff: "truthy_string x \<longleftrightarrow> (\<exists>s. x = Some s \<and> s \<noteq> [])"
  by (cases x) auto

section \<open>Decimal numerals\<close>

definition digit_char :: "nat \<Rightarrow> char" where
  "digit_char d = char_of (48 + d)"

definition is_digit :: "char \<Rightarrow> bool" where
  "is_digit c \<longleftrightarrow> 48 \<le> (of_char c :: nat) \<and> (of_char c :: nat) \<le> 57"

definition digit_val :: "char \<Rightarrow> nat" where
  "digit_val c = of_char c - 48"

fun show_nat :: "nat \<Rightarrow> string" where
  "show_nat n = (if n < 10 then [digit_char n] else show_nat (n div 10) @ [digit_char (n mod 10)])"

declare show_nat.simps [simp del]

definition show_int :: "int \<Rightarrow> string" where
  "show_int i = (if i < 0 then CHR ''-'' # show_nat (nat (- i)) else show_nat (nat i))"

definition read_nat :: "string \<Rightarrow> nat" where
  "read_nat s = foldl (\<lambda>n c. 10 * n + digit_val c) 0 s"

lemma of_char_digit_char [simp]: "d < 10 \<Longrightarrow> (of_char (digit_char d) :: nat) = 48 + d"
  by (simp add: digit_char_def of_char_of)

lemma digit_val_digit_char [simp]: "d < 10 \<Longrightarrow> digit_val (digit_char d) = d"
  by (simp add: digit_val_def)

lemma is_digit_digit_char [simp]: "d < 10 \<Longrightarrow> is_digit (digit_char d)"
  by (simp add: is_digit_def)

lemma read_nat_snoc [simp]: "read_nat (s @ [c]) = 10 * read_nat s + digit_val c"
  by (simp add: read_nat_def)

lemma show_nat_nonempty [simp]: "show_nat n \<noteq> []"
  by (subst show_nat.simps) simp

lemma read_show_nat [simp]: "read_nat (show_nat n) = n"
proof (induction n rule: show_nat.induct)
  case (1 n)
  show ?case
  proof (cases "n < 10")
    case True
    then show ?thesis by (simp add: show_nat.simps [of n] read_nat_def)
  next
    case False
    with 1 have "read_nat (show_nat n) = 10 * (n div 10) + n mod 10"
      by (simp add: show_nat.simps [of n])
    then show ?thesis by simp
  qed
qed

lemma show_nat_digits: "list_all is_digit (show_nat n)"
proof (induction n rule: show_nat.induct)
  case (1 n)
  then show ?case by (cases "n < 10") (simp_all add: show_nat.simps [of n])
qed

lemma show_nat_inject [simp]: "show_nat m = show_nat n \<longleftrightarrow> m = n"
  by (metis read_show_nat)

lemma show_nat_hd_not_minus: "show_nat n \<noteq> CHR ''-'' # s"
proof
  assume "show_nat n = CHR ''-'' # s"
  then have "is_digit (CHR ''-'')" using show_nat_digits [of n] by simp
  then show False by (simp add: is_digit_def)
qed

lemma show_int_inject [simp]: "show_int i = show_int j \<longleftrightarrow> i = j"
  using show_nat_hd_not_minus by (auto simp: show_int_def split: if_splits) metis+

section \<open>Rounding and number formatting\<close>

definition Math_round :: "jsnum \<Rightarrow> int" where
  "Math_round x = \<lfloor>x + 1 / 2\<rfloor>"

lemma Math_round_mono: "x \<le> y \<Longrightarrow> Math_round x \<le> Math_round y"
  unfolding Math_round_def by (rule floor_mono) simp

lemma Math_round_of_int [simp]: "Math_round (of_int k) = k"
  unfolding Math_round_def by linarith

lemma Math_round_nonneg: "0 \<le> x \<Longrightarrow> 0 \<le> Math_round x"
  using Math_round_mono [of 0 x] Math_round_of_int [of 0] by simp

lemma Math_round_ivl: "of_int a \<le> x \<Longrightarrow> x \<le> of_int b \<Longrightarrow> a \<le> Math_round x \<and> Math_round x \<le> b"
  using Math_round_mono [of "of_int a" x] Math_round_mono [of x "of_int b"] by simp

text \<open>
  \<open>x.toFixed(f)\<close>: the nearest multiple of \<open>10^-f\<close>, the larger one of two equally
  near, written with \<open>f\<close> fraction digits.
\<close>

definition padStart :: "nat \<Rightarrow> char \<Rightarrow> string \<Rightarrow> string" where
  "padStart n c s = replicate (n - length s) c @ s"

lemma length_padStart [simp]: "length (padStart n c s) = max n (length s)"
  by (simp add: padStart_def)

definition toFixed_nonneg :: "nat \<Rightarrow> jsnum \<Rightarrow> string" where
  "toFixed_nonneg f x =
     (let m = padStart (Suc f) (CHR ''0'') (show_nat (nat \<lfloor>x * 10 ^ f + 1 / 2\<rfloor>));
          k = length m - f
      in if f = 0 then m else take k m @ ''.'' @ drop k m)"

definition toFixed :: "nat \<Rightarrow> jsnum \<Rightarrow> string" where
  "toFixed f x = (if x < 0 then ''-'' @ toFixed_nonneg f (- x) else toFixed_nonneg f x)"

section \<open>Strings\<close>

definition str_includes :: "string \<Rightarrow> string \<Rightarrow> bool" where
  "str_includes s q \<longleftrightarrow> sublist q s"

definition startsWith :: "string \<Rightarrow> string \<Rightarrow> bool" where
  "startsWith s p \<longleftrightarrow> prefix p s"

text \<open>White space among the first 256 code points, for \<open>trim\<close> and the pattern \<open>\s\<close>.\<close>

definition is_space :: "char \<Rightarrow> bool" where
  "is_space c \<longleftrightarrow> c = CHR '' '' \<or> (of_char c :: nat) = 160 \<or> (9 \<le> (of_char c :: nat) \<and> (of_char c :: nat) \<le> 13)"

definition trim :: "string \<Rightarrow> string" where
  "trim s = rev (dropWhile is_space (rev (dropWhile is_space s)))"

definition lower_char :: "char \<Rightarrow> char" where
  "lower_char c =
     (if 65 \<le> (of_char c :: nat) \<and> (of_char c :: nat) \<le> 90 then char_of ((of_char c :: nat) + 32)
      else c)"

definition toLowerCase :: "string \<Rightarrow> string" where
  "toLowerCase s = map lower_char s"

fun split_on :: "char \<Rightarrow> string \<Rightarrow> string list" where
  "split_on d [] = [[]]"
| "split_on d (c # cs) =
     (if c = d then [] # split_on d cs
      else (case split_on d cs of [] \<Rightarrow> [[c]] | w # ws \<Rightarrow> (c # w) # ws))"

fun join_with :: "string \<Rightarrow> string list \<Rightarrow> string" where
  "join_with d [] = []"
| "join_with d [w] = w"
| "join_with d (w # ws) = w @ d @ join_with d ws"

lemma split_on_nonempty [simp]: "split_on d s \<noteq> []"
  by (induction s) (auto split: list.splits)

lemma split_on_free: "d \<notin> set w \<Longrightarrow> split_on d w = [w]"
  by (induction w) auto

lemma split_on_append: "d \<notin> set w \<Longrightarrow> split_on d (w @ d # s) = w # split_on d s"
  by (induction w) auto

lemma split_on_join:
  "ws \<noteq> [] \<Longrightarrow> (\<And>w. w \<in> set ws \<Longrightarrow> d \<notin> set w) \<Longrightarrow> split_on d (join_with [d] ws) = ws"
proof (induction "[d]" ws rule: join_with.induct)
  case 1
  then show ?case by simp
next
  case (2 w)
  then show ?case by (simp add: split_on_free)
next
  case (3 w v ws)
  then show ?case by (simp add: split_on_append)
qed

lemma trim_trimmed:
  assumes "s \<noteq> []" and "\<not> is_space (hd s)" and "\<not> is_space (last s)"
  shows "trim s = s"
proof -
  have "dropWhile is_space s = s" using assms(1,2) by (cases s) auto
  moreover have "dropWhile is_space (rev s) = rev s" using assms(1,3) by (cases s rule: rev_cases) auto
  ultimately show ?thesis by (simp add: trim_def)
qed

lemma trim_ends:
  assumes "trim s \<noteq> []"
  shows "\<not> is_space (hd (trim s))" "\<not> is_space (last (trim s))"
proof -
  let ?u = "dropWhile is_space s" and ?v = "dropWhile is_space (rev (dropWhile is_space s))"
  have v: "?v \<noteq> []" using assms by (simp add: trim_def)
  then show "\<not> is_space (last (trim s))" using hd_dropWhile [OF v] by (simp add: trim_def last_rev)
  have "?u \<noteq> []" using v by (metis dropWhile.simps(1) rev.simps(1))
  obtain w where "rev ?u = w @ ?v" by (metis takeWhile_dropWhile_id)
  then have "?u = rev ?v @ rev w" by (metis rev_append rev_rev_ident)
  moreover have "rev ?v \<noteq> []" using v by simp
  ultimately have "hd (rev ?v) = hd ?u" by (metis hd_append2)
  then show "\<not> is_space (hd (trim s))" using hd_dropWhile [OF \<open>?u \<noteq> []\<close>] by (simp add: trim_def)
qed

lemma trim_idem [simp]: "trim (trim s) = trim s"
proof (cases "trim s = []")
  case True
  moreover have "trim [] = []" by (simp add: trim_def)
  ultimately show ?thesis by simp
qed (auto intro: trim_trimmed dest: trim_ends)

text \<open>\<open>parseInt\<close>: white space, a sign, digits; \<open>None\<close> is NaN.\<close>

definition digits_int :: "string \<Rightarrow> int option" where
  "digits_int t = (let d = takeWhile is_digit t in if d = [] then None else Some (int (read_nat d)))"

definition js_parseInt :: "string \<Rightarrow> int option" where
  "js_parseInt t =
     (case dropWhile is_space t of
        [] \<Rightarrow> None
      | x # r \<Rightarrow> if x = CHR ''-'' then map_option uminus (digits_int r)
                 else if x = CHR ''+'' then digits_int r else digits_int (x # r))"

lemma digits_int_show: "digits_int (show_nat n) = Some (int n)"
  using show_nat_digits [of n] by (simp add: digits_int_def list_all_iff takeWhile_eq_all_conv [THEN iffD2])

lemma digit_not_sign: "is_digit x \<Longrightarrow> \<not> is_space x \<and> x \<noteq> CHR ''-'' \<and> x \<noteq> CHR ''+''"
  by (auto simp: is_digit_def is_space_def)

lemma js_parseInt_show: "js_parseInt (show_nat n) = Some (int n)"
proof -
  obtain x r where x: "show_nat n = x # r" by (cases "show_nat n") auto
  then have "is_digit x" using show_nat_digits [of n] by simp
  then show ?thesis using digits_int_show [of n] digit_not_sign [of x] x by (simp add: js_parseInt_def)
qed

section \<open>Arrays\<close>

text \<open>\<open>xs.slice(-n)\<close>; \<open>slice(-0)\<close> is \<open>slice(0)\<close>, the whole array.\<close>

definition slice_last :: "nat \<Rightarrow> 'a list \<Rightarrow> 'a list" where
  "slice_last n xs = (if n = 0 then xs else drop (length xs - n) xs)"

lemma length_slice_last: "0 < n \<Longrightarrow> length (slice_last n xs) = min n (length xs)"
  by (auto simp: slice_last_def)

lemma set_slice_last: "set (slice_last n xs) \<subseteq> set xs"
  by (auto simp: slice_last_def dest: in_set_dropD)

lemma slice_last_all: "length xs \<le> n \<Longrightarrow> slice_last n xs = xs"
  by (simp add: slice_last_def)

text \<open>\<open>xs.findIndex(P)\<close>; \<open>None\<close> is -1.\<close>

fun find_index :: "('a \<Rightarrow> bool) \<Rightarrow> 'a list \<Rightarrow> nat option" where
  "find_index P [] = None"
| "find_index P (x # xs) = (if P x then Some 0 else map_option Suc (find_index P xs))"

lemma find_index_Some: "find_index P xs = Some k \<Longrightarrow> k < length xs \<and> P (xs ! k)"
  by (induction xs arbitrary: k) (auto split: if_splits)

lemma find_SomeD: "List.find P xs = Some x \<Longrightarrow> x \<in> set xs \<and> P x"
  by (auto simp: find_Some_iff)

text \<open>\<open>const x = xs.find(P); if (x) { ... }\<close> with the object changed in place.\<close>

fun update_first :: "('a \<Rightarrow> bool) \<Rightarrow> ('a \<Rightarrow> 'a) \<Rightarrow> 'a list \<Rightarrow> 'a list" where
  "update_first P f [] = []"
| "update_first P f (x # xs) = (if P x then f x # xs else x # update_first P f xs)"

lemma length_update_first [simp]: "length (update_first P f xs) = length xs"
  by (induction xs) auto

lemma update_first_none: "List.find P xs = None \<Longrightarrow> update_first P f xs = xs"
  by (induction xs) (auto split: if_splits)

lemma map_update_first: "(\<And>x. g (f x) = g x) \<Longrightarrow> map g (update_first P f xs) = map g xs"
  by (induction xs) auto

lemma in_update_first: "x \<in> set (update_first P f xs) \<Longrightarrow> x \<in> set xs \<or> (\<exists>y \<in> set xs. P y \<and> x = f y)"
  by (induction xs) (auto split: if_splits)

lemma find_update_first:
  "(\<And>x. P (f x) = P x) \<Longrightarrow> List.find P (update_first P f xs) = map_option f (List.find P xs)"
  by (induction xs) auto

text \<open>Optional texts, optional arrays, and a spread \<open>{ ...old, ...updates }\<close> field by field.\<close>

definition text_of :: "string option \<Rightarrow> string" where
  "text_of x = (case x of None \<Rightarrow> [] | Some t \<Rightarrow> t)"

definition list_of :: "'a list option \<Rightarrow> 'a list" where
  "list_of x = (case x of None \<Rightarrow> [] | Some xs \<Rightarrow> xs)"

definition or_keep :: "'a option \<Rightarrow> 'a \<Rightarrow> 'a" where
  "or_keep u x = (case u of None \<Rightarrow> x | Some y \<Rightarrow> y)"

text \<open>\<open>Array.from(new Set(xs))\<close>: each element once, where it first occurs.\<close>

definition js_Set :: "'a list \<Rightarrow> 'a list" where
  "js_Set xs = rev (remdups (rev xs))"

lemma set_js_Set [simp]: "set (js_Set xs) = set xs"
  by (simp add: js_Set_def)

lemma distinct_js_Set [simp]: "distinct (js_Set xs)"
  by (simp add: js_Set_def)

lemma js_Set_distinct: "distinct xs \<Longrightarrow> js_Set xs = xs"
  by (simp add: js_Set_def distinct_remdups_id)

text \<open>
  \<open>xs.sort((a, b) => k(b) - k(a))\<close>: a stable sort by decreasing key.
\<close>

definition sort_desc :: "('a \<Rightarrow> 'k::{linorder, ab_group_add}) \<Rightarrow> 'a list \<Rightarrow> 'a list" where
  "sort_desc k xs = sort_key (\<lambda>x. - k x) xs"

lemma set_sort_desc [simp]: "set (sort_desc k xs) = set xs"
  by (simp add: sort_desc_def)

lemma length_sort_desc [simp]: "length (sort_desc k xs) = length xs"
  by (simp add: sort_desc_def)

lemma distinct_sort_desc [simp]: "distinct (sort_desc k xs) = distinct xs"
  by (simp add: sort_desc_def)

lemma mset_sort_desc [simp]: "mset (sort_desc k xs) = mset xs"
  by (simp add: sort_desc_def)

text \<open>\<open>xs.reduce((sum, x) => sum + f(x), 0)\<close>\<close>

definition sum_by :: "('a \<Rightarrow> jsnum) \<Rightarrow> 'a list \<Rightarrow> jsnum" where
  "sum_by f xs = foldl (\<lambda>acc x. acc + f x) 0 xs"

lemma foldl_add_sum_list: "foldl (\<lambda>acc x. acc + f x) a xs = a + sum_list (map f xs)"
  for a :: jsnum
  by (induction xs arbitrary: a) (auto simp: algebra_simps)

lemma sum_by_sum_list: "sum_by f xs = sum_list (map f xs)"
  by (simp add: sum_by_def foldl_add_sum_list)

lemma sum_by_Nil [simp]: "sum_by f [] = 0"
  and sum_by_Cons [simp]: "sum_by f (x # xs) = f x + sum_by f xs"
  and sum_by_append [simp]: "sum_by f (xs @ ys) = sum_by f xs + sum_by f ys"
  by (simp_all add: sum_by_sum_list)

lemma sum_by_map [simp]: "sum_by f (map g xs) = sum_by (\<lambda>x. f (g x)) xs"
  by (simp add: sum_by_sum_list comp_def)

lemma sum_by_nonneg: "(\<And>x. x \<in> set xs \<Longrightarrow> 0 \<le> f x) \<Longrightarrow> 0 \<le> sum_by f xs"
  by (induction xs) auto

lemma sum_by_cong: "(\<And>x. x \<in> set xs \<Longrightarrow> f x = g x) \<Longrightarrow> sum_by f xs = sum_by g xs"
  by (induction xs) auto

lemma sum_by_mono: "(\<And>x. x \<in> set xs \<Longrightarrow> f x \<le> g x) \<Longrightarrow> sum_by f xs \<le> sum_by g xs"
  by (induction xs) (auto intro: add_mono)

lemma sum_by_add: "sum_by (\<lambda>x. f x + g x) xs = sum_by f xs + sum_by g xs"
  by (induction xs) auto

lemma sum_by_mset: "mset xs = mset ys \<Longrightarrow> sum_by f xs = sum_by f ys"
  by (metis sum_by_sum_list mset_map sum_mset_sum_list)

lemma sum_by_filter_split: "sum_by f xs = sum_by f (filter P xs) + sum_by f (filter (\<lambda>x. \<not> P x) xs)"
  by (induction xs) auto

lemma sum_by_take_le:
  assumes "\<And>x. x \<in> set xs \<Longrightarrow> 0 \<le> f x"
  shows "sum_by f (take n xs) \<le> sum_by f xs"
proof -
  have "sum_by f xs = sum_by f (take n xs) + sum_by f (drop n xs)"
    by (simp flip: sum_by_append)
  moreover have "0 \<le> sum_by f (drop n xs)"
    using assms by (auto intro: sum_by_nonneg dest: in_set_dropD)
  ultimately show ?thesis by simp
qed

end
