(* ===== verification/JsStore.thy ===== *)
theory JsStore
  imports Prelude
begin

text \<open>
  JavaScript's \<open>Map\<close> (insertion ordered) as an association list, \<open>localStorage\<close>
  items, and the two contracts the services share: a \<open>Map\<close> keyed by the identifier of
  its values, and a service that writes its state through to storage so that a page reload
  gives back the state it left.
\<close>

section \<open>Insertion-ordered maps\<close>

text \<open>
  \<open>Map.prototype.set\<close> keeps the position of a key that is present and appends a new one:
  the library's \<open>AList.update\<close>. \<open>get\<close> is \<open>map_of\<close>, \<open>values()\<close> is
  \<open>map snd\<close>, \<open>delete\<close> is \<open>AList.delete\<close>.
\<close>

type_synonym ('k, 'v) jsmap = "('k \<times> 'v) list"

lemma jsmap_get_set [simp]:
  "map_of (AList.update k v m) = (map_of m)(k \<mapsto> v)"
  by (simp add: update_conv')

lemma jsmap_get_delete [simp]:
  "map_of (AList.delete k m) = (map_of m)(k := None)"
  by (simp add: delete_conv')

lemma jsmap_set_fresh: "map_of m k = None \<Longrightarrow> AList.update k v m = m @ [(k, v)]"
  by (induction m) (auto split: if_splits)

lemma jsmap_set_keys_present:
  "map_of m k = Some w \<Longrightarrow> map fst (AList.update k v m) = map fst m"
  by (induction m) (auto split: if_splits)

lemma jsmap_set_set [simp]:
  "AList.update k v (AList.update k w m) = AList.update k v m"
  by (induction m) auto

lemma jsmap_set_length: "length (AList.update k v m) = (if map_of m k = None then Suc (length m) else length m)"
  by (induction m) auto

lemma jsmap_set_in:
  "(k', v') \<in> set (AList.update k v m) \<Longrightarrow> (k', v') = (k, v) \<or> (k', v') \<in> set m"
  by (induction m) (auto split: if_splits)

lemma jsmap_delete_in: "(k', v') \<in> set (AList.delete k m) \<Longrightarrow> (k', v') \<in> set m \<and> k' \<noteq> k"
  by (auto simp: AList.delete_eq)

section \<open>Maps keyed by the identifier of their values\<close>

definition keyed :: "('v \<Rightarrow> 'k) \<Rightarrow> ('k, 'v) jsmap \<Rightarrow> bool" where
  "keyed key m \<longleftrightarrow> distinct (map fst m) \<and> (\<forall>(k, v) \<in> set m. key v = k)"

text \<open>
  Reading an array back: \<open>values.forEach(v => map.set(v.id, v))\<close>.
\<close>

definition load_values :: "('v \<Rightarrow> 'k) \<Rightarrow> 'v list \<Rightarrow> ('k, 'v) jsmap" where
  "load_values key vs = foldl (\<lambda>m v. AList.update (key v) v m) [] vs"

lemma keyed_Nil [simp, intro]: "keyed key []"
  by (simp add: keyed_def)

lemma keyed_distinct: "keyed key m \<Longrightarrow> distinct (map fst m)"
  by (simp add: keyed_def)

lemma keyed_get: "keyed key m \<Longrightarrow> map_of m k = Some v \<Longrightarrow> key v = k"
  by (auto simp: keyed_def dest: map_of_SomeD)

lemma keyed_value_iff: "keyed key m \<Longrightarrow> v \<in> snd ` set m \<longleftrightarrow> map_of m (key v) = Some v"
  unfolding keyed_def by (auto dest: map_of_SomeD intro: map_of_is_SomeI) (force dest: map_of_SomeD)

lemma keyed_values_distinct: "keyed key m \<Longrightarrow> distinct (map key (map snd m)) \<and> distinct (map snd m)"
proof -
  assume m: "keyed key m"
  then have "map key (map snd m) = map fst m" by (auto simp: keyed_def)
  with m have "distinct (map key (map snd m))" unfolding keyed_def by metis
  then show ?thesis by (metis distinct_map)
qed

lemma keyed_set [intro]: "keyed key m \<Longrightarrow> key v = k \<Longrightarrow> keyed key (AList.update k v m)"
  unfolding keyed_def by (auto simp: distinct_update dest!: jsmap_set_in)

lemma keyed_delete [intro]: "keyed key m \<Longrightarrow> keyed key (AList.delete k m)"
  unfolding keyed_def by (auto simp: distinct_delete dest!: jsmap_delete_in)

lemma keyed_load [intro]: "keyed key (load_values key vs)"
proof -
  have "keyed key m \<Longrightarrow> keyed key (foldl (\<lambda>m v. AList.update (key v) v m) m vs)" for m
    by (induction vs arbitrary: m) auto
  then show ?thesis unfolding load_values_def by blast
qed

lemma foldl_load_append:
  "keyed key (m @ n) \<Longrightarrow> foldl (\<lambda>m v. AList.update (key v) v m) m (map snd n) = m @ n"
proof (induction n arbitrary: m)
  case Nil
  then show ?case by simp
next
  case (Cons kv n)
  obtain k v where kv: "kv = (k, v)" by force
  from Cons.prems kv have fresh: "map_of m k = None" and k: "key v = k"
    by (auto simp: keyed_def map_of_eq_None_iff)
  have "keyed key ((m @ [(k, v)]) @ n)" using Cons.prems kv by simp
  then show ?case
    using Cons.IH [of "m @ [(k, v)]"] fresh k kv by (simp add: jsmap_set_fresh)
qed

lemma load_values_inverse: "keyed key m \<Longrightarrow> load_values key (map snd m) = m"
  using foldl_load_append [of key "[]" m] by (simp add: load_values_def)

text \<open>\<open>new Map(entries)\<close>\<close>

definition new_Map :: "('k \<times> 'v) list \<Rightarrow> ('k, 'v) jsmap" where
  "new_Map es = foldl (\<lambda>m (a, v). AList.update a v m) [] es"

lemma new_Map_append:
  "distinct (map fst (m @ es)) \<Longrightarrow> foldl (\<lambda>m (a, v). AList.update a v m) m es = m @ es"
proof (induction es arbitrary: m)
  case Nil
  then show ?case by simp
next
  case (Cons kv es)
  obtain k v where kv: "kv = (k, v)" by force
  with Cons.prems have "map_of m k = None" by (simp add: map_of_eq_None_iff)
  with Cons.IH [of "m @ [(k, v)]"] Cons.prems kv show ?case by (simp add: jsmap_set_fresh)
qed

lemma new_Map_distinct: "distinct (map fst es) \<Longrightarrow> new_Map es = es"
  using new_Map_append [of "[]" es] by (simp add: new_Map_def)

text \<open>The value at a key satisfies what all values satisfy, and an update keeps it.\<close>

definition all_values :: "('v \<Rightarrow> bool) \<Rightarrow> ('k, 'v) jsmap \<Rightarrow> bool" where
  "all_values P m \<longleftrightarrow> (\<forall>v \<in> snd ` set m. P v)"

lemma all_values_Nil [simp, intro]: "all_values P []"
  by (simp add: all_values_def)

lemma all_values_get: "all_values P m \<Longrightarrow> map_of m k = Some v \<Longrightarrow> P v"
  by (force simp: all_values_def dest: map_of_SomeD)

lemma all_values_set [intro]: "all_values P m \<Longrightarrow> P v \<Longrightarrow> all_values P (AList.update k v m)"
  unfolding all_values_def by (force dest!: jsmap_set_in)

lemma all_values_delete [intro]: "all_values P m \<Longrightarrow> all_values P (AList.delete k m)"
  unfolding all_values_def by (force dest!: jsmap_delete_in)

lemma all_values_foldl:
  assumes "all_values P m" and "\<And>v. v \<in> set vs \<Longrightarrow> P v"
  shows "all_values P (foldl (\<lambda>m v. AList.update (key v) v m) m vs)"
  using assms
proof (induction vs arbitrary: m)
  case Nil
  then show ?case by simp
next
  case (Cons v vs)
  then have "all_values P (AList.update (key v) v m)" by (intro all_values_set) auto
  with Cons show ?case by simp
qed

lemma all_values_load: "(\<And>v. v \<in> set vs \<Longrightarrow> P v) \<Longrightarrow> all_values P (load_values key vs)"
  unfolding load_values_def by (rule all_values_foldl) auto

text \<open>A projection of the values under an update of one of them.\<close>

lemma jsmap_set_project:
  "map_of m k = Some w \<Longrightarrow> f v = f w \<Longrightarrow> map f (map snd (AList.update k v m)) = map f (map snd m)"
  by (induction m) (auto split: if_splits)

lemma jsmap_set_distinct:
  "distinct (map f (map snd m)) \<Longrightarrow> f v \<notin> set (map f (map snd m)) \<Longrightarrow>
     distinct (map f (map snd (AList.update k v m)))"
  by (induction m) (auto dest!: jsmap_set_in)

lemma jsmap_delete_distinct: "distinct (map f (map snd m)) \<Longrightarrow> distinct (map f (map snd (AList.delete k m)))"
  by (induction m) (auto simp: AList.delete_eq)

text \<open>In-place changes to every value: \<open>map.forEach(v => ...)\<close>.\<close>

definition map_values :: "('v \<Rightarrow> 'v) \<Rightarrow> ('k, 'v) jsmap \<Rightarrow> ('k, 'v) jsmap" where
  "map_values f m = map (\<lambda>(k, v). (k, f v)) m"

lemma map_values_get [simp]: "map_of (map_values f m) k = map_option f (map_of m k)"
  unfolding map_values_def by (induction m) auto

lemma map_values_keys [simp]: "map fst (map_values f m) = map fst m"
  unfolding map_values_def by (induction m) auto

lemma map_values_values [simp]: "map snd (map_values f m) = map f (map snd m)"
  unfolding map_values_def by (induction m) auto

lemma keyed_map_values: "keyed key m \<Longrightarrow> (\<And>v. key (f v) = key v) \<Longrightarrow> keyed key (map_values f m)"
  by (auto simp: keyed_def map_values_def comp_def case_prod_beta)

lemma all_values_map_values: "all_values P m \<Longrightarrow> (\<And>v. P v \<Longrightarrow> P (f v)) \<Longrightarrow> all_values P (map_values f m)"
  by (auto simp: all_values_def map_values_def)

text \<open>Counting with a map: \<open>counts.set(k, (counts.get(k) || 0) + 1)\<close>.\<close>

definition times :: "'k \<Rightarrow> ('k, nat) jsmap \<Rightarrow> nat" where
  "times k m = (case map_of m k of None \<Rightarrow> 0 | Some n \<Rightarrow> n)"

definition tally :: "'k \<Rightarrow> ('k, nat) jsmap \<Rightarrow> ('k, nat) jsmap" where
  "tally k m = AList.update k (Suc (times k m)) m"

lemma times_Nil [simp]: "times k [] = 0"
  by (simp add: times_def)

lemma times_fold: "times k (fold tally ks m) = times k m + count_list ks k"
  by (induction ks arbitrary: m) (auto simp: tally_def times_def)

lemma tally_keys: "fst ` set (fold tally ks m) = fst ` set m \<union> set ks"
  by (induction ks arbitrary: m) (auto simp: tally_def dom_update)

lemma tally_distinct: "distinct (map fst m) \<Longrightarrow> distinct (map fst (fold tally ks m))"
  by (induction ks arbitrary: m) (auto simp: tally_def distinct_update)

lemma tally_entry:
  assumes "(k, n) \<in> set (fold tally ks [])"
  shows "n = count_list ks k" "k \<in> set ks"
proof -
  have "map_of (fold tally ks []) k = Some n"
    using assms tally_distinct [of "[]" ks] by (simp add: map_of_is_SomeI)
  then show "n = count_list ks k" using times_fold [of k ks "[]"] by (simp add: times_def)
  show "k \<in> set ks" using assms tally_keys [of ks "[]"] by force
qed

section \<open>Items of localStorage\<close>

text \<open>
  What \<open>getItem\<close> finds under a key: nothing, a text that \<open>JSON.parse\<close> refuses, or the
  JSON text of a value. \<open>JSON.parse(JSON.stringify(x))\<close> gives back \<open>x\<close> for the plain
  data the services store (strings, finite numbers, booleans, arrays and objects of them).
\<close>

datatype 'a item = Absent | Garbled string | Json 'a

definition JsonSyntaxError :: js_error where
  "JsonSyntaxError = Error ''SyntaxError''"

text \<open>\<open>if (stored) { ... JSON.parse(stored) ... }\<close>: the empty text is falsy and is not parsed.\<close>

fun parse_item :: "'a \<Rightarrow> 'a item \<Rightarrow> js_error + 'a" where
  "parse_item d Absent = Inr d"
| "parse_item d (Garbled t) = (if t = [] then Inr d else Inl JsonSyntaxError)"
| "parse_item d (Json x) = Inr x"

text \<open>The same read under \<open>try/catch\<close>: an unreadable item counts as absent.\<close>

fun parse_item_or :: "'a \<Rightarrow> 'a item \<Rightarrow> 'a" where
  "parse_item_or d Absent = d"
| "parse_item_or d (Garbled _) = d"
| "parse_item_or d (Json x) = x"

text \<open>A collection in memory and the array stored for it agree.\<close>

definition in_sync :: "('k, 'v) jsmap \<Rightarrow> 'v list item \<Rightarrow> bool" where
  "in_sync m i \<longleftrightarrow> i = Json (map snd m) \<or> (m = [] \<and> i = Absent)"

lemma in_sync_saved [simp, intro]: "in_sync m (Json (map snd m))"
  and in_sync_empty [simp, intro]: "in_sync [] Absent"
  by (simp_all add: in_sync_def)

lemma in_sync_load:
  "in_sync m i \<Longrightarrow> keyed key m \<Longrightarrow> load_values key (parse_item_or [] i) = m"
  by (auto simp: in_sync_def load_values_inverse) (simp add: load_values_def)

lemma in_sync_parse: "in_sync m i \<Longrightarrow> keyed key m \<Longrightarrow> \<exists>xs. parse_item [] i = Inr xs \<and> load_values key xs = m"
  by (auto simp: in_sync_def load_values_inverse) (simp add: load_values_def)

section \<open>Services that persist their state\<close>

text \<open>
  A service whose every operation keeps an invariant under which rebuilding it from storage
  gives a view of the state: the part of it that storage remembers.
\<close>

locale persistent =
  fixes step :: "'op \<Rightarrow> 's \<Rightarrow> 's"
    and reload :: "'s \<Rightarrow> 's"
    and inv :: "'s \<Rightarrow> bool"
    and view :: "'s \<Rightarrow> 's"
  assumes step_inv: "inv s \<Longrightarrow> inv (step op s)"
    and reload_view: "inv s \<Longrightarrow> reload s = view s"
    and inv_view: "inv s \<Longrightarrow> inv (view s)"
    and view_idem: "view (view s) = view s"
begin

lemma run_inv: "inv s \<Longrightarrow> inv (fold step ops s)"
  by (induction ops arbitrary: s) (auto simp: step_inv)

lemma reload_run_view: "inv s \<Longrightarrow> reload (fold step ops s) = view (fold step ops s)"
  by (simp add: reload_view run_inv)

lemma reload_twice: "inv s \<Longrightarrow> reload (reload s) = reload s"
  by (simp add: reload_view inv_view view_idem)

end

text \<open>
  When storage remembers everything, a reload between any two operations is invisible.
\<close>

locale write_through =
  fixes step :: "'op \<Rightarrow> 's \<Rightarrow> 's"
    and reload :: "'s \<Rightarrow> 's"
    and inv :: "'s \<Rightarrow> bool"
  assumes step_keeps: "inv s \<Longrightarrow> inv (step op s)"
    and reload_id: "inv s \<Longrightarrow> reload s = s"

sublocale write_through \<subseteq> persistent step reload inv "\<lambda>s. s"
  by unfold_locales (auto simp: step_keeps reload_id)

context write_through begin

lemma run_reload: "inv s \<Longrightarrow> fold (\<lambda>op s. reload (step op s)) ops s = fold step ops s"
  by (induction ops arbitrary: s) (auto simp: step_keeps reload_id)

lemma reload_after_run: "inv s \<Longrightarrow> reload (fold step ops s) = fold step ops s"
  by (rule reload_run_view)

end

text \<open>
  The map operations as an interface: what a client may use of \<open>get\<close>, \<open>set\<close> and
  \<open>delete\<close>, whatever the representation.
\<close>

locale ordered_map =
  fixes get :: "'m \<Rightarrow> 'k \<Rightarrow> 'v option"
    and put :: "'k \<Rightarrow> 'v \<Rightarrow> 'm \<Rightarrow> 'm"
    and del :: "'k \<Rightarrow> 'm \<Rightarrow> 'm"
    and key_list :: "'m \<Rightarrow> 'k list"
    and wf :: "'m \<Rightarrow> bool"
  assumes get_put: "get (put k v m) = (get m)(k \<mapsto> v)"
    and get_del: "get (del k m) = (get m)(k := None)"
    and keys_get: "set (key_list m) = dom (get m)"
    and keys_put: "wf m \<Longrightarrow> key_list (put k v m) =
          (if k \<in> set (key_list m) then key_list m else key_list m @ [k])"
    and keys_del: "wf m \<Longrightarrow> key_list (del k m) = filter (\<lambda>x. x \<noteq> k) (key_list m)"
    and wf_put: "wf m \<Longrightarrow> wf (put k v m)"
    and wf_del: "wf m \<Longrightarrow> wf (del k m)"
begin

lemma put_other: "k \<noteq> k' \<Longrightarrow> get (put k v m) k' = get m k'"
  by (simp add: get_put)

lemma put_put_get: "get (put k v (put k w m)) = get (put k v m)"
  by (simp add: get_put)

lemma put_commute_get: "k \<noteq> k' \<Longrightarrow> get (put k v (put k' w m)) = get (put k' w (put k v m))"
  by (simp add: get_put fun_upd_twist)

lemma update_keeps_order: "wf m \<Longrightarrow> get m k = Some w \<Longrightarrow> key_list (put k v m) = key_list m"
  using keys_get [of m] by (auto simp: keys_put)

lemma insert_appends: "wf m \<Longrightarrow> get m k = None \<Longrightarrow> key_list (put k v m) = key_list m @ [k]"
  using keys_get [of m] by (auto simp: keys_put)

lemma put_del_get: "get (del k (put k v m)) = get (del k m)"
  by (simp add: get_put get_del)

end

interpretation jsm: ordered_map map_of AList.update AList.delete "map fst" "\<lambda>m. distinct (map fst m)"
proof unfold_locales
  fix k :: 'a and v :: 'b and m :: "('a \<times> 'b) list"
  show "set (map fst m) = dom (map_of m)" by (simp add: dom_map_of_conv_image_fst)
  show "map fst (AList.update k v m) =
      (if k \<in> set (map fst m) then map fst m else map fst m @ [k])"
    by (induction m) auto
  show "map fst (AList.delete k m) = filter (\<lambda>x. x \<noteq> k) (map fst m)"
    by (induction m) (auto simp: AList.delete_eq)
qed (auto simp: distinct_update distinct_delete)

end
