(* ===== verification/WalletService.thy ===== *)
theory WalletService
  imports JsStore
begin

text \<open>
  The wallet registry of the wallet service (services/wallet.ts): the wallets in memory, the
  active wallet, the two items of \<open>localStorage\<close> and the snapshot by which the service
  notices that another tab wrote them. The node behind services/api.ts is a parameter: one
  state transformer per RPC method, over a node state of any type. Spending is in the theory
  WalletSpend.
\<close>

section \<open>Data\<close>

record WalletInfo =
  address :: string
  label :: string
  balance :: jsnum
  unconfirmedBalance :: jsnum
  privateKey :: "string option"
  publicKey :: "string option"
  createdAt :: int
  watchOnly :: "bool option"
  xpub :: "string option"

text \<open>The results of the RPC methods, as far as the service reads them (services/api.ts).\<close>

record UTXO =
  u_txid :: string
  u_vout :: int
  u_address :: string
  u_scriptPubKey :: string
  u_amount :: jsnum
  u_confirmations :: int

record AddressInfo =
  isvalid :: bool
  ai_address :: "string option"

record SignedRaw =
  sr_hex :: string
  sr_complete :: bool

record NodeTx =
  nt_txid :: string
  nt_address :: "string option"
  nt_category :: string
  nt_amount :: jsnum
  nt_confirmations :: "int option"
  nt_fee :: "jsnum option"
  nt_time :: "int option"
  nt_timereceived :: "int option"

record RawOutput =
  ro_address :: "string option"
  ro_value :: jsnum

record RawTx =
  raw_vin :: "nat option"
  raw_vout :: "RawOutput list option"

text \<open>
  The client of the node: every method may throw and may change the node. \<open>raw_vin\<close> is
  the number of inputs (the service only counts them); a raw transaction that arrives as a
  string is \<open>Inl\<close>.
\<close>

record 'n node_api =
  getNewAddress :: "string \<Rightarrow> ('n, string) eff"
  importPrivKey :: "string \<Rightarrow> string \<Rightarrow> bool \<Rightarrow> ('n, unit) eff"
  validateAddress :: "string \<Rightarrow> ('n, AddressInfo) eff"
  listUnspent :: "int \<Rightarrow> int \<Rightarrow> string list \<Rightarrow> ('n, UTXO list) eff"
  estimateSmartFee :: "int \<Rightarrow> ('n, jsnum option) eff"
  listTransactions :: "string \<Rightarrow> int \<Rightarrow> int \<Rightarrow> bool \<Rightarrow> ('n, NodeTx list) eff"
  getRawTransaction :: "string \<Rightarrow> bool \<Rightarrow> ('n, string + RawTx) eff"
  createRawTransaction :: "(string \<times> int) list \<Rightarrow> (string, jsnum) jsmap \<Rightarrow> ('n, string) eff"
  signRawTransactionWithWallet :: "string \<Rightarrow> ('n, SignedRaw) eff"
  sendRawTransaction :: "string \<Rightarrow> ('n, string) eff"

text \<open>
  The stored object maps addresses to entries; an entry that is not an object is \<open>None\<close>.
  Addresses are not numerals, so the object keeps the order of insertion.
\<close>

type_synonym stored_wallets = "(string \<times> WalletInfo option) list"

record 'n ws =
  wallets :: "(string, WalletInfo) jsmap"
  activeWallet :: "string option"
  storageSnapshot :: "stored_wallets item \<times> string option"
  item_wallets :: "stored_wallets item"
  item_active :: "string option"
  has_storage :: bool
  node :: 'n

definition call :: "('n, 'a) eff \<Rightarrow> ('n ws, 'a) eff" where
  "call f s = (case f (node s) of (r, n) \<Rightarrow> (r, s\<lparr>node := n\<rparr>))"

definition wrap_error :: "string \<Rightarrow> js_error \<Rightarrow> js_error" where
  "wrap_error p e = Error (p @ message e)"

section \<open>Storage\<close>

definition readStorageSnapshot :: "'n ws \<Rightarrow> stored_wallets item \<times> string option" where
  "readStorageSnapshot s =
     (if \<not> has_storage s then (Absent, None) else (item_wallets s, item_active s))"

definition sanitizeWalletForStorage :: "WalletInfo \<Rightarrow> WalletInfo" where
  "sanitizeWalletForStorage w = w\<lparr>privateKey := None\<rparr>"

definition to_object :: "(string, WalletInfo) jsmap \<Rightarrow> stored_wallets" where
  "to_object m = map (\<lambda>(a, w). (a, Some (sanitizeWalletForStorage w))) m"

text \<open>The empty string is falsy: \<open>if (this.activeWallet)\<close>.\<close>

definition truthy_active :: "string option \<Rightarrow> string option" where
  "truthy_active a = (if truthy_string a then a else None)"

definition saveWalletsToStorage :: "'n ws \<Rightarrow> 'n ws" where
  "saveWalletsToStorage s =
     (if \<not> has_storage s then s
      else let s1 = s\<lparr>item_wallets := Json (to_object (wallets s)),
                     item_active := truthy_active (activeWallet s)\<rparr>
           in s1\<lparr>storageSnapshot := readStorageSnapshot s1\<rparr>)"

text \<open>
  Reading the stored text: an empty text is falsy and counts as absent, a garbled one throws.
\<close>

fun stored_entries :: "stored_wallets item \<Rightarrow> js_error + stored_wallets" where
  "stored_entries Absent = Inr []"
| "stored_entries (Garbled t) = (if t = [] then Inr [] else Inl JsonSyntaxError)"
| "stored_entries (Json es) = Inr es"

fun object_entries :: "stored_wallets \<Rightarrow> (string \<times> WalletInfo) list" where
  "object_entries [] = []"
| "object_entries ((a, None) # es) = object_entries es"
| "object_entries ((a, Some w) # es) = (a, w) # object_entries es"

definition loadWalletsFromStorage :: "'n ws \<Rightarrow> 'n ws" where
  "loadWalletsFromStorage s =
     (if \<not> has_storage s then s\<lparr>storageSnapshot := (Absent, None)\<rparr>
      else
        let s1 = s\<lparr>storageSnapshot := readStorageSnapshot s, wallets := [], activeWallet := None\<rparr>
        in case stored_entries (item_wallets s1) of
             Inl e \<Rightarrow> s1
           | Inr es \<Rightarrow>
               let objs = object_entries es;
                   has_key = list_ex (\<lambda>(a, w). privateKey w \<noteq> None) objs;
                   s2 = s1\<lparr>wallets := new_Map (map (\<lambda>(a, w). (a, sanitizeWalletForStorage w)) objs)\<rparr>;
                   act = item_active s2;
                   found = (truthy_string act \<and> map_of (wallets s2) (the act) \<noteq> None);
                   s3 = (if found then s2\<lparr>activeWallet := act\<rparr> else s2)
               in if has_key \<or> (truthy_string act \<and> \<not> found) then saveWalletsToStorage s3 else s3)"

definition reloadFromStorage :: "'n ws \<Rightarrow> 'n ws" where
  "reloadFromStorage s = loadWalletsFromStorage s"

definition refreshFromStorageIfNeeded :: "'n ws \<Rightarrow> 'n ws" where
  "refreshFromStorageIfNeeded s =
     (if \<not> has_storage s then s
      else if readStorageSnapshot s \<noteq> storageSnapshot s then loadWalletsFromStorage s
      else s)"

definition new_WalletService :: "bool \<Rightarrow> stored_wallets item \<Rightarrow> string option \<Rightarrow> 'n \<Rightarrow> 'n ws" where
  "new_WalletService storage wi ai n =
     loadWalletsFromStorage
       \<lparr>wallets = [], activeWallet = None, storageSnapshot = (Absent, None), item_wallets = wi,
        item_active = ai, has_storage = storage, node = n\<rparr>"

section \<open>Registering wallets\<close>

definition set_if_inactive :: "string \<Rightarrow> 'n ws \<Rightarrow> 'n ws" where
  "set_if_inactive a s = (if \<not> truthy_string (activeWallet s) then s\<lparr>activeWallet := Some a\<rparr> else s)"

definition generateWallet :: "'n node_api \<Rightarrow> clock \<Rightarrow> string \<Rightarrow> ('n ws, WalletInfo) eff" where
  "generateWallet api clk lbl =
     ecatch
       (ebind (call (getNewAddress api lbl)) (\<lambda>a s.
          let w = \<lparr>address = a, label = lbl, balance = 0, unconfirmedBalance = 0, privateKey = None,
                publicKey = None, createdAt = clk 0, watchOnly = None, xpub = None\<rparr>
          in (Inr w, saveWalletsToStorage (set_if_inactive a (s\<lparr>wallets := AList.update a w (wallets s)\<rparr>)))))
       (\<lambda>e. ethrow (wrap_error ''Failed to generate wallet: '' e))"

text \<open>
  \<open>updateWalletBalance\<close> from the point where \<open>listUnspent\<close> has answered: \<open>w\<close> is
  the object that was looked up before the call.
\<close>

definition finishBalanceUpdate :: "string \<Rightarrow> WalletInfo \<Rightarrow> UTXO list \<Rightarrow> 'n ws \<Rightarrow> 'n ws" where
  "finishBalanceUpdate a w us s =
     saveWalletsToStorage (s\<lparr>wallets := AList.update a
       (w\<lparr>balance := sum_by u_amount (filter (\<lambda>u. u_confirmations u \<ge> 1) us),
          unconfirmedBalance := sum_by u_amount (filter (\<lambda>u. u_confirmations u = 0) us)\<rparr>)
       (wallets s)\<rparr>)"

definition updateWalletBalance :: "'n node_api \<Rightarrow> string \<Rightarrow> 'n ws \<Rightarrow> 'n ws" where
  "updateWalletBalance api a s =
     (case map_of (wallets s) a of
        None \<Rightarrow> s
      | Some w \<Rightarrow>
          (case call (listUnspent api 0 9999999 [a]) s of
             (Inl e, s1) \<Rightarrow> s1
           | (Inr us, s1) \<Rightarrow> finishBalanceUpdate a w us s1))"

text \<open>\<open>Promise.all\<close> over the addresses, in the order in which the requests are made.\<close>

definition updateAllBalances :: "'n node_api \<Rightarrow> 'n ws \<Rightarrow> 'n ws" where
  "updateAllBalances api s = fold (updateWalletBalance api) (map fst (wallets s)) s"

text \<open>
  The object that \<open>importWallet\<close> returns is the one in the map, so it shows the balance
  that the update stored.
\<close>

definition importWallet ::
    "'n node_api \<Rightarrow> clock \<Rightarrow> string \<Rightarrow> string \<Rightarrow> bool \<Rightarrow> ('n ws, WalletInfo) eff" where
  "importWallet api clk key lbl rescan =
     ecatch
       (ebind (call (importPrivKey api key lbl rescan)) (\<lambda>_.
        ebind (call (validateAddress api key)) (\<lambda>info s.
          let a = (if truthy_string (ai_address info) then the (ai_address info) else []);
              w = \<lparr>address = a, label = lbl, balance = 0, unconfirmedBalance = 0, privateKey = Some key,
                publicKey = None, createdAt = clk 0, watchOnly = None, xpub = None\<rparr>;
              s1 = saveWalletsToStorage (set_if_inactive a (s\<lparr>wallets := AList.update a w (wallets s)\<rparr>));
              s2 = updateWalletBalance api a s1
          in (Inr (case map_of (wallets s2) a of Some w' \<Rightarrow> w' | None \<Rightarrow> w), s2))))
       (\<lambda>e. ethrow (wrap_error ''Failed to import wallet: '' e))"

definition registerWallet :: "WalletInfo \<Rightarrow> bool option \<Rightarrow> 'n ws \<Rightarrow> WalletInfo \<times> 'n ws" where
  "registerWallet w setActive s =
     (let sw = sanitizeWalletForStorage w;
          s1 = s\<lparr>wallets := AList.update (address sw) sw (wallets s)\<rparr>;
          s2 = (if setActive \<noteq> Some False \<or> \<not> truthy_string (activeWallet s1)
                then s1\<lparr>activeWallet := Some (address sw)\<rparr> else s1)
      in (sw, saveWalletsToStorage s2))"

section \<open>Looking wallets up\<close>

definition getWallets :: "'n ws \<Rightarrow> WalletInfo list \<times> 'n ws" where
  "getWallets s = (let s1 = refreshFromStorageIfNeeded s in (map snd (wallets s1), s1))"

definition getTotalBalance :: "'n ws \<Rightarrow> jsnum" where
  "getTotalBalance s = foldl (\<lambda>sum w. sum + balance w + unconfirmedBalance w) 0 (map snd (wallets s))"

definition getActiveWallet :: "'n ws \<Rightarrow> WalletInfo option \<times> 'n ws" where
  "getActiveWallet s =
     (let s1 = refreshFromStorageIfNeeded s
      in (if \<not> truthy_string (activeWallet s1) then None
          else map_of (wallets s1) (the (activeWallet s1)), s1))"

definition setActiveWallet :: "string \<Rightarrow> 'n ws \<Rightarrow> bool \<times> 'n ws" where
  "setActiveWallet a s =
     (let s1 = refreshFromStorageIfNeeded s
      in if map_of (wallets s1) a = None then (False, s1)
         else (True, saveWalletsToStorage (s1\<lparr>activeWallet := Some a\<rparr>)))"

definition getWallet :: "string \<Rightarrow> 'n ws \<Rightarrow> WalletInfo option \<times> 'n ws" where
  "getWallet a s = (let s1 = refreshFromStorageIfNeeded s in (map_of (wallets s1) a, s1))"

text \<open>\<open>exportWallet\<close> returns the JSON text of the wallet; the model returns the wallet.\<close>

definition exportWallet :: "string \<Rightarrow> 'n ws \<Rightarrow> WalletInfo option \<times> 'n ws" where
  "exportWallet a s = getWallet a s"

definition deleteWallet :: "string \<Rightarrow> 'n ws \<Rightarrow> bool \<times> 'n ws" where
  "deleteWallet a s =
     (let s1 = refreshFromStorageIfNeeded s
      in if map_of (wallets s1) a = None then (False, s1)
         else
           let s2 = s1\<lparr>wallets := AList.delete a (wallets s1)\<rparr>;
               s3 = (if activeWallet s2 = Some a
                     then case getWallets s2 of (remaining, s2') \<Rightarrow>
                       s2'\<lparr>activeWallet :=
                         (case remaining of [] \<Rightarrow> None | w # _ \<Rightarrow> Some (address w))\<rparr>
                     else s2)
           in (True, saveWalletsToStorage s3))"

section \<open>Watch-only wallets\<close>

definition importWatchOnlyWallet ::
    "clock \<Rightarrow> string \<Rightarrow> string \<Rightarrow> string option \<Rightarrow> ('n ws, WalletInfo) eff" where
  "importWatchOnlyWallet clk a lbl xp s =
     (if map_of (wallets s) a \<noteq> None then (Inl (Error ''Wallet address already exists''), s)
      else
        let w = \<lparr>address = a, label = lbl, balance = 0, unconfirmedBalance = 0, privateKey = None,
              publicKey = None, createdAt = clk 0, watchOnly = Some True, xpub = xp\<rparr>;
            s1 = saveWalletsToStorage (s\<lparr>wallets := AList.update a w (wallets s)\<rparr>);
            s2 = (if length (wallets s1) = 1 then s1\<lparr>activeWallet := Some a\<rparr> else s1)
        in (Inr w, s2))"

definition isWatchOnly :: "string \<Rightarrow> 'n ws \<Rightarrow> bool" where
  "isWatchOnly a s = (case map_of (wallets s) a of None \<Rightarrow> False | Some w \<Rightarrow> watchOnly w = Some True)"

definition getWatchOnlyWallets :: "'n ws \<Rightarrow> WalletInfo list" where
  "getWatchOnlyWallets s = filter (\<lambda>w. watchOnly w = Some True) (map snd (wallets s))"

definition getRegularWallets :: "'n ws \<Rightarrow> WalletInfo list" where
  "getRegularWallets s = filter (\<lambda>w. watchOnly w \<noteq> Some True) (map snd (wallets s))"

section \<open>Basic facts\<close>

lemma sanitize_simps [simp]:
  "address (sanitizeWalletForStorage w) = address w"
  "privateKey (sanitizeWalletForStorage w) = None"
  "sanitizeWalletForStorage (sanitizeWalletForStorage w) = sanitizeWalletForStorage w"
  by (simp_all add: sanitizeWalletForStorage_def)

lemma truthy_active_simps [simp]:
  "truthy_active None = None"
  "truthy_string (truthy_active a) = truthy_string a"
  "truthy_active (truthy_active a) = truthy_active a"
  by (simp_all add: truthy_active_def)

lemma truthy_active_Some: "truthy_active a = Some b \<longleftrightarrow> a = Some b \<and> b \<noteq> []"
  by (cases a) (auto simp: truthy_active_def)

lemma foldl_update_props:
  "keyed address m \<Longrightarrow> (\<And>a w. (a, w) \<in> set es \<Longrightarrow> address w = a) \<Longrightarrow>
     keyed address (foldl (\<lambda>m (a, v). AList.update a v m) m es)"
  by (induction es arbitrary: m) (auto intro!: keyed_set)

lemma new_Map_keyed: "(\<And>a w. (a, w) \<in> set es \<Longrightarrow> address w = a) \<Longrightarrow> keyed address (new_Map es)"
  unfolding new_Map_def by (rule foldl_update_props) auto

lemma object_entries_iff: "(a, w) \<in> set (object_entries es) \<longleftrightarrow> (a, Some w) \<in> set es"
  by (induction es rule: object_entries.induct) auto

lemma object_entries_to_object [simp]:
  "object_entries (to_object m) = map_values sanitizeWalletForStorage m"
  by (induction m) (auto simp: to_object_def map_values_def)

lemma to_object_iff: "(a, e) \<in> set (to_object m) \<longleftrightarrow> (\<exists>w. (a, w) \<in> set m \<and> e = Some (sanitizeWalletForStorage w))"
  by (auto simp: to_object_def)

lemma to_object_get [simp]:
  "map_of (to_object m) a = map_option (\<lambda>w. Some (sanitizeWalletForStorage w)) (map_of m a)"
  by (induction m) (auto simp: to_object_def)

lemma map_sanitize_values [simp]:
  "map (\<lambda>(a, w). (a, sanitizeWalletForStorage w)) (map_values sanitizeWalletForStorage m) =
     map_values sanitizeWalletForStorage m"
  by (auto simp: map_values_def)

section \<open>The registry invariant\<close>

text \<open>
  Every wallet is filed under its own address, and the active wallet is one of them.
\<close>

definition ws_inv :: "'n ws \<Rightarrow> bool" where
  "ws_inv s \<longleftrightarrow> keyed address (wallets s) \<and>
     (\<forall>a. activeWallet s = Some a \<longrightarrow> map_of (wallets s) a \<noteq> None)"

text \<open>Storage holds what is in memory, private keys apart, and the snapshot is current.\<close>

definition stored :: "'n ws \<Rightarrow> bool" where
  "stored s \<longleftrightarrow> has_storage s \<and> ws_inv s \<and>
     (item_wallets s = Json (to_object (wallets s)) \<or> (wallets s = [] \<and> item_wallets s = Absent)) \<and>
     item_active s = truthy_active (activeWallet s) \<and>
     storageSnapshot s = (item_wallets s, item_active s)"

text \<open>The part of the state that storage remembers.\<close>

definition remembered :: "'n ws \<Rightarrow> 'n ws" where
  "remembered s =
     s\<lparr>wallets := map_values sanitizeWalletForStorage (wallets s),
       activeWallet := truthy_active (activeWallet s)\<rparr>"

definition clean_item :: "stored_wallets item \<Rightarrow> bool" where
  "clean_item i = (case i of
     Json es \<Rightarrow> list_all (\<lambda>(a, e). case e of None \<Rightarrow> True | Some w \<Rightarrow> privateKey w = None) es
   | _ \<Rightarrow> True)"

lemma clean_item_simps [simp]: "clean_item Absent" "clean_item (Garbled t)"
  by (simp_all add: clean_item_def)

lemma save_fields [simp]:
  "wallets (saveWalletsToStorage s) = wallets s"
  "activeWallet (saveWalletsToStorage s) = activeWallet s"
  "has_storage (saveWalletsToStorage s) = has_storage s"
  "node (saveWalletsToStorage s) = node s"
  by (simp_all add: saveWalletsToStorage_def Let_def)

lemma save_items:
  "has_storage s \<Longrightarrow> item_wallets (saveWalletsToStorage s) = Json (to_object (wallets s))"
  "has_storage s \<Longrightarrow> item_active (saveWalletsToStorage s) = truthy_active (activeWallet s)"
  by (simp_all add: saveWalletsToStorage_def Let_def)

lemma ws_inv_save [simp]: "ws_inv (saveWalletsToStorage s) = ws_inv s"
  by (simp add: ws_inv_def)

lemma save_stored: "has_storage s \<Longrightarrow> ws_inv s \<Longrightarrow> stored (saveWalletsToStorage s)"
  by (simp add: stored_def saveWalletsToStorage_def readStorageSnapshot_def ws_inv_def Let_def)

lemma save_clean: "has_storage s \<Longrightarrow> clean_item (item_wallets (saveWalletsToStorage s))"
  by (auto simp: save_items clean_item_def to_object_def list_all_iff)

lemma ws_inv_set:
  "ws_inv s \<Longrightarrow> address w = a \<Longrightarrow> ws_inv (s\<lparr>wallets := AList.update a w (wallets s)\<rparr>)"
  by (auto simp: ws_inv_def intro!: keyed_set)

lemma ws_inv_activate: "ws_inv s \<Longrightarrow> map_of (wallets s) a \<noteq> None \<Longrightarrow> ws_inv (s\<lparr>activeWallet := Some a\<rparr>)"
  by (simp add: ws_inv_def)

lemma ws_inv_node [simp]: "ws_inv (s\<lparr>node := n\<rparr>) = ws_inv s"
  by (simp add: ws_inv_def)

lemma stored_node [simp]: "stored (s\<lparr>node := n\<rparr>) = stored s"
  by (simp add: stored_def)

lemma set_if_inactive_fields [simp]:
  "wallets (set_if_inactive a s) = wallets s"
  "has_storage (set_if_inactive a s) = has_storage s"
  "node (set_if_inactive a s) = node s"
  by (simp_all add: set_if_inactive_def)

lemma ws_inv_set_if_inactive: "ws_inv s \<Longrightarrow> map_of (wallets s) a \<noteq> None \<Longrightarrow> ws_inv (set_if_inactive a s)"
  by (simp add: set_if_inactive_def ws_inv_activate)

lemma stored_ws_inv: "stored s \<Longrightarrow> ws_inv s"
  and stored_has_storage: "stored s \<Longrightarrow> has_storage s"
  by (simp_all add: stored_def)

lemma stored_refresh: "stored s \<Longrightarrow> refreshFromStorageIfNeeded s = s"
  by (simp add: stored_def refreshFromStorageIfNeeded_def readStorageSnapshot_def)

lemma ws_inv_keyed: "ws_inv s \<Longrightarrow> keyed address (wallets s)"
  by (simp add: ws_inv_def)

section \<open>Loading\<close>

lemma load_stored:
  assumes "stored s"
  shows "loadWalletsFromStorage s = remembered s"
proof -
  have d: "distinct (map fst (wallets s))" using assms by (simp add: stored_def ws_inv_def keyed_def)
  have a: "truthy_active (activeWallet s) = Some b \<Longrightarrow> map_of (wallets s) b \<noteq> None" for b
    using assms by (simp add: stored_def ws_inv_def truthy_active_Some)
  have e: "stored_entries (item_wallets s) = Inr (to_object (wallets s))"
    using assms by (auto simp: stored_def to_object_def)
  have k: "\<not> list_ex (\<lambda>(a, w). privateKey w \<noteq> None) (map_values sanitizeWalletForStorage (wallets s))"
    by (auto simp: list_ex_iff map_values_def)
  have f: "truthy_string (truthy_active (activeWallet s)) \<Longrightarrow>
      map_of (wallets s) (the (truthy_active (activeWallet s))) \<noteq> None"
    using a by (auto simp: truthy_string_iff)
  have m: "new_Map (map_values sanitizeWalletForStorage (wallets s)) =
      map_values sanitizeWalletForStorage (wallets s)"
    using d by (simp add: new_Map_distinct)
  have t: "\<not> truthy_string (activeWallet s) \<Longrightarrow> truthy_active (activeWallet s) = None"
    by (simp add: truthy_active_def)
  have s: "has_storage s" "item_active s = truthy_active (activeWallet s)"
    "storageSnapshot s = (item_wallets s, item_active s)"
    using assms by (simp_all add: stored_def)
  show ?thesis
    using s e k f m t
    by (cases "truthy_string (activeWallet s)")
      (auto simp: loadWalletsFromStorage_def remembered_def readStorageSnapshot_def Let_def)
qed

lemma load_has_storage [simp]: "has_storage (loadWalletsFromStorage s) = has_storage s"
  by (simp add: loadWalletsFromStorage_def Let_def split: sum.split)

lemma load_node [simp]: "node (loadWalletsFromStorage s) = node s"
  by (simp add: loadWalletsFromStorage_def Let_def split: sum.split)

lemma no_key_entries:
  "\<not> list_ex (\<lambda>(a, w). \<exists>k. privateKey w = Some k) (object_entries es) \<Longrightarrow> clean_item (Json es)"
  by (induction es rule: object_entries.induct) (auto simp: clean_item_def)

lemma load_clean:
  assumes "has_storage s"
  shows "clean_item (item_wallets (loadWalletsFromStorage s))"
proof (cases "item_wallets s")
  case (Json es)
  with assms show ?thesis
    by (auto simp: loadWalletsFromStorage_def Let_def save_clean dest!: no_key_entries)
next
  case Absent
  with assms show ?thesis
    by (auto simp: loadWalletsFromStorage_def Let_def save_clean)
next
  case (Garbled t)
  with assms show ?thesis
    by (auto simp: loadWalletsFromStorage_def Let_def save_clean)
qed

text \<open>Entries are filed under their addresses in the stored object.\<close>

definition filed :: "stored_wallets item \<Rightarrow> bool" where
  "filed i = (case i of
     Json es \<Rightarrow> list_all (\<lambda>(a, e). case e of None \<Rightarrow> True | Some w \<Rightarrow> address w = a) es
   | _ \<Rightarrow> True)"

lemma load_ws_inv:
  assumes "filed (item_wallets s)" and "has_storage s"
  shows "ws_inv (loadWalletsFromStorage s)"
proof (cases "stored_entries (item_wallets s)")
  case (Inl e)
  with assms show ?thesis by (simp add: loadWalletsFromStorage_def ws_inv_def Let_def)
next
  case (Inr es)
  then have "list_all (\<lambda>(a, e). case e of None \<Rightarrow> True | Some w \<Rightarrow> address w = a) es"
    using assms(1) by (cases "item_wallets s") (auto simp: filed_def split: if_splits)
  then have "keyed address (new_Map (map (\<lambda>(a, w). (a, sanitizeWalletForStorage w)) (object_entries es)))"
    by (intro new_Map_keyed) (force simp: list_all_iff object_entries_iff)
  with Inr assms(2) show ?thesis
    by (auto simp: loadWalletsFromStorage_def ws_inv_def Let_def)
qed

section \<open>The operations keep storage in step\<close>

lemma call_state: "snd (call f s) = s\<lparr>node := snd (f (node s))\<rparr>"
  by (simp add: call_def split: prod.split)

lemma call_fields [simp]:
  "wallets (snd (call f s)) = wallets s"
  "has_storage (snd (call f s)) = has_storage s"
  "item_wallets (snd (call f s)) = item_wallets s"
  by (simp_all add: call_state)

lemma call_stored: "stored s \<Longrightarrow> stored (snd (call f s))"
  by (simp add: call_state)

lemma call_Inr_iff: "call f s = (Inr x, t) \<longleftrightarrow> (\<exists>n. f (node s) = (Inr x, n) \<and> t = s\<lparr>node := n\<rparr>)"
  by (auto simp: call_def split: prod.splits)

lemma finish_stored:
  assumes "stored s" and "address w = a"
  shows "stored (finishBalanceUpdate a w us s)"
  unfolding finishBalanceUpdate_def
  using assms by (intro save_stored ws_inv_set) (simp_all add: stored_ws_inv stored_has_storage)

lemma update_stored:
  assumes "stored s"
  shows "stored (updateWalletBalance api a s)"
proof (cases "map_of (wallets s) a")
  case None
  with assms show ?thesis by (simp add: updateWalletBalance_def)
next
  case (Some w)
  then have "address w = a" using assms by (auto simp: stored_def ws_inv_def dest: keyed_get)
  with assms Some show ?thesis
    by (auto simp: updateWalletBalance_def call_def finish_stored split: prod.split sum.split)
qed

lemma updateAll_stored: "stored s \<Longrightarrow> stored (updateAllBalances api s)"
proof -
  have "stored s \<Longrightarrow> stored (fold (updateWalletBalance api) as s)" for as s
    by (induction as arbitrary: s) (auto simp: update_stored)
  then show "stored s \<Longrightarrow> stored (updateAllBalances api s)" by (simp add: updateAllBalances_def)
qed

lemma add_stored:
  assumes "stored s" and "address w = a"
  shows "stored (saveWalletsToStorage (set_if_inactive a (s\<lparr>wallets := AList.update a w (wallets s)\<rparr>)))"
proof -
  have "ws_inv (s\<lparr>wallets := AList.update a w (wallets s)\<rparr>)"
    using assms by (intro ws_inv_set stored_ws_inv)
  then have "ws_inv (set_if_inactive a (s\<lparr>wallets := AList.update a w (wallets s)\<rparr>))"
    by (rule ws_inv_set_if_inactive) simp
  then show ?thesis using assms(1) by (intro save_stored) (simp_all add: stored_has_storage)
qed

lemma generate_stored: "stored s \<Longrightarrow> stored (snd (generateWallet api clk lbl s))"
  unfolding generateWallet_def
  by (intro ecatch_state [where I = stored] ebind_state [where I = stored])
    (auto simp: call_stored add_stored ethrow_def Let_def)

lemma import_stored: "stored s \<Longrightarrow> stored (snd (importWallet api clk key lbl rescan s))"
  unfolding importWallet_def
  by (intro ecatch_state [where I = stored] ebind_state [where I = stored])
    (auto simp: call_stored add_stored update_stored ethrow_def Let_def)

lemma register_stored:
  assumes "stored s"
  shows "stored (snd (registerWallet w act s))"
proof -
  let ?s1 = "s\<lparr>wallets := AList.update (address w) (sanitizeWalletForStorage w) (wallets s)\<rparr>"
  have i: "ws_inv ?s1" using assms by (intro ws_inv_set stored_ws_inv) simp_all
  then have "ws_inv (?s1\<lparr>activeWallet := Some (address w)\<rparr>)" by (rule ws_inv_activate) simp
  with i show ?thesis
    using save_stored [of ?s1] save_stored [of "?s1\<lparr>activeWallet := Some (address w)\<rparr>"]
      stored_has_storage [OF assms]
    by (simp add: registerWallet_def Let_def)
qed

lemma setActive_stored: "stored s \<Longrightarrow> stored (snd (setActiveWallet a s))"
  by (auto simp: setActiveWallet_def stored_refresh Let_def stored_ws_inv stored_has_storage
      intro!: save_stored ws_inv_activate)

text \<open>Deleting, as long as no other tab has written.\<close>

lemma delete_spec:
  assumes "stored s"
  shows "deleteWallet a s =
    (if map_of (wallets s) a = None then (False, s)
     else (True, saveWalletsToStorage (s\<lparr>wallets := AList.delete a (wallets s),
       activeWallet := (if activeWallet s = Some a
          then (case AList.delete a (wallets s) of [] \<Rightarrow> None | (b, w) # _ \<Rightarrow> Some (address w))
          else activeWallet s)\<rparr>)))"
proof -
  have r: "refreshFromStorageIfNeeded (s\<lparr>wallets := m\<rparr>) = s\<lparr>wallets := m\<rparr>" for m
    using assms by (simp add: stored_def refreshFromStorageIfNeeded_def readStorageSnapshot_def)
  show ?thesis
    by (auto simp: deleteWallet_def stored_refresh [OF assms] getWallets_def r Let_def
        split: list.split)
qed

lemma delete_stored:
  assumes "stored s"
  shows "stored (snd (deleteWallet a s))"
proof (cases "map_of (wallets s) a")
  case None
  with assms show ?thesis by (simp add: delete_spec)
next
  case (Some w)
  let ?d = "AList.delete a (wallets s)"
  let ?act = "if activeWallet s = Some a
      then (case ?d of [] \<Rightarrow> None | (b, w) # _ \<Rightarrow> Some (address w)) else activeWallet s"
  have k: "keyed address ?d" using assms by (auto simp: stored_def ws_inv_def)
  have "map_of ?d b \<noteq> None" if "?act = Some b" for b
  proof (cases "activeWallet s = Some a")
    case True
    with that obtain x v rest where d: "?d = (x, v) # rest" "b = address v"
      by (auto split: list.splits)
    with k show ?thesis by (simp add: keyed_def)
  next
    case False
    with that assms show ?thesis by (auto simp: stored_def ws_inv_def)
  qed
  with k have "ws_inv (s\<lparr>wallets := ?d, activeWallet := ?act\<rparr>)" by (simp add: ws_inv_def)
  then show ?thesis using Some assms by (simp add: delete_spec save_stored stored_has_storage)
qed

section \<open>What goes wrong around storage\<close>

definition sample_wallet :: "string \<Rightarrow> WalletInfo" where
  "sample_wallet a = \<lparr>address = a, label = ''w'', balance = 0, unconfirmedBalance = 0, privateKey = None,
     publicKey = None, createdAt = 0, watchOnly = None, xpub = None\<rparr>"

definition empty_service :: "unit ws" where
  "empty_service = new_WalletService True Absent None ()"

lemma empty_stored: "stored empty_service"
  by (simp add: empty_service_def new_WalletService_def loadWalletsFromStorage_def stored_def ws_inv_def
      readStorageSnapshot_def new_Map_def Let_def)

lemma empty_wallets [simp]: "wallets empty_service = []"
  by (simp add: empty_service_def new_WalletService_def loadWalletsFromStorage_def new_Map_def Let_def)

text \<open>
  A wallet deleted while its balance is being fetched comes back. \<open>deleteWallet\<close>
  removes it, and the balance update that was waiting for the node then files the object it
  holds again, in memory and in storage.
\<close>

theorem deleted_wallet_comes_back:
  assumes "stored s" and "map_of (wallets s) a = Some w"
  shows "map_of (wallets (snd (deleteWallet a s))) a = None \<and>
    (let s' = finishBalanceUpdate a w us (snd (deleteWallet a s))
     in map_of (wallets s') a \<noteq> None \<and> item_wallets s' = Json (to_object (wallets s')))"
  using assms
  by (simp add: delete_spec finishBalanceUpdate_def save_items stored_has_storage Let_def)

theorem deleted_wallet_comes_back_witness:
  "map_of (wallets (finishBalanceUpdate ''a'' (sample_wallet ''a'') []
     (snd (deleteWallet ''a'' (snd (registerWallet (sample_wallet ''a'') None empty_service)))))) ''a'' \<noteq> None"
proof -
  let ?s = "snd (registerWallet (sample_wallet ''a'') None empty_service)"
  have "stored ?s" by (rule register_stored) (rule empty_stored)
  moreover have "map_of (wallets ?s) ''a'' = Some (sample_wallet ''a'')"
    by (simp add: registerWallet_def sample_wallet_def sanitizeWalletForStorage_def Let_def)
  ultimately show ?thesis
    using deleted_wallet_comes_back [of ?s "''a''" "sample_wallet ''a''" "[]"] by (simp add: Let_def)
qed

text \<open>
  The first watch-only wallet becomes active after the state was saved, so the choice is
  lost: the service reports it as active, and after a reload none is.
\<close>

theorem watch_only_activation_lost:
  assumes "stored s" and "wallets s = []" and "a \<noteq> []"
    and "importWatchOnlyWallet clk a lbl xp s = (Inr w, s')"
  shows "fst (getActiveWallet s') = Some w \<and>
    activeWallet (loadWalletsFromStorage s') = None \<and> fst (getActiveWallet (loadWalletsFromStorage s')) = None"
proof -
  let ?w = "\<lparr>address = a, label = lbl, balance = 0, unconfirmedBalance = 0, privateKey = None,
    publicKey = None, createdAt = clk 0, watchOnly = Some True, xpub = xp\<rparr>"
  let ?t = "saveWalletsToStorage (s\<lparr>wallets := [(a, ?w)]\<rparr>)"
  have act: "activeWallet s = None" using assms(1,2) by (simp add: stored_def ws_inv_def)
  have hs: "has_storage s" using assms(1) by (rule stored_has_storage)
  have s': "s' = ?t\<lparr>activeWallet := Some a\<rparr>" "w = ?w"
    using assms(2,4) by (auto simp: importWatchOnlyWallet_def Let_def)
  have "fst (getActiveWallet s') = Some w"
    using assms(3) hs by (simp add: s' getActiveWallet_def refreshFromStorageIfNeeded_def
        saveWalletsToStorage_def readStorageSnapshot_def Let_def)
  moreover have "loadWalletsFromStorage s' = ?t"
  proof -
    have "stored ?t" using hs act by (intro save_stored) (simp_all add: ws_inv_def keyed_def)
    then have "loadWalletsFromStorage ?t = ?t"
      by (simp add: load_stored remembered_def act map_values_def sanitizeWalletForStorage_def
          saveWalletsToStorage_def hs readStorageSnapshot_def Let_def)
    moreover have "loadWalletsFromStorage s' = loadWalletsFromStorage ?t"
      using hs by (simp add: s' loadWalletsFromStorage_def readStorageSnapshot_def Let_def split: sum.split)
    ultimately show ?thesis by simp
  qed
  moreover have "refreshFromStorageIfNeeded ?t = ?t"
    by (simp add: refreshFromStorageIfNeeded_def saveWalletsToStorage_def readStorageSnapshot_def Let_def)
  ultimately show ?thesis by (simp add: act getActiveWallet_def)
qed

theorem watch_only_activation_lost_witness:
  "fst (getActiveWallet (snd (importWatchOnlyWallet (\<lambda>_. 0) ''a'' ''w'' None empty_service))) \<noteq> None \<and>
   fst (getActiveWallet (loadWalletsFromStorage
     (snd (importWatchOnlyWallet (\<lambda>_. 0) ''a'' ''w'' None empty_service)))) = None"
proof -
  obtain w s' where "importWatchOnlyWallet (\<lambda>_. 0) ''a'' ''w'' None empty_service = (Inr w, s')"
    by (simp add: importWatchOnlyWallet_def Let_def)
  with watch_only_activation_lost [OF empty_stored _ _ this] show ?thesis by simp
qed

text \<open>Another tab writes the two items; this tab's memory does not see it.\<close>

definition other_tab_writes :: "stored_wallets item \<Rightarrow> string option \<Rightarrow> 'n ws \<Rightarrow> 'n ws" where
  "other_tab_writes wi ai s = s\<lparr>item_wallets := wi, item_active := ai\<rparr>"

text \<open>
  A wallet that another tab has stored is lost when this tab registers a wallet:
  \<open>registerWallet\<close> saves the memory of this tab without reading storage first.
\<close>

theorem other_tab_wallet_lost:
  assumes "has_storage s" and "map_of (wallets s) b = None" and "b \<noteq> address w"
    and "item_wallets (snd (registerWallet w act (other_tab_writes (Json es) ai s))) = Json es'"
  shows "map_of es' b = None"
  using assms
  by (auto simp: registerWallet_def other_tab_writes_def Let_def save_items split: if_splits)

theorem other_tab_wallet_lost_witness:
  "item_wallets (snd (registerWallet (sample_wallet ''a'') None
     (other_tab_writes (Json [(''b'', Some (sample_wallet ''b''))]) None empty_service))) =
       Json [(''a'', Some (sample_wallet ''a''))] \<and>
   map_of [(''a'', Some (sample_wallet ''a''))] ''b'' = None"
proof -
  let ?s = "snd (registerWallet (sample_wallet ''a'') None
     (other_tab_writes (Json [(''b'', Some (sample_wallet ''b''))]) None empty_service))"
  have i: "item_wallets ?s = Json [(''a'', Some (sample_wallet ''a''))]"
    using stored_has_storage [OF empty_stored]
    by (simp add: registerWallet_def other_tab_writes_def save_items to_object_def sample_wallet_def
        sanitizeWalletForStorage_def Let_def)
  then have "map_of [(''a'', Some (sample_wallet ''a''))] ''b'' = None"
    by (intro other_tab_wallet_lost [OF stored_has_storage [OF empty_stored], where b = "''b''"])
      (auto simp: sample_wallet_def)
  with i show ?thesis by simp
qed

section \<open>Importing a private key\<close>

text \<open>
  With a node whose \<open>validateaddress\<close> returns the string it was asked about as the address, an
  imported private key is itself filed as an address: it is written to storage in the clear, as key
  and as \<open>address\<close> of the stored wallet, although the \<open>privateKey\<close> field is removed.
\<close>

lemma import_files_address:
  assumes "has_storage s" and "key \<noteq> []"
    and "importPrivKey api key lbl rescan (node s) = (Inr u, n)"
    and "validateAddress api key n = (Inr info, n')" and "ai_address info = Some key"
    and "importWallet api clk key lbl rescan s = (r, s')"
  shows "\<exists>es w. item_wallets s' = Json es \<and> (key, Some w) \<in> set es \<and> address w = key \<and>
    privateKey w = None"
proof -
  let ?w = "\<lparr>address = key, label = lbl, balance = 0, unconfirmedBalance = 0, privateKey = Some key,
    publicKey = None, createdAt = clk 0, watchOnly = None, xpub = None\<rparr>"
  let ?s1 = "saveWalletsToStorage (set_if_inactive key
    (s\<lparr>node := n', wallets := AList.update key ?w (wallets s)\<rparr>))"
  have s': "s' = updateWalletBalance api key ?s1"
    using assms by (auto simp: importWallet_def ecatch_def ebind_def call_def Let_def)
  have w: "map_of (wallets ?s1) key = Some ?w" by simp
  have stored_key: "(key, Some (sanitizeWalletForStorage v)) \<in> set (to_object (AList.update key v m))"
    for v and m :: "(string, WalletInfo) jsmap"
    using map_of_SomeD [of "AList.update key v m" key v] by (auto simp: to_object_iff)
  obtain r n'' where q: "listUnspent api 0 9999999 [key] n' = (r, n'')" by force
  show ?thesis
  proof (cases r)
    case (Inl e)
    then have "item_wallets s' = Json (to_object (AList.update key ?w (wallets s)))"
      using assms(1) q w by (simp add: s' updateWalletBalance_def call_def save_items)
    with stored_key [of ?w "wallets s"] show ?thesis by (force simp: sanitizeWalletForStorage_def)
  next
    case (Inr us)
    then obtain v where "item_wallets s' = Json (to_object (AList.update key v (wallets s)))"
      "address v = key"
      using assms(1) q w
      by (simp add: s' updateWalletBalance_def call_def finishBalanceUpdate_def save_items)
    with stored_key [of v "wallets s"] show ?thesis by (metis sanitize_simps(1,2))
  qed
qed

text \<open>A node that echoes addresses and has one coin.\<close>

definition echo_node :: "unit node_api" where
  "echo_node =
     \<lparr>getNewAddress = (\<lambda>l. eret ''kc1new''),
      importPrivKey = (\<lambda>k l b. eret ()),
      validateAddress = (\<lambda>a. eret \<lparr>isvalid = True, ai_address = Some a\<rparr>),
      listUnspent = (\<lambda>lo hi as. eret [\<lparr>u_txid = ''t'', u_vout = 0, u_address = ''a'', u_scriptPubKey = ''p'',
         u_amount = 5, u_confirmations = 3\<rparr>]),
      estimateSmartFee = (\<lambda>t. eret None),
      listTransactions = (\<lambda>l c k b. eret []),
      getRawTransaction = (\<lambda>t b. eret (Inl ''00'')),
      createRawTransaction = (\<lambda>i outs. eret ''raw''),
      signRawTransactionWithWallet = (\<lambda>h. eret \<lparr>sr_hex = h, sr_complete = True\<rparr>),
      sendRawTransaction = (\<lambda>h. eret ''txid'')\<rparr>"

end
