(* ===== verification/CoinSelect.thy ===== *)
theory CoinSelect
  imports Prelude
begin

text \<open>
  The accumulation loop that wallet.ts, utxoManager.ts and optimizer.ts share: walk over
  the coins, push each one and add its amount, and stop as soon as the running total has
  reached the target. Its contract is a locale that each of the loops' users interprets.
\<close>

section \<open>Break before the push\<close>

text \<open>
  \<open>for (const u of us) { if (total >= target) break; selected.push(u); total += f(u); }\<close>
\<close>

fun select_until :: "('a \<Rightarrow> jsnum) \<Rightarrow> jsnum \<Rightarrow> jsnum \<Rightarrow> 'a list \<Rightarrow> 'a list \<times> jsnum" where
  "select_until f target acc [] = ([], acc)"
| "select_until f target acc (u # us) =
     (if acc \<ge> target then ([], acc)
      else let (sel, t) = select_until f target (acc + f u) us in (u # sel, t))"

section \<open>Break after the push\<close>

text \<open>
  \<open>for (const u of us) { selected.push(u); total += f(u); if (total >= target) break; }\<close>
\<close>

fun push_until :: "('a \<Rightarrow> jsnum) \<Rightarrow> jsnum \<Rightarrow> jsnum \<Rightarrow> 'a list \<Rightarrow> 'a list \<times> jsnum" where
  "push_until f target acc [] = ([], acc)"
| "push_until f target acc (u # us) =
     (if acc + f u \<ge> target then ([u], acc + f u)
      else let (sel, t) = push_until f target (acc + f u) us in (u # sel, t))"

section \<open>The contract of a selection loop\<close>

text \<open>
  A selection loop takes a prefix of the coins, reports its exact sum, misses the target
  only when it has used every coin, and takes no coin after the target is reached.
\<close>

locale selection_loop =
  fixes loop :: "('a \<Rightarrow> jsnum) \<Rightarrow> jsnum \<Rightarrow> 'a list \<Rightarrow> 'a list \<times> jsnum"
  assumes prefix_sel: "loop f target us = (sel, t) \<Longrightarrow> \<exists>n. sel = take n us"
    and sum_sel: "loop f target us = (sel, t) \<Longrightarrow> t = sum_by f sel"
    and short_all: "loop f target us = (sel, t) \<Longrightarrow> t < target \<Longrightarrow> sel = us"
    and minimal: "loop f target us = (sel @ [u], t) \<Longrightarrow> sel \<noteq> [] \<Longrightarrow> sum_by f sel < target"
begin

lemma subset_sel: "loop f target us = (sel, t) \<Longrightarrow> set sel \<subseteq> set us"
  using prefix_sel by (metis set_take_subset)

lemma distinct_sel: "loop f target us = (sel, t) \<Longrightarrow> distinct us \<Longrightarrow> distinct sel"
  using prefix_sel by (metis distinct_take)

lemma total_le:
  assumes "loop f target us = (sel, t)" and "\<And>u. u \<in> set us \<Longrightarrow> 0 \<le> f u"
  shows "t \<le> sum_by f us"
proof -
  obtain n where "sel = take n us" using prefix_sel [OF assms(1)] by blast
  then show ?thesis using sum_sel [OF assms(1)] sum_by_take_le [of us f n] assms(2) by simp
qed

text \<open>With coins that are not negative the loop misses the target exactly when the coins do.\<close>

lemma short_iff:
  assumes "loop f target us = (sel, t)" and "\<And>u. u \<in> set us \<Longrightarrow> 0 \<le> f u"
  shows "t < target \<longleftrightarrow> sum_by f us < target"
  using total_le [OF assms] sum_sel [OF assms(1)] short_all [OF assms(1)] by force

end

lemma select_until_take: "select_until f target acc us = (sel, t) \<Longrightarrow> \<exists>n. sel = take n us"
proof (induction us arbitrary: acc sel)
  case Nil
  then show ?case by simp
next
  case (Cons u us)
  show ?case
  proof (cases "acc \<ge> target")
    case True
    with Cons.prems show ?thesis by (auto intro: exI [of _ 0])
  next
    case False
    with Cons.prems obtain s where "select_until f target (acc + f u) us = (s, t)" "sel = u # s"
      by (auto split: prod.splits)
    with Cons.IH show ?thesis by (metis take_Suc_Cons)
  qed
qed

lemma select_until_sum: "select_until f target acc us = (sel, t) \<Longrightarrow> t = acc + sum_by f sel"
  by (induction us arbitrary: acc sel) (fastforce split: if_splits prod.splits)+

lemma select_until_short: "select_until f target acc us = (sel, t) \<Longrightarrow> t < target \<Longrightarrow> sel = us"
  by (induction us arbitrary: acc sel) (auto split: if_splits prod.splits)

lemma select_until_minimal:
  "select_until f target acc us = (sel @ [u], t) \<Longrightarrow> acc + sum_by f sel < target"
proof (induction us arbitrary: acc sel)
  case Nil
  then show ?case by simp
next
  case (Cons v us)
  then obtain s where s: "select_until f target (acc + f v) us = (s, t)"
    "sel @ [u] = v # s" "\<not> acc \<ge> target"
    by (auto split: if_splits prod.splits)
  show ?case
  proof (cases sel)
    case Nil
    with s show ?thesis by simp
  next
    case sel: (Cons w sel')
    with s have "select_until f target (acc + f v) us = (sel' @ [u], t)" "w = v" by auto
    with Cons.IH have "(acc + f v) + sum_by f sel' < target" by blast
    with sel \<open>w = v\<close> show ?thesis by (simp add: add.assoc)
  qed
qed

lemma push_until_take: "push_until f target acc us = (sel, t) \<Longrightarrow> \<exists>n. sel = take n us"
proof (induction us arbitrary: acc sel)
  case Nil
  then show ?case by simp
next
  case (Cons u us)
  show ?case
  proof (cases "acc + f u \<ge> target")
    case True
    with Cons.prems show ?thesis by (auto intro: exI [of _ 1])
  next
    case False
    with Cons.prems obtain s where "push_until f target (acc + f u) us = (s, t)" "sel = u # s"
      by (auto split: prod.splits)
    with Cons.IH show ?thesis by (metis take_Suc_Cons)
  qed
qed

lemma push_until_sum: "push_until f target acc us = (sel, t) \<Longrightarrow> t = acc + sum_by f sel"
  by (induction us arbitrary: acc sel) (fastforce split: if_splits prod.splits)+

lemma push_until_short: "push_until f target acc us = (sel, t) \<Longrightarrow> t < target \<Longrightarrow> sel = us"
  by (induction us arbitrary: acc sel) (auto split: if_splits prod.splits)

lemma push_until_minimal:
  "push_until f target acc us = (sel @ [u], t) \<Longrightarrow> sel \<noteq> [] \<Longrightarrow> acc + sum_by f sel < target"
proof (induction us arbitrary: acc sel)
  case Nil
  then show ?case by simp
next
  case (Cons v us)
  then obtain s where s: "push_until f target (acc + f v) us = (s, t)"
    "sel @ [u] = v # s" "\<not> acc + f v \<ge> target"
    by (auto split: if_splits prod.splits)
  then obtain sel' where sel: "sel = v # sel'" using Cons.prems(2) by (cases sel) auto
  show ?case
  proof (cases "sel' = []")
    case True
    with s sel show ?thesis by simp
  next
    case False
    with s sel Cons.IH have "(acc + f v) + sum_by f sel' < target" by auto
    with sel show ?thesis by (simp add: add.assoc)
  qed
qed

interpretation su: selection_loop "\<lambda>f target us. select_until f target 0 us"
proof unfold_locales
  fix f :: "'a \<Rightarrow> jsnum" and target us sel t u
  show "select_until f target 0 us = (sel, t) \<Longrightarrow> \<exists>n. sel = take n us"
    by (rule select_until_take)
  show "select_until f target 0 us = (sel, t) \<Longrightarrow> t = sum_by f sel"
    using select_until_sum by fastforce
  show "select_until f target 0 us = (sel, t) \<Longrightarrow> t < target \<Longrightarrow> sel = us"
    by (rule select_until_short)
  show "select_until f target 0 us = (sel @ [u], t) \<Longrightarrow> sel \<noteq> [] \<Longrightarrow> sum_by f sel < target"
    using select_until_minimal by fastforce
qed

interpretation pu: selection_loop "\<lambda>f target us. push_until f target 0 us"
proof unfold_locales
  fix f :: "'a \<Rightarrow> jsnum" and target us sel t u
  show "push_until f target 0 us = (sel, t) \<Longrightarrow> \<exists>n. sel = take n us"
    by (rule push_until_take)
  show "push_until f target 0 us = (sel, t) \<Longrightarrow> t = sum_by f sel"
    using push_until_sum by fastforce
  show "push_until f target 0 us = (sel, t) \<Longrightarrow> t < target \<Longrightarrow> sel = us"
    by (rule push_until_short)
  show "push_until f target 0 us = (sel @ [u], t) \<Longrightarrow> sel \<noteq> [] \<Longrightarrow> sum_by f sel < target"
    using push_until_minimal by fastforce
qed

end
