(* ===== verification/WalletSpend.thy ===== *)
theory WalletSpend
  imports WalletService CoinSelect
begin

text \<open>
  Spending in the wallet service (services/wallet.ts): fee estimation, transaction history,
  building, signing and broadcasting transactions, sending, batches and consolidation, on the
  registry of the theory WalletService; then the runs of the whole service.
\<close>

section \<open>Data\<close>

record TransactionInput =
  in_txid :: string
  in_vout :: int
  in_scriptPubKey :: string
  in_amount :: jsnum
  in_address :: string

record TransactionOutput =
  out_address :: string
  out_amount :: jsnum

record UnsignedTransaction =
  tx_inputs :: "TransactionInput list"
  tx_outputs :: "TransactionOutput list"
  tx_fee :: jsnum

record SignedTransaction =
  st_hex :: string
  st_txid :: string
  st_complete :: bool

datatype tx_type = Received | Sent | Other

record WalletTransactionRecord =
  wt_txid :: string
  wt_address :: "string option"
  wt_amount :: jsnum
  wt_confirmations :: int
  wt_fee :: "jsnum option"
  wt_type :: tx_type
  wt_timestamp :: "int option"
  wt_inputs :: "(string option \<times> jsnum option) list option"
  wt_outputs :: "(string option \<times> jsnum option) list option"

section \<open>History and coins\<close>

type_synonym tx_detail = "(string option \<times> jsnum option) list \<times> (string option \<times> jsnum option) list"

text \<open>One element of \<open>detailed\<close>: a string or an error gives \<open>null\<close>.\<close>

definition tx_details :: "'n node_api \<Rightarrow> string \<Rightarrow> ('n ws, tx_detail option) eff" where
  "tx_details api t =
     ecatch
       (ebind (call (getRawTransaction api t True)) (\<lambda>raw. eret
          (case raw of
             Inl _ \<Rightarrow> None
           | Inr r \<Rightarrow> Some
               (case raw_vin r of None \<Rightarrow> [] | Some n \<Rightarrow> replicate n (None, None),
                case raw_vout r of None \<Rightarrow> [] | Some vs \<Rightarrow> map (\<lambda>v. (ro_address v, Some (ro_value v))) vs))))
       (\<lambda>_. eret None)"

fun emap :: "('a \<Rightarrow> ('s, 'b) eff) \<Rightarrow> 'a list \<Rightarrow> ('s, 'b list) eff" where
  "emap f [] = eret []"
| "emap f (x # xs) = ebind (f x) (\<lambda>y. ebind (emap f xs) (\<lambda>ys. eret (y # ys)))"

text \<open>\<open>a || b\<close> on optional numbers.\<close>

fun or_num :: "int option \<Rightarrow> int option \<Rightarrow> int option" where
  "or_num (Some x) b = (if x \<noteq> 0 then Some x else b)"
| "or_num None b = b"

definition to_record :: "NodeTx \<Rightarrow> tx_detail option \<Rightarrow> WalletTransactionRecord" where
  "to_record tx d =
     (let ts = or_num (nt_time tx) (nt_timereceived tx)
      in \<lparr>wt_txid = nt_txid tx, wt_address = nt_address tx, wt_amount = \<bar>nt_amount tx\<bar>,
          wt_confirmations = (case nt_confirmations tx of None \<Rightarrow> 0 | Some c \<Rightarrow> c),
          wt_fee = (if truthy_num (nt_fee tx) then Some \<bar>the (nt_fee tx)\<bar> else None),
          wt_type = (if nt_category tx = ''send'' \<or> nt_amount tx < 0 then Sent
                     else if nt_category tx = ''receive'' then Received else Other),
          wt_timestamp = (case ts of None \<Rightarrow> None | Some t \<Rightarrow> if t \<noteq> 0 then Some (t * 1000) else None),
          wt_inputs = map_option fst d, wt_outputs = map_option snd d\<rparr>)"

definition getTransactionHistory ::
    "'n node_api \<Rightarrow> string \<Rightarrow> int \<Rightarrow> ('n ws, WalletTransactionRecord list) eff" where
  "getTransactionHistory api a limit =
     ecatch
       (ebind (call (listTransactions api a limit 0 True)) (\<lambda>txs.
        ebind (emap (\<lambda>tx. tx_details api (nt_txid tx)) txs) (\<lambda>ds.
        eret (map2 to_record txs ds))))
       (\<lambda>e. ethrow (wrap_error ''Failed to get transaction history: '' e))"

definition getUtxos :: "'n node_api \<Rightarrow> string \<Rightarrow> int \<Rightarrow> ('n ws, UTXO list) eff" where
  "getUtxos api a minConfirmations =
     ecatch (call (listUnspent api minConfirmations 9999999 [a]))
       (\<lambda>e. ethrow (wrap_error ''Failed to get UTXOs: '' e))"

definition estimateFee :: "'n node_api \<Rightarrow> int \<Rightarrow> ('n ws, jsnum) eff" where
  "estimateFee api targetBlocks =
     ecatch
       (ebind (call (estimateSmartFee api targetBlocks))
          (\<lambda>r. eret (if truthy_num r then the r else 1 / 100000)))
       (\<lambda>_. eret (1 / 100000))"

definition rate_or_estimate :: "'n node_api \<Rightarrow> jsnum option \<Rightarrow> ('n ws, jsnum) eff" where
  "rate_or_estimate api feeRate = (if truthy_num feeRate then eret (the feeRate) else estimateFee api 6)"

section \<open>Building a transaction\<close>

definition to_input :: "string \<Rightarrow> UTXO \<Rightarrow> TransactionInput" where
  "to_input from u = \<lparr>in_txid = u_txid u, in_vout = u_vout u, in_scriptPubKey = u_scriptPubKey u,
     in_amount = u_amount u, in_address = from\<rparr>"

definition insufficient_funds :: "string \<Rightarrow> jsnum \<Rightarrow> jsnum \<Rightarrow> js_error" where
  "insufficient_funds what available required =
     Error (what @ '' Available: '' @ toFixed 8 available @ '' KBC, Required: '' @ toFixed 8 required @ '' KBC'')"

definition dust_threshold :: jsnum where
  "dust_threshold = 1 / 100000"

text \<open>The amount after which the selection loop stops, with its rough estimate of 250 bytes.\<close>

definition rough_target :: "jsnum \<Rightarrow> jsnum \<Rightarrow> jsnum" where
  "rough_target amt rate = amt + rate * 250 / 100000000"

definition estimated_fee :: "jsnum \<Rightarrow> nat \<Rightarrow> jsnum" where
  "estimated_fee rate inputs = rate * (148 * of_nat inputs + 34 * 2 + 10) / 100000000"

text \<open>\<open>createTransaction\<close> from the point where the coins and the fee rate are known.\<close>

definition build_transaction ::
    "string \<Rightarrow> string \<Rightarrow> jsnum \<Rightarrow> jsnum \<Rightarrow> UTXO list \<Rightarrow> js_error + UnsignedTransaction" where
  "build_transaction from to amt rate utxos =
     (let totalAvailable = sum_by u_amount utxos;
          (sel, selectedAmount) = select_until u_amount (rough_target amt rate) 0 utxos
      in if selectedAmount < amt then Inl (insufficient_funds ''Insufficient funds.'' totalAvailable amt)
         else
           let fee = estimated_fee rate (length sel)
           in if selectedAmount < amt + fee
              then Inl (insufficient_funds ''Insufficient funds to cover fee.'' totalAvailable (amt + fee))
              else
                let change = selectedAmount - amt - fee
                in Inr \<lparr>tx_inputs = map (to_input from) sel,
                     tx_outputs = \<lparr>out_address = to, out_amount = amt\<rparr> #
                       (if change > dust_threshold then [\<lparr>out_address = from, out_amount = change\<rparr>] else []),
                     tx_fee = fee\<rparr>)"

definition createTransaction ::
    "'n node_api \<Rightarrow> string \<Rightarrow> string \<Rightarrow> jsnum \<Rightarrow> jsnum option \<Rightarrow> ('n ws, UnsignedTransaction) eff" where
  "createTransaction api from to amt feeRate =
     ecatch
       (ebind (call (validateAddress api from)) (\<lambda>fromValid.
        ebind (call (validateAddress api to)) (\<lambda>toValid.
        if \<not> isvalid fromValid then ethrow (Error ''Invalid sender address'')
        else if \<not> isvalid toValid then ethrow (Error ''Invalid recipient address'')
        else
          ebind (call (listUnspent api 1 9999999 [from])) (\<lambda>utxos.
          if utxos = [] then ethrow (Error ''No spendable UTXOs available'')
          else
            ebind (rate_or_estimate api feeRate) (\<lambda>rate.
            eresult (build_transaction from to amt rate utxos))))))
       (\<lambda>e. ethrow (wrap_error ''Failed to create transaction: '' e))"

section \<open>Signing and sending\<close>

text \<open>\<open>outputs[output.address] = output.amount\<close> for each output.\<close>

definition record_outputs :: "TransactionOutput list \<Rightarrow> (string, jsnum) jsmap" where
  "record_outputs outs = foldl (\<lambda>m t. AList.update (out_address t) (out_amount t) m) [] outs"

definition signTransaction :: "'n node_api \<Rightarrow> UnsignedTransaction \<Rightarrow> ('n ws, SignedTransaction) eff" where
  "signTransaction api tx =
     ecatch
       (ebind (call (createRawTransaction api (map (\<lambda>i. (in_txid i, in_vout i)) (tx_inputs tx))
                 (record_outputs (tx_outputs tx)))) (\<lambda>rawTx.
        ebind (call (signRawTransactionWithWallet api rawTx)) (\<lambda>signed.
        eret \<lparr>st_hex = sr_hex signed, st_txid = [], st_complete = sr_complete signed\<rparr>)))
       (\<lambda>e. ethrow (wrap_error ''Failed to sign transaction: '' e))"

definition broadcastTransaction :: "'n node_api \<Rightarrow> SignedTransaction \<Rightarrow> ('n ws, string) eff" where
  "broadcastTransaction api st =
     ecatch (call (sendRawTransaction api (st_hex st)))
       (\<lambda>e. ethrow (wrap_error ''Failed to broadcast transaction: '' e))"

text \<open>
  The end of \<open>sendTransaction\<close> and \<open>batchSend\<close>: sign, insist on completeness,
  broadcast and refresh the balance.
\<close>

definition sign_and_send :: "'n node_api \<Rightarrow> string \<Rightarrow> UnsignedTransaction \<Rightarrow> ('n ws, string) eff" where
  "sign_and_send api from tx =
     ebind (signTransaction api tx) (\<lambda>signed.
     if \<not> st_complete signed then ethrow (Error ''Transaction signing incomplete'')
     else
       ebind (broadcastTransaction api signed) (\<lambda>txid s.
       (Inr txid, updateWalletBalance api from s)))"

definition sendTransaction ::
    "'n node_api \<Rightarrow> string \<Rightarrow> string \<Rightarrow> jsnum \<Rightarrow> jsnum option \<Rightarrow> ('n ws, string) eff" where
  "sendTransaction api from to amt feeRate =
     ecatch
       (ebind (createTransaction api from to amt feeRate) (sign_and_send api from))
       (\<lambda>e. ethrow (wrap_error ''Failed to send transaction: '' e))"

fun validate_recipients :: "'n node_api \<Rightarrow> (string \<times> jsnum) list \<Rightarrow> ('n ws, unit) eff" where
  "validate_recipients api [] = eret ()"
| "validate_recipients api ((a, x) # rs) =
     ebind (call (validateAddress api a)) (\<lambda>v.
     if \<not> isvalid v then ethrow (Error (''Invalid recipient address: '' @ a))
     else if x \<le> 0 then ethrow (Error (''Invalid amount for '' @ a))
     else validate_recipients api rs)"

text \<open>The pure part of \<open>batchSend\<close>: coins and recipients to an unsigned transaction.\<close>

definition build_batch ::
    "string \<Rightarrow> (string \<times> jsnum) list \<Rightarrow> jsnum option \<Rightarrow> UTXO list \<Rightarrow> js_error + UnsignedTransaction" where
  "build_batch from recipients feeRate utxos =
     (let totalAmount = sum_by snd recipients;
          estimatedSize = 148 * of_nat (length utxos) + 34 * of_nat (length recipients + 1) + 10;
          effectiveFeeRate = (if truthy_num feeRate then the feeRate else 1 / 100000);
          estimatedFee = effectiveFeeRate * estimatedSize / 100000000;
          requiredAmount = totalAmount + estimatedFee;
          (sel, selectedAmount) = select_until u_amount requiredAmount 0 utxos
      in if selectedAmount < requiredAmount
         then Inl (Error (''Insufficient funds. Need '' @ toFixed 8 requiredAmount @ '', have '' @
                toFixed 8 selectedAmount @ '' KBC''))
         else
           let change = selectedAmount - totalAmount - estimatedFee
           in Inr \<lparr>tx_inputs = map (\<lambda>u. to_input (u_address u) u) sel,
                tx_outputs = map (\<lambda>(a, x). \<lparr>out_address = a, out_amount = x\<rparr>) recipients @
                  (if change > dust_threshold then [\<lparr>out_address = from, out_amount = change\<rparr>] else []),
                tx_fee = estimatedFee\<rparr>)"

definition batchSend ::
    "'n node_api \<Rightarrow> string \<Rightarrow> (string \<times> jsnum) list \<Rightarrow> jsnum option \<Rightarrow> ('n ws, string) eff" where
  "batchSend api from recipients feeRate =
     ecatch
       (\<lambda>s. if map_of (wallets s) from = None then (Inl (Error ''Wallet not found''), s)
            else
              ebind (validate_recipients api recipients) (\<lambda>_.
              ebind (call (listUnspent api 0 9999999 [from])) (\<lambda>utxos.
              if utxos = [] then ethrow (Error ''No UTXOs available'')
              else ebind (eresult (build_batch from recipients feeRate utxos)) (sign_and_send api from))) s)
       (\<lambda>e. ethrow (wrap_error ''Failed to batch send: '' e))"

record CoinRef =
  cr_txid :: string
  cr_vout :: int
  cr_amount :: jsnum
  cr_scriptPubKey :: string

definition consolidation_fee :: "jsnum \<Rightarrow> CoinRef list \<Rightarrow> jsnum" where
  "consolidation_fee rate utxos = rate * (148 * of_nat (length utxos) + 34 + 10) / 100000000"

definition consolidateUtxos ::
    "'n node_api \<Rightarrow> string \<Rightarrow> CoinRef list \<Rightarrow> string \<Rightarrow> jsnum option \<Rightarrow> ('n ws, string) eff" where
  "consolidateUtxos api from utxos dest feeRate =
     (if utxos = [] then ethrow (Error ''No UTXOs selected for consolidation'')
      else
        ebind (call (validateAddress api dest)) (\<lambda>toValid.
        if \<not> isvalid toValid then ethrow (Error ''Invalid destination address'')
        else
          ebind (rate_or_estimate api feeRate) (\<lambda>rate.
          let outputAmount = sum_by cr_amount utxos - consolidation_fee rate utxos
          in if outputAmount \<le> 0 then ethrow (Error ''Insufficient funds to cover consolidation fee'')
             else
               ebind (call (createRawTransaction api (map (\<lambda>u. (cr_txid u, cr_vout u)) utxos)
                  [(dest, outputAmount)])) (\<lambda>rawTx.
               ebind (call (signRawTransactionWithWallet api rawTx)) (\<lambda>signed.
               if \<not> sr_complete signed then ethrow (Error ''Failed to sign consolidation transaction'')
               else
                 ebind (call (sendRawTransaction api (sr_hex signed))) (\<lambda>txid s.
                 (Inr txid, updateWalletBalance api from s)))))))"

definition replaceTransaction :: "string \<Rightarrow> jsnum \<Rightarrow> ('n ws, string) eff" where
  "replaceTransaction originalTxid newFeeRate =
     ecatch (ethrow (Error (''RBF requires transaction indexing. Use the send page to create a new '' @
               ''transaction with higher fee.'')))
       (\<lambda>e. ethrow (wrap_error ''Failed to replace transaction: '' e))"

definition bumpFee :: "string \<Rightarrow> int \<Rightarrow> jsnum \<Rightarrow> ('n ws, string) eff" where
  "bumpFee parentTxid parentVout feeRate =
     ecatch (ethrow (Error (''CPFP requires spending unconfirmed outputs. Use the send page to spend '' @
               ''from this transaction with higher fee.'')))
       (\<lambda>e. ethrow (wrap_error ''Failed to bump fee: '' e))"

section \<open>Only the node is touched before the balance is refreshed\<close>

text \<open>A computation that changes nothing of the service but the node behind it.\<close>

definition node_only :: "('n ws, 'a) eff \<Rightarrow> bool" where
  "node_only m \<longleftrightarrow> (\<forall>s. snd (m s) = s\<lparr>node := node (snd (m s))\<rparr>)"

lemma node_onlyD: "node_only m \<Longrightarrow> m s = (r, t) \<Longrightarrow> t = s\<lparr>node := node t\<rparr>"
  unfolding node_only_def by (metis snd_conv)

lemma node_only_ret [simp]: "node_only (eret x)" "node_only (ethrow e)" "node_only (eresult r)"
  by (simp_all add: node_only_def eret_def ethrow_def eresult_def)

lemma node_only_call [simp]: "node_only (call f)"
  by (simp add: node_only_def call_state)

lemma node_only_bind [intro]:
  assumes "node_only m" and "\<And>x. node_only (f x)"
  shows "node_only (ebind m f)"
  unfolding node_only_def
proof
  fix s
  obtain r t where m: "m s = (r, t)" by force
  then have t: "t = s\<lparr>node := node t\<rparr>" using assms(1) by (rule node_onlyD [rotated])
  show "snd (ebind m f s) = s\<lparr>node := node (snd (ebind m f s))\<rparr>"
  proof (cases r)
    case (Inl e)
    with m t show ?thesis by (simp add: ebind_def)
  next
    case (Inr x)
    have "snd (f x t) = t\<lparr>node := node (snd (f x t))\<rparr>" using assms(2) by (simp add: node_only_def)
    also have "\<dots> = s\<lparr>node := node (snd (f x t))\<rparr>" by (subst t) simp
    finally show ?thesis using m Inr by (simp add: ebind_def)
  qed
qed

lemma node_only_catch [intro]:
  assumes "node_only m" and "\<And>e. node_only (h e)"
  shows "node_only (ecatch m h)"
  unfolding node_only_def
proof
  fix s
  obtain r t where m: "m s = (r, t)" by force
  then have t: "t = s\<lparr>node := node t\<rparr>" using assms(1) by (rule node_onlyD [rotated])
  show "snd (ecatch m h s) = s\<lparr>node := node (snd (ecatch m h s))\<rparr>"
  proof (cases r)
    case (Inr x)
    with m t show ?thesis by (simp add: ecatch_def)
  next
    case (Inl e)
    have "snd (h e t) = t\<lparr>node := node (snd (h e t))\<rparr>" using assms(2) by (simp add: node_only_def)
    also have "\<dots> = s\<lparr>node := node (snd (h e t))\<rparr>" by (subst t) simp
    finally show ?thesis using m Inl by (simp add: ecatch_def)
  qed
qed

lemma node_only_if [intro]: "node_only m \<Longrightarrow> node_only m' \<Longrightarrow> node_only (if b then m else m')"
  by simp

lemma node_only_ops [simp]:
  "node_only (estimateFee api k)"
  "node_only (rate_or_estimate api fr)"
  "node_only (createTransaction api from to amt fr)"
  "node_only (signTransaction api tx)"
  "node_only (broadcastTransaction api st)"
  "node_only (tx_details api t)"
  "node_only (getUtxos api a k)"
proof -
  show e: "node_only (estimateFee api k)" for k
    unfolding estimateFee_def by (intro node_only_catch node_only_bind) simp_all
  show r: "node_only (rate_or_estimate api fr)"
    unfolding rate_or_estimate_def by (simp add: e)
  show "node_only (createTransaction api from to amt fr)"
    unfolding createTransaction_def
    by (intro node_only_catch node_only_bind node_only_if) (simp_all add: r)
  show "node_only (signTransaction api tx)"
    unfolding signTransaction_def by (intro node_only_catch node_only_bind) simp_all
  show "node_only (tx_details api t)"
    unfolding tx_details_def by (intro node_only_catch node_only_bind) simp_all
qed (simp_all add: broadcastTransaction_def getUtxos_def node_only_catch)

lemma node_only_emap: "(\<And>x. node_only (f x)) \<Longrightarrow> node_only (emap f xs)"
  by (induction xs) (simp_all add: node_only_bind)

lemma node_only_history: "node_only (getTransactionHistory api a k)"
  unfolding getTransactionHistory_def by (intro node_only_catch node_only_bind node_only_emap) simp_all

lemma node_only_validate: "node_only (validate_recipients api rs)"
  by (induction rs) (auto simp: node_only_bind node_only_if)

text \<open>The inputs that the history reports have no addresses.\<close>

lemma history_inputs_unaddressed:
  assumes "getTransactionHistory api a k s = (Inr txs, s')" and "tx \<in> set txs"
  shows "list_all (\<lambda>(b, _). b = None) (list_of (wt_inputs tx))"
proof -
  have d: "list_all (\<lambda>(b, _). b = None) (fst d)" if "tx_details api t u = (Inr (Some d), u')" for t u d u'
  proof -
    from that obtain x :: "string + RawTx" where "Some d = (case x of Inl _ \<Rightarrow> None | Inr r \<Rightarrow>
        Some (case raw_vin r of None \<Rightarrow> [] | Some n \<Rightarrow> replicate n (None, None),
              case raw_vout r of None \<Rightarrow> [] | Some vs \<Rightarrow> map (\<lambda>v. (ro_address v, Some (ro_value v))) vs))"
      by (auto simp: tx_details_def eff_simps)
    then show ?thesis by (cases x) (auto simp: list_all_iff split: option.splits)
  qed
  have e: "emap (\<lambda>tx. tx_details api (nt_txid tx)) xs u = (Inr ds, u') \<Longrightarrow> Some d' \<in> set ds \<Longrightarrow>
      list_all (\<lambda>(b, _). b = None) (fst d')" for xs u ds u' d'
    by (induction xs arbitrary: u ds) (auto simp: eff_simps dest: d)
  from assms obtain u xs ds u' x d' where "emap (\<lambda>tx. tx_details api (nt_txid tx)) xs u = (Inr ds, u')"
      "(x, d') \<in> set (zip xs ds)" "tx = to_record x d'"
    by (auto simp: getTransactionHistory_def eff_simps)
  then show ?thesis
    by (cases d') (auto simp: to_record_def list_of_def Let_def dest!: set_zip_rightD dest: e)
qed

section \<open>What a built transaction spends and pays\<close>

text \<open>
  Coins in, payments and fee out: what is left over is not negative and at most the dust
  threshold.
\<close>

definition balanced :: "UnsignedTransaction \<Rightarrow> bool" where
  "balanced tx \<longleftrightarrow>
     (let excess = sum_by in_amount (tx_inputs tx) - sum_by out_amount (tx_outputs tx) - tx_fee tx
      in 0 \<le> excess \<and> excess \<le> dust_threshold)"

lemma dust_threshold_nonneg [simp]: "0 \<le> dust_threshold"
  by (simp add: dust_threshold_def)

lemma to_input_amount [simp]: "in_amount (to_input a u) = u_amount u"
  by (simp add: to_input_def)

lemma build_transaction_Inr:
  assumes "build_transaction from to amt rate utxos = Inr tx"
  obtains sel change where
    "select_until u_amount (rough_target amt rate) 0 utxos = (sel, sum_by u_amount sel)"
    "tx_inputs tx = map (to_input from) sel"
    "tx_outputs tx = \<lparr>out_address = to, out_amount = amt\<rparr> #
       (if change > dust_threshold then [\<lparr>out_address = from, out_amount = change\<rparr>] else [])"
    "tx_fee tx = estimated_fee rate (length sel)"
    "change = sum_by u_amount sel - amt - tx_fee tx" "0 \<le> change"
proof -
  obtain sel t where l: "select_until u_amount (rough_target amt rate) 0 utxos = (sel, t)" by force
  then have t: "t = sum_by u_amount sel" by (rule su.sum_sel)
  define fee where "fee = estimated_fee rate (length sel)"
  from assms l have ge: "\<not> t < amt" "\<not> t < amt + fee"
    by (auto simp: build_transaction_def fee_def Let_def split: if_splits)
  with assms l have "tx = \<lparr>tx_inputs = map (to_input from) sel,
      tx_outputs = \<lparr>out_address = to, out_amount = amt\<rparr> #
        (if t - amt - fee > dust_threshold then [\<lparr>out_address = from, out_amount = t - amt - fee\<rparr>] else []),
      tx_fee = fee\<rparr>"
    unfolding build_transaction_def by (auto simp: fee_def Let_def)
  with l t ge that [of sel "t - amt - fee"] show ?thesis by (simp add: fee_def)
qed

lemma build_transaction_balanced: "build_transaction from to amt rate utxos = Inr tx \<Longrightarrow> balanced tx"
  by (erule build_transaction_Inr) (auto simp: balanced_def Let_def split: if_splits)

lemma createTransaction_InrE:
  assumes "createTransaction api from to amt feeRate s = (Inr tx, s')"
  obtains utxos rate n n' s1 where
    "listUnspent api 1 9999999 [from] n = (Inr utxos, n')"
    "rate_or_estimate api feeRate s1 = (Inr rate, s')"
    "build_transaction from to amt rate utxos = Inr tx"
  using assms
  by (auto simp: createTransaction_def eff_simps call_Inr_iff eresult_def split: if_splits)


definition demo_tx :: UnsignedTransaction where
  "demo_tx = \<lparr>tx_inputs = [\<lparr>in_txid = ''t'', in_vout = 0, in_scriptPubKey = ''p'', in_amount = 5, in_address = ''a''\<rparr>],
     tx_outputs = [\<lparr>out_address = ''b'', out_amount = 2\<rparr>, \<lparr>out_address = ''a'', out_amount = 2\<rparr>],
     tx_fee = 1\<rparr>"

text \<open>A rate at which one input costs exactly one coin.\<close>

definition demo_rate :: jsnum where
  "demo_rate = 100000000 / 226"

lemma demo_createTransaction:
  "createTransaction echo_node ''a'' ''b'' 2 (Some demo_rate) empty_service =
     (Inr demo_tx, empty_service)"
  by (simp add: createTransaction_def echo_node_def ecatch_def ebind_def call_def eret_def eresult_def
      rate_or_estimate_def build_transaction_def demo_tx_def to_input_def rough_target_def
      estimated_fee_def dust_threshold_def demo_rate_def)


section \<open>What is signed\<close>

lemma record_outputs_append:
  "distinct (map fst m @ map out_address outs) \<Longrightarrow>
     foldl (\<lambda>m t. AList.update (out_address t) (out_amount t) m) m outs =
       m @ map (\<lambda>t. (out_address t, out_amount t)) outs"
proof (induction outs arbitrary: m)
  case Nil
  then show ?case by simp
next
  case (Cons t outs)
  then have "map_of m (out_address t) = None" by (auto simp: map_of_eq_None_iff)
  with Cons.IH [of "m @ [(out_address t, out_amount t)]"] Cons.prems show ?case
    by (simp add: jsmap_set_fresh)
qed

lemma record_outputs_distinct:
  "distinct (map out_address outs) \<Longrightarrow> record_outputs outs = map (\<lambda>t. (out_address t, out_amount t)) outs"
  using record_outputs_append [of "[]" outs] by (simp add: record_outputs_def)

lemma sign_and_send_Inr:
  assumes "sign_and_send api from tx s = (Inr txid, s')"
  obtains raw n1 signed n2 n3 where
    "createRawTransaction api (map (\<lambda>i. (in_txid i, in_vout i)) (tx_inputs tx))
       (record_outputs (tx_outputs tx)) (node s) = (Inr raw, n1)"
    "signRawTransactionWithWallet api raw n1 = (Inr signed, n2)" "sr_complete signed"
    "sendRawTransaction api (sr_hex signed) n2 = (Inr txid, n3)"
    "s' = updateWalletBalance api from (s\<lparr>node := n3\<rparr>)"
  using assms
  by (auto simp: sign_and_send_def signTransaction_def broadcastTransaction_def eff_simps call_Inr_iff
      split: if_splits)


lemma echo_signing:
  "createRawTransaction echo_node ins outs n = (Inr ''raw'', n)"
  "signRawTransactionWithWallet echo_node h n = (Inr \<lparr>sr_hex = h, sr_complete = True\<rparr>, n)"
  "sendRawTransaction echo_node h n = (Inr ''txid'', n)"
  by (simp_all add: echo_node_def eret_def)

lemma demo_send:
  "sendTransaction echo_node ''a'' ''b'' 2 (Some demo_rate) empty_service = (Inr ''txid'', empty_service)"
proof -
  have "updateWalletBalance echo_node ''a'' (empty_service\<lparr>node := ()\<rparr>) = empty_service"
    by (simp add: updateWalletBalance_def)
  then have "sign_and_send echo_node ''a'' demo_tx empty_service = (Inr ''txid'', empty_service)"
    by (simp add: sign_and_send_def signTransaction_def broadcastTransaction_def ecatch_def ebind_def
        call_def eret_def echo_signing)
  then show ?thesis
    by (simp add: sendTransaction_def ecatch_def ebind_def demo_createTransaction)
qed


text \<open>
  C32: sending to oneself with change burns the payment. The two outputs have one address, and
  the object built for the node keeps only the second: the raw transaction leaves the amount
  sent and the fee to the miner.
\<close>

theorem self_send_burns_amount:
  assumes "createTransaction api a a amt feeRate s = (Inr tx, s')" and "length (tx_outputs tx) = 2"
  shows "length (record_outputs (tx_outputs tx)) = 1 \<and>
    sum_by in_amount (tx_inputs tx) - sum_by snd (record_outputs (tx_outputs tx)) = amt + tx_fee tx"
proof -
  obtain utxos rate n n' s2 where b: "build_transaction a a amt rate utxos = Inr tx"
    using assms(1) by (rule createTransaction_InrE)
  obtain sel change where
    tx: "tx_inputs tx = map (to_input a) sel"
      "tx_outputs tx = \<lparr>out_address = a, out_amount = amt\<rparr> #
         (if change > dust_threshold then [\<lparr>out_address = a, out_amount = change\<rparr>] else [])"
      "change = sum_by u_amount sel - amt - tx_fee tx"
    by (rule build_transaction_Inr [OF b])
  with assms(2) have "record_outputs (tx_outputs tx) = [(a, change)]"
    by (simp add: record_outputs_def split: if_splits)
  with tx(1,3) show ?thesis by simp
qed

theorem self_send_burns_amount_witness:
  "\<exists>tx. createTransaction echo_node ''a'' ''a'' 2 (Some demo_rate) empty_service = (Inr tx, empty_service) \<and>
     sum_by in_amount (tx_inputs tx) - sum_by snd (record_outputs (tx_outputs tx)) = 2 + tx_fee tx"
proof -
  let ?tx = "demo_tx\<lparr>tx_outputs := [\<lparr>out_address = ''a'', out_amount = 2\<rparr>, \<lparr>out_address = ''a'', out_amount = 2\<rparr>]\<rparr>"
  have "createTransaction echo_node ''a'' ''a'' 2 (Some demo_rate) empty_service = (Inr ?tx, empty_service)"
    by (simp add: createTransaction_def echo_node_def ecatch_def ebind_def call_def eret_def eresult_def
        rate_or_estimate_def build_transaction_def demo_tx_def to_input_def rough_target_def
        estimated_fee_def dust_threshold_def demo_rate_def)
  with self_send_burns_amount [OF this] show ?thesis by simp
qed

lemma build_batch_Inr:
  assumes "build_batch from rs feeRate utxos = Inr tx"
  obtains sel change where
    "tx_inputs tx = map (\<lambda>u. to_input (u_address u) u) sel" "\<exists>k. sel = take k utxos"
    "tx_outputs tx = map (\<lambda>(a, x). \<lparr>out_address = a, out_amount = x\<rparr>) rs @
       (if change > dust_threshold then [\<lparr>out_address = from, out_amount = change\<rparr>] else [])"
    "change = sum_by u_amount sel - sum_by snd rs - tx_fee tx" "0 \<le> change"
proof -
  define fee where "fee = (if truthy_num feeRate then the feeRate else 1 / 100000) *
    (148 * of_nat (length utxos) + 34 * of_nat (length rs + 1) + 10) / 100000000"
  obtain sel t where l: "select_until u_amount (sum_by snd rs + fee) 0 utxos = (sel, t)" by force
  then have t: "t = sum_by u_amount sel" and k: "\<exists>k. sel = take k utxos"
    by (simp_all add: su.sum_sel su.prefix_sel)
  from assms l have ge: "\<not> t < sum_by snd rs + fee"
    unfolding build_batch_def Let_def fee_def [symmetric] by (auto split: if_splits)
  with assms l have "tx = \<lparr>tx_inputs = map (\<lambda>u. to_input (u_address u) u) sel,
      tx_outputs = map (\<lambda>(a, x). \<lparr>out_address = a, out_amount = x\<rparr>) rs @
        (if t - sum_by snd rs - fee > dust_threshold
         then [\<lparr>out_address = from, out_amount = t - sum_by snd rs - fee\<rparr>] else []),
      tx_fee = fee\<rparr>"
    unfolding build_batch_def Let_def fee_def [symmetric] by auto
  with ge t k that [of sel "t - sum_by snd rs - fee"] show ?thesis by simp
qed

lemma sum_by_payments [simp]:
  "sum_by (\<lambda>p. out_amount (case p of (a, x) \<Rightarrow> \<lparr>out_address = a, out_amount = x\<rparr>)) rs = sum_by snd rs"
  by (induction rs) auto

lemma build_batch_balanced: "build_batch from rs feeRate utxos = Inr tx \<Longrightarrow> balanced tx"
  by (erule build_batch_Inr) (auto simp: balanced_def Let_def split: if_splits)

lemma validate_recipients_positive:
  "validate_recipients api rs s = (Inr u, s') \<Longrightarrow> list_all (\<lambda>(a, x). 0 < x) rs"
proof (induction api rs arbitrary: s rule: validate_recipients.induct)
  case (1 api)
  then show ?case by simp
next
  case (2 api a x rs)
  then show ?case by (auto simp: eff_simps split: if_splits)
qed

text \<open>
  C6: a batch to distinct recipients other than the sender pays every one of them. When
  \<open>batchSend\<close> returns, every amount was positive and the node was asked for a raw
  transaction whose outputs are the recipients with their amounts and at most a change output
  to the sender, and which balances.
\<close>

theorem batchSend_pays:
  assumes "batchSend api from rs feeRate s = (Inr txid, s')"
    and "distinct (map fst rs)" and "from \<notin> fst ` set rs"
  shows "\<exists>tx n raw n1. balanced tx \<and> list_all (\<lambda>(a, x). 0 < x) rs \<and>
    createRawTransaction api (map (\<lambda>i. (in_txid i, in_vout i)) (tx_inputs tx))
      (map (\<lambda>t. (out_address t, out_amount t)) (tx_outputs tx)) n = (Inr raw, n1) \<and>
    prefix rs (map (\<lambda>t. (out_address t, out_amount t)) (tx_outputs tx)) \<and>
    length (tx_outputs tx) \<le> length rs + 1"
proof -
  obtain utxos tx s1 s2 u where v: "validate_recipients api rs s = (Inr u, s1)"
    and b: "build_batch from rs feeRate utxos = Inr tx"
    and r: "sign_and_send api from tx s2 = (Inr txid, s')"
    using assms(1)
    by (auto simp: batchSend_def eff_simps eresult_def call_Inr_iff split: if_splits)
  obtain sel change where tx: "tx_outputs tx = map (\<lambda>(a, x). \<lparr>out_address = a, out_amount = x\<rparr>) rs @
       (if change > dust_threshold then [\<lparr>out_address = from, out_amount = change\<rparr>] else [])"
    by (rule build_batch_Inr [OF b])
  have q: "map out_address (map (\<lambda>(a, x). \<lparr>out_address = a, out_amount = x\<rparr>) rs) = map fst rs"
    and p: "map (\<lambda>t. (out_address t, out_amount t)) (map (\<lambda>(a, x). \<lparr>out_address = a, out_amount = x\<rparr>) rs) = rs"
    by (induction rs) auto
  have "distinct (map out_address (tx_outputs tx))"
    unfolding tx map_append q distinct_append using assms(2,3) by auto
  then have "record_outputs (tx_outputs tx) = map (\<lambda>t. (out_address t, out_amount t)) (tx_outputs tx)"
    by (rule record_outputs_distinct)
  moreover have "prefix rs (map (\<lambda>t. (out_address t, out_amount t)) (tx_outputs tx))"
    unfolding tx map_append p by simp
  moreover have "list_all (\<lambda>(a, x). 0 < x) rs"
    by (rule validate_recipients_positive [OF v])
  moreover have "length (tx_outputs tx) \<le> length rs + 1" by (simp add: tx)
  ultimately show ?thesis
    using build_batch_balanced [OF b] r by (elim sign_and_send_Inr) (metis (no_types, lifting))
qed

lemma demo_batch:
  "fst (batchSend echo_node ''a'' [(''b'', 1), (''c'', 2)] None (ws_demo)) = Inr ''txid''"
  if "map_of (wallets ws_demo) ''a'' \<noteq> None" for ws_demo :: "unit ws"
  using that
  by (auto simp: batchSend_def ecatch_def ebind_def call_def echo_node_def eret_def eresult_def
      build_batch_def sign_and_send_def signTransaction_def broadcastTransaction_def Let_def)

theorem batchSend_pays_witness:
  "\<exists>tx n raw n1. balanced tx \<and>
     createRawTransaction echo_node (map (\<lambda>i. (in_txid i, in_vout i)) (tx_inputs tx))
      (map (\<lambda>t. (out_address t, out_amount t)) (tx_outputs tx)) n = (Inr raw, n1) \<and>
     prefix [(''b'', 1), (''c'', 2)] (map (\<lambda>t. (out_address t, out_amount t)) (tx_outputs tx))"
proof -
  let ?s = "snd (registerWallet (sample_wallet ''a'') None empty_service)"
  have "map_of (wallets ?s) ''a'' \<noteq> None" by (simp add: registerWallet_def sample_wallet_def Let_def)
  then obtain s' where "batchSend echo_node ''a'' [(''b'', 1), (''c'', 2)] None ?s = (Inr ''txid'', s')"
    by (metis demo_batch prod.collapse)
  from batchSend_pays [OF this] show ?thesis by auto
qed

section \<open>Fees\<close>

lemma estimated_fee_default:
  "n \<le> 675 \<Longrightarrow> estimated_fee (1 / 100000) n < 1 / 100000000"
  by (simp add: estimated_fee_def)

text \<open>
  The default rate is in coins per thousand bytes and is used as units of the smallest
  denomination per byte. When the node has no estimate, the fee of a transaction with up to
  675 inputs is less than the smallest denomination.
\<close>

theorem default_fee_below_one_unit:
  assumes "createTransaction api from to amt None s = (Inr tx, s')"
    and "\<forall>n. \<exists>n'. estimateSmartFee api 6 n = (Inr None, n')"
    and "length (tx_inputs tx) \<le> 675"
  shows "tx_fee tx < 1 / 100000000"
proof -
  obtain utxos rate n n' s1 where r: "rate_or_estimate api None s1 = (Inr rate, s')"
    and b: "build_transaction from to amt rate utxos = Inr tx"
    using assms(1) by (rule createTransaction_InrE)
  obtain n2 where "estimateSmartFee api 6 (node s1) = (Inr None, n2)" using assms(2) by blast
  with r have "rate = 1 / 100000"
    by (auto simp: rate_or_estimate_def estimateFee_def ecatch_def ebind_def call_def eret_def)
  moreover have "tx_fee tx = estimated_fee rate (length (tx_inputs tx))"
    by (rule build_transaction_Inr [OF b]) simp
  ultimately show ?thesis using estimated_fee_default [OF assms(3)] by (simp only:)
qed

theorem default_fee_below_one_unit_witness:
  "\<exists>tx. createTransaction echo_node ''a'' ''b'' 2 None empty_service = (Inr tx, empty_service) \<and>
     tx_fee tx < 1 / 100000000"
proof -
  let ?fee = "estimated_fee (1 / 100000) 1"
  let ?tx = "\<lparr>tx_inputs = tx_inputs demo_tx,
     tx_outputs = [\<lparr>out_address = ''b'', out_amount = 2\<rparr>, \<lparr>out_address = ''a'', out_amount = 3 - ?fee\<rparr>],
     tx_fee = ?fee\<rparr>"
  have c: "createTransaction echo_node ''a'' ''b'' 2 None empty_service = (Inr ?tx, empty_service)"
    by (simp add: createTransaction_def echo_node_def ecatch_def ebind_def call_def eret_def eresult_def
        rate_or_estimate_def estimateFee_def build_transaction_def demo_tx_def to_input_def rough_target_def
        estimated_fee_def dust_threshold_def demo_rate_def)
  have "tx_fee ?tx < 1 / 100000000"
    by (rule default_fee_below_one_unit [OF c]) (simp_all add: echo_node_def eret_def demo_tx_def)
  with c show ?thesis by blast
qed

definition coin :: "jsnum \<Rightarrow> UTXO" where
  "coin x = \<lparr>u_txid = ''t'', u_vout = 0, u_address = ''a'', u_scriptPubKey = ''p'', u_amount = x, u_confirmations = 1\<rparr>"

text \<open>
  A payment can be refused for lack of funds that are there. The loop stops at an estimate
  of 250 bytes, two inputs already cost 374, and the check that follows looks only at the coins
  taken so far. In the example nine more coins than needed are left untouched.
\<close>

theorem refused_despite_funds:
  "\<exists>utxos amt rate. estimated_fee rate (length utxos) + amt + 9 \<le> sum_by u_amount utxos \<and>
     build_transaction ''a'' ''b'' amt rate utxos =
       Inl (insufficient_funds ''Insufficient funds to cover fee.'' (sum_by u_amount utxos)
              (amt + estimated_fee rate 2))"
proof -
  have "build_transaction ''a'' ''b'' (17 / 10) 100000 [coin 1, coin 1, coin 10] =
       Inl (insufficient_funds ''Insufficient funds to cover fee.'' 12 (17 / 10 + estimated_fee 100000 2))"
    by (simp add: build_transaction_def rough_target_def estimated_fee_def coin_def)
  then show ?thesis
    by (intro exI [of _ "[coin 1, coin 1, coin 10]"] exI [of _ "17 / 10"] exI [of _ 100000])
      (simp add: coin_def estimated_fee_def)
qed

section \<open>Runs of the service\<close>

datatype ws_op =
    Generate string
  | Import string string bool
  | Register WalletInfo "bool option"
  | SetActive string
  | UpdateBalance string
  | UpdateAll
  | Delete string
  | Look
  | Send string string jsnum "jsnum option"
  | Batch string "(string \<times> jsnum) list" "jsnum option"
  | Consolidate string "CoinRef list" string "jsnum option"

text \<open>\<open>Look\<close> stands for the getters, all of which refresh from storage first.\<close>

fun ws_step :: "'n node_api \<Rightarrow> clock \<Rightarrow> ws_op \<Rightarrow> 'n ws \<Rightarrow> 'n ws" where
  "ws_step api clk (Generate lbl) s = snd (generateWallet api clk lbl s)"
| "ws_step api clk (Import key lbl rescan) s = snd (importWallet api clk key lbl rescan s)"
| "ws_step api clk (Register w act) s = snd (registerWallet w act s)"
| "ws_step api clk (SetActive a) s = snd (setActiveWallet a s)"
| "ws_step api clk (UpdateBalance a) s = updateWalletBalance api a s"
| "ws_step api clk UpdateAll s = updateAllBalances api s"
| "ws_step api clk (Delete a) s = snd (deleteWallet a s)"
| "ws_step api clk Look s = snd (getWallets s)"
| "ws_step api clk (Send from to amt fr) s = snd (sendTransaction api from to amt fr s)"
| "ws_step api clk (Batch from rs fr) s = snd (batchSend api from rs fr s)"
| "ws_step api clk (Consolidate from us dest fr) s = snd (consolidateUtxos api from us dest fr s)"

text \<open>
  A predicate on states that does not look at the node and that balance updates keep is kept
  by all spending operations.
\<close>

locale registry_predicate =
  fixes api :: "'n node_api" and I :: "'n ws \<Rightarrow> bool"
  assumes I_node: "I (s\<lparr>node := n\<rparr>) = I s"
    and I_update: "I s \<Longrightarrow> I (updateWalletBalance api a s)"
begin

lemma keep_node_only: "node_only m \<Longrightarrow> I s \<Longrightarrow> I (snd (m s))"
  by (metis I_node node_only_def)

lemma keep_sign_and_send: "I s \<Longrightarrow> I (snd (sign_and_send api from tx s))"
  unfolding sign_and_send_def
  by (auto intro!: ebind_state [where I = I] simp: keep_node_only I_update)

lemma keep_send: "I s \<Longrightarrow> I (snd (sendTransaction api from to amt fr s))"
  unfolding sendTransaction_def
  by (intro ecatch_state [where I = I] ebind_state [where I = I])
    (auto simp: keep_node_only keep_sign_and_send)

lemma keep_batch: "I s \<Longrightarrow> I (snd (batchSend api from rs fr s))"
proof -
  assume s: "I s"
  have "I (snd (ebind (validate_recipients api rs) (\<lambda>_. ebind (call (listUnspent api 0 9999999 [from]))
      (\<lambda>utxos. if utxos = [] then ethrow (Error ''No UTXOs available'')
        else ebind (eresult (build_batch from rs fr utxos)) (sign_and_send api from))) s))"
    using s by (auto intro!: ebind_state [where I = I]
        simp: keep_node_only keep_sign_and_send node_only_validate)
  with s show ?thesis
    unfolding batchSend_def by (intro ecatch_state [where I = I]) (auto simp: keep_node_only)
qed

lemma keep_consolidate: "I s \<Longrightarrow> I (snd (consolidateUtxos api from us dest fr s))"
  unfolding consolidateUtxos_def Let_def
  by (auto intro!: ebind_state [where I = I] simp: keep_node_only I_update)

end

interpretation st: registry_predicate api stored for api :: "'n node_api"
  by unfold_locales (simp_all add: update_stored)

lemma ws_step_stored: "stored s \<Longrightarrow> stored (ws_step api clk op s)"
  by (cases op) (simp_all add: generate_stored import_stored register_stored setActive_stored update_stored
      updateAll_stored delete_stored getWallets_def stored_refresh st.keep_send st.keep_batch
      st.keep_consolidate Let_def)

lemma remembered_stored:
  assumes "stored s"
  shows "stored (remembered s)"
proof -
  have "keyed address (map_values sanitizeWalletForStorage (wallets s))"
    using assms by (intro keyed_map_values) (simp_all add: stored_def ws_inv_def)
  moreover have "to_object (map_values sanitizeWalletForStorage m) = to_object m" for m
    by (auto simp: to_object_def map_values_def)
  ultimately show ?thesis
    using assms by (auto simp: stored_def remembered_def ws_inv_def truthy_active_Some)
      (simp_all add: map_values_def)
qed

lemma remembered_idem: "remembered (remembered s) = remembered s"
proof -
  have "map_values sanitizeWalletForStorage (map_values sanitizeWalletForStorage m) =
      map_values sanitizeWalletForStorage m" for m :: "(string, WalletInfo) jsmap"
    by (auto simp: map_values_def)
  then show ?thesis by (simp add: remembered_def)
qed

interpretation ws: persistent "ws_step api clk" loadWalletsFromStorage stored remembered
  for api :: "'n node_api" and clk
  by unfold_locales (simp_all add: ws_step_stored load_stored remembered_stored remembered_idem)





section \<open>Private keys stay out of storage\<close>

definition safe :: "'n ws \<Rightarrow> bool" where
  "safe s \<longleftrightarrow> has_storage s \<and> clean_item (item_wallets s)"

lemma safe_save: "has_storage s \<Longrightarrow> safe (saveWalletsToStorage s)"
  by (simp add: safe_def save_clean)

lemma safe_load: "has_storage s \<Longrightarrow> safe (loadWalletsFromStorage s)"
  by (simp add: safe_def load_clean)

lemma safe_has_storage: "safe s \<Longrightarrow> has_storage s"
  by (simp add: safe_def)

lemma safe_refresh: "safe s \<Longrightarrow> safe (refreshFromStorageIfNeeded s)"
  by (simp add: refreshFromStorageIfNeeded_def safe_load safe_has_storage)

lemma safe_node [simp]: "safe (s\<lparr>node := n\<rparr>) = safe s"
  by (simp add: safe_def)

lemma safe_update: "safe s \<Longrightarrow> safe (updateWalletBalance api a s)"
  by (auto simp: updateWalletBalance_def call_def finishBalanceUpdate_def safe_save safe_has_storage
      split: option.split prod.split sum.split)

interpretation sf: registry_predicate api safe for api :: "'n node_api"
  by unfold_locales (simp_all add: safe_update)

lemma safe_updateAll: "safe s \<Longrightarrow> safe (updateAllBalances api s)"
proof -
  have "safe s \<Longrightarrow> safe (fold (updateWalletBalance api) as s)" for as s
    by (induction as arbitrary: s) (auto simp: safe_update)
  then show "safe s \<Longrightarrow> safe (updateAllBalances api s)" by (simp add: updateAllBalances_def)
qed

lemma safe_generate: "safe s \<Longrightarrow> safe (snd (generateWallet api clk lbl s))"
  unfolding generateWallet_def
  by (intro ecatch_state [where I = safe] ebind_state [where I = safe])
    (auto simp: sf.keep_node_only safe_save safe_has_storage Let_def)

lemma safe_import: "safe s \<Longrightarrow> safe (snd (importWallet api clk key lbl rescan s))"
  unfolding importWallet_def
  by (intro ecatch_state [where I = safe] ebind_state [where I = safe])
    (auto simp: sf.keep_node_only safe_save safe_update safe_has_storage Let_def)

lemma safe_delete: "safe s \<Longrightarrow> safe (snd (deleteWallet a s))"
  using safe_refresh [of s] safe_has_storage [OF safe_refresh [of s]]
    safe_refresh [of "refreshFromStorageIfNeeded s\<lparr>wallets := m\<rparr>" for m]
  by (auto simp: deleteWallet_def getWallets_def Let_def refreshFromStorageIfNeeded_def
      intro!: safe_save split: if_splits)

lemma ws_step_safe: "safe s \<Longrightarrow> safe (ws_step api clk op s)"
  by (cases op) (auto simp: safe_generate safe_import safe_update safe_updateAll safe_delete safe_refresh
      registerWallet_def setActiveWallet_def getWallets_def sf.keep_send sf.keep_batch sf.keep_consolidate
      Let_def safe_has_storage intro!: safe_save)


end
