(* ===== verification/Optimizer.thy ===== *)
theory Optimizer
  imports WalletSpend
begin

text \<open>
  The transaction optimizer (services/optimizer.ts), a client of the wallet service: dust
  analysis and consolidation, coin suggestions and the stuck-transaction helpers. All of it
  runs on the state of the wallet service.
\<close>

section \<open>Reading the wallet\<close>

definition DUST_THRESHOLD :: jsnum where
  "DUST_THRESHOLD = 1 / 10000"

definition MIN_FEE :: jsnum where
  "MIN_FEE = 1 / 100000"

definition active_wallet :: "('n ws, WalletInfo option) eff" where
  "active_wallet s = (case getActiveWallet s of (w, s') \<Rightarrow> (Inr w, s'))"

definition getUTXOs :: "'n node_api \<Rightarrow> ('n ws, UTXO list) eff" where
  "getUTXOs api =
     ebind active_wallet (\<lambda>w. case w of None \<Rightarrow> eret [] | Some w \<Rightarrow> getUtxos api (address w) 0)"

definition getTransaction :: "'n node_api \<Rightarrow> string \<Rightarrow> ('n ws, WalletTransactionRecord option) eff" where
  "getTransaction api txId =
     ebind active_wallet (\<lambda>w. case w of
        None \<Rightarrow> eret None
      | Some w \<Rightarrow> ebind (getTransactionHistory api (address w) 50)
          (\<lambda>txs. eret (find (\<lambda>tx. wt_txid tx = txId) txs)))"

definition estimateOptimalFeeRate :: "'n node_api \<Rightarrow> ('n ws, jsnum) eff" where
  "estimateOptimalFeeRate api = ecatch (estimateFee api 6) (\<lambda>_. eret MIN_FEE)"

definition consolidation_estimate :: "jsnum \<Rightarrow> nat \<Rightarrow> jsnum" where
  "consolidation_estimate rate utxoCount = (of_nat utxoCount * 150 + 50 + 10) / 1000 * rate"

definition estimateConsolidationFee :: "'n node_api \<Rightarrow> nat \<Rightarrow> ('n ws, jsnum) eff" where
  "estimateConsolidationFee api utxoCount =
     ebind (estimateOptimalFeeRate api) (\<lambda>rate. eret (consolidation_estimate rate utxoCount))"

section \<open>Dust\<close>

record dust_analysis =
  dustUtxoCount :: nat
  totalDustAmount :: jsnum
  da_estimatedFee :: jsnum
  worthConsolidating :: bool

definition dust_of :: "UTXO list \<Rightarrow> UTXO list" where
  "dust_of us = filter (\<lambda>u. u_amount u < DUST_THRESHOLD) us"

definition analyzeDustConsolidation :: "'n node_api \<Rightarrow> ('n ws, dust_analysis) eff" where
  "analyzeDustConsolidation api =
     ebind (getUTXOs api) (\<lambda>us.
     let dust = dust_of us; amt = sum_by u_amount dust
     in ebind (estimateConsolidationFee api (length dust)) (\<lambda>fee.
        eret \<lparr>dustUtxoCount = length dust, totalDustAmount = amt, da_estimatedFee = fee,
              worthConsolidating = (amt > fee * 2)\<rparr>))"

definition coin_ref :: "UTXO \<Rightarrow> CoinRef" where
  "coin_ref u = \<lparr>cr_txid = u_txid u, cr_vout = u_vout u, cr_amount = u_amount u,
     cr_scriptPubKey = u_scriptPubKey u\<rparr>"

definition consolidateDust :: "'n node_api \<Rightarrow> ('n ws, string) eff" where
  "consolidateDust api =
     ebind (analyzeDustConsolidation api) (\<lambda>a.
     if \<not> worthConsolidating a
     then ethrow (Error ''Dust consolidation is not worth it at current fee rates'')
     else if dustUtxoCount a = 0 then ethrow (Error ''No dust UTXOs to consolidate'')
     else
       ebind active_wallet (\<lambda>w. case w of
          None \<Rightarrow> ethrow (Error ''No active wallet'')
        | Some w \<Rightarrow> ebind (getUTXOs api) (\<lambda>us.
            consolidateUtxos api (address w) (map coin_ref (dust_of us)) (address w) None)))"

definition optimizeUTXOs :: "'n node_api \<Rightarrow> ('n ws, string) eff" where
  "optimizeUTXOs api =
     ebind (getUTXOs api) (\<lambda>us.
     if length us \<le> 5 then ethrow (Error ''Not enough UTXOs to optimize (already optimal)'')
     else
       ebind (estimateConsolidationFee api (length us)) (\<lambda>fee.
       if sum_by u_amount us \<le> fee then ethrow (Error ''Insufficient balance to cover consolidation fee'')
       else
         ebind active_wallet (\<lambda>w. case w of
            None \<Rightarrow> ethrow (Error ''No active wallet'')
          | Some w \<Rightarrow> consolidateUtxos api (address w) (map coin_ref us) (address w) None)))"

section \<open>Stuck transactions\<close>

definition fee_or_min :: "WalletTransactionRecord \<Rightarrow> jsnum" where
  "fee_or_min tx = (if truthy_num (wt_fee tx) then the (wt_fee tx) else MIN_FEE)"

definition resolveStuckTransactionCPFP :: "'n node_api \<Rightarrow> string \<Rightarrow> ('n ws, string) eff" where
  "resolveStuckTransactionCPFP api parentTxId =
     ebind (getTransaction api parentTxId) (\<lambda>t. case t of
        None \<Rightarrow> ethrow (Error ''Parent transaction not found'')
      | Some tx \<Rightarrow> bumpFee parentTxId 0 (fee_or_min tx * 3 + MIN_FEE))"

text \<open>
  The records of \<open>getTransactionHistory\<close> have no field \<open>rbfEnabled\<close>: it reads as
  \<open>undefined\<close>.
\<close>

definition rbfEnabled :: "WalletTransactionRecord \<Rightarrow> bool option" where
  "rbfEnabled tx = None"

definition resolveStuckTransactionRBF :: "'n node_api \<Rightarrow> string \<Rightarrow> ('n ws, string) eff" where
  "resolveStuckTransactionRBF api txId =
     ebind (getTransaction api txId) (\<lambda>t. case t of
        None \<Rightarrow> ethrow (Error ''Transaction not found'')
      | Some tx \<Rightarrow>
          if rbfEnabled tx \<noteq> Some True
          then ethrow (Error ''Transaction does not support RBF (Replace-By-Fee)'')
          else replaceTransaction txId (fee_or_min tx * 2))"

section \<open>Sizes and suggestions\<close>

record size_analysis =
  sa_estimatedSize :: int
  sa_estimatedFee :: jsnum
  sa_feeRate :: jsnum

definition analyzeTransactionSize :: "'n node_api \<Rightarrow> int \<Rightarrow> int \<Rightarrow> ('n ws, size_analysis) eff" where
  "analyzeTransactionSize api inputCount outputCount =
     (let size = inputCount * 150 + outputCount * 50 + 10
      in ebind (estimateOptimalFeeRate api) (\<lambda>rate.
         eret \<lparr>sa_estimatedSize = size, sa_estimatedFee = of_int size / 1000 * rate, sa_feeRate = rate\<rparr>))"

record suggestion =
  sg_utxos :: "UTXO list"
  sg_totalAmount :: jsnum
  sg_estimatedFee :: jsnum
  sg_change :: jsnum

definition suggestOptimalUTXOSelection :: "'n node_api \<Rightarrow> jsnum \<Rightarrow> ('n ws, suggestion) eff" where
  "suggestOptimalUTXOSelection api targetAmount =
     ebind (getUTXOs api) (\<lambda>us.
     case push_until u_amount targetAmount 0 (sort_desc u_amount us) of
       (selected, totalAmount) \<Rightarrow>
         if totalAmount < targetAmount then ethrow (Error ''Insufficient balance'')
         else
           ebind (estimateConsolidationFee api (length selected)) (\<lambda>fee.
           eret \<lparr>sg_utxos = selected, sg_totalAmount = totalAmount, sg_estimatedFee = fee,
                 sg_change = totalAmount - targetAmount - fee\<rparr>))"

section \<open>What the suggestions are worth\<close>

lemma getUTXOs_Inr:
  "getUTXOs api s = (Inr us, s') \<Longrightarrow>
     us = [] \<or> (\<exists>w n n'. fst (getActiveWallet s) = Some w \<and> listUnspent api 0 9999999 [address w] n = (Inr us, n'))"
  by (auto simp: getUTXOs_def active_wallet_def getUtxos_def eff_simps call_Inr_iff
      split: option.splits prod.splits)

lemma suggestion_Inr:
  assumes "suggestOptimalUTXOSelection api target s = (Inr sg, s')"
  obtains us s1 where "getUTXOs api s = (Inr us, s1)"
    "push_until u_amount target 0 (sort_desc u_amount us) = (sg_utxos sg, sg_totalAmount sg)"
    "target \<le> sg_totalAmount sg" "sg_change sg = sg_totalAmount sg - target - sg_estimatedFee sg"
proof -
  obtain us s1 where us: "getUTXOs api s = (Inr us, s1)"
    using assms by (auto simp: suggestOptimalUTXOSelection_def eff_simps)
  obtain sel t where p: "push_until u_amount target 0 (sort_desc u_amount us) = (sel, t)" by force
  with us assms that [OF us] show ?thesis
    by (auto simp: suggestOptimalUTXOSelection_def eff_simps split: if_splits)
qed

text \<open>
  A suggested selection consists of coins of the active wallet, adds up to what it reports,
  reaches the target, and is the shortest prefix of the coins by falling amount that does: without
  its last coin it misses the target.
\<close>

theorem suggestion_covers_target:
  assumes "suggestOptimalUTXOSelection api target s = (Inr sg, s')"
  shows "\<exists>us s1. getUTXOs api s = (Inr us, s1) \<and> set (sg_utxos sg) \<subseteq> set us \<and>
    (\<exists>k. sg_utxos sg = take k (sort_desc u_amount us)) \<and>
    sg_totalAmount sg = sum_by u_amount (sg_utxos sg) \<and> target \<le> sg_totalAmount sg \<and>
    (\<forall>sel u. sg_utxos sg = sel @ [u] \<and> sel \<noteq> [] \<longrightarrow> sum_by u_amount sel < target)"
proof -
  obtain us s1 where us: "getUTXOs api s = (Inr us, s1)"
    and p: "push_until u_amount target 0 (sort_desc u_amount us) = (sg_utxos sg, sg_totalAmount sg)"
    and t: "target \<le> sg_totalAmount sg"
    using assms by (rule suggestion_Inr)
  have "sum_by u_amount sel < target" if "sg_utxos sg = sel @ [u]" "sel \<noteq> []" for sel u
    using pu.minimal p that by metis
  with us t pu.subset_sel [OF p] pu.prefix_sel [OF p] pu.sum_sel [OF p] show ?thesis by auto
qed

lemma suggestion_demo:
  "suggestOptimalUTXOSelection echo_node 2 (snd (registerWallet (sample_wallet ''a'') None empty_service)) =
     (Inr \<lparr>sg_utxos = [\<lparr>u_txid = ''t'', u_vout = 0, u_address = ''a'', u_scriptPubKey = ''p'', u_amount = 5,
        u_confirmations = 3\<rparr>], sg_totalAmount = 5, sg_estimatedFee = consolidation_estimate (1 / 100000) 1,
        sg_change = 3 - consolidation_estimate (1 / 100000) 1\<rparr>,
      snd (registerWallet (sample_wallet ''a'') None empty_service))"
proof -
  let ?s = "snd (registerWallet (sample_wallet ''a'') None empty_service)"
  have st: "stored ?s" by (rule register_stored) (rule empty_stored)
  have "getActiveWallet ?s = (Some (sample_wallet ''a''), ?s)"
    using stored_refresh [OF st]
    by (simp add: getActiveWallet_def Let_def)
      (simp add: registerWallet_def sample_wallet_def sanitizeWalletForStorage_def Let_def)
  moreover have "?s\<lparr>node := ()\<rparr> = ?s" by simp
  ultimately show ?thesis
    by (simp add: suggestOptimalUTXOSelection_def getUTXOs_def active_wallet_def getUtxos_def ebind_def
        ecatch_def call_def echo_node_def eret_def estimateConsolidationFee_def estimateOptimalFeeRate_def
        estimateFee_def sample_wallet_def sort_desc_def)
qed

theorem suggestion_covers_target_witness:
  "\<exists>us s1 k. getUTXOs echo_node (snd (registerWallet (sample_wallet ''a'') None empty_service)) = (Inr us, s1) \<and>
     2 \<le> sum_by u_amount (take k (sort_desc u_amount us))"
  using suggestion_covers_target [OF suggestion_demo] by metis

text \<open>
  The optimizer reads the rate per thousand bytes, the wallet per byte and in the smallest
  denomination: for the same rate and coins the optimizer's estimate is more than a hundred
  thousand times the fee that the wallet then pays.
\<close>

lemma optimizer_overestimates_fee:
  assumes "0 < rate"
  shows "100000 * consolidation_fee rate us < consolidation_estimate rate (length us)"
proof -
  have "rate * (148 * of_nat (length us) + 34 + 10) < rate * (of_nat (length us) * 150 + 50 + 10)"
    using assms by (intro mult_strict_left_mono) (simp_all add: algebra_simps)
  then show ?thesis by (simp add: consolidation_fee_def consolidation_estimate_def algebra_simps)
qed

text \<open>The coins are chosen for the target alone, so the change can be negative.\<close>

lemma suggestion_change:
  "suggestOptimalUTXOSelection api target s = (Inr sg, s') \<Longrightarrow>
     sg_change sg = sg_totalAmount sg - target - sg_estimatedFee sg"
  by (erule suggestion_Inr)

text \<open>Neither way to help a stuck transaction can succeed.\<close>

lemma stuck_helpers_always_fail:
  "\<exists>e. fst (resolveStuckTransactionRBF api t s) = Inl e" "\<exists>e. fst (resolveStuckTransactionCPFP api t s) = Inl e"
  by (auto simp: resolveStuckTransactionRBF_def resolveStuckTransactionCPFP_def rbfEnabled_def bumpFee_def
      ebind_def ecatch_def ethrow_def split: prod.splits sum.splits option.splits)

end
