(* ===== verification/UtxoManager.thy ===== *)
theory UtxoManager
  imports JsStore CoinSelect
begin

text \<open>
  The coin-control service (services/utxoManager.ts): the set of known unspent outputs,
  locking, labelling, filtering, selection by strategy, dust and statistics. The service's
  own object is the record \<open>utxo_state\<close>; \<open>utxo_op\<close> lists its state-changing
  operations so that runs of them can be stated.
\<close>

section \<open>State\<close>

record UTXO =
  u_id :: string
  u_txid :: string
  u_vout :: int
  u_address :: string
  u_amount :: jsnum
  u_confirmations :: int
  u_script :: string
  u_locked :: bool
  u_label :: "string option"
  u_note :: "string option"
  u_privacyScore :: jsnum
  u_ageInBlocks :: int

record UTXOFilter =
  minAmount :: "jsnum option"
  maxAmount :: "jsnum option"
  minConfirmations :: "int option"
  f_address :: "string option"
  f_locked :: "bool option"

definition no_filter :: UTXOFilter where
  "no_filter = \<lparr>minAmount = None, maxAmount = None, minConfirmations = None,
     f_address = None, f_locked = None\<rparr>"

record utxo_state =
  utxos :: "(string, UTXO) jsmap"
  utxo_item :: "UTXO list item"
  is_browser :: bool

section \<open>Operations\<close>

definition loadUTXOs :: "bool \<Rightarrow> UTXO list item \<Rightarrow> js_error + utxo_state" where
  "loadUTXOs browser i =
     (if \<not> browser then Inr \<lparr>utxos = [], utxo_item = i, is_browser = browser\<rparr>
      else case parse_item [] i of
        Inl e \<Rightarrow> Inl e
      | Inr us \<Rightarrow> Inr \<lparr>utxos = load_values u_id us, utxo_item = i, is_browser = browser\<rparr>)"

definition saveUTXOs :: "utxo_state \<Rightarrow> utxo_state" where
  "saveUTXOs s = (if \<not> is_browser s then s else s\<lparr>utxo_item := Json (map snd (utxos s))\<rparr>)"

text \<open>One \<open>if (filter.x !== undefined) utxos = utxos.filter(...)\<close>.\<close>

definition opt_filter :: "'b option \<Rightarrow> ('b \<Rightarrow> 'a \<Rightarrow> bool) \<Rightarrow> 'a list \<Rightarrow> 'a list" where
  "opt_filter x p xs = (case x of None \<Rightarrow> xs | Some v \<Rightarrow> filter (p v) xs)"

definition apply_filter :: "UTXOFilter \<Rightarrow> UTXO list \<Rightarrow> UTXO list" where
  "apply_filter f us =
     (let us = opt_filter (minAmount f) (\<lambda>m u. u_amount u \<ge> m) us;
          us = opt_filter (maxAmount f) (\<lambda>m u. u_amount u \<le> m) us;
          us = opt_filter (minConfirmations f) (\<lambda>m u. u_confirmations u \<ge> m) us;
          us = (if truthy_string (f_address f)
                then filter (\<lambda>u. str_includes (u_address u) (the (f_address f))) us else us)
      in opt_filter (f_locked f) (\<lambda>l u. u_locked u = l) us)"

definition getAllUTXOs :: "UTXOFilter option \<Rightarrow> utxo_state \<Rightarrow> UTXO list" where
  "getAllUTXOs f s =
     (case f of None \<Rightarrow> map snd (utxos s) | Some f \<Rightarrow> apply_filter f (map snd (utxos s)))"

definition getUTXO :: "string \<Rightarrow> utxo_state \<Rightarrow> UTXO option" where
  "getUTXO i s = map_of (utxos s) i"

text \<open>
  The four setters share their shape: fetch the object, write one field in place, save.
\<close>

definition modify_utxo :: "string \<Rightarrow> (UTXO \<Rightarrow> UTXO) \<Rightarrow> utxo_state \<Rightarrow> utxo_state" where
  "modify_utxo i f s =
     (case map_of (utxos s) i of
        None \<Rightarrow> s
      | Some u \<Rightarrow> saveUTXOs (s\<lparr>utxos := AList.update i (f u) (utxos s)\<rparr>))"

definition lockUTXO :: "string \<Rightarrow> utxo_state \<Rightarrow> utxo_state" where
  "lockUTXO i = modify_utxo i (\<lambda>u. u\<lparr>u_locked := True\<rparr>)"

definition unlockUTXO :: "string \<Rightarrow> utxo_state \<Rightarrow> utxo_state" where
  "unlockUTXO i = modify_utxo i (\<lambda>u. u\<lparr>u_locked := False\<rparr>)"

definition setUTXOLabel :: "string \<Rightarrow> string \<Rightarrow> utxo_state \<Rightarrow> utxo_state" where
  "setUTXOLabel i l = modify_utxo i (\<lambda>u. u\<lparr>u_label := Some l\<rparr>)"

definition setUTXONote :: "string \<Rightarrow> string \<Rightarrow> utxo_state \<Rightarrow> utxo_state" where
  "setUTXONote i n = modify_utxo i (\<lambda>u. u\<lparr>u_note := Some n\<rparr>)"

datatype strategy = Largest_first | Smallest_first | Oldest_first | Best_privacy

fun sort_by_strategy :: "strategy \<Rightarrow> UTXO list \<Rightarrow> UTXO list" where
  "sort_by_strategy Largest_first us = sort_desc u_amount us"
| "sort_by_strategy Smallest_first us = sort_key u_amount us"
| "sort_by_strategy Oldest_first us = sort_desc u_ageInBlocks us"
| "sort_by_strategy Best_privacy us = sort_desc u_privacyScore us"

definition unlocked_filter :: UTXOFilter where
  "unlocked_filter = no_filter\<lparr>f_locked := Some False\<rparr>"

definition selectUTXOs :: "jsnum \<Rightarrow> strategy \<Rightarrow> utxo_state \<Rightarrow> js_error + UTXO list" where
  "selectUTXOs target strat s =
     (let available = sort_by_strategy strat (getAllUTXOs (Some unlocked_filter) s);
          (selected, t) = select_until u_amount target 0 available
      in if t < target then Inl (Error ''Insufficient funds'') else Inr selected)"

definition consolidateDust :: "jsnum \<Rightarrow> utxo_state \<Rightarrow> UTXO list \<times> jsnum" where
  "consolidateDust threshold s =
     (let dust = getAllUTXOs (Some (unlocked_filter\<lparr>maxAmount := Some threshold\<rparr>)) s
      in (dust, sum_by u_amount dust))"

record utxo_stats =
  totalUTXOs :: nat
  totalValue :: jsnum
  lockedUTXOs :: nat
  lockedValue :: jsnum
  averageValue :: jsnum
  averageAge :: jsnum

definition getStatistics :: "utxo_state \<Rightarrow> utxo_stats" where
  "getStatistics s =
     (let all = getAllUTXOs None s; locked = filter u_locked all
      in \<lparr>totalUTXOs = length all,
          totalValue = sum_by u_amount all,
          lockedUTXOs = length locked,
          lockedValue = sum_by u_amount locked,
          averageValue = (if length all > 0 then sum_by u_amount all / of_nat (length all) else 0),
          averageAge = (if length all > 0
             then sum_by (\<lambda>u. of_int (u_ageInBlocks u)) all / of_nat (length all) else 0)\<rparr>)"

definition clearAllData :: "utxo_state \<Rightarrow> utxo_state" where
  "clearAllData s = s\<lparr>utxos := [], utxo_item := Absent\<rparr>"

datatype utxo_op =
    Lock string | Unlock string | Label string string | Note string string | Clear

fun utxo_step :: "utxo_op \<Rightarrow> utxo_state \<Rightarrow> utxo_state" where
  "utxo_step (Lock i) = lockUTXO i"
| "utxo_step (Unlock i) = unlockUTXO i"
| "utxo_step (Label i l) = setUTXOLabel i l"
| "utxo_step (Note i n) = setUTXONote i n"
| "utxo_step Clear = clearAllData"

section \<open>Well-formed states and persistence\<close>

definition utxo_inv :: "utxo_state \<Rightarrow> bool" where
  "utxo_inv s \<longleftrightarrow> is_browser s \<and> keyed u_id (utxos s) \<and> in_sync (utxos s) (utxo_item s)"

text \<open>A page reload: the constructor runs again on what storage holds.\<close>

definition utxo_reload :: "utxo_state \<Rightarrow> utxo_state" where
  "utxo_reload s = (case loadUTXOs (is_browser s) (utxo_item s) of Inl e \<Rightarrow> s | Inr t \<Rightarrow> t)"

lemma modify_utxo_inv:
  assumes "utxo_inv s" and "\<And>u. u_id (f u) = u_id u"
  shows "utxo_inv (modify_utxo i f s)"
  using assms
  by (auto simp: utxo_inv_def modify_utxo_def saveUTXOs_def split: option.splits
      intro!: keyed_set dest: keyed_get)

lemma utxo_step_inv: "utxo_inv s \<Longrightarrow> utxo_inv (utxo_step op s)"
  by (cases op)
    (auto simp: lockUTXO_def unlockUTXO_def setUTXOLabel_def setUTXONote_def modify_utxo_inv,
      simp add: utxo_inv_def clearAllData_def)

lemma utxo_reload_id: "utxo_inv s \<Longrightarrow> utxo_reload s = s"
  by (auto simp: utxo_inv_def utxo_reload_def loadUTXOs_def in_sync_def load_values_inverse)
    (simp add: load_values_def)

interpretation utxo: write_through utxo_step utxo_reload utxo_inv
  by unfold_locales (auto simp: utxo_step_inv utxo_reload_id)

text \<open>
  A session of coin-control operations with a page reload after every single one
  ends in the same state as the session without reloads.
\<close>

theorem utxo_reload_transparent:
  assumes "utxo_inv s"
  shows "fold (\<lambda>op s. utxo_reload (utxo_step op s)) ops s = fold utxo_step ops s"
  using assms by (rule utxo.run_reload)

section \<open>Filtering\<close>

lemma opt_filter_set [simp]:
  "x \<in> set (opt_filter v p xs) \<longleftrightarrow> x \<in> set xs \<and> (\<forall>w. v = Some w \<longrightarrow> p w x)"
  by (auto simp: opt_filter_def split: option.splits)

lemma getAllUTXOs_unlocked:
  "getAllUTXOs (Some unlocked_filter) s = filter (\<lambda>u. \<not> u_locked u) (map snd (utxos s))"
  by (simp add: getAllUTXOs_def apply_filter_def opt_filter_def unlocked_filter_def no_filter_def)

lemma set_sort_by_strategy [simp]: "set (sort_by_strategy st us) = set us"
  by (cases st) auto

lemma mset_sort_by_strategy [simp]: "mset (sort_by_strategy st us) = mset us"
  by (cases st) auto

text \<open>Every condition of the filter holds of what it returns, and nothing else is dropped.\<close>

lemma getAllUTXOs_filter_iff:
  "u \<in> set (getAllUTXOs (Some f) s) \<longleftrightarrow>
     u \<in> snd ` set (utxos s) \<and>
     (\<forall>m. minAmount f = Some m \<longrightarrow> m \<le> u_amount u) \<and>
     (\<forall>m. maxAmount f = Some m \<longrightarrow> u_amount u \<le> m) \<and>
     (\<forall>m. minConfirmations f = Some m \<longrightarrow> m \<le> u_confirmations u) \<and>
     (\<forall>a. f_address f = Some a \<and> a \<noteq> [] \<longrightarrow> str_includes (u_address u) a) \<and>
     (\<forall>l. f_locked f = Some l \<longrightarrow> u_locked u = l)"
  by (auto simp: getAllUTXOs_def apply_filter_def Let_def truthy_string_iff)

section \<open>Selection\<close>

text \<open>The strategies' orders: the loop meets the coins in this order.\<close>

fun strategy_key :: "strategy \<Rightarrow> UTXO \<Rightarrow> jsnum" where
  "strategy_key Largest_first = (\<lambda>u. - u_amount u)"
| "strategy_key Smallest_first = (\<lambda>u. u_amount u)"
| "strategy_key Oldest_first = (\<lambda>u. - of_int (u_ageInBlocks u))"
| "strategy_key Best_privacy = (\<lambda>u. - u_privacyScore u)"

lemma sorted_by_strategy: "sorted (map (strategy_key st) (sort_by_strategy st us))"
proof (cases st)
  case Oldest_first
  have "sorted (map (\<lambda>u. - u_ageInBlocks u) (sort_desc u_ageInBlocks us))"
    by (simp add: sort_desc_def)
  then have "sorted (map real_of_int (map (\<lambda>u. - u_ageInBlocks u) (sort_desc u_ageInBlocks us)))"
    by (auto simp: sorted_iff_nth_mono)
  with Oldest_first show ?thesis by (simp add: comp_def)
qed (simp_all add: sort_desc_def)

lemma selectUTXOs_Inr:
  assumes "selectUTXOs target st s = Inr sel"
  obtains t where
    "select_until u_amount target 0
       (sort_by_strategy st (getAllUTXOs (Some unlocked_filter) s)) = (sel, t)"
    "target \<le> t"
  using assms by (auto simp: selectUTXOs_def Let_def split: prod.splits if_splits)

text \<open>
  C16: what \<open>selectUTXOs\<close> returns is a prefix of the unlocked coins in the strategy's
  order: no locked coin is selected, no coin twice, its sum reaches the target, and
  without its last coin it would not reach it.
\<close>

theorem selectUTXOs_sound:
  assumes inv: "utxo_inv s" and sel: "selectUTXOs target st s = Inr sel"
  shows "(\<forall>u \<in> set sel. u \<in> snd ` set (utxos s) \<and> \<not> u_locked u) \<and> distinct sel \<and>
    sorted (map (strategy_key st) sel) \<and> target \<le> sum_by u_amount sel \<and>
    (\<forall>us u. sel = us @ [u] \<and> us \<noteq> [] \<longrightarrow> sum_by u_amount us < target)"
proof -
  let ?av = "sort_by_strategy st (getAllUTXOs (Some unlocked_filter) s)"
  obtain t where loop: "select_until u_amount target 0 ?av = (sel, t)" and t: "target \<le> t"
    using sel by (rule selectUTXOs_Inr)
  obtain n where n: "sel = take n ?av" using su.prefix_sel [OF loop] by blast
  have "distinct (map snd (utxos s))"
    using inv keyed_values_distinct by (auto simp: utxo_inv_def)
  then have d: "distinct ?av"
    by (metis getAllUTXOs_unlocked distinct_filter mset_sort_by_strategy mset_eq_imp_distinct_iff)
  have "sorted (map (strategy_key st) sel)"
    using sorted_by_strategy n by (metis sorted_wrt_take take_map)
  then show ?thesis
    using su.subset_sel [OF loop] su.distinct_sel [OF loop d] su.sum_sel [OF loop] t
      su.minimal [of u_amount target ?av] loop
    by (auto simp: getAllUTXOs_unlocked)
qed

text \<open>
  C17: with coins that are not negative, \<open>selectUTXOs\<close> throws 'Insufficient funds' exactly
  when the unlocked coins together do not reach the target, whatever the strategy.
\<close>

theorem selectUTXOs_complete:
  assumes "\<forall>u \<in> snd ` set (utxos s). 0 \<le> u_amount u"
  shows "selectUTXOs target st s = Inl (Error ''Insufficient funds'') \<longleftrightarrow>
    sum_by u_amount (filter (\<lambda>u. \<not> u_locked u) (map snd (utxos s))) < target"
proof -
  let ?av = "sort_by_strategy st (getAllUTXOs (Some unlocked_filter) s)"
  obtain sel t where loop: "select_until u_amount target 0 ?av = (sel, t)" by force
  have nn: "\<And>u. u \<in> set ?av \<Longrightarrow> 0 \<le> u_amount u"
    using assms by (auto simp: getAllUTXOs_unlocked)
  have "sum_by u_amount ?av = sum_by u_amount (getAllUTXOs (Some unlocked_filter) s)"
    by (rule sum_by_mset) simp
  then show ?thesis
    using su.short_iff [OF loop nn] loop by (simp add: selectUTXOs_def getAllUTXOs_unlocked)
qed

section \<open>A concrete wallet\<close>

definition demo_utxo :: "string \<Rightarrow> jsnum \<Rightarrow> bool \<Rightarrow> UTXO" where
  "demo_utxo i a l = \<lparr>u_id = i, u_txid = i, u_vout = 0, u_address = ''KC1'', u_amount = a,
     u_confirmations = 6, u_script = '''', u_locked = l, u_label = None, u_note = None,
     u_privacyScore = 50, u_ageInBlocks = 10\<rparr>"

definition demo_utxos :: utxo_state where
  "demo_utxos = \<lparr>utxos = [(''a'', demo_utxo ''a'' 1 False), (''b'', demo_utxo ''b'' 5 True),
       (''c'', demo_utxo ''c'' 3 False)],
     utxo_item = Json [demo_utxo ''a'' 1 False, demo_utxo ''b'' 5 True, demo_utxo ''c'' 3 False],
     is_browser = True\<rparr>"

lemma demo_utxos_inv: "utxo_inv demo_utxos"
  by (simp add: utxo_inv_def demo_utxos_def keyed_def in_sync_def demo_utxo_def)

lemma demo_selection:
  "selectUTXOs 4 Largest_first demo_utxos = Inr [demo_utxo ''c'' 3 False, demo_utxo ''a'' 1 False]"
  by (simp add: selectUTXOs_def getAllUTXOs_unlocked demo_utxos_def demo_utxo_def sort_desc_def)

theorem selectUTXOs_sound_witness:
  "selectUTXOs 4 Largest_first demo_utxos = Inr [demo_utxo ''c'' 3 False, demo_utxo ''a'' 1 False] \<and>
   4 \<le> sum_by u_amount [demo_utxo ''c'' 3 False, demo_utxo ''a'' 1 False]"
  using selectUTXOs_sound [OF demo_utxos_inv demo_selection] demo_selection by blast

theorem selectUTXOs_complete_witness:
  "selectUTXOs 5 Smallest_first demo_utxos = Inl (Error ''Insufficient funds'')"
proof -
  have "\<forall>u \<in> snd ` set (utxos demo_utxos). 0 \<le> u_amount u"
    by (auto simp: demo_utxos_def demo_utxo_def)
  from selectUTXOs_complete [OF this, where target = 5 and st = Smallest_first]
  show ?thesis by (simp add: demo_utxos_def demo_utxo_def)
qed

theorem utxo_reload_transparent_witness:
  "fold (\<lambda>op s. utxo_reload (utxo_step op s)) [Unlock ''b'', Lock ''a''] demo_utxos =
   fold utxo_step [Unlock ''b'', Lock ''a''] demo_utxos"
  by (rule utxo_reload_transparent [OF demo_utxos_inv])

end
