(* ===== verification/FeeManager.thy ===== *)
theory FeeManager
  imports JsStore
begin

text \<open>
  The fee manager (services/feeManager.ts): the simulated fee market with its bounded
  history, estimates by interpolation, and the fees of plain, replacing and child
  transactions. Block targets and counts are integers, rates in the market are the rounded
  integers of the code.
\<close>

section \<open>State\<close>

record FeeEstimate =
  targetBlocks :: int
  feeRate :: int
  estimatedTime :: string

record FeeMarketData =
  fm_timestamp :: int
  slow :: FeeEstimate
  medium :: FeeEstimate
  fast :: FeeEstimate
  urgent :: FeeEstimate
  mempoolSize :: int
  mempoolBytes :: int

record FeeHistoryPoint =
  hp_timestamp :: int
  hp_slow :: int
  hp_medium :: int
  hp_fast :: int

record fee_state =
  currentMarket :: "FeeMarketData option"
  history :: "FeeHistoryPoint list"
  history_item :: "FeeHistoryPoint list item"

definition MAX_HISTORY :: nat where
  "MAX_HISTORY = 144"

section \<open>The market\<close>

definition loadHistory :: "FeeHistoryPoint list item \<Rightarrow> js_error + fee_state" where
  "loadHistory i = (case parse_item [] i of
     Inl e \<Rightarrow> Inl e
   | Inr h \<Rightarrow> Inr \<lparr>currentMarket = None, history = h, history_item = i\<rparr>)"

definition saveHistory :: "fee_state \<Rightarrow> fee_state" where
  "saveHistory s =
     (let h = (if length (history s) > MAX_HISTORY then slice_last MAX_HISTORY (history s) else history s)
      in s\<lparr>history := h, history_item := Json h\<rparr>)"

text \<open>\<open>updateFeeMarket\<close>: the three calls of \<open>Math.random()\<close> are arguments.\<close>

definition market_at :: "int \<Rightarrow> jsnum \<Rightarrow> jsnum \<Rightarrow> jsnum \<Rightarrow> FeeMarketData" where
  "market_at now r1 r2 r3 =
     (let baseRate = 10 + r1 * 50
      in \<lparr>fm_timestamp = now,
          slow = \<lparr>targetBlocks = 144, feeRate = Math_round (baseRate * (1 / 2)), estimatedTime = ''~24 hours''\<rparr>,
          medium = \<lparr>targetBlocks = 6, feeRate = Math_round baseRate, estimatedTime = ''~1 hour''\<rparr>,
          fast = \<lparr>targetBlocks = 2, feeRate = Math_round (baseRate * (3 / 2)), estimatedTime = ''~20 minutes''\<rparr>,
          urgent = \<lparr>targetBlocks = 1, feeRate = Math_round (baseRate * (5 / 2)), estimatedTime = ''Next block''\<rparr>,
          mempoolSize = Math_round (5000 + r2 * 50000),
          mempoolBytes = Math_round (10000000 + r3 * 100000000)\<rparr>)"

definition updateFeeMarket :: "clock \<Rightarrow> jsnum \<Rightarrow> jsnum \<Rightarrow> jsnum \<Rightarrow> fee_state \<Rightarrow> FeeMarketData \<times> fee_state" where
  "updateFeeMarket clk r1 r2 r3 s =
     (let m = market_at (clk 0) r1 r2 r3;
          p = \<lparr>hp_timestamp = clk 1, hp_slow = feeRate (slow m), hp_medium = feeRate (medium m),
               hp_fast = feeRate (fast m)\<rparr>
      in (m, saveHistory (s\<lparr>currentMarket := Some m, history := history s @ [p]\<rparr>)))"

definition getFeeHistory :: "int \<Rightarrow> jsnum \<Rightarrow> fee_state \<Rightarrow> FeeHistoryPoint list" where
  "getFeeHistory now hours s =
     filter (\<lambda>p. of_int (hp_timestamp p) \<ge> of_int now - hours * 60 * 60 * 1000) (history s)"

section \<open>Estimates\<close>

definition plural :: "int \<Rightarrow> string" where
  "plural n = (if n > 1 then ''s'' else '''')"

definition estimateTime :: "int \<Rightarrow> string" where
  "estimateTime blocks =
     (let minutes = blocks * 10
      in if minutes < 60 then ''~'' @ show_int minutes @ '' minutes''
         else
           let hours = Math_round (of_int minutes / 60)
           in if hours < 24 then ''~'' @ show_int hours @ '' hour'' @ plural hours
              else let days = Math_round (of_int hours / 24)
                   in ''~'' @ show_int days @ '' day'' @ plural days)"

definition interpolate :: "FeeEstimate \<Rightarrow> FeeEstimate \<Rightarrow> int \<Rightarrow> int \<Rightarrow> int \<Rightarrow> FeeEstimate" where
  "interpolate lower upper target lowerBlocks upperBlocks =
     (let ratio = of_int (target - lowerBlocks) / of_int (upperBlocks - lowerBlocks)
      in \<lparr>targetBlocks = target,
          feeRate = Math_round (of_int (feeRate lower) + of_int (feeRate upper - feeRate lower) * ratio),
          estimatedTime = estimateTime target\<rparr>)"

text \<open>
  Block targets are at least one (the fallback divides by the root of the target, which for
  other targets would be an infinity or no number).
\<close>

definition estimateFee :: "int \<Rightarrow> fee_state \<Rightarrow> FeeEstimate" where
  "estimateFee target s =
     (case currentMarket s of
        None \<Rightarrow> \<lparr>targetBlocks = target, feeRate = Math_round (20 / sqrt (of_int target)),
                 estimatedTime = estimateTime target\<rparr>
      | Some m \<Rightarrow>
          if target \<ge> 144 then slow m
          else if target \<ge> 6 then interpolate (medium m) (slow m) target 6 144
          else if target \<ge> 2 then interpolate (fast m) (medium m) target 2 6
          else urgent m)"

definition tx_vbytes :: "int \<Rightarrow> int \<Rightarrow> jsnum" where
  "tx_vbytes inputCount outputCount = of_int (10 + inputCount * 148 + outputCount * 34)"

definition calculateTxFee :: "int \<Rightarrow> int \<Rightarrow> jsnum \<Rightarrow> jsnum" where
  "calculateTxFee inputCount outputCount rate = tx_vbytes inputCount outputCount * rate / 100000000"

definition calculateRBFFee :: "jsnum \<Rightarrow> int \<Rightarrow> int \<Rightarrow> jsnum" where
  "calculateRBFFee originalFee inputCount outputCount =
     (let vBytes = tx_vbytes inputCount outputCount;
          originalFeeRate = originalFee * 100000000 / vBytes;
          newFeeRate = originalFeeRate + 5
      in calculateTxFee inputCount outputCount newFeeRate)"

definition calculateCPFPFee :: "jsnum \<Rightarrow> jsnum \<Rightarrow> int \<Rightarrow> int \<Rightarrow> jsnum \<Rightarrow> jsnum" where
  "calculateCPFPFee parentFee parentSize childInputCount childOutputCount targetFeeRate =
     (let childSize = tx_vbytes childInputCount childOutputCount;
          totalSize = parentSize + childSize;
          totalFeeNeeded = totalSize * targetFeeRate / 100000000;
          childFee = totalFeeNeeded - parentFee
      in max childFee (1 / 100000))"

definition getMempoolInfo :: "fee_state \<Rightarrow> int \<times> int" where
  "getMempoolInfo s = (case currentMarket s of None \<Rightarrow> (0, 0) | Some m \<Rightarrow> (mempoolSize m, mempoolBytes m))"

datatype urgency = Slow | Medium | Fast | Urgent

definition getRecommendedFee :: "urgency \<Rightarrow> fee_state \<Rightarrow> int" where
  "getRecommendedFee u s =
     (case currentMarket s of
        None \<Rightarrow> 20
      | Some m \<Rightarrow> feeRate (case u of Slow \<Rightarrow> slow m | Medium \<Rightarrow> medium m | Fast \<Rightarrow> fast m | Urgent \<Rightarrow> urgent m))"

definition clearHistory :: "fee_state \<Rightarrow> fee_state" where
  "clearHistory s = s\<lparr>history := [], history_item := Absent\<rparr>"

section \<open>The market is ordered and the history bounded\<close>

definition ordered_market :: "FeeMarketData \<Rightarrow> bool" where
  "ordered_market m \<longleftrightarrow> 5 \<le> feeRate (slow m) \<and> feeRate (slow m) \<le> feeRate (medium m) \<and>
     feeRate (medium m) \<le> feeRate (fast m) \<and> feeRate (fast m) \<le> feeRate (urgent m) \<and>
     feeRate (urgent m) \<le> 150"

definition fee_inv :: "fee_state \<Rightarrow> bool" where
  "fee_inv s \<longleftrightarrow> (\<forall>m. currentMarket s = Some m \<longrightarrow> ordered_market m) \<and> length (history s) \<le> MAX_HISTORY \<and>
     (history_item s = Json (history s) \<or> (history s = [] \<and> history_item s = Absent))"

lemma market_ordered:
  assumes "0 \<le> r1" and "r1 < 1"
  shows "ordered_market (market_at now r1 r2 r3)"
proof -
  define b where "b = 10 + r1 * 50"
  have b: "10 \<le> b" "b \<le> 60" using assms by (simp_all add: b_def)
  have "5 \<le> Math_round (b * (1 / 2))" "Math_round (b * (5 / 2)) \<le> 150"
    using Math_round_ivl [of 5 "b * (1 / 2)" 30] Math_round_ivl [of 25 "b * (5 / 2)" 150] b by simp_all
  moreover have "Math_round (b * (1 / 2)) \<le> Math_round b" "Math_round b \<le> Math_round (b * (3 / 2))"
    "Math_round (b * (3 / 2)) \<le> Math_round (b * (5 / 2))"
    using b by (simp_all add: Math_round_mono)
  ultimately show ?thesis by (simp add: ordered_market_def market_at_def b_def [symmetric] Let_def)
qed

lemma saveHistory_fields [simp]: "currentMarket (saveHistory s) = currentMarket s"
  by (simp add: saveHistory_def Let_def)

lemma saveHistory_bounded: "length (history (saveHistory s)) \<le> MAX_HISTORY"
  by (simp add: saveHistory_def slice_last_def MAX_HISTORY_def Let_def)

lemma saveHistory_stored: "history_item (saveHistory s) = Json (history (saveHistory s))"
  by (simp add: saveHistory_def Let_def)

text \<open>
  The fee market. Every update, with the random numbers in [0, 1), gives rates with
  5 <= slow <= medium <= fast <= urgent <= 150, keeps at most 144 points of history and stores
  them.
\<close>

theorem updateFeeMarket_inv:
  assumes "0 \<le> r1" and "r1 < 1"
  shows "fee_inv (snd (updateFeeMarket clk r1 r2 r3 s))"
  using market_ordered [OF assms] saveHistory_bounded saveHistory_stored
  by (simp add: updateFeeMarket_def fee_inv_def Let_def)

theorem updateFeeMarket_inv_witness:
  "fee_inv (snd (updateFeeMarket (\<lambda>_. 0) (1 / 2) 0 0 \<lparr>currentMarket = None, history = [], history_item = Absent\<rparr>))"
  by (rule updateFeeMarket_inv) simp_all

section \<open>Estimates fall with the target\<close>

lemma interpolate_mono:
  assumes "feeRate upper \<le> feeRate lower" and "t \<le> t'" and "lb < ub"
  shows "feeRate (interpolate lower upper t' lb ub) \<le> feeRate (interpolate lower upper t lb ub)"
proof -
  have "(of_int (t - lb) / of_int (ub - lb) :: real) \<le> of_int (t' - lb) / of_int (ub - lb)"
    using assms by (simp add: divide_right_mono)
  then have "of_int (feeRate upper - feeRate lower) * (of_int (t' - lb) / of_int (ub - lb))
      \<le> (of_int (feeRate upper - feeRate lower) * (of_int (t - lb) / of_int (ub - lb)) :: real)"
    using assms(1) by (intro mult_left_mono_neg) simp_all
  then show ?thesis unfolding interpolate_def Let_def by (simp add: Math_round_mono)
qed

lemma interpolate_ends:
  assumes "lb < ub"
  shows "feeRate (interpolate lower upper lb lb ub) = feeRate lower"
    "feeRate (interpolate lower upper ub lb ub) = feeRate upper"
proof -
  have "(of_int (ub - lb) :: real) \<noteq> 0" using assms by simp
  then have "(of_int (ub - lb) / of_int (ub - lb) :: real) = 1" by simp
  then have "of_int (feeRate lower) + of_int (feeRate upper - feeRate lower) *
      (of_int (ub - lb) / of_int (ub - lb)) = (of_int (feeRate upper) :: real)" by (simp only: mult_1_right)
  then show "feeRate (interpolate lower upper ub lb ub) = feeRate upper"
    unfolding interpolate_def Let_def by (simp only: FeeEstimate.select_convs Math_round_of_int)
qed (simp add: interpolate_def Let_def)

lemma interpolate_between:
  assumes "feeRate upper \<le> feeRate lower" and "lb \<le> t" and "t \<le> ub" and "lb < ub"
  shows "feeRate upper \<le> feeRate (interpolate lower upper t lb ub)"
    and "feeRate (interpolate lower upper t lb ub) \<le> feeRate lower"
  using interpolate_mono [OF assms(1) assms(3,4)] interpolate_mono [OF assms(1) assms(2,4)]
  by (simp_all only: interpolate_ends [OF assms(4)])

text \<open>
  With a market, waiting longer never costs more: a larger block target gets an estimate
  that is not higher, and every estimate lies between the slow and the urgent rate.
\<close>

theorem estimateFee_antitone:
  assumes "fee_inv s" and "currentMarket s = Some m" and "t \<le> t'"
  shows "feeRate (estimateFee t' s) \<le> feeRate (estimateFee t s) \<and>
    feeRate (slow m) \<le> feeRate (estimateFee t s) \<and> feeRate (estimateFee t s) \<le> feeRate (urgent m)"
proof -
  have o: "feeRate (slow m) \<le> feeRate (medium m)" "feeRate (medium m) \<le> feeRate (fast m)"
    "feeRate (fast m) \<le> feeRate (urgent m)"
    using assms(1,2) by (auto simp: fee_inv_def ordered_market_def)
  have slow_part: "feeRate (slow m) \<le> feeRate (interpolate (medium m) (slow m) x 6 144)"
    "feeRate (interpolate (medium m) (slow m) x 6 144) \<le> feeRate (medium m)" if "6 \<le> x" "x < 144" for x
    using interpolate_between [OF o(1), of 6 x 144] that by simp_all
  have fast_part: "feeRate (medium m) \<le> feeRate (interpolate (fast m) (medium m) x 2 6)"
    "feeRate (interpolate (fast m) (medium m) x 2 6) \<le> feeRate (fast m)" if "2 \<le> x" "x < 6" for x
    using interpolate_between [OF o(2), of 2 x 6] that by simp_all
  have step: "feeRate (interpolate (medium m) (slow m) t' 6 144) \<le> feeRate (interpolate (medium m) (slow m) t 6 144)"
    "feeRate (interpolate (fast m) (medium m) t' 2 6) \<le> feeRate (interpolate (fast m) (medium m) t 2 6)"
    using interpolate_mono [OF o(1) assms(3), of 6 144] interpolate_mono [OF o(2) assms(3), of 2 6] by simp_all
  have late: "feeRate (slow m) \<le> feeRate (estimateFee x s) \<and> feeRate (estimateFee x s) \<le> feeRate (medium m)" if "6 \<le> x" for x
    using that o(1) slow_part [of x] by (simp add: estimateFee_def assms(2))
  have early: "feeRate (medium m) \<le> feeRate (estimateFee x s) \<and> feeRate (estimateFee x s) \<le> feeRate (urgent m)" if "x < 6" for x
    using that o(2,3) order_trans [OF fast_part(2) [of x] o(3)] fast_part(1) [of x] order_trans [OF o(2,3)]
    by (simp add: estimateFee_def assms(2))
  have "feeRate (slow m) \<le> feeRate (estimateFee x s) \<and> feeRate (estimateFee x s) \<le> feeRate (urgent m)" for x
    using late [of x] early [of x] o by (cases "x < 6") auto
  moreover have "feeRate (estimateFee t' s) \<le> feeRate (estimateFee t s)"
  proof (cases "t < 6")
    case True
    then show ?thesis
      using early [of t] late [of t'] o(2,3) assms(3) fast_part [of t'] step(2) order_trans [OF fast_part(2) [of t'] o(3)]
      by (cases "t' < 6") (auto simp: estimateFee_def assms(2))
  next
    case False
    then show ?thesis using assms(3) slow_part(1) [of t] step(1) by (auto simp: estimateFee_def assms(2))
  qed
  ultimately show ?thesis by blast
qed

definition demo_market :: fee_state where
  "demo_market = snd (updateFeeMarket (\<lambda>_. 0) (1 / 2) 0 0 \<lparr>currentMarket = None, history = [], history_item = Absent\<rparr>)"

theorem estimateFee_antitone_witness:
  "feeRate (estimateFee 10 demo_market) \<le> feeRate (estimateFee 3 demo_market)"
proof -
  have "fee_inv demo_market" unfolding demo_market_def
    using market_ordered [of "1 / 2"] saveHistory_bounded saveHistory_stored
    by (simp add: updateFeeMarket_def fee_inv_def Let_def)
  moreover have "currentMarket demo_market = Some (market_at 0 (1 / 2) 0 0)"
    by (simp add: demo_market_def updateFeeMarket_def Let_def)
  ultimately show ?thesis using estimateFee_antitone [of demo_market _ 3 10] by simp
qed

section \<open>Fees of replacements and children\<close>

lemma tx_vbytes_pos: "0 \<le> i \<Longrightarrow> 0 \<le> j \<Longrightarrow> 0 < tx_vbytes i j"
  unfolding tx_vbytes_def by (simp only: of_int_0_less_iff)

text \<open>
  C25: a replacement pays the original fee plus five units per byte, so strictly more; and a
  child pays at least enough to lift parent and child together to the target rate, and never
  less than the dust limit.
\<close>

theorem rbf_and_cpfp_suffice:
  assumes "0 \<le> inputs" and "0 \<le> outputs"
  shows "calculateRBFFee fee inputs outputs = fee + calculateTxFee inputs outputs 5 \<and>
    fee < calculateRBFFee fee inputs outputs \<and>
    (parentSize + tx_vbytes inputs outputs) * rate / 100000000
      \<le> parentFee + calculateCPFPFee parentFee parentSize inputs outputs rate \<and>
    1 / 100000 \<le> calculateCPFPFee parentFee parentSize inputs outputs rate"
proof -
  have v: "0 < tx_vbytes inputs outputs" by (rule tx_vbytes_pos [OF assms])
  then have r: "calculateRBFFee fee inputs outputs = fee + calculateTxFee inputs outputs 5"
    by (simp add: calculateRBFFee_def calculateTxFee_def Let_def field_simps)
  moreover have "0 < calculateTxFee inputs outputs 5" using v by (simp add: calculateTxFee_def)
  moreover have "(parentSize + tx_vbytes inputs outputs) * rate / 100000000
      \<le> parentFee + calculateCPFPFee parentFee parentSize inputs outputs rate"
    "1 / 100000 \<le> calculateCPFPFee parentFee parentSize inputs outputs rate"
    unfolding calculateCPFPFee_def Let_def by linarith+
  ultimately show ?thesis by simp
qed

theorem rbf_and_cpfp_suffice_witness:
  "(1 / 1000) < calculateRBFFee (1 / 1000) 2 2"
  using rbf_and_cpfp_suffice [of 2 2 "1 / 1000" 0 0 0] by linarith

end
