(* ===== verification/Threshold.thy ===== *)
theory Threshold
  imports JsStore
begin

text \<open>
  The contract behind multisig.ts, multisigWallet.ts and signatureManager.ts: signatures are
  added to a request one at a time, a signer at most once, and the request is approved when
  enough have been added. The quorum theorem is proved here once, for any such collection.
\<close>

section \<open>Running a fallible step over a list\<close>

fun fold_result :: "('a \<Rightarrow> 't \<Rightarrow> js_error + 't) \<Rightarrow> 'a list \<Rightarrow> 't \<Rightarrow> js_error + 't" where
  "fold_result f [] t = Inr t"
| "fold_result f (x # xs) t = (case f x t of Inl e \<Rightarrow> Inl e | Inr t' \<Rightarrow> fold_result f xs t')"

lemma fold_result_Cons_Inr [simp]:
  "fold_result f (x # xs) t = Inr u \<longleftrightarrow> (\<exists>t'. f x t = Inr t' \<and> fold_result f xs t' = Inr u)"
  by (auto split: sum.splits)

section \<open>Threshold collections\<close>

locale threshold_collection =
  fixes add :: "'i \<Rightarrow> 'sid \<Rightarrow> 't \<Rightarrow> js_error + 't"
    and signers :: "'t \<Rightarrow> 'sid list"
    and approved :: "'t \<Rightarrow> bool"
    and required :: "'t \<Rightarrow> int"
    and allowed :: "'sid \<Rightarrow> bool"
  assumes add_signers: "add i x t = Inr t' \<Longrightarrow> x \<notin> set (signers t) \<and> signers t' = signers t @ [x]"
    and add_allowed: "add i x t = Inr t' \<Longrightarrow> allowed x"
    and add_approved: "add i x t = Inr t' \<Longrightarrow> approved t' \<Longrightarrow>
          approved t \<or> required t' \<le> int (length (signers t'))"
    and add_required: "add i x t = Inr t' \<Longrightarrow> required t' = required t"
begin

lemma collect_required:
  "fold_result (\<lambda>(i, x). add i x) xs t = Inr u \<Longrightarrow> required u = required t"
  by (induction xs arbitrary: t) (auto split: sum.splits dest: add_required)

lemma collect_signers:
  "fold_result (\<lambda>(i, x). add i x) xs t = Inr u \<Longrightarrow> signers u = signers t @ map snd xs"
  by (induction xs arbitrary: t) (auto split: sum.splits dest: add_signers)

lemma collect_distinct:
  "fold_result (\<lambda>(i, x). add i x) xs t = Inr u \<Longrightarrow> distinct (signers t) \<Longrightarrow> distinct (signers u)"
proof (induction xs arbitrary: t)
  case Nil
  then show ?case by simp
next
  case (Cons p xs)
  then obtain t' where t': "add (fst p) (snd p) t = Inr t'"
    "fold_result (\<lambda>(i, x). add i x) xs t' = Inr u"
    by (cases p) (auto split: sum.splits)
  with Cons.prems(2) have "distinct (signers t')" by (auto dest: add_signers)
  with t' Cons.IH show ?case by blast
qed

lemma collect_allowed:
  "fold_result (\<lambda>(i, x). add i x) xs t = Inr u \<Longrightarrow> x \<in> set (map snd xs) \<Longrightarrow> allowed x"
  by (induction xs arbitrary: t) (auto split: sum.splits dest: add_allowed)

lemma collect_approved:
  "fold_result (\<lambda>(i, x). add i x) xs t = Inr u \<Longrightarrow> approved u \<Longrightarrow>
     approved t \<or> required t \<le> int (length (signers u))"
proof (induction xs arbitrary: t)
  case Nil
  then show ?case by simp
next
  case (Cons p xs)
  then obtain t' where t': "add (fst p) (snd p) t = Inr t'"
    "fold_result (\<lambda>(i, x). add i x) xs t' = Inr u"
    by (cases p) (auto split: sum.splits)
  from Cons.IH [OF t'(2) Cons.prems(2)] show ?case
  proof
    assume "approved t'"
    then have "approved t \<or> required t \<le> int (length (signers t'))"
      using add_approved [OF t'(1)] add_required [OF t'(1)] by auto
    moreover have "length (signers t') \<le> length (signers u)"
      using collect_signers [OF t'(2)] by simp
    ultimately show ?thesis by linarith
  qed (simp add: add_required [OF t'(1)])
qed

text \<open>A request that was not approved becomes so only with a quorum of different signers.\<close>

lemma quorum:
  assumes "fold_result (\<lambda>(i, x). add i x) xs t = Inr u"
    and "\<not> approved t" and "approved u" and "distinct (signers t)"
  shows "required t \<le> int (card (set (signers u)))"
  using collect_approved [OF assms(1,3)] collect_distinct [OF assms(1,4)] assms(2)
  by (simp add: distinct_card)

end

end
