(* ===== verification/Multisig.thy ===== *)
theory Multisig
  imports Threshold
begin

text \<open>
  The multi-signature wallet service of services/multisig.ts: wallets with their
  co-signers, pending transactions that collect signatures, both written to storage.
\<close>

section \<open>State\<close>

record CoSigner =
  cs_id :: string
  cs_name :: string
  cs_publicKey :: string
  cs_email :: "string option"
  cs_addedAt :: int

text \<open>\<open>Omit<CoSigner, 'id' | 'addedAt'>\<close>, what callers pass.\<close>

record CoSignerData =
  cd_name :: string
  cd_publicKey :: string
  cd_email :: "string option"

record MultiSigWallet =
  w_id :: string
  w_label :: string
  w_address :: string
  requiredSignatures :: int
  totalSigners :: int
  coSigners :: "CoSigner list"
  w_createdAt :: int
  w_balance :: jsnum

datatype tx_status = Pending | Completed | Expired | Cancelled

record Signature =
  signerId :: string
  signature :: string
  signedAt :: int

record PendingTransaction =
  t_id :: string
  walletId :: string
  t_to :: string
  t_amount :: jsnum
  t_fee :: jsnum
  createdBy :: string
  t_createdAt :: int
  expiresAt :: int
  signatures :: "Signature list"
  t_status :: tx_status
  description :: "string option"

record ms_state =
  wallets :: "(string, MultiSigWallet) jsmap"
  pendingTxs :: "(string, PendingTransaction) jsmap"
  wallets_item :: "MultiSigWallet list item"
  pending_item :: "PendingTransaction list item"

section \<open>Storage\<close>

definition loadWallets :: "MultiSigWallet list item \<Rightarrow> js_error + (string, MultiSigWallet) jsmap" where
  "loadWallets i = map_sum id (load_values w_id) (parse_item [] i)"

definition loadPendingTransactions ::
    "PendingTransaction list item \<Rightarrow> js_error + (string, PendingTransaction) jsmap" where
  "loadPendingTransactions i = map_sum id (load_values t_id) (parse_item [] i)"

text \<open>The constructor: \<open>loadWallets\<close>, then \<open>loadPendingTransactions\<close>.\<close>

definition new_service ::
    "MultiSigWallet list item \<Rightarrow> PendingTransaction list item \<Rightarrow> js_error + ms_state" where
  "new_service wi ti =
     (case loadWallets wi of Inl e \<Rightarrow> Inl e | Inr ws \<Rightarrow>
      (case loadPendingTransactions ti of Inl e \<Rightarrow> Inl e | Inr ts \<Rightarrow>
        Inr \<lparr>wallets = ws, pendingTxs = ts, wallets_item = wi, pending_item = ti\<rparr>))"

definition saveWallets :: "ms_state \<Rightarrow> ms_state" where
  "saveWallets s = s\<lparr>wallets_item := Json (map snd (wallets s))\<rparr>"

definition savePendingTransactions :: "ms_state \<Rightarrow> ms_state" where
  "savePendingTransactions s = s\<lparr>pending_item := Json (map snd (pendingTxs s))\<rparr>"

section \<open>Operations\<close>

text \<open>
  Wallet creation validates the threshold and then always refuses: the address has to come
  from the node.
\<close>

definition createMultiSigWallet ::
    "string \<Rightarrow> int \<Rightarrow> CoSignerData list \<Rightarrow> (ms_state, MultiSigWallet) eff" where
  "createMultiSigWallet label req cosigners =
     (if req < 1 \<or> req > int (length cosigners) then ethrow (Error ''Invalid signature requirement'')
      else ethrow (Error (''Multisig wallet creation is not yet integrated with the blockchain node. ''
        @ ''Please use the node CLI to create a multisig wallet.'')))"

definition getMultiSigWallets :: "ms_state \<Rightarrow> MultiSigWallet list" where
  "getMultiSigWallets s = map snd (wallets s)"

definition getMultiSigWallet :: "string \<Rightarrow> ms_state \<Rightarrow> MultiSigWallet option" where
  "getMultiSigWallet i s = map_of (wallets s) i"

definition addCoSigner :: "clock \<Rightarrow> string \<Rightarrow> CoSignerData \<Rightarrow> (ms_state, unit) eff" where
  "addCoSigner clk wid cd s =
     (case map_of (wallets s) wid of
        None \<Rightarrow> (Inl (Error ''Wallet not found''), s)
      | Some w \<Rightarrow>
          let new = \<lparr>cs_id = ''signer_'' @ show_nat (length (coSigners w)) @ ''_'' @ show_int (clk 0),
                cs_name = cd_name cd, cs_publicKey = cd_publicKey cd, cs_email = cd_email cd,
                cs_addedAt = clk 1\<rparr>;
              cs = coSigners w @ [new];
              w' = w\<lparr>coSigners := cs, totalSigners := int (length cs)\<rparr>
          in (Inr (), saveWallets (s\<lparr>wallets := AList.update wid w' (wallets s)\<rparr>)))"

text \<open>
  \<open>removeCoSigner\<close> writes the shortened list and the new count into the wallet object
  before it checks the threshold; the throw leaves them there and skips the save.
\<close>

definition removeCoSigner :: "string \<Rightarrow> string \<Rightarrow> (ms_state, unit) eff" where
  "removeCoSigner wid sid s =
     (case map_of (wallets s) wid of
        None \<Rightarrow> (Inl (Error ''Wallet not found''), s)
      | Some w \<Rightarrow>
          let cs = filter (\<lambda>c. cs_id c \<noteq> sid) (coSigners w);
              w' = w\<lparr>coSigners := cs, totalSigners := int (length cs)\<rparr>;
              s' = s\<lparr>wallets := AList.update wid w' (wallets s)\<rparr>
          in if requiredSignatures w' > totalSigners w'
             then (Inl (Error ''Cannot remove signer: would make wallet unusable''), s')
             else (Inr (), saveWallets s'))"

definition seven_days :: int where
  "seven_days = 7 * 24 * 60 * 60 * 1000"

definition createPendingTransaction ::
    "clock \<Rightarrow> string \<Rightarrow> string \<Rightarrow> string \<Rightarrow> jsnum \<Rightarrow> jsnum \<Rightarrow> string \<Rightarrow> string option
     \<Rightarrow> (ms_state, PendingTransaction) eff" where
  "createPendingTransaction clk rnd wid dest amt fee creator descr s =
     (case map_of (wallets s) wid of
        None \<Rightarrow> (Inl (Error ''Wallet not found''), s)
      | Some w \<Rightarrow>
          let tx = \<lparr>t_id = ''pending_'' @ show_int (clk 0) @ ''_'' @ rnd, walletId = wid, t_to = dest,
                t_amount = amt, t_fee = fee, createdBy = creator, t_createdAt = clk 1,
                expiresAt = clk 2 + seven_days, signatures = [], t_status = Pending,
                description = descr\<rparr>
          in (Inr tx, savePendingTransactions
                (s\<lparr>pendingTxs := AList.update (t_id tx) tx (pendingTxs s)\<rparr>)))"

text \<open>
  The part of \<open>signTransaction\<close> after both lookups: the signer checks, the push and the
  threshold test.
\<close>

definition add_signature ::
    "MultiSigWallet \<Rightarrow> string \<times> int \<Rightarrow> string \<Rightarrow> PendingTransaction \<Rightarrow> js_error + PendingTransaction" where
  "add_signature w si sid tx =
     (if \<not> list_ex (\<lambda>c. cs_id c = sid) (coSigners w) then Inl (Error ''Invalid signer'')
      else if list_ex (\<lambda>g. signerId g = sid) (signatures tx)
        then Inl (Error ''Already signed by this signer'')
      else
        let tx1 = tx\<lparr>signatures := signatures tx @
              [\<lparr>signerId = sid, signature = fst si, signedAt = snd si\<rparr>]\<rparr>
        in Inr (if int (length (signatures tx1)) \<ge> requiredSignatures w
                then tx1\<lparr>t_status := Completed\<rparr> else tx1))"

definition signTransaction ::
    "clock \<Rightarrow> string \<Rightarrow> string \<Rightarrow> string \<Rightarrow> (ms_state, PendingTransaction) eff" where
  "signTransaction clk tid sid sig s =
     (case map_of (pendingTxs s) tid of
        None \<Rightarrow> (Inl (Error ''Transaction not found''), s)
      | Some tx \<Rightarrow>
          if t_status tx \<noteq> Pending then (Inl (Error ''Transaction is not pending''), s)
          else case map_of (wallets s) (walletId tx) of
            None \<Rightarrow> (Inl (Error ''Wallet not found''), s)
          | Some w \<Rightarrow>
              (case add_signature w (sig, clk 0) sid tx of
                 Inl e \<Rightarrow> (Inl e, s)
               | Inr tx' \<Rightarrow> (Inr tx', savePendingTransactions
                     (s\<lparr>pendingTxs := AList.update tid tx' (pendingTxs s)\<rparr>))))"

definition getPendingTransactions :: "string option \<Rightarrow> ms_state \<Rightarrow> PendingTransaction list" where
  "getPendingTransactions wid s =
     (let txs = map snd (pendingTxs s);
          txs = (if truthy_string wid then filter (\<lambda>t. walletId t = the wid) txs else txs)
      in sort_desc t_createdAt txs)"

definition cancelTransaction :: "string \<Rightarrow> (ms_state, unit) eff" where
  "cancelTransaction tid s =
     (case map_of (pendingTxs s) tid of
        None \<Rightarrow> (Inl (Error ''Transaction not found''), s)
      | Some tx \<Rightarrow> (Inr (), savePendingTransactions
          (s\<lparr>pendingTxs := AList.update tid (tx\<lparr>t_status := Cancelled\<rparr>) (pendingTxs s)\<rparr>)))"

definition updateThreshold :: "string \<Rightarrow> int \<Rightarrow> (ms_state, unit) eff" where
  "updateThreshold wid n s =
     (case map_of (wallets s) wid of
        None \<Rightarrow> (Inl (Error ''Wallet not found''), s)
      | Some w \<Rightarrow>
          if n < 1 \<or> n > totalSigners w then (Inl (Error ''Invalid threshold''), s)
          else (Inr (), saveWallets
            (s\<lparr>wallets := AList.update wid (w\<lparr>requiredSignatures := n\<rparr>) (wallets s)\<rparr>)))"

definition deleteWallet :: "string \<Rightarrow> ms_state \<Rightarrow> ms_state" where
  "deleteWallet wid s =
     (let doomed = filter (\<lambda>t. walletId t = wid) (map snd (pendingTxs s));
          txs = foldl (\<lambda>m t. AList.delete (t_id t) m) (pendingTxs s) doomed
      in savePendingTransactions (saveWallets
           (s\<lparr>wallets := AList.delete wid (wallets s), pendingTxs := txs\<rparr>)))"

section \<open>Runs of operations\<close>

datatype ms_op =
    AddCoSigner clock string CoSignerData
  | RemoveCoSigner string string
  | CreatePending clock string string string jsnum jsnum string "string option"
  | Sign clock string string string
  | Cancel string
  | UpdateThreshold string int
  | DeleteWallet string

fun ms_step :: "ms_op \<Rightarrow> ms_state \<Rightarrow> ms_state" where
  "ms_step (AddCoSigner clk w cd) s = snd (addCoSigner clk w cd s)"
| "ms_step (RemoveCoSigner w c) s = snd (removeCoSigner w c s)"
| "ms_step (CreatePending clk r w d a f c de) s = snd (createPendingTransaction clk r w d a f c de s)"
| "ms_step (Sign clk t c g) s = snd (signTransaction clk t c g s)"
| "ms_step (Cancel t) s = snd (cancelTransaction t s)"
| "ms_step (UpdateThreshold w n) s = snd (updateThreshold w n s)"
| "ms_step (DeleteWallet w) s = deleteWallet w s"

lemmas ms_op_defs = addCoSigner_def removeCoSigner_def createPendingTransaction_def
  signTransaction_def cancelTransaction_def updateThreshold_def deleteWallet_def
  saveWallets_def savePendingTransactions_def Let_def

section \<open>Signature collection meets the threshold contract\<close>

abbreviation signer_ids :: "PendingTransaction \<Rightarrow> string list" where
  "signer_ids tx \<equiv> map signerId (signatures tx)"

lemma add_signature_Inr_iff:
  "add_signature w si sid tx = Inr tx' \<longleftrightarrow>
     sid \<in> cs_id ` set (coSigners w) \<and> sid \<notin> set (signer_ids tx) \<and>
     tx' = tx\<lparr>signatures := signatures tx @ [\<lparr>signerId = sid, signature = fst si, signedAt = snd si\<rparr>],
       t_status := (if requiredSignatures w \<le> int (length (signatures tx)) + 1
         then Completed else t_status tx)\<rparr>"
  by (cases tx) (auto simp: add_signature_def Let_def list_ex_iff)

lemma signTransaction_Inr_iff:
  "signTransaction clk t sid sig s = (Inr tx', s') \<longleftrightarrow>
    (\<exists>tx w. map_of (pendingTxs s) t = Some tx \<and> t_status tx = Pending \<and>
       map_of (wallets s) (walletId tx) = Some w \<and> add_signature w (sig, clk 0) sid tx = Inr tx' \<and>
       s' = savePendingTransactions (s\<lparr>pendingTxs := AList.update t tx' (pendingTxs s)\<rparr>))"
  by (cases "map_of (pendingTxs s) t")
    (auto simp: signTransaction_def split: option.splits sum.splits)

lemma signTransaction_Inl: "signTransaction clk t sid sig s = (Inl e, s') \<Longrightarrow> s' = s"
  by (auto simp: signTransaction_def split: option.splits sum.splits if_splits)

interpretation ms: threshold_collection "add_signature w" "\<lambda>tx. map signerId (signatures tx)"
    "\<lambda>tx. t_status tx = Completed" "\<lambda>_. requiredSignatures w"
    "\<lambda>sid. sid \<in> cs_id ` set (coSigners w)" for w :: MultiSigWallet
  by unfold_locales (auto simp: add_signature_Inr_iff split: if_splits)

section \<open>Invariant\<close>

definition wallet_ok :: "MultiSigWallet \<Rightarrow> bool" where
  "wallet_ok w \<longleftrightarrow> totalSigners w = int (length (coSigners w))"

definition tx_ok :: "PendingTransaction \<Rightarrow> bool" where
  "tx_ok tx \<longleftrightarrow> distinct (signer_ids tx)"

definition ms_inv :: "ms_state \<Rightarrow> bool" where
  "ms_inv s \<longleftrightarrow> keyed w_id (wallets s) \<and> all_values wallet_ok (wallets s) \<and>
     keyed t_id (pendingTxs s) \<and> all_values tx_ok (pendingTxs s)"

lemma foldl_delete_keyed:
  "keyed key m \<Longrightarrow> all_values P m \<Longrightarrow>
     keyed key (foldl (\<lambda>m t. AList.delete (f t) m) m ts) \<and>
     all_values P (foldl (\<lambda>m t. AList.delete (f t) m) m ts)"
  by (induction ts arbitrary: m) (auto intro: keyed_delete all_values_delete)

lemma foldl_delete_get:
  "map_of (foldl (\<lambda>m t. AList.delete (f t) m) m ts) k =
     (if k \<in> f ` set ts then None else map_of m k)"
  by (induction ts arbitrary: m) auto

lemma signTransaction_inv:
  assumes inv: "ms_inv s"
  shows "ms_inv (snd (signTransaction clk t c g s))"
proof (cases "signTransaction clk t c g s")
  case (Pair r s')
  show ?thesis
  proof (cases r)
    case (Inl e)
    with Pair signTransaction_Inl inv show ?thesis by fastforce
  next
    case (Inr tx')
    with Pair obtain tx w where tx: "map_of (pendingTxs s) t = Some tx"
        "add_signature w (g, clk 0) c tx = Inr tx'"
        "s' = savePendingTransactions (s\<lparr>pendingTxs := AList.update t tx' (pendingTxs s)\<rparr>)"
      by (auto simp: signTransaction_Inr_iff)
    have "tx_ok tx" "t_id tx = t"
      using inv tx(1) by (auto simp: ms_inv_def dest: all_values_get keyed_get)
    then have "tx_ok tx'" "t_id tx' = t" using tx(2) by (auto simp: add_signature_Inr_iff tx_ok_def)
    with inv tx(3) Pair show ?thesis
      by (auto simp: ms_inv_def savePendingTransactions_def)
  qed
qed

text \<open>
  Every operation, a failing one included, keeps the service well formed: wallets and
  transactions stored under their own identifiers, signer counts equal to the number of
  co-signers, and no transaction signed twice by one signer.
\<close>

theorem ms_step_inv: "ms_inv s \<Longrightarrow> ms_inv (ms_step op s)"
proof (cases op)
  case (Sign clk t c g)
  then show "ms_inv s \<Longrightarrow> ms_inv (ms_step op s)" by (simp add: signTransaction_inv)
next
  case (DeleteWallet w)
  then show "ms_inv s \<Longrightarrow> ms_inv (ms_step op s)"
    by (auto simp: ms_inv_def ms_op_defs foldl_delete_keyed intro: keyed_delete all_values_delete)
qed (auto simp: ms_inv_def ms_op_defs wallet_ok_def tx_ok_def split: option.splits
    intro!: keyed_set all_values_set dest: keyed_get all_values_get)

section \<open>Quorum\<close>


text \<open>
  \<open>signTransaction\<close> succeeds exactly when the transaction is pending, its wallet
  exists, the signer is one of the wallet's co-signers and has not signed; it then appends
  one signature, completes the transaction if the threshold is reached, stores the result
  and changes no other transaction and no wallet.
\<close>

theorem signTransaction_spec:
  "signTransaction clk t sid sig s = (Inr tx', s') \<longleftrightarrow>
    (\<exists>tx w. map_of (pendingTxs s) t = Some tx \<and> t_status tx = Pending \<and>
       map_of (wallets s) (walletId tx) = Some w \<and>
       sid \<in> cs_id ` set (coSigners w) \<and> sid \<notin> set (signer_ids tx) \<and>
       tx' = tx\<lparr>signatures := signatures tx @ [\<lparr>signerId = sid, signature = sig, signedAt = clk 0\<rparr>],
         t_status := (if requiredSignatures w \<le> int (length (signatures tx)) + 1
           then Completed else Pending)\<rparr> \<and>
       s' = s\<lparr>pendingTxs := AList.update t tx' (pendingTxs s),
         pending_item := Json (map snd (AList.update t tx' (pendingTxs s)))\<rparr>)"
  by (simp add: signTransaction_Inr_iff add_signature_Inr_iff savePendingTransactions_def conj_assoc
      cong: conj_cong)

section \<open>A failed removal leaves an unusable wallet\<close>

text \<open>
  When \<open>removeCoSigner\<close> refuses because too few signers would be left, the signer
  is gone from the wallet in memory all the same: the wallet now requires more signatures
  than it has signers, and storage still holds the old list.
\<close>

theorem removeCoSigner_failure_corrupts:
  assumes w: "map_of (wallets s) wid = Some w"
    and few: "int (length (filter (\<lambda>c. cs_id c \<noteq> sid) (coSigners w))) < requiredSignatures w"
  shows "\<exists>s' w'. removeCoSigner wid sid s =
      (Inl (Error ''Cannot remove signer: would make wallet unusable''), s') \<and>
    map_of (wallets s') wid = Some w' \<and> totalSigners w' < requiredSignatures w' \<and>
    sid \<notin> cs_id ` set (coSigners w') \<and> wallets_item s' = wallets_item s"
  using assms by (auto simp: removeCoSigner_def Let_def)

text \<open>
  Deleting a wallet removes exactly its own pending transactions.
\<close>

lemma deleteWallet_pending:
  assumes "ms_inv s"
  shows "map_of (pendingTxs (deleteWallet wid s)) t =
    (case map_of (pendingTxs s) t of
       Some tx \<Rightarrow> if walletId tx = wid then None else Some tx | None \<Rightarrow> None)"
proof -
  have k: "keyed t_id (pendingTxs s)" using assms by (simp add: ms_inv_def)
  have "t \<in> t_id ` {x \<in> snd ` set (pendingTxs s). walletId x = wid} \<longleftrightarrow>
      (\<exists>tx. map_of (pendingTxs s) t = Some tx \<and> walletId tx = wid)"
    using keyed_value_iff [OF k] keyed_get [OF k] by (auto simp: image_iff) metis
  then show ?thesis
    by (auto simp: ms_op_defs foldl_delete_get split: option.splits)
qed

section \<open>Concrete data\<close>

definition demo_signer :: "string \<Rightarrow> CoSigner" where
  "demo_signer i = \<lparr>cs_id = i, cs_name = i, cs_publicKey = i, cs_email = None, cs_addedAt = 0\<rparr>"

definition demo_wallet :: MultiSigWallet where
  "demo_wallet = \<lparr>w_id = ''w'', w_label = ''team'', w_address = ''KC'', requiredSignatures = 2,
     totalSigners = 2, coSigners = [demo_signer ''a'', demo_signer ''b''], w_createdAt = 0,
     w_balance = 10\<rparr>"

definition demo_tx :: "Signature list \<Rightarrow> PendingTransaction" where
  "demo_tx g = \<lparr>t_id = ''t'', walletId = ''w'', t_to = ''KCx'', t_amount = 1, t_fee = 0,
     createdBy = ''a'', t_createdAt = 0, expiresAt = 100, signatures = g, t_status = Pending,
     description = None\<rparr>"

definition demo_sig :: "string \<Rightarrow> Signature" where
  "demo_sig i = \<lparr>signerId = i, signature = ''00'', signedAt = 1\<rparr>"

definition demo_ms :: ms_state where
  "demo_ms = \<lparr>wallets = [(''w'', demo_wallet)], pendingTxs = [(''t'', demo_tx [demo_sig ''a''])],
     wallets_item = Json [demo_wallet], pending_item = Json [demo_tx [demo_sig ''a'']]\<rparr>"

lemmas demo_ms_defs = demo_ms_def demo_wallet_def demo_tx_def demo_sig_def demo_signer_def

lemma demo_ms_inv: "ms_inv demo_ms"
  by (simp add: ms_inv_def keyed_def all_values_def wallet_ok_def tx_ok_def demo_ms_defs)

theorem ms_step_inv_witness: "ms_inv (ms_step (RemoveCoSigner ''w'' ''b'') demo_ms)"
  by (rule ms_step_inv [OF demo_ms_inv])


theorem removeCoSigner_failure_corrupts_witness:
  "fst (removeCoSigner ''w'' ''b'' demo_ms) =
     Inl (Error ''Cannot remove signer: would make wallet unusable'') \<and>
   wallets_item (snd (removeCoSigner ''w'' ''b'' demo_ms)) = Json [demo_wallet]"
proof -
  have "map_of (wallets demo_ms) ''w'' = Some demo_wallet" by (simp add: demo_ms_def)
  moreover have "int (length (filter (\<lambda>c. cs_id c \<noteq> ''b'') (coSigners demo_wallet)))
      < requiredSignatures demo_wallet"
    by (simp add: demo_ms_defs)
  ultimately have "\<exists>s'. removeCoSigner ''w'' ''b'' demo_ms =
      (Inl (Error ''Cannot remove signer: would make wallet unusable''), s') \<and>
      wallets_item s' = wallets_item demo_ms"
    using removeCoSigner_failure_corrupts [of demo_ms "''w''" demo_wallet "''b''"] by blast
  then show ?thesis by (auto simp: demo_ms_def)
qed

end
