(* ===== verification/MultisigWallet.thy ===== *)
theory MultisigWallet
  imports Threshold
begin

text \<open>
  The in-memory multi-signature service of services/multisigWallet.ts: roles, spending
  limits, time locks, signing and rejecting.
\<close>

section \<open>State\<close>

datatype role = Admin | Signer | Viewer

record CoSigner =
  cs_id :: string
  cs_name :: string
  cs_address :: string
  cs_role :: role
  cs_addedDate :: int

record CoSignerData =
  cd_name :: string
  cd_address :: string
  cd_role :: role

record MultiSigWallet =
  w_id :: string
  w_name :: string
  w_address :: string
  requiredSignatures :: int
  totalSigners :: int
  coSigners :: "CoSigner list"
  w_balance :: jsnum
  spendingLimit :: "jsnum option"
  timeLockHours :: "jsnum option"
  w_createdDate :: int

datatype tx_status = Pending | Approved | Rejected | Executed | Expired

record Signature =
  signerId :: string
  signerName :: string
  signature :: string
  signedDate :: int

record Rejection =
  r_signerId :: string
  r_signerName :: string
  rejectedDate :: int
  r_reason :: "string option"

record PendingTransaction =
  t_id :: string
  walletId :: string
  t_to :: string
  t_amount :: jsnum
  t_fee :: jsnum
  description :: string
  createdBy :: string
  t_createdDate :: int
  executionDate :: "jsnum option"
  signatures :: "Signature list"
  rejections :: "Rejection list"
  t_status :: tx_status

record mw_state =
  wallets :: "(string, MultiSigWallet) jsmap"
  pendingTransactions :: "(string, PendingTransaction) jsmap"

definition new_service :: mw_state where
  "new_service = \<lparr>wallets = [], pendingTransactions = []\<rparr>"

section \<open>Operations\<close>

definition getAllWallets :: "mw_state \<Rightarrow> MultiSigWallet list" where
  "getAllWallets s = map snd (wallets s)"

definition getWallet :: "string \<Rightarrow> mw_state \<Rightarrow> MultiSigWallet option" where
  "getWallet i s = map_of (wallets s) i"

text \<open>The statements after the last \<open>throw\<close> of \<open>createWallet\<close> are never reached.\<close>

definition createWallet ::
    "string \<Rightarrow> int \<Rightarrow> CoSignerData list \<Rightarrow> jsnum option \<Rightarrow> jsnum option \<Rightarrow> (mw_state, MultiSigWallet) eff" where
  "createWallet name req cs limit lock =
     (if req > int (length cs) then ethrow (Error ''Required signatures cannot exceed total signers'')
      else if req < 1 then ethrow (Error ''At least 1 signature is required'')
      else ethrow (Error (''Multisig wallet creation is not yet integrated with the blockchain node. ''
        @ ''Please use the node CLI to create a multisig wallet.'')))"

definition tx_fee :: "jsnum \<Rightarrow> jsnum" where
  "tx_fee amount = max (1 / 10) (amount * (1 / 10000))"

definition createTransaction ::
    "clock \<Rightarrow> string \<Rightarrow> string \<Rightarrow> jsnum \<Rightarrow> string \<Rightarrow> string \<Rightarrow> (mw_state, PendingTransaction) eff" where
  "createTransaction clk wid dest amount descr creator s =
     (case map_of (wallets s) wid of
        None \<Rightarrow> (Inl (Error ''Wallet not found''), s)
      | Some w \<Rightarrow>
          if truthy_num (spendingLimit w) \<and> amount > the (spendingLimit w)
          then (Inl (ErrorNum ''Amount exceeds spending limit of '' (the (spendingLimit w)) '' KC''), s)
          else if amount > w_balance w then (Inl (Error ''Insufficient balance''), s)
          else
            let locked = truthy_num (timeLockHours w);
                tx = \<lparr>t_id = ''tx_pending_'' @ show_int (clk 0), walletId = wid, t_to = dest,
                  t_amount = amount, t_fee = tx_fee amount, description = descr, createdBy = creator,
                  t_createdDate = clk (if locked then 2 else 1),
                  executionDate = (if locked
                    then Some (of_int (clk 1) + the (timeLockHours w) * 60 * 60 * 1000) else None),
                  signatures = [], rejections = [], t_status = Pending\<rparr>
            in (Inr tx, s\<lparr>pendingTransactions :=
                  AList.update (t_id tx) tx (pendingTransactions s)\<rparr>))"

definition getPendingTransactions :: "string option \<Rightarrow> mw_state \<Rightarrow> PendingTransaction list" where
  "getPendingTransactions wid s =
     (let all = map snd (pendingTransactions s)
      in if truthy_string wid
         then filter (\<lambda>t. walletId t = the wid \<and> t_status t = Pending) all
         else filter (\<lambda>t. t_status t = Pending) all)"

text \<open>\<open>wallet.coSigners.find(cs => cs.id === signerId)\<close>\<close>

definition find_signer :: "MultiSigWallet \<Rightarrow> string \<Rightarrow> CoSigner option" where
  "find_signer w sid = List.find (\<lambda>c. cs_id c = sid) (coSigners w)"

text \<open>\<open>signTransaction\<close> after both lookups. The transaction's status is not consulted.\<close>

definition add_signature ::
    "MultiSigWallet \<Rightarrow> string \<times> int \<Rightarrow> string \<Rightarrow> PendingTransaction \<Rightarrow> js_error + PendingTransaction" where
  "add_signature w si sid tx =
     (case find_signer w sid of
        None \<Rightarrow> Inl (Error ''Signer not found in wallet'')
      | Some c \<Rightarrow>
          if cs_role c = Viewer then Inl (Error ''Viewers cannot sign transactions'')
          else if list_ex (\<lambda>g. signerId g = sid) (signatures tx)
            then Inl (Error ''Already signed by this signer'')
          else
            let tx1 = tx\<lparr>signatures := signatures tx @
                  [\<lparr>signerId = sid, signerName = cs_name c, signature = fst si, signedDate = snd si\<rparr>]\<rparr>
            in Inr (if int (length (signatures tx1)) \<ge> requiredSignatures w
                    then tx1\<lparr>t_status := Approved\<rparr> else tx1))"

definition signTransaction ::
    "clock \<Rightarrow> string \<Rightarrow> string \<Rightarrow> string \<Rightarrow> (mw_state, PendingTransaction) eff" where
  "signTransaction clk tid sid sig s =
     (case map_of (pendingTransactions s) tid of
        None \<Rightarrow> (Inl (Error ''Transaction not found''), s)
      | Some tx \<Rightarrow>
        (case map_of (wallets s) (walletId tx) of
           None \<Rightarrow> (Inl (Error ''Wallet not found''), s)
         | Some w \<Rightarrow>
             (case add_signature w (sig, clk 0) sid tx of
                Inl e \<Rightarrow> (Inl e, s)
              | Inr tx' \<Rightarrow> (Inr tx', s\<lparr>pendingTransactions :=
                    AList.update tid tx' (pendingTransactions s)\<rparr>))))"

definition rejectTransaction ::
    "clock \<Rightarrow> string \<Rightarrow> string \<Rightarrow> string option \<Rightarrow> (mw_state, PendingTransaction) eff" where
  "rejectTransaction clk tid sid reason s =
     (case map_of (pendingTransactions s) tid of
        None \<Rightarrow> (Inl (Error ''Transaction not found''), s)
      | Some tx \<Rightarrow>
        (case map_of (wallets s) (walletId tx) of
           None \<Rightarrow> (Inl (Error ''Wallet not found''), s)
         | Some w \<Rightarrow>
             (case find_signer w sid of
                None \<Rightarrow> (Inl (Error ''Signer not found in wallet''), s)
              | Some c \<Rightarrow>
                  let tx' = tx\<lparr>rejections := rejections tx @
                        [\<lparr>r_signerId = sid, r_signerName = cs_name c, rejectedDate = clk 0,
                          r_reason = reason\<rparr>], t_status := Rejected\<rparr>
                  in (Inr tx', s\<lparr>pendingTransactions :=
                        AList.update tid tx' (pendingTransactions s)\<rparr>))))"

definition addCoSigner ::
    "clock \<Rightarrow> string \<Rightarrow> string \<Rightarrow> string \<Rightarrow> role \<Rightarrow> (mw_state, MultiSigWallet) eff" where
  "addCoSigner clk wid name address r s =
     (case map_of (wallets s) wid of
        None \<Rightarrow> (Inl (Error ''Wallet not found''), s)
      | Some w \<Rightarrow>
          if list_ex (\<lambda>c. cs_address c = address) (coSigners w)
          then (Inl (Error ''Co-signer already exists''), s)
          else
            let c = \<lparr>cs_id = ''cs_'' @ wid @ ''_'' @ show_int (clk 0), cs_name = name,
                  cs_address = address, cs_role = r, cs_addedDate = clk 1\<rparr>;
                cs = coSigners w @ [c];
                w' = w\<lparr>coSigners := cs, totalSigners := int (length cs)\<rparr>
            in (Inr w', s\<lparr>wallets := AList.update wid w' (wallets s)\<rparr>))"

definition removeCoSigner :: "string \<Rightarrow> string \<Rightarrow> (mw_state, MultiSigWallet) eff" where
  "removeCoSigner wid cid s =
     (case map_of (wallets s) wid of
        None \<Rightarrow> (Inl (Error ''Wallet not found''), s)
      | Some w \<Rightarrow>
          let cs = filter (\<lambda>c. cs_id c \<noteq> cid) (coSigners w)
          in if int (length cs) < requiredSignatures w
             then (Inl (Error ''Cannot remove co-signer: would drop below required signatures''), s)
             else let w' = w\<lparr>coSigners := cs, totalSigners := int (length cs)\<rparr>
                  in (Inr w', s\<lparr>wallets := AList.update wid w' (wallets s)\<rparr>))"

definition updateSpendingLimit :: "string \<Rightarrow> jsnum option \<Rightarrow> (mw_state, MultiSigWallet) eff" where
  "updateSpendingLimit wid limit s =
     (case map_of (wallets s) wid of
        None \<Rightarrow> (Inl (Error ''Wallet not found''), s)
      | Some w \<Rightarrow> let w' = w\<lparr>spendingLimit := limit\<rparr>
                  in (Inr w', s\<lparr>wallets := AList.update wid w' (wallets s)\<rparr>))"

definition updateTimeLock :: "string \<Rightarrow> jsnum option \<Rightarrow> (mw_state, MultiSigWallet) eff" where
  "updateTimeLock wid hours s =
     (case map_of (wallets s) wid of
        None \<Rightarrow> (Inl (Error ''Wallet not found''), s)
      | Some w \<Rightarrow> let w' = w\<lparr>timeLockHours := hours\<rparr>
                  in (Inr w', s\<lparr>wallets := AList.update wid w' (wallets s)\<rparr>))"

definition getTotalBalance :: "mw_state \<Rightarrow> jsnum" where
  "getTotalBalance s = sum_by w_balance (map snd (wallets s))"

definition getPendingApprovalsCount :: "mw_state \<Rightarrow> nat" where
  "getPendingApprovalsCount s =
     length (filter (\<lambda>t. t_status t = Pending) (map snd (pendingTransactions s)))"

section \<open>Runs of operations\<close>

datatype mw_op =
    CreateTx clock string string jsnum string string
  | Sign clock string string string
  | Reject clock string string "string option"
  | AddCoSigner clock string string string role
  | RemoveCoSigner string string
  | SetLimit string "jsnum option"
  | SetTimeLock string "jsnum option"

fun mw_step :: "mw_op \<Rightarrow> mw_state \<Rightarrow> mw_state" where
  "mw_step (CreateTx clk w d a de c) s = snd (createTransaction clk w d a de c s)"
| "mw_step (Sign clk t c g) s = snd (signTransaction clk t c g s)"
| "mw_step (Reject clk t c r) s = snd (rejectTransaction clk t c r s)"
| "mw_step (AddCoSigner clk w n a r) s = snd (addCoSigner clk w n a r s)"
| "mw_step (RemoveCoSigner w c) s = snd (removeCoSigner w c s)"
| "mw_step (SetLimit w l) s = snd (updateSpendingLimit w l s)"
| "mw_step (SetTimeLock w h) s = snd (updateTimeLock w h s)"

lemmas mw_op_defs = createTransaction_def signTransaction_def rejectTransaction_def addCoSigner_def
  removeCoSigner_def updateSpendingLimit_def updateTimeLock_def Let_def

section \<open>Signature collection meets the threshold contract\<close>

abbreviation signer_ids :: "PendingTransaction \<Rightarrow> string list" where
  "signer_ids tx \<equiv> map signerId (signatures tx)"

text \<open>The co-signers that may sign.\<close>

definition may_sign :: "MultiSigWallet \<Rightarrow> string \<Rightarrow> bool" where
  "may_sign w sid \<longleftrightarrow> (\<exists>c \<in> set (coSigners w). cs_id c = sid \<and> cs_role c \<noteq> Viewer)"

lemma find_signer_Some: "find_signer w sid = Some c \<Longrightarrow> c \<in> set (coSigners w) \<and> cs_id c = sid"
  by (auto simp: find_signer_def find_Some_iff)

lemma add_signature_Inr:
  assumes "add_signature w si sid tx = Inr tx'"
  shows "may_sign w sid \<and> sid \<notin> set (signer_ids tx) \<and> signer_ids tx' = signer_ids tx @ [sid] \<and>
    t_id tx' = t_id tx \<and> walletId tx' = walletId tx \<and> t_amount tx' = t_amount tx \<and>
    t_status tx' = (if requiredSignatures w \<le> int (length (signatures tx)) + 1
      then Approved else t_status tx)"
  using assms
  by (auto simp: add_signature_def may_sign_def Let_def list_ex_iff dest: find_signer_Some
      split: option.splits if_splits)

lemma add_signature_length:
  "add_signature w si sid tx = Inr tx' \<Longrightarrow> length (signatures tx') = length (signatures tx) + 1"
  by (metis add_signature_Inr length_append_singleton length_map Suc_eq_plus1)

interpretation mw: threshold_collection "add_signature w" "\<lambda>tx. map signerId (signatures tx)"
    "\<lambda>tx. t_status tx = Approved" "\<lambda>_. requiredSignatures w" "may_sign w" for w :: MultiSigWallet
proof unfold_locales
  fix i x t t'
  assume a: "add_signature w i x t = Inr t'"
  show "x \<notin> set (signer_ids t) \<and> signer_ids t' = signer_ids t @ [x]" "may_sign w x"
    using add_signature_Inr [OF a] by auto
  show "t_status t' = Approved \<Longrightarrow>
      t_status t = Approved \<or> requiredSignatures w \<le> int (length (signer_ids t'))"
    using add_signature_Inr [OF a] add_signature_length [OF a] by (auto split: if_splits)
qed simp

text \<open>
  However many signatures are collected on a transaction that is not yet approved, it is
  approved only with signatures of at least \<open>requiredSignatures\<close> different co-signers,
  each of them an admin or a signer, never a viewer.
\<close>

theorem approval_needs_quorum:
  assumes "fold_result (\<lambda>(si, sid). add_signature w si sid) xs tx = Inr tx'"
    and "signatures tx = []" and "t_status tx \<noteq> Approved" and "t_status tx' = Approved"
  shows "requiredSignatures w \<le> int (card (set (signer_ids tx'))) \<and>
    (\<forall>sid \<in> set (signer_ids tx'). may_sign w sid)"
  using mw.quorum [OF assms(1)] mw.collect_signers [OF assms(1)] mw.collect_allowed [OF assms(1)] assms
  by auto

section \<open>Invariant\<close>

definition wallet_ok :: "MultiSigWallet \<Rightarrow> bool" where
  "wallet_ok w \<longleftrightarrow> totalSigners w = int (length (coSigners w)) \<and>
     1 \<le> requiredSignatures w \<and> requiredSignatures w \<le> totalSigners w"

definition tx_ok :: "PendingTransaction \<Rightarrow> bool" where
  "tx_ok tx \<longleftrightarrow> distinct (signer_ids tx)"

definition mw_inv :: "mw_state \<Rightarrow> bool" where
  "mw_inv s \<longleftrightarrow> keyed w_id (wallets s) \<and> all_values wallet_ok (wallets s) \<and>
     keyed t_id (pendingTransactions s) \<and> all_values tx_ok (pendingTransactions s)"

lemma mw_inv_wallet: "mw_inv s \<Longrightarrow> map_of (wallets s) wid = Some w \<Longrightarrow> w_id w = wid \<and> wallet_ok w"
  by (auto simp: mw_inv_def dest: all_values_get keyed_get)

lemma mw_inv_tx:
  "mw_inv s \<Longrightarrow> map_of (pendingTransactions s) t = Some tx \<Longrightarrow> t_id tx = t \<and> tx_ok tx"
  by (auto simp: mw_inv_def dest: all_values_get keyed_get)

lemma mw_inv_set_wallet:
  "mw_inv s \<Longrightarrow> w_id w = wid \<Longrightarrow> wallet_ok w \<Longrightarrow>
     mw_inv (s\<lparr>wallets := AList.update wid w (wallets s)\<rparr>)"
  by (auto simp: mw_inv_def)

lemma mw_inv_set_tx:
  "mw_inv s \<Longrightarrow> t_id tx = t \<Longrightarrow> tx_ok tx \<Longrightarrow>
     mw_inv (s\<lparr>pendingTransactions := AList.update t tx (pendingTransactions s)\<rparr>)"
  by (auto simp: mw_inv_def)

lemma mw_signTransaction_inv:
  assumes inv: "mw_inv s"
  shows "mw_inv (snd (signTransaction clk t c g s))"
proof -
  have new: "mw_inv (s\<lparr>pendingTransactions := AList.update t tx' (pendingTransactions s)\<rparr>)"
    if "map_of (pendingTransactions s) t = Some tx" "add_signature w si c tx = Inr tx'" for tx w si tx'
    using mw_inv_tx [OF inv that(1)] add_signature_Inr [OF that(2)]
    by (intro mw_inv_set_tx [OF inv]) (auto simp: tx_ok_def)
  show ?thesis
    unfolding signTransaction_def using inv new by (simp split: option.split sum.split)
qed

lemma wallet_steps_inv:
  assumes inv: "mw_inv s"
  shows "mw_inv (snd (addCoSigner clk wid n a r s))" "mw_inv (snd (removeCoSigner wid c s))"
    "mw_inv (snd (updateSpendingLimit wid l s))" "mw_inv (snd (updateTimeLock wid l s))"
proof -
  have w: "w_id w = wid" "wallet_ok w" if "map_of (wallets s) wid = Some w" for w
    using mw_inv_wallet [OF inv that] by auto
  show "mw_inv (snd (addCoSigner clk wid n a r s))"
    using inv w by (cases "map_of (wallets s) wid")
      (simp_all add: addCoSigner_def Let_def mw_inv_set_wallet wallet_ok_def)
  show "mw_inv (snd (removeCoSigner wid c s))"
    using inv w by (cases "map_of (wallets s) wid")
      (simp_all add: removeCoSigner_def Let_def mw_inv_set_wallet wallet_ok_def)
  show "mw_inv (snd (updateSpendingLimit wid l s))" "mw_inv (snd (updateTimeLock wid l s))"
    using inv w by (cases "map_of (wallets s) wid";
        simp add: updateSpendingLimit_def updateTimeLock_def Let_def mw_inv_set_wallet wallet_ok_def)+
qed

lemma tx_steps_inv:
  assumes inv: "mw_inv s"
  shows "mw_inv (snd (createTransaction clk wid d am de cr s))"
    "mw_inv (snd (rejectTransaction clk t c re s))"
proof -
  have t: "t_id tx = t" "tx_ok tx" if "map_of (pendingTransactions s) t = Some tx" for tx
    using mw_inv_tx [OF inv that] by auto
  show "mw_inv (snd (createTransaction clk wid d am de cr s))"
    using inv by (cases "map_of (wallets s) wid")
      (simp_all add: createTransaction_def Let_def mw_inv_set_tx tx_ok_def)
  show "mw_inv (snd (rejectTransaction clk t c re s))"
    using inv t by (cases "map_of (pendingTransactions s) t")
      (simp_all add: rejectTransaction_def Let_def mw_inv_set_tx tx_ok_def split: option.splits)
qed

text \<open>
  No operation, successful or not, leaves a wallet that needs more signatures than it
  has co-signers; counts match the lists and no signer has signed a transaction twice.
\<close>

theorem mw_step_inv: "mw_inv s \<Longrightarrow> mw_inv (mw_step op s)"
  by (cases op) (simp_all add: mw_signTransaction_inv wallet_steps_inv tx_steps_inv)

section \<open>Spending limit and fee\<close>

text \<open>
  A created transaction respects the wallet's balance and, when the limit is set and
  not zero, its spending limit; it starts pending and unsigned, and its fee is one tenth of
  a coin or a ten-thousandth of the amount, whichever is more.
\<close>

theorem createTransaction_respects_limits:
  assumes "createTransaction clk wid dest amount descr creator s = (Inr tx, s')"
  shows "\<exists>w. map_of (wallets s) wid = Some w \<and> amount \<le> w_balance w \<and>
    (\<forall>l. spendingLimit w = Some l \<and> l \<noteq> 0 \<longrightarrow> amount \<le> l) \<and>
    t_status tx = Pending \<and> signatures tx = [] \<and> t_amount tx = amount \<and>
    1 / 10 \<le> t_fee tx \<and> amount / 10000 \<le> t_fee tx \<and>
    map_of (pendingTransactions s') (t_id tx) = Some tx \<and> wallets s' = wallets s"
proof (cases "map_of (wallets s) wid")
  case None
  with assms show ?thesis by (simp add: createTransaction_def)
next
  case (Some w)
  with assms have "\<not> (truthy_num (spendingLimit w) \<and> amount > the (spendingLimit w))"
      "\<not> amount > w_balance w"
    by (auto simp: createTransaction_def split: if_splits)
  moreover from this Some assms have "t_status tx = Pending \<and> signatures tx = [] \<and>
      t_amount tx = amount \<and> t_fee tx = tx_fee amount \<and>
      s' = s\<lparr>pendingTransactions := AList.update (t_id tx) tx (pendingTransactions s)\<rparr>"
    by (auto simp: createTransaction_def Let_def)
  ultimately show ?thesis using Some by (auto simp: tx_fee_def)
qed

section \<open>Rejection is not final\<close>

text \<open>
  Signing does not look at the status: a transaction that a co-signer has rejected
  becomes approved when the remaining signatures arrive.
\<close>

theorem rejected_can_be_approved:
  assumes "map_of (pendingTransactions s) t = Some tx" and "t_status tx = Rejected"
    and "map_of (wallets s) (walletId tx) = Some w"
    and "find_signer w sid = Some c" and "cs_role c \<noteq> Viewer"
    and "sid \<notin> set (signer_ids tx)"
    and "requiredSignatures w \<le> int (length (signatures tx)) + 1"
  shows "\<exists>tx' s'. signTransaction clk t sid sig s = (Inr tx', s') \<and> t_status tx' = Approved \<and>
    rejections tx' = rejections tx"
  using assms by (auto simp: signTransaction_def add_signature_def list_ex_iff)

section \<open>Concrete data\<close>

definition demo_signer :: "string \<Rightarrow> role \<Rightarrow> CoSigner" where
  "demo_signer i r = \<lparr>cs_id = i, cs_name = i, cs_address = i, cs_role = r, cs_addedDate = 0\<rparr>"

definition demo_wallet :: MultiSigWallet where
  "demo_wallet = \<lparr>w_id = ''w'', w_name = ''team'', w_address = ''KC'', requiredSignatures = 1,
     totalSigners = 2, coSigners = [demo_signer ''a'' Admin, demo_signer ''b'' Viewer],
     w_balance = 100, spendingLimit = Some 50, timeLockHours = None, w_createdDate = 0\<rparr>"

definition demo_tx :: "tx_status \<Rightarrow> PendingTransaction" where
  "demo_tx st = \<lparr>t_id = ''t'', walletId = ''w'', t_to = ''KCx'', t_amount = 5, t_fee = 1 / 10,
     description = '''', createdBy = ''a'', t_createdDate = 0, executionDate = None,
     signatures = [], rejections = [], t_status = st\<rparr>"

definition demo_mw :: mw_state where
  "demo_mw = \<lparr>wallets = [(''w'', demo_wallet)], pendingTransactions = [(''t'', demo_tx Rejected)]\<rparr>"

lemmas demo_mw_defs = demo_mw_def demo_wallet_def demo_tx_def demo_signer_def

lemma demo_mw_inv: "mw_inv demo_mw"
  by (simp add: mw_inv_def keyed_def all_values_def wallet_ok_def tx_ok_def demo_mw_defs)

theorem mw_step_inv_witness: "mw_inv (mw_step (RemoveCoSigner ''w'' ''b'') demo_mw)"
  by (rule mw_step_inv [OF demo_mw_inv])

theorem approval_needs_quorum_witness:
  "\<exists>tx. fold_result (\<lambda>(si, sid). add_signature demo_wallet si sid) [((''00'', 1), ''a'')]
      (demo_tx Pending) = Inr tx \<and> 1 \<le> card (set (signer_ids tx))"
proof -
  obtain tx where tx: "fold_result (\<lambda>(si, sid). add_signature demo_wallet si sid)
      [((''00'', 1), ''a'')] (demo_tx Pending) = Inr tx" "t_status tx = Approved"
    by (simp add: add_signature_def find_signer_def demo_mw_defs)
  have "signatures (demo_tx Pending) = []" "t_status (demo_tx Pending) \<noteq> Approved"
    by (simp_all add: demo_tx_def)
  from approval_needs_quorum [OF tx(1) this tx(2)]
  have "1 \<le> int (card (set (signer_ids tx)))" by (simp add: demo_wallet_def)
  with tx(1) show ?thesis by auto
qed

theorem createTransaction_respects_limits_witness:
  "\<exists>tx s'. createTransaction (\<lambda>_. 7) ''w'' ''KCx'' 40 ''rent'' ''a'' demo_mw = (Inr tx, s') \<and>
     1 / 10 \<le> t_fee tx"
proof -
  obtain tx s' where tx: "createTransaction (\<lambda>_. 7) ''w'' ''KCx'' 40 ''rent'' ''a'' demo_mw = (Inr tx, s')"
    by (simp add: createTransaction_def Let_def demo_mw_defs)
  from createTransaction_respects_limits [OF tx] tx show ?thesis by blast
qed

theorem rejected_can_be_approved_witness:
  "\<exists>tx s'. signTransaction (\<lambda>_. 7) ''t'' ''a'' ''00'' demo_mw = (Inr tx, s') \<and> t_status tx = Approved"
  using rejected_can_be_approved [of demo_mw "''t''" "demo_tx Rejected" demo_wallet "''a''"
      "demo_signer ''a'' Admin" "\<lambda>_. 7" "''00''"]
  by (auto simp: demo_mw_defs find_signer_def)

end
