(* ===== verification/SignatureManager.thy ===== *)
theory SignatureManager
  imports Threshold "HOL-Library.Word"
begin

text \<open>
  Signature requests (services/signatureManager.ts): creation, collection with expiry,
  the 32-bit string hash that stands in for signatures, threshold checks, execution and
  clean-up. \<open>Math.random()\<close> is an argument: \<open>verifySignature\<close> is a coin toss.
\<close>

section \<open>State\<close>

datatype req_status = Collecting | Ready | Executed | Expired

record Collected =
  signerId :: string
  signature :: string
  timestamp :: int
  verified :: bool

record SignatureRequest =
  q_id :: string
  transactionId :: string
  walletId :: string
  requiredSignatures :: int
  collectedSignatures :: "Collected list"
  q_status :: req_status
  createdDate :: int
  expiryDate :: jsnum

record sm_state =
  signatureRequests :: "(string, SignatureRequest) jsmap"

definition new_service :: sm_state where
  "new_service = \<lparr>signatureRequests = []\<rparr>"

section \<open>The hash\<close>

text \<open>
  \<open>hash = ((hash << 5) - hash) + char; hash = hash & hash;\<close> on numbers: the shift and the
  final \<open>&\<close> reduce to 32 bits, the subtraction and addition are exact, so the loop body
  is arithmetic modulo \<open>2^32\<close>.
\<close>

definition hash_step :: "32 word \<Rightarrow> char \<Rightarrow> 32 word" where
  "hash_step h c = (push_bit 5 h - h) + word_of_nat (of_char c)"

definition hash_of :: "string \<Rightarrow> 32 word" where
  "hash_of s = foldl hash_step 0 s"

definition hex_digit :: "nat \<Rightarrow> char" where
  "hex_digit d = ''0123456789abcdef'' ! d"

fun show_hex :: "nat \<Rightarrow> string" where
  "show_hex n = (if n < 16 then [hex_digit n] else show_hex (n div 16) @ [hex_digit (n mod 16)])"

declare show_hex.simps [simp del]

text \<open>\<open>Math.abs(hash).toString(16).padStart(64, '0')\<close>\<close>

definition simpleHash :: "string \<Rightarrow> string" where
  "simpleHash s = padStart 64 (CHR ''0'') (show_hex (nat \<bar>sint (hash_of s)\<bar>))"

definition generateSignature :: "string \<Rightarrow> string \<Rightarrow> string" where
  "generateSignature messageHash privateKey =
     (let h = simpleHash (messageHash @ privateKey) in ''0x'' @ h @ h)"

definition verifySignature :: "jsnum \<Rightarrow> string \<Rightarrow> string \<Rightarrow> string \<Rightarrow> bool" where
  "verifySignature random messageHash sig sid \<longleftrightarrow> random > 5 / 100"

section \<open>Operations\<close>

definition request_id :: "clock \<Rightarrow> string \<Rightarrow> string" where
  "request_id clk rnd = ''sig_req_'' @ show_int (clk 0) @ ''_'' @ rnd"

definition createSignatureRequest ::
    "clock \<Rightarrow> string \<Rightarrow> string \<Rightarrow> string \<Rightarrow> int \<Rightarrow> jsnum \<Rightarrow> (sm_state, SignatureRequest) eff" where
  "createSignatureRequest clk rnd tid wid required expiryHours s =
     (let i = request_id clk rnd;
          r = \<lparr>q_id = i, transactionId = tid, walletId = wid, requiredSignatures = required,
            collectedSignatures = [], q_status = Collecting, createdDate = clk 1,
            expiryDate = of_int (clk 2) + expiryHours * 60 * 60 * 1000\<rparr>
      in (Inr r, s\<lparr>signatureRequests := AList.update i r (signatureRequests s)\<rparr>))"

text \<open>
  \<open>collectSignature\<close> after the status and expiry checks: refuse a second signature,
  push, and turn ready when enough have been collected and every one is verified. The input
  is the signature, its time stamp and the verification result.
\<close>

definition push_signature ::
    "string \<times> int \<times> bool \<Rightarrow> string \<Rightarrow> SignatureRequest \<Rightarrow> js_error + SignatureRequest" where
  "push_signature g sid r =
     (if list_ex (\<lambda>c. signerId c = sid) (collectedSignatures r)
      then Inl (Error ''Signer has already provided signature'')
      else
        let cs = collectedSignatures r @ [\<lparr>signerId = sid, signature = fst g,
               timestamp = fst (snd g), verified = snd (snd g)\<rparr>];
            r1 = r\<lparr>collectedSignatures := cs\<rparr>
        in Inr (if int (length cs) \<ge> requiredSignatures r \<and> list_all verified cs
                then r1\<lparr>q_status := Ready\<rparr> else r1))"

definition collectSignature ::
    "clock \<Rightarrow> jsnum \<Rightarrow> string \<Rightarrow> string \<Rightarrow> string \<Rightarrow> string \<Rightarrow> (sm_state, string \<times> bool) eff" where
  "collectSignature clk random i sid messageHash privateKey s =
     (case map_of (signatureRequests s) i of
        None \<Rightarrow> (Inl (Error ''Signature request not found''), s)
      | Some r \<Rightarrow>
          if q_status r \<noteq> Collecting
          then (Inl (Error ''Signature request is not in collecting state''), s)
          else if of_int (clk 0) > expiryDate r
          then (Inl (Error ''Signature request has expired''),
                s\<lparr>signatureRequests := AList.update i (r\<lparr>q_status := Expired\<rparr>) (signatureRequests s)\<rparr>)
          else
            let sig = generateSignature messageHash privateKey;
                ok = verifySignature random messageHash sig sid
            in (case push_signature (sig, clk 1, ok) sid r of
                  Inl e \<Rightarrow> (Inl e, s)
                | Inr r' \<Rightarrow> (Inr (sig, ok),
                    s\<lparr>signatureRequests := AList.update i r' (signatureRequests s)\<rparr>)))"

definition getSignatureRequest :: "string \<Rightarrow> sm_state \<Rightarrow> SignatureRequest option" where
  "getSignatureRequest i s = map_of (signatureRequests s) i"

record threshold_report =
  reached :: bool
  collected :: nat
  required :: int
  allVerified :: bool

definition threshold_of :: "SignatureRequest \<Rightarrow> threshold_report" where
  "threshold_of r =
     \<lparr>reached = int (length (collectedSignatures r)) \<ge> requiredSignatures r,
      collected = length (collectedSignatures r), required = requiredSignatures r,
      allVerified = list_all verified (collectedSignatures r)\<rparr>"

definition checkThreshold :: "string \<Rightarrow> (sm_state, threshold_report) eff" where
  "checkThreshold i s =
     (case map_of (signatureRequests s) i of
        None \<Rightarrow> (Inl (Error ''Signature request not found''), s)
      | Some r \<Rightarrow> (Inr (threshold_of r), s))"

definition aggregateSignatures :: "string \<Rightarrow> (sm_state, string) eff" where
  "aggregateSignatures i s =
     (case map_of (signatureRequests s) i of
        None \<Rightarrow> (Inl (Error ''Signature request not found''), s)
      | Some r \<Rightarrow>
          if q_status r \<noteq> Ready
          then (Inl (Error ''Signature request is not ready for aggregation''), s)
          else (Inr (''0x'' @ simpleHash (join_with ''|'' (map signature (collectedSignatures r)))), s))"

text \<open>\<open>rnd\<close> is \<open>Math.random().toString(16).substring(2)\<close>.\<close>

definition executeTransaction :: "string \<Rightarrow> string \<Rightarrow> (sm_state, string \<times> bool) eff" where
  "executeTransaction rnd i s =
     (case map_of (signatureRequests s) i of
        None \<Rightarrow> (Inl (Error ''Signature request not found''), s)
      | Some r \<Rightarrow>
          if q_status r \<noteq> Ready
          then (Inl (Error ''Signature request is not ready for execution''), s)
          else ebind (checkThreshold i) (\<lambda>th.
            if \<not> reached th \<or> \<not> allVerified th
            then ethrow (Error ''Signature threshold not met or signatures not verified'')
            else ebind (aggregateSignatures i) (\<lambda>_. \<lambda>s.
              (Inr (''0x'' @ padStart 64 (CHR ''0'') rnd, True),
               s\<lparr>signatureRequests :=
                  AList.update i (r\<lparr>q_status := Executed\<rparr>) (signatureRequests s)\<rparr>))) s)"

definition is_stale :: "int \<Rightarrow> SignatureRequest \<Rightarrow> bool" where
  "is_stale now r \<longleftrightarrow> of_int now > expiryDate r \<and> q_status r = Collecting"

definition cleanupExpiredRequests :: "int \<Rightarrow> sm_state \<Rightarrow> nat \<times> sm_state" where
  "cleanupExpiredRequests now s =
     (length (filter (is_stale now) (map snd (signatureRequests s))),
      s\<lparr>signatureRequests :=
         map_values (\<lambda>r. if is_stale now r then r\<lparr>q_status := Expired\<rparr> else r) (signatureRequests s)\<rparr>)"

definition getActiveRequests :: "sm_state \<Rightarrow> SignatureRequest list" where
  "getActiveRequests s =
     sort_desc createdDate
       (filter (\<lambda>r. q_status r = Collecting \<or> q_status r = Ready) (map snd (signatureRequests s)))"

text \<open>
  The percentage is \<open>None\<close> where JavaScript computes \<open>NaN\<close> (zero of zero); with a zero
  threshold and some signatures the quotient is infinite and the minimum is 100.
\<close>

definition getSignatureProgress ::
    "string \<Rightarrow> sm_state \<Rightarrow> js_error + (jsnum option \<times> nat \<times> int \<times> int)" where
  "getSignatureProgress i s =
     (case map_of (signatureRequests s) i of
        None \<Rightarrow> Inl (Error ''Signature request not found'')
      | Some r \<Rightarrow>
          let n = length (collectedSignatures r); m = requiredSignatures r;
              missing = max 0 (m - int n);
              pct = (if m = 0 then (if n = 0 then None else Some 100)
                     else Some (min 100 (of_nat n / of_int m * 100)))
          in Inr (pct, n, m, missing))"

datatype sm_op =
    Create clock string string string int jsnum
  | Collect clock jsnum string string string string
  | Execute string string
  | Cleanup int

fun sm_step :: "sm_op \<Rightarrow> sm_state \<Rightarrow> sm_state" where
  "sm_step (Create clk rnd t w n h) s = snd (createSignatureRequest clk rnd t w n h s)"
| "sm_step (Collect clk r i c m k) s = snd (collectSignature clk r i c m k s)"
| "sm_step (Execute rnd i) s = snd (executeTransaction rnd i s)"
| "sm_step (Cleanup now) s = snd (cleanupExpiredRequests now s)"

text \<open>The identifier an operation creates.\<close>

fun creates :: "sm_op \<Rightarrow> string option" where
  "creates (Create clk rnd t w n h) = Some (request_id clk rnd)"
| "creates _ = None"

section \<open>The hash is always 64 hexadecimal digits\<close>

definition is_hex :: "char \<Rightarrow> bool" where
  "is_hex c \<longleftrightarrow> c \<in> set ''0123456789abcdef''"

lemma is_hex_digit: "d < 16 \<Longrightarrow> is_hex (hex_digit d)"
  unfolding is_hex_def hex_digit_def by (rule nth_mem) simp

lemma show_hex_digits: "list_all is_hex (show_hex n)"
proof (induction n rule: show_hex.induct)
  case (1 n)
  then show ?case by (cases "n < 16") (simp_all add: show_hex.simps [of n] is_hex_digit)
qed

lemma length_show_hex: "n < 16 ^ Suc k \<Longrightarrow> length (show_hex n) \<le> Suc k"
proof (induction k arbitrary: n)
  case 0
  then show ?case by (simp add: show_hex.simps [of n])
next
  case (Suc k)
  show ?case
  proof (cases "n < 16")
    case True
    then show ?thesis by (simp add: show_hex.simps [of n])
  next
    case False
    from Suc.prems have "n div 16 < 16 ^ Suc k"
      by (simp add: less_mult_imp_div_less mult.commute)
    with False Suc.IH show ?thesis by (simp add: show_hex.simps [of n])
  qed
qed

text \<open>
  Whatever the input and however often the 32-bit accumulator wraps around,
  \<open>simpleHash\<close> is a string of exactly 64 hexadecimal digits, and a generated signature is
  \<open>0x\<close> followed by 128 of them.
\<close>

theorem simpleHash_format:
  "length (simpleHash s) = 64 \<and> list_all is_hex (simpleHash s) \<and>
   length (generateSignature m k) = 130"
proof -
  have "\<bar>sint (hash_of x)\<bar> \<le> 2 ^ 31" for x
    using sint_lt [of "hash_of x"] sint_ge [of "hash_of x"] by simp
  then have "nat \<bar>sint (hash_of x)\<bar> < 16 ^ Suc 7" for x
    by (rule order_le_less_trans [OF nat_mono]) simp
  then have short: "length (show_hex (nat \<bar>sint (hash_of x)\<bar>)) \<le> 8" for x
    using length_show_hex [of "nat \<bar>sint (hash_of x)\<bar>" 7] by simp
  then have len: "length (simpleHash x) = 64" for x
    using short [of x] by (simp add: simpleHash_def max_absorb1 order_trans [of _ 8 64])
  moreover have "list_all is_hex (simpleHash s)"
  proof -
    have "is_hex (CHR ''0'')" by (simp add: is_hex_def)
    then show ?thesis
      using show_hex_digits [of "nat \<bar>sint (hash_of s)\<bar>"]
      by (auto simp: simpleHash_def padStart_def list_all_iff)
  qed
  ultimately show ?thesis by (simp add: generateSignature_def Let_def)
qed

section \<open>Collection meets the threshold contract\<close>

abbreviation signer_ids :: "SignatureRequest \<Rightarrow> string list" where
  "signer_ids r \<equiv> map signerId (collectedSignatures r)"

text \<open>A ready or executed request carries a full, verified set of signatures.\<close>

definition backed :: "SignatureRequest \<Rightarrow> bool" where
  "backed r \<longleftrightarrow> distinct (signer_ids r) \<and>
     (q_status r = Ready \<or> q_status r = Executed \<longrightarrow>
        requiredSignatures r \<le> int (length (collectedSignatures r)) \<and>
        list_all verified (collectedSignatures r))"

lemma push_signature_Inr_iff:
  "push_signature g sid r = Inr r' \<longleftrightarrow>
     sid \<notin> set (signer_ids r) \<and>
     r' = r\<lparr>collectedSignatures := collectedSignatures r @ [\<lparr>signerId = sid, signature = fst g,
               timestamp = fst (snd g), verified = snd (snd g)\<rparr>],
       q_status := (if int (length (collectedSignatures r)) + 1 \<ge> requiredSignatures r \<and>
            list_all verified (collectedSignatures r) \<and> snd (snd g) then Ready else q_status r)\<rparr>"
  by (cases r) (auto simp: push_signature_def Let_def list_ex_iff)

interpretation sm: threshold_collection push_signature "\<lambda>r. map signerId (collectedSignatures r)"
    "\<lambda>r. q_status r = Ready" requiredSignatures "\<lambda>_. True"
  by unfold_locales (auto simp: push_signature_Inr_iff split: if_splits)

lemma push_signature_backed:
  "push_signature g sid r = Inr r' \<Longrightarrow> backed r \<Longrightarrow> q_status r = Collecting \<Longrightarrow> backed r'"
  by (auto simp: push_signature_Inr_iff backed_def)

definition sm_inv :: "sm_state \<Rightarrow> bool" where
  "sm_inv s \<longleftrightarrow> keyed q_id (signatureRequests s) \<and> all_values backed (signatureRequests s)"

lemma sm_inv_get: "sm_inv s \<Longrightarrow> map_of (signatureRequests s) i = Some r \<Longrightarrow> q_id r = i \<and> backed r"
  by (auto simp: sm_inv_def dest: keyed_get all_values_get)

lemma sm_inv_set:
  "sm_inv s \<Longrightarrow> q_id r = i \<Longrightarrow> backed r \<Longrightarrow>
     sm_inv (s\<lparr>signatureRequests := AList.update i r (signatureRequests s)\<rparr>)"
  by (auto simp: sm_inv_def)

lemma collectSignature_inv:
  assumes inv: "sm_inv s"
  shows "sm_inv (snd (collectSignature clk rnd i c m k s))"
proof (cases "map_of (signatureRequests s) i")
  case None
  then show ?thesis using inv by (simp add: collectSignature_def)
next
  case (Some r)
  note r = sm_inv_get [OF inv Some]
  have "sm_inv (s\<lparr>signatureRequests := AList.update i (r\<lparr>q_status := Expired\<rparr>) (signatureRequests s)\<rparr>)"
    using r by (intro sm_inv_set [OF inv]) (auto simp: backed_def)
  moreover have "sm_inv (s\<lparr>signatureRequests := AList.update i r' (signatureRequests s)\<rparr>)"
    if "push_signature g c r = Inr r'" "q_status r = Collecting" for g r'
    using r push_signature_backed [OF that(1) _ that(2)] that(1)
    by (intro sm_inv_set [OF inv]) (auto simp: push_signature_Inr_iff)
  ultimately show ?thesis
    using inv Some by (simp add: collectSignature_def Let_def split: sum.split)
qed

lemma executeTransaction_inv:
  assumes inv: "sm_inv s"
  shows "sm_inv (snd (executeTransaction rnd i s))"
proof (cases "map_of (signatureRequests s) i")
  case None
  then show ?thesis using inv by (simp add: executeTransaction_def)
next
  case (Some r)
  have "sm_inv (s\<lparr>signatureRequests := AList.update i (r\<lparr>q_status := Executed\<rparr>) (signatureRequests s)\<rparr>)"
    if "q_status r = Ready"
    using sm_inv_get [OF inv Some] that by (intro sm_inv_set [OF inv]) (auto simp: backed_def)
  then show ?thesis
    using inv Some
    by (simp add: executeTransaction_def ebind_def checkThreshold_def aggregateSignatures_def ethrow_def)
qed

lemma cleanup_inv:
  assumes "sm_inv s"
  shows "sm_inv (snd (cleanupExpiredRequests now s))"
  using assms unfolding sm_inv_def cleanupExpiredRequests_def
  by (auto intro!: keyed_map_values all_values_map_values simp: backed_def is_stale_def)

lemma sm_step_inv: "sm_inv s \<Longrightarrow> sm_inv (sm_step op s)"
proof (cases op)
  case (Create clk rnd t w n h)
  then show "sm_inv s \<Longrightarrow> sm_inv (sm_step op s)"
    by (simp add: createSignatureRequest_def Let_def sm_inv_set backed_def)
qed (simp_all add: collectSignature_inv executeTransaction_inv cleanup_inv)

lemma sm_run_inv: "sm_inv (fold sm_step ops new_service)"
proof -
  have "sm_inv s \<Longrightarrow> sm_inv (fold sm_step ops s)" for s
    by (induction ops arbitrary: s) (auto simp: sm_step_inv)
  then show ?thesis by (simp add: sm_inv_def new_service_def)
qed

text \<open>
  C15: after any sequence of operations on a fresh service, a request that is ready or
  executed carries verified signatures of at least \<open>requiredSignatures\<close> different signers.
\<close>

theorem executed_is_backed:
  assumes "map_of (signatureRequests (fold sm_step ops new_service)) i = Some r"
    and "q_status r = Ready \<or> q_status r = Executed"
  shows "requiredSignatures r \<le> int (card (set (signer_ids r))) \<and>
    list_all verified (collectedSignatures r)"
proof -
  have "backed r" using sm_inv_get [OF sm_run_inv assms(1)] by blast
  then show ?thesis using assms(2) distinct_card [of "signer_ids r"] by (auto simp: backed_def)
qed

section \<open>Life cycle\<close>

text \<open>The abstract life cycle of a request.\<close>

inductive lifecycle :: "req_status \<Rightarrow> req_status \<Rightarrow> bool" where
  stay: "lifecycle st st"
| fill: "lifecycle Collecting Ready"
| expire: "lifecycle Collecting Expired"
| execute: "lifecycle Ready Executed"

inductive_simps lifecycle_Collecting [simp]: "lifecycle Collecting st"
inductive_simps lifecycle_Ready [simp]: "lifecycle Ready st"
inductive_simps lifecycle_Executed [simp]: "lifecycle Executed st"
inductive_simps lifecycle_Expired [simp]: "lifecycle Expired st"

lemma executeTransaction_eq:
  "executeTransaction rnd i s =
     (case map_of (signatureRequests s) i of
        None \<Rightarrow> (Inl (Error ''Signature request not found''), s)
      | Some r \<Rightarrow>
          if q_status r \<noteq> Ready
          then (Inl (Error ''Signature request is not ready for execution''), s)
          else if \<not> reached (threshold_of r) \<or> \<not> allVerified (threshold_of r)
          then (Inl (Error ''Signature threshold not met or signatures not verified''), s)
          else (Inr (''0x'' @ padStart 64 (CHR ''0'') rnd, True),
             s\<lparr>signatureRequests := AList.update i (r\<lparr>q_status := Executed\<rparr>) (signatureRequests s)\<rparr>))"
  by (simp add: executeTransaction_def ebind_def checkThreshold_def aggregateSignatures_def
      ethrow_def split: option.split)

text \<open>
  Every operation moves every existing request along the life cycle
  collecting, ready, executed, or collecting, expired: no request skips a stage, leaves a
  final one, or disappears (a new request gets a fresh identifier).
\<close>

theorem sm_step_lifecycle:
  assumes "map_of (signatureRequests s) i = Some r"
    and "creates op \<noteq> Some i"
  shows "\<exists>r'. map_of (signatureRequests (sm_step op s)) i = Some r' \<and>
    lifecycle (q_status r) (q_status r')"
proof (cases op)
  case (Create clk rnd t w n h)
  with assms show ?thesis by (simp add: createSignatureRequest_def Let_def stay)
next
  case (Collect clk rnd j c m k)
  show ?thesis
  proof (cases "j = i")
    case True
    with Collect assms(1) show ?thesis
      by (auto simp: collectSignature_def Let_def push_signature_Inr_iff stay split: sum.split)
  next
    case False
    with Collect assms(1) show ?thesis
      by (auto simp: collectSignature_def Let_def stay split: option.split sum.split)
  qed
next
  case (Execute rnd j)
  with assms(1) show ?thesis
    by (cases "j = i") (auto simp: executeTransaction_eq stay split: option.split)
next
  case (Cleanup now)
  with assms(1) show ?thesis
    by (auto simp: cleanupExpiredRequests_def is_stale_def stay)
qed

section \<open>One failed verification blocks a request for good\<close>

text \<open>
  Once a signature that failed verification has been collected, no operation ever makes
  the request ready: later signatures are accepted but the request can only expire.
\<close>

theorem unverified_never_ready:
  assumes "map_of (signatureRequests s) i = Some r"
    and "q_status r = Collecting \<or> q_status r = Expired" and "\<not> list_all verified (collectedSignatures r)"
    and "Some i \<notin> creates ` set ops"
  shows "\<exists>r'. map_of (signatureRequests (fold sm_step ops s)) i = Some r' \<and>
    (q_status r' = Collecting \<or> q_status r' = Expired)"
  using assms
proof (induction ops arbitrary: s r)
  case Nil
  then show ?case by simp
next
  case (Cons op ops)
  have "\<exists>r'. map_of (signatureRequests (sm_step op s)) i = Some r' \<and>
      (q_status r' = Collecting \<or> q_status r' = Expired) \<and>
      \<not> list_all verified (collectedSignatures r')"
  proof (cases op)
    case (Create clk rnd t w n h)
    with Cons.prems show ?thesis by (auto simp: createSignatureRequest_def Let_def)
  next
    case (Collect clk rnd j c m k)
    with Cons.prems show ?thesis
      by (cases "j = i") (auto simp: collectSignature_def Let_def push_signature_Inr_iff
          split: option.split sum.split)
  next
    case (Execute rnd j)
    with Cons.prems show ?thesis
      by (cases "j = i") (auto simp: executeTransaction_eq split: option.split)
  next
    case (Cleanup now)
    with Cons.prems show ?thesis
      by (auto simp: cleanupExpiredRequests_def)
  qed
  then obtain r' where "map_of (signatureRequests (sm_step op s)) i = Some r'"
      "q_status r' = Collecting \<or> q_status r' = Expired" "\<not> list_all verified (collectedSignatures r')"
    by blast
  from Cons.IH [OF this] Cons.prems(4) show ?case by simp
qed

section \<open>Concrete data\<close>

definition demo_req :: "bool \<Rightarrow> SignatureRequest" where
  "demo_req ok = \<lparr>q_id = ''q'', transactionId = ''t'', walletId = ''w'', requiredSignatures = 2,
     collectedSignatures = [\<lparr>signerId = ''a'', signature = ''0x'', timestamp = 1, verified = ok\<rparr>],
     q_status = Collecting, createdDate = 0, expiryDate = 100\<rparr>"

definition demo_sm :: "bool \<Rightarrow> sm_state" where
  "demo_sm ok = \<lparr>signatureRequests = [(''q'', demo_req ok)]\<rparr>"

theorem unverified_never_ready_witness:
  "\<exists>r'. map_of (signatureRequests (fold sm_step
      [Collect (\<lambda>_. 5) 1 ''q'' ''b'' ''m'' ''k''] (demo_sm False))) ''q'' = Some r' \<and>
    (q_status r' = Collecting \<or> q_status r' = Expired)"
  by (rule unverified_never_ready [of _ _ "demo_req False"]) (simp_all add: demo_sm_def demo_req_def)

theorem sm_step_lifecycle_witness:
  "\<exists>r'. map_of (signatureRequests (sm_step (Collect (\<lambda>_. 5) 1 ''q'' ''b'' ''m'' ''k'') (demo_sm True))) ''q''
     = Some r' \<and> lifecycle Collecting (q_status r')"
  using sm_step_lifecycle [of "demo_sm True" "''q''" "demo_req True" "Collect (\<lambda>_. 5) 1 ''q'' ''b'' ''m'' ''k''"]
  by (simp add: demo_sm_def demo_req_def)

theorem executed_is_backed_witness:
  "\<exists>r. map_of (signatureRequests (fold sm_step
      [Create (\<lambda>_. 0) ''r'' ''t'' ''w'' 1 72,
       Collect (\<lambda>_. 5) 1 (request_id (\<lambda>_. 0) ''r'') ''b'' ''m'' ''k''] new_service))
      (request_id (\<lambda>_. 0) ''r'') = Some r \<and> 1 \<le> card (set (signer_ids r))"
proof -
  let ?ops = "[Create (\<lambda>_. 0) ''r'' ''t'' ''w'' 1 72,
       Collect (\<lambda>_. 5) 1 (request_id (\<lambda>_. 0) ''r'') ''b'' ''m'' ''k'']"
  obtain r where r: "map_of (signatureRequests (fold sm_step ?ops new_service))
      (request_id (\<lambda>_. 0) ''r'') = Some r" "q_status r = Ready" "requiredSignatures r = 1"
    by (simp add: new_service_def createSignatureRequest_def collectSignature_def push_signature_def
        verifySignature_def Let_def)
  from executed_is_backed [OF r(1)] r(2,3) have "1 \<le> int (card (set (signer_ids r)))" by simp
  with r(1) show ?thesis by auto
qed

end
