(* ===== verification/SocialRecovery.thy ===== *)
theory SocialRecovery
  imports JsStore
begin

text \<open>
  Social recovery (services/socialRecovery.ts): trusted contacts, who are verified and
  assigned a share, and recovery requests, which contacts approve or reject.
\<close>

section \<open>State\<close>

record TrustedContact =
  c_id :: string
  c_name :: string
  c_email :: string
  c_phone :: "string option"
  c_address :: string
  addedDate :: int
  verified :: bool
  shareAssigned :: bool

datatype req_status = Pending | Approved | Rejected | Completed

record Approval =
  a_contactId :: string
  a_contactName :: string
  approvedDate :: int
  a_signature :: string

record Rejection =
  r_contactId :: string
  r_contactName :: string
  rejectedDate :: int
  r_reason :: "string option"

record RecoveryRequest =
  r_id :: string
  r_status :: req_status
  initiatedDate :: int
  requiredApprovals :: int
  approvals :: "Approval list"
  rejections :: "Rejection list"

record sr_state =
  trustedContacts :: "(string, TrustedContact) jsmap"
  recoveryRequests :: "(string, RecoveryRequest) jsmap"
  contacts_item :: "TrustedContact list item"
  requests_item :: "RecoveryRequest list item"
  is_browser :: bool

section \<open>Storage\<close>

definition loadContacts :: "bool \<Rightarrow> TrustedContact list item \<Rightarrow> (string, TrustedContact) jsmap" where
  "loadContacts browser i = (if \<not> browser then [] else load_values c_id (parse_item_or [] i))"

definition loadRequests :: "bool \<Rightarrow> RecoveryRequest list item \<Rightarrow> (string, RecoveryRequest) jsmap" where
  "loadRequests browser i = (if \<not> browser then [] else load_values r_id (parse_item_or [] i))"

definition new_service ::
    "bool \<Rightarrow> TrustedContact list item \<Rightarrow> RecoveryRequest list item \<Rightarrow> sr_state" where
  "new_service browser ci ri =
     \<lparr>trustedContacts = loadContacts browser ci, recoveryRequests = loadRequests browser ri,
      contacts_item = ci, requests_item = ri, is_browser = browser\<rparr>"

definition saveContacts :: "sr_state \<Rightarrow> sr_state" where
  "saveContacts s =
     (if \<not> is_browser s then s else s\<lparr>contacts_item := Json (map snd (trustedContacts s))\<rparr>)"

definition saveRequests :: "sr_state \<Rightarrow> sr_state" where
  "saveRequests s =
     (if \<not> is_browser s then s else s\<lparr>requests_item := Json (map snd (recoveryRequests s))\<rparr>)"

section \<open>Operations\<close>

definition getTrustedContacts :: "sr_state \<Rightarrow> TrustedContact list" where
  "getTrustedContacts s = map snd (trustedContacts s)"

definition set_contact :: "string \<Rightarrow> TrustedContact \<Rightarrow> sr_state \<Rightarrow> sr_state" where
  "set_contact i c s = saveContacts (s\<lparr>trustedContacts := AList.update i c (trustedContacts s)\<rparr>)"

definition set_request :: "string \<Rightarrow> RecoveryRequest \<Rightarrow> sr_state \<Rightarrow> sr_state" where
  "set_request i r s = saveRequests (s\<lparr>recoveryRequests := AList.update i r (recoveryRequests s)\<rparr>)"

definition addTrustedContact ::
    "clock \<Rightarrow> string \<Rightarrow> string \<Rightarrow> string \<Rightarrow> string \<Rightarrow> (sr_state, TrustedContact) eff" where
  "addTrustedContact clk name email phone address s =
     (let i = ''tc_'' @ show_int (clk 0);
          c = \<lparr>c_id = i, c_name = name, c_email = email, c_phone = Some phone, c_address = address,
            addedDate = clk 1, verified = False, shareAssigned = False\<rparr>
      in (Inr c, set_contact i c s))"

definition verifyContact :: "string \<Rightarrow> (sr_state, bool) eff" where
  "verifyContact i s =
     (case map_of (trustedContacts s) i of
        None \<Rightarrow> (Inl (Error ''Contact not found''), s)
      | Some c \<Rightarrow> (Inr True, set_contact i (c\<lparr>verified := True\<rparr>) s))"

definition assignShare :: "string \<Rightarrow> string \<Rightarrow> (sr_state, bool) eff" where
  "assignShare i share s =
     (case map_of (trustedContacts s) i of
        None \<Rightarrow> (Inl (Error ''Contact not found''), s)
      | Some c \<Rightarrow>
          if \<not> verified c then (Inl (Error ''Contact must be verified before assigning share''), s)
          else (Inr True, set_contact i (c\<lparr>shareAssigned := True\<rparr>) s))"

definition initiateRecovery :: "clock \<Rightarrow> int \<Rightarrow> (sr_state, RecoveryRequest) eff" where
  "initiateRecovery clk required s =
     (let i = ''recovery_'' @ show_int (clk 0);
          r = \<lparr>r_id = i, r_status = Pending, initiatedDate = clk 1, requiredApprovals = required,
            approvals = [], rejections = []\<rparr>
      in (Inr r, set_request i r s))"

definition approveRecovery :: "clock \<Rightarrow> string \<Rightarrow> string \<Rightarrow> string \<Rightarrow> (sr_state, RecoveryRequest) eff" where
  "approveRecovery clk rid cid sig s =
     (case map_of (recoveryRequests s) rid of
        None \<Rightarrow> (Inl (Error ''Recovery request not found''), s)
      | Some r \<Rightarrow>
        (case map_of (trustedContacts s) cid of
           None \<Rightarrow> (Inl (Error ''Contact not found''), s)
         | Some c \<Rightarrow>
             let r1 = r\<lparr>approvals := approvals r @ [\<lparr>a_contactId = cid, a_contactName = c_name c,
                    approvedDate = clk 0, a_signature = sig\<rparr>]\<rparr>;
                 r2 = (if int (length (approvals r1)) \<ge> requiredApprovals r1
                       then r1\<lparr>r_status := Approved\<rparr> else r1)
             in (Inr r2, set_request rid r2 s)))"

definition rejectRecovery ::
    "clock \<Rightarrow> string \<Rightarrow> string \<Rightarrow> string option \<Rightarrow> (sr_state, RecoveryRequest) eff" where
  "rejectRecovery clk rid cid reason s =
     (case map_of (recoveryRequests s) rid of
        None \<Rightarrow> (Inl (Error ''Recovery request not found''), s)
      | Some r \<Rightarrow>
        (case map_of (trustedContacts s) cid of
           None \<Rightarrow> (Inl (Error ''Contact not found''), s)
         | Some c \<Rightarrow>
             let r1 = r\<lparr>rejections := rejections r @ [\<lparr>r_contactId = cid, r_contactName = c_name c,
                    rejectedDate = clk 0, r_reason = reason\<rparr>], r_status := Rejected\<rparr>
             in (Inr r1, set_request rid r1 s)))"

definition getRecoveryRequest :: "string \<Rightarrow> sr_state \<Rightarrow> RecoveryRequest option" where
  "getRecoveryRequest i s = map_of (recoveryRequests s) i"

definition removeTrustedContact :: "string \<Rightarrow> sr_state \<Rightarrow> bool \<times> sr_state" where
  "removeTrustedContact i s =
     (if map_of (trustedContacts s) i = None then (False, s)
      else (True, saveContacts (s\<lparr>trustedContacts := AList.delete i (trustedContacts s)\<rparr>)))"

datatype sr_op =
    AddContact clock string string string string
  | Verify string
  | Assign string string
  | Initiate clock int
  | Approve clock string string string
  | Reject clock string string "string option"
  | Remove string

fun sr_step :: "sr_op \<Rightarrow> sr_state \<Rightarrow> sr_state" where
  "sr_step (AddContact clk n e p a) s = snd (addTrustedContact clk n e p a s)"
| "sr_step (Verify i) s = snd (verifyContact i s)"
| "sr_step (Assign i sh) s = snd (assignShare i sh s)"
| "sr_step (Initiate clk n) s = snd (initiateRecovery clk n s)"
| "sr_step (Approve clk r c g) s = snd (approveRecovery clk r c g s)"
| "sr_step (Reject clk r c why) s = snd (rejectRecovery clk r c why s)"
| "sr_step (Remove i) s = snd (removeTrustedContact i s)"

section \<open>Invariant and persistence\<close>

definition contact_ok :: "TrustedContact \<Rightarrow> bool" where
  "contact_ok c \<longleftrightarrow> (shareAssigned c \<longrightarrow> verified c)"

definition sr_inv :: "sr_state \<Rightarrow> bool" where
  "sr_inv s \<longleftrightarrow> is_browser s \<and>
     keyed c_id (trustedContacts s) \<and> all_values contact_ok (trustedContacts s) \<and>
     in_sync (trustedContacts s) (contacts_item s) \<and>
     keyed r_id (recoveryRequests s) \<and> in_sync (recoveryRequests s) (requests_item s)"

definition sr_reload :: "sr_state \<Rightarrow> sr_state" where
  "sr_reload s = new_service (is_browser s) (contacts_item s) (requests_item s)"

lemma sr_inv_set_contact:
  "sr_inv s \<Longrightarrow> c_id c = i \<Longrightarrow> contact_ok c \<Longrightarrow> sr_inv (set_contact i c s)"
  by (auto simp: sr_inv_def set_contact_def saveContacts_def)

lemma sr_inv_set_request: "sr_inv s \<Longrightarrow> r_id r = i \<Longrightarrow> sr_inv (set_request i r s)"
  by (auto simp: sr_inv_def set_request_def saveRequests_def)

lemma sr_inv_contact:
  "sr_inv s \<Longrightarrow> map_of (trustedContacts s) i = Some c \<Longrightarrow> c_id c = i \<and> contact_ok c"
  by (auto simp: sr_inv_def dest: keyed_get all_values_get)

lemma sr_inv_request: "sr_inv s \<Longrightarrow> map_of (recoveryRequests s) i = Some r \<Longrightarrow> r_id r = i"
  by (auto simp: sr_inv_def dest: keyed_get)

lemma contact_steps_inv:
  assumes "sr_inv s"
  shows "sr_inv (snd (addTrustedContact clk n e p a s))" "sr_inv (snd (verifyContact i s))"
    "sr_inv (snd (assignShare i sh s))" "sr_inv (snd (removeTrustedContact i s))"
proof -
  show "sr_inv (snd (addTrustedContact clk n e p a s))"
    using assms by (simp add: addTrustedContact_def Let_def sr_inv_set_contact contact_ok_def)
  show "sr_inv (snd (removeTrustedContact i s))"
    using assms by (auto simp: removeTrustedContact_def saveContacts_def sr_inv_def)
  show "sr_inv (snd (verifyContact i s))" "sr_inv (snd (assignShare i sh s))"
    using assms sr_inv_contact [OF assms, of i]
    by (cases "map_of (trustedContacts s) i";
        simp add: verifyContact_def assignShare_def sr_inv_set_contact contact_ok_def)+
qed

lemma request_steps_inv:
  assumes "sr_inv s"
  shows "sr_inv (snd (initiateRecovery clk n s))" "sr_inv (snd (approveRecovery clk i c g s))"
    "sr_inv (snd (rejectRecovery clk i c why s))"
proof -
  show "sr_inv (snd (initiateRecovery clk n s))"
    using assms by (simp add: initiateRecovery_def Let_def sr_inv_set_request)
  show "sr_inv (snd (approveRecovery clk i c g s))" "sr_inv (snd (rejectRecovery clk i c why s))"
    using assms sr_inv_request [OF assms, of i]
    by (cases "map_of (recoveryRequests s) i"; cases "map_of (trustedContacts s) c";
        simp add: approveRecovery_def rejectRecovery_def Let_def sr_inv_set_request)+
qed

lemma sr_step_inv: "sr_inv s \<Longrightarrow> sr_inv (sr_step op s)"
  by (cases op) (simp_all add: contact_steps_inv request_steps_inv)

lemma sr_reload_id: "sr_inv s \<Longrightarrow> sr_reload s = s"
  by (simp add: sr_inv_def sr_reload_def new_service_def loadContacts_def loadRequests_def in_sync_load)

interpretation sr: write_through sr_step sr_reload sr_inv
  by unfold_locales (auto simp: sr_step_inv sr_reload_id)

text \<open>
  Starting from empty storage, after any sequence of operations a contact holds a share
  only if it has been verified, and a page reload at the end gives back the same service.
\<close>

theorem share_only_if_verified:
  assumes "s = fold sr_step ops (new_service True Absent Absent)"
    and "map_of (trustedContacts s) i = Some c" and "shareAssigned c"
  shows "verified c \<and> sr_reload s = s"
proof -
  have "sr_inv (new_service True Absent Absent)"
    by (simp add: sr_inv_def new_service_def loadContacts_def loadRequests_def load_values_def)
  then have "sr_inv s" using sr.run_inv assms(1) by blast
  then show ?thesis using assms(2,3) by (auto simp: contact_ok_def sr_reload_id dest: sr_inv_contact)
qed

section \<open>One contact can approve alone\<close>

lemma approve_twice:
  assumes "map_of (recoveryRequests s) rid = Some r" and "map_of (trustedContacts s) cid = Some c"
  shows "\<exists>r'. map_of (recoveryRequests (sr_step (Approve clk rid cid g) s)) rid = Some r' \<and>
    length (approvals r') = Suc (length (approvals r)) \<and>
    set (map a_contactId (approvals r')) = insert cid (set (map a_contactId (approvals r))) \<and>
    requiredApprovals r' = requiredApprovals r \<and>
    (requiredApprovals r \<le> int (length (approvals r')) \<longrightarrow> r_status r' = Approved) \<and>
    trustedContacts (sr_step (Approve clk rid cid g) s) = trustedContacts s"
  using assms by (auto simp: approveRecovery_def set_request_def saveRequests_def Let_def)

text \<open>
  \<open>approveRecovery\<close> does not check who has approved already, nor that the contact
  is verified: repeating the call with one and the same contact reaches any threshold and
  turns the request to approved.
\<close>

theorem single_contact_approves:
  assumes "map_of (recoveryRequests s) rid = Some r" and "approvals r = []"
    and "map_of (trustedContacts s) cid = Some c"
    and "0 < n" and "requiredApprovals r \<le> int n"
  shows "\<exists>r'. map_of (recoveryRequests (fold sr_step (replicate n (Approve clk rid cid g)) s)) rid = Some r' \<and>
    r_status r' = Approved \<and> set (map a_contactId (approvals r')) = {cid}"
proof -
  have "\<exists>r'. map_of (recoveryRequests ((sr_step (Approve clk rid cid g) ^^ n) s)) rid = Some r' \<and>
      length (approvals r') = n \<and> requiredApprovals r' = requiredApprovals r \<and>
      set (map a_contactId (approvals r')) = (if n = 0 then {} else {cid}) \<and>
      (0 < n \<and> requiredApprovals r \<le> int n \<longrightarrow> r_status r' = Approved) \<and>
      trustedContacts ((sr_step (Approve clk rid cid g) ^^ n) s) = trustedContacts s"
  proof (induction n)
    case 0
    then show ?case using assms by simp
  next
    case (Suc n)
    let ?t = "(sr_step (Approve clk rid cid g) ^^ n) s"
    obtain r1 where r1: "map_of (recoveryRequests ?t) rid = Some r1" "length (approvals r1) = n"
        "requiredApprovals r1 = requiredApprovals r"
        "set (map a_contactId (approvals r1)) = (if n = 0 then {} else {cid})"
        "trustedContacts ?t = trustedContacts s"
      using Suc.IH by blast
    have "map_of (trustedContacts ?t) cid = Some c" using r1 assms by simp
    from approve_twice [OF r1(1) this, of clk g] r1 obtain r2 where
        "map_of (recoveryRequests (sr_step (Approve clk rid cid g) ?t)) rid = Some r2"
        "length (approvals r2) = Suc n" "requiredApprovals r2 = requiredApprovals r"
        "set (map a_contactId (approvals r2)) = {cid}"
        "requiredApprovals r \<le> int (Suc n) \<longrightarrow> r_status r2 = Approved"
        "trustedContacts (sr_step (Approve clk rid cid g) ?t) = trustedContacts s"
      by (auto split: if_splits)
    then show ?case by (intro exI [of _ r2]) (simp del: sr_step.simps)
  qed
  moreover have "fold sr_step (replicate n (Approve clk rid cid g)) s = (sr_step (Approve clk rid cid g) ^^ n) s"
    by (simp add: fold_replicate)
  ultimately show ?thesis using assms by auto
qed

section \<open>Identifiers of the same millisecond\<close>

text \<open>
  Contact identifiers are the clock reading alone, so of two contacts added in the same
  millisecond only the second is kept.
\<close>

theorem same_millisecond_overwrites:
  "map_of (trustedContacts (sr_step (AddContact (\<lambda>_. t) n2 e2 p2 a2)
      (sr_step (AddContact (\<lambda>_. t) n1 e1 p1 a1) s))) (''tc_'' @ show_int t) =
   Some \<lparr>c_id = ''tc_'' @ show_int t, c_name = n2, c_email = e2, c_phone = Some p2, c_address = a2,
      addedDate = t, verified = False, shareAssigned = False\<rparr> \<and>
   length (trustedContacts (sr_step (AddContact (\<lambda>_. t) n2 e2 p2 a2)
      (sr_step (AddContact (\<lambda>_. t) n1 e1 p1 a1) s))) =
   length (trustedContacts (sr_step (AddContact (\<lambda>_. t) n1 e1 p1 a1) s))"
  by (simp add: addTrustedContact_def set_contact_def saveContacts_def Let_def jsmap_set_length)

section \<open>Concrete data\<close>

definition demo_sr :: sr_state where
  "demo_sr = fold sr_step [AddContact (\<lambda>_. 1) ''Ann'' ''a@x'' ''1'' ''KCa'', Initiate (\<lambda>_. 2) 3]
     (new_service True Absent Absent)"

lemmas demo_sr_defs = demo_sr_def addTrustedContact_def initiateRecovery_def new_service_def
  loadContacts_def loadRequests_def load_values_def set_contact_def set_request_def
  saveContacts_def saveRequests_def Let_def

theorem single_contact_approves_witness:
  "\<exists>r'. map_of (recoveryRequests (fold sr_step (replicate 3 (Approve (\<lambda>_. 9) (''recovery_'' @ show_int 2)
      (''tc_'' @ show_int 1) '''')) demo_sr)) (''recovery_'' @ show_int 2) = Some r' \<and> r_status r' = Approved"
proof -
  let ?r = "\<lparr>r_id = ''recovery_'' @ show_int 2, r_status = Pending, initiatedDate = 2,
      requiredApprovals = 3, approvals = [], rejections = []\<rparr>"
  have r: "map_of (recoveryRequests demo_sr) (''recovery_'' @ show_int 2) = Some ?r"
    by (simp add: demo_sr_defs)
  obtain c where c: "map_of (trustedContacts demo_sr) (''tc_'' @ show_int 1) = Some c"
    by (simp add: demo_sr_defs)
  have "approvals ?r = []" "0 < (3::nat)" "requiredApprovals ?r \<le> int 3" by simp_all
  from single_contact_approves [OF r this(1) c this(2,3)] show ?thesis by blast
qed

theorem share_only_if_verified_witness:
  "\<exists>c. map_of (trustedContacts (fold sr_step [AddContact (\<lambda>_. 1) ''Ann'' ''a@x'' ''1'' ''KCa'',
      Verify (''tc_'' @ show_int 1), Assign (''tc_'' @ show_int 1) ''s'']
      (new_service True Absent Absent))) (''tc_'' @ show_int 1) = Some c \<and> verified c"
proof -
  let ?s = "fold sr_step [AddContact (\<lambda>_. 1) ''Ann'' ''a@x'' ''1'' ''KCa'',
      Verify (''tc_'' @ show_int 1), Assign (''tc_'' @ show_int 1) ''s''] (new_service True Absent Absent)"
  obtain c where c: "map_of (trustedContacts ?s) (''tc_'' @ show_int 1) = Some c" "shareAssigned c"
    by (simp add: demo_sr_defs verifyContact_def assignShare_def)
  from share_only_if_verified [OF refl c] c(1) show ?thesis by blast
qed

end
