(* ===== verification/SecretSharing.thy ===== *)
theory SecretSharing
  imports JsStore
begin

text \<open>
  Secret sharing (services/shamirSecret.ts), which validates its arguments and throws, and the
  estimates of services/defiService.ts, of which only the impermanent loss computes something.
\<close>

section \<open>Shares\<close>

record ShamirShare =
  sh_id :: int
  sh_data :: string
  sh_threshold :: int
  totalShares :: int

definition splitSecret :: "string \<Rightarrow> int \<Rightarrow> int \<Rightarrow> js_error + ShamirShare list" where
  "splitSecret secret total_shares threshold =
     (if threshold > total_shares then Inl (Error ''Threshold cannot exceed total shares'')
      else if threshold < 2 then Inl (Error ''Threshold must be at least 2'')
      else Inl (Error ''Shamir secret sharing requires a real implementation.''))"

text \<open>Reading \<open>shares[0].threshold\<close> of no shares throws.\<close>

definition combineShares :: "ShamirShare list \<Rightarrow> js_error + string" where
  "combineShares shares =
     (case shares of
        [] \<Rightarrow> Inl (Error ''Cannot read properties of undefined'')
      | s # _ \<Rightarrow>
          if int (length shares) < sh_threshold s
          then Inl (Error (''Need at least '' @ show_int (sh_threshold s) @ '' shares to recover secret''))
          else if list_ex (\<lambda>t. sh_threshold t \<noteq> sh_threshold s \<or> totalShares t \<noteq> totalShares s) shares
          then Inl (Error ''Incompatible shares - threshold or total mismatch'')
          else Inl (Error ''Shamir secret recovery requires a real implementation.''))"

definition verifyShare :: "ShamirShare \<Rightarrow> bool" where
  "verifyShare share =
     (if sh_data share = [] \<or> \<not> startsWith (sh_data share) ''SSS-v1-'' then False
      else let parts = split_on (CHR ''-'') (sh_data share)
           in if length parts < 5 then False
              else case (js_parseInt (parts ! 2), js_parseInt (parts ! 3), js_parseInt (parts ! 4)) of
                (Some shareId, Some threshold, Some n) \<Rightarrow>
                  shareId = sh_id share \<and> threshold = sh_threshold share \<and> n = totalShares share \<and> shareId \<le> n \<and> threshold \<le> n
              | _ \<Rightarrow> False)"

text \<open>The text of a share, as \<open>verifyShare\<close> expects it.\<close>

definition share_text :: "nat \<Rightarrow> nat \<Rightarrow> nat \<Rightarrow> string \<Rightarrow> string" where
  "share_text i k n payload = join_with ''-'' [''SSS'', ''v1'', show_nat i, show_nat k, show_nat n, payload]"

lemma show_nat_no_dash: "CHR ''-'' \<notin> set (show_nat n)"
  using show_nat_digits [of n] by (auto simp: list_all_iff is_digit_def)

text \<open>
  A share is verified exactly when its fields are those of its text and in range. A share with number
  0, and a threshold of 0, are accepted.
\<close>

lemma verify_share_text:
  assumes "CHR ''-'' \<notin> set payload"
  shows "verifyShare \<lparr>sh_id = a, sh_data = share_text i k n payload, sh_threshold = b, totalShares = c\<rparr> \<longleftrightarrow>
    a = int i \<and> b = int k \<and> c = int n \<and> i \<le> n \<and> k \<le> n"
proof -
  have "split_on (CHR ''-'') (share_text i k n payload) = [''SSS'', ''v1'', show_nat i, show_nat k, show_nat n, payload]"
    unfolding share_text_def by (rule split_on_join) (use assms show_nat_no_dash in auto)
  moreover have "startsWith (share_text i k n payload) ''SSS-v1-''" "share_text i k n payload \<noteq> []"
    by (simp_all add: share_text_def startsWith_def)
  ultimately show ?thesis by (auto simp: verifyShare_def js_parseInt_show)
qed

lemma nothing_is_shared: "\<exists>e. splitSecret s n k = Inl e" "\<exists>e. combineShares shares = Inl e"
  by (auto simp: splitSecret_def combineShares_def split: list.split)

section \<open>Impermanent loss\<close>

definition calculateImpermanentLoss :: "jsnum \<Rightarrow> jsnum \<Rightarrow> jsnum" where
  "calculateImpermanentLoss initialRatio currentRatio =
     (let ratio = currentRatio / initialRatio in (2 * sqrt ratio / (1 + ratio) - 1) * 100)"

text \<open>
  The loss is a percentage between -100 and 0, it is zero exactly when the price is where it was, and
  it does not depend on which of the two prices came first.
\<close>

lemma il_square: "0 < r \<Longrightarrow> 2 * sqrt r / (1 + r) - 1 = - ((1 - sqrt r)\<^sup>2 / (1 + r))" for r :: real
  by (simp add: field_simps power2_eq_square real_sqrt_mult_self)

lemma impermanent_loss_range:
  assumes "0 < a" and "0 < b"
  shows "- 100 < calculateImpermanentLoss a b" "calculateImpermanentLoss a b \<le> 0" "calculateImpermanentLoss a b = 0 \<longleftrightarrow> a = b"
proof -
  let ?r = "b / a"
  have r: "0 < ?r" using assms by simp
  have e: "calculateImpermanentLoss a b = - ((1 - sqrt ?r)\<^sup>2 / (1 + ?r)) * 100"
    unfolding calculateImpermanentLoss_def Let_def il_square [OF r] ..
  have "0 < 2 * sqrt ?r / (1 + ?r)" using r by (intro divide_pos_pos) auto
  then show "- 100 < calculateImpermanentLoss a b" by (simp add: calculateImpermanentLoss_def Let_def)
  show "calculateImpermanentLoss a b \<le> 0" using r unfolding e by simp
  have "calculateImpermanentLoss a b = 0 \<longleftrightarrow> sqrt ?r = 1" using r unfolding e by auto
  also have "\<dots> \<longleftrightarrow> a = b" using assms by auto
  finally show "calculateImpermanentLoss a b = 0 \<longleftrightarrow> a = b" .
qed

lemma impermanent_loss_symmetric:
  assumes "0 < a" and "0 < b"
  shows "calculateImpermanentLoss a b = calculateImpermanentLoss b a"
proof -
  obtain x y where xy: "a = x * x" "b = y * y" "0 < x" "0 < y"
    using assms by (metis less_imp_le real_sqrt_gt_zero real_sqrt_mult_self abs_of_pos)
  have "2 * (y / x) / (1 + y * y / (x * x)) = 2 * (x / y) / (1 + x * x / (y * y))"
    using xy(3,4) by (simp add: divide_simps)
  moreover have "sqrt (b / a) = y / x" "sqrt (a / b) = x / y" using xy by (simp_all add: real_sqrt_divide)
  ultimately show ?thesis by (simp only: calculateImpermanentLoss_def Let_def) (simp only: xy(1,2))
qed

definition estimateSwap :: "string \<Rightarrow> string \<Rightarrow> jsnum \<Rightarrow> jsnum \<times> jsnum \<times> jsnum \<times> jsnum" where
  "estimateSwap fromToken toToken amount = (0, 0, 0, 0)"

end
