(* ===== verification/Lightning.thy ===== *)
theory Lightning
  imports JsStore
begin

text \<open>
  The Lightning service (services/lightning.ts): channels, invoices and payments. Opening a
  channel, closing one and paying an invoice leave work for later: a \<open>setTimeout\<close>
  callback or the rest of an \<open>async\<close> function after its \<open>await\<close>. The state keeps
  that work as a list of timers with their due times, and the service is a step relation in
  which user calls, page reloads and due timers interleave.
\<close>

section \<open>State\<close>

datatype chan_state = Opening | Active | Closing | Closed

record LightningChannel =
  ch_id :: string
  nodeId :: string
  nodeName :: string
  capacity :: jsnum
  localBalance :: jsnum
  remoteBalance :: jsnum
  ch_state :: chan_state
  ch_createdAt :: int
  closedAt :: "int option"
  ch_fee :: jsnum

record LightningInvoice =
  inv_id :: string
  paymentRequest :: string
  inv_amount :: jsnum
  inv_description :: string
  inv_createdAt :: int
  expiresAt :: jsnum
  paid :: bool
  paidAt :: "int option"

datatype pay_status = Pending | Succeeded | Failed

record LightningPayment =
  pay_id :: string
  pay_invoice :: string
  pay_amount :: jsnum
  pay_fee :: jsnum
  destination :: string
  pay_status :: pay_status
  pay_createdAt :: int
  completedAt :: "int option"
  failureReason :: "string option"

text \<open>Deferred work: the three \<open>setTimeout\<close> callbacks and continuations, by object.\<close>

datatype timer = Activate string | FinishClose string | Settle string

record ln_state =
  channels :: "(string, LightningChannel) jsmap"
  invoices :: "(string, LightningInvoice) jsmap"
  payments :: "(string, LightningPayment) jsmap"
  channels_item :: "LightningChannel list item"
  invoices_item :: "LightningInvoice list item"
  payments_item :: "LightningPayment list item"
  timers :: "(int \<times> timer) list"

section \<open>Storage\<close>

definition loadChannels :: "LightningChannel list item \<Rightarrow> (string, LightningChannel) jsmap" where
  "loadChannels i = load_values ch_id (parse_item_or [] i)"

definition loadInvoices :: "LightningInvoice list item \<Rightarrow> (string, LightningInvoice) jsmap" where
  "loadInvoices i = load_values inv_id (parse_item_or [] i)"

definition loadPayments :: "LightningPayment list item \<Rightarrow> (string, LightningPayment) jsmap" where
  "loadPayments i = load_values pay_id (parse_item_or [] i)"

text \<open>The constructor in the browser with the service enabled. Timers do not survive.\<close>

definition new_service ::
    "LightningChannel list item \<Rightarrow> LightningInvoice list item \<Rightarrow> LightningPayment list item \<Rightarrow> ln_state" where
  "new_service ci ii pyi =
     \<lparr>channels = loadChannels ci, invoices = loadInvoices ii, payments = loadPayments pyi,
      channels_item = ci, invoices_item = ii, payments_item = pyi, timers = []\<rparr>"

definition saveChannels :: "ln_state \<Rightarrow> ln_state" where
  "saveChannels s = s\<lparr>channels_item := Json (map snd (channels s))\<rparr>"

definition saveInvoices :: "ln_state \<Rightarrow> ln_state" where
  "saveInvoices s = s\<lparr>invoices_item := Json (map snd (invoices s))\<rparr>"

definition savePayments :: "ln_state \<Rightarrow> ln_state" where
  "savePayments s = s\<lparr>payments_item := Json (map snd (payments s))\<rparr>"

definition schedule :: "int \<Rightarrow> timer \<Rightarrow> ln_state \<Rightarrow> ln_state" where
  "schedule due t s = s\<lparr>timers := timers s @ [(due, t)]\<rparr>"

text \<open>
  A callback holds a reference to its object: it changes the entry of the map if the object
  is still there, and a detached object otherwise.
\<close>

definition change_channel :: "string \<Rightarrow> (LightningChannel \<Rightarrow> LightningChannel) \<Rightarrow> ln_state \<Rightarrow> ln_state" where
  "change_channel i f s =
     (case map_of (channels s) i of
        None \<Rightarrow> s | Some c \<Rightarrow> s\<lparr>channels := AList.update i (f c) (channels s)\<rparr>)"

definition change_payment :: "string \<Rightarrow> (LightningPayment \<Rightarrow> LightningPayment) \<Rightarrow> ln_state \<Rightarrow> ln_state" where
  "change_payment i f s =
     (case map_of (payments s) i of
        None \<Rightarrow> s | Some p \<Rightarrow> s\<lparr>payments := AList.update i (f p) (payments s)\<rparr>)"

section \<open>Channels\<close>

definition not_configured :: js_error where
  "not_configured = Error ''Lightning API not configured''"

definition channel_id :: "clock \<Rightarrow> string \<Rightarrow> string" where
  "channel_id clk rnd = ''chan_'' @ show_int (clk 0) @ ''_'' @ rnd"

text \<open>\<open>openChannel\<close> from its resumption after the two-second delay.\<close>

definition openChannel ::
    "bool \<Rightarrow> clock \<Rightarrow> string \<Rightarrow> string \<Rightarrow> string \<Rightarrow> jsnum \<Rightarrow> jsnum \<Rightarrow> (ln_state, LightningChannel) eff" where
  "openChannel enabled clk rnd nid nname cap localAmount s =
     (if \<not> enabled then (Inl not_configured, s)
      else
        let c = \<lparr>ch_id = channel_id clk rnd, nodeId = nid, nodeName = nname, capacity = cap,
              localBalance = localAmount, remoteBalance = 0, ch_state = Opening, ch_createdAt = clk 1,
              closedAt = None, ch_fee = cap * (1 / 1000)\<rparr>;
            s1 = saveChannels (s\<lparr>channels := AList.update (ch_id c) c (channels s)\<rparr>)
        in (Inr c, schedule (clk 2 + 5000) (Activate (ch_id c)) s1))"

text \<open>The callback: \<open>channel.state = 'active'; this.saveChannels()\<close>.\<close>

definition activate :: "string \<Rightarrow> ln_state \<Rightarrow> ln_state" where
  "activate i s = saveChannels (change_channel i (\<lambda>c. c\<lparr>ch_state := Active\<rparr>) s)"

text \<open>\<open>closeChannel\<close> up to its \<open>await\<close>, and the rest of it.\<close>

definition closeChannel :: "bool \<Rightarrow> clock \<Rightarrow> string \<Rightarrow> bool \<Rightarrow> (ln_state, bool) eff" where
  "closeChannel enabled clk i force s =
     (if \<not> enabled then (Inl not_configured, s)
      else case map_of (channels s) i of
        None \<Rightarrow> (Inr False, s)
      | Some c \<Rightarrow> (Inr True, schedule (clk 0 + 2000) (FinishClose i)
          (saveChannels (change_channel i (\<lambda>c. c\<lparr>ch_state := Closing\<rparr>) s))))"

definition finishClose :: "int \<Rightarrow> string \<Rightarrow> ln_state \<Rightarrow> ln_state" where
  "finishClose now i s =
     saveChannels (change_channel i (\<lambda>c. c\<lparr>ch_state := Closed, closedAt := Some now\<rparr>) s)"

definition getChannel :: "string \<Rightarrow> ln_state \<Rightarrow> LightningChannel option" where
  "getChannel i s = map_of (channels s) i"

definition getAllChannels :: "bool \<Rightarrow> ln_state \<Rightarrow> LightningChannel list" where
  "getAllChannels enabled s = (if \<not> enabled then [] else sort_desc ch_createdAt (map snd (channels s)))"

definition getActiveChannels :: "bool \<Rightarrow> ln_state \<Rightarrow> LightningChannel list" where
  "getActiveChannels enabled s = filter (\<lambda>c. ch_state c = Active) (getAllChannels enabled s)"

definition getTotalLightningBalance :: "bool \<Rightarrow> ln_state \<Rightarrow> jsnum" where
  "getTotalLightningBalance enabled s = sum_by localBalance (getActiveChannels enabled s)"

definition getTotalChannelCapacity :: "bool \<Rightarrow> ln_state \<Rightarrow> jsnum" where
  "getTotalChannelCapacity enabled s = sum_by capacity (getActiveChannels enabled s)"

section \<open>Invoices\<close>

definition generatePaymentRequest :: "string \<Rightarrow> jsnum \<Rightarrow> string \<Rightarrow> string" where
  "generatePaymentRequest random amount descr =
     ''lnkc'' @ show_int (Math_round (amount * 100000000 * 1000)) @ random"

text \<open>
  The argument list of the object literal is evaluated in order: the identifier's clock
  reading, the payment request, then the two time stamps.
\<close>

definition createInvoice ::
    "bool \<Rightarrow> clock \<Rightarrow> string \<Rightarrow> string \<Rightarrow> jsnum \<Rightarrow> string \<Rightarrow> jsnum \<Rightarrow> (ln_state, LightningInvoice) eff" where
  "createInvoice enabled clk rnd random amount descr expiryMinutes s =
     (if \<not> enabled then (Inl not_configured, s)
      else
        let v = \<lparr>inv_id = ''inv_'' @ show_int (clk 0) @ ''_'' @ rnd,
              paymentRequest = generatePaymentRequest random amount descr,
              inv_amount = amount, inv_description = descr, inv_createdAt = clk 1,
              expiresAt = of_int (clk 2) + expiryMinutes * 60 * 1000, paid = False, paidAt = None\<rparr>
        in (Inr v, saveInvoices (s\<lparr>invoices := AList.update (inv_id v) v (invoices s)\<rparr>)))"

definition getInvoice :: "string \<Rightarrow> ln_state \<Rightarrow> LightningInvoice option" where
  "getInvoice i s = map_of (invoices s) i"

definition getAllInvoices :: "bool \<Rightarrow> ln_state \<Rightarrow> LightningInvoice list" where
  "getAllInvoices enabled s = (if \<not> enabled then [] else sort_desc inv_createdAt (map snd (invoices s)))"

definition getPendingInvoices :: "bool \<Rightarrow> int \<Rightarrow> ln_state \<Rightarrow> LightningInvoice list" where
  "getPendingInvoices enabled now s =
     filter (\<lambda>v. \<not> paid v \<and> expiresAt v > of_int now) (getAllInvoices enabled s)"

definition markInvoicePaid :: "bool \<Rightarrow> clock \<Rightarrow> string \<Rightarrow> (ln_state, bool) eff" where
  "markInvoicePaid enabled clk i s =
     (if \<not> enabled then (Inl not_configured, s)
      else case map_of (invoices s) i of
        None \<Rightarrow> (Inr False, s)
      | Some v \<Rightarrow> (Inr True, saveInvoices (s\<lparr>invoices :=
          AList.update i (v\<lparr>paid := True, paidAt := Some (clk 0)\<rparr>) (invoices s)\<rparr>)))"

section \<open>Payments\<close>

text \<open>\<open>request.match(/\d+/)\<close>: the first maximal run of digits.\<close>

definition first_digits :: "string \<Rightarrow> string" where
  "first_digits s = takeWhile is_digit (dropWhile (\<lambda>c. \<not> is_digit c) s)"

definition parsePaymentRequest :: "string \<Rightarrow> jsnum" where
  "parsePaymentRequest request =
     (if first_digits request \<noteq> [] then of_nat (read_nat (first_digits request)) / 100000000 / 1000
      else 0)"

definition payment_id :: "clock \<Rightarrow> string \<Rightarrow> string" where
  "payment_id clk rnd = ''pay_'' @ show_int (clk 0) @ ''_'' @ rnd"

definition payInvoice :: "bool \<Rightarrow> clock \<Rightarrow> string \<Rightarrow> string \<Rightarrow> (ln_state, LightningPayment) eff" where
  "payInvoice enabled clk rnd request s =
     (if \<not> enabled then (Inl not_configured, s)
      else
        let amount = parsePaymentRequest request;
            p = \<lparr>pay_id = payment_id clk rnd, pay_invoice = request, pay_amount = amount,
              pay_fee = amount * (1 / 1000), destination = ''Unknown'', pay_status = Pending,
              pay_createdAt = clk 1, completedAt = None, failureReason = None\<rparr>;
            s1 = savePayments (s\<lparr>payments := AList.update (pay_id p) p (payments s)\<rparr>)
        in (Inr p, schedule (clk 2 + 2000) (Settle (pay_id p)) s1))"

text \<open>The callback of \<open>payInvoice\<close>, with the outcome of \<open>Math.random()\<close>.\<close>

definition settle :: "jsnum \<Rightarrow> int \<Rightarrow> string \<Rightarrow> ln_state \<Rightarrow> ln_state" where
  "settle random now i s =
     savePayments (change_payment i (\<lambda>p.
       if random > 1 / 10 then p\<lparr>pay_status := Succeeded, completedAt := Some now\<rparr>
       else p\<lparr>pay_status := Failed, failureReason := Some ''No route found'', completedAt := Some now\<rparr>) s)"

definition getPayment :: "string \<Rightarrow> ln_state \<Rightarrow> LightningPayment option" where
  "getPayment i s = map_of (payments s) i"

definition getAllPayments :: "bool \<Rightarrow> ln_state \<Rightarrow> LightningPayment list" where
  "getAllPayments enabled s = (if \<not> enabled then [] else sort_desc pay_createdAt (map snd (payments s)))"

definition getSuccessfulPayments :: "bool \<Rightarrow> ln_state \<Rightarrow> LightningPayment list" where
  "getSuccessfulPayments enabled s = filter (\<lambda>p. pay_status p = Succeeded) (getAllPayments enabled s)"

definition searchNodes :: "string \<Rightarrow> 'node list" where
  "searchNodes query = []"

record ln_stats =
  channelCount :: nat
  totalCapacity :: jsnum
  totalBalance :: jsnum
  utilizationPercent :: jsnum
  paymentCount :: nat
  totalPaymentVolume :: jsnum
  totalFeesPaid :: jsnum
  averageFee :: jsnum

definition getStatistics :: "bool \<Rightarrow> ln_state \<Rightarrow> ln_stats" where
  "getStatistics enabled s =
     (let act = getActiveChannels enabled s;
          cap = getTotalChannelCapacity enabled s;
          bal = getTotalLightningBalance enabled s;
          ok = getSuccessfulPayments enabled s;
          vol = sum_by pay_amount ok;
          fees = sum_by pay_fee ok
      in \<lparr>channelCount = length act, totalCapacity = cap, totalBalance = bal,
          utilizationPercent = (if cap > 0 then bal / cap * 100 else 0),
          paymentCount = length ok, totalPaymentVolume = vol, totalFeesPaid = fees,
          averageFee = (if length ok > 0 then fees / of_nat (length ok) else 0)\<rparr>)"

definition clearAllData :: "ln_state \<Rightarrow> ln_state" where
  "clearAllData s = s\<lparr>channels := [], invoices := [], payments := [], channels_item := Absent,
     invoices_item := Absent, payments_item := Absent\<rparr>"

section \<open>The service as a step relation\<close>

text \<open>What a timer does when it fires at time \<open>now\<close>.\<close>

fun fire :: "jsnum \<Rightarrow> int \<Rightarrow> timer \<Rightarrow> ln_state \<Rightarrow> ln_state" where
  "fire random now (Activate i) s = activate i s"
| "fire random now (FinishClose i) s = finishClose now i s"
| "fire random now (Settle i) s = settle random now i s"

text \<open>
  A configuration is the current time and the state. Time does not run backwards, a timer
  fires once, not before it is due, and identifiers drawn from the clock and
  \<open>Math.random()\<close> are new.
\<close>

inductive ln_step :: "int \<times> ln_state \<Rightarrow> int \<times> ln_state \<Rightarrow> bool" where
  do_open: "t \<le> t' \<Longrightarrow> map_of (channels s) (channel_id (\<lambda>_. t') rnd) = None \<Longrightarrow>
     ln_step (t, s) (t', snd (openChannel True (\<lambda>_. t') rnd nid nname cap amt s))"
| do_close: "t \<le> t' \<Longrightarrow> ln_step (t, s) (t', snd (closeChannel True (\<lambda>_. t') i force s))"
| do_invoice: "t \<le> t' \<Longrightarrow>
     ln_step (t, s) (t', snd (createInvoice True (\<lambda>_. t') rnd random amt descr expiry s))"
| do_mark: "t \<le> t' \<Longrightarrow> ln_step (t, s) (t', snd (markInvoicePaid True (\<lambda>_. t') i s))"
| do_pay: "t \<le> t' \<Longrightarrow> map_of (payments s) (payment_id (\<lambda>_. t') rnd) = None \<Longrightarrow>
     Settle (payment_id (\<lambda>_. t') rnd) \<notin> snd ` set (timers s) \<Longrightarrow>
     ln_step (t, s) (t', snd (payInvoice True (\<lambda>_. t') rnd request s))"
| do_fire: "t \<le> t' \<Longrightarrow> (due, w) \<in> set (timers s) \<Longrightarrow> due \<le> t' \<Longrightarrow>
     ln_step (t, s) (t', fire random t' w (s\<lparr>timers := remove1 (due, w) (timers s)\<rparr>))"
| do_clear: "t \<le> t' \<Longrightarrow> ln_step (t, s) (t', clearAllData s)"
| do_reload: "t \<le> t' \<Longrightarrow>
     ln_step (t, s) (t', new_service (channels_item s) (invoices_item s) (payments_item s))"

definition ln_init :: "int \<times> ln_state" where
  "ln_init = (0, new_service Absent Absent Absent)"

abbreviation reachable :: "int \<times> ln_state \<Rightarrow> bool" where
  "reachable \<equiv> ln_step\<^sup>*\<^sup>* ln_init"

lemmas ln_defs = openChannel_def closeChannel_def activate_def finishClose_def createInvoice_def
  markInvoicePaid_def payInvoice_def settle_def clearAllData_def saveChannels_def saveInvoices_def
  savePayments_def schedule_def change_channel_def change_payment_def Let_def

section \<open>Storage always agrees with memory\<close>

definition ln_inv :: "ln_state \<Rightarrow> bool" where
  "ln_inv s \<longleftrightarrow>
     keyed ch_id (channels s) \<and> in_sync (channels s) (channels_item s) \<and>
     keyed inv_id (invoices s) \<and> in_sync (invoices s) (invoices_item s) \<and>
     keyed pay_id (payments s) \<and> in_sync (payments s) (payments_item s)"

lemma ln_inv_reload:
  "ln_inv s \<Longrightarrow> new_service (channels_item s) (invoices_item s) (payments_item s) = s\<lparr>timers := []\<rparr>"
  by (simp add: ln_inv_def new_service_def loadChannels_def loadInvoices_def loadPayments_def in_sync_load)

lemma change_channel_inv:
  "ln_inv s \<Longrightarrow> (\<And>c. ch_id (f c) = ch_id c) \<Longrightarrow> ln_inv (saveChannels (change_channel i f s))"
  by (auto simp: ln_inv_def saveChannels_def change_channel_def split: option.split
      intro!: keyed_set dest: keyed_get)

lemma change_payment_inv:
  "ln_inv s \<Longrightarrow> (\<And>p. pay_id (f p) = pay_id p) \<Longrightarrow> ln_inv (savePayments (change_payment i f s))"
  by (auto simp: ln_inv_def savePayments_def change_payment_def split: option.split
      intro!: keyed_set dest: keyed_get)

lemma ln_inv_timers [simp]: "ln_inv (s\<lparr>timers := ts\<rparr>) = ln_inv s"
  by (simp add: ln_inv_def)

lemma fire_inv: "ln_inv s \<Longrightarrow> ln_inv (fire random now w s)"
  by (cases w) (auto simp: activate_def finishClose_def settle_def change_channel_inv change_payment_inv)

lemma close_inv: "ln_inv s \<Longrightarrow> ln_inv (snd (closeChannel True clk i force s))"
  by (cases "map_of (channels s) i") (auto simp: closeChannel_def schedule_def change_channel_inv)

lemma ln_step_inv: "ln_step c c' \<Longrightarrow> ln_inv (snd c) \<Longrightarrow> ln_inv (snd c')"
proof (induction rule: ln_step.induct)
  case (do_close t t' s i force)
  then show ?case by (simp add: close_inv)
next
  case (do_fire t t' due w s random)
  then show ?case by (simp add: fire_inv)
next
  case (do_reload t t' s)
  then show ?case by (simp add: ln_inv_reload)
next
  case (do_mark t t' s i)
  then show ?case
    by (cases "map_of (invoices s) i")
      (auto simp: ln_inv_def markInvoicePaid_def saveInvoices_def dest: keyed_get intro!: keyed_set)
next
  case (do_open t t' s rnd nid nname cap amt)
  then show ?case by (auto simp: ln_inv_def openChannel_def saveChannels_def schedule_def Let_def)
next
  case (do_invoice t t' s rnd random amt descr expiry)
  then show ?case by (auto simp: ln_inv_def createInvoice_def saveInvoices_def Let_def)
next
  case (do_pay t t' s rnd request)
  then show ?case by (auto simp: ln_inv_def payInvoice_def savePayments_def schedule_def Let_def)
next
  case (do_clear t t' s)
  then show ?case by (simp add: ln_inv_def clearAllData_def)
qed

lemma ln_steps_inv: "ln_step\<^sup>*\<^sup>* c c' \<Longrightarrow> ln_inv (snd c) \<Longrightarrow> ln_inv (snd c')"
  by (induction rule: rtranclp_induct) (auto dest: ln_step_inv)

lemma ln_init_inv: "ln_inv (snd ln_init)"
  by (simp add: ln_init_def ln_inv_def new_service_def loadChannels_def loadInvoices_def
      loadPayments_def load_values_def)

text \<open>
  C18: in every reachable state, whatever timers are pending, storage holds exactly the
  channels, invoices and payments in memory: a reload changes nothing but drops the timers.
\<close>

theorem reload_only_drops_timers:
  assumes "reachable (t, s)"
  shows "new_service (channels_item s) (invoices_item s) (payments_item s) = s\<lparr>timers := []\<rparr>"
  using ln_steps_inv [OF assms ln_init_inv] by (simp add: ln_inv_reload)

section \<open>A channel becomes active only through its timer\<close>

definition inactive :: "string \<Rightarrow> ln_state \<Rightarrow> bool" where
  "inactive i s \<longleftrightarrow> Activate i \<notin> snd ` set (timers s) \<and>
     (\<forall>c. map_of (channels s) i = Some c \<longrightarrow> ch_state c \<noteq> Active)"

lemma inactive_fire:
  assumes "inactive i (s\<lparr>timers := remove1 (due, w) (timers s)\<rparr>)" and "w \<noteq> Activate i"
  shows "inactive i (fire random now w (s\<lparr>timers := remove1 (due, w) (timers s)\<rparr>))"
proof (cases w)
  case (Activate j)
  with assms show ?thesis
    by (auto simp: inactive_def activate_def saveChannels_def change_channel_def split: option.splits)
next
  case (FinishClose j)
  with assms show ?thesis
    by (auto simp: inactive_def finishClose_def saveChannels_def change_channel_def split: option.splits)
next
  case (Settle j)
  with assms show ?thesis
    by (auto simp: inactive_def settle_def savePayments_def change_payment_def split: option.splits)
qed

text \<open>Opening a new channel is the only step that can create an activation timer.\<close>

inductive opens :: "string \<Rightarrow> int \<times> ln_state \<Rightarrow> int \<times> ln_state \<Rightarrow> bool" where
  "map_of (channels s) i = None \<Longrightarrow> map_of (channels s') i = Some c \<Longrightarrow> opens i (t, s) (t', s')"

lemma inactive_step:
  assumes "ln_step c c'" and "ln_inv (snd c)" and "inactive i (snd c)" and "\<not> opens i c c'"
  shows "inactive i (snd c')"
  using assms
proof (induction rule: ln_step.induct)
  case (do_open t t' s rnd nid nname cap amt)
  then have "channel_id (\<lambda>_. t') rnd \<noteq> i"
    by (auto simp: opens.simps openChannel_def saveChannels_def schedule_def Let_def)
  with do_open show ?case
    by (auto simp: inactive_def openChannel_def saveChannels_def schedule_def Let_def)
next
  case (do_close t t' s j force)
  then show ?case
    by (cases "map_of (channels s) j")
      (auto simp: inactive_def closeChannel_def saveChannels_def schedule_def change_channel_def)
next
  case (do_mark t t' s j)
  then show ?case
    by (cases "map_of (invoices s) j") (auto simp: inactive_def markInvoicePaid_def saveInvoices_def)
next
  case (do_fire t t' due w s random)
  then have "w \<noteq> Activate i" by (force simp: inactive_def)
  moreover have "inactive i (s\<lparr>timers := remove1 (due, w) (timers s)\<rparr>)"
    using do_fire set_remove1_subset [of "(due, w)" "timers s"] by (auto simp: inactive_def)
  ultimately show ?case by (simp add: inactive_fire)
next
  case (do_reload t t' s)
  then show ?case by (simp add: ln_inv_reload inactive_def)
qed (auto simp: inactive_def createInvoice_def saveInvoices_def payInvoice_def savePayments_def
    schedule_def clearAllData_def Let_def)

text \<open>Runs in which no channel is created under the identifier \<open>i\<close>.\<close>

definition step_without_opening :: "string \<Rightarrow> int \<times> ln_state \<Rightarrow> int \<times> ln_state \<Rightarrow> bool" where
  "step_without_opening i c c' \<longleftrightarrow> ln_step c c' \<and> \<not> opens i c c'"

text \<open>
  A channel without a pending activation timer that is not active never becomes active
  again, whatever is called, fired or reloaded. In particular a channel whose page is
  reloaded while it is opening stays 'opening' for good.
\<close>

theorem no_activation_without_timer:
  assumes "(step_without_opening i)\<^sup>*\<^sup>* (t, s) (t', s')" and "ln_inv s"
    and "Activate i \<notin> snd ` set (timers s)"
    and "map_of (channels s) i = Some c" and "ch_state c \<noteq> Active"
  shows "\<forall>c'. map_of (channels s') i = Some c' \<longrightarrow> ch_state c' \<noteq> Active"
proof -
  have "ln_inv (snd d) \<and> inactive i (snd d)" if "(step_without_opening i)\<^sup>*\<^sup>* (t, s) d" for d
    using that assms(2-5)
    by (induction rule: rtranclp_induct)
      (auto simp: step_without_opening_def inactive_def [of i s] dest: ln_step_inv inactive_step)
  from this [OF assms(1)] show ?thesis by (auto simp: inactive_def)
qed

section \<open>A channel opened, closed and revived\<close>

definition ln_demo_open :: ln_state where
  "ln_demo_open = snd (openChannel True (\<lambda>_. 0) ''r'' ''n'' ''N'' 10 5 (snd ln_init))"

definition ln_demo_closing :: ln_state where
  "ln_demo_closing = snd (closeChannel True (\<lambda>_. 1000) (channel_id (\<lambda>_. 0) ''r'') False ln_demo_open)"

definition ln_demo_closed :: ln_state where
  "ln_demo_closed = fire 1 3000 (FinishClose (channel_id (\<lambda>_. 0) ''r''))
     (ln_demo_closing\<lparr>timers := remove1 (3000, FinishClose (channel_id (\<lambda>_. 0) ''r'')) (timers ln_demo_closing)\<rparr>)"

definition ln_demo_revived :: ln_state where
  "ln_demo_revived = fire 1 5000 (Activate (channel_id (\<lambda>_. 0) ''r''))
     (ln_demo_closed\<lparr>timers := remove1 (5000, Activate (channel_id (\<lambda>_. 0) ''r'')) (timers ln_demo_closed)\<rparr>)"

lemmas ln_demo_defs = ln_demo_open_def ln_demo_closing_def ln_demo_closed_def ln_demo_revived_def
  ln_init_def new_service_def loadChannels_def loadInvoices_def loadPayments_def load_values_def ln_defs

lemma ln_demo_open_reachable: "reachable (0, ln_demo_open)"
proof -
  have "ln_step (0, snd ln_init) (0, ln_demo_open)"
    unfolding ln_demo_open_def
    by (rule do_open) (simp_all add: ln_init_def new_service_def loadChannels_def load_values_def)
  then show ?thesis by (simp add: ln_init_def r_into_rtranclp)
qed

lemma ln_demo_timers:
  "timers ln_demo_closing = [(5000, Activate (channel_id (\<lambda>_. 0) ''r'')), (3000, FinishClose (channel_id (\<lambda>_. 0) ''r''))]"
  "timers ln_demo_closed = [(5000, Activate (channel_id (\<lambda>_. 0) ''r''))]"
  by (simp_all add: ln_demo_defs)

theorem reload_only_drops_timers_witness:
  "new_service (channels_item ln_demo_open) (invoices_item ln_demo_open) (payments_item ln_demo_open) =
     ln_demo_open\<lparr>timers := []\<rparr>"
  by (rule reload_only_drops_timers [OF ln_demo_open_reachable])

lemma ln_demo_channel:
  "map_of (channels ln_demo_open) (channel_id (\<lambda>_. 0) ''r'') =
     Some \<lparr>ch_id = channel_id (\<lambda>_. 0) ''r'', nodeId = ''n'', nodeName = ''N'', capacity = 10,
       localBalance = 5, remoteBalance = 0, ch_state = Opening, ch_createdAt = 0, closedAt = None,
       ch_fee = 1 / 100\<rparr>"
  by (simp add: ln_demo_defs)

theorem no_activation_without_timer_witness:
  "\<exists>c'. map_of (channels (snd (closeChannel True (\<lambda>_. 1000) (channel_id (\<lambda>_. 0) ''r'') False
      (ln_demo_open\<lparr>timers := []\<rparr>)))) (channel_id (\<lambda>_. 0) ''r'') = Some c' \<and> ch_state c' \<noteq> Active"
proof -
  let ?i = "channel_id (\<lambda>_. 0) ''r''"
  let ?s = "ln_demo_open\<lparr>timers := []\<rparr>"
  have inv: "ln_inv ?s" using ln_steps_inv [OF ln_demo_open_reachable ln_init_inv] by simp
  have "ln_step (0, ?s) (1000, snd (closeChannel True (\<lambda>_. 1000) ?i False ?s))"
    by (rule do_close) simp
  then have "(step_without_opening ?i)\<^sup>*\<^sup>* (0, ?s) (1000, snd (closeChannel True (\<lambda>_. 1000) ?i False ?s))"
    by (auto simp: step_without_opening_def opens.simps ln_demo_channel)
  from no_activation_without_timer [OF this inv] show ?thesis
    by (simp add: ln_demo_channel closeChannel_def schedule_def saveChannels_def change_channel_def)
qed

text \<open>
  Closing a channel within five seconds of opening it does not cancel the activation
  timer: a state is reachable in which the channel is active and has a closing time, and its
  balance counts again.
\<close>

theorem closed_channel_revives:
  "\<exists>t s i c. reachable (t, s) \<and> map_of (channels s) i = Some c \<and> ch_state c = Active \<and>
     closedAt c = Some 3000 \<and> getTotalLightningBalance True s = localBalance c \<and> 0 < localBalance c"
proof -
  let ?i = "channel_id (\<lambda>_. 0) ''r''"
  have "ln_step (0, ln_demo_open) (1000, ln_demo_closing)"
    unfolding ln_demo_closing_def by (rule do_close) simp
  moreover have "ln_step (1000, ln_demo_closing) (3000, ln_demo_closed)"
    unfolding ln_demo_closed_def by (rule do_fire) (simp_all add: ln_demo_timers)
  moreover have "ln_step (3000, ln_demo_closed) (5000, ln_demo_revived)"
    unfolding ln_demo_revived_def by (rule do_fire) (simp_all add: ln_demo_timers)
  ultimately have "reachable (5000, ln_demo_revived)"
    using ln_demo_open_reachable by (meson rtranclp.rtrancl_into_rtrancl)
  moreover have "\<exists>c. map_of (channels ln_demo_revived) ?i = Some c \<and> ch_state c = Active \<and>
      closedAt c = Some 3000 \<and> getTotalLightningBalance True ln_demo_revived = localBalance c \<and>
      0 < localBalance c"
    by (simp add: ln_demo_defs getTotalLightningBalance_def getActiveChannels_def getAllChannels_def
        sort_desc_def)
  ultimately show ?thesis by blast
qed

section \<open>Reading an invoice back\<close>

lemma takeWhile_digits_show [simp]:
  "takeWhile is_digit (show_nat n @ s) = show_nat n @ takeWhile is_digit s"
  using show_nat_digits [of n] by (simp add: list_all_iff takeWhile_append2)

lemma dropWhile_digits_show [simp]:
  "dropWhile (\<lambda>c. \<not> is_digit c) (show_nat n @ s) = show_nat n @ s"
  using show_nat_digits [of n] by (cases "show_nat n") auto

lemma prefix_not_digits [simp]:
  "\<not> is_digit (CHR ''l'')" "\<not> is_digit (CHR ''n'')" "\<not> is_digit (CHR ''k'')" "\<not> is_digit (CHR ''c'')"
  by (simp_all add: is_digit_def)

lemma parse_generated:
  assumes "0 \<le> amount"
  shows "parsePaymentRequest (generatePaymentRequest random amount descr) =
    of_nat (read_nat (show_nat (nat (Math_round (amount * 100000000 * 1000))) @ takeWhile is_digit random))
      / 100000000 / 1000"
proof -
  let ?n = "nat (Math_round (amount * 100000000 * 1000))"
  have "0 \<le> Math_round (amount * 100000000 * 1000)"
    using assms by (intro Math_round_nonneg) simp
  then have "show_int (Math_round (amount * 100000000 * 1000)) = show_nat ?n"
    by (simp add: show_int_def)
  then have "first_digits (generatePaymentRequest random amount descr) =
      show_nat ?n @ takeWhile is_digit random"
    by (simp add: first_digits_def generatePaymentRequest_def)
  then show ?thesis by (simp add: parsePaymentRequest_def)
qed

text \<open>
  An invoice for a whole number of millisatoshi reads back as its amount when the random
  suffix of the payment request does not start with a digit.
\<close>

theorem payment_request_roundtrip:
  assumes "0 \<le> amount" and "amount * 100000000 * 1000 = of_int m"
    and "random = [] \<or> \<not> is_digit (hd random)"
  shows "parsePaymentRequest (generatePaymentRequest random amount descr) = amount"
proof -
  have "takeWhile is_digit random = []" using assms(3) by (cases random) auto
  moreover have "0 \<le> m" using assms(1,2) by (metis mult_nonneg_nonneg of_int_0_le_iff zero_le_numeral)
  ultimately show ?thesis
    using parse_generated [OF assms(1), of random descr] assms(2) by simp
qed

lemma read_nat_append_ge: "ds \<noteq> [] \<Longrightarrow> 10 * read_nat s \<le> read_nat (s @ ds)"
proof (induction ds rule: rev_induct)
  case Nil
  then show ?case by simp
next
  case (snoc d ds)
  show ?case
  proof (cases "ds = []")
    case True
    then show ?thesis by simp
  next
    case False
    with snoc.IH have "10 * read_nat s \<le> read_nat (s @ ds)" by simp
    then show ?thesis by (simp flip: append_assoc)
  qed
qed

text \<open>
  When the suffix does start with a digit the digits run together and the amount read
  back is at least ten times the invoice's.
\<close>

theorem payment_request_misread:
  assumes "0 \<le> amount" and "amount * 100000000 * 1000 = of_int m"
    and "random = d # rest" and "is_digit d"
  shows "10 * amount \<le> parsePaymentRequest (generatePaymentRequest random amount descr)"
proof -
  have m: "0 \<le> m" using assms(1,2) by (metis mult_nonneg_nonneg of_int_0_le_iff zero_le_numeral)
  have "10 * read_nat (show_nat (nat m)) \<le> read_nat (show_nat (nat m) @ takeWhile is_digit random)"
    using assms(3,4) by (intro read_nat_append_ge) simp
  then have "real (10 * nat m) \<le> real (read_nat (show_nat (nat m) @ takeWhile is_digit random))"
    by (simp only: of_nat_le_iff read_show_nat)
  then have "10 * real (nat m) \<le> real (read_nat (show_nat (nat m) @ takeWhile is_digit random))"
    by simp
  then have "10 * real (nat m) / 100000000 / 1000
      \<le> real (read_nat (show_nat (nat m) @ takeWhile is_digit random)) / 100000000 / 1000"
    by (intro divide_right_mono) simp_all
  moreover have "10 * amount = 10 * real (nat m) / 100000000 / 1000" using assms(2) m by simp
  ultimately show ?thesis
    using parse_generated [OF assms(1), of random descr] assms(2) by simp
qed

theorem payment_request_roundtrip_witness:
  "parsePaymentRequest (generatePaymentRequest ''x7'' 1 ''tea'') = 1"
  by (rule payment_request_roundtrip [where m = 100000000000]) (simp_all add: is_digit_def)

theorem payment_request_misread_witness:
  "10 * 1 \<le> parsePaymentRequest (generatePaymentRequest ''7x'' 1 ''tea'')"
  by (rule payment_request_misread [where m = 100000000000 and d = "CHR ''7''" and rest = "''x''"])
    (simp_all add: is_digit_def)

end
