(* ===== verification/Invoicing.thy ===== *)
theory Invoicing
  imports JsStore
begin

text \<open>
  Payment invoices (services/invoicing.ts). Invoices are filed by identifier; their numbers come
  from a counter that is stored with them.
\<close>

datatype invoice_status = Draft | Pending | Paid | Expired
datatype invoice_frequency = Weekly | Monthly | Yearly

record InvoiceLineItem =
  li_id :: string
  li_description :: string
  li_quantity :: jsnum
  li_unitPrice :: jsnum
  li_total :: jsnum

record LineItemData =
  in_description :: string
  in_quantity :: jsnum
  in_unitPrice :: jsnum

record Recurring =
  rc_frequency :: invoice_frequency
  nextInvoiceDate :: int

record Invoice =
  iv_id :: string
  invoiceNumber :: string
  iv_to :: string
  toName :: "string option"
  lineItems :: "InvoiceLineItem list"
  subtotal :: jsnum
  tax :: jsnum
  iv_total :: jsnum
  paymentAddress :: string
  iv_createdAt :: int
  dueDate :: int
  paidAt :: "int option"
  iv_status :: invoice_status
  iv_notes :: "string option"
  recurring :: "Recurring option"

record invoice_options =
  io_toName :: "string option"
  io_tax :: "jsnum option"
  io_notes :: "string option"

text \<open>The stored object: its counter may be missing.\<close>

record invoice_file =
  if_invoices :: "Invoice list"
  if_counter :: "int option"

record iv_state =
  invoices :: "(string, Invoice) jsmap"
  invoiceCounter :: int
  invoices_item :: "invoice_file item"

section \<open>Storage\<close>

definition empty_file :: invoice_file where
  "empty_file = \<lparr>if_invoices = [], if_counter = Some 1000\<rparr>"

definition counter_of :: "int option \<Rightarrow> int" where
  "counter_of c = (case c of None \<Rightarrow> 1000 | Some n \<Rightarrow> if n = 0 then 1000 else n)"

text \<open>The constructor does not catch: on a text that is not JSON it throws.\<close>

definition loadInvoices :: "invoice_file item \<Rightarrow> js_error + iv_state" where
  "loadInvoices i =
     (case parse_item empty_file i of
        Inl e \<Rightarrow> Inl e
      | Inr f \<Rightarrow> Inr \<lparr>invoices = load_values iv_id (if_invoices f), invoiceCounter = counter_of (if_counter f),
                    invoices_item = i\<rparr>)"

definition saveInvoices :: "iv_state \<Rightarrow> iv_state" where
  "saveInvoices s =
     s\<lparr>invoices_item := Json \<lparr>if_invoices = map snd (invoices s), if_counter = Some (invoiceCounter s)\<rparr>\<rparr>"

section \<open>Operations\<close>

definition line_item :: "nat \<times> LineItemData \<Rightarrow> InvoiceLineItem" where
  "line_item = (\<lambda>(k, d). \<lparr>li_id = ''item_'' @ show_nat k, li_description = in_description d, li_quantity = in_quantity d,
     li_unitPrice = in_unitPrice d, li_total = in_quantity d * in_unitPrice d\<rparr>)"

definition invoice_number :: "int \<Rightarrow> string" where
  "invoice_number n = ''INV-'' @ show_int n"

definition createInvoice ::
    "clock \<Rightarrow> string \<Rightarrow> string \<Rightarrow> LineItemData list \<Rightarrow> string \<Rightarrow> int \<Rightarrow> invoice_options option \<Rightarrow> iv_state \<Rightarrow> Invoice \<times> iv_state" where
  "createInvoice clk rnd dest ds addr due opts s =
     (let its = map line_item (enumerate 0 ds);
          sub = sum_by li_total its;
          tx = (case Option.bind opts io_tax of None \<Rightarrow> 0 | Some t \<Rightarrow> t);
          v = \<lparr>iv_id = ''inv_'' @ show_int (clk 0) @ ''_'' @ rnd, invoiceNumber = invoice_number (invoiceCounter s),
               iv_to = dest, toName = Option.bind opts io_toName, lineItems = its, subtotal = sub, tax = tx,
               iv_total = sub + tx, paymentAddress = addr, iv_createdAt = clk 1, dueDate = due, paidAt = None,
               iv_status = Pending, iv_notes = Option.bind opts io_notes, recurring = None\<rparr>
      in (v, saveInvoices (s\<lparr>invoices := AList.update (iv_id v) v (invoices s), invoiceCounter := invoiceCounter s + 1\<rparr>)))"

definition getInvoices :: "iv_state \<Rightarrow> Invoice list" where
  "getInvoices s = sort_desc iv_createdAt (map snd (invoices s))"

definition getInvoice :: "string \<Rightarrow> iv_state \<Rightarrow> Invoice option" where
  "getInvoice i s = map_of (invoices s) i"

definition markAsPaid :: "clock \<Rightarrow> string \<Rightarrow> (iv_state, unit) eff" where
  "markAsPaid clk i s =
     (case map_of (invoices s) i of
        None \<Rightarrow> (Inl (Error ''Invoice not found''), s)
      | Some v \<Rightarrow> (Inr (), saveInvoices (s\<lparr>invoices :=
          AList.update i (v\<lparr>iv_status := Paid, paidAt := Some (clk 0)\<rparr>) (invoices s)\<rparr>)))"

text \<open>
  How a date and a plain number print depends on the host: \<open>date\<close> and \<open>num\<close>. The line
  feed is character 10.
\<close>

definition nl :: string where
  "nl = [CHR 10]"

definition exportToPDF :: "(int \<Rightarrow> string) \<Rightarrow> (jsnum \<Rightarrow> string) \<Rightarrow> Invoice \<Rightarrow> string" where
  "exportToPDF date num v =
     ''INVOICE '' @ invoiceNumber v @ nl @ nl @
     ''To: '' @ (if truthy_string (toName v) then the (toName v) else iv_to v) @ nl @
     ''Date: '' @ date (iv_createdAt v) @ nl @
     ''Due: '' @ date (dueDate v) @ nl @ nl @
     ''LINE ITEMS:'' @ nl @
     concat (map (\<lambda>l. li_description l @ '' x'' @ num (li_quantity l) @ '' @ '' @ toFixed 8 (li_unitPrice l) @ '' KC = '' @
       toFixed 8 (li_total l) @ '' KC'' @ nl) (lineItems v)) @
     nl @ ''Subtotal: '' @ toFixed 8 (subtotal v) @ '' KC'' @ nl @
     (if 0 < tax v then ''Tax: '' @ toFixed 8 (tax v) @ '' KC'' @ nl else []) @
     ''TOTAL: '' @ toFixed 8 (iv_total v) @ '' KC'' @ nl @ nl @
     ''Payment Address: '' @ paymentAddress v @ nl"

section \<open>Invoices add up and their numbers are distinct\<close>

datatype iv_op =
    Create clock string string "LineItemData list" string int "invoice_options option"
  | MarkPaid clock string

fun iv_step :: "iv_op \<Rightarrow> iv_state \<Rightarrow> iv_state" where
  "iv_step (Create clk rnd dest ds addr due opts) s = snd (createInvoice clk rnd dest ds addr due opts s)"
| "iv_step (MarkPaid clk i) s = snd (markAsPaid clk i s)"

definition adds_up :: "Invoice \<Rightarrow> bool" where
  "adds_up v \<longleftrightarrow>
     (\<forall>l \<in> set (lineItems v). li_total l = li_quantity l * li_unitPrice l) \<and>
     subtotal v = (\<Sum>l\<leftarrow>lineItems v. li_quantity l * li_unitPrice l) \<and>
     iv_total v = subtotal v + tax v"

definition numbered_below :: "int \<Rightarrow> Invoice \<Rightarrow> bool" where
  "numbered_below n v \<longleftrightarrow> (\<exists>k. k < n \<and> invoiceNumber v = invoice_number k)"

definition iv_inv :: "iv_state \<Rightarrow> bool" where
  "iv_inv s \<longleftrightarrow> keyed iv_id (invoices s) \<and> all_values adds_up (invoices s) \<and>
     all_values (numbered_below (invoiceCounter s)) (invoices s) \<and> 1000 \<le> invoiceCounter s \<and>
     distinct (map invoiceNumber (map snd (invoices s))) \<and>
     (invoices_item s = Json \<lparr>if_invoices = map snd (invoices s), if_counter = Some (invoiceCounter s)\<rparr> \<or>
      invoices s = [] \<and> invoiceCounter s = 1000 \<and> invoices_item s = Absent)"

definition iv_reload :: "iv_state \<Rightarrow> iv_state" where
  "iv_reload s = (case loadInvoices (invoices_item s) of Inl _ \<Rightarrow> s | Inr s' \<Rightarrow> s')"

lemma invoice_number_inject [simp]: "invoice_number m = invoice_number n \<longleftrightarrow> m = n"
  by (simp add: invoice_number_def)

lemma created_adds_up: "adds_up (fst (createInvoice clk rnd dest ds addr due opts s))"
  by (auto simp: createInvoice_def adds_up_def Let_def line_item_def sum_by_sum_list comp_def case_prod_beta split: prod.splits)

lemma all_values_weaken: "all_values P m \<Longrightarrow> (\<And>v. P v \<Longrightarrow> Q v) \<Longrightarrow> all_values Q m"
  by (auto simp: all_values_def)

lemma fresh_number:
  "all_values (numbered_below n) m \<Longrightarrow> invoice_number n \<notin> set (map invoiceNumber (map snd m))"
  by (force simp: all_values_def numbered_below_def)

lemma iv_inv_create:
  assumes "iv_inv s"
  shows "iv_inv (snd (createInvoice clk rnd dest ds addr due opts s))"
proof -
  obtain v where v: "fst (createInvoice clk rnd dest ds addr due opts s) = v" by simp
  have adds: "adds_up v" using created_adds_up v by metis
  have num: "invoiceNumber v = invoice_number (invoiceCounter s)"
    using v by (auto simp: createInvoice_def Let_def)
  have s': "snd (createInvoice clk rnd dest ds addr due opts s) =
      saveInvoices (s\<lparr>invoices := AList.update (iv_id v) v (invoices s), invoiceCounter := invoiceCounter s + 1\<rparr>)"
    using v by (auto simp: createInvoice_def Let_def)
  have "all_values (numbered_below (invoiceCounter s + 1)) (invoices s)"
  proof (rule all_values_weaken)
    show "all_values (numbered_below (invoiceCounter s)) (invoices s)" using assms by (simp add: iv_inv_def)
    show "numbered_below (invoiceCounter s + 1) w" if "numbered_below (invoiceCounter s) w" for w
      using that by (force simp: numbered_below_def)
  qed
  then have "all_values (numbered_below (invoiceCounter s + 1)) (AList.update (iv_id v) v (invoices s))"
    using num by (auto simp: numbered_below_def)
  moreover have "distinct (map invoiceNumber (map snd (AList.update (iv_id v) v (invoices s))))"
    using assms num fresh_number [of "invoiceCounter s" "invoices s"] unfolding iv_inv_def
    by (intro jsmap_set_distinct) simp_all
  ultimately show ?thesis
    unfolding s' using assms adds by (auto simp: iv_inv_def saveInvoices_def)
qed

lemma iv_inv_paid: "iv_inv s \<Longrightarrow> iv_inv (snd (markAsPaid clk i s))"
proof (cases "map_of (invoices s) i")
  case (Some v)
  let ?v = "v\<lparr>iv_status := Paid, paidAt := Some (clk 0)\<rparr>"
  assume inv: "iv_inv s"
  then have v: "iv_id v = i" "adds_up v" "numbered_below (invoiceCounter s) v"
    using Some unfolding iv_inv_def by (auto intro: keyed_get all_values_get)
  have "map invoiceNumber (map snd (AList.update i ?v (invoices s))) = map invoiceNumber (map snd (invoices s))"
    by (rule jsmap_set_project [OF Some]) simp
  with inv v Some show ?thesis
    unfolding iv_inv_def markAsPaid_def saveInvoices_def
    by (auto simp: adds_up_def numbered_below_def intro!: keyed_set all_values_set)
qed (simp add: markAsPaid_def)

lemma iv_reload_id: "iv_inv s \<Longrightarrow> iv_reload s = s"
  by (auto simp: iv_inv_def iv_reload_def loadInvoices_def counter_of_def empty_file_def load_values_inverse)
    (simp add: load_values_def)

interpretation invoices: write_through iv_step iv_reload iv_inv
proof
  show "iv_inv (iv_step op s)" if "iv_inv s" for op s
    using that by (cases op) (simp_all add: iv_inv_create iv_inv_paid)
qed (rule iv_reload_id)

definition new_invoicing :: iv_state where
  "new_invoicing = \<lparr>invoices = [], invoiceCounter = 1000, invoices_item = Absent\<rparr>"

lemma new_invoicing_inv: "loadInvoices Absent = Inr new_invoicing" "iv_inv new_invoicing"
  by (simp_all add: loadInvoices_def empty_file_def counter_of_def load_values_def new_invoicing_def iv_inv_def)

text \<open>
  In every run of the invoicing service, with the page reloaded between any two operations,
  invoice numbers are never used twice and every invoice adds up: each line is quantity times
  price, the subtotal is the sum of the lines and the total is the subtotal and the tax.
\<close>

theorem invoices_numbered_once:
  "let s = fold (\<lambda>op s. iv_reload (iv_step op s)) ops new_invoicing
   in distinct (map invoiceNumber (map snd (invoices s))) \<and> list_all adds_up (map snd (invoices s)) \<and>
      s = fold iv_step ops new_invoicing"
proof -
  have "iv_inv (fold iv_step ops new_invoicing)" by (rule invoices.run_inv [OF new_invoicing_inv(2)])
  then show ?thesis
    unfolding invoices.run_reload [OF new_invoicing_inv(2)]
    by (auto simp: iv_inv_def all_values_def list_all_iff)
qed

text \<open>A paid invoice can be paid again: only the time of payment changes.\<close>

lemma paid_twice:
  "map_of (invoices s) i = Some v \<Longrightarrow>
     getInvoice i (snd (markAsPaid c2 i (snd (markAsPaid c1 i s)))) = Some (v\<lparr>iv_status := Paid, paidAt := Some (c2 0)\<rparr>)"
  by (simp add: markAsPaid_def getInvoice_def saveInvoices_def)

end
