(* ===== verification/PaymentRequests.thy ===== *)
theory PaymentRequests
  imports JsStore SignatureManager
begin

text \<open>
  Payment requests and the history of codes (services/qrService.ts). The texts are those whose
  characters are below 256; \<open>encodeURIComponent\<close> and its inverse go through UTF-8, and a value with
  a character beyond is marked as such, not guessed. How numbers and dates print and are read are
  arguments. A drawing is the list of rectangles and texts that the canvas is given.
\<close>

section \<open>Percent encoding\<close>

definition unreserved :: "char \<Rightarrow> bool" where
  "unreserved c \<longleftrightarrow>
     is_digit c \<or> (97 \<le> (of_char c :: nat) \<and> (of_char c :: nat) \<le> 122) \<or> (65 \<le> (of_char c :: nat) \<and> (of_char c :: nat) \<le> 90) \<or>
     (of_char c :: nat) \<in> {45, 95, 46, 33, 126, 42, 39, 40, 41}"

definition hex_upper :: "nat \<Rightarrow> char" where
  "hex_upper d = (if d < 10 then char_of (48 + d) else char_of (55 + d))"

definition percent :: "nat \<Rightarrow> string" where
  "percent b = [CHR ''%'', hex_upper (b div 16), hex_upper (b mod 16)]"

definition utf8 :: "char \<Rightarrow> nat list" where
  "utf8 c = (let n = of_char c in if n < 128 then [n] else [192 + n div 64, 128 + n mod 64])"

definition encode_char :: "char \<Rightarrow> string" where
  "encode_char c = (if unreserved c then [c] else concat (map percent (utf8 c)))"

definition encodeURIComponent :: "string \<Rightarrow> string" where
  "encodeURIComponent s = concat (map encode_char s)"

definition hex_value :: "char \<Rightarrow> nat option" where
  "hex_value c =
     (let n = of_char c :: nat
      in if 48 \<le> n \<and> n \<le> 57 then Some (n - 48)
         else if 65 \<le> n \<and> n \<le> 70 then Some (n - 55)
         else if 97 \<le> n \<and> n \<le> 102 then Some (n - 87)
         else None)"

text \<open>Two hexadecimal digits.\<close>

definition hex_byte :: "char \<Rightarrow> char \<Rightarrow> nat option" where
  "hex_byte a b =
     (case hex_value a of None \<Rightarrow> None | Some x \<Rightarrow> (case hex_value b of None \<Rightarrow> None | Some y \<Rightarrow> Some (16 * x + y)))"

text \<open>
  What decoding gives: a text, a \<open>URIError\<close>, or, from a lead byte of a character beyond 255, something
  that the texts of the model cannot say.
\<close>

datatype decoded = Decoded string | URIError | Beyond

fun cons_decoded :: "char \<Rightarrow> decoded \<Rightarrow> decoded" where
  "cons_decoded c (Decoded s) = Decoded (c # s)"
| "cons_decoded c d = d"

fun decodeURIComponent :: "string \<Rightarrow> decoded" where
  "decodeURIComponent [] = Decoded []"
| "decodeURIComponent (c # cs) =
     (if c \<noteq> CHR ''%'' then cons_decoded c (decodeURIComponent cs)
      else case cs of
        a # b # r \<Rightarrow>
          (case hex_byte a b of
             None \<Rightarrow> URIError
           | Some n \<Rightarrow>
               if n < 128 then cons_decoded (char_of n) (decodeURIComponent r)
               else if n < 194 \<or> 244 < n then URIError
               else if 195 < n then Beyond
               else (case r of
                 p # a' # b' # r' \<Rightarrow>
                   (case hex_byte a' b' of
                      None \<Rightarrow> URIError
                    | Some m \<Rightarrow>
                        if p = CHR ''%'' \<and> 128 \<le> m \<and> m < 192
                        then cons_decoded (char_of (64 * (n - 192) + (m - 128))) (decodeURIComponent r')
                        else URIError)
               | _ \<Rightarrow> URIError))
      | _ \<Rightarrow> URIError)"

lemma hex_upper_value: "d < 16 \<Longrightarrow> hex_value (hex_upper d) = Some d"
  by (auto simp: hex_value_def hex_upper_def Let_def)

lemma hex_byte_percent: "n < 256 \<Longrightarrow> hex_byte (hex_upper (n div 16)) (hex_upper (n mod 16)) = Some n"
  by (simp add: hex_byte_def hex_upper_value)

lemma of_char_256: "(of_char c :: nat) < 256"
  by simp

lemma two_bytes: "128 \<le> n \<Longrightarrow> n < 256 \<Longrightarrow> 2 \<le> n div 64 \<and> n div 64 \<le> 3 \<and> 64 * (n div 64) + n mod 64 = (n::nat)"
  using div_le_mono [of 128 n 64] less_mult_imp_div_less [of n 4 64] by simp

lemma unreserved_not_percent: "unreserved c \<Longrightarrow> c \<noteq> CHR ''%''"
  by (auto simp: unreserved_def is_digit_def)

lemma decode_encode_char: "decodeURIComponent (encode_char c @ s) = cons_decoded c (decodeURIComponent s)"
proof (cases "unreserved c")
  case True
  then show ?thesis using unreserved_not_percent by (simp add: encode_char_def)
next
  case False
  let ?n = "of_char c :: nat"
  show ?thesis
  proof (cases "?n < 128")
    case True
    then show ?thesis using False by (simp add: encode_char_def utf8_def percent_def hex_byte_percent Let_def)
  next
    case hi: False
    let ?a = "192 + ?n div 64" and ?b = "128 + ?n mod 64"
    have n: "?n < 256" by (rule of_char_256)
    have ab: "?a < 256" "?b < 256" "194 \<le> ?a" "?a \<le> 195" "128 \<le> ?b" "?b < 192" "64 * (?a - 192) + (?b - 128) = ?n"
      using two_bytes [of ?n] hi n by auto
    have e: "encode_char c = percent ?a @ percent ?b" using False hi by (simp add: encode_char_def utf8_def Let_def)
    show ?thesis
      unfolding e percent_def using hex_byte_percent [OF ab(1)] hex_byte_percent [OF ab(2)] ab(3-7) by (auto simp del: diff_add_inverse)
  qed
qed

lemma decode_encode: "decodeURIComponent (encodeURIComponent s) = Decoded s"
  unfolding encodeURIComponent_def by (induction s) (simp_all add: decode_encode_char)

section \<open>Query strings\<close>

text \<open>
  \<open>URLSearchParams\<close>: a plus is a space, a percent sign with two hexadecimal digits is a byte, any
  other one stands for itself, and the bytes are read as UTF-8. Bytes that are not UTF-8 become a
  replacement character, which is beyond the model.
\<close>

fun form_bytes :: "string \<Rightarrow> nat list" where
  "form_bytes [] = []"
| "form_bytes (c # cs) =
     (if c = CHR ''+'' then 32 # form_bytes cs
      else if c = CHR ''%'' then
        (case cs of
           a # b # r \<Rightarrow> (case hex_byte a b of None \<Rightarrow> 37 # form_bytes cs | Some n \<Rightarrow> n # form_bytes r)
         | _ \<Rightarrow> 37 # form_bytes cs)
      else utf8 c @ form_bytes cs)"

fun utf8_decode :: "nat list \<Rightarrow> decoded" where
  "utf8_decode [] = Decoded []"
| "utf8_decode (b # bs) =
     (if b < 128 then cons_decoded (char_of b) (utf8_decode bs)
      else case bs of
        m # r \<Rightarrow> if (b = 194 \<or> b = 195) \<and> 128 \<le> m \<and> m < 192
                then cons_decoded (char_of (64 * (b - 192) + (m - 128))) (utf8_decode r) else Beyond
      | [] \<Rightarrow> Beyond)"

definition form_decode :: "string \<Rightarrow> decoded" where
  "form_decode s = utf8_decode (form_bytes s)"

text \<open>A piece of the query is cut at its first equals sign.\<close>

definition form_pair :: "string \<Rightarrow> decoded \<times> decoded" where
  "form_pair s =
     (form_decode (takeWhile (\<lambda>c. c \<noteq> CHR ''='') s), form_decode (drop 1 (dropWhile (\<lambda>c. c \<noteq> CHR ''='') s)))"

definition URLSearchParams :: "string \<Rightarrow> (decoded \<times> decoded) list" where
  "URLSearchParams q = map form_pair (filter (\<lambda>s. s \<noteq> []) (split_on (CHR ''&'') q))"

definition params_get :: "string \<Rightarrow> (decoded \<times> decoded) list \<Rightarrow> decoded option" where
  "params_get k ps = map_of ps (Decoded k)"

section \<open>Payment requests\<close>

record PaymentRequest =
  request_address :: string
  request_amount :: "jsnum option"
  request_note :: "string option"
  request_expiry :: "int option"

text \<open>
  How numbers and dates print (\<open>`${n}`\<close>, \<open>toISOString\<close>) and are read (\<open>parseFloat\<close>, \<open>new Date\<close>); a
  reading of \<open>None\<close> is not a number.
\<close>

record codec =
  show_num :: "jsnum \<Rightarrow> string"
  read_num :: "string \<Rightarrow> jsnum option"
  show_date :: "int \<Rightarrow> string"
  read_date :: "string \<Rightarrow> int option"

definition createPaymentRequest :: "codec \<Rightarrow> int \<Rightarrow> string \<Rightarrow> jsnum option \<Rightarrow> string option \<Rightarrow> jsnum \<Rightarrow> string" where
  "createPaymentRequest cd now address amount note expiryHours =
     (let request = \<lparr>request_address = address,
                      request_amount = (case amount of Some a \<Rightarrow> if 0 < a then Some a else None | None \<Rightarrow> None),
                      request_note = (if truthy_string note then note else None),
                      request_expiry = (if 0 < expiryHours then Some (\<lfloor>of_int now + expiryHours * 3600000\<rfloor>) else None)\<rparr>;
          params = (case request_amount request of Some a \<Rightarrow> [''amount='' @ show_num cd a] | None \<Rightarrow> []) @
                   (case request_note request of Some t \<Rightarrow> [''note='' @ encodeURIComponent t] | None \<Rightarrow> []) @
                   (case request_expiry request of Some d \<Rightarrow> [''expiry='' @ show_date cd d] | None \<Rightarrow> [])
      in ''kubercoin:'' @ address @ (if params \<noteq> [] then ''?'' @ join_with ''&'' params else []))"

text \<open>
  A field of the query: \<open>None\<close> when it is absent or empty. The outer option of the parser says whether
  its answer can be said in the texts of the model; the inner one is its null.
\<close>

definition field_text :: "decoded option \<Rightarrow> decoded option" where
  "field_text d = (if d = Some (Decoded []) then None else d)"

fun parse_note :: "decoded option \<Rightarrow> decoded option" where
  "parse_note (Some (Decoded s)) = Some (decodeURIComponent s)"
| "parse_note d = d"

fun read_field :: "(string \<Rightarrow> 'a option) \<Rightarrow> decoded option \<Rightarrow> 'a option" where
  "read_field f (Some (Decoded s)) = f s"
| "read_field f d = None"

definition strip_scheme :: "string \<Rightarrow> string" where
  "strip_scheme s = (if startsWith s ''kubercoin:'' then drop 10 s else s)"

definition parse_query :: "codec \<Rightarrow> string \<Rightarrow> string \<Rightarrow> PaymentRequest option option" where
  "parse_query cd address q =
     (let params = URLSearchParams q;
          amount = field_text (params_get ''amount'' params);
          note = parse_note (field_text (params_get ''note'' params));
          expiry = field_text (params_get ''expiry'' params)
      in if note = Some URIError then Some None
         else if Some Beyond \<in> {amount, note, expiry} then None
         else Some (Some \<lparr>request_address = address, request_amount = read_field (read_num cd) amount,
                          request_note = read_field Some note, request_expiry = read_field (read_date cd) expiry\<rparr>))"

definition parsePaymentRequest :: "codec \<Rightarrow> string \<Rightarrow> PaymentRequest option option" where
  "parsePaymentRequest cd data =
     (case split_on (CHR ''?'') (strip_scheme data) of
        [] \<Rightarrow> Some None
      | address # rest \<Rightarrow>
          if address = [] then Some None
          else (case rest of
            q # _ \<Rightarrow> if q \<noteq> [] then parse_query cd address q
                    else Some (Some \<lparr>request_address = address, request_amount = None, request_note = None, request_expiry = None\<rparr>)
          | [] \<Rightarrow> Some (Some \<lparr>request_address = address, request_amount = None, request_note = None, request_expiry = None\<rparr>)))"

section \<open>Codes\<close>

datatype canvas_op =
    FillRect string jsnum jsnum jsnum jsnum
  | FillText string string jsnum jsnum

record QROptions =
  size :: jsnum
  fgColor :: string
  bgColor :: string
  includeLogo :: bool

definition simpleHash :: "string \<Rightarrow> int" where
  "simpleHash s = \<bar>sint (hash_of s)\<bar>"

definition drawFinderPattern :: "jsnum \<Rightarrow> jsnum \<Rightarrow> jsnum \<Rightarrow> string \<Rightarrow> string \<Rightarrow> canvas_op list" where
  "drawFinderPattern x y moduleSize fg bg =
     [FillRect fg x y (moduleSize * 7) (moduleSize * 7),
      FillRect bg (x + moduleSize) (y + moduleSize) (moduleSize * 5) (moduleSize * 5),
      FillRect fg (x + moduleSize * 2) (y + moduleSize * 2) (moduleSize * 3) (moduleSize * 3)]"

definition qr_dark :: "string \<Rightarrow> nat \<Rightarrow> nat \<Rightarrow> bool" where
  "qr_dark data x y \<longleftrightarrow> simpleHash (data @ show_nat x @ show_nat y) mod 2 = 0"

definition generateQR :: "string \<Rightarrow> QROptions \<Rightarrow> canvas_op list" where
  "generateQR data opt =
     (let sz = size opt; fg = fgColor opt; bg = bgColor opt; m = of_int \<lfloor>sz / 25\<rfloor>
      in [FillRect bg 0 0 sz sz] @
         concat (map (\<lambda>y. concat (map (\<lambda>x. if qr_dark data x y then [FillRect fg (of_nat x * m) (of_nat y * m) m m] else []) [0..<25])) [0..<25]) @
         drawFinderPattern 0 0 m fg bg @ drawFinderPattern (18 * m) 0 m fg bg @ drawFinderPattern 0 (18 * m) m fg bg @
         (if includeLogo opt
          then let logoSize = sz * (2 / 10); logo = (sz - logoSize) / 2
               in [FillRect bg logo logo logoSize logoSize, FillText fg ''KC'' (sz / 2) (sz / 2)]
          else []))"

definition generateBatchQRs :: "codec \<Rightarrow> int \<Rightarrow> string list \<Rightarrow> QROptions \<Rightarrow> (string \<times> canvas_op list) list" where
  "generateBatchQRs cd now adrs opt =
     map (\<lambda>a. (a, generateQR (createPaymentRequest cd now a None None 24) opt)) adrs"

definition decodeQR :: "'image \<Rightarrow> string option" where
  "decodeQR img = None"

subsection \<open>The history\<close>

datatype code_origin = Generated | Scanned

record history_entry =
  entry_type :: code_origin
  entry_data :: string
  entry_time :: int

definition getHistory :: "history_entry list item \<Rightarrow> js_error + history_entry list" where
  "getHistory i = parse_item [] i"

definition saveToHistory :: "int \<Rightarrow> code_origin \<Rightarrow> string \<Rightarrow> history_entry list item \<Rightarrow> js_error + history_entry list item" where
  "saveToHistory now ty data i =
     (case getHistory i of
        Inl e \<Rightarrow> Inl e
      | Inr h \<Rightarrow> Inr (Json (take 50 (\<lparr>entry_type = ty, entry_data = data, entry_time = now\<rparr> # h))))"

definition clearHistory :: "history_entry list item \<Rightarrow> history_entry list item" where
  "clearHistory i = Absent"

section \<open>Reading back\<close>

subsection \<open>Decoding\<close>

lemma cons_decoded_Decoded [simp]: "cons_decoded c d = Decoded s \<longleftrightarrow> (\<exists>t. d = Decoded t \<and> s = c # t)"
  by (cases d) auto

lemma utf8_decode_char: "utf8_decode (utf8 c @ bs) = cons_decoded c (utf8_decode bs)"
proof (cases "(of_char c :: nat) < 128")
  case True
  then show ?thesis by (simp add: utf8_def Let_def)
next
  case False
  let ?n = "of_char c :: nat"
  have "2 \<le> ?n div 64 \<and> ?n div 64 \<le> 3 \<and> 64 * (?n div 64) + ?n mod 64 = ?n"
    using False two_bytes [of ?n] of_char_256 by auto
  then show ?thesis using False by (auto simp: utf8_def Let_def)
qed

lemma utf8_decode_text: "utf8_decode (concat (map utf8 s)) = Decoded s"
  by (induction s) (simp_all add: utf8_decode_char)

lemma form_bytes_percent: "n < 256 \<Longrightarrow> form_bytes (percent n @ s) = n # form_bytes s"
  by (simp add: percent_def hex_byte_percent)

lemma utf8_bytes: "b \<in> set (utf8 c) \<Longrightarrow> b < 256"
  using two_bytes [of "of_char c"] of_char_256 [of c] by (auto simp: utf8_def Let_def split: if_splits)

lemma form_bytes_percents: "\<forall>b \<in> set bs. b < 256 \<Longrightarrow> form_bytes (concat (map percent bs) @ s) = bs @ form_bytes s"
  by (induction bs) (simp_all add: form_bytes_percent)

lemma form_bytes_char: "form_bytes (encode_char c @ s) = utf8 c @ form_bytes s"
proof (cases "unreserved c")
  case True
  then have "c \<noteq> CHR ''+''" "c \<noteq> CHR ''%''" by (auto simp: unreserved_def is_digit_def)
  then show ?thesis using True by (simp add: encode_char_def)
next
  case False
  then show ?thesis using form_bytes_percents [of "utf8 c" s] utf8_bytes by (simp add: encode_char_def)
qed

lemma form_bytes_encoded: "form_bytes (encodeURIComponent s) = concat (map utf8 s)"
  unfolding encodeURIComponent_def by (induction s) (simp_all add: form_bytes_char)

lemma form_decode_encoded: "form_decode (encodeURIComponent s) = Decoded s"
  by (simp add: form_decode_def form_bytes_encoded utf8_decode_text)

text \<open>A text that can stand in a query as it is.\<close>

definition query_safe :: "string \<Rightarrow> bool" where
  "query_safe s \<longleftrightarrow> s \<noteq> [] \<and> CHR ''?'' \<notin> set s \<and> CHR ''&'' \<notin> set s \<and> CHR ''+'' \<notin> set s \<and> CHR ''%'' \<notin> set s"

lemma form_decode_plain:
  assumes "CHR ''+'' \<notin> set s" and "CHR ''%'' \<notin> set s"
  shows "form_decode s = Decoded s"
proof -
  have "form_bytes s = concat (map utf8 s)" using assms by (induction s) auto
  then show ?thesis by (simp add: form_decode_def utf8_decode_text)
qed

lemma hex_upper_alnum: "d < 16 \<Longrightarrow> unreserved (hex_upper d)"
  by (auto simp: unreserved_def hex_upper_def is_digit_def)

lemma encoded_chars: "x \<in> set (encodeURIComponent s) \<Longrightarrow> unreserved x \<or> x = CHR ''%''"
  using utf8_bytes
  by (auto simp: encodeURIComponent_def encode_char_def percent_def hex_upper_alnum less_mult_imp_div_less split: if_splits)

lemma encoded_free: "CHR ''?'' \<notin> set (encodeURIComponent s) \<and> CHR ''&'' \<notin> set (encodeURIComponent s)"
  using encoded_chars [of "CHR ''?''" s] encoded_chars [of "CHR ''&''" s] by (auto simp: unreserved_def is_digit_def)

lemma decode_plain: "CHR ''%'' \<notin> set s \<Longrightarrow> decodeURIComponent s = Decoded s"
  by (induction s) auto

subsection \<open>Queries\<close>

fun query_piece :: "string \<times> string \<Rightarrow> string" where
  "query_piece (k, v) = k @ CHR ''='' # v"

lemma form_pair_piece:
  "CHR ''='' \<notin> set k \<Longrightarrow> CHR ''+'' \<notin> set k \<Longrightarrow> CHR ''%'' \<notin> set k \<Longrightarrow>
   form_pair (query_piece (k, v)) = (Decoded k, form_decode v)"
proof -
  assume *: "CHR ''='' \<notin> set k" "CHR ''+'' \<notin> set k" "CHR ''%'' \<notin> set k"
  then have "takeWhile (\<lambda>c. c \<noteq> CHR ''='') (k @ CHR ''='' # v) = k" "dropWhile (\<lambda>c. c \<noteq> CHR ''='') (k @ CHR ''='' # v) = CHR ''='' # v"
    by (induction k) auto
  then show ?thesis using * by (simp add: form_pair_def form_decode_plain)
qed

lemma query_pairs:
  assumes "\<And>k v. (k, v) \<in> set ps \<Longrightarrow> k \<in> {''amount'', ''note'', ''expiry''} \<and> CHR ''&'' \<notin> set v" and "ps \<noteq> []"
  shows "URLSearchParams (join_with ''&'' (map query_piece ps)) = map (\<lambda>(k, v). (Decoded k, form_decode v)) ps"
proof -
  have free: "CHR ''&'' \<notin> set (query_piece p) \<and> query_piece p \<noteq> []" if "p \<in> set ps" for p
    using assms(1) [of "fst p" "snd p"] that by (cases p) auto
  then have "split_on (CHR ''&'') (join_with ''&'' (map query_piece ps)) = map query_piece ps"
    using assms(2) by (intro split_on_join) auto
  moreover have "filter (\<lambda>s. s \<noteq> []) (map query_piece ps) = map query_piece ps"
    using free by (intro filter_True) auto
  moreover have "form_pair (query_piece p) = (case p of (k, v) \<Rightarrow> (Decoded k, form_decode v))" if "p \<in> set ps" for p
    using assms(1) [of "fst p" "snd p"] that form_pair_piece [of "fst p" "snd p"] by (cases p) auto
  ultimately show ?thesis by (simp add: URLSearchParams_def)
qed

lemma join_with_free: "\<forall>w \<in> set ws. d \<notin> set w \<Longrightarrow> d \<notin> set e \<Longrightarrow> d \<notin> set (join_with e ws)"
  by (induction e ws rule: join_with.induct) auto

text \<open>The fields of a request, as they are put into the query.\<close>

definition request_pieces :: "codec \<Rightarrow> jsnum option \<Rightarrow> string option \<Rightarrow> int option \<Rightarrow> (string \<times> string) list" where
  "request_pieces cd amount note expiry =
     (case amount of Some a \<Rightarrow> [(''amount'', show_num cd a)] | None \<Rightarrow> []) @
     (case note of Some t \<Rightarrow> [(''note'', encodeURIComponent t)] | None \<Rightarrow> []) @
     (case expiry of Some d \<Rightarrow> [(''expiry'', show_date cd d)] | None \<Rightarrow> [])"

text \<open>The amount, the note and the expiry that a request is made with.\<close>

definition given_amount :: "jsnum option \<Rightarrow> jsnum option" where
  "given_amount amount = (case amount of Some a \<Rightarrow> if 0 < a then Some a else None | None \<Rightarrow> None)"

definition given_note :: "string option \<Rightarrow> string option" where
  "given_note note = (if truthy_string note then note else None)"

definition given_expiry :: "int \<Rightarrow> jsnum \<Rightarrow> int option" where
  "given_expiry now h = (if 0 < h then Some (\<lfloor>of_int now + h * 3600000\<rfloor>) else None)"

lemma createPaymentRequest_pieces:
  "createPaymentRequest cd now address amount note h =
     (let ps = request_pieces cd (given_amount amount) (given_note note) (given_expiry now h)
      in ''kubercoin:'' @ address @ (if ps \<noteq> [] then ''?'' @ join_with ''&'' (map query_piece ps) else []))"
  unfolding createPaymentRequest_def request_pieces_def given_amount_def given_note_def given_expiry_def Let_def
  by (simp split: option.split)

text \<open>The numbers and dates of this request print as texts that are read back.\<close>

definition prints_back :: "codec \<Rightarrow> jsnum option \<Rightarrow> int option \<Rightarrow> bool" where
  "prints_back cd amount expiry \<longleftrightarrow>
     (case amount of Some a \<Rightarrow> query_safe (show_num cd a) \<and> read_num cd (show_num cd a) = Some a | None \<Rightarrow> True) \<and>
     (case expiry of Some d \<Rightarrow> query_safe (show_date cd d) \<and> read_date cd (show_date cd d) = Some d | None \<Rightarrow> True)"

lemma request_pieces_safe:
  "prints_back cd amount expiry \<Longrightarrow> (k, v) \<in> set (request_pieces cd amount note expiry) \<Longrightarrow>
   k \<in> {''amount'', ''note'', ''expiry''} \<and> CHR ''&'' \<notin> set v \<and> CHR ''?'' \<notin> set v"
  using encoded_free by (auto simp: request_pieces_def prints_back_def query_safe_def split: option.splits)

lemma parse_query_pieces:
  assumes "prints_back cd amount expiry" and "note \<noteq> Some []" and "request_pieces cd amount note expiry \<noteq> []"
  shows "parse_query cd address (join_with ''&'' (map query_piece (request_pieces cd amount note expiry))) =
     (case map_option decodeURIComponent note of
        Some URIError \<Rightarrow> Some None
      | Some Beyond \<Rightarrow> None
      | Some (Decoded t) \<Rightarrow> Some (Some \<lparr>request_address = address, request_amount = amount, request_note = Some t, request_expiry = expiry\<rparr>)
      | None \<Rightarrow> Some (Some \<lparr>request_address = address, request_amount = amount, request_note = None, request_expiry = expiry\<rparr>))"
proof -
  let ?ps = "request_pieces cd amount note expiry"
  have q: "URLSearchParams (join_with ''&'' (map query_piece ?ps)) = map (\<lambda>(k, v). (Decoded k, form_decode v)) ?ps"
    using request_pieces_safe [OF assms(1)] assms(3) by (intro query_pairs) blast+
  have g: "params_get ''amount'' (map (\<lambda>(k, v). (Decoded k, form_decode v)) ?ps) = map_option (\<lambda>a. Decoded (show_num cd a)) amount"
    "params_get ''note'' (map (\<lambda>(k, v). (Decoded k, form_decode v)) ?ps) = map_option Decoded note"
    "params_get ''expiry'' (map (\<lambda>(k, v). (Decoded k, form_decode v)) ?ps) = map_option (\<lambda>d. Decoded (show_date cd d)) expiry"
    using assms(1)
    by (simp_all add: params_get_def request_pieces_def prints_back_def query_safe_def form_decode_plain form_decode_encoded split: option.splits)
  show ?thesis
    unfolding parse_query_def q Let_def g using assms(1,2)
    by (cases amount; cases "note"; cases expiry) (auto simp: field_text_def prints_back_def query_safe_def split: decoded.split)
qed

text \<open>
  What becomes of a payment request whose address is a proper one: reading it gives back the address, the
  amount and the expiry, and the note decoded once more than it was encoded. So a note without a
  percent sign survives, and a note that is not itself a valid encoding makes the whole request
  unreadable.
\<close>

lemma parse_created:
  assumes adr: "address \<noteq> []" "CHR ''?'' \<notin> set address"
    and cd: "prints_back cd (given_amount amount) (given_expiry now h)"
  shows "parsePaymentRequest cd (createPaymentRequest cd now address amount note h) =
     (case map_option decodeURIComponent (given_note note) of
        Some URIError \<Rightarrow> Some None
      | Some Beyond \<Rightarrow> None
      | Some (Decoded t) \<Rightarrow> Some (Some \<lparr>request_address = address, request_amount = given_amount amount, request_note = Some t,
                                       request_expiry = given_expiry now h\<rparr>)
      | None \<Rightarrow> Some (Some \<lparr>request_address = address, request_amount = given_amount amount, request_note = None,
                           request_expiry = given_expiry now h\<rparr>))"
proof -
  let ?ps = "request_pieces cd (given_amount amount) (given_note note) (given_expiry now h)"
  have strip: "strip_scheme (''kubercoin:'' @ s) = s" for s
    by (simp add: strip_scheme_def startsWith_def)
  have n: "given_note note \<noteq> Some []" by (cases "note") (auto simp: given_note_def)
  show ?thesis
  proof (cases "?ps = []")
    case True
    then have "given_amount amount = None" "given_note note = None" "given_expiry now h = None"
      by (auto simp: request_pieces_def split: option.splits)
    then show ?thesis
      using True adr by (simp add: createPaymentRequest_pieces Let_def parsePaymentRequest_def strip [simplified] split_on_free)
  next
    case False
    let ?q = "join_with ''&'' (map query_piece ?ps)"
    have "CHR ''?'' \<notin> set ?q" using request_pieces_safe [OF cd] by (intro join_with_free) fastforce+
    then have sp: "split_on (CHR ''?'') (address @ CHR ''?'' # ?q) = [address, ?q]"
      using adr by (simp add: split_on_append split_on_free)
    have "?q \<noteq> []" using False by (cases "?ps"; cases "tl ?ps") auto
    then have "parsePaymentRequest cd (createPaymentRequest cd now address amount note h) = parse_query cd address ?q"
      using False adr sp by (simp add: createPaymentRequest_pieces Let_def parsePaymentRequest_def strip [simplified])
    then show ?thesis using parse_query_pieces [OF cd n False] by simp
  qed
qed

text \<open>
  C35: A payment request to an address without a question mark, whose amount and expiry print as
  texts that can stand in a query and are read back, and whose note has no percent sign, is read back
  as it was made: the address, the amount when it is positive, the note when it is not empty and the
  expiry when the hours are positive.
\<close>

theorem request_read_back:
  assumes "address \<noteq> []" and "CHR ''?'' \<notin> set address"
    and "prints_back cd (given_amount amount) (given_expiry now h)" and "CHR ''%'' \<notin> set (text_of note)"
  shows "parsePaymentRequest cd (createPaymentRequest cd now address amount note h) =
     Some (Some \<lparr>request_address = address, request_amount = given_amount amount, request_note = given_note note,
                 request_expiry = given_expiry now h\<rparr>)"
  using parse_created [OF assms(1-3), of "note"] assms(4) decode_plain [of "text_of note"]
  by (cases "note") (auto simp: given_note_def text_of_def)

definition demo_codec :: codec where
  "demo_codec = \<lparr>show_num = \<lambda>a. show_int \<lfloor>a\<rfloor>, read_num = \<lambda>t. map_option of_int (js_parseInt t),
                  show_date = show_int, read_date = js_parseInt\<rparr>"

lemma demo_int: "0 \<le> i \<Longrightarrow> query_safe (show_int i) \<and> js_parseInt (show_int i) = Some i"
  using show_nat_digits [of "nat i"] js_parseInt_show [of "nat i"]
  by (auto simp: show_int_def query_safe_def list_all_iff is_digit_def)

theorem request_read_back_witness:
  "parsePaymentRequest demo_codec (createPaymentRequest demo_codec 1700000000000 ''kc1abc'' (Some 5) (Some ''rent & food + 1'') 1) =
     Some (Some \<lparr>request_address = ''kc1abc'', request_amount = Some 5, request_note = Some ''rent & food + 1'',
                 request_expiry = Some 1700003600000\<rparr>)"
  using request_read_back [of "''kc1abc''" demo_codec "Some 5" 1700000000000 1 "Some ''rent & food + 1''"]
  by (simp add: prints_back_def given_amount_def given_expiry_def given_note_def demo_codec_def text_of_def demo_int)

text \<open>
  The note is decoded by \<open>URLSearchParams\<close> and once more by hand: with a note such as
  \<open>100%\<close> every request is unreadable.
\<close>

lemma percent_note_unreadable:
  assumes "address \<noteq> []" and "CHR ''?'' \<notin> set address"
    and "prints_back cd (given_amount amount) (given_expiry now h)"
    and "CHR ''%'' \<notin> set t"
  shows "parsePaymentRequest cd (createPaymentRequest cd now address amount (Some (t @ ''%'')) h) = Some None"
proof -
  have "decodeURIComponent (t @ ''%'') = URIError" using assms(4) by (induction t) auto
  then show ?thesis using parse_created [OF assms(1-3), of "Some (t @ ''%'')"] by (auto simp: given_note_def)
qed

lemma history_bounded:
  "saveToHistory now ty data i = Inr j \<Longrightarrow> \<exists>h. j = Json h \<and> length h \<le> 50 \<and> hd h = \<lparr>entry_type = ty, entry_data = data, entry_time = now\<rparr>"
  by (auto simp: saveToHistory_def split: sum.splits)

end
