(* ===== verification/WalletApi.thy ===== *)
theory WalletApi
  imports JsStore
begin

text \<open>
  The client of the wallet's backend (services/walletApi.ts). The network is an argument: what
  \<open>fetch\<close> gives for a path and a body. The services above it see a response as an error or the
  parsed data, which may be \<open>undefined\<close>; reading a field of \<open>undefined\<close> throws.
\<close>

record http_response =
  ok :: bool
  body :: string

text \<open>
  \<open>parse\<close> is \<open>JSON.parse\<close> at the type of the data (\<open>None\<close>: it throws) and \<open>err\<close> reads the
  field \<open>error\<close> of the data.
\<close>

definition request ::
    "(string \<Rightarrow> string option \<Rightarrow> js_error + http_response) \<Rightarrow> (string \<Rightarrow> 'a option) \<Rightarrow> ('a \<Rightarrow> string option)
     \<Rightarrow> string \<Rightarrow> string option \<Rightarrow> js_error + 'a option" where
  "request fetch parse err path payload =
     (case fetch path payload of
        Inl e \<Rightarrow> Inl e
      | Inr r \<Rightarrow>
          let data = (if body r = [] then None else parse (body r))
          in if \<not> ok r
             then Inl (Error (if data \<noteq> None \<and> truthy_string (err (the data)) then the (err (the data))
                              else if body r \<noteq> [] then body r else ''Wallet API request failed''))
             else Inr data)"

definition api_get where
  "api_get fetch parse err path = request fetch parse err path None"

definition api_post where
  "api_post fetch parse err path b = request fetch parse err path (Some b)"

definition UndefinedError :: js_error where
  "UndefinedError = Error ''Cannot read properties of undefined''"

text \<open>\<open>const response = await walletApi.get(...)\<close> and the first read of a field of it.\<close>

definition api_data :: "js_error + 'a option \<Rightarrow> ('s, 'a) eff" where
  "api_data r = (case r of Inl e \<Rightarrow> ethrow e | Inr None \<Rightarrow> ethrow UndefinedError | Inr (Some d) \<Rightarrow> eret d)"

lemma fallback_offline [simp]: "with_fallback True (ebind (api_data (Inl e)) f) h s = h s"
  by (simp add: with_fallback_def ecatch_def ebind_def api_data_def ethrow_def)

definition defined :: "'a option \<Rightarrow> ('s, 'a) eff" where
  "defined x = (case x of None \<Rightarrow> ethrow UndefinedError | Some y \<Rightarrow> eret y)"

text \<open>A request succeeds exactly when the server answered with a success status.\<close>

lemma request_Inr_iff:
  "request fetch parse err path b = Inr d \<longleftrightarrow>
     (\<exists>r. fetch path b = Inr r \<and> ok r \<and> d = (if body r = [] then None else parse (body r)))"
  by (auto simp: request_def Let_def split: sum.splits)

text \<open>
  \<open>createId\<close> of the services: prefix, clock and random text.
\<close>

definition createId :: "string \<Rightarrow> int \<Rightarrow> string \<Rightarrow> string" where
  "createId pre now rnd = pre @ ''-'' @ show_int now @ ''-'' @ rnd"

end
