(* ===== verification/ColdStorage.thy ===== *)
theory ColdStorage
  imports WalletApi
begin

text \<open>
  Cold storage (services/coldStorage.ts): wallets and unsigned transactions kept in memory,
  refreshed from the backend where it has any. The JSON text of a transaction is an argument.
\<close>

record ColdWallet =
  cw_id :: string
  cw_label :: string
  cw_address :: string
  publicKey :: string
  cw_createdAt :: int
  lastUsed :: "int option"
  cw_balance :: jsnum

record UnsignedTransaction =
  ut_id :: string
  ut_to :: string
  ut_amount :: jsnum
  ut_fee :: jsnum
  fromAddress :: string
  ut_createdAt :: int
  rawTx :: string
  signed :: bool
  signature :: "string option"

record cold_state =
  coldWallets :: "ColdWallet list"
  unsignedTxs :: "UnsignedTransaction list"

definition createAddress :: "string \<Rightarrow> string \<Rightarrow> string" where
  "createAddress pre rnd = pre @ rnd"

definition getColdWallets :: "cold_state \<Rightarrow> ColdWallet list" where
  "getColdWallets s = sort_desc cw_createdAt (coldWallets s)"

definition getUnsignedTransactions :: "cold_state \<Rightarrow> UnsignedTransaction list" where
  "getUnsignedTransactions s = sort_desc ut_createdAt (unsignedTxs s)"

text \<open>An empty answer does not replace a list that has something.\<close>

definition keep_if_empty :: "'a list \<Rightarrow> 'a list \<Rightarrow> 'a list" where
  "keep_if_empty fetched cached = (if 0 < length fetched \<or> length cached = 0 then fetched else cached)"

definition refreshColdWallets :: "bool \<Rightarrow> js_error + ColdWallet list option option \<Rightarrow> (cold_state, ColdWallet list) eff" where
  "refreshColdWallets allow resp =
     ebind (with_fallback allow
              (ebind (api_data resp) (\<lambda>ws s. (Inr (), s\<lparr>coldWallets := keep_if_empty (list_of ws) (coldWallets s)\<rparr>)))
              (eret ()))
       (\<lambda>_ s. (Inr (getColdWallets s), s))"

definition generateColdWallet :: "string \<Rightarrow> (cold_state, ColdWallet) eff" where
  "generateColdWallet label =
     ethrow (Error (''Cold wallet generation is not yet available through this UI. '' @
       ''Create a wallet via the main wallet creation page and treat it as your cold-storage wallet.''))"

definition refreshUnsignedTransactions ::
    "bool \<Rightarrow> js_error + UnsignedTransaction list option option \<Rightarrow> (cold_state, UnsignedTransaction list) eff" where
  "refreshUnsignedTransactions allow resp =
     ebind (with_fallback allow
              (ebind (api_data resp) (\<lambda>ts s. (Inr (), s\<lparr>unsignedTxs := keep_if_empty (list_of ts) (unsignedTxs s)\<rparr>)))
              (eret ()))
       (\<lambda>_ s. (Inr (getUnsignedTransactions s), s))"

definition createUnsignedTransaction ::
    "(string \<Rightarrow> string \<Rightarrow> jsnum \<Rightarrow> jsnum \<Rightarrow> string) \<Rightarrow> clock \<Rightarrow> string \<Rightarrow> string \<Rightarrow> string \<Rightarrow> jsnum \<Rightarrow> jsnum \<Rightarrow> cold_state
     \<Rightarrow> UnsignedTransaction \<times> cold_state" where
  "createUnsignedTransaction stringify clk rnd orig dest amt fee s =
     (let tx = \<lparr>ut_id = createId ''unsigned'' (clk 0) rnd, ut_to = dest, ut_amount = amt, ut_fee = fee, fromAddress = orig,
                ut_createdAt = clk 1, rawTx = stringify orig dest amt fee, signed = False, signature = None\<rparr>
      in (tx, s\<lparr>unsignedTxs := tx # filter (\<lambda>t. ut_id t \<noteq> ut_id tx) (unsignedTxs s)\<rparr>))"

definition importSignedTransaction :: "string \<Rightarrow> string \<Rightarrow> cold_state \<Rightarrow> cold_state" where
  "importSignedTransaction i sig s =
     s\<lparr>unsignedTxs := update_first (\<lambda>t. ut_id t = i) (\<lambda>t. t\<lparr>signed := True, signature := Some sig\<rparr>) (unsignedTxs s)\<rparr>"

definition exportForSigning :: "bool \<Rightarrow> js_error + string option \<Rightarrow> string \<Rightarrow> (cold_state, string) eff" where
  "exportForSigning allow resp i =
     with_fallback allow (ebind (api_data resp) eret)
       (\<lambda>s. (Inr (case List.find (\<lambda>t. ut_id t = i) (unsignedTxs s) of None \<Rightarrow> [] | Some t \<Rightarrow> rawTx t), s))"

definition fallback_words :: "string list" where
  "fallback_words = [''alpha'', ''bravo'', ''charlie'', ''delta'', ''echo'', ''foxtrot'', ''golf'', ''hotel'', ''india'',
     ''juliet'', ''kilo'', ''lima'']"

definition generateMnemonic :: "bool \<Rightarrow> js_error + string list option option \<Rightarrow> (cold_state, string list) eff" where
  "generateMnemonic allow resp =
     with_fallback allow (ebind (api_data resp) (\<lambda>ws. eret (list_of ws))) (eret fallback_words)"

record PaperWallet =
  pw_address :: string
  pw_privateKey :: string
  qrData :: string

definition generatePaperWallet ::
    "bool \<Rightarrow> js_error + PaperWallet option \<Rightarrow> clock \<Rightarrow> string \<Rightarrow> string \<Rightarrow> string \<Rightarrow> (cold_state, PaperWallet option) eff" where
  "generatePaperWallet allow resp clk rnd1 rnd2 rnd3 =
     with_fallback allow (eresult resp)
       (eret (Some \<lparr>pw_address = createAddress ''KC'' rnd1, pw_privateKey = createAddress ''PRIV'' rnd2,
                    qrData = createId ''paper'' (clk 0) rnd3\<rparr>))"

section \<open>A transaction survives on its way to the signer and back\<close>

text \<open>What may happen between building a transaction and exporting it.\<close>

datatype cold_op =
    RefreshWallets "js_error + ColdWallet list option option"
  | RefreshUnsigned "js_error + UnsignedTransaction list option option"
  | CreateUnsigned clock string string string jsnum jsnum
  | ImportSigned string string

fun cold_step ::
    "(string \<Rightarrow> string \<Rightarrow> jsnum \<Rightarrow> jsnum \<Rightarrow> string) \<Rightarrow> bool \<Rightarrow> cold_op \<Rightarrow> cold_state \<Rightarrow> cold_state" where
  "cold_step js allow (RefreshWallets r) s = snd (refreshColdWallets allow r s)"
| "cold_step js allow (RefreshUnsigned r) s = snd (refreshUnsignedTransactions allow r s)"
| "cold_step js allow (CreateUnsigned clk rnd orig dest amt fee) s =
     snd (createUnsignedTransaction js clk rnd orig dest amt fee s)"
| "cold_step js allow (ImportSigned i sig) s = importSignedTransaction i sig s"

text \<open>The backend keeps no unsigned transactions, and no later transaction takes the identifier.\<close>

fun undisturbed :: "string \<Rightarrow> cold_op \<Rightarrow> bool" where
  "undisturbed i (RefreshUnsigned (Inr (Some (Some ts)))) = (ts = [])"
| "undisturbed i (CreateUnsigned clk rnd orig dest amt fee) = (createId ''unsigned'' (clk 0) rnd \<noteq> i)"
| "undisturbed i _ = True"

definition holds_raw :: "string \<Rightarrow> string \<Rightarrow> cold_state \<Rightarrow> bool" where
  "holds_raw i raw s \<longleftrightarrow> (\<exists>t. List.find (\<lambda>t. ut_id t = i) (unsignedTxs s) = Some t \<and> rawTx t = raw)"

lemma find_filter_same: "(\<And>x. P x \<Longrightarrow> Q x) \<Longrightarrow> List.find P (filter Q xs) = List.find P xs"
  by (induction xs) auto

lemma fetch_keeps_unsigned:
  "undisturbed i (RefreshUnsigned r) \<Longrightarrow> unsignedTxs (snd (refreshUnsignedTransactions allow r s)) = unsignedTxs s"
  by (cases "(i, RefreshUnsigned r)" rule: undisturbed.cases)
    (auto simp: refreshUnsignedTransactions_def ebind_def with_fallback_def ecatch_def api_data_def ethrow_def eret_def
      keep_if_empty_def list_of_def split: option.splits sum.splits prod.splits if_splits)

lemma fetch_wallets_unsigned: "unsignedTxs (snd (refreshColdWallets allow r s)) = unsignedTxs s"
  by (auto simp: refreshColdWallets_def ebind_def with_fallback_def ecatch_def api_data_def ethrow_def eret_def
      split: option.splits sum.splits prod.splits if_splits)

lemma holds_raw_step:
  assumes "undisturbed i op" and "holds_raw i raw s"
  shows "holds_raw i raw (cold_step js allow op s)"
proof (cases op)
  case (RefreshUnsigned r)
  with assms show ?thesis using fetch_keeps_unsigned [of i r allow s] by (simp add: holds_raw_def)
next
  case (CreateUnsigned clk rnd orig dest amt fee)
  with assms show ?thesis
    by (auto simp: createUnsignedTransaction_def Let_def holds_raw_def find_filter_same)
next
  case (ImportSigned j sig)
  let ?f = "\<lambda>t. t\<lparr>signed := True, signature := Some sig\<rparr>"
  have "List.find (\<lambda>t. ut_id t = i) (update_first (\<lambda>t. ut_id t = j) ?f xs) = Some t' \<and> rawTx t' = raw"
    if "List.find (\<lambda>t. ut_id t = i) xs = Some t" "rawTx t = raw"
      "t' = (if i = j then ?f t else t)" for xs t t'
    using that by (induction xs) (auto split: if_splits)
  with assms(2) ImportSigned show ?thesis unfolding holds_raw_def by (fastforce simp: importSignedTransaction_def)
qed (use assms in \<open>simp add: fetch_wallets_unsigned holds_raw_def\<close>)

text \<open>
  What is exported for signing is the transaction that was built. Whatever happens between
  building it and exporting it offline (refreshes that fail or answer with nothing, other
  transactions, signatures), the exported text is the JSON of its sender, recipient, amount and
  fee.
\<close>

theorem exported_is_built:
  assumes "createUnsignedTransaction js clk rnd orig dest amt fee s = (tx, s')"
    and "\<forall>op \<in> set ops. undisturbed (ut_id tx) op"
  shows "fst (exportForSigning True (Inl e) (ut_id tx) (fold (cold_step js allow) ops s')) = Inr (js orig dest amt fee)"
proof -
  have "holds_raw (ut_id tx) (js orig dest amt fee) s'"
    using assms(1) by (auto simp: createUnsignedTransaction_def Let_def holds_raw_def)
  then have "holds_raw (ut_id tx) (js orig dest amt fee) (fold (cold_step js allow) ops s')"
    using assms(2) by (induction ops arbitrary: s') (auto intro: holds_raw_step)
  then show ?thesis by (auto simp: exportForSigning_def holds_raw_def)
qed

theorem exported_is_built_witness:
  "fst (exportForSigning True (Inl (Error ''offline'')) ''unsigned-5-r''
     (fold (cold_step (\<lambda>f t a x. f @ t) False)
        [RefreshUnsigned (Inr (Some None)), CreateUnsigned (\<lambda>_. 6) ''q'' ''C'' ''D'' 1 1, ImportSigned ''unsigned-5-r'' ''sig'']
        (snd (createUnsignedTransaction (\<lambda>f t a x. f @ t) (\<lambda>_. 5) ''r'' ''A'' ''B'' 2 1 \<lparr>coldWallets = [], unsignedTxs = []\<rparr>)))) =
   Inr ''AB''"
proof -
  let ?s = "\<lparr>coldWallets = [], unsignedTxs = []\<rparr>"
  let ?c = "createUnsignedTransaction (\<lambda>f t a x. f @ t) (\<lambda>_. 5) ''r'' ''A'' ''B'' 2 1 ?s"
  have i: "ut_id (fst ?c) = ''unsigned-5-r''"
    by code_simp
  have "?c = (fst ?c, snd ?c)" by simp
  from exported_is_built [OF this, of "[RefreshUnsigned (Inr (Some None)), CreateUnsigned (\<lambda>_. 6) ''q'' ''C'' ''D'' 1 1,
      ImportSigned ''unsigned-5-r'' ''sig'']" "Error ''offline''" False]
  show ?thesis unfolding i by (simp add: createId_def)
qed

section \<open>What the fallbacks give\<close>

text \<open>Without the backend every mnemonic is the same twelve words.\<close>

lemma offline_mnemonic_constant: "generateMnemonic True (Inl e) s = (Inr fallback_words, s)"
  by (simp add: generateMnemonic_def eret_def)

text \<open>
  A refresh with a non-empty answer drops the transactions built here.
\<close>

lemma refresh_drops_local:
  "ts \<noteq> [] \<Longrightarrow> unsignedTxs (snd (refreshUnsignedTransactions allow (Inr (Some (Some ts))) s)) = ts"
  by (simp add: refreshUnsignedTransactions_def ebind_def with_fallback_def ecatch_def api_data_def eret_def
      keep_if_empty_def list_of_def)

text \<open>
  The address and the private key of an offline paper wallet come from two independent random
  texts: any address goes with any key.
\<close>

lemma paper_key_unrelated:
  "\<exists>w. generatePaperWallet True (Inl e) clk a k q s = (Inr (Some w), s) \<and> pw_address w = ''KC'' @ a \<and> pw_privateKey w = ''PRIV'' @ k"
  by (simp add: generatePaperWallet_def with_fallback_def ecatch_def eresult_def eret_def createAddress_def)

end
