(* ===== verification/PaymentServices.thy ===== *)
theory PaymentServices
  imports Optimizer UtxoManager FeeManager Multisig MultisigWallet SignatureManager SocialRecovery SecretSharing Lightning Invoicing PaymentRequests ColdStorage
begin

text \<open>
  The services that build, sign and collect payments: coin selection and fees, shared wallets and their
  signatures, recovery by contacts, channels, invoices and payment requests.
\<close>

end
