(* ===== verification/Rebalancer.thy ===== *)
theory Rebalancer
  imports JsStore
begin

text \<open>
  The portfolio rebalancer (services/rebalancer.ts): target percentages, the matching of
  assets to sell with assets to buy, and the log of executed rebalancings. The matching loop
  advances an index only when a remainder falls below 0.01, so that it ends is a theorem and
  not part of its definition.
\<close>

section \<open>State\<close>

record Asset =
  a_symbol :: string
  a_balance :: jsnum
  a_value :: jsnum
  a_percentage :: jsnum

record RebalanceAction =
  act_from :: string
  act_to :: string
  act_amount :: jsnum
  act_value :: jsnum

record RebalanceLog =
  rl_id :: string
  rl_timestamp :: int
  rl_actions :: "RebalanceAction list"
  portfolioValueBefore :: jsnum
  portfolioValueAfter :: jsnum
  gainsLosses :: jsnum

record rb_state =
  targetAllocations :: "(string, jsnum) jsmap"
  rebalanceHistory :: "RebalanceLog list"
  targets_item :: "(string \<times> jsnum) list item"
  rhistory_item :: "RebalanceLog list item"

section \<open>Storage and targets\<close>

text \<open>An element of the stored array is the pair of its symbol and percentage.\<close>

definition loadTargetAllocations :: "(string \<times> jsnum) list item \<Rightarrow> (string, jsnum) jsmap" where
  "loadTargetAllocations i = foldl (\<lambda>m (k, p). AList.update k p m) [] (parse_item_or [] i)"

definition new_rebalancer :: "(string \<times> jsnum) list item \<Rightarrow> RebalanceLog list item \<Rightarrow> rb_state" where
  "new_rebalancer ti hi =
     \<lparr>targetAllocations = loadTargetAllocations ti, rebalanceHistory = parse_item_or [] hi,
      targets_item = ti, rhistory_item = hi\<rparr>"

definition saveTargetAllocations :: "rb_state \<Rightarrow> rb_state" where
  "saveTargetAllocations s = s\<lparr>targets_item := Json (targetAllocations s)\<rparr>"

definition saveHistory :: "rb_state \<Rightarrow> rb_state" where
  "saveHistory s = s\<lparr>rhistory_item := Json (rebalanceHistory s)\<rparr>"

record wallet_balance =
  wb_label :: string
  wb_address :: string
  wb_balance :: jsnum

definition calculateCurrentAllocation :: "wallet_balance list \<Rightarrow> Asset list" where
  "calculateCurrentAllocation ws =
     (let totalValue = sum_by wb_balance ws
      in map (\<lambda>w. \<lparr>a_symbol = (if wb_label w \<noteq> [] then wb_label w else take 8 (wb_address w)),
            a_balance = wb_balance w, a_value = wb_balance w,
            a_percentage = (if totalValue > 0 then wb_balance w / totalValue * 100 else 0)\<rparr>) ws)"

definition setTargetAllocation :: "string \<Rightarrow> jsnum \<Rightarrow> (rb_state, unit) eff" where
  "setTargetAllocation symb p s =
     (if p < 0 \<or> p > 100 then (Inl (Error ''Percentage must be between 0 and 100''), s)
      else (Inr (), saveTargetAllocations
        (s\<lparr>targetAllocations := AList.update symb p (targetAllocations s)\<rparr>)))"

definition getTargetAllocation :: "rb_state \<Rightarrow> string \<Rightarrow> jsnum" where
  "getTargetAllocation s symb = (case map_of (targetAllocations s) symb of None \<Rightarrow> 0 | Some p \<Rightarrow> p)"

definition getAllTargetAllocations :: "rb_state \<Rightarrow> (string \<times> jsnum) list" where
  "getAllTargetAllocations s = targetAllocations s"

section \<open>Matching sellers with buyers\<close>

record difference =
  d_symbol :: string
  d_currentValue :: jsnum
  d_targetValue :: jsnum
  d_diff :: jsnum

definition differences :: "rb_state \<Rightarrow> jsnum \<Rightarrow> Asset list \<Rightarrow> difference list" where
  "differences s totalValue assets =
     map (\<lambda>a. let targetValue = totalValue * getTargetAllocation s (a_symbol a) / 100
        in \<lparr>d_symbol = a_symbol a, d_currentValue = a_value a, d_targetValue = targetValue,
            d_diff = targetValue - a_value a\<rparr>) assets"

text \<open>The number of the seller and of the buyer: the lists that are left from there on.\<close>

definition next_index :: "difference \<Rightarrow> difference list \<Rightarrow> difference list" where
  "next_index d ds = (if \<bar>d_diff d\<bar> < 1 / 100 then ds else d # ds)"

partial_function (option) match_loop ::
    "jsnum \<Rightarrow> difference list \<Rightarrow> difference list \<Rightarrow> RebalanceAction list option" where
  "match_loop totalValue toSell toBuy =
     (case toSell of
        [] \<Rightarrow> Some []
      | seller # ss \<Rightarrow>
          (case toBuy of
             [] \<Rightarrow> Some []
           | buyer # bs \<Rightarrow>
               (let transfer = min \<bar>d_diff seller\<bar> (d_diff buyer);
                    seller' = seller\<lparr>d_diff := d_diff seller + transfer\<rparr>;
                    buyer' = buyer\<lparr>d_diff := d_diff buyer - transfer\<rparr>
                in Option.bind (match_loop totalValue (next_index seller' ss) (next_index buyer' bs))
                     (\<lambda>rest. Some (\<lparr>act_from = d_symbol seller, act_to = d_symbol buyer,
                        act_amount = transfer / totalValue, act_value = transfer\<rparr> # rest)))))"

definition to_sell :: "difference list \<Rightarrow> difference list" where
  "to_sell ds = sort_key d_diff (filter (\<lambda>d. d_diff d < 0) ds)"

definition to_buy :: "difference list \<Rightarrow> difference list" where
  "to_buy ds = sort_desc d_diff (filter (\<lambda>d. d_diff d > 0) ds)"

definition calculateRebalanceActions :: "rb_state \<Rightarrow> Asset list \<Rightarrow> RebalanceAction list option" where
  "calculateRebalanceActions s assets =
     (let totalValue = sum_by a_value assets
      in if totalValue = 0 then Some []
         else let ds = differences s totalValue assets
              in match_loop totalValue (to_sell ds) (to_buy ds))"

section \<open>Execution, history and metrics\<close>

definition executeRebalance ::
    "clock \<Rightarrow> string \<Rightarrow> Asset list \<Rightarrow> RebalanceAction list \<Rightarrow> rb_state \<Rightarrow> RebalanceLog \<times> rb_state" where
  "executeRebalance clk rnd assets actions s =
     (let before = sum_by a_value assets;
          lg = \<lparr>rl_id = ''rebalance_'' @ show_int (clk 0) @ ''_'' @ rnd, rl_timestamp = clk 1,
                rl_actions = actions, portfolioValueBefore = before, portfolioValueAfter = before,
                gainsLosses = 0\<rparr>
      in (lg, saveHistory (s\<lparr>rebalanceHistory := rebalanceHistory s @ [lg]\<rparr>)))"

text \<open>The getter sorts the array of the service in place.\<close>

definition getRebalanceHistory :: "rb_state \<Rightarrow> RebalanceLog list \<times> rb_state" where
  "getRebalanceHistory s =
     (let h = sort_desc rl_timestamp (rebalanceHistory s) in (h, s\<lparr>rebalanceHistory := h\<rparr>))"

record rb_metrics =
  m_totalValue :: jsnum
  m_diversification :: jsnum
  m_imbalanceScore :: jsnum

definition calculateMetrics :: "rb_state \<Rightarrow> Asset list \<Rightarrow> rb_metrics" where
  "calculateMetrics s assets =
     (let herfindahl = sum_by (\<lambda>a. (a_percentage a / 100) ^ 2) assets
      in \<lparr>m_totalValue = sum_by a_value assets, m_diversification = (1 - herfindahl) * 100,
          m_imbalanceScore = sum_by (\<lambda>a. \<bar>a_percentage a - getTargetAllocation s (a_symbol a)\<bar>) assets\<rparr>)"

definition shouldRebalance :: "rb_state \<Rightarrow> Asset list \<Rightarrow> jsnum \<Rightarrow> bool" where
  "shouldRebalance s assets threshold \<longleftrightarrow> m_imbalanceScore (calculateMetrics s assets) > threshold"

definition clearAllData :: "rb_state \<Rightarrow> rb_state" where
  "clearAllData s = s\<lparr>targetAllocations := [], rebalanceHistory := [], targets_item := Absent,
     rhistory_item := Absent\<rparr>"

section \<open>The loop ends and moves the right amounts\<close>

definition owed :: "string \<Rightarrow> difference list \<Rightarrow> jsnum" where
  "owed symb ds = sum_by (\<lambda>d. \<bar>d_diff d\<bar>) (filter (\<lambda>d. d_symbol d = symb) ds)"

definition open_value :: "difference list \<Rightarrow> jsnum" where
  "open_value ds = sum_by (\<lambda>d. \<bar>d_diff d\<bar>) ds"

definition sent :: "string \<Rightarrow> RebalanceAction list \<Rightarrow> jsnum" where
  "sent symb acts = sum_by act_value (filter (\<lambda>a. act_from a = symb) acts)"

definition got :: "string \<Rightarrow> RebalanceAction list \<Rightarrow> jsnum" where
  "got symb acts = sum_by act_value (filter (\<lambda>a. act_to a = symb) acts)"

lemma owed_nonneg [simp]: "0 \<le> owed symb ds"
  by (auto simp: owed_def intro: sum_by_nonneg)

text \<open>
  What a run of the loop owes its callers: positive transfers, no symbol sends or receives
  more than its difference, and one of the two sides ends with less than 0.01 per asset open.
\<close>

definition good_match :: "difference list \<Rightarrow> difference list \<Rightarrow> RebalanceAction list \<Rightarrow> bool" where
  "good_match ss bs acts \<longleftrightarrow>
     (\<forall>a \<in> set acts. 0 < act_value a) \<and>
     (\<forall>symb. sent symb acts \<le> owed symb ss \<and> got symb acts \<le> owed symb bs) \<and>
     (open_value ss - of_nat (length ss) / 100 \<le> sum_by act_value acts \<or>
      open_value bs - of_nat (length bs) / 100 \<le> sum_by act_value acts)"

lemma next_index_length: "length (next_index d ds) \<le> Suc (length ds)"
  by (simp add: next_index_def)

lemma next_index_owed:
  "\<bar>d_diff d\<bar> = \<bar>d_diff d0\<bar> - x \<Longrightarrow> d_symbol d = d_symbol d0 \<Longrightarrow>
     owed symb (next_index d ds) + (if d_symbol d0 = symb then x else 0) \<le> owed symb (d0 # ds)"
  by (auto simp: next_index_def owed_def)

lemma next_index_open:
  "\<bar>d_diff d\<bar> = \<bar>d_diff d0\<bar> - x \<Longrightarrow>
     open_value (d0 # ds) - of_nat (length (d0 # ds)) / 100
       \<le> open_value (next_index d ds) - of_nat (length (next_index d ds)) / 100 + x"
  by (auto simp: next_index_def open_value_def field_simps)

lemma match_loop_Nil [simp]: "match_loop T [] bs = Some []" "match_loop T ss [] = Some []"
  by (simp_all add: match_loop.simps split: list.split)

lemma match_loop_Cons:
  "match_loop T (s # ss) (b # bs) =
     (let x = min \<bar>d_diff s\<bar> (d_diff b)
      in Option.bind (match_loop T (next_index (s\<lparr>d_diff := d_diff s + x\<rparr>) ss) (next_index (b\<lparr>d_diff := d_diff b - x\<rparr>) bs))
           (\<lambda>rest. Some (\<lparr>act_from = d_symbol s, act_to = d_symbol b, act_amount = x / T, act_value = x\<rparr> # rest)))"
  by (subst match_loop.simps) (simp add: Let_def)

lemma good_match_Nil: "ss = [] \<or> bs = [] \<Longrightarrow> good_match ss bs []"
  by (auto simp: good_match_def sent_def got_def open_value_def)

lemma good_match_Cons:
  assumes r: "good_match (next_index s1 ss) (next_index b1 bs) rest"
    and s1: "\<bar>d_diff s1\<bar> = \<bar>d_diff s\<bar> - x" "d_symbol s1 = d_symbol s"
    and b1: "\<bar>d_diff b1\<bar> = \<bar>d_diff b\<bar> - x" "d_symbol b1 = d_symbol b"
    and a: "act_from a = d_symbol s" "act_to a = d_symbol b" "act_value a = x" "0 < x"
  shows "good_match (s # ss) (b # bs) (a # rest)"
  unfolding good_match_def
proof (intro conjI allI)
  fix symb
  have "sent symb rest \<le> owed symb (next_index s1 ss)" "got symb rest \<le> owed symb (next_index b1 bs)"
    using r by (simp_all add: good_match_def)
  then show "sent symb (a # rest) \<le> owed symb (s # ss)" "got symb (a # rest) \<le> owed symb (b # bs)"
    using next_index_owed [OF s1, of symb ss] next_index_owed [OF b1, of symb bs] a
    by (simp_all add: sent_def got_def split: if_splits)
next
  show "\<forall>a \<in> set (a # rest). 0 < act_value a" using r a(3,4) by (simp add: good_match_def)
  show "open_value (s # ss) - of_nat (length (s # ss)) / 100 \<le> sum_by act_value (a # rest) \<or>
      open_value (b # bs) - of_nat (length (b # bs)) / 100 \<le> sum_by act_value (a # rest)"
    using r next_index_open [OF s1(1), of ss] next_index_open [OF b1(1), of bs] a(3)
    by (auto simp: good_match_def)
qed

lemma match_loop_ends:
  assumes "\<forall>d \<in> set ss. 0 < - d_diff d" and "\<forall>d \<in> set bs. 0 < d_diff d"
  shows "\<exists>acts. match_loop T ss bs = Some acts \<and> good_match ss bs acts"
  using assms
proof (induction "length ss + length bs" arbitrary: ss bs rule: less_induct)
  case less
  show ?case
  proof (cases "ss = [] \<or> bs = []")
    case True
    then show ?thesis using good_match_Nil by auto
  next
    case False
    then obtain s ss' b bs' where l: "ss = s # ss'" "bs = b # bs'" by (auto simp: neq_Nil_conv)
    with less.prems have sg: "d_diff s < 0" "0 < d_diff b" by auto
    define x where "x = min \<bar>d_diff s\<bar> (d_diff b)"
    define s1 where "s1 = s\<lparr>d_diff := d_diff s + x\<rparr>"
    define b1 where "b1 = b\<lparr>d_diff := d_diff b - x\<rparr>"
    have s1: "\<bar>d_diff s1\<bar> = \<bar>d_diff s\<bar> - x" "d_symbol s1 = d_symbol s" "d_diff s1 \<le> 0"
      and b1: "\<bar>d_diff b1\<bar> = \<bar>d_diff b\<bar> - x" "d_symbol b1 = d_symbol b" "0 \<le> d_diff b1"
      and z: "d_diff s1 = 0 \<or> d_diff b1 = 0" and x: "0 < x"
      using sg by (auto simp: s1_def b1_def x_def min_def)
    have "length (next_index s1 ss') + length (next_index b1 bs') < length ss + length bs"
      using z l next_index_length [of s1 ss'] next_index_length [of b1 bs'] by (auto simp: next_index_def)
    moreover have "\<forall>d \<in> set (next_index s1 ss'). 0 < - d_diff d" "\<forall>d \<in> set (next_index b1 bs'). 0 < d_diff d"
      using less.prems l s1(3) b1(3) by (auto simp: next_index_def)
    ultimately obtain rest where r: "match_loop T (next_index s1 ss') (next_index b1 bs') = Some rest"
      "good_match (next_index s1 ss') (next_index b1 bs') rest"
      using less.hyps by blast
    let ?a = "\<lparr>act_from = d_symbol s, act_to = d_symbol b, act_amount = x / T, act_value = x\<rparr>"
    have "match_loop T ss bs = Some (?a # rest)"
      unfolding l match_loop_Cons Let_def x_def [symmetric] s1_def [symmetric] b1_def [symmetric] r(1) by simp
    moreover have "good_match ss bs (?a # rest)"
      unfolding l by (rule good_match_Cons [OF r(2) s1(1,2) b1(1,2)]) (use x in simp_all)
    ultimately show ?thesis by blast
  qed
qed

lemma to_sell_negative: "\<forall>d \<in> set (to_sell ds). 0 < - d_diff d"
  and to_buy_positive: "\<forall>d \<in> set (to_buy ds). 0 < d_diff d"
  by (auto simp: to_sell_def to_buy_def)

text \<open>
  C24: rebalancing always returns. The proposed transfers are positive, no asset sends more
  than its surplus over the target or receives more than its shortfall, and when they are done
  either the surpluses or the shortfalls are used up to less than 0.01 per asset.
\<close>

theorem rebalance_returns:
  assumes "sum_by a_value assets \<noteq> 0"
  shows "\<exists>acts. calculateRebalanceActions s assets = Some acts \<and>
    good_match (to_sell (differences s (sum_by a_value assets) assets))
      (to_buy (differences s (sum_by a_value assets) assets)) acts"
  using match_loop_ends [OF to_sell_negative to_buy_positive] assms
  by (simp add: calculateRebalanceActions_def Let_def)

theorem rebalance_returns_witness:
  "\<exists>acts. calculateRebalanceActions (new_rebalancer (Json [(''A'', 50), (''B'', 50)]) Absent)
     [\<lparr>a_symbol = ''A'', a_balance = 8, a_value = 8, a_percentage = 80\<rparr>,
      \<lparr>a_symbol = ''B'', a_balance = 2, a_value = 2, a_percentage = 20\<rparr>] = Some acts"
  using rebalance_returns [of "[\<lparr>a_symbol = ''A'', a_balance = 8, a_value = 8, a_percentage = 80\<rparr>,
      \<lparr>a_symbol = ''B'', a_balance = 2, a_value = 2, a_percentage = 20\<rparr>]"
      "new_rebalancer (Json [(''A'', 50), (''B'', 50)]) Absent"] by auto

end
