(* ===== verification/TradingEngine.thy ===== *)
theory TradingEngine
  imports JsStore
begin

text \<open>
  The trading engine (services/tradingEngine.ts): orders, trades, positions and the market
  data that feeds set. Amounts and prices are real numbers.
\<close>

section \<open>State\<close>

datatype order_type = Market | Limit | StopLoss | TakeProfit
datatype trade_side = Buy | Sell
datatype order_status = PendingOrder | ActiveOrder | FilledOrder | CancelledOrder
datatype position_side = Long | Short

record Order =
  o_id :: string
  o_pair :: string
  o_type :: order_type
  o_side :: trade_side
  o_price :: "jsnum option"
  o_amount :: jsnum
  o_filled :: jsnum
  o_status :: order_status
  o_timestamp :: int

record Trade =
  t_id :: string
  t_pair :: string
  t_side :: trade_side
  t_price :: jsnum
  t_amount :: jsnum
  t_timestamp :: int

record Position =
  p_pair :: string
  p_side :: position_side
  entryPrice :: jsnum
  p_size :: jsnum
  unrealizedPnL :: jsnum
  leverage :: jsnum

record Ticker =
  tk_price :: jsnum
  change24h :: jsnum
  volume24h :: jsnum
  high24h :: jsnum
  low24h :: jsnum

record Candle =
  cd_timestamp :: int
  cd_open :: jsnum
  cd_high :: jsnum
  cd_low :: jsnum
  cd_close :: jsnum
  cd_volume :: jsnum

record OrderBook =
  bids :: "(jsnum \<times> jsnum) list"
  asks :: "(jsnum \<times> jsnum) list"

record te_state =
  orders :: "(string, Order) jsmap"
  trades :: "Trade list"
  positions :: "(string, Position) jsmap"
  priceCache :: "(string, jsnum) jsmap"
  tickers :: "(string, Ticker) jsmap"
  orderBooks :: "(string, OrderBook) jsmap"
  priceHistory :: "(string, Candle list) jsmap"

definition new_engine :: te_state where
  "new_engine = \<lparr>orders = [], trades = [], positions = [], priceCache = [], tickers = [],
     orderBooks = [], priceHistory = []\<rparr>"

section \<open>Market data\<close>

definition setTicker :: "string \<Rightarrow> Ticker \<Rightarrow> te_state \<Rightarrow> te_state" where
  "setTicker pair d s = s\<lparr>tickers := AList.update pair d (tickers s),
     priceCache := AList.update pair (tk_price d) (priceCache s)\<rparr>"

definition setOrderBook :: "string \<Rightarrow> OrderBook \<Rightarrow> te_state \<Rightarrow> te_state" where
  "setOrderBook pair d s = s\<lparr>orderBooks := AList.update pair d (orderBooks s)\<rparr>"

definition setPriceHistory :: "string \<Rightarrow> Candle list \<Rightarrow> te_state \<Rightarrow> te_state" where
  "setPriceHistory pair d s = s\<lparr>priceHistory := AList.update pair d (priceHistory s)\<rparr>"

definition getCurrentPrice :: "te_state \<Rightarrow> string \<Rightarrow> jsnum" where
  "getCurrentPrice s pair = (case map_of (priceCache s) pair of None \<Rightarrow> 0 | Some p \<Rightarrow> p)"

definition ticker_field :: "(Ticker \<Rightarrow> jsnum) \<Rightarrow> te_state \<Rightarrow> string \<Rightarrow> jsnum" where
  "ticker_field f s pair = (case map_of (tickers s) pair of None \<Rightarrow> 0 | Some t \<Rightarrow> f t)"

definition get24HourChange :: "te_state \<Rightarrow> string \<Rightarrow> jsnum" where
  "get24HourChange = ticker_field change24h"

definition get24HourVolume :: "te_state \<Rightarrow> string \<Rightarrow> jsnum" where
  "get24HourVolume = ticker_field volume24h"

definition get24HourHigh :: "te_state \<Rightarrow> string \<Rightarrow> jsnum" where
  "get24HourHigh = ticker_field high24h"

definition get24HourLow :: "te_state \<Rightarrow> string \<Rightarrow> jsnum" where
  "get24HourLow = ticker_field low24h"

definition getOrderBook :: "te_state \<Rightarrow> string \<Rightarrow> OrderBook" where
  "getOrderBook s pair = (case map_of (orderBooks s) pair of None \<Rightarrow> \<lparr>bids = [], asks = []\<rparr> | Some b \<Rightarrow> b)"

definition getPriceHistory :: "te_state \<Rightarrow> string \<Rightarrow> string \<Rightarrow> int \<Rightarrow> Candle list" where
  "getPriceHistory s pair interval limit =
     (let h = (case map_of (priceHistory s) pair of None \<Rightarrow> [] | Some h \<Rightarrow> h)
      in if limit \<le> 0 then [] else slice_last (nat limit) h)"

section \<open>Positions\<close>

definition calculateUnrealizedPnL :: "te_state \<Rightarrow> Position \<Rightarrow> jsnum" where
  "calculateUnrealizedPnL s p =
     (let currentPrice = getCurrentPrice s (p_pair p)
      in if currentPrice \<le> 0 then 0
         else (case p_side p of Long \<Rightarrow> currentPrice - entryPrice p
               | Short \<Rightarrow> entryPrice p - currentPrice) * p_size p)"

definition same_direction :: "position_side \<Rightarrow> trade_side \<Rightarrow> bool" where
  "same_direction ps ts \<longleftrightarrow> (ps = Long \<and> ts = Buy) \<or> (ps = Short \<and> ts = Sell)"

text \<open>
  The average divides by the new total size, which is positive for positive amounts; sizes
  are positive in every reachable state (below).
\<close>

definition updatePosition :: "string \<Rightarrow> trade_side \<Rightarrow> jsnum \<Rightarrow> jsnum \<Rightarrow> te_state \<Rightarrow> te_state" where
  "updatePosition pair side price amt s =
     (case map_of (positions s) pair of
        Some existing \<Rightarrow>
          let changed =
                (if same_direction (p_side existing) side
                 then existing\<lparr>p_size := p_size existing + amt,
                        entryPrice := (entryPrice existing * p_size existing + price * amt) / (p_size existing + amt)\<rparr>
                 else existing\<lparr>p_size := max 0 (p_size existing - amt)\<rparr>);
              changed' = (if p_size changed > 0 then changed\<lparr>unrealizedPnL := calculateUnrealizedPnL s changed\<rparr>
                          else changed)
          in if \<not> same_direction (p_side existing) side \<and> p_size changed = 0
             then s\<lparr>positions := AList.delete pair (positions s)\<rparr>
             else s\<lparr>positions := AList.update pair changed' (positions s)\<rparr>
      | None \<Rightarrow>
          s\<lparr>positions := AList.update pair
             \<lparr>p_pair = pair, p_side = (if side = Buy then Long else Short), entryPrice = price, p_size = amt,
              unrealizedPnL = 0, leverage = 1\<rparr> (positions s)\<rparr>)"

section \<open>Orders\<close>

definition order_id :: "clock \<Rightarrow> string \<Rightarrow> string" where
  "order_id clk rnd = ''order_'' @ show_int (clk 0) @ ''_'' @ rnd"

definition placeOrder ::
    "clock \<Rightarrow> string \<Rightarrow> string \<Rightarrow> order_type \<Rightarrow> trade_side \<Rightarrow> jsnum option \<Rightarrow> jsnum \<Rightarrow> (te_state, string) eff" where
  "placeOrder clk rnd pair ty side price amt s =
     (let oid = order_id clk rnd;
          ord = \<lparr>o_id = oid, o_pair = pair, o_type = ty, o_side = side, o_price = price, o_amount = amt,
                 o_filled = 0, o_status = (if ty = Market then FilledOrder else ActiveOrder),
                 o_timestamp = clk 1\<rparr>
      in if ty = Market
         then
           let marketPrice = getCurrentPrice s pair
           in if marketPrice \<le> 0 then (Inl (Error ''Market data unavailable''), s)
              else
                let t = \<lparr>t_id = ''trade_'' @ show_int (clk 2), t_pair = pair, t_side = side,
                      t_price = marketPrice, t_amount = amt, t_timestamp = clk 3\<rparr>
                in (Inr oid, updatePosition pair side marketPrice amt (s\<lparr>trades := t # trades s\<rparr>))
         else (Inr oid, s\<lparr>orders := AList.update oid ord (orders s)\<rparr>))"

definition cancelOrder :: "string \<Rightarrow> te_state \<Rightarrow> bool \<times> te_state" where
  "cancelOrder i s =
     (case map_of (orders s) i of
        Some ord \<Rightarrow>
          if o_status ord = ActiveOrder
          then (True, s\<lparr>orders := AList.update i (ord\<lparr>o_status := CancelledOrder\<rparr>) (orders s)\<rparr>)
          else (False, s)
      | None \<Rightarrow> (False, s))"

definition getActiveOrders :: "string option \<Rightarrow> te_state \<Rightarrow> Order list" where
  "getActiveOrders pair s =
     (let os = filter (\<lambda>ord. o_status ord = ActiveOrder) (map snd (orders s))
      in if truthy_string pair then filter (\<lambda>ord. o_pair ord = the pair) os else os)"

definition getTradeHistory :: "string option \<Rightarrow> te_state \<Rightarrow> Trade list" where
  "getTradeHistory pair s =
     (if truthy_string pair then filter (\<lambda>t. t_pair t = the pair) (trades s) else trades s)"

definition getOpenPositions :: "te_state \<Rightarrow> Position list" where
  "getOpenPositions s = map snd (positions s)"

section \<open>The position book\<close>

text \<open>Every position is filed under its pair and has a positive size and entry price.\<close>

definition good_position :: "Position \<Rightarrow> bool" where
  "good_position p \<longleftrightarrow> 0 < p_size p \<and> 0 < entryPrice p"

definition te_inv :: "te_state \<Rightarrow> bool" where
  "te_inv s \<longleftrightarrow> keyed p_pair (positions s) \<and> all_values good_position (positions s)"

lemma te_inv_get: "te_inv s \<Longrightarrow> map_of (positions s) k = Some p \<Longrightarrow> p_pair p = k \<and> good_position p"
  by (auto simp: te_inv_def dest: keyed_get all_values_get)

lemma te_inv_set:
  "te_inv s \<Longrightarrow> p_pair p = k \<Longrightarrow> good_position p \<Longrightarrow> te_inv (s\<lparr>positions := AList.update k p (positions s)\<rparr>)"
  by (auto simp: te_inv_def intro!: keyed_set all_values_set)

lemma te_inv_delete: "te_inv s \<Longrightarrow> te_inv (s\<lparr>positions := AList.delete k (positions s)\<rparr>)"
  by (auto simp: te_inv_def intro!: keyed_delete all_values_delete)

text \<open>The average price lies between the two prices, and the cost is kept.\<close>

lemma average_between:
  fixes a b x y :: jsnum
  assumes "0 < x" and "0 < y"
  shows "min a b \<le> (a * x + b * y) / (x + y)" and "(a * x + b * y) / (x + y) \<le> max a b"
    and "(a * x + b * y) / (x + y) * (x + y) = a * x + b * y"
proof -
  have p: "0 < x + y" using assms by simp
  have "min a b * (x + y) \<le> a * x + b * y"
    unfolding distrib_left using assms by (intro add_mono mult_right_mono) simp_all
  then show "min a b \<le> (a * x + b * y) / (x + y)" using p by (simp only: pos_le_divide_eq)
  have "a * x + b * y \<le> max a b * (x + y)"
    unfolding distrib_left using assms by (intro add_mono mult_right_mono) simp_all
  then show "(a * x + b * y) / (x + y) \<le> max a b" using p by (simp only: pos_divide_le_eq)
  show "(a * x + b * y) / (x + y) * (x + y) = a * x + b * y" using p by simp
qed

lemma updatePosition_inv:
  assumes "te_inv s" and "0 < price" and "0 < amt"
  shows "te_inv (updatePosition pair side price amt s)"
proof (cases "map_of (positions s) pair")
  case None
  with assms show ?thesis
    by (auto simp: updatePosition_def good_position_def intro!: te_inv_set)
next
  case (Some p)
  then have p: "p_pair p = pair" "0 < p_size p" "0 < entryPrice p"
    using te_inv_get [OF assms(1)] by (auto simp: good_position_def)
  have "0 < entryPrice p * p_size p + price * amt" using p assms(2,3) by (intro add_pos_pos mult_pos_pos)
  with p Some assms show ?thesis
    by (auto simp: updatePosition_def Let_def good_position_def intro!: te_inv_set te_inv_delete)
qed

text \<open>
  Placing an order for a positive amount keeps every position filed under its pair with
  a positive size and entry price; an order that cannot be executed for lack of a price
  changes nothing.
\<close>

theorem placeOrder_inv:
  assumes "te_inv s" and "0 < amt" and "placeOrder clk rnd pair ty side price amt s = (r, s')"
  shows "te_inv s' \<and> (case r of Inl e \<Rightarrow> s' = s | Inr oid \<Rightarrow> True)"
proof -
  have i: "te_inv (s\<lparr>trades := ts\<rparr>)" "te_inv (s\<lparr>orders := os\<rparr>)" for ts os
    using assms(1) by (simp_all add: te_inv_def)
  then show ?thesis
    using assms by (auto simp: placeOrder_def Let_def split: if_splits intro!: updatePosition_inv)
qed

theorem placeOrder_inv_witness:
  "te_inv (snd (placeOrder (\<lambda>_. 0) ''r'' ''KC'' Market Buy None 3
     (setTicker ''KC'' \<lparr>tk_price = 2, change24h = 0, volume24h = 0, high24h = 2, low24h = 2\<rparr> new_engine)))"
proof -
  let ?s = "setTicker ''KC'' \<lparr>tk_price = 2, change24h = 0, volume24h = 0, high24h = 2, low24h = 2\<rparr> new_engine"
  have "te_inv ?s" by (simp add: te_inv_def setTicker_def new_engine_def)
  then show ?thesis
    using placeOrder_inv [of ?s 3 "\<lambda>_. 0" "''r''" "''KC''" Market Buy None] by (simp add: prod_eq_iff)
qed

text \<open>
  Adding to a position keeps its cost and its direction. The sizes add up, the product of
  size and entry price grows by exactly the cost of the trade, and the new entry price lies
  between the old one and the price paid.
\<close>

theorem adding_averages_price:
  assumes "te_inv s" and "map_of (positions s) pair = Some p" and "same_direction (p_side p) side"
    and "0 < price" and "0 < amt"
  shows "\<exists>p'. map_of (positions (updatePosition pair side price amt s)) pair = Some p' \<and>
    p_side p' = p_side p \<and> p_size p' = p_size p + amt \<and>
    entryPrice p' * p_size p' = entryPrice p * p_size p + price * amt \<and>
    min (entryPrice p) price \<le> entryPrice p' \<and> entryPrice p' \<le> max (entryPrice p) price"
proof -
  have p: "0 < p_size p" using te_inv_get [OF assms(1,2)] by (simp add: good_position_def)
  let ?e = "(entryPrice p * p_size p + price * amt) / (p_size p + amt)"
  let ?q = "p\<lparr>p_size := p_size p + amt, entryPrice := ?e\<rparr>"
  have "map_of (positions (updatePosition pair side price amt s)) pair =
      Some (?q\<lparr>unrealizedPnL := calculateUnrealizedPnL s ?q\<rparr>)"
    using assms p by (simp add: updatePosition_def Let_def)
  then show ?thesis using average_between [OF p assms(5), of "entryPrice p" price] by auto
qed

theorem adding_averages_price_witness:
  "\<exists>p'. map_of (positions (updatePosition ''KC'' Buy 4 1 (updatePosition ''KC'' Buy 2 3 new_engine))) ''KC'' = Some p' \<and>
     p_size p' = 4 \<and> entryPrice p' * p_size p' = 10"
proof -
  let ?s = "updatePosition ''KC'' Buy 2 3 new_engine"
  let ?p = "\<lparr>p_pair = ''KC'', p_side = Long, entryPrice = 2, p_size = 3, unrealizedPnL = 0, leverage = 1\<rparr>"
  have "te_inv new_engine" by (simp add: te_inv_def new_engine_def)
  then have s: "te_inv ?s" "map_of (positions ?s) ''KC'' = Some ?p"
    by (simp_all add: updatePosition_inv) (simp add: updatePosition_def new_engine_def)
  show ?thesis
    using adding_averages_price [OF s, of Buy 4 1] by (auto simp: same_direction_def)
qed

text \<open>
  Selling more than a long position holds closes it and drops the rest: the trade is recorded
  in full and no short position is opened for the excess.
\<close>

lemma oversell_drops_excess:
  assumes "map_of (positions s) pair = Some p" and "p_side p = Long" and "p_size p < amt"
    and "0 < p_size p" and "placeOrder clk rnd pair Market Sell price amt s = (Inr oid, s')"
  shows "map_of (positions s') pair = None \<and> t_amount (hd (trades s')) = amt"
  using assms
  by (auto simp: placeOrder_def updatePosition_def same_direction_def Let_def split: if_splits)

end
