(* ===== verification/TechnicalAnalysis.thy ===== *)
theory TechnicalAnalysis
  imports TradingEngine
begin

text \<open>
  Technical indicators (services/technicalAnalysis.ts) over the price history of the trading
  engine. Periods are natural numbers of at least one.
\<close>

section \<open>Series\<close>

definition getHistory :: "te_state \<Rightarrow> string \<Rightarrow> nat \<Rightarrow> Candle list" where
  "getHistory s pair limit = getPriceHistory s pair ''1m'' (int limit)"

definition getCloses :: "te_state \<Rightarrow> string \<Rightarrow> nat \<Rightarrow> jsnum list" where
  "getCloses s pair limit = map cd_close (getHistory s pair limit)"

fun ema_loop :: "jsnum \<Rightarrow> jsnum \<Rightarrow> jsnum list \<Rightarrow> jsnum" where
  "ema_loop k ema [] = ema"
| "ema_loop k ema (v # vs) = ema_loop k (v * k + ema * (1 - k)) vs"

definition calculateEMAFromSeries :: "jsnum list \<Rightarrow> nat \<Rightarrow> jsnum" where
  "calculateEMAFromSeries vals period =
     (case vals of [] \<Rightarrow> 0 | v # vs \<Rightarrow> ema_loop (2 / (of_nat period + 1)) v vs)"

section \<open>Indicators\<close>

text \<open>The loop of \<open>calculateRSI\<close> over consecutive closes.\<close>

fun rsi_loop :: "jsnum \<times> jsnum \<Rightarrow> jsnum list \<Rightarrow> jsnum \<times> jsnum" where
  "rsi_loop (gains, losses) (a # b # cs) =
     (let diff = b - a
      in rsi_loop (if diff \<ge> 0 then (gains + diff, losses) else (gains, losses + \<bar>diff\<bar>)) (b # cs))"
| "rsi_loop gl cs = gl"

definition calculateRSI :: "te_state \<Rightarrow> string \<Rightarrow> nat \<Rightarrow> jsnum" where
  "calculateRSI s pair period =
     (let closes = getCloses s pair (period + 1)
      in if length closes < period + 1 then 0
         else
           let (gains, losses) = rsi_loop (0, 0) closes
           in if losses = 0 then 100 else 100 - 100 / (1 + gains / losses))"

record macd_result =
  macd :: jsnum
  macd_signal :: jsnum
  histogram :: jsnum

definition calculateMACD :: "te_state \<Rightarrow> string \<Rightarrow> macd_result" where
  "calculateMACD s pair =
     (let closes = getCloses s pair 60
      in if length closes < 26 then \<lparr>macd = 0, macd_signal = 0, histogram = 0\<rparr>
         else
           let m = calculateEMAFromSeries closes 12 - calculateEMAFromSeries closes 26;
               sg = calculateEMAFromSeries [m] 9
           in \<lparr>macd = m, macd_signal = sg, histogram = m - sg\<rparr>)"

definition calculateMovingAverage :: "te_state \<Rightarrow> string \<Rightarrow> nat \<Rightarrow> jsnum" where
  "calculateMovingAverage s pair period =
     (let closes = getCloses s pair period
      in if length closes < period then 0 else sum_by (\<lambda>v. v) closes / of_nat period)"

definition calculateEMA :: "te_state \<Rightarrow> string \<Rightarrow> nat \<Rightarrow> jsnum" where
  "calculateEMA s pair period =
     (let closes = getCloses s pair (period * 2)
      in if length closes < period then 0 else calculateEMAFromSeries closes period)"

record bands =
  bb_upper :: jsnum
  bb_middle :: jsnum
  bb_lower :: jsnum
  bb_width :: jsnum

definition calculateBollingerBands :: "te_state \<Rightarrow> string \<Rightarrow> nat \<Rightarrow> jsnum \<Rightarrow> bands" where
  "calculateBollingerBands s pair period stdDev =
     (let closes = getCloses s pair period
      in if length closes < period then \<lparr>bb_upper = 0, bb_middle = 0, bb_lower = 0, bb_width = 0\<rparr>
         else
           let mean = sum_by (\<lambda>v. v) closes / of_nat period;
               variance = sum_by (\<lambda>v. (v - mean) ^ 2) closes / of_nat period;
               deviation = sqrt variance;
               upper = mean + deviation * stdDev;
               lower = mean - deviation * stdDev
           in \<lparr>bb_upper = upper, bb_middle = mean, bb_lower = lower, bb_width = upper - lower\<rparr>)"

definition calculateStochastic :: "te_state \<Rightarrow> string \<Rightarrow> nat \<Rightarrow> nat \<Rightarrow> jsnum \<times> jsnum" where
  "calculateStochastic s pair kPeriod dPeriod =
     (let h = getHistory s pair (kPeriod + dPeriod)
      in if length h < kPeriod then (0, 0)
         else
           let window = slice_last kPeriod h;
               highestHigh = Max (set (map cd_high window));
               lowestLow = Min (set (map cd_low window));
               currentClose = cd_close (last window);
               k = (if highestHigh = lowestLow then 0
                    else (currentClose - lowestLow) / (highestHigh - lowestLow) * 100);
               recentK = map (\<lambda>_. k) (slice_last dPeriod h)
           in (k, sum_by (\<lambda>v. v) recentK / of_nat (length recentK)))"

definition calculateADX :: "te_state \<Rightarrow> string \<Rightarrow> nat \<Rightarrow> jsnum" where
  "calculateADX s pair period = (if length (getHistory s pair (period + 1)) < period + 1 then 0 else 0)"

record fib_levels =
  level0 :: jsnum
  level236 :: jsnum
  level382 :: jsnum
  level500 :: jsnum
  level618 :: jsnum
  level786 :: jsnum
  level1000 :: jsnum

definition calculateFibonacciRetracement :: "jsnum \<Rightarrow> jsnum \<Rightarrow> fib_levels" where
  "calculateFibonacciRetracement high low =
     (let diff = high - low
      in \<lparr>level0 = high, level236 = high - diff * (236 / 1000), level382 = high - diff * (382 / 1000),
          level500 = high - diff * (1 / 2), level618 = high - diff * (618 / 1000),
          level786 = high - diff * (786 / 1000), level1000 = low\<rparr>)"

record pivots =
  pivot :: jsnum
  r1 :: jsnum
  r2 :: jsnum
  r3 :: jsnum
  s1 :: jsnum
  s2 :: jsnum
  s3 :: jsnum

definition calculatePivotPoints :: "jsnum \<Rightarrow> jsnum \<Rightarrow> jsnum \<Rightarrow> pivots" where
  "calculatePivotPoints high low close =
     (let p = (high + low + close) / 3
      in \<lparr>pivot = p, r1 = 2 * p - low, r2 = p + (high - low), r3 = high + 2 * (p - low),
          s1 = 2 * p - high, s2 = p - (high - low), s3 = low - 2 * (high - p)\<rparr>)"

fun true_ranges :: "jsnum \<Rightarrow> Candle list \<Rightarrow> jsnum" where
  "true_ranges tot (prev # cur # cs) =
     true_ranges (tot + max (max (cd_high cur - cd_low cur) \<bar>cd_high cur - cd_close prev\<bar>)
        \<bar>cd_low cur - cd_close prev\<bar>) (cur # cs)"
| "true_ranges tot cs = tot"

definition calculateATR :: "te_state \<Rightarrow> string \<Rightarrow> nat \<Rightarrow> jsnum" where
  "calculateATR s pair period =
     (let h = getHistory s pair (period + 1)
      in if length h < period + 1 then 0 else true_ranges 0 h / of_nat period)"

definition calculateVWAP :: "te_state \<Rightarrow> string \<Rightarrow> jsnum" where
  "calculateVWAP s pair =
     (let h = getHistory s pair 50
      in if h = [] then 0
         else
           let pv = sum_by (\<lambda>c. cd_close c * cd_volume c) h;
               vol = sum_by cd_volume h
           in if vol = 0 then 0 else pv / vol)"

definition detectPattern :: "te_state \<Rightarrow> string \<Rightarrow> 'pattern option" where
  "detectPattern s pair = None"

section \<open>The trading signal\<close>

datatype ind_signal = IndBuy | IndSell | IndNeutral
datatype trade_signal = StrongBuy | BuySignal | NeutralSignal | SellSignal | StrongSell

record indicator =
  ind_name :: string
  ind_value :: string
  ind_signal :: ind_signal

text \<open>
  The text of \<open>(currentPrice / ma50 - 1) * 100\<close>; a zero average makes it an infinity or
  no number.
\<close>

definition price_vs_ma :: "jsnum \<Rightarrow> jsnum \<Rightarrow> string" where
  "price_vs_ma price ma =
     (if ma \<noteq> 0 then toFixed 2 ((price / ma - 1) * 100)
      else if price > 0 then ''Infinity'' else if price < 0 then ''-Infinity'' else ''NaN'') @ ''%''"

definition indicators :: "te_state \<Rightarrow> string \<Rightarrow> indicator list" where
  "indicators s pair =
     (let rsi = calculateRSI s pair 14;
          m = calculateMACD s pair;
          price = getCurrentPrice s pair;
          ma50 = calculateMovingAverage s pair 50;
          ma200 = calculateMovingAverage s pair 200
      in [\<lparr>ind_name = ''RSI'', ind_value = toFixed 2 rsi,
           ind_signal = (if rsi < 30 then IndBuy else if rsi > 70 then IndSell else IndNeutral)\<rparr>,
          \<lparr>ind_name = ''MACD'', ind_value = toFixed 2 (macd m),
           ind_signal = (if macd m > macd_signal m then IndBuy else IndSell)\<rparr>,
          \<lparr>ind_name = ''MA 50/200'', ind_value = toFixed 0 ma50 @ ''/'' @ toFixed 0 ma200,
           ind_signal = (if ma50 > ma200 then IndBuy else IndSell)\<rparr>,
          \<lparr>ind_name = ''Price vs MA50'', ind_value = price_vs_ma price ma50,
           ind_signal = (if price > ma50 then IndBuy else IndSell)\<rparr>])"

definition ind_score :: "indicator list \<Rightarrow> int" where
  "ind_score is = foldl (\<lambda>sc i. case ind_signal i of IndBuy \<Rightarrow> sc + 1 | IndSell \<Rightarrow> sc - 1 | IndNeutral \<Rightarrow> sc) 0 is"

definition signal_of_score :: "jsnum \<Rightarrow> trade_signal" where
  "signal_of_score x =
     (if x \<ge> 60 then StrongBuy else if x \<ge> 20 then BuySignal
      else if x \<le> - 60 then StrongSell else if x \<le> - 20 then SellSignal else NeutralSignal)"

definition getTradingSignal :: "te_state \<Rightarrow> string \<Rightarrow> trade_signal \<times> jsnum \<times> indicator list" where
  "getTradingSignal s pair =
     (let is = indicators s pair;
          normalizedScore = of_int (ind_score is) / of_nat (length is) * 100
      in (signal_of_score normalizedScore, normalizedScore, is))"

record backtest =
  bt_trades :: int
  winRate :: jsnum
  totalPnL :: jsnum
  sharpeRatio :: jsnum
  maxDrawdown :: jsnum

definition backtestStrategy :: "string \<Rightarrow> 'strategy \<Rightarrow> int \<Rightarrow> int \<Rightarrow> backtest" where
  "backtestStrategy pair strategy startDate endDate =
     \<lparr>bt_trades = 0, winRate = 0, totalPnL = 0, sharpeRatio = 0, maxDrawdown = 0\<rparr>"

section \<open>Bounds\<close>

lemma rsi_loop_nonneg:
  "rsi_loop (g, l) cs = (g', l') \<Longrightarrow> 0 \<le> g \<Longrightarrow> 0 \<le> l \<Longrightarrow> 0 \<le> g' \<and> 0 \<le> l'"
proof (induction "(g, l)" cs arbitrary: g l rule: rsi_loop.induct)
  case (1 g l a b cs)
  then show ?case by (cases "b - a \<ge> 0") (auto simp: Let_def)
qed auto

text \<open>
  The relative strength index is always between 0 and 100, whatever the price history.
\<close>

theorem rsi_bounds: "0 \<le> calculateRSI s pair period \<and> calculateRSI s pair period \<le> 100"
proof -
  obtain g l where gl: "rsi_loop (0, 0) (getCloses s pair (period + 1)) = (g, l)" by force
  then have nn: "0 \<le> g" "0 \<le> l" using rsi_loop_nonneg by blast+
  have "0 \<le> 100 - 100 / (1 + g / l) \<and> 100 - 100 / (1 + g / l) \<le> (100 :: jsnum)" if "l \<noteq> 0"
  proof -
    have "1 \<le> 1 + g / l" using nn by simp
    then have "100 / (1 + g / l) \<le> 100" "0 \<le> 100 / (1 + g / l)"
      by (simp_all add: divide_le_eq_1 pos_divide_le_eq)
    then show ?thesis by simp
  qed
  with gl show ?thesis by (auto simp: calculateRSI_def Let_def)
qed

lemma ema_loop_bounds:
  assumes "0 \<le> k" and "k \<le> 1" and "lo \<le> e" and "e \<le> hi" and "\<forall>v \<in> set vs. lo \<le> v \<and> v \<le> hi"
  shows "lo \<le> ema_loop k e vs \<and> ema_loop k e vs \<le> hi"
  using assms(3-5)
proof (induction vs arbitrary: e)
  case Nil
  then show ?case by simp
next
  case (Cons v vs)
  have "lo \<le> v * k + e * (1 - k)"
    using convex_bound_le [of "- v" "- lo" "- e" k "1 - k"] Cons.prems assms(1,2) by (simp add: algebra_simps)
  moreover have "v * k + e * (1 - k) \<le> hi"
    using convex_bound_le [of v hi e k "1 - k"] Cons.prems assms(1,2) by (simp add: algebra_simps)
  ultimately show ?case using Cons by simp
qed

text \<open>
  An exponential moving average over at least one close lies between the lowest and the
  highest of the closes it is computed from.
\<close>

theorem ema_between_closes:
  assumes "0 < period" and "vals \<noteq> []"
  shows "Min (set vals) \<le> calculateEMAFromSeries vals period \<and>
    calculateEMAFromSeries vals period \<le> Max (set vals)"
proof -
  obtain v vs where v: "vals = v # vs" using assms(2) by (cases vals) auto
  have "0 \<le> 2 / (of_nat period + 1 :: jsnum)" "2 / (of_nat period + 1 :: jsnum) \<le> 1"
    using assms(1) by (simp_all add: divide_le_eq_1)
  then show ?thesis
    using ema_loop_bounds [of "2 / (of_nat period + 1)" "Min (set vals)" v "Max (set vals)" vs]
    by (simp add: v calculateEMAFromSeries_def)
qed

theorem ema_between_closes_witness:
  "Min (set [1, 3, 2]) \<le> calculateEMAFromSeries [1, 3, 2] 2 \<and> calculateEMAFromSeries [1, 3, 2] 2 \<le> Max (set [1, 3, 2])"
  by (rule ema_between_closes) simp_all

lemma bollinger_order:
  "0 \<le> stdDev \<Longrightarrow>
     bb_lower (calculateBollingerBands s pair p stdDev) \<le> bb_middle (calculateBollingerBands s pair p stdDev) \<and>
     bb_middle (calculateBollingerBands s pair p stdDev) \<le> bb_upper (calculateBollingerBands s pair p stdDev)"
  by (auto simp: calculateBollingerBands_def Let_def intro!: mult_nonneg_nonneg divide_nonneg_nonneg sum_by_nonneg)

text \<open>
  For a candle with low <= close <= high the pivot levels are ordered, supports below the
  pivot and resistances above it.
\<close>

theorem pivot_levels_ordered:
  assumes "low \<le> close" and "close \<le> high"
  shows "(let p = calculatePivotPoints high low close
    in s3 p \<le> s2 p \<and> s2 p \<le> s1 p \<and> s1 p \<le> pivot p \<and> pivot p \<le> r1 p \<and> r1 p \<le> r2 p \<and> r2 p \<le> r3 p)"
proof -
  define p where "p = (high + low + close) / 3"
  have "low \<le> p" "p \<le> high" using assms by (simp_all add: p_def field_simps)
  then show ?thesis by (simp add: calculatePivotPoints_def p_def [symmetric] Let_def)
qed

theorem pivot_levels_ordered_witness:
  "s3 (calculatePivotPoints 12 8 10) \<le> s1 (calculatePivotPoints 12 8 10) \<and>
   r1 (calculatePivotPoints 12 8 10) \<le> r3 (calculatePivotPoints 12 8 10)"
  using pivot_levels_ordered [of 8 10 12] by (simp add: Let_def)

section \<open>Indicators that say nothing\<close>

text \<open>
  The signal line is an average of a single value, so it equals the line it is compared with.
\<close>

lemma macd_histogram_zero: "macd_signal (calculateMACD s pair) = macd (calculateMACD s pair) \<and> histogram (calculateMACD s pair) = 0"
  by (simp add: calculateMACD_def calculateEMAFromSeries_def Let_def)

lemma sum_by_const: "sum_by (\<lambda>_. c) xs = of_nat (length xs) * c"
  by (induction xs) (auto simp: algebra_simps)

text \<open>The average of the last values of K is taken over copies of the current one.\<close>

lemma stochastic_d_is_k:
  assumes "0 < kPeriod" and "0 < dPeriod"
  shows "fst (calculateStochastic s pair kPeriod dPeriod) = snd (calculateStochastic s pair kPeriod dPeriod)"
proof -
  let ?h = "getHistory s pair (kPeriod + dPeriod)"
  have "length (slice_last dPeriod ?h) \<noteq> 0" if "\<not> length ?h < kPeriod"
    using that assms by (auto simp: length_slice_last)
  then show ?thesis by (auto simp: calculateStochastic_def sum_by_const Let_def)
qed

text \<open>
  \<open>getTradingSignal\<close> never says 'strong buy'. The MACD line is compared with itself and
  always votes to sell, so the score is at most 50.
\<close>

theorem never_strong_buy: "fst (getTradingSignal s pair) \<noteq> StrongBuy \<and> fst (snd (getTradingSignal s pair)) \<le> 50"
proof -
  have "ind_score (indicators s pair) \<le> 2"
    using macd_histogram_zero [of s pair] by (simp add: indicators_def ind_score_def Let_def)
  moreover have "length (indicators s pair) = 4" by (simp add: indicators_def Let_def)
  ultimately show ?thesis by (simp add: getTradingSignal_def signal_of_score_def Let_def)
qed

end
