(* ===== verification/TaxCalculator.thy ===== *)
theory TaxCalculator
  imports Prelude
begin

text \<open>
  Capital gains and the tax year (services/taxCalculator.ts) with the wash-sale and
  loss-harvesting helpers (services/capitalGains.ts).

  \<open>matchInventory\<close> sorts a copy of the inventory array whose elements are the same
  objects, reduces their amounts in place and removes emptied ones from the inventory by
  identity. A lot's identity is its position in the inventory: the loop returns, for the
  positions it visited, the amounts taken, and the inventory is rebuilt from them.
\<close>

section \<open>Data\<close>

datatype TaxMethod = FIFO | LIFO | HIFO | SpecificID

datatype tax_type = BuyTx | SellTx | Mining | Staking | Airdrop | Interest

record TaxTransaction =
  tt_id :: string
  tt_date :: int
  tt_type :: tax_type
  tt_amount :: jsnum
  tt_price :: jsnum
  tt_costBasis :: "jsnum option"
  tt_proceeds :: "jsnum option"
  tt_gainLoss :: "jsnum option"
  tt_holdingPeriod :: "jsnum option"

section \<open>Matching a sale with the inventory\<close>

definition sort_lots :: "TaxMethod \<Rightarrow> (nat \<times> TaxTransaction) list \<Rightarrow> (nat \<times> TaxTransaction) list" where
  "sort_lots meth lots =
     (case meth of
        FIFO \<Rightarrow> sort_key (\<lambda>(i, l). tt_date l) lots
      | LIFO \<Rightarrow> sort_desc (\<lambda>(i, l). tt_date l) lots
      | HIFO \<Rightarrow> sort_desc (\<lambda>(i, l). tt_price l) lots
      | SpecificID \<Rightarrow> sort_key (\<lambda>(i, l). tt_date l) lots)"

text \<open>The loop: the amount taken from each lot it visits.\<close>

fun take_lots :: "jsnum \<Rightarrow> (nat \<times> TaxTransaction) list \<Rightarrow> (nat \<times> jsnum) list" where
  "take_lots remaining [] = []"
| "take_lots remaining ((i, l) # ls) =
     (if remaining > 0
      then let toTake = min (tt_amount l) remaining in (i, toTake) # take_lots (remaining - toTake) ls
      else [])"

definition leftover :: "(nat \<times> jsnum) list \<Rightarrow> nat \<times> TaxTransaction \<Rightarrow> TaxTransaction list" where
  "leftover takes il =
     (case map_of takes (fst il) of
        None \<Rightarrow> [snd il]
      | Some k \<Rightarrow> let l = (snd il)\<lparr>tt_amount := tt_amount (snd il) - k\<rparr>
                  in if tt_amount l = 0 then [] else [l])"

definition matchInventory ::
    "TaxTransaction list \<Rightarrow> jsnum \<Rightarrow> TaxMethod \<Rightarrow> TaxTransaction list \<times> TaxTransaction list" where
  "matchInventory inventory amt meth =
     (let lots = enumerate 0 inventory;
          takes = take_lots amt (sort_lots meth lots)
      in (map (\<lambda>(i, k). (inventory ! i)\<lparr>tt_amount := k\<rparr>) takes,
          concat (map (leftover takes) lots)))"

section \<open>Gains\<close>

definition ms_per_day :: jsnum where
  "ms_per_day = 1000 * 60 * 60 * 24"

definition acquires :: "tax_type \<Rightarrow> bool" where
  "acquires t \<longleftrightarrow> t = BuyTx \<or> t = Mining \<or> t = Staking \<or> t = Airdrop"

definition cost_of :: "TaxTransaction list \<Rightarrow> jsnum" where
  "cost_of lots = sum_by (\<lambda>m. tt_amount m * tt_price m) lots"

text \<open>A sale of a positive amount (the average divides by it).\<close>

definition process_sale :: "TaxTransaction \<Rightarrow> TaxTransaction list \<Rightarrow> TaxTransaction" where
  "process_sale tx matched =
     (let costBasis = cost_of matched;
          proceeds = tt_amount tx * tt_price tx;
          holding = sum_by (\<lambda>m. of_int \<lfloor>of_int (tt_date tx - tt_date m) / ms_per_day\<rfloor> * tt_amount m) matched / tt_amount tx
      in tx\<lparr>tt_costBasis := Some costBasis, tt_proceeds := Some proceeds,
            tt_gainLoss := Some (proceeds - costBasis), tt_holdingPeriod := Some holding\<rparr>)"

fun gains_loop :: "TaxMethod \<Rightarrow> TaxTransaction list \<Rightarrow> TaxTransaction list \<Rightarrow> TaxTransaction list" where
  "gains_loop meth inventory [] = []"
| "gains_loop meth inventory (tx # txs) =
     (if acquires (tt_type tx) then tx # gains_loop meth (inventory @ [tx]) txs
      else if tt_type tx = SellTx
      then (case matchInventory inventory (tt_amount tx) meth of
              (matched, inventory') \<Rightarrow> process_sale tx matched # gains_loop meth inventory' txs)
      else tx # gains_loop meth inventory txs)"

definition calculateCapitalGains :: "TaxTransaction list \<Rightarrow> TaxMethod \<Rightarrow> TaxTransaction list" where
  "calculateCapitalGains txs meth = gains_loop meth [] txs"

record tax_rates =
  shortTerm :: jsnum
  longTerm :: jsnum
  ordinary :: jsnum

definition getTaxRates :: "string \<Rightarrow> tax_rates" where
  "getTaxRates j =
     (if j = ''UK'' then \<lparr>shortTerm = 20, longTerm = 20, ordinary = 20\<rparr>
      else if j = ''EU'' then \<lparr>shortTerm = 25, longTerm = 15, ordinary = 25\<rparr>
      else if j = ''CA'' then \<lparr>shortTerm = 53 / 2, longTerm = 53 / 4, ordinary = 53 / 2\<rparr>
      else if j = ''AU'' then \<lparr>shortTerm = 65 / 2, longTerm = 65 / 4, ordinary = 65 / 2\<rparr>
      else \<lparr>shortTerm = 24, longTerm = 15, ordinary = 24\<rparr>)"

definition loadTransactions :: "int \<Rightarrow> TaxTransaction list" where
  "loadTransactions year = []"

record TaxYear =
  ty_year :: int
  ty_method :: TaxMethod
  ty_jurisdiction :: string
  ty_transactions :: "TaxTransaction list"
  totalCapitalGains :: jsnum
  shortTermGains :: jsnum
  longTermGains :: jsnum
  shortTermRate :: jsnum
  longTermRate :: jsnum
  miningIncome :: jsnum
  stakingIncome :: jsnum
  interestIncome :: jsnum
  airdropIncome :: jsnum
  otherIncome :: jsnum
  taxableIncome :: jsnum
  estimatedTax :: jsnum

definition gain_or_zero :: "TaxTransaction \<Rightarrow> jsnum" where
  "gain_or_zero tx = (case tt_gainLoss tx of None \<Rightarrow> 0 | Some g \<Rightarrow> g)"

definition income_of :: "tax_type \<Rightarrow> TaxTransaction list \<Rightarrow> jsnum" where
  "income_of t txs = sum_by (\<lambda>tx. tt_amount tx * tt_price tx) (filter (\<lambda>tx. tt_type tx = t) txs)"

text \<open>\<open>calculateTaxYear\<close> on the transactions that \<open>loadTransactions\<close> gave.\<close>

definition tax_year_of :: "int \<Rightarrow> TaxMethod \<Rightarrow> string \<Rightarrow> TaxTransaction list \<Rightarrow> TaxYear" where
  "tax_year_of year meth jurisdiction txs =
     (let processed = calculateCapitalGains txs meth;
          short = sum_by gain_or_zero (filter (\<lambda>tx. case tt_holdingPeriod tx of None \<Rightarrow> False | Some h \<Rightarrow> h \<le> 365) processed);
          long = sum_by gain_or_zero (filter (\<lambda>tx. case tt_holdingPeriod tx of None \<Rightarrow> False | Some h \<Rightarrow> h > 365) processed);
          mining = income_of Mining processed;
          staking = income_of Staking processed;
          interest = income_of Interest processed;
          airdrop = income_of Airdrop processed;
          other = mining + staking + interest + airdrop;
          rates = getTaxRates jurisdiction;
          totalGains = short + long;
          tax = (if short > 0 then short * shortTerm rates / 100 else 0) +
                (if long > 0 then long * longTerm rates / 100 else 0) +
                (if other > 0 then other * ordinary rates / 100 else 0)
      in \<lparr>ty_year = year, ty_method = meth, ty_jurisdiction = jurisdiction, ty_transactions = processed,
          totalCapitalGains = totalGains, shortTermGains = short, longTermGains = long,
          shortTermRate = shortTerm rates, longTermRate = longTerm rates, miningIncome = mining,
          stakingIncome = staking, interestIncome = interest, airdropIncome = airdrop, otherIncome = other,
          taxableIncome = totalGains + other, estimatedTax = tax\<rparr>)"

definition calculateTaxYear :: "int \<Rightarrow> TaxMethod \<Rightarrow> string \<Rightarrow> TaxYear" where
  "calculateTaxYear year meth jurisdiction =
     tax_year_of year meth jurisdiction (loadTransactions year)"

section \<open>Wash sales and loss harvesting\<close>

record WashSale =
  saleDate :: int
  ws_amount :: jsnum
  disallowedLoss :: jsnum
  repurchaseDate :: int

definition wash_window :: int where
  "wash_window = 30 * 24 * 60 * 60 * 1000"

definition repurchases :: "TaxTransaction list \<Rightarrow> TaxTransaction \<Rightarrow> TaxTransaction list" where
  "repurchases txs sale =
     filter (\<lambda>tx. tt_type tx = BuyTx \<and> \<bar>tt_date tx - tt_date sale\<bar> \<le> wash_window \<and>
        tt_date tx \<noteq> tt_date sale) txs"

definition detectWashSales :: "TaxTransaction list \<Rightarrow> WashSale list" where
  "detectWashSales txs =
     concat (map (\<lambda>sale. case repurchases txs sale of
         [] \<Rightarrow> []
       | r # _ \<Rightarrow> [\<lparr>saleDate = tt_date sale, ws_amount = tt_amount sale,
                    disallowedLoss = \<bar>gain_or_zero sale\<bar>, repurchaseDate = tt_date r\<rparr>])
       (filter (\<lambda>tx. tt_type tx = SellTx \<and> gain_or_zero tx < 0) txs))"

definition calculateCostBasis :: "TaxTransaction list \<Rightarrow> TaxMethod \<Rightarrow> jsnum" where
  "calculateCostBasis purchases meth =
     (if purchases = [] then 0 else cost_of purchases / sum_by tt_amount purchases)"

definition adjustForWashSales :: "jsnum \<Rightarrow> WashSale list \<Rightarrow> jsnum" where
  "adjustForWashSales gains washSales = gains + sum_by disallowedLoss washSales"

definition calculateHoldingPeriod :: "int \<Rightarrow> int \<Rightarrow> int" where
  "calculateHoldingPeriod buyDate sellDate = \<lfloor>of_int (sellDate - buyDate) / ms_per_day\<rfloor>"

definition isLongTerm :: "int \<Rightarrow> bool" where
  "isLongTerm holdingPeriod \<longleftrightarrow> holdingPeriod > 365"

text \<open>The current price of the price service is an argument; no price is \<open>None\<close>.\<close>

definition optimizeTaxLoss ::
    "jsnum option \<Rightarrow> TaxTransaction list \<Rightarrow> (TaxTransaction \<times> jsnum) list \<times> jsnum" where
  "optimizeTaxLoss price txs =
     (let currentPrice = (case price of None \<Rightarrow> 0 | Some p \<Rightarrow> p)
      in if currentPrice \<le> 0 then ([], 0)
         else
           let recs = sort_key snd (map (\<lambda>tx. (tx, (currentPrice - tt_price tx) * tt_amount tx))
                 (filter (\<lambda>tx. tt_type tx = BuyTx \<and> tt_price tx > currentPrice) txs))
           in (recs, sum_by (\<lambda>(tx, loss). \<bar>loss\<bar>) recs))"

section \<open>What is taken from each lot\<close>

definition taken :: "(nat \<times> jsnum) list \<Rightarrow> nat \<Rightarrow> jsnum" where
  "taken takes i = (case map_of takes i of None \<Rightarrow> 0 | Some k \<Rightarrow> k)"

lemma take_lots_prefix: "\<exists>n. map fst (take_lots r ls) = take n (map fst ls)"
proof (induction r ls rule: take_lots.induct)
  case (2 r i l ls)
  show ?case
  proof (cases "r > 0")
    case True
    with 2 obtain n where "map fst (take_lots (r - min (tt_amount l) r) ls) = take n (map fst ls)" by metis
    with True show ?thesis by (auto simp: Let_def intro!: exI [of _ "Suc n"])
  next
    case False
    then show ?thesis by (auto intro: exI [of _ 0])
  qed
qed simp

lemma take_lots_indices: "i \<in> fst ` set (take_lots r ls) \<Longrightarrow> i \<in> fst ` set ls"
  using take_lots_prefix [of r ls] by (metis image_set set_take_subset subsetD)

lemma take_lots_distinct: "distinct (map fst ls) \<Longrightarrow> distinct (map fst (take_lots r ls))"
  using take_lots_prefix [of r ls] by (metis distinct_take)

lemma take_lots_total:
  assumes "\<forall>(i, l) \<in> set ls. 0 \<le> tt_amount l" and "0 \<le> r"
  shows "sum_by snd (take_lots r ls) = min r (sum_by (\<lambda>(i, l). tt_amount l) ls)"
  using assms
proof (induction r ls rule: take_lots.induct)
  case (2 r i l ls)
  have nn: "0 \<le> sum_by (\<lambda>(i, l). tt_amount l) ls" using 2(2) by (intro sum_by_nonneg) auto
  have l: "0 \<le> tt_amount l" using 2(2) by simp
  show ?case
  proof (cases "r > 0")
    case True
    with 2 l have "sum_by snd (take_lots (r - min (tt_amount l) r) ls) =
        min (r - min (tt_amount l) r) (sum_by (\<lambda>(i, l). tt_amount l) ls)" by simp
    with True nn l show ?thesis by (simp add: Let_def min_def)
  next
    case False
    with 2(3) have "r = 0" by simp
    with nn l show ?thesis by (simp add: min_def)
  qed
qed simp

lemma taken_bounds:
  assumes "\<forall>(i, l) \<in> set ls. 0 \<le> tt_amount l" and "distinct (map fst ls)" and "(i, l) \<in> set ls"
  shows "0 \<le> taken (take_lots r ls) i \<and> taken (take_lots r ls) i \<le> tt_amount l"
  using assms
proof (induction r ls rule: take_lots.induct)
  case (2 r j l' ls)
  show ?case
  proof (cases "r > 0 \<and> i \<noteq> j")
    case True
    with 2 show ?thesis by (auto simp: taken_def Let_def)
  next
    case False
    with 2(2-) show ?thesis by (force simp: taken_def Let_def)
  qed
qed simp

lemma sum_taken:
  assumes "distinct (map fst takes)" and "fst ` set takes \<subseteq> {..<n}"
  shows "sum_by (\<lambda>(i, k). k * c i) takes = (\<Sum>i<n. taken takes i * c i)"
  using assms
proof (induction takes)
  case Nil
  then show ?case by (simp add: taken_def)
next
  case (Cons jk ts)
  obtain j k where jk: "jk = (j, k)" by force
  with Cons.prems have "j < n" "map_of ts j = None" by (simp_all add: map_of_eq_None_iff)
  then have j: "j < n" "taken ts j = 0" by (simp_all add: taken_def)
  then have "taken (jk # ts) i * c i = (if i = j then k * c i else 0) + taken ts i * c i" for i
    by (simp add: jk taken_def)
  then have "(\<Sum>i<n. taken (jk # ts) i * c i) = k * c j + (\<Sum>i<n. taken ts i * c i)"
    using j(1) by (simp add: sum.distrib)
  with Cons jk show ?case by simp
qed

lemma sum_enumerate: "sum_by (\<lambda>(i, l). f i l) (enumerate 0 xs) = (\<Sum>i<length xs. f i (xs ! i))"
  by (simp add: sum_by_sum_list sum_list_sum_nth nth_enumerate_eq atLeast0LessThan)

lemma sort_lots_mset: "mset (sort_lots meth lots) = mset lots"
  by (cases meth) (simp_all add: sort_lots_def)

lemma sort_lots_set [simp]: "set (sort_lots meth lots) = set lots"
  using sort_lots_mset by (metis set_mset_mset)

lemma sort_lots_distinct: "distinct (map fst (sort_lots meth lots)) = distinct (map fst lots)"
  using sort_lots_mset [of meth lots] by (metis mset_eq_imp_distinct_iff mset_map)

lemma enumerate_set: "(i, l) \<in> set (enumerate 0 xs) \<longleftrightarrow> i < length xs \<and> xs ! i = l"
  by (auto simp: in_set_enumerate_eq)

text \<open>The takes of a sale: distinct positions of the inventory.\<close>

definition sale_takes :: "TaxTransaction list \<Rightarrow> jsnum \<Rightarrow> TaxMethod \<Rightarrow> (nat \<times> jsnum) list" where
  "sale_takes inventory amt meth = take_lots amt (sort_lots meth (enumerate 0 inventory))"

lemma sale_takes_wf:
  "distinct (map fst (sale_takes invy amt m))" "fst ` set (sale_takes invy amt m) \<subseteq> {..<length invy}"
proof -
  show "distinct (map fst (sale_takes invy amt m))"
    unfolding sale_takes_def by (rule take_lots_distinct) (simp add: sort_lots_distinct)
  show "fst ` set (sale_takes invy amt m) \<subseteq> {..<length invy}"
    unfolding sale_takes_def by (auto dest!: take_lots_indices simp: enumerate_set image_iff)
qed

lemma sale_takes_sum: "sum_by snd (sale_takes invy amt m) = (\<Sum>i<length invy. taken (sale_takes invy amt m) i)"
  using sum_taken [OF sale_takes_wf, of "\<lambda>_. 1"] by (simp add: case_prod_beta')

lemma sale_total:
  assumes "\<forall>l \<in> set invy. 0 \<le> tt_amount l" and "0 \<le> amt"
  shows "sum_by snd (sale_takes invy amt m) = min amt (sum_by tt_amount invy)"
proof -
  have "sum_by (\<lambda>(i, l). tt_amount l) (sort_lots m (enumerate 0 invy)) = sum_by (\<lambda>(i, l). tt_amount l) (enumerate 0 invy)"
    by (rule sum_by_mset) (rule sort_lots_mset)
  also have "\<dots> = sum_by tt_amount invy"
    by (simp add: sum_by_sum_list sum_list_sum_nth nth_enumerate_eq atLeast0LessThan)
  finally show ?thesis
    unfolding sale_takes_def using assms by (subst take_lots_total) (auto simp: enumerate_set)
qed

lemma sale_taken_bounds:
  assumes "\<forall>l \<in> set invy. 0 \<le> tt_amount l" and "i < length invy"
  shows "0 \<le> taken (sale_takes invy amt m) i" "taken (sale_takes invy amt m) i \<le> tt_amount (invy ! i)"
proof -
  have "\<forall>(j, l) \<in> set (sort_lots m (enumerate 0 invy)). 0 \<le> tt_amount l"
    "(i, invy ! i) \<in> set (sort_lots m (enumerate 0 invy))"
    using assms by (auto simp: enumerate_set)
  from taken_bounds [OF this(1) _ this(2)]
  show "0 \<le> taken (sale_takes invy amt m) i" "taken (sale_takes invy amt m) i \<le> tt_amount (invy ! i)"
    by (simp_all add: sale_takes_def sort_lots_distinct)
qed

lemma leftover_amount: "sum_by tt_amount (leftover takes (i, l)) = tt_amount l - taken takes i"
  by (auto simp: leftover_def taken_def Let_def split: option.split)

lemma sum_by_concat: "sum_by f (concat xss) = sum_by (\<lambda>xs. sum_by f xs) xss"
  by (induction xss) auto

lemma remaining_amount:
  "sum_by tt_amount (snd (matchInventory invy amt m)) =
     sum_by tt_amount invy - sum_by snd (sale_takes invy amt m)"
proof -
  have "sum_by tt_amount (snd (matchInventory invy amt m)) =
      sum_by (\<lambda>(i, l). tt_amount l - taken (sale_takes invy amt m) i) (enumerate 0 invy)"
    by (auto simp: matchInventory_def sale_takes_def [symmetric] sum_by_concat leftover_amount Let_def
        intro!: sum_by_cong)
  also have "\<dots> = sum_by tt_amount invy - (\<Sum>i<length invy. taken (sale_takes invy amt m) i)"
    by (simp add: sum_subtractf sum_by_sum_list sum_list_sum_nth nth_enumerate_eq atLeast0LessThan)
  finally show ?thesis by (simp add: sale_takes_sum)
qed

text \<open>
  C23: matching a sale with the inventory conserves amounts, whatever the method: what was
  matched is the smaller of the amount sold and the inventory, and matched and remaining lots
  together hold what the inventory held.
\<close>

theorem matchInventory_conserves:
  assumes "\<forall>l \<in> set inventory. 0 \<le> tt_amount l" and "0 \<le> amt"
    and "matchInventory inventory amt meth = (matched, remaining)"
  shows "sum_by tt_amount matched = min amt (sum_by tt_amount inventory) \<and>
    sum_by tt_amount matched + sum_by tt_amount remaining = sum_by tt_amount inventory"
proof -
  have "matched = map (\<lambda>(i, k). (inventory ! i)\<lparr>tt_amount := k\<rparr>) (sale_takes inventory amt meth)"
    using assms(3) by (simp add: matchInventory_def sale_takes_def Let_def)
  then have "sum_by tt_amount matched = sum_by snd (sale_takes inventory amt meth)"
    by (simp add: case_prod_beta')
  moreover have "sum_by tt_amount remaining = sum_by tt_amount inventory - sum_by snd (sale_takes inventory amt meth)"
    using remaining_amount [of inventory amt meth] assms(3) by simp
  ultimately show ?thesis using sale_total [OF assms(1,2), of meth] by simp
qed

definition lot :: "int \<Rightarrow> jsnum \<Rightarrow> jsnum \<Rightarrow> TaxTransaction" where
  "lot d a p = \<lparr>tt_id = ''l'', tt_date = d, tt_type = BuyTx, tt_amount = a, tt_price = p, tt_costBasis = None,
     tt_proceeds = None, tt_gainLoss = None, tt_holdingPeriod = None\<rparr>"

theorem matchInventory_conserves_witness:
  "sum_by tt_amount (fst (matchInventory [lot 0 2 10, lot 1 3 30] 4 HIFO)) = min 4 (sum_by tt_amount [lot 0 2 10, lot 1 3 30])"
  using matchInventory_conserves [of "[lot 0 2 10, lot 1 3 30]" 4 HIFO
      "fst (matchInventory [lot 0 2 10, lot 1 3 30] 4 HIFO)" "snd (matchInventory [lot 0 2 10, lot 1 3 30] 4 HIFO)"]
  by (simp add: lot_def)

section \<open>Highest price first gives the highest cost\<close>

text \<open>
  On lots in order of falling price the loop has a threshold price: dearer lots are used up,
  cheaper ones are untouched.
\<close>

lemma take_lots_threshold:
  assumes "sorted (map (\<lambda>(i, l). - tt_price l) ls)" and "distinct (map fst ls)"
    and "\<forall>(i, l) \<in> set ls. 0 \<le> tt_amount l" and "ls \<noteq> []"
  shows "\<exists>t \<le> tt_price (snd (hd ls)). \<forall>(i, l) \<in> set ls.
    (t < tt_price l \<longrightarrow> taken (take_lots r ls) i = tt_amount l) \<and>
    (tt_price l < t \<longrightarrow> taken (take_lots r ls) i = 0)"
  using assms
proof (induction r ls rule: take_lots.induct)
  case (2 r j l ls)
  have top: "tt_price l' \<le> tt_price l" if "(i, l') \<in> set ls" for i l'
    using 2(2) that by auto
  have fresh: "j \<noteq> i" if "(i, l') \<in> set ls" for i l' using 2(3) that by force
  have none: "taken (take_lots r' ls) i = 0" if "r' \<le> 0" for r' i
    using that by (cases ls) (auto simp: taken_def)
  show ?case
  proof (cases "r > 0 \<and> tt_amount l < r \<and> ls \<noteq> []")
    case True
    then have r: "0 < r" and m: "min (tt_amount l) r = tt_amount l" and ne: "ls \<noteq> []" by simp_all
    obtain t where t: "t \<le> tt_price (snd (hd ls))"
      "\<forall>(i, l') \<in> set ls. (t < tt_price l' \<longrightarrow> taken (take_lots (r - min (tt_amount l) r) ls) i = tt_amount l') \<and>
         (tt_price l' < t \<longrightarrow> taken (take_lots (r - min (tt_amount l) r) ls) i = 0)"
      using 2(1) [OF r refl] 2(2-4) ne by auto
    have "t \<le> tt_price l" using t(1) top [of "fst (hd ls)" "snd (hd ls)"] ne by (simp add: order_trans)
    with t(2) r m fresh show ?thesis
      by (intro exI [of _ t]) (force simp: taken_def Let_def)
  next
    case False
    have "r > 0 \<Longrightarrow> r - min (tt_amount l) r \<le> 0 \<or> ls = []" using False by auto
    then show ?thesis
      using none [of "r - min (tt_amount l) r"] top fresh
      by (intro exI [of _ "tt_price l"]) (force simp: taken_def Let_def split: if_splits)
  qed
qed simp

lemma sale_cost:
  "cost_of (fst (matchInventory invy amt m)) = (\<Sum>i<length invy. taken (sale_takes invy amt m) i * tt_price (invy ! i))"
proof -
  have "cost_of (fst (matchInventory invy amt m)) =
      sum_by (\<lambda>(i, k). k * tt_price (invy ! i)) (sale_takes invy amt m)"
    by (simp add: matchInventory_def sale_takes_def cost_of_def Let_def case_prod_beta')
  then show ?thesis by (simp add: sum_taken [OF sale_takes_wf])
qed

text \<open>
  'HIFO' is what it is for: of the four methods it gives the highest cost basis for a sale,
  so the smallest gain.
\<close>

theorem hifo_maximises_cost:
  assumes "\<forall>l \<in> set inventory. 0 \<le> tt_amount l" and "0 \<le> amt"
  shows "cost_of (fst (matchInventory inventory amt meth)) \<le> cost_of (fst (matchInventory inventory amt HIFO))"
proof (cases "inventory = []")
  case True
  then show ?thesis by (simp add: sale_cost)
next
  case False
  let ?x = "taken (sale_takes inventory amt HIFO)" and ?y = "taken (sale_takes inventory amt meth)"
  let ?P = "\<lambda>i. tt_price (inventory ! i)"
  let ?ls = "sort_lots HIFO (enumerate 0 inventory)"
  have "sorted (map (\<lambda>(i, l). - tt_price l) ?ls)"
    using sorted_sort_key [of "\<lambda>x. - (case x of (i, l) \<Rightarrow> tt_price l)" "enumerate 0 inventory"]
    by (simp add: sort_lots_def sort_desc_def case_prod_beta')
  moreover have "?ls \<noteq> []"
    using False sort_lots_set [of HIFO "enumerate 0 inventory"] by (metis enumerate_simps(2) neq_Nil_conv set_empty list.distinct(1))
  moreover have "\<forall>(i, l) \<in> set ?ls. 0 \<le> tt_amount l" using assms(1) by (auto simp: enumerate_set)
  ultimately obtain t where t: "\<forall>(i, l) \<in> set ?ls. (t < tt_price l \<longrightarrow> taken (take_lots amt ?ls) i = tt_amount l) \<and>
      (tt_price l < t \<longrightarrow> taken (take_lots amt ?ls) i = 0)"
    using take_lots_threshold [of ?ls amt] by (auto simp: sort_lots_distinct)
  have "0 \<le> (?x i - ?y i) * (?P i - t)" if i: "i < length inventory" for i
  proof -
    have "(i, inventory ! i) \<in> set ?ls" using i by (simp add: enumerate_set)
    with t have "t < ?P i \<longrightarrow> ?x i = tt_amount (inventory ! i)" "?P i < t \<longrightarrow> ?x i = 0"
      unfolding sale_takes_def by auto
    with sale_taken_bounds [OF assms(1) i, of amt meth] show ?thesis
      by (cases "?P i" t rule: linorder_cases) (auto intro: mult_nonneg_nonneg mult_nonneg_nonpos)
  qed
  then have "0 \<le> (\<Sum>i<length inventory. (?x i - ?y i) * (?P i - t))" by (intro sum_nonneg) simp
  moreover have "(\<Sum>i<length inventory. ?x i) = (\<Sum>i<length inventory. ?y i)"
    using sale_total [OF assms, of HIFO] sale_total [OF assms, of meth] by (simp add: sale_takes_sum)
  moreover have "(\<Sum>i<length inventory. (?x i - ?y i) * (?P i - t)) =
      (\<Sum>i<length inventory. ?x i * ?P i) - (\<Sum>i<length inventory. ?y i * ?P i)
      - t * ((\<Sum>i<length inventory. ?x i) - (\<Sum>i<length inventory. ?y i))"
    by (simp add: algebra_simps sum.distrib sum_subtractf sum_distrib_left)
  ultimately show ?thesis by (simp add: sale_cost)
qed

theorem hifo_maximises_cost_witness:
  "cost_of (fst (matchInventory [lot 0 2 10, lot 1 3 30] 4 FIFO)) \<le> cost_of (fst (matchInventory [lot 0 2 10, lot 1 3 30] 4 HIFO))"
  by (rule hifo_maximises_cost) (simp_all add: lot_def)

section \<open>The tax year\<close>

text \<open>
  The year's transactions are never loaded, so every figure of every tax year is zero.
\<close>

lemma tax_year_is_empty:
  "estimatedTax (calculateTaxYear year meth j) = 0 \<and> taxableIncome (calculateTaxYear year meth j) = 0 \<and>
   ty_transactions (calculateTaxYear year meth j) = []"
  by (simp add: calculateTaxYear_def tax_year_of_def loadTransactions_def calculateCapitalGains_def income_of_def Let_def)

lemma income_nonneg:
  "(\<And>tx. tx \<in> set txs \<Longrightarrow> 0 \<le> tt_amount tx \<and> 0 \<le> tt_price tx) \<Longrightarrow> 0 \<le> income_of t txs"
  unfolding income_of_def by (intro sum_by_nonneg) auto

lemma rates_nonneg: "0 \<le> shortTerm (getTaxRates j) \<and> 0 \<le> longTerm (getTaxRates j) \<and> 0 \<le> ordinary (getTaxRates j)"
  by (simp add: getTaxRates_def)

text \<open>The estimated tax of any list of transactions is never negative: losses give no refund.\<close>

lemma estimated_tax_nonneg: "0 \<le> estimatedTax (tax_year_of year meth j txs)"
  using rates_nonneg [of j] by (simp add: tax_year_of_def Let_def)

text \<open>
  Interest is taxed as income but never enters the inventory: an asset received as interest
  and sold has no cost basis, so it is taxed again in full.
\<close>

lemma interest_has_no_basis:
  assumes "tt_type i = Interest" and "tt_type sale = SellTx"
  shows "\<exists>tx. calculateCapitalGains [i, sale] m = [i, tx] \<and> tt_costBasis tx = Some 0 \<and>
    tt_gainLoss tx = Some (tt_amount sale * tt_price sale)"
  using assms
  by (cases m) (simp_all add: calculateCapitalGains_def acquires_def matchInventory_def sort_lots_def sort_desc_def
      process_sale_def cost_of_def Let_def)

end
