(* ===== verification/Calendar.thy ===== *)
theory Calendar
  imports Prelude
begin

text \<open>
  The part of JavaScript's \<open>Date\<close> that the services use: the civil fields of a time value and
  \<open>setDate\<close>, \<open>setMonth\<close>, after the definitions of the language specification (proleptic
  Gregorian calendar, months counted from 0). A time is a number of milliseconds; local time is a
  fixed offset from it (daylight saving is not modelled).
\<close>

section \<open>Days, years and months\<close>

definition msPerDay :: int where
  "msPerDay = 86400000"

definition DayFromYear :: "int \<Rightarrow> int" where
  "DayFromYear y = 365 * (y - 1970) + (y - 1969) div 4 - (y - 1901) div 100 + (y - 1601) div 400"

definition is_leap :: "int \<Rightarrow> bool" where
  "is_leap y \<longleftrightarrow> y mod 4 = 0 \<and> (y mod 100 \<noteq> 0 \<or> y mod 400 = 0)"

text \<open>The year that a day is in: an estimate and its correction by at most one.\<close>

definition YearFromDay :: "int \<Rightarrow> int" where
  "YearFromDay d =
     (let y = 1970 + (400 * d) div 146097
      in if d < DayFromYear y then y - 1 else if DayFromYear (y + 1) \<le> d then y + 1 else y)"

definition month_lengths :: "int \<Rightarrow> int list" where
  "month_lengths y = [31, if is_leap y then 29 else 28, 31, 30, 31, 30, 31, 31, 30, 31, 30, 31]"

definition month_start :: "int \<Rightarrow> nat \<Rightarrow> int" where
  "month_start y m = sum_list (take m (month_lengths y))"

text \<open>The month and the day of the month of a day within the year.\<close>

fun month_in :: "int list \<Rightarrow> int \<Rightarrow> nat" where
  "month_in [] d = 0"
| "month_in [l] d = 0"
| "month_in (l # ls) d = (if d < l then 0 else Suc (month_in ls (d - l)))"

definition MonthFromDay :: "int \<Rightarrow> nat" where
  "MonthFromDay d = (let y = YearFromDay d in month_in (month_lengths y) (d - DayFromYear y))"

definition DateFromDay :: "int \<Rightarrow> int" where
  "DateFromDay d = (let y = YearFromDay d in d - DayFromYear y - month_start y (MonthFromDay d) + 1)"

definition MakeDay :: "int \<Rightarrow> int \<Rightarrow> int \<Rightarrow> int" where
  "MakeDay y m dt =
     (let ym = y + m div 12 in DayFromYear ym + month_start ym (nat (m mod 12)) + dt - 1)"

section \<open>Methods of Date\<close>

definition local_day :: "int \<Rightarrow> int \<Rightarrow> int" where
  "local_day tz t = (t + tz) div msPerDay"

definition getDate :: "int \<Rightarrow> int \<Rightarrow> int" where
  "getDate tz t = DateFromDay (local_day tz t)"

definition getMonth :: "int \<Rightarrow> int \<Rightarrow> int" where
  "getMonth tz t = int (MonthFromDay (local_day tz t))"

definition getFullYear :: "int \<Rightarrow> int \<Rightarrow> int" where
  "getFullYear tz t = YearFromDay (local_day tz t)"

definition MakeDate :: "int \<Rightarrow> int \<Rightarrow> int \<Rightarrow> int" where
  "MakeDate tz day t = day * msPerDay + (t + tz) mod msPerDay - tz"

definition setDate :: "int \<Rightarrow> int \<Rightarrow> int \<Rightarrow> int" where
  "setDate tz t dt = MakeDate tz (MakeDay (getFullYear tz t) (getMonth tz t) dt) t"

definition setMonth :: "int \<Rightarrow> int \<Rightarrow> int \<Rightarrow> int" where
  "setMonth tz t m = MakeDate tz (MakeDay (getFullYear tz t) m (getDate tz t)) t"

text \<open>\<open>toISOString\<close> for the years 0 to 9999, in universal time.\<close>

definition pad :: "nat \<Rightarrow> int \<Rightarrow> string" where
  "pad n k = padStart n (CHR ''0'') (show_nat (nat k))"

definition toISOString :: "int \<Rightarrow> string" where
  "toISOString t =
     (let ms = t mod msPerDay
      in pad 4 (getFullYear 0 t) @ ''-'' @ pad 2 (getMonth 0 t + 1) @ ''-'' @ pad 2 (getDate 0 t) @ ''T'' @
         pad 2 (ms div 3600000) @ '':'' @ pad 2 (ms div 60000 mod 60) @ '':'' @ pad 2 (ms div 1000 mod 60) @ ''.'' @
         pad 3 (ms mod 1000) @ ''Z'')"

section \<open>Facts\<close>

lemma div_bounds: "0 < k \<Longrightarrow> k * (n div k) \<le> n \<and> n < k * (n div k) + k" for n k :: int
  using mult_div_mod_eq [of k n] pos_mod_sign [of k n] pos_mod_bound [of k n] by linarith

lemma div_succ:
  fixes n k y :: int
  assumes "0 < k" and "(n + 1) mod k = y mod k"
  shows "(n + 1) div k = n div k + (if y mod k = 0 then 1 else 0)"
proof (cases "(n + 1) mod k = 0")
  case True
  then obtain q where q: "n + 1 = k * q" by (auto simp: mod_eq_0_iff_dvd)
  then have "n = k * (q - 1) + (k - 1)" by (simp add: algebra_simps)
  then have "n div k = q - 1" using assms(1) by (metis div_mult_self4 div_pos_pos_trivial add.right_neutral
        diff_add_cancel less_add_one less_irrefl zle_diff1_eq)
  with q True assms show ?thesis by simp
next
  case False
  then have "0 < (n + 1) mod k" using pos_mod_sign [OF assms(1), of "n + 1"] by linarith
  moreover have "n = k * ((n + 1) div k) + ((n + 1) mod k - 1)" using mult_div_mod_eq [of k "n + 1"] by linarith
  ultimately have "n div k = (n + 1) div k"
    using pos_mod_bound [OF assms(1), of "n + 1"] by (metis div_mult_self4 div_pos_pos_trivial add.right_neutral
        assms(1) diff_ge_0_iff_ge diff_less_eq int_one_le_iff_zero_less less_add_one less_irrefl order.strict_trans)
  with False assms show ?thesis by simp
qed

lemma div_year:
  fixes y c k :: int
  assumes "0 < k" and "k dvd c"
  shows "(y - c) div k = (y - (c + 1)) div k + (if y mod k = 0 then 1 else 0)"
proof -
  have "(y - c) mod k = y mod k" using assms(2) by (metis diff_zero mod_0_imp_dvd mod_diff_right_eq dvd_imp_mod_0)
  then show ?thesis using div_succ [of k "y - (c + 1)" y] assms(1) by (simp add: algebra_simps)
qed

lemma year_length: "DayFromYear (y + 1) = DayFromYear y + (if is_leap y then 366 else 365)"
proof -
  define a b c where "a = (y - (1968 + 1)) div 4" and "b = (y - (1900 + 1)) div 100" and "c = (y - (1600 + 1)) div 400"
  define p q r where "p = (y mod 4 = 0)" and "q = (y mod 100 = 0)" and "r = (y mod 400 = 0)"
  have s: "(y - 1968) div 4 = a + (if p then 1 else 0)" "(y - 1900) div 100 = b + (if q then 1 else 0)"
      "(y - 1600) div 400 = c + (if r then 1 else 0)"
    unfolding a_def b_def c_def p_def q_def r_def by (rule div_year; simp)+
  have m: "r \<longrightarrow> q" "q \<longrightarrow> p"
    unfolding p_def q_def r_def mod_eq_0_iff_dvd using dvd_trans [of 100 400 y] dvd_trans [of 4 100 y] by simp_all
  have "y + 1 - 1969 = y - 1968" "y + 1 - 1901 = y - 1900" "y + 1 - 1601 = y - 1600" "y + 1 - 1970 = y - 1970 + 1" by simp_all
  then have d: "DayFromYear (y + 1) = 365 * (y - 1970 + 1) + (a + (if p then 1 else 0)) - (b + (if q then 1 else 0)) + (c + (if r then 1 else 0))"
    unfolding DayFromYear_def s [symmetric] by metis
  have "1968 + 1 = (1969 :: int)" "1900 + 1 = (1901 :: int)" "1600 + 1 = (1601 :: int)" by simp_all
  then have e: "DayFromYear y = 365 * (y - 1970) + a - b + c" unfolding DayFromYear_def a_def b_def c_def by metis
  have l: "is_leap y = (p \<and> (\<not> q \<or> r))" unfolding is_leap_def p_def q_def r_def by metis
  show ?thesis unfolding d e l using m by (cases p; cases q; cases r) simp_all
qed

lemma DayFromYear_bounds:
  "146097 * (y - 1970) - 600 < 400 * DayFromYear y" "400 * DayFromYear y < 146097 * (y - 1970) + 600"
  using div_bounds [of 4 "y - 1969"] div_bounds [of 100 "y - 1901"] div_bounds [of 400 "y - 1601"]
  unfolding DayFromYear_def by simp_all

lemma YearFromDay_bounds: "DayFromYear (YearFromDay d) \<le> d \<and> d < DayFromYear (YearFromDay d + 1)"
proof -
  define y where "y = 1970 + (400 * d) div 146097"
  have "146097 * (y - 1970) \<le> 400 * d" "400 * d < 146097 * (y - 1970) + 146097"
    using div_bounds [of 146097 "400 * d"] unfolding y_def by simp_all
  then have "DayFromYear (y - 1) \<le> d" "d < DayFromYear (y + 2)"
    using DayFromYear_bounds [of "y - 1"] DayFromYear_bounds [of "y + 2"] by simp_all
  then show ?thesis unfolding YearFromDay_def Let_def y_def [symmetric] by (auto simp: add.commute)
qed

lemma sum_month_lengths: "sum_list (month_lengths y) = (if is_leap y then 366 else 365)"
  by (simp add: month_lengths_def)

lemma month_in_bounds:
  "0 \<le> d \<Longrightarrow> d < sum_list ls \<Longrightarrow> ls \<noteq> [] \<Longrightarrow>
     month_in ls d < length ls \<and> sum_list (take (month_in ls d) ls) \<le> d \<and>
     d < sum_list (take (Suc (month_in ls d)) ls)"
proof (induction ls d rule: month_in.induct)
  case (3 l l' ls d)
  then show ?case by (cases "d < l") auto
qed auto

lemma day_in_year: "0 \<le> d - DayFromYear (YearFromDay d) \<and> d - DayFromYear (YearFromDay d) < sum_list (month_lengths (YearFromDay d))"
  using YearFromDay_bounds [of d] by (simp add: year_length sum_month_lengths split: if_splits)

lemma month_bounds:
  "MonthFromDay d < 12 \<and> 1 \<le> DateFromDay d \<and> DateFromDay d \<le> month_lengths (YearFromDay d) ! MonthFromDay d"
proof -
  let ?y = "YearFromDay d"
  have l: "length (month_lengths ?y) = 12" by (simp add: month_lengths_def)
  have b: "MonthFromDay d < 12" "month_start ?y (MonthFromDay d) \<le> d - DayFromYear ?y"
      "d - DayFromYear ?y < month_start ?y (Suc (MonthFromDay d))"
    using month_in_bounds [of "d - DayFromYear ?y" "month_lengths ?y"] day_in_year [of d] l
    unfolding MonthFromDay_def month_start_def Let_def by force+
  moreover have "month_start ?y (Suc (MonthFromDay d)) = month_start ?y (MonthFromDay d) + month_lengths ?y ! MonthFromDay d"
    using b(1) l by (simp add: month_start_def take_Suc_conv_app_nth)
  ultimately show ?thesis by (simp add: DateFromDay_def Let_def)
qed

text \<open>The fields of a day determine it.\<close>

lemma MakeDay_fields: "MakeDay (YearFromDay d) (int (MonthFromDay d)) (DateFromDay d) = d"
  using month_bounds [of d] by (simp add: MakeDay_def DateFromDay_def Let_def)

lemma MakeDay_add: "MakeDay y m (dt + k) = MakeDay y m dt + k"
  by (simp add: MakeDay_def Let_def)

lemma month_start_year: "month_start y 12 = DayFromYear (y + 1) - DayFromYear y"
  by (simp add: month_start_def month_lengths_def year_length eval_nat_numeral)

lemma MakeDay_next_month:
  "m < 12 \<Longrightarrow> MakeDay y (int m + 1) dt = MakeDay y (int m) dt + month_lengths y ! m"
proof (cases "m = 11")
  case True
  have "month_start y 12 = month_start y 11 + month_lengths y ! 11"
    by (simp add: month_start_def month_lengths_def eval_nat_numeral)
  then show ?thesis using True month_start_year [of y] by (simp add: MakeDay_def month_start_def)
next
  case False
  assume "m < 12"
  with False have m: "(int m + 1) mod 12 = int m + 1" "(int m + 1) div 12 = 0" "int m mod 12 = int m" "int m div 12 = 0" by simp_all
  have "month_start y (Suc m) = month_start y m + month_lengths y ! m"
    using \<open>m < 12\<close> take_Suc_conv_app_nth [of m "month_lengths y"] unfolding month_start_def
    by (simp add: month_lengths_def del: take_Suc_Cons)
  moreover have "nat (int m + 1) = Suc m" by simp
  ultimately show ?thesis unfolding MakeDay_def m Let_def by simp
qed

text \<open>
  Adding to the day of the month adds exact days; adding one to the month adds the length of the
  current month, so that a day that the next month lacks runs over into the month after it.
\<close>

lemma MakeDate_add: "MakeDate tz (local_day tz t + k) t = t + k * msPerDay"
proof -
  have "(t + tz) div msPerDay * msPerDay + (t + tz) mod msPerDay = t + tz" by simp
  then show ?thesis unfolding MakeDate_def local_day_def by (simp add: algebra_simps)
qed

lemma setDate_add: "setDate tz t (getDate tz t + k) = t + k * msPerDay"
  by (simp add: setDate_def getFullYear_def getMonth_def getDate_def MakeDay_add MakeDay_fields MakeDate_add)

lemma setMonth_next:
  "setMonth tz t (getMonth tz t + 1) =
     t + month_lengths (getFullYear tz t) ! MonthFromDay (local_day tz t) * msPerDay"
  using month_bounds [of "local_day tz t"]
  by (simp add: setMonth_def getFullYear_def getMonth_def getDate_def MakeDay_next_month MakeDay_fields MakeDate_add)

lemma month_length_range: "m < 12 \<Longrightarrow> 28 \<le> month_lengths y ! m \<and> month_lengths y ! m \<le> 31"
  by (auto simp: month_lengths_def nth_Cons split: nat.splits)

lemma setMonth_bounds: "t + 28 * msPerDay \<le> setMonth tz t (getMonth tz t + 1) \<and> setMonth tz t (getMonth tz t + 1) \<le> t + 31 * msPerDay"
  using month_length_range [of "MonthFromDay (local_day tz t)" "getFullYear tz t"] month_bounds [of "local_day tz t"]
  by (simp add: setMonth_next msPerDay_def)

end
