(* ===== verification/TaxService.thy ===== *)
theory TaxService
  imports JsStore Calendar
begin

text \<open>
  Tax records and reports (services/taxService.ts): transactions kept in storage, one-to-one
  matching of disposals with acquisitions, yearly reports and their export.
\<close>

datatype tax_type = Buy | Sell | Send | Receive | Mining | Staking
datatype tax_method = FIFO | LIFO | HIFO | SpecificID

record TaxTransaction =
  tt_id :: string
  tt_type :: tax_type
  tt_amount :: jsnum
  fiatValue :: jsnum
  fiatCurrency :: string
  tt_fee :: jsnum
  tt_timestamp :: int
  txHash :: string
  description :: string
  category :: "string option"

record CostBasis =
  cb_amount :: jsnum
  cb_costBasis :: jsnum
  cb_acquisitionDate :: int
  cb_method :: tax_method

record CapitalGain =
  cg_id :: string
  saleDate :: int
  acquisitionDate :: int
  cg_amount :: jsnum
  costBasis :: jsnum
  salePrice :: jsnum
  gain :: jsnum
  holdingPeriod :: int
  isLongTerm :: bool

record TaxReport =
  tr_year :: int
  jurisdiction :: string
  tr_method :: tax_method
  totalIncome :: jsnum
  totalGains :: jsnum
  totalLosses :: jsnum
  netGains :: jsnum
  shortTermGains :: jsnum
  longTermGains :: jsnum
  tr_transactions :: "TaxTransaction list"
  capitalGains :: "CapitalGain list"
  generatedAt :: int

record tax_state =
  transactions :: "(string, TaxTransaction) jsmap"
  hasLoaded :: bool
  canUseStorage :: bool
  tax_item :: "TaxTransaction list item"

definition LONG_TERM_DAYS :: int where
  "LONG_TERM_DAYS = 365"

section \<open>Storage\<close>

definition loadTransactions :: "(tax_state, unit) eff" where
  "loadTransactions s =
     (if \<not> canUseStorage s \<or> hasLoaded s then (Inr (), s)
      else case parse_item [] (tax_item s) of
        Inl e \<Rightarrow> (Inl e, s)
      | Inr xs \<Rightarrow> (Inr (), s\<lparr>transactions := foldl (\<lambda>m t. AList.update (tt_id t) t m) (transactions s) xs, hasLoaded := True\<rparr>))"

definition saveTransactions :: "tax_state \<Rightarrow> tax_state" where
  "saveTransactions s = (if \<not> canUseStorage s then s else s\<lparr>tax_item := Json (map snd (transactions s))\<rparr>)"

definition new_TaxService :: "bool \<Rightarrow> TaxTransaction list item \<Rightarrow> (js_error + unit) \<times> tax_state" where
  "new_TaxService br i = loadTransactions \<lparr>transactions = [], hasLoaded = False, canUseStorage = br, tax_item = i\<rparr>"

section \<open>Transactions\<close>

definition addTransaction ::
    "clock \<Rightarrow> string \<Rightarrow> tax_type \<Rightarrow> jsnum \<Rightarrow> jsnum \<Rightarrow> string \<Rightarrow> jsnum \<Rightarrow> string \<Rightarrow> string \<Rightarrow> string option \<Rightarrow> tax_state
     \<Rightarrow> TaxTransaction \<times> tax_state" where
  "addTransaction clk rnd ty amt fv fc fee h descr cat s =
     (let t = \<lparr>tt_id = ''tax_'' @ show_int (clk 0) @ ''_'' @ rnd, tt_type = ty, tt_amount = amt, fiatValue = fv,
               fiatCurrency = fc, tt_fee = fee, tt_timestamp = clk 1, txHash = h, description = descr, category = cat\<rparr>
      in (t, saveTransactions (s\<lparr>transactions := AList.update (tt_id t) t (transactions s)\<rparr>)))"

definition getTransaction :: "string \<Rightarrow> tax_state \<Rightarrow> TaxTransaction option" where
  "getTransaction i s = map_of (transactions s) i"

definition getAllTransactions :: "(tax_state, TaxTransaction list) eff" where
  "getAllTransactions = ebind loadTransactions (\<lambda>_ s. (Inr (sort_key tt_timestamp (map snd (transactions s))), s))"

text \<open>\<open>new Date(year, 0, 1)\<close> in local time at offset \<open>tz\<close>.\<close>

definition year_start :: "int \<Rightarrow> int \<Rightarrow> int" where
  "year_start tz y = MakeDay y 0 1 * msPerDay - tz"

definition getTransactionsByYear :: "int \<Rightarrow> int \<Rightarrow> (tax_state, TaxTransaction list) eff" where
  "getTransactionsByYear tz y =
     ebind getAllTransactions (\<lambda>ts. eret (filter (\<lambda>t. year_start tz y \<le> tt_timestamp t \<and> tt_timestamp t < year_start tz (y + 1)) ts))"

definition getTransactionsByType :: "tax_type \<Rightarrow> (tax_state, TaxTransaction list) eff" where
  "getTransactionsByType ty = ebind getAllTransactions (\<lambda>ts. eret (filter (\<lambda>t. tt_type t = ty) ts))"

record TaxUpdates =
  tu_id :: "string option"
  tu_type :: "tax_type option"
  tu_amount :: "jsnum option"
  tu_fiatValue :: "jsnum option"
  tu_fiatCurrency :: "string option"
  tu_fee :: "jsnum option"
  tu_timestamp :: "int option"
  tu_txHash :: "string option"
  tu_description :: "string option"
  tu_category :: "string option option"

definition assign_tax :: "TaxUpdates \<Rightarrow> TaxTransaction \<Rightarrow> TaxTransaction" where
  "assign_tax u t =
     \<lparr>tt_id = or_keep (tu_id u) (tt_id t), tt_type = or_keep (tu_type u) (tt_type t),
      tt_amount = or_keep (tu_amount u) (tt_amount t), fiatValue = or_keep (tu_fiatValue u) (fiatValue t),
      fiatCurrency = or_keep (tu_fiatCurrency u) (fiatCurrency t), tt_fee = or_keep (tu_fee u) (tt_fee t),
      tt_timestamp = or_keep (tu_timestamp u) (tt_timestamp t), txHash = or_keep (tu_txHash u) (txHash t),
      description = or_keep (tu_description u) (description t), category = or_keep (tu_category u) (category t)\<rparr>"

definition updateTransaction :: "string \<Rightarrow> TaxUpdates \<Rightarrow> tax_state \<Rightarrow> bool \<times> tax_state" where
  "updateTransaction i u s =
     (case map_of (transactions s) i of
        None \<Rightarrow> (False, s)
      | Some t \<Rightarrow> (True, saveTransactions (s\<lparr>transactions := AList.update i (assign_tax u t) (transactions s)\<rparr>)))"

definition deleteTransaction :: "string \<Rightarrow> tax_state \<Rightarrow> bool \<times> tax_state" where
  "deleteTransaction i s =
     (if map_of (transactions s) i = None then (False, s)
      else (True, saveTransactions (s\<lparr>transactions := AList.delete i (transactions s)\<rparr>)))"

definition clearAllData :: "tax_state \<Rightarrow> tax_state" where
  "clearAllData s =
     s\<lparr>transactions := [], hasLoaded := True, tax_item := (if canUseStorage s then Absent else tax_item s)\<rparr>"

section \<open>Matching disposals\<close>

definition is_acquisition :: "TaxTransaction \<Rightarrow> bool" where
  "is_acquisition t \<longleftrightarrow> tt_type t \<in> {Buy, Receive, Mining, Staking}"

definition is_disposal :: "TaxTransaction \<Rightarrow> bool" where
  "is_disposal t \<longleftrightarrow> tt_type t \<in> {Sell, Send}"

definition to_lot :: "tax_method \<Rightarrow> TaxTransaction \<Rightarrow> CostBasis" where
  "to_lot m t = \<lparr>cb_amount = tt_amount t, cb_costBasis = fiatValue t + tt_fee t, cb_acquisitionDate = tt_timestamp t, cb_method = m\<rparr>"

text \<open>The position of the lot with the highest cost, the first of several: the \<open>reduce\<close>.\<close>

fun highest :: "nat \<Rightarrow> CostBasis list \<Rightarrow> nat \<Rightarrow> CostBasis \<Rightarrow> nat" where
  "highest k [] b x = b"
| "highest k (y # ys) b x = (if cb_costBasis x < cb_costBasis y then highest (Suc k) ys k y else highest (Suc k) ys b x)"

definition match_index :: "tax_method \<Rightarrow> CostBasis list \<Rightarrow> nat" where
  "match_index m inv' =
     (case m of FIFO \<Rightarrow> 0 | LIFO \<Rightarrow> length inv' - 1 | HIFO \<Rightarrow> highest 1 (tl inv') 0 (hd inv') | SpecificID \<Rightarrow> 0)"

definition matchDisposal ::
    "int \<Rightarrow> string \<Rightarrow> TaxTransaction \<Rightarrow> tax_method \<Rightarrow> CostBasis list \<Rightarrow> CapitalGain option \<times> CostBasis list" where
  "matchDisposal now rnd t m inv' =
     (if inv' = [] then (None, inv')
      else
        let k = match_index m inv';
            x = inv' ! k;
            hp = (tt_timestamp t - cb_acquisitionDate x) div (24 * 60 * 60 * 1000)
        in (Some \<lparr>cg_id = ''gain_'' @ show_int now @ ''_'' @ rnd, saleDate = tt_timestamp t,
                  acquisitionDate = cb_acquisitionDate x, cg_amount = tt_amount t, costBasis = cb_costBasis x,
                  salePrice = fiatValue t - tt_fee t, gain = fiatValue t - tt_fee t - cb_costBasis x,
                  holdingPeriod = hp, isLongTerm = LONG_TERM_DAYS < hp\<rparr>,
            take k inv' @ drop (Suc k) inv'))"

text \<open>The k-th disposal reads the clock and the random source at \<open>k\<close>.\<close>

fun match_all ::
    "(nat \<Rightarrow> int) \<Rightarrow> (nat \<Rightarrow> string) \<Rightarrow> tax_method \<Rightarrow> nat \<Rightarrow> TaxTransaction list \<Rightarrow> CostBasis list \<Rightarrow> CapitalGain list" where
  "match_all clk rnd m k [] inv' = []"
| "match_all clk rnd m k (t # ts) inv' =
     (case matchDisposal (clk k) (rnd k) t m inv' of
        (None, inv2) \<Rightarrow> match_all clk rnd m (Suc k) ts inv2
      | (Some g, inv2) \<Rightarrow> g # match_all clk rnd m (Suc k) ts inv2)"

definition gains_of :: "(nat \<Rightarrow> int) \<Rightarrow> (nat \<Rightarrow> string) \<Rightarrow> tax_method \<Rightarrow> TaxTransaction list \<Rightarrow> CapitalGain list" where
  "gains_of clk rnd m ts = match_all clk rnd m 0 (filter is_disposal ts) (map (to_lot m) (filter is_acquisition ts))"

definition calculateCapitalGains ::
    "(nat \<Rightarrow> int) \<Rightarrow> (nat \<Rightarrow> string) \<Rightarrow> int \<Rightarrow> int \<Rightarrow> tax_method \<Rightarrow> (tax_state, CapitalGain list) eff" where
  "calculateCapitalGains clk rnd tz y m = ebind (getTransactionsByYear tz y) (\<lambda>ts. eret (gains_of clk rnd m ts))"

section \<open>Reports\<close>

definition report_of ::
    "int \<Rightarrow> string \<Rightarrow> tax_method \<Rightarrow> int \<Rightarrow> TaxTransaction list \<Rightarrow> CapitalGain list \<Rightarrow> TaxReport" where
  "report_of y jur m now ts gs =
     (let tg = sum_by gain (filter (\<lambda>g. 0 < gain g) gs);
          tl = \<bar>sum_by gain (filter (\<lambda>g. gain g < 0) gs)\<bar>
      in \<lparr>tr_year = y, jurisdiction = jur, tr_method = m,
          totalIncome = sum_by fiatValue (filter (\<lambda>t. tt_type t \<in> {Mining, Staking, Receive}) ts),
          totalGains = tg, totalLosses = tl, netGains = tg - tl,
          shortTermGains = sum_by gain (filter (\<lambda>g. \<not> isLongTerm g) gs),
          longTermGains = sum_by gain (filter isLongTerm gs),
          tr_transactions = ts, capitalGains = gs, generatedAt = now\<rparr>)"

definition generateReport ::
    "(nat \<Rightarrow> int) \<Rightarrow> (nat \<Rightarrow> string) \<Rightarrow> int \<Rightarrow> int \<Rightarrow> int \<Rightarrow> string \<Rightarrow> tax_method \<Rightarrow> (tax_state, TaxReport) eff" where
  "generateReport clk rnd now tz y jur m =
     ebind (getTransactionsByYear tz y) (\<lambda>ts.
     ebind (calculateCapitalGains clk rnd tz y m) (\<lambda>gs. eret (report_of y jur m now ts gs)))"

section \<open>Export\<close>

fun tax_type_name :: "tax_type \<Rightarrow> string" where
  "tax_type_name Buy = ''buy''"
| "tax_type_name Sell = ''sell''"
| "tax_type_name Send = ''send''"
| "tax_type_name Receive = ''receive''"
| "tax_type_name Mining = ''mining''"
| "tax_type_name Staking = ''staking''"

fun method_name :: "tax_method \<Rightarrow> string" where
  "method_name FIFO = ''FIFO''"
| "method_name LIFO = ''LIFO''"
| "method_name HIFO = ''HIFO''"
| "method_name SpecificID = ''Specific ID''"

definition iso_date :: "int \<Rightarrow> string" where
  "iso_date t = hd (split_on (CHR ''T'') (toISOString t))"

text \<open>\<open>num\<close> prints a number, \<open>date\<close> and \<open>stamp\<close> a date and a time in the host's format.\<close>

definition transaction_row :: "(jsnum \<Rightarrow> string) \<Rightarrow> TaxTransaction \<Rightarrow> string" where
  "transaction_row num t =
     iso_date (tt_timestamp t) @ '','' @ tax_type_name (tt_type t) @ '','' @ num (tt_amount t) @ '','' @ num (fiatValue t) @ '','' @
     num (tt_fee t) @ '',\"'' @ description t @ ''\"''"

definition gain_row :: "(jsnum \<Rightarrow> string) \<Rightarrow> CapitalGain \<Rightarrow> string" where
  "gain_row num g =
     iso_date (saleDate g) @ '','' @ iso_date (acquisitionDate g) @ '','' @ num (cg_amount g) @ '','' @ num (costBasis g) @ '','' @
     num (salePrice g) @ '','' @ num (gain g) @ '','' @ show_int (holdingPeriod g) @ '','' @
     (if isLongTerm g then ''Long-Term'' else ''Short-Term'')"

definition exportToCSV :: "(jsnum \<Rightarrow> string) \<Rightarrow> TaxReport \<Rightarrow> string" where
  "exportToCSV num r =
     join_with [CHR 10]
       ([''Tax Report - '' @ show_int (tr_year r), ''Method: '' @ method_name (tr_method r),
         ''Jurisdiction: '' @ jurisdiction r, '''', ''Summary'',
         ''Total Income,'' @ toFixed 2 (totalIncome r), ''Total Gains,'' @ toFixed 2 (totalGains r),
         ''Total Losses,'' @ toFixed 2 (totalLosses r), ''Net Gains,'' @ toFixed 2 (netGains r),
         ''Short-Term Gains,'' @ toFixed 2 (shortTermGains r), ''Long-Term Gains,'' @ toFixed 2 (longTermGains r), '''',
         ''Transactions'', ''Date,Type,Amount,Fiat Value,Fee,Description''] @
        map (transaction_row num) (tr_transactions r) @
        ['''', ''Capital Gains/Losses'',
         ''Sale Date,Acquisition Date,Amount,Cost Basis,Sale Price,Gain/Loss,Holding Period,Term''] @
        map (gain_row num) (capitalGains r))"

definition exportToPDF :: "(int \<Rightarrow> string) \<Rightarrow> TaxReport \<Rightarrow> string" where
  "exportToPDF stamp r =
     (let nl = [CHR 10]
      in ''TAX REPORT - '' @ show_int (tr_year r) @ nl @ nl @ ''Method: '' @ method_name (tr_method r) @ nl @
         ''Jurisdiction: '' @ jurisdiction r @ nl @ ''Generated: '' @ stamp (generatedAt r) @ nl @ nl @
         ''SUMMARY'' @ nl @ ''Total Income: $'' @ toFixed 2 (totalIncome r) @ nl @
         ''Total Gains: $'' @ toFixed 2 (totalGains r) @ nl @ ''Total Losses: $'' @ toFixed 2 (totalLosses r) @ nl @
         ''Net Gains: $'' @ toFixed 2 (netGains r) @ nl @ ''Short-Term Gains: $'' @ toFixed 2 (shortTermGains r) @ nl @
         ''Long-Term Gains: $'' @ toFixed 2 (longTermGains r) @ nl @ nl @
         ''TRANSACTIONS: '' @ show_nat (length (tr_transactions r)) @ nl @
         ''CAPITAL GAINS/LOSSES: '' @ show_nat (length (capitalGains r)) @ nl)"

definition exportForm8949 :: "(int \<Rightarrow> string) \<Rightarrow> (jsnum \<Rightarrow> string) \<Rightarrow> TaxReport \<Rightarrow> string" where
  "exportForm8949 date num r =
     join_with [CHR 10]
       ([''Form 8949 - Sales and Other Dispositions of Capital Assets'', ''Tax Year: '' @ show_int (tr_year r), '''',
         ''Description,Date Acquired,Date Sold,Proceeds,Cost Basis,Gain/Loss''] @
        map (\<lambda>g. ''\"'' @ num (cg_amount g) @ '' KC\",'' @ date (acquisitionDate g) @ '','' @ date (saleDate g) @ '','' @
          toFixed 2 (salePrice g) @ '','' @ toFixed 2 (costBasis g) @ '','' @ toFixed 2 (gain g)) (capitalGains r))"

section \<open>Each acquisition is used once, and the report adds up\<close>

lemma highest_less: "b < k \<Longrightarrow> highest k ys b x < k + length ys"
proof (induction ys arbitrary: k b x)
  case (Cons y ys)
  from Cons.IH [of k "Suc k" y] Cons.IH [of b "Suc k" x] Cons.prems show ?case by simp
qed simp

lemma match_index_less: "xs \<noteq> [] \<Longrightarrow> match_index m xs < length xs"
  using highest_less [of 0 1 "tl xs" "hd xs"] by (cases xs) (auto simp: match_index_def split: tax_method.splits)

text \<open>The lot that HIFO takes costs at least as much as any other.\<close>

lemma highest_max:
  assumes "\<And>i. i < length (pre @ ys) \<Longrightarrow> i < length pre \<Longrightarrow> cb_costBasis ((pre @ ys) ! i) \<le> cb_costBasis x"
    and "b < length pre" and "(pre @ ys) ! b = x"
  shows "\<forall>i < length (pre @ ys). cb_costBasis ((pre @ ys) ! i) \<le> cb_costBasis ((pre @ ys) ! highest (length pre) ys b x)"
  using assms
proof (induction ys arbitrary: pre b x)
  case Nil
  then show ?case by simp
next
  case (Cons y ys)
  have app: "pre @ y # ys = (pre @ [y]) @ ys" by simp
  show ?case
  proof (cases "cb_costBasis x < cb_costBasis y")
    case True
    have "\<forall>i < length ((pre @ [y]) @ ys). cb_costBasis (((pre @ [y]) @ ys) ! i) \<le>
        cb_costBasis (((pre @ [y]) @ ys) ! highest (length (pre @ [y])) ys (length pre) y)"
      using Cons.prems(1) True by (intro Cons.IH) (force simp: nth_append less_Suc_eq)+
    with True show ?thesis unfolding app by simp
  next
    case False
    have "\<forall>i < length ((pre @ [y]) @ ys). cb_costBasis (((pre @ [y]) @ ys) ! i) \<le>
        cb_costBasis (((pre @ [y]) @ ys) ! highest (length (pre @ [y])) ys b x)"
      using Cons.prems False by (intro Cons.IH) (force simp: nth_append less_Suc_eq)+
    with False show ?thesis unfolding app by simp
  qed
qed

lemma hifo_takes_highest:
  assumes "x \<in> set xs"
  shows "cb_costBasis x \<le> cb_costBasis (xs ! match_index HIFO xs)"
proof -
  obtain y ys where xs: "xs = y # ys" using assms by (cases xs) auto
  obtain i where "i < length xs" "x = xs ! i" using assms by (metis in_set_conv_nth)
  then show ?thesis using highest_max [of "[y]" ys y 0] xs by (simp add: match_index_def)
qed

definition lot_used :: "CapitalGain \<Rightarrow> int \<times> jsnum" where
  "lot_used g = (acquisitionDate g, costBasis g)"

definition lot_key :: "CostBasis \<Rightarrow> int \<times> jsnum" where
  "lot_key x = (cb_acquisitionDate x, cb_costBasis x)"

lemma matchDisposal_takes:
  assumes "xs \<noteq> []"
  obtains g rest x where "matchDisposal now rnd t m xs = (Some g, rest)" "lot_used g = lot_key x"
    "mset xs = add_mset x (mset rest)" "Suc (length rest) = length xs" "saleDate g = tt_timestamp t"
    "gain g = fiatValue t - tt_fee t - cb_costBasis x"
    "isLongTerm g \<longleftrightarrow> LONG_TERM_DAYS < (tt_timestamp t - cb_acquisitionDate x) div (24 * 60 * 60 * 1000)"
proof -
  let ?k = "match_index m xs"
  have k: "?k < length xs" by (rule match_index_less [OF assms])
  then have xs: "xs = take ?k xs @ xs ! ?k # drop (Suc ?k) xs" by (rule id_take_nth_drop)
  then have "mset xs = add_mset (xs ! ?k) (mset (take ?k xs @ drop (Suc ?k) xs))"
    by (metis mset_append mset.simps(2) union_mset_add_mset_right)
  moreover have "Suc (length (take ?k xs @ drop (Suc ?k) xs)) = length xs" using k by simp
  ultimately show thesis
    using assms by (intro that [of _ _ "xs ! ?k"]) (auto simp: matchDisposal_def Let_def lot_used_def lot_key_def)
qed

lemma match_all_spec:
  "length (match_all clk rnd m k ts xs) = min (length ts) (length xs) \<and>
   mset (map lot_used (match_all clk rnd m k ts xs)) \<subseteq># mset (map lot_key xs)"
proof (induction ts arbitrary: k xs)
  case Nil
  then show ?case by simp
next
  case (Cons t ts)
  show ?case
  proof (cases "xs = []")
    case True
    with Cons.IH [of "Suc k" "[]"] show ?thesis by (simp add: matchDisposal_def)
  next
    case False
    then obtain g rest x where g: "matchDisposal (clk k) (rnd k) t m xs = (Some g, rest)" "lot_used g = lot_key x"
      "mset xs = add_mset x (mset rest)" "Suc (length rest) = length xs"
      by (metis matchDisposal_takes)
    from g(3) have "mset (map lot_key xs) = add_mset (lot_key x) (mset (map lot_key rest))" by simp
    with Cons.IH [of "Suc k" rest] g show ?thesis by (auto simp: min_def split: if_splits)
  qed
qed

lemma match_all_dates:
  "g \<in> set (match_all clk rnd m k ts xs) \<Longrightarrow>
     \<exists>t \<in> set ts. \<exists>x \<in> set xs. isLongTerm g = (LONG_TERM_DAYS < (tt_timestamp t - cb_acquisitionDate x) div (24 * 60 * 60 * 1000))"
proof (induction ts arbitrary: k xs)
  case Nil
  then show ?case by simp
next
  case (Cons t ts)
  show ?case
  proof (cases "xs = []")
    case True
    with Cons show ?thesis by (fastforce simp: matchDisposal_def)
  next
    case False
    then obtain h rest x where h: "matchDisposal (clk k) (rnd k) t m xs = (Some h, rest)"
      "mset xs = add_mset x (mset rest)"
      "isLongTerm h \<longleftrightarrow> LONG_TERM_DAYS < (tt_timestamp t - cb_acquisitionDate x) div (24 * 60 * 60 * 1000)"
      by (metis matchDisposal_takes)
    from h(2) have sub: "x \<in> set xs" "set rest \<subseteq> set xs"
      by (metis set_mset_mset union_single_eq_member, metis set_mset_add_mset_insert set_mset_mset subset_insertI)
    from Cons.prems h(1) consider "g = h" | "g \<in> set (match_all clk rnd m (Suc k) ts rest)" by auto
    then show ?thesis
    proof cases
      case 1
      with h(3) sub(1) show ?thesis by auto
    next
      case 2
      from Cons.IH [OF this] sub(2) show ?thesis by (meson list.set_intros(2) subsetD)
    qed
  qed
qed

lemma load_again: "loadTransactions s = (Inr u, s1) \<Longrightarrow> loadTransactions s1 = (Inr (), s1)"
  by (auto simp: loadTransactions_def split: if_splits sum.splits)

lemma generateReport_Inr:
  assumes "generateReport clk rnd now tz y jur m s = (Inr r, s')"
  obtains ts where "r = report_of y jur m now ts (gains_of clk rnd m ts)"
    "\<And>t. t \<in> set ts \<Longrightarrow> year_start tz y \<le> tt_timestamp t \<and> tt_timestamp t < year_start tz (y + 1)"
proof -
  obtain u where u: "loadTransactions s = (Inr (), u)"
    using assms by (auto simp: generateReport_def getTransactionsByYear_def getAllTransactions_def eff_simps)
  let ?ts = "filter (\<lambda>t. year_start tz y \<le> tt_timestamp t \<and> tt_timestamp t < year_start tz (y + 1))
    (sort_key tt_timestamp (map snd (transactions u)))"
  have "r = report_of y jur m now ?ts (gains_of clk rnd m ?ts)"
    using assms u load_again [OF u]
    by (auto simp: generateReport_def calculateCapitalGains_def getTransactionsByYear_def getAllTransactions_def eff_simps)
  then show thesis by (rule that) auto
qed

text \<open>
  A tax report adds up. Gains less losses are the sum over all disposals and split into the
  short-term and the long-term part; as many disposals are reported as there are both disposals
  and acquisitions in the year, and no acquisition is used as a cost basis twice.
\<close>

theorem tax_report_adds_up:
  assumes "generateReport clk rnd now tz y jur m s = (Inr r, s')"
  shows "netGains r = sum_by gain (capitalGains r) \<and> netGains r = shortTermGains r + longTermGains r \<and>
    length (capitalGains r) =
      min (length (filter is_disposal (tr_transactions r))) (length (filter is_acquisition (tr_transactions r))) \<and>
    mset (map lot_used (capitalGains r)) \<subseteq># mset (map (\<lambda>t. lot_key (to_lot m t)) (filter is_acquisition (tr_transactions r)))"
proof -
  obtain ts where r: "r = report_of y jur m now ts (gains_of clk rnd m ts)" by (rule generateReport_Inr [OF assms])
  let ?gs = "gains_of clk rnd m ts"
  have neg: "sum_by gain (filter (\<lambda>g. gain g < 0) gs) \<le> 0" for gs by (induction gs) auto
  have net: "sum_by gain (filter (\<lambda>g. 0 < gain g) gs) + sum_by gain (filter (\<lambda>g. gain g < 0) gs) = sum_by gain gs" for gs
    by (induction gs) auto
  have "sum_by gain ?gs = sum_by gain (filter (\<lambda>g. \<not> isLongTerm g) ?gs) + sum_by gain (filter isLongTerm ?gs)"
    using sum_by_filter_split [of gain ?gs "\<lambda>g. \<not> isLongTerm g"] by simp
  moreover have "netGains r = sum_by gain ?gs"
    using net [of ?gs] neg [of ?gs] by (simp add: r report_of_def Let_def)
  ultimately show ?thesis
    using match_all_spec [of clk rnd m 0 "filter is_disposal ts" "map (to_lot m) (filter is_acquisition ts)"]
    by (simp add: r report_of_def Let_def gains_of_def comp_def)
qed

definition demo_tax :: "string \<Rightarrow> tax_type \<Rightarrow> int \<Rightarrow> jsnum \<Rightarrow> TaxTransaction" where
  "demo_tax i ty t v = \<lparr>tt_id = i, tt_type = ty, tt_amount = 1, fiatValue = v, fiatCurrency = ''USD'', tt_fee = 0,
     tt_timestamp = t, txHash = [], description = [], category = None\<rparr>"

definition demo_year :: tax_state where
  "demo_year = \<lparr>transactions = [(''a'', demo_tax ''a'' Buy 1000 5), (''b'', demo_tax ''b'' Sell 2000 7)],
     hasLoaded = True, canUseStorage = True, tax_item = Absent\<rparr>"

lemma demo_report: "\<exists>r s'. generateReport clk rnd now 0 1970 jur m demo_year = (Inr r, s')"
  by (simp add: generateReport_def calculateCapitalGains_def getTransactionsByYear_def getAllTransactions_def
      loadTransactions_def demo_year_def ebind_def eret_def)

theorem tax_report_adds_up_witness:
  "\<exists>r s'. generateReport (\<lambda>_. 0) (\<lambda>_. ''r'') 0 0 1970 ''US'' FIFO demo_year = (Inr r, s') \<and>
     netGains r = shortTermGains r + longTermGains r"
  using demo_report [of "\<lambda>_. 0" "\<lambda>_. ''r''" 0 "''US''" FIFO] tax_report_adds_up by blast

section \<open>No gain is ever long-term\<close>

lemma year_span: "year_start tz (y + 1) - year_start tz y \<le> 366 * msPerDay"
  using year_length [of y] by (simp add: year_start_def MakeDay_def month_start_def algebra_simps msPerDay_def)

text \<open>
  No report has a long-term gain. The cost basis is taken from acquisitions of the same year
  only, so the holding period never exceeds 365 days, whatever the method; coins acquired in
  earlier years are not even matched.
\<close>

theorem long_term_never:
  assumes "generateReport clk rnd now tz y jur m s = (Inr r, s')"
  shows "longTermGains r = 0 \<and> list_all (\<lambda>g. \<not> isLongTerm g) (capitalGains r)"
proof -
  obtain ts where r: "r = report_of y jur m now ts (gains_of clk rnd m ts)"
    and ts: "\<And>t. t \<in> set ts \<Longrightarrow> year_start tz y \<le> tt_timestamp t \<and> tt_timestamp t < year_start tz (y + 1)"
    using generateReport_Inr [OF assms] by blast
  have "\<not> isLongTerm g" if "g \<in> set (gains_of clk rnd m ts)" for g
  proof -
    from that have "g \<in> set (match_all clk rnd m 0 (filter is_disposal ts) (map (to_lot m) (filter is_acquisition ts)))"
      by (simp add: gains_of_def)
    from match_all_dates [OF this] obtain t x where t: "t \<in> set ts" and x: "x \<in> set (map (to_lot m) (filter is_acquisition ts))"
      and g: "isLongTerm g = (LONG_TERM_DAYS < (tt_timestamp t - cb_acquisitionDate x) div (24 * 60 * 60 * 1000))"
      by (meson filter_is_subset subsetD)
    from x obtain u where u: "u \<in> set ts" "cb_acquisitionDate x = tt_timestamp u" by (auto simp: to_lot_def)
    have "tt_timestamp t - tt_timestamp u < 366 * msPerDay"
      using ts [OF t] ts [OF u(1)] year_span [of tz y] by linarith
    then show ?thesis by (simp add: g u(2) LONG_TERM_DAYS_def msPerDay_def)
  qed
  then show ?thesis by (auto simp: r report_of_def Let_def list_all_iff filter_empty_conv)
qed

theorem long_term_never_witness:
  "\<exists>r s'. generateReport (\<lambda>_. 0) (\<lambda>_. ''r'') 0 0 1970 ''US'' LIFO demo_year = (Inr r, s') \<and> longTermGains r = 0"
  using demo_report [of "\<lambda>_. 0" "\<lambda>_. ''r''" 0 "''US''" LIFO] long_term_never by blast

text \<open>
  The lots are collected before any disposal is matched, and a lot is used up whole: a sale is
  matched with a purchase made after it, at the whole cost of that purchase.
\<close>

lemma later_purchase_matched:
  "gains_of clk rnd m [demo_tax ''s'' Sell 1000 7, (demo_tax ''b'' Buy 90000000 500)\<lparr>tt_amount := 100\<rparr>] =
   [\<lparr>cg_id = ''gain_'' @ show_int (clk 0) @ ''_'' @ rnd 0, saleDate = 1000, acquisitionDate = 90000000, cg_amount = 1,
     costBasis = 500, salePrice = 7, gain = - 493, holdingPeriod = - 2, isLongTerm = False\<rparr>]"
  by (cases m) (simp_all add: gains_of_def demo_tax_def is_disposal_def is_acquisition_def to_lot_def matchDisposal_def
      match_index_def Let_def LONG_TERM_DAYS_def)

end
