(* ===== verification/TaxExport.thy ===== *)
theory TaxExport
  imports TaxCalculator
begin

text \<open>
  The exports of a tax year (services/taxExport.ts): TurboTax, CoinTracker and CSV. Dates in the
  locale and in ISO format and numbers that are not formatted print with functions that are
  arguments; the printable page is left out.
\<close>

record printers =
  show_date :: "int \<Rightarrow> string"
  show_iso :: "int \<Rightarrow> string"
  show_num :: "jsnum \<Rightarrow> string"

definition nl :: string where
  "nl = [CHR 0x0A]"

datatype tax_format = Turbotax | Cointracker | Csv

fun type_name :: "tax_type \<Rightarrow> string" where
  "type_name BuyTx = ''buy''"
| "type_name SellTx = ''sell''"
| "type_name Mining = ''mining''"
| "type_name Staking = ''staking''"
| "type_name Airdrop = ''airdrop''"
| "type_name Interest = ''interest''"

text \<open>An absent number in a template prints as \<open>undefined\<close>; \<open>undefined > 365\<close> is false.\<close>

definition show_opt :: "printers \<Rightarrow> jsnum option \<Rightarrow> string" where
  "show_opt pr x = (case x of None \<Rightarrow> ''undefined'' | Some v \<Rightarrow> show_num pr v)"

definition long_term :: "jsnum option \<Rightarrow> bool" where
  "long_term h = (case h of None \<Rightarrow> False | Some d \<Rightarrow> d > 365)"

definition txf_record :: "printers \<Rightarrow> TaxTransaction \<Rightarrow> string list" where
  "txf_record pr tx =
     [if long_term (tt_holdingPeriod tx) then ''D'' else ''TD'', ''N321'', ''C1'', ''LKubercoin ('' @ show_num pr (tt_amount tx) @ '' KC)'',
      ''D'' @ show_date pr (tt_date tx), ''D'' @ show_date pr (tt_date tx), ''$'' @ show_opt pr (tt_proceeds tx),
      ''$'' @ show_opt pr (tt_costBasis tx), ''^'']"

definition exportToTurboTax :: "printers \<Rightarrow> int \<Rightarrow> TaxYear \<Rightarrow> string" where
  "exportToTurboTax pr now y =
     concat (map (\<lambda>l. l @ nl)
       ([''V042'', ''AKubercoin Tax Export'', ''D'' @ show_date pr now, ''^''] @
        concat (map (txf_record pr) (filter (\<lambda>tx. tt_type tx = SellTx) (ty_transactions y)))))"

definition cointracker_headers :: "string list" where
  "cointracker_headers =
     [''Date'', ''Received Quantity'', ''Received Currency'', ''Sent Quantity'', ''Sent Currency'', ''Fee Amount'', ''Fee Currency'', ''Tag'']"

definition cointracker_row :: "printers \<Rightarrow> TaxTransaction \<Rightarrow> string list" where
  "cointracker_row pr tx =
     (if tt_type tx = BuyTx
      then [show_iso pr (tt_date tx), show_num pr (tt_amount tx), ''KC'', show_num pr (tt_amount tx * tt_price tx), ''USD'', ''0'', ''USD'', ''buy'']
      else if tt_type tx = SellTx
      then [show_iso pr (tt_date tx), show_num pr (tt_amount tx * tt_price tx), ''USD'', show_num pr (tt_amount tx), ''KC'', ''0'', ''USD'', ''sell'']
      else [show_iso pr (tt_date tx), show_num pr (tt_amount tx), ''KC'', ''0'', ''USD'', ''0'', ''USD'', type_name (tt_type tx)])"

definition to_csv :: "string list \<Rightarrow> string list list \<Rightarrow> string" where
  "to_csv headers rows = join_with nl (join_with '','' headers # map (join_with '','') rows)"

definition exportToCoinTracker :: "printers \<Rightarrow> TaxYear \<Rightarrow> string" where
  "exportToCoinTracker pr y = to_csv cointracker_headers (map (cointracker_row pr) (ty_transactions y))"

definition csv_headers :: "string list" where
  "csv_headers =
     [''Date'', ''Type'', ''Amount (KC)'', ''Price (USD)'', ''Cost Basis (USD)'', ''Proceeds (USD)'', ''Gain/Loss (USD)'',
      ''Holding Period (days)'', ''Term'']"

definition fixed_or_empty :: "jsnum option \<Rightarrow> string" where
  "fixed_or_empty x = (case x of None \<Rightarrow> [] | Some v \<Rightarrow> toFixed 2 v)"

definition tax_csv_row :: "printers \<Rightarrow> TaxTransaction \<Rightarrow> string list" where
  "tax_csv_row pr tx =
     [show_date pr (tt_date tx), type_name (tt_type tx), toFixed 4 (tt_amount tx), toFixed 2 (tt_price tx), fixed_or_empty (tt_costBasis tx),
      fixed_or_empty (tt_proceeds tx), fixed_or_empty (tt_gainLoss tx),
      (if truthy_num (tt_holdingPeriod tx) then show_opt pr (tt_holdingPeriod tx) else []),
      (if truthy_num (tt_holdingPeriod tx) \<and> long_term (tt_holdingPeriod tx) then ''Long'' else ''Short'')]"

definition exportToCSV :: "printers \<Rightarrow> TaxYear \<Rightarrow> string" where
  "exportToCSV pr y = to_csv csv_headers (map (tax_csv_row pr) (ty_transactions y))"

definition exportTaxData :: "printers \<Rightarrow> int \<Rightarrow> TaxYear \<Rightarrow> tax_format \<Rightarrow> string" where
  "exportTaxData pr now y fmt =
     (case fmt of Turbotax \<Rightarrow> exportToTurboTax pr now y | Cointracker \<Rightarrow> exportToCoinTracker pr y | Csv \<Rightarrow> exportToCSV pr y)"

section \<open>The tables can be read back\<close>

text \<open>A reader of the tables: lines, then cells.\<close>

definition of_csv :: "string \<Rightarrow> string list list" where
  "of_csv t = map (split_on (CHR '','')) (split_on (CHR 0x0A) t)"

definition safe_cell :: "string \<Rightarrow> bool" where
  "safe_cell c \<longleftrightarrow> CHR '','' \<notin> set c \<and> CHR 0x0A \<notin> set c"

lemma join_no_char: "(\<And>c. c \<in> set cs \<Longrightarrow> x \<notin> set c) \<Longrightarrow> x \<notin> set d \<Longrightarrow> x \<notin> set (join_with d cs)"
  by (induction d cs rule: join_with.induct) auto

lemma of_to_csv:
  assumes "\<And>r. r \<in> set (h # rows) \<Longrightarrow> r \<noteq> [] \<and> (\<forall>c \<in> set r. safe_cell c)"
  shows "of_csv (to_csv h rows) = h # rows"
proof -
  let ?ls = "map (join_with '','') (h # rows)"
  have "CHR 0x0A \<notin> set l" if l: "l \<in> set ?ls" for l
  proof -
    obtain r where r: "r \<in> set (h # rows)" "l = join_with '','' r" using l unfolding set_map by blast
    show ?thesis unfolding r(2) by (rule join_no_char) (use assms [OF r(1)] in \<open>auto simp: safe_cell_def\<close>)
  qed
  then have "split_on (CHR 0x0A) (join_with [CHR 0x0A] ?ls) = ?ls" by (intro split_on_join) auto
  then have "of_csv (to_csv h rows) = map (split_on (CHR '','')) ?ls" by (simp add: of_csv_def to_csv_def nl_def)
  also have "\<dots> = map (\<lambda>r. split_on (CHR '','') (join_with '','' r)) (h # rows)" by simp
  also have "\<dots> = map (\<lambda>r. r) (h # rows)"
    by (rule map_cong) (use assms in \<open>auto intro!: split_on_join simp: safe_cell_def\<close>)
  finally show ?thesis by simp
qed

text \<open>
  Both tables give back their rows, one for each transaction in order, when dates and numbers print
  without commas and line breaks (the names of the types and the other cells do).
\<close>

definition plain_printers :: "printers \<Rightarrow> bool" where
  "plain_printers pr \<longleftrightarrow> (\<forall>t. safe_cell (show_date pr t) \<and> safe_cell (show_iso pr t)) \<and> (\<forall>x. safe_cell (show_num pr x))"

lemma safe_digits: "list_all is_digit s \<Longrightarrow> safe_cell s"
  by (auto simp: safe_cell_def list_all_iff is_digit_def)

lemma safe_append [simp]: "safe_cell (a @ b) \<longleftrightarrow> safe_cell a \<and> safe_cell b"
  by (auto simp: safe_cell_def)

lemma safe_take_drop: "safe_cell s \<Longrightarrow> safe_cell (take k s) \<and> safe_cell (drop k s)"
  by (auto simp: safe_cell_def dest: in_set_takeD in_set_dropD)

lemma safe_toFixed: "safe_cell (toFixed k x)"
proof -
  have z: "list_all is_digit (replicate n (CHR ''0''))" for n by (simp add: list_all_iff is_digit_def)
  have "safe_cell (padStart m (CHR ''0'') (show_nat n))" for m n
    unfolding padStart_def using z show_nat_digits [of n] by (intro safe_digits) simp
  then have "safe_cell (toFixed_nonneg k y)" for y
    using safe_take_drop by (auto simp: toFixed_nonneg_def Let_def) (auto simp: safe_cell_def)
  then show ?thesis by (auto simp: toFixed_def) (auto simp: safe_cell_def)
qed

lemma type_name_safe: "safe_cell (type_name t)"
  by (cases t) (auto simp: safe_cell_def)

text \<open>
  The exported tables can be read back: when dates and numbers print without commas and line
  breaks, splitting the text at line breaks and commas gives back the headers and one row for each
  transaction of the year, in order.
\<close>

theorem tax_tables_read_back:
  assumes "plain_printers pr"
  shows "of_csv (exportToCSV pr y) = csv_headers # map (tax_csv_row pr) (ty_transactions y) \<and>
    of_csv (exportToCoinTracker pr y) = cointracker_headers # map (cointracker_row pr) (ty_transactions y)"
proof -
  have p: "safe_cell (show_date pr t)" "safe_cell (show_iso pr t)" "safe_cell (show_num pr x)" for t x
    using assms by (simp_all add: plain_printers_def)
  have h: "\<forall>c \<in> set csv_headers. safe_cell c" "\<forall>c \<in> set cointracker_headers. safe_cell c"
    by (simp_all add: csv_headers_def cointracker_headers_def safe_cell_def)
  have c: "\<forall>c \<in> set (tax_csv_row pr tx). safe_cell c" for tx
    using p safe_toFixed type_name_safe
    by (auto simp: tax_csv_row_def fixed_or_empty_def show_opt_def split: option.split) (simp_all add: safe_cell_def)
  have k: "\<forall>c \<in> set (cointracker_row pr tx). safe_cell c" for tx
    using p type_name_safe by (auto simp: cointracker_row_def) (simp_all add: safe_cell_def)
  have n: "csv_headers \<noteq> []" "cointracker_headers \<noteq> []" "tax_csv_row pr tx \<noteq> []" "cointracker_row pr tx \<noteq> []" for tx
    by (simp_all add: csv_headers_def cointracker_headers_def tax_csv_row_def cointracker_row_def)
  show ?thesis
    unfolding exportToCSV_def exportToCoinTracker_def using h c k n by (intro conjI of_to_csv) (auto, metis, metis)
qed

definition demo_printers :: printers where
  "demo_printers = \<lparr>show_date = (\<lambda>_. ''d''), show_iso = (\<lambda>_. ''i''), show_num = (\<lambda>_. ''n'')\<rparr>"

theorem tax_tables_read_back_witness:
  "of_csv (exportToCSV demo_printers (calculateTaxYear 2024 FIFO ''UK'')) = [csv_headers]"
proof -
  have "plain_printers demo_printers" by (simp add: plain_printers_def demo_printers_def safe_cell_def)
  moreover have "ty_transactions (calculateTaxYear 2024 FIFO ''UK'') = []"
    by (simp add: calculateTaxYear_def loadTransactions_def tax_year_of_def calculateCapitalGains_def Let_def)
  ultimately show ?thesis using tax_tables_read_back [of demo_printers "calculateTaxYear 2024 FIFO ''UK''"] by simp
qed

text \<open>
  A sale is exported with its date twice, as the date of acquisition and of sale, and a sale without
  a holding period counts as short term in the record but prints its missing cost as \<open>undefined\<close>.
\<close>

lemma sale_date_twice: "txf_record pr tx ! 4 = txf_record pr tx ! 5"
  by (simp add: txf_record_def)

end
