(* ===== verification/Planning.thy ===== *)
theory Planning
  imports JsStore Calendar
begin

text \<open>
  Payments planned ahead: batches of payments (services/batcher.ts), scheduled and recurring
  payments (services/scheduler.ts), budgets (services/budgetManager.ts). Each keeps a \<open>Map\<close> by
  identifier and writes it through to storage.
\<close>

section \<open>Reading numbers\<close>

text \<open>
  \<open>parseFloat\<close>: the longest prefix, after white space, that is a decimal literal; \<open>None\<close> is NaN.
  The literal 'Infinity' is not modelled.
\<close>

definition digits_value :: "string \<Rightarrow> jsnum" where
  "digits_value ds = of_nat (read_nat ds)"

definition parse_exponent :: "string \<Rightarrow> int" where
  "parse_exponent s =
     (case s of
        c # cs \<Rightarrow>
          if c = CHR ''e'' \<or> c = CHR ''E'' then
            let (neg, ds) = (case cs of d # ds \<Rightarrow> if d = CHR ''-'' then (True, ds) else if d = CHR ''+'' then (False, ds) else (False, cs)
                             | [] \<Rightarrow> (False, []));
                n = int (read_nat (takeWhile is_digit ds))
            in if neg then - n else n
          else 0
      | [] \<Rightarrow> 0)"

definition parse_unsigned :: "string \<Rightarrow> jsnum option" where
  "parse_unsigned s =
     (let whole = takeWhile is_digit s;
          rest = dropWhile is_digit s;
          frac = (case rest of c # cs \<Rightarrow> if c = CHR ''.'' then takeWhile is_digit cs else [] | [] \<Rightarrow> []);
          after = (case rest of c # cs \<Rightarrow> if c = CHR ''.'' then dropWhile is_digit cs else rest | [] \<Rightarrow> [])
      in if whole = [] \<and> frac = [] then None
         else Some ((digits_value whole + digits_value frac / 10 ^ length frac) * 10 powi parse_exponent after))"

definition parseFloat :: "string \<Rightarrow> jsnum option" where
  "parseFloat s =
     (case dropWhile is_space s of
        [] \<Rightarrow> None
      | c # cs \<Rightarrow>
          if c = CHR ''-'' then map_option uminus (parse_unsigned cs)
          else if c = CHR ''+'' then parse_unsigned cs
          else parse_unsigned (c # cs))"

section \<open>Batches\<close>

record BatchRecipient =
  br_id :: string
  br_address :: string
  br_amount :: jsnum
  br_label :: "string option"

record RecipientData =
  rd_address :: string
  rd_amount :: jsnum
  rd_label :: "string option"

record Batch =
  b_id :: string
  b_name :: string
  b_recipients :: "BatchRecipient list"
  b_totalAmount :: jsnum
  b_estimatedFee :: jsnum
  b_createdAt :: int
  b_executed :: bool
  b_executedAt :: "int option"
  b_txid :: "string option"

record batch_state =
  batches :: "(string, Batch) jsmap"
  batches_item :: "Batch list item"

definition loadBatches :: "Batch list item \<Rightarrow> js_error + batch_state" where
  "loadBatches i =
     map_sum id (\<lambda>bs. \<lparr>batches = load_values b_id bs, batches_item = i\<rparr>) (parse_item [] i)"

definition saveBatches :: "batch_state \<Rightarrow> batch_state" where
  "saveBatches s = s\<lparr>batches_item := Json (map snd (batches s))\<rparr>"

definition createBatch :: "clock \<Rightarrow> string \<Rightarrow> string \<Rightarrow> RecipientData list \<Rightarrow> batch_state \<Rightarrow> Batch \<times> batch_state" where
  "createBatch clk rnd name rs s =
     (let b = \<lparr>b_id = ''batch_'' @ show_int (clk 0) @ ''_'' @ rnd, b_name = name,
            b_recipients = map (\<lambda>(i, r). \<lparr>br_id = ''recipient_'' @ show_nat i @ ''_'' @ show_int (clk (Suc i)),
                br_address = rd_address r, br_amount = rd_amount r, br_label = rd_label r\<rparr>) (enumerate 0 rs),
            b_totalAmount = sum_by rd_amount rs, b_estimatedFee = of_nat (length rs) * (1 / 10000),
            b_createdAt = clk (Suc (length rs)), b_executed = False, b_executedAt = None, b_txid = None\<rparr>
      in (b, saveBatches (s\<lparr>batches := AList.update (b_id b) b (batches s)\<rparr>)))"

definition getBatches :: "batch_state \<Rightarrow> Batch list" where
  "getBatches s = sort_desc b_createdAt (map snd (batches s))"

definition getBatch :: "string \<Rightarrow> batch_state \<Rightarrow> Batch option" where
  "getBatch i s = map_of (batches s) i"

definition executeBatch :: "string \<Rightarrow> (batch_state, unit) eff" where
  "executeBatch i s =
     (case map_of (batches s) i of
        None \<Rightarrow> (Inl (Error ''Batch not found''), s)
      | Some b \<Rightarrow>
          if b_executed b then (Inl (Error ''Batch already executed''), s)
          else (Inl (Error (''Batch execution is not yet integrated with the blockchain node. '' @
                  ''Submit each transaction individually via the Send page.'')), s))"

definition deleteBatch :: "string \<Rightarrow> batch_state \<Rightarrow> batch_state" where
  "deleteBatch i s = saveBatches (s\<lparr>batches := AList.delete i (batches s)\<rparr>)"

text \<open>A line of an imported file; the amount is \<open>None\<close> where \<open>parseFloat\<close> gives NaN.\<close>

record CsvRecipient =
  cv_address :: string
  cv_amount :: "jsnum option"
  cv_label :: "string option"

definition import_recipient :: "string \<Rightarrow> CsvRecipient option" where
  "import_recipient line =
     (case map trim (split_on (CHR '','') line) of
        a # x # rest \<Rightarrow>
          if a \<noteq> [] \<and> x \<noteq> []
          then Some \<lparr>cv_address = a, cv_amount = parseFloat x,
                 cv_label = (case rest of l # _ \<Rightarrow> if l \<noteq> [] then Some l else None | [] \<Rightarrow> None)\<rparr>
          else None
      | _ \<Rightarrow> None)"

definition importCSV :: "string \<Rightarrow> CsvRecipient list" where
  "importCSV csv =
     List.map_filter import_recipient (drop 1 (filter (\<lambda>l. trim l \<noteq> []) (split_on (CHR 0x0A) csv)))"

section \<open>Scheduled payments\<close>

datatype frequency = Daily | Weekly | Monthly

record ScheduledTransaction =
  sc_id :: string
  sc_to :: string
  sc_amount :: jsnum
  sc_fee :: jsnum
  sc_label :: "string option"
  scheduledDate :: int
  recurring :: bool
  sc_frequency :: "frequency option"
  nextExecution :: "int option"
  sc_executed :: bool
  sc_executedAt :: "int option"
  sc_txid :: "string option"
  sc_createdAt :: int

record sched_state =
  scheduled :: "(string, ScheduledTransaction) jsmap"
  scheduled_item :: "ScheduledTransaction list item"

definition loadScheduled :: "ScheduledTransaction list item \<Rightarrow> js_error + sched_state" where
  "loadScheduled i =
     map_sum id (\<lambda>ts. \<lparr>scheduled = load_values sc_id ts, scheduled_item = i\<rparr>) (parse_item [] i)"

definition saveScheduled :: "sched_state \<Rightarrow> sched_state" where
  "saveScheduled s = s\<lparr>scheduled_item := Json (map snd (scheduled s))\<rparr>"

definition calculateNextExecution :: "int \<Rightarrow> int \<Rightarrow> frequency \<Rightarrow> int" where
  "calculateNextExecution tz current f =
     (case f of
        Daily \<Rightarrow> setDate tz current (getDate tz current + 1)
      | Weekly \<Rightarrow> setDate tz current (getDate tz current + 7)
      | Monthly \<Rightarrow> setMonth tz current (getMonth tz current + 1))"

definition scheduleTransaction ::
    "int \<Rightarrow> clock \<Rightarrow> string \<Rightarrow> string \<Rightarrow> jsnum \<Rightarrow> jsnum \<Rightarrow> int \<Rightarrow> string option \<Rightarrow> frequency option
     \<Rightarrow> sched_state \<Rightarrow> ScheduledTransaction \<times> sched_state" where
  "scheduleTransaction tz clk rnd dest amt fee date lbl rec s =
     (let tx = \<lparr>sc_id = ''sched_'' @ show_int (clk 0) @ ''_'' @ rnd, sc_to = dest, sc_amount = amt, sc_fee = fee,
            sc_label = lbl, scheduledDate = date, recurring = (rec \<noteq> None), sc_frequency = rec,
            nextExecution = map_option (calculateNextExecution tz date) rec, sc_executed = False, sc_executedAt = None,
            sc_txid = None, sc_createdAt = clk 1\<rparr>
      in (tx, saveScheduled (s\<lparr>scheduled := AList.update (sc_id tx) tx (scheduled s)\<rparr>)))"

definition getScheduledTransactions :: "sched_state \<Rightarrow> ScheduledTransaction list" where
  "getScheduledTransactions s = sort_key scheduledDate (map snd (scheduled s))"

text \<open>
  The object is changed in place, then a recurring payment schedules its successor. \<open>rnd\<close> is the
  random text of the transaction identifier, \<open>rnd'\<close> that of the successor's identifier.
\<close>

definition executeTransaction ::
    "int \<Rightarrow> clock \<Rightarrow> string \<Rightarrow> string \<Rightarrow> string \<Rightarrow> (sched_state, unit) eff" where
  "executeTransaction tz clk rnd rnd' i s =
     (case map_of (scheduled s) i of
        None \<Rightarrow> (Inl (Error ''Scheduled transaction not found''), s)
      | Some tx \<Rightarrow>
          let tx' = tx\<lparr>sc_executed := True, sc_executedAt := Some (clk 0), sc_txid := Some (''tx'' @ rnd)\<rparr>;
              s1 = s\<lparr>scheduled := AList.update i tx' (scheduled s)\<rparr>;
              s2 = (if recurring tx' \<and> sc_frequency tx' \<noteq> None \<and> nextExecution tx' \<noteq> None \<and> nextExecution tx' \<noteq> Some 0
                    then snd (scheduleTransaction tz (\<lambda>k. clk (Suc k)) rnd' (sc_to tx') (sc_amount tx') (sc_fee tx')
                           (the (nextExecution tx')) (sc_label tx') (sc_frequency tx') s1)
                    else s1)
          in (Inr (), saveScheduled s2))"

definition cancelScheduled :: "string \<Rightarrow> sched_state \<Rightarrow> sched_state" where
  "cancelScheduled i s = saveScheduled (s\<lparr>scheduled := AList.delete i (scheduled s)\<rparr>)"

section \<open>Budgets\<close>

record Budget =
  bg_id :: string
  bg_name :: string
  bg_category :: string
  bg_limit :: jsnum
  bg_period :: frequency
  spent :: jsnum
  startDate :: int
  endDate :: int
  alertThreshold :: jsnum

record budget_state =
  budgets :: "(string, Budget) jsmap"
  budgets_item :: "Budget list item"

definition loadBudgets :: "Budget list item \<Rightarrow> js_error + budget_state" where
  "loadBudgets i =
     map_sum id (\<lambda>bs. \<lparr>budgets = load_values bg_id bs, budgets_item = i\<rparr>) (parse_item [] i)"

definition saveBudgets :: "budget_state \<Rightarrow> budget_state" where
  "saveBudgets s = s\<lparr>budgets_item := Json (map snd (budgets s))\<rparr>"

definition calculateEndDate :: "int \<Rightarrow> int \<Rightarrow> frequency \<Rightarrow> int" where
  "calculateEndDate tz start p =
     (case p of
        Daily \<Rightarrow> setDate tz start (getDate tz start + 1)
      | Weekly \<Rightarrow> setDate tz start (getDate tz start + 7)
      | Monthly \<Rightarrow> setMonth tz start (getMonth tz start + 1))"

definition createBudget ::
    "int \<Rightarrow> clock \<Rightarrow> string \<Rightarrow> string \<Rightarrow> string \<Rightarrow> jsnum \<Rightarrow> frequency \<Rightarrow> jsnum \<Rightarrow> budget_state \<Rightarrow> Budget \<times> budget_state" where
  "createBudget tz clk rnd name cat lmt p alert s =
     (let b = \<lparr>bg_id = ''budget_'' @ show_int (clk 1) @ ''_'' @ rnd, bg_name = name, bg_category = cat, bg_limit = lmt,
            bg_period = p, spent = 0, startDate = clk 0, endDate = calculateEndDate tz (clk 0) p, alertThreshold = alert\<rparr>
      in (b, saveBudgets (s\<lparr>budgets := AList.update (bg_id b) b (budgets s)\<rparr>)))"

definition getBudgets :: "budget_state \<Rightarrow> Budget list" where
  "getBudgets s = map snd (budgets s)"

text \<open>The warning past the alert threshold only goes to the console.\<close>

definition addSpending :: "string \<Rightarrow> jsnum \<Rightarrow> (budget_state, unit) eff" where
  "addSpending i amt s =
     (case map_of (budgets s) i of
        None \<Rightarrow> (Inl (Error ''Budget not found''), s)
      | Some b \<Rightarrow> (Inr (), saveBudgets (s\<lparr>budgets := AList.update i (b\<lparr>spent := spent b + amt\<rparr>) (budgets s)\<rparr>)))"

definition deleteBudget :: "string \<Rightarrow> budget_state \<Rightarrow> budget_state" where
  "deleteBudget i s = saveBudgets (s\<lparr>budgets := AList.delete i (budgets s)\<rparr>)"

definition resetBudget :: "int \<Rightarrow> clock \<Rightarrow> string \<Rightarrow> (budget_state, unit) eff" where
  "resetBudget tz clk i s =
     (case map_of (budgets s) i of
        None \<Rightarrow> (Inl (Error ''Budget not found''), s)
      | Some b \<Rightarrow> (Inr (), saveBudgets (s\<lparr>budgets := AList.update i
          (b\<lparr>spent := 0, startDate := clk 0, endDate := calculateEndDate tz (clk 0) (bg_period b)\<rparr>) (budgets s)\<rparr>)))"

section \<open>All three write through\<close>

datatype batch_op = CreateBatch clock string string "RecipientData list" | ExecuteBatch string | DeleteBatch string

fun batch_step :: "batch_op \<Rightarrow> batch_state \<Rightarrow> batch_state" where
  "batch_step (CreateBatch clk rnd n rs) s = snd (createBatch clk rnd n rs s)"
| "batch_step (ExecuteBatch i) s = snd (executeBatch i s)"
| "batch_step (DeleteBatch i) s = deleteBatch i s"

definition batch_inv :: "batch_state \<Rightarrow> bool" where
  "batch_inv s \<longleftrightarrow> keyed b_id (batches s) \<and> in_sync (batches s) (batches_item s) \<and>
     all_values (\<lambda>b. b_totalAmount b = sum_by br_amount (b_recipients b)) (batches s)"

definition batch_reload :: "batch_state \<Rightarrow> batch_state" where
  "batch_reload s = (case loadBatches (batches_item s) of Inl e \<Rightarrow> s | Inr t \<Rightarrow> t)"

lemma sum_enumerated: "sum_by (\<lambda>x. f (snd x)) (enumerate k rs) = sum_by f rs"
  by (induction rs arbitrary: k) simp_all

interpretation batch: write_through batch_step batch_reload batch_inv
proof unfold_locales
  fix s op
  show "batch_inv s \<Longrightarrow> batch_inv (batch_step op s)"
  proof (cases op)
    case (CreateBatch clk rnd n rs)
    then show "batch_inv s \<Longrightarrow> batch_inv (batch_step op s)"
      using sum_enumerated [of rd_amount 0 rs]
      by (auto simp: batch_inv_def createBatch_def saveBatches_def Let_def case_prod_beta intro!: keyed_set all_values_set)
  qed (auto simp: batch_inv_def executeBatch_def deleteBatch_def saveBatches_def split: option.splits)
  show "batch_inv s \<Longrightarrow> batch_reload s = s"
    using in_sync_parse [of "batches s" "batches_item s" b_id] by (auto simp: batch_inv_def batch_reload_def loadBatches_def)
qed

datatype sched_op =
    Schedule int clock string string jsnum jsnum int "string option" "frequency option"
  | Execute int clock string string string
  | Cancel string

fun sched_step :: "sched_op \<Rightarrow> sched_state \<Rightarrow> sched_state" where
  "sched_step (Schedule tz clk rnd d a f dt l r) s = snd (scheduleTransaction tz clk rnd d a f dt l r s)"
| "sched_step (Execute tz clk rnd rnd' i) s = snd (executeTransaction tz clk rnd rnd' i s)"
| "sched_step (Cancel i) s = cancelScheduled i s"

text \<open>
  Every payment has an outcome exactly when it is executed, and a recurring one knows its frequency
  and when it is due again.
\<close>

definition sched_ok :: "ScheduledTransaction \<Rightarrow> bool" where
  "sched_ok t \<longleftrightarrow> (sc_executed t \<longleftrightarrow> sc_txid t \<noteq> None) \<and> (sc_executed t \<longleftrightarrow> sc_executedAt t \<noteq> None) \<and>
     (recurring t \<longleftrightarrow> sc_frequency t \<noteq> None) \<and>
     (case nextExecution t of None \<Rightarrow> \<not> recurring t | Some n \<Rightarrow> recurring t \<and> scheduledDate t < n)"

definition sched_inv :: "sched_state \<Rightarrow> bool" where
  "sched_inv s \<longleftrightarrow> keyed sc_id (scheduled s) \<and> in_sync (scheduled s) (scheduled_item s) \<and> all_values sched_ok (scheduled s)"

definition sched_reload :: "sched_state \<Rightarrow> sched_state" where
  "sched_reload s = (case loadScheduled (scheduled_item s) of Inl e \<Rightarrow> s | Inr t \<Rightarrow> t)"

lemma next_later: "current < calculateNextExecution tz current f"
  using setMonth_bounds [of current tz]
  by (cases f) (simp_all add: calculateNextExecution_def setDate_add msPerDay_def)

lemma schedule_wf:
  "keyed sc_id (scheduled s) \<Longrightarrow> all_values sched_ok (scheduled s) \<Longrightarrow>
     sched_inv (snd (scheduleTransaction tz clk rnd d a f dt l r s))"
  by (cases r) (auto simp: scheduleTransaction_def saveScheduled_def sched_inv_def sched_ok_def next_later Let_def
      intro!: keyed_set all_values_set)

lemma execute_wf:
  assumes "sched_inv s"
  shows "sched_inv (snd (executeTransaction tz clk rnd rnd' i s))"
proof (cases "map_of (scheduled s) i")
  case (Some tx)
  let ?tx = "tx\<lparr>sc_executed := True, sc_executedAt := Some (clk 0), sc_txid := Some (''tx'' @ rnd)\<rparr>"
  let ?s = "s\<lparr>scheduled := AList.update i ?tx (scheduled s)\<rparr>"
  have "sched_ok tx" "sc_id tx = i"
    using assms Some by (auto simp: sched_inv_def dest: all_values_get keyed_get)
  then have s: "keyed sc_id (scheduled ?s)" "all_values sched_ok (scheduled ?s)"
    using assms by (auto simp: sched_inv_def sched_ok_def intro!: keyed_set all_values_set split: option.splits)
  have "sched_inv (saveScheduled (snd (scheduleTransaction tz c r d a f dt l rc ?s)))" for c r d a f dt l rc
    using schedule_wf [OF s, of tz c r d a f dt l rc] by (simp add: sched_inv_def saveScheduled_def)
  moreover have "sched_inv (saveScheduled ?s)" using s by (simp add: sched_inv_def saveScheduled_def)
  ultimately show ?thesis using Some by (simp add: executeTransaction_def Let_def)
qed (use assms in \<open>simp add: executeTransaction_def\<close>)

interpretation sched: write_through sched_step sched_reload sched_inv
proof unfold_locales
  fix s op
  show "sched_inv s \<Longrightarrow> sched_inv (sched_step op s)"
    by (cases op) (simp_all add: execute_wf, auto simp: schedule_wf sched_inv_def cancelScheduled_def saveScheduled_def
        intro!: schedule_wf [unfolded sched_inv_def])
  show "sched_inv s \<Longrightarrow> sched_reload s = s"
    using in_sync_parse [of "scheduled s" "scheduled_item s" sc_id]
    by (auto simp: sched_inv_def sched_reload_def loadScheduled_def)
qed


datatype budget_op =
    CreateBudget int clock string string string jsnum frequency jsnum
  | Spend string jsnum
  | DeleteBudget string
  | Reset int clock string

fun budget_step :: "budget_op \<Rightarrow> budget_state \<Rightarrow> budget_state" where
  "budget_step (CreateBudget tz clk rnd n c l p a) s = snd (createBudget tz clk rnd n c l p a s)"
| "budget_step (Spend i x) s = snd (addSpending i x s)"
| "budget_step (DeleteBudget i) s = deleteBudget i s"
| "budget_step (Reset tz clk i) s = snd (resetBudget tz clk i s)"

definition budget_ok :: "Budget \<Rightarrow> bool" where
  "budget_ok b \<longleftrightarrow> startDate b < endDate b"

definition budget_inv :: "budget_state \<Rightarrow> bool" where
  "budget_inv s \<longleftrightarrow> keyed bg_id (budgets s) \<and> in_sync (budgets s) (budgets_item s) \<and> all_values budget_ok (budgets s)"

definition budget_reload :: "budget_state \<Rightarrow> budget_state" where
  "budget_reload s = (case loadBudgets (budgets_item s) of Inl e \<Rightarrow> s | Inr t \<Rightarrow> t)"

lemma end_later: "start < calculateEndDate tz start p"
  using next_later [of start tz p] by (simp add: calculateEndDate_def calculateNextExecution_def)

lemmas budget_defs = createBudget_def addSpending_def deleteBudget_def resetBudget_def saveBudgets_def Let_def

interpretation budget: write_through budget_step budget_reload budget_inv
proof unfold_locales
  fix s op
  show "budget_inv s \<Longrightarrow> budget_inv (budget_step op s)"
    by (cases op) (auto simp: budget_inv_def budget_ok_def budget_defs end_later split: option.splits
        intro!: keyed_set all_values_set keyed_delete all_values_delete dest: keyed_get all_values_get)
  show "budget_inv s \<Longrightarrow> budget_reload s = s"
    using in_sync_parse [of "budgets s" "budgets_item s" bg_id] by (auto simp: budget_inv_def budget_reload_def loadBudgets_def)
qed

section \<open>A budget counts what was spent since its last reset\<close>

text \<open>The specification: replay the history of one budget.\<close>

fun spent_since_reset :: "string \<Rightarrow> jsnum \<Rightarrow> budget_op list \<Rightarrow> jsnum" where
  "spent_since_reset i x [] = x"
| "spent_since_reset i x (Spend j y # ops) = spent_since_reset i (if j = i then x + y else x) ops"
| "spent_since_reset i x (Reset tz clk j # ops) = spent_since_reset i (if j = i then 0 else x) ops"
| "spent_since_reset i x (_ # ops) = spent_since_reset i x ops"

fun recreates :: "string \<Rightarrow> budget_op \<Rightarrow> bool" where
  "recreates i (CreateBudget tz clk rnd n c l p a) = (''budget_'' @ show_int (clk 1) @ ''_'' @ rnd = i)"
| "recreates i (DeleteBudget j) = (j = i)"
| "recreates i _ = False"

text \<open>
  Budgets are exact, with a page reload after every operation: after any sequence of
  operations that neither deletes the budget nor draws its identifier again, what it has recorded
  as spent is the sum of what was added since its last reset, and its limit is unchanged.
\<close>

theorem budget_counts_spending:
  assumes "budget_inv s" and "map_of (budgets s) i = Some b" and "list_all (\<lambda>op. \<not> recreates i op) ops"
  shows "\<exists>b'. map_of (budgets (fold (\<lambda>op s. budget_reload (budget_step op s)) ops s)) i = Some b' \<and>
    spent b' = spent_since_reset i (spent b) ops \<and> bg_limit b' = bg_limit b"
proof -
  have "\<exists>b'. map_of (budgets (fold budget_step ops s)) i = Some b' \<and>
      spent b' = spent_since_reset i (spent b) ops \<and> bg_limit b' = bg_limit b"
    using assms(2,3)
  proof (induction ops arbitrary: s b)
    case Nil
    then show ?case by simp
  next
    case (Cons op ops)
    show ?case
    proof (cases op)
      case (Spend j x)
      show ?thesis
        using Cons.IH [of "budget_step op s" "if j = i then b\<lparr>spent := spent b + x\<rparr> else b"] Cons.prems Spend
        by (cases "map_of (budgets s) j") (auto simp: budget_defs split: if_splits)
    next
      case (Reset tz clk j)
      show ?thesis
        using Cons.IH [of "budget_step op s"
            "if j = i then b\<lparr>spent := 0, startDate := clk 0, endDate := calculateEndDate tz (clk 0) (bg_period b)\<rparr> else b"]
          Cons.prems Reset
        by (cases "map_of (budgets s) j") (auto simp: budget_defs split: if_splits)
    qed (use Cons.IH [of "budget_step op s" b] Cons.prems in \<open>auto simp: budget_defs\<close>)
  qed
  then show ?thesis using budget.run_reload [OF assms(1), of ops] by simp
qed

theorem budget_counts_spending_witness:
  "\<exists>b'. map_of (budgets (fold (\<lambda>op s. budget_reload (budget_step op s)) [Spend ''budget_0_r'' 3, Spend ''budget_0_r'' 4]
      (snd (createBudget 0 (\<lambda>_. 0) ''r'' ''food'' ''f'' 50 Monthly 80 \<lparr>budgets = [], budgets_item = Absent\<rparr>)))) ''budget_0_r'' = Some b' \<and>
    spent b' = 7 \<and> bg_limit b' = 50"
proof -
  let ?s = "snd (createBudget 0 (\<lambda>_. 0) ''r'' ''food'' ''f'' 50 Monthly 80 \<lparr>budgets = [], budgets_item = Absent\<rparr>)"
  have "budget_inv ?s"
    using budget.step_keeps [of "\<lparr>budgets = [], budgets_item = Absent\<rparr>" "CreateBudget 0 (\<lambda>_. 0) ''r'' ''food'' ''f'' 50 Monthly 80"]
    by (simp add: budget_inv_def)
  moreover have "show_int 0 = ''0''" by code_simp
  ultimately show ?thesis
    using budget_counts_spending [of ?s "''budget_0_r''" _ "[Spend ''budget_0_r'' 3, Spend ''budget_0_r'' 4]"]
    by (simp add: createBudget_def saveBudgets_def Let_def)
qed

section \<open>Recurring payments\<close>

text \<open>The distance to the next execution.\<close>

lemma next_distance:
  "calculateNextExecution tz t Daily = t + msPerDay"
  "calculateNextExecution tz t Weekly = t + 7 * msPerDay"
  "t + 28 * msPerDay \<le> calculateNextExecution tz t Monthly \<and> calculateNextExecution tz t Monthly \<le> t + 31 * msPerDay"
  using setMonth_bounds [of t tz] by (simp_all add: calculateNextExecution_def setDate_add)

text \<open>
  Executing a recurring payment keeps it going. The payment is marked executed, and a new one to
  the same payee, for the same amount and with the same frequency is scheduled for the time the first
  one named, which is later, by 1, 7 or 28 to 31 days.
\<close>

theorem recurring_continues:
  assumes "sched_inv s" and "map_of (scheduled s) i = Some tx" and "recurring tx" and "nextExecution tx \<noteq> Some 0"
    and "j = ''sched_'' @ show_int (clk 1) @ ''_'' @ rnd'" and "j \<noteq> i"
    and "executeTransaction tz clk rnd rnd' i s = (r, s')"
  shows "r = Inr () \<and> sched_inv s' \<and>
    (\<exists>tx' nx. map_of (scheduled s') i = Some tx' \<and> sc_executed tx' \<and> map_of (scheduled s') j = Some nx \<and>
      \<not> sc_executed nx \<and> recurring nx \<and> sc_to nx = sc_to tx \<and> sc_amount nx = sc_amount tx \<and>
      sc_frequency nx = sc_frequency tx \<and> Some (scheduledDate nx) = nextExecution tx \<and>
      scheduledDate tx < scheduledDate nx)"
proof -
  have ok: "sched_ok tx" using assms(1,2) by (auto simp: sched_inv_def dest: all_values_get)
  then obtain f n where fn: "sc_frequency tx = Some f" "nextExecution tx = Some n" "n \<noteq> 0" "scheduledDate tx < n"
    using assms(3,4) by (auto simp: sched_ok_def split: option.splits)
  have "sched_inv s'" using execute_wf [OF assms(1), of tz clk rnd rnd' i] assms(7) by simp
  with assms fn show ?thesis
    by (auto simp: executeTransaction_def scheduleTransaction_def saveScheduled_def Let_def)
qed

definition demo_sched :: sched_state where
  "demo_sched = snd (scheduleTransaction 0 (\<lambda>_. 7) ''a'' ''KC1'' 5 1 1000 None (Some Weekly) \<lparr>scheduled = [], scheduled_item = Absent\<rparr>)"

theorem recurring_continues_witness:
  "fst (executeTransaction 0 (\<lambda>_. 9) ''x'' ''b'' ''sched_7_a'' demo_sched) = Inr ()"
proof -
  have n: "show_int 7 = ''7''" "show_int 9 = ''9''" by code_simp+
  have "sched_inv demo_sched"
    unfolding demo_sched_def by (rule schedule_wf) simp_all
  then show ?thesis
    using recurring_continues [of demo_sched "''sched_7_a''" _ "''sched_9_b''" "\<lambda>_. 9" "''b''" 0 "''x''"]
    by (cases "executeTransaction 0 (\<lambda>_. 9) ''x'' ''b'' ''sched_7_a'' demo_sched")
      (simp add: demo_sched_def scheduleTransaction_def saveScheduled_def Let_def n next_distance msPerDay_def)
qed

text \<open>
  Nothing stops a payment from being executed again: a second execution succeeds and records another
  transaction identifier.
\<close>

lemma executed_again:
  assumes "map_of (scheduled s) i = Some tx" and "\<not> recurring tx"
  shows "\<exists>s' tx'. executeTransaction tz clk rnd rnd' i s = (Inr (), s') \<and> map_of (scheduled s') i = Some tx' \<and>
    sc_txid tx' = Some (''tx'' @ rnd)"
  using assms by (simp add: executeTransaction_def saveScheduled_def Let_def)

text \<open>
  A monthly payment of 31 January 2023 is next due on 3 March: February is skipped, and the payment
  stays on the third from then on.
\<close>

lemma monthly_skips_february:
  "getDate 0 (19388 * 86400000) = 31 \<and> getMonth 0 (19388 * 86400000) = 0 \<and> getFullYear 0 (19388 * 86400000) = 2023 \<and>
   getDate 0 (calculateNextExecution 0 (19388 * 86400000) Monthly) = 3 \<and>
   getMonth 0 (calculateNextExecution 0 (19388 * 86400000) Monthly) = 2"
  by code_simp

text \<open>An imported line whose amount is not a number is kept.\<close>

lemma import_keeps_bad_amount:
  "importCSV (''address,amount'' @ [CHR 0x0A] @ ''KC1,abc'') = [\<lparr>cv_address = ''KC1'', cv_amount = None, cv_label = None\<rparr>]"
  by code_simp

end
