(* ===== verification/PriceService.thy ===== *)
theory PriceService
  imports JsStore
begin

text \<open>
  Prices and price alerts (services/priceService.ts). The price source is an argument: an error, or
  the fields of its answer, each possibly missing. Browser notifications are left out.
\<close>

datatype alert_type = Above | Below

record PriceData =
  pd_symbol :: string
  price :: jsnum
  pd_change24h :: jsnum
  high24h :: jsnum
  low24h :: jsnum
  volume24h :: jsnum
  pd_timestamp :: int
  exchange :: string

record PriceAlert =
  al_id :: string
  al_type :: alert_type
  threshold :: jsnum
  currency :: string
  enabled :: bool
  triggered :: bool
  al_createdAt :: int
  triggeredAt :: "int option"

record PriceHistoryPoint =
  hp_timestamp :: int
  hp_price :: jsnum

text \<open>
  The answer of the price source. \<open>None\<close> for the price is a missing one or one that is not a
  finite number.
\<close>

record price_response =
  pr_symbol :: "string option"
  pr_price :: "jsnum option"
  pr_change24h :: "jsnum option"
  pr_high24h :: "jsnum option"
  pr_low24h :: "jsnum option"
  pr_volume24h :: "jsnum option"
  pr_timestamp :: "int option"
  pr_exchange :: "string option"

record ps_state =
  currentPrice :: "PriceData option"
  alerts :: "(string, PriceAlert) jsmap"
  history :: "PriceHistoryPoint list"
  alerts_item :: "PriceAlert list item"
  history_item :: "PriceHistoryPoint list item"

section \<open>Storage\<close>

definition MAX_HISTORY :: nat where
  "MAX_HISTORY = 288"

definition loadAlerts :: "ps_state \<Rightarrow> ps_state" where
  "loadAlerts s = s\<lparr>alerts := foldl (\<lambda>m a. AList.update (al_id a) a m) (alerts s) (parse_item_or [] (alerts_item s))\<rparr>"

definition saveAlerts :: "ps_state \<Rightarrow> ps_state" where
  "saveAlerts s = s\<lparr>alerts_item := Json (map snd (alerts s))\<rparr>"

definition loadHistory :: "ps_state \<Rightarrow> ps_state" where
  "loadHistory s = s\<lparr>history := parse_item_or (history s) (history_item s)\<rparr>"

definition saveHistory :: "ps_state \<Rightarrow> ps_state" where
  "saveHistory s =
     (let h = (if MAX_HISTORY < length (history s) then slice_last MAX_HISTORY (history s) else history s)
      in s\<lparr>history := h, history_item := Json h\<rparr>)"

definition new_PriceService :: "PriceAlert list item \<Rightarrow> PriceHistoryPoint list item \<Rightarrow> ps_state" where
  "new_PriceService ai hi =
     loadHistory (loadAlerts \<lparr>currentPrice = None, alerts = [], history = [], alerts_item = ai, history_item = hi\<rparr>)"

section \<open>Prices\<close>

definition or_default :: "'a \<Rightarrow> 'a option \<Rightarrow> 'a \<Rightarrow> 'a" where
  "or_default z x d = (case x of None \<Rightarrow> d | Some y \<Rightarrow> if y = z then d else y)"

definition normalized :: "int \<Rightarrow> jsnum \<Rightarrow> price_response \<Rightarrow> PriceData" where
  "normalized now p r =
     \<lparr>pd_symbol = or_default [] (pr_symbol r) ''KC/USD'', price = p, pd_change24h = or_default 0 (pr_change24h r) 0,
      high24h = or_default 0 (pr_high24h r) p, low24h = or_default 0 (pr_low24h r) p,
      volume24h = or_default 0 (pr_volume24h r) 0, pd_timestamp = or_default 0 (pr_timestamp r) now,
      exchange = or_default [] (pr_exchange r) ''Unknown''\<rparr>"

definition shouldTrigger :: "jsnum \<Rightarrow> PriceAlert \<Rightarrow> bool" where
  "shouldTrigger p a \<longleftrightarrow> al_type a = Above \<and> threshold a \<le> p \<or> al_type a = Below \<and> p \<le> threshold a"

definition check_alert :: "jsnum \<Rightarrow> int \<Rightarrow> PriceAlert \<Rightarrow> PriceAlert" where
  "check_alert p now a =
     (if \<not> enabled a \<or> triggered a then a
      else if shouldTrigger p a then a\<lparr>triggered := True, triggeredAt := Some now\<rparr> else a)"

text \<open>The alert at position \<open>k\<close> reads the clock at \<open>clk k\<close>. Storage is written when one fires.\<close>

definition checkAlerts :: "clock \<Rightarrow> ps_state \<Rightarrow> ps_state" where
  "checkAlerts clk s =
     (case currentPrice s of
        None \<Rightarrow> s
      | Some d \<Rightarrow>
          let s' = s\<lparr>alerts := map (\<lambda>(k, i, a). (i, check_alert (price d) (clk k) a)) (enumerate 0 (alerts s))\<rparr>
          in if list_ex (\<lambda>a. enabled a \<and> \<not> triggered a \<and> shouldTrigger (price d) a) (map snd (alerts s))
             then saveAlerts s' else s')"

text \<open>
  \<open>configured\<close>: the address of the price source is set. An error status of the source is an
  error of \<open>fetched\<close>.
\<close>

definition updatePrice :: "bool \<Rightarrow> js_error + price_response \<Rightarrow> int \<Rightarrow> clock \<Rightarrow> (ps_state, PriceData) eff" where
  "updatePrice configured fetched now clk s =
     (if \<not> configured then (Inl (Error ''Price API not configured''), s)
      else case fetched of
        Inl e \<Rightarrow> (Inl e, s)
      | Inr r \<Rightarrow>
          (case pr_price r of
             None \<Rightarrow> (Inl (Error ''Invalid price data from API''), s)
           | Some p \<Rightarrow> let d = normalized now p r in (Inr d, checkAlerts clk (s\<lparr>currentPrice := Some d\<rparr>))))"

text \<open>The five-minute timer.\<close>

definition recordHistory :: "clock \<Rightarrow> ps_state \<Rightarrow> ps_state" where
  "recordHistory clk s =
     (case currentPrice s of
        None \<Rightarrow> s
      | Some d \<Rightarrow> saveHistory (s\<lparr>history := history s @ [\<lparr>hp_timestamp = clk 0, hp_price = price d\<rparr>]\<rparr>))"

definition getCurrentPrice :: "ps_state \<Rightarrow> PriceData option" where
  "getCurrentPrice s = currentPrice s"

definition getPriceHistory :: "int \<Rightarrow> int \<Rightarrow> ps_state \<Rightarrow> PriceHistoryPoint list" where
  "getPriceHistory now hours s = filter (\<lambda>h. now - hours * 60 * 60 * 1000 \<le> hp_timestamp h) (history s)"

section \<open>Alerts\<close>

definition createAlert :: "clock \<Rightarrow> string \<Rightarrow> alert_type \<Rightarrow> jsnum \<Rightarrow> string \<Rightarrow> ps_state \<Rightarrow> PriceAlert \<times> ps_state" where
  "createAlert clk rnd ty th cur s =
     (let a = \<lparr>al_id = ''alert_'' @ show_int (clk 0) @ ''_'' @ rnd, al_type = ty, threshold = th, currency = cur,
               enabled = True, triggered = False, al_createdAt = clk 1, triggeredAt = None\<rparr>
      in (a, saveAlerts (s\<lparr>alerts := AList.update (al_id a) a (alerts s)\<rparr>)))"

definition getAllAlerts :: "ps_state \<Rightarrow> PriceAlert list" where
  "getAllAlerts s = sort_desc al_createdAt (map snd (alerts s))"

definition getActiveAlerts :: "ps_state \<Rightarrow> PriceAlert list" where
  "getActiveAlerts s = filter (\<lambda>a. enabled a \<and> \<not> triggered a) (getAllAlerts s)"

definition getTriggeredAlerts :: "ps_state \<Rightarrow> PriceAlert list" where
  "getTriggeredAlerts s = filter triggered (getAllAlerts s)"

record AlertUpdates =
  au_id :: "string option"
  au_type :: "alert_type option"
  au_threshold :: "jsnum option"
  au_currency :: "string option"
  au_enabled :: "bool option"
  au_triggered :: "bool option"
  au_createdAt :: "int option"
  au_triggeredAt :: "int option option"

definition assign_alert :: "AlertUpdates \<Rightarrow> PriceAlert \<Rightarrow> PriceAlert" where
  "assign_alert u a =
     \<lparr>al_id = or_keep (au_id u) (al_id a), al_type = or_keep (au_type u) (al_type a),
      threshold = or_keep (au_threshold u) (threshold a), currency = or_keep (au_currency u) (currency a),
      enabled = or_keep (au_enabled u) (enabled a), triggered = or_keep (au_triggered u) (triggered a),
      al_createdAt = or_keep (au_createdAt u) (al_createdAt a), triggeredAt = or_keep (au_triggeredAt u) (triggeredAt a)\<rparr>"

definition updateAlert :: "string \<Rightarrow> AlertUpdates \<Rightarrow> ps_state \<Rightarrow> bool \<times> ps_state" where
  "updateAlert i u s =
     (case map_of (alerts s) i of
        None \<Rightarrow> (False, s)
      | Some a \<Rightarrow> (True, saveAlerts (s\<lparr>alerts := AList.update i (assign_alert u a) (alerts s)\<rparr>)))"

definition deleteAlert :: "string \<Rightarrow> ps_state \<Rightarrow> bool \<times> ps_state" where
  "deleteAlert i s =
     (if map_of (alerts s) i = None then (False, s)
      else (True, saveAlerts (s\<lparr>alerts := AList.delete i (alerts s)\<rparr>)))"

definition clearHistory :: "ps_state \<Rightarrow> ps_state" where
  "clearHistory s = s\<lparr>history := [], history_item := Absent\<rparr>"

definition clearAlerts :: "ps_state \<Rightarrow> ps_state" where
  "clearAlerts s = s\<lparr>alerts := [], alerts_item := Absent\<rparr>"

section \<open>Values\<close>

definition convertToFiat :: "jsnum \<Rightarrow> string \<Rightarrow> ps_state \<Rightarrow> jsnum" where
  "convertToFiat amt cur s =
     (case currentPrice s of None \<Rightarrow> 0 | Some d \<Rightarrow> if cur \<noteq> ''USD'' then 0 else amt * price d)"

record portfolio_value =
  pv_value :: jsnum
  pv_change24h :: jsnum
  changePercent :: jsnum

definition calculatePortfolioValue :: "jsnum \<Rightarrow> string \<Rightarrow> ps_state \<Rightarrow> portfolio_value" where
  "calculatePortfolioValue b cur s =
     (case currentPrice s of
        None \<Rightarrow> \<lparr>pv_value = 0, pv_change24h = 0, changePercent = 0\<rparr>
      | Some d \<Rightarrow> let v = convertToFiat b cur s
                  in \<lparr>pv_value = v, pv_change24h = v * pd_change24h d / 100, changePercent = pd_change24h d\<rparr>)"

section \<open>Alerts fire when the price reaches them, once\<close>

text \<open>Position by position: what a price update does to the alerts.\<close>

lemma checked_get:
  assumes "map_of m i = Some a"
  shows "\<exists>k. map_of (map (\<lambda>(k, i, a). (i, check_alert p (clk k) a)) (enumerate n m)) i = Some (check_alert p (clk k) a)"
  using assms by (induction m arbitrary: n) auto

lemma checked_None: "map_of m i = None \<Longrightarrow> map_of (map (\<lambda>(k, i, a). (i, check_alert p (clk k) a)) (enumerate n m)) i = None"
  by (induction m arbitrary: n) (auto split: if_splits)

lemma checked_keys: "map fst (map (\<lambda>(k, i, a). (i, check_alert p (clk k) a)) (enumerate n m)) = map fst m"
  by (induction m arbitrary: n) auto

lemma check_alert_id [simp]: "al_id (check_alert p now a) = al_id a"
  by (simp add: check_alert_def)

lemma checkAlerts_alerts:
  "currentPrice s = Some d \<Longrightarrow>
     alerts (checkAlerts clk s) = map (\<lambda>(k, i, a). (i, check_alert (price d) (clk k) a)) (enumerate 0 (alerts s))"
  by (auto simp: checkAlerts_def saveAlerts_def Let_def)

lemma check_alert_effect:
  "triggered (check_alert p now a) \<longleftrightarrow> triggered a \<or> enabled a \<and> shouldTrigger p a"
  "triggered a \<or> \<not> enabled a \<Longrightarrow> check_alert p now a = a"
  by (auto simp: check_alert_def)

text \<open>
  A price update fires exactly the alerts that are enabled, have not fired, and whose
  threshold the new price reaches: each gets a time, every other alert stays as it was, and alerts
  are neither added nor lost. A failed update changes nothing.
\<close>

theorem alerts_fire_once:
  assumes "map_of (alerts s) i = Some a"
  shows "case updatePrice configured fetched now clk s of
      (Inl e, s') \<Rightarrow> s' = s
    | (Inr d, s') \<Rightarrow> currentPrice s' = Some d \<and> map fst (alerts s') = map fst (alerts s) \<and>
        (\<exists>t. map_of (alerts s') i = Some
          (if enabled a \<and> \<not> triggered a \<and> shouldTrigger (price d) a then a\<lparr>triggered := True, triggeredAt := Some t\<rparr> else a))"
proof -
  let ?m = "\<lambda>d. map_of (alerts (checkAlerts clk (s\<lparr>currentPrice := Some d\<rparr>))) i"
  have "enabled a \<Longrightarrow> \<not> triggered a \<Longrightarrow> shouldTrigger (price d) a \<Longrightarrow>
      \<exists>t. ?m d = Some (a\<lparr>triggered := True, triggeredAt := Some t\<rparr>)" for d
    using checked_get [OF assms, of "price d" clk 0] by (auto simp: checkAlerts_alerts check_alert_def)
  moreover have "\<not> (enabled a \<and> \<not> triggered a \<and> shouldTrigger (price d) a) \<Longrightarrow> ?m d = Some a" for d
    using checked_get [OF assms, of "price d" clk 0] by (auto simp: checkAlerts_alerts check_alert_def)
  moreover have "map fst (alerts (checkAlerts clk (s\<lparr>currentPrice := Some d\<rparr>))) = map fst (alerts s)" for d
    using checked_keys [of "price d" clk 0 "alerts s"] by (simp add: checkAlerts_alerts)
  moreover have "currentPrice (checkAlerts clk (s\<lparr>currentPrice := Some d\<rparr>)) = Some d" for d
    by (simp add: checkAlerts_def saveAlerts_def Let_def)
  ultimately show ?thesis
    by (cases configured; cases fetched) (auto simp: updatePrice_def Let_def split: option.split)
qed

definition demo_alert :: PriceAlert where
  "demo_alert = \<lparr>al_id = ''a'', al_type = Above, threshold = 100, currency = ''USD'', enabled = True, triggered = False,
     al_createdAt = 0, triggeredAt = None\<rparr>"

definition demo_answer :: price_response where
  "demo_answer = \<lparr>pr_symbol = None, pr_price = Some 120, pr_change24h = None, pr_high24h = None, pr_low24h = None,
     pr_volume24h = None, pr_timestamp = None, pr_exchange = None\<rparr>"

theorem alerts_fire_once_witness:
  "\<exists>t. map_of (alerts (snd (updatePrice True (Inr demo_answer) 5 (\<lambda>_. 6) (new_PriceService (Json [demo_alert]) Absent)))) ''a'' =
     Some (demo_alert\<lparr>triggered := True, triggeredAt := Some t\<rparr>)"
proof -
  let ?s = "new_PriceService (Json [demo_alert]) Absent"
  have "map_of (alerts ?s) ''a'' = Some demo_alert"
    by (simp add: new_PriceService_def loadAlerts_def loadHistory_def demo_alert_def)
  moreover have "enabled demo_alert \<and> \<not> triggered demo_alert \<and> shouldTrigger (price (normalized 5 120 demo_answer)) demo_alert"
    by (simp add: demo_alert_def shouldTrigger_def normalized_def)
  ultimately show ?thesis
    using alerts_fire_once [of ?s "''a''" demo_alert True "Inr demo_answer" 5 "\<lambda>_. 6"]
    by (simp add: updatePrice_def demo_answer_def Let_def)
qed

section \<open>The history is bounded\<close>

lemma recordHistory_bounded:
  "length (history s) \<le> MAX_HISTORY \<Longrightarrow> length (history (recordHistory clk s)) \<le> MAX_HISTORY"
  by (auto simp: recordHistory_def saveHistory_def Let_def length_slice_last MAX_HISTORY_def split: option.splits)

text \<open>A price in a currency other than dollars is worth nothing, but its relative change is kept.\<close>

lemma other_currency_worthless: "cur \<noteq> ''USD'' \<Longrightarrow> convertToFiat amt cur s = 0"
  by (simp add: convertToFiat_def split: option.splits)

end
