(* ===== verification/Portfolio.thy ===== *)
theory Portfolio
  imports WalletService PriceService
begin

text \<open>
  Analysis of the portfolio (services/portfolioAnalysis.ts): allocation, diversification,
  rebalancing suggestions and risk. The active wallet comes from the wallet service, prices and
  their history from the price service.
\<close>

record AssetAllocation =
  asset :: string
  aa_amount :: jsnum
  aa_value :: jsnum
  percentage :: jsnum

record DiversificationScore =
  ds_score :: int
  ds_rating :: string
  numAssets :: nat
  concentrationRisk :: jsnum
  ds_recommendations :: "string list"

datatype rebalance_action = BuyAsset | SellAsset

text \<open>An amount of \<open>None\<close> is infinite: the price of the asset is zero.\<close>

record RebalanceSuggestion =
  rs_asset :: string
  rs_action :: rebalance_action
  rs_amount :: "jsnum option"
  currentPercentage :: jsnum
  targetPercentage :: jsnum
  valueUSD :: jsnum

datatype risk_level = LowRisk | MediumRisk | HighRisk | VeryHighRisk

record RiskMetrics =
  volatility :: jsnum
  sharpeRatio :: jsnum
  maxDrawdown :: jsnum
  beta :: jsnum
  valueAtRisk :: jsnum
  riskLevel :: risk_level
  riskDescription :: string
  rm_recommendations :: "string list"

section \<open>Allocation and diversification\<close>

definition price_or_0 :: "ps_state \<Rightarrow> jsnum" where
  "price_or_0 ps = (case getCurrentPrice ps of None \<Rightarrow> 0 | Some d \<Rightarrow> price d)"

definition getAssetAllocation :: "ps_state \<Rightarrow> 'n ws \<Rightarrow> AssetAllocation list \<times> 'n ws" where
  "getAssetAllocation ps s =
     (case getActiveWallet s of
        (None, s') \<Rightarrow> ([], s')
      | (Some w, s') \<Rightarrow>
          ([\<lparr>asset = ''KC'', aa_amount = balance w, aa_value = balance w * price_or_0 ps, percentage = 100\<rparr>], s'))"

definition top_asset :: "AssetAllocation \<Rightarrow> AssetAllocation list \<Rightarrow> AssetAllocation" where
  "top_asset = foldl (\<lambda>mx a. if percentage mx < percentage a then a else mx)"

definition diversification :: "AssetAllocation list \<Rightarrow> DiversificationScore" where
  "diversification al =
     (if al = []
      then \<lparr>ds_score = 0, ds_rating = ''Poor'', numAssets = 0, concentrationRisk = 1,
            ds_recommendations = [''Add assets to your portfolio to begin diversification'']\<rparr>
      else
        let hhi = sum_by (\<lambda>a. (percentage a / 100) * (percentage a / 100)) al;
            risk = min hhi 1;
            baseScore = (1 - risk) * 100;
            bonus = min (of_nat (length al) * 5) 20;
            finalScore = min (baseScore + bonus) 100;
            recs = (if length al = 1
                    then [''Consider diversifying into other cryptocurrencies (BTC, ETH)'',
                          ''Single-asset portfolios carry the highest risk''] else []) @
                   (if 1 / 2 < risk
                    then let t = top_asset (hd al) (tl al)
                         in [asset t @ '' represents '' @ toFixed 1 (percentage t) @ ''% of your portfolio - consider rebalancing'']
                    else []) @
                   (if length al < 5 then [''Aim for at least 5 different assets for better diversification''] else [])
        in \<lparr>ds_score = Math_round finalScore,
            ds_rating = (if 80 \<le> finalScore then ''Excellent'' else if 60 \<le> finalScore then ''Good''
                         else if 40 \<le> finalScore then ''Fair'' else ''Poor''),
            numAssets = length al, concentrationRisk = risk,
            ds_recommendations = (if recs = [] then [''Your portfolio is well diversified''] else recs)\<rparr>)"

definition getDiversificationScore :: "ps_state \<Rightarrow> 'n ws \<Rightarrow> DiversificationScore \<times> 'n ws" where
  "getDiversificationScore ps s = (case getAssetAllocation ps s of (al, s') \<Rightarrow> (diversification al, s'))"

section \<open>Rebalancing\<close>

definition getAssetPrice :: "ps_state \<Rightarrow> string \<Rightarrow> jsnum" where
  "getAssetPrice ps a = (if a = ''KC'' then price_or_0 ps else 0)"

text \<open>A target is an object: its entries have distinct keys. All targets zero gives NaN (here zero).\<close>

definition normalizedTarget :: "(string \<times> jsnum) list \<Rightarrow> (string \<times> jsnum) list" where
  "normalizedTarget ts = (let n = sum_by snd ts in map (\<lambda>(a, p). (a, p / n * 100)) ts)"

definition suggestion :: "ps_state \<Rightarrow> AssetAllocation list \<Rightarrow> string \<times> jsnum \<Rightarrow> RebalanceSuggestion option" where
  "suggestion ps al = (\<lambda>(a, tp).
     let totalValue = sum_by aa_value al;
         current = List.find (\<lambda>x. asset x = a) al;
         cp = (case current of None \<Rightarrow> 0 | Some x \<Rightarrow> percentage x);
         cv = (case current of None \<Rightarrow> 0 | Some x \<Rightarrow> aa_value x);
         diff = tp / 100 * totalValue - cv;
         pr = getAssetPrice ps a
     in if totalValue * (5 / 100) < \<bar>diff\<bar> \<or> 100 < \<bar>diff\<bar>
        then Some \<lparr>rs_asset = a, rs_action = (if 0 < diff then BuyAsset else SellAsset),
               rs_amount = (if pr = 0 then None else Some \<bar>diff / pr\<bar>), currentPercentage = cp,
               targetPercentage = tp, valueUSD = \<bar>diff\<bar>\<rparr>
        else None)"

definition getRebalanceSuggestions ::
    "ps_state \<Rightarrow> (string \<times> jsnum) list \<Rightarrow> 'n ws \<Rightarrow> RebalanceSuggestion list \<times> 'n ws" where
  "getRebalanceSuggestions ps ts s =
     (case getAssetAllocation ps s of (al, s') \<Rightarrow> (List.map_filter (suggestion ps al) (normalizedTarget ts), s'))"

record rebalance_tx =
  rt_asset :: string
  rt_action :: rebalance_action
  rt_amount :: "jsnum option"
  rt_status :: string
  rt_timestamp :: int

definition executeRebalance ::
    "ps_state \<Rightarrow> clock \<Rightarrow> (string \<times> jsnum) list \<Rightarrow> 'n ws \<Rightarrow> rebalance_tx list \<times> 'n ws" where
  "executeRebalance ps clk ts s =
     (case getRebalanceSuggestions ps ts s of
        (rs, s') \<Rightarrow> (map (\<lambda>(k, r). \<lparr>rt_asset = rs_asset r, rt_action = rs_action r, rt_amount = rs_amount r,
                       rt_status = ''pending'', rt_timestamp = clk k\<rparr>) (enumerate 0 rs), s'))"

datatype risk_profile = Conservative | Moderate | Aggressive

fun calculateTargetAllocation :: "risk_profile \<Rightarrow> (string \<times> jsnum) list" where
  "calculateTargetAllocation Conservative = [(''KC'', 40), (''BTC'', 35), (''ETH'', 20), (''OTHER'', 5)]"
| "calculateTargetAllocation Moderate = [(''KC'', 50), (''BTC'', 25), (''ETH'', 20), (''OTHER'', 5)]"
| "calculateTargetAllocation Aggressive = [(''KC'', 60), (''BTC'', 20), (''ETH'', 15), (''OTHER'', 5)]"

section \<open>Risk\<close>

text \<open>Prices are positive; a price of zero would make a return infinite.\<close>

fun returns :: "jsnum list \<Rightarrow> jsnum list" where
  "returns (p # q # ps) = (q - p) / p # returns (q # ps)"
| "returns _ = []"

definition drawdown_step :: "jsnum \<Rightarrow> jsnum \<times> jsnum \<Rightarrow> jsnum \<times> jsnum" where
  "drawdown_step p = (\<lambda>(peak, dd).
     let peak = (if peak < p then p else peak);
         d = (peak - p) / peak
     in (peak, if dd < d then d else dd))"

definition max_drawdown :: "jsnum list \<Rightarrow> jsnum" where
  "max_drawdown ps = snd (fold drawdown_step ps (hd ps, 0))"

definition mean :: "jsnum list \<Rightarrow> jsnum" where
  "mean xs = sum_by (\<lambda>x. x) xs / of_nat (length xs)"

definition variance :: "jsnum list \<Rightarrow> jsnum" where
  "variance xs = sum_by (\<lambda>r. (r - mean xs) ^ 2) xs / of_nat (length xs)"

definition var95Index :: "jsnum list \<Rightarrow> nat" where
  "var95Index rs = nat \<lfloor>of_nat (length rs) * (5 / 100) :: jsnum\<rfloor>"

definition risk_text :: "jsnum \<Rightarrow> risk_level \<times> string \<times> string list" where
  "risk_text v =
     (if v < 2 / 100
      then (LowRisk, ''Your portfolio has low volatility and stable returns'',
            [''Consider adding higher-return assets for potential growth''])
      else if v < 5 / 100
      then (MediumRisk, ''Your portfolio has moderate volatility with balanced risk/reward'',
            [''Maintain current diversification strategy''])
      else if v < 10 / 100
      then (HighRisk, ''Your portfolio experiences significant price swings'',
            [''Consider reducing exposure to volatile assets'', ''Implement stop-loss strategies''])
      else (VeryHighRisk, ''Your portfolio is highly volatile with extreme price movements'',
            [''Urgently consider diversifying into stable assets'', ''Review your risk tolerance'',
             ''Implement strict risk management rules'']))"

definition risk_of :: "jsnum list \<Rightarrow> jsnum \<Rightarrow> RiskMetrics" where
  "risk_of ps currentValue =
     (let rs = returns ps;
          v = sqrt (variance rs);
          sharpe = (if 0 < v then (mean rs - 2 / 100 / 365) / v else 0);
          dd = max_drawdown ps;
          (lev, descr, recs) = risk_text v
      in \<lparr>volatility = v, sharpeRatio = sharpe, maxDrawdown = dd, beta = 1 + (v - 2 / 100),
          valueAtRisk = \<bar>sort rs ! var95Index rs * currentValue\<bar>, riskLevel = lev, riskDescription = descr,
          rm_recommendations = recs @
            (if sharpe < 0 then [''Negative risk-adjusted returns - consider rebalancing'']
             else if 2 < sharpe then [''Excellent risk-adjusted returns - maintain strategy''] else []) @
            (if 3 / 10 < dd
             then [''Maximum drawdown of '' @ toFixed 1 (dd * 100) @ ''% is high - implement drawdown limits''] else [])\<rparr>)"

definition calculateRiskMetrics :: "int \<Rightarrow> ps_state \<Rightarrow> 'n ws \<Rightarrow> RiskMetrics \<times> 'n ws" where
  "calculateRiskMetrics now ps s =
     (let ph = getPriceHistory now 30 ps
      in if length ph < 2
         then (\<lparr>volatility = 0, sharpeRatio = 0, maxDrawdown = 0, beta = 1, valueAtRisk = 0, riskLevel = LowRisk,
                riskDescription = ''Insufficient data to calculate risk metrics'',
                rm_recommendations = [''More price history needed for accurate risk assessment'']\<rparr>, s)
         else (case getAssetAllocation ps s of (al, s') \<Rightarrow> (risk_of (map hp_price ph) (sum_by aa_value al), s')))"

definition getCorrelationMatrix :: "ps_state \<Rightarrow> 'n ws \<Rightarrow> (string list \<times> jsnum list list) \<times> 'n ws" where
  "getCorrelationMatrix ps s =
     (case getAssetAllocation ps s of
        (al, s') \<Rightarrow>
          ((map asset al, map (\<lambda>i. map (\<lambda>j. if i = j then 1 else 0) [0..<length al]) [0..<length al]), s'))"

section \<open>The drawdown loop finds the worst fall\<close>

text \<open>
  The loop after some prices: its peak is the highest price so far, its drawdown the largest fall
  from a price to a later one, relative to the former.
\<close>

definition worst_fall :: "jsnum list \<Rightarrow> jsnum \<Rightarrow> bool" where
  "worst_fall ps d \<longleftrightarrow>
     (\<forall>j < length ps. \<forall>i \<le> j. (ps ! i - ps ! j) / ps ! i \<le> d) \<and>
     (\<exists>j < length ps. \<exists>i \<le> j. d = (ps ! i - ps ! j) / ps ! i)"

definition loop_ok :: "jsnum list \<Rightarrow> jsnum \<times> jsnum \<Rightarrow> bool" where
  "loop_ok ps r \<longleftrightarrow> (\<forall>i < length ps. ps ! i \<le> fst r) \<and> (\<exists>i < length ps. fst r = ps ! i) \<and> worst_fall ps (snd r)"

lemma fall_mono: "0 < x \<Longrightarrow> x \<le> y \<Longrightarrow> 0 < p \<Longrightarrow> (x - p) / x \<le> (y - p) / y" for x y p :: jsnum
  by (simp add: diff_divide_distrib frac_le)

lemma loop_ok_first: "0 < p \<Longrightarrow> loop_ok [p] (p, 0)"
  by (simp add: loop_ok_def worst_fall_def)

lemma loop_peak_snoc:
  assumes "\<forall>i < length ps. ps ! i \<le> peak" and "\<exists>i < length ps. peak = ps ! i"
    and "peak' = (if peak < p then p else peak :: jsnum)"
  shows "(\<forall>i < length (ps @ [p]). (ps @ [p]) ! i \<le> peak') \<and> (\<exists>i < length (ps @ [p]). peak' = (ps @ [p]) ! i)"
  using assms by (auto simp: nth_append less_Suc_eq intro: order_trans less_imp_le)

lemma loop_ok_step:
  assumes "loop_ok ps r" and pos: "\<forall>q \<in> set (ps @ [p]). 0 < q"
  shows "loop_ok (ps @ [p]) (drawdown_step p r)"
proof -
  obtain peak dd where r: "r = (peak, dd)" by force
  define peak' where "peak' = (if peak < p then p else peak)"
  define d where "d = (peak' - p) / peak'"
  have peaks: "\<forall>i < length (ps @ [p]). (ps @ [p]) ! i \<le> peak'" "\<exists>i < length (ps @ [p]). peak' = (ps @ [p]) ! i"
    using loop_peak_snoc [of ps peak peak' p] assms(1) r by (auto simp: loop_ok_def peak'_def)
  have new: "((ps @ [p]) ! i - p) / (ps @ [p]) ! i \<le> d" if "i \<le> length ps" for i
  proof -
    have "(ps @ [p]) ! i \<in> set (ps @ [p])" using that by (intro nth_mem) simp
    then have "0 < (ps @ [p]) ! i" "0 < p" using pos by auto
    moreover have "(ps @ [p]) ! i \<le> peak'" using peaks(1) that by simp
    ultimately show ?thesis unfolding d_def by (intro fall_mono)
  qed
  have old: "worst_fall ps dd" using assms(1) r by (simp add: loop_ok_def)
  have below: "((ps @ [p]) ! i - (ps @ [p]) ! j) / (ps @ [p]) ! i \<le> max dd d" if "j < length (ps @ [p])" "i \<le> j" for i j
  proof (cases "j = length ps")
    case True
    with new [of i] that show ?thesis by (simp add: max.coboundedI2)
  next
    case False
    with that old show ?thesis by (auto simp: worst_fall_def nth_append intro: max.coboundedI1)
  qed
  obtain i j where "j < length ps" "i \<le> j" "dd = (ps ! i - ps ! j) / ps ! i"
    using old unfolding worst_fall_def by blast
  then have "\<exists>j < length (ps @ [p]). \<exists>i \<le> j. dd = ((ps @ [p]) ! i - (ps @ [p]) ! j) / (ps @ [p]) ! i"
    by (intro exI [of _ j] conjI exI [of _ i]) (simp_all add: nth_append)
  moreover have "\<exists>j < length (ps @ [p]). \<exists>i \<le> j. d = ((ps @ [p]) ! i - (ps @ [p]) ! j) / (ps @ [p]) ! i"
    using peaks(2) unfolding d_def
    by (metis length_append_singleton less_Suc_eq_le lessI nth_append_length)
  ultimately have "worst_fall (ps @ [p]) (max dd d)" using below unfolding worst_fall_def max_def by auto
  moreover have "drawdown_step p r = (peak', max dd d)"
    by (simp add: r drawdown_step_def Let_def peak'_def d_def max_def)
  ultimately show ?thesis using peaks by (simp add: loop_ok_def)
qed

lemma loop_ok_fold:
  "loop_ok qs r \<Longrightarrow> \<forall>q \<in> set (qs @ ps). 0 < q \<Longrightarrow> loop_ok (qs @ ps) (fold drawdown_step ps r)"
proof (induction ps arbitrary: qs r)
  case (Cons p ps)
  have "loop_ok (qs @ [p]) (drawdown_step p r)" using Cons.prems by (intro loop_ok_step) auto
  with Cons.IH [of "qs @ [p]"] Cons.prems show ?case by simp
qed simp

text \<open>
  C30: for a history of positive prices the reported maximum drawdown is the largest relative fall
  from any price to a later one, it lies between 0 and 1, and the value-at-risk index is within
  the returns.
\<close>

theorem drawdown_is_worst_fall:
  assumes "2 \<le> length ps" and "\<forall>p \<in> set ps. 0 < p"
  shows "worst_fall ps (maxDrawdown (risk_of ps v)) \<and> 0 \<le> maxDrawdown (risk_of ps v) \<and> maxDrawdown (risk_of ps v) < 1 \<and>
    var95Index (returns ps) < length (returns ps) \<and> 0 \<le> volatility (risk_of ps v)"
proof -
  obtain p qs where ps: "ps = p # qs" using assms(1) by (cases ps) auto
  have "drawdown_step p (p, 0) = (p, 0)" by (simp add: drawdown_step_def)
  then have "fold drawdown_step ps (hd ps, 0) = fold drawdown_step qs (p, 0)" using ps by simp
  then have w: "worst_fall ps (max_drawdown ps)"
    using loop_ok_fold [of "[p]" "(p, 0)" qs] loop_ok_first [of p] assms(2) ps
    by (simp add: max_drawdown_def loop_ok_def)
  then have "(ps ! 0 - ps ! 0) / ps ! 0 \<le> max_drawdown ps" using ps unfolding worst_fall_def by blast
  then have "0 \<le> max_drawdown ps" by simp
  moreover have "max_drawdown ps < 1"
  proof -
    from w obtain i j where ij: "j < length ps" "i \<le> j" "max_drawdown ps = (ps ! i - ps ! j) / ps ! i"
      unfolding worst_fall_def by blast
    then have "0 < ps ! i" "0 < ps ! j" using assms(2) by auto
    then show ?thesis using ij(3) by simp
  qed
  moreover have len: "length (returns xs) = length xs - 1" for xs by (induction xs rule: returns.induct) auto
  have "var95Index (returns ps) < length (returns ps)"
    using assms(1) unfolding var95Index_def len by linarith
  moreover have "0 \<le> variance rs" for rs
    unfolding variance_def by (intro divide_nonneg_nonneg sum_by_nonneg) simp_all
  ultimately show ?thesis using w by (simp add: risk_of_def Let_def split: prod.splits)
qed

theorem drawdown_is_worst_fall_witness:
  "worst_fall [2, 1, 3] (maxDrawdown (risk_of [2, 1, 3] 0)) \<and> var95Index (returns [2, 1, 3]) < 2"
  using drawdown_is_worst_fall [of "[2, 1, 3]" 0] by simp

section \<open>Other facts\<close>

text \<open>With an active wallet the portfolio has one asset: the score is 5 and the rating poor.\<close>

lemma diversification_always_poor:
  assumes "getActiveWallet s = (Some w, s')"
  shows "ds_score (fst (getDiversificationScore ps s)) = 5 \<and> ds_rating (fst (getDiversificationScore ps s)) = ''Poor''"
  using assms by (simp add: getDiversificationScore_def getAssetAllocation_def diversification_def Let_def Math_round_def)

text \<open>A suggestion for any asset but KC has an infinite amount: only KC has a price.\<close>

lemma other_assets_infinite:
  assumes "r \<in> set (fst (getRebalanceSuggestions ps ts s))" and "rs_asset r \<noteq> ''KC''"
  shows "rs_amount r = None"
proof -
  obtain al s' x where "suggestion ps al x = Some r"
    using assms(1) by (cases "getAssetAllocation ps s") (auto simp: getRebalanceSuggestions_def map_filter_def)
  with assms(2) show ?thesis
    by (cases x) (auto simp: suggestion_def Let_def getAssetPrice_def split: if_split_asm)
qed

lemma profiles_are_whole: "sum_by snd (calculateTargetAllocation rp) = 100"
  by (cases rp) simp_all

text \<open>Normalised targets are percentages of a whole.\<close>

lemma normalized_whole: "sum_by snd ts \<noteq> 0 \<Longrightarrow> sum_by snd (normalizedTarget ts) = 100"
proof -
  have "sum_by snd (map (\<lambda>(a, p). (a, p / n * 100)) ts) = sum_by snd ts / n * 100" for n
    by (induction ts) (auto simp: add_divide_distrib algebra_simps)
  then show "sum_by snd ts \<noteq> 0 \<Longrightarrow> ?thesis" by (simp add: normalizedTarget_def Let_def)
qed

end
