(* ===== verification/Staking.thy ===== *)
theory Staking
  imports WalletApi
begin

text \<open>
  Services that ask the backend and fall back to local state: staking (services/staking.ts) and
  atomic swaps (services/atomicSwap.ts). \<open>allowFallback\<close> is an argument; a response of the
  backend is an error or the data, which may be undefined; a list or a number in it may be missing,
  a single position or offer in it is there.
\<close>

section \<open>Staking\<close>

datatype pool_status = PoolActive | PoolFull | PoolMaintenance
datatype position_status = Active | Unlocking | Unlocked

record StakingPool =
  pl_id :: string
  pl_name :: string
  validatorAddress :: string
  apy :: jsnum
  minStake :: jsnum
  lockPeriod :: int
  totalStaked :: jsnum
  stakerCount :: int
  pl_status :: pool_status

record StakingPosition =
  ps_id :: string
  ps_poolId :: string
  ps_amount :: jsnum
  stakedAt :: int
  unlocksAt :: int
  rewards :: jsnum
  autoCompound :: bool
  ps_status :: position_status

record stk_state =
  pools :: "StakingPool list"
  positions :: "StakingPosition list"

definition defaultPools :: "StakingPool list" where
  "defaultPools =
     [\<lparr>pl_id = ''flexible-pool'', pl_name = ''Flexible Pool'', validatorAddress = ''KC1validatorflex'', apy = 85 / 10,
       minStake = 1, lockPeriod = 0, totalStaked = 125000, stakerCount = 320, pl_status = PoolActive\<rparr>,
      \<lparr>pl_id = ''growth-pool'', pl_name = ''Growth Pool'', validatorAddress = ''KC1validatorgrowth'', apy = 122 / 10,
       minStake = 10, lockPeriod = 30, totalStaked = 540000, stakerCount = 1280, pl_status = PoolActive\<rparr>,
      \<lparr>pl_id = ''secure-pool'', pl_name = ''Secure Pool'', validatorAddress = ''KC1validatorsecure'', apy = 6,
       minStake = 5, lockPeriod = 90, totalStaked = 820000, stakerCount = 450, pl_status = PoolActive\<rparr>]"

definition getStakingPools :: "stk_state \<Rightarrow> StakingPool list" where
  "getStakingPools s = sort_desc apy (pools s)"

definition getPositions :: "stk_state \<Rightarrow> StakingPosition list" where
  "getPositions s = sort_desc stakedAt (positions s)"

definition refreshPools :: "bool \<Rightarrow> js_error + StakingPool list option option \<Rightarrow> (stk_state, StakingPool list) eff" where
  "refreshPools allow resp =
     ebind (with_fallback allow
              (ebind (api_data resp) (\<lambda>ps s. (Inr (), s\<lparr>pools := list_of ps\<rparr>)))
              (\<lambda>s. (Inr (), if pools s = [] then s\<lparr>pools := defaultPools\<rparr> else s)))
       (\<lambda>_ s. (Inr (getStakingPools s), s))"

definition refreshPositions ::
    "bool \<Rightarrow> js_error + StakingPosition list option option \<Rightarrow> (stk_state, StakingPosition list) eff" where
  "refreshPositions allow resp =
     ebind (with_fallback allow
              (ebind (api_data resp) (\<lambda>ps s. (Inr (), s\<lparr>positions := list_of ps\<rparr>)))
              (eret ()))
       (\<lambda>_ s. (Inr (getPositions s), s))"

definition put_position :: "StakingPosition \<Rightarrow> stk_state \<Rightarrow> stk_state" where
  "put_position p s = s\<lparr>positions := p # filter (\<lambda>q. ps_id q \<noteq> ps_id p) (positions s)\<rparr>"

definition msPerDay :: int where
  "msPerDay = 24 * 60 * 60 * 1000"

definition local_position :: "clock \<Rightarrow> string \<Rightarrow> string \<Rightarrow> jsnum \<Rightarrow> bool \<Rightarrow> stk_state \<Rightarrow> StakingPosition" where
  "local_position clk rnd pid amt auto' s =
     (let lockDays = (case List.find (\<lambda>p. pl_id p = pid) (pools s) of None \<Rightarrow> 0 | Some p \<Rightarrow> lockPeriod p)
      in \<lparr>ps_id = createId ''stake'' (clk 1) rnd, ps_poolId = pid, ps_amount = amt, stakedAt = clk 0,
          unlocksAt = clk 0 + lockDays * msPerDay, rewards = 0, autoCompound = auto', ps_status = Active\<rparr>)"

definition stake ::
    "bool \<Rightarrow> js_error + StakingPosition option \<Rightarrow> clock \<Rightarrow> string \<Rightarrow> string \<Rightarrow> jsnum \<Rightarrow> bool
     \<Rightarrow> (stk_state, StakingPosition) eff" where
  "stake allow resp clk rnd pid amt auto' =
     with_fallback allow
       (ebind (api_data resp) (\<lambda>p s. (Inr p, put_position p s)))
       (\<lambda>s. let p = local_position clk rnd pid amt auto' s
            in (Inr p, (put_position p s)\<lparr>pools := update_first (\<lambda>q. pl_id q = pid)
                  (\<lambda>q. q\<lparr>totalStaked := totalStaked q + amt, stakerCount := stakerCount q + 1\<rparr>) (pools s)\<rparr>))"

text \<open>\<open>post\<close> is the answer to the request itself, \<open>get\<close> that to the refresh after it.\<close>

definition unstake ::
    "bool \<Rightarrow> js_error + unit option \<Rightarrow> js_error + StakingPosition list option option \<Rightarrow> string \<Rightarrow> (stk_state, unit) eff" where
  "unstake allow post get i =
     with_fallback allow
       (ebind (eresult post) (\<lambda>_. ebind (refreshPositions allow get) (\<lambda>_. eret ())))
       (\<lambda>s. (Inr (), s\<lparr>positions := update_first (\<lambda>p. ps_id p = i) (\<lambda>p. p\<lparr>ps_status := Unlocked\<rparr>) (positions s)\<rparr>))"

definition reward_at :: "int \<Rightarrow> StakingPool \<Rightarrow> StakingPosition \<Rightarrow> jsnum" where
  "reward_at now pool p = ps_amount p * apy pool / 100 / 365 * (of_int (now - stakedAt p) / of_int msPerDay)"

definition calculateRewards :: "int \<Rightarrow> string \<Rightarrow> stk_state \<Rightarrow> jsnum \<times> stk_state" where
  "calculateRewards now i s =
     (case List.find (\<lambda>p. ps_id p = i) (positions s) of
        None \<Rightarrow> (0, s)
      | Some p \<Rightarrow>
          (case List.find (\<lambda>q. pl_id q = ps_poolId p) (pools s) of
             None \<Rightarrow> (0, s)
           | Some pool \<Rightarrow>
               let r = reward_at now pool p
               in (r, s\<lparr>positions := update_first (\<lambda>p. ps_id p = i) (\<lambda>p. p\<lparr>rewards := r\<rparr>) (positions s)\<rparr>)))"

text \<open>The field of the response is read after the refresh.\<close>

definition claimRewards ::
    "bool \<Rightarrow> js_error + jsnum option option \<Rightarrow> js_error + StakingPosition list option option \<Rightarrow> string
     \<Rightarrow> (stk_state, jsnum) eff" where
  "claimRewards allow post get i =
     with_fallback allow
       (ebind (eresult post) (\<lambda>d. ebind (refreshPositions allow get) (\<lambda>_.
          ebind (defined d) (\<lambda>x. eret (case x of None \<Rightarrow> 0 | Some r \<Rightarrow> r)))))
       (\<lambda>s. (Inr (case List.find (\<lambda>p. ps_id p = i) (positions s) of None \<Rightarrow> 0 | Some p \<Rightarrow> rewards p),
             s\<lparr>positions := update_first (\<lambda>p. ps_id p = i) (\<lambda>p. p\<lparr>rewards := 0\<rparr>) (positions s)\<rparr>))"

definition getTotalStaked :: "stk_state \<Rightarrow> jsnum" where
  "getTotalStaked s = sum_by ps_amount (positions s)"

text \<open>The positions are visited by index; each visit recalculates and then reads the position.\<close>

definition getTotalRewards :: "clock \<Rightarrow> stk_state \<Rightarrow> jsnum \<times> stk_state" where
  "getTotalRewards clk s =
     fold (\<lambda>j (sum, s). let s' = snd (calculateRewards (clk j) (ps_id (positions s ! j)) s)
                        in (sum + rewards (positions s' ! j), s')) [0..<length (positions s)] (0, s)"

section \<open>Atomic swaps\<close>

datatype swap_status = Open | Pending | Completed | Expired | Cancelled

record SwapOffer =
  of_id :: string
  offeredCurrency :: string
  offeredAmount :: jsnum
  requestedCurrency :: string
  requestedAmount :: jsnum
  exchangeRate :: jsnum
  creatorAddress :: string
  of_status :: swap_status
  of_createdAt :: int
  of_expiresAt :: int
  htlcHash :: "string option"
  htlcSecret :: "string option"
  acceptedBy :: "string option"
  completedAt :: "int option"

record swap_state =
  offers :: "SwapOffer list"
  exchangeRates :: "(string, jsnum) jsmap"

definition getSwapOffers :: "swap_status option \<Rightarrow> string option \<Rightarrow> swap_state \<Rightarrow> SwapOffer list" where
  "getSwapOffers st cur s =
     (let r = (case st of None \<Rightarrow> offers s | Some x \<Rightarrow> filter (\<lambda>p. of_status p = x) (offers s));
          r = (if truthy_string cur
               then filter (\<lambda>p. offeredCurrency p = the cur \<or> requestedCurrency p = the cur) r else r)
      in sort_desc of_createdAt r)"

definition refreshOffers :: "bool \<Rightarrow> js_error + SwapOffer list option option \<Rightarrow> (swap_state, SwapOffer list) eff" where
  "refreshOffers allow resp =
     ebind (with_fallback allow
              (ebind (api_data resp) (\<lambda>xs s. (Inr (), s\<lparr>offers := list_of xs\<rparr>)))
              (eret ()))
       (\<lambda>_ s. (Inr (getSwapOffers None None s), s))"

definition rate_key :: "string \<Rightarrow> string \<Rightarrow> string" where
  "rate_key a b = a @ ''_'' @ b"

definition refreshRates :: "bool \<Rightarrow> js_error + jsnum option option \<Rightarrow> string \<Rightarrow> string \<Rightarrow> (swap_state, jsnum) eff" where
  "refreshRates allow resp a b =
     ebind (with_fallback allow
              (ebind (api_data resp) (\<lambda>r s. (Inr (),
                 s\<lparr>exchangeRates := AList.update (rate_key a b) (case r of None \<Rightarrow> 0 | Some x \<Rightarrow> x) (exchangeRates s)\<rparr>)))
              (\<lambda>s. (Inr (), if map_of (exchangeRates s) (rate_key a b) = None
                            then s\<lparr>exchangeRates := AList.update (rate_key a b) (1 / 10000) (exchangeRates s)\<rparr> else s)))
       (\<lambda>_ s. (Inr (case map_of (exchangeRates s) (rate_key a b) of None \<Rightarrow> 0 | Some x \<Rightarrow> x), s))"

definition put_offer :: "SwapOffer \<Rightarrow> swap_state \<Rightarrow> swap_state" where
  "put_offer x s = s\<lparr>offers := x # filter (\<lambda>y. of_id y \<noteq> of_id x) (offers s)\<rparr>"

text \<open>A rate for a zero amount offered is not a number; the model divides by zero to zero.\<close>

definition createSwapOffer ::
    "bool \<Rightarrow> js_error + SwapOffer option \<Rightarrow> clock \<Rightarrow> string \<Rightarrow> string \<Rightarrow> jsnum \<Rightarrow> string \<Rightarrow> jsnum \<Rightarrow> string
     \<Rightarrow> (swap_state, SwapOffer) eff" where
  "createSwapOffer allow resp clk rnd oc oa rc ra creator =
     with_fallback allow
       (ebind (api_data resp) (\<lambda>x s. (Inr x, put_offer x s)))
       (\<lambda>s. let x = \<lparr>of_id = createId ''swap'' (clk 0) rnd, offeredCurrency = oc, offeredAmount = oa,
                  requestedCurrency = rc, requestedAmount = ra, exchangeRate = ra / oa, creatorAddress = creator,
                  of_status = Open, of_createdAt = clk 1, of_expiresAt = clk 2 + 24 * 60 * 60 * 1000, htlcHash = None,
                  htlcSecret = None, acceptedBy = None, completedAt = None\<rparr>
            in (Inr x, put_offer x s))"

definition change_offer :: "string \<Rightarrow> (SwapOffer \<Rightarrow> SwapOffer) \<Rightarrow> (swap_state, unit) eff" where
  "change_offer i f s = (Inr (), s\<lparr>offers := update_first (\<lambda>x. of_id x = i) f (offers s)\<rparr>)"

definition post_and_refresh ::
    "bool \<Rightarrow> js_error + unit option \<Rightarrow> js_error + SwapOffer list option option \<Rightarrow> (swap_state, unit) eff" where
  "post_and_refresh allow post get = ebind (eresult post) (\<lambda>_. ebind (refreshOffers allow get) (\<lambda>_. eret ()))"

definition acceptSwapOffer where
  "acceptSwapOffer allow post get i acceptor =
     with_fallback allow (post_and_refresh allow post get)
       (change_offer i (\<lambda>x. x\<lparr>of_status := Pending, acceptedBy := Some acceptor\<rparr>))"

text \<open>The request of \<open>completeSwap\<close> goes to the same address as that of \<open>acceptSwapOffer\<close>.\<close>

definition completeSwap where
  "completeSwap allow post get clk i =
     with_fallback allow (post_and_refresh allow post get)
       (change_offer i (\<lambda>x. x\<lparr>of_status := Completed, completedAt := Some (clk (0 :: nat))\<rparr>))"

definition cancelSwapOffer where
  "cancelSwapOffer allow post get i =
     with_fallback allow (post_and_refresh allow post get) (change_offer i (\<lambda>x. x\<lparr>of_status := Cancelled\<rparr>))"

definition getExchangeRate :: "string \<Rightarrow> string \<Rightarrow> swap_state \<Rightarrow> jsnum" where
  "getExchangeRate a b s = (case map_of (exchangeRates s) (rate_key a b) of None \<Rightarrow> 0 | Some x \<Rightarrow> x)"

section \<open>With fallbacks allowed nothing throws\<close>

lemma never_throws_local [intro]: "never_throws (\<lambda>s. (Inr (f s), g s))"
  by (simp add: never_throws_def)

lemma never_throws_refresh:
  "never_throws (refreshPools True r1)" "never_throws (refreshPositions True r2)" "never_throws (refreshOffers True r3)"
  "never_throws (refreshRates True r4 a b)"
  unfolding refreshPools_def refreshPositions_def refreshOffers_def refreshRates_def
  by (intro never_throws_bind never_throws_fallback never_throws_local never_throws_ret)+

lemma never_throws_change [intro]: "never_throws (change_offer i f)"
  by (simp add: never_throws_def change_offer_def)

text \<open>
  With fallbacks allowed, no operation of the staking and swap services throws, whatever the
  backend answers: an error, nothing, or data without the expected list or number.
\<close>

theorem fallbacks_never_throw:
  "never_throws (refreshPools True r1) \<and> never_throws (refreshPositions True r2) \<and>
   never_throws (stake True r3 clk rnd pid amt ac) \<and> never_throws (unstake True r4 r2 i) \<and>
   never_throws (claimRewards True r5 r2 i) \<and> never_throws (refreshOffers True r6) \<and>
   never_throws (refreshRates True r7 a b) \<and> never_throws (createSwapOffer True r8 clk rnd oc oa rc ra cr) \<and>
   never_throws (acceptSwapOffer True r4 r6 i a) \<and> never_throws (completeSwap True r4 r6 clk i) \<and>
   never_throws (cancelSwapOffer True r4 r6 i)"
  unfolding stake_def unstake_def claimRewards_def createSwapOffer_def acceptSwapOffer_def completeSwap_def
    cancelSwapOffer_def Let_def
  by (intro conjI never_throws_refresh never_throws_fallback never_throws_local never_throws_change)

section \<open>Amounts staked and rewards\<close>

text \<open>Staking locally adds the amount to what is staked, under a fresh identifier.\<close>

lemma stake_adds:
  assumes "\<And>p. p \<in> set (positions s) \<Longrightarrow> ps_id p \<noteq> createId ''stake'' (clk 1) rnd"
    and "stake True (Inl e) clk rnd pid amt ac s = (Inr p, s')"
  shows "positions s' = p # positions s" "getTotalStaked s' = amt + getTotalStaked s" "ps_status p = Active"
proof -
  have "filter (\<lambda>q. ps_id q \<noteq> createId ''stake'' (clk 1) rnd) (positions s) = positions s"
    using assms(1) by (auto simp: filter_id_conv)
  then show "positions s' = p # positions s" "getTotalStaked s' = amt + getTotalStaked s" "ps_status p = Active"
    using assms(2) by (auto simp: stake_def put_position_def local_position_def Let_def
        getTotalStaked_def)
qed

text \<open>
  Unstaking locally unlocks a position at once: the end of its lock is not looked at, and no
  clock is read.
\<close>

lemma unstake_ignores_lock:
  assumes "positions s = [p]"
  shows "unstake True (Inl e) r (ps_id p) s = (Inr (), s\<lparr>positions := [p\<lparr>ps_status := Unlocked\<rparr>]\<rparr>)"
  using assms by (simp add: unstake_def)

text \<open>
  Claiming resets the rewards of a position but not the time from which they are counted: the
  next calculation gives the whole reward since the stake again.
\<close>

lemma rewards_claimed_twice:
  assumes "positions s = [p]" "pools s = [q]" "pl_id q = ps_poolId p"
  shows "fst (calculateRewards t (ps_id p) (snd (claimRewards True (Inl e) r (ps_id p) s))) = reward_at t q p"
    and "fst (calculateRewards t (ps_id p) s) = reward_at t q p"
  using assms by (simp_all add: claimRewards_def calculateRewards_def reward_at_def Let_def)

text \<open>No local transition of an offer looks at its status: a completed swap can be cancelled.\<close>

lemma completed_swap_cancelled:
  assumes "offers s = [x]"
  shows "offers (snd (cancelSwapOffer True (Inl e) r (of_id x) (snd (completeSwap True (Inl e) r clk (of_id x) s)))) =
    [x\<lparr>of_status := Cancelled, completedAt := Some (clk 0)\<rparr>]"
  using assms by (simp add: cancelSwapOffer_def completeSwap_def post_and_refresh_def
      change_offer_def)

end
