(* ===== verification/MultiCurrency.thy ===== *)
theory MultiCurrency
  imports JsStore
begin

text \<open>
  Tokens of several currencies (services/multiCurrency.ts). The icon of a token, a text for
  display, is left out. A new token gets its identifier from the clock and a random text.
\<close>

record TokenData =
  td_symbol :: string
  td_name :: string
  td_decimals :: nat
  td_contractAddress :: "string option"
  td_priceUSD :: jsnum
  td_change24h :: jsnum
  td_chainId :: "int option"

record Token =
  tk_id :: string
  symbol :: string
  tk_name :: string
  decimals :: nat
  contractAddress :: "string option"
  tk_balance :: jsnum
  balanceUSD :: jsnum
  priceUSD :: jsnum
  change24h :: jsnum
  chainId :: "int option"

record tok_state =
  tokens :: "(string, Token) jsmap"
  tokens_item :: "Token list item"
  in_browser :: bool

section \<open>Operations\<close>

definition loadTokens :: "bool \<Rightarrow> Token list item \<Rightarrow> tok_state" where
  "loadTokens br i =
     \<lparr>tokens = (if br then load_values tk_id (parse_item_or [] i) else []), tokens_item = i, in_browser = br\<rparr>"

definition saveTokens :: "tok_state \<Rightarrow> tok_state" where
  "saveTokens s = (if \<not> in_browser s then s else s\<lparr>tokens_item := Json (map snd (tokens s))\<rparr>)"

definition new_token :: "int \<Rightarrow> string \<Rightarrow> TokenData \<Rightarrow> Token" where
  "new_token now rnd d =
     \<lparr>tk_id = ''token_'' @ show_int now @ ''_'' @ rnd, symbol = td_symbol d, tk_name = td_name d, decimals = td_decimals d,
      contractAddress = td_contractAddress d, tk_balance = 0, balanceUSD = 0, priceUSD = td_priceUSD d,
      change24h = td_change24h d, chainId = td_chainId d\<rparr>"

definition addToken :: "int \<Rightarrow> string \<Rightarrow> TokenData \<Rightarrow> tok_state \<Rightarrow> Token \<times> tok_state" where
  "addToken now rnd d s =
     (let t = new_token now rnd d in (t, saveTokens (s\<lparr>tokens := AList.update (tk_id t) t (tokens s)\<rparr>)))"

definition default_tokens :: "TokenData list" where
  "default_tokens =
     [\<lparr>td_symbol = ''KC'', td_name = ''KuberCoin'', td_decimals = 8, td_contractAddress = None, td_priceUSD = 12550 / 100,
       td_change24h = 52 / 10, td_chainId = None\<rparr>,
      \<lparr>td_symbol = ''BTC'', td_name = ''Bitcoin'', td_decimals = 8, td_contractAddress = None, td_priceUSD = 45000,
       td_change24h = - 21 / 10, td_chainId = None\<rparr>,
      \<lparr>td_symbol = ''ETH'', td_name = ''Ethereum'', td_decimals = 18, td_contractAddress = None, td_priceUSD = 2500,
       td_change24h = 35 / 10, td_chainId = None\<rparr>]"

definition initializeDefaultTokens :: "clock \<Rightarrow> (nat \<Rightarrow> string) \<Rightarrow> tok_state \<Rightarrow> tok_state" where
  "initializeDefaultTokens clk rnd s =
     (if tokens s = [] then fold (\<lambda>(k, d) s. snd (addToken (clk k) (rnd k) d s)) (enumerate 0 default_tokens) s else s)"

definition new_MultiCurrency :: "bool \<Rightarrow> clock \<Rightarrow> (nat \<Rightarrow> string) \<Rightarrow> Token list item \<Rightarrow> tok_state" where
  "new_MultiCurrency br clk rnd i = initializeDefaultTokens clk rnd (loadTokens br i)"

definition getTokens :: "tok_state \<Rightarrow> Token list" where
  "getTokens s = sort_desc balanceUSD (map snd (tokens s))"

definition getToken :: "string \<Rightarrow> tok_state \<Rightarrow> Token option" where
  "getToken i s = map_of (tokens s) i"

definition updateTokenBalance :: "string \<Rightarrow> jsnum \<Rightarrow> (tok_state, unit) eff" where
  "updateTokenBalance i b s =
     (case map_of (tokens s) i of
        None \<Rightarrow> (Inl (Error ''Token not found''), s)
      | Some t \<Rightarrow> (Inr (), saveTokens (s\<lparr>tokens :=
          AList.update i (t\<lparr>tk_balance := b, balanceUSD := b * priceUSD t\<rparr>) (tokens s)\<rparr>)))"

definition removeToken :: "string \<Rightarrow> tok_state \<Rightarrow> tok_state" where
  "removeToken i s = saveTokens (s\<lparr>tokens := AList.delete i (tokens s)\<rparr>)"

definition getTotalPortfolioValue :: "tok_state \<Rightarrow> jsnum" where
  "getTotalPortfolioValue s = sum_by balanceUSD (map snd (tokens s))"

text \<open>A target price of zero gives Infinity; the model divides by zero to zero.\<close>

definition convertCurrency :: "jsnum \<Rightarrow> string \<Rightarrow> string \<Rightarrow> tok_state \<Rightarrow> js_error + jsnum" where
  "convertCurrency amt a b s =
     (case (List.find (\<lambda>t. symbol t = a) (map snd (tokens s)), List.find (\<lambda>t. symbol t = b) (map snd (tokens s))) of
        (Some x, Some y) \<Rightarrow> Inr (amt * priceUSD x / priceUSD y)
      | _ \<Rightarrow> Inl (Error ''Currency not found''))"

definition token_exists :: "TokenData \<Rightarrow> tok_state \<Rightarrow> bool" where
  "token_exists d s \<longleftrightarrow>
     list_ex (\<lambda>t. symbol t = td_symbol d \<and> contractAddress t = td_contractAddress d) (map snd (tokens s))"

definition import_token :: "int \<Rightarrow> string \<Rightarrow> TokenData \<Rightarrow> nat \<times> tok_state \<Rightarrow> nat \<times> tok_state" where
  "import_token now rnd d = (\<lambda>(n, s). if \<not> token_exists d s then (n + 1, snd (addToken now rnd d s)) else (n, s))"

definition importTokenList :: "clock \<Rightarrow> (nat \<Rightarrow> string) \<Rightarrow> TokenData list \<Rightarrow> tok_state \<Rightarrow> nat \<times> tok_state" where
  "importTokenList clk rnd ds s = fold (\<lambda>(k, d). import_token (clk k) (rnd k) d) (enumerate 0 ds) (0, s)"

section \<open>Dollar values follow balances, storage follows memory\<close>

datatype tok_op =
    AddToken int string TokenData
  | UpdateBalance string jsnum
  | RemoveToken string
  | ImportList clock "nat \<Rightarrow> string" "TokenData list"

fun tok_step :: "tok_op \<Rightarrow> tok_state \<Rightarrow> tok_state" where
  "tok_step (AddToken now rnd d) s = snd (addToken now rnd d s)"
| "tok_step (UpdateBalance i b) s = snd (updateTokenBalance i b s)"
| "tok_step (RemoveToken i) s = removeToken i s"
| "tok_step (ImportList clk rnd ds) s = snd (importTokenList clk rnd ds s)"

definition valued :: "Token \<Rightarrow> bool" where
  "valued t \<longleftrightarrow> balanceUSD t = tk_balance t * priceUSD t"

definition tok_inv :: "tok_state \<Rightarrow> bool" where
  "tok_inv s \<longleftrightarrow> in_browser s \<and> keyed tk_id (tokens s) \<and> all_values valued (tokens s) \<and> tokens_item s = Json (map snd (tokens s))"

lemma tok_inv_add: "tok_inv s \<Longrightarrow> tok_inv (snd (addToken now rnd d s))"
  by (auto simp: tok_inv_def addToken_def saveTokens_def Let_def new_token_def valued_def intro!: keyed_set all_values_set)

lemma tok_inv_import: "tok_inv (snd r) \<Longrightarrow> tok_inv (snd (fold (\<lambda>(k, d). import_token (clk k) (rnd k) d) es r))"
  by (induction es arbitrary: r) (auto simp: import_token_def tok_inv_add split: prod.splits)

lemma tok_step_inv: "tok_inv s \<Longrightarrow> tok_inv (tok_step op s)"
proof (cases op)
  case (UpdateBalance i b)
  assume "tok_inv s"
  with UpdateBalance show ?thesis
    by (auto simp: tok_inv_def updateTokenBalance_def saveTokens_def valued_def split: option.splits
        intro!: keyed_set all_values_set dest: keyed_get)
next
  case (RemoveToken i)
  assume "tok_inv s"
  with RemoveToken show ?thesis by (auto simp: tok_inv_def removeToken_def saveTokens_def)
qed (simp_all add: tok_inv_add importTokenList_def tok_inv_import)

text \<open>A reload with something stored builds no defaults.\<close>

lemma tok_reload_id:
  "tok_inv s \<Longrightarrow> tokens s \<noteq> [] \<Longrightarrow> new_MultiCurrency (in_browser s) clk rnd (tokens_item s) = s"
  by (auto simp: tok_inv_def new_MultiCurrency_def loadTokens_def initializeDefaultTokens_def load_values_inverse)

text \<open>
  In every run from a consistent state the dollar value of each token is its balance at its
  price, so the value of the portfolio is the sum of balances at prices; and a reload gives back
  the tokens as long as one is left.
\<close>

theorem portfolio_value_exact:
  assumes "tok_inv s"
  shows "let s' = fold tok_step ops s
    in getTotalPortfolioValue s' = (\<Sum>t\<leftarrow>map snd (tokens s'). tk_balance t * priceUSD t) \<and>
       (tokens s' = [] \<or> new_MultiCurrency True clk rnd (tokens_item s') = s')"
proof -
  have inv: "tok_inv (fold tok_step ops s)" using assms by (induction ops arbitrary: s) (auto intro: tok_step_inv)
  then have "\<And>t. t \<in> set (map snd (tokens (fold tok_step ops s))) \<Longrightarrow> balanceUSD t = tk_balance t * priceUSD t"
    by (auto simp: tok_inv_def all_values_def valued_def)
  then have "getTotalPortfolioValue (fold tok_step ops s) = (\<Sum>t\<leftarrow>map snd (tokens (fold tok_step ops s)). tk_balance t * priceUSD t)"
    unfolding getTotalPortfolioValue_def sum_by_sum_list by (metis (no_types, lifting) map_eq_conv)
  moreover have "in_browser (fold tok_step ops s)" using inv by (simp add: tok_inv_def)
  ultimately show ?thesis using tok_reload_id [OF inv, of clk rnd] by (auto simp: Let_def)
qed

theorem portfolio_value_exact_witness:
  "getTotalPortfolioValue (fold tok_step [UpdateBalance ''token_0_a'' 2]
     (snd (addToken 0 ''a'' (hd default_tokens) \<lparr>tokens = [], tokens_item = Json [], in_browser = True\<rparr>))) = 251"
proof -
  let ?s = "snd (addToken 0 ''a'' (hd default_tokens) \<lparr>tokens = [], tokens_item = Json [], in_browser = True\<rparr>)"
  let ?t = "new_token 0 ''a'' (hd default_tokens)"
  have i: "tk_id ?t = ''token_0_a''" by code_simp
  have "tok_inv ?s" by (rule tok_inv_add) (simp add: tok_inv_def)
  from portfolio_value_exact [OF this, of "[UpdateBalance ''token_0_a'' 2]"] i
  show ?thesis by (simp add: addToken_def updateTokenBalance_def saveTokens_def Let_def) (simp add: new_token_def default_tokens_def)
qed

section \<open>Conversion\<close>

text \<open>Converting there and back gives the amount, when both prices are set.\<close>

lemma convert_roundtrip:
  assumes "convertCurrency amt a b s = Inr x"
    and "\<And>t. t \<in> set (map snd (tokens s)) \<Longrightarrow> priceUSD t \<noteq> 0"
  shows "convertCurrency x b a s = Inr amt"
  using assms by (auto simp: convertCurrency_def split: option.splits dest!: find_SomeD)

text \<open>A list whose tokens are all there adds nothing.\<close>

definition covers :: "TokenData list \<Rightarrow> tok_state \<Rightarrow> bool" where
  "covers ds s \<longleftrightarrow> list_all (\<lambda>d. token_exists d s) ds"

lemma import_covered: "covers ds s \<Longrightarrow> importTokenList clk rnd ds s = (0, s)"
proof -
  have "list_all (\<lambda>(k, d). token_exists d s) es \<Longrightarrow>
      fold (\<lambda>(k, d). import_token (clk k) (rnd k) d) es (n, s) = (n, s)" for es n
    by (induction es) (auto simp: import_token_def)
  moreover assume "covers ds s"
  then have "list_all (\<lambda>(k, d). token_exists d s) (enumerate 0 ds)"
    by (auto simp: covers_def list_all_iff enumerate_eq_zip dest: set_zip_rightD)
  ultimately show ?thesis by (simp add: importTokenList_def)
qed

text \<open>Removing the last token brings the three defaults back at the next start.\<close>

lemma defaults_return:
  assumes "tokens s = [(i, t)]" and "in_browser s"
  shows "tokens (new_MultiCurrency True clk rnd (tokens_item (removeToken i s))) \<noteq> []"
  using assms by (simp add: removeToken_def saveTokens_def new_MultiCurrency_def loadTokens_def load_values_def
      initializeDefaultTokens_def default_tokens_def addToken_def Let_def AList.delete_eq)

end
