(* ===== verification/DeFi.thy ===== *)
theory DeFi
  imports JsStore
begin

text \<open>
  Decentralised finance (services/defi.ts): lending, borrowing and liquidity positions and the
  pools, four \<open>Map\<close>s saved together under four keys. Pools only come from storage. Amounts that
  are divided by are not zero and products under a root are not negative: JavaScript's infinities
  and NaN are not modelled here.
\<close>

section \<open>Data\<close>

datatype lending_status = LendActive | Withdrawn
datatype borrow_status = BorrowActive | Repaid | Liquidated

record LendingPosition =
  le_id :: string
  le_protocol :: string
  le_asset :: string
  le_amount :: jsnum
  le_apy :: jsnum
  le_startDate :: int
  le_interestEarned :: jsnum
  le_status :: lending_status

record BorrowPosition =
  bo_id :: string
  bo_protocol :: string
  bo_borrowedAsset :: string
  bo_borrowedAmount :: jsnum
  bo_collateralAsset :: string
  bo_collateralAmount :: jsnum
  bo_interestRate :: jsnum
  bo_liquidationPrice :: jsnum
  bo_healthFactor :: jsnum
  bo_startDate :: int
  bo_status :: borrow_status

record LiquidityPool =
  po_id :: string
  po_protocol :: string
  po_name :: string
  po_token0 :: string
  po_token1 :: string
  po_token0Reserve :: jsnum
  po_token1Reserve :: jsnum
  po_apy :: jsnum
  po_totalValueLocked :: jsnum

record LiquidityPosition =
  lq_id :: string
  lq_poolId :: string
  lq_token0Amount :: jsnum
  lq_token1Amount :: jsnum
  lq_lpTokens :: jsnum
  lq_addedAt :: int
  lq_feesEarned :: jsnum

record df_state =
  lendingPositions :: "(string, LendingPosition) jsmap"
  borrowPositions :: "(string, BorrowPosition) jsmap"
  liquidityPools :: "(string, LiquidityPool) jsmap"
  liquidityPositions :: "(string, LiquidityPosition) jsmap"
  lending_item :: "LendingPosition list item"
  borrow_item :: "BorrowPosition list item"
  pools_item :: "LiquidityPool list item"
  liquidity_item :: "LiquidityPosition list item"

section \<open>Storage\<close>

text \<open>
  The four items are read in order under one \<open>try\<close>: an unreadable one stops the reading, and what
  was read before it stays.
\<close>

definition load_lending :: "(df_state, unit) eff" where
  "load_lending s =
     (case parse_item [] (lending_item s) of Inl e \<Rightarrow> (Inl e, s)
      | Inr ps \<Rightarrow> (Inr (), s\<lparr>lendingPositions := load_values le_id ps\<rparr>))"

definition load_borrow :: "(df_state, unit) eff" where
  "load_borrow s =
     (case parse_item [] (borrow_item s) of Inl e \<Rightarrow> (Inl e, s)
      | Inr ps \<Rightarrow> (Inr (), s\<lparr>borrowPositions := load_values bo_id ps\<rparr>))"

definition load_pools :: "(df_state, unit) eff" where
  "load_pools s =
     (case parse_item [] (pools_item s) of Inl e \<Rightarrow> (Inl e, s)
      | Inr ps \<Rightarrow> (Inr (), s\<lparr>liquidityPools := load_values po_id ps\<rparr>))"

definition load_liquidity :: "(df_state, unit) eff" where
  "load_liquidity s =
     (case parse_item [] (liquidity_item s) of Inl e \<Rightarrow> (Inl e, s)
      | Inr ps \<Rightarrow> (Inr (), s\<lparr>liquidityPositions := load_values lq_id ps\<rparr>))"

definition loadData :: "df_state \<Rightarrow> df_state" where
  "loadData s =
     snd (ecatch (ebind load_lending (\<lambda>_. ebind load_borrow (\<lambda>_. ebind load_pools (\<lambda>_. load_liquidity)))) (\<lambda>_. eret ()) s)"

definition new_DeFi ::
    "LendingPosition list item \<Rightarrow> BorrowPosition list item \<Rightarrow> LiquidityPool list item \<Rightarrow> LiquidityPosition list item \<Rightarrow> df_state" where
  "new_DeFi l b p q =
     loadData \<lparr>lendingPositions = [], borrowPositions = [], liquidityPools = [], liquidityPositions = [],
       lending_item = l, borrow_item = b, pools_item = p, liquidity_item = q\<rparr>"

definition saveData :: "df_state \<Rightarrow> df_state" where
  "saveData s =
     s\<lparr>lending_item := Json (map snd (lendingPositions s)), borrow_item := Json (map snd (borrowPositions s)),
       pools_item := Json (map snd (liquidityPools s)), liquidity_item := Json (map snd (liquidityPositions s))\<rparr>"

section \<open>Lending and borrowing\<close>

definition fresh_id :: "string \<Rightarrow> clock \<Rightarrow> string \<Rightarrow> string" where
  "fresh_id p clk rnd = p @ show_int (clk 0) @ ''_'' @ rnd"

definition lend :: "clock \<Rightarrow> string \<Rightarrow> string \<Rightarrow> string \<Rightarrow> jsnum \<Rightarrow> jsnum \<Rightarrow> df_state \<Rightarrow> LendingPosition \<times> df_state" where
  "lend clk rnd protocol asset amount apy s =
     (let p = \<lparr>le_id = fresh_id ''lend_'' clk rnd, le_protocol = protocol, le_asset = asset, le_amount = amount,
            le_apy = apy, le_startDate = clk 1, le_interestEarned = 0, le_status = LendActive\<rparr>
      in (p, saveData (s\<lparr>lendingPositions := AList.update (le_id p) p (lendingPositions s)\<rparr>)))"

definition getLendingPositions :: "df_state \<Rightarrow> LendingPosition list" where
  "getLendingPositions s = sort_desc le_startDate (map snd (lendingPositions s))"

definition accrued :: "jsnum \<Rightarrow> jsnum \<Rightarrow> int \<Rightarrow> int \<Rightarrow> jsnum" where
  "accrued base_amount apy start now =
     (let days = of_int (now - start) / (24 * 60 * 60 * 1000)
      in base_amount * apy / 100 / 365 * days)"

definition calculateLendingInterest :: "clock \<Rightarrow> string \<Rightarrow> df_state \<Rightarrow> jsnum \<times> df_state" where
  "calculateLendingInterest clk i s =
     (case map_of (lendingPositions s) i of
        None \<Rightarrow> (0, s)
      | Some p \<Rightarrow>
          let interest = accrued (le_amount p) (le_apy p) (le_startDate p) (clk 0)
          in (interest, saveData (s\<lparr>lendingPositions := AList.update i (p\<lparr>le_interestEarned := interest\<rparr>) (lendingPositions s)\<rparr>)))"

definition borrow ::
    "clock \<Rightarrow> string \<Rightarrow> string \<Rightarrow> string \<Rightarrow> jsnum \<Rightarrow> string \<Rightarrow> jsnum \<Rightarrow> jsnum \<Rightarrow> df_state \<Rightarrow> BorrowPosition \<times> df_state" where
  "borrow clk rnd protocol asset amount collateral coll_amount rate s =
     (let p = \<lparr>bo_id = fresh_id ''borrow_'' clk rnd, bo_protocol = protocol, bo_borrowedAsset = asset,
            bo_borrowedAmount = amount, bo_collateralAsset = collateral, bo_collateralAmount = coll_amount,
            bo_interestRate = rate, bo_liquidationPrice = amount * (3 / 2) / coll_amount,
            bo_healthFactor = coll_amount * (3 / 4) / amount, bo_startDate = clk 1, bo_status = BorrowActive\<rparr>
      in (p, saveData (s\<lparr>borrowPositions := AList.update (bo_id p) p (borrowPositions s)\<rparr>)))"

definition getBorrowPositions :: "df_state \<Rightarrow> BorrowPosition list" where
  "getBorrowPositions s = sort_desc bo_startDate (map snd (borrowPositions s))"

section \<open>Liquidity\<close>

definition getLiquidityPools :: "df_state \<Rightarrow> LiquidityPool list" where
  "getLiquidityPools s = sort_desc po_apy (map snd (liquidityPools s))"

definition addLiquidity :: "clock \<Rightarrow> string \<Rightarrow> string \<Rightarrow> jsnum \<Rightarrow> jsnum \<Rightarrow> (df_state, LiquidityPosition) eff" where
  "addLiquidity clk rnd pid a b s =
     (case map_of (liquidityPools s) pid of
        None \<Rightarrow> (Inl (Error ''Pool not found''), s)
      | Some pool \<Rightarrow>
          let q = \<lparr>lq_id = fresh_id ''liq_'' clk rnd, lq_poolId = pid, lq_token0Amount = a, lq_token1Amount = b,
                lq_lpTokens = sqrt (a * b), lq_addedAt = clk 1, lq_feesEarned = 0\<rparr>;
              pool' = pool\<lparr>po_token0Reserve := po_token0Reserve pool + a, po_token1Reserve := po_token1Reserve pool + b\<rparr>
          in (Inr q, saveData (s\<lparr>liquidityPools := AList.update pid pool' (liquidityPools s),
                liquidityPositions := AList.update (lq_id q) q (liquidityPositions s)\<rparr>)))"

definition getLiquidityPositions :: "df_state \<Rightarrow> LiquidityPosition list" where
  "getLiquidityPositions s = sort_desc lq_addedAt (map snd (liquidityPositions s))"

definition calculateLiquidityFees :: "clock \<Rightarrow> string \<Rightarrow> df_state \<Rightarrow> jsnum \<times> df_state" where
  "calculateLiquidityFees clk i s =
     (case map_of (liquidityPositions s) i of
        None \<Rightarrow> (0, s)
      | Some q \<Rightarrow>
          (case map_of (liquidityPools s) (lq_poolId q) of
             None \<Rightarrow> (0, s)
           | Some pool \<Rightarrow>
               let fees = accrued (lq_lpTokens q) (po_apy pool) (lq_addedAt q) (clk 0)
               in (fees, saveData (s\<lparr>liquidityPositions := AList.update i (q\<lparr>lq_feesEarned := fees\<rparr>) (liquidityPositions s)\<rparr>))))"

datatype df_op =
    Lend clock string string string jsnum jsnum
  | Interest clock string
  | Borrow clock string string string jsnum string jsnum jsnum
  | AddLiquidity clock string string jsnum jsnum
  | Fees clock string

fun df_step :: "df_op \<Rightarrow> df_state \<Rightarrow> df_state" where
  "df_step (Lend clk rnd p a x y) s = snd (lend clk rnd p a x y s)"
| "df_step (Interest clk i) s = snd (calculateLendingInterest clk i s)"
| "df_step (Borrow clk rnd p a x c y r) s = snd (borrow clk rnd p a x c y r s)"
| "df_step (AddLiquidity clk rnd p x y) s = snd (addLiquidity clk rnd p x y s)"
| "df_step (Fees clk i) s = snd (calculateLiquidityFees clk i s)"

section \<open>Storage is written through\<close>

definition df_keyed :: "df_state \<Rightarrow> bool" where
  "df_keyed s \<longleftrightarrow> keyed le_id (lendingPositions s) \<and> keyed bo_id (borrowPositions s) \<and>
     keyed po_id (liquidityPools s) \<and> keyed lq_id (liquidityPositions s)"

definition df_synced :: "df_state \<Rightarrow> bool" where
  "df_synced s \<longleftrightarrow> in_sync (lendingPositions s) (lending_item s) \<and> in_sync (borrowPositions s) (borrow_item s) \<and>
     in_sync (liquidityPools s) (pools_item s) \<and> in_sync (liquidityPositions s) (liquidity_item s)"

definition df_inv :: "df_state \<Rightarrow> bool" where
  "df_inv s \<longleftrightarrow> df_keyed s \<and> df_synced s"

definition df_reload :: "df_state \<Rightarrow> df_state" where
  "df_reload s = new_DeFi (lending_item s) (borrow_item s) (pools_item s) (liquidity_item s)"

lemma df_inv_saved: "df_keyed s \<Longrightarrow> df_inv (saveData s)"
  by (simp add: df_inv_def df_keyed_def df_synced_def saveData_def)

lemma df_step_inv: "df_inv s \<Longrightarrow> df_inv (df_step op s)"
  by (cases op; auto simp: lend_def borrow_def addLiquidity_def calculateLendingInterest_def calculateLiquidityFees_def Let_def
      df_inv_def [of s] df_keyed_def split: option.splits intro!: df_inv_saved [unfolded df_keyed_def] keyed_set)
    (metis keyed_get)+

lemma in_sync_readable: "in_sync m i \<Longrightarrow> parse_item [] i = Inr (map snd m)"
  by (auto simp: in_sync_def)

lemma df_reload_id:
  assumes "df_inv s"
  shows "df_reload s = s"
proof -
  have "parse_item [] (lending_item s) = Inr (map snd (lendingPositions s))" "parse_item [] (borrow_item s) = Inr (map snd (borrowPositions s))"
      "parse_item [] (pools_item s) = Inr (map snd (liquidityPools s))" "parse_item [] (liquidity_item s) = Inr (map snd (liquidityPositions s))"
    using assms by (simp_all add: df_inv_def df_synced_def df_keyed_def in_sync_readable)
  with assms show ?thesis
    by (simp add: df_reload_def new_DeFi_def loadData_def load_lending_def load_borrow_def load_pools_def load_liquidity_def
        ecatch_def ebind_def df_inv_def df_keyed_def load_values_inverse)
qed

interpretation df: write_through df_step df_reload df_inv
  by unfold_locales (auto simp: df_step_inv df_reload_id)

section \<open>Pools are backed by positions\<close>

text \<open>What a pool holds beyond the positions in it: what was there before the positions were added.\<close>

definition held :: "(LiquidityPosition \<Rightarrow> jsnum) \<Rightarrow> string \<Rightarrow> df_state \<Rightarrow> jsnum" where
  "held f pid s = sum_by f (filter (\<lambda>q. lq_poolId q = pid) (map snd (liquidityPositions s)))"

definition surplus0 :: "string \<Rightarrow> df_state \<Rightarrow> jsnum option" where
  "surplus0 pid s = map_option (\<lambda>p. po_token0Reserve p - held lq_token0Amount pid s) (map_of (liquidityPools s) pid)"

definition surplus1 :: "string \<Rightarrow> df_state \<Rightarrow> jsnum option" where
  "surplus1 pid s = map_option (\<lambda>p. po_token1Reserve p - held lq_token1Amount pid s) (map_of (liquidityPools s) pid)"

text \<open>The random part of a new position's identifier was not drawn before.\<close>

fun fresh_op :: "df_op \<Rightarrow> df_state \<Rightarrow> bool" where
  "fresh_op (AddLiquidity clk rnd p x y) s = (map_of (liquidityPositions s) (fresh_id ''liq_'' clk rnd) = None)"
| "fresh_op _ s = True"

fun fresh_run :: "df_op list \<Rightarrow> df_state \<Rightarrow> bool" where
  "fresh_run [] s = True"
| "fresh_run (op # ops) s = (fresh_op op s \<and> fresh_run ops (df_step op s))"

lemma sum_by_filter_update:
  assumes "map_of m k = Some w" and "f v = f w" and "P v = P w"
  shows "sum_by f (filter P (map snd (AList.update k v m))) = sum_by f (filter P (map snd m))"
  using assms by (induction m) (auto split: if_splits)

lemma add_keeps_surplus:
  assumes "map_of (liquidityPositions s) (fresh_id ''liq_'' clk rnd) = None"
  shows "surplus0 pid (snd (addLiquidity clk rnd p x y s)) = surplus0 pid s"
    "surplus1 pid (snd (addLiquidity clk rnd p x y s)) = surplus1 pid s"
  using assms
  by (auto simp: addLiquidity_def surplus0_def surplus1_def held_def saveData_def jsmap_set_fresh Let_def split: option.splits)

lemma step_keeps_surplus:
  assumes "fresh_op op s"
  shows "surplus0 pid (df_step op s) = surplus0 pid s" "surplus1 pid (df_step op s) = surplus1 pid s"
proof (atomize (full), cases op)
  case (Fees clk i)
  then show "surplus0 pid (df_step op s) = surplus0 pid s \<and> surplus1 pid (df_step op s) = surplus1 pid s"
    by (auto simp: calculateLiquidityFees_def surplus0_def surplus1_def held_def saveData_def sum_by_filter_update Let_def
        split: option.splits)
next
  case (AddLiquidity clk rnd p x y)
  with assms add_keeps_surplus show "surplus0 pid (df_step op s) = surplus0 pid s \<and> surplus1 pid (df_step op s) = surplus1 pid s"
    by simp
qed (auto simp: lend_def borrow_def calculateLendingInterest_def surplus0_def surplus1_def held_def saveData_def Let_def
    split: option.splits)

text \<open>
  In every run that draws fresh identifiers a pool's reserves are what it held at the start
  plus the amounts of exactly the positions added to it: reserves and positions never drift apart,
  whatever interest and fees are calculated in between.
\<close>

theorem reserves_follow_positions:
  assumes "fresh_run ops s"
  shows "surplus0 pid (fold df_step ops s) = surplus0 pid s \<and> surplus1 pid (fold df_step ops s) = surplus1 pid s"
  using assms by (induction ops arbitrary: s) (simp_all add: step_keeps_surplus)

definition demo_pool :: LiquidityPool where
  "demo_pool = \<lparr>po_id = ''p'', po_protocol = ''x'', po_name = ''n'', po_token0 = ''KC'', po_token1 = ''USD'',
     po_token0Reserve = 100, po_token1Reserve = 50, po_apy = 5, po_totalValueLocked = 150\<rparr>"

theorem reserves_follow_positions_witness:
  "surplus0 ''p'' (fold df_step [AddLiquidity (\<lambda>_. 1) ''a'' ''p'' 4 9, Fees (\<lambda>_. 5) ''liq_1_a'', AddLiquidity (\<lambda>_. 1) ''b'' ''p'' 1 1]
     (new_DeFi Absent Absent (Json [demo_pool]) Absent)) = Some 100"
proof -
  let ?s = "new_DeFi Absent Absent (Json [demo_pool]) Absent"
  let ?ops = "[AddLiquidity (\<lambda>_. 1) ''a'' ''p'' 4 9, Fees (\<lambda>_. 5) ''liq_1_a'', AddLiquidity (\<lambda>_. 1) ''b'' ''p'' 1 1]"
  have s: "liquidityPositions ?s = []" "liquidityPools ?s = [(''p'', demo_pool)]"
    by (simp_all add: new_DeFi_def loadData_def load_lending_def load_borrow_def load_pools_def load_liquidity_def
        ecatch_def ebind_def load_values_def demo_pool_def)
  have i: "fresh_id ''liq_'' (\<lambda>_. 1) ''a'' \<noteq> fresh_id ''liq_'' (\<lambda>_. 1) ''b''" by (simp add: fresh_id_def)
  have "fresh_run ?ops ?s"
    using s i by (auto simp: addLiquidity_def calculateLiquidityFees_def saveData_def Let_def split: option.splits)
  from reserves_follow_positions [OF this] s show ?thesis by (simp add: surplus0_def held_def demo_pool_def)
qed

section \<open>What goes wrong\<close>

text \<open>
  An item that cannot be read stops the loading of the ones after it, and the next save overwrites
  them: with an unreadable lending item all borrow positions, pools and liquidity positions are lost.
\<close>

lemma unreadable_item_loses_rest:
  assumes "t \<noteq> []"
  shows "pools_item (snd (lend clk rnd p a x y (new_DeFi (Garbled t) b ps q))) = Json [] \<and>
    liquidity_item (snd (lend clk rnd p a x y (new_DeFi (Garbled t) b ps q))) = Json [] \<and>
    borrow_item (snd (lend clk rnd p a x y (new_DeFi (Garbled t) b ps q))) = Json []"
  using assms
  by (simp add: new_DeFi_def loadData_def load_lending_def ecatch_def ebind_def eret_def lend_def saveData_def Let_def)

text \<open>Interest is linear in time and recalculation does not compound.\<close>

lemma interest_idempotent:
  assumes "map_of (lendingPositions s) i \<noteq> None"
  shows "fst (calculateLendingInterest clk i (snd (calculateLendingInterest clk' i s))) = fst (calculateLendingInterest clk i s)"
  using assms by (auto simp: calculateLendingInterest_def saveData_def Let_def)

end
