(* ===== verification/Nft.thy ===== *)
theory Nft
  imports JsStore "HOL-Library.Char_ord" "HOL-Library.List_Lexorder"
begin

text \<open>
  Tokens: the NFT manager (services/nftManager.ts) with its storage, the NFT service
  (services/nftService.ts), whose collections nothing fills, and the metadata helpers
  (services/nftMetadata.ts). \<open>show_num\<close> prints a number; characters outside the first 256 code
  points stand as their UTF-8 bytes.
\<close>

section \<open>The manager\<close>

datatype rarity = Common | Uncommon | Rare | Epic | Legendary

record trait =
  trait_type :: string
  trait_value :: string

record NFT =
  nf_id :: string
  nf_tokenId :: string
  nf_name :: string
  nf_description :: string
  nf_collection :: string
  nf_image :: string
  nf_owner :: string
  nf_creator :: string
  nf_rarity :: rarity
  nf_attributes :: "trait list"
  nf_mintedAt :: int
  nf_lastSale :: "(jsnum \<times> int) option"

record MintNFTInput =
  mi_name :: string
  mi_description :: string
  mi_collection :: string
  mi_image :: string
  mi_owner :: string
  mi_creator :: string
  mi_rarity :: rarity
  mi_mintPriceKC :: jsnum
  mi_attributes :: "trait list option"

record nm_state =
  nfts :: "(string, NFT) jsmap"
  hasLoaded :: bool
  nfts_item :: "NFT list item"
  nm_browser :: bool

definition loadNFTs :: "nm_state \<Rightarrow> nm_state" where
  "loadNFTs s =
     (if \<not> nm_browser s \<or> hasLoaded s then s
      else case nfts_item s of
        Json ns \<Rightarrow> s\<lparr>nfts := foldl (\<lambda>m n. AList.update (nf_id n) n m) (nfts s) ns, hasLoaded := True\<rparr>
      | _ \<Rightarrow> s\<lparr>hasLoaded := True\<rparr>)"

definition new_NFTManager :: "bool \<Rightarrow> NFT list item \<Rightarrow> nm_state" where
  "new_NFTManager browser i = loadNFTs \<lparr>nfts = [], hasLoaded = False, nfts_item = i, nm_browser = browser\<rparr>"

definition saveNFTs :: "nm_state \<Rightarrow> nm_state" where
  "saveNFTs s = (if \<not> nm_browser s then s else s\<lparr>nfts_item := Json (map snd (nfts s))\<rparr>)"

record nft_filter =
  nff_collection :: "string option"
  nff_rarity :: "rarity option"
  nff_owner :: "string option"

definition keep_if :: "('a \<Rightarrow> bool) \<Rightarrow> bool \<Rightarrow> 'a list \<Rightarrow> 'a list" where
  "keep_if P given xs = (if given then filter P xs else xs)"

definition getNFTs :: "nft_filter \<Rightarrow> nm_state \<Rightarrow> NFT list \<times> nm_state" where
  "getNFTs f s =
     (let s1 = loadNFTs s;
          a = keep_if (\<lambda>n. Some (nf_collection n) = nff_collection f) (truthy_string (nff_collection f)) (map snd (nfts s1));
          b = keep_if (\<lambda>n. Some (nf_rarity n) = nff_rarity f) (nff_rarity f \<noteq> None) a;
          c = keep_if (\<lambda>n. Some (nf_owner n) = nff_owner f) (truthy_string (nff_owner f)) b
      in (sort_desc nf_mintedAt c, s1))"

definition getNFT :: "string \<Rightarrow> nm_state \<Rightarrow> NFT option \<times> nm_state" where
  "getNFT i s = (let s1 = loadNFTs s in (map_of (nfts s1) i, s1))"

definition getCollections :: "nm_state \<Rightarrow> string list \<times> nm_state" where
  "getCollections s = (let s1 = loadNFTs s in (sort (remdups (map (\<lambda>kn. nf_collection (snd kn)) (nfts s1))), s1))"

text \<open>\<open>now.toString(36).toUpperCase()\<close>\<close>

definition digit36 :: "nat \<Rightarrow> char" where
  "digit36 d = ''0123456789ABCDEFGHIJKLMNOPQRSTUVWXYZ'' ! d"

fun base36 :: "nat \<Rightarrow> string" where
  "base36 n = (if n < 36 then [digit36 n] else base36 (n div 36) @ [digit36 (n mod 36)])"

declare base36.simps [simp del]

definition or_text :: "string \<Rightarrow> string \<Rightarrow> string" where
  "or_text t d = (if t = [] then d else t)"

definition minted :: "(jsnum \<Rightarrow> string) \<Rightarrow> int \<Rightarrow> string \<Rightarrow> MintNFTInput \<Rightarrow> NFT" where
  "minted show_num now rnd x =
     \<lparr>nf_id = ''nft_'' @ show_int now @ ''_'' @ rnd, nf_tokenId = ''KC-'' @ base36 (nat now), nf_name = trim (mi_name x),
      nf_description = trim (mi_description x), nf_collection = trim (mi_collection x),
      nf_image = or_text (trim (mi_image x)) [CHR 0xF0, CHR 0x9F, CHR 0x96, CHR 0xBC, CHR 0xEF, CHR 0xB8, CHR 0x8F],
      nf_owner = trim (mi_owner x), nf_creator = or_text (trim (mi_creator x)) (trim (mi_owner x)), nf_rarity = mi_rarity x,
      nf_attributes = (if list_of (mi_attributes x) \<noteq> [] then list_of (mi_attributes x)
        else [\<lparr>trait_type = ''Mint Price'', trait_value = show_num (mi_mintPriceKC x) @ '' KC''\<rparr>,
              \<lparr>trait_type = ''Network'', trait_value = ''KuberCoin''\<rparr>]),
      nf_mintedAt = now, nf_lastSale = Some (mi_mintPriceKC x, now)\<rparr>"

text \<open>The clock shows a time after 1970.\<close>

definition mintNFT :: "(jsnum \<Rightarrow> string) \<Rightarrow> clock \<Rightarrow> string \<Rightarrow> MintNFTInput \<Rightarrow> (nm_state, NFT) eff" where
  "mintNFT show_num clk rnd x s =
     (let s1 = loadNFTs s
      in if trim (mi_name x) = [] then (Inl (Error ''NFT name is required''), s1)
         else if trim (mi_collection x) = [] then (Inl (Error ''Collection is required''), s1)
         else if trim (mi_owner x) = [] then (Inl (Error ''Owner address is required''), s1)
         else if mi_mintPriceKC x \<le> 0 then (Inl (Error ''Mint price must be greater than zero''), s1)
         else
           let n = minted show_num (clk 0) rnd x
           in (Inr n, saveNFTs (s1\<lparr>nfts := AList.update (nf_id n) n (nfts s1)\<rparr>)))"

definition transferNFT :: "string \<Rightarrow> string \<Rightarrow> (nm_state, unit) eff" where
  "transferNFT i a s =
     (let s1 = loadNFTs s
      in case map_of (nfts s1) i of
        None \<Rightarrow> (Inl (Error ''NFT not found''), s1)
      | Some n \<Rightarrow>
          if trim a = [] then (Inl (Error ''Recipient address is required''), s1)
          else (Inr (), saveNFTs (s1\<lparr>nfts := AList.update i (n\<lparr>nf_owner := a\<rparr>) (nfts s1)\<rparr>)))"

record collection_stats =
  totalNFTs :: nat
  floorPrice :: jsnum
  totalVolume :: jsnum
  owners :: nat

definition sale_prices :: "NFT list \<Rightarrow> jsnum list" where
  "sale_prices ns = map (\<lambda>n. fst (the (nf_lastSale n))) (filter (\<lambda>n. nf_lastSale n \<noteq> None) ns)"

definition getCollectionStats :: "string \<Rightarrow> nm_state \<Rightarrow> collection_stats \<times> nm_state" where
  "getCollectionStats c s =
     (case getNFTs \<lparr>nff_collection = Some c, nff_rarity = None, nff_owner = None\<rparr> (loadNFTs s) of (ns, s1) \<Rightarrow>
       (\<lparr>totalNFTs = length ns,
         floorPrice = (if sale_prices ns \<noteq> [] then Min (set (sale_prices ns)) else 0),
         totalVolume = sum_by (\<lambda>p. p) (sale_prices ns),
         owners = length (remdups (map nf_owner ns))\<rparr>, s1))"

section \<open>Storage and ownership\<close>

datatype nm_op = Mint clock string MintNFTInput | Transfer string string

fun nm_step :: "(jsnum \<Rightarrow> string) \<Rightarrow> nm_op \<Rightarrow> nm_state \<Rightarrow> nm_state" where
  "nm_step show_num (Mint clk rnd x) s = snd (mintNFT show_num clk rnd x s)"
| "nm_step show_num (Transfer i a) s = snd (transferNFT i a s)"

definition nm_inv :: "nm_state \<Rightarrow> bool" where
  "nm_inv s \<longleftrightarrow> nm_browser s \<and> hasLoaded s \<and> keyed nf_id (nfts s) \<and> in_sync (nfts s) (nfts_item s)"

definition nm_reload :: "nm_state \<Rightarrow> nm_state" where
  "nm_reload s = new_NFTManager (nm_browser s) (nfts_item s)"

lemma loaded [simp]: "nm_inv s \<Longrightarrow> loadNFTs s = s"
  by (simp add: nm_inv_def loadNFTs_def)

lemma nm_step_inv: "nm_inv s \<Longrightarrow> nm_inv (nm_step sn op s)"
  by (cases op)
    (auto simp: mintNFT_def transferNFT_def minted_def Let_def saveNFTs_def nm_inv_def loadNFTs_def
      split: option.splits intro!: keyed_set dest: keyed_get)

lemma nm_reload_id: "nm_inv s \<Longrightarrow> nm_reload s = s"
  by (auto simp: nm_inv_def nm_reload_def new_NFTManager_def loadNFTs_def in_sync_def load_values_inverse
      simp flip: load_values_def)

interpretation nm: write_through "nm_step sn" nm_reload nm_inv
  by unfold_locales (auto simp: nm_step_inv nm_reload_id)

text \<open>What a token is: everything but its owner, which only a transfer changes.\<close>

definition identity :: "NFT \<Rightarrow> NFT" where
  "identity n = n\<lparr>nf_owner := []\<rparr>"

fun fresh_mints :: "(jsnum \<Rightarrow> string) \<Rightarrow> nm_op list \<Rightarrow> nm_state \<Rightarrow> bool" where
  "fresh_mints sn [] s = True"
| "fresh_mints sn (Mint clk rnd x # ops) s =
     (map_of (nfts s) (''nft_'' @ show_int (clk 0) @ ''_'' @ rnd) = None \<and> fresh_mints sn ops (nm_step sn (Mint clk rnd x) s))"
| "fresh_mints sn (Transfer i a # ops) s = fresh_mints sn ops (nm_step sn (Transfer i a) s)"

lemma step_keeps_token:
  assumes "nm_inv s" and "map_of (nfts s) i = Some n" and "fresh_mints sn [op] s"
  shows "\<exists>n'. map_of (nfts (nm_step sn op s)) i = Some n' \<and> identity n' = identity n \<and>
    (nf_owner n' = nf_owner n \<or> op = Transfer i (nf_owner n'))"
proof (cases op)
  case (Mint clk rnd x)
  with assms show ?thesis by (auto simp: mintNFT_def Let_def saveNFTs_def minted_def)
next
  case (Transfer j a)
  with assms show ?thesis
    by (cases "map_of (nfts s) j") (auto simp: transferNFT_def Let_def saveNFTs_def identity_def)
qed

lemma fresh_mints_step: "fresh_mints sn (op # ops) s \<Longrightarrow> fresh_mints sn [op] s \<and> fresh_mints sn ops (nm_step sn op s)"
  by (cases op) auto

text \<open>
  Tokens are never lost or changed: in every run that draws fresh identifiers each token is
  still there with everything it was minted with, and its owner is the one it had or the recipient
  of one of the run's transfers of it.
\<close>

theorem tokens_persist:
  assumes "nm_inv s" and "map_of (nfts s) i = Some n" and "fresh_mints sn ops s"
  shows "\<exists>n'. map_of (nfts (fold (nm_step sn) ops s)) i = Some n' \<and> identity n' = identity n \<and>
    (nf_owner n' = nf_owner n \<or> Transfer i (nf_owner n') \<in> set ops)"
  using assms
proof (induction ops arbitrary: s n)
  case (Cons op ops)
  note f = fresh_mints_step [OF Cons.prems(3)]
  obtain m where m: "map_of (nfts (nm_step sn op s)) i = Some m" "identity m = identity n"
      "nf_owner m = nf_owner n \<or> op = Transfer i (nf_owner m)"
    using step_keeps_token [OF Cons.prems(1,2)] f by blast
  obtain n' where "map_of (nfts (fold (nm_step sn) ops (nm_step sn op s))) i = Some n'" "identity n' = identity m"
      "nf_owner n' = nf_owner m \<or> Transfer i (nf_owner n') \<in> set ops"
    using Cons.IH [OF nm_step_inv [OF Cons.prems(1)] m(1)] f by blast
  with m show ?case by auto
qed auto

definition demo_mint :: MintNFTInput where
  "demo_mint = \<lparr>mi_name = ''n'', mi_description = [], mi_collection = ''c'', mi_image = ''i'', mi_owner = ''a'', mi_creator = [],
     mi_rarity = Rare, mi_mintPriceKC = 2, mi_attributes = None\<rparr>"

definition demo_nfts :: nm_state where
  "demo_nfts = nm_step (\<lambda>_. ''2'') (Mint (\<lambda>_. 7) ''r'' demo_mint) (new_NFTManager True Absent)"

theorem tokens_persist_witness:
  "\<exists>n'. map_of (nfts (fold (nm_step (\<lambda>_. ''2'')) [Transfer ''nft_7_r'' ''b'', Mint (\<lambda>_. 7) ''q'' demo_mint] demo_nfts)) ''nft_7_r'' = Some n' \<and>
     nf_name n' = ''n''"
proof -
  let ?n = "minted (\<lambda>_. ''2'') 7 ''r'' demo_mint"
  have e: "nm_inv (new_NFTManager True Absent)" by (simp add: nm_inv_def new_NFTManager_def loadNFTs_def)
  have i: "show_int 7 = ''7''" by code_simp
  have t: "trim ''n'' = ''n''" "trim ''c'' = ''c''" "trim ''a'' = ''a''" by code_simp+
  have n: "nfts demo_nfts = [(''nft_7_r'', ?n)]"
    using e by (simp add: demo_nfts_def mintNFT_def demo_mint_def Let_def saveNFTs_def t minted_def i)
      (simp add: new_NFTManager_def loadNFTs_def)
  have d: "nm_inv demo_nfts" unfolding demo_nfts_def by (rule nm_step_inv [OF e])
  have "fresh_mints (\<lambda>_. ''2'') [Transfer ''nft_7_r'' ''b'', Mint (\<lambda>_. 7) ''q'' demo_mint] demo_nfts"
    using d n by (simp add: transferNFT_def Let_def saveNFTs_def i)
  from tokens_persist [OF d _ this, of "''nft_7_r''" ?n] n obtain n' where
    "map_of (nfts (fold (nm_step (\<lambda>_. ''2'')) [Transfer ''nft_7_r'' ''b'', Mint (\<lambda>_. 7) ''q'' demo_mint] demo_nfts)) ''nft_7_r'' = Some n'"
    "identity n' = identity ?n" by auto
  moreover have "nf_name (identity x) = nf_name x" for x by (simp add: identity_def)
  ultimately have "nf_name n' = nf_name ?n" by metis
  then show ?thesis using \<open>map_of _ _ = Some n'\<close> t by (simp add: minted_def demo_mint_def)
qed

text \<open>The floor price is the least sale price of the collection and the volume their sum.\<close>

lemma floor_is_least:
  assumes "nm_inv s" and "n \<in> snd ` set (nfts s)" and "nf_collection n = c" and "c \<noteq> []" and "nf_lastSale n = Some (p, t)"
  shows "floorPrice (fst (getCollectionStats c s)) \<le> p"
proof -
  obtain ns where ns: "fst (getNFTs \<lparr>nff_collection = Some c, nff_rarity = None, nff_owner = None\<rparr> s) = ns" by blast
  then have "n \<in> set ns" using assms by (force simp: getNFTs_def keep_if_def Let_def)
  then have "p \<in> set (sale_prices ns)" using assms(5) by (force simp: sale_prices_def)
  then show ?thesis using ns assms(1) by (auto simp: getCollectionStats_def split: prod.splits)
qed

text \<open>
  A transfer keeps the white space of the address that minting removes: the token is then not found
  under its owner's address.
\<close>

lemma transfer_keeps_space:
  assumes "nm_inv s" and "map_of (nfts s) i = Some n" and "trim a = b" and "b \<noteq> []" and "a \<noteq> b"
  shows "\<exists>n'. map_of (nfts (snd (transferNFT i a s))) i = Some n' \<and>
    n' \<notin> set (fst (getNFTs \<lparr>nff_collection = None, nff_rarity = None, nff_owner = Some b\<rparr> (snd (transferNFT i a s))))"
proof -
  have "nm_inv (snd (transferNFT i a s))" using nm_step_inv [OF assms(1), of _ "Transfer i a"] by simp
  then show ?thesis
    using assms by (simp add: getNFTs_def keep_if_def Let_def) (simp add: transferNFT_def saveNFTs_def Let_def)
qed

section \<open>The service\<close>

record MarketNFT =
  mn_id :: string
  mn_tokenId :: string
  mn_contractAddress :: string
  mn_name :: string
  mn_collection :: string
  mn_owner :: string
  mn_creator :: string
  mn_attributes :: "trait list"
  mn_rarity :: jsnum
  mn_floorPrice :: jsnum
  mn_lastSale :: "jsnum option"

record NFTCollection =
  nc_id :: string
  nc_name :: string
  nc_totalSupply :: jsnum
  nc_floorPrice :: jsnum
  nc_volume24h :: jsnum
  nc_ownedCount :: jsnum

record ns_state =
  market :: "(string, MarketNFT) jsmap"
  collections :: "(string, NFTCollection) jsmap"

definition new_NFTService :: ns_state where
  "new_NFTService = \<lparr>market = [], collections = []\<rparr>"

definition getAllNFTs :: "ns_state \<Rightarrow> MarketNFT list" where
  "getAllNFTs s = map snd (market s)"

definition getMarketNFT :: "string \<Rightarrow> ns_state \<Rightarrow> MarketNFT option" where
  "getMarketNFT i s = map_of (market s) i"

definition getNFTCollections :: "ns_state \<Rightarrow> NFTCollection list" where
  "getNFTCollections s = map snd (collections s)"

definition filterNFTs :: "string option \<Rightarrow> jsnum option \<Rightarrow> jsnum option \<Rightarrow> ns_state \<Rightarrow> MarketNFT list" where
  "filterNFTs c r p s =
     keep_if (\<lambda>n. mn_floorPrice n \<le> the p) (p \<noteq> None)
       (keep_if (\<lambda>n. mn_rarity n \<ge> the r) (r \<noteq> None)
         (keep_if (\<lambda>n. Some (mn_collection n) = c) (truthy_string c) (getAllNFTs s)))"

datatype sort_by = ByName | ByRarity | ByPrice | ByRecent

text \<open>\<open>collate\<close> is the order of \<open>localeCompare\<close>, given by a rank of texts.\<close>

definition sortNFTs :: "(string \<Rightarrow> nat) \<Rightarrow> sort_by \<Rightarrow> MarketNFT list \<Rightarrow> MarketNFT list" where
  "sortNFTs collate k ns =
     (case k of
        ByName \<Rightarrow> sort_key (\<lambda>n. collate (mn_name n)) ns
      | ByRarity \<Rightarrow> sort_desc mn_rarity ns
      | ByPrice \<Rightarrow> sort_desc mn_floorPrice ns
      | ByRecent \<Rightarrow> sort_desc (\<lambda>n. or_keep (mn_lastSale n) 0) ns)"

definition calculateRarity :: "MarketNFT \<Rightarrow> jsnum" where
  "calculateRarity n = 0"

definition sendNFT :: "string \<Rightarrow> string \<Rightarrow> (ns_state, string) eff" where
  "sendNFT i a s =
     (if map_of (market s) i = None then (Inl (Error ''NFT not found''), s)
      else (Inl (Error ''NFT transfers require a configured NFT backend.''), s))"

definition listForSale :: "string \<Rightarrow> jsnum \<Rightarrow> (ns_state, bool) eff" where
  "listForSale i p s =
     (if map_of (market s) i = None then (Inl (Error ''NFT not found''), s)
      else (Inl (Error ''NFT marketplace integration is not configured.''), s))"

lemma sort_is_permutation: "mset (sortNFTs collate k ns) = mset ns"
  by (cases k) (simp_all add: sortNFTs_def)

section \<open>Metadata\<close>

definition ends_with :: "string \<Rightarrow> string \<Rightarrow> bool" where
  "ends_with s t \<longleftrightarrow> suffix t s"

text \<open>The configured gateway is an argument.\<close>

definition getGatewayBase :: "string option \<Rightarrow> string" where
  "getGatewayBase conf =
     (let base = (if truthy_string conf then the conf else ''https://ipfs.io/ipfs/'')
      in if ends_with base ''/'' then base else base @ ''/'')"

text \<open>\<open>fetch\<close> gives the status and the parsed body for an address.\<close>

definition fetchFromIPFS :: "(string \<Rightarrow> js_error + (bool \<times> 'm)) \<Rightarrow> string option \<Rightarrow> string \<Rightarrow> js_error + 'm" where
  "fetchFromIPFS fetch conf h =
     (case fetch (getGatewayBase conf @ h) of
        Inl e \<Rightarrow> Inl e
      | Inr (good, m) \<Rightarrow> if \<not> good then Inl (Error ''Failed to fetch IPFS metadata'') else Inr m)"

definition resolveIPFSUrl :: "string \<Rightarrow> string" where
  "resolveIPFSUrl url = (if startsWith url ''ipfs://'' then ''https://ipfs.io/ipfs/'' @ drop 7 url else url)"

record raw_attribute =
  ra_trait_type :: "string option"
  ra_value :: "string option"

text \<open>
  Attributes with texts as values; \<open>None\<close> is a value that is no array, an element \<open>None\<close> is
  \<open>null\<close>, on which reading a member throws.
\<close>

definition parse_attribute :: "raw_attribute \<Rightarrow> trait" where
  "parse_attribute a =
     \<lparr>trait_type = (if truthy_string (ra_trait_type a) then the (ra_trait_type a) else ''Unknown''),
      trait_value = text_of (ra_value a)\<rparr>"

fun parse_all :: "raw_attribute option list \<Rightarrow> js_error + trait list" where
  "parse_all [] = Inr []"
| "parse_all (None # as) = Inl (Error ''Cannot read properties of null (reading 'trait_type')'')"
| "parse_all (Some a # as) = map_sum id (Cons (parse_attribute a)) (parse_all as)"

definition parseAttributes :: "raw_attribute option list option \<Rightarrow> js_error + trait list" where
  "parseAttributes x = (case x of None \<Rightarrow> Inr [] | Some as \<Rightarrow> parse_all as)"

datatype media_type = Image | Video | Audio | UnknownMedia

definition getMediaType :: "string \<Rightarrow> media_type" where
  "getMediaType url =
     (let extension = toLowerCase (last (split_on (CHR ''.'') url))
      in if extension \<in> set [''jpg'', ''jpeg'', ''png'', ''gif'', ''svg'', ''webp''] then Image
         else if extension \<in> set [''mp4'', ''webm'', ''mov''] then Video
         else if extension \<in> set [''mp3'', ''wav'', ''ogg''] then Audio
         else UnknownMedia)"

text \<open>A resolved address has no ipfs scheme any more unless a second one follows.\<close>

lemma resolve_plain: "\<not> startsWith url ''ipfs://'' \<Longrightarrow> resolveIPFSUrl url = url"
  by (simp add: resolveIPFSUrl_def)

lemma resolve_idempotent: "resolveIPFSUrl (resolveIPFSUrl url) = resolveIPFSUrl url"
  by (simp add: resolveIPFSUrl_def startsWith_def)

text \<open>The configured gateway is used to fetch metadata and ignored for images.\<close>

lemma gateway_ignored: "resolveIPFSUrl (''ipfs://'' @ h) = getGatewayBase None @ h"
  by (simp add: resolveIPFSUrl_def getGatewayBase_def startsWith_def ends_with_def suffix_def)

end
