(* ===== verification/WalletHealth.thy ===== *)
theory WalletHealth
  imports WalletSpend Calendar
begin

text \<open>
  The health score of the active wallet (services/walletHealth.ts), a client of the wallet
  service. A number that can be NaN is an option, \<open>None\<close> being NaN; icons and the unused
  \<open>action\<close> of a suggestion are left out, and the length of the wallet's JSON text is an argument.
\<close>

record health_metrics =
  utxoCount :: nat
  utxoScore :: jsnum
  dustAmount :: jsnum
  dustScore :: "jsnum option"
  averageFee :: jsnum
  feeEfficiencyScore :: jsnum
  addressReuse :: nat
  privacyScore :: jsnum
  walletAge :: int
  transactionCount :: nat
  totalFeesPaid :: jsnum
  walletSize :: nat

record HealthScore =
  score :: "int option"
  rating :: string
  summary :: string
  metrics :: health_metrics

datatype priority = HighPriority | MediumPriority | LowPriority

record OptimizationSuggestion =
  sg_title :: string
  sg_description :: string
  sg_priority :: priority
  sg_impact :: "string option"
  estimatedSavings :: "jsnum option"

section \<open>Scores\<close>

definition calculateUTXOScore :: "nat \<Rightarrow> jsnum" where
  "calculateUTXOScore n =
     (if 5 \<le> n \<and> n \<le> 20 then 100
      else if n < 5 then max 50 (of_nat n * 20)
      else if n \<le> 50 then 100 - (of_nat n - 20) * 2
      else if n \<le> 100 then 50 - (of_nat n - 50) * 1
      else max 0 (50 - (of_nat n - 100)))"

definition is_dust :: "UTXO \<Rightarrow> bool" where
  "is_dust u \<longleftrightarrow> u_amount u < 1 / 10000"

text \<open>Without coins the percentage is 0/0.\<close>

definition calculateDustScore :: "UTXO list \<Rightarrow> jsnum option" where
  "calculateDustScore us =
     (if us = [] then None
      else Some (max 0 (100 - of_nat (length (filter is_dust us)) / of_nat (length us) * 100 * 2)))"

definition calculateDustAmount :: "UTXO list \<Rightarrow> jsnum" where
  "calculateDustAmount us = sum_by u_amount (filter is_dust us)"

definition fee_or_0 :: "WalletTransactionRecord \<Rightarrow> jsnum" where
  "fee_or_0 tx = (case wt_fee tx of None \<Rightarrow> 0 | Some f \<Rightarrow> f)"

definition calculateAverageFee :: "WalletTransactionRecord list \<Rightarrow> jsnum" where
  "calculateAverageFee txs = (if txs = [] then 0 else sum_by fee_or_0 txs / of_nat (length txs))"

definition calculateFeeEfficiencyScore :: "WalletTransactionRecord list \<Rightarrow> jsnum" where
  "calculateFeeEfficiencyScore txs =
     (if txs = [] then 100
      else let avgFee = sum_by fee_or_0 txs / of_nat (length txs);
               idealFee = 1 / 100000;
               efficiency = idealFee / (if avgFee = 0 then idealFee else avgFee)
           in min 100 (efficiency * 100))"

text \<open>An address that is undefined is counted under the property name 'undefined'.\<close>

definition property_name :: "string option \<Rightarrow> string" where
  "property_name a = (case a of None \<Rightarrow> ''undefined'' | Some x \<Rightarrow> x)"

definition mentioned :: "WalletTransactionRecord \<Rightarrow> string list" where
  "mentioned tx = map (\<lambda>(a, _). property_name a) (list_of (wt_inputs tx) @ list_of (wt_outputs tx))"

definition addressCounts :: "WalletTransactionRecord list \<Rightarrow> (string, nat) jsmap" where
  "addressCounts txs = fold (\<lambda>tx m. fold tally (mentioned tx) m) txs []"

definition countAddressReuse :: "WalletTransactionRecord list \<Rightarrow> nat" where
  "countAddressReuse txs = length (filter (\<lambda>n. 1 < n) (map snd (addressCounts txs)))"

definition calculatePrivacyScore :: "WalletTransactionRecord list \<Rightarrow> jsnum" where
  "calculatePrivacyScore txs = max 0 (100 - of_nat (countAddressReuse txs) * 10)"

text \<open>\<open>clk 0\<close> is read when the wallet has no creation time.\<close>

definition calculateWalletAge :: "clock \<Rightarrow> WalletInfo \<Rightarrow> int" where
  "calculateWalletAge clk w = (clk 1 - (if createdAt w = 0 then clk 0 else createdAt w)) div (1000 * 60 * 60 * 24)"

definition calculateTotalFees :: "WalletTransactionRecord list \<Rightarrow> jsnum" where
  "calculateTotalFees txs = sum_by fee_or_0 txs"

definition estimateWalletSize :: "(WalletInfo \<Rightarrow> nat) \<Rightarrow> WalletInfo \<Rightarrow> WalletTransactionRecord list \<Rightarrow> nat" where
  "estimateWalletSize json_length w txs = json_length w + length txs * 250"

definition overall :: "jsnum \<Rightarrow> jsnum option \<Rightarrow> jsnum \<Rightarrow> jsnum \<Rightarrow> int option" where
  "overall u d f p = map_option (\<lambda>d. Math_round (u * (3 / 10) + d * (2 / 10) + f * (3 / 10) + p * (2 / 10))) d"

text \<open>No comparison with NaN holds.\<close>

definition at_least :: "int option \<Rightarrow> int \<Rightarrow> bool" where
  "at_least x k \<longleftrightarrow> (case x of None \<Rightarrow> False | Some y \<Rightarrow> k \<le> y)"

definition rating_of :: "int option \<Rightarrow> string" where
  "rating_of sc =
     (if at_least sc 80 then ''Excellent'' else if at_least sc 60 then ''Good'' else if at_least sc 40 then ''Fair'' else ''Poor'')"

definition generateSummary :: "int option \<Rightarrow> string" where
  "generateSummary sc =
     (if at_least sc 80 then ''Your wallet is in excellent condition! Keep up the good maintenance practices.''
      else if at_least sc 60 then ''Your wallet is in good shape, but there are some optimizations you can make.''
      else if at_least sc 40 then ''Your wallet needs attention. Consider optimizing UTXOs and consolidating dust.''
      else ''Your wallet requires immediate maintenance to improve efficiency and reduce fees.'')"

definition getEmptyHealthScore :: HealthScore where
  "getEmptyHealthScore =
     \<lparr>score = Some 0, rating = ''N/A'', summary = ''No wallet data available'',
      metrics = \<lparr>utxoCount = 0, utxoScore = 0, dustAmount = 0, dustScore = Some 0, averageFee = 0, feeEfficiencyScore = 0,
        addressReuse = 0, privacyScore = 0, walletAge = 0, transactionCount = 0, totalFeesPaid = 0, walletSize = 0\<rparr>\<rparr>"

definition health_of :: "(WalletInfo \<Rightarrow> nat) \<Rightarrow> clock \<Rightarrow> WalletInfo \<Rightarrow> UTXO list \<Rightarrow> WalletTransactionRecord list \<Rightarrow> HealthScore" where
  "health_of json_length clk w us txs =
     (let u = calculateUTXOScore (length us);
          d = calculateDustScore us;
          f = calculateFeeEfficiencyScore txs;
          p = calculatePrivacyScore txs;
          sc = overall u d f p
      in \<lparr>score = sc, rating = rating_of sc, summary = generateSummary sc,
          metrics = \<lparr>utxoCount = length us, utxoScore = u, dustAmount = calculateDustAmount us, dustScore = d,
            averageFee = calculateAverageFee txs, feeEfficiencyScore = f, addressReuse = countAddressReuse txs,
            privacyScore = p, walletAge = calculateWalletAge clk w, transactionCount = length txs,
            totalFeesPaid = calculateTotalFees txs, walletSize = estimateWalletSize json_length w txs\<rparr>\<rparr>)"

section \<open>Reading the wallet\<close>

definition active :: "('n ws, WalletInfo option) eff" where
  "active s = (case getActiveWallet s of (w, s') \<Rightarrow> (Inr w, s'))"

definition getUTXOs :: "'n node_api \<Rightarrow> ('n ws, UTXO list) eff" where
  "getUTXOs api = ebind active (\<lambda>w. case w of None \<Rightarrow> eret [] | Some w \<Rightarrow> getUtxos api (address w) 0)"

definition calculateHealthScore :: "'n node_api \<Rightarrow> (WalletInfo \<Rightarrow> nat) \<Rightarrow> clock \<Rightarrow> ('n ws, HealthScore) eff" where
  "calculateHealthScore api json_length clk =
     ecatch
       (ebind active (\<lambda>w. case w of
            None \<Rightarrow> eret getEmptyHealthScore
          | Some w \<Rightarrow>
              ebind (getUTXOs api) (\<lambda>us.
              ebind (getTransactionHistory api (address w) 50) (\<lambda>txs.
              eret (health_of json_length clk w us txs)))))
       (\<lambda>_. eret getEmptyHealthScore)"

definition suggestions :: "health_metrics \<Rightarrow> OptimizationSuggestion list" where
  "suggestions m =
     (if 50 < utxoCount m
      then [\<lparr>sg_title = ''High UTXO Count'',
             sg_description = ''You have '' @ show_nat (utxoCount m) @
               '' UTXOs. Consolidating them will reduce future transaction fees.'',
             sg_priority = HighPriority, sg_impact = Some ''Reduces transaction size and fees by up to 50%'',
             estimatedSavings = Some (of_nat (utxoCount m) * (1 / 100000))\<rparr>] else []) @
     (if 1 / 1000 < dustAmount m
      then [\<lparr>sg_title = ''Dust Consolidation Needed'',
             sg_description = ''You have '' @ toFixed 6 (dustAmount m) @ '' KC in dust. Consolidate to improve efficiency.'',
             sg_priority = MediumPriority, sg_impact = Some ''Recovers unusable small amounts'',
             estimatedSavings = Some (dustAmount m * (8 / 10))\<rparr>] else []) @
     (if feeEfficiencyScore m < 60
      then [\<lparr>sg_title = ''High Transaction Fees'',
             sg_description = ''Your average fee ('' @ toFixed 6 (averageFee m) @ '' KC) is higher than optimal.'',
             sg_priority = MediumPriority, sg_impact = Some ''Can reduce fees by up to 30%'', estimatedSavings = None\<rparr>] else []) @
     (if 0 < addressReuse m
      then [\<lparr>sg_title = ''Address Reuse Detected'',
             sg_description = show_nat (addressReuse m) @ '' addresses have been reused, reducing privacy.'',
             sg_priority = LowPriority, sg_impact = Some ''Improves transaction privacy'', estimatedSavings = None\<rparr>] else []) @
     (if 1024 * 100 < walletSize m
      then [\<lparr>sg_title = ''Large Wallet Size'',
             sg_description = ''Your wallet is '' @ toFixed 2 (of_nat (walletSize m) / 1024) @
               '' KB. Consider archiving old transactions.'',
             sg_priority = LowPriority, sg_impact = Some ''Improves wallet loading speed'', estimatedSavings = None\<rparr>] else [])"

definition getOptimizationSuggestions ::
    "'n node_api \<Rightarrow> (WalletInfo \<Rightarrow> nat) \<Rightarrow> clock \<Rightarrow> ('n ws, OptimizationSuggestion list) eff" where
  "getOptimizationSuggestions api json_length clk =
     ebind (calculateHealthScore api json_length clk) (\<lambda>h. eret (suggestions (metrics h)))"

definition reused_addresses :: "WalletTransactionRecord list \<Rightarrow> string list" where
  "reused_addresses txs = map fst (filter (\<lambda>(_, n). 1 < n) (addressCounts txs))"

text \<open>The order of the reported addresses is that of their first mention.\<close>

definition checkAddressReuse :: "'n node_api \<Rightarrow> ('n ws, string list \<times> nat) eff" where
  "checkAddressReuse api =
     ebind active (\<lambda>w. case w of
         None \<Rightarrow> eret ([], 0)
       | Some w \<Rightarrow> ebind (getTransactionHistory api (address w) 50)
           (\<lambda>txs. eret (reused_addresses txs, length (reused_addresses txs))))"

record analytics_report =
  ar_timestamp :: string
  ar_healthScore :: "int option"
  ar_rating :: string
  ar_summary :: string
  ar_metrics :: health_metrics
  ar_suggestions :: nat
  criticalIssues :: nat
  estimatedTotalSavings :: string

definition generateAnalyticsReport ::
    "'n node_api \<Rightarrow> (WalletInfo \<Rightarrow> nat) \<Rightarrow> clock \<Rightarrow> clock \<Rightarrow> int \<Rightarrow> ('n ws, analytics_report) eff" where
  "generateAnalyticsReport api json_length clk1 clk2 now =
     ebind (calculateHealthScore api json_length clk1) (\<lambda>h.
     ebind (getOptimizationSuggestions api json_length clk2) (\<lambda>sgs.
     eret \<lparr>ar_timestamp = toISOString now, ar_healthScore = score h, ar_rating = rating h, ar_summary = summary h,
       ar_metrics = metrics h, ar_suggestions = length sgs,
       criticalIssues = length (filter (\<lambda>x. sg_priority x = HighPriority) sgs),
       estimatedTotalSavings =
         toFixed 6 (sum_by (\<lambda>x. case estimatedSavings x of None \<Rightarrow> 0 | Some y \<Rightarrow> y) sgs)\<rparr>))"

section \<open>The score is a percentage\<close>

lemma utxo_score_range: "0 \<le> calculateUTXOScore n \<and> calculateUTXOScore n \<le> 100"
  by (auto simp: calculateUTXOScore_def)

lemma dust_score_range: "calculateDustScore us = Some d \<Longrightarrow> 0 \<le> d \<and> d \<le> 100"
  by (auto simp: calculateDustScore_def split: if_splits)

lemma privacy_score_range: "0 \<le> calculatePrivacyScore txs \<and> calculatePrivacyScore txs \<le> 100"
  by (simp add: calculatePrivacyScore_def)

lemma fee_score_range:
  assumes "\<And>tx. tx \<in> set txs \<Longrightarrow> 0 \<le> fee_or_0 tx"
  shows "0 \<le> calculateFeeEfficiencyScore txs \<and> calculateFeeEfficiencyScore txs \<le> 100"
proof -
  have "0 \<le> sum_by fee_or_0 txs" by (rule sum_by_nonneg) (rule assms)
  then show ?thesis by (auto simp: calculateFeeEfficiencyScore_def Let_def)
qed

lemma weighted_range:
  "0 \<le> u \<and> u \<le> 100 \<Longrightarrow> 0 \<le> d \<and> d \<le> 100 \<Longrightarrow> 0 \<le> f \<and> f \<le> 100 \<Longrightarrow> 0 \<le> p \<and> p \<le> 100 \<Longrightarrow>
     overall u (Some d) f p = Some k \<Longrightarrow> 0 \<le> k \<and> k \<le> 100"
  using Math_round_ivl [of 0 "u * (3 / 10) + d * (2 / 10) + f * (3 / 10) + p * (2 / 10)" 100]
  by (auto simp: overall_def)

text \<open>
  For a wallet that has coins and paid no negative fees the health score is a number from 0 to
  100, and the rating follows it.
\<close>

theorem health_score_range:
  assumes "us \<noteq> []" and "\<And>tx. tx \<in> set txs \<Longrightarrow> 0 \<le> fee_or_0 tx"
  shows "\<exists>k. score (health_of json_length clk w us txs) = Some k \<and> 0 \<le> k \<and> k \<le> 100 \<and>
    (rating (health_of json_length clk w us txs) = ''Excellent'' \<longleftrightarrow> 80 \<le> k) \<and>
    (rating (health_of json_length clk w us txs) = ''Poor'' \<longleftrightarrow> k < 40)"
proof -
  obtain d where d: "calculateDustScore us = Some d" using assms(1) by (auto simp: calculateDustScore_def)
  then obtain k where k: "overall (calculateUTXOScore (length us)) (Some d) (calculateFeeEfficiencyScore txs)
      (calculatePrivacyScore txs) = Some k"
    by (simp add: overall_def)
  with weighted_range [OF utxo_score_range dust_score_range [OF d] fee_score_range privacy_score_range k] assms(2) d
  show ?thesis by (auto simp: health_of_def Let_def rating_of_def at_least_def)
qed

theorem health_score_range_witness:
  "\<exists>k. score (health_of (\<lambda>_. 0) (\<lambda>_. 0) (sample_wallet ''A'')
      [\<lparr>u_txid = ''t'', u_vout = 0, u_address = ''A'', u_scriptPubKey = [], u_amount = 1, u_confirmations = 1\<rparr>] []) = Some k \<and> 0 \<le> k"
  using health_score_range [of "[\<lparr>u_txid = ''t'', u_vout = 0, u_address = ''A'', u_scriptPubKey = [], u_amount = 1, u_confirmations = 1\<rparr>]"
      "[]" "\<lambda>_. 0" "\<lambda>_. 0" "sample_wallet ''A''"]
  by auto

section \<open>Defects\<close>

text \<open>Without coins the score is not a number, and the wallet is rated poor.\<close>

lemma no_coins_no_score:
  "score (health_of json_length clk w [] txs) = None \<and> rating (health_of json_length clk w [] txs) = ''Poor''"
  by (simp add: health_of_def Let_def calculateDustScore_def overall_def rating_of_def at_least_def)

text \<open>A wallet with 100 coins scores nothing for them, one with 101 scores 49.\<close>

lemma more_coins_score_higher: "calculateUTXOScore 100 = 0 \<and> calculateUTXOScore 101 = 49"
  by (simp add: calculateUTXOScore_def)

lemma times_addressCounts: "times a (addressCounts txs) = count_list (concat (map mentioned txs)) a"
proof -
  have "times a (fold (\<lambda>tx m. fold tally (mentioned tx) m) txs m) =
      times a m + count_list (concat (map mentioned txs)) a" for m
    by (induction txs arbitrary: m) (simp_all add: times_fold)
  then show ?thesis by (simp add: addressCounts_def)
qed

lemma count_list_concat: "count_list (concat xss) x = sum_list (map (\<lambda>xs. count_list xs x) xss)"
  by (induction xss) auto

text \<open>
  The inputs of the history carry no address, so they all count as one address: with two inputs in
  the history 'undefined' is a reused address, and the privacy score drops.
\<close>

lemma unaddressed_inputs_reused:
  assumes "getTransactionHistory api a k s = (Inr txs, s')"
    and "tx \<in> set txs" and "2 \<le> length (list_of (wt_inputs tx))"
  shows "0 < countAddressReuse txs"
proof -
  from history_inputs_unaddressed [OF assms(1,2)]
  have "map (\<lambda>(a, _). property_name a) (list_of (wt_inputs tx)) = replicate (length (list_of (wt_inputs tx))) ''undefined''"
    by (auto simp: list_all_iff property_name_def list_eq_iff_nth_eq case_prod_beta)
  moreover have "count_list (replicate n x) x = n" for n and x :: string by (induction n) auto
  ultimately have "2 \<le> count_list (mentioned tx) ''undefined''" using assms(3) by (simp add: mentioned_def)
  also have "\<dots> \<le> times ''undefined'' (addressCounts txs)"
    using assms(2) by (auto simp: times_addressCounts count_list_concat intro!: member_le_sum_list)
  finally have "2 \<le> times ''undefined'' (addressCounts txs)" .
  then obtain n where "map_of (addressCounts txs) ''undefined'' = Some n" "1 < n"
    by (auto simp: times_def split: option.splits)
  then have "n \<in> set (filter (\<lambda>n. 1 < n) (map snd (addressCounts txs)))" by (force dest: map_of_SomeD)
  then show ?thesis unfolding countAddressReuse_def by (metis length_pos_if_in_set)
qed

end
