(* ===== verification/MarketServices.thy ===== *)
theory MarketServices
  imports Rebalancer TradingEngine TechnicalAnalysis TaxCalculator TaxService TaxExport Planning Portfolio PriceService Staking MultiCurrency DeFi Nft WalletHealth
begin

text \<open>
  The services that compute on prices and holdings: portfolio, rebalancing, trading, indicators, taxes, staking,
  currencies, tokens and decentralised finance.
\<close>

end
