(* ===== verification/SessionManager.thy ===== *)
theory SessionManager
  imports JsStore
begin

text \<open>
  The session manager (services/sessionManager.ts): sessions, the inactivity lock with its
  timer, the log of security events and the second-factor stubs. The current session is an
  object that the map of sessions shares; the model changes both together, and after
  \<open>clearAllData\<close> the object lives on outside the map. Browser notifications are not
  modelled; the user agent, random strings and bytes are arguments.
\<close>

unbundle bit_operations_syntax

section \<open>State\<close>

record Session =
  ss_id :: string
  ss_deviceId :: string
  deviceName :: string
  userAgent :: string
  ss_ipAddress :: string
  ss_createdAt :: int
  ss_lastActivity :: int
  isActive :: bool

datatype event_type = Login | Logout | FailedLogin | PasswordChange | SettingsChange | SuspiciousActivity

record SecurityEvent =
  ev_id :: string
  ev_type :: event_type
  ev_description :: string
  ev_timestamp :: int
  ev_ipAddress :: "string option"
  ev_deviceId :: "string option"

text \<open>A field that the stored object lacks is \<open>None\<close>.\<close>

record SessionSettings =
  autoLockMinutes :: "jsnum option"
  requirePasswordOnSend :: "bool option"
  require2FA :: "bool option"
  biometric :: "bool option"
  loginNotifications :: "bool option"
  suspiciousActivityAlerts :: "bool option"

record se_state =
  currentSession :: "Session option"
  sessions :: "(string, Session) jsmap"
  securityEvents :: "SecurityEvent list"
  settings :: SessionSettings
  lastActivity :: int
  lockTimeout :: "jsnum option"
  sessions_item :: "Session list item"
  events_item :: "SecurityEvent list item"
  session_settings_item :: "SessionSettings item"
  device_item :: "string option"

section \<open>Storage\<close>

definition default_settings :: SessionSettings where
  "default_settings = \<lparr>autoLockMinutes = Some 15, requirePasswordOnSend = Some True, require2FA = Some False,
     biometric = Some False, loginNotifications = Some True, suspiciousActivityAlerts = Some True\<rparr>"

definition loadSettings :: "SessionSettings item \<Rightarrow> js_error + SessionSettings" where
  "loadSettings i = parse_item default_settings i"

definition saveSettings :: "se_state \<Rightarrow> se_state" where
  "saveSettings s = s\<lparr>session_settings_item := Json (settings s)\<rparr>"

definition saveSessions :: "se_state \<Rightarrow> se_state" where
  "saveSessions s = s\<lparr>sessions_item := Json (map snd (sessions s))\<rparr>"

definition saveSecurityEvents :: "se_state \<Rightarrow> se_state" where
  "saveSecurityEvents s =
     (let es = (if length (securityEvents s) > 1000 then slice_last 1000 (securityEvents s) else securityEvents s)
      in s\<lparr>securityEvents := es, events_item := Json es\<rparr>)"

section \<open>Events\<close>

definition logSecurityEvent ::
    "clock \<Rightarrow> string \<Rightarrow> event_type \<Rightarrow> string \<Rightarrow> string option \<Rightarrow> se_state \<Rightarrow> se_state" where
  "logSecurityEvent clk rnd ty descr ip s =
     saveSecurityEvents (s\<lparr>securityEvents := securityEvents s @
       [\<lparr>ev_id = ''event_'' @ show_int (clk 0) @ ''_'' @ rnd, ev_type = ty, ev_description = descr,
         ev_timestamp = clk 1, ev_ipAddress = ip,
         ev_deviceId = map_option ss_deviceId (currentSession s)\<rparr>]\<rparr>)"

definition getSecurityEvents :: "nat \<Rightarrow> se_state \<Rightarrow> SecurityEvent list" where
  "getSecurityEvents limit s = rev (slice_last limit (securityEvents s))"

definition getSecurityEventsByType :: "event_type \<Rightarrow> se_state \<Rightarrow> SecurityEvent list" where
  "getSecurityEventsByType ty s = filter (\<lambda>e. ev_type e = ty) (securityEvents s)"

section \<open>Opening a session\<close>

definition getDeviceName :: "string \<Rightarrow> string" where
  "getDeviceName ua =
     (if str_includes ua ''Windows'' then ''Windows PC''
      else if str_includes ua ''Mac'' then ''Mac''
      else if str_includes ua ''Linux'' then ''Linux PC''
      else if str_includes ua ''Android'' then ''Android Device''
      else if str_includes ua ''iPhone'' \<or> str_includes ua ''iPad'' then ''iOS Device''
      else ''Unknown Device'')"

definition getOrCreateDeviceId :: "int \<Rightarrow> string \<Rightarrow> se_state \<Rightarrow> string \<times> se_state" where
  "getOrCreateDeviceId now rnd s =
     (if truthy_string (device_item s) then (the (device_item s), s)
      else let d = ''device_'' @ show_int now @ ''_'' @ rnd in (d, s\<lparr>device_item := Some d\<rparr>))"

definition initializeSession :: "clock \<Rightarrow> string \<Rightarrow> string \<Rightarrow> string \<Rightarrow> string \<Rightarrow> se_state \<Rightarrow> se_state" where
  "initializeSession clk rd rs re ua s =
     (case getOrCreateDeviceId (clk 0) rd s of
        (d, s1) \<Rightarrow>
          let sid = ''session_'' @ show_int (clk 1) @ ''_'' @ rs;
              ses = \<lparr>ss_id = sid, ss_deviceId = d, deviceName = getDeviceName ua, userAgent = ua,
                     ss_ipAddress = ''Unknown'', ss_createdAt = clk 2, ss_lastActivity = clk 3, isActive = True\<rparr>;
              s2 = saveSessions (s1\<lparr>currentSession := Some ses, sessions := AList.update sid ses (sessions s1)\<rparr>)
          in logSecurityEvent (\<lambda>k. clk (k + 4)) re Login ''User logged in'' None s2)"

text \<open>
  The constructor: a stored item that does not parse throws out of it.
\<close>

definition new_session_manager ::
    "clock \<Rightarrow> string \<Rightarrow> string \<Rightarrow> string \<Rightarrow> string \<Rightarrow> Session list item \<Rightarrow> SecurityEvent list item \<Rightarrow>
       SessionSettings item \<Rightarrow> string option \<Rightarrow> js_error + se_state" where
  "new_session_manager clk rd rs re ua si ei ti dev =
     (case loadSettings ti of
        Inl e \<Rightarrow> Inl e
      | Inr st \<Rightarrow>
          (case parse_item [] si of
             Inl e \<Rightarrow> Inl e
           | Inr ses \<Rightarrow>
               (case parse_item [] ei of
                  Inl e \<Rightarrow> Inl e
                | Inr es \<Rightarrow>
                    Inr (initializeSession (\<lambda>k. clk (k + 1)) rd rs re ua
                      \<lparr>currentSession = None, sessions = load_values ss_id ses, securityEvents = es,
                       settings = st, lastActivity = clk 0, lockTimeout = None, sessions_item = si,
                       events_item = ei, session_settings_item = ti, device_item = dev\<rparr>))))"

section \<open>The inactivity lock\<close>

text \<open>The same change to the current session and to its entry in the map.\<close>

definition change_current :: "(Session \<Rightarrow> Session) \<Rightarrow> se_state \<Rightarrow> se_state" where
  "change_current f s =
     (case currentSession s of
        None \<Rightarrow> s
      | Some c \<Rightarrow>
          s\<lparr>currentSession := Some (f c),
            sessions := (if map_of (sessions s) (ss_id c) = None then sessions s
                         else AList.update (ss_id c) (f c) (sessions s))\<rparr>)"

definition lockSession :: "clock \<Rightarrow> string \<Rightarrow> se_state \<Rightarrow> se_state" where
  "lockSession clk rnd s =
     (let s1 = logSecurityEvent clk rnd Logout ''Session locked due to inactivity'' None s
      in case currentSession s1 of
           None \<Rightarrow> s1
         | Some c \<Rightarrow> saveSessions (change_current (\<lambda>c. c\<lparr>isActive := False\<rparr>) s1))"

text \<open>
  The timer is its due time. \<open>undefined * 60 * 1000\<close> is no number, and
  \<open>setTimeout\<close> takes that as no delay.
\<close>

definition resetLockTimer :: "int \<Rightarrow> se_state \<Rightarrow> se_state" where
  "resetLockTimer now s =
     s\<lparr>lockTimeout := Some (of_int now + (case autoLockMinutes (settings s) of None \<Rightarrow> 0 | Some m \<Rightarrow> m * 60 * 1000))\<rparr>"

text \<open>The handler of \<open>mousedown\<close>, \<open>keydown\<close>, \<open>scroll\<close> and \<open>touchstart\<close>.\<close>

definition updateActivity :: "clock \<Rightarrow> se_state \<Rightarrow> se_state" where
  "updateActivity clk s =
     (let s1 = s\<lparr>lastActivity := clk 0\<rparr>;
          s2 = (case currentSession s1 of
                  None \<Rightarrow> s1
                | Some c \<Rightarrow> saveSessions (change_current (\<lambda>c. c\<lparr>ss_lastActivity := clk 1\<rparr>) s1))
      in resetLockTimer (clk 2) s2)"

text \<open>The timer's callback, when the time has come.\<close>

definition fireLockTimer :: "clock \<Rightarrow> string \<Rightarrow> se_state \<Rightarrow> se_state" where
  "fireLockTimer clk rnd s =
     (case lockTimeout s of
        None \<Rightarrow> s
      | Some due \<Rightarrow> if due \<le> of_int (clk 0) then lockSession clk rnd (s\<lparr>lockTimeout := None\<rparr>) else s)"

definition checkAutoLock :: "clock \<Rightarrow> string \<Rightarrow> se_state \<Rightarrow> se_state" where
  "checkAutoLock clk rnd s =
     (case autoLockMinutes (settings s) of
        None \<Rightarrow> s
      | Some m \<Rightarrow>
          if m = 0 then s
          else if of_int (clk 0 - lastActivity s) \<ge> m * 60 * 1000 then lockSession (\<lambda>k. clk (Suc k)) rnd s
          else s)"

definition unlockSession :: "clock \<Rightarrow> se_state \<Rightarrow> se_state" where
  "unlockSession clk s =
     (case currentSession s of
        None \<Rightarrow> s
      | Some c \<Rightarrow>
          resetLockTimer (clk 1)
            (saveSessions ((change_current (\<lambda>c. c\<lparr>isActive := True\<rparr>) s)\<lparr>lastActivity := clk 0\<rparr>)))"

section \<open>Sessions\<close>

definition getCurrentSession :: "se_state \<Rightarrow> Session option" where
  "getCurrentSession s = currentSession s"

definition getAllSessions :: "se_state \<Rightarrow> Session list" where
  "getAllSessions s = sort_desc ss_lastActivity (map snd (sessions s))"

definition deactivate_current :: "(Session \<Rightarrow> bool) \<Rightarrow> se_state \<Rightarrow> Session option" where
  "deactivate_current P s =
     map_option (\<lambda>c. if P c \<and> map_of (sessions s) (ss_id c) \<noteq> None then c\<lparr>isActive := False\<rparr> else c) (currentSession s)"

definition terminateSession :: "clock \<Rightarrow> string \<Rightarrow> string \<Rightarrow> se_state \<Rightarrow> bool \<times> se_state" where
  "terminateSession clk rnd sid s =
     (case map_of (sessions s) sid of
        None \<Rightarrow> (False, s)
      | Some ses \<Rightarrow>
          (True, logSecurityEvent clk rnd Logout (''Session '' @ sid @ '' terminated'') None
             (saveSessions (s\<lparr>sessions := AList.update sid (ses\<lparr>isActive := False\<rparr>) (sessions s),
                currentSession := deactivate_current (\<lambda>c. ss_id c = sid) s\<rparr>))))"

definition is_other :: "se_state \<Rightarrow> Session \<Rightarrow> bool" where
  "is_other s ses \<longleftrightarrow> map_option ss_id (currentSession s) \<noteq> Some (ss_id ses) \<and> isActive ses"

definition terminateAllOtherSessions :: "clock \<Rightarrow> string \<Rightarrow> se_state \<Rightarrow> nat \<times> se_state" where
  "terminateAllOtherSessions clk rnd s =
     (let terminated = length (filter (is_other s) (map snd (sessions s)));
          s1 = saveSessions (s\<lparr>sessions :=
                 map_values (\<lambda>ses. if is_other s ses then ses\<lparr>isActive := False\<rparr> else ses) (sessions s)\<rparr>)
      in (terminated, logSecurityEvent clk rnd Logout
            (''Terminated '' @ show_nat terminated @ '' other sessions'') None s1))"

section \<open>Settings and second factors\<close>

definition getSettings :: "se_state \<Rightarrow> SessionSettings" where
  "getSettings s = settings s"

definition or_else :: "'a option \<Rightarrow> 'a option \<Rightarrow> 'a option" where
  "or_else a b = (case a of None \<Rightarrow> b | Some x \<Rightarrow> Some x)"

text \<open>\<open>Object.assign\<close>: a field that \<open>updates\<close> has replaces the old one.\<close>

definition assign_settings :: "SessionSettings \<Rightarrow> SessionSettings \<Rightarrow> SessionSettings" where
  "assign_settings old upd =
     \<lparr>autoLockMinutes = or_else (autoLockMinutes upd) (autoLockMinutes old),
      requirePasswordOnSend = or_else (requirePasswordOnSend upd) (requirePasswordOnSend old),
      require2FA = or_else (require2FA upd) (require2FA old),
      biometric = or_else (biometric upd) (biometric old),
      loginNotifications = or_else (loginNotifications upd) (loginNotifications old),
      suspiciousActivityAlerts = or_else (suspiciousActivityAlerts upd) (suspiciousActivityAlerts old)\<rparr>"

definition updateSettings :: "clock \<Rightarrow> string \<Rightarrow> SessionSettings \<Rightarrow> se_state \<Rightarrow> se_state" where
  "updateSettings clk rnd upd s =
     (let s1 = saveSettings (s\<lparr>settings := assign_settings (settings s) upd\<rparr>);
          s2 = (if autoLockMinutes upd \<noteq> None then resetLockTimer (clk 0) s1 else s1)
      in logSecurityEvent (\<lambda>k. clk (Suc k)) rnd SettingsChange ''Security settings updated'' None s2)"

definition BASE32 :: string where
  "BASE32 = ''ABCDEFGHIJKLMNOPQRSTUVWXYZ234567''"

text \<open>The sixteen random bytes are the argument.\<close>

definition generate2FASecret :: "nat list \<Rightarrow> string \<times> string" where
  "generate2FASecret bs =
     (let secret = map (\<lambda>i. BASE32 ! (bs ! i AND 31)) [0..<16]
      in (secret, ''otpauth://totp/KuberCoin?secret='' @ secret @ ''&issuer=KuberCoin''))"

definition verify2FAToken :: "string \<Rightarrow> string \<Rightarrow> bool" where
  "verify2FAToken tok secret = False"

definition registerBiometric :: "bool \<Rightarrow> clock \<Rightarrow> string \<Rightarrow> (se_state, bool) eff" where
  "registerBiometric hasWebAuthn clk rnd s =
     (if \<not> hasWebAuthn then (Inl (Error ''WebAuthn not supported in this browser''), s)
      else (Inr True, logSecurityEvent clk rnd SettingsChange ''Biometric authentication enabled'' None
        (saveSettings (s\<lparr>settings := (settings s)\<lparr>biometric := Some True\<rparr>\<rparr>))))"

definition authenticateWithBiometric :: "clock \<Rightarrow> string \<Rightarrow> se_state \<Rightarrow> bool \<times> se_state" where
  "authenticateWithBiometric clk rnd s =
     (if biometric (settings s) \<noteq> Some True then (False, s)
      else (True, logSecurityEvent clk rnd Login ''Authenticated with biometric'' None s))"

definition detectSuspiciousActivity :: "clock \<Rightarrow> string \<Rightarrow> string \<Rightarrow> se_state \<Rightarrow> se_state" where
  "detectSuspiciousActivity clk r1 r2 s =
     (let recentFails = filter (\<lambda>e. ev_timestamp e > clk 0 - 15 * 60 * 1000) (getSecurityEventsByType FailedLogin s);
          s1 = (if length recentFails \<ge> 5
                then logSecurityEvent (\<lambda>k. clk (k + 1)) r1 SuspiciousActivity ''Multiple failed login attempts detected'' None s
                else s);
          activeDevices = remdups (map ss_deviceId (filter isActive (getAllSessions s1)))
      in if length activeDevices > 5
         then logSecurityEvent (\<lambda>k. clk (k + 3)) r2 SuspiciousActivity ''Unusual number of active devices detected'' None s1
         else s1)"

definition clearAllData :: "se_state \<Rightarrow> se_state" where
  "clearAllData s = s\<lparr>sessions := [], securityEvents := [], sessions_item := Absent, events_item := Absent\<rparr>"

section \<open>The manager's invariant\<close>

definition events_ok :: "se_state \<Rightarrow> bool" where
  "events_ok s \<longleftrightarrow> length (securityEvents s) \<le> 1000 \<and>
     (events_item s = Json (securityEvents s) \<or> (securityEvents s = [] \<and> events_item s = Absent))"

text \<open>The current session and its entry in the map are one object.\<close>

definition current_ok :: "se_state \<Rightarrow> bool" where
  "current_ok s \<longleftrightarrow>
     (\<forall>c x. currentSession s = Some c \<and> map_of (sessions s) (ss_id c) = Some x \<longrightarrow> x = c)"

definition sessions_ok :: "se_state \<Rightarrow> bool" where
  "sessions_ok s \<longleftrightarrow> keyed ss_id (sessions s) \<and> in_sync (sessions s) (sessions_item s) \<and> current_ok s"

definition se_inv :: "se_state \<Rightarrow> bool" where
  "se_inv s \<longleftrightarrow> events_ok s \<and> sessions_ok s"

datatype se_op =
    Activity | FireTimer | CheckLock | LockNow | UnlockNow | Terminate string | TerminateOthers
  | LogEvent event_type string "string option" | Update SessionSettings | RegisterBio bool | AuthBio
  | Detect | Clear

fun se_step :: "clock \<Rightarrow> string \<Rightarrow> se_op \<Rightarrow> se_state \<Rightarrow> se_state" where
  "se_step clk rnd Activity s = updateActivity clk s"
| "se_step clk rnd FireTimer s = fireLockTimer clk rnd s"
| "se_step clk rnd CheckLock s = checkAutoLock clk rnd s"
| "se_step clk rnd LockNow s = lockSession clk rnd s"
| "se_step clk rnd UnlockNow s = unlockSession clk s"
| "se_step clk rnd (Terminate sid) s = snd (terminateSession clk rnd sid s)"
| "se_step clk rnd TerminateOthers s = snd (terminateAllOtherSessions clk rnd s)"
| "se_step clk rnd (LogEvent ty d ip) s = logSecurityEvent clk rnd ty d ip s"
| "se_step clk rnd (Update upd) s = updateSettings clk rnd upd s"
| "se_step clk rnd (RegisterBio b) s = snd (registerBiometric b clk rnd s)"
| "se_step clk rnd AuthBio s = snd (authenticateWithBiometric clk rnd s)"
| "se_step clk rnd Detect s = detectSuspiciousActivity clk rnd rnd s"
| "se_step clk rnd Clear s = clearAllData s"

lemma log_fields [simp]:
  "sessions (logSecurityEvent clk rnd ty d ip s) = sessions s"
  "sessions_item (logSecurityEvent clk rnd ty d ip s) = sessions_item s"
  "currentSession (logSecurityEvent clk rnd ty d ip s) = currentSession s"
  "settings (logSecurityEvent clk rnd ty d ip s) = settings s"
  "lockTimeout (logSecurityEvent clk rnd ty d ip s) = lockTimeout s"
  by (simp_all add: logSecurityEvent_def saveSecurityEvents_def Let_def)

lemma log_events_ok [simp]: "events_ok (logSecurityEvent clk rnd ty d ip s)"
  by (simp add: events_ok_def logSecurityEvent_def saveSecurityEvents_def slice_last_def Let_def)

lemma log_sessions_ok [simp]: "sessions_ok (logSecurityEvent clk rnd ty d ip s) = sessions_ok s"
  by (simp add: sessions_ok_def current_ok_def)

lemma log_inv: "sessions_ok s \<Longrightarrow> se_inv (logSecurityEvent clk rnd ty d ip s)"
  by (simp add: se_inv_def)

lemma change_current_sessions_ok:
  assumes "sessions_ok s" and "\<And>c. ss_id (f c) = ss_id c"
  shows "sessions_ok (saveSessions (change_current f s))"
proof (cases "currentSession s")
  case None
  with assms(1) show ?thesis by (simp add: sessions_ok_def saveSessions_def change_current_def current_ok_def)
next
  case (Some c)
  have "keyed ss_id (sessions s)" using assms(1) by (simp add: sessions_ok_def)
  then have "keyed ss_id (AList.update (ss_id c) (f c) (sessions s))" using assms(2) by (intro keyed_set) simp_all
  with Some assms show ?thesis
    by (auto simp: sessions_ok_def saveSessions_def change_current_def current_ok_def)
qed

lemma change_current_events [simp]:
  "events_ok (saveSessions (change_current f s)) = events_ok s"
  by (simp add: events_ok_def saveSessions_def change_current_def split: option.split)

lemma events_ok_irrelevant [simp]:
  "events_ok (s\<lparr>lastActivity := t\<rparr>) = events_ok s" "events_ok (s\<lparr>lockTimeout := d\<rparr>) = events_ok s"
  "events_ok (s\<lparr>settings := st\<rparr>) = events_ok s" "events_ok (saveSettings s) = events_ok s"
  by (simp_all add: events_ok_def saveSettings_def)

lemma sessions_ok_irrelevant [simp]:
  "sessions_ok (s\<lparr>lastActivity := t\<rparr>) = sessions_ok s" "sessions_ok (s\<lparr>lockTimeout := d\<rparr>) = sessions_ok s"
  "sessions_ok (s\<lparr>settings := st\<rparr>) = sessions_ok s" "sessions_ok (saveSettings s) = sessions_ok s"
  by (simp_all add: sessions_ok_def current_ok_def saveSettings_def)

lemma lock_inv: "sessions_ok s \<Longrightarrow> se_inv (lockSession clk rnd s)"
  by (auto simp: lockSession_def Let_def se_inv_def change_current_sessions_ok split: option.split)

lemma reset_inv [simp]: "se_inv (resetLockTimer now s) = se_inv s"
  by (simp add: resetLockTimer_def se_inv_def)

lemma activity_inv: "se_inv s \<Longrightarrow> se_inv (updateActivity clk s)"
  by (auto simp: updateActivity_def Let_def se_inv_def resetLockTimer_def change_current_sessions_ok split: option.split)

lemma unlock_inv: "se_inv s \<Longrightarrow> se_inv (unlockSession clk s)"
proof (cases "currentSession s")
  case (Some c)
  assume "se_inv s"
  moreover have "saveSessions ((change_current f s)\<lparr>lastActivity := t\<rparr>) = (saveSessions (change_current f s))\<lparr>lastActivity := t\<rparr>"
    for f t by (simp add: saveSessions_def)
  ultimately show ?thesis
    using Some by (simp add: unlockSession_def se_inv_def change_current_sessions_ok resetLockTimer_def)
qed (simp add: unlockSession_def)

lemma saveSessions_ok: "sessions_ok (saveSessions s) \<longleftrightarrow> keyed ss_id (sessions s) \<and> current_ok s"
  by (auto simp: sessions_ok_def saveSessions_def current_ok_def)

lemma terminate_current_ok:
  assumes "current_ok s" and "map_of (sessions s) sid = Some ses"
  shows "current_ok (s\<lparr>sessions := AList.update sid (ses\<lparr>isActive := False\<rparr>) (sessions s),
    currentSession := deactivate_current (\<lambda>c. ss_id c = sid) s\<rparr>)"
proof (cases "currentSession s")
  case None
  then show ?thesis by (simp add: current_ok_def deactivate_current_def)
next
  case (Some c)
  show ?thesis
  proof (cases "ss_id c = sid")
    case True
    then have "ses = c" using assms Some by (simp add: current_ok_def)
    then show ?thesis using Some True assms(2) by (simp add: current_ok_def deactivate_current_def)
  next
    case False
    then show ?thesis using Some assms(1) by (simp add: current_ok_def deactivate_current_def)
  qed
qed

lemma terminate_inv: "se_inv s \<Longrightarrow> se_inv (snd (terminateSession clk rnd sid s))"
proof (cases "map_of (sessions s) sid")
  case (Some ses)
  assume "se_inv s"
  then have k: "keyed ss_id (sessions s)" and c: "current_ok s" by (simp_all add: se_inv_def sessions_ok_def)
  have "keyed ss_id (AList.update sid (ses\<lparr>isActive := False\<rparr>) (sessions s))"
    using k keyed_get [OF k Some] by (intro keyed_set) simp_all
  with Some terminate_current_ok [OF c Some] show ?thesis
    by (simp add: terminateSession_def log_inv saveSessions_ok)
qed (simp add: terminateSession_def)

lemma terminate_others_inv: "se_inv s \<Longrightarrow> se_inv (snd (terminateAllOtherSessions clk rnd s))"
proof -
  assume i: "se_inv s"
  let ?f = "\<lambda>ses. if is_other s ses then ses\<lparr>isActive := False\<rparr> else ses"
  have "keyed ss_id (map_values ?f (sessions s))"
    using i by (intro keyed_map_values) (simp_all add: se_inv_def sessions_ok_def)
  moreover have "current_ok (s\<lparr>sessions := map_values ?f (sessions s)\<rparr>)"
    unfolding current_ok_def
  proof (intro allI impI)
    fix c x
    assume c: "currentSession (s\<lparr>sessions := map_values ?f (sessions s)\<rparr>) = Some c \<and>
      map_of (sessions (s\<lparr>sessions := map_values ?f (sessions s)\<rparr>)) (ss_id c) = Some x"
    then obtain y where y: "currentSession s = Some c" "map_of (sessions s) (ss_id c) = Some y" "x = ?f y" by auto
    then have "y = c" using i by (simp add: se_inv_def sessions_ok_def current_ok_def)
    then show "x = c" using y by (simp add: is_other_def)
  qed
  ultimately have "sessions_ok (saveSessions (s\<lparr>sessions := map_values ?f (sessions s)\<rparr>))" by (simp add: saveSessions_ok)
  then show ?thesis unfolding terminateAllOtherSessions_def Let_def snd_conv by (rule log_inv)
qed

lemma open_session_ok:
  "keyed ss_id (sessions s) \<Longrightarrow> ss_id ses = sid \<Longrightarrow>
     sessions_ok (saveSessions (s\<lparr>currentSession := Some ses, sessions := AList.update sid ses (sessions s)\<rparr>))"
  by (auto simp: sessions_ok_def current_ok_def saveSessions_def)

lemma device_sessions: "getOrCreateDeviceId now rnd s = (d, s1) \<Longrightarrow> sessions s1 = sessions s"
  by (auto simp: getOrCreateDeviceId_def Let_def split: if_splits)

lemma initialize_inv:
  assumes "keyed ss_id (sessions s)"
  shows "se_inv (initializeSession clk rd rs re ua s)"
proof -
  obtain d s1 where d: "getOrCreateDeviceId (clk 0) rd s = (d, s1)" by force
  with assms have "keyed ss_id (sessions s1)" by (simp add: device_sessions)
  then show ?thesis
    unfolding initializeSession_def d prod.case Let_def by (intro log_inv open_session_ok) simp_all
qed

text \<open>
  C19: the bookkeeping of the session manager. A freshly constructed manager and every state it
  reaches by user activity, timers and calls keeps at most 1000 events, has sessions and events
  stored as they are in memory, and never lets the current session and its entry in the map
  diverge.
\<close>

theorem session_manager_inv:
  assumes "new_session_manager clk rd rs re ua si ei ti dev = Inr s"
  shows "se_inv (fold (\<lambda>(clk, rnd, op). se_step clk rnd op) ops s)"
proof -
  have "se_inv s"
    using assms
    by (auto simp: new_session_manager_def intro!: initialize_inv split: sum.splits)
  moreover have "se_inv (se_step clk rnd op s)" if "se_inv s" for clk rnd op s
  proof (cases op)
    case FireTimer
    with that show ?thesis by (auto simp: fireLockTimer_def se_inv_def [of s] intro!: lock_inv split: option.split)
  next
    case CheckLock
    with that show ?thesis by (auto simp: checkAutoLock_def se_inv_def [of s] intro!: lock_inv split: option.split)
  next
    case (Update upd)
    with that show ?thesis
      by (auto simp: updateSettings_def Let_def resetLockTimer_def se_inv_def [of s] intro!: log_inv)
  next
    case Clear
    with that show ?thesis by (simp add: se_inv_def events_ok_def sessions_ok_def current_ok_def clearAllData_def)
  qed (use that in \<open>auto simp: activity_inv lock_inv unlock_inv terminate_inv terminate_others_inv log_inv
      registerBiometric_def authenticateWithBiometric_def detectSuspiciousActivity_def Let_def se_inv_def [of s]\<close>)
  ultimately show ?thesis by (induction ops arbitrary: s) auto
qed

lemma session_manager_demo:
  "\<exists>s. new_session_manager (\<lambda>_. 0) ''d'' ''s'' ''e'' ''Linux'' Absent Absent Absent None = Inr s"
  by (simp add: new_session_manager_def loadSettings_def)

theorem session_manager_inv_witness:
  "\<exists>s. new_session_manager (\<lambda>_. 0) ''d'' ''s'' ''e'' ''Linux'' Absent Absent Absent None = Inr s \<and>
     se_inv (fold (\<lambda>(clk, rnd, op). se_step clk rnd op) [(\<lambda>_. 5, ''r'', Activity), (\<lambda>_. 9, ''q'', TerminateOthers)] s)"
  using session_manager_demo session_manager_inv by metis

section \<open>Locking\<close>

text \<open>
  Inactivity locks. When the minute check finds that the last activity is at least the
  configured (non-zero) number of minutes old, the current session is inactive afterwards.
\<close>

theorem inactivity_locks:
  assumes "autoLockMinutes (settings s) = Some m" and "m \<noteq> 0"
    and "m * 60 * 1000 \<le> of_int (clk 0 - lastActivity s)"
  shows "\<forall>c. currentSession (checkAutoLock clk rnd s) = Some c \<longrightarrow> \<not> isActive c"
  using assms
  by (auto simp: checkAutoLock_def lockSession_def Let_def saveSessions_def change_current_def split: option.splits)

definition demo_session :: Session where
  "demo_session = \<lparr>ss_id = ''s'', ss_deviceId = ''d'', deviceName = ''Mac'', userAgent = ''u'', ss_ipAddress = ''Unknown'',
     ss_createdAt = 0, ss_lastActivity = 0, isActive = True\<rparr>"

definition demo_manager :: "jsnum \<Rightarrow> se_state" where
  "demo_manager m = \<lparr>currentSession = Some demo_session, sessions = [(''s'', demo_session)], securityEvents = [],
     settings = default_settings\<lparr>autoLockMinutes := Some m\<rparr>, lastActivity = 0, lockTimeout = None,
     sessions_item = Absent, events_item = Absent, session_settings_item = Absent, device_item = None\<rparr>"

theorem inactivity_locks_witness:
  "\<exists>c. currentSession (checkAutoLock (\<lambda>_. 60000) ''r'' (demo_manager 1)) = Some c \<and> \<not> isActive c"
proof -
  have "\<exists>c. currentSession (checkAutoLock (\<lambda>_. 60000) ''r'' (demo_manager 1)) = Some c"
    by (simp add: checkAutoLock_def demo_manager_def lockSession_def saveSessions_def change_current_def Let_def)
  moreover have "\<forall>c. currentSession (checkAutoLock (\<lambda>_. 60000) ''r'' (demo_manager 1)) = Some c \<longrightarrow> \<not> isActive c"
    by (rule inactivity_locks [where m = 1]) (simp_all add: demo_manager_def)
  ultimately show ?thesis by blast
qed

text \<open>
  Switching auto-lock off locks. Zero minutes mean 'disabled' to the minute check, but the
  timer that every activity restarts takes them as no delay: the session is locked in the very
  millisecond of the activity.
\<close>

theorem disabled_auto_lock_locks:
  assumes "autoLockMinutes (settings s) = Some 0" and "currentSession s = Some c"
  shows "checkAutoLock clk' rnd s = s \<and>
    (\<exists>c'. currentSession (fireLockTimer (\<lambda>_. now) rnd (updateActivity (\<lambda>_. now) s)) = Some c' \<and> \<not> isActive c')"
  using assms
  by (auto simp: checkAutoLock_def fireLockTimer_def updateActivity_def resetLockTimer_def lockSession_def
      saveSessions_def change_current_def Let_def)

theorem disabled_auto_lock_locks_witness:
  "\<exists>c'. currentSession (fireLockTimer (\<lambda>_. 7) ''r'' (updateActivity (\<lambda>_. 7) (demo_manager 0))) = Some c' \<and> \<not> isActive c'"
  using disabled_auto_lock_locks [of "demo_manager 0" demo_session] by (simp add: demo_manager_def)

text \<open>After all other sessions are ended, an active session is the current one.\<close>

lemma only_current_active:
  assumes "ses \<in> snd ` set (sessions (snd (terminateAllOtherSessions clk rnd s)))" and "isActive ses"
  shows "map_option ss_id (currentSession s) = Some (ss_id ses)"
  using assms by (auto simp: terminateAllOtherSessions_def Let_def saveSessions_def map_values_def is_other_def split: if_splits)

text \<open>Android browsers name Linux in their user agent, and iPhones Mac, so neither is recognised.\<close>

lemma mobile_devices_misnamed:
  "str_includes ua ''Linux'' \<Longrightarrow> getDeviceName ua \<noteq> ''Android Device''"
  "str_includes ua ''Mac'' \<Longrightarrow> getDeviceName ua \<noteq> ''iOS Device''"
  by (simp_all add: getDeviceName_def)

lemma and_31_less: "n AND 31 < (32::nat)"
proof -
  have "n AND 31 = take_bit 5 n" by (simp add: take_bit_eq_mask mask_eq_exp_minus_1)
  then show ?thesis using take_bit_nat_less_exp [of 5 n] by simp
qed

lemma secret_shape: "length (fst (generate2FASecret bs)) = 16 \<and> set (fst (generate2FASecret bs)) \<subseteq> set BASE32"
proof -
  have "BASE32 ! (n AND 31) \<in> set BASE32" for n
    using and_31_less [of n] by (intro nth_mem) (simp add: BASE32_def)
  then show ?thesis by (auto simp: generate2FASecret_def Let_def)
qed

end
