(* ===== verification/Authentication.thy ===== *)
theory Authentication
  imports Prelude "HOL-Library.Word"
begin

text \<open>
  Second factors (services/authentication.ts): one-time-password secrets and backup codes in base
  32, and stored credentials. The encoder works on 32-bit integers as JavaScript's bit operators
  do; random bytes are arguments.
\<close>

unbundle bit_operations_syntax

record TOTPSetup =
  secret :: string
  qrCode :: string
  backupCodes :: "string list"

record WebAuthnCredential =
  wc_id :: string
  wc_name :: string
  wc_createdAt :: int

record auth_state =
  totpEnabled :: bool
  totpSecret :: "string option"
  webauthnCredentials :: "WebAuthnCredential list"
  biometricAvailable :: bool

definition new_Authentication :: "bool \<Rightarrow> auth_state" where
  "new_Authentication supported =
     \<lparr>totpEnabled = False, totpSecret = None, webauthnCredentials = [], biometricAvailable = supported\<rparr>"

section \<open>Base 32\<close>

definition alphabet :: string where
  "alphabet = ''ABCDEFGHIJKLMNOPQRSTUVWXYZ234567''"

text \<open>\<open>alphabet[w & 31]\<close>\<close>

definition letter :: "32 word \<Rightarrow> char" where
  "letter w = alphabet ! unat (w AND 31)"

text \<open>The inner loop: what it writes and the number of bits left over.\<close>

fun emit :: "nat \<Rightarrow> 32 word \<Rightarrow> string \<times> nat" where
  "emit bits v =
     (if 5 \<le> bits then (case emit (bits - 5) v of (out, rest) \<Rightarrow> (letter (drop_bit (bits - 5) v) # out, rest)) else ([], bits))"

declare emit.simps [simp del]

fun encode_loop :: "nat \<Rightarrow> 32 word \<Rightarrow> 8 word list \<Rightarrow> string" where
  "encode_loop bits v [] = (if 0 < bits then [letter (push_bit (5 - bits) v)] else [])"
| "encode_loop bits v (b # bs) =
     (let v' = push_bit 8 v OR ucast b
      in case emit (bits + 8) v' of (out, rest) \<Rightarrow> out @ encode_loop rest v' bs)"

definition base32Encode :: "8 word list \<Rightarrow> string" where
  "base32Encode bs = encode_loop 0 0 bs"

section \<open>Operations\<close>

text \<open>\<open>crypto\<close>: Web Crypto is there. \<open>rnd k\<close> are the bytes of the k-th draw.\<close>

definition getCrypto :: "bool \<Rightarrow> (auth_state, unit) eff" where
  "getCrypto crypto = (if \<not> crypto then ethrow (Error ''Secure random unavailable.'') else eret ())"

definition byte_length :: "nat \<Rightarrow> nat" where
  "byte_length n = (n * 5 + 7) div 8"

definition generateSecret :: "bool \<Rightarrow> (nat \<Rightarrow> 8 word list) \<Rightarrow> nat \<Rightarrow> (auth_state, string) eff" where
  "generateSecret crypto draw n =
     ebind (getCrypto crypto) (\<lambda>_. eret (take n (base32Encode (draw (byte_length n)))))"

definition generateBackupCodes :: "bool \<Rightarrow> (nat \<Rightarrow> nat \<Rightarrow> 8 word list) \<Rightarrow> nat \<Rightarrow> (auth_state, string list) eff" where
  "generateBackupCodes crypto draw n =
     ebind (getCrypto crypto) (\<lambda>_. eret (map (\<lambda>i. take 8 (base32Encode (draw i 8))) [0..<n]))"

definition setupTOTP ::
    "bool \<Rightarrow> (nat \<Rightarrow> 8 word list) \<Rightarrow> (nat \<Rightarrow> nat \<Rightarrow> 8 word list) \<Rightarrow> (auth_state, TOTPSetup) eff" where
  "setupTOTP crypto draw draws =
     ebind (generateSecret crypto draw 32) (\<lambda>sec.
     ebind (generateBackupCodes crypto draws 8) (\<lambda>codes s.
       (Inr \<lparr>secret = sec, qrCode = ''otpauth://totp/Kubercoin?secret='' @ sec @ ''&issuer=Kubercoin'', backupCodes = codes\<rparr>,
        s\<lparr>totpSecret := Some sec\<rparr>)))"

definition verifyTOTP :: "string \<Rightarrow> (auth_state, bool) eff" where
  "verifyTOTP code s =
     (if \<not> truthy_string (totpSecret s) then (Inr False, s)
      else if length code \<noteq> 6 \<or> \<not> list_all is_digit code then (Inr False, s)
      else (Inl (Error ''TOTP verification requires a shared secret validator.''), s))"

definition isTOTPEnabled :: "auth_state \<Rightarrow> bool" where
  "isTOTPEnabled s = totpEnabled s"

definition disableTOTP :: "auth_state \<Rightarrow> bool \<times> auth_state" where
  "disableTOTP s = (True, s\<lparr>totpEnabled := False, totpSecret := None\<rparr>)"

definition registerWebAuthn :: "string \<Rightarrow> (auth_state, bool) eff" where
  "registerWebAuthn name s =
     (if \<not> biometricAvailable s then (Inl (Error ''WebAuthn not supported''), s)
      else (Inl (Error (''WebAuthn registration requires a server-provided challenge for '' @ name @ ''.'')), s))"

definition authenticateWebAuthn :: "(auth_state, bool) eff" where
  "authenticateWebAuthn s =
     (if \<not> biometricAvailable s \<or> webauthnCredentials s = [] then (Inr False, s)
      else (Inl (Error ''WebAuthn authentication requires a server-provided challenge.''), s))"

definition getWebAuthnCredentials :: "auth_state \<Rightarrow> WebAuthnCredential list" where
  "getWebAuthnCredentials s = webauthnCredentials s"

definition removeWebAuthnCredential :: "string \<Rightarrow> auth_state \<Rightarrow> bool \<times> auth_state" where
  "removeWebAuthnCredential i s =
     (case find_index (\<lambda>c. wc_id c = i) (webauthnCredentials s) of
        None \<Rightarrow> (False, s)
      | Some k \<Rightarrow> (True, s\<lparr>webauthnCredentials := take k (webauthnCredentials s) @ drop (Suc k) (webauthnCredentials s)\<rparr>))"

definition isBiometricAvailable :: "auth_state \<Rightarrow> bool" where
  "isBiometricAvailable s = biometricAvailable s"

definition authenticateBiometric :: "(auth_state, bool) eff" where
  "authenticateBiometric s =
     (if \<not> biometricAvailable s then (Inr False, s)
      else ecatch authenticateWebAuthn (\<lambda>_. eret False) s)"

section \<open>The encoder is base 32\<close>

text \<open>
  The encoding of RFC 4648 without padding: the bits of the bytes, most significant first, in groups
  of five, the last group filled up with zeros.
\<close>

definition low :: "nat \<Rightarrow> 'a::len word \<Rightarrow> bool list" where
  "low n w = map (bit w) (rev [0..<n])"

definition byte_bits :: "8 word \<Rightarrow> bool list" where
  "byte_bits b = low 8 b"

definition bits_value :: "bool list \<Rightarrow> nat" where
  "bits_value bs = foldl (\<lambda>n b. 2 * n + of_bool b) 0 bs"

fun groups :: "bool list \<Rightarrow> string" where
  "groups bs = (if bs = [] then [] else alphabet ! bits_value (take 5 (bs @ replicate 4 False)) # groups (drop 5 bs))"

declare groups.simps [simp del]

definition rfc4648 :: "8 word list \<Rightarrow> string" where
  "rfc4648 bs = groups (concat (map byte_bits bs))"

lemma length_low [simp]: "length (low n w) = n"
  by (simp add: low_def)

lemma low_Suc: "low (Suc n) w = bit w n # low n w"
  by (simp add: low_def)

lemma low_add: "low (m + n) w = low m (drop_bit n w) @ low n w"
proof (induction m)
  case 0
  then show ?case by (simp add: low_def)
next
  case (Suc m)
  then show ?case by (simp add: low_Suc bit_drop_bit_eq add.commute)
qed

lemma low_cong: "(\<And>i. i < n \<Longrightarrow> bit v i = bit w i) \<Longrightarrow> low n v = low n w"
  by (auto simp: low_def)

lemma low_shift:
  fixes v :: "32 word" and b :: "8 word"
  assumes "n \<le> 24"
  shows "low (n + 8) (push_bit 8 v OR ucast b) = low n v @ byte_bits b"
proof -
  have "low n (drop_bit 8 (push_bit 8 v OR ucast b)) = low n v"
  proof (rule low_cong)
    fix i assume "i < n"
    with assms show "bit (drop_bit 8 (push_bit 8 v OR ucast b)) i = bit v i"
      by (auto simp: bit_drop_bit_eq bit_or_iff bit_push_bit_iff bit_ucast_iff dest: bit_imp_le_length)
  qed
  moreover have "low 8 (push_bit 8 v OR ucast b) = low 8 b"
    unfolding low_def by (auto simp: bit_or_iff bit_push_bit_iff bit_ucast_iff)
  ultimately show ?thesis by (simp add: low_add byte_bits_def)
qed

lemma bits_value_Cons: "bits_value (b # bs) = of_bool b * 2 ^ length bs + bits_value bs"
proof -
  have "foldl (\<lambda>n b. 2 * n + of_bool b) a bs = a * 2 ^ length bs + foldl (\<lambda>n b. 2 * n + of_bool b) 0 bs" for a :: nat
  proof (induction bs arbitrary: a)
    case Nil
    then show ?case by simp
  next
    case (Cons c bs)
    from Cons.IH [of "2 * a + of_bool c"] Cons.IH [of "of_bool c"] show ?case by (simp add: algebra_simps)
  qed
  from this [of "of_bool b"] show ?thesis by (simp add: bits_value_def)
qed

lemma bits_value_low: "bits_value (low n w) = take_bit n (unat w)" for w :: "'a::len word"
proof (induction n)
  case 0
  then show ?case by (simp add: low_def bits_value_def)
next
  case (Suc n)
  then show ?case by (simp add: low_Suc bits_value_Cons take_bit_Suc_from_most bit_unsigned_iff ac_simps)
qed

lemma letter_low: "letter w = alphabet ! bits_value (low 5 w)"
proof -
  have "w AND 31 = take_bit 5 w" by (simp add: take_bit_eq_mask mask_eq_exp_minus_1)
  then show ?thesis by (simp add: letter_def bits_value_low unsigned_take_bit_eq)
qed

lemma groups_low:
  assumes "5 \<le> n"
  shows "groups (low n v @ rest) = letter (drop_bit (n - 5) v) # groups (low (n - 5) v @ rest)"
proof -
  have "low n v = low 5 (drop_bit (n - 5) v) @ low (n - 5) v" using low_add [of 5 "n - 5" v] assms by simp
  then show ?thesis using assms by (subst groups.simps) (auto simp: letter_low low_def)
qed

lemma emit_groups:
  "emit n v = (out, r) \<Longrightarrow> groups (low n v @ rest) = out @ groups (low r v @ rest) \<and> r < 5"
proof (induction n v arbitrary: out r rule: emit.induct)
  case (1 n v)
  show ?case
  proof (cases "5 \<le> n")
    case True
    obtain out' where e: "emit (n - 5) v = (out', r)" "out = letter (drop_bit (n - 5) v) # out'"
      using 1(2) True by (auto simp: emit.simps [of n] split: prod.splits)
    from 1(1) [OF True e(1)] e(2) groups_low [OF True, of v rest] show ?thesis by simp
  next
    case False
    with 1(2) show ?thesis by (simp add: emit.simps [of n])
  qed
qed

lemma last_group:
  fixes v :: "32 word"
  assumes "0 < n" "n < 5"
  shows "groups (low n v) = [letter (push_bit (5 - n) v)]"
proof -
  have "low 5 (push_bit (5 - n) v) = low (n + (5 - n)) (push_bit (5 - n) v)" using assms by simp
  also have "\<dots> = low n (drop_bit (5 - n) (push_bit (5 - n) v)) @ low (5 - n) (push_bit (5 - n) v)" by (rule low_add)
  also have "low n (drop_bit (5 - n) (push_bit (5 - n) v)) = low n v"
    using assms by (intro low_cong) (auto simp: bit_drop_bit_eq bit_push_bit_iff)
  also have "low (5 - n) (push_bit (5 - n) v) = replicate (5 - n) False"
    by (auto simp: low_def list_eq_iff_nth_eq rev_nth bit_push_bit_iff)
  also have "low n v @ replicate (5 - n) False = take 5 (low n v @ replicate 4 False)"
  proof -
    have "take 5 (low n v) = low n v" using assms by simp
    moreover have "take (5 - n) (replicate 4 False) = replicate (5 - n) False" using assms by (simp add: min_def)
    ultimately show ?thesis by (simp only: take_append length_low)
  qed
  finally have "letter (push_bit (5 - n) v) = alphabet ! bits_value (take 5 (low n v @ replicate 4 False))"
    by (simp add: letter_low)
  moreover have "low n v \<noteq> []" "drop 5 (low n v) = []" using assms by (simp_all flip: length_0_conv)
  ultimately show ?thesis by (simp add: groups.simps [of "low n v"] groups.simps [of "[]"])
qed

lemma encode_loop_groups: "bits < 5 \<Longrightarrow> encode_loop bits v bs = groups (low bits v @ concat (map byte_bits bs))"
proof (induction bs arbitrary: bits v)
  case Nil
  then show ?case by (cases "bits = 0") (simp_all add: last_group groups.simps [of "[]"] low_def [of 0])
next
  case (Cons b bs)
  let ?v = "push_bit 8 v OR ucast b"
  obtain out r where e: "emit (bits + 8) ?v = (out, r)" by force
  from emit_groups [OF e, of "concat (map byte_bits bs)"] Cons.IH [of r ?v] Cons.prems e
  show ?case by (simp add: low_shift Let_def)
qed

lemma base32_groups: "base32Encode bs = groups (concat (map byte_bits bs))"
  by (simp add: base32Encode_def encode_loop_groups low_def)

text \<open>
  C27: \<open>base32Encode\<close> is the base-32 encoding of RFC 4648 without padding, for byte strings of
  any length: the bits that overflow the 32-bit accumulator are never needed.
\<close>

theorem base32_is_rfc4648: "base32Encode bs = rfc4648 bs"
  by (simp add: rfc4648_def base32_groups)

section \<open>Secrets keep their entropy\<close>

lemma length_groups: "length (groups bs) = (length bs + 4) div 5"
proof (induction bs rule: groups.induct)
  case (1 bs)
  show ?case
  proof (cases "bs = []")
    case True
    then show ?thesis by (simp add: groups.simps [of "[]"])
  next
    case False
    then have "1 \<le> length bs" by (cases bs) auto
    then have "Suc ((length bs - 5 + 4) div 5) = (length bs + 4) div 5"
    proof (cases "5 \<le> length bs")
      case True
      then obtain m where "length bs = m + 5" by (metis le_add_diff_inverse2)
      then show ?thesis by simp
    next
      case False
      with \<open>1 \<le> length bs\<close> have "length bs \<in> {1, 2, 3, 4}" by auto
      then show ?thesis by auto
    qed
    with 1 [OF False] False show ?thesis by (simp add: groups.simps [of bs])
  qed
qed

lemma length_bits: "length (concat (map byte_bits bs)) = 8 * length bs"
  by (induction bs) (simp_all add: byte_bits_def)

lemma length_base32: "length (base32Encode bs) = (8 * length bs + 4) div 5"
  by (simp add: base32_groups length_groups length_bits)

text \<open>Twenty random bytes give the 32 characters of a secret, none of them cut off.\<close>

lemma secret_is_whole:
  "length (draw 20) = 20 \<Longrightarrow> generateSecret True draw 32 s = (Inr (base32Encode (draw 20)), s)"
  by (simp add: generateSecret_def getCrypto_def ebind_def eret_def byte_length_def length_base32)

section \<open>No second factor can be completed\<close>

datatype auth_op =
    SetupTOTP bool "nat \<Rightarrow> 8 word list" "nat \<Rightarrow> nat \<Rightarrow> 8 word list"
  | VerifyTOTP string
  | DisableTOTP
  | RegisterWebAuthn string
  | RemoveCredential string
  | AuthenticateBiometric

fun auth_step :: "auth_op \<Rightarrow> auth_state \<Rightarrow> auth_state" where
  "auth_step (SetupTOTP c d ds) s = snd (setupTOTP c d ds s)"
| "auth_step (VerifyTOTP code) s = snd (verifyTOTP code s)"
| "auth_step DisableTOTP s = snd (disableTOTP s)"
| "auth_step (RegisterWebAuthn n) s = snd (registerWebAuthn n s)"
| "auth_step (RemoveCredential i) s = snd (removeWebAuthnCredential i s)"
| "auth_step AuthenticateBiometric s = snd (authenticateBiometric s)"

lemma auth_step_bare:
  "\<not> totpEnabled s \<and> webauthnCredentials s = [] \<Longrightarrow>
     \<not> totpEnabled (auth_step op s) \<and> webauthnCredentials (auth_step op s) = []"
  by (cases op) (auto simp: setupTOTP_def generateSecret_def generateBackupCodes_def getCrypto_def ebind_def eret_def ethrow_def
      verifyTOTP_def disableTOTP_def registerWebAuthn_def removeWebAuthnCredential_def authenticateBiometric_def
      authenticateWebAuthn_def ecatch_def split: option.splits)

text \<open>
  In every run no one-time password is accepted or ever reported as enabled, no credential is
  registered, and biometric authentication fails.
\<close>

lemma second_factor_never:
  "let s = fold auth_step ops (new_Authentication supported)
   in \<not> isTOTPEnabled s \<and> fst (verifyTOTP code s) \<noteq> Inr True \<and> getWebAuthnCredentials s = [] \<and>
      fst (authenticateBiometric s) = Inr False"
proof -
  have "\<not> totpEnabled s \<and> webauthnCredentials s = [] \<Longrightarrow>
      \<not> totpEnabled (fold auth_step ops s) \<and> webauthnCredentials (fold auth_step ops s) = []" for s
    by (induction ops arbitrary: s) (simp_all add: auth_step_bare)
  then show ?thesis
    by (auto simp: Let_def new_Authentication_def isTOTPEnabled_def verifyTOTP_def getWebAuthnCredentials_def
        authenticateBiometric_def authenticateWebAuthn_def ecatch_def)
qed

end
