(* ===== verification/Devices.thy ===== *)
theory Devices
  imports JsStore
begin

text \<open>
  Hardware wallets (services/hardwareWallet.ts). No device can be connected, so that every operation
  on a device throws; the requests to the browser (USB, HID, Bluetooth) are left out, and so are the
  generators of version numbers and random text, which nothing calls.
\<close>

datatype HardwareWalletType = Ledger | Trezor | Generic

datatype connection_type = USB | Bluetooth | WebUSB | WebHID

record HardwareDevice =
  hd_id :: string
  hd_name :: string
  hd_type :: HardwareWalletType
  hd_model :: string
  firmwareVersion :: string
  hd_connected :: bool
  connectionType :: connection_type

record hw_state =
  connectedDevices :: "(string, HardwareDevice) jsmap"

definition new_HardwareWallet :: hw_state where
  "new_HardwareWallet = \<lparr>connectedDevices = []\<rparr>"

definition connectDevice :: "HardwareWalletType \<Rightarrow> (hw_state, HardwareDevice) eff" where
  "connectDevice ty = ethrow (Error ''Hardware wallet integration not configured.'')"

definition disconnectDevice :: "string \<Rightarrow> hw_state \<Rightarrow> hw_state" where
  "disconnectDevice i s =
     (case map_of (connectedDevices s) i of
        None \<Rightarrow> s
      | Some d \<Rightarrow> s\<lparr>connectedDevices := AList.delete i (connectedDevices s)\<rparr>)"

definition getConnectedDevices :: "hw_state \<Rightarrow> HardwareDevice list" where
  "getConnectedDevices s = filter hd_connected (map snd (connectedDevices s))"

text \<open>The guard of every operation on a device.\<close>

definition with_device :: "string \<Rightarrow> (HardwareDevice \<Rightarrow> (hw_state, 'a) eff) \<Rightarrow> (hw_state, 'a) eff" where
  "with_device i f s =
     (case map_of (connectedDevices s) i of
        Some d \<Rightarrow> if hd_connected d then f d s else (Inl (Error ''Device not connected''), s)
      | None \<Rightarrow> (Inl (Error ''Device not connected''), s))"

definition getAddresses :: "string \<Rightarrow> int \<Rightarrow> int \<Rightarrow> (hw_state, string list) eff" where
  "getAddresses i a b = with_device i (\<lambda>_. ethrow (Error ''Hardware wallet address derivation not configured.''))"

definition signTransaction :: "string \<Rightarrow> 't \<Rightarrow> (hw_state, string) eff" where
  "signTransaction i tx = with_device i (\<lambda>_. ethrow (Error ''Hardware wallet signing not configured.''))"

definition signMessage :: "string \<Rightarrow> string \<Rightarrow> (hw_state, string) eff" where
  "signMessage i m = with_device i (\<lambda>_. ethrow (Error ''Hardware wallet message signing not configured.''))"

definition verifyAddress :: "string \<Rightarrow> string \<Rightarrow> (hw_state, bool) eff" where
  "verifyAddress i a = with_device i (\<lambda>_. ethrow (Error ''Hardware wallet address verification not configured.''))"

definition getPublicKey :: "string \<Rightarrow> string \<Rightarrow> (hw_state, string) eff" where
  "getPublicKey i path = with_device i (\<lambda>_. ethrow (Error ''Hardware wallet public key derivation not configured.''))"

definition getFirmwareVersion :: "string \<Rightarrow> (hw_state, string) eff" where
  "getFirmwareVersion i = with_device i (\<lambda>d. eret (firmwareVersion d))"

definition verifyDevice :: "string \<Rightarrow> (hw_state, bool) eff" where
  "verifyDevice i = with_device i (\<lambda>_. ethrow (Error ''Hardware wallet verification not configured.''))"

definition checkFirmwareUpdate :: "string \<Rightarrow> (hw_state, bool) eff" where
  "checkFirmwareUpdate i = with_device i (\<lambda>_. ethrow (Error ''Firmware update checks not configured.''))"

definition enablePassphrase :: "string \<Rightarrow> (hw_state, unit) eff" where
  "enablePassphrase i = with_device i (\<lambda>_. eret ())"

definition setLabel :: "string \<Rightarrow> string \<Rightarrow> (hw_state, unit) eff" where
  "setLabel i label = with_device i (\<lambda>d s. (Inr (), s\<lparr>connectedDevices := AList.update i (d\<lparr>hd_name := label\<rparr>) (connectedDevices s)\<rparr>))"

definition wipeDevice :: "string \<Rightarrow> (hw_state, unit) eff" where
  "wipeDevice i = with_device i (\<lambda>_. eret ())"

definition recoverDevice :: "string \<Rightarrow> string list \<Rightarrow> (hw_state, unit) eff" where
  "recoverDevice i seedWords =
     with_device i (\<lambda>_.
       if length seedWords \<noteq> 12 \<and> length seedWords \<noteq> 24
       then ethrow (Error ''Invalid seed phrase length. Must be 12 or 24 words.'') else eret ())"

datatype hw_op =
    Connect HardwareWalletType
  | Disconnect string
  | SetLabel string string
  | EnablePassphrase string
  | Wipe string
  | Recover string "string list"

fun hw_step :: "hw_op \<Rightarrow> hw_state \<Rightarrow> hw_state" where
  "hw_step (Connect ty) s = snd (connectDevice ty s)"
| "hw_step (Disconnect i) s = disconnectDevice i s"
| "hw_step (SetLabel i l) s = snd (setLabel i l s)"
| "hw_step (EnablePassphrase i) s = snd (enablePassphrase i s)"
| "hw_step (Wipe i) s = snd (wipeDevice i s)"
| "hw_step (Recover i ws) s = snd (recoverDevice i ws s)"

text \<open>
  In every run from a new service no device is connected, and an operation on a device throws that it
  is not connected.
\<close>

lemma no_device_ever: "connectedDevices (fold hw_step ops new_HardwareWallet) = []"
proof -
  have "connectedDevices s = [] \<Longrightarrow> connectedDevices (hw_step op s) = []" for op s
    by (cases op)
      (simp_all add: connectDevice_def ethrow_def disconnectDevice_def setLabel_def enablePassphrase_def wipeDevice_def recoverDevice_def
        with_device_def)
  then have "connectedDevices s = [] \<Longrightarrow> connectedDevices (fold hw_step ops s) = []" for s
    by (induction ops arbitrary: s) simp_all
  then show ?thesis by (simp add: new_HardwareWallet_def)
qed

lemma device_ops_throw: "with_device i f (fold hw_step ops new_HardwareWallet) = (Inl (Error ''Device not connected''), fold hw_step ops new_HardwareWallet)"
  by (simp add: with_device_def no_device_ever)

end
