(* ===== verification/MobileSync.thy ===== *)
theory MobileSync
  imports JsStore "HOL-Library.Word"
begin

text \<open>
  Synchronisation with mobile devices (services/mobileSync.ts): pairing codes drawn from 32-bit
  random numbers, paired devices, push notifications and the last synchronised data. Synchronised
  values are opaque: the JSON texts of them.
\<close>

section \<open>Data\<close>

type_synonym json = string

datatype device_type = Android | Ios
datatype device_status = DevActive | DevInactive | DevPending
datatype push_type = PushTransaction | PushSecurity | PushInfo

record PairedDevice =
  dv_id :: string
  dv_name :: string
  dv_type :: device_type
  dv_pairingCode :: string
  dv_pairedAt :: int
  dv_lastSyncAt :: "int option"
  dv_status :: device_status
  dv_pushToken :: "string option"

record SyncData =
  sy_wallets :: "json list"
  sy_transactions :: "json list"
  sy_contacts :: "json list"
  sy_settings :: json
  sy_lastSyncTimestamp :: int

text \<open>\<open>Partial<SyncData>\<close>; the time stamp is not read.\<close>

record SyncUpdate =
  su_wallets :: "json list option"
  su_transactions :: "json list option"
  su_contacts :: "json list option"
  su_settings :: "json option"

record PushNotification =
  pn_id :: string
  pn_deviceId :: string
  pn_title :: string
  pn_message :: string
  pn_type :: push_type
  pn_sentAt :: int
  pn_read :: bool

record ms_state =
  pairedDevices :: "(string, PairedDevice) jsmap"
  pushes :: "(string, PushNotification) jsmap"
  syncData :: "SyncData option"
  devices_item :: "PairedDevice list item"
  pushes_item :: "PushNotification list item"
  sync_item :: "SyncData item"

section \<open>Storage\<close>

text \<open>Read in order under one \<open>try\<close>.\<close>

definition load_devices :: "(ms_state, unit) eff" where
  "load_devices s =
     (case parse_item [] (devices_item s) of Inl e \<Rightarrow> (Inl e, s)
      | Inr ds \<Rightarrow> (Inr (), s\<lparr>pairedDevices := load_values dv_id ds\<rparr>))"

definition load_pushes :: "(ms_state, unit) eff" where
  "load_pushes s =
     (case parse_item [] (pushes_item s) of Inl e \<Rightarrow> (Inl e, s)
      | Inr ns \<Rightarrow> (Inr (), s\<lparr>pushes := load_values pn_id ns\<rparr>))"

definition load_sync :: "(ms_state, unit) eff" where
  "load_sync s =
     (case sync_item s of
        Json d \<Rightarrow> (Inr (), s\<lparr>syncData := Some d\<rparr>)
      | Absent \<Rightarrow> (Inr (), s)
      | Garbled t \<Rightarrow> if t = [] then (Inr (), s) else (Inl JsonSyntaxError, s))"

definition loadData :: "ms_state \<Rightarrow> ms_state" where
  "loadData s = snd (ecatch (ebind load_devices (\<lambda>_. ebind load_pushes (\<lambda>_. load_sync))) (\<lambda>_. eret ()) s)"

definition new_MobileSync :: "PairedDevice list item \<Rightarrow> PushNotification list item \<Rightarrow> SyncData item \<Rightarrow> ms_state" where
  "new_MobileSync d n y =
     loadData \<lparr>pairedDevices = [], pushes = [], syncData = None, devices_item = d, pushes_item = n, sync_item = y\<rparr>"

definition saveData :: "ms_state \<Rightarrow> ms_state" where
  "saveData s =
     s\<lparr>devices_item := Json (map snd (pairedDevices s)), pushes_item := Json (map snd (pushes s)),
       sync_item := (case syncData s of None \<Rightarrow> sync_item s | Some d \<Rightarrow> Json d)\<rparr>"

section \<open>Pairing\<close>

text \<open>\<open>draw k\<close> is the k-th number that \<open>getRandomValues\<close> writes.\<close>

definition code_of :: "32 word \<Rightarrow> nat" where
  "code_of w = unat w mod 900000 + 100000"

partial_function (option) pairing_loop :: "(nat \<Rightarrow> 32 word) \<Rightarrow> nat \<Rightarrow> nat option" where
  "pairing_loop draw k =
     (let code = code_of (draw k)
      in if code < 100000 \<or> code > 999999 then pairing_loop draw (Suc k) else Some code)"

definition generatePairingCode :: "(nat \<Rightarrow> 32 word) \<Rightarrow> string option" where
  "generatePairingCode draw = map_option show_nat (pairing_loop draw 0)"

text \<open>The object whose JSON text becomes the code.\<close>

record qr_payload =
  qp_service :: string
  qp_pairingCode :: string
  qp_timestamp :: int

definition generateQRCode :: "clock \<Rightarrow> string \<Rightarrow> qr_payload" where
  "generateQRCode clk code = \<lparr>qp_service = ''kubercoin'', qp_pairingCode = code, qp_timestamp = clk 0\<rparr>"

definition pairDevice :: "clock \<Rightarrow> string \<Rightarrow> string \<Rightarrow> device_type \<Rightarrow> string \<Rightarrow> ms_state \<Rightarrow> PairedDevice \<times> ms_state" where
  "pairDevice clk rnd name ty code s =
     (let d = \<lparr>dv_id = ''device_'' @ show_int (clk 0) @ ''_'' @ rnd, dv_name = name, dv_type = ty, dv_pairingCode = code,
            dv_pairedAt = clk 1, dv_lastSyncAt = None, dv_status = DevActive, dv_pushToken = None\<rparr>
      in (d, saveData (s\<lparr>pairedDevices := AList.update (dv_id d) d (pairedDevices s)\<rparr>)))"

definition getPairedDevices :: "ms_state \<Rightarrow> PairedDevice list" where
  "getPairedDevices s = sort_desc dv_pairedAt (map snd (pairedDevices s))"

definition unpairDevice :: "string \<Rightarrow> ms_state \<Rightarrow> ms_state" where
  "unpairDevice i s = saveData (s\<lparr>pairedDevices := AList.delete i (pairedDevices s)\<rparr>)"

section \<open>Synchronising and notifying\<close>

definition device_not_found :: js_error where
  "device_not_found = Error ''Device not found''"

definition syncWithDevice :: "clock \<Rightarrow> string \<Rightarrow> SyncUpdate \<Rightarrow> (ms_state, unit) eff" where
  "syncWithDevice clk i u s =
     (case map_of (pairedDevices s) i of
        None \<Rightarrow> (Inl device_not_found, s)
      | Some d \<Rightarrow>
          (Inr (), saveData (s\<lparr>syncData := Some \<lparr>sy_wallets = list_of (su_wallets u), sy_transactions = list_of (su_transactions u),
               sy_contacts = list_of (su_contacts u), sy_settings = or_keep (su_settings u) ''{}'', sy_lastSyncTimestamp = clk 0\<rparr>,
             pairedDevices := AList.update i (d\<lparr>dv_lastSyncAt := Some (clk 1)\<rparr>) (pairedDevices s)\<rparr>)))"

definition getSyncData :: "ms_state \<Rightarrow> SyncData option" where
  "getSyncData s = syncData s"

definition sendPushNotification ::
    "clock \<Rightarrow> string \<Rightarrow> string \<Rightarrow> string \<Rightarrow> string \<Rightarrow> push_type \<Rightarrow> (ms_state, PushNotification) eff" where
  "sendPushNotification clk rnd i title msg ty s =
     (case map_of (pairedDevices s) i of
        None \<Rightarrow> (Inl device_not_found, s)
      | Some d \<Rightarrow>
          let n = \<lparr>pn_id = ''notif_'' @ show_int (clk 0) @ ''_'' @ rnd, pn_deviceId = i, pn_title = title, pn_message = msg,
                pn_type = ty, pn_sentAt = clk 1, pn_read = False\<rparr>
          in (Inr n, saveData (s\<lparr>pushes := AList.update (pn_id n) n (pushes s)\<rparr>)))"

text \<open>An absent or empty device identifier selects all.\<close>

definition getNotifications :: "string option \<Rightarrow> ms_state \<Rightarrow> PushNotification list" where
  "getNotifications i s =
     sort_desc pn_sentAt
       (if truthy_string i then filter (\<lambda>n. pn_deviceId n = the i) (map snd (pushes s)) else map snd (pushes s))"

definition markNotificationRead :: "string \<Rightarrow> ms_state \<Rightarrow> ms_state" where
  "markNotificationRead i s =
     (case map_of (pushes s) i of
        None \<Rightarrow> s
      | Some n \<Rightarrow> saveData (s\<lparr>pushes := AList.update i (n\<lparr>pn_read := True\<rparr>) (pushes s)\<rparr>))"

definition remoteWipe :: "clock \<Rightarrow> string \<Rightarrow> string \<Rightarrow> (ms_state, unit) eff" where
  "remoteWipe clk rnd i s =
     (case map_of (pairedDevices s) i of
        None \<Rightarrow> (Inl device_not_found, s)
      | Some d \<Rightarrow>
          ebind (sendPushNotification clk rnd i ''Remote Wipe'' ''Your wallet data will be erased'' PushSecurity)
            (\<lambda>_ t. (Inr (), saveData (t\<lparr>pairedDevices := AList.update i (d\<lparr>dv_status := DevInactive\<rparr>) (pairedDevices t)\<rparr>))) s)"

definition enableBiometricAuth :: "string \<Rightarrow> ms_state \<Rightarrow> bool" where
  "enableBiometricAuth i s \<longleftrightarrow> map_of (pairedDevices s) i \<noteq> None"

datatype ms_op =
    Pair clock string string device_type string
  | Unpair string
  | SyncWith clock string SyncUpdate
  | Push clock string string string string push_type
  | MarkRead string
  | Wipe clock string string

fun ms_step :: "ms_op \<Rightarrow> ms_state \<Rightarrow> ms_state" where
  "ms_step (Pair clk rnd n ty c) s = snd (pairDevice clk rnd n ty c s)"
| "ms_step (Unpair i) s = unpairDevice i s"
| "ms_step (SyncWith clk i u) s = snd (syncWithDevice clk i u s)"
| "ms_step (Push clk rnd i t m ty) s = snd (sendPushNotification clk rnd i t m ty s)"
| "ms_step (MarkRead i) s = markNotificationRead i s"
| "ms_step (Wipe clk rnd i) s = snd (remoteWipe clk rnd i s)"

section \<open>Storage is written through\<close>

definition ms_keyed :: "ms_state \<Rightarrow> bool" where
  "ms_keyed s \<longleftrightarrow> keyed dv_id (pairedDevices s) \<and> keyed pn_id (pushes s)"

definition sync_stored :: "SyncData option \<Rightarrow> SyncData item \<Rightarrow> bool" where
  "sync_stored d i \<longleftrightarrow> (case d of None \<Rightarrow> i = Absent | Some x \<Rightarrow> i = Json x)"

definition ms_inv :: "ms_state \<Rightarrow> bool" where
  "ms_inv s \<longleftrightarrow> ms_keyed s \<and> in_sync (pairedDevices s) (devices_item s) \<and> in_sync (pushes s) (pushes_item s) \<and>
     sync_stored (syncData s) (sync_item s)"

definition ms_reload :: "ms_state \<Rightarrow> ms_state" where
  "ms_reload s = new_MobileSync (devices_item s) (pushes_item s) (sync_item s)"

lemma ms_inv_saved:
  assumes "ms_keyed s" and "syncData s \<noteq> None \<or> sync_item s = Absent"
  shows "ms_inv (saveData s)"
  using assms by (auto simp: ms_inv_def ms_keyed_def saveData_def sync_stored_def split: option.splits)

lemma sync_stored_absent: "sync_stored d i \<Longrightarrow> d \<noteq> None \<or> i = Absent"
  by (auto simp: sync_stored_def split: option.splits)

lemma push_inv: "ms_inv s \<Longrightarrow> ms_inv (snd (sendPushNotification clk rnd i t m ty s))"
  by (auto simp: sendPushNotification_def ms_inv_def [of s] ms_keyed_def Let_def split: option.splits
      intro!: ms_inv_saved [unfolded ms_keyed_def] keyed_set dest: sync_stored_absent)

lemma wipe_push_devices [simp]: "pairedDevices (snd (sendPushNotification clk rnd i t m ty s)) = pairedDevices s"
  by (simp add: sendPushNotification_def saveData_def Let_def split: option.splits)

lemma wipe_inv:
  assumes "ms_inv s"
  shows "ms_inv (snd (remoteWipe clk rnd i s))"
proof (cases "map_of (pairedDevices s) i")
  case (Some d)
  let ?p = "sendPushNotification clk rnd i ''Remote Wipe'' ''Your wallet data will be erased'' PushSecurity s"
  obtain n where n: "fst ?p = Inr n" using Some by (simp add: sendPushNotification_def Let_def)
  have k: "dv_id d = i" using assms Some by (auto simp: ms_inv_def ms_keyed_def dest: keyed_get)
  have "ms_inv (snd ?p)" using push_inv [OF assms] .
  then have "ms_inv (saveData ((snd ?p)\<lparr>pairedDevices := AList.update i (d\<lparr>dv_status := DevInactive\<rparr>) (pairedDevices (snd ?p))\<rparr>))"
    using k by (intro ms_inv_saved) (auto simp: ms_inv_def ms_keyed_def simp del: wipe_push_devices intro!: keyed_set dest: sync_stored_absent)
  with n Some show ?thesis by (cases ?p) (simp add: remoteWipe_def ebind_def)
qed (use assms in \<open>simp add: remoteWipe_def\<close>)

lemma mobile_step_inv: "ms_inv s \<Longrightarrow> ms_inv (ms_step op s)"
proof (cases op)
  case (SyncWith clk i u)
  then show "ms_inv s \<Longrightarrow> ms_inv (ms_step op s)"
    by (auto simp: syncWithDevice_def ms_inv_def [of s] ms_keyed_def split: option.splits
        intro!: ms_inv_saved [unfolded ms_keyed_def] keyed_set) (metis keyed_get)
next
  case (MarkRead i)
  then show "ms_inv s \<Longrightarrow> ms_inv (ms_step op s)"
    by (auto simp: markNotificationRead_def ms_inv_def [of s] ms_keyed_def split: option.splits
        intro!: ms_inv_saved [unfolded ms_keyed_def] keyed_set dest: sync_stored_absent) (metis keyed_get)
qed (auto simp: push_inv wipe_inv pairDevice_def unpairDevice_def ms_inv_def [of s] ms_keyed_def Let_def
    intro!: ms_inv_saved [unfolded ms_keyed_def] keyed_set keyed_delete dest: sync_stored_absent)

lemma ms_reload_id:
  assumes "ms_inv s"
  shows "ms_reload s = s"
proof -
  have "parse_item [] (devices_item s) = Inr (map snd (pairedDevices s))" "parse_item [] (pushes_item s) = Inr (map snd (pushes s))"
    using assms by (auto simp: ms_inv_def in_sync_def)
  with assms show ?thesis
    by (cases "syncData s")
      (auto simp: ms_reload_def new_MobileSync_def loadData_def load_devices_def load_pushes_def load_sync_def ecatch_def
        ebind_def ms_inv_def ms_keyed_def sync_stored_def load_values_inverse)
qed

interpretation mob: write_through ms_step ms_reload ms_inv
  by unfold_locales (auto simp: mobile_step_inv ms_reload_id)

section \<open>Pairing codes\<close>

lemma code_range: "100000 \<le> code_of w" "code_of w \<le> 999999"
  using pos_mod_bound [of 900000 "int (unat w)"] by (simp_all add: code_of_def less_Suc_eq_le [symmetric])

lemma show_nat_length:
  assumes "10 ^ k \<le> n" and "n < 10 ^ Suc k"
  shows "length (show_nat n) = Suc k"
  using assms
proof (induction k arbitrary: n)
  case 0
  then show ?case by (subst show_nat.simps) simp
next
  case (Suc k)
  have "10 ^ k \<le> n div 10" "n div 10 < 10 ^ Suc k"
    using Suc.prems by (simp_all add: less_eq_div_iff_mult_less_eq div_less_iff_less_mult mult.commute)
  with Suc.IH have "length (show_nat (n div 10)) = Suc k" by blast
  moreover have "\<not> n < 10" using Suc.prems(1) by (simp add: not_less) (metis One_nat_def le_trans mult_le_mono2 nat_mult_1_right one_le_numeral one_le_power)
  ultimately show ?case by (subst show_nat.simps) simp
qed

text \<open>
  Generating a pairing code always returns, with the first number drawn, and the code is six
  decimal digits the first of which is not zero, whatever the random numbers are.
\<close>

theorem pairing_code_returns:
  "\<exists>code. generatePairingCode draw = Some (show_nat code) \<and> code = code_of (draw 0) \<and>
     length (show_nat code) = 6 \<and> list_all is_digit (show_nat code) \<and> 100000 \<le> code"
proof -
  have "pairing_loop draw 0 = Some (code_of (draw 0))"
    using code_range [of "draw 0"] by (subst pairing_loop.simps) (simp add: Let_def not_less)
  moreover have "length (show_nat (code_of (draw 0))) = 6"
    using show_nat_length [of 5 "code_of (draw 0)"] code_range [of "draw 0"] by simp
  ultimately show ?thesis using code_range [of "draw 0"] show_nat_digits by (simp add: generatePairingCode_def)
qed

text \<open>Every code can come out.\<close>

lemma all_codes_possible:
  assumes "100000 \<le> c" and "c \<le> 999999"
  shows "\<exists>w. code_of w = c"
proof -
  define k where "k = c - 100000"
  with assms have k: "c = k + 100000" "k < 900000" by simp_all
  then have "unat (of_nat k :: 32 word) = k" by (simp add: unat_of_nat take_bit_nat_eq_self_iff)
  with k have "code_of (of_nat k) = c" by (simp add: code_of_def)
  then show ?thesis by blast
qed

section \<open>What goes wrong\<close>

text \<open>Any code pairs: the code is recorded and never compared with a generated one.\<close>

lemma any_code_pairs:
  "map_of (pairedDevices (snd (pairDevice clk rnd n ty c s))) (dv_id (fst (pairDevice clk rnd n ty c s))) =
     Some (fst (pairDevice clk rnd n ty c s)) \<and> dv_status (fst (pairDevice clk rnd n ty c s)) = DevActive"
  by (simp add: pairDevice_def saveData_def Let_def)

text \<open>A device that was wiped still synchronises: no operation looks at the status.\<close>

lemma wiped_device_syncs:
  assumes "map_of (pairedDevices s) i = Some d"
  shows "fst (syncWithDevice clk i u (snd (remoteWipe clk' rnd i s))) = Inr ()"
  using assms
  by (simp add: remoteWipe_def ebind_def sendPushNotification_def syncWithDevice_def saveData_def Let_def)

end
