(* ===== verification/Notifications.thy ===== *)
theory Notifications
  imports JsStore
begin

text \<open>
  The notification service (services/notifications.ts): a history in memory of which the 100 newest
  are stored, preferences that filter what is recorded, and the browser's permission. Sounds, the
  browser's own notifications and listeners are left out; a click on a browser notification is a
  call of \<open>markAsRead\<close>. Characters outside the first 256 code points stand as their UTF-8 bytes.
\<close>

section \<open>Data\<close>

datatype notification_type = Transaction | Confirmation | SecurityAlert | System

datatype direction = Incoming | Outgoing

text \<open>The \<open>data\<close> member: of a transaction, of a confirmation, or what a caller passes.\<close>

datatype notification_data = TxData string jsnum direction | ConfirmData string int jsnum | OtherData string

record Notification =
  no_id :: string
  no_type :: notification_type
  no_title :: string
  no_message :: string
  no_timestamp :: int
  no_read :: bool
  no_data :: "notification_data option"

record NotificationPreferences =
  pf_enabled :: bool
  pf_browserNotifications :: bool
  pf_transactionNotifications :: bool
  pf_confirmationNotifications :: bool
  pf_securityAlerts :: bool
  pf_soundEnabled :: bool
  pf_minTransactionAmount :: jsnum
  pf_requiredConfirmations :: int

text \<open>\<open>Partial<NotificationPreferences>\<close>: stored preferences and updates.\<close>

record PreferenceUpdates =
  pu_enabled :: "bool option"
  pu_browserNotifications :: "bool option"
  pu_transactionNotifications :: "bool option"
  pu_confirmationNotifications :: "bool option"
  pu_securityAlerts :: "bool option"
  pu_soundEnabled :: "bool option"
  pu_minTransactionAmount :: "jsnum option"
  pu_requiredConfirmations :: "int option"

datatype permission = Granted | Denied | Undecided

text \<open>\<open>browser_permission\<close> is \<open>None\<close> where the browser has no notifications.\<close>

record nt_state =
  history :: "(string, Notification) jsmap"
  prefs :: NotificationPreferences
  permissionGranted :: bool
  notes_item :: "Notification list item"
  prefs_item :: "PreferenceUpdates item"
  browser_permission :: "permission option"

section \<open>Storage and preferences\<close>

definition getDefaultPreferences :: NotificationPreferences where
  "getDefaultPreferences =
     \<lparr>pf_enabled = True, pf_browserNotifications = True, pf_transactionNotifications = True,
      pf_confirmationNotifications = True, pf_securityAlerts = True, pf_soundEnabled = True,
      pf_minTransactionAmount = 1 / 100, pf_requiredConfirmations = 1\<rparr>"

definition spread_prefs :: "PreferenceUpdates \<Rightarrow> NotificationPreferences \<Rightarrow> NotificationPreferences" where
  "spread_prefs u p =
     \<lparr>pf_enabled = or_keep (pu_enabled u) (pf_enabled p),
      pf_browserNotifications = or_keep (pu_browserNotifications u) (pf_browserNotifications p),
      pf_transactionNotifications = or_keep (pu_transactionNotifications u) (pf_transactionNotifications p),
      pf_confirmationNotifications = or_keep (pu_confirmationNotifications u) (pf_confirmationNotifications p),
      pf_securityAlerts = or_keep (pu_securityAlerts u) (pf_securityAlerts p),
      pf_soundEnabled = or_keep (pu_soundEnabled u) (pf_soundEnabled p),
      pf_minTransactionAmount = or_keep (pu_minTransactionAmount u) (pf_minTransactionAmount p),
      pf_requiredConfirmations = or_keep (pu_requiredConfirmations u) (pf_requiredConfirmations p)\<rparr>"

definition stored_prefs :: "NotificationPreferences \<Rightarrow> PreferenceUpdates" where
  "stored_prefs p =
     \<lparr>pu_enabled = Some (pf_enabled p), pu_browserNotifications = Some (pf_browserNotifications p),
      pu_transactionNotifications = Some (pf_transactionNotifications p),
      pu_confirmationNotifications = Some (pf_confirmationNotifications p),
      pu_securityAlerts = Some (pf_securityAlerts p), pu_soundEnabled = Some (pf_soundEnabled p),
      pu_minTransactionAmount = Some (pf_minTransactionAmount p),
      pu_requiredConfirmations = Some (pf_requiredConfirmations p)\<rparr>"

definition loadNotifications :: "nt_state \<Rightarrow> nt_state" where
  "loadNotifications s =
     (case notes_item s of Json ns \<Rightarrow> s\<lparr>history := new_Map (map (\<lambda>n. (no_id n, n)) ns)\<rparr> | _ \<Rightarrow> s)"

definition newest :: "Notification list \<Rightarrow> Notification list" where
  "newest ns = take 100 (sort_desc no_timestamp ns)"

definition saveNotifications :: "nt_state \<Rightarrow> nt_state" where
  "saveNotifications s = s\<lparr>notes_item := Json (newest (map snd (history s)))\<rparr>"

definition loadPreferences :: "nt_state \<Rightarrow> nt_state" where
  "loadPreferences s =
     (case prefs_item s of Json u \<Rightarrow> s\<lparr>prefs := spread_prefs u getDefaultPreferences\<rparr> | _ \<Rightarrow> s)"

definition savePreferences :: "nt_state \<Rightarrow> nt_state" where
  "savePreferences s = s\<lparr>prefs_item := Json (stored_prefs (prefs s))\<rparr>"

definition checkPermission :: "nt_state \<Rightarrow> nt_state" where
  "checkPermission s =
     (if browser_permission s \<noteq> None then s\<lparr>permissionGranted := (browser_permission s = Some Granted)\<rparr> else s)"

definition new_Notifications :: "Notification list item \<Rightarrow> PreferenceUpdates item \<Rightarrow> permission option \<Rightarrow> nt_state" where
  "new_Notifications ni pi' bp =
     checkPermission (loadPreferences (loadNotifications
       \<lparr>history = [], prefs = getDefaultPreferences, permissionGranted = False, notes_item = ni, prefs_item = pi',
        browser_permission = bp\<rparr>))"

text \<open>The user's answer to the browser's question is the first argument.\<close>

definition requestPermission :: "permission \<Rightarrow> nt_state \<Rightarrow> bool \<times> nt_state" where
  "requestPermission answer s =
     (case browser_permission s of
        None \<Rightarrow> (False, s)
      | Some Granted \<Rightarrow> (True, s\<lparr>permissionGranted := True\<rparr>)
      | Some Denied \<Rightarrow> (False, s)
      | Some Undecided \<Rightarrow>
          (answer = Granted, s\<lparr>permissionGranted := (answer = Granted), browser_permission := Some answer\<rparr>))"

definition isPermissionGranted :: "nt_state \<Rightarrow> bool" where
  "isPermissionGranted s = permissionGranted s"

definition getPreferences :: "nt_state \<Rightarrow> NotificationPreferences" where
  "getPreferences s = prefs s"

definition updatePreferences :: "PreferenceUpdates \<Rightarrow> nt_state \<Rightarrow> nt_state" where
  "updatePreferences u s = savePreferences (s\<lparr>prefs := spread_prefs u (prefs s)\<rparr>)"

section \<open>Notifying\<close>

definition generateId :: "clock \<Rightarrow> string \<Rightarrow> string" where
  "generateId clk rnd = ''notif_'' @ show_int (clk 0) @ ''_'' @ rnd"

fun type_enabled :: "notification_type \<Rightarrow> NotificationPreferences \<Rightarrow> bool" where
  "type_enabled Transaction p = pf_transactionNotifications p"
| "type_enabled Confirmation p = pf_confirmationNotifications p"
| "type_enabled SecurityAlert p = pf_securityAlerts p"
| "type_enabled System p = True"

definition notify ::
    "clock \<Rightarrow> string \<Rightarrow> notification_type \<Rightarrow> string \<Rightarrow> string \<Rightarrow> notification_data option \<Rightarrow> nt_state \<Rightarrow> nt_state" where
  "notify clk rnd ty title msg d s =
     (if \<not> pf_enabled (prefs s) then s
      else if \<not> type_enabled ty (prefs s) then s
      else
        let n = \<lparr>no_id = generateId clk rnd, no_type = ty, no_title = title, no_message = msg, no_timestamp = clk 1,
              no_read = False, no_data = d\<rparr>
        in saveNotifications (s\<lparr>history := AList.update (no_id n) n (history s)\<rparr>))"

definition notifyTransaction :: "clock \<Rightarrow> string \<Rightarrow> string \<Rightarrow> jsnum \<Rightarrow> direction \<Rightarrow> nt_state \<Rightarrow> nt_state" where
  "notifyTransaction clk rnd txid amount d s =
     (if amount < pf_minTransactionAmount (prefs s) then s
      else notify clk rnd Transaction
        (case d of
           Incoming \<Rightarrow> [CHR 0xF0, CHR 0x9F, CHR 0x92, CHR 0xB0] @ '' Incoming Transaction''
         | Outgoing \<Rightarrow> [CHR 0xF0, CHR 0x9F, CHR 0x93, CHR 0xA4] @ '' Outgoing Transaction'')
        ((case d of Incoming \<Rightarrow> ''Received'' | Outgoing \<Rightarrow> ''Sent'') @ '' '' @ toFixed 8 amount @ '' KBC'')
        (Some (TxData txid amount d)) s)"

definition notifyConfirmation :: "clock \<Rightarrow> string \<Rightarrow> string \<Rightarrow> int \<Rightarrow> jsnum \<Rightarrow> nt_state \<Rightarrow> nt_state" where
  "notifyConfirmation clk rnd txid confirmations amount s =
     (if confirmations < pf_requiredConfirmations (prefs s) then s
      else notify clk rnd Confirmation ([CHR 0xE2, CHR 0x9C, CHR 0x85] @ '' Transaction Confirmed'')
        (''Transaction of '' @ toFixed 8 amount @ '' KBC has '' @ show_int confirmations @ '' confirmation'' @
           (if confirmations > 1 then ''s'' else []))
        (Some (ConfirmData txid confirmations amount)) s)"

definition notifySecurity :: "clock \<Rightarrow> string \<Rightarrow> string \<Rightarrow> string \<Rightarrow> notification_data option \<Rightarrow> nt_state \<Rightarrow> nt_state" where
  "notifySecurity clk rnd title msg d s =
     notify clk rnd SecurityAlert ([CHR 0xF0, CHR 0x9F, CHR 0x94, CHR 0x92] @ '' '' @ title) msg d s"

definition notifySystem :: "clock \<Rightarrow> string \<Rightarrow> string \<Rightarrow> string \<Rightarrow> notification_data option \<Rightarrow> nt_state \<Rightarrow> nt_state" where
  "notifySystem clk rnd title msg d s = notify clk rnd System title msg d s"

section \<open>The history\<close>

definition getAllNotifications :: "nt_state \<Rightarrow> Notification list" where
  "getAllNotifications s = sort_desc no_timestamp (map snd (history s))"

definition getUnreadNotifications :: "nt_state \<Rightarrow> Notification list" where
  "getUnreadNotifications s = filter (\<lambda>n. \<not> no_read n) (getAllNotifications s)"

definition getUnreadCount :: "nt_state \<Rightarrow> nat" where
  "getUnreadCount s = length (getUnreadNotifications s)"

definition getNotification :: "string \<Rightarrow> nt_state \<Rightarrow> Notification option" where
  "getNotification i s = map_of (history s) i"

definition markAsRead :: "string \<Rightarrow> nt_state \<Rightarrow> nt_state" where
  "markAsRead i s =
     (case map_of (history s) i of
        None \<Rightarrow> s
      | Some n \<Rightarrow> saveNotifications (s\<lparr>history := AList.update i (n\<lparr>no_read := True\<rparr>) (history s)\<rparr>))"

definition markAllAsRead :: "nt_state \<Rightarrow> nt_state" where
  "markAllAsRead s = saveNotifications (s\<lparr>history := map_values (\<lambda>n. n\<lparr>no_read := True\<rparr>) (history s)\<rparr>)"

definition deleteNotification :: "string \<Rightarrow> nt_state \<Rightarrow> nt_state" where
  "deleteNotification i s = saveNotifications (s\<lparr>history := AList.delete i (history s)\<rparr>)"

definition clearAll :: "nt_state \<Rightarrow> nt_state" where
  "clearAll s = saveNotifications (s\<lparr>history := []\<rparr>)"

definition getNotificationsByType :: "notification_type \<Rightarrow> nt_state \<Rightarrow> Notification list" where
  "getNotificationsByType ty s = filter (\<lambda>n. no_type n = ty) (getAllNotifications s)"

definition getNotificationsByDateRange :: "int \<Rightarrow> int \<Rightarrow> nt_state \<Rightarrow> Notification list" where
  "getNotificationsByDateRange a b s = filter (\<lambda>n. a \<le> no_timestamp n \<and> no_timestamp n \<le> b) (getAllNotifications s)"

section \<open>Runs and reloads\<close>

datatype nt_op =
    NotifyTx clock string string jsnum direction
  | NotifyConf clock string string int jsnum
  | NotifySec clock string string string "notification_data option"
  | NotifySys clock string string string "notification_data option"
  | Read string
  | ReadAll
  | Drop string
  | DropAll
  | Prefer PreferenceUpdates
  | Ask permission

fun nt_step :: "nt_op \<Rightarrow> nt_state \<Rightarrow> nt_state" where
  "nt_step (NotifyTx clk rnd t a d) s = notifyTransaction clk rnd t a d s"
| "nt_step (NotifyConf clk rnd t k a) s = notifyConfirmation clk rnd t k a s"
| "nt_step (NotifySec clk rnd t m d) s = notifySecurity clk rnd t m d s"
| "nt_step (NotifySys clk rnd t m d) s = notifySystem clk rnd t m d s"
| "nt_step (Read i) s = markAsRead i s"
| "nt_step ReadAll s = markAllAsRead s"
| "nt_step (Drop i) s = deleteNotification i s"
| "nt_step DropAll s = clearAll s"
| "nt_step (Prefer u) s = updatePreferences u s"
| "nt_step (Ask a) s = snd (requestPermission a s)"

definition nt_reload :: "nt_state \<Rightarrow> nt_state" where
  "nt_reload s = new_Notifications (notes_item s) (prefs_item s) (browser_permission s)"

text \<open>What storage remembers: the newest notifications, newest first.\<close>

definition nt_view :: "nt_state \<Rightarrow> nt_state" where
  "nt_view s = s\<lparr>history := map (\<lambda>n. (no_id n, n)) (newest (map snd (history s)))\<rparr>"

definition notes_sync :: "nt_state \<Rightarrow> bool" where
  "notes_sync s \<longleftrightarrow> keyed no_id (history s) \<and>
     (notes_item s = Json (newest (map snd (history s))) \<or> (history s = [] \<and> (\<forall>x. notes_item s \<noteq> Json x)))"

definition prefs_sync :: "nt_state \<Rightarrow> bool" where
  "prefs_sync s \<longleftrightarrow>
     prefs s = (case prefs_item s of Json u \<Rightarrow> spread_prefs u getDefaultPreferences | _ \<Rightarrow> getDefaultPreferences) \<and>
     permissionGranted s = (browser_permission s = Some Granted)"

definition nt_inv :: "nt_state \<Rightarrow> bool" where
  "nt_inv s \<longleftrightarrow> notes_sync s \<and> prefs_sync s"

lemma sort_newest: "sort_desc no_timestamp (newest ns) = newest ns"
proof -
  have "sorted (map (\<lambda>n. - no_timestamp n) (take 100 (sort_desc no_timestamp ns)))"
    unfolding take_map [symmetric] by (rule sorted_wrt_take) (simp add: sort_desc_def)
  then have "sort_desc no_timestamp (take 100 (sort_desc no_timestamp ns)) = take 100 (sort_desc no_timestamp ns)"
    unfolding sort_desc_def [of _ "take 100 _"] by (rule sort_key_id_if_sorted)
  then show ?thesis by (simp add: newest_def)
qed

lemma newest_idem: "newest (newest ns) = newest ns"
  unfolding newest_def [of "newest ns"] sort_newest by (simp add: newest_def)

lemma newest_ids: "distinct (map no_id ns) \<Longrightarrow> distinct (map no_id (newest ns))"
proof -
  assume "distinct (map no_id ns)"
  moreover have "mset (map no_id (sort_desc no_timestamp ns)) = mset (map no_id ns)" by simp
  ultimately have "distinct (map no_id (sort_desc no_timestamp ns))" using mset_eq_imp_distinct_iff by blast
  then show ?thesis unfolding newest_def take_map [symmetric] by (rule distinct_take)
qed

lemma newest_Nil [simp]: "newest [] = []"
  by (simp add: newest_def sort_desc_def)

lemma view_values [simp]: "map snd (history (nt_view s)) = newest (map snd (history s))"
  by (simp add: nt_view_def comp_def)

lemma view_keyed: "keyed no_id (history s) \<Longrightarrow> keyed no_id (history (nt_view s))"
  using newest_ids [of "map snd (history s)"] keyed_values_distinct [of no_id "history s"]
  by (auto simp: keyed_def nt_view_def comp_def)

lemma notes_sync_saved: "keyed no_id (history s) \<Longrightarrow> notes_sync (saveNotifications s)"
  by (simp add: notes_sync_def saveNotifications_def)

lemma spread_stored [simp]: "spread_prefs (stored_prefs p) q = p"
  by (simp add: spread_prefs_def stored_prefs_def or_keep_def)

lemma notify_inv: "nt_inv s \<Longrightarrow> nt_inv (notify clk rnd ty t m d s)"
  by (auto simp: nt_inv_def notify_def notes_sync_def prefs_sync_def saveNotifications_def Let_def intro!: keyed_set)

lemma nt_step_inv:
  assumes "nt_inv s"
  shows "nt_inv (nt_step op s)"
proof (cases op)
  case (Read i)
  with assms show ?thesis
    by (auto simp: markAsRead_def nt_inv_def notes_sync_def prefs_sync_def saveNotifications_def
        split: option.splits intro!: keyed_set dest: keyed_get)
next
  case ReadAll
  with assms show ?thesis
    by (auto simp: markAllAsRead_def nt_inv_def notes_sync_def prefs_sync_def saveNotifications_def
        intro!: keyed_map_values)
next
  case (Ask a)
  with assms show ?thesis
    by (cases "browser_permission s"; cases "the (browser_permission s)")
      (auto simp: requestPermission_def nt_inv_def notes_sync_def prefs_sync_def)
qed (use assms in \<open>auto simp: notifyTransaction_def notifyConfirmation_def notifySecurity_def notifySystem_def intro: notify_inv\<close>,
    auto simp: deleteNotification_def clearAll_def updatePreferences_def savePreferences_def nt_inv_def notes_sync_def
      prefs_sync_def saveNotifications_def)

lemma reload_is_view:
  assumes "nt_inv s"
  shows "nt_reload s = nt_view s"
proof -
  let ?es = "map (\<lambda>n. (no_id n, n)) (newest (map snd (history s)))"
  have "distinct (map no_id (newest (map snd (history s))))"
    using assms keyed_values_distinct [of no_id "history s"] by (intro newest_ids) (simp add: nt_inv_def notes_sync_def)
  moreover have "map fst ?es = map no_id (newest (map snd (history s)))" by (simp add: comp_def)
  ultimately have "new_Map ?es = ?es" by (intro new_Map_distinct) (simp only:)
  with assms show ?thesis
    by (cases "notes_item s"; cases "prefs_item s")
      (auto simp: nt_inv_def notes_sync_def prefs_sync_def nt_reload_def new_Notifications_def loadNotifications_def
        loadPreferences_def checkPermission_def nt_view_def)
qed

interpretation nt: persistent nt_step nt_reload nt_inv nt_view
proof unfold_locales
  show "nt_inv (nt_view s)" if "nt_inv s" for s
  proof -
    have "keyed no_id (history (nt_view s))" using that by (auto simp: nt_inv_def notes_sync_def intro: view_keyed)
    moreover have "history s = [] \<Longrightarrow> history (nt_view s) = []" by (simp add: nt_view_def)
    ultimately show ?thesis
      using that newest_idem by (auto simp: nt_inv_def notes_sync_def prefs_sync_def) (auto simp: nt_view_def)
  qed
  show "nt_view (nt_view s) = nt_view s" for s
    unfolding nt_view_def [of "nt_view s"] view_values newest_idem by (simp add: nt_view_def)
qed (auto simp: nt_step_inv reload_is_view)

lemma new_inv:
  assumes "\<And>ns. ni = Json ns \<Longrightarrow> newest ns = ns \<and> distinct (map no_id ns)"
  shows "nt_inv (new_Notifications ni pi' bp)"
proof -
  have "new_Map (map (\<lambda>n. (no_id n, n)) ns) = map (\<lambda>n. (no_id n, n)) ns" if "ni = Json ns" for ns
    using assms [OF that] by (intro new_Map_distinct) (simp add: comp_def)
  then show ?thesis
    using assms
    by (cases ni; cases pi')
      (auto simp: nt_inv_def notes_sync_def prefs_sync_def new_Notifications_def loadNotifications_def loadPreferences_def
        checkPermission_def keyed_def comp_def)
qed

text \<open>
  After any run from empty storage, reloading the page keeps the hundred newest notifications
  and forgets the rest, and keeps the preferences; a second reload changes nothing.
\<close>

theorem reload_keeps_newest:
  "let s = fold nt_step ops (new_Notifications Absent Absent bp)
   in getAllNotifications (nt_reload s) = take 100 (getAllNotifications s) \<and>
      prefs (nt_reload s) = prefs s \<and> nt_reload (nt_reload s) = nt_reload s"
proof -
  let ?s = "fold nt_step ops (new_Notifications Absent Absent bp)"
  have i: "nt_inv ?s" by (rule nt.run_inv [OF new_inv]) simp
  then have r: "nt_reload ?s = nt_view ?s" by (rule reload_is_view)
  have "getAllNotifications (nt_view ?s) = take 100 (getAllNotifications ?s)"
    unfolding getAllNotifications_def view_values sort_newest by (simp add: newest_def)
  with r nt.reload_twice [OF i] show ?thesis by (simp add: Let_def) (simp add: nt_view_def)
qed

text \<open>
  Disabling a kind of notification, or all of them, suppresses them without a trace, and small
  amounts and few confirmations do too.
\<close>

lemma suppressed_iff:
  "notifyTransaction clk rnd t a d s = s \<or>
     (pf_enabled (prefs s) \<and> pf_transactionNotifications (prefs s) \<and> pf_minTransactionAmount (prefs s) \<le> a)"
  by (auto simp: notifyTransaction_def notify_def)

lemma recorded_transaction:
  assumes "pf_enabled (prefs s)" and "pf_transactionNotifications (prefs s)" and "pf_minTransactionAmount (prefs s) \<le> a"
  shows "\<exists>n. getNotification (generateId clk rnd) (notifyTransaction clk rnd t a d s) = Some n \<and>
    no_type n = Transaction \<and> \<not> no_read n \<and> no_data n = Some (TxData t a d)"
  using assms
  by (simp add: notifyTransaction_def notify_def saveNotifications_def getNotification_def Let_def)

lemma mark_all_read: "getUnreadCount (markAllAsRead s) = 0"
  by (simp add: getUnreadCount_def getUnreadNotifications_def getAllNotifications_def markAllAsRead_def
      saveNotifications_def filter_empty_conv)

end
