(* ===== verification/NotificationCenter.thy ===== *)
theory NotificationCenter
  imports JsStore
begin

text \<open>
  The notification center (services/notificationCenter.ts), which keeps everything in storage: the
  list of notifications, newest first and at most 100, the preferences, and the last price and
  portfolio value that were checked for alerts. An unreadable item makes the methods throw. Times
  are stored as ISO texts and read back as the same time; sounds and desktop notifications are left
  out. \<open>fmt\<close> is \<open>toLocaleString\<close> of numbers.
\<close>

section \<open>Data\<close>

datatype note_type = TransactionNote | PriceNote | PortfolioNote | SecurityNote | StakingNote | SystemNote

record Note =
  cn_id :: string
  cn_type :: note_type
  cn_title :: string
  cn_message :: string
  cn_timestamp :: int
  cn_read :: bool
  cn_actionUrl :: "string option"
  cn_actionText :: "string option"

datatype alert_condition = Above | Below

record PriceAlertPref =
  al_condition :: alert_condition
  al_price :: jsnum

record CenterPreferences =
  cp_desktopNotifications :: bool
  cp_soundEnabled :: bool
  cp_emailNotifications :: bool
  cp_email :: "string option"
  cp_types :: "note_type \<Rightarrow> bool"
  cp_priceAlerts :: "PriceAlertPref list"
  cp_portfolioEnabled :: bool
  cp_changePercent :: jsnum

record nc_state =
  center_item :: "Note list item"
  center_prefs_item :: "CenterPreferences item"
  last_price_check :: "jsnum option"
  last_portfolio_value :: "jsnum option"

section \<open>Storage\<close>

definition getNotifications :: "nc_state \<Rightarrow> js_error + Note list" where
  "getNotifications s = parse_item [] (center_item s)"

definition saveNotifications :: "Note list \<Rightarrow> nc_state \<Rightarrow> nc_state" where
  "saveNotifications ns s = s\<lparr>center_item := Json ns\<rparr>"

definition getDefaultPreferences :: CenterPreferences where
  "getDefaultPreferences =
     \<lparr>cp_desktopNotifications = True, cp_soundEnabled = True, cp_emailNotifications = False, cp_email = None,
      cp_types = (\<lambda>_. True), cp_priceAlerts = [], cp_portfolioEnabled = True, cp_changePercent = 10\<rparr>"

definition getPreferences :: "nc_state \<Rightarrow> js_error + CenterPreferences" where
  "getPreferences s = parse_item getDefaultPreferences (center_prefs_item s)"

definition updatePreferences :: "CenterPreferences \<Rightarrow> nc_state \<Rightarrow> nc_state" where
  "updatePreferences p s = s\<lparr>center_prefs_item := Json p\<rparr>"

text \<open>A read of the state that may throw.\<close>

definition eread :: "('s \<Rightarrow> js_error + 'a) \<Rightarrow> ('s, 'a) eff" where
  "eread f s = (f s, s)"

text \<open>Read the list, replace it by \<open>f\<close> of it, save it.\<close>

definition edit_list :: "(Note list \<Rightarrow> Note list) \<Rightarrow> (nc_state, unit) eff" where
  "edit_list f = ebind (eread getNotifications) (\<lambda>ns s. (Inr (), saveNotifications (f ns) s))"

definition addNotification ::
    "clock \<Rightarrow> string \<Rightarrow> note_type \<Rightarrow> string \<Rightarrow> string \<Rightarrow> string option \<Rightarrow> string option \<Rightarrow> (nc_state, Note option) eff" where
  "addNotification clk rnd ty title msg url txt' =
     ebind (eread getPreferences) (\<lambda>p.
       if \<not> cp_types p ty then eret None
       else
         let n = \<lparr>cn_id = ''notif_'' @ show_int (clk 0) @ ''_'' @ rnd, cn_type = ty, cn_title = title, cn_message = msg,
               cn_timestamp = clk 1, cn_read = False, cn_actionUrl = url, cn_actionText = txt'\<rparr>
         in ebind (edit_list (\<lambda>ns. take 100 (n # ns))) (\<lambda>_. eret (Some n)))"

text \<open>The list is saved only when a notification is found.\<close>

definition set_read :: "bool \<Rightarrow> string \<Rightarrow> (nc_state, unit) eff" where
  "set_read b i =
     ebind (eread getNotifications) (\<lambda>ns s.
       (Inr (), if List.find (\<lambda>n. cn_id n = i) ns = None then s
                else saveNotifications (update_first (\<lambda>n. cn_id n = i) (\<lambda>n. n\<lparr>cn_read := b\<rparr>) ns) s))"

definition markAsRead :: "string \<Rightarrow> (nc_state, unit) eff" where
  "markAsRead i = set_read True i"

definition markAsUnread :: "string \<Rightarrow> (nc_state, unit) eff" where
  "markAsUnread i = set_read False i"

definition markAllAsRead :: "(nc_state, unit) eff" where
  "markAllAsRead = edit_list (map (\<lambda>n. n\<lparr>cn_read := True\<rparr>))"

definition deleteNotification :: "string \<Rightarrow> (nc_state, unit) eff" where
  "deleteNotification i = edit_list (filter (\<lambda>n. cn_id n \<noteq> i))"

definition clearAll :: "nc_state \<Rightarrow> nc_state" where
  "clearAll s = saveNotifications [] s"

definition getUnreadCount :: "nc_state \<Rightarrow> js_error + nat" where
  "getUnreadCount s = map_sum id (\<lambda>ns. length (filter (\<lambda>n. \<not> cn_read n) ns)) (getNotifications s)"

section \<open>Creators\<close>

datatype tx_update = Received | Sent | Confirmed

definition notifyTransaction :: "clock \<Rightarrow> string \<Rightarrow> tx_update \<Rightarrow> jsnum \<Rightarrow> string \<Rightarrow> (nc_state, Note option) eff" where
  "notifyTransaction clk rnd ty amount txId =
     addNotification clk rnd TransactionNote ''Transaction Update''
       (case ty of
          Received \<Rightarrow> ''You received '' @ toFixed 4 amount @ '' KC''
        | Sent \<Rightarrow> ''You sent '' @ toFixed 4 amount @ '' KC''
        | Confirmed \<Rightarrow> ''Transaction of '' @ toFixed 4 amount @ '' KC confirmed'')
       (Some (''/wallet/history?tx='' @ txId)) (Some ''View Transaction'')"

definition notifyPriceAlert ::
    "(jsnum \<Rightarrow> string) \<Rightarrow> clock \<Rightarrow> string \<Rightarrow> alert_condition \<Rightarrow> jsnum \<Rightarrow> jsnum \<Rightarrow> (nc_state, Note option) eff" where
  "notifyPriceAlert fmt clk rnd cond price cur =
     addNotification clk rnd PriceNote ''Price Alert''
       (case cond of
          Above \<Rightarrow> ''KC price is now above $'' @ fmt price @ '' (currently $'' @ fmt cur @ '')''
        | Below \<Rightarrow> ''KC price is now below $'' @ fmt price @ '' (currently $'' @ fmt cur @ '')'')
       (Some ''/wallet/analytics'') (Some ''View Charts'')"

text \<open>The change in percent; from a value of zero it is infinite, or not a number.\<close>

datatype change = Finite jsnum | Infinite bool | NotANumber

definition change_percent :: "jsnum \<Rightarrow> jsnum \<Rightarrow> change" where
  "change_percent old cur =
     (if old \<noteq> 0 then Finite ((cur - old) / old * 100)
      else if cur = old then NotANumber else Infinite (cur > 0))"

fun reaches :: "change \<Rightarrow> jsnum \<Rightarrow> bool" where
  "reaches (Finite x) p = (\<bar>x\<bar> \<ge> p)"
| "reaches (Infinite _) p = True"
| "reaches NotANumber p = False"

fun increased :: "change \<Rightarrow> bool" where
  "increased (Finite x) = (x > 0)"
| "increased (Infinite up) = up"
| "increased NotANumber = False"

fun abs_fixed :: "change \<Rightarrow> string" where
  "abs_fixed (Finite x) = toFixed 2 \<bar>x\<bar>"
| "abs_fixed (Infinite _) = ''Infinity''"
| "abs_fixed NotANumber = ''NaN''"

definition notifyPortfolioChange ::
    "(jsnum \<Rightarrow> string) \<Rightarrow> clock \<Rightarrow> string \<Rightarrow> change \<Rightarrow> jsnum \<Rightarrow> (nc_state, Note option) eff" where
  "notifyPortfolioChange fmt clk rnd ch v =
     addNotification clk rnd PortfolioNote ''Portfolio Alert''
       (''Your portfolio '' @ (if increased ch then ''increased'' else ''decreased'') @ '' by '' @ abs_fixed ch @
        ''% in the last 24h (now $'' @ fmt v @ '')'')
       (Some ''/wallet/portfolio-tools'') (Some ''View Portfolio'')"

definition notifySecurityAlert :: "clock \<Rightarrow> string \<Rightarrow> string \<Rightarrow> string \<Rightarrow> (nc_state, Note option) eff" where
  "notifySecurityAlert clk rnd event details =
     addNotification clk rnd SecurityNote ''Security Alert'' (event @ '': '' @ details)
       (Some ''/wallet/settings'') (Some ''Review Security'')"

definition notifyStakingReward :: "clock \<Rightarrow> string \<Rightarrow> jsnum \<Rightarrow> (nc_state, Note option) eff" where
  "notifyStakingReward clk rnd amount =
     addNotification clk rnd StakingNote ''Staking Reward'' (''You earned '' @ toFixed 4 amount @ '' KC from staking'')
       (Some ''/wallet'') (Some ''View Balance'')"

definition notifySystem :: "clock \<Rightarrow> string \<Rightarrow> string \<Rightarrow> string \<Rightarrow> (nc_state, Note option) eff" where
  "notifySystem clk rnd title msg = addNotification clk rnd SystemNote title msg None None"

section \<open>Alerts\<close>

definition triggered :: "jsnum \<Rightarrow> jsnum \<Rightarrow> PriceAlertPref \<Rightarrow> bool" where
  "triggered prev cur a \<longleftrightarrow>
     (al_condition a = Above \<and> prev < al_price a \<and> cur \<ge> al_price a) \<or>
     (al_condition a = Below \<and> prev > al_price a \<and> cur \<le> al_price a)"

text \<open>The clock and the random text of the k-th alert are \<open>env k\<close>.\<close>

fun fire_alerts ::
    "(jsnum \<Rightarrow> string) \<Rightarrow> (nat \<Rightarrow> clock \<times> string) \<Rightarrow> nat \<Rightarrow> jsnum \<Rightarrow> jsnum \<Rightarrow> PriceAlertPref list \<Rightarrow> (nc_state, unit) eff" where
  "fire_alerts fmt env k prev cur [] = eret ()"
| "fire_alerts fmt env k prev cur (a # as) =
     ebind (if triggered prev cur a
            then ebind (notifyPriceAlert fmt (fst (env k)) (snd (env k)) (al_condition a) (al_price a) cur) (\<lambda>_. eret ())
            else eret ())
       (\<lambda>_. fire_alerts fmt env (Suc k) prev cur as)"

text \<open>The price goes through \<open>toString\<close> and \<open>parseFloat\<close> unchanged.\<close>

definition checkPriceAlerts :: "(jsnum \<Rightarrow> string) \<Rightarrow> (nat \<Rightarrow> clock \<times> string) \<Rightarrow> jsnum \<Rightarrow> (nc_state, unit) eff" where
  "checkPriceAlerts fmt env cur =
     ebind (eread getPreferences) (\<lambda>p s.
       let prev = (case last_price_check s of None \<Rightarrow> cur | Some x \<Rightarrow> x)
       in ebind (fire_alerts fmt env 0 prev cur (cp_priceAlerts p))
            (\<lambda>_ t. (Inr (), t\<lparr>last_price_check := Some cur\<rparr>)) s)"

definition checkPortfolioAlerts :: "(jsnum \<Rightarrow> string) \<Rightarrow> clock \<Rightarrow> string \<Rightarrow> jsnum \<Rightarrow> (nc_state, unit) eff" where
  "checkPortfolioAlerts fmt clk rnd cur =
     ebind (eread getPreferences) (\<lambda>p s.
       if \<not> cp_portfolioEnabled p then (Inr (), s)
       else case last_portfolio_value s of
         None \<Rightarrow> (Inr (), s\<lparr>last_portfolio_value := Some cur\<rparr>)
       | Some old \<Rightarrow>
           let ch = change_percent old cur
           in if reaches ch (cp_changePercent p)
              then ebind (notifyPortfolioChange fmt clk rnd ch cur)
                     (\<lambda>_ t. (Inr (), t\<lparr>last_portfolio_value := Some cur\<rparr>)) s
              else (Inr (), s))"

section \<open>The list stays bounded\<close>

definition bounded :: "nc_state \<Rightarrow> bool" where
  "bounded s \<longleftrightarrow> (\<forall>ns. center_item s = Json ns \<longrightarrow> length ns \<le> 100)"

lemma readable: "getNotifications s = Inr ns \<Longrightarrow> bounded s \<Longrightarrow> length ns \<le> 100"
  by (cases "center_item s") (auto simp: getNotifications_def bounded_def split: if_splits)

lemma edit_list_bounded:
  assumes "bounded s" and "\<And>ns. length ns \<le> 100 \<Longrightarrow> length (f ns) \<le> 100"
  shows "bounded (snd (edit_list f s))"
  using assms readable [of s]
  by (auto simp: edit_list_def ebind_def eread_def saveNotifications_def bounded_def split: sum.splits)

lemma add_bounded: "bounded s \<Longrightarrow> bounded (snd (addNotification clk rnd ty t m u x s))"
  unfolding addNotification_def
  by (rule ebind_state [where I = bounded])
    (auto simp: eread_def eret_def Let_def intro!: ebind_state [where I = bounded] edit_list_bounded)

lemma fire_bounded: "bounded s \<Longrightarrow> bounded (snd (fire_alerts fmt env k prev cur as s))"
  by (induction as arbitrary: k s)
    (auto simp: eret_def notifyPriceAlert_def intro!: ebind_state [where I = bounded] add_bounded)

lemma last_check_bounded [simp]:
  "bounded (s\<lparr>last_price_check := x\<rparr>) = bounded s" "bounded (s\<lparr>last_portfolio_value := x\<rparr>) = bounded s"
  by (simp_all add: bounded_def)

lemma price_check_bounded: "bounded s \<Longrightarrow> bounded (snd (checkPriceAlerts fmt env cur s))"
  unfolding checkPriceAlerts_def
  by (rule ebind_state [where I = bounded])
    (auto simp: eread_def Let_def intro!: ebind_state [where I = bounded] fire_bounded)

lemma portfolio_check_bounded: "bounded s \<Longrightarrow> bounded (snd (checkPortfolioAlerts fmt clk rnd cur s))"
  unfolding checkPortfolioAlerts_def
  by (rule ebind_state [where I = bounded])
    (auto simp: eread_def Let_def notifyPortfolioChange_def split: option.splits
      intro!: ebind_state [where I = bounded] add_bounded)

section \<open>Price alerts are crossings\<close>

definition alert_text :: "(jsnum \<Rightarrow> string) \<Rightarrow> jsnum \<Rightarrow> PriceAlertPref \<Rightarrow> string" where
  "alert_text fmt cur a =
     ''KC price is now '' @ (case al_condition a of Above \<Rightarrow> ''above'' | Below \<Rightarrow> ''below'') @ '' $'' @
     fmt (al_price a) @ '' (currently $'' @ fmt cur @ '')''"

definition messages :: "nc_state \<Rightarrow> string list" where
  "messages s = map cn_message (case getNotifications s of Inr ns \<Rightarrow> ns | Inl _ \<Rightarrow> [])"

text \<open>Storage is readable and price notifications are wanted.\<close>

definition ready :: "CenterPreferences \<Rightarrow> nc_state \<Rightarrow> bool" where
  "ready p s \<longleftrightarrow> getPreferences s = Inr p \<and> cp_types p PriceNote \<and> (\<exists>ns. getNotifications s = Inr ns)"

lemma alert_recorded:
  assumes "ready p s"
  shows "\<exists>n t. notifyPriceAlert fmt clk rnd (al_condition a) (al_price a) cur s = (Inr n, t) \<and> ready p t \<and>
    messages t = take 100 (alert_text fmt cur a # messages s) \<and> last_price_check t = last_price_check s"
proof -
  obtain ns where "getPreferences s = Inr p" "cp_types p PriceNote" "getNotifications s = Inr ns"
    using assms by (auto simp: ready_def)
  then show ?thesis
    by (cases "al_condition a")
      (auto simp: notifyPriceAlert_def addNotification_def ebind_def eread_def eret_def edit_list_def ready_def
        saveNotifications_def getNotifications_def getPreferences_def messages_def alert_text_def take_map Let_def)
qed

lemma take_append_take: "take n (xs @ take n ys) = take n (xs @ ys)"
  by (simp add: take_append min_def)

lemma fire_alerts_spec:
  assumes "ready p s" and "length (messages s) \<le> 100"
  shows "\<exists>t. fire_alerts fmt env k prev cur as s = (Inr (), t) \<and> ready p t \<and>
    messages t = take 100 (rev (map (alert_text fmt cur) (filter (triggered prev cur) as)) @ messages s) \<and>
    last_price_check t = last_price_check s"
  using assms
proof (induction as arbitrary: k s)
  case Nil
  then show ?case by (simp add: eret_def)
next
  case (Cons a as)
  show ?case
  proof (cases "triggered prev cur a")
    case True
    obtain n u where u: "notifyPriceAlert fmt (fst (env k)) (snd (env k)) (al_condition a) (al_price a) cur s = (Inr n, u)"
        "ready p u" "messages u = take 100 (alert_text fmt cur a # messages s)" "last_price_check u = last_price_check s"
      using alert_recorded [OF Cons.prems(1)] by metis
    have "length (messages u) \<le> 100" using u(3) by simp
    from Cons.IH [OF u(2) this, of "Suc k"] obtain t where t: "fire_alerts fmt env (Suc k) prev cur as u = (Inr (), t)"
        "ready p t" "last_price_check t = last_price_check u"
        "messages t = take 100 (rev (map (alert_text fmt cur) (filter (triggered prev cur) as)) @ messages u)" by blast
    have "messages t = take 100 (rev (map (alert_text fmt cur) (filter (triggered prev cur) as)) @ alert_text fmt cur a # messages s)"
      unfolding t(4) u(3) by (rule take_append_take)
    with t u True show ?thesis by (simp add: ebind_def eret_def)
  next
    case False
    with Cons.IH [OF Cons.prems, of "Suc k"] show ?thesis by (simp add: ebind_def eret_def)
  qed
qed

lemma check_spec:
  assumes "ready p s" and "length (messages s) \<le> 100"
    and "prev = (case last_price_check s of None \<Rightarrow> cur | Some x \<Rightarrow> x)"
  shows "\<exists>t. checkPriceAlerts fmt env cur s = (Inr (), t) \<and> ready p t \<and>
    messages t = take 100 (rev (map (alert_text fmt cur) (filter (triggered prev cur) (cp_priceAlerts p))) @ messages s) \<and>
    last_price_check t = Some cur"
proof -
  obtain t where t: "fire_alerts fmt env 0 prev cur (cp_priceAlerts p) s = (Inr (), t)" "ready p t"
      "messages t = take 100 (rev (map (alert_text fmt cur) (filter (triggered prev cur) (cp_priceAlerts p))) @ messages s)"
    using fire_alerts_spec [OF assms(1,2)] by blast
  have "getPreferences s = Inr p" using assms(1) by (simp add: ready_def)
  then have "checkPriceAlerts fmt env cur s = (Inr (), t\<lparr>last_price_check := Some cur\<rparr>)"
    using t(1) assms(3) by (simp add: checkPriceAlerts_def ebind_def eread_def Let_def)
  moreover have "messages (t\<lparr>last_price_check := Some cur\<rparr>) = messages t" "ready p (t\<lparr>last_price_check := Some cur\<rparr>)"
    using t(2) by (simp_all add: messages_def ready_def getNotifications_def getPreferences_def)
  ultimately show ?thesis using t(3) by auto
qed

text \<open>What the user sees of a sequence of prices: the alerts that each step crosses, newest first.\<close>

fun crossings :: "(jsnum \<Rightarrow> string) \<Rightarrow> PriceAlertPref list \<Rightarrow> jsnum \<Rightarrow> jsnum list \<Rightarrow> string list" where
  "crossings fmt as prev [] = []"
| "crossings fmt as prev (c # cs) =
     crossings fmt as c cs @ rev (map (alert_text fmt c) (filter (triggered prev c) as))"

definition check_prices :: "(jsnum \<Rightarrow> string) \<Rightarrow> (nat \<Rightarrow> clock \<times> string) \<Rightarrow> jsnum list \<Rightarrow> nc_state \<Rightarrow> nc_state" where
  "check_prices fmt env ps s = fold (\<lambda>c s. snd (checkPriceAlerts fmt env c s)) ps s"

lemma check_prices_spec:
  assumes "ready p s" and "length (messages s) \<le> 100" and "last_price_check s = Some prev"
  shows "ready p (check_prices fmt env ps s) \<and>
    messages (check_prices fmt env ps s) = take 100 (crossings fmt (cp_priceAlerts p) prev ps @ messages s)"
  using assms
proof (induction ps arbitrary: s prev)
  case Nil
  then show ?case by (simp add: check_prices_def)
next
  case (Cons c cs)
  obtain t where t: "checkPriceAlerts fmt env c s = (Inr (), t)" "ready p t" "last_price_check t = Some c"
      "messages t = take 100 (rev (map (alert_text fmt c) (filter (triggered prev c) (cp_priceAlerts p))) @ messages s)"
    using check_spec [OF Cons.prems(1,2), of prev c] Cons.prems(3) by auto
  have "length (messages t) \<le> 100" using t(4) by simp
  note IH = Cons.IH [OF t(2) this t(3)]
  have "messages (check_prices fmt env cs t) = take 100 (crossings fmt (cp_priceAlerts p) c cs @
      rev (map (alert_text fmt c) (filter (triggered prev c) (cp_priceAlerts p))) @ messages s)"
    unfolding conjunct2 [OF IH] t(4) by (rule take_append_take)
  moreover have "check_prices fmt env (c # cs) s = check_prices fmt env cs t" using t(1) by (simp add: check_prices_def)
  ultimately show ?case using IH by (simp del: take_append)
qed

lemma not_triggered_same: "filter (triggered c c) as = []"
  by (auto simp: triggered_def filter_empty_conv)

text \<open>
  Over any sequence of price checks the price notifications are exactly the crossings of the
  alerts: an alert is reported at each step of the sequence that crosses its price in its direction
  and at no other, newest first, and the list keeps its last hundred entries. The first check, with
  no earlier price, reports nothing.
\<close>

theorem price_alerts_are_crossings:
  assumes "ready p s" and "length (messages s) \<le> 100" and "last_price_check s = None"
  shows "messages (check_prices fmt env (c # cs) s) = take 100 (crossings fmt (cp_priceAlerts p) c cs @ messages s)"
proof -
  obtain t where t: "checkPriceAlerts fmt env c s = (Inr (), t)" "ready p t" "last_price_check t = Some c"
      "messages t = take 100 (messages s)"
    using check_spec [OF assms(1,2), of c c] assms(3) by (auto simp: not_triggered_same)
  then have "messages t = messages s" using assms(2) by simp
  then show ?thesis using check_prices_spec [OF t(2) _ t(3)] assms(2) t(1) by (simp add: check_prices_def)
qed

definition demo_center :: nc_state where
  "demo_center = \<lparr>center_item = Absent,
     center_prefs_item = Json (getDefaultPreferences\<lparr>cp_priceAlerts := [\<lparr>al_condition = Above, al_price = 10\<rparr>]\<rparr>),
     last_price_check = None, last_portfolio_value = None\<rparr>"

theorem price_alerts_are_crossings_witness:
  "messages (check_prices (\<lambda>_. ''n'') (\<lambda>_. (\<lambda>_. 0, ''r'')) [9, 10, 11, 8, 12] demo_center) =
     [''KC price is now above $n (currently $n)'', ''KC price is now above $n (currently $n)'']"
  using price_alerts_are_crossings [of "getDefaultPreferences\<lparr>cp_priceAlerts := [\<lparr>al_condition = Above, al_price = 10\<rparr>]\<rparr>"
      demo_center "\<lambda>_. ''n''" "\<lambda>_. (\<lambda>_. 0, ''r'')" 9 "[10, 11, 8, 12]"]
  by (simp add: ready_def demo_center_def getPreferences_def getNotifications_def messages_def getDefaultPreferences_def
      triggered_def alert_text_def)

text \<open>An unreadable list makes every change of it throw, and only clearing repairs it.\<close>

lemma garbled_list_throws:
  assumes "center_item s = Garbled t" and "t \<noteq> []"
  shows "edit_list f s = (Inl JsonSyntaxError, s)" "getNotifications (clearAll s) = Inr []"
  using assms by (simp_all add: edit_list_def ebind_def eread_def getNotifications_def clearAll_def saveNotifications_def)

end
