(* ===== verification/PrivacyTools.thy ===== *)
theory PrivacyTools
  imports WalletApi
begin

text \<open>
  Privacy tools (services/privacyTools.ts), a client of the wallet's backend with local fallbacks.
  The answer of the backend to a request is an argument of the operation that makes it; a member of
  the answer may be missing. \<open>allow\<close> is the flag \<open>allowFallback\<close>.
\<close>

section \<open>Data\<close>

datatype privacy_type = Coinjoin | Stealth | Mixed
datatype privacy_status = Pending | Completed | Failed

record PrivacyTransaction =
  pt_id :: string
  pt_txid :: string
  pt_type :: privacy_type
  pt_amount :: jsnum
  pt_privacyScore :: jsnum
  pt_participants :: "jsnum option"
  pt_rounds :: "jsnum option"
  pt_createdAt :: int
  pt_status :: privacy_status

record PrivacySettings =
  ps_enableTor :: bool
  ps_autoMixing :: bool
  ps_minMixAmount :: jsnum
  ps_mixingRounds :: jsnum
  ps_addressRotation :: bool
  ps_stealthAddresses :: bool

record PrivacyUpdates =
  pv_enableTor :: "bool option"
  pv_autoMixing :: "bool option"
  pv_minMixAmount :: "jsnum option"
  pv_mixingRounds :: "jsnum option"
  pv_addressRotation :: "bool option"
  pv_stealthAddresses :: "bool option"

record pt_state =
  transactions :: "PrivacyTransaction list"
  privacy_settings :: PrivacySettings

definition default_privacy :: PrivacySettings where
  "default_privacy = \<lparr>ps_enableTor = False, ps_autoMixing = False, ps_minMixAmount = 1 / 10, ps_mixingRounds = 3,
     ps_addressRotation = True, ps_stealthAddresses = False\<rparr>"

definition new_PrivacyTools :: pt_state where
  "new_PrivacyTools = \<lparr>transactions = [], privacy_settings = default_privacy\<rparr>"

definition createAddress :: "string \<Rightarrow> string \<Rightarrow> string" where
  "createAddress pre rnd = pre @ rnd"

section \<open>Operations\<close>

definition getSettings :: "pt_state \<Rightarrow> PrivacySettings" where
  "getSettings s = privacy_settings s"

definition getPrivacyTransactions :: "pt_state \<Rightarrow> PrivacyTransaction list" where
  "getPrivacyTransactions s = sort_desc pt_createdAt (transactions s)"

definition take_settings :: "PrivacySettings option \<Rightarrow> pt_state \<Rightarrow> pt_state" where
  "take_settings x s = s\<lparr>privacy_settings := or_keep x (privacy_settings s)\<rparr>"

definition refreshSettings :: "bool \<Rightarrow> js_error + PrivacySettings option option \<Rightarrow> (pt_state, PrivacySettings) eff" where
  "refreshSettings allow resp =
     ebind (with_fallback allow (ebind (api_data resp) (\<lambda>x s. (Inr (), take_settings x s))) (eret ()))
       (\<lambda>_ s. (Inr (getSettings s), s))"

definition refreshTransactions ::
    "bool \<Rightarrow> js_error + PrivacyTransaction list option option \<Rightarrow> (pt_state, PrivacyTransaction list) eff" where
  "refreshTransactions allow resp =
     ebind (with_fallback allow (ebind (api_data resp) (\<lambda>x s. (Inr (), s\<lparr>transactions := list_of x\<rparr>))) (eret ()))
       (\<lambda>_ s. (Inr (getPrivacyTransactions s), s))"

text \<open>\<open>[tx, ...this.transactions.filter((t) => t.id !== tx.id)]\<close>\<close>

definition put_transaction :: "PrivacyTransaction \<Rightarrow> (pt_state, PrivacyTransaction) eff" where
  "put_transaction t s = (Inr t, s\<lparr>transactions := t # filter (\<lambda>x. pt_id x \<noteq> pt_id t) (transactions s)\<rparr>)"

definition local_coinjoin :: "clock \<Rightarrow> string \<Rightarrow> string \<Rightarrow> jsnum \<Rightarrow> jsnum \<Rightarrow> pt_state \<Rightarrow> PrivacyTransaction" where
  "local_coinjoin clk rnd rnd' amount participants s =
     \<lparr>pt_id = createId ''coinjoin'' (clk 0) rnd, pt_txid = createAddress ''KC'' rnd', pt_type = Coinjoin, pt_amount = amount,
      pt_privacyScore = min (50 + participants * 5) 95, pt_participants = Some participants,
      pt_rounds = Some (ps_mixingRounds (privacy_settings s)), pt_createdAt = clk 1, pt_status = Completed\<rparr>"

definition createCoinJoin ::
    "bool \<Rightarrow> js_error + PrivacyTransaction option option \<Rightarrow> clock \<Rightarrow> string \<Rightarrow> string \<Rightarrow> jsnum \<Rightarrow> jsnum
     \<Rightarrow> (pt_state, PrivacyTransaction) eff" where
  "createCoinJoin allow resp clk rnd rnd' amount participants =
     with_fallback allow
       (ebind (api_data resp) (\<lambda>x. ebind (defined x) put_transaction))
       (\<lambda>s. put_transaction (local_coinjoin clk rnd rnd' amount participants s) s)"

record StealthAddress =
  sa_address :: string
  sa_scanKey :: string
  sa_spendKey :: string

text \<open>The backend's answer is returned as it is, also when it is \<open>undefined\<close>.\<close>

definition createStealthAddress ::
    "bool \<Rightarrow> js_error + StealthAddress option \<Rightarrow> string \<Rightarrow> string \<Rightarrow> string \<Rightarrow> (pt_state, StealthAddress option) eff" where
  "createStealthAddress allow resp r1 r2 r3 =
     with_fallback allow (eresult resp)
       (eret (Some \<lparr>sa_address = createAddress ''KC'' r1, sa_scanKey = createAddress ''SCAN'' r2,
          sa_spendKey = createAddress ''SPEND'' r3\<rparr>))"

text \<open>
  What is posted to the backend: an amount and a number of participants. The transaction to be
  mixed is not among it.
\<close>

definition mix_request :: "string \<Rightarrow> pt_state \<Rightarrow> jsnum \<times> jsnum" where
  "mix_request txid s = (0, ps_mixingRounds (privacy_settings s))"

definition local_mix :: "clock \<Rightarrow> string \<Rightarrow> string \<Rightarrow> pt_state \<Rightarrow> PrivacyTransaction" where
  "local_mix clk rnd txid s =
     \<lparr>pt_id = createId ''mix'' (clk 0) rnd, pt_txid = txid, pt_type = Mixed, pt_amount = 0, pt_privacyScore = 90,
      pt_participants = Some (ps_mixingRounds (privacy_settings s)), pt_rounds = Some (ps_mixingRounds (privacy_settings s)),
      pt_createdAt = clk 1, pt_status = Completed\<rparr>"

definition mixTransaction ::
    "bool \<Rightarrow> (jsnum \<times> jsnum \<Rightarrow> js_error + PrivacyTransaction option option) \<Rightarrow> clock \<Rightarrow> string \<Rightarrow> string
     \<Rightarrow> (pt_state, PrivacyTransaction) eff" where
  "mixTransaction allow resp clk rnd txid s =
     with_fallback allow
       (ebind (api_data (resp (mix_request txid s))) (\<lambda>x. ebind (defined x) put_transaction))
       (\<lambda>s. put_transaction (local_mix clk rnd txid s) s) s"

definition calculateTransactionPrivacyScore :: "nat \<Rightarrow> nat \<Rightarrow> bool \<Rightarrow> bool \<Rightarrow> nat" where
  "calculateTransactionPrivacyScore inputs outputs stealth coinjoin =
     (let score = 50 + min (inputs * 5) 20 + min (outputs * 5) 20 + (if stealth then 15 else 0) + (if coinjoin then 20 else 0)
      in min score 100)"

definition spread_privacy :: "PrivacyUpdates \<Rightarrow> PrivacySettings \<Rightarrow> PrivacySettings" where
  "spread_privacy u p =
     \<lparr>ps_enableTor = or_keep (pv_enableTor u) (ps_enableTor p), ps_autoMixing = or_keep (pv_autoMixing u) (ps_autoMixing p),
      ps_minMixAmount = or_keep (pv_minMixAmount u) (ps_minMixAmount p),
      ps_mixingRounds = or_keep (pv_mixingRounds u) (ps_mixingRounds p),
      ps_addressRotation = or_keep (pv_addressRotation u) (ps_addressRotation p),
      ps_stealthAddresses = or_keep (pv_stealthAddresses u) (ps_stealthAddresses p)\<rparr>"

definition updateSettings :: "bool \<Rightarrow> js_error + PrivacySettings option option \<Rightarrow> PrivacyUpdates \<Rightarrow> (pt_state, unit) eff" where
  "updateSettings allow resp u =
     with_fallback allow
       (ebind (api_data resp) (\<lambda>x s. (Inr (), take_settings x s)))
       (\<lambda>s. (Inr (), s\<lparr>privacy_settings := spread_privacy u (privacy_settings s)\<rparr>))"

definition no_updates :: PrivacyUpdates where
  "no_updates = \<lparr>pv_enableTor = None, pv_autoMixing = None, pv_minMixAmount = None, pv_mixingRounds = None,
     pv_addressRotation = None, pv_stealthAddresses = None\<rparr>"

definition enableTorRouting :: "bool \<Rightarrow> js_error + PrivacySettings option option \<Rightarrow> (pt_state, bool) eff" where
  "enableTorRouting allow resp = ebind (updateSettings allow resp (no_updates\<lparr>pv_enableTor := Some True\<rparr>)) (\<lambda>_. eret True)"

definition disableTorRouting :: "bool \<Rightarrow> js_error + PrivacySettings option option \<Rightarrow> (pt_state, unit) eff" where
  "disableTorRouting allow resp = updateSettings allow resp (no_updates\<lparr>pv_enableTor := Some False\<rparr>)"

definition rotateAddress :: "string \<Rightarrow> (pt_state, string) eff" where
  "rotateAddress a = ethrow (Error ''Address rotation requires a configured wallet backend.'')"

section \<open>Facts\<close>

text \<open>
  With fallbacks allowed, none of the operations that ask the backend throws, whatever it answers:
  also an answer without the transaction leads to the fallback.
\<close>

lemma privacy_fallbacks_never_throw:
  "never_throws (refreshSettings True r1)" "never_throws (refreshTransactions True r2)"
  "never_throws (createCoinJoin True r3 clk rnd rnd' a n)" "never_throws (createStealthAddress True r4 x y z)"
  "never_throws (updateSettings True r1 u)" "never_throws (enableTorRouting True r1)"
proof -
  show "never_throws (refreshSettings True r1)" "never_throws (refreshTransactions True r2)"
    unfolding refreshSettings_def refreshTransactions_def
    by (intro never_throws_bind never_throws_fallback never_throws_ret; simp add: never_throws_def)+
  show "never_throws (createCoinJoin True r3 clk rnd rnd' a n)"
    unfolding createCoinJoin_def by (rule never_throws_fallback) (simp add: never_throws_def put_transaction_def)
  show "never_throws (createStealthAddress True r4 x y z)" unfolding createStealthAddress_def by blast
  show u: "never_throws (updateSettings True r u)" for r u
    unfolding updateSettings_def by (intro never_throws_fallback) (simp add: never_throws_def)
  show "never_throws (enableTorRouting True r1)" unfolding enableTorRouting_def by (intro never_throws_bind u never_throws_ret)
qed

text \<open>The list holds each identifier once.\<close>

lemma put_distinct:
  "distinct (map pt_id (transactions s)) \<Longrightarrow> distinct (map pt_id (transactions (snd (put_transaction t s))))"
  by (auto simp: put_transaction_def distinct_map_filter)

text \<open>The score is a percentage, at least the base, and grows with what makes it better.\<close>

lemma tx_privacy_score_range: "50 \<le> calculateTransactionPrivacyScore i j st cj" "calculateTransactionPrivacyScore i j st cj \<le> 100"
  by (simp_all add: calculateTransactionPrivacyScore_def Let_def)

lemma privacy_score_mono:
  assumes "i \<le> i'" and "j \<le> j'"
  shows "calculateTransactionPrivacyScore i j st cj \<le> calculateTransactionPrivacyScore i' j' (st \<or> st') (cj \<or> cj')"
  using assms by (auto simp: calculateTransactionPrivacyScore_def Let_def min_def)

text \<open>The backend is asked to mix nothing: every transaction leads to the same request.\<close>

lemma mix_ignores_transaction: "mix_request t s = mix_request t' s" "fst (mix_request t s) = 0"
  by (simp_all add: mix_request_def)

text \<open>Enabling Tor is reported as done also when the backend's settings have it disabled.\<close>

lemma tor_reported_enabled:
  "\<not> ps_enableTor p \<Longrightarrow> \<exists>t. enableTorRouting allow (Inr (Some (Some p))) s = (Inr True, t) \<and> \<not> ps_enableTor (privacy_settings t)"
  by (simp add: enableTorRouting_def updateSettings_def with_fallback_def ecatch_def ebind_def api_data_def eret_def
      take_settings_def or_keep_def)

end
