(* ===== verification/Monitoring.thy ===== *)
theory Monitoring
  imports JsStore
begin

text \<open>
  The security monitor (services/securityMonitor.ts): events, newest first, kept in storage, a
  monitoring flag that is not, and simple risk heuristics; and threat detection
  (services/threatDetection.ts): checks of web and payment addresses against lists and keywords.
  Characters outside the first 256 code points stand as their UTF-8 bytes.
\<close>

section \<open>The security monitor\<close>

datatype event_type = SuspiciousTx | PhishingAttempt | UnauthorizedAccess | UnusualActivity | MalwareDetected
datatype severity = Low | Medium | High | Critical

record MonitorEvent =
  me_id :: string
  me_type :: event_type
  me_severity :: severity
  me_title :: string
  me_description :: string
  me_timestamp :: int
  me_resolved :: bool

record SecurityScore =
  overall :: nat
  cat_password :: nat
  cat_twoFactor :: nat
  cat_wallet :: nat
  cat_network :: nat
  cat_activity :: nat
  recommendations :: "string list"

record mon_state =
  mon_events :: "MonitorEvent list"
  monitoring :: bool
  mon_item :: "MonitorEvent list item"

definition loadEvents :: "mon_state \<Rightarrow> mon_state" where
  "loadEvents s = s\<lparr>mon_events := parse_item_or [] (mon_item s)\<rparr>"

definition new_Monitor :: "MonitorEvent list item \<Rightarrow> mon_state" where
  "new_Monitor i = loadEvents \<lparr>mon_events = [], monitoring = False, mon_item = i\<rparr>"

definition saveEvents :: "mon_state \<Rightarrow> mon_state" where
  "saveEvents s = s\<lparr>mon_item := Json (mon_events s)\<rparr>"

definition startMonitoring :: "mon_state \<Rightarrow> mon_state" where
  "startMonitoring s = s\<lparr>monitoring := True\<rparr>"

definition stopMonitoring :: "mon_state \<Rightarrow> mon_state" where
  "stopMonitoring s = s\<lparr>monitoring := False\<rparr>"

definition isMonitoring :: "mon_state \<Rightarrow> bool" where
  "isMonitoring s = monitoring s"

definition getSecurityScore :: "mon_state \<Rightarrow> SecurityScore" where
  "getSecurityScore s =
     (let base = (if monitoring s then 50 else 0)
      in \<lparr>overall = base, cat_password = base, cat_twoFactor = 0, cat_wallet = base, cat_network = base, cat_activity = base,
          recommendations = (if \<not> monitoring s then [''Enable security monitoring for real-time alerts''] else [])\<rparr>)"

definition getSecurityEvents :: "bool \<Rightarrow> mon_state \<Rightarrow> MonitorEvent list" where
  "getSecurityEvents includeResolved s =
     (if includeResolved then mon_events s else filter (\<lambda>e. \<not> me_resolved e) (mon_events s))"

definition resolveEvent :: "string \<Rightarrow> mon_state \<Rightarrow> bool \<times> mon_state" where
  "resolveEvent i s =
     (if List.find (\<lambda>e. me_id e = i) (mon_events s) = None then (False, s)
      else (True, saveEvents (s\<lparr>mon_events := update_first (\<lambda>e. me_id e = i) (\<lambda>e. e\<lparr>me_resolved := True\<rparr>) (mon_events s)\<rparr>)))"

definition warning_sign :: string where
  "warning_sign = [CHR 0xE2, CHR 0x9A, CHR 0xA0, CHR 0xEF, CHR 0xB8, CHR 0x8F]"

definition analyzeTransaction :: "string \<Rightarrow> jsnum \<Rightarrow> nat \<times> string list" where
  "analyzeTransaction to' amount =
     (let large = amount > 1000;
          flagged = str_includes to' ''scam'' \<or> str_includes to' ''phish''
      in ((if large then 30 else 0) + (if flagged then 50 else 0),
          (if large then [''Large transaction amount detected''] else []) @
          (if flagged then [warning_sign @ '' WARNING: This address is flagged as suspicious''] else [])))"

definition scanForThreats :: "nat \<times> string list" where
  "scanForThreats = (0, [])"

definition logEvent :: "clock \<Rightarrow> event_type \<Rightarrow> severity \<Rightarrow> string \<Rightarrow> string \<Rightarrow> mon_state \<Rightarrow> MonitorEvent \<times> mon_state" where
  "logEvent clk ty sev title descr s =
     (let e = \<lparr>me_id = ''evt_'' @ show_int (clk 0), me_type = ty, me_severity = sev, me_title = title, me_description = descr,
            me_timestamp = clk 1, me_resolved = False\<rparr>
      in (e, saveEvents (s\<lparr>mon_events := e # mon_events s\<rparr>)))"

datatype mon_op = Start | Stop | Resolve string | Log clock event_type severity string string

fun mon_step :: "mon_op \<Rightarrow> mon_state \<Rightarrow> mon_state" where
  "mon_step Start s = startMonitoring s"
| "mon_step Stop s = stopMonitoring s"
| "mon_step (Resolve i) s = snd (resolveEvent i s)"
| "mon_step (Log clk ty sev t d) s = snd (logEvent clk ty sev t d s)"

definition mon_inv :: "mon_state \<Rightarrow> bool" where
  "mon_inv s \<longleftrightarrow> mon_events s = parse_item_or [] (mon_item s)"

definition mon_reload :: "mon_state \<Rightarrow> mon_state" where
  "mon_reload s = new_Monitor (mon_item s)"

definition mon_view :: "mon_state \<Rightarrow> mon_state" where
  "mon_view s = s\<lparr>monitoring := False\<rparr>"

text \<open>A reload keeps the events and switches monitoring off.\<close>

interpretation mon: persistent mon_step mon_reload mon_inv mon_view
proof unfold_locales
  show "mon_inv (mon_step op s)" if "mon_inv s" for op s
    using that
    by (cases op) (auto simp: startMonitoring_def stopMonitoring_def resolveEvent_def logEvent_def saveEvents_def mon_inv_def Let_def)
qed (auto simp: mon_inv_def mon_reload_def mon_view_def new_Monitor_def loadEvents_def)

lemma events_survive_reload:
  "mon_events (mon_reload (fold mon_step ops (new_Monitor i))) = mon_events (fold mon_step ops (new_Monitor i))"
proof -
  have "mon_inv (new_Monitor i)" by (simp add: mon_inv_def new_Monitor_def loadEvents_def)
  from mon.reload_run_view [OF this, of ops] show ?thesis by (simp add: mon_view_def)
qed

text \<open>Resolving an event removes exactly it from the open events, when identifiers are distinct.\<close>

lemma resolve_removes:
  assumes "distinct (map me_id (mon_events s))" and "fst (resolveEvent i s)"
  shows "getSecurityEvents False (snd (resolveEvent i s)) = filter (\<lambda>e. me_id e \<noteq> i) (getSecurityEvents False s)"
proof -
  have "distinct (map me_id es) \<Longrightarrow>
      filter (\<lambda>e. \<not> me_resolved e) (update_first (\<lambda>e. me_id e = i) (\<lambda>e. e\<lparr>me_resolved := True\<rparr>) es) =
      filter (\<lambda>e. me_id e \<noteq> i) (filter (\<lambda>e. \<not> me_resolved e) es)" for es :: "MonitorEvent list"
  proof (induction es)
    case (Cons e es)
    have "filter (\<lambda>e. me_id e \<noteq> i) (filter (\<lambda>e. \<not> me_resolved e) es) = filter (\<lambda>e. \<not> me_resolved e) es" if "me_id e = i"
      using Cons.prems that by (intro filter_True) (force simp: image_iff)
    with Cons show ?case by auto
  qed simp
  with assms show ?thesis by (auto simp: getSecurityEvents_def resolveEvent_def saveEvents_def split: if_splits)
qed

text \<open>
  Identifiers are the clock reading alone: of two events in one millisecond only the later can be
  resolved.
\<close>

lemma same_time_unresolvable:
  assumes "clk 0 = clk' 0" and "s' = snd (logEvent clk' ty' sv' t' d' (snd (logEvent clk ty sv t d s)))"
  shows "fst (logEvent clk ty sv t d s) \<in>
    set (getSecurityEvents False (snd (resolveEvent (''evt_'' @ show_int (clk 0)) (snd (resolveEvent (''evt_'' @ show_int (clk 0)) s')))))"
  using assms by (simp add: logEvent_def resolveEvent_def getSecurityEvents_def saveEvents_def Let_def)

section \<open>Threat detection\<close>

datatype threat_type = Phishing | Malware | Scam

record ThreatCheck =
  isThreat :: bool
  th_type :: "threat_type option"
  th_confidence :: jsnum
  th_details :: string

definition phishingDomains :: "string list" where
  "phishingDomains = [''fake-kubercoin.com'', ''kubercoin-wallet.net'', ''secure-kubercoin.org'']"

record td_state =
  blacklistedAddresses :: "string list"

definition new_ThreatDetection :: td_state where
  "new_ThreatDetection =
     \<lparr>blacklistedAddresses = [''0x000000000000000000000000000000000000dead'', ''0xscamaddress123456789abcdef'']\<rparr>"

text \<open>\<open>hostname\<close> is the host name that the URL parser finds; \<open>None\<close>: it throws.\<close>

definition extractDomain :: "(string \<Rightarrow> string option) \<Rightarrow> string \<Rightarrow> string" where
  "extractDomain hostname url = (case hostname url of Some h \<Rightarrow> toLowerCase h | None \<Rightarrow> toLowerCase url)"

definition checkURL :: "(string \<Rightarrow> string option) \<Rightarrow> string \<Rightarrow> ThreatCheck" where
  "checkURL hostname url =
     (let domain = extractDomain hostname url
      in case List.find (\<lambda>p. str_includes domain p) phishingDomains of
        Some p \<Rightarrow> \<lparr>isThreat = True, th_type = Some Phishing, th_confidence = 95 / 100, th_details = ''Known phishing domain: '' @ p\<rparr>
      | None \<Rightarrow>
          if str_includes domain ''wallet'' \<and> str_includes domain ''secure''
          then \<lparr>isThreat = True, th_type = Some Phishing, th_confidence = 70 / 100, th_details = ''Suspicious domain pattern detected''\<rparr>
          else \<lparr>isThreat = False, th_type = None, th_confidence = 95 / 100, th_details = ''URL appears safe''\<rparr>)"

definition checkAddress :: "string \<Rightarrow> td_state \<Rightarrow> ThreatCheck" where
  "checkAddress a s =
     (let l = toLowerCase a
      in if l \<in> set (blacklistedAddresses s)
         then \<lparr>isThreat = True, th_type = Some Scam, th_confidence = 1, th_details = ''Address is on the scam blacklist''\<rparr>
         else if str_includes l ''scam'' \<or> str_includes l ''phish''
         then \<lparr>isThreat = True, th_type = Some Scam, th_confidence = 85 / 100, th_details = ''Address contains suspicious keywords''\<rparr>
         else \<lparr>isThreat = False, th_type = None, th_confidence = 90 / 100, th_details = ''Address appears safe''\<rparr>)"

definition scanContract :: "string \<Rightarrow> ThreatCheck" where
  "scanContract a = \<lparr>isThreat = False, th_type = None, th_confidence = 0, th_details = ''Contract scanning not configured''\<rparr>"

definition addToBlacklist :: "string \<Rightarrow> td_state \<Rightarrow> bool \<times> td_state" where
  "addToBlacklist a s =
     (if toLowerCase a \<notin> set (blacklistedAddresses s)
      then (True, s\<lparr>blacklistedAddresses := blacklistedAddresses s @ [toLowerCase a]\<rparr>) else (False, s))"

definition removeFromBlacklist :: "string \<Rightarrow> td_state \<Rightarrow> bool \<times> td_state" where
  "removeFromBlacklist a s =
     (if toLowerCase a \<in> set (blacklistedAddresses s)
      then (True, s\<lparr>blacklistedAddresses := remove1 (toLowerCase a) (blacklistedAddresses s)\<rparr>) else (False, s))"

definition getBlacklist :: "td_state \<Rightarrow> string list" where
  "getBlacklist s = blacklistedAddresses s"

datatype td_op = AddBlack string | RemoveBlack string

fun td_step :: "td_op \<Rightarrow> td_state \<Rightarrow> td_state" where
  "td_step (AddBlack a) s = snd (addToBlacklist a s)"
| "td_step (RemoveBlack a) s = snd (removeFromBlacklist a s)"

text \<open>The abstract contract: a set of addresses without regard to case.\<close>

fun black_set :: "td_op \<Rightarrow> string set \<Rightarrow> string set" where
  "black_set (AddBlack a) B = insert (toLowerCase a) B"
| "black_set (RemoveBlack a) B = B - {toLowerCase a}"

lemma lower_idem: "toLowerCase (toLowerCase a) = toLowerCase a"
proof -
  have "lower_char (lower_char c) = lower_char c" for c
    by (auto simp: lower_char_def of_char_of)
  then show ?thesis by (simp add: toLowerCase_def)
qed

lemma blacklist_refines_set:
  assumes "distinct (blacklistedAddresses s)"
  shows "distinct (blacklistedAddresses (fold td_step ops s)) \<and>
    set (getBlacklist (fold td_step ops s)) = fold black_set ops (set (getBlacklist s))"
  using assms
proof (induction ops arbitrary: s)
  case (Cons op ops)
  have "distinct (blacklistedAddresses (td_step op s)) \<and> set (getBlacklist (td_step op s)) = black_set op (set (getBlacklist s))"
    using Cons.prems
    by (cases op) (auto simp: addToBlacklist_def removeFromBlacklist_def getBlacklist_def)
  with Cons.IH [of "td_step op s"] show ?case by simp
qed simp

text \<open>An address is reported exactly when it is in the set or has a keyword in it, in either case.\<close>

lemma address_threat_iff:
  "isThreat (checkAddress a s) \<longleftrightarrow>
     toLowerCase a \<in> set (getBlacklist s) \<or> str_includes (toLowerCase a) ''scam'' \<or> str_includes (toLowerCase a) ''phish''"
  by (simp add: checkAddress_def getBlacklist_def Let_def)

lemma check_ignores_case: "checkAddress (toLowerCase a) s = checkAddress a s"
  by (simp add: checkAddress_def lower_idem)

end
