(* ===== verification/AuditLog.thy ===== *)
theory AuditLog
  imports WalletApi Calendar
begin

text \<open>
  The audit log (services/auditLog.ts): events recorded locally or fetched from the backend, their
  statistics, filters and export. What the caller puts into \<open>details\<close> is a type parameter.
\<close>

datatype event_type =
    Login | Logout | TransactionCreated | TransactionSigned | WalletCreated | WalletImported
  | SettingsChanged | BackupCreated | PasswordChanged | SuspiciousActivity

datatype audit_severity = Info | Warning | Critical

text \<open>A device of a fetched event may be missing; its fingerprint may be empty.\<close>

record DeviceInfo =
  userAgent :: string
  dv_ip :: "string option"
  fingerprint :: string

record 'd AuditEvent =
  ae_id :: string
  ae_timestamp :: int
  eventType :: event_type
  ae_severity :: audit_severity
  userId :: "string option"
  deviceInfo :: "DeviceInfo option"
  details :: 'd
  location :: "string option"

text \<open>No event type is the most common one when there are no events: 'none'.\<close>

record AuditStats =
  totalEvents :: nat
  criticalEvents :: nat
  uniqueDevices :: nat
  mostCommonEvent :: "event_type option"

record 'd audit_state =
  events :: "'d AuditEvent list"
  stats :: AuditStats

definition new_AuditLog :: "'d audit_state" where
  "new_AuditLog =
     \<lparr>events = [], stats = \<lparr>totalEvents = 0, criticalEvents = 0, uniqueDevices = 0, mostCommonEvent = None\<rparr>\<rparr>"

section \<open>Statistics\<close>

definition device_key :: "'d AuditEvent \<Rightarrow> string" where
  "device_key e =
     (case deviceInfo e of None \<Rightarrow> ''unknown'' | Some d \<Rightarrow> if fingerprint d = [] then ''unknown'' else fingerprint d)"

text \<open>The loop over the entries of the count map: the first type with the highest count.\<close>

definition most_common :: "('k, nat) jsmap \<Rightarrow> 'k option" where
  "most_common m = snd (fold (\<lambda>(k, n) (mx, b). if mx < n then (n, Some k) else (mx, b)) m (0, None))"

definition recalcStats :: "'d audit_state \<Rightarrow> 'd audit_state" where
  "recalcStats s =
     s\<lparr>stats := \<lparr>totalEvents = length (events s),
         criticalEvents = fold (\<lambda>e n. if ae_severity e = Critical then n + 1 else n) (events s) 0,
         uniqueDevices = length (fold (\<lambda>e ds. List.insert (device_key e) ds) (events s) []),
         mostCommonEvent = most_common (fold (\<lambda>e m. tally (eventType e) m) (events s) [])\<rparr>\<rparr>"

section \<open>Operations\<close>

record audit_filter =
  af_startDate :: "int option"
  af_endDate :: "int option"
  af_eventType :: "event_type option"
  af_severity :: "audit_severity option"

text \<open>A date of zero is falsy and does not filter.\<close>

definition date_filter :: "int option \<Rightarrow> (int \<Rightarrow> bool) \<Rightarrow> 'd AuditEvent list \<Rightarrow> 'd AuditEvent list" where
  "date_filter d p es = (if d = None \<or> d = Some 0 then es else filter (\<lambda>e. p (ae_timestamp e)) es)"

definition getEvents :: "audit_filter option \<Rightarrow> 'd audit_state \<Rightarrow> 'd AuditEvent list" where
  "getEvents fo s =
     (case fo of
        None \<Rightarrow> sort_desc ae_timestamp (events s)
      | Some f \<Rightarrow>
          let es = date_filter (af_startDate f) (\<lambda>t. the (af_startDate f) \<le> t) (events s);
              es = date_filter (af_endDate f) (\<lambda>t. t \<le> the (af_endDate f)) es;
              es = (case af_eventType f of None \<Rightarrow> es | Some y \<Rightarrow> filter (\<lambda>e. eventType e = y) es);
              es = (case af_severity f of None \<Rightarrow> es | Some y \<Rightarrow> filter (\<lambda>e. ae_severity e = y) es)
          in sort_desc ae_timestamp es)"

definition refreshEvents ::
    "bool \<Rightarrow> js_error + 'd AuditEvent list option option \<Rightarrow> audit_filter option \<Rightarrow> ('d audit_state, 'd AuditEvent list) eff" where
  "refreshEvents allow resp f =
     ebind (with_fallback allow
              (ebind (api_data resp) (\<lambda>es s. (Inr (), recalcStats (s\<lparr>events := list_of es\<rparr>))))
              (\<lambda>s. (Inr (), recalcStats s)))
       (\<lambda>_ s. (Inr (getEvents f s), s))"

definition getStatistics :: "'d audit_state \<Rightarrow> AuditStats" where
  "getStatistics s = stats s"

text \<open>An empty response keeps the statistics, so nothing throws on one.\<close>

definition refreshStats :: "bool \<Rightarrow> js_error + AuditStats option \<Rightarrow> ('d audit_state, AuditStats) eff" where
  "refreshStats allow resp =
     ebind (with_fallback allow
              (ebind (eresult resp) (\<lambda>r s. (Inr (), s\<lparr>stats := or_keep r (stats s)\<rparr>)))
              (\<lambda>s. (Inr (), recalcStats s)))
       (\<lambda>_ s. (Inr (getStatistics s), s))"

text \<open>\<open>ua\<close> is \<open>navigator.userAgent\<close>, \<open>None\<close> where there is no navigator.\<close>

definition logEvent ::
    "string option \<Rightarrow> clock \<Rightarrow> string \<Rightarrow> string \<Rightarrow> event_type \<Rightarrow> audit_severity \<Rightarrow> 'd \<Rightarrow> 'd audit_state
     \<Rightarrow> 'd AuditEvent \<times> 'd audit_state" where
  "logEvent ua clk rnd1 rnd2 ty sev det s =
     (let e = \<lparr>ae_id = createId ''audit'' (clk 0) rnd1, ae_timestamp = clk 1, eventType = ty, ae_severity = sev, userId = None,
               deviceInfo = Some \<lparr>userAgent = (case ua of None \<Rightarrow> ''unknown'' | Some u \<Rightarrow> u), dv_ip = None,
                                  fingerprint = createId ''fp'' (clk 2) rnd2\<rparr>,
               details = det, location = None\<rparr>
      in (e, recalcStats (s\<lparr>events := e # filter (\<lambda>x. ae_id x \<noteq> ae_id e) (events s)\<rparr>)))"

section \<open>Export\<close>

datatype export_format = JsonFormat | CsvFormat

fun event_type_name :: "event_type \<Rightarrow> string" where
  "event_type_name Login = ''login''"
| "event_type_name Logout = ''logout''"
| "event_type_name TransactionCreated = ''transaction_created''"
| "event_type_name TransactionSigned = ''transaction_signed''"
| "event_type_name WalletCreated = ''wallet_created''"
| "event_type_name WalletImported = ''wallet_imported''"
| "event_type_name SettingsChanged = ''settings_changed''"
| "event_type_name BackupCreated = ''backup_created''"
| "event_type_name PasswordChanged = ''password_changed''"
| "event_type_name SuspiciousActivity = ''suspicious_activity''"

fun severity_name :: "audit_severity \<Rightarrow> string" where
  "severity_name Info = ''info''"
| "severity_name Warning = ''warning''"
| "severity_name Critical = ''critical''"

text \<open>\<open>replace(/\s+/g, ' ')\<close>\<close>

fun collapse_space :: "string \<Rightarrow> string" where
  "collapse_space [] = []"
| "collapse_space [c] = [if is_space c then CHR '' '' else c]"
| "collapse_space (c # d # cs) =
     (if \<not> is_space c then c # collapse_space (d # cs)
      else if is_space d then collapse_space (d # cs) else CHR '' '' # collapse_space (d # cs))"

definition csv_row :: "'d AuditEvent \<Rightarrow> string" where
  "csv_row e = toISOString (ae_timestamp e) @ '','' @ event_type_name (eventType e) @ '','' @ severity_name (ae_severity e) @
     '',\"'' @ collapse_space (case deviceInfo e of None \<Rightarrow> [] | Some d \<Rightarrow> userAgent d) @ ''\"''"

text \<open>
  \<open>show_json\<close> and \<open>show_events\<close> are \<open>JSON.stringify(_, null, 2)\<close>, \<open>csv_text\<close> reads the
  data of a response as text; data that is falsy counts as missing.
\<close>

definition exportAuditLog ::
    "('j \<Rightarrow> string) \<Rightarrow> ('d AuditEvent list \<Rightarrow> string) \<Rightarrow> ('j \<Rightarrow> string) \<Rightarrow> bool \<Rightarrow> js_error + 'j option option \<Rightarrow> export_format
     \<Rightarrow> ('d audit_state, string) eff" where
  "exportAuditLog show_json show_events csv_text allow resp fmt =
     with_fallback allow
       (ebind (api_data resp) (\<lambda>d. eret
          (if fmt = CsvFormat then (case d of None \<Rightarrow> [] | Some j \<Rightarrow> csv_text j)
           else (case d of None \<Rightarrow> ''[]'' | Some j \<Rightarrow> show_json j))))
       (\<lambda>s. (Inr (if fmt = CsvFormat
                  then ''Timestamp,Event Type,Severity,User Agent'' @ [CHR 10] @ join_with [CHR 10] (map csv_row (events s))
                  else show_events (events s)), s))"

section \<open>The statistics are those of the events\<close>

lemma most_common_loop:
  assumes "fold (\<lambda>(k, n) (mx, b). if mx < n then (n, Some k) else (mx, b)) es (mx, b) = (M, c)"
  shows "(mx :: nat) \<le> M \<and> (\<forall>(k, n) \<in> set es. n \<le> M) \<and> (c = b \<and> M = mx \<or> (\<exists>k. c = Some k \<and> (k, M) \<in> set es))"
  using assms
proof (induction es arbitrary: mx b)
  case Nil
  then show ?case by simp
next
  case (Cons e es)
  obtain k n where e: "e = (k, n)" by force
  show ?case
  proof (cases "mx < n")
    case True
    with Cons.IH [of n "Some k"] Cons.prems e show ?thesis by auto
  next
    case False
    with Cons.IH [of mx b] Cons.prems e show ?thesis by auto
  qed
qed

lemma most_common_tally:
  assumes "ks \<noteq> []"
  shows "\<exists>k. most_common (fold tally ks []) = Some k \<and> k \<in> set ks \<and> (\<forall>j. count_list ks j \<le> count_list ks k)"
proof -
  let ?m = "fold tally ks []"
  obtain M c where f: "fold (\<lambda>(k, n) (mx, b). if mx < n then (n, Some k) else (mx, b)) ?m (0, None) = (M, c)" by force
  note loop = most_common_loop [OF f]
  have entry: "(j, count_list ks j) \<in> set ?m" if "j \<in> set ks" for j
  proof -
    from that have "j \<in> fst ` set ?m" by (simp add: tally_keys)
    then obtain n where "(j, n) \<in> set ?m" by auto
    then show ?thesis using tally_entry by metis
  qed
  have le: "count_list ks j \<le> M" for j
    using loop entry [of j] by (cases "j \<in> set ks") (auto simp: count_list_0_iff)
  have "0 < count_list ks (hd ks)" using assms by (cases ks) auto
  then have "0 < M" using le [of "hd ks"] by simp
  then obtain k where k: "c = Some k" "(k, M) \<in> set ?m" using loop by auto
  from tally_entry [OF k(2)] have "M = count_list ks k" "k \<in> set ks" by auto
  with k le f show ?thesis by (simp add: most_common_def)
qed

lemma count_critical: "fold (\<lambda>e n. if P e then n + 1 else n) es n = n + length (filter P es)" for n :: nat
  by (induction es arbitrary: n) auto

lemma insert_all:
  "distinct ds \<Longrightarrow> distinct (fold (\<lambda>e ds. List.insert (f e) ds) es ds) \<and>
     set (fold (\<lambda>e ds. List.insert (f e) ds) es ds) = set ds \<union> f ` set es"
  by (induction es arbitrary: ds) auto

lemma fold_tally_map: "fold (\<lambda>e m. tally (f e) m) es m = fold tally (map f es) m"
  by (induction es arbitrary: m) auto

definition stats_of :: "'d AuditEvent list \<Rightarrow> AuditStats \<Rightarrow> bool" where
  "stats_of es st \<longleftrightarrow>
     totalEvents st = length es \<and>
     criticalEvents st = length (filter (\<lambda>e. ae_severity e = Critical) es) \<and>
     uniqueDevices st = card (device_key ` set es) \<and>
     (if es = [] then mostCommonEvent st = None
      else \<exists>k. mostCommonEvent st = Some k \<and> k \<in> eventType ` set es \<and>
             (\<forall>j. count_list (map eventType es) j \<le> count_list (map eventType es) k))"

lemma recalcStats_exact: "stats_of (events s) (stats (recalcStats s))"
proof -
  have "length (fold (\<lambda>e ds. List.insert (device_key e) ds) (events s) []) = card (device_key ` set (events s))"
    using insert_all [of "[]" device_key "events s"] distinct_card by fastforce
  moreover have "events s \<noteq> [] \<Longrightarrow> \<exists>k. mostCommonEvent (stats (recalcStats s)) = Some k \<and> k \<in> eventType ` set (events s) \<and>
      (\<forall>j. count_list (map eventType (events s)) j \<le> count_list (map eventType (events s)) k)"
    using most_common_tally [of "map eventType (events s)"] by (simp add: recalcStats_def fold_tally_map [of eventType])
  moreover have "events s = [] \<Longrightarrow> mostCommonEvent (stats (recalcStats s)) = None"
    by (simp add: recalcStats_def most_common_def)
  moreover have "totalEvents (stats (recalcStats s)) = length (events s)"
    "criticalEvents (stats (recalcStats s)) = length (filter (\<lambda>e. ae_severity e = Critical) (events s))"
    "uniqueDevices (stats (recalcStats s)) = length (fold (\<lambda>e ds. List.insert (device_key e) ds) (events s) [])"
    by (simp_all add: recalcStats_def count_critical)
  ultimately show ?thesis unfolding stats_of_def by presburger
qed

datatype 'd audit_op =
    Log "string option" clock string string event_type audit_severity 'd
  | RefreshEvents "js_error + 'd AuditEvent list option option" "audit_filter option"

fun audit_step :: "bool \<Rightarrow> 'd audit_op \<Rightarrow> 'd audit_state \<Rightarrow> 'd audit_state" where
  "audit_step allow (Log ua clk r1 r2 ty sev det) s = snd (logEvent ua clk r1 r2 ty sev det s)"
| "audit_step allow (RefreshEvents resp f) s = snd (refreshEvents allow resp f s)"

lemma recalcStats_events [simp]: "events (recalcStats s) = events s"
  by (simp add: recalcStats_def)

lemma stats_step: "stats_of (events s) (stats s) \<Longrightarrow> stats_of (events (audit_step allow op s)) (stats (audit_step allow op s))"
proof (cases op)
  case (Log ua clk r1 r2 ty sev det)
  let ?s = "s\<lparr>events := fst (logEvent ua clk r1 r2 ty sev det s)
    # filter (\<lambda>x. ae_id x \<noteq> ae_id (fst (logEvent ua clk r1 r2 ty sev det s))) (events s)\<rparr>"
  have "audit_step allow op s = recalcStats ?s" using Log by (simp add: logEvent_def Let_def)
  then show ?thesis using recalcStats_exact [of ?s] by simp
next
  case (RefreshEvents resp f)
  assume "stats_of (events s) (stats s)"
  moreover have "snd (refreshEvents allow resp f s) \<in> {s, recalcStats s} \<union> range (\<lambda>es. recalcStats (s\<lparr>events := es\<rparr>))"
    by (auto simp: refreshEvents_def ebind_def with_fallback_def ecatch_def api_data_def ethrow_def eret_def
        split: sum.splits option.splits prod.splits if_splits)
  ultimately show ?thesis
    using RefreshEvents recalcStats_exact [of s] recalcStats_exact [of "s\<lparr>events := es\<rparr>" for es] by auto
qed

text \<open>
  After any run of logging and fetching, from the empty log and whatever the backend answers,
  the statistics are exactly those of the events held: their number, the number of critical ones,
  the number of different devices, and a type that occurs most often (none only without events).
\<close>

theorem audit_stats_exact:
  "let s = fold (audit_step allow) ops new_AuditLog in stats_of (events s) (stats s)"
proof -
  have "stats_of (events s) (stats s) \<Longrightarrow>
      stats_of (events (fold (audit_step allow) ops s)) (stats (fold (audit_step allow) ops s))" for s :: "'a audit_state"
    by (induction ops arbitrary: s) (auto simp: stats_step)
  then show ?thesis by (simp add: new_AuditLog_def stats_of_def)
qed

text \<open>What a filter keeps: the conditions that are given, in any order.\<close>

definition matches :: "audit_filter \<Rightarrow> 'd AuditEvent \<Rightarrow> bool" where
  "matches f e \<longleftrightarrow>
     (af_startDate f \<in> {None, Some 0} \<or> the (af_startDate f) \<le> ae_timestamp e) \<and>
     (af_endDate f \<in> {None, Some 0} \<or> ae_timestamp e \<le> the (af_endDate f)) \<and>
     (af_eventType f = None \<or> af_eventType f = Some (eventType e)) \<and>
     (af_severity f = None \<or> af_severity f = Some (ae_severity e))"

lemma getEvents_matches: "getEvents (Some f) s = sort_desc ae_timestamp (filter (matches f) (events s))"
proof -
  have "(if af_startDate f = None \<or> af_startDate f = Some 0 then es else filter (\<lambda>e. the (af_startDate f) \<le> ae_timestamp e) es) =
      filter (\<lambda>e. af_startDate f \<in> {None, Some 0} \<or> the (af_startDate f) \<le> ae_timestamp e) es" for es :: "'a AuditEvent list"
    by auto
  moreover have "(if af_endDate f = None \<or> af_endDate f = Some 0 then es else filter (\<lambda>e. ae_timestamp e \<le> the (af_endDate f)) es) =
      filter (\<lambda>e. af_endDate f \<in> {None, Some 0} \<or> ae_timestamp e \<le> the (af_endDate f)) es" for es :: "'a AuditEvent list"
    by auto
  moreover have "(case af_eventType f of None \<Rightarrow> es | Some y \<Rightarrow> filter (\<lambda>e. eventType e = y) es) =
      filter (\<lambda>e. af_eventType f = None \<or> af_eventType f = Some (eventType e)) es" for es :: "'a AuditEvent list"
    by (auto split: option.splits intro!: filter_cong)
  moreover have "(case af_severity f of None \<Rightarrow> es | Some y \<Rightarrow> filter (\<lambda>e. ae_severity e = y) es) =
      filter (\<lambda>e. af_severity f = None \<or> af_severity f = Some (ae_severity e)) es" for es :: "'a AuditEvent list"
    by (auto split: option.splits intro!: filter_cong)
  ultimately show ?thesis
    by (auto simp: getEvents_def date_filter_def Let_def matches_def conj_commute conj_left_commute
        intro!: arg_cong [where f = "sort_desc ae_timestamp"] filter_cong)
qed

text \<open>
  Each event logged here gets a fingerprint of its own: one device that logs twice counts as two.
\<close>

lemma one_device_counts_twice:
  assumes "r2 \<noteq> r4" and "r1 \<noteq> r3"
  shows "uniqueDevices (stats (fold (audit_step True)
    [Log ua (\<lambda>_. t) r1 r2 y1 v1 d1, Log ua (\<lambda>_. t) r3 r4 y2 v2 d2] new_AuditLog)) = 2"
  using assms by (simp add: logEvent_def Let_def recalcStats_def new_AuditLog_def device_key_def createId_def)

end
