(* ===== verification/Security.thy ===== *)
theory Security
  imports JsStore
begin

text \<open>
  The security service (services/security.ts): password-based encryption, password hashes and
  the lock with its session timeout. Web Crypto is a parameter, a record of the two primitives
  the service calls; what it promises is the predicate \<open>crypto_ok\<close>. Texts and
  passwords are the bytes of their UTF-8 encoding; the bytes that \<open>getRandomValues\<close>
  draws are arguments. The base64 and hexadecimal codings are those of the language and the
  source and are modelled.
\<close>

unbundle bit_operations_syntax

section \<open>Bytes as text\<close>

type_synonym bytes = "nat list"

definition is_bytes :: "bytes \<Rightarrow> bool" where
  "is_bytes bs \<longleftrightarrow> list_all (\<lambda>b. b < 256) bs"

definition b64_alphabet :: string where
  "b64_alphabet = ''ABCDEFGHIJKLMNOPQRSTUVWXYZabcdefghijklmnopqrstuvwxyz0123456789+/''"

definition hex_alphabet :: string where
  "hex_alphabet = ''0123456789abcdef''"

definition index_of :: "string \<Rightarrow> char \<Rightarrow> nat" where
  "index_of cs c = length (takeWhile (\<lambda>x. x \<noteq> c) cs)"

definition b64 :: "nat \<Rightarrow> char" where
  "b64 i = b64_alphabet ! i"

definition unb64 :: "char \<Rightarrow> nat" where
  "unb64 c = index_of b64_alphabet c"

text \<open>\<open>btoa\<close> on a binary string, given by its bytes.\<close>

fun btoa :: "bytes \<Rightarrow> string" where
  "btoa [] = []"
| "btoa [a] = [b64 (a div 4), b64 (a mod 4 * 16), CHR ''='', CHR ''='']"
| "btoa [a, b] = [b64 (a div 4), b64 (a mod 4 * 16 + b div 16), b64 (b mod 16 * 4), CHR ''='']"
| "btoa (a # b # c # r) =
     b64 (a div 4) # b64 (a mod 4 * 16 + b div 16) # b64 (b mod 16 * 4 + c div 64) # b64 (c mod 64) # btoa r"

definition in_b64 :: "char \<Rightarrow> bool" where
  "in_b64 c \<longleftrightarrow> c \<in> set b64_alphabet"

text \<open>
  \<open>atob\<close>: the last group may be padded or cut short, anything else throws
  (\<open>None\<close>). White space, which \<open>atob\<close> would skip, is not in the texts that
  the service writes.
\<close>

fun atob :: "string \<Rightarrow> bytes option" where
  "atob [] = Some []"
| "atob [w] = None"
| "atob [w, x] = (if in_b64 w \<and> in_b64 x then Some [unb64 w * 4 + unb64 x div 16] else None)"
| "atob [w, x, y] =
     (if in_b64 w \<and> in_b64 x \<and> in_b64 y
      then Some [unb64 w * 4 + unb64 x div 16, unb64 x mod 16 * 16 + unb64 y div 4] else None)"
| "atob (w # x # y # z # r) =
     (if r = [] \<and> z = CHR ''='' \<and> y = CHR ''='' then atob [w, x]
      else if r = [] \<and> z = CHR ''='' then atob [w, x, y]
      else if in_b64 w \<and> in_b64 x \<and> in_b64 y \<and> in_b64 z
      then map_option (\<lambda>bs. (unb64 w * 4 + unb64 x div 16) # (unb64 x mod 16 * 16 + unb64 y div 4) #
              (unb64 y mod 4 * 64 + unb64 z) # bs) (atob r)
      else None)"

text \<open>\<open>b.toString(16).padStart(2, '0')\<close> of a byte, joined.\<close>

definition toHex :: "bytes \<Rightarrow> string" where
  "toHex bs = concat (map (\<lambda>b. [hex_alphabet ! (b div 16), hex_alphabet ! (b mod 16)]) bs)"

definition hex_val :: "char \<Rightarrow> nat option" where
  "hex_val c = (if c \<in> set hex_alphabet then Some (index_of hex_alphabet c)
     else if c \<in> set ''ABCDEF'' then Some (10 + index_of ''ABCDEF'' c) else None)"

text \<open>
  \<open>parseInt(pair, 16)\<close> stored in a byte array: digits up to the first other character,
  and zero when there is none.
\<close>

definition parse_pair :: "char \<Rightarrow> char \<Rightarrow> nat" where
  "parse_pair x y =
     (case hex_val x of
        None \<Rightarrow> 0
      | Some a \<Rightarrow> (case hex_val y of None \<Rightarrow> a | Some b \<Rightarrow> 16 * a + b))"

text \<open>\<open>saltHex.match(/.{2}/g)!.map(...)\<close>; with no pair at all it throws.\<close>

fun hex_pairs :: "string \<Rightarrow> bytes" where
  "hex_pairs (x # y # r) = parse_pair x y # hex_pairs r"
| "hex_pairs r = []"

definition fromHex :: "string \<Rightarrow> bytes option" where
  "fromHex h = (if length h < 2 then None else Some (hex_pairs h))"

section \<open>Web Crypto\<close>

text \<open>
  \<open>kdf n pw salt\<close> is PBKDF2-SHA-256 with \<open>n\<close> iterations and 256 bits;
  \<open>seal\<close> and \<open>unseal\<close> are AES-GCM with key and iv.
\<close>

record web_crypto =
  kdf :: "nat \<Rightarrow> bytes \<Rightarrow> bytes \<Rightarrow> bytes"
  seal :: "bytes \<Rightarrow> bytes \<Rightarrow> bytes \<Rightarrow> js_error + bytes"
  unseal :: "bytes \<Rightarrow> bytes \<Rightarrow> bytes \<Rightarrow> js_error + bytes"

definition crypto_ok :: "web_crypto \<Rightarrow> bool" where
  "crypto_ok c \<longleftrightarrow>
     (\<forall>n pw salt. length (kdf c n pw salt) = 32 \<and> is_bytes (kdf c n pw salt)) \<and>
     (\<forall>k iv d e. seal c k iv d = Inr e \<longrightarrow> is_bytes e \<and> unseal c k iv e = Inr d)"

definition encrypt :: "web_crypto \<Rightarrow> bytes \<Rightarrow> bytes \<Rightarrow> bytes \<Rightarrow> bytes \<Rightarrow> js_error + string" where
  "encrypt c salt iv d pw =
     (case seal c (kdf c 100000 pw salt) iv d of
        Inl e \<Rightarrow> Inl (Error (''Encryption failed: '' @ message e))
      | Inr e \<Rightarrow> Inr (btoa (salt @ iv @ e)))"

definition decryption_failed :: js_error where
  "decryption_failed = Error ''Decryption failed: Invalid password or corrupted data''"

definition decrypt :: "web_crypto \<Rightarrow> string \<Rightarrow> bytes \<Rightarrow> js_error + bytes" where
  "decrypt c ct pw =
     (case atob ct of
        None \<Rightarrow> Inl decryption_failed
      | Some combined \<Rightarrow>
          let salt = take 16 combined; iv = take 12 (drop 16 combined); d = drop 28 combined
          in (case unseal c (kdf c 100000 pw salt) iv d of
                Inl e \<Rightarrow> Inl decryption_failed
              | Inr t \<Rightarrow> Inr t))"

section \<open>Passwords\<close>

text \<open>An absent or empty salt makes a fresh random one.\<close>

definition deriveKey :: "web_crypto \<Rightarrow> bytes \<Rightarrow> bytes \<Rightarrow> string option \<Rightarrow> string option" where
  "deriveKey c rnd pw saltHex =
     map_option (\<lambda>salt. ''pbkdf2:'' @ toHex salt @ '':'' @ toHex (kdf c 200000 pw salt))
       (if truthy_string saltHex then fromHex (the saltHex) else Some rnd)"

definition hashPassword :: "web_crypto \<Rightarrow> bytes \<Rightarrow> bytes \<Rightarrow> string option" where
  "hashPassword c rnd pw = deriveKey c rnd pw None"

text \<open>
  The stored settings: a field that the stored object lacks is \<open>None\<close>
  (\<open>undefined\<close> when read).
\<close>

record SecuritySettings =
  passwordEnabled :: "bool option"
  sessionTimeout :: "jsnum option"
  requireConfirmation :: "bool option"
  biometricEnabled :: "bool option"

record sec_state =
  password :: "bytes option"
  sessionStartTime :: int
  isLocked :: bool
  settings_item :: "SecuritySettings item"
  hash_item :: "string option"

definition new_security :: "SecuritySettings item \<Rightarrow> string option \<Rightarrow> sec_state" where
  "new_security si h = \<lparr>password = None, sessionStartTime = 0, isLocked = True, settings_item = si, hash_item = h\<rparr>"

definition getDefaultSettings :: SecuritySettings where
  "getDefaultSettings = \<lparr>passwordEnabled = Some False, sessionTimeout = Some 15,
     requireConfirmation = Some True, biometricEnabled = Some False\<rparr>"

definition loadSettings :: "sec_state \<Rightarrow> SecuritySettings" where
  "loadSettings s = parse_item_or getDefaultSettings (settings_item s)"

definition saveSettings :: "SecuritySettings \<Rightarrow> sec_state \<Rightarrow> sec_state" where
  "saveSettings st s = s\<lparr>settings_item := Json st\<rparr>"

definition getSettings :: "sec_state \<Rightarrow> SecuritySettings" where
  "getSettings s = loadSettings s"

text \<open>Without a salt argument \<open>deriveKey\<close> does not throw.\<close>

definition setPassword :: "web_crypto \<Rightarrow> bytes \<Rightarrow> bytes \<Rightarrow> sec_state \<Rightarrow> sec_state" where
  "setPassword c rnd pw s =
     (case deriveKey c rnd pw None of
        None \<Rightarrow> s
      | Some encoded \<Rightarrow>
          let s1 = s\<lparr>hash_item := Some encoded\<rparr>
          in saveSettings ((getSettings s1)\<lparr>passwordEnabled := Some True\<rparr>) s1)"

text \<open>The comparison that looks at every character.\<close>

definition timing_safe_diff :: "string \<Rightarrow> string \<Rightarrow> nat" where
  "timing_safe_diff a b = foldl (\<lambda>d (x, y). d OR (of_char x XOR of_char y)) 0 (zip a b)"

definition verifyPassword :: "web_crypto \<Rightarrow> bytes \<Rightarrow> bytes \<Rightarrow> sec_state \<Rightarrow> bool" where
  "verifyPassword c rnd pw s =
     (case hash_item s of
        None \<Rightarrow> False
      | Some st \<Rightarrow>
          if st = [] \<or> \<not> startsWith st ''pbkdf2:'' then False
          else
            (case split_on (CHR '':'') st of
               _ # saltHex # expectedKeyHex # _ \<Rightarrow>
                 (case deriveKey c rnd pw (Some saltHex) of
                    None \<Rightarrow> False
                  | Some candidate \<Rightarrow>
                      (case split_on (CHR '':'') candidate of
                         _ # _ # candidateKeyHex # _ \<Rightarrow>
                           length candidateKeyHex = length expectedKeyHex \<and>
                           timing_safe_diff expectedKeyHex candidateKeyHex = 0
                       | _ \<Rightarrow> False))
             | _ \<Rightarrow> False))"

section \<open>The lock\<close>

definition unlock :: "web_crypto \<Rightarrow> bytes \<Rightarrow> int \<Rightarrow> bytes \<Rightarrow> sec_state \<Rightarrow> bool \<times> sec_state" where
  "unlock c rnd now pw s =
     (if verifyPassword c rnd pw s
      then (True, s\<lparr>password := Some pw, sessionStartTime := now, isLocked := False\<rparr>)
      else (False, s))"

definition lock :: "sec_state \<Rightarrow> sec_state" where
  "lock s = s\<lparr>password := None, sessionStartTime := 0, isLocked := True\<rparr>"

text \<open>\<open>undefined > 0\<close> is false.\<close>

definition positive :: "jsnum option \<Rightarrow> bool" where
  "positive x = (case x of None \<Rightarrow> False | Some v \<Rightarrow> v > 0)"

definition isWalletLocked :: "int \<Rightarrow> sec_state \<Rightarrow> bool \<times> sec_state" where
  "isWalletLocked now s =
     (let timeout = sessionTimeout (getSettings s)
      in if positive timeout \<and> sessionStartTime s > 0 \<and>
            of_int (now - sessionStartTime s) > the timeout * 60 * 1000
         then (True, lock s)
         else (isLocked s, s))"

definition changePassword ::
    "web_crypto \<Rightarrow> bytes \<Rightarrow> bytes \<Rightarrow> bytes \<Rightarrow> bytes \<Rightarrow> (sec_state, bool) eff" where
  "changePassword c rnd rnd' oldPassword newPassword s =
     (if \<not> verifyPassword c rnd oldPassword s then (Inl (Error ''Current password is incorrect''), s)
      else (Inr True, setPassword c rnd' newPassword s))"

definition removePassword :: "web_crypto \<Rightarrow> bytes \<Rightarrow> bytes \<Rightarrow> (sec_state, bool) eff" where
  "removePassword c rnd pw s =
     (if \<not> verifyPassword c rnd pw s then (Inl (Error ''Password is incorrect''), s)
      else
        let s1 = s\<lparr>hash_item := None\<rparr>
        in (Inr True, lock (saveSettings ((getSettings s1)\<lparr>passwordEnabled := Some False\<rparr>) s1)))"

definition hasPassword :: "sec_state \<Rightarrow> bool" where
  "hasPassword s \<longleftrightarrow> hash_item s \<noteq> None"

definition updateActivity :: "int \<Rightarrow> sec_state \<Rightarrow> sec_state" where
  "updateActivity now s = (if \<not> isLocked s then s\<lparr>sessionStartTime := now\<rparr> else s)"

text \<open>Seconds left; \<open>None\<close> is not a number (no timeout in the settings).\<close>

definition getTimeUntilExpiry :: "int \<Rightarrow> sec_state \<Rightarrow> int option" where
  "getTimeUntilExpiry now s =
     (if isLocked s \<or> sessionStartTime s = 0 then Some 0
      else
        map_option (\<lambda>t. max 0 \<lfloor>(t * 60 * 1000 - of_int (now - sessionStartTime s)) / 1000\<rfloor>)
          (sessionTimeout (getSettings s)))"

section \<open>The codings are inverse\<close>

lemma index_nth: "distinct cs \<Longrightarrow> i < length cs \<Longrightarrow> index_of cs (cs ! i) = i"
proof (induction cs arbitrary: i)
  case (Cons c cs)
  then show ?case by (cases i) (auto simp: index_of_def)
qed simp

lemma b64_alphabet_facts: "distinct b64_alphabet" "length b64_alphabet = 64" "CHR ''='' \<notin> set b64_alphabet"
  by (simp_all add: b64_alphabet_def)

lemma hex_alphabet_facts: "distinct hex_alphabet" "length hex_alphabet = 16" "CHR '':'' \<notin> set hex_alphabet"
  by (simp_all add: hex_alphabet_def)

lemma b64_inverse [simp]: "i < 64 \<Longrightarrow> unb64 (b64 i) = i"
  by (simp add: unb64_def b64_def index_nth b64_alphabet_facts)

lemma b64_in [simp]: "i < 64 \<Longrightarrow> in_b64 (b64 i)"
  by (simp add: in_b64_def b64_def b64_alphabet_facts)

lemma b64_not_pad [simp]: "i < 64 \<Longrightarrow> b64 i \<noteq> CHR ''=''"
  using b64_in b64_alphabet_facts(3) unfolding in_b64_def by metis

lemma digit_parts:
  fixes x y n :: nat
  assumes "y < n"
  shows "(x * n + y) div n = x" "(x * n + y) mod n = y"
  using assms by simp_all

lemma quotient_small:
  fixes a :: nat
  assumes "a < 256"
  shows "a div 4 < 64" "a div 16 < 16" "a div 64 < 4" "a mod 4 < 4" "a mod 16 < 16" "a mod 64 < 64"
  using assms by (simp_all add: div_less_iff_less_mult)

lemma digits_bound: "x < m \<Longrightarrow> y < n \<Longrightarrow> x * n + y < m * n" for x y m n :: nat
  using mult_le_mono1 [of "Suc x" m n] by simp

lemma sextet_bounds:
  fixes a b c :: nat
  assumes "a < 256" and "b < 256" and "c < 256"
  shows "a div 4 < 64" "a mod 4 * 16 + b div 16 < 64" "b mod 16 * 4 + c div 64 < 64" "c mod 64 < 64"
    "a mod 4 * 16 < 64" "b mod 16 * 4 < 64"
proof -
  show 1: "a mod 4 * 16 + b div 16 < 64"
    using digits_bound [OF quotient_small(4) [OF assms(1)] quotient_small(2) [OF assms(2)]] by linarith
  show 2: "b mod 16 * 4 + c div 64 < 64"
    using digits_bound [OF quotient_small(5) [OF assms(2)] quotient_small(3) [OF assms(3)]] by linarith
  from 1 2 show "a mod 4 * 16 < 64" "b mod 16 * 4 < 64" by linarith+
qed (simp_all add: quotient_small assms)

lemma sextet_inverse:
  fixes a b c :: nat
  assumes "a < 256" and "b < 256" and "c < 256"
  shows "a div 4 * 4 + (a mod 4 * 16 + b div 16) div 16 = a"
    "(a mod 4 * 16 + b div 16) mod 16 * 16 + (b mod 16 * 4 + c div 64) div 4 = b"
    "(b mod 16 * 4 + c div 64) mod 4 * 64 + c mod 64 = c"
    "a div 4 * 4 + (a mod 4 * 16) div 16 = a"
    "(a mod 4 * 16 + b div 16) mod 16 * 16 + (b mod 16 * 4) div 4 = b"
  using digit_parts [of "b div 16" 16 "a mod 4"] digit_parts [of "c div 64" 4 "b mod 16"]
    quotient_small [OF assms(2)] quotient_small [OF assms(3)]
  by (simp_all only: div_mult_mod_eq) simp_all

lemma atob_btoa: "is_bytes bs \<Longrightarrow> atob (btoa bs) = Some bs"
proof (induction bs rule: btoa.induct)
  case 1
  then show ?case by simp
next
  case (2 a)
  then show ?case
    using sextet_bounds [of a 0 0] sextet_inverse [of a 0 0] by (simp add: is_bytes_def)
next
  case (3 a b)
  then show ?case
    using sextet_bounds [of a b 0] sextet_inverse [of a b 0] by (simp add: is_bytes_def)
next
  case (4 a b c r)
  then show ?case
    using sextet_bounds [of a b c] sextet_inverse [of a b c] by (simp add: is_bytes_def)
qed

lemma hex_val_nth: "i < 16 \<Longrightarrow> hex_val (hex_alphabet ! i) = Some i"
  using index_nth [OF hex_alphabet_facts(1)] by (simp add: hex_val_def hex_alphabet_facts)

lemma hex_pairs_toHex: "is_bytes bs \<Longrightarrow> hex_pairs (toHex bs) = bs"
proof (induction bs)
  case (Cons b bs)
  then have "b div 16 < 16" "hex_pairs (toHex bs) = bs"
    by (simp_all add: is_bytes_def div_less_iff_less_mult)
  then show ?case by (simp add: toHex_def parse_pair_def hex_val_nth)
qed (simp add: toHex_def)

lemma length_toHex: "length (toHex bs) = 2 * length bs"
  by (induction bs) (simp_all add: toHex_def)

lemma fromHex_toHex: "is_bytes bs \<Longrightarrow> bs \<noteq> [] \<Longrightarrow> fromHex (toHex bs) = Some bs"
  by (cases bs) (simp_all add: fromHex_def hex_pairs_toHex length_toHex)

lemma toHex_inject: "is_bytes a \<Longrightarrow> is_bytes b \<Longrightarrow> toHex a = toHex b \<longleftrightarrow> a = b"
  by (metis hex_pairs_toHex)

lemma toHex_no_colon: "is_bytes bs \<Longrightarrow> CHR '':'' \<notin> set (toHex bs)"
proof (induction bs)
  case (Cons b bs)
  then have "b < 256" and IH: "CHR '':'' \<notin> set (toHex bs)" by (simp_all add: is_bytes_def)
  then have "hex_alphabet ! (b div 16) \<in> set hex_alphabet" "hex_alphabet ! (b mod 16) \<in> set hex_alphabet"
    by (simp_all add: hex_alphabet_facts)
  with IH hex_alphabet_facts(3) show ?case by (auto simp: toHex_def)
qed (simp add: toHex_def)

section \<open>Encryption\<close>

lemma open_sealed:
  assumes "crypto_ok c" and "is_bytes salt" and "length salt = 16" and "is_bytes iv" and "length iv = 12"
    and "seal c (kdf c 100000 pw salt) iv d = Inr e"
  shows "decrypt c (btoa (salt @ iv @ e)) pw = Inr d"
proof -
  have u: "is_bytes e" "unseal c (kdf c 100000 pw salt) iv e = Inr d"
    using assms(1,6) by (auto simp: crypto_ok_def)
  then have "atob (btoa (salt @ iv @ e)) = Some (salt @ iv @ e)"
    using assms(2,4) by (simp add: atob_btoa is_bytes_def)
  then show ?thesis using assms(3,5) u(2) by (simp add: decrypt_def Let_def)
qed

text \<open>
  C7: what \<open>encrypt\<close> returns, \<open>decrypt\<close> opens with the same password: the salt
  and the iv are found again in the text and the data come back. Web Crypto is only assumed to
  decrypt what it encrypted under the same key and iv.
\<close>

theorem decrypt_encrypt:
  assumes "crypto_ok c" and "is_bytes salt" and "length salt = 16" and "is_bytes iv" and "length iv = 12"
    and "encrypt c salt iv d pw = Inr ct"
  shows "decrypt c ct pw = Inr d"
  using assms open_sealed by (auto simp: encrypt_def split: sum.splits)

text \<open>A stand-in for Web Crypto: the key is the first byte of the password, the cipher xor.\<close>

definition toy_crypto :: web_crypto where
  "toy_crypto =
     \<lparr>kdf = (\<lambda>n pw salt. replicate 32 ((case pw of [] \<Rightarrow> 0 | b # _ \<Rightarrow> b) mod 256)),
      seal = (\<lambda>k iv d. if is_bytes d then Inr d else Inl (Error ''OperationError'')),
      unseal = (\<lambda>k iv d. Inr d)\<rparr>"

lemma toy_crypto_ok: "crypto_ok toy_crypto"
  by (auto simp: crypto_ok_def toy_crypto_def is_bytes_def list_all_iff split: if_splits)

theorem decrypt_encrypt_witness:
  "\<exists>ct. encrypt toy_crypto (replicate 16 7) (replicate 12 9) [1, 2, 3] [65] = Inr ct \<and>
     decrypt toy_crypto ct [65] = Inr [1, 2, 3]"
proof -
  obtain ct where t: "encrypt toy_crypto (replicate 16 7) (replicate 12 9) [1, 2, 3] [65] = Inr ct"
    by (simp add: encrypt_def toy_crypto_def is_bytes_def)
  have "decrypt toy_crypto ct [65] = Inr [1, 2, 3]"
    by (rule decrypt_encrypt [OF toy_crypto_ok _ _ _ _ t]) (simp_all add: is_bytes_def list_all_iff)
  with t show ?thesis by blast
qed

section \<open>Passwords\<close>

lemma xor_eq_zero: "x XOR y = 0 \<longleftrightarrow> x = y" for x y :: nat
  by (auto simp: bit_eq_iff bit_simps)

lemma timing_safe_iff:
  assumes "length a = length b"
  shows "timing_safe_diff a b = 0 \<longleftrightarrow> a = b"
proof -
  have "length a = length b \<Longrightarrow>
      (foldl (\<lambda>d (x, y). d OR (of_char x XOR of_char y)) n (zip a b) = (0::nat)) \<longleftrightarrow> n = 0 \<and> a = b" for n
    by (induction a b arbitrary: n rule: list_induct2) (auto simp: or_eq_0_iff xor_eq_zero)
  with assms show ?thesis by (simp add: timing_safe_diff_def)
qed

lemma split_encoded:
  assumes "is_bytes salt" and "is_bytes key"
  shows "split_on (CHR '':'') (''pbkdf2:'' @ toHex salt @ '':'' @ toHex key) = [''pbkdf2'', toHex salt, toHex key]"
proof -
  have "split_on (CHR '':'') (''pbkdf2'' @ CHR '':'' # toHex salt @ CHR '':'' # toHex key) =
      [''pbkdf2'', toHex salt, toHex key]"
    using assms
    by (subst split_on_append, simp, subst split_on_append, simp add: toHex_no_colon)
      (simp add: split_on_free toHex_no_colon)
  then show ?thesis by simp
qed

lemma deriveKey_salt:
  "is_bytes salt \<Longrightarrow> salt \<noteq> [] \<Longrightarrow> deriveKey c rnd pw (Some (toHex salt)) =
     Some (''pbkdf2:'' @ toHex salt @ '':'' @ toHex (kdf c 200000 pw salt))"
  using length_toHex [of salt] fromHex_toHex [of salt] by (cases "toHex salt") (simp_all add: deriveKey_def)

text \<open>
  C8: after a password is set, verification accepts exactly the passwords from which the key
  derivation makes the same key with the stored salt; in particular it accepts the password that
  was set. The salt and the key survive their way through the stored text.
\<close>

theorem verify_after_set:
  assumes "crypto_ok c" and "is_bytes salt" and "length salt = 16"
  shows "verifyPassword c rnd q (setPassword c salt p s) \<longleftrightarrow> kdf c 200000 q salt = kdf c 200000 p salt"
proof -
  have k: "is_bytes (kdf c 200000 x salt)" "length (kdf c 200000 x salt) = 32" for x
    using assms(1) by (auto simp: crypto_ok_def)
  have ne: "salt \<noteq> []" using assms(3) by auto
  have "hash_item (setPassword c salt p s) = Some (''pbkdf2:'' @ toHex salt @ '':'' @ toHex (kdf c 200000 p salt))"
    by (simp add: setPassword_def deriveKey_def saveSettings_def Let_def)
  then have "verifyPassword c rnd q (setPassword c salt p s) \<longleftrightarrow>
      timing_safe_diff (toHex (kdf c 200000 p salt)) (toHex (kdf c 200000 q salt)) = 0"
    unfolding verifyPassword_def
    by (simp add: startsWith_def deriveKey_salt [OF assms(2) ne] k length_toHex split_encoded [OF assms(2) k(1), simplified])
  also have "\<dots> \<longleftrightarrow> toHex (kdf c 200000 p salt) = toHex (kdf c 200000 q salt)"
    by (rule timing_safe_iff) (simp add: length_toHex k)
  also have "\<dots> \<longleftrightarrow> kdf c 200000 q salt = kdf c 200000 p salt" by (auto simp: toHex_inject k)
  finally show ?thesis .
qed

theorem verify_after_set_witness:
  "verifyPassword toy_crypto [] [65] (setPassword toy_crypto (replicate 16 7) [65] (new_security Absent None)) \<and>
   \<not> verifyPassword toy_crypto [] [66] (setPassword toy_crypto (replicate 16 7) [65] (new_security Absent None))"
  using verify_after_set [OF toy_crypto_ok, of "replicate 16 7" "[]" _ "[65]"]
  by (simp add: is_bytes_def list_all_iff toy_crypto_def)

section \<open>The lock\<close>

text \<open>The password is in memory exactly while the wallet is unlocked.\<close>

definition sec_inv :: "sec_state \<Rightarrow> bool" where
  "sec_inv s \<longleftrightarrow> (isLocked s \<longleftrightarrow> password s = None)"

datatype sec_op =
    SetPassword bytes bytes
  | Unlock bytes int bytes
  | Lock
  | Ask int
  | ChangePassword bytes bytes bytes bytes
  | RemovePassword bytes bytes
  | Activity int
  | SaveSettings SecuritySettings

fun sec_step :: "web_crypto \<Rightarrow> sec_op \<Rightarrow> sec_state \<Rightarrow> sec_state" where
  "sec_step c (SetPassword rnd pw) s = setPassword c rnd pw s"
| "sec_step c (Unlock rnd now pw) s = snd (unlock c rnd now pw s)"
| "sec_step c Lock s = lock s"
| "sec_step c (Ask now) s = snd (isWalletLocked now s)"
| "sec_step c (ChangePassword rnd rnd' old new) s = snd (changePassword c rnd rnd' old new s)"
| "sec_step c (RemovePassword rnd pw) s = snd (removePassword c rnd pw s)"
| "sec_step c (Activity now) s = updateActivity now s"
| "sec_step c (SaveSettings st) s = saveSettings st s"

lemma setPassword_fields [simp]:
  "password (setPassword c rnd pw s) = password s" "isLocked (setPassword c rnd pw s) = isLocked s"
  by (simp_all add: setPassword_def saveSettings_def Let_def split: option.split)

lemma sec_step_inv: "sec_inv s \<Longrightarrow> sec_inv (sec_step c op s)"
  by (cases op) (auto simp: sec_inv_def unlock_def lock_def isWalletLocked_def changePassword_def
      removePassword_def updateActivity_def saveSettings_def Let_def)

text \<open>
  C9: the lock. In every run the password is in memory only while the wallet is unlocked; a
  locked wallet becomes unlocked only by \<open>unlock\<close> with a password that verifies; and when
  \<open>isWalletLocked\<close> answers no, the last activity is not older than a positive timeout.
\<close>

theorem lock_is_sound:
  assumes "sec_inv s"
  shows "sec_inv (fold (sec_step c) ops s) \<and>
    (isLocked s \<and> \<not> isLocked (sec_step c op s) \<longrightarrow>
       (\<exists>rnd now pw. op = Unlock rnd now pw \<and> verifyPassword c rnd pw s)) \<and>
    (fst (isWalletLocked now s) = False \<and> sessionStartTime s > 0 \<and> sessionTimeout (getSettings s) = Some t \<and> 0 < t \<longrightarrow>
       of_int (now - sessionStartTime s) \<le> t * 60 * 1000)"
proof (intro conjI impI)
  show "sec_inv (fold (sec_step c) ops s)"
    using assms by (induction ops arbitrary: s) (auto simp: sec_step_inv)
next
  assume "isLocked s \<and> \<not> isLocked (sec_step c op s)"
  then show "\<exists>rnd now pw. op = Unlock rnd now pw \<and> verifyPassword c rnd pw s"
    by (cases op) (auto simp: unlock_def lock_def isWalletLocked_def changePassword_def removePassword_def
        updateActivity_def saveSettings_def Let_def split: if_splits)
next
  assume "fst (isWalletLocked now s) = False \<and> sessionStartTime s > 0 \<and> sessionTimeout (getSettings s) = Some t \<and> 0 < t"
  then show "of_int (now - sessionStartTime s) \<le> t * 60 * 1000"
    by (auto simp: isWalletLocked_def positive_def Let_def split: if_splits)
qed

theorem lock_is_sound_witness:
  "sec_inv (fold (sec_step toy_crypto) [SetPassword (replicate 16 7) [65], Unlock [] 5 [65], Ask 6] (new_security Absent None))"
proof -
  have "sec_inv (new_security Absent None)" by (simp add: sec_inv_def new_security_def)
  from lock_is_sound [OF this] show ?thesis by blast
qed

text \<open>
  Settings without a timeout, such as those that the session manager stores under the same key,
  leave the wallet unlocked for good.
\<close>

lemma no_timeout_never_locks:
  "sessionTimeout (getSettings s) = None \<Longrightarrow> \<not> isLocked s \<Longrightarrow> isWalletLocked now s = (False, s)"
  by (simp add: isWalletLocked_def positive_def Let_def)

end
