(* ===== verification/BackupManager.thy ===== *)
theory BackupManager
  imports JsStore Security
begin

text \<open>
  The list of backups (services/backupManager.ts): its records in a \<open>Map\<close> that is written through
  to storage, and the encryption of texts under a password, in a layout of its own: version, salt,
  iv and data in base64, separated by colons. Web Crypto may be missing (\<open>None\<close>).
\<close>

section \<open>The list\<close>

datatype backup_type = Shamir | Social | Cloud | LocalBackup

record Backup =
  ba_id :: string
  ba_type :: backup_type
  ba_name :: string
  ba_createdDate :: int
  ba_lastVerified :: "int option"
  ba_shares :: "int option"
  ba_threshold :: "int option"
  ba_encrypted :: bool
  ba_synced :: bool

record BackupVerification =
  bv_backupId :: string
  bv_success :: bool
  bv_timestamp :: int

record BackupOptions =
  op_shares :: "int option"
  op_threshold :: "int option"
  op_encryptionPassword :: "string option"

record bm_state =
  backups :: "(string, Backup) jsmap"
  backups_item :: "Backup list item"

definition loadBackups :: "bm_state \<Rightarrow> bm_state" where
  "loadBackups s = (case backups_item s of Json bs \<Rightarrow> s\<lparr>backups := load_values ba_id bs\<rparr> | _ \<Rightarrow> s)"

definition new_BackupManager :: "Backup list item \<Rightarrow> bm_state" where
  "new_BackupManager i = loadBackups \<lparr>backups = [], backups_item = i\<rparr>"

definition saveBackups :: "bm_state \<Rightarrow> bm_state" where
  "saveBackups s = s\<lparr>backups_item := Json (map snd (backups s))\<rparr>"

definition getAllBackups :: "bm_state \<Rightarrow> Backup list" where
  "getAllBackups s = map snd (backups s)"

definition backup_id :: "clock \<Rightarrow> string" where
  "backup_id clk = ''backup_'' @ show_int (clk 0)"

definition createBackup ::
    "clock \<Rightarrow> backup_type \<Rightarrow> string \<Rightarrow> BackupOptions option \<Rightarrow> bm_state \<Rightarrow> Backup \<times> bm_state" where
  "createBackup clk ty nm opts s =
     (let b = \<lparr>ba_id = backup_id clk, ba_type = ty, ba_name = nm, ba_createdDate = clk 1, ba_lastVerified = None,
            ba_shares = Option.bind opts op_shares, ba_threshold = Option.bind opts op_threshold,
            ba_encrypted = truthy_string (Option.bind opts op_encryptionPassword), ba_synced = False\<rparr>
      in (b, saveBackups (s\<lparr>backups := AList.update (backup_id clk) b (backups s)\<rparr>)))"

text \<open>\<open>const backup = backups.get(id); if (!backup) throw ...; change it; set; save\<close>\<close>

definition change_backup :: "string \<Rightarrow> (Backup \<Rightarrow> Backup) \<Rightarrow> 'a \<Rightarrow> (bm_state, 'a) eff" where
  "change_backup i f r s =
     (case map_of (backups s) i of
        None \<Rightarrow> (Inl (Error ''Backup not found''), s)
      | Some b \<Rightarrow> (Inr r, saveBackups (s\<lparr>backups := AList.update i (f b) (backups s)\<rparr>)))"

definition verifyBackup :: "clock \<Rightarrow> string \<Rightarrow> (bm_state, BackupVerification) eff" where
  "verifyBackup clk i =
     change_backup i (\<lambda>b. b\<lparr>ba_lastVerified := Some (clk 0)\<rparr>)
       \<lparr>bv_backupId = i, bv_success = True, bv_timestamp = clk 1\<rparr>"

definition syncToCloud :: "string \<Rightarrow> (bm_state, bool) eff" where
  "syncToCloud i = change_backup i (\<lambda>b. b\<lparr>ba_synced := True\<rparr>) True"

definition deleteBackup :: "string \<Rightarrow> bm_state \<Rightarrow> bool \<times> bm_state" where
  "deleteBackup i s =
     (if map_of (backups s) i = None then (False, s)
      else (True, saveBackups (s\<lparr>backups := AList.delete i (backups s)\<rparr>)))"

text \<open>The exported file is the JSON text of the record.\<close>

definition exportBackup :: "string \<Rightarrow> bm_state \<Rightarrow> js_error + Backup" where
  "exportBackup i s =
     (case map_of (backups s) i of None \<Rightarrow> Inl (Error ''Backup not found'') | Some b \<Rightarrow> Inr b)"

datatype bm_op = Create clock backup_type string "BackupOptions option" | Verify clock string | Sync string | Remove string

fun bm_step :: "bm_op \<Rightarrow> bm_state \<Rightarrow> bm_state" where
  "bm_step (Create clk ty nm opts) s = snd (createBackup clk ty nm opts s)"
| "bm_step (Verify clk i) s = snd (verifyBackup clk i s)"
| "bm_step (Sync i) s = snd (syncToCloud i s)"
| "bm_step (Remove i) s = snd (deleteBackup i s)"

definition bm_inv :: "bm_state \<Rightarrow> bool" where
  "bm_inv s \<longleftrightarrow> keyed ba_id (backups s) \<and> in_sync (backups s) (backups_item s)"

definition bm_reload :: "bm_state \<Rightarrow> bm_state" where
  "bm_reload s = new_BackupManager (backups_item s)"

lemma change_backup_inv:
  "bm_inv s \<Longrightarrow> (\<And>b. ba_id (f b) = ba_id b) \<Longrightarrow> bm_inv (snd (change_backup i f r s))"
  by (auto simp: change_backup_def bm_inv_def saveBackups_def split: option.splits intro!: keyed_set dest: keyed_get)

interpretation bm: write_through bm_step bm_reload bm_inv
proof unfold_locales
  show "bm_inv (bm_step op s)" if "bm_inv s" for op s
    using that
    by (cases op) (auto simp: verifyBackup_def syncToCloud_def intro: change_backup_inv,
      auto simp: createBackup_def deleteBackup_def bm_inv_def saveBackups_def Let_def intro!: keyed_set keyed_delete)
  show "bm_reload s = s" if "bm_inv s" for s
    using that
    by (auto simp: bm_inv_def bm_reload_def new_BackupManager_def loadBackups_def in_sync_def load_values_inverse)
qed

text \<open>The identifier is the clock alone: a second backup in the same millisecond replaces the first.\<close>

lemma same_time_replaces:
  assumes "clk 0 = clk' 0"
  shows "map_of (backups (snd (createBackup clk' ty' nm' opts' (snd (createBackup clk ty nm opts s))))) (backup_id clk) =
    Some (fst (createBackup clk' ty' nm' opts' s))"
  using assms by (simp add: createBackup_def backup_id_def saveBackups_def Let_def)

text \<open>Verification looks at nothing: every listed backup is reported as good.\<close>

lemma verify_always_succeeds:
  "map_of (backups s) i \<noteq> None \<Longrightarrow> \<exists>v. fst (verifyBackup clk i s) = Inr v \<and> bv_success v"
  by (auto simp: verifyBackup_def change_backup_def)

section \<open>Encryption of texts\<close>

definition no_crypto :: js_error where
  "no_crypto = Error ''WebCrypto is not available.''"

definition toBase64 :: "bytes \<Rightarrow> string" where
  "toBase64 bs = btoa bs"

definition fromBase64 :: "string \<Rightarrow> js_error + bytes" where
  "fromBase64 t = (case atob t of None \<Rightarrow> Inl (Error ''InvalidCharacterError'') | Some bs \<Rightarrow> Inr bs)"

definition deriveKey :: "web_crypto \<Rightarrow> bytes \<Rightarrow> bytes \<Rightarrow> bytes" where
  "deriveKey c pw salt = kdf c 100000 pw salt"

definition encryptData :: "web_crypto option \<Rightarrow> bytes \<Rightarrow> bytes \<Rightarrow> bytes \<Rightarrow> bytes \<Rightarrow> js_error + string" where
  "encryptData wc salt iv d pw =
     (case wc of
        None \<Rightarrow> Inl no_crypto
      | Some c \<Rightarrow>
          (case seal c (BackupManager.deriveKey c pw salt) iv d of
             Inl e \<Rightarrow> Inl e
           | Inr e \<Rightarrow> Inr (''v1:'' @ toBase64 salt @ '':'' @ toBase64 iv @ '':'' @ toBase64 e)))"

definition invalid_data :: js_error where
  "invalid_data = Error ''Invalid encrypted data''"

definition decrypt_parts :: "web_crypto \<Rightarrow> string \<Rightarrow> string \<Rightarrow> string \<Rightarrow> bytes \<Rightarrow> js_error + bytes" where
  "decrypt_parts c saltB64 ivB64 dataB64 pw =
     (case fromBase64 saltB64 of Inl e \<Rightarrow> Inl e | Inr salt \<Rightarrow>
       (case fromBase64 ivB64 of Inl e \<Rightarrow> Inl e | Inr iv \<Rightarrow>
         (case fromBase64 dataB64 of Inl e \<Rightarrow> Inl e | Inr d \<Rightarrow>
            unseal c (BackupManager.deriveKey c pw salt) iv d)))"

definition decryptData :: "web_crypto option \<Rightarrow> string \<Rightarrow> bytes \<Rightarrow> js_error + bytes" where
  "decryptData wc t pw =
     (case wc of
        None \<Rightarrow> Inl no_crypto
      | Some c \<Rightarrow>
          (case split_on (CHR '':'') t of
             version # saltB64 # ivB64 # dataB64 # _ \<Rightarrow>
               if version \<noteq> ''v1'' \<or> saltB64 = [] \<or> ivB64 = [] \<or> dataB64 = [] then Inl invalid_data
               else decrypt_parts c saltB64 ivB64 dataB64 pw
           | _ \<Rightarrow> Inl invalid_data))"

text \<open>AES-GCM appends a tag of 16 bytes, so a cipher text is never empty.\<close>

definition tagged :: "web_crypto \<Rightarrow> bool" where
  "tagged c \<longleftrightarrow> (\<forall>k iv d e. seal c k iv d = Inr e \<longrightarrow> length e = length d + 16)"

lemma b64_no_colon: "i < 64 \<Longrightarrow> CHR '':'' \<noteq> b64 i"
proof -
  assume "i < 64"
  then have "b64 i \<in> set b64_alphabet" using b64_in in_b64_def by blast
  moreover have "CHR '':'' \<notin> set b64_alphabet" by (simp add: b64_alphabet_def)
  ultimately show ?thesis by auto
qed

lemma btoa_no_colon: "is_bytes bs \<Longrightarrow> CHR '':'' \<notin> set (btoa bs)"
proof (induction bs rule: btoa.induct)
  case (2 a)
  then show ?case using sextet_bounds [of a 0 0] by (simp add: is_bytes_def b64_no_colon)
next
  case (3 a b)
  then show ?case using sextet_bounds [of a b 0] by (simp add: is_bytes_def b64_no_colon)
next
  case (4 a b c r)
  then show ?case using sextet_bounds [of a b c] by (simp add: is_bytes_def b64_no_colon)
qed simp

lemma btoa_empty: "btoa bs = [] \<longleftrightarrow> bs = []"
  by (cases bs rule: btoa.cases) auto

lemma fromBase64_toBase64: "is_bytes bs \<Longrightarrow> fromBase64 (toBase64 bs) = Inr bs"
  by (simp add: fromBase64_def toBase64_def atob_btoa)

lemma split_parts:
  assumes "is_bytes salt" and "is_bytes iv" and "is_bytes e"
  shows "split_on (CHR '':'') (''v1:'' @ toBase64 salt @ '':'' @ toBase64 iv @ '':'' @ toBase64 e) =
    [''v1'', toBase64 salt, toBase64 iv, toBase64 e]"
proof -
  have "split_on (CHR '':'') (''v1'' @ CHR '':'' # btoa salt @ CHR '':'' # btoa iv @ CHR '':'' # btoa e) =
      [''v1'', btoa salt, btoa iv, btoa e]"
    using assms
    by (subst split_on_append, simp, (subst split_on_append, simp add: btoa_no_colon)+)
      (simp add: split_on_free btoa_no_colon)
  then show ?thesis by (simp add: toBase64_def)
qed

text \<open>
  What the backup manager encrypts it decrypts with the same password: the four parts of the
  text are found again, none of them is taken for missing, and the data come back. Web Crypto is
  only assumed to open what it sealed under the same key and iv, with a tag.
\<close>

theorem backup_text_roundtrip:
  assumes "crypto_ok c" and "tagged c" and "is_bytes salt" and "length salt = 16" and "is_bytes iv" and "length iv = 12"
    and "encryptData (Some c) salt iv d pw = Inr t"
  shows "decryptData (Some c) t pw = Inr d"
proof -
  obtain e where e: "seal c (kdf c 100000 pw salt) iv d = Inr e"
      and t: "t = ''v1:'' @ toBase64 salt @ '':'' @ toBase64 iv @ '':'' @ toBase64 e"
    using assms(7) by (auto simp: encryptData_def BackupManager.deriveKey_def split: sum.splits)
  have u: "is_bytes e" "unseal c (kdf c 100000 pw salt) iv e = Inr d" using assms(1) e by (auto simp: crypto_ok_def)
  have "length e = length d + 16" using assms(2) e unfolding tagged_def by blast
  then have "e \<noteq> []" by auto
  with assms(4,6) have "toBase64 salt \<noteq> [] \<and> toBase64 iv \<noteq> [] \<and> toBase64 e \<noteq> []"
    unfolding toBase64_def btoa_empty by auto
  then show ?thesis
    using split_parts [OF assms(3,5) u(1)] u assms(3,5)
    unfolding t decryptData_def by (simp add: decrypt_parts_def fromBase64_toBase64 BackupManager.deriveKey_def)
qed

text \<open>A stand-in for Web Crypto whose cipher text ends in a tag.\<close>

definition tag_crypto :: web_crypto where
  "tag_crypto = toy_crypto\<lparr>seal := (\<lambda>k iv d. if is_bytes d then Inr (d @ replicate 16 0) else Inl (Error ''OperationError'')),
     unseal := (\<lambda>k iv e. Inr (take (length e - 16) e))\<rparr>"

lemma tag_crypto_ok: "crypto_ok tag_crypto" "tagged tag_crypto"
  by (auto simp: crypto_ok_def tagged_def tag_crypto_def toy_crypto_def is_bytes_def list_all_iff split: if_splits)

theorem backup_text_roundtrip_witness:
  "\<exists>t. encryptData (Some tag_crypto) (replicate 16 7) (replicate 12 9) [] [65] = Inr t \<and>
     decryptData (Some tag_crypto) t [65] = Inr []"
proof -
  obtain t where t: "encryptData (Some tag_crypto) (replicate 16 7) (replicate 12 9) [] [65] = Inr t"
    by (simp add: encryptData_def tag_crypto_def is_bytes_def)
  have "decryptData (Some tag_crypto) t [65] = Inr []"
    by (rule backup_text_roundtrip [OF tag_crypto_ok _ _ _ _ t]) (simp_all add: is_bytes_def list_all_iff)
  with t show ?thesis by blast
qed

end
