(* ===== verification/Json.thy ===== *)
theory Json
  imports JsStore
begin

text \<open>
  JSON values and the JavaScript expressions that the servers' routes apply to parsed data:
  property reads, optional chaining, truthiness and nullish defaults. \<open>None\<close> is
  \<open>undefined\<close>.
\<close>

datatype json =
    JNull
  | JBool bool
  | JNum jsnum
  | JStr string
  | JArr "json list"
  | JObj "(string \<times> json) list"

type_synonym jval = "json option"

fun json_truthy :: "jval \<Rightarrow> bool" where
  "json_truthy None = False"
| "json_truthy (Some JNull) = False"
| "json_truthy (Some (JBool b)) = b"
| "json_truthy (Some (JNum x)) = (x \<noteq> 0)"
| "json_truthy (Some (JStr s)) = (s \<noteq> [])"
| "json_truthy (Some (JArr xs)) = True"
| "json_truthy (Some (JObj fs)) = True"

text \<open>\<open>v.k\<close>: reading a property of \<open>undefined\<close> or \<open>null\<close> throws.\<close>

fun property :: "string \<Rightarrow> jval \<Rightarrow> string + jval" where
  "property k None = Inl ''Cannot read properties of undefined''"
| "property k (Some JNull) = Inl ''Cannot read properties of null''"
| "property k (Some (JObj fs)) = Inr (map_of fs k)"
| "property k (Some _) = Inr None"

text \<open>\<open>v?.k\<close>\<close>

fun opt_property :: "string \<Rightarrow> jval \<Rightarrow> jval" where
  "opt_property k (Some (JObj fs)) = map_of fs k"
| "opt_property k _ = None"

text \<open>\<open>v ?? d\<close>\<close>

fun nullish :: "jval \<Rightarrow> json \<Rightarrow> json" where
  "nullish None d = d"
| "nullish (Some JNull) d = d"
| "nullish (Some v) d = v"

text \<open>An object literal; fields that are \<open>undefined\<close> are not printed.\<close>

definition object :: "(string \<times> jval) list \<Rightarrow> json" where
  "object fs = JObj [(k, v). (k, Some v) \<leftarrow> fs]"

lemma property_opt: "property k v = Inr x \<Longrightarrow> opt_property k v = x"
  by (cases "(k, v)" rule: property.cases) auto

lemma property_null_iff: "(\<exists>e. property k v = Inl e) \<longleftrightarrow> v = None \<or> v = Some JNull"
  by (cases "(k, v)" rule: property.cases) auto

end
