(* ===== verification/Contracts.thy ===== *)
theory Contracts
  imports Json
begin

text \<open>
  Contract interfaces: the reader of ABI descriptions (services/abiParser.ts) and the book of
  contracts (services/contractInteraction.ts). Encoding, decoding and calling contracts only
  validate and throw, and the model does the same.
\<close>

section \<open>The reader of ABI descriptions\<close>

record ABIParameter =
  ap_name :: string
  ap_type :: string

record ABIFunction =
  af_name :: string
  af_inputs :: "ABIParameter list"

record ABIEvent =
  ae_name :: string
  ae_inputs :: "ABIParameter list"

definition InvalidABI :: js_error where
  "InvalidABI = Error ''Invalid ABI JSON''"

text \<open>Items are sorted by their field \<open>type\<close>; the fields of an item are not checked.\<close>

definition is_function_item :: "jval \<Rightarrow> bool" where
  "is_function_item ty \<longleftrightarrow> ty = Some (JStr ''function'') \<or> ty = Some (JStr ''constructor'')"

definition is_event_item :: "jval \<Rightarrow> bool" where
  "is_event_item ty \<longleftrightarrow> ty = Some (JStr ''event'')"

fun sort_items :: "json list \<Rightarrow> json list \<times> json list \<Rightarrow> string + json list \<times> json list" where
  "sort_items [] acc = Inr acc"
| "sort_items (item # rest) (functions, events) =
     (case property ''type'' (Some item) of
        Inl e \<Rightarrow> Inl e
      | Inr ty \<Rightarrow>
          sort_items rest
            (if is_function_item ty then (functions @ [item], events)
             else if is_event_item ty then (functions, events @ [item])
             else (functions, events)))"

text \<open>\<open>None\<close> is a text that \<open>JSON.parse\<close> refuses.\<close>

definition parseABI :: "json option \<Rightarrow> js_error + json list \<times> json list" where
  "parseABI parsed =
     (case parsed of
        Some (JArr items) \<Rightarrow> (case sort_items items ([], []) of Inl _ \<Rightarrow> Inl InvalidABI | Inr r \<Rightarrow> Inr r)
      | _ \<Rightarrow> Inl InvalidABI)"

definition generateFunctionSignature :: "ABIFunction \<Rightarrow> string" where
  "generateFunctionSignature func = af_name func @ ''('' @ join_with '','' (map ap_type (af_inputs func)) @ '')''"

definition generateEventSignature :: "ABIEvent \<Rightarrow> string" where
  "generateEventSignature event = ae_name event @ ''('' @ join_with '','' (map ap_type (ae_inputs event)) @ '')''"

datatype base_type = TAddress | TUint | TInt | TBool | TString | TBytes | TArray | TTuple

definition getParameterType :: "string \<Rightarrow> base_type" where
  "getParameterType ty =
     (if startsWith ty ''address'' then TAddress
      else if startsWith ty ''uint'' then TUint
      else if startsWith ty ''int'' then TInt
      else if ty = ''bool'' then TBool
      else if ty = ''string'' then TString
      else if startsWith ty ''bytes'' then TBytes
      else if suffix ''[]'' ty then TArray
      else if startsWith ty ''tuple'' then TTuple
      else TBytes)"

definition hex_digit_char :: "char \<Rightarrow> bool" where
  "hex_digit_char c \<longleftrightarrow> is_digit c \<or> (97 \<le> (of_char c :: nat) \<and> (of_char c :: nat) \<le> 102) \<or> (65 \<le> (of_char c :: nat) \<and> (of_char c :: nat) \<le> 70)"

definition is_hex_address :: "string \<Rightarrow> bool" where
  "is_hex_address a \<longleftrightarrow> startsWith a ''0x'' \<and> length a = 42 \<and> list_all hex_digit_char (drop 2 a)"

text \<open>\<open>numeric v\<close>: \<open>Number(v)\<close> is not NaN.\<close>

definition validateParameterValue :: "(jval \<Rightarrow> bool) \<Rightarrow> string \<Rightarrow> jval \<Rightarrow> bool" where
  "validateParameterValue numeric ty v =
     (case getParameterType ty of
        TAddress \<Rightarrow> (case v of Some (JStr a) \<Rightarrow> is_hex_address a | _ \<Rightarrow> False)
      | TUint \<Rightarrow> numeric v
      | TInt \<Rightarrow> numeric v
      | TBool \<Rightarrow> v = Some (JBool True) \<or> v = Some (JBool False) \<or> v = Some (JStr ''true'') \<or> v = Some (JStr ''false'')
      | TString \<Rightarrow> (case v of Some (JStr _) \<Rightarrow> True | _ \<Rightarrow> False)
      | TArray \<Rightarrow> (case v of Some (JArr _) \<Rightarrow> True | _ \<Rightarrow> False)
      | _ \<Rightarrow> True)"

text \<open>The first parameter whose value is not valid.\<close>

fun first_invalid :: "(jval \<Rightarrow> bool) \<Rightarrow> ABIParameter list \<Rightarrow> jval list \<Rightarrow> ABIParameter option" where
  "first_invalid numeric (p # ps) (v # vs) =
     (if \<not> validateParameterValue numeric (ap_type p) v then Some p else first_invalid numeric ps vs)"
| "first_invalid numeric _ _ = None"

definition encodeParameters :: "(jval \<Rightarrow> bool) \<Rightarrow> ABIFunction \<Rightarrow> jval list \<Rightarrow> js_error + string" where
  "encodeParameters numeric func vs =
     (if length vs \<noteq> length (af_inputs func) then Inl (Error ''Parameter count mismatch'')
      else case first_invalid numeric (af_inputs func) vs of
        Some p \<Rightarrow> Inl (Error (''Invalid value for parameter '' @ ap_name p))
      | None \<Rightarrow> Inl (Error ''ABI encoding requires a real ABI encoder (e.g., ethers.js).''))"

definition decodeParameters :: "ABIParameter list \<Rightarrow> string \<Rightarrow> js_error + json list" where
  "decodeParameters outputs data =
     (if data = [] then Inl (Error ''No data to decode'')
      else Inl (Error ''ABI decoding requires a real ABI decoder (e.g., ethers.js).''))"

text \<open>
  \<open>bigint\<close> is \<open>BigInt(v).toString()\<close>, \<open>print\<close> is \<open>String(v)\<close> and \<open>stringify\<close> is \<open>JSON.stringify(v)\<close>; only
  strings have \<open>toLowerCase\<close>.
\<close>

definition formatParameterValue ::
    "(json \<Rightarrow> js_error + string) \<Rightarrow> (json \<Rightarrow> string) \<Rightarrow> (json \<Rightarrow> string) \<Rightarrow> string \<Rightarrow> json \<Rightarrow> js_error + string" where
  "formatParameterValue bigint print stringify ty v =
     (case getParameterType ty of
        TUint \<Rightarrow> bigint v
      | TInt \<Rightarrow> bigint v
      | TAddress \<Rightarrow> (case v of JStr a \<Rightarrow> Inr (toLowerCase a) | _ \<Rightarrow> Inl (Error ''value.toLowerCase is not a function''))
      | TBool \<Rightarrow> Inr (print v)
      | TArray \<Rightarrow> Inr (stringify v)
      | _ \<Rightarrow> Inr (print v))"

text \<open>Every function, constructor and event of the description is found, in order, and nothing else.\<close>

lemma sort_items_filter:
  "sort_items items (fs, es) = Inr (fs', es') \<Longrightarrow>
     fs' = fs @ filter (\<lambda>i. opt_property ''type'' (Some i) \<in> {Some (JStr ''function''), Some (JStr ''constructor'')}) items \<and>
     es' = es @ filter (\<lambda>i. opt_property ''type'' (Some i) = Some (JStr ''event'')) items"
proof (induction items arbitrary: fs es)
  case (Cons i items)
  obtain ty where ty: "property ''type'' (Some i) = Inr ty" using Cons.prems by (auto split: sum.splits)
  then have "opt_property ''type'' (Some i) = ty" by (rule property_opt)
  with Cons.prems ty show ?case by (auto simp: is_function_item_def is_event_item_def split: if_splits dest!: Cons.IH)
qed simp

lemma parseABI_iff:
  "(\<exists>r. parseABI p = Inr r) \<longleftrightarrow> (\<exists>items. p = Some (JArr items) \<and> JNull \<notin> set items)"
proof -
  have "(\<exists>r. sort_items items acc = Inr r) \<longleftrightarrow> JNull \<notin> set items" for items acc
  proof (induction items arbitrary: acc)
    case (Cons i items)
    obtain fs es where acc: "acc = (fs, es)" by force
    show ?case
    proof (cases "property ''type'' (Some i)")
      case (Inl e)
      then have "i = JNull" using property_null_iff by blast
      then show ?thesis by (simp add: acc)
    next
      case (Inr ty)
      then have "i \<noteq> JNull" by auto
      then show ?thesis using Inr Cons.IH by (simp add: acc)
    qed
  qed auto
  then show ?thesis by (auto simp: parseABI_def split: option.splits json.splits sum.splits) (metis Inl_Inr_False)+
qed

text \<open>
  Array types are classified by their elements: of the types of the language only arrays of
  booleans, strings and tuples count as arrays, so that an array of addresses is refused as an
  address and anything is accepted for an array of bytes.
\<close>

lemma array_misclassified:
  "getParameterType (''address'' @ s) = TAddress" "getParameterType (''uint256'' @ s) = TUint" "getParameterType (''bytes32'' @ s) = TBytes"
  by (simp_all add: getParameterType_def startsWith_def)

lemma address_array_refused: "\<not> validateParameterValue numeric ''address[]'' (Some (JArr vs))"
  by (simp add: validateParameterValue_def getParameterType_def startsWith_def)

text \<open>No value can be encoded: the call always throws, with the first parameter that is not valid.\<close>

lemma first_invalid_iff:
  "first_invalid numeric ps vs = None \<longleftrightarrow> (\<forall>i < min (length ps) (length vs). validateParameterValue numeric (ap_type (ps ! i)) (vs ! i))"
proof (induction numeric ps vs rule: first_invalid.induct)
  case (1 numeric p ps v vs)
  then show ?case by (auto simp: less_Suc_eq_0_disj)
qed auto

section \<open>The book of contracts\<close>

datatype mutability = View | Pure | Nonpayable | Payable

record ContractABI =
  ca_name :: string
  ca_type :: string
  ca_inputs :: "ABIParameter list"
  ca_outputs :: "ABIParameter list option"
  stateMutability :: "mutability option"

record SmartContract =
  sc_id :: string
  sc_address :: string
  sc_name :: string
  sc_abi :: "ContractABI list"
  sc_network :: string
  addedAt :: int

datatype call_status = CallPending | CallSuccess | CallFailed

record ContractCall =
  cc_id :: string
  cc_contractId :: string
  functionName :: string
  cc_params :: "json list"
  cc_timestamp :: int
  cc_status :: call_status

record ci_state =
  contracts :: "(string, SmartContract) jsmap"
  ci_calls :: "(string, ContractCall) jsmap"
  contracts_item :: "SmartContract list item"
  calls_item :: "ContractCall list item"

definition loadContracts :: "ci_state \<Rightarrow> ci_state" where
  "loadContracts s = s\<lparr>contracts := load_values sc_id (parse_item_or [] (contracts_item s))\<rparr>"

definition saveContracts :: "ci_state \<Rightarrow> ci_state" where
  "saveContracts s = s\<lparr>contracts_item := Json (map snd (contracts s))\<rparr>"

definition loadCalls :: "ci_state \<Rightarrow> ci_state" where
  "loadCalls s = s\<lparr>ci_calls := load_values cc_id (parse_item_or [] (calls_item s))\<rparr>"

definition new_ContractInteraction :: "SmartContract list item \<Rightarrow> ContractCall list item \<Rightarrow> ci_state" where
  "new_ContractInteraction c k = loadCalls (loadContracts \<lparr>contracts = [], ci_calls = [], contracts_item = c, calls_item = k\<rparr>)"

definition addContract :: "clock \<Rightarrow> string \<Rightarrow> string \<Rightarrow> string \<Rightarrow> ContractABI list \<Rightarrow> string \<Rightarrow> ci_state \<Rightarrow> SmartContract \<times> ci_state" where
  "addContract clk rnd address name abi network s =
     (let c = \<lparr>sc_id = ''contract_'' @ show_int (clk 0) @ ''_'' @ rnd, sc_address = address, sc_name = name, sc_abi = abi,
               sc_network = network, addedAt = clk 1\<rparr>
      in (c, saveContracts (s\<lparr>contracts := AList.update (sc_id c) c (contracts s)\<rparr>)))"

definition getContracts :: "ci_state \<Rightarrow> SmartContract list" where
  "getContracts s = sort_desc addedAt (map snd (contracts s))"

definition getContract :: "string \<Rightarrow> ci_state \<Rightarrow> SmartContract option" where
  "getContract i s = map_of (contracts s) i"

definition removeContract :: "string \<Rightarrow> ci_state \<Rightarrow> ci_state" where
  "removeContract i s = saveContracts (s\<lparr>contracts := AList.delete i (contracts s)\<rparr>)"

definition readContract :: "string \<Rightarrow> string \<Rightarrow> json list \<Rightarrow> (ci_state, ContractCall) eff" where
  "readContract i f ps = ethrow (Error ''Contract read requires a configured RPC endpoint.'')"

definition writeContract :: "string \<Rightarrow> string \<Rightarrow> json list \<Rightarrow> (ci_state, ContractCall) eff" where
  "writeContract i f ps = ethrow (Error ''Contract write requires a configured RPC endpoint.'')"

definition estimateGas :: "ContractABI \<Rightarrow> json list \<Rightarrow> nat" where
  "estimateGas func ps = 21000 + (if stateMutability func = Some Payable then 10000 else 0) + length ps * 5000"

definition getCalls :: "string option \<Rightarrow> ci_state \<Rightarrow> ContractCall list" where
  "getCalls i s =
     (let cs = map snd (ci_calls s)
      in sort_desc cc_timestamp (if truthy_string i then filter (\<lambda>c. Some (cc_contractId c) = i) cs else cs))"

datatype ci_op = AddContract clock string string string "ContractABI list" string | RemoveContract string

fun ci_step :: "ci_op \<Rightarrow> ci_state \<Rightarrow> ci_state" where
  "ci_step (AddContract clk rnd a n abi nw) s = snd (addContract clk rnd a n abi nw s)"
| "ci_step (RemoveContract i) s = removeContract i s"

definition ci_inv :: "ci_state \<Rightarrow> bool" where
  "ci_inv s \<longleftrightarrow> keyed sc_id (contracts s) \<and> in_sync (contracts s) (contracts_item s) \<and>
     ci_calls s = load_values cc_id (parse_item_or [] (calls_item s))"

definition ci_reload :: "ci_state \<Rightarrow> ci_state" where
  "ci_reload s = new_ContractInteraction (contracts_item s) (calls_item s)"

interpretation ci: write_through ci_step ci_reload ci_inv
proof unfold_locales
  fix op s
  assume s: "ci_inv s"
  show "ci_inv (ci_step op s)"
    using s by (cases op) (auto simp: ci_inv_def addContract_def removeContract_def saveContracts_def Let_def)
  show "ci_reload s = s"
    using s by (simp add: ci_inv_def ci_reload_def new_ContractInteraction_def loadContracts_def loadCalls_def in_sync_load)
qed

text \<open>A contract that was added is found, also after a reload, until it is removed; calls are never recorded.\<close>

lemma added_contract_found:
  assumes "ci_inv s"
  shows "getContract (sc_id (fst (addContract clk rnd a n abi nw s))) (ci_reload (snd (addContract clk rnd a n abi nw s))) =
    Some (fst (addContract clk rnd a n abi nw s))"
  using ci.reload_after_run [OF assms, of "[AddContract clk rnd a n abi nw]"]
  by (simp add: getContract_def addContract_def saveContracts_def Let_def)

lemma no_call_recorded: "ci_calls (fold ci_step ops s) = ci_calls s"
proof -
  have "ci_calls (ci_step op s) = ci_calls s" for op s
    by (cases op) (simp_all add: addContract_def removeContract_def saveContracts_def Let_def)
  then show ?thesis by (induction ops arbitrary: s) simp_all
qed

end
