(* ===== verification/NlpParser.thy ===== *)
theory NlpParser
  imports Prelude
begin

text \<open>
  The command parser of the assistant (services/nlpParser.ts): intents by keyword, entities by
  regular expressions, and the similarity of two texts by edit distance. Each regular expression
  is a function that returns what its leftmost match captures.
\<close>

datatype intent = SendIntent | CheckBalance | TransactionHistory | PriceIntent | HelpIntent | UnknownIntent

record entities =
  en_amount :: "jsnum option"
  en_currency :: "string option"
  en_recipient :: "string option"
  en_timeframe :: "string option"

record ParsedCommand =
  pc_intent :: intent
  pc_entities :: entities
  confidence :: jsnum

definition no_entities :: entities where
  "no_entities = \<lparr>en_amount = None, en_currency = None, en_recipient = None, en_timeframe = None\<rparr>"

section \<open>Patterns\<close>

definition is_upper :: "char \<Rightarrow> bool" where
  "is_upper c \<longleftrightarrow> 65 \<le> (of_char c :: nat) \<and> (of_char c :: nat) \<le> 90"

definition is_lower :: "char \<Rightarrow> bool" where
  "is_lower c \<longleftrightarrow> 97 \<le> (of_char c :: nat) \<and> (of_char c :: nat) \<le> 122"

definition is_alnum :: "char \<Rightarrow> bool" where
  "is_alnum c \<longleftrightarrow> is_upper c \<or> is_lower c \<or> is_digit c"

definition is_word :: "char \<Rightarrow> bool" where
  "is_word c \<longleftrightarrow> is_alnum c \<or> c = CHR ''_''"

text \<open>\<open>\d+(?:\.\d+)?\<close> at the start of a text: the integer part, the fraction and what follows.\<close>

definition number_at :: "string \<Rightarrow> (string \<times> string \<times> string) option" where
  "number_at s =
     (let ds = takeWhile is_digit s;
          r = dropWhile is_digit s
      in if ds = [] then None
         else case r of
           c # r' \<Rightarrow>
             if c = CHR ''.'' \<and> takeWhile is_digit r' \<noteq> [] then Some (ds, takeWhile is_digit r', dropWhile is_digit r')
             else Some (ds, [], r)
         | [] \<Rightarrow> Some (ds, [], r))"

definition decimal :: "string \<Rightarrow> string \<Rightarrow> jsnum" where
  "decimal ds fs = of_nat (read_nat ds) + of_nat (read_nat fs) / 10 ^ length fs"

text \<open>\<open>/(\d+(?:\.\d+)?)\s*(kc|kubercoin)?/i\<close> on a text in lower case: the amount and the unit.\<close>

definition amount_match :: "string \<Rightarrow> (jsnum \<times> string option) option" where
  "amount_match s =
     (case number_at (dropWhile (\<lambda>c. \<not> is_digit c) s) of
        None \<Rightarrow> None
      | Some (ds, fs, r) \<Rightarrow>
          let r = dropWhile is_space r
          in Some (decimal ds fs,
                   if startsWith r ''kc'' then Some ''KC'' else if startsWith r ''kubercoin'' then Some ''KUBERCOIN'' else None))"

text \<open>\<open>/to\s+([a-z0-9]+)/i\<close> on a text in lower case.\<close>

fun to_match :: "string \<Rightarrow> string option" where
  "to_match [] = None"
| "to_match (c # s) =
     (let r = drop 1 s
      in if c = CHR ''t'' \<and> s \<noteq> [] \<and> hd s = CHR ''o'' \<and> takeWhile is_space r \<noteq> [] \<and> takeWhile is_alnum (dropWhile is_space r) \<noteq> []
         then Some (takeWhile is_alnum (dropWhile is_space r))
         else to_match s)"

section \<open>Commands\<close>

definition matchesPattern :: "string \<Rightarrow> string list \<Rightarrow> bool" where
  "matchesPattern s ks = list_ex (\<lambda>k. str_includes s k) ks"

definition extractSendEntities :: "string \<Rightarrow> entities" where
  "extractSendEntities s =
     \<lparr>en_amount = map_option fst (amount_match s),
      en_currency = map_option (\<lambda>(_, u). case u of None \<Rightarrow> ''KC'' | Some x \<Rightarrow> x) (amount_match s),
      en_recipient = to_match s, en_timeframe = None\<rparr>"

definition extractTimeframe :: "string \<Rightarrow> string" where
  "extractTimeframe s =
     (if str_includes s ''today'' then ''today'' else if str_includes s ''yesterday'' then ''yesterday''
      else if str_includes s ''week'' then ''week'' else if str_includes s ''month'' then ''month''
      else if str_includes s ''year'' then ''year'' else ''all'')"

definition parse :: "string \<Rightarrow> ParsedCommand" where
  "parse input =
     (let s = trim (toLowerCase input)
      in if matchesPattern s [''send'', ''transfer'', ''pay'']
         then \<lparr>pc_intent = SendIntent, pc_entities = extractSendEntities s, confidence = 85 / 100\<rparr>
         else if matchesPattern s [''balance'', ''how much'', ''wallet'']
         then \<lparr>pc_intent = CheckBalance, pc_entities = no_entities, confidence = 90 / 100\<rparr>
         else if matchesPattern s [''transaction'', ''history'', ''recent'', ''activity'']
         then \<lparr>pc_intent = TransactionHistory, pc_entities = no_entities\<lparr>en_timeframe := Some (extractTimeframe s)\<rparr>,
               confidence = 85 / 100\<rparr>
         else if matchesPattern s [''price'', ''market'', ''value'', ''worth'']
         then \<lparr>pc_intent = PriceIntent, pc_entities = no_entities, confidence = 88 / 100\<rparr>
         else if matchesPattern s [''help'', ''what can'', ''how to'']
         then \<lparr>pc_intent = HelpIntent, pc_entities = no_entities, confidence = 95 / 100\<rparr>
         else \<lparr>pc_intent = UnknownIntent, pc_entities = no_entities, confidence = 0\<rparr>)"

text \<open>\<open>split(/\s+/)\<close> and the filter of empty tokens.\<close>

fun space_words :: "string \<Rightarrow> string \<Rightarrow> string list" where
  "space_words w [] = (if w = [] then [] else [w])"
| "space_words w (c # s) =
     (if is_space c then (if w = [] then space_words [] s else w # space_words [] s) else space_words (w @ [c]) s)"

definition tokenize :: "string \<Rightarrow> string list" where
  "tokenize input = space_words [] (filter (\<lambda>c. is_word c \<or> is_space c) (toLowerCase input))"

datatype entity_type = Number | Address | Name

text \<open>
  Repeated \<open>exec\<close>: \<open>m\<close> gives the length of a match at a position (zero for none), from the
  character before it and the text from it on.
\<close>

function exec_all :: "(char option \<Rightarrow> string \<Rightarrow> nat) \<Rightarrow> nat \<Rightarrow> char option \<Rightarrow> string \<Rightarrow> (string \<times> nat) list" where
  "exec_all m i prev [] = []"
| "exec_all m i prev (c # s) =
     (let n = m prev (c # s)
      in if n = 0 then exec_all m (Suc i) (Some c) s
         else (take n (c # s), i) # exec_all m (i + n) (Some ((c # s) ! (min n (length (c # s)) - 1))) (drop n (c # s)))"
  by pat_completeness auto
termination by (relation "measure (\<lambda>(m, i, prev, s). length s)") auto

definition number_length :: "char option \<Rightarrow> string \<Rightarrow> nat" where
  "number_length prev s =
     (case number_at s of None \<Rightarrow> 0 | Some (ds, fs, _) \<Rightarrow> length ds + (if fs = [] then 0 else Suc (length fs)))"

definition address_length :: "char option \<Rightarrow> string \<Rightarrow> nat" where
  "address_length prev s =
     (if startsWith s ''KC1'' \<and> 41 \<le> length s \<and> list_all is_alnum (take 38 (drop 3 s)) then 41 else 0)"

definition name_length :: "char option \<Rightarrow> string \<Rightarrow> nat" where
  "name_length prev s =
     (case s of
        [] \<Rightarrow> 0
      | c # r \<Rightarrow>
          let low = takeWhile is_lower r;
              next_ch = dropWhile is_lower r
          in if is_upper c \<and> (prev = None \<or> \<not> is_word (the prev)) \<and> low \<noteq> [] \<and> (next_ch = [] \<or> \<not> is_word (hd next_ch))
             then Suc (length low) else 0)"

definition extractEntities :: "string \<Rightarrow> (entity_type \<times> string \<times> nat) list" where
  "extractEntities s =
     map (Pair Number) (exec_all number_length 0 None s) @ map (Pair Address) (exec_all address_length 0 None s) @
     map (Pair Name) (exec_all name_length 0 None s)"

section \<open>Similarity\<close>

text \<open>
  \<open>row[j] = v\<close> of a JavaScript array: writing one past the end appends. (A hole further on,
  which the loops never make, would be filled with zeros here.)
\<close>

definition put :: "nat list \<Rightarrow> nat \<Rightarrow> nat \<Rightarrow> nat list" where
  "put row j v = (if j < length row then row[j := v] else row @ replicate (j - length row) 0 @ [v])"

definition set_cell :: "nat list list \<Rightarrow> nat \<Rightarrow> nat \<Rightarrow> nat \<Rightarrow> nat list list" where
  "set_cell mat i j v = mat[i := put (mat ! i) j v]"

definition first_cells :: "nat \<Rightarrow> nat \<Rightarrow> nat list list" where
  "first_cells n m = fold (\<lambda>j mat. set_cell mat 0 j j) [0..<Suc m] (map (\<lambda>i. [i]) [0..<Suc n])"

definition cell_value :: "string \<Rightarrow> string \<Rightarrow> nat list list \<Rightarrow> nat \<Rightarrow> nat \<Rightarrow> nat" where
  "cell_value a b mat i j =
     (if a ! (i - 1) = b ! (j - 1) then mat ! (i - 1) ! (j - 1)
      else min (mat ! (i - 1) ! (j - 1) + 1) (min (mat ! i ! (j - 1) + 1) (mat ! (i - 1) ! j + 1)))"

definition fill_row :: "string \<Rightarrow> string \<Rightarrow> nat \<Rightarrow> nat list list \<Rightarrow> nat list list" where
  "fill_row a b i mat = fold (\<lambda>j mat. set_cell mat i j (cell_value a b mat i j)) [1..<Suc (length b)] mat"

definition distance_matrix :: "string \<Rightarrow> string \<Rightarrow> nat list list" where
  "distance_matrix a b = fold (fill_row a b) [1..<Suc (length a)] (first_cells (length a) (length b))"

text \<open>Two empty texts give 0/0: \<open>None\<close>.\<close>

definition calculateSimilarity :: "string \<Rightarrow> string \<Rightarrow> jsnum option" where
  "calculateSimilarity a b =
     (let d = distance_matrix a b ! length a ! length b;
          n = max (length a) (length b)
      in if n = 0 then None else Some (1 - of_nat d / of_nat n))"

section \<open>Edit distance\<close>

text \<open>\<open>align xs n ys\<close>: \<open>n\<close> insertions, deletions and replacements lead from \<open>xs\<close> to \<open>ys\<close>.\<close>

inductive align :: "'a list \<Rightarrow> nat \<Rightarrow> 'a list \<Rightarrow> bool" where
  align_Nil: "align [] 0 []"
| align_keep: "align xs n ys \<Longrightarrow> align (c # xs) n (c # ys)"
| align_replace: "align xs n ys \<Longrightarrow> align (c # xs) (Suc n) (d # ys)"
| align_delete: "align xs n ys \<Longrightarrow> align (c # xs) (Suc n) ys"
| align_insert: "align xs n ys \<Longrightarrow> align xs (Suc n) (d # ys)"

lemmas align_intros = align_Nil align_keep align_replace align_delete align_insert

fun lev :: "'a list \<Rightarrow> 'a list \<Rightarrow> nat" where
  "lev [] ys = length ys"
| "lev (x # xs) [] = Suc (length xs)"
| "lev (x # xs) (y # ys) =
     (if x = y then lev xs ys else Suc (min (lev xs ys) (min (lev (x # xs) ys) (lev xs (y # ys)))))"

lemma lev_Nil2 [simp]: "lev xs [] = length xs"
  by (cases xs) auto

lemma lev_sym: "lev xs ys = lev ys xs"
  by (induction xs ys rule: lev.induct) auto

lemma lev_neighbours: "lev xs ys \<le> Suc (lev (c # xs) ys) \<and> lev xs (c # ys) \<le> Suc (lev xs ys)"
proof (induction "length xs + length ys" arbitrary: xs ys c rule: less_induct)
  case less
  have B: "lev xs ys \<le> Suc (lev (c # xs) ys)"
  proof (cases ys)
    case (Cons y ys')
    have ins: "lev xs (y # ys') \<le> Suc (lev xs ys')" and drop: "lev xs ys' \<le> Suc (lev (c # xs) ys')"
      using less [of xs ys'] Cons by auto
    then show ?thesis using Cons by auto
  qed simp
  have C: "lev xs (c # ys) \<le> Suc (lev xs ys)"
  proof (cases xs)
    case (Cons x xs')
    have "lev xs' ys \<le> Suc (lev (x # xs') ys)" using less [of xs' ys] Cons by auto
    then show ?thesis using Cons by auto
  qed simp
  from B C show ?case ..
qed

lemma lev_delete: "lev (c # xs) ys \<le> Suc (lev xs ys)"
  using lev_neighbours [of ys xs c] by (simp add: lev_sym)

lemma lev_least: "align xs n ys \<Longrightarrow> lev xs ys \<le> n"
proof (induction rule: align.induct)
  case (align_delete xs n ys c)
  then show ?case using lev_delete [of c xs ys] by simp
next
  case (align_insert xs n ys d)
  then show ?case using lev_neighbours [of xs ys d] by simp
qed auto

lemma align_only_insert: "align [] (length ys) ys"
  by (induction ys) (auto intro: align_intros)

lemma align_only_delete: "align xs (length xs) []"
  by (induction xs) (auto intro: align_intros)

lemma lev_align: "align xs (lev xs ys) ys"
proof (induction xs ys rule: lev.induct)
  case (3 x xs y ys)
  then show ?case by (auto simp: min_def intro: align_intros)
qed (use align_only_insert align_only_delete [of "x # xs" for x xs] in auto)

lemma align_append: "align xs n ys \<Longrightarrow> align us m vs \<Longrightarrow> align (xs @ us) (n + m) (ys @ vs)"
  by (induction rule: align.induct) (auto intro: align_intros)

lemma align_rev: "align xs n ys \<Longrightarrow> align (rev xs) n (rev ys)"
proof (induction rule: align.induct)
  case (align_keep xs n ys c)
  then show ?case using align_append [of "rev xs" n "rev ys" "[c]" 0 "[c]"] by (auto intro: align_intros)
next
  case (align_replace xs n ys c d)
  then show ?case using align_append [of "rev xs" n "rev ys" "[c]" 1 "[d]"] by (auto intro: align_intros)
next
  case (align_delete xs n ys c)
  then show ?case using align_append [of "rev xs" n "rev ys" "[c]" 1 "[]"] by (auto intro: align_intros)
next
  case (align_insert xs n ys d)
  then show ?case using align_append [of "rev xs" n "rev ys" "[]" 1 "[d]"] by (auto intro: align_intros)
qed (simp add: align_Nil)

lemma lev_rev: "lev (rev xs) (rev ys) = lev xs ys"
  by (metis align_rev antisym lev_align lev_least rev_rev_ident)

lemma lev_bound: "lev xs ys \<le> max (length xs) (length ys)"
  by (induction xs ys rule: lev.induct) auto

section \<open>The matrix holds the edit distances of all prefixes\<close>

definition prefix_distance :: "string \<Rightarrow> string \<Rightarrow> nat \<Rightarrow> nat \<Rightarrow> nat" where
  "prefix_distance a b i j = lev (rev (take i a)) (rev (take j b))"

lemma prefix_distance_0: "j \<le> length b \<Longrightarrow> prefix_distance a b 0 j = j" "i \<le> length a \<Longrightarrow> prefix_distance a b i 0 = i"
  by (simp_all add: prefix_distance_def)

lemma rev_take_Suc: "i < length a \<Longrightarrow> rev (take (Suc i) a) = a ! i # rev (take i a)"
  by (simp add: take_Suc_conv_app_nth)

lemma prefix_distance_Suc:
  assumes "i < length a" "j < length b"
  shows "prefix_distance a b (Suc i) (Suc j) =
    (if a ! i = b ! j then prefix_distance a b i j
     else Suc (min (prefix_distance a b i j) (min (prefix_distance a b (Suc i) j) (prefix_distance a b i (Suc j)))))"
  using assms by (simp add: prefix_distance_def rev_take_Suc)

definition row :: "string \<Rightarrow> string \<Rightarrow> nat \<Rightarrow> nat \<Rightarrow> nat list" where
  "row a b i k = map (prefix_distance a b i) [0..<Suc k]"

lemma row_nth [simp]: "j \<le> k \<Longrightarrow> row a b i k ! j = prefix_distance a b i j"
  by (simp add: row_def del: upt_Suc)

lemma row_length [simp]: "length (row a b i k) = Suc k"
  by (simp add: row_def)

lemma put_row: "put (row a b i k) (Suc k) (prefix_distance a b i (Suc k)) = row a b i (Suc k)"
  by (simp add: put_def row_def)

lemma first_cells_eq: "first_cells n m = (map (\<lambda>i. [i]) [0..<Suc n])[0 := [0..<Suc m]]"
proof (induction m)
  case 0
  then show ?case by (simp add: first_cells_def set_cell_def put_def upt_conv_Cons del: upt_Suc)
next
  case (Suc m)
  then show ?case by (simp add: first_cells_def set_cell_def put_def upt_conv_Cons [of 0 "Suc n"] del: upt_Suc)
     (simp add: upt_Suc)
qed

lemma fill_row_eq:
  assumes "Suc i < length mat" "Suc i \<le> length a" "mat ! i = row a b i (length b)" "mat ! Suc i = row a b (Suc i) 0"
    and "k \<le> length b"
  shows "fold (\<lambda>j mat. set_cell mat (Suc i) j (cell_value a b mat (Suc i) j)) [1..<Suc k] mat = mat[Suc i := row a b (Suc i) k]"
  using assms(5)
proof (induction k)
  case 0
  have "mat[Suc i := mat ! Suc i] = mat" by simp
  then show ?case using assms(4) by simp
next
  case (Suc k)
  let ?m = "mat[Suc i := row a b (Suc i) k]"
  have cell: "cell_value a b ?m (Suc i) (Suc k) = prefix_distance a b (Suc i) (Suc k)"
    using assms Suc.prems by (simp add: cell_value_def prefix_distance_Suc min_def)
  have "fold (\<lambda>j mat. set_cell mat (Suc i) j (cell_value a b mat (Suc i) j)) [1..<Suc (Suc k)] mat =
      set_cell ?m (Suc i) (Suc k) (cell_value a b ?m (Suc i) (Suc k))"
    using Suc by simp
  then show ?case using assms cell by (simp add: set_cell_def put_row)
qed

lemma matrix_rows:
  assumes "k \<le> length a"
  shows "fold (fill_row a b) [1..<Suc k] (first_cells (length a) (length b)) =
    map (\<lambda>i. row a b i (if i \<le> k then length b else 0)) [0..<Suc (length a)]"
  using assms
proof (induction k)
  case 0
  have "first_cells (length a) (length b) = map (\<lambda>i. row a b i (if i \<le> 0 then length b else 0)) [0..<Suc (length a)]"
    unfolding first_cells_eq
    by (rule nth_equalityI) (auto simp: nth_list_update row_def prefix_distance_0 intro!: nth_equalityI simp del: upt_Suc)
  then show ?case by simp
next
  case (Suc k)
  let ?m = "map (\<lambda>i. row a b i (if i \<le> k then length b else 0)) [0..<Suc (length a)]"
  have "fill_row a b (Suc k) ?m = ?m[Suc k := row a b (Suc k) (length b)]"
    unfolding fill_row_def using Suc.prems by (intro fill_row_eq) (simp_all del: upt_Suc)
  moreover have "\<dots> = map (\<lambda>i. row a b i (if i \<le> Suc k then length b else 0)) [0..<Suc (length a)]"
    using Suc.prems by (intro nth_equalityI) (auto simp: nth_list_update simp del: upt_Suc)
  ultimately show ?case using Suc by simp
qed

lemma distance_matrix_lev: "distance_matrix a b ! length a ! length b = lev a b"
proof -
  have "distance_matrix a b ! length a ! length b = prefix_distance a b (length a) (length b)"
    unfolding distance_matrix_def by (subst matrix_rows) (simp_all del: upt_Suc)
  then show ?thesis by (simp add: prefix_distance_def lev_rev)
qed

text \<open>
  C28: the matrix computes the edit distance. The last cell is the least number of insertions,
  deletions and replacements that lead from one text to the other, and the similarity is one less
  that number over the longer length, between 0 and 1; only two empty texts have none.
\<close>

theorem similarity_is_edit_distance:
  "\<exists>d. align a d b \<and> {n. align a n b} \<subseteq> {d..} \<and> distance_matrix a b ! length a ! length b = d \<and>
     calculateSimilarity a b =
       (if a = [] \<and> b = [] then None else Some (1 - of_nat d / of_nat (max (length a) (length b)))) \<and>
     d \<le> max (length a) (length b)"
  using lev_align [of a b] lev_least [of a _ b] lev_bound [of a b]
  by (intro exI [of _ "lev a b"]) (auto simp: distance_matrix_lev calculateSimilarity_def Let_def)

section \<open>What the patterns miss\<close>

text \<open>The text is put in lower case first: a recipient never has the capitals it was given with.\<close>

lemma lower_char_not_upper: "\<not> is_upper (lower_char c)"
  by (auto simp: is_upper_def lower_char_def)

lemma to_match_subset: "to_match s = Some r \<Longrightarrow> set r \<subseteq> set s"
proof (induction s rule: to_match.induct)
  case (2 c s)
  let ?w = "takeWhile is_alnum (dropWhile is_space (drop 1 s))"
  have "set ?w \<subseteq> set s" by (auto dest!: set_takeWhileD set_dropWhileD in_set_dropD)
  moreover from 2 consider "r = ?w" | "set r \<subseteq> set s" by (auto simp: Let_def split: if_splits)
  ultimately show ?case by cases auto
qed simp

lemma recipient_lowercased:
  assumes "en_recipient (pc_entities (parse input)) = Some r"
  shows "list_all (\<lambda>c. \<not> is_upper c) r"
proof -
  have "to_match (trim (toLowerCase input)) = Some r"
    using assms by (auto simp: parse_def Let_def extractSendEntities_def no_entities_def split: if_splits)
  then have "set r \<subseteq> set (trim (toLowerCase input))" by (rule to_match_subset)
  also have "\<dots> \<subseteq> set (toLowerCase input)" by (auto simp: trim_def dest!: set_dropWhileD)
  finally show ?thesis by (auto simp: list_all_iff toLowerCase_def lower_char_not_upper)
qed

text \<open>The first digits of the command are its amount, even those of an address.\<close>

lemma address_digits_are_amount:
  "en_amount (pc_entities (parse ''send to kc1abc 5 kc'')) = Some 1"
  by code_simp

end
