(* ===== verification/Assistants.thy ===== *)
theory Assistants
  imports JsStore
begin

text \<open>
  The assistant (services/aiAssistant.ts) and the portfolio heuristics (services/mlEngine.ts). The
  delays before an answer are left out; regular expressions are functions. \<open>NaN\<close> and the infinities
  of a division by zero are described where they matter.
\<close>

section \<open>Searching in a text\<close>

text \<open>The first position at which a pattern matches gives the result.\<close>

fun search :: "(string \<Rightarrow> 'a option) \<Rightarrow> string \<Rightarrow> 'a option" where
  "search p [] = p []"
| "search p (c # cs) = (case p (c # cs) of Some x \<Rightarrow> Some x | None \<Rightarrow> search p cs)"

text \<open>
  \<open>\d+(?:\.\d+)?\<close> at the beginning of a text: all ways to match it, the preferred one first, with what
  follows.
\<close>

fun inits_desc :: "string \<Rightarrow> (string \<times> string) list" where
  "inits_desc s = map (\<lambda>k. (take k s, drop k s)) (rev [1..<Suc (length (takeWhile is_digit s))])"

definition decimal_matches :: "string \<Rightarrow> (string \<times> string) list" where
  "decimal_matches s =
     concat (map (\<lambda>(w, r).
       (case r of
          c # r1 \<Rightarrow> if c = CHR ''.'' then map (\<lambda>(f, r2). (w @ ''.'' @ f, r2)) (inits_desc r1) else []
        | [] \<Rightarrow> []) @ [(w, r)]) (inits_desc s))"

text \<open>\<open>/send\s+(\d+(?:\.\d+)?)\s+kc/\<close> at one position.\<close>

definition send_kc_at :: "string \<Rightarrow> string option" where
  "send_kc_at s =
     (if \<not> startsWith s ''send'' then None
      else let r = drop 4 s; r1 = dropWhile is_space r
           in if r1 = r then None
              else map_option fst (List.find (\<lambda>(n, r2). dropWhile is_space r2 \<noteq> r2 \<and> startsWith (dropWhile is_space r2) ''kc'') (decimal_matches r1)))"

text \<open>\<open>/(\d+(?:\.\d+)?)\s*kc/\<close> at one position.\<close>

definition amount_kc_at :: "string \<Rightarrow> string option" where
  "amount_kc_at s = map_option fst (List.find (\<lambda>(n, r). startsWith (dropWhile is_space r) ''kc'') (decimal_matches s))"

definition word_char :: "char \<Rightarrow> bool" where
  "word_char c \<longleftrightarrow> is_digit c \<or> (97 \<le> (of_char c :: nat) \<and> (of_char c :: nat) \<le> 122) \<or> (65 \<le> (of_char c :: nat) \<and> (of_char c :: nat) \<le> 90)"

text \<open>\<open>/to\s+([a-z0-9]+)/i\<close> at one position of a text in lower case.\<close>

definition to_at :: "string \<Rightarrow> string option" where
  "to_at s =
     (if \<not> startsWith s ''to'' then None
      else let r = drop 2 s; r1 = dropWhile is_space r; w = takeWhile word_char r1
           in if r1 = r \<or> w = [] then None else Some w)"

section \<open>The assistant\<close>

datatype role = User | Assistant

record Message =
  m_id :: string
  m_role :: role
  m_content :: string
  m_timestamp :: int

text \<open>The fixed answers; their texts are long and only their choice is modelled.\<close>

datatype topic = Balance | SendAmount string | SendHowMuch | History | Market | PortfolioTopic | SecurityTopic | MiningTopic | Fees | Help | Unknown string

definition mentions :: "string \<Rightarrow> string list \<Rightarrow> bool" where
  "mentions t ws = list_ex (str_includes t) ws"

definition generateResponse :: "string \<Rightarrow> topic" where
  "generateResponse input =
     (let lower = toLowerCase input
      in if mentions lower [''balance'', ''how much''] then Balance
         else if str_includes lower ''send'' \<and> str_includes lower ''kc'' then
           (case search send_kc_at lower of Some n \<Rightarrow> SendAmount n | None \<Rightarrow> SendHowMuch)
         else if mentions lower [''transaction'', ''history''] then History
         else if mentions lower [''price'', ''market''] then Market
         else if mentions lower [''portfolio'', ''optimize''] then PortfolioTopic
         else if mentions lower [''security'', ''safe''] then SecurityTopic
         else if mentions lower [''mining'', ''mine''] then MiningTopic
         else if mentions lower [''gas'', ''fee''] then Fees
         else if mentions lower [''help'', ''can you''] then Help
         else Unknown input)"

text \<open>\<open>render\<close> gives the text of an answer.\<close>

definition sendMessage :: "(topic \<Rightarrow> string) \<Rightarrow> clock \<Rightarrow> string \<Rightarrow> Message list \<Rightarrow> Message \<times> Message list" where
  "sendMessage render clk userMessage history =
     (let u = \<lparr>m_id = ''msg_'' @ show_int (clk 0) @ ''_user'', m_role = User, m_content = userMessage, m_timestamp = clk 1\<rparr>;
          a = \<lparr>m_id = ''msg_'' @ show_int (clk 2) @ ''_assistant'', m_role = Assistant, m_content = render (generateResponse userMessage),
               m_timestamp = clk 3\<rparr>
      in (a, history @ [u, a]))"

definition getConversationHistory :: "Message list \<Rightarrow> Message list" where
  "getConversationHistory h = h"

definition clearHistory :: "Message list \<Rightarrow> Message list" where
  "clearHistory h = []"

datatype command = SendCommand string "string option" | CheckBalance | NotParsed

definition parseCommand :: "string \<Rightarrow> command" where
  "parseCommand input =
     (let lower = toLowerCase input;
          amount = (if str_includes lower ''send'' then search amount_kc_at lower else None)
      in case amount of
           Some n \<Rightarrow> SendCommand n (search to_at lower)
         | None \<Rightarrow> if mentions lower [''balance'', ''how much''] then CheckBalance else NotParsed)"

text \<open>Questions and answers alternate, each question followed by the answer to it.\<close>

definition talk :: "(topic \<Rightarrow> string) \<Rightarrow> (clock \<times> string) list \<Rightarrow> Message list \<Rightarrow> Message list" where
  "talk render qs h = fold (\<lambda>(clk, q) h. snd (sendMessage render clk q h)) qs h"

lemma talk_alternates:
  "map (\<lambda>m. (m_role m, m_content m)) (talk render qs h) =
     map (\<lambda>m. (m_role m, m_content m)) h @ concat (map (\<lambda>(clk, q). [(User, q), (Assistant, render (generateResponse q))]) qs)"
  by (induction qs arbitrary: h) (auto simp: talk_def sendMessage_def Let_def)

text \<open>
  A recipient is read in lower case, so that an address that distinguishes case is changed; and the
  first \<open>to\<close> counts even inside a word.
\<close>

lemma recipient_lower_case: "parseCommand ''send 5 KC to AbC'' = SendCommand ''5'' (Some ''abc'')"
  by code_simp

lemma to_inside_word: "parseCommand ''send 5 kc into x to bob'' = SendCommand ''5'' (Some ''x'')"
  by code_simp

section \<open>Portfolio heuristics\<close>

definition total_of :: "(string \<times> jsnum) list \<Rightarrow> jsnum" where
  "total_of hs = sum_list (map snd hs)"

text \<open>The recommendation is the current allocation.\<close>

definition optimizePortfolio :: "(string \<times> jsnum) list \<Rightarrow> (string \<times> jsnum) list \<times> (string \<times> jsnum) list" where
  "optimizePortfolio hs =
     (if total_of hs \<le> 0 then ([], [])
      else let a = map (\<lambda>(k, x). (k, x / total_of hs * 100)) hs in (a, a))"

lemma allocation_sums_to_100: "0 < total_of hs \<Longrightarrow> sum_list (map snd (fst (optimizePortfolio hs))) = 100"
proof -
  assume t: "0 < total_of hs"
  have "sum_list (map (\<lambda>x. snd x / c * 100) hs) = total_of hs / c * 100" for c
    by (induction hs) (simp_all add: total_of_def add_divide_distrib algebra_simps)
  with t show ?thesis by (simp add: optimizePortfolio_def case_prod_unfold comp_def Let_def)
qed

record ml_tx =
  ml_amount :: jsnum
  ml_to :: string
  ml_timestamp :: int

datatype anomaly_severity = AnomalyLow | AnomalyMedium | AnomalyHigh

datatype anomaly = SpendingSpike nat anomaly_severity jsnum int | TimeAnomaly nat int

definition mean_amount :: "ml_tx list \<Rightarrow> jsnum" where
  "mean_amount txs = sum_list (map ml_amount txs) / of_nat (length txs)"

definition amount_variance :: "ml_tx list \<Rightarrow> jsnum" where
  "amount_variance txs = sum_list (map (\<lambda>t. (ml_amount t - mean_amount txs)\<^sup>2) txs) / of_nat (length txs)"

text \<open>When all amounts are equal the score is 0/0, which is not above two.\<close>

definition zScore :: "ml_tx list \<Rightarrow> ml_tx \<Rightarrow> jsnum" where
  "zScore txs tx = (ml_amount tx - mean_amount txs) / sqrt (amount_variance txs)"

text \<open>\<open>hour\<close> is \<open>getHours\<close> in the local time of the browser.\<close>

definition detectAnomalies :: "(int \<Rightarrow> nat) \<Rightarrow> int \<Rightarrow> ml_tx list \<Rightarrow> anomaly list" where
  "detectAnomalies hour now txs =
     (let spikes = [SpendingSpike i (if zScore txs (txs ! i) > 3 then AnomalyHigh else AnomalyMedium) (zScore txs (txs ! i)) (ml_timestamp (txs ! i)).
                      i \<leftarrow> [0..<length txs], zScore txs (txs ! i) > 2];
          late = filter (\<lambda>t. 2 \<le> hour (ml_timestamp t) \<and> hour (ml_timestamp t) \<le> 5) txs
      in spikes @ (if late \<noteq> [] then [TimeAnomaly (length late) now] else []))"

datatype trend = Bullish | Bearish | NeutralTrend

definition calculateMA :: "jsnum list \<Rightarrow> nat \<Rightarrow> jsnum option" where
  "calculateMA prices period =
     (if length prices < period then (if prices = [] then None else Some (last prices))
      else Some (sum_list (slice_last period prices) / of_nat period))"

text \<open>Comparisons with \<open>undefined\<close> are false.\<close>

definition predictPrice :: "jsnum list \<Rightarrow> jsnum option \<times> trend" where
  "predictPrice prices =
     (let shortMA = calculateMA (slice_last 5 prices) 5; longMA = calculateMA (slice_last 20 prices) 20
      in (if prices = [] then None else Some (last prices),
          case (shortMA, longMA) of
            (Some a, Some b) \<Rightarrow> if a > b then Bullish else if a < b then Bearish else NeutralTrend
          | _ \<Rightarrow> NeutralTrend))"

definition categorizeTransaction :: "string \<Rightarrow> jsnum \<Rightarrow> string" where
  "categorizeTransaction description amount =
     (let lower = toLowerCase description
      in if mentions lower [''salary'', ''paycheck''] then ''Income''
         else if mentions lower [''grocery'', ''food''] then ''Food & Dining''
         else if mentions lower [''rent'', ''mortgage''] then ''Housing''
         else if mentions lower [''gas'', ''uber''] then ''Transportation''
         else if mentions lower [''netflix'', ''spotify''] then ''Entertainment''
         else if mentions lower [''amazon'', ''shop''] then ''Shopping''
         else if mentions lower [''invest'', ''stock''] then ''Investment''
         else if amount > 1000 then ''Large Transfer''
         else ''Other'')"

text \<open>
  No single amount is more than the square root of (n - 1) standard deviations above the mean of n
  amounts. So a spike is only ever reported among six transactions or more, and one of high severity
  only among eleven or more.
\<close>

lemma deviations_cancel: "txs \<noteq> [] \<Longrightarrow> sum_list (map (\<lambda>t. ml_amount t - mean_amount txs) txs) = 0"
  by (simp add: sum_list_subtractf mean_amount_def sum_list_triv)

lemma square_of_sum_le: "(sum_list xs)\<^sup>2 \<le> of_nat (length xs) * sum_list (map (\<lambda>x. x\<^sup>2) xs)" for xs :: "real list"
proof (induction xs)
  case (Cons x xs)
  let ?S = "sum_list xs" and ?Q = "sum_list (map (\<lambda>x. x\<^sup>2) xs)" and ?n = "real (length xs)"
  have "2 * x * ?S \<le> ?n * x\<^sup>2 + ?Q"
  proof (cases "xs = []")
    case False
    then have n: "0 < ?n" by simp
    have "0 \<le> (?n * x - ?S)\<^sup>2" by simp
    then have "2 * x * ?S * ?n \<le> ?n * ?n * x\<^sup>2 + ?S\<^sup>2" by (simp add: power2_diff power_mult_distrib power2_eq_square algebra_simps)
    also have "\<dots> \<le> ?n * ?n * x\<^sup>2 + ?n * ?Q" using Cons.IH by simp
    finally have "?n * (2 * x * ?S) \<le> ?n * (?n * x\<^sup>2 + ?Q)" by (simp add: algebra_simps)
    then show ?thesis using n by simp
  qed simp
  then show ?case using Cons.IH by (simp add: power2_sum algebra_simps)
qed simp

lemma z_score_bound:
  assumes "i < length txs" and "0 < zScore txs (txs ! i)"
  shows "(zScore txs (txs ! i))\<^sup>2 \<le> of_nat (length txs) - 1"
proof -
  let ?n = "real (length txs)" and ?d = "\<lambda>t. ml_amount t - mean_amount txs" and ?V = "amount_variance txs"
  let ?x = "?d (txs ! i)" and ?rest = "map ?d (take i txs @ drop (Suc i) txs)"
  have ne: "txs \<noteq> []" using assms(1) by auto
  have split: "txs = take i txs @ txs ! i # drop (Suc i) txs" using assms(1) by (rule id_take_nth_drop)
  have sum: "sum_list (map f txs) = f (txs ! i) + sum_list (map f (take i txs @ drop (Suc i) txs))" for f :: "ml_tx \<Rightarrow> real"
    by (subst split) simp
  have "sum_list ?rest = - ?x" using deviations_cancel [OF ne] sum [of ?d] by simp
  then have "(sum_list ?rest)\<^sup>2 = ?x\<^sup>2" by (metis power2_minus)
  then have "?x\<^sup>2 \<le> of_nat (length ?rest) * sum_list (map (\<lambda>x. x\<^sup>2) ?rest)" using square_of_sum_le [of ?rest] by metis
  also have "length ?rest = length txs - 1" using assms(1) by simp
  also have "sum_list (map (\<lambda>x. x\<^sup>2) ?rest) = ?n * ?V - ?x\<^sup>2"
    using sum [of "\<lambda>t. (?d t)\<^sup>2"] ne by (simp add: amount_variance_def comp_def)
  finally have "?x\<^sup>2 \<le> (?n - 1) * (?n * ?V - ?x\<^sup>2)" using assms(1) by (simp add: of_nat_diff)
  then have "?n * ?x\<^sup>2 \<le> ?n * ((?n - 1) * ?V)" by (simp add: algebra_simps)
  then have le: "?x\<^sup>2 \<le> (?n - 1) * ?V" using ne by simp
  have "?V \<noteq> 0" using assms(2) by (auto simp: zScore_def)
  moreover have "0 \<le> ?V" unfolding amount_variance_def by (intro divide_nonneg_nonneg sum_list_nonneg) auto
  ultimately have v: "0 < ?V" by simp
  have "(zScore txs (txs ! i))\<^sup>2 = ?x\<^sup>2 / ?V" using v by (simp add: zScore_def power_divide)
  also have "\<dots> \<le> ?n - 1" using le v by (simp add: pos_divide_le_eq)
  finally show ?thesis .
qed

text \<open>
  A spending spike is reported only among at least six transactions, and one of high severity
  only among at least eleven: fewer amounts cannot lie more than two or three standard deviations
  above their mean, however large the largest is.
\<close>

theorem spike_needs_history:
  assumes "SpendingSpike i sev z t \<in> set (detectAnomalies hour now txs)"
  shows "6 \<le> length txs \<and> (sev = AnomalyHigh \<longrightarrow> 11 \<le> length txs)"
proof -
  have i: "i < length txs" "z = zScore txs (txs ! i)" "2 < z" "sev = (if 3 < z then AnomalyHigh else AnomalyMedium)"
    using assms by (auto simp: detectAnomalies_def Let_def split: if_splits)
  then have b: "z\<^sup>2 \<le> real (length txs) - 1" using z_score_bound [of i txs] by simp
  have "2\<^sup>2 < z\<^sup>2" using i(3) by (intro power_strict_mono) auto
  with b have "5 < real (length txs)" by simp
  moreover have "10 < real (length txs)" if "3 < z"
  proof -
    have "3\<^sup>2 < z\<^sup>2" using that by (intro power_strict_mono) auto
    with b show ?thesis by simp
  qed
  ultimately show ?thesis using i(4) by (auto split: if_splits)
qed

definition demo_amounts :: "ml_tx list" where
  "demo_amounts = map (\<lambda>x. \<lparr>ml_amount = x, ml_to = [], ml_timestamp = 0\<rparr>) [0, 0, 0, 0, 0, 0, 0, 0, 0, 10]"

theorem spike_needs_history_witness:
  "SpendingSpike 9 AnomalyMedium 3 0 \<in> set (detectAnomalies (\<lambda>_. 12) 0 demo_amounts) \<and> 6 \<le> length demo_amounts"
proof -
  have m: "mean_amount demo_amounts = 1" by (simp add: mean_amount_def demo_amounts_def)
  have "amount_variance demo_amounts = 9" unfolding amount_variance_def m by (simp add: demo_amounts_def)
  moreover have "sqrt 9 = 3" by (rule real_sqrt_unique) auto
  ultimately have z: "zScore demo_amounts (demo_amounts ! 9) = 3" by (simp add: zScore_def m) (simp add: demo_amounts_def)
  have "length demo_amounts = 10" "ml_timestamp (demo_amounts ! 9) = 0" by (simp_all add: demo_amounts_def)
  then have "SpendingSpike 9 AnomalyMedium 3 0 \<in> set (detectAnomalies (\<lambda>_. 12) 0 demo_amounts)"
    using z by (auto simp: detectAnomalies_def Let_def intro!: bexI [of _ 9])
  with spike_needs_history [OF this] show ?thesis by simp
qed

end
