(* ===== verification/Locales.thy ===== *)
theory Locales
  imports Json Calendar
begin

text \<open>
  Languages (services/i18n.ts of the wallet and lib/i18n.ts of the explorer) and the analytics of a
  date range (services/analytics.ts). The translation files, the language of the browser and the
  \<open>Intl\<close> formatters are arguments.
\<close>

section \<open>Locales\<close>

definition locales :: "string list" where
  "locales = [''en'', ''es'', ''fr'', ''de'', ''zh'', ''ja'', ''ko'', ''ru'', ''pt'', ''ar'']"

definition defaultLocale :: string where
  "defaultLocale = ''en''"

definition rtlLocales :: "string list" where
  "rtlLocales = [''ar'']"

record i18n =
  currentLocale :: string
  texts :: json
  preferred_locale :: "string option"
  document_dir :: string
  document_lang :: string

definition getPreferredLocale :: "string option \<Rightarrow> string \<Rightarrow> string" where
  "getPreferredLocale stored language =
     (if truthy_string stored \<and> the stored \<in> set locales then the stored
      else let browserLang = hd (split_on (CHR ''-'') language)
           in if browserLang \<in> set locales then browserLang else defaultLocale)"

text \<open>
  \<open>files l\<close> is the module of the translation file of a locale, \<open>None\<close> when it cannot be loaded.
\<close>

definition loadLocale :: "(string \<Rightarrow> (string \<times> json) list option) \<Rightarrow> string \<Rightarrow> i18n \<Rightarrow> i18n" where
  "loadLocale files locale s =
     (case files locale of
        None \<Rightarrow> s
      | Some m \<Rightarrow>
          s\<lparr>texts := (case map_of m ''default'' of Some d \<Rightarrow> if json_truthy (Some d) then d else JObj m | None \<Rightarrow> JObj m),
            currentLocale := locale, preferred_locale := Some locale,
            document_dir := (if locale \<in> set rtlLocales then ''rtl'' else ''ltr''),
            document_lang := locale\<rparr>)"

definition new_I18n :: "(string \<Rightarrow> (string \<times> json) list option) \<Rightarrow> string option \<Rightarrow> string \<Rightarrow> string \<Rightarrow> string \<Rightarrow> i18n" where
  "new_I18n files stored language dir lang =
     loadLocale files (getPreferredLocale stored language)
       \<lparr>currentLocale = defaultLocale, texts = JObj [], preferred_locale = stored, document_dir = dir, document_lang = lang\<rparr>"

definition getCurrentLocale :: "i18n \<Rightarrow> string" where
  "getCurrentLocale s = currentLocale s"

definition getAvailableLocales :: "string list" where
  "getAvailableLocales = locales"

definition isRTL :: "i18n \<Rightarrow> bool" where
  "isRTL s \<longleftrightarrow> currentLocale s \<in> set rtlLocales"

section \<open>Translating\<close>

text \<open>
  One step of the lookup. What an object or an array inherits is neither a string nor leads to one, so
  that for the lookup it is the same as a missing entry.
\<close>

fun member :: "string \<Rightarrow> json \<Rightarrow> json option" where
  "member k (JObj fs) = map_of fs k"
| "member k (JArr xs) = (case find_index (\<lambda>i. show_nat i = k) [0..<length xs] of Some i \<Rightarrow> Some (xs ! i) | None \<Rightarrow> None)"
| "member k v = None"

fun lookup_path :: "string list \<Rightarrow> json \<Rightarrow> json option" where
  "lookup_path [] v = Some v"
| "lookup_path (k # ks) v = (case member k v of None \<Rightarrow> None | Some w \<Rightarrow> lookup_path ks w)"

text \<open>
  \<open>replace\<close> with a text as pattern changes the first occurrence only, and \<open>$$\<close>, \<open>$&\<close>, \<open>$`\<close> and \<open>$'\<close> in
  the replacement stand for a dollar sign, the pattern, what is before it and what is after it.
\<close>

fun expand :: "string \<Rightarrow> string \<Rightarrow> string \<Rightarrow> string \<Rightarrow> string" where
  "expand pat before after [] = []"
| "expand pat before after [c] = [c]"
| "expand pat before after (c # d # r) =
     (if c = CHR ''$'' \<and> d = CHR ''$'' then CHR ''$'' # expand pat before after r
      else if c = CHR ''$'' \<and> d = CHR ''&'' then pat @ expand pat before after r
      else if c = CHR ''$'' \<and> d = CHR 0x60 then before @ expand pat before after r
      else if c = CHR ''$'' \<and> d = CHR 0x27 then after @ expand pat before after r
      else c # expand pat before after (d # r))"

fun replace_from :: "string \<Rightarrow> string \<Rightarrow> string \<Rightarrow> string \<Rightarrow> string" where
  "replace_from pat rep before s =
     (if startsWith s pat then before @ expand pat before (drop (length pat) s) rep @ drop (length pat) s
      else case s of [] \<Rightarrow> before | c # r \<Rightarrow> replace_from pat rep (before @ [c]) r)"

declare replace_from.simps [simp del]

definition replace_first :: "string \<Rightarrow> string \<Rightarrow> string \<Rightarrow> string" where
  "replace_first pat rep s = replace_from pat rep [] s"

definition fill :: "(string \<times> string) list \<Rightarrow> string \<Rightarrow> string" where
  "fill params v = foldl (\<lambda>v (p, x). replace_first (''{'' @ p @ ''}'') x v) v params"

text \<open>\<open>String(val)\<close> of the parameters is taken before.\<close>

definition translate :: "i18n \<Rightarrow> string \<Rightarrow> (string \<times> string) list option \<Rightarrow> string" where
  "translate s key params =
     (case lookup_path (split_on (CHR ''.'') key) (texts s) of
        Some (JStr v) \<Rightarrow> (case params of None \<Rightarrow> v | Some ps \<Rightarrow> fill ps v)
      | _ \<Rightarrow> key)"

section \<open>Formatting\<close>

definition formatNumber :: "(string \<Rightarrow> 'o \<Rightarrow> jsnum \<Rightarrow> string) \<Rightarrow> i18n \<Rightarrow> jsnum \<Rightarrow> 'o \<Rightarrow> string" where
  "formatNumber intl s v opts = intl (currentLocale s) opts v"

text \<open>The options of a currency.\<close>

definition formatCurrency :: "(string \<Rightarrow> string \<Rightarrow> jsnum \<Rightarrow> string) \<Rightarrow> i18n \<Rightarrow> jsnum \<Rightarrow> string \<Rightarrow> string" where
  "formatCurrency intl s v currency = intl (currentLocale s) currency v"

definition formatDate :: "(string \<Rightarrow> 'o \<Rightarrow> int \<Rightarrow> string) \<Rightarrow> (string \<Rightarrow> int) \<Rightarrow> i18n \<Rightarrow> string + int \<Rightarrow> 'o \<Rightarrow> string" where
  "formatDate intl parse s d opts = intl (currentLocale s) opts (case d of Inl t \<Rightarrow> parse t | Inr t \<Rightarrow> t)"

definition relative_unit :: "int \<Rightarrow> int \<times> string" where
  "relative_unit diffInSeconds =
     (if diffInSeconds < 60 then (- diffInSeconds, ''second'')
      else if diffInSeconds < 3600 then (- (diffInSeconds div 60), ''minute'')
      else if diffInSeconds < 86400 then (- (diffInSeconds div 3600), ''hour'')
      else if diffInSeconds < 2592000 then (- (diffInSeconds div 86400), ''day'')
      else if diffInSeconds < 31536000 then (- (diffInSeconds div 2592000), ''month'')
      else (- (diffInSeconds div 31536000), ''year''))"

definition formatRelativeTime :: "(string \<Rightarrow> int \<Rightarrow> string \<Rightarrow> string) \<Rightarrow> i18n \<Rightarrow> int \<Rightarrow> int \<Rightarrow> string" where
  "formatRelativeTime rtf s now d =
     (let (n, u) = relative_unit ((now - d) div 1000) in rtf (currentLocale s) n u)"

section \<open>The explorer\<close>

text \<open>
  A table of texts per locale. Every name that objects inherit is a property of the table, too:
  \<open>inherited\<close> lists them; none of them has a text under a key of the explorer.
\<close>

record explorer_i18n =
  locale_tables :: "(string \<times> (string \<times> string) list) list"
  current :: string

definition setLocale :: "string list \<Rightarrow> string \<Rightarrow> explorer_i18n \<Rightarrow> explorer_i18n" where
  "setLocale inherited locale s =
     (if map_of (locale_tables s) locale \<noteq> None \<or> locale \<in> set inherited then s\<lparr>current := locale\<rparr> else s)"

definition getLocale :: "explorer_i18n \<Rightarrow> string" where
  "getLocale s = current s"

definition getSupportedLocales :: "explorer_i18n \<Rightarrow> string list" where
  "getSupportedLocales s = map fst (locale_tables s)"

definition entry_of :: "explorer_i18n \<Rightarrow> string \<Rightarrow> string \<Rightarrow> string option" where
  "entry_of s locale key = (case map_of (locale_tables s) locale of None \<Rightarrow> None | Some m \<Rightarrow> map_of m key)"

definition explorer_t :: "explorer_i18n \<Rightarrow> string \<Rightarrow> string" where
  "explorer_t s key =
     (case entry_of s (current s) key of Some v \<Rightarrow> v | None \<Rightarrow> (case entry_of s ''en'' key of Some v \<Rightarrow> v | None \<Rightarrow> key))"

section \<open>Analytics\<close>

record daily =
  day_date :: string
  day_sent :: jsnum
  day_received :: jsnum

record AnalyticsData =
  totalSent :: jsnum
  totalReceived :: jsnum
  netFlow :: jsnum
  transactionCount :: nat
  averageTransactionSize :: jsnum
  topRecipients :: "(string \<times> jsnum \<times> nat) list"
  topSenders :: "(string \<times> jsnum \<times> nat) list"
  dailyVolume :: "daily list"
  categoryBreakdown :: "(string \<times> jsnum \<times> jsnum) list"

definition iso_day :: "int \<Rightarrow> string" where
  "iso_day t = hd (split_on (CHR ''T'') (toISOString t))"

text \<open>The loop over the days; \<open>setDate\<close> adds one day of local time.\<close>

function day_loop :: "int \<Rightarrow> int \<Rightarrow> int \<Rightarrow> daily list" where
  "day_loop tz cursor stop =
     (if cursor \<le> stop
      then \<lparr>day_date = iso_day cursor, day_sent = 0, day_received = 0\<rparr> # day_loop tz (setDate tz cursor (getDate tz cursor + 1)) stop
      else [])"
  by pat_completeness auto

termination
  by (relation "measure (\<lambda>(tz, cursor, stop). nat (stop - cursor + 1))") (auto simp: setDate_add msPerDay_def)

declare day_loop.simps [simp del]

definition generateAnalytics :: "int \<Rightarrow> int \<times> int \<Rightarrow> AnalyticsData" where
  "generateAnalytics tz dateRange =
     \<lparr>totalSent = 0, totalReceived = 0, netFlow = 0 - 0, transactionCount = 0, averageTransactionSize = 0,
      topRecipients = [], topSenders = [], dailyVolume = day_loop tz (fst dateRange) (snd dateRange), categoryBreakdown = []\<rparr>"

definition newline :: string where
  "newline = [CHR 0x0A]"

definition csv_day :: "daily \<Rightarrow> string" where
  "csv_day d = day_date d @ '','' @ toFixed 8 (day_sent d) @ '','' @ toFixed 8 (day_received d) @ newline"

definition analytics_CSV :: "AnalyticsData \<Rightarrow> string" where
  "analytics_CSV a =
     ''Metric,Value'' @ newline @
     ''Total Sent,'' @ toFixed 8 (totalSent a) @ newline @
     ''Total Received,'' @ toFixed 8 (totalReceived a) @ newline @
     ''Net Flow,'' @ toFixed 8 (netFlow a) @ newline @
     ''Transaction Count,'' @ show_nat (transactionCount a) @ newline @
     ''Average Size,'' @ toFixed 8 (averageTransactionSize a) @ newline @ newline @
     ''Daily Volume'' @ newline @ ''Date,Sent,Received'' @ newline @
     concat (map csv_day (dailyVolume a))"

section \<open>What is shown\<close>

lemma preferred_is_supported: "getPreferredLocale stored language \<in> set locales"
  by (simp add: getPreferredLocale_def locales_def defaultLocale_def Let_def)

text \<open>A locale that cannot be loaded changes nothing; one that can be loaded sets everything together.\<close>

lemma loadLocale_consistent:
  "loadLocale files l s = s \<or>
   currentLocale (loadLocale files l s) = l \<and> preferred_locale (loadLocale files l s) = Some l \<and>
   document_lang (loadLocale files l s) = l \<and> (document_dir (loadLocale files l s) = ''rtl'' \<longleftrightarrow> isRTL (loadLocale files l s))"
  by (auto simp: loadLocale_def isRTL_def split: option.split)

lemma relative_unit_bounds:
  "0 \<le> d \<Longrightarrow> case relative_unit d of (n, u) \<Rightarrow>
     (u = ''second'' \<and> - 60 < n \<and> n \<le> 0 \<or> u = ''minute'' \<and> - 60 < n \<and> n < 0 \<or> u = ''hour'' \<and> - 24 < n \<and> n < 0 \<or>
      u = ''day'' \<and> - 30 < n \<and> n < 0 \<or> u = ''month'' \<and> - 12 \<le> n \<and> n < 0 \<or> u = ''year'' \<and> n < 0)"
  by (auto simp: relative_unit_def)

text \<open>Every time to come is counted in seconds, however far it is.\<close>

lemma future_in_seconds: "d < 0 \<Longrightarrow> relative_unit d = (- d, ''second'')"
  by (simp add: relative_unit_def)

lemma day_loop_map:
  "day_loop tz c stop = map (\<lambda>k. \<lparr>day_date = iso_day (c + int k * msPerDay), day_sent = 0, day_received = 0\<rparr>)
     [0..<(if c \<le> stop then nat ((stop - c) div msPerDay + 1) else 0)]"
proof (induction tz c stop rule: day_loop.induct)
  case (1 tz c stop)
  show ?case
  proof (cases "c \<le> stop")
    case False
    then show ?thesis by (simp add: day_loop.simps)
  next
    case True
    let ?n = "\<lambda>c. if c \<le> stop then nat ((stop - c) div msPerDay + 1) else 0"
    have next_day: "setDate tz c (getDate tz c + 1) = c + msPerDay" using setDate_add [of tz c 1] by simp
    have n: "?n c = Suc (?n (c + msPerDay))"
    proof (cases "c + msPerDay \<le> stop")
      case True
      have "(stop - c) div msPerDay = (stop - (c + msPerDay)) div msPerDay + 1"
        using div_add_self2 [of msPerDay "stop - (c + msPerDay)"] by (simp add: msPerDay_def)
      moreover have "0 \<le> (stop - (c + msPerDay)) div msPerDay" using True by (simp add: pos_imp_zdiv_nonneg_iff msPerDay_def)
      ultimately show ?thesis using True \<open>c \<le> stop\<close> by (simp add: msPerDay_def nat_add_distrib)
    next
      case False
      then have "(stop - c) div msPerDay = 0" using \<open>c \<le> stop\<close> by (simp add: div_pos_pos_trivial msPerDay_def)
      then show ?thesis using False \<open>c \<le> stop\<close> by simp
    qed
    show ?thesis
      unfolding day_loop.simps [of tz c stop] n map_upt_Suc
      using 1 True next_day by (simp add: algebra_simps)
  qed
qed

text \<open>The daily volume has one entry for every day of the range, whatever the offset of local time.\<close>

lemma dailyVolume_length:
  "length (dailyVolume (generateAnalytics tz (start, stop))) = (if start \<le> stop then nat ((stop - start) div msPerDay) + 1 else 0)"
  by (simp add: generateAnalytics_def day_loop_map nat_add_distrib pos_imp_zdiv_nonneg_iff msPerDay_def)

subsection \<open>Filling in parameters\<close>

text \<open>A template: literal text and named holes.\<close>

datatype piece = Lit string | Hole string

fun piece_text :: "(string \<Rightarrow> string) \<Rightarrow> piece \<Rightarrow> string" where
  "piece_text f (Lit t) = t"
| "piece_text f (Hole h) = f h"

definition render :: "(string \<Rightarrow> string) \<Rightarrow> piece list \<Rightarrow> string" where
  "render f ps = concat (map (piece_text f) ps)"

definition braces :: "string \<Rightarrow> string" where
  "braces h = ''{'' @ h @ ''}''"

fun plain_piece :: "piece \<Rightarrow> bool" where
  "plain_piece (Lit t) = (CHR ''{'' \<notin> set t)"
| "plain_piece (Hole h) = (CHR ''{'' \<notin> set h \<and> CHR ''}'' \<notin> set h)"

definition holes :: "piece list \<Rightarrow> string list" where
  "holes ps = [h. Hole h \<leftarrow> ps]"

fun plug :: "string \<Rightarrow> string \<Rightarrow> piece \<Rightarrow> piece" where
  "plug p x (Hole h) = (if h = p then Lit x else Hole h)"
| "plug p x (Lit t) = Lit t"

lemma render_simps [simp]:
  "render f [] = []" "render f (Lit t # ps) = t @ render f ps" "render f (Hole h # ps) = f h @ render f ps"
  by (simp_all add: render_def)

lemma holes_simps [simp]: "holes [] = []" "holes (Lit t # ps) = holes ps" "holes (Hole h # ps) = h # holes ps"
  by (simp_all add: holes_def)

lemma expand_plain: "CHR ''$'' \<notin> set x \<Longrightarrow> expand pat b a x = x"
  by (induction pat b a x rule: expand.induct) auto

lemma startsWith_braces: "startsWith (c # t) (braces p) \<Longrightarrow> c = CHR ''{''"
  by (auto simp: startsWith_def braces_def)

lemma skip_plain: "CHR ''{'' \<notin> set t \<Longrightarrow> replace_from (braces p) x b (t @ r) = replace_from (braces p) x (b @ t) r"
proof (induction t arbitrary: b)
  case (Cons c t)
  then have "\<not> startsWith (c # t @ r) (braces p)" using startsWith_braces [of c "t @ r" p] by auto
  then show ?case using Cons by (simp add: replace_from.simps [of _ _ b])
qed simp

lemma braces_match:
  assumes "CHR ''}'' \<notin> set h" and "CHR ''}'' \<notin> set p" and "startsWith (h @ CHR ''}'' # r) (p @ ''}'')"
  shows "h = p"
proof -
  have "takeWhile (\<lambda>c. c \<noteq> CHR ''}'') (h @ CHR ''}'' # r) = h" using assms(1) by (induction h) auto
  moreover obtain z where "h @ CHR ''}'' # r = p @ CHR ''}'' # z" using assms(3) by (auto simp: startsWith_def prefix_def)
  moreover have "takeWhile (\<lambda>c. c \<noteq> CHR ''}'') (p @ CHR ''}'' # z) = p" using assms(2) by (induction p) auto
  ultimately show ?thesis by simp
qed

lemma skip_hole:
  assumes "h \<noteq> p" and "plain_piece (Hole h)" and "CHR ''}'' \<notin> set p"
  shows "replace_from (braces p) x b (braces h @ r) = replace_from (braces p) x (b @ braces h) r"
proof -
  have "\<not> startsWith (CHR ''{'' # (h @ ''}'') @ r) (braces p)"
    using assms braces_match [of h p r] by (auto simp: startsWith_def braces_def)
  then have "replace_from (braces p) x b (CHR ''{'' # (h @ ''}'') @ r) = replace_from (braces p) x (b @ ''{'') ((h @ ''}'') @ r)"
    by (simp add: replace_from.simps [of _ _ b])
  also have "\<dots> = replace_from (braces p) x (b @ braces h) r"
    using skip_plain [of "h @ ''}''" p x "b @ ''{''" r] assms(2) by (simp add: braces_def)
  finally show ?thesis by (simp add: braces_def)
qed

lemma plug_absent: "p \<notin> set (holes ps) \<Longrightarrow> map (plug p x) ps = ps"
proof (induction ps)
  case (Cons q ps)
  then show ?case by (cases q) auto
qed simp

lemma replace_plugs:
  assumes "CHR ''}'' \<notin> set p" and "CHR ''$'' \<notin> set x" and "distinct (holes ps)" and "\<forall>q \<in> set ps. plain_piece q"
  shows "replace_from (braces p) x b (render braces ps) = b @ render braces (map (plug p x) ps)"
  using assms(3,4)
proof (induction ps arbitrary: b)
  case Nil
  then show ?case by (simp add: replace_from.simps startsWith_def braces_def)
next
  case (Cons q ps)
  show ?case
  proof (cases q)
    case (Lit t)
    then show ?thesis using Cons skip_plain [of t p x b] by simp
  next
    case (Hole h)
    show ?thesis
    proof (cases "h = p")
      case True
      have "startsWith (braces p @ render braces ps) (braces p)" by (simp add: startsWith_def)
      then have "replace_from (braces p) x b (braces p @ render braces ps) = b @ x @ render braces ps"
        using assms(2) by (subst replace_from.simps) (simp add: expand_plain)
      moreover have "map (plug p x) ps = ps" using Cons.prems(1) Hole True by (intro plug_absent) simp
      ultimately show ?thesis using Hole True by simp
    next
      case False
      then show ?thesis using Cons Hole assms(1) skip_hole [of h p x b "render braces ps"] by simp
    qed
  qed
qed

lemma plug_plain: "CHR ''{'' \<notin> set x \<Longrightarrow> \<forall>q \<in> set ps. plain_piece q \<Longrightarrow> \<forall>q \<in> set (map (plug p x) ps). plain_piece q"
proof -
  have "CHR ''{'' \<notin> set x \<Longrightarrow> plain_piece q \<Longrightarrow> plain_piece (plug p x q)" for q by (cases q) auto
  then show "CHR ''{'' \<notin> set x \<Longrightarrow> \<forall>q \<in> set ps. plain_piece q \<Longrightarrow> \<forall>q \<in> set (map (plug p x) ps). plain_piece q" by auto
qed

lemma holes_plug: "holes (map (plug p x) ps) = filter (\<lambda>h. h \<noteq> p) (holes ps)"
proof (induction ps)
  case (Cons q ps)
  then show ?case by (cases q) auto
qed simp

lemma render_plug:
  "render (\<lambda>h. case map_of ps h of Some v \<Rightarrow> v | None \<Rightarrow> braces h) (map (plug p x) qs) =
   render (\<lambda>h. case map_of ((p, x) # ps) h of Some v \<Rightarrow> v | None \<Rightarrow> braces h) qs"
proof (induction qs)
  case (Cons q qs)
  then show ?case by (cases q) auto
qed simp

text \<open>
  A template in which no hole occurs twice is filled in with all its parameters at once, whatever their order: a value
  does not disturb what is filled in after it as long as it has no brace and no dollar sign.
\<close>

lemma fill_renders:
  assumes "\<forall>(p, x) \<in> set params. CHR ''}'' \<notin> set p \<and> CHR ''$'' \<notin> set x \<and> CHR ''{'' \<notin> set x"
    and "distinct (holes ps)" and "\<forall>q \<in> set ps. plain_piece q"
  shows "fill params (render braces ps) = render (\<lambda>h. case map_of params h of Some v \<Rightarrow> v | None \<Rightarrow> braces h) ps"
  using assms
proof (induction params arbitrary: ps)
  case Nil
  then show ?case by (simp add: fill_def)
next
  case (Cons a params)
  obtain p x where a: "a = (p, x)" by force
  have "fill (a # params) (render braces ps) = fill params (replace_first (braces p) x (render braces ps))"
    by (simp add: fill_def a braces_def)
  also have "replace_first (braces p) x (render braces ps) = render braces (map (plug p x) ps)"
    using Cons.prems a replace_plugs [of p x ps "[]"] by (simp add: replace_first_def)
  also have "fill params \<dots> = render (\<lambda>h. case map_of params h of Some v \<Rightarrow> v | None \<Rightarrow> braces h) (map (plug p x) ps)"
  proof (rule Cons.IH)
    show "\<forall>(p, x) \<in> set params. CHR ''}'' \<notin> set p \<and> CHR ''$'' \<notin> set x \<and> CHR ''{'' \<notin> set x" using Cons.prems(1) by simp
    show "distinct (holes (map (plug p x) ps))" using Cons.prems(2) by (simp add: holes_plug)
    show "\<forall>q \<in> set (map (plug p x) ps). plain_piece q" using Cons.prems a by (intro plug_plain) auto
  qed
  finally show ?case by (simp add: render_plug a)
qed

text \<open>A second occurrence of a hole is left as it is, and a dollar sign in a value may vanish.\<close>

lemma second_hole_stays: "fill [(''n'', ''5'')] ''{n} of {n}'' = ''5 of {n}''"
  by (simp add: fill_def replace_first_def replace_from.simps startsWith_def)

lemma dollar_vanishes: "fill [(''price'', ''$$5'')] ''pay {price}'' = ''pay $5''"
  by (simp add: fill_def replace_first_def replace_from.simps startsWith_def)

end
