(* ===== verification/UserServices.thy ===== *)
theory UserServices
  imports SessionManager Authentication Devices MobileSync Notifications NotificationCenter PrivacyTools Monitoring AuditLog BackupManager Contracts NlpParser Assistants Locales
begin

text \<open>
  The services around the user: sessions and authentication, devices and their synchronisation, notifications,
  privacy, monitoring, audit, backups, contracts, assistants and languages.
\<close>

end
