(* ===== verification/NodeWallet.thy ===== *)
theory NodeWallet
  imports Json
begin

text \<open>
  The wallet that a node has loaded (core/node/src/rpc.rs and rpc_wallet.rs): the node keeps at
  most one, for all its clients, and signs only while it is unlocked. The wallet files, the
  decoding of addresses, the building of a payment and the handlers of the remaining methods are
  parameters (the record \<open>node_env\<close>).
\<close>

record WalletFile =
  private_keys :: "string list"
  addresses :: "string list"
  watch_only :: bool
  mnemonic :: "string option"
  descriptors :: "string list"

text \<open>Instants are seconds.\<close>

record LoadedWallet =
  lw_name :: string
  lw_wallet :: WalletFile
  passphrase_until :: "int option"
  encrypted :: bool
  lw_password :: "string option"

definition prune_private_descriptors :: "LoadedWallet \<Rightarrow> LoadedWallet" where
  "prune_private_descriptors lw =
     lw\<lparr>lw_wallet := (lw_wallet lw)\<lparr>descriptors := filter (\<lambda>d. \<not> str_includes (toLowerCase d) ''xprv'' \<and>
         \<not> str_includes (toLowerCase d) ''tprv'') (descriptors (lw_wallet lw))\<rparr>\<rparr>"

definition lock_sensitive_state :: "LoadedWallet \<Rightarrow> LoadedWallet" where
  "lock_sensitive_state lw =
     (let lw1 = lw\<lparr>passphrase_until := None, lw_password := None\<rparr>
      in if encrypted lw1
         then prune_private_descriptors (lw1\<lparr>lw_wallet := (lw_wallet lw1)\<lparr>private_keys := [], mnemonic := None\<rparr>\<rparr>)
         else lw1)"

definition refresh_lock_state :: "int \<Rightarrow> LoadedWallet \<Rightarrow> LoadedWallet" where
  "refresh_lock_state now lw =
     (if encrypted lw \<and> (case passphrase_until lw of None \<Rightarrow> True | Some t \<Rightarrow> t \<le> now)
      then lock_sensitive_state lw else lw)"

definition is_unlocked :: "int \<Rightarrow> LoadedWallet \<Rightarrow> bool" where
  "is_unlocked now lw = (if \<not> encrypted lw then True else case passphrase_until lw of None \<Rightarrow> False | Some t \<Rightarrow> t > now)"

section \<open>The state of a node and its parameters\<close>

text \<open>
  \<open>clock s (ncalls s)\<close> is the time of the next call, \<open>world\<close> everything else: files, chain and
  mempool.
\<close>

record 'c node_state =
  loaded_wallet :: "LoadedWallet option"
  clock :: "nat \<Rightarrow> int"
  ncalls :: nat
  world :: 'c

datatype rpc_result = RpcOk json | RpcErr int string

record 'c node_env =
  wallet_storage_info :: "string \<Rightarrow> 'c \<Rightarrow> string + bool"
  load_wallet :: "string \<Rightarrow> string option \<Rightarrow> 'c \<Rightarrow> string + WalletFile"
  address_valid :: "string \<Rightarrow> bool"
  pay :: "WalletFile \<Rightarrow> string \<Rightarrow> nat \<Rightarrow> 'c \<Rightarrow> rpc_result \<times> 'c"
  other_methods :: "string \<Rightarrow> json list \<Rightarrow> LoadedWallet option \<times> 'c \<Rightarrow> rpc_result \<times> LoadedWallet option \<times> 'c"

fun as_str :: "jval \<Rightarrow> string option" where
  "as_str (Some (JStr s)) = Some s"
| "as_str _ = None"

text \<open>\<open>as_u64\<close> of a number that JSON prints.\<close>

fun as_u64 :: "jval \<Rightarrow> nat option" where
  "as_u64 (Some (JNum x)) = (if x = of_int \<lfloor>x\<rfloor> \<and> 0 \<le> x \<and> x < 2 ^ 64 then Some (nat \<lfloor>x\<rfloor>) else None)"
| "as_u64 _ = None"

definition param :: "nat \<Rightarrow> json list \<Rightarrow> jval" where
  "param k ps = (if k < length ps then Some (ps ! k) else None)"

section \<open>Handlers\<close>

definition rpc_walletpassphrase :: "'c node_env \<Rightarrow> int \<Rightarrow> json list \<Rightarrow> 'c node_state \<Rightarrow> rpc_result \<times> 'c node_state" where
  "rpc_walletpassphrase env now ps s =
     (case as_str (param 0 ps) of
        None \<Rightarrow> (RpcErr (-1) ''missing passphrase'', s)
      | Some p \<Rightarrow>
          let timeout_secs = (case as_u64 (param 1 ps) of None \<Rightarrow> 60 | Some t \<Rightarrow> t)
          in case loaded_wallet s of
               None \<Rightarrow> (RpcErr (-4) ''no wallet loaded'', s)
             | Some lw \<Rightarrow>
                 if \<not> encrypted lw then (RpcErr (-15) ''wallet is not encrypted'', s)
                 else case load_wallet env (lw_name lw) (Some p) (world s) of
                   Inl _ \<Rightarrow> (RpcErr (-14) ''incorrect passphrase'', s)
                 | Inr w \<Rightarrow>
                     (RpcOk JNull, s\<lparr>loaded_wallet := Some (lw\<lparr>lw_wallet := w,
                        passphrase_until := Some (now + int timeout_secs), lw_password := Some p\<rparr>)\<rparr>))"

definition rpc_walletlock :: "'c node_state \<Rightarrow> rpc_result \<times> 'c node_state" where
  "rpc_walletlock s =
     (case loaded_wallet s of
        None \<Rightarrow> (RpcErr (-4) ''no wallet loaded'', s)
      | Some lw \<Rightarrow> (RpcOk JNull, s\<lparr>loaded_wallet := Some (lock_sensitive_state lw)\<rparr>))"

definition rpc_loadwallet :: "'c node_env \<Rightarrow> json list \<Rightarrow> 'c node_state \<Rightarrow> rpc_result \<times> 'c node_state" where
  "rpc_loadwallet env ps s =
     (case as_str (param 0 ps) of
        None \<Rightarrow> (RpcErr (-1) ''missing wallet name'', s)
      | Some name \<Rightarrow>
          (case wallet_storage_info env name (world s) of
             Inl e \<Rightarrow> (RpcErr (-4) (''load failed: '' @ e), s)
           | Inr enc \<Rightarrow>
               (case load_wallet env name (as_str (param 1 ps)) (world s) of
                  Inl e \<Rightarrow> (RpcErr (-4) (''load failed: '' @ e), s)
                | Inr w \<Rightarrow>
                    let lw = \<lparr>lw_name = name, lw_wallet = w, passphrase_until = None, encrypted = enc, lw_password = None\<rparr>;
                        lw1 = (if encrypted lw then lock_sensitive_state lw else lw)
                    in (RpcOk (JObj [(''name'', JStr name), (''encrypted'', JBool enc)]), s\<lparr>loaded_wallet := Some lw1\<rparr>))))"

definition rpc_unloadwallet :: "'c node_state \<Rightarrow> rpc_result \<times> 'c node_state" where
  "rpc_unloadwallet s =
     (case loaded_wallet s of
        None \<Rightarrow> (RpcErr (-4) ''no wallet loaded'', s)
      | Some lw \<Rightarrow> (RpcOk (JObj [(''name'', JStr (lw_name lw))]), s\<lparr>loaded_wallet := None\<rparr>))"

definition rpc_dumpprivkey :: "int \<Rightarrow> json list \<Rightarrow> 'c node_state \<Rightarrow> rpc_result \<times> 'c node_state" where
  "rpc_dumpprivkey now ps s =
     (case as_str (param 0 ps) of
        None \<Rightarrow> (RpcErr (-1) ''missing address'', s)
      | Some a \<Rightarrow>
          (case loaded_wallet s of
             None \<Rightarrow> (RpcErr (-4) ''no wallet loaded'', s)
           | Some lw0 \<Rightarrow>
               let lw = refresh_lock_state now lw0; s1 = s\<lparr>loaded_wallet := Some lw\<rparr>
               in if watch_only (lw_wallet lw) then (RpcErr (-4) ''watch-only wallet has no private keys'', s1)
                  else if \<not> is_unlocked now lw then (RpcErr (-13) ''wallet is locked; call walletpassphrase first'', s1)
                  else case find_index (\<lambda>b. b = a) (addresses (lw_wallet lw)) of
                    Some i \<Rightarrow> if i < length (private_keys (lw_wallet lw))
                      then (RpcOk (JStr (private_keys (lw_wallet lw) ! i)), s1)
                      else (RpcErr (-4) ''address not found in wallet'', s1)
                  | None \<Rightarrow> (RpcErr (-4) ''address not found in wallet'', s1)))"

definition rpc_sendtoaddress :: "'c node_env \<Rightarrow> int \<Rightarrow> json list \<Rightarrow> 'c node_state \<Rightarrow> rpc_result \<times> 'c node_state" where
  "rpc_sendtoaddress env now ps s =
     (case as_str (param 0 ps) of
        None \<Rightarrow> (RpcErr (-1) ''missing address'', s)
      | Some dest \<Rightarrow>
          (case as_u64 (param 1 ps) of
             None \<Rightarrow> (RpcErr (-1) ''missing amount'', s)
           | Some amount \<Rightarrow>
               if \<not> address_valid env dest then (RpcErr (-1) ''invalid address'', s)
               else case loaded_wallet s of
                 None \<Rightarrow> (RpcErr (-4) ''no wallet loaded; use loadwallet first'', s)
               | Some lw0 \<Rightarrow>
                   let lw = refresh_lock_state now lw0; s1 = s\<lparr>loaded_wallet := Some lw\<rparr>
                   in if watch_only (lw_wallet lw) then (RpcErr (-4) ''watch-only wallet cannot sign'', s1)
                      else if \<not> is_unlocked now lw then (RpcErr (-13) ''wallet is locked; call walletpassphrase first'', s1)
                      else if private_keys (lw_wallet lw) = [] then (RpcErr (-4) ''wallet has no private keys'', s1)
                      else (case pay env (lw_wallet lw) dest amount (world s1) of (r, c) \<Rightarrow> (r, s1\<lparr>world := c\<rparr>))))"

definition node_dispatch :: "'c node_env \<Rightarrow> string \<Rightarrow> json list \<Rightarrow> 'c node_state \<Rightarrow> rpc_result \<times> 'c node_state" where
  "node_dispatch env m ps s0 =
     (let now = clock s0 (ncalls s0); s = s0\<lparr>ncalls := Suc (ncalls s0)\<rparr>
      in if m = ''walletpassphrase'' then rpc_walletpassphrase env now ps s
         else if m = ''walletlock'' then rpc_walletlock s
         else if m = ''loadwallet'' then rpc_loadwallet env ps s
         else if m = ''unloadwallet'' then rpc_unloadwallet s
         else if m = ''dumpprivkey'' then rpc_dumpprivkey now ps s
         else if m = ''sendtoaddress'' then rpc_sendtoaddress env now ps s
         else (case other_methods env m ps (loaded_wallet s, world s) of
                 (r, lw, c) \<Rightarrow> (r, s\<lparr>loaded_wallet := lw, world := c\<rparr>)))"

section \<open>What the lock promises\<close>

text \<open>A locked wallet that is encrypted has no private key, no mnemonic and no password in memory.\<close>

definition wiped :: "LoadedWallet \<Rightarrow> bool" where
  "wiped lw \<longleftrightarrow> passphrase_until lw = None \<and> lw_password lw = None \<and>
     (encrypted lw \<longrightarrow> private_keys (lw_wallet lw) = [] \<and> mnemonic (lw_wallet lw) = None)"

lemma lock_wipes [simp]: "wiped (lock_sensitive_state lw)"
  by (simp add: wiped_def lock_sensitive_state_def prune_private_descriptors_def Let_def)

lemma lock_keeps [simp]: "lw_name (lock_sensitive_state lw) = lw_name lw" "encrypted (lock_sensitive_state lw) = encrypted lw"
  by (simp_all add: lock_sensitive_state_def prune_private_descriptors_def Let_def)

lemma refresh_unlocked: "is_unlocked now lw \<Longrightarrow> refresh_lock_state now lw = lw"
  by (auto simp: is_unlocked_def refresh_lock_state_def split: if_splits option.splits)

lemma refresh_then_unlocked: "is_unlocked now (refresh_lock_state now lw) \<Longrightarrow> is_unlocked now lw \<and> refresh_lock_state now lw = lw"
  by (auto simp: refresh_lock_state_def is_unlocked_def lock_sensitive_state_def prune_private_descriptors_def Let_def split: if_splits option.splits)

text \<open>
  Keys leave an encrypted wallet, and payments are made from it, only before the time up to which a
  correct passphrase unlocked it.
\<close>

lemma dump_needs_unlock:
  assumes "rpc_dumpprivkey now ps s = (RpcOk v, t)"
  shows "\<exists>lw. loaded_wallet s = Some lw \<and> is_unlocked now lw"
  using assms refresh_then_unlocked
  by (auto simp: rpc_dumpprivkey_def Let_def split: option.splits if_splits)

lemma send_needs_unlock:
  assumes "rpc_sendtoaddress env now ps s = (RpcOk v, t)"
  shows "\<exists>lw dest amount. loaded_wallet s = Some lw \<and> is_unlocked now lw \<and> param 0 ps = Some (JStr dest) \<and>
    as_u64 (param 1 ps) = Some amount \<and> pay env (lw_wallet lw) dest amount (world s) = (RpcOk v, world t)"
proof -
  have "as_str x = Some d \<Longrightarrow> x = Some (JStr d)" for x d by (cases x rule: as_str.cases) auto
  with assms refresh_then_unlocked show ?thesis
    by (fastforce simp: rpc_sendtoaddress_def Let_def split: option.splits if_splits prod.splits)
qed

end
