(* ===== verification/WalletServer.thy ===== *)
theory WalletServer
  imports NodeWallet
begin

text \<open>
  The server side of the web wallet: the routes under apps/web/wallet/app/api and their client of
  the node (_utils/rpc.ts, _utils/auth.ts). A route is a process: it asks the node, waits for the
  answer and goes on. Processes can be run one at a time or interleaved at every call, as the
  server interleaves the requests of its users. NodeWallet has the other side.
\<close>

section \<open>Processes that call the node\<close>

text \<open>A request is a method with its parameters; the id that only labels it is left out.\<close>

type_synonym rpc_request = "string \<times> json list"

text \<open>\<open>http_body\<close>: the text of a response is empty, no JSON, or the text of a value.\<close>

record http =
  http_status :: int
  http_body :: "json item"

definition http_ok :: "http \<Rightarrow> bool" where
  "http_ok r \<longleftrightarrow> 200 \<le> http_status r \<and> http_status r \<le> 299"

text \<open>\<open>Inl\<close>: \<open>fetch\<close> rejects with an error of this message.\<close>

type_synonym answer = "string + http"

datatype 'r proc = Ret 'r | Rpc rpc_request "answer \<Rightarrow> 'r proc"

primrec pthen :: "'r proc \<Rightarrow> ('r \<Rightarrow> 'q proc) \<Rightarrow> 'q proc" where
  "pthen (Ret r) f = f r"
| "pthen (Rpc q k) f = Rpc q (\<lambda>a. pthen (k a) f)"

text \<open>\<open>WalletRpcError\<close> has a message, a status and a code; any other error only a message.\<close>

datatype server_error = WalletRpcError string int jval | OtherError string

type_synonym 'a fallible = "(server_error + 'a) proc"

definition pret :: "'a \<Rightarrow> 'a fallible" where
  "pret x = Ret (Inr x)"

definition pthrow :: "server_error \<Rightarrow> 'a fallible" where
  "pthrow e = Ret (Inl e)"

definition pbind :: "'a fallible \<Rightarrow> ('a \<Rightarrow> 'b fallible) \<Rightarrow> 'b fallible" where
  "pbind m f = pthen m (\<lambda>r. case r of Inl e \<Rightarrow> pthrow e | Inr x \<Rightarrow> f x)"

text \<open>\<open>m.catch(() => undefined)\<close>\<close>

definition pignore :: "'a fallible \<Rightarrow> unit fallible" where
  "pignore m = pthen m (\<lambda>_. pret ())"

text \<open>\<open>try { m } finally { h }\<close>\<close>

definition pfinally :: "'a fallible \<Rightarrow> unit fallible \<Rightarrow> 'a fallible" where
  "pfinally m h = pthen m (\<lambda>r. pthen h (\<lambda>q. case q of Inl e \<Rightarrow> pthrow e | Inr _ \<Rightarrow> Ret r))"

definition plift :: "string + 'a \<Rightarrow> 'a fallible" where
  "plift r = (case r of Inl m \<Rightarrow> pthrow (OtherError m) | Inr x \<Rightarrow> pret x)"

text \<open>\<open>for (const x of xs) ...\<close>\<close>

primrec pfor :: "('a \<Rightarrow> 'b \<Rightarrow> 'b fallible) \<Rightarrow> 'a list \<Rightarrow> 'b \<Rightarrow> 'b fallible" where
  "pfor f [] acc = pret acc"
| "pfor f (x # xs) acc = pbind (f x acc) (pfor f xs)"

section \<open>The client of the node\<close>

text \<open>\<open>to_text\<close> is \<open>String(v)\<close> for values that are not strings.\<close>

definition js_String :: "(json \<Rightarrow> string) \<Rightarrow> json \<Rightarrow> string" where
  "js_String to_text v = (case v of JStr s \<Rightarrow> s | _ \<Rightarrow> to_text v)"

definition http_code :: "int \<Rightarrow> string" where
  "http_code st = ''HTTP '' @ show_int st"

text \<open>\<open>v || d\<close> for a message.\<close>

definition text_or :: "(json \<Rightarrow> string) \<Rightarrow> jval \<Rightarrow> string \<Rightarrow> string" where
  "text_or to_text v d = (if json_truthy v then js_String to_text (the v) else d)"

definition user_errors :: "int list" where
  "user_errors = [-1, -4, -6, -13, -14, -15]"

definition error_status :: "jval \<Rightarrow> int" where
  "error_status code = (if code \<in> (\<lambda>c. Some (JNum (of_int c))) ` set user_errors then 400 else 502)"

definition read_payload :: "(json \<Rightarrow> string) \<Rightarrow> http \<Rightarrow> server_error + jval" where
  "read_payload to_text r =
     (case parse_item (JObj []) (http_body r) of
        Inl _ \<Rightarrow> (case http_body r of
            Garbled t \<Rightarrow> Inl (WalletRpcError t (if http_status r \<noteq> 0 then http_status r else 502) None)
          | _ \<Rightarrow> Inl (OtherError []))
      | Inr payload \<Rightarrow>
          (case property ''error'' (Some payload) of
             Inl m \<Rightarrow> Inl (OtherError m)
           | Inr err \<Rightarrow>
               if \<not> http_ok r then
                 Inl (WalletRpcError (text_or to_text (opt_property ''message'' err) (http_code (http_status r)))
                        (http_status r) (opt_property ''code'' err))
               else if json_truthy err then
                 (let code = opt_property ''code'' err
                  in Inl (WalletRpcError (text_or to_text (opt_property ''message'' err) ''RPC request failed'')
                            (error_status code) code))
               else Inr (opt_property ''result'' (Some payload))))"

definition callWalletRpc :: "(json \<Rightarrow> string) \<Rightarrow> string \<Rightarrow> json list \<Rightarrow> jval fallible" where
  "callWalletRpc to_text m ps =
     Rpc (m, ps) (\<lambda>a. case a of Inl e \<Rightarrow> pthrow (OtherError e) | Inr r \<Rightarrow> Ret (read_payload to_text r))"

definition js_endsWith :: "string \<Rightarrow> string \<Rightarrow> bool" where
  "js_endsWith s e \<longleftrightarrow> suffix e s"

definition normalizeWalletName :: "string \<Rightarrow> string" where
  "normalizeWalletName name =
     (let trimmed = trim name
      in if trimmed = [] then []
         else if js_endsWith (toLowerCase trimmed) ''.dat'' \<or> js_endsWith (toLowerCase trimmed) ''.json'' then trimmed
         else trimmed @ ''.dat'')"

text \<open>\<open>shared\<close> is \<open>SHARED_WALLET_PASSPHRASE\<close>, from the environment of the server.\<close>

definition shared_passphrase :: "string option \<Rightarrow> string option \<Rightarrow> string" where
  "shared_passphrase a b = (if truthy_string a then the a else if truthy_string b then the b else [])"

definition resolveWalletPassphrase :: "string \<Rightarrow> string option \<Rightarrow> server_error + string" where
  "resolveWalletPassphrase shared p =
     (let given = (case p of None \<Rightarrow> [] | Some x \<Rightarrow> trim x);
          candidate = (if given \<noteq> [] then given else trim shared)
      in if candidate = []
         then Inl (WalletRpcError ''wallet passphrase is required; set KUBERCOIN_WALLET_SHARED_PASSPHRASE or provide passphrase'' 400 None)
         else Inr candidate)"

definition withLoadedWallet ::
    "(json \<Rightarrow> string) \<Rightarrow> string \<Rightarrow> string \<Rightarrow> 'a fallible \<Rightarrow> string option \<Rightarrow> bool \<Rightarrow> 'a fallible" where
  "withLoadedWallet to_text shared walletName handler p unlock =
     (let normalizedName = normalizeWalletName walletName;
          call = callWalletRpc to_text
      in if normalizedName = [] then pthrow (WalletRpcError ''wallet name is required'' 400 None)
         else
           pbind (Ret (resolveWalletPassphrase shared p)) (\<lambda>passphrase.
           pbind (pignore (call ''unloadwallet'' [])) (\<lambda>_.
           pbind (call ''loadwallet'' [JStr normalizedName, JStr passphrase]) (\<lambda>_.
           pfinally
             (if unlock then pbind (call ''walletpassphrase'' [JStr passphrase, JNum 30]) (\<lambda>_. handler) else handler)
             (if unlock then pbind (pignore (call ''walletlock'' [])) (\<lambda>_. pignore (call ''unloadwallet'' []))
              else pignore (call ''unloadwallet'' []))))))"

text \<open>\<open>getWalletAuthHeaders\<close>; \<open>is_scheme\<close> is the regular expression \<open>/^(Bearer|ApiKey)\s/i\<close>.\<close>

definition is_scheme :: "string \<Rightarrow> bool" where
  "is_scheme key \<longleftrightarrow>
     list_ex (\<lambda>w. startsWith (toLowerCase key) w \<and> length w < length key \<and> is_space (key ! length w)) [''bearer'', ''apikey'']"

definition getWalletAuthHeaders :: "string option \<Rightarrow> (string \<times> string) list" where
  "getWalletAuthHeaders env =
     (if \<not> truthy_string env then []
      else [(''Authorization'', if is_scheme (the env) then the env else ''Bearer '' @ the env)])"

section \<open>Routes\<close>

record route_response =
  rs_status :: int
  rs_body :: json

definition ok_json :: "json \<Rightarrow> route_response" where
  "ok_json b = \<lparr>rs_status = 200, rs_body = b\<rparr>"

definition error_json :: "string \<Rightarrow> int \<Rightarrow> route_response" where
  "error_json m st = \<lparr>rs_status = st, rs_body = JObj [(''error'', JStr m)]\<rparr>"

text \<open>The \<open>catch\<close> clause that all routes end with.\<close>

definition respond :: "string \<Rightarrow> route_response fallible \<Rightarrow> route_response proc" where
  "respond failed m = pthen m (\<lambda>r. Ret (case r of
       Inr x \<Rightarrow> x
     | Inl (WalletRpcError msg st _) \<Rightarrow> error_json msg st
     | Inl (OtherError msg) \<Rightarrow> error_json (if msg \<noteq> [] then msg else failed) 500))"

definition as_array :: "jval \<Rightarrow> string + json list" where
  "as_array v = (case v of Some (JArr xs) \<Rightarrow> Inr xs | _ \<Rightarrow> Inl ''value is not iterable'')"

definition as_string :: "json \<Rightarrow> string + string" where
  "as_string v = (case v of JStr s \<Rightarrow> Inr s | JNull \<Rightarrow> Inl ''Cannot read properties of null'' | _ \<Rightarrow> Inl ''w.endsWith is not a function'')"

fun map_result :: "('a \<Rightarrow> 'e + 'b) \<Rightarrow> 'a list \<Rightarrow> 'e + 'b list" where
  "map_result f [] = Inr []"
| "map_result f (x # xs) =
     (case f x of Inl e \<Rightarrow> Inl e | Inr y \<Rightarrow> (case map_result f xs of Inl e \<Rightarrow> Inl e | Inr ys \<Rightarrow> Inr (y # ys)))"

definition strip_dat :: "string \<Rightarrow> string" where
  "strip_dat w = (if js_endsWith w ''.dat.dat'' then take (length w - 4) w else w)"

definition wallets_GET :: "(json \<Rightarrow> string) \<Rightarrow> route_response proc" where
  "wallets_GET to_text =
     respond ''Failed to load wallets''
       (pbind (callWalletRpc to_text ''listwallets'' []) (\<lambda>v.
        pbind (plift (as_array v)) (\<lambda>ws.
        pbind (plift (map_result as_string ws)) (\<lambda>ns.
        pret (ok_json (JObj [(''wallets'', JArr (map (JStr \<circ> strip_dat) ns))]))))))"

definition name_required :: "route_response" where
  "name_required = error_json ''Wallet name is required'' 400"

text \<open>
  The three calls of \<open>Promise.all\<close> are made in this order; the first error in it is reported.
\<close>

definition balance_of :: "(json \<Rightarrow> string) \<Rightarrow> json fallible" where
  "balance_of to_text =
     pthen (callWalletRpc to_text ''getwalletinfo'' []) (\<lambda>r1.
     pthen (callWalletRpc to_text ''listreceivedbyaddress'' [JNum 0]) (\<lambda>r2.
     pthen (callWalletRpc to_text ''getblockcount'' []) (\<lambda>r3.
     pbind (Ret r1) (\<lambda>walletInfo. pbind (Ret r2) (\<lambda>received. pbind (Ret r3) (\<lambda>height.
     pbind (plift (case received of None \<Rightarrow> Inl ''Cannot read properties of undefined''
                    | Some JNull \<Rightarrow> Inl ''Cannot read properties of null''
                    | Some (JArr (x # _)) \<Rightarrow> Inr (Some x) | _ \<Rightarrow> Inr None)) (\<lambda>first.
     pbind (plift (property ''balance'' walletInfo)) (\<lambda>balance.
     let address = opt_property ''address'' first
     in pret (object [(''address'', if json_truthy address then address else Some (JStr [])), (''height'', height),
                (''spendable'', Some (nullish balance (JNum 0))), (''total'', Some (nullish balance (JNum 0))),
                (''immature'', Some (JNum 0))])))))))))"

definition balance_GET :: "(json \<Rightarrow> string) \<Rightarrow> string \<Rightarrow> string option \<Rightarrow> route_response proc" where
  "balance_GET to_text shared name =
     (if \<not> truthy_string name then Ret name_required
      else respond ''Failed to load balance''
        (pbind (withLoadedWallet to_text shared (the name) (balance_of to_text) None False) (\<lambda>d. pret (ok_json d))))"

text \<open>\<open>typeof tx.txid === 'string' ? tx.txid : ''\<close>\<close>

definition txid_of :: "jval \<Rightarrow> string + string" where
  "txid_of tx = (case property ''txid'' tx of Inl e \<Rightarrow> Inl e | Inr (Some (JStr t)) \<Rightarrow> Inr t | Inr _ \<Rightarrow> Inr [])"

definition collect_tx :: "json \<Rightarrow> string list \<times> json list \<Rightarrow> string + string list \<times> json list" where
  "collect_tx tx acc =
     (case txid_of (Some tx) of
        Inl e \<Rightarrow> Inl e
      | Inr t \<Rightarrow> Inr (if t = [] \<or> t \<in> set (fst acc) then acc else (t # fst acc, snd acc @ [tx])))"

definition history_of :: "(json \<Rightarrow> string) \<Rightarrow> json fallible" where
  "history_of to_text =
     pbind (callWalletRpc to_text ''listreceivedbyaddress'' [JNum 0]) (\<lambda>v.
     pbind (plift (as_array v)) (\<lambda>addresses.
     pbind (pfor (\<lambda>entry acc.
         pbind (plift (property ''address'' (Some entry))) (\<lambda>address.
         pbind (callWalletRpc to_text ''listtransactions'' [nullish address JNull, JNum 100, JNum 0, JBool True]) (\<lambda>v.
         pbind (plift (as_array v)) (\<lambda>txs.
         pfor (\<lambda>tx acc. plift (collect_tx tx acc)) txs acc)))) addresses ([], [])) (\<lambda>acc.
     pret (JObj [(''transactions'', JArr (snd acc))]))))"

definition history_GET :: "(json \<Rightarrow> string) \<Rightarrow> string \<Rightarrow> string option \<Rightarrow> route_response proc" where
  "history_GET to_text shared name =
     (if \<not> truthy_string name then Ret name_required
      else respond ''Failed to load history''
        (pbind (withLoadedWallet to_text shared (the name) (history_of to_text) None False) (\<lambda>d. pret (ok_json d))))"

text \<open>A private key that cannot be dumped is skipped.\<close>

definition dump_keys :: "(json \<Rightarrow> string) \<Rightarrow> json list \<Rightarrow> json list fallible" where
  "dump_keys to_text entries =
     pfor (\<lambda>entry keys.
       pthen (pbind (plift (property ''address'' (Some entry))) (\<lambda>address.
              callWalletRpc to_text ''dumpprivkey'' [nullish address JNull])) (\<lambda>r.
       pret (case r of Inl _ \<Rightarrow> keys | Inr key \<Rightarrow> keys @ [nullish key JNull]))) entries []"

text \<open>\<open>Object.fromEntries\<close> of the entries that have a label.\<close>

definition address_labels :: "(json \<Rightarrow> string) \<Rightarrow> json list \<Rightarrow> json" where
  "address_labels to_text entries =
     object (foldl (\<lambda>m e. AList.update (case opt_property ''address'' (Some e) of None \<Rightarrow> ''undefined'' | Some a \<Rightarrow> js_String to_text a) (opt_property ''label'' (Some e)) m) []
       (filter (\<lambda>e. json_truthy (opt_property ''label'' (Some e))) entries))"

definition export_of :: "(json \<Rightarrow> string) \<Rightarrow> string \<Rightarrow> json fallible" where
  "export_of to_text name =
     pthen (callWalletRpc to_text ''getwalletinfo'' []) (\<lambda>r1.
     pthen (callWalletRpc to_text ''listreceivedbyaddress'' [JNum 0]) (\<lambda>r2.
     pthen (callWalletRpc to_text ''listdescriptors'' []) (\<lambda>r3.
     pbind (Ret r1) (\<lambda>walletInfo. pbind (Ret r2) (\<lambda>received.
     let descriptors = (case r3 of Inl _ \<Rightarrow> Some (JObj [(''descriptors'', JArr [])]) | Inr v \<Rightarrow> v)
     in
     pbind (plift (property ''watch_only'' walletInfo)) (\<lambda>watch_only.
     pbind (if json_truthy watch_only then pret []
            else pbind (plift (as_array received)) (dump_keys to_text)) (\<lambda>privateKeys.
     pbind (plift (as_array received)) (\<lambda>addresses.
     pbind (plift (map_result (\<lambda>e. property ''address'' (Some e)) addresses)) (\<lambda>addrs.
     pbind (plift (property ''descriptors'' descriptors)) (\<lambda>ds.
     pbind (plift (if json_truthy ds then as_array ds else Inr [])) (\<lambda>descs.
     pbind (plift (map_result (\<lambda>e. property ''desc'' (Some e)) descs)) (\<lambda>dtexts.
     pret (object
       [(''version'', Some (nullish (opt_property ''walletversion'' walletInfo) (JNum 1))),
        (''label'', Some (nullish (opt_property ''walletname'' walletInfo) (JStr (normalizeWalletName name)))),
        (''network'', Some (JStr ''mainnet'')),
        (''private_keys'', Some (JArr privateKeys)),
        (''addresses'', Some (JArr (map (\<lambda>a. nullish a JNull) addrs))),
        (''address_labels'', Some (address_labels to_text addresses)),
        (''birthday_height'', Some (JNum 0)),
        (''watch_only'', Some (JBool (json_truthy watch_only))),
        (''mnemonic'', Some JNull),
        (''xpub'', Some JNull),
        (''descriptors'', Some (JArr (map (\<lambda>a. nullish a JNull) dtexts)))])))))))))))))"

definition export_GET :: "(json \<Rightarrow> string) \<Rightarrow> string \<Rightarrow> string option \<Rightarrow> route_response proc" where
  "export_GET to_text shared name =
     (if \<not> truthy_string name then Ret name_required
      else respond ''Export failed''
        (pbind (withLoadedWallet to_text shared (the name) (export_of to_text (the name)) None True) (\<lambda>d. pret (ok_json d))))"

definition create_POST :: "(json \<Rightarrow> string) \<Rightarrow> string \<Rightarrow> string + json \<Rightarrow> route_response proc" where
  "create_POST to_text shared request =
     respond ''Create wallet failed''
       (pbind (plift request) (\<lambda>body.
        let name = normalizeWalletName (text_or to_text (opt_property ''name'' (Some body)) [])
        in if name = [] then pret name_required
           else
             pbind (case opt_property ''passphrase'' (Some body) of
                 None \<Rightarrow> Ret (resolveWalletPassphrase shared None)
               | Some JNull \<Rightarrow> Ret (resolveWalletPassphrase shared None)
               | Some (JStr p) \<Rightarrow> Ret (resolveWalletPassphrase shared (Some p))
               | Some _ \<Rightarrow> pthrow (OtherError ''passphrase?.trim is not a function'')) (\<lambda>passphrase.
             pbind (pignore (callWalletRpc to_text ''unloadwallet'' [])) (\<lambda>_.
             pbind (callWalletRpc to_text ''createwallet'' [JStr name, JStr passphrase, JBool False, JBool False]) (\<lambda>data.
             pbind (pignore (callWalletRpc to_text ''unloadwallet'' [])) (\<lambda>_.
             pbind (plift (property ''address'' data)) (\<lambda>address.
             pret (ok_json (object [(''name'', Some (JStr name)), (''address'', address), (''mnemonic'', Some JNull),
                                    (''encrypted'', Some (JBool True))]))))))))) "

text \<open>
  \<open>Number(v)\<close>, \<open>None\<close> when it is not finite; \<open>num\<close> is it for strings, arrays and objects.
\<close>

fun js_Number :: "(json \<Rightarrow> jsnum option) \<Rightarrow> jval \<Rightarrow> jsnum option" where
  "js_Number num None = None"
| "js_Number num (Some JNull) = Some 0"
| "js_Number num (Some (JBool b)) = Some (if b then 1 else 0)"
| "js_Number num (Some (JNum x)) = Some x"
| "js_Number num (Some v) = num v"

definition Math_trunc :: "jsnum \<Rightarrow> int" where
  "Math_trunc x = (if x < 0 then \<lceil>x\<rceil> else \<lfloor>x\<rfloor>)"

definition txid_field :: "jval \<Rightarrow> jval" where
  "txid_field result =
     (case result of
        Some (JObj fs) \<Rightarrow> map_of fs ''txid''
      | Some (JArr _) \<Rightarrow> None
      | v \<Rightarrow> v)"

definition send_POST :: "(json \<Rightarrow> string) \<Rightarrow> (json \<Rightarrow> jsnum option) \<Rightarrow> string \<Rightarrow> string + json \<Rightarrow> route_response proc" where
  "send_POST to_text num shared request =
     respond ''Send transaction failed''
       (pbind (plift request) (\<lambda>body.
        let src = text_or to_text (opt_property ''from'' (Some body)) [];
            dest = text_or to_text (opt_property ''to'' (Some body)) []
        in case js_Number num (opt_property ''amount'' (Some body)) of
             None \<Rightarrow> pret (error_json ''from, to, and amount are required'' 400)
           | Some amount \<Rightarrow>
               if src = [] \<or> dest = [] \<or> amount \<le> 0
               then pret (error_json ''from, to, and amount are required'' 400)
               else
                 pbind (withLoadedWallet to_text shared src
                    (callWalletRpc to_text ''sendtoaddress'' [JStr dest, JNum (of_int (Math_trunc amount))]) None True) (\<lambda>result.
                 pret (ok_json (object [(''ok'', Some (JBool True)), (''txid'', txid_field result)])))))"

section \<open>Running one request\<close>

primrec run :: "(rpc_request \<Rightarrow> 'n \<Rightarrow> answer \<times> 'n) \<Rightarrow> 'r proc \<Rightarrow> 'n \<Rightarrow> 'r \<times> 'n" where
  "run net (Ret r) = (\<lambda>s. (r, s))"
| "run net (Rpc q k) = (\<lambda>s. case net q s of (a, t) \<Rightarrow> run net (k a) t)"

text \<open>The requests that a process makes.\<close>

primrec calls :: "(rpc_request \<Rightarrow> 'n \<Rightarrow> answer \<times> 'n) \<Rightarrow> 'r proc \<Rightarrow> 'n \<Rightarrow> rpc_request list" where
  "calls net (Ret r) = (\<lambda>s. [])"
| "calls net (Rpc q k) = (\<lambda>s. q # (case net q s of (a, t) \<Rightarrow> calls net (k a) t))"

lemma run_pthen [simp]: "run net (pthen p f) s = (case run net p s of (r, t) \<Rightarrow> run net (f r) t)"
  by (induction p arbitrary: s) (auto split: prod.split)

lemma calls_pthen [simp]: "calls net (pthen p f) s = calls net p s @ (case run net p s of (r, t) \<Rightarrow> calls net (f r) t)"
  by (induction p arbitrary: s) (auto split: prod.split)

lemma pthen_assoc [simp]: "pthen (pthen p f) g = pthen p (\<lambda>r. pthen (f r) g)"
  by (induction p) auto

lemmas proc_defs = pbind_def pignore_def pfinally_def pret_def pthrow_def

text \<open>The outcome of one call.\<close>

definition outcome :: "(json \<Rightarrow> string) \<Rightarrow> answer \<Rightarrow> server_error + jval" where
  "outcome to_text a = (case a of Inl e \<Rightarrow> Inl (OtherError e) | Inr r \<Rightarrow> read_payload to_text r)"

lemma run_call [simp]:
  "run net (callWalletRpc to_text m ps) s = (case net (m, ps) s of (a, t) \<Rightarrow> (outcome to_text a, t))"
  "calls net (callWalletRpc to_text m ps) s = [(m, ps)]"
  by (auto simp: callWalletRpc_def outcome_def pthrow_def split: prod.split sum.split)

text \<open>What a request with a loaded wallet does, in terms of the node's answers.\<close>

lemma run_withLoadedWallet:
  assumes "normalizeWalletName n \<noteq> []" and "resolveWalletPassphrase shared po = Inr p"
  shows "run net (withLoadedWallet to_text shared n handler po unlock) s =
    (case net (''loadwallet'', [JStr (normalizeWalletName n), JStr p]) (snd (net (''unloadwallet'', []) s)) of (a1, s2) \<Rightarrow>
      (case outcome to_text a1 of
         Inl e \<Rightarrow> (Inl e, s2)
       | Inr _ \<Rightarrow>
           (case (if unlock then
                    (case net (''walletpassphrase'', [JStr p, JNum 30]) s2 of (a2, s3) \<Rightarrow>
                       (case outcome to_text a2 of Inl e \<Rightarrow> (Inl e, s3) | Inr _ \<Rightarrow> run net handler s3))
                  else run net handler s2) of (r, s4) \<Rightarrow>
             (r, snd (net (''unloadwallet'', []) (if unlock then snd (net (''walletlock'', []) s4) else s4))))))"
  using assms by (auto simp: withLoadedWallet_def proc_defs Let_def split: prod.split sum.split)

text \<open>When the wallet cannot be loaded nothing else is asked of the node.\<close>

lemma load_failure_stops:
  assumes "normalizeWalletName n \<noteq> []" and "resolveWalletPassphrase shared po = Inr p"
    and "net (''unloadwallet'', []) s = (a0, s1)"
    and "net (''loadwallet'', [JStr (normalizeWalletName n), JStr p]) s1 = (a1, s2)" and "outcome to_text a1 = Inl e"
  shows "run net (withLoadedWallet to_text shared n handler po unlock) s = (Inl e, s2)"
  using assms by (auto simp: withLoadedWallet_def proc_defs Let_def split: prod.split)

section \<open>With the node\<close>

fun encode_result :: "rpc_result \<Rightarrow> json" where
  "encode_result (RpcOk v) = JObj [(''jsonrpc'', JStr ''2.0''), (''result'', v), (''error'', JNull)]"
| "encode_result (RpcErr c m) =
     JObj [(''jsonrpc'', JStr ''2.0''), (''result'', JNull), (''error'', JObj [(''code'', JNum (of_int c)), (''message'', JStr m)])]"

text \<open>A network that delivers every request and every answer.\<close>

definition node_net :: "'c node_env \<Rightarrow> rpc_request \<Rightarrow> 'c node_state \<Rightarrow> answer \<times> 'c node_state" where
  "node_net env q s =
     (case node_dispatch env (fst q) (snd q) s of (r, t) \<Rightarrow> (Inr \<lparr>http_status = 200, http_body = Json (encode_result r)\<rparr>, t))"

definition rpc_outcome :: "rpc_result \<Rightarrow> server_error + jval" where
  "rpc_outcome r =
     (case r of
        RpcOk v \<Rightarrow> Inr (Some v)
      | RpcErr c m \<Rightarrow> Inl (WalletRpcError (if m \<noteq> [] then m else ''RPC request failed'')
                           (error_status (Some (JNum (of_int c)))) (Some (JNum (of_int c)))))"

lemma outcome_encode [simp]:
  "outcome to_text (Inr \<lparr>http_status = 200, http_body = Json (encode_result r)\<rparr>) = rpc_outcome r"
  by (cases r) (auto simp: outcome_def rpc_outcome_def read_payload_def http_ok_def text_or_def js_String_def Let_def)

lemma node_net_simps [simp]:
  "outcome to_text (fst (node_net env (m, ps) s)) = rpc_outcome (fst (node_dispatch env m ps s))"
  "snd (node_net env (m, ps) s) = snd (node_dispatch env m ps s)"
  by (simp_all add: node_net_def split: prod.split)

text \<open>A node with encrypted wallets that open with the passphrase \<open>p\<close> and log their payments.\<close>

definition demo_file :: "string \<Rightarrow> WalletFile" where
  "demo_file n = \<lparr>private_keys = [''key''], addresses = [n], watch_only = False, mnemonic = None, descriptors = []\<rparr>"

definition demo_env :: "(string \<times> string \<times> nat) list node_env" where
  "demo_env =
     \<lparr>wallet_storage_info = (\<lambda>n c. Inr True),
      load_wallet = (\<lambda>n p c. if p = Some ''p'' then Inr (demo_file n) else Inl ''wrong passphrase''),
      address_valid = (\<lambda>a. True),
      pay = (\<lambda>w d n c. (RpcOk (JObj [(''txid'', JStr ''t'')]), c @ [(hd (addresses w), d, n)])),
      other_methods = (\<lambda>m ps x. (RpcErr (-32601) ''method not found'', x))\<rparr>"

definition demo_node :: "(string \<times> string \<times> nat) list node_state" where
  "demo_node = \<lparr>loaded_wallet = None, clock = (\<lambda>_. 0), ncalls = 0, world = []\<rparr>"

definition after_call :: "'c node_state \<Rightarrow> 'c node_state" where
  "after_call s = s\<lparr>ncalls := Suc (ncalls s)\<rparr>"

lemma dispatch_simps [simp]:
  "node_dispatch env ''walletpassphrase'' ps s = rpc_walletpassphrase env (clock s (ncalls s)) ps (after_call s)"
  "node_dispatch env ''walletlock'' ps s = rpc_walletlock (after_call s)"
  "node_dispatch env ''loadwallet'' ps s = rpc_loadwallet env ps (after_call s)"
  "node_dispatch env ''unloadwallet'' ps s = rpc_unloadwallet (after_call s)"
  "node_dispatch env ''sendtoaddress'' ps s = rpc_sendtoaddress env (clock s (ncalls s)) ps (after_call s)"
  by (simp_all add: node_dispatch_def after_call_def Let_def)

lemma after_call_simps [simp]:
  "loaded_wallet (after_call s) = loaded_wallet s" "world (after_call s) = world s" "clock (after_call s) = clock s"
  "ncalls (after_call s) = Suc (ncalls s)"
  by (simp_all add: after_call_def)

lemma unload_clears [simp]: "loaded_wallet (snd (rpc_unloadwallet s)) = None" "world (snd (rpc_unloadwallet s)) = world s"
  by (simp_all add: rpc_unloadwallet_def split: option.split)

lemma lock_world [simp]: "world (snd (rpc_walletlock s)) = world s"
  by (simp add: rpc_walletlock_def split: option.split)

text \<open>
  After a request, the node has no wallet loaded, unless it had one and the request did not even
  reach the node.
\<close>

lemma nothing_stays_loaded:
  assumes "normalizeWalletName n \<noteq> []" and "resolveWalletPassphrase shared po = Inr p"
  shows "loaded_wallet (snd (run (node_net env) (withLoadedWallet to_text shared n handler po unlock) s)) = None"
proof -
  have "loaded_wallet (snd (rpc_loadwallet env ps t)) = None" if "rpc_outcome (fst (rpc_loadwallet env ps t)) = Inl e" "loaded_wallet t = None"
    for e ps and t :: "'a node_state"
    using that by (auto simp: rpc_loadwallet_def rpc_outcome_def Let_def split: option.splits sum.splits)
  then show ?thesis
    by (simp add: run_withLoadedWallet [OF assms] case_prod_unfold split: sum.split)
qed

lemma node_net_call: "node_net env (m, ps) s = (case node_dispatch env m ps s of (r, t) \<Rightarrow> (Inr \<lparr>http_status = 200, http_body = Json (encode_result r)\<rparr>, t))"
  by (simp add: node_net_def)

lemmas send_unfold = send_POST_def plift_def text_or_def js_String_def withLoadedWallet_def
  resolveWalletPassphrase_def respond_def proc_defs Let_def

lemmas node_unfold = node_net_call rpc_outcome_def rpc_loadwallet_def rpc_walletpassphrase_def rpc_sendtoaddress_def rpc_walletlock_def
  rpc_unloadwallet_def lock_sensitive_state_def prune_private_descriptors_def refresh_lock_state_def is_unlocked_def param_def



text \<open>A payment that the route reports was made by the node from the file of the named wallet.\<close>

lemma send_run:
  assumes "run (node_net env) (withLoadedWallet to_text shared src
      (callWalletRpc to_text ''sendtoaddress'' [JStr dest, JNum (of_int k)]) None True) s = (Inr v, t)" and "0 \<le> k"
  shows "\<exists>w x p. resolveWalletPassphrase shared None = Inr p \<and>
     load_wallet env (normalizeWalletName src) (Some p) (world s) = Inr w \<and> v = Some x \<and>
     pay env w dest (nat k) (world s) = (RpcOk x, world t) \<and> loaded_wallet t = None"
proof -
  have n: "normalizeWalletName src \<noteq> []"
    using assms(1) by (auto simp: withLoadedWallet_def pthrow_def)
  obtain p where p: "resolveWalletPassphrase shared None = Inr p"
    using assms(1) n by (cases "resolveWalletPassphrase shared None") (auto simp: withLoadedWallet_def proc_defs Let_def)
  let ?h = "callWalletRpc to_text ''sendtoaddress'' [JStr dest, JNum (of_int k)]"
  have none: "loaded_wallet t = None"
    using nothing_stays_loaded [OF n p, of env to_text ?h True s] assms(1) by simp
  define s1 where "s1 = snd (rpc_unloadwallet (after_call s))"
  have w1: "world s1 = world s" by (simp add: s1_def)
  obtain r2 s2 where d: "rpc_loadwallet env [JStr (normalizeWalletName src), JStr p] (after_call s1) = (r2, s2)" by force
  obtain r3 s3 where q: "rpc_walletpassphrase env (clock s2 (ncalls s2)) [JStr p, JNum 30] (after_call s2) = (r3, s3)" by force
  obtain r4 s4 where y: "rpc_sendtoaddress env (clock s3 (ncalls s3)) [JStr dest, JNum (of_int k)] (after_call s3) = (r4, s4)" by force
  let ?fin = "\<lambda>u. snd (rpc_unloadwallet (after_call (snd (rpc_walletlock (after_call u)))))"
  have e: "run (node_net env) (withLoadedWallet to_text shared src ?h None True) s =
    (case rpc_outcome r2 of Inl e \<Rightarrow> (Inl e, s2)
     | Inr _ \<Rightarrow> (case rpc_outcome r3 of Inl e \<Rightarrow> (Inl e, ?fin s3) | Inr _ \<Rightarrow> (rpc_outcome r4, ?fin s4)))"
    using d q y
    by (simp add: run_withLoadedWallet [OF n p] case_prod_unfold s1_def [symmetric] split: sum.split)
  have o: "\<exists>x. r = RpcOk x \<and> a = Some x" if "rpc_outcome r = Inr a" for r a
    using that by (cases r) (auto simp: rpc_outcome_def)
  have "\<exists>a b. rpc_outcome r2 = Inr a \<and> rpc_outcome r3 = Inr b \<and> rpc_outcome r4 = Inr v \<and> t = ?fin s4"
    using e assms(1) by (cases "rpc_outcome r2"; cases "rpc_outcome r3") auto
  then obtain v2 v3 x where r: "r2 = RpcOk v2" "r3 = RpcOk v3" "r4 = RpcOk x" "v = Some x" and t: "world t = world s4"
    using o by fastforce
  have lw: "loaded_wallet s2 = Some l \<Longrightarrow> lw_name l = normalizeWalletName src" "world s2 = world s" for l
    using d r(1) w1 by (auto simp: rpc_loadwallet_def param_def Let_def split: sum.splits if_splits)
  then obtain w l where w: "load_wallet env (normalizeWalletName src) (Some p) (world s) = Inr w"
      "loaded_wallet s3 = Some l" "lw_wallet l = w" "world s3 = world s"
    using q r(2) by (auto simp: rpc_walletpassphrase_def param_def Let_def split: option.splits sum.splits if_splits)
  obtain l' d' a where "loaded_wallet (after_call s3) = Some l'" "param 0 [JStr dest, JNum (of_int k)] = Some (JStr d')"
      and a: "as_u64 (param 1 [JStr dest, JNum (of_int k)]) = Some a"
      and pay: "pay env (lw_wallet l') d' a (world (after_call s3)) = (RpcOk x, world s4)"
    using send_needs_unlock [OF y [unfolded r(3)]] by blast
  then have "l' = l" "d' = dest" using w by (simp_all add: param_def)
  moreover have "a = nat k" using a by (simp add: param_def split: if_splits)
  ultimately have "pay env w dest (nat k) (world s) = (RpcOk x, world s4)" using pay w by simp
  with w(1) p r(4) t none show ?thesis by auto
qed


lemma rpc_outcome_status: "rpc_outcome r = Inl (WalletRpcError m st c) \<Longrightarrow> st \<noteq> 200"
  by (auto simp: rpc_outcome_def error_status_def split: rpc_result.splits if_splits)

lemma error_never_200:
  "run (node_net env) (withLoadedWallet to_text shared src (callWalletRpc to_text q ps) po unlock) s \<noteq> (Inl (WalletRpcError m 200 c), t)"
proof (cases "normalizeWalletName src = []")
  case True
  then show ?thesis by (simp add: withLoadedWallet_def pthrow_def)
next
  case False
  show ?thesis
  proof (cases "resolveWalletPassphrase shared po")
    case (Inl e)
    then show ?thesis using False by (auto simp: withLoadedWallet_def proc_defs resolveWalletPassphrase_def Let_def split: if_splits)
  next
    case (Inr p)
    show ?thesis
      using rpc_outcome_status
      by (auto simp: run_withLoadedWallet [OF False Inr] case_prod_unfold split: sum.splits if_splits)
  qed
qed

lemma send_pays:
  assumes "run (node_net env) (send_POST to_text num shared (Inr (JObj [(''from'', JStr src), (''to'', JStr dest), (''amount'', JNum x)]))) s = (r, t)"
    and "rs_status r = 200"
  shows "\<exists>w p v. load_wallet env (normalizeWalletName src) (Some p) (world s) = Inr w \<and> p = trim shared \<and> p \<noteq> [] \<and> 0 < x \<and>
    pay env w dest (nat \<lfloor>x\<rfloor>) (world s) = (RpcOk v, world t) \<and> loaded_wallet t = None"
proof -
  let ?w = "withLoadedWallet to_text shared src (callWalletRpc to_text ''sendtoaddress'' [JStr dest, JNum (of_int (Math_trunc x))]) None True"
  have x: "src \<noteq> []" "dest \<noteq> []" "0 < x"
    using assms by (auto simp: send_POST_def respond_def proc_defs plift_def text_or_def js_String_def error_json_def Let_def split: if_splits)
  then have k: "0 \<le> Math_trunc x" "Math_trunc x = \<lfloor>x\<rfloor>" by (simp_all add: Math_trunc_def)
  obtain res u where res: "run (node_net env) ?w s = (res, u)" by force
  have "\<exists>v. res = Inr v \<and> t = u"
  proof (cases res)
    case (Inr v)
    then show ?thesis
      using assms res x by (simp add: send_POST_def respond_def proc_defs plift_def text_or_def js_String_def Let_def)
  next
    case (Inl e)
    then have "\<not> (\<exists>m c. e = WalletRpcError m 200 c)" using res error_never_200 by fastforce
    then show ?thesis
      using assms res x Inl by (auto simp: send_POST_def respond_def proc_defs plift_def text_or_def js_String_def error_json_def Let_def split: server_error.splits)
  qed
  then obtain v where v: "run (node_net env) ?w s = (Inr v, t)" using res by blast
  show ?thesis
    using send_run [OF v k(1)] x k by (auto simp: resolveWalletPassphrase_def Let_def split: if_splits)
qed

text \<open>
  A payment that the send route reports (status 200) was built by the node from the file of the
  named wallet, opened with the server's passphrase, to the given address and with the whole part
  of the amount; afterwards no wallet is loaded. This is for a request that runs alone.
\<close>

theorem send_pays_from_named_wallet:
  assumes "run (node_net env) (send_POST to_text num shared (Inr (JObj [(''from'', JStr src), (''to'', JStr dest), (''amount'', JNum x)]))) s = (r, t)"
    and "rs_status r = 200"
  shows "\<exists>w p v. load_wallet env (normalizeWalletName src) (Some p) (world s) = Inr w \<and> p = trim shared \<and> p \<noteq> [] \<and> 0 < x \<and>
    pay env w dest (nat \<lfloor>x\<rfloor>) (world s) = (RpcOk v, world t) \<and> loaded_wallet t = None"
  using assms by (rule send_pays)

theorem send_pays_from_named_wallet_witness:
  "\<exists>r t. run (node_net demo_env) (send_POST (\<lambda>_. []) (\<lambda>_. None) ''p'' (Inr (JObj [(''from'', JStr ''a''), (''to'', JStr ''d''), (''amount'', JNum 5)]))) demo_node
       = (r, t) \<and> world t = [(''a.dat'', ''d'', 5)]"
proof -
  let ?p = "send_POST (\<lambda>_. []) (\<lambda>_. None) ''p'' (Inr (JObj [(''from'', JStr ''a''), (''to'', JStr ''d''), (''amount'', JNum 5)]))"
  obtain r t where r: "run (node_net demo_env) ?p demo_node = (r, t)" by force
  have n: "normalizeWalletName ''a'' = ''a.dat''" "trim ''p'' = ''p''" by code_simp+
  have "Math_trunc 5 = 5" by (simp add: Math_trunc_def)
  then have "rs_status r = 200"
    using r by (auto simp: send_unfold node_unfold n demo_env_def demo_node_def demo_file_def ok_json_def simp del: encode_result.simps)
  from send_pays_from_named_wallet [OF r this] n show ?thesis
    using r by (auto simp: demo_env_def demo_node_def demo_file_def)
qed

text \<open>An amount below one is accepted, and zero is sent.\<close>

lemma fraction_sends_nothing:
  assumes "0 < x" "x < 1" "src \<noteq> []" "dest \<noteq> []"
  shows "send_POST to_text num shared (Inr (JObj [(''from'', JStr src), (''to'', JStr dest), (''amount'', JNum x)])) =
    respond ''Send transaction failed''
      (pbind (withLoadedWallet to_text shared src (callWalletRpc to_text ''sendtoaddress'' [JStr dest, JNum 0]) None True) (\<lambda>result.
         pret (ok_json (object [(''ok'', Some (JBool True)), (''txid'', txid_field result)]))))"
proof -
  have "Math_trunc x = 0" using assms by (simp add: Math_trunc_def floor_eq_iff)
  then show ?thesis
    using assms by (simp add: send_POST_def plift_def proc_defs text_or_def js_String_def Let_def)
qed

section \<open>Names and histories\<close>

text \<open>
  Normalising is idempotent: the name that a route gives back names the same wallet.
\<close>

lemma normalize_idem: "normalizeWalletName (normalizeWalletName n) = normalizeWalletName n"
proof (cases "trim n = []")
  case True
  then have "normalizeWalletName n = []" by (simp add: normalizeWalletName_def)
  then show ?thesis by (simp add: normalizeWalletName_def trim_def)
next
  case False
  define m where "m = normalizeWalletName n"
  have m: "m = trim n \<or> m = trim n @ ''.dat''" using False by (auto simp: m_def normalizeWalletName_def Let_def)
  have sp: "\<not> is_space (CHR ''t'')" by (simp add: is_space_def)
  have "trim m = m" using m
  proof
    assume "m = trim n @ ''.dat''"
    then show ?thesis using trim_ends [OF False] False sp by (intro trim_trimmed) auto
  qed (use trim_ends [OF False] False in \<open>auto intro: trim_trimmed\<close>)
  moreover have "js_endsWith (toLowerCase (x @ ''.dat'')) ''.dat''" for x
    by (simp add: js_endsWith_def toLowerCase_def lower_char_def suffix_def)
  then have "js_endsWith (toLowerCase m) ''.dat'' \<or> js_endsWith (toLowerCase m) ''.json''"
    using False by (auto simp: m_def normalizeWalletName_def Let_def split: if_splits)
  moreover have "m \<noteq> []" using m False by auto
  ultimately show ?thesis unfolding m_def [symmetric] by (simp add: normalizeWalletName_def Let_def)
qed

text \<open>A history lists no transaction twice: the invariant of the loop over its transactions.\<close>

lemma history_distinct:
  assumes "collect_tx tx (seen, txs) = Inr (seen', txs')" and "distinct seen" and "map (\<lambda>t. txid_of (Some t)) txs = map Inr (rev seen)"
  shows "distinct seen' \<and> map (\<lambda>t. txid_of (Some t)) txs' = map Inr (rev seen')"
  using assms by (auto simp: collect_tx_def split: sum.splits if_splits)

section \<open>Two requests at a time\<close>

text \<open>
  The server takes the next request while an earlier one waits for the node. \<open>True\<close> in a schedule
  lets the first process make its next call, \<open>False\<close> the second.
\<close>

fun proc_step :: "(rpc_request \<Rightarrow> 'n \<Rightarrow> answer \<times> 'n) \<Rightarrow> 'r proc \<Rightarrow> 'n \<Rightarrow> 'r proc \<times> 'n" where
  "proc_step net (Ret r) s = (Ret r, s)"
| "proc_step net (Rpc q k) s = (case net q s of (a, t) \<Rightarrow> (k a, t))"

fun interleave :: "(rpc_request \<Rightarrow> 'n \<Rightarrow> answer \<times> 'n) \<Rightarrow> bool list \<Rightarrow> 'r proc \<Rightarrow> 'r proc \<Rightarrow> 'n \<Rightarrow> 'r proc \<times> 'r proc \<times> 'n" where
  "interleave net [] p q s = (p, q, s)"
| "interleave net (True # bs) p q s = (case proc_step net p s of (p', t) \<Rightarrow> interleave net bs p' q t)"
| "interleave net (False # bs) p q s = (case proc_step net q s of (q', t) \<Rightarrow> interleave net bs p q' t)"

text \<open>Giving all steps to one request is running it.\<close>

lemma interleave_alone:
  "\<exists>n. \<forall>m \<ge> n. interleave net (replicate m True) p q s = (Ret (fst (run net p s)), q, snd (run net p s))"
proof (induction p arbitrary: s)
  case (Ret r)
  have "interleave net (replicate m True) (Ret r) q s = (Ret r, q, s)" for m by (induction m) auto
  then show ?case by auto
next
  case (Rpc x k)
  obtain a t where a: "net x s = (a, t)" by force
  from Rpc.IH [of "k a" t] obtain n where
    n: "interleave net (replicate m True) (k a) q t = (Ret (fst (run net (k a) t)), q, snd (run net (k a) t))" if "m \<ge> n" for m
    by auto
  have "interleave net (replicate m True) (Rpc x k) q s = (Ret (fst (run net (k a) t)), q, snd (run net (k a) t))" if m: "m \<ge> Suc n" for m
    using n [of "m - 1"] m a by (cases m) auto
  then show ?case using a by auto
qed

lemma proc_step_call [simp]:
  "proc_step net (pthen (callWalletRpc to_text m ps) f) s = (case net (m, ps) s of (a, t) \<Rightarrow> (f (outcome to_text a), t))"
  by (simp add: callWalletRpc_def outcome_def pthrow_def split: prod.split sum.split)

definition send_request :: "string \<Rightarrow> string \<Rightarrow> int \<Rightarrow> string + json" where
  "send_request src dest k = Inr (JObj [(''from'', JStr src), (''to'', JStr dest), (''amount'', JNum (of_int k))])"


text \<open>
  C13: requests disturb each other. While a payment from wallet \<open>a\<close> waits, a second request loads and
  unlocks wallet \<open>b\<close> (with the same server passphrase, which routes always use): the first request
  then pays from \<open>b\<close> and reports success.
\<close>

theorem concurrent_send_spends_other_wallet:
  assumes names: "normalizeWalletName a \<noteq> []" "normalizeWalletName b \<noteq> []" "a \<noteq> []" "b \<noteq> []" "dest \<noteq> []" "dest' \<noteq> []"
    and p: "trim shared = p" "p \<noteq> []"
    and a: "wallet_storage_info env (normalizeWalletName a) (world s) = Inr True"
      "load_wallet env (normalizeWalletName a) (Some p) (world s) = Inr wa"
    and b: "wallet_storage_info env (normalizeWalletName b) (world s) = Inr True"
      "load_wallet env (normalizeWalletName b) (Some p) (world s) = Inr wb" "\<not> watch_only wb" "private_keys wb \<noteq> []"
    and k: "0 < k" "k < 2 ^ 64" "0 < k'" and "address_valid env dest" and "clock s = (\<lambda>_. now)" and "loaded_wallet s = None"
    and pay: "pay env wb dest (nat k) (world s) = (RpcOk v, c)"
  shows "\<exists>r q t. interleave (node_net env) [True, True, True, False, False, False, True, True, True]
      (send_POST to_text num shared (send_request a dest k)) (send_POST to_text num shared (send_request b dest' k')) s = (Ret r, q, t) \<and>
    rs_status r = 200 \<and> world t = c"
proof -
  have t: "Math_trunc (of_int k) = k" "Math_trunc (of_int k') = k'" using k by (simp_all add: Math_trunc_def)
  have u: "real_of_int k < 18446744073709551616" using k(2) by simp
  show ?thesis
    using assms t u by (simp add: send_request_def send_unfold node_unfold ok_json_def del: encode_result.simps)
qed

theorem concurrent_send_spends_other_wallet_witness:
  "\<exists>r q t. interleave (node_net demo_env) [True, True, True, False, False, False, True, True, True]
      (send_POST (\<lambda>_. []) (\<lambda>_. None) ''p'' (send_request ''a'' ''d'' 5)) (send_POST (\<lambda>_. []) (\<lambda>_. None) ''p'' (send_request ''b'' ''e'' 7)) demo_node
      = (Ret r, q, t) \<and> rs_status r = 200 \<and> world t = [(''b.dat'', ''d'', 5)]"
proof -
  have n: "normalizeWalletName ''a'' = ''a.dat''" "normalizeWalletName ''b'' = ''b.dat''" "trim ''p'' = ''p''" by code_simp+
  show ?thesis
    by (rule concurrent_send_spends_other_wallet [where p = "''p''" and now = 0 and wa = "demo_file ''a.dat''" and wb = "demo_file ''b.dat''"
          and v = "JObj [(''txid'', JStr ''t'')]"]) (simp_all add: n demo_env_def demo_node_def demo_file_def)
qed

end
