(* ===== verification/NodeRpc.thy ===== *)
theory NodeRpc
  imports NodeWallet "HOL-Library.Char_ord" "HOL-Library.List_Lexorder"
begin

text \<open>
  The dispatch of the node's JSON-RPC methods (core/node/src/rpc.rs) and the handlers that the
  browser's wallet uses (rpc_wallet.rs, rpc_chain.rs). Keys, the chain, the wallet files and the
  encoding of a transaction are parameters (\<open>key_env\<close>); the handlers of the other methods are the
  parameter that NodeWallet has for them.
\<close>

section \<open>Parameters\<close>

text \<open>
  \<open>key_address\<close>: the address and the public key of a private key, or why it is none. \<open>persist\<close>: saving the wallet
  file. \<open>fresh_key\<close>: a new key and its address. \<open>chain_history\<close>: the transactions of an address, newest first.
  \<open>serialize_tx\<close>: inputs with their sequence, outputs and lock time to hexadecimal text.
\<close>

record 'c key_env =
  key_address :: "string \<Rightarrow> string + string \<times> string"
  persist :: "LoadedWallet \<Rightarrow> 'c \<Rightarrow> string option \<times> 'c"
  fresh_key :: "'c \<Rightarrow> (string \<times> string) \<times> 'c"
  chain_history :: "string \<Rightarrow> 'c \<Rightarrow> json list"
  serialize_tx :: "(string \<times> nat \<times> nat) list \<Rightarrow> (string \<times> nat) list \<Rightarrow> nat \<Rightarrow> string"

definition is_hex_char :: "char \<Rightarrow> bool" where
  "is_hex_char c \<longleftrightarrow>
     (let n = of_char c :: nat in 48 \<le> n \<and> n \<le> 57 \<or> 65 \<le> n \<and> n \<le> 70 \<or> 97 \<le> n \<and> n \<le> 102)"

text \<open>\<open>hex::decode\<close> gives 32 bytes.\<close>

definition hex32 :: "string \<Rightarrow> bool" where
  "hex32 s \<longleftrightarrow> length s = 64 \<and> list_all is_hex_char s"

fun as_array :: "jval \<Rightarrow> json list option" where
  "as_array (Some (JArr xs)) = Some xs"
| "as_array _ = None"

fun as_object :: "jval \<Rightarrow> (string \<times> json) list option" where
  "as_object (Some (JObj fs)) = Some fs"
| "as_object _ = None"

section \<open>Handlers\<close>

definition require_unlocked :: "int \<Rightarrow> LoadedWallet \<Rightarrow> bool \<times> LoadedWallet" where
  "require_unlocked now lw = (let lw1 = refresh_lock_state now lw in (is_unlocked now lw1, lw1))"

definition wallet_locked :: rpc_result where
  "wallet_locked = RpcErr (-13) ''wallet is locked; call walletpassphrase first''"

definition add_key :: "string \<Rightarrow> string \<Rightarrow> LoadedWallet \<Rightarrow> LoadedWallet" where
  "add_key k a lw = lw\<lparr>lw_wallet := (lw_wallet lw)\<lparr>private_keys := private_keys (lw_wallet lw) @ [k],
                                                 addresses := addresses (lw_wallet lw) @ [a]\<rparr>\<rparr>"

text \<open>The wallet with the new key stays in memory when saving it fails.\<close>

definition save_and_answer :: "'c key_env \<Rightarrow> LoadedWallet \<Rightarrow> rpc_result \<Rightarrow> 'c node_state \<Rightarrow> rpc_result \<times> 'c node_state" where
  "save_and_answer ke lw ans s =
     (case persist ke lw (world s) of
        (Some e, c) \<Rightarrow> (RpcErr (-1) e, s\<lparr>loaded_wallet := Some lw, world := c\<rparr>)
      | (None, c) \<Rightarrow> (ans, s\<lparr>loaded_wallet := Some lw, world := c\<rparr>))"

definition rpc_getnewaddress :: "'c key_env \<Rightarrow> int \<Rightarrow> 'c node_state \<Rightarrow> rpc_result \<times> 'c node_state" where
  "rpc_getnewaddress ke now s =
     (case loaded_wallet s of
        None \<Rightarrow> (RpcErr (-4) ''no wallet loaded; use loadwallet or createwallet first'', s)
      | Some lw0 \<Rightarrow>
          if watch_only (lw_wallet lw0) then (RpcErr (-4) ''watch-only wallet cannot generate keys'', s)
          else (case require_unlocked now lw0 of
            (False, lw) \<Rightarrow> (wallet_locked, s\<lparr>loaded_wallet := Some lw\<rparr>)
          | (True, lw) \<Rightarrow>
              (case fresh_key ke (world s) of ((k, a), c) \<Rightarrow>
                 save_and_answer ke (add_key k a lw) (RpcOk (JObj [(''address'', JStr a)])) (s\<lparr>world := c\<rparr>))))"

definition rpc_importprivkey :: "'c key_env \<Rightarrow> int \<Rightarrow> json list \<Rightarrow> 'c node_state \<Rightarrow> rpc_result \<times> 'c node_state" where
  "rpc_importprivkey ke now ps s =
     (case loaded_wallet s of
        None \<Rightarrow> (RpcErr (-4) ''no wallet loaded'', s)
      | Some lw0 \<Rightarrow>
          let lw = refresh_lock_state now lw0; s1 = s\<lparr>loaded_wallet := Some lw\<rparr>
          in if watch_only (lw_wallet lw) then (RpcErr (-4) ''watch-only wallet cannot import private keys'', s1)
             else if encrypted lw \<and> \<not> fst (require_unlocked now lw) then (wallet_locked, s1)
             else (case as_str (param 0 ps) of
               None \<Rightarrow> (RpcErr (-1) ''missing private key hex'', s1)
             | Some key_hex \<Rightarrow>
                 if \<not> hex32 key_hex then (RpcErr (-1) ''invalid private key hex (need 32 bytes)'', s1)
                 else let stored_hex = toLowerCase key_hex
                      in case key_address ke stored_hex of
                        Inl e \<Rightarrow> (RpcErr (-1) (''invalid key: '' @ e), s1)
                      | Inr (a, pub) \<Rightarrow>
                          let ans = RpcOk (JObj [(''address'', JStr a), (''pubkey'', JStr pub)])
                          in if stored_hex \<in> set (private_keys (lw_wallet lw)) then (ans, s1)
                             else save_and_answer ke (add_key stored_hex a lw) ans s1))"

definition rpc_listtransactions :: "'c node_env \<Rightarrow> 'c key_env \<Rightarrow> json list \<Rightarrow> 'c node_state \<Rightarrow> rpc_result" where
  "rpc_listtransactions env ke ps s =
     (case as_str (param 0 ps) of
        None \<Rightarrow> RpcErr (-1) ''missing address''
      | Some a \<Rightarrow>
          let count = (case as_u64 (param 1 ps) of None \<Rightarrow> 10 | Some n \<Rightarrow> n);
              skip = (case as_u64 (param 2 ps) of None \<Rightarrow> 0 | Some n \<Rightarrow> n)
          in if \<not> address_valid env a then RpcErr (-1) ''invalid address''
             else RpcOk (JArr (take count (drop skip (chain_history ke a (world s))))))"

definition rpc_validateaddress :: "'c node_env \<Rightarrow> json list \<Rightarrow> rpc_result" where
  "rpc_validateaddress env ps =
     (case as_str (param 0 ps) of
        None \<Rightarrow> RpcErr (-1) ''missing address''
      | Some a \<Rightarrow> RpcOk (JObj [(''isvalid'', JBool (address_valid env a)), (''address'', JStr a)]))"

subsection \<open>Raw transactions\<close>

text \<open>\<open>amount.as_u64().or_else(|| amount.as_f64().map(|f| f as u64))\<close>: a cast cuts off and saturates.\<close>

definition as_amount :: "json \<Rightarrow> nat option" where
  "as_amount v =
     (case as_u64 (Some v) of
        Some n \<Rightarrow> Some n
      | None \<Rightarrow> (case v of JNum x \<Rightarrow> Some (min (2 ^ 64 - 1) (nat \<lfloor>x\<rfloor>)) | _ \<Rightarrow> None))"

definition read_input :: "json \<Rightarrow> string + string \<times> nat \<times> nat" where
  "read_input v =
     (case as_str (opt_property ''txid'' (Some v)) of
        None \<Rightarrow> Inl ''input missing txid''
      | Some txid \<Rightarrow>
          (case as_u64 (opt_property ''vout'' (Some v)) of
             None \<Rightarrow> Inl ''input missing vout''
           | Some vout \<Rightarrow>
               let sequence = (case as_u64 (opt_property ''sequence'' (Some v)) of None \<Rightarrow> 4294967295 | Some n \<Rightarrow> n) mod 2 ^ 32
               in if \<not> hex32 txid then Inl ''invalid input txid hex''
                  else Inr (txid, vout mod 2 ^ 32, sequence)))"

definition read_output :: "'c node_env \<Rightarrow> string \<times> json \<Rightarrow> string + string \<times> nat" where
  "read_output env p =
     (case as_amount (snd p) of
        None \<Rightarrow> Inl (''invalid amount for '' @ fst p)
      | Some v \<Rightarrow> if \<not> address_valid env (fst p) then Inl (''invalid address: '' @ fst p) else Inr (fst p, v))"

fun collect :: "('a \<Rightarrow> string + 'b) \<Rightarrow> 'a list \<Rightarrow> string + 'b list" where
  "collect f [] = Inr []"
| "collect f (x # xs) =
     (case f x of Inl e \<Rightarrow> Inl e | Inr y \<Rightarrow> (case collect f xs of Inl e \<Rightarrow> Inl e | Inr ys \<Rightarrow> Inr (y # ys)))"

text \<open>The fields of an object are kept sorted by name, a repeated one with its last value.\<close>

definition object_entries :: "(string \<times> json) list \<Rightarrow> (string \<times> json) list" where
  "object_entries fs = sort_key fst (new_Map fs)"

definition rpc_createrawtransaction :: "'c node_env \<Rightarrow> 'c key_env \<Rightarrow> json list \<Rightarrow> rpc_result" where
  "rpc_createrawtransaction env ke ps =
     (case as_array (param 0 ps) of
        None \<Rightarrow> RpcErr (-1) ''missing inputs array''
      | Some ins \<Rightarrow>
          (case as_object (param 1 ps) of
             None \<Rightarrow> RpcErr (-1) ''missing outputs object''
           | Some outs \<Rightarrow>
               let lock_time = (case as_u64 (param 2 ps) of None \<Rightarrow> 0 | Some n \<Rightarrow> n) mod 2 ^ 32
               in case collect read_input ins of
                    Inl e \<Rightarrow> RpcErr (-1) e
                  | Inr tx_inputs \<Rightarrow>
                      (case collect (read_output env) (object_entries outs) of
                         Inl e \<Rightarrow> RpcErr (-1) e
                       | Inr tx_outputs \<Rightarrow> RpcOk (JStr (serialize_tx ke tx_inputs tx_outputs lock_time)))))"

section \<open>Dispatch\<close>

definition mining_methods :: "string list" where
  "mining_methods = [''getblocktemplate'', ''submitblock'', ''startmining'', ''setgenerate'', ''stopmining'', ''getmininginfo'',
     ''generatetoaddress'']"

definition wallet_methods :: "string list" where
  "wallet_methods = [''getnewaddress'', ''getbalance'', ''listtransactions'', ''importprivkey'', ''dumpprivkey'', ''backupwallet'',
     ''walletpassphrase'', ''walletlock'', ''encryptwallet'', ''createwallet'', ''loadwallet'', ''unloadwallet'', ''listwallets'',
     ''getwalletinfo'', ''rescanblockchain'', ''importaddress'', ''importdescriptors'', ''listdescriptors'', ''settxfee'',
     ''keypoolrefill'', ''getreceivedbyaddress'', ''listreceivedbyaddress'', ''sendtoaddress'', ''abandontransaction'',
     ''fundrawtransaction'', ''sethdseed'', ''listaddressgroupings'', ''bumpfee'', ''psbtbumpfee'', ''getbalances'',
     ''walletcreatefundedpsbt'', ''walletprocesspsbt'']"

definition network_methods :: "string list" where
  "network_methods = [''addnode'', ''disconnectnode'', ''setban'', ''listbanned'', ''getpeerinfo'', ''getconnectioncount'', ''getnetworkinfo'']"

definition chain_methods :: "string list" where
  "chain_methods = [''getinfo'', ''getblockcount'', ''getblockchaininfo'', ''getutxos'', ''sendrawtransaction'', ''getrawtransaction'',
     ''decoderawtransaction'', ''gettxout'', ''getmempoolinfo'', ''getrawmempool'', ''getblock'', ''getblockhash'', ''validateaddress'',
     ''testmempoolaccept'', ''estimatefee'', ''estimatesmartfee'', ''getbestblockhash'', ''getblockheader'', ''getdifficulty'',
     ''getmempoolentry'', ''uptime'', ''help'', ''getblockstats'', ''getchaintips'', ''getmempoolancestors'', ''getmempooldescendants'',
     ''listunspent'', ''signrawtransactionwithkey'', ''getaddressinfo'', ''createrawtransaction'', ''verifychain'', ''gettxoutsetinfo'']"

definition node_methods :: "string list" where
  "node_methods = mining_methods @ wallet_methods @ network_methods @ chain_methods"

definition method_not_found :: "string \<Rightarrow> rpc_result" where
  "method_not_found m = RpcErr (-32601) (''method not found: '' @ m)"

definition jsonrpc_dispatch_inner ::
    "'c node_env \<Rightarrow> 'c key_env \<Rightarrow> string \<Rightarrow> json list \<Rightarrow> 'c node_state \<Rightarrow> rpc_result \<times> 'c node_state" where
  "jsonrpc_dispatch_inner env ke m ps s0 =
     (let now = clock s0 (ncalls s0); s = s0\<lparr>ncalls := Suc (ncalls s0)\<rparr>
      in if m \<notin> set node_methods then (method_not_found m, s)
         else if m = ''getnewaddress'' then rpc_getnewaddress ke now s
         else if m = ''importprivkey'' then rpc_importprivkey ke now ps s
         else if m = ''listtransactions'' then (rpc_listtransactions env ke ps s, s)
         else if m = ''validateaddress'' then (rpc_validateaddress env ps, s)
         else if m = ''createrawtransaction'' then (rpc_createrawtransaction env ke ps, s)
         else node_dispatch env m ps s0)"

section \<open>Facts\<close>

text \<open>A value in a raw transaction is the whole part of the amount that was asked for.\<close>

lemma as_amount_floor: "0 \<le> x \<Longrightarrow> x < 2 ^ 64 \<Longrightarrow> as_amount (JNum x) = Some (nat \<lfloor>x\<rfloor>)"
proof -
  assume x: "0 \<le> x" "x < 2 ^ 64"
  then have "x < 18446744073709551616" by simp
  then have "\<lfloor>x\<rfloor> \<le> 18446744073709551615" by linarith
  then have "nat \<lfloor>x\<rfloor> \<le> 18446744073709551615" unfolding nat_le_iff by simp
  then show ?thesis by (simp add: as_amount_def min_def)
qed

lemma collect_in: "collect f xs = Inr ys \<Longrightarrow> y \<in> set ys \<Longrightarrow> \<exists>x \<in> set xs. f x = Inr y"
  by (induction xs arbitrary: ys) (auto split: sum.splits)

text \<open>
  A transaction whose outputs are all below one unit is encoded with no value at all.
\<close>

lemma fractions_vanish:
  assumes "collect (read_output env) os = Inr outs" and "\<And>a v. (a, v) \<in> set os \<Longrightarrow> \<exists>x. v = JNum x \<and> 0 \<le> x \<and> x < 1"
  shows "\<forall>t \<in> set outs. snd t = 0"
proof -
  have "snd t = 0" if "read_output env p = Inr t" and "p \<in> set os" for p t
  proof -
    from assms(2) [of "fst p" "snd p"] that(2) obtain x where x: "snd p = JNum x" "0 \<le> x" "x < 1" by auto
    then have "\<lfloor>x\<rfloor> = 0" by linarith
    then have "as_amount (snd p) = Some 0" using as_amount_floor [of x] x by simp
    with that(1) show ?thesis by (auto simp: read_output_def split: if_splits)
  qed
  then show ?thesis using collect_in [OF assms(1)] by blast
qed

end
