(* ===== verification/RpcClient.thy ===== *)
theory RpcClient
  imports WalletSpend WalletServer NodeRpc
begin

text \<open>
  The browser's client of the node (services/api.ts): a generic call and one function per method.
  The network is a parameter that takes a request to an answer; \<open>to_text\<close> and \<open>status_text\<close> are
  \<open>String(v)\<close> of a value that is no string and \<open>response.statusText\<close>. The wallet service is then
  run over this client and the node of NodeRpc.
\<close>

section \<open>The generic call\<close>

record 'n network =
  fetch :: "rpc_request \<Rightarrow> 'n \<Rightarrow> answer \<times> 'n"
  to_text :: "json \<Rightarrow> string"
  status_text :: "int \<Rightarrow> string"

text \<open>A value in a template.\<close>

definition template_text :: "'n network \<Rightarrow> jval \<Rightarrow> string" where
  "template_text nw v = (case v of None \<Rightarrow> ''undefined'' | Some x \<Rightarrow> js_String (to_text nw) x)"

fun response_json :: "json item \<Rightarrow> js_error + json" where
  "response_json Absent = Inl JsonSyntaxError"
| "response_json (Garbled t) = Inl JsonSyntaxError"
| "response_json (Json v) = Inr v"

definition read_response :: "'n network \<Rightarrow> answer \<Rightarrow> js_error + jval" where
  "read_response nw a =
     (case a of
        Inl m \<Rightarrow> Inl (Error m)
      | Inr r \<Rightarrow>
          if \<not> http_ok r then Inl (Error (''HTTP '' @ show_int (http_status r) @ '': '' @ status_text nw (http_status r)))
          else (case response_json (http_body r) of
            Inl e \<Rightarrow> Inl e
          | Inr data \<Rightarrow>
              (case property ''error'' (Some data) of
                 Inl m \<Rightarrow> Inl (Error m)
               | Inr err \<Rightarrow>
                   if json_truthy err then
                     Inl (Error (''RPC Error '' @ template_text nw (opt_property ''code'' err) @ '': '' @
                                 template_text nw (opt_property ''message'' err)))
                   else Inr (opt_property ''result'' (Some data)))))"

definition rpcCall :: "'n network \<Rightarrow> string \<Rightarrow> json list \<Rightarrow> ('n, jval) eff" where
  "rpcCall nw m ps n = (case fetch nw (m, ps) n of (a, n') \<Rightarrow> (read_response nw a, n'))"

section \<open>The methods\<close>

text \<open>
  Those that the wallet service uses have the suffix \<open>_rpc\<close>: the name without it is the typed
  operation of WalletService.
\<close>

definition getBlockchainInfo :: "'n network \<Rightarrow> ('n, jval) eff" where
  "getBlockchainInfo nw = rpcCall nw ''getblockchaininfo'' []"

definition getBlock :: "'n network \<Rightarrow> json \<Rightarrow> int \<Rightarrow> ('n, jval) eff" where
  "getBlock nw h v = rpcCall nw ''getblock'' [h, JNum (of_int v)]"

definition getBlockHash :: "'n network \<Rightarrow> int \<Rightarrow> ('n, jval) eff" where
  "getBlockHash nw h = rpcCall nw ''getblockhash'' [JNum (of_int h)]"

definition getBlockCount :: "'n network \<Rightarrow> ('n, jval) eff" where
  "getBlockCount nw = rpcCall nw ''getblockcount'' []"

definition getBestBlockHash :: "'n network \<Rightarrow> ('n, jval) eff" where
  "getBestBlockHash nw = rpcCall nw ''getbestblockhash'' []"

definition getRawTransaction_rpc :: "'n network \<Rightarrow> string \<Rightarrow> bool \<Rightarrow> ('n, jval) eff" where
  "getRawTransaction_rpc nw txid verbose = rpcCall nw ''getrawtransaction'' [JStr txid, JBool verbose]"

definition sendRawTransaction_rpc :: "'n network \<Rightarrow> string \<Rightarrow> ('n, jval) eff" where
  "sendRawTransaction_rpc nw h = rpcCall nw ''sendrawtransaction'' [JStr h]"

definition decodeRawTransaction :: "'n network \<Rightarrow> string \<Rightarrow> ('n, jval) eff" where
  "decodeRawTransaction nw h = rpcCall nw ''decoderawtransaction'' [JStr h]"

definition getMempoolInfo :: "'n network \<Rightarrow> ('n, jval) eff" where
  "getMempoolInfo nw = rpcCall nw ''getmempoolinfo'' []"

definition getRawMempool :: "'n network \<Rightarrow> bool \<Rightarrow> ('n, jval) eff" where
  "getRawMempool nw verbose = rpcCall nw ''getrawmempool'' [JBool verbose]"

definition getMempoolEntry :: "'n network \<Rightarrow> string \<Rightarrow> ('n, jval) eff" where
  "getMempoolEntry nw txid = rpcCall nw ''getmempoolentry'' [JStr txid]"

definition getPeerInfo :: "'n network \<Rightarrow> ('n, jval) eff" where
  "getPeerInfo nw = rpcCall nw ''getpeerinfo'' []"

definition getNetworkInfo :: "'n network \<Rightarrow> ('n, jval) eff" where
  "getNetworkInfo nw = rpcCall nw ''getnetworkinfo'' []"

definition getConnectionCount :: "'n network \<Rightarrow> ('n, jval) eff" where
  "getConnectionCount nw = rpcCall nw ''getconnectioncount'' []"

definition listUnspent_rpc :: "'n network \<Rightarrow> int \<Rightarrow> int \<Rightarrow> string list \<Rightarrow> ('n, jval) eff" where
  "listUnspent_rpc nw minconf maxconf as =
     rpcCall nw ''listunspent'' ([JNum (of_int minconf), JNum (of_int maxconf)] @ (if as \<noteq> [] then [JArr (map JStr as)] else []))"

definition getMiningInfo :: "'n network \<Rightarrow> ('n, jval) eff" where
  "getMiningInfo nw = rpcCall nw ''getmininginfo'' []"

definition getNetworkHashPS :: "'n network \<Rightarrow> int \<Rightarrow> int \<Rightarrow> ('n, jval) eff" where
  "getNetworkHashPS nw nblocks h = rpcCall nw ''getnetworkhashps'' [JNum (of_int nblocks), JNum (of_int h)]"

definition estimateSmartFee_rpc :: "'n network \<Rightarrow> int \<Rightarrow> ('n, jval) eff" where
  "estimateSmartFee_rpc nw t = rpcCall nw ''estimatesmartfee'' [JNum (of_int t)]"

definition validateAddress_rpc :: "'n network \<Rightarrow> string \<Rightarrow> ('n, jval) eff" where
  "validateAddress_rpc nw a = rpcCall nw ''validateaddress'' [JStr a]"

definition getChainTips :: "'n network \<Rightarrow> ('n, jval) eff" where
  "getChainTips nw = rpcCall nw ''getchaintips'' []"

definition listTransactions_rpc :: "'n network \<Rightarrow> string \<Rightarrow> int \<Rightarrow> int \<Rightarrow> bool \<Rightarrow> ('n, jval) eff" where
  "listTransactions_rpc nw lbl cnt skip wo = rpcCall nw ''listtransactions'' [JStr lbl, JNum (of_int cnt), JNum (of_int skip), JBool wo]"

definition getUptime :: "'n network \<Rightarrow> ('n, jval) eff" where
  "getUptime nw = rpcCall nw ''uptime'' []"

definition getMemoryInfo :: "'n network \<Rightarrow> string \<Rightarrow> ('n, jval) eff" where
  "getMemoryInfo nw mode = rpcCall nw ''getmemoryinfo'' [JStr mode]"

definition getNewAddress_rpc :: "'n network \<Rightarrow> string \<Rightarrow> ('n, jval) eff" where
  "getNewAddress_rpc nw lbl = rpcCall nw ''getnewaddress'' [JStr lbl]"

definition importPrivKey_rpc :: "'n network \<Rightarrow> string \<Rightarrow> string \<Rightarrow> bool \<Rightarrow> ('n, jval) eff" where
  "importPrivKey_rpc nw key lbl rescan = rpcCall nw ''importprivkey'' [JStr key, JStr lbl, JBool rescan]"

definition createRawTransaction_rpc :: "'n network \<Rightarrow> (string \<times> int) list \<Rightarrow> (string, jsnum) jsmap \<Rightarrow> ('n, jval) eff" where
  "createRawTransaction_rpc nw ins outs = rpcCall nw ''createrawtransaction'' [JArr (map (\<lambda>(t, v). JObj [(''txid'', JStr t), (''vout'', JNum (of_int v))]) ins), JObj (map (\<lambda>(a, x). (a, JNum x)) outs)]"

definition signRawTransactionWithWallet_rpc :: "'n network \<Rightarrow> string \<Rightarrow> ('n, jval) eff" where
  "signRawTransactionWithWallet_rpc nw h = rpcCall nw ''signrawtransactionwithwallet'' [JStr h]"

definition getWalletInfo :: "'n network \<Rightarrow> ('n, jval) eff" where
  "getWalletInfo nw = rpcCall nw ''getwalletinfo'' []"

definition listAddressGroupings :: "'n network \<Rightarrow> ('n, jval) eff" where
  "listAddressGroupings nw = rpcCall nw ''listaddressgroupings'' []"

definition dumpPrivKey :: "'n network \<Rightarrow> string \<Rightarrow> ('n, jval) eff" where
  "dumpPrivKey nw a = rpcCall nw ''dumpprivkey'' [JStr a]"

text \<open>An \<open>RPCError\<close> is a class of its own, which \<open>rpcCall\<close> never throws.\<close>

datatype thrown = Thrown js_error | RPCError string "int option" "string option"

fun isRPCError :: "thrown \<Rightarrow> bool" where
  "isRPCError (RPCError m c f) = True"
| "isRPCError (Thrown e) = False"

section \<open>When a call returns\<close>

text \<open>
  A call returns exactly when the answer has a status of 200 to 299 and is JSON with a property
  \<open>error\<close> that is absent or falsy.
\<close>

lemma read_response_Inr:
  "read_response nw a = Inr v \<longleftrightarrow>
     (\<exists>r data. a = Inr r \<and> http_ok r \<and> http_body r = Json data \<and> data \<noteq> JNull \<and> \<not> json_truthy (opt_property ''error'' (Some data)) \<and>
               v = opt_property ''result'' (Some data))"
proof -
  have p: "property ''error'' (Some d) = (if d = JNull then Inl ''Cannot read properties of null'' else Inr (opt_property ''error'' (Some d)))" for d
    by (cases d) auto
  show ?thesis
    by (cases a; cases "http_body (projr a)") (auto simp: read_response_def p)
qed

section \<open>The wallet service over this client\<close>

text \<open>
  \<open>as T\<close>: the results are used as values of the declared types. How an answer reads at such a type is a parameter, so
  that nothing is assumed of answers that have another shape.
\<close>

record readers =
  rd_string :: "jval \<Rightarrow> string"
  rd_info :: "jval \<Rightarrow> AddressInfo"
  rd_utxos :: "jval \<Rightarrow> UTXO list"
  rd_fee :: "jval \<Rightarrow> jsnum option"
  rd_txs :: "jval \<Rightarrow> NodeTx list"
  rd_raw :: "jval \<Rightarrow> string + RawTx"
  rd_signed :: "jval \<Rightarrow> SignedRaw"

definition typed :: "(jval \<Rightarrow> 'a) \<Rightarrow> ('n, jval) eff \<Rightarrow> ('n, 'a) eff" where
  "typed f m = ebind m (\<lambda>v. eret (f v))"

definition client_api :: "'n network \<Rightarrow> readers \<Rightarrow> 'n node_api" where
  "client_api nw rd =
     \<lparr>getNewAddress = (\<lambda>l. typed (rd_string rd) (getNewAddress_rpc nw l)),
      importPrivKey = (\<lambda>k l b. typed (\<lambda>_. ()) (importPrivKey_rpc nw k l b)),
      validateAddress = (\<lambda>a. typed (rd_info rd) (validateAddress_rpc nw a)),
      listUnspent = (\<lambda>lo hi as. typed (rd_utxos rd) (listUnspent_rpc nw lo hi as)),
      estimateSmartFee = (\<lambda>t. typed (rd_fee rd) (estimateSmartFee_rpc nw t)),
      listTransactions = (\<lambda>l c k b. typed (rd_txs rd) (listTransactions_rpc nw l c k b)),
      getRawTransaction = (\<lambda>t b. typed (rd_raw rd) (getRawTransaction_rpc nw t b)),
      createRawTransaction = (\<lambda>ins outs. typed (rd_string rd) (createRawTransaction_rpc nw ins outs)),
      signRawTransactionWithWallet = (\<lambda>h. typed (rd_signed rd) (signRawTransactionWithWallet_rpc nw h)),
      sendRawTransaction = (\<lambda>h. typed (rd_string rd) (sendRawTransaction_rpc nw h))\<rparr>"

lemma typed_Inr: "typed f m n = (Inr x, n') \<longleftrightarrow> (\<exists>v. m n = (Inr v, n') \<and> x = f v)"
  by (auto simp: typed_def eff_simps)

lemma rpcCall_Inr:
  "rpcCall nw m ps n = (Inr v, n') \<longleftrightarrow> (\<exists>a. fetch nw (m, ps) n = (a, n') \<and> read_response nw a = Inr v)"
  by (auto simp: rpcCall_def split: prod.splits)

section \<open>Over the node\<close>

text \<open>
  A network that may lose requests and answers and refuse them, but whose answers come from the node, in whatever
  state the requests of others have left it.
\<close>

definition answers_from :: "'c node_env \<Rightarrow> 'c key_env \<Rightarrow> 'n network \<Rightarrow> bool" where
  "answers_from env ke nw \<longleftrightarrow>
     (\<forall>q n a n'. fetch nw q n = (a, n') \<longrightarrow>
        (case a of
           Inl _ \<Rightarrow> True
         | Inr r \<Rightarrow> \<not> http_ok r \<or>
             (\<exists>st. http_body r = Json (encode_result (fst (jsonrpc_dispatch_inner env ke (fst q) (snd q) st))))))"

lemma answered:
  assumes "answers_from env ke nw" and "rpcCall nw m ps n = (Inr v, n')"
  shows "\<exists>st x. fst (jsonrpc_dispatch_inner env ke m ps st) = RpcOk x \<and> v = Some x"
proof -
  obtain a where a: "fetch nw (m, ps) n = (a, n')" "read_response nw a = Inr v" using assms(2) by (auto simp: rpcCall_Inr)
  then obtain r d where r: "a = Inr r" "http_ok r" "http_body r = Json d" "\<not> json_truthy (opt_property ''error'' (Some d))"
    "v = opt_property ''result'' (Some d)" by (auto simp: read_response_Inr)
  with a(1) assms(1) obtain st where "d = encode_result (fst (jsonrpc_dispatch_inner env ke m ps st))"
    by (fastforce simp: answers_from_def)
  with r(4,5) show ?thesis by (cases "fst (jsonrpc_dispatch_inner env ke m ps st)") auto
qed

text \<open>A method that the node does not have never returns.\<close>

lemma unknown_method_throws:
  assumes "answers_from env ke nw" and "m \<notin> set node_methods"
  shows "\<exists>e n'. rpcCall nw m ps n = (Inl e, n')"
proof (cases "rpcCall nw m ps n")
  case (Pair r n')
  then show ?thesis
    using answered [OF assms(1), of m ps n _ n'] assms(2)
    by (cases r) (auto simp: jsonrpc_dispatch_inner_def method_not_found_def Let_def)
qed

definition client_methods :: "string list" where
  "client_methods = [''getblockchaininfo'', ''getblock'', ''getblockhash'', ''getblockcount'', ''getbestblockhash'', ''getrawtransaction'',
     ''sendrawtransaction'', ''decoderawtransaction'', ''getmempoolinfo'', ''getrawmempool'', ''getmempoolentry'', ''getpeerinfo'',
     ''getnetworkinfo'', ''getconnectioncount'', ''listunspent'', ''getmininginfo'', ''getnetworkhashps'', ''estimatesmartfee'',
     ''validateaddress'', ''getchaintips'', ''listtransactions'', ''uptime'', ''getmemoryinfo'', ''getnewaddress'', ''importprivkey'',
     ''createrawtransaction'', ''signrawtransactionwithwallet'', ''getwalletinfo'', ''listaddressgroupings'', ''dumpprivkey'']"

lemma missing_methods:
  "''getnetworkhashps'' \<in> set client_methods \<and> ''getnetworkhashps'' \<notin> set node_methods"
  "''getmemoryinfo'' \<in> set client_methods \<and> ''getmemoryinfo'' \<notin> set node_methods"
  "''signrawtransactionwithwallet'' \<in> set client_methods \<and> ''signrawtransactionwithwallet'' \<notin> set node_methods"
  by code_simp+

lemmas no_signing = missing_methods(3) [THEN conjunct2]

lemma sign_throws:
  assumes "answers_from env ke nw"
  shows "signTransaction (client_api nw rd) tx s \<noteq> (Inr st, s')"
proof
  assume "signTransaction (client_api nw rd) tx s = (Inr st, s')"
  then obtain h n v n' where "signRawTransactionWithWallet_rpc nw h n = (Inr v, n')"
    by (auto simp: signTransaction_def eff_simps call_Inr_iff client_api_def typed_Inr)
  with unknown_method_throws [OF assms no_signing, of "[JStr h]" n] show False
    by (auto simp: signRawTransactionWithWallet_rpc_def)
qed

lemma sign_and_send_throws:
  assumes "answers_from env ke nw"
  shows "sign_and_send (client_api nw rd) from tx s \<noteq> (Inr txid, s')"
  using sign_throws [OF assms] by (auto simp: sign_and_send_def eff_simps)

text \<open>
  C33: With the client and the node of this repository no payment is ever made: whatever the network loses or
  refuses, \<open>sendTransaction\<close> and \<open>batchSend\<close> throw, because the node has no method
  \<open>signrawtransactionwithwallet\<close>.
\<close>

theorem browser_cannot_send:
  assumes "answers_from env ke nw"
  shows "(\<exists>e. fst (sendTransaction (client_api nw rd) from to amt feeRate s) = Inl e) \<and>
    (\<exists>e. fst (batchSend (client_api nw rd) from recipients feeRate s) = Inl e)"
proof -
  have "sendTransaction (client_api nw rd) from to amt feeRate s \<noteq> (Inr txid, s')" for txid s'
    using sign_and_send_throws [OF assms] by (auto simp: sendTransaction_def eff_simps)
  moreover have "batchSend (client_api nw rd) from recipients feeRate s \<noteq> (Inr txid, s')" for txid s'
    using sign_and_send_throws [OF assms] by (auto simp: batchSend_def eff_simps split: if_splits)
  ultimately show ?thesis by (metis obj_sumE prod.collapse)
qed

text \<open>A network that delivers every request to the node and every answer back.\<close>

definition node_network :: "'c node_env \<Rightarrow> 'c key_env \<Rightarrow> (json \<Rightarrow> string) \<Rightarrow> 'c node_state network" where
  "node_network env ke tt =
     \<lparr>fetch = (\<lambda>q s. case jsonrpc_dispatch_inner env ke (fst q) (snd q) s of
        (r, t) \<Rightarrow> (Inr \<lparr>http_status = 200, http_body = Json (encode_result r)\<rparr>, t)),
      to_text = tt, status_text = (\<lambda>_. [])\<rparr>"

lemma node_network_answers: "answers_from env ke (node_network env ke tt)"
  unfolding answers_from_def node_network_def by (auto split: prod.splits) (metis fst_conv)

lemma rpcCall_node:
  "jsonrpc_dispatch_inner env ke m ps n = (RpcOk v, n') \<Longrightarrow> rpcCall (node_network env ke tt) m ps n = (Inr (Some v), n')"
  by (simp add: rpcCall_def node_network_def read_response_def http_ok_def)

definition demo_keys :: "(string \<times> string \<times> nat) list key_env" where
  "demo_keys = \<lparr>key_address = (\<lambda>k. Inr (''kc1'' @ take 8 k, ''pub'')), persist = (\<lambda>lw c. (None, c)), fresh_key = (\<lambda>c. ((''key'', ''kc1new''), c)),
     chain_history = (\<lambda>a c. []), serialize_tx = (\<lambda>i outs l. ''00'')\<rparr>"

definition demo_readers :: readers where
  "demo_readers = \<lparr>rd_string = (\<lambda>v. case v of Some (JStr t) \<Rightarrow> t | _ \<Rightarrow> []),
     rd_info = (\<lambda>v. \<lparr>isvalid = json_truthy (opt_property ''isvalid'' v), ai_address = as_str (opt_property ''address'' v)\<rparr>),
     rd_utxos = (\<lambda>v. []), rd_fee = (\<lambda>v. None), rd_txs = (\<lambda>v. []), rd_raw = (\<lambda>v. Inl []),
     rd_signed = (\<lambda>v. \<lparr>sr_hex = [], sr_complete = True\<rparr>)\<rparr>"

definition demo_service :: "(string \<times> string \<times> nat) list node_state ws" where
  "demo_service = \<lparr>wallets = [], activeWallet = None, storageSnapshot = (Absent, None), item_wallets = Absent, item_active = None, has_storage = True,
     node = demo_node\<lparr>loaded_wallet := Some \<lparr>lw_name = ''w'', lw_wallet = demo_file ''w'', passphrase_until = None, encrypted = False,
       lw_password = None\<rparr>\<rparr>\<rparr>"

theorem browser_cannot_send_witness:
  "(\<exists>e. fst (sendTransaction (client_api (node_network demo_env demo_keys (\<lambda>_. [])) demo_readers) ''a'' ''b'' 1 None
       demo_service) = Inl e) \<and>
   (\<exists>e. fst (batchSend (client_api (node_network demo_env demo_keys (\<lambda>_. [])) demo_readers) ''a'' [(''b'', 1)] None
       demo_service) = Inl e)"
  by (rule browser_cannot_send [OF node_network_answers])

text \<open>The node answers \<open>getnewaddress\<close> with an object; the client takes it for the address itself.\<close>

lemma new_address_is_no_string:
  assumes "answers_from env ke nw" and "getNewAddress_rpc nw lbl n = (Inr v, n')"
  shows "\<exists>a. v = Some (JObj [(''address'', JStr a)])"
proof -
  obtain st x where "fst (jsonrpc_dispatch_inner env ke ''getnewaddress'' [JStr lbl] st) = RpcOk x" "v = Some x"
    using answered [OF assms(1)] assms(2) by (metis getNewAddress_rpc_def)
  then show ?thesis
    by (auto simp: jsonrpc_dispatch_inner_def method_not_found_def rpc_getnewaddress_def save_and_answer_def wallet_locked_def Let_def
        split: if_splits option.splits prod.splits bool.splits)
qed

text \<open>
  C34: The browser imports a private key with the node of this repository: its \<open>validateaddress\<close> repeats the text it
  is asked about, which is the key. So the key is filed as the address of the wallet and stands in the browser's
  storage in the clear.
\<close>

theorem imported_key_in_clear:
  assumes "has_storage s" and "hex32 key" and "loaded_wallet (node s) = Some lw" and "\<not> watch_only (lw_wallet lw)" and "\<not> encrypted lw"
    and "key_address ke (toLowerCase key) = Inr ap" and "\<And>w c. fst (persist ke w c) = None"
    and rd: "\<And>fs. ai_address (rd_info rd (Some (JObj fs))) = as_str (map_of fs ''address'')"
    and "importWallet (client_api (node_network env ke tt) rd) clk key lbl rescan s = (r, s')"
  shows "\<exists>es w. item_wallets s' = Json es \<and> (key, Some w) \<in> set es \<and> address w = key"
proof -
  let ?nw = "node_network env ke tt"
  have lw: "refresh_lock_state now lw = lw" for now using assms(5) by (simp add: refresh_lock_state_def)
  have "\<exists>v n. jsonrpc_dispatch_inner env ke ''importprivkey'' [JStr key, JStr lbl, JBool rescan] (node s) = (RpcOk v, n)"
    using assms(2-7) lw
    by (auto simp: jsonrpc_dispatch_inner_def node_methods_def wallet_methods_def rpc_importprivkey_def save_and_answer_def param_def Let_def
        split: prod.splits option.splits) (metis fst_conv option.distinct(1))+
  then obtain v n where "importPrivKey (client_api ?nw rd) key lbl rescan (node s) = (Inr (), n)"
    by (auto simp: client_api_def typed_Inr importPrivKey_rpc_def dest: rpcCall_node)
  moreover have "\<exists>info n'. validateAddress (client_api ?nw rd) key n = (Inr info, n') \<and> ai_address info = Some key"
  proof -
    have "\<exists>n'. jsonrpc_dispatch_inner env ke ''validateaddress'' [JStr key] n =
       (RpcOk (JObj [(''isvalid'', JBool (address_valid env key)), (''address'', JStr key)]), n')"
      by (simp add: jsonrpc_dispatch_inner_def node_methods_def chain_methods_def rpc_validateaddress_def param_def Let_def)
    then obtain n' where "rpcCall ?nw ''validateaddress'' [JStr key] n =
       (Inr (Some (JObj [(''isvalid'', JBool (address_valid env key)), (''address'', JStr key)])), n')" by (blast dest: rpcCall_node)
    then show ?thesis by (simp add: client_api_def typed_Inr validateAddress_rpc_def rd)
  qed
  moreover have "key \<noteq> []" using assms(2) by (auto simp: hex32_def)
  ultimately show ?thesis using import_files_address [OF assms(1)] assms(9) by blast
qed

theorem imported_key_in_clear_witness:
  "\<exists>es w. item_wallets (snd (importWallet (client_api (node_network demo_env demo_keys (\<lambda>_. [])) demo_readers) (\<lambda>_. 0)
       (replicate 64 (CHR ''1'')) ''l'' False demo_service)) = Json es \<and>
     (replicate 64 (CHR ''1''), Some w) \<in> set es \<and> address w = replicate 64 (CHR ''1'')"
  by (rule imported_key_in_clear [of demo_service _ _ demo_keys "(''kc1'' @ replicate 8 (CHR ''1''), ''pub'')" demo_readers demo_env
        "\<lambda>_. []" "\<lambda>_. 0" "''l''" False])
    (auto simp: demo_service_def demo_keys_def demo_readers_def demo_file_def hex32_def is_hex_char_def toLowerCase_def lower_char_def
      list_all_iff intro: prod.collapse [symmetric])

end
