(* ===== verification/WebSocket.thy ===== *)
theory WebSocket
  imports JsStore
begin

text \<open>
  The live-update service (services/websocket.ts): a connection to the node that reconnects with
  growing delays, keeps itself alive with pings and tells the server which events have listeners;
  and the polling service of the same file. Sockets, reconnection timers and heartbeat intervals
  are objects of their own: the service may drop its reference to one that is still alive, so the
  state keeps all that were made. The network, the timers and the callers interleave in a step
  relation. Listeners are numbers; a listener that throws is caught, and listeners that change the
  listeners while they run are not modelled.
\<close>

section \<open>Data\<close>

datatype event_type = NewBlock | NewTransaction | MempoolUpdate | PeerConnect | PeerDisconnect

datatype ws_event =
    BlockEvent string int int int
  | TransactionEvent string int jsnum
  | MempoolUpdateEvent int int
  | PeerConnectEvent int string
  | PeerDisconnectEvent int string

fun type_of :: "ws_event \<Rightarrow> event_type" where
  "type_of (BlockEvent _ _ _ _) = NewBlock"
| "type_of (TransactionEvent _ _ _) = NewTransaction"
| "type_of (MempoolUpdateEvent _ _) = MempoolUpdate"
| "type_of (PeerConnectEvent _ _) = PeerConnect"
| "type_of (PeerDisconnectEvent _ _) = PeerDisconnect"

datatype ready_state = Connecting | Open | Closing | Closed

datatype client_message = Ping | Subscribe "event_type list" | Unsubscribe "event_type list"

text \<open>
  \<open>ws\<close> is the socket that the service refers to, an index into \<open>sockets\<close>, the states of all
  sockets made; \<open>sent\<close> are the messages sent, by socket; \<open>timers\<close> are the pending
  reconnections with their delays, \<open>intervals\<close> the running heartbeats.
\<close>

record ws_state =
  ws :: "nat option"
  sockets :: "ready_state list"
  sent :: "(nat \<times> client_message) list"
  reconnectAttempts :: nat
  listeners :: "(event_type, nat list) jsmap"
  reconnectTimer :: "nat option"
  heartbeatTimer :: "nat option"
  isIntentionallyClosed :: bool
  timers :: "(nat \<times> nat) list"
  intervals :: "nat list"
  next_id :: nat
  delivered :: "(nat \<times> ws_event) list"

definition maxReconnectAttempts :: nat where
  "maxReconnectAttempts = 5"

definition reconnectDelay :: nat where
  "reconnectDelay = 3000"

definition new_WebSocketService :: ws_state where
  "new_WebSocketService =
     \<lparr>ws = None, sockets = [], sent = [], reconnectAttempts = 0, listeners = [], reconnectTimer = None,
      heartbeatTimer = None, isIntentionallyClosed = False, timers = [], intervals = [], next_id = 0, delivered = []\<rparr>"

section \<open>Methods\<close>

definition isConnected :: "ws_state \<Rightarrow> bool" where
  "isConnected s = (case ws s of None \<Rightarrow> False | Some k \<Rightarrow> sockets s ! k = Open)"

text \<open>\<open>this.ws.send(...)\<close>\<close>

definition send :: "client_message \<Rightarrow> ws_state \<Rightarrow> ws_state" where
  "send m s = (case ws s of None \<Rightarrow> s | Some k \<Rightarrow> s\<lparr>sent := sent s @ [(k, m)]\<rparr>)"

definition attemptReconnect :: "ws_state \<Rightarrow> ws_state" where
  "attemptReconnect s =
     (if reconnectAttempts s \<ge> maxReconnectAttempts then s
      else s\<lparr>timers := timers s @ [(next_id s, reconnectDelay * 2 ^ reconnectAttempts s)],
             reconnectTimer := Some (next_id s), next_id := Suc (next_id s)\<rparr>)"

definition startHeartbeat :: "ws_state \<Rightarrow> ws_state" where
  "startHeartbeat s = s\<lparr>intervals := intervals s @ [next_id s], heartbeatTimer := Some (next_id s), next_id := Suc (next_id s)\<rparr>"

definition stopHeartbeat :: "ws_state \<Rightarrow> ws_state" where
  "stopHeartbeat s =
     (case heartbeatTimer s of
        None \<Rightarrow> s
      | Some i \<Rightarrow> s\<lparr>intervals := filter (\<lambda>j. j \<noteq> i) (intervals s), heartbeatTimer := None\<rparr>)"

definition subscribe :: "ws_state \<Rightarrow> ws_state" where
  "subscribe s =
     (if \<not> isConnected s then s
      else let subs = map fst (listeners s) in if subs \<noteq> [] then send (Subscribe subs) s else s)"

text \<open>\<open>good\<close>: the constructor of \<open>WebSocket\<close> does not throw.\<close>

definition connect :: "bool \<Rightarrow> ws_state \<Rightarrow> ws_state" where
  "connect good s =
     (if isConnected s then s
      else
        let s1 = s\<lparr>isIntentionallyClosed := False\<rparr>
        in if good then s1\<lparr>sockets := sockets s1 @ [Connecting], ws := Some (length (sockets s1))\<rparr>
           else attemptReconnect s1)"

definition disconnect :: "ws_state \<Rightarrow> ws_state" where
  "disconnect s =
     (let s1 = stopHeartbeat (s\<lparr>isIntentionallyClosed := True\<rparr>);
          s2 = (case reconnectTimer s1 of
                  None \<Rightarrow> s1
                | Some t \<Rightarrow> s1\<lparr>timers := filter (\<lambda>(u, _). u \<noteq> t) (timers s1), reconnectTimer := None\<rparr>)
      in case ws s2 of
        None \<Rightarrow> s2
      | Some k \<Rightarrow> s2\<lparr>sockets := (sockets s2)[k := (if sockets s2 ! k = Closed then Closed else Closing)], ws := None\<rparr>)"

definition handleMessage :: "ws_event \<Rightarrow> ws_state \<Rightarrow> ws_state" where
  "handleMessage e s =
     (case map_of (listeners s) (type_of e) of
        None \<Rightarrow> s
      | Some cs \<Rightarrow> s\<lparr>delivered := delivered s @ map (\<lambda>c. (c, e)) cs\<rparr>)"

definition on :: "event_type \<Rightarrow> nat \<Rightarrow> ws_state \<Rightarrow> ws_state" where
  "on ty c s =
     (let cs = (case map_of (listeners s) ty of None \<Rightarrow> [] | Some cs \<Rightarrow> cs);
          s1 = s\<lparr>listeners := AList.update ty (if c \<in> set cs then cs else cs @ [c]) (listeners s)\<rparr>
      in if isConnected s1 then send (Subscribe [ty]) s1 else s1)"

definition off :: "event_type \<Rightarrow> nat \<Rightarrow> ws_state \<Rightarrow> ws_state" where
  "off ty c s =
     (case map_of (listeners s) ty of
        None \<Rightarrow> s
      | Some cs \<Rightarrow>
          if removeAll c cs = [] then
            let s1 = s\<lparr>listeners := AList.delete ty (listeners s)\<rparr>
            in if isConnected s1 then send (Unsubscribe [ty]) s1 else s1
          else s\<lparr>listeners := AList.update ty (removeAll c cs) (listeners s)\<rparr>)"

datatype status = StConnecting | StOpen | StClosing | StClosed

definition getStatus :: "ws_state \<Rightarrow> status" where
  "getStatus s =
     (case ws s of
        None \<Rightarrow> StClosed
      | Some k \<Rightarrow> (case sockets s ! k of Connecting \<Rightarrow> StConnecting | Open \<Rightarrow> StOpen | Closing \<Rightarrow> StClosing | Closed \<Rightarrow> StClosed))"

section \<open>Callbacks\<close>

definition onopen :: "ws_state \<Rightarrow> ws_state" where
  "onopen s = subscribe (startHeartbeat (s\<lparr>reconnectAttempts := 0\<rparr>))"

text \<open>\<open>None\<close> is a text that \<open>JSON.parse\<close> refuses.\<close>

definition onmessage :: "ws_event option \<Rightarrow> ws_state \<Rightarrow> ws_state" where
  "onmessage m s = (case m of None \<Rightarrow> s | Some e \<Rightarrow> handleMessage e s)"

definition onclose :: "ws_state \<Rightarrow> ws_state" where
  "onclose s =
     (let s1 = stopHeartbeat s
      in if \<not> isIntentionallyClosed s1 then attemptReconnect s1 else s1)"

definition reconnect_due :: "bool \<Rightarrow> nat \<Rightarrow> ws_state \<Rightarrow> ws_state" where
  "reconnect_due good t s =
     connect good (s\<lparr>timers := filter (\<lambda>(u, _). u \<noteq> t) (timers s), reconnectAttempts := Suc (reconnectAttempts s)\<rparr>)"

definition heartbeat_due :: "ws_state \<Rightarrow> ws_state" where
  "heartbeat_due s = (if isConnected s then send Ping s else s)"

section \<open>Steps\<close>

text \<open>
  What the network, the timers and the callers may do, apart from calling \<open>connect\<close>. Opening,
  closing and receiving are events of any socket that was made.
\<close>

inductive ws_event_step :: "ws_state \<Rightarrow> ws_state \<Rightarrow> bool" where
  opened: "k < length (sockets s) \<Longrightarrow> sockets s ! k = Connecting \<Longrightarrow>
     ws_event_step s (onopen (s\<lparr>sockets := (sockets s)[k := Open]\<rparr>))"
| received: "k < length (sockets s) \<Longrightarrow> sockets s ! k = Open \<Longrightarrow> ws_event_step s (onmessage m s)"
| closed: "k < length (sockets s) \<Longrightarrow> sockets s ! k \<noteq> Closed \<Longrightarrow>
     ws_event_step s (onclose (s\<lparr>sockets := (sockets s)[k := Closed]\<rparr>))"
| reconnecting: "t \<in> fst ` set (timers s) \<Longrightarrow> ws_event_step s (reconnect_due good t s)"
| beating: "i \<in> set (intervals s) \<Longrightarrow> ws_event_step s (heartbeat_due s)"
| listening: "ws_event_step s (on ty c s)"
| unlistening: "ws_event_step s (off ty c s)"
| disconnecting: "ws_event_step s (disconnect s)"

text \<open>Every run, with calls of \<open>connect\<close> at any time.\<close>

inductive ws_reach :: "ws_state \<Rightarrow> bool" where
  start: "ws_reach new_WebSocketService"
| step: "ws_reach s \<Longrightarrow> ws_event_step s s' \<Longrightarrow> ws_reach s'"
| call: "ws_reach s \<Longrightarrow> ws_reach (connect good s)"

text \<open>The runs of the page: one call of \<open>connect\<close> when the module is loaded and none after it.\<close>

inductive page_reach :: "ws_state \<Rightarrow> bool" where
  loaded: "page_reach (connect good new_WebSocketService)"
| event: "page_reach s \<Longrightarrow> ws_event_step s s' \<Longrightarrow> page_reach s'"

section \<open>The server knows the listeners\<close>

definition told :: "nat \<Rightarrow> (nat \<times> client_message) list \<Rightarrow> event_type set" where
  "told k ms =
     foldl (\<lambda>S (j, m). if j \<noteq> k then S else case m of Ping \<Rightarrow> S | Subscribe es \<Rightarrow> S \<union> set es | Unsubscribe es \<Rightarrow> S - set es) {} ms"

lemma told_append [simp]:
  "told k (ms @ [(j, m)]) =
     (if j \<noteq> k then told k ms
      else case m of Ping \<Rightarrow> told k ms | Subscribe es \<Rightarrow> told k ms \<union> set es | Unsubscribe es \<Rightarrow> told k ms - set es)"
  by (cases m) (simp_all add: told_def)

lemma told_unsent: "(\<And>m. (k, m) \<notin> set ms) \<Longrightarrow> told k ms = {}"
proof (induction ms rule: rev_induct)
  case Nil
  then show ?case by (simp add: told_def)
next
  case (snoc jm ms)
  then show ?case by (cases jm) (auto split: client_message.splits)
qed

text \<open>
  The socket referred to exists, messages were only sent on sockets that had opened, and while the
  connection is open the server was told exactly the events that have listeners.
\<close>

definition told_inv :: "ws_state \<Rightarrow> bool" where
  "told_inv s \<longleftrightarrow>
     (\<forall>k. ws s = Some k \<longrightarrow> k < length (sockets s)) \<and>
     (\<forall>j m. (j, m) \<in> set (sent s) \<longrightarrow> j < length (sockets s) \<and> sockets s ! j \<noteq> Connecting) \<and>
     (\<forall>k. ws s = Some k \<and> sockets s ! k = Open \<longrightarrow> told k (sent s) = fst ` set (listeners s))"

definition same_told :: "ws_state \<Rightarrow> ws_state \<Rightarrow> bool" where
  "same_told s s' \<longleftrightarrow> ws s' = ws s \<and> sockets s' = sockets s \<and> sent s' = sent s \<and> listeners s' = listeners s"

lemma told_inv_cong: "same_told s s' \<Longrightarrow> told_inv s' = told_inv s"
  by (simp add: told_inv_def same_told_def)

lemma same_told_ops [simp]:
  "same_told s (attemptReconnect s)" "same_told s (startHeartbeat s)" "same_told s (stopHeartbeat s)" "same_told s (handleMessage e s)"
  "same_told s (s\<lparr>reconnectAttempts := n\<rparr>)" "same_told s (s\<lparr>isIntentionallyClosed := b\<rparr>)"
  by (simp_all add: same_told_def attemptReconnect_def startHeartbeat_def stopHeartbeat_def handleMessage_def split: option.splits)

lemma same_told_trans: "same_told s t \<Longrightarrow> same_told t u \<Longrightarrow> same_told s u"
  by (simp add: same_told_def)

lemma same_told_connected: "same_told s t \<Longrightarrow> isConnected t = isConnected s"
  by (cases "ws s") (simp_all add: same_told_def isConnected_def)

lemma told_connect:
  assumes "told_inv s"
  shows "told_inv (connect good s)"
proof (cases "isConnected s \<or> \<not> good")
  case True
  then have "same_told s (connect good s)"
    by (auto simp: connect_def same_told_def attemptReconnect_def Let_def)
  with assms show ?thesis by (simp add: told_inv_cong)
next
  case False
  then have "connect good s = s\<lparr>isIntentionallyClosed := False, sockets := sockets s @ [Connecting], ws := Some (length (sockets s))\<rparr>"
    by (simp add: connect_def Let_def)
  with assms show ?thesis by (auto simp: told_inv_def nth_append)
qed

lemma told_subscribe:
  assumes "\<And>k. ws s = Some k \<Longrightarrow> k < length (sockets s)"
    and "\<And>j m. (j, m) \<in> set (sent s) \<Longrightarrow> j < length (sockets s) \<and> sockets s ! j \<noteq> Connecting"
    and "\<And>k. ws s = Some k \<Longrightarrow> sockets s ! k = Open \<Longrightarrow> told k (sent s) \<subseteq> fst ` set (listeners s)"
  shows "told_inv (subscribe s)"
  using assms
  by (cases "ws s") (auto simp: subscribe_def told_inv_def isConnected_def send_def Let_def split: if_splits)

lemma told_open:
  assumes s: "told_inv s" and k: "k < length (sockets s)" "sockets s ! k = Connecting"
  shows "told_inv (onopen (s\<lparr>sockets := (sockets s)[k := Open]\<rparr>))"
proof -
  let ?t = "startHeartbeat (s\<lparr>sockets := (sockets s)[k := Open], reconnectAttempts := 0\<rparr>)"
  have f: "ws ?t = ws s" "sockets ?t = (sockets s)[k := Open]" "sent ?t = sent s" "listeners ?t = listeners s"
    by (simp_all add: startHeartbeat_def)
  have "told k (sent s) = {}" by (rule told_unsent) (use s k in \<open>auto simp: told_inv_def\<close>)
  with s k have "told_inv (subscribe ?t)"
    by (intro told_subscribe) (auto simp: f told_inv_def nth_list_update split: if_splits)
  then show ?thesis by (simp add: onopen_def)
qed

lemma told_close:
  assumes s: "told_inv s" and k: "k < length (sockets s)"
  shows "told_inv (s\<lparr>sockets := (sockets s)[k := Closed]\<rparr>)" "told_inv (s\<lparr>sockets := (sockets s)[k := Closing]\<rparr>)"
  using assms by (auto simp: told_inv_def nth_list_update split: if_splits)

lemma told_on: "told_inv s \<Longrightarrow> told_inv (on ty c s)"
  by (cases "ws s")
    (auto simp: on_def told_inv_def isConnected_def send_def Let_def dom_update split: if_splits)

lemma told_off: "told_inv s \<Longrightarrow> told_inv (off ty c s)"
proof (cases "map_of (listeners s) ty")
  case (Some cs)
  have d: "fst ` set (AList.delete ty (listeners s)) = fst ` set (listeners s) - {ty}"
    by (auto simp: AList.delete_eq)
  have u: "fst ` set (AList.update ty x (listeners s)) = fst ` set (listeners s)" for x
    using map_of_SomeD [OF Some] by (force simp: dom_update)
  assume "told_inv s"
  with Some d u show ?thesis
    by (cases "ws s") (auto simp: off_def told_inv_def isConnected_def send_def Let_def split: if_splits)
qed (simp add: off_def)

lemma told_disconnect: "told_inv s \<Longrightarrow> told_inv (disconnect s)"
proof -
  assume s: "told_inv s"
  let ?s1 = "stopHeartbeat (s\<lparr>isIntentionallyClosed := True\<rparr>)"
  let ?s2 = "case reconnectTimer ?s1 of None \<Rightarrow> ?s1
       | Some t \<Rightarrow> ?s1\<lparr>timers := filter (\<lambda>(u, _). u \<noteq> t) (timers ?s1), reconnectTimer := None\<rparr>"
  have "same_told s ?s1" by (rule same_told_trans [OF same_told_ops(6) same_told_ops(3)])
  then have "same_told s ?s2" by (simp add: same_told_def split: option.splits)
  with s show ?thesis
    by (auto simp: disconnect_def Let_def told_inv_def same_told_def nth_list_update split: option.splits if_splits)
qed

lemma told_step: "ws_event_step s s' \<Longrightarrow> told_inv s \<Longrightarrow> told_inv s'"
proof (induction rule: ws_event_step.induct)
  case (closed k s)
  then show ?case
    using told_close(1) [of s k] same_told_trans [OF same_told_ops(3) same_told_ops(1)]
    by (simp add: onclose_def Let_def told_inv_cong [OF same_told_ops(3)] told_inv_cong [OF same_told_ops(1)])
next
  case (received k s m)
  then show ?case by (simp add: onmessage_def told_inv_cong [OF same_told_ops(4)] split: option.split)
next
  case (reconnecting t s good)
  then show ?case unfolding reconnect_due_def by (intro told_connect) (simp add: told_inv_def)
next
  case (beating i s)
  then show ?case
    by (cases "ws s") (auto simp: heartbeat_due_def isConnected_def send_def told_inv_def)
qed (simp_all add: told_open told_on told_off told_disconnect)



section \<open>The runs of a page\<close>

definition live :: "ready_state \<Rightarrow> bool" where
  "live r \<longleftrightarrow> r = Connecting \<or> r = Open"

text \<open>The part of the state that connecting is about.\<close>

definition wiring where
  "wiring s = (ws s, sockets s, timers s, intervals s, heartbeatTimer s, reconnectTimer s, reconnectAttempts s, isIntentionallyClosed s)"

definition one_socket :: "ws_state \<Rightarrow> bool" where
  "one_socket s \<longleftrightarrow>
     (\<forall>k. ws s = Some k \<longrightarrow> k < length (sockets s)) \<and>
     (\<forall>j < length (sockets s). ws s \<noteq> Some j \<longrightarrow> \<not> live (sockets s ! j)) \<and>
     (\<forall>j < length (sockets s). sockets s ! j = Closing \<longrightarrow> isIntentionallyClosed s) \<and>
     (isIntentionallyClosed s \<longrightarrow> ws s = None)"

definition one_timer :: "ws_state \<Rightarrow> bool" where
  "one_timer s \<longleftrightarrow> reconnectAttempts s \<le> maxReconnectAttempts \<and>
     (timers s \<noteq> [] \<longrightarrow>
        (\<exists>t. timers s = [(t, reconnectDelay * 2 ^ reconnectAttempts s)] \<and> reconnectTimer s = Some t) \<and>
        reconnectAttempts s < maxReconnectAttempts \<and> \<not> isIntentionallyClosed s \<and>
        (\<forall>j < length (sockets s). \<not> live (sockets s ! j)))"

definition one_heartbeat :: "ws_state \<Rightarrow> bool" where
  "one_heartbeat s \<longleftrightarrow>
     (if isConnected s then \<exists>i. intervals s = [i] \<and> heartbeatTimer s = Some i
      else intervals s = [] \<and> heartbeatTimer s = None)"

definition page_inv :: "ws_state \<Rightarrow> bool" where
  "page_inv s \<longleftrightarrow> one_socket s \<and> one_timer s \<and> one_heartbeat s"

lemmas page_defs = page_inv_def one_socket_def one_timer_def one_heartbeat_def

lemma page_inv_cong:
  assumes "wiring s' = wiring s"
  shows "page_inv s' = page_inv s"
proof -
  have "isConnected s' = isConnected s" using assms by (cases "ws s") (simp_all add: wiring_def isConnected_def)
  with assms show ?thesis by (simp add: wiring_def page_defs)
qed

lemma wiring_send [simp]: "wiring (send m s) = wiring s"
  by (simp add: wiring_def send_def split: option.split)

lemma wiring_listeners [simp]: "wiring (s\<lparr>listeners := l\<rparr>) = wiring s" "wiring (handleMessage e s) = wiring s"
  by (simp_all add: wiring_def handleMessage_def split: option.split)

lemma wiring_subscribe [simp]: "wiring (subscribe s) = wiring s"
  by (simp add: subscribe_def Let_def)

lemma isConnected_iff: "isConnected s \<longleftrightarrow> (\<exists>k. ws s = Some k \<and> sockets s ! k = Open)"
  by (cases "ws s") (simp_all add: isConnected_def)

lemma page_connect:
  assumes "\<not> isConnected s" and "one_timer s" and "one_heartbeat s" and "timers s = []" and "\<not> isIntentionallyClosed s"
    and "\<And>j. j < length (sockets s) \<Longrightarrow> sockets s ! j = Closed" and "\<And>k. ws s = Some k \<Longrightarrow> k < length (sockets s)"
  shows "page_inv (connect good s)"
proof (cases good)
  case True
  with assms show ?thesis
    by (auto simp: connect_def page_defs isConnected_iff live_def nth_append less_Suc_eq Let_def)
next
  case False
  let ?t = "attemptReconnect (s\<lparr>isIntentionallyClosed := False\<rparr>)"
  have f: "ws ?t = ws s" "sockets ?t = sockets s" "isIntentionallyClosed ?t = False" "intervals ?t = intervals s"
      "heartbeatTimer ?t = heartbeatTimer s" "reconnectAttempts ?t = reconnectAttempts s"
    by (simp_all add: attemptReconnect_def)
  have "one_timer ?t" using assms by (auto simp: one_timer_def attemptReconnect_def live_def)
  moreover have "one_heartbeat ?t" using assms(1,3) by (simp add: one_heartbeat_def isConnected_iff f)
  moreover have "one_socket ?t" using assms by (auto simp: one_socket_def f live_def)
  ultimately show ?thesis using False assms(1) by (simp add: connect_def page_inv_def Let_def)
qed

lemma page_open:
  assumes s: "page_inv s" and k: "k < length (sockets s)" "sockets s ! k = Connecting"
  shows "page_inv (onopen (s\<lparr>sockets := (sockets s)[k := Open]\<rparr>))"
proof -
  let ?t = "startHeartbeat (s\<lparr>sockets := (sockets s)[k := Open], reconnectAttempts := 0\<rparr>)"
  have w: "ws s = Some k" using s k unfolding page_defs live_def by blast
  then have "\<not> isConnected s" "timers s = []" using s k by (auto simp: page_defs isConnected_iff live_def)
  then have "page_inv ?t"
    using s k w by (auto simp: startHeartbeat_def page_defs isConnected_iff live_def nth_list_update split: if_splits)
  then show ?thesis by (simp add: onopen_def page_inv_cong [OF wiring_subscribe])
qed

lemma page_close:
  assumes s: "page_inv s" and k: "k < length (sockets s)" "sockets s ! k \<noteq> Closed"
  shows "page_inv (onclose (s\<lparr>sockets := (sockets s)[k := Closed]\<rparr>))"
proof (cases "ws s = Some k")
  case True
  then have l: "live (sockets s ! k)" "\<not> isIntentionallyClosed s"
    using s k by (cases "sockets s ! k"; auto simp: page_defs live_def)+
  then have t: "timers s = []" using s k by (auto simp: page_defs)
  let ?t = "stopHeartbeat (s\<lparr>sockets := (sockets s)[k := Closed]\<rparr>)"
  have f: "intervals ?t = []" "heartbeatTimer ?t = None" "ws ?t = Some k" "sockets ?t = (sockets s)[k := Closed]" "timers ?t = []"
      "\<not> isIntentionallyClosed ?t" "reconnectAttempts ?t = reconnectAttempts s"
    using s t l True by (auto simp: stopHeartbeat_def page_defs isConnected_iff split: option.splits if_splits)
  have "\<And>j. j < length (sockets s) \<Longrightarrow> j \<noteq> k \<Longrightarrow> \<not> live (sockets s ! j)" using s True by (auto simp: page_defs)
  then have "page_inv (attemptReconnect ?t)"
    using f s k l by (auto simp: attemptReconnect_def page_defs isConnected_iff live_def nth_list_update)
  then show ?thesis using f by (simp add: onclose_def Let_def)
next
  case False
  then have "sockets s ! k = Closing" using s k by (cases "sockets s ! k") (auto simp: page_defs live_def)
  then have c: "isIntentionallyClosed s" using s k by (auto simp: page_defs)
  then have "ws s = None" "heartbeatTimer s = None" using s by (auto simp: page_defs isConnected_iff)
  with c s False k(1) show ?thesis
    by (auto simp: onclose_def stopHeartbeat_def page_defs isConnected_iff live_def nth_list_update Let_def split: if_splits)
qed

lemma page_reconnect:
  assumes s: "page_inv s" and t: "t \<in> fst ` set (timers s)"
  shows "page_inv (reconnect_due good t s)"
proof -
  obtain d where d: "timers s = [(t, d)]" "reconnectAttempts s < maxReconnectAttempts" "\<not> isIntentionallyClosed s"
      "\<And>j. j < length (sockets s) \<Longrightarrow> \<not> live (sockets s ! j)"
    using s t by (auto simp: page_defs)
  have c: "sockets s ! j = Closed" if "j < length (sockets s)" for j
    using that s d by (cases "sockets s ! j") (auto simp: page_defs live_def)
  then have n: "\<not> isConnected s" using s by (auto simp: isConnected_def page_defs split: option.splits)
  show ?thesis
    unfolding reconnect_due_def
    by (rule page_connect) (use s d c n in \<open>auto simp: page_defs isConnected_iff split: if_splits\<close>)
qed

lemma page_disconnect:
  assumes s: "page_inv s"
  shows "page_inv (disconnect s)" "isIntentionallyClosed (disconnect s)"
proof -
  have "intervals (stopHeartbeat (s\<lparr>isIntentionallyClosed := True\<rparr>)) = []" "heartbeatTimer (stopHeartbeat (s\<lparr>isIntentionallyClosed := True\<rparr>)) = None"
    using s by (auto simp: stopHeartbeat_def page_defs split: option.splits if_splits)
  moreover have "timers (disconnect s) = []"
    using s by (cases "timers s") (auto simp: disconnect_def stopHeartbeat_def page_defs Let_def split: option.splits if_splits)
  moreover have "ws (disconnect s) = None" "isIntentionallyClosed (disconnect s)"
      "intervals (disconnect s) = intervals (stopHeartbeat (s\<lparr>isIntentionallyClosed := True\<rparr>))"
      "heartbeatTimer (disconnect s) = heartbeatTimer (stopHeartbeat (s\<lparr>isIntentionallyClosed := True\<rparr>))"
      "reconnectAttempts (disconnect s) = reconnectAttempts s"
    by (auto simp: disconnect_def stopHeartbeat_def Let_def split: option.splits)
  moreover have "\<not> live (sockets (disconnect s) ! j)" if "j < length (sockets (disconnect s))" for j
    using that s
    by (auto simp: disconnect_def stopHeartbeat_def Let_def page_defs live_def nth_list_update split: option.splits if_splits)
  ultimately show "page_inv (disconnect s)" "isIntentionallyClosed (disconnect s)"
    using s by (auto simp: page_defs isConnected_iff)
qed

lemma wiring_rest [simp]: "wiring (on ty c s) = wiring s" "wiring (off ty c s) = wiring s" "wiring (heartbeat_due s) = wiring s"
  "wiring (onmessage m s) = wiring s"
  by (simp_all add: on_def off_def heartbeat_due_def onmessage_def Let_def split: option.split)

lemma page_step: "ws_event_step s s' \<Longrightarrow> page_inv s \<Longrightarrow> page_inv s'"
  by (induction rule: ws_event_step.induct)
    (simp_all add: page_open page_close page_reconnect page_disconnect page_inv_cong [OF wiring_rest(1)]
      page_inv_cong [OF wiring_rest(2)] page_inv_cong [OF wiring_rest(3)] page_inv_cong [OF wiring_rest(4)])

lemma page_reach_inv: "page_reach s \<Longrightarrow> page_inv s"
proof (induction rule: page_reach.induct)
  case (loaded good)
  show ?case
    by (rule page_connect) (simp_all add: new_WebSocketService_def isConnected_def page_defs maxReconnectAttempts_def)
next
  case (event s s')
  then show ?case using page_step by blast
qed



text \<open>Once disconnected, the page never connects again.\<close>

lemma disconnected_for_good:
  assumes "page_reach s" and "isIntentionallyClosed s" and "ws_event_step s s'"
  shows "isIntentionallyClosed s' \<and> \<not> isConnected s'"
proof -
  have s: "page_inv s" and s': "page_inv s'"
    using assms page_reach_inv page_reach.event by blast+
  then have t: "timers s = []" "\<And>j. j < length (sockets s) \<Longrightarrow> sockets s ! j \<noteq> Connecting"
    using assms(2) by (auto simp: page_defs live_def)
  have "isIntentionallyClosed s'"
    using assms(3)
  proof cases
    case disconnecting
    then show ?thesis using page_disconnect(2) [OF s] by simp
  next
    case (closed k)
    then show ?thesis using assms(2) by (simp add: onclose_def stopHeartbeat_def Let_def split: option.splits)
  next
    case (received k m)
    then show ?thesis using assms(2) wiring_rest(4) [of m s] by (simp add: wiring_def)
  next
    case (beating i)
    then show ?thesis using assms(2) wiring_rest(3) [of s] by (simp add: wiring_def)
  next
    case (listening ty c)
    then show ?thesis using assms(2) wiring_rest(1) [of ty c s] by (simp add: wiring_def)
  next
    case (unlistening ty c)
    then show ?thesis using assms(2) wiring_rest(2) [of ty c s] by (simp add: wiring_def)
  qed (use t in auto)
  with s' show ?thesis by (auto simp: page_defs isConnected_iff)
qed

section \<open>A page does not give up early\<close>

text \<open>
  Unless it was disconnected or has used its attempts, a page has a live socket or a pending
  reconnection: it never waits for nothing.
\<close>

definition not_stuck :: "ws_state \<Rightarrow> bool" where
  "not_stuck s \<longleftrightarrow>
     isIntentionallyClosed s \<or> (\<exists>j < length (sockets s). live (sockets s ! j)) \<or> timers s \<noteq> [] \<or>
     reconnectAttempts s \<ge> maxReconnectAttempts"

lemma not_stuck_cong: "wiring s' = wiring s \<Longrightarrow> not_stuck s' = not_stuck s"
  by (simp add: wiring_def not_stuck_def)

lemma not_stuck_attempt: "not_stuck (attemptReconnect s)"
  by (simp add: not_stuck_def attemptReconnect_def)

lemma not_stuck_connect: "\<not> isConnected s \<Longrightarrow> not_stuck (connect good s)"
proof (cases good)
  case True
  assume "\<not> isConnected s"
  with True have "sockets (connect good s) = sockets s @ [Connecting]" by (simp add: connect_def Let_def)
  then have "length (sockets s) < length (sockets (connect good s)) \<and> live (sockets (connect good s) ! length (sockets s))"
    by (simp add: live_def)
  then show ?thesis unfolding not_stuck_def by blast
qed (simp add: connect_def not_stuck_attempt Let_def)

lemma not_stuck_step:
  assumes "ws_event_step s s'" and s: "page_inv s" "not_stuck s"
  shows "not_stuck s'"
  using assms(1)
proof cases
  case (opened k)
  then have "live (sockets s' ! k) \<and> k < length (sockets s')"
    by (simp add: onopen_def startHeartbeat_def subscribe_def send_def live_def Let_def split: option.split)
  then show ?thesis unfolding not_stuck_def by blast
next
  case (closed k)
  then show ?thesis
    by (simp add: onclose_def not_stuck_attempt Let_def) (simp add: not_stuck_def)
next
  case (reconnecting t good)
  have "\<not> isConnected s" using s(1) reconnecting(2) by (auto simp: page_defs isConnected_iff live_def)
  then have "\<not> isConnected (s\<lparr>timers := x, reconnectAttempts := n\<rparr>)" for x n by (simp add: isConnected_iff)
  then show ?thesis unfolding reconnecting(1) reconnect_due_def by (rule not_stuck_connect)
next
  case disconnecting
  then show ?thesis using page_disconnect(2) [OF s(1)] by (simp add: not_stuck_def)
qed (use s in \<open>simp_all add: not_stuck_cong [OF wiring_rest(1)] not_stuck_cong [OF wiring_rest(2)]
      not_stuck_cong [OF wiring_rest(3)] not_stuck_cong [OF wiring_rest(4)]\<close>)

lemma page_not_stuck: "page_reach s \<Longrightarrow> not_stuck s"
proof (induction rule: page_reach.induct)
  case (loaded good)
  show ?case by (rule not_stuck_connect) (simp add: new_WebSocketService_def isConnected_def)
next
  case (event s s')
  then show ?case using not_stuck_step page_reach_inv by blast
qed

lemma opening_connects:
  assumes "page_inv s" and "k < length (sockets s)" and "sockets s ! k = Connecting"
  shows "isConnected (onopen (s\<lparr>sockets := (sockets s)[k := Open]\<rparr>))"
proof -
  have "ws s = Some k" using assms unfolding page_defs live_def by blast
  then show ?thesis
    using assms(2) by (simp add: onopen_def startHeartbeat_def subscribe_def send_def isConnected_def Let_def split: option.split)
qed



section \<open>Calling connect again\<close>

text \<open>
  \<open>connect\<close> looks only for an open socket: called while one is connecting it makes a second one,
  and both may open. Each starts a heartbeat, and the reference to the first one is lost, so that
  disconnecting stops only one of them.
\<close>

definition twice :: ws_state where
  "twice = connect True (connect True new_WebSocketService)"

definition both_open :: ws_state where
  "both_open = (let s = onopen (twice\<lparr>sockets := [Open, Connecting]\<rparr>) in onopen (s\<lparr>sockets := [Open, Open]\<rparr>))"

lemma both_open_reachable: "ws_reach both_open"
proof -
  let ?s = "onopen (twice\<lparr>sockets := [Open, Connecting]\<rparr>)"
  have "ws_reach twice" unfolding twice_def by (intro ws_reach.call ws_reach.start)
  moreover have "sockets twice = [Connecting, Connecting]"
    by (simp add: twice_def connect_def isConnected_def new_WebSocketService_def Let_def)
  ultimately have t: "sockets twice = [Connecting, Connecting]" "ws_reach twice" by simp_all
  have "ws_event_step twice (onopen (twice\<lparr>sockets := (sockets twice)[0 := Open]\<rparr>))" by (rule opened) (simp_all add: t)
  then have r: "ws_reach ?s" using ws_reach.step [OF t(2)] by (simp add: t)
  have "sockets ?s = [Open, Connecting]"
    by (simp add: onopen_def subscribe_def startHeartbeat_def send_def Let_def split: option.split)
  then have "ws_event_step ?s (onopen (?s\<lparr>sockets := [Open, Open]\<rparr>))" using opened [of 1 ?s] by simp
  then show ?thesis using ws_reach.step [OF r] by (simp add: both_open_def Let_def)
qed

lemma heartbeat_leaks: "length (intervals both_open) = 2" "length (intervals (disconnect both_open)) = 1"
  by (simp_all add: both_open_def twice_def connect_def new_WebSocketService_def onopen_def subscribe_def startHeartbeat_def
      disconnect_def stopHeartbeat_def isConnected_def Let_def)

section \<open>Polling\<close>

text \<open>
  The polling service: one interval per key. \<open>polls\<close> maps keys to intervals, \<open>running\<close> are the
  intervals that run, \<open>fetches\<close> counts the immediate fetches by key.
\<close>

record poll_state =
  polls :: "(string, nat) jsmap"
  running :: "nat list"
  poll_next :: nat
  fetches :: "string list"

definition startPolling :: "string \<Rightarrow> poll_state \<Rightarrow> poll_state" where
  "startPolling k s =
     (if map_of (polls s) k \<noteq> None then s
      else s\<lparr>fetches := fetches s @ [k], running := running s @ [poll_next s],
             polls := AList.update k (poll_next s) (polls s), poll_next := Suc (poll_next s)\<rparr>)"

definition stopPolling :: "string \<Rightarrow> poll_state \<Rightarrow> poll_state" where
  "stopPolling k s =
     (case map_of (polls s) k of
        None \<Rightarrow> s
      | Some t \<Rightarrow> s\<lparr>running := filter (\<lambda>u. u \<noteq> t) (running s), polls := AList.delete k (polls s)\<rparr>)"

definition stopAll :: "poll_state \<Rightarrow> poll_state" where
  "stopAll s = s\<lparr>running := filter (\<lambda>u. u \<notin> snd ` set (polls s)) (running s), polls := []\<rparr>"

definition poll_inv :: "poll_state \<Rightarrow> bool" where
  "poll_inv s \<longleftrightarrow> running s = map snd (polls s) \<and> distinct (running s) \<and> distinct (map fst (polls s)) \<and>
     (\<forall>t \<in> set (running s). t < poll_next s)"

text \<open>Exactly the intervals of the map run, one per key, so that stopping all leaves none running.\<close>

lemma poll_inv_ops:
  assumes "poll_inv s"
  shows "poll_inv (startPolling k s)" "poll_inv (stopPolling k s)" "running (stopAll s) = []"
proof -
  show "poll_inv (startPolling k s)"
    using assms by (auto simp: startPolling_def poll_inv_def jsmap_set_fresh map_of_eq_None_iff less_Suc_eq) (metis less_irrefl snd_conv)
  show "poll_inv (stopPolling k s)"
  proof (cases "map_of (polls s) k")
    case (Some t)
    have d: "distinct (map snd (polls s))" using assms by (metis poll_inv_def)
    have "u = t \<longleftrightarrow> j = k" if "(j, u) \<in> set (polls s)" for j u
    proof -
      have "map_of (polls s) j = Some u" using that assms by (simp add: poll_inv_def)
      moreover have "j = k" if "u = t"
        using d \<open>(j, u) \<in> _\<close> map_of_SomeD [OF Some] that by (metis distinct_map inj_on_def prod.inject snd_conv)
      ultimately show ?thesis using Some by auto
    qed
    then have "filter (\<lambda>u. u \<noteq> t) (map snd (polls s)) = map snd (AList.delete k (polls s))"
      by (auto simp: AList.delete_eq filter_map comp_def intro!: arg_cong [where f = "map snd"] filter_cong) blast
    moreover have "\<forall>x \<in> set (AList.delete k (polls s)). snd x < poll_next s"
      using assms by (auto simp: AList.delete_eq poll_inv_def)
    moreover have "distinct (map snd (AList.delete k (polls s)))" using d by (simp add: AList.delete_eq distinct_map_filter)
    moreover have "distinct (map fst (AList.delete k (polls s)))" using assms by (simp add: poll_inv_def distinct_delete)
    ultimately show ?thesis using assms Some by (simp add: stopPolling_def poll_inv_def)
  qed (use assms in \<open>simp add: stopPolling_def\<close>)
  show "running (stopAll s) = []" using assms by (auto simp: stopAll_def poll_inv_def filter_empty_conv)
qed

end
