(* ===== verification/WebServers.thy ===== *)
theory WebServers
  imports WalletServer Security
begin

text \<open>
  The servers of the other web applications: access to the operations dashboard (apps/web/ops:
  middleware.ts and app/api/auth), the health checks (app/api/status of wallet, explorer and ops),
  the node statistics (app/api/stats of wallet, unified and dapp), the proxies to the node
  (explorer and ops) and the readers of the monitoring page. What \<open>fetch\<close> gives for an address is
  an argument, and so are the readings of the clock.
\<close>

section \<open>Access to the operations dashboard\<close>

definition timingSafeEqual :: "string \<Rightarrow> string \<Rightarrow> bool" where
  "timingSafeEqual a b = (if length a \<noteq> length b then False else timing_safe_diff a b = 0)"

text \<open>The value of \<open>KUBERCOIN_API_KEYS\<close> is an argument.\<close>

definition configured_keys :: "string \<Rightarrow> string list" where
  "configured_keys keysEnv = filter (\<lambda>k. k \<noteq> []) (map trim (split_on (CHR '','') keysEnv))"

definition validateKey :: "string option \<Rightarrow> string \<Rightarrow> bool" where
  "validateKey env token =
     (let keysEnv = (case env of None \<Rightarrow> [] | Some e \<Rightarrow> e)
      in if trim keysEnv = [] then True
         else foldl (\<lambda>valid key. if timingSafeEqual token key then True else valid) False (configured_keys keysEnv))"

datatype decision = Next | Redirect string

definition middleware :: "string option \<Rightarrow> string \<Rightarrow> string option \<Rightarrow> decision" where
  "middleware env pathname cookie =
     (if startsWith pathname ''/login'' \<or> startsWith pathname ''/api/auth'' \<or> startsWith pathname ''/_next'' \<or> pathname = ''/favicon.ico''
      then Next
      else let token = (case cookie of None \<Rightarrow> [] | Some t \<Rightarrow> t)
           in if \<not> validateKey env token then Redirect pathname else Next)"

text \<open>The matcher: the middleware is not run for these paths.\<close>

definition matcher :: "string \<Rightarrow> bool" where
  "matcher pathname \<longleftrightarrow>
     \<not> list_ex (\<lambda>e. startsWith pathname (''/'' @ e)) [''_next/static'', ''_next/image'', ''favicon.ico'']"

definition admitted :: "string option \<Rightarrow> string \<Rightarrow> string option \<Rightarrow> bool" where
  "admitted env pathname cookie \<longleftrightarrow> \<not> matcher pathname \<or> middleware env pathname cookie = Next"

text \<open>
  Logging in: the response and the cookie that it sets; \<open>Inl\<close> is a body that is no JSON. Reading
  \<open>key\<close> of \<open>null\<close> throws outside the \<open>try\<close> and is answered by the framework: \<open>None\<close>.
\<close>

definition auth_POST :: "string option \<Rightarrow> string + json \<Rightarrow> (route_response \<times> string option) option" where
  "auth_POST env body =
     (case body of
        Inl _ \<Rightarrow> Some (error_json ''Invalid request body'' 400, None)
      | Inr b \<Rightarrow>
          (case property ''key'' (Some b) of
             Inl _ \<Rightarrow> None
           | Inr v \<Rightarrow>
               let key = (case v of Some (JStr k) \<Rightarrow> trim k | _ \<Rightarrow> [])
               in if key = [] \<or> \<not> validateKey env key then Some (error_json ''Invalid API key'' 401, None)
                  else Some (ok_json (JObj [(''ok'', JBool True)]), Some key)))"

text \<open>Logging out deletes the cookie.\<close>

definition auth_GET :: "string option \<Rightarrow> route_response \<times> string option" where
  "auth_GET cookie = (ok_json (JObj [(''ok'', JBool True)]), None)"

lemma timingSafeEqual_iff: "timingSafeEqual a b \<longleftrightarrow> a = b"
  by (auto simp: timingSafeEqual_def timing_safe_iff)

lemma validate_fold: "foldl (\<lambda>valid key. if timingSafeEqual token key then True else valid) v ks \<longleftrightarrow> v \<or> token \<in> set ks"
  by (induction ks arbitrary: v) (auto simp: timingSafeEqual_iff)

lemma validateKey_iff: "trim keysEnv \<noteq> [] \<Longrightarrow> validateKey (Some keysEnv) token \<longleftrightarrow> token \<in> set (configured_keys keysEnv)"
  by (simp add: validateKey_def validate_fold)

definition open_path :: "string \<Rightarrow> bool" where
  "open_path p \<longleftrightarrow> list_ex (startsWith p) [''/login'', ''/api/auth'', ''/_next'', ''/favicon.ico'']"



text \<open>Without configured keys everyone is admitted.\<close>

lemma no_keys_admit_all: "admitted None p cookie"
  by (simp add: admitted_def middleware_def validateKey_def trim_def Let_def)

text \<open>Blank entries alone shut everyone out.\<close>

lemma commas_shut_out: "\<not> admitted (Some '','') ''/'' cookie"
proof -
  have "trim '','' \<noteq> []" "configured_keys '','' = []" by code_simp+
  then have "\<not> validateKey (Some '','') t" for t by (simp add: validateKey_iff)
  then show ?thesis by (simp add: admitted_def middleware_def matcher_def startsWith_def)
qed

section \<open>Health checks\<close>

record CheckResult =
  ck_key :: string
  ck_name :: string
  ck_ok :: bool
  ck_status :: "int option"
  ck_ms :: "int option"
  ck_error :: "string option"

text \<open>
  \<open>fetchWithTimeout\<close> rejects when the time is over, so that it is \<open>fetch\<close> with one more way to fail:
  \<open>net url\<close> with \<open>Inl\<close> the message. \<open>ms url\<close> is the time that the answer took. In the wallet an
  empty message is replaced by \<open>unreachable\<close> (\<open>e?.message || 'unreachable'\<close>).
\<close>

definition checkOne :: "bool \<Rightarrow> (string \<Rightarrow> answer) \<Rightarrow> (string \<Rightarrow> int) \<Rightarrow> string \<Rightarrow> string \<Rightarrow> string \<Rightarrow> CheckResult" where
  "checkOne replace net ms key name url =
     (case net url of
        Inr res \<Rightarrow>
          if \<not> http_ok res
          then \<lparr>ck_key = key, ck_name = name, ck_ok = False, ck_status = Some (http_status res), ck_ms = Some (ms url),
                ck_error = Some (http_code (http_status res))\<rparr>
          else \<lparr>ck_key = key, ck_name = name, ck_ok = True, ck_status = Some (http_status res), ck_ms = Some (ms url), ck_error = None\<rparr>
      | Inl m \<Rightarrow>
          \<lparr>ck_key = key, ck_name = name, ck_ok = False, ck_status = None, ck_ms = Some (ms url),
           ck_error = Some (if replace \<and> m = [] then ''unreachable'' else m)\<rparr>)"

fun firstOk :: "bool \<Rightarrow> (string \<Rightarrow> answer) \<Rightarrow> (string \<Rightarrow> int) \<Rightarrow> string \<Rightarrow> string \<Rightarrow> string list \<Rightarrow> CheckResult" where
  "firstOk replace net ms key name [] =
     \<lparr>ck_key = key, ck_name = name, ck_ok = False, ck_status = None, ck_ms = None, ck_error = Some ''unreachable''\<rparr>"
| "firstOk replace net ms key name (u # urls) =
     (let r = checkOne replace net ms key name u in if ck_ok r then r else firstOk replace net ms key name urls)"

definition isRecord :: "json \<Rightarrow> bool" where
  "isRecord v = (case v of JObj _ \<Rightarrow> True | JArr _ \<Rightarrow> True | _ \<Rightarrow> False)"

text \<open>\<open>await res.json().catch(() => null)\<close>\<close>

definition json_or_null :: "http \<Rightarrow> json" where
  "json_or_null res = (case http_body res of Json v \<Rightarrow> v | _ \<Rightarrow> JNull)"

definition rpc_failure :: "jval \<Rightarrow> string" where
  "rpc_failure err =
     (case opt_property ''message'' err of Some (JStr m) \<Rightarrow> m | _ \<Rightarrow> ''RPC error'')"

definition checkRpc :: "answer \<Rightarrow> int \<Rightarrow> CheckResult" where
  "checkRpc a ms =
     (let failed = \<lambda>st e. \<lparr>ck_key = ''rpc'', ck_name = ''RPC'', ck_ok = False, ck_status = st, ck_ms = Some ms, ck_error = Some e\<rparr>
      in case a of
           Inl m \<Rightarrow> failed None m
         | Inr res \<Rightarrow>
             if \<not> http_ok res then failed (Some (http_status res)) (http_code (http_status res))
             else let data = json_or_null res
                  in if \<not> isRecord data then failed None ''RPC error''
                     else case opt_property ''error'' (Some data) of
                       Some e \<Rightarrow>
                         if e \<noteq> JNull then failed None (rpc_failure (Some e))
                         else \<lparr>ck_key = ''rpc'', ck_name = ''RPC'', ck_ok = True, ck_status = Some (http_status res), ck_ms = Some ms, ck_error = None\<rparr>
                     | None \<Rightarrow>
                         \<lparr>ck_key = ''rpc'', ck_name = ''RPC'', ck_ok = True, ck_status = Some (http_status res), ck_ms = Some ms, ck_error = None\<rparr>)"

definition grafana_urls :: "string list" where
  "grafana_urls = [''http://grafana:3000/api/health'', ''http://localhost:3000/api/health'']"

definition prom_urls :: "string list" where
  "prom_urls = [''http://prometheus:9090/-/healthy'', ''http://localhost:9092/-/healthy'']"

text \<open>The body of a status response: whether all is well, the time, and the checks.\<close>

type_synonym status_report = "bool \<times> int \<times> CheckResult list"

definition report :: "int \<Rightarrow> CheckResult list \<Rightarrow> status_report" where
  "report now checks = (list_all ck_ok checks, now, checks)"

definition wallet_status_GET :: "string \<Rightarrow> (string \<Rightarrow> answer) \<Rightarrow> (string \<Rightarrow> int) \<Rightarrow> int \<Rightarrow> status_report" where
  "wallet_status_GET base net ms now =
     report now
       [checkOne True net ms ''node'' ''Node API'' (base @ ''/api/health''), firstOk True net ms ''grafana'' ''Grafana'' grafana_urls,
        firstOk True net ms ''prom'' ''Prometheus'' prom_urls]"

definition explorer_status_GET :: "answer \<Rightarrow> int \<Rightarrow> (string \<Rightarrow> answer) \<Rightarrow> (string \<Rightarrow> int) \<Rightarrow> int \<Rightarrow> status_report" where
  "explorer_status_GET rpc rpc_ms net ms now =
     report now
       [checkRpc rpc rpc_ms, firstOk False net ms ''grafana'' ''Grafana'' grafana_urls, firstOk False net ms ''prom'' ''Prometheus'' prom_urls]"

definition checkMetrics :: "string \<Rightarrow> (string \<Rightarrow> answer) \<Rightarrow> (string \<Rightarrow> int) \<Rightarrow> CheckResult" where
  "checkMetrics metrics_url net ms = checkOne False net ms ''metrics'' ''Metrics'' metrics_url"

definition ops_status_GET :: "answer \<Rightarrow> int \<Rightarrow> string \<Rightarrow> (string \<Rightarrow> answer) \<Rightarrow> (string \<Rightarrow> int) \<Rightarrow> int \<Rightarrow> status_report" where
  "ops_status_GET rpc rpc_ms metrics_url net ms now =
     report now
       [checkRpc rpc rpc_ms, checkMetrics metrics_url net ms, firstOk False net ms ''grafana'' ''Grafana'' grafana_urls,
        firstOk False net ms ''prom'' ''Prometheus'' prom_urls]"

definition up :: "(string \<Rightarrow> answer) \<Rightarrow> string \<Rightarrow> bool" where
  "up net url \<longleftrightarrow> (\<exists>r. net url = Inr r \<and> http_ok r)"

definition rpc_up :: "answer \<Rightarrow> bool" where
  "rpc_up a \<longleftrightarrow> (\<exists>r v. a = Inr r \<and> http_ok r \<and> http_body r = Json v \<and> isRecord v \<and>
     (opt_property ''error'' (Some v) = None \<or> opt_property ''error'' (Some v) = Some JNull))"

lemma checkOne_ok: "ck_ok (checkOne b net ms k n u) \<longleftrightarrow> up net u"
  by (auto simp: checkOne_def up_def split: sum.split)

lemma firstOk_ok: "ck_ok (firstOk b net ms k n urls) \<longleftrightarrow> (\<exists>u \<in> set urls. up net u)"
  by (induction urls) (auto simp: checkOne_ok Let_def)

lemma checkRpc_ok: "ck_ok (checkRpc a ms) \<longleftrightarrow> rpc_up a"
  by (auto simp: checkRpc_def rpc_up_def json_or_null_def isRecord_def Let_def split: sum.splits option.splits item.splits)

text \<open>
  The dashboards report that all is well exactly when the node answers without an error, the metrics
  are served, and one of the two addresses of each monitoring service is up.
\<close>

lemma ops_status_iff:
  "fst (ops_status_GET rpc t murl net ms now) \<longleftrightarrow>
     rpc_up rpc \<and> up net murl \<and> (\<exists>u \<in> set grafana_urls. up net u) \<and> (\<exists>u \<in> set prom_urls. up net u)"
  by (simp add: ops_status_GET_def report_def checkRpc_ok checkMetrics_def checkOne_ok firstOk_ok)

lemma explorer_status_iff:
  "fst (explorer_status_GET rpc t net ms now) \<longleftrightarrow> rpc_up rpc \<and> (\<exists>u \<in> set grafana_urls. up net u) \<and> (\<exists>u \<in> set prom_urls. up net u)"
  by (simp add: explorer_status_GET_def report_def checkRpc_ok firstOk_ok)

section \<open>Node statistics\<close>

fun as_number_field :: "jval \<Rightarrow> jsnum option" where
  "as_number_field (Some (JNum x)) = Some x"
| "as_number_field _ = None"

fun as_string_field :: "jval \<Rightarrow> string option" where
  "as_string_field (Some (JStr x)) = Some x"
| "as_string_field _ = None"

record node_stats =
  online :: bool
  blockHeight :: "jsnum option"
  mempoolSize :: "jsnum option"
  peerCount :: "jsnum option"
  st_network :: "string option"
  st_version :: "string option"

definition offline_stats :: node_stats where
  "offline_stats = \<lparr>online = False, blockHeight = None, mempoolSize = None, peerCount = None, st_network = None, st_version = None\<rparr>"

text \<open>\<open>res.ok ? await res.json().catch(() => null) : null\<close>\<close>

definition ok_json_or_null :: "http \<Rightarrow> jval" where
  "ok_json_or_null res = (if http_ok res then Some (json_or_null res) else Some JNull)"

text \<open>\<open>net\<close> rejects after four seconds; when one of the two requests rejects the node counts as offline.\<close>

definition stats_GET :: "string \<Rightarrow> (string \<Rightarrow> answer) \<Rightarrow> node_stats" where
  "stats_GET base net =
     (case (net (base @ ''/api/info''), net (base @ ''/api/peers'')) of
        (Inr infoRes, Inr peersRes) \<Rightarrow>
          let info = ok_json_or_null infoRes; peers = ok_json_or_null peersRes
          in \<lparr>online = (info \<noteq> Some JNull),
              blockHeight = map_option (\<lambda>h. h + 1) (as_number_field (opt_property ''height'' info)),
              mempoolSize = as_number_field (opt_property ''mempool_size'' info),
              peerCount = as_number_field (opt_property ''total'' peers),
              st_network = as_string_field (opt_property ''network'' info),
              st_version = as_string_field (opt_property ''version'' info)\<rparr>
      | _ \<Rightarrow> offline_stats)"

text \<open>An offline node has no height, mempool, network or version.\<close>

lemma offline_shows_nothing:
  assumes "\<not> online (stats_GET base net)"
  shows "blockHeight (stats_GET base net) = None" "mempoolSize (stats_GET base net) = None" "st_network (stats_GET base net) = None"
    "st_version (stats_GET base net) = None"
  using assms by (auto simp: stats_GET_def offline_stats_def Let_def split: sum.splits)

section \<open>Proxies to the node\<close>

text \<open>
  \<open>getRpcAuthHeaders\<close> of explorer, ops and monitoring: as that of the wallet, with two variables.
\<close>

definition getRpcAuthHeaders :: "string option \<Rightarrow> string option \<Rightarrow> (string \<times> string) list" where
  "getRpcAuthHeaders a b = getWalletAuthHeaders (if truthy_string a then a else b)"

text \<open>\<open>fetch\<close> gets the headers and the body of the request.\<close>

definition rpc_POST ::
    "((string \<times> string) list \<Rightarrow> json \<Rightarrow> answer) \<Rightarrow> string option \<Rightarrow> string option \<Rightarrow> string + json \<Rightarrow> route_response" where
  "rpc_POST fetch a b request =
     (let failed = \<lambda>m st. \<lparr>rs_status = st, rs_body = JObj [(''error'', JObj [(''message'', JStr m)])]\<rparr>;
          caught = \<lambda>m. failed (if m \<noteq> [] then m else ''RPC call failed'') 500
      in case request of
           Inl m \<Rightarrow> caught m
         | Inr body \<Rightarrow>
             (case fetch ((''Content-Type'', ''application/json'') # getRpcAuthHeaders a b) body of
                Inl m \<Rightarrow> caught m
              | Inr res \<Rightarrow>
                  let data = (case http_body res of
                      Json v \<Rightarrow> v
                    | Garbled t \<Rightarrow> JObj [(''error'', JObj [(''message'', JStr (if t \<noteq> [] then t else http_code (http_status res)))])]
                    | Absent \<Rightarrow> JObj [(''error'', JObj [(''message'', JStr (http_code (http_status res)))])])
                  in \<lparr>rs_status = (if \<not> http_ok res then http_status res else 200), rs_body = data\<rparr>))"

text \<open>
  The explorer's proxy, which anyone may call, forwards every method with the key of the server: a
  request to dump a private key reaches the node like any other.
\<close>

lemma proxy_forwards_everything:
  assumes "fetch ((''Content-Type'', ''application/json'') # getRpcAuthHeaders a b) body = Inr \<lparr>http_status = 200, http_body = Json v\<rparr>"
  shows "rpc_POST fetch a b (Inr body) = ok_json v"
  using assms by (simp add: rpc_POST_def http_ok_def ok_json_def)

definition node_GET ::
    "(string \<Rightarrow> (string \<times> string) list \<Rightarrow> answer) \<Rightarrow> string \<Rightarrow> string option \<Rightarrow> string option \<Rightarrow> string list \<Rightarrow> string \<Rightarrow> route_response" where
  "node_GET fetch base a b path search =
     (case fetch (base @ ''/api/'' @ join_with ''/'' path @ search) ((''Content-Type'', ''application/json'') # getRpcAuthHeaders a b) of
        Inl m \<Rightarrow> error_json m 502
      | Inr res \<Rightarrow>
          (case http_body res of
             Json v \<Rightarrow> \<lparr>rs_status = http_status res, rs_body = v\<rparr>
           | _ \<Rightarrow> error_json (http_code (http_status res)) (http_status res)))"

section \<open>The monitoring page\<close>

text \<open>\<open>statusText\<close> is that of the response.\<close>

definition monitoring_rpcCall :: "(json \<Rightarrow> string) \<Rightarrow> (string \<Rightarrow> string \<times> answer) \<Rightarrow> string \<Rightarrow> string + jval" where
  "monitoring_rpcCall to_text net m =
     (case net m of (statusText, a) \<Rightarrow>
       (case a of
          Inl e \<Rightarrow> Inl e
        | Inr res \<Rightarrow>
            if \<not> http_ok res then
              Inl (''RPC HTTP '' @ show_int (http_status res) @ '': '' @
                (case http_body res of Garbled t \<Rightarrow> (if t \<noteq> [] then t else statusText) | Json v \<Rightarrow> to_text v | Absent \<Rightarrow> statusText))
            else
              (case http_body res of
                 Json v \<Rightarrow>
                   (case property ''error'' (Some v) of
                      Inl e \<Rightarrow> Inl e
                    | Inr err \<Rightarrow>
                        if json_truthy err then Inl (js_String to_text (nullish (opt_property ''message'' err) (JStr ''RPC error'')))
                        else Inr (opt_property ''result'' (Some v)))
               | _ \<Rightarrow> Inl ''SyntaxError'')))"

record monitor_report =
  mr_ok :: bool
  mr_height :: "jsnum option"
  mr_bestHash :: string
  mr_peerCount :: nat
  mr_mempoolSize :: "jsnum option"
  mr_error :: "string option"

definition monitor_failed :: "string \<Rightarrow> monitor_report" where
  "monitor_failed m =
     \<lparr>mr_ok = False, mr_height = Some 0, mr_bestHash = [], mr_peerCount = 0, mr_mempoolSize = Some 0, mr_error = Some m\<rparr>"

text \<open>\<open>num\<close> is \<open>Number\<close> of strings, arrays and objects; a height that is no number is \<open>None\<close>.\<close>

definition monitoring_rpc_GET :: "(json \<Rightarrow> string) \<Rightarrow> (json \<Rightarrow> jsnum option) \<Rightarrow> (string \<Rightarrow> string \<times> answer) \<Rightarrow> monitor_report" where
  "monitoring_rpc_GET to_text num net =
     (let call = monitoring_rpcCall to_text net
      in case call ''getblockcount'' of
           Inl m \<Rightarrow> monitor_failed m
         | Inr height \<Rightarrow>
       (case call ''getbestblockhash'' of
           Inl m \<Rightarrow> monitor_failed m
         | Inr bestHash \<Rightarrow>
       (case call ''getpeerinfo'' of
           Inl m \<Rightarrow> monitor_failed m
         | Inr peers \<Rightarrow>
       (case call ''getmempoolinfo'' of
           Inl m \<Rightarrow> monitor_failed m
         | Inr mempool \<Rightarrow>
             \<lparr>mr_ok = True,
              mr_height = js_Number num (Some (nullish height (JNum 0))),
              mr_bestHash = (case bestHash of Some (JStr h) \<Rightarrow> h | _ \<Rightarrow> []),
              mr_peerCount = (case peers of Some (JArr ps) \<Rightarrow> length ps | _ \<Rightarrow> 0),
              mr_mempoolSize = (case mempool of
                  Some (JObj fs) \<Rightarrow> if map_of fs ''size'' = None then Some 0 else js_Number num (map_of fs ''size'')
                | _ \<Rightarrow> Some 0),
              mr_error = None\<rparr>))))"

text \<open>
  The regular expression \<open>^key\s+(-?\d+(?:\.\d+)?)$\<close> over the lines of a text, at one position: the
  number that follows the key.
\<close>

definition digits_prefix :: "string \<Rightarrow> string" where
  "digits_prefix s = takeWhile is_digit s"

definition number_text :: "string \<Rightarrow> (string \<times> string) option" where
  "number_text s =
     (let sg = (case s of c # _ \<Rightarrow> if c = CHR ''-'' then ''-'' else [] | [] \<Rightarrow> []);
          r = drop (length sg) s;
          whole = digits_prefix r;
          r1 = drop (length whole) r;
          frac = (case r1 of c # r2 \<Rightarrow> if c = CHR ''.'' \<and> digits_prefix r2 \<noteq> [] then ''.'' @ digits_prefix r2 else [] | [] \<Rightarrow> [])
      in if whole = [] then None else Some (sg @ whole @ frac, drop (length frac) r1))"

definition line_end :: "string \<Rightarrow> bool" where
  "line_end s \<longleftrightarrow> s = [] \<or> hd s = CHR 0x0A \<or> hd s = CHR 0x0D"

definition metric_at :: "string \<Rightarrow> string \<Rightarrow> string option" where
  "metric_at key s =
     (if \<not> startsWith s key then None
      else let r = drop (length key) s; r1 = dropWhile is_space r
           in if r1 = r then None
              else case number_text r1 of
                None \<Rightarrow> None
              | Some (n, rest) \<Rightarrow> if line_end rest then Some n else None)"

fun find_metric :: "string \<Rightarrow> bool \<Rightarrow> string \<Rightarrow> string option" where
  "find_metric key start [] = None"
| "find_metric key start (c # cs) =
     (case (if start then metric_at key (c # cs) else None) of
        Some n \<Rightarrow> Some n
      | None \<Rightarrow> find_metric key (c = CHR 0x0A \<or> c = CHR 0x0D) cs)"

definition parsePrometheusText :: "string \<Rightarrow> string list \<Rightarrow> (string \<times> string) list" where
  "parsePrometheusText text keys = [(k, n). k \<leftarrow> keys, Some n \<leftarrow> [find_metric k True text]]"

definition metric_keys :: "string list" where
  "metric_keys = [''kubercoin_block_height'', ''kubercoin_mempool_size'', ''kubercoin_peers'', ''process_resident_memory_bytes'']"

text \<open>A sample line of the exporter is read back, whatever lines of other metrics precede it.\<close>

lemma number_text_digits:
  assumes "list_all is_digit n" and "n \<noteq> []" and "line_end rest"
  shows "number_text (n @ rest) = Some (n, rest)"
proof -
  have nd: "rest \<noteq> [] \<Longrightarrow> \<not> is_digit (hd rest)" using assms(3) by (auto simp: line_end_def is_digit_def)
  have t: "takeWhile is_digit (n @ rest) = n"
    using assms(1) nd by (cases rest) (auto simp: takeWhile_append list_all_iff)
  obtain c m where n: "n = c # m" using assms(2) by (cases n) auto
  have c: "c \<noteq> CHR ''-''" using assms(1) n by (auto simp: is_digit_def)
  have "rest = [] \<or> hd rest \<noteq> CHR ''.''" using assms(3) by (auto simp: line_end_def)
  then show ?thesis
    using t n c by (cases rest) (auto simp: number_text_def digits_prefix_def Let_def)
qed

lemma metric_line:
  assumes "list_all is_digit n" and "n \<noteq> []" and "line_end rest"
  shows "metric_at key (key @ '' '' @ n @ rest) = Some n"
proof -
  obtain c m where n: "n = c # m" using assms(2) by (cases n) auto
  have "\<not> is_space c" using assms(1) n digit_not_sign [of c] by simp
  moreover have "is_space (CHR '' '')" by (simp add: is_space_def)
  ultimately have "dropWhile is_space ('' '' @ n @ rest) = n @ rest" using n by simp
  then show ?thesis
    using number_text_digits [OF assms] assms(3) n by (simp add: metric_at_def startsWith_def Let_def)
qed

end
