(* ===== verification/Forms.thy ===== *)
theory Forms
  imports JsStore
begin

text \<open>
  Checking and printing what users type and see (app/utils/validation.ts and app/utils/formatters.ts
  of the wallet; explorer and ops have copies of the latter). Regular expressions are functions;
  the parser of addresses (\<open>new URL\<close>) and the printing of numbers that are not formatted are
  arguments. Formatting with a locale is left out.
\<close>

section \<open>Reading numbers\<close>

text \<open>\<open>parseFloat\<close>: a number, an infinity, or NaN.\<close>

datatype parsed = Fin jsnum | PosInf | NegInf | NaN

definition take_sign :: "string \<Rightarrow> bool \<times> string" where
  "take_sign s = (case s of [] \<Rightarrow> (False, []) | c # r \<Rightarrow> if c = CHR ''-'' then (True, r) else if c = CHR ''+'' then (False, r) else (False, s))"

definition exponent :: "string \<Rightarrow> int" where
  "exponent s =
     (case s of
        [] \<Rightarrow> 0
      | c # r \<Rightarrow>
          if c = CHR ''e'' \<or> c = CHR ''E'' then
            (case take_sign r of (neg, t) \<Rightarrow>
               let d = takeWhile is_digit t in if d = [] then 0 else if neg then - int (read_nat d) else int (read_nat d))
          else 0)"

definition js_parseFloat :: "string \<Rightarrow> parsed" where
  "js_parseFloat s =
     (case take_sign (dropWhile is_space s) of (neg, r) \<Rightarrow>
        if startsWith r ''Infinity'' then (if neg then NegInf else PosInf)
        else
          let whole = takeWhile is_digit r;
              r1 = drop (length whole) r;
              frac = (case r1 of [] \<Rightarrow> [] | c # r2 \<Rightarrow> if c = CHR ''.'' then takeWhile is_digit r2 else []);
              r3 = (case r1 of [] \<Rightarrow> [] | c # r2 \<Rightarrow> if c = CHR ''.'' \<and> (whole \<noteq> [] \<or> frac \<noteq> []) then drop (length frac) r2 else r1)
          in if whole = [] \<and> frac = [] then NaN
             else let x = real (read_nat (whole @ frac)) / 10 ^ length frac * 10 powi exponent r3
                  in Fin (if neg then - x else x))"

section \<open>Validation\<close>

record ValidationResult =
  valid :: bool
  v_error :: "string option"

definition accepted :: ValidationResult where
  "accepted = \<lparr>valid = True, v_error = None\<rparr>"

definition refused :: "string \<Rightarrow> ValidationResult" where
  "refused m = \<lparr>valid = False, v_error = Some m\<rparr>"

text \<open>\<open>num <= 0\<close> and \<open>num > max\<close>\<close>

fun not_positive :: "parsed \<Rightarrow> bool" where
  "not_positive (Fin x) = (x \<le> 0)"
| "not_positive PosInf = False"
| "not_positive NegInf = True"
| "not_positive NaN = False"

fun exceeds :: "parsed \<Rightarrow> jsnum \<Rightarrow> bool" where
  "exceeds (Fin x) m = (x > m)"
| "exceeds PosInf m = True"
| "exceeds NegInf m = False"
| "exceeds NaN m = False"

definition validateAmount :: "(jsnum \<Rightarrow> string) \<Rightarrow> string \<Rightarrow> jsnum option \<Rightarrow> ValidationResult" where
  "validateAmount show amount limit =
     (if amount = [] \<or> trim amount = [] then refused ''Amount is required''
      else let num = js_parseFloat amount
           in if num = NaN then refused ''Amount must be a valid number''
              else if not_positive num then refused ''Amount must be greater than 0''
              else case limit of
                Some m \<Rightarrow> if exceeds num m then refused (''Amount cannot exceed '' @ show m) else accepted
              | None \<Rightarrow> accepted)"

definition upper_letter :: "char \<Rightarrow> bool" where
  "upper_letter c \<longleftrightarrow> 65 \<le> (of_char c :: nat) \<and> (of_char c :: nat) \<le> 90"

definition lower_letter :: "char \<Rightarrow> bool" where
  "lower_letter c \<longleftrightarrow> 97 \<le> (of_char c :: nat) \<and> (of_char c :: nat) \<le> 122"

definition alphanumeric :: "char \<Rightarrow> bool" where
  "alphanumeric c \<longleftrightarrow> lower_letter c \<or> upper_letter c \<or> is_digit c"

definition hex_char :: "char \<Rightarrow> bool" where
  "hex_char c \<longleftrightarrow> is_digit c \<or> (97 \<le> (of_char c :: nat) \<and> (of_char c :: nat) \<le> 102) \<or> (65 \<le> (of_char c :: nat) \<and> (of_char c :: nat) \<le> 70)"

definition validateAddress :: "string \<Rightarrow> ValidationResult" where
  "validateAddress address =
     (if address = [] \<or> trim address = [] then refused ''Address is required''
      else if length address < 26 \<or> length address > 62 then refused ''Invalid address length''
      else if \<not> (address \<noteq> [] \<and> list_all alphanumeric address) then refused ''Address contains invalid characters''
      else accepted)"

definition validateTxHash :: "string \<Rightarrow> ValidationResult" where
  "validateTxHash hash =
     (if hash = [] \<or> trim hash = [] then refused ''Transaction hash is required''
      else if \<not> (length hash = 64 \<and> list_all hex_char hash) then refused ''Invalid transaction hash format''
      else accepted)"

definition validateBlockHeight :: "string \<Rightarrow> ValidationResult" where
  "validateBlockHeight height =
     (if height = [] \<or> trim height = [] then refused ''Block height is required''
      else case js_parseInt height of
        None \<Rightarrow> refused ''Block height must be a number''
      | Some n \<Rightarrow> if n < 0 then refused ''Block height cannot be negative'' else accepted)"

text \<open>\<open>/^[^\s@]+@[^\s@]+\.[^\s@]+$/\<close>: some dot of the domain has characters on both sides.\<close>

definition emailRegex :: "string \<Rightarrow> bool" where
  "emailRegex email \<longleftrightarrow>
     (case split_on (CHR ''@'') email of
        [l, d] \<Rightarrow> l \<noteq> [] \<and> list_all (\<lambda>c. \<not> is_space c) email \<and>
          list_ex (\<lambda>i. 0 < i \<and> i < length d - 1 \<and> d ! i = CHR ''.'') [0..<length d]
      | _ \<Rightarrow> False)"

definition validateEmail :: "string \<Rightarrow> ValidationResult" where
  "validateEmail email =
     (if email = [] \<or> trim email = [] then refused ''Email is required''
      else if \<not> emailRegex email then refused ''Invalid email format'' else accepted)"

definition validatePassword :: "string \<Rightarrow> nat \<Rightarrow> ValidationResult" where
  "validatePassword password minLength =
     (if password = [] then refused ''Password is required''
      else if length password < minLength then refused (''Password must be at least '' @ show_nat minLength @ '' characters'')
      else if \<not> list_ex upper_letter password then refused ''Password must contain at least one uppercase letter''
      else if \<not> list_ex lower_letter password then refused ''Password must contain at least one lowercase letter''
      else if \<not> list_ex is_digit password then refused ''Password must contain at least one number''
      else accepted)"

definition validateUrl :: "(string \<Rightarrow> bool) \<Rightarrow> string \<Rightarrow> ValidationResult" where
  "validateUrl is_url url =
     (if url = [] \<or> trim url = [] then refused ''URL is required''
      else if is_url url then accepted else refused ''Invalid URL format'')"

definition validatePort :: "string \<Rightarrow> ValidationResult" where
  "validatePort port =
     (case js_parseInt port of
        None \<Rightarrow> refused ''Port must be a number''
      | Some n \<Rightarrow> if n < 1 \<or> n > 65535 then refused ''Port must be between 1 and 65535'' else accepted)"

lemma valid_simps [simp]: "valid accepted" "\<not> valid (refused m)"
  by (simp_all add: accepted_def refused_def)

lemma trim_alnum: "s \<noteq> [] \<Longrightarrow> list_all (\<lambda>c. \<not> is_space c) s \<Longrightarrow> trim s = s"
  by (rule trim_trimmed) (auto simp: list_all_iff)

lemma char_not_space: "alphanumeric c \<Longrightarrow> \<not> is_space c" "hex_char c \<Longrightarrow> \<not> is_space c"
  by (auto simp: alphanumeric_def hex_char_def lower_letter_def upper_letter_def is_digit_def is_space_def)

lemma validateAddress_iff:
  "valid (validateAddress a) \<longleftrightarrow> 26 \<le> length a \<and> length a \<le> 62 \<and> list_all alphanumeric a"
proof -
  have "trim a = a" if "a \<noteq> []" "list_all alphanumeric a"
    using that char_not_space(1) by (intro trim_alnum) (auto simp: list_all_iff)
  then show ?thesis by (cases "a = []") (auto simp: validateAddress_def)
qed

lemma validateTxHash_iff: "valid (validateTxHash h) \<longleftrightarrow> length h = 64 \<and> list_all hex_char h"
proof -
  have "trim h = h" if "h \<noteq> []" "list_all hex_char h"
    using that char_not_space(2) by (intro trim_alnum) (auto simp: list_all_iff)
  then show ?thesis by (cases "h = []") (auto simp: validateTxHash_def)
qed

lemma validatePassword_iff:
  "valid (validatePassword p n) \<longleftrightarrow>
     p \<noteq> [] \<and> n \<le> length p \<and> (\<exists>c \<in> set p. upper_letter c) \<and> (\<exists>c \<in> set p. lower_letter c) \<and> (\<exists>c \<in> set p. is_digit c)"
  by (auto simp: validatePassword_def list_ex_iff)

text \<open>A printed port, height or whole amount is accepted exactly when it is in range.\<close>

lemma validatePort_iff: "valid (validatePort (show_nat n)) \<longleftrightarrow> 1 \<le> n \<and> n \<le> 65535"
  by (auto simp: validatePort_def js_parseInt_show)

text \<open>Whatever follows the number is not looked at.\<close>

lemma rest_ignored: "valid (validatePort ''80abc'')" "valid (validateBlockHeight ''12.7 blocks'')"
  by (simp_all add: validatePort_def validateBlockHeight_def js_parseInt_def digits_int_def is_space_def is_digit_def read_nat_def
      digit_val_def trim_def)

lemma amount_rest_ignored: "valid (validateAmount show ''5,000'' (Some 10))"
  by (simp add: validateAmount_def js_parseFloat_def take_sign_def exponent_def is_space_def is_digit_def read_nat_def digit_val_def
      trim_def startsWith_def Let_def)

section \<open>Formatting\<close>

text \<open>\<open>show\<close> prints a number that is below one thousand.\<close>

definition formatCompactNumber :: "(jsnum \<Rightarrow> string) \<Rightarrow> jsnum \<Rightarrow> string" where
  "formatCompactNumber show num =
     (if num < 1000 then show num
      else if num < 1000000 then toFixed 1 (num / 1000) @ ''K''
      else if num < 1000000000 then toFixed 1 (num / 1000000) @ ''M''
      else toFixed 1 (num / 1000000000) @ ''B'')"

definition sizes :: "string list" where
  "sizes = [''B'', ''KB'', ''MB'', ''GB'', ''TB'']"

text \<open>\<open>sizes[i]\<close> in a template: outside of the array it is the text \<open>undefined\<close>.\<close>

definition size_name :: "int \<Rightarrow> string" where
  "size_name i = (if 0 \<le> i \<and> nat i < length sizes then sizes ! nat i else ''undefined'')"

definition size_index :: "jsnum \<Rightarrow> int" where
  "size_index bytes = \<lfloor>ln bytes / ln 1024\<rfloor>"

text \<open>For sizes that are not negative; the logarithm of a negative number is NaN.\<close>

definition formatBytes :: "jsnum \<Rightarrow> string" where
  "formatBytes bytes =
     (if bytes = 0 then ''0 B''
      else let i = size_index bytes in toFixed 2 (bytes / 1024 powi i) @ '' '' @ size_name i)"

text \<open>The copy of ops keeps the index within the array.\<close>

definition ops_formatBytes :: "jsnum \<Rightarrow> string" where
  "ops_formatBytes bytes =
     (if bytes = 0 then ''0 B''
      else let i = min 4 (size_index bytes) in toFixed 2 (bytes / 1024 powi i) @ '' '' @ size_name i)"

text \<open>The argument is the age in seconds.\<close>

definition formatRelativeTime :: "int \<Rightarrow> string" where
  "formatRelativeTime seconds =
     (if seconds < 60 then ''just now''
      else if seconds < 3600 then show_int (seconds div 60) @ '' minutes ago''
      else if seconds < 86400 then show_int (seconds div 3600) @ '' hours ago''
      else if seconds < 2592000 then show_int (seconds div 86400) @ '' days ago''
      else if seconds < 31536000 then show_int (seconds div 2592000) @ '' months ago''
      else show_int (seconds div 31536000) @ '' years ago'')"

definition truncateHash :: "string \<Rightarrow> nat \<Rightarrow> nat \<Rightarrow> string" where
  "truncateHash hash startLength endLength =
     (if length hash \<le> startLength + endLength then hash
      else take startLength hash @ ''...'' @ slice_last endLength hash)"

definition formatPercentage :: "jsnum \<Rightarrow> nat \<Rightarrow> string" where
  "formatPercentage v decimals = toFixed decimals v @ ''%''"

text \<open>For whole numbers of seconds that are not negative, as ops makes them first.\<close>

definition formatDuration :: "nat \<Rightarrow> string" where
  "formatDuration seconds =
     (if seconds < 60 then show_nat seconds @ ''s''
      else if seconds < 3600 then show_nat (seconds div 60) @ ''m '' @ show_nat (seconds mod 60) @ ''s''
      else show_nat (seconds div 3600) @ ''h '' @ show_nat (seconds mod 3600 div 60) @ ''m'')"

definition formatAddress :: "string \<Rightarrow> string" where
  "formatAddress address = (if address = [] \<or> length address < 10 then address else toLowerCase address)"

definition parseNumberInput :: "string \<Rightarrow> parsed option" where
  "parseNumberInput v =
     (let parsed = js_parseFloat (filter (\<lambda>c. is_digit c \<or> c = CHR ''.'') v)
      in if parsed = NaN then None else Some parsed)"

text \<open>The unit is the largest that the size reaches, and the number before it is in its range.\<close>

lemma size_index_eq:
  assumes "1024 ^ i \<le> b" and "b < 1024 ^ Suc i"
  shows "size_index b = int i"
proof -
  have b: "0 < b" using assms(1) by (rule less_le_trans [rotated]) simp
  have l: "ln (1024 ^ k :: real) = real k * ln 1024" for k by (simp add: ln_realpow)
  have p: "0 < ln (1024::real)" by simp
  have "ln (1024 ^ i :: real) \<le> ln b" using assms(1) b by (subst ln_le_cancel_iff) auto
  then have lo: "real i \<le> ln b / ln 1024" using p by (simp add: l pos_le_divide_eq)
  have "ln b < ln (1024 ^ Suc i :: real)" using assms(2) b by (subst ln_less_cancel_iff) auto
  then have hi: "ln b / ln 1024 < real i + 1" using p unfolding l by (simp add: pos_divide_less_eq algebra_simps)
  show ?thesis unfolding size_index_def using lo hi by (intro floor_unique) auto
qed

lemma formatBytes_unit:
  assumes "1024 ^ i \<le> b" and "b < 1024 ^ Suc i" and "i < 5"
  shows "formatBytes b = toFixed 2 (b / 1024 ^ i) @ '' '' @ sizes ! i \<and> 1 \<le> b / 1024 ^ i \<and> b / 1024 ^ i < 1024 \<and> ops_formatBytes b = formatBytes b"
proof -
  have "b \<noteq> 0" using assms(1) by (metis not_le zero_less_numeral zero_less_power)
  moreover have "1 \<le> b / 1024 ^ i" "b / 1024 ^ i < 1024" using assms by (simp_all add: field_simps)
  moreover have "min 4 (int i) = int i" using assms(3) by simp
  ultimately show ?thesis
    using assms(3) size_index_eq [OF assms(1,2)]
    by (simp add: formatBytes_def ops_formatBytes_def size_name_def sizes_def Let_def)
qed

text \<open>From a pebibyte on the wallet and the explorer print no unit.\<close>

lemma formatBytes_undefined:
  assumes "1024 ^ i \<le> b" and "b < 1024 ^ Suc i" and "5 \<le> i"
  shows "formatBytes b = toFixed 2 (b / 1024 ^ i) @ '' undefined''"
proof -
  have "b \<noteq> 0" using assms(1) by (metis not_le zero_less_numeral zero_less_power)
  then show ?thesis
    using assms(3) size_index_eq [OF assms(1,2)] by (simp add: formatBytes_def size_name_def sizes_def Let_def)
qed

text \<open>A truncated hash is short and shows both ends, except that an end of length 0 shows all.\<close>

lemma truncateHash_ends:
  assumes "0 < e"
  shows "length (truncateHash h s e) \<le> s + e + 3 \<and> (s + e < length h \<longrightarrow> prefix (take s h) (truncateHash h s e) \<and>
    suffix (drop (length h - e) h) (truncateHash h s e))"
  using assms by (auto simp: truncateHash_def slice_last_def suffix_def)

lemma truncate_end_0: "s < length h \<Longrightarrow> truncateHash h s 0 = take s h @ ''...'' @ h"
  by (simp add: truncateHash_def slice_last_def)

text \<open>A number just below a million is shown as a thousand thousands, and the sign of an input is lost.\<close>

lemma compact_rounds_up: "formatCompactNumber show 999950 = ''1000.0K''"
proof -
  have "digit_char 0 = CHR ''0''" "show_nat (Suc 0) = ''1''" by code_simp+
  then have "show_nat 10000 = ''10000''"
    by (simp add: show_nat.simps [of 10000] show_nat.simps [of 1000] show_nat.simps [of 100] show_nat.simps [of 10])
  moreover have "nat \<lfloor>(999950 / 1000 :: real) * 10 ^ 1 + 1 / 2\<rfloor> = 10000" by (simp add: floor_eq_iff)
  ultimately have "toFixed_nonneg 1 (999950 / 1000) = ''1000.0''"
    unfolding toFixed_nonneg_def by (simp only:) (simp add: padStart_def)
  then show ?thesis by (simp add: formatCompactNumber_def toFixed_def)
qed

lemma sign_lost: "parseNumberInput (CHR ''-'' # v) = parseNumberInput v"
  by (simp add: parseNumberInput_def is_digit_def)

end
