(* ===== verification/OpsDashboard.thy ===== *)
theory OpsDashboard
  imports Forms Json
begin

text \<open>
  The operations dashboard (apps/web/ops/app/components/OpsClient.tsx), its request console
  (app/ops/rpc/page.tsx) and the metrics that the node gives it (core/node/src/rpc.rs). The page is a
  state that tabs, timers, answers of the server and idle callbacks change in any order; a call that
  waits is cut where it waits. The printed time and the printing of numbers are arguments.
\<close>

section \<open>Reading the metrics\<close>

text \<open>\<open>/^(\w+)(?:\{[^}]*\})?\s+([\d.]+)/\<close>\<close>

definition word_char :: "char \<Rightarrow> bool" where
  "word_char c \<longleftrightarrow> alphanumeric c \<or> c = CHR ''_''"

definition skip_labels :: "string \<Rightarrow> string option" where
  "skip_labels s =
     (if startsWith s ''{'' then (case dropWhile (\<lambda>c. c \<noteq> CHR ''}'') s of [] \<Rightarrow> None | _ # r \<Rightarrow> Some r) else Some s)"

definition METRIC_LINE_RE :: "string \<Rightarrow> (string \<times> string) option" where
  "METRIC_LINE_RE line =
     (let key = takeWhile word_char line
      in case skip_labels (drop (length key) line) of
           None \<Rightarrow> None
         | Some r \<Rightarrow>
             let v = takeWhile (\<lambda>c. is_digit c \<or> c = CHR ''.'') (dropWhile is_space r)
             in if key = [] \<or> takeWhile is_space r = [] \<or> v = [] then None else Some (key, v))"

definition metric_entry :: "string \<Rightarrow> (string, parsed) jsmap \<Rightarrow> (string, parsed) jsmap" where
  "metric_entry line parsed =
     (if \<not> startsWith line ''kubercoin_'' then parsed
      else case METRIC_LINE_RE line of None \<Rightarrow> parsed | Some (key, v) \<Rightarrow> AList.update key (js_parseFloat v) parsed)"

definition parsePrometheusMetrics :: "string \<Rightarrow> (string, parsed) jsmap" where
  "parsePrometheusMetrics rawMetrics = foldl (\<lambda>parsed line. metric_entry line parsed) [] (split_on (CHR 0x0A) rawMetrics)"

record Metrics =
  blockHeight :: jsnum
  peers :: jsnum
  mempoolSize :: jsnum
  mempoolBytes :: jsnum
  cpuUsage :: jsnum
  memUsage :: jsnum
  dataSize :: jsnum
  tipHash :: string
  rpcCallsTotal :: jsnum
  rpcErrorsTotal :: jsnum
  rpcAvgLatencyMs :: jsnum

text \<open>\<open>v || 0\<close>; a text of digits and points is never an infinity.\<close>

fun number_or_zero :: "parsed option \<Rightarrow> jsnum" where
  "number_or_zero (Some (Fin x)) = x"
| "number_or_zero _ = 0"

definition newMetrics :: "(string, parsed) jsmap \<Rightarrow> Metrics" where
  "newMetrics parsed =
     \<lparr>blockHeight = number_or_zero (map_of parsed ''kubercoin_block_height''),
      peers = number_or_zero (map_of parsed ''kubercoin_peers''),
      mempoolSize = number_or_zero (map_of parsed ''kubercoin_mempool_size''),
      mempoolBytes = number_or_zero (map_of parsed ''kubercoin_mempool_bytes''),
      cpuUsage = number_or_zero (map_of parsed ''kubercoin_node_cpu_usage''),
      memUsage = number_or_zero (map_of parsed ''kubercoin_node_memory_usage''),
      dataSize = number_or_zero (map_of parsed ''kubercoin_storage_blockchain_size''),
      tipHash = [],
      rpcCallsTotal = number_or_zero (map_of parsed ''kubercoin_rpc_calls_total''),
      rpcErrorsTotal = number_or_zero (map_of parsed ''kubercoin_rpc_errors_total''),
      rpcAvgLatencyMs = number_or_zero (map_of parsed ''kubercoin_rpc_avg_latency'')\<rparr>"

section \<open>Alerts\<close>

datatype level = Info | Warning | Err | Critical

record Alert =
  al_id :: string
  al_level :: level
  al_message :: string
  al_timestamp :: int

fun level_text :: "level \<Rightarrow> string" where
  "level_text Info = ''info''"
| "level_text Warning = ''warning''"
| "level_text Err = ''error''"
| "level_text Critical = ''critical''"

text \<open>The alerts of one reading; \<open>show_num\<close> prints a number in a template.\<close>

definition generate_alerts :: "(jsnum \<Rightarrow> string) \<Rightarrow> int \<Rightarrow> Metrics \<Rightarrow> Alert list" where
  "generate_alerts show_num now m =
     (if rpcErrorsTotal m \<ge> 100 then
        [\<lparr>al_id = ''rpc-errors'', al_level = Critical, al_message = ''High error rate detected: '' @ show_num (rpcErrorsTotal m), al_timestamp = now\<rparr>]
      else
        (if peers m < 3 then [\<lparr>al_id = ''peers'', al_level = Warning, al_message = ''Low peer count: '' @ show_num (peers m) @ '' peers'', al_timestamp = now\<rparr>] else []) @
        (if cpuUsage m > 80 then [\<lparr>al_id = ''cpu'', al_level = Err, al_message = ''High CPU usage: '' @ toFixed 1 (cpuUsage m) @ ''%'', al_timestamp = now\<rparr>] else []) @
        (if memUsage m > 80 then [\<lparr>al_id = ''mem'', al_level = Err, al_message = ''High memory usage: '' @ toFixed 1 (memUsage m) @ ''%'', al_timestamp = now\<rparr>] else []) @
        (if mempoolSize m > 1000 then [\<lparr>al_id = ''mempool'', al_level = Warning, al_message = ''Large mempool: '' @ show_num (mempoolSize m) @ '' transactions'', al_timestamp = now\<rparr>] else []))"

text \<open>\<open>filteredAlerts\<close>: the alerts in which the query occurs.\<close>

definition filteredAlerts :: "string \<Rightarrow> Alert list \<Rightarrow> Alert list" where
  "filteredAlerts filterQuery alerts =
     (let q = toLowerCase (trim filterQuery)
      in if q = [] then alerts
         else filter (\<lambda>a. str_includes (toLowerCase (al_message a)) q \<or> str_includes (toLowerCase (al_id a)) q \<or>
                          str_includes (toLowerCase (level_text (al_level a))) q) alerts)"

lemma alert_ids_distinct: "distinct (map al_id (generate_alerts show_num now m))"
  by (simp add: generate_alerts_def)

lemma alerts_fire:
  "al_id ` set (generate_alerts show_num now m) =
     (if rpcErrorsTotal m \<ge> 100 then {''rpc-errors''}
      else {i. i = ''peers'' \<and> peers m < 3 \<or> i = ''cpu'' \<and> cpuUsage m > 80 \<or> i = ''mem'' \<and> memUsage m > 80 \<or> i = ''mempool'' \<and> mempoolSize m > 1000})"
  by (auto simp: generate_alerts_def)

section \<open>The metrics of the node\<close>

text \<open>What the node prints under \<open>/metrics\<close>, for the values it has read.\<close>

definition metric_lines :: "string \<Rightarrow> string \<Rightarrow> nat \<Rightarrow> string list" where
  "metric_lines name help v =
     [''# HELP '' @ name @ '' '' @ help, ''# TYPE '' @ name @ '' gauge'', name @ '' '' @ show_nat v]"

record node_values =
  nv_height :: nat
  nv_total_peers :: nat
  nv_inbound_peers :: nat
  nv_outbound_peers :: nat
  nv_mempool_size :: nat
  nv_mempool_bytes :: nat
  nv_utxo_count :: nat
  nv_difficulty_bits :: nat
  nv_block_reward :: nat

definition gauges :: "node_values \<Rightarrow> (string \<times> string \<times> nat) list" where
  "gauges v =
     [(''kubercoin_block_height'', ''Current blockchain tip height'', nv_height v),
      (''kubercoin_peers'', ''Total connected peers'', nv_total_peers v),
      (''kubercoin_peers_inbound'', ''Inbound peer connections'', nv_inbound_peers v),
      (''kubercoin_peers_outbound'', ''Outbound peer connections'', nv_outbound_peers v),
      (''kubercoin_mempool_size'', ''Number of transactions in mempool'', nv_mempool_size v),
      (''kubercoin_mempool_bytes'', ''Total bytes of transactions in mempool'', nv_mempool_bytes v),
      (''kubercoin_utxo_count'', ''Total number of unspent transaction outputs'', nv_utxo_count v),
      (''kubercoin_difficulty'', ''Current difficulty bits (compact)'', nv_difficulty_bits v),
      (''kubercoin_block_reward'', ''Current block reward in satoshis'', nv_block_reward v)]"

definition get_metrics :: "node_values \<Rightarrow> string" where
  "get_metrics v = join_with [CHR 0x0A] (concat (map (\<lambda>(name, help, n). metric_lines name help n) (gauges v)) @ [[]])"

lemma digit_facts: "is_digit c \<Longrightarrow> \<not> is_space c \<and> c \<noteq> CHR ''-'' \<and> c \<noteq> CHR ''+'' \<and> c \<noteq> CHR ''I'' \<and> c \<noteq> CHR 0x0A"
  by (auto simp: is_digit_def is_space_def)

lemma takeWhile_show_nat [simp]:
  "takeWhile is_digit (show_nat n) = show_nat n" "takeWhile (\<lambda>c. is_digit c \<or> c = d) (show_nat n) = show_nat n"
  using show_nat_digits [of n] by (simp_all add: list_all_iff)

lemma parseFloat_show_nat: "js_parseFloat (show_nat n) = Fin (real n)"
proof -
  obtain c r where s: "show_nat n = c # r" by (cases "show_nat n") auto
  have d: "list_all is_digit (show_nat n)" by (rule show_nat_digits)
  then have c: "is_digit c" using s by simp
  have "dropWhile is_space (show_nat n) = show_nat n" "take_sign (show_nat n) = (False, show_nat n)"
       "\<not> startsWith (show_nat n) ''Infinity''"
    using s digit_facts [OF c] by (auto simp: take_sign_def startsWith_def)
  then show ?thesis
    by (simp add: js_parseFloat_def exponent_def del: takeWhile_eq_all_conv)
qed

lemma metric_line_read:
  assumes "list_all word_char k" "k \<noteq> []"
  shows "METRIC_LINE_RE (k @ '' '' @ show_nat n) = Some (k, show_nat n)"
proof -
  have k: "takeWhile word_char (k @ CHR '' '' # s) = k" for s
  proof -
    have "\<not> word_char (CHR '' '')" by (simp add: word_char_def alphanumeric_def lower_letter_def upper_letter_def is_digit_def)
    then show ?thesis using assms(1) by (simp add: takeWhile_append2 list_all_iff)
  qed
  obtain c r where s: "show_nat n = c # r" by (cases "show_nat n") auto
  have "list_all is_digit (show_nat n)" by (rule show_nat_digits)
  moreover from this have "\<not> is_space c" using s digit_facts by simp
  ultimately have "dropWhile is_space (CHR '' '' # show_nat n) = show_nat n" "takeWhile is_space (CHR '' '' # show_nat n) = '' ''"
    using s by (auto simp: is_space_def)
  then show ?thesis using k [of "show_nat n"] assms(2) by (simp add: METRIC_LINE_RE_def skip_labels_def startsWith_def Let_def)
qed

lemma read_metric_lines:
  assumes "list_all word_char k" "startsWith k ''kubercoin_''"
  shows "foldl (\<lambda>parsed line. metric_entry line parsed) m (metric_lines k h n) = AList.update k (Fin (real n)) m"
proof -
  have "k \<noteq> []" using assms(2) by (auto simp: startsWith_def)
  moreover have "startsWith (k @ '' '' @ show_nat n) ''kubercoin_''" using assms(2) by (auto simp: startsWith_def)
  moreover have "\<not> startsWith (CHR ''#'' # s) ''kubercoin_''" for s by (simp add: startsWith_def)
  ultimately show ?thesis
    using metric_line_read [OF assms(1)] by (simp add: metric_lines_def metric_entry_def parseFloat_show_nat)
qed

lemma newline_free: "CHR 0x0A \<notin> set name \<Longrightarrow> CHR 0x0A \<notin> set help \<Longrightarrow> \<forall>w \<in> set (metric_lines name help v). CHR 0x0A \<notin> set w"
  using show_nat_digits [of v] digit_facts by (auto simp: metric_lines_def list_all_iff)

text \<open>What the dashboard reads from the node's metrics is what the node has; the rest is zero.\<close>

definition read_values :: "node_values \<Rightarrow> Metrics" where
  "read_values v =
     \<lparr>blockHeight = real (nv_height v), peers = real (nv_total_peers v), mempoolSize = real (nv_mempool_size v),
      mempoolBytes = real (nv_mempool_bytes v), cpuUsage = 0, memUsage = 0, dataSize = 0, tipHash = [],
      rpcCallsTotal = 0, rpcErrorsTotal = 0, rpcAvgLatencyMs = 0\<rparr>"

lemma gauge_names:
  "\<forall>(k, h, n) \<in> set (gauges v). list_all word_char k \<and> startsWith k ''kubercoin_'' \<and> CHR 0x0A \<notin> set k \<and> CHR 0x0A \<notin> set h"
  by (simp add: gauges_def word_char_def alphanumeric_def lower_letter_def startsWith_def)

lemma read_gauges:
  "\<forall>(k, h, n) \<in> set gs. list_all word_char k \<and> startsWith k ''kubercoin_'' \<and> CHR 0x0A \<notin> set k \<and> CHR 0x0A \<notin> set h \<Longrightarrow>
   foldl (\<lambda>parsed line. metric_entry line parsed) m (concat (map (\<lambda>(name, help, n). metric_lines name help n) gs)) =
   foldl (\<lambda>parsed (name, help, n). AList.update name (Fin (real n)) parsed) m gs"
  by (induction gs arbitrary: m) (auto simp: read_metric_lines)

lemma metrics_of_node: "newMetrics (parsePrometheusMetrics (get_metrics v)) = read_values v"
proof -
  let ?ls = "concat (map (\<lambda>(name, help, n). metric_lines name help n) (gauges v)) @ [[]]"
  have "CHR 0x0A \<notin> set w" if w: "w \<in> set ?ls" for w
  proof (cases "w = []")
    case False
    then obtain k h n where "(k, h, n) \<in> set (gauges v)" "w \<in> set (metric_lines k h n)" using w by auto
    moreover from this(1) have "CHR 0x0A \<notin> set k" "CHR 0x0A \<notin> set h" using gauge_names [of v] by blast+
    ultimately show ?thesis using newline_free by blast
  qed simp
  then have "split_on (CHR 0x0A) (get_metrics v) = ?ls"
    unfolding get_metrics_def by (intro split_on_join) auto
  moreover have "metric_entry [] m = m" for m by (simp add: metric_entry_def startsWith_def)
  ultimately have "parsePrometheusMetrics (get_metrics v) =
      foldl (\<lambda>parsed (name, help, n). AList.update name (Fin (real n)) parsed) [] (gauges v)"
    by (simp add: parsePrometheusMetrics_def read_gauges [OF gauge_names])
  then show ?thesis by (simp add: newMetrics_def read_values_def gauges_def)
qed

section \<open>Calls of the node\<close>

text \<open>
  The answer of \<open>fetch\<close>: it rejects with a message, or gives a status and a body, whose parse may
  reject. \<open>str\<close> is \<open>String(v)\<close>, what \<open>new Error\<close> makes of a message that is no text.
\<close>

datatype answer = Rejected string | Answered bool int "string + json"

definition message_or :: "(json \<Rightarrow> string) \<Rightarrow> jval \<Rightarrow> string \<Rightarrow> string" where
  "message_or str v d = (if json_truthy v then str (the v) else d)"

definition rpcCall_body :: "(json \<Rightarrow> string) \<Rightarrow> answer \<Rightarrow> string + jval" where
  "rpcCall_body str a =
     (case a of
        Rejected m \<Rightarrow> Inl m
      | Answered ok status body \<Rightarrow>
          if \<not> ok then Inl (''HTTP '' @ show_int status)
          else case body of
                 Inl m \<Rightarrow> Inl m
               | Inr data \<Rightarrow>
                   (case property ''error'' (Some data) of
                      Inl m \<Rightarrow> Inl m
                    | Inr e \<Rightarrow>
                        if e \<noteq> None \<and> e \<noteq> Some JNull then Inl (message_or str (opt_property ''message'' e) ''RPC error'')
                        else Inr (opt_property ''result'' (Some data))))"

definition rpcCall :: "(json \<Rightarrow> string) \<Rightarrow> answer \<Rightarrow> string + jval" where
  "rpcCall str a = (case rpcCall_body str a of Inl m \<Rightarrow> Inl (if m = [] then ''Network error'' else m) | Inr r \<Rightarrow> Inr r)"

lemma rpcCall_message: "rpcCall str a = Inl m \<Longrightarrow> m \<noteq> []"
  by (auto simp: rpcCall_def split: sum.splits if_splits)

section \<open>The page\<close>

datatype tab = Overview | MetricsTab | RpcTab | NetworkTab | Charts

record ChartPoint =
  ts :: int
  cp_blockHeight :: jsnum
  cp_peers :: jsnum
  cp_mempoolSize :: jsnum
  cp_cpuUsage :: jsnum
  cp_memUsage :: jsnum

record load =
  includeRawText :: bool
  for_charts :: bool

text \<open>
  The last fields are what the page waits for: loads of the metrics, texts whose parse waits for an
  idle moment, requests for the peers, commands, and timers that suspend the background work.
\<close>

record ops_page =
  metrics :: "Metrics option"
  alerts :: "Alert list"
  peerInfo :: jval
  op_error :: "string option"
  uptime :: nat
  activeTab :: tab
  filterQuery :: string
  rawMetricsText :: string
  lastUpdate :: string
  rpcCommand :: string
  rpcOutput :: string
  booted :: bool
  series :: "ChartPoint list"
  chartTick :: nat
  suspendWork :: bool
  loads :: "load list"
  idle :: "string list"
  peer_calls :: nat
  commands :: "string list"
  suspend_timers :: nat

definition initial_ops :: ops_page where
  "initial_ops =
     \<lparr>metrics = None, alerts = [], peerInfo = Some (JArr []), op_error = None, uptime = 0, activeTab = Overview, filterQuery = [],
      rawMetricsText = [], lastUpdate = [], rpcCommand = ''getblockchaininfo'', rpcOutput = [], booted = False, series = [],
      chartTick = 0, suspendWork = False, loads = [], idle = [], peer_calls = 0, commands = [], suspend_timers = 0\<rparr>"

text \<open>\<open>loadMetrics\<close> up to the answer of the server; \<open>refreshForCharts\<close> sets its timer when the load ends.\<close>

definition loadMetrics :: "load \<Rightarrow> ops_page \<Rightarrow> ops_page" where
  "loadMetrics l s =
     (if suspendWork s then (if for_charts l then s\<lparr>suspend_timers := Suc (suspend_timers s)\<rparr> else s)
      else s\<lparr>loads := loads s @ [l]\<rparr>)"

definition remove_nth :: "nat \<Rightarrow> 'a list \<Rightarrow> 'a list" where
  "remove_nth i xs = take i xs @ drop (Suc i) xs"

text \<open>The text is taken whatever the status of the answer; \<open>Inl\<close> is a fetch that rejects.\<close>

definition metrics_answered :: "nat \<Rightarrow> string \<Rightarrow> string + string \<Rightarrow> ops_page \<Rightarrow> ops_page" where
  "metrics_answered i time r s =
     (if i < length (loads s) then
        let l = loads s ! i;
            s1 = s\<lparr>loads := remove_nth i (loads s), suspend_timers := suspend_timers s + (if for_charts l then 1 else 0)\<rparr>
        in (case r of
              Inl m \<Rightarrow> s1\<lparr>op_error := Some m\<rparr>
            | Inr text \<Rightarrow>
                if suspendWork s then s1
                else s1\<lparr>rawMetricsText := (if includeRawText l then text else rawMetricsText s), lastUpdate := time, idle := idle s @ [text]\<rparr>)
      else s)"

text \<open>The tab that \<open>loadMetrics\<close> sees: its closure is made by the first rendering only.\<close>

definition captured_tab :: tab where
  "captured_tab = activeTab initial_ops"

definition chart_point :: "int \<Rightarrow> Metrics \<Rightarrow> ChartPoint" where
  "chart_point now m = \<lparr>ts = now, cp_blockHeight = blockHeight m, cp_peers = peers m, cp_mempoolSize = mempoolSize m,
     cp_cpuUsage = cpuUsage m, cp_memUsage = memUsage m\<rparr>"

definition parse_metrics :: "(jsnum \<Rightarrow> string) \<Rightarrow> nat \<Rightarrow> int \<Rightarrow> ops_page \<Rightarrow> ops_page" where
  "parse_metrics show_num i now s =
     (if i < length (idle s) then
        let s1 = s\<lparr>idle := remove_nth i (idle s)\<rparr>
        in if suspendWork s then s1
           else let m = newMetrics (parsePrometheusMetrics (idle s ! i))
                in s1\<lparr>metrics := Some m, series := slice_last 180 (series s @ [chart_point now m]),
                      chartTick := chartTick s + (if captured_tab = Charts then 1 else 0),
                      alerts := generate_alerts show_num now m, op_error := None\<rparr>
      else s)"

definition refreshForCharts :: "ops_page \<Rightarrow> ops_page" where
  "refreshForCharts s = loadMetrics \<lparr>includeRawText = False, for_charts = True\<rparr> (s\<lparr>suspendWork := False\<rparr>)"

definition suspend_due :: "ops_page \<Rightarrow> ops_page" where
  "suspend_due s =
     (if 0 < suspend_timers s then s\<lparr>suspend_timers := suspend_timers s - 1, suspendWork := True, chartTick := Suc (chartTick s)\<rparr> else s)"

definition loadPeerInfo :: "ops_page \<Rightarrow> ops_page" where
  "loadPeerInfo s = (if suspendWork s then s else s\<lparr>peer_calls := Suc (peer_calls s)\<rparr>)"

definition peers_answered :: "(json \<Rightarrow> string) \<Rightarrow> answer \<Rightarrow> ops_page \<Rightarrow> ops_page" where
  "peers_answered str a s =
     (if 0 < peer_calls s then
        let s1 = s\<lparr>peer_calls := peer_calls s - 1\<rparr>
        in if suspendWork s then s1
           else s1\<lparr>peerInfo := (case rpcCall str a of Inl _ \<Rightarrow> Some (JArr []) | Inr v \<Rightarrow> v)\<rparr>
      else s)"

definition poll_load :: load where
  "poll_load = \<lparr>includeRawText = False, for_charts = False\<rparr>"

text \<open>The effect that polls, run when the page has booted and when the tab has changed.\<close>

definition poll_effect :: "ops_page \<Rightarrow> ops_page" where
  "poll_effect s = (if \<not> booted s \<or> activeTab s = Charts then s else loadMetrics poll_load s)"

definition open_tab :: "tab \<Rightarrow> ops_page \<Rightarrow> ops_page" where
  "open_tab t s =
     (if t = Charts then s\<lparr>suspendWork := True, activeTab := Charts\<rparr>
      else let s1 = loadMetrics \<lparr>includeRawText = (t = MetricsTab), for_charts = False\<rparr> (s\<lparr>suspendWork := False, activeTab := t\<rparr>);
               s2 = (if t = NetworkTab then loadPeerInfo s1 else s1)
           in if t = activeTab s then s2 else poll_effect s2)"

definition uptime_tick :: "ops_page \<Rightarrow> ops_page" where
  "uptime_tick s = (if \<not> booted s \<or> activeTab s = Charts then s else s\<lparr>uptime := Suc (uptime s)\<rparr>)"

definition executeRpc :: "ops_page \<Rightarrow> ops_page" where
  "executeRpc s = s\<lparr>commands := commands s @ [rpcCommand s]\<rparr>"

text \<open>\<open>stringify\<close> is \<open>JSON.stringify(v, null, 2)\<close>.\<close>

definition command_answered :: "(json \<Rightarrow> string) \<Rightarrow> (jval \<Rightarrow> string) \<Rightarrow> nat \<Rightarrow> answer \<Rightarrow> ops_page \<Rightarrow> ops_page" where
  "command_answered str stringify i a s =
     (if i < length (commands s) then
        s\<lparr>commands := remove_nth i (commands s), rpcOutput := (case rpcCall str a of Inl m \<Rightarrow> m | Inr v \<Rightarrow> stringify v)\<rparr>
      else s)"

datatype ops_event =
    Boot
  | Poll
  | Tick
  | OpenTab tab
  | Refresh
  | MetricsAnswered nat string "string + string"
  | ParseMetrics nat int
  | SuspendDue
  | PeersAnswered answer
  | TypeFilter string
  | TypeCommand string
  | Execute
  | CommandAnswered nat answer

fun ops_step :: "(json \<Rightarrow> string) \<Rightarrow> (jval \<Rightarrow> string) \<Rightarrow> (jsnum \<Rightarrow> string) \<Rightarrow> ops_event \<Rightarrow> ops_page \<Rightarrow> ops_page" where
  "ops_step str js show_num Boot s = (if booted s then s else poll_effect (s\<lparr>booted := True\<rparr>))"
| "ops_step str js show_num Poll s = poll_effect s"
| "ops_step str js show_num Tick s = uptime_tick s"
| "ops_step str js show_num (OpenTab t) s = open_tab t s"
| "ops_step str js show_num Refresh s = (if activeTab s = Charts then refreshForCharts s else s)"
| "ops_step str js show_num (MetricsAnswered i time r) s = metrics_answered i time r s"
| "ops_step str js show_num (ParseMetrics i now) s = parse_metrics show_num i now s"
| "ops_step str js show_num SuspendDue s = suspend_due s"
| "ops_step str js show_num (PeersAnswered a) s = peers_answered str a s"
| "ops_step str js show_num (TypeFilter q) s = s\<lparr>filterQuery := q\<rparr>"
| "ops_step str js show_num (TypeCommand c) s = s\<lparr>rpcCommand := c\<rparr>"
| "ops_step str js show_num Execute s = executeRpc s"
| "ops_step str js show_num (CommandAnswered i a) s = command_answered str js i a s"

definition run_ops :: "(json \<Rightarrow> string) \<Rightarrow> (jval \<Rightarrow> string) \<Rightarrow> (jsnum \<Rightarrow> string) \<Rightarrow> ops_event list \<Rightarrow> ops_page \<Rightarrow> ops_page" where
  "run_ops str js show_num evs s = fold (ops_step str js show_num) evs s"

text \<open>What the overview shows as the state of the node.\<close>

definition node_status :: "ops_page \<Rightarrow> string" where
  "node_status s = (if op_error s \<noteq> None \<and> op_error s \<noteq> Some [] then ''Offline'' else ''Healthy'')"

definition formatUptime :: "nat \<Rightarrow> string" where
  "formatUptime seconds =
     show_nat (seconds div 3600) @ ''h '' @ show_nat (seconds mod 3600 div 60) @ ''m '' @ show_nat (seconds mod 60) @ ''s''"

text \<open>\<open>String(v)\<close> of an address; the peers are an array.\<close>

definition filteredPeers :: "(json \<Rightarrow> string) \<Rightarrow> string \<Rightarrow> json list \<Rightarrow> json list" where
  "filteredPeers str query ps =
     (let q = toLowerCase (trim query)
      in if q = [] then ps
         else filter (\<lambda>p. let a = opt_property ''addr'' (Some p) in str_includes (toLowerCase (if json_truthy a then str (the a) else [])) q) ps)"

lemmas page_defs = loadMetrics_def metrics_answered_def parse_metrics_def refreshForCharts_def suspend_due_def loadPeerInfo_def
  peers_answered_def poll_load_def poll_effect_def open_tab_def uptime_tick_def executeRpc_def command_answered_def

section \<open>What the page shows\<close>

text \<open>Metrics, alerts and the last point of the charts come from one reading; the charts keep 180 points.\<close>

definition one_reading :: "(jsnum \<Rightarrow> string) \<Rightarrow> ops_page \<Rightarrow> bool" where
  "one_reading show_num s \<longleftrightarrow>
     length (series s) \<le> 180 \<and>
     (case metrics s of
        None \<Rightarrow> alerts s = [] \<and> series s = []
      | Some m \<Rightarrow> series s \<noteq> [] \<and> last (series s) = chart_point (ts (last (series s))) m \<and>
                  alerts s = generate_alerts show_num (ts (last (series s))) m)"

lemma last_slice_last: "0 < n \<Longrightarrow> slice_last n (xs @ [x]) \<noteq> [] \<and> last (slice_last n (xs @ [x])) = x"
  by (auto simp: slice_last_def last_drop)

lemma one_reading_new:
  "one_reading show_num (s\<lparr>metrics := Some m, series := slice_last 180 (xs @ [chart_point now m]), chartTick := k,
     alerts := generate_alerts show_num now m, op_error := e\<rparr>)"
proof -
  have "ts (chart_point now m) = now" by (simp add: chart_point_def)
  then show ?thesis using last_slice_last [of 180 xs "chart_point now m"] by (simp add: one_reading_def length_slice_last)
qed

lemma one_reading_cong:
  "metrics s' = metrics s \<Longrightarrow> alerts s' = alerts s \<Longrightarrow> series s' = series s \<Longrightarrow> one_reading show_num s' = one_reading show_num s"
  by (auto simp: one_reading_def split: option.splits)

text \<open>Nothing but a parse changes what is shown.\<close>

lemma shown_unless_parsed:
  assumes "\<And>i now. e \<noteq> ParseMetrics i now"
  shows "metrics (ops_step str js show_num e s) = metrics s \<and> alerts (ops_step str js show_num e s) = alerts s \<and>
         series (ops_step str js show_num e s) = series s"
  using assms by (cases e) (auto simp: page_defs Let_def split: sum.splits)

lemma one_reading_step: "one_reading show_num s \<Longrightarrow> one_reading show_num (ops_step str js show_num e s)"
proof (cases "\<exists>i now. e = ParseMetrics i now")
  case True
  then obtain i now where e: "e = ParseMetrics i now" by blast
  assume "one_reading show_num s"
  then show ?thesis
    using one_reading_new [where s = "s\<lparr>idle := remove_nth i (idle s)\<rparr>" and show_num = show_num and now = now]
    by (auto simp: e parse_metrics_def Let_def one_reading_cong [of "s\<lparr>idle := remove_nth i (idle s)\<rparr>" s])
next
  case False
  assume "one_reading show_num s"
  then show ?thesis using one_reading_cong shown_unless_parsed [of e str js show_num s] False by blast
qed

text \<open>
  In every run of the dashboard the alerts shown are those of the metrics shown, the charts end with the
  same reading, and they keep at most 180 points.
\<close>

theorem dashboard_consistent: "one_reading show_num (run_ops str js show_num evs initial_ops)"
proof -
  have "one_reading show_num s \<Longrightarrow> one_reading show_num (fold (ops_step str js show_num) evs s)" for s
    by (induction evs arbitrary: s) (simp_all add: one_reading_step)
  then show ?thesis by (simp add: run_ops_def one_reading_def initial_ops_def)
qed

text \<open>
  C29: The dashboard reads the heights, peers and mempool of the node back as the node has them. The node prints
  neither errors nor the load of the machine, so that these alerts never fire.
\<close>

theorem dashboard_reads_node:
  "newMetrics (parsePrometheusMetrics (get_metrics v)) = read_values v \<and>
   al_id ` set (generate_alerts show_num now (newMetrics (parsePrometheusMetrics (get_metrics v)))) =
     {i. i = ''peers'' \<and> nv_total_peers v < 3 \<or> i = ''mempool'' \<and> nv_mempool_size v > 1000}"
  by (auto simp: metrics_of_node alerts_fire read_values_def)

text \<open>Where nothing of the program is printed, everything is zero.\<close>

lemma no_metrics:
  assumes "\<forall>l \<in> set (split_on (CHR 0x0A) text). \<not> startsWith l ''kubercoin_''"
  shows "parsePrometheusMetrics text = []"
proof -
  have "\<forall>l \<in> set ls. \<not> startsWith l ''kubercoin_'' \<Longrightarrow> foldl (\<lambda>parsed line. metric_entry line parsed) m ls = m" for ls m
    by (induction ls) (simp_all add: metric_entry_def)
  then show ?thesis using assms by (simp add: parsePrometheusMetrics_def)
qed

text \<open>
  The server answers a node that is down with an error and a comment in place of the metrics; the page
  does not look at the status, shows zeros and calls the node healthy.
\<close>

lemma node_down_is_healthy:
  assumes "\<not> suspendWork s" and "i < length (idle s)" and "idle s ! i = ''# Error fetching metrics: '' @ m" and "CHR 0x0A \<notin> set m"
  shows "node_status (parse_metrics show_num i now s) = ''Healthy'' \<and>
         metrics (parse_metrics show_num i now s) = Some (newMetrics [])"
proof -
  have "split_on (CHR 0x0A) (''# Error fetching metrics: '' @ m) = [''# Error fetching metrics: '' @ m]"
    using assms(4) by (intro split_on_free) auto
  then have "parsePrometheusMetrics (''# Error fetching metrics: '' @ m) = []" by (intro no_metrics) (simp add: startsWith_def)
  then show ?thesis using assms(1-3) by (simp add: parse_metrics_def node_status_def Let_def)
qed

text \<open>While the work is suspended and no tab is opened and no refresh asked for, what is shown stays.\<close>

definition leaves_work :: "ops_event \<Rightarrow> bool" where
  "leaves_work e = (case e of OpenTab _ \<Rightarrow> False | Refresh \<Rightarrow> False | _ \<Rightarrow> True)"

lemma suspended_step:
  assumes "suspendWork s" and "leaves_work e"
  shows "suspendWork (ops_step str js show_num e s) \<and> metrics (ops_step str js show_num e s) = metrics s \<and>
         alerts (ops_step str js show_num e s) = alerts s \<and> activeTab (ops_step str js show_num e s) = activeTab s"
  using assms by (cases e) (auto simp: page_defs leaves_work_def Let_def split: sum.splits)

lemma suspended_stays:
  assumes "suspendWork s" and "list_all leaves_work evs"
  shows "metrics (run_ops str js show_num evs s) = metrics s \<and> alerts (run_ops str js show_num evs s) = alerts s \<and>
         activeTab (run_ops str js show_num evs s) = activeTab s"
  using assms
proof (induction evs arbitrary: s)
  case (Cons e evs)
  then show ?case using suspended_step [of s e str js show_num] by (simp add: run_ops_def)
qed (simp add: run_ops_def)

text \<open>
  Leaving the charts within 150 ms of a refresh suspends the work on the tab that was opened: the page polls
  on, and shows the same metrics whatever the node answers, until a tab is clicked.
\<close>

definition hasty_visit :: "ops_event list" where
  "hasty_visit = [Boot, OpenTab Charts, Refresh, MetricsAnswered 1 ''12:00'' (Inr ''kubercoin_peers 8''), OpenTab Overview, SuspendDue]"

lemma overview_freezes:
  assumes "list_all leaves_work evs"
  shows "activeTab (run_ops str js show_num (hasty_visit @ evs) initial_ops) = Overview \<and>
         metrics (run_ops str js show_num (hasty_visit @ evs) initial_ops) = None"
proof -
  let ?s = "run_ops str js show_num hasty_visit initial_ops"
  have "suspendWork ?s \<and> activeTab ?s = Overview \<and> metrics ?s = None"
    by (simp add: run_ops_def hasty_visit_def page_defs initial_ops_def remove_nth_def)
  moreover have "run_ops str js show_num (hasty_visit @ evs) initial_ops = run_ops str js show_num evs ?s" by (simp add: run_ops_def)
  ultimately show ?thesis using suspended_stays [OF _ assms, of ?s str js show_num] by simp
qed

text \<open>The repaint of \<open>loadMetrics\<close> never happens: its closure has the tab of the first rendering.\<close>

lemma chart_tick_by_timer: "chartTick (parse_metrics show_num i now s) = chartTick s"
  by (simp add: parse_metrics_def captured_tab_def initial_ops_def Let_def)

text \<open>The printed uptime determines the uptime.\<close>

lemma show_nat_cut: "\<not> is_digit c \<Longrightarrow> show_nat a @ c # r = show_nat b @ c # r' \<Longrightarrow> a = b \<and> r = r'"
proof -
  assume c: "\<not> is_digit c" and e: "show_nat a @ c # r = show_nat b @ c # r'"
  have "takeWhile is_digit (show_nat n @ c # t) = show_nat n" for n t
    using c show_nat_digits [of n] by (simp add: takeWhile_append2 list_all_iff)
  from this [of a r] this [of b r'] e have "show_nat a = show_nat b" by simp
  then show ?thesis using e by simp
qed

lemma formatUptime_inject: "formatUptime a = formatUptime b \<Longrightarrow> a = b"
proof -
  assume e: "formatUptime a = formatUptime b"
  have d: "\<not> is_digit (CHR ''h'')" "\<not> is_digit (CHR ''m'')" "\<not> is_digit (CHR ''s'')" by (simp_all add: is_digit_def)
  note h = show_nat_cut [OF d(1) e [unfolded formatUptime_def append_Cons append_Nil]]
  from h have "show_nat (a mod 3600 div 60) @ CHR ''m'' # CHR '' '' # show_nat (a mod 60) @ [CHR ''s''] =
      show_nat (b mod 3600 div 60) @ CHR ''m'' # CHR '' '' # show_nat (b mod 60) @ [CHR ''s'']" by simp
  note m = show_nat_cut [OF d(2) this]
  have "a div 3600 = b div 3600 \<and> a mod 3600 div 60 = b mod 3600 div 60 \<and> a mod 60 = b mod 60" using h m by simp
  moreover have "n = n div 3600 * 3600 + (n mod 3600 div 60 * 60 + n mod 60)" for n :: nat
    using div_mult_mod_eq [of n 3600] div_mult_mod_eq [of "n mod 3600" 60] mod_mod_cancel [of 60 3600 n] by simp
  ultimately show ?thesis by metis
qed

section \<open>Sparklines, peers and details\<close>

text \<open>The points of the line; \<open>None\<close> when there are fewer than two values.\<close>

definition Sparkline :: "jsnum list \<Rightarrow> (jsnum \<times> jsnum) list option" where
  "Sparkline values =
     (if length values < 2 then None
      else let lo = Min (set values); hi = Max (set values);
               range = (if hi - lo = 0 then 1 else hi - lo);
               stepX = 260 / real (length values - 1)
           in Some (map (\<lambda>(i, v). (real i * stepX, 64 - ((v - lo) / range) * (64 - 8) - 4)) (enumerate 0 values)))"

text \<open>The line stays in its box of 260 by 64, with a margin of 4 above and below.\<close>

lemma sparkline_in_box:
  assumes "Sparkline values = Some pts" and "(x, y) \<in> set pts"
  shows "0 \<le> x \<and> x \<le> 260 \<and> 4 \<le> y \<and> y \<le> 60"
proof -
  let ?lo = "Min (set values)" and ?hi = "Max (set values)" and ?n = "length values - 1"
  define range where "range = (if ?hi - ?lo = 0 then 1 else ?hi - ?lo)"
  have l: "2 \<le> length values" using assms(1) by (simp add: Sparkline_def split: if_splits)
  obtain i v where iv: "(i, v) \<in> set (enumerate 0 values)" "x = real i * (260 / real ?n)" "y = 64 - ((v - ?lo) / range) * (64 - 8) - 4"
    using assms by (auto simp: Sparkline_def Let_def range_def split: if_splits)
  then have i: "i \<le> ?n" and v: "v \<in> set values" by (auto simp: in_set_enumerate_eq)
  have "x \<le> 260" using i l by (simp add: iv(2) field_simps)
  moreover have "0 \<le> x" by (simp add: iv(2))
  moreover have "?lo \<le> v" "v \<le> ?hi" using v by simp_all
  then have "0 < range" "v - ?lo \<le> range" "0 \<le> v - ?lo" by (auto simp: range_def)
  then have "0 \<le> (v - ?lo) / range" "(v - ?lo) / range \<le> 1" by (auto simp: divide_simps)
  moreover have "y = 60 - 56 * ((v - ?lo) / range)" by (simp add: iv(3))
  ultimately show ?thesis by linarith
qed

text \<open>The key of a peer in the list; \<open>str\<close> is \<open>String(v)\<close>, \<open>js\<close> is \<open>JSON.stringify\<close>.\<close>

definition stablePeerKey :: "(json \<Rightarrow> string) \<Rightarrow> (json \<Rightarrow> string) \<Rightarrow> json \<Rightarrow> string" where
  "stablePeerKey str js peer =
     (case peer of
        JObj fs \<Rightarrow>
          let parts =
            (case map_of fs ''id'' of Some (JNum x) \<Rightarrow> [str (JNum x)] | Some (JStr t) \<Rightarrow> [t] | _ \<Rightarrow> []) @
            (case map_of fs ''addr'' of Some (JStr t) \<Rightarrow> [t] | _ \<Rightarrow> []) @
            (case map_of fs ''subver'' of Some (JStr t) \<Rightarrow> [t] | _ \<Rightarrow> []) @
            (case map_of fs ''inbound'' of Some (JBool b) \<Rightarrow> [if b then ''true'' else ''false''] | _ \<Rightarrow> []) @
            (case map_of fs ''services'' of Some (JStr t) \<Rightarrow> [t] | _ \<Rightarrow> [])
          in if parts \<noteq> [] then join_with ''|'' parts else js peer
      | JArr xs \<Rightarrow> js peer
      | _ \<Rightarrow> str peer)"

record details =
  detailsOpen :: bool
  detailsTitle :: string
  detailsText :: string
  detailsCopyHint :: "string option"
  detailsExtraCopy :: "(string \<times> string) option"
  hint_timers :: nat

definition openDetails :: "string \<Rightarrow> string \<Rightarrow> (string \<times> string) option \<Rightarrow> details \<Rightarrow> details" where
  "openDetails title payload extraCopy d =
     d\<lparr>detailsTitle := title, detailsCopyHint := None, detailsExtraCopy := extraCopy, detailsText := payload, detailsOpen := True\<rparr>"

definition closeDetails :: "details \<Rightarrow> details" where
  "closeDetails d = d\<lparr>detailsOpen := False, detailsText := [], detailsCopyHint := None, detailsExtraCopy := None\<rparr>"

definition copyToClipboard :: "bool \<Rightarrow> string \<Rightarrow> details \<Rightarrow> details" where
  "copyToClipboard written label d =
     d\<lparr>detailsCopyHint := Some (if written then label @ '' copied'' else ''Copy failed''), hint_timers := Suc (hint_timers d)\<rparr>"

definition hint_due :: "details \<Rightarrow> details" where
  "hint_due d = (if 0 < hint_timers d then d\<lparr>hint_timers := hint_timers d - 1, detailsCopyHint := None\<rparr> else d)"

text \<open>The timer of an earlier copy takes the hint of a later one away.\<close>

lemma earlier_timer_clears: "detailsCopyHint (hint_due (copyToClipboard ok2 l2 (copyToClipboard ok1 l1 d))) = None"
  by (simp add: hint_due_def copyToClipboard_def)

section \<open>The request console\<close>

record RPCMethod =
  rm_name :: string
  rm_category :: string
  rm_params :: "string list"
  requiresAuth :: bool

definition rpcMethods :: "RPCMethod list" where
  "rpcMethods =
     [\<lparr>rm_name = ''getblockchaininfo'', rm_category = ''blockchain'', rm_params = [], requiresAuth = False\<rparr>,
      \<lparr>rm_name = ''getblock'', rm_category = ''blockchain'', rm_params = [''hash'', ''verbosity''], requiresAuth = False\<rparr>,
      \<lparr>rm_name = ''getblockcount'', rm_category = ''blockchain'', rm_params = [], requiresAuth = False\<rparr>,
      \<lparr>rm_name = ''getmempoolinfo'', rm_category = ''blockchain'', rm_params = [], requiresAuth = False\<rparr>,
      \<lparr>rm_name = ''gettransaction'', rm_category = ''wallet'', rm_params = [''txid'', ''include_watchonly''], requiresAuth = True\<rparr>,
      \<lparr>rm_name = ''sendtoaddress'', rm_category = ''wallet'', rm_params = [''address'', ''amount'', ''comment''], requiresAuth = True\<rparr>,
      \<lparr>rm_name = ''getpeerinfo'', rm_category = ''network'', rm_params = [], requiresAuth = False\<rparr>,
      \<lparr>rm_name = ''getnetworkinfo'', rm_category = ''network'', rm_params = [], requiresAuth = False\<rparr>]"

definition filteredMethods :: "string \<Rightarrow> RPCMethod list" where
  "filteredMethods tab = filter (\<lambda>m. tab = ''all'' \<or> rm_category m = tab) rpcMethods"

record RequestLogEntry =
  le_method :: string
  le_params :: string
  le_timestamp :: string
  le_success :: bool

text \<open>A request that is under way has the method, the parameters and the log that its rendering saw.\<close>

record console =
  console_tab :: string
  selectedMethod :: string
  params :: string
  response :: string
  requestLog :: "RequestLogEntry list"
  authToken :: string
  under_way :: "(string \<times> string \<times> RequestLogEntry list) list"
  sent_requests :: "(string \<times> json \<times> string option) list"

definition initial_console :: console where
  "initial_console = \<lparr>console_tab = ''execute'', selectedMethod = ''getblockchaininfo'', params = [], response = [], requestLog = [], authToken = [],
     under_way = [], sent_requests = []\<rparr>"

text \<open>\<open>js_error_text\<close> prints the object with the message as its only field \<open>error\<close>.\<close>

definition log_request :: "string \<Rightarrow> bool \<Rightarrow> string \<Rightarrow> string \<times> string \<times> RequestLogEntry list \<Rightarrow> console \<Rightarrow> console" where
  "log_request time ok text r c =
     (case r of (m, ps, seen) \<Rightarrow>
        c\<lparr>response := text,
          requestLog := seen @ [\<lparr>le_method = m, le_params = (if ps = [] then ''[]'' else ps), le_timestamp = time, le_success = ok\<rparr>]\<rparr>)"

definition executeRPC :: "(string \<Rightarrow> string + json) \<Rightarrow> (string \<Rightarrow> string) \<Rightarrow> string \<Rightarrow> console \<Rightarrow> console" where
  "executeRPC parse js_error_text time c =
     (if find (\<lambda>m. rm_name m = selectedMethod c) rpcMethods = None then c
      else let r = (selectedMethod c, params c, requestLog c)
           in case (if params c = [] then Inr (JArr []) else parse (params c)) of
                Inl e \<Rightarrow> log_request time False (js_error_text (if e = [] then ''RPC error'' else e)) r c
              | Inr ps \<Rightarrow> c\<lparr>under_way := under_way c @ [r],
                             sent_requests := sent_requests c @ [(selectedMethod c, ps, if authToken c = [] then None else Some (''Bearer '' @ authToken c))]\<rparr>)"

definition console_result :: "(json \<Rightarrow> string) \<Rightarrow> answer \<Rightarrow> string + json" where
  "console_result str a =
     (case a of
        Rejected m \<Rightarrow> Inl m
      | Answered ok status (Inl m) \<Rightarrow> Inl m
      | Answered ok status (Inr data) \<Rightarrow>
          let e = opt_property ''error'' (Some data)
          in if json_truthy e then Inl (message_or str (opt_property ''message'' e) ''RPC error'') else Inr data)"

definition request_answered ::
    "(json \<Rightarrow> string) \<Rightarrow> (json \<Rightarrow> string) \<Rightarrow> (string \<Rightarrow> string) \<Rightarrow> nat \<Rightarrow> string \<Rightarrow> answer \<Rightarrow> console \<Rightarrow> console" where
  "request_answered str js js_error_text i time a c =
     (if i < length (under_way c) then
        let r = under_way c ! i; c1 = c\<lparr>under_way := remove_nth i (under_way c)\<rparr>
        in case console_result str a of
             Inl e \<Rightarrow> log_request time False (js_error_text (if e = [] then ''RPC error'' else e)) r c1
           | Inr data \<Rightarrow> log_request time True (js data) r c1
      else c)"

text \<open>A request that is answered before the next one is made is added to the log.\<close>

lemma request_logged:
  assumes "under_way c = []" and "find (\<lambda>m. rm_name m = selectedMethod c) rpcMethods \<noteq> None"
  shows "\<exists>e. requestLog (request_answered str js jet 0 t2 a (executeRPC parse jet t1 c)) = requestLog c @ [e] \<and> le_method e = selectedMethod c"
  using assms by (auto simp: executeRPC_def request_answered_def log_request_def Let_def split: sum.splits)

text \<open>Of two requests under way at once only the one answered last is in the log.\<close>

lemma overlapping_request_lost:
  "map le_method (requestLog
     (request_answered str js jet 0 ''2'' (Answered True 200 (Inr JNull))
       (request_answered str js jet 0 ''1'' (Answered True 200 (Inr JNull))
         (executeRPC parse jet ''0'' ((executeRPC parse jet ''0'' initial_console)\<lparr>selectedMethod := ''getblockcount''\<rparr>))))) = [''getblockcount'']"
  by (simp add: executeRPC_def request_answered_def log_request_def console_result_def initial_console_def rpcMethods_def remove_nth_def)

text \<open>The console opens on a tab that is no category: it offers no method until one is chosen.\<close>

lemma no_method_offered: "filteredMethods (console_tab initial_console) = []"
  by (simp add: filteredMethods_def initial_console_def rpcMethods_def)

end
