(* ===== verification/ExplorerPage.thy ===== *)
theory ExplorerPage
  imports OpsDashboard NodeRpc
begin

text \<open>
  The explorer's start page (apps/web/explorer/app/components/ExplorerClient.tsx): its live connection,
  its search and its lists. Every run of the effect that connects is an instance with variables of its
  own; sockets, timers and renderings interleave. What the node answers to a call is an argument.
\<close>

section \<open>Messages and addresses\<close>

text \<open>The words of \<open>s.split(/\s+/).filter(Boolean)\<close>.\<close>

fun words_acc :: "string \<Rightarrow> string \<Rightarrow> string list" where
  "words_acc w [] = (if w = [] then [] else [w])"
| "words_acc w (c # cs) = (if is_space c then (if w = [] then words_acc [] cs else w # words_acc [] cs) else words_acc (w @ [c]) cs)"

definition clipMessageTokens :: "string \<Rightarrow> string \<Rightarrow> nat \<Rightarrow> string" where
  "clipMessageTokens prev token maxTokens =
     (let nxt = (if prev \<noteq> [] then prev @ '' '' @ token else token)
      in join_with '' '' (slice_last maxTokens (words_acc [] nxt)))"

text \<open>A stored text may be unreadable: \<open>None\<close>. The result is the address and what is stored after.\<close>

definition resolveExplorerWsUrl :: "string option \<Rightarrow> string option option \<Rightarrow> string option \<Rightarrow> string option \<times> string option option" where
  "resolveExplorerWsUrl override stored env =
     (if override \<noteq> None \<and> override \<noteq> Some [] then (override, map_option (\<lambda>_. override) stored)
      else case stored of
             Some (Some u) \<Rightarrow> if u \<noteq> [] then (Some u, stored) else (if env = Some [] then None else env, stored)
           | _ \<Rightarrow> (if env = Some [] then None else env, stored))"

section \<open>The live connection\<close>

datatype socket_state = Connecting | Open | Closing | Closed

text \<open>
  The variables of one run of the effect. A variable that holds a timer is never overwritten while its
  timer runs: \<open>connect\<close> and \<open>onclose\<close> clear both first, and a socket opens once.
\<close>

record instance_vars =
  socket :: "nat option"
  pingTimer :: bool
  reconnectTimer :: bool
  lastPingSentAt :: "int option"

datatype request = SubscribeTo string | SendPing

record hook =
  wsEnabled :: bool
  wsConnected :: bool
  wsLastMessage :: string
  wsRetryCount :: nat
  retryCountRef :: nat
  wsLatencyMs :: int
  instances :: "instance_vars list"
  mounted :: "nat option"
  sockets :: "(nat \<times> socket_state) list"
  sent_to :: "(nat \<times> request) list"
  activity :: nat

definition initial_hook :: hook where
  "initial_hook = \<lparr>wsEnabled = False, wsConnected = False, wsLastMessage = [], wsRetryCount = 0, retryCountRef = 0, wsLatencyMs = 0, instances = [],
     mounted = None, sockets = [], sent_to = [], activity = 0\<rparr>"

definition upd_inst :: "nat \<Rightarrow> (instance_vars \<Rightarrow> instance_vars) \<Rightarrow> hook \<Rightarrow> hook" where
  "upd_inst i f h = h\<lparr>instances := (instances h)[i := f (instances h ! i)]\<rparr>"

definition clearTimers :: "nat \<Rightarrow> hook \<Rightarrow> hook" where
  "clearTimers i = upd_inst i (\<lambda>v. v\<lparr>pingTimer := False, reconnectTimer := False\<rparr>)"

definition pushLastMessageToken :: "string \<Rightarrow> hook \<Rightarrow> hook" where
  "pushLastMessageToken token h = h\<lparr>wsLastMessage := clipMessageTokens (wsLastMessage h) token 6\<rparr>"

definition sendJson :: "nat option \<Rightarrow> request \<Rightarrow> hook \<Rightarrow> hook" where
  "sendJson ws r h =
     (case ws of
        Some k \<Rightarrow> if k < length (sockets h) \<and> snd (sockets h ! k) = Open then h\<lparr>sent_to := sent_to h @ [(k, r)]\<rparr> else h
      | None \<Rightarrow> h)"

definition sendSubscriptions :: "bool \<Rightarrow> bool \<Rightarrow> nat \<Rightarrow> hook \<Rightarrow> hook" where
  "sendSubscriptions subBlocks subTransactions i h =
     (let ws = socket (instances h ! i);
          h1 = (if subBlocks then sendJson ws (SubscribeTo ''blocks'') h else h)
      in if subTransactions then sendJson ws (SubscribeTo ''transactions'') h1 else h1)"

text \<open>\<open>connect\<close>, for the address that it resolves and whether the constructor of the socket throws.\<close>

definition connect :: "string option \<Rightarrow> bool \<Rightarrow> nat \<Rightarrow> hook \<Rightarrow> hook" where
  "connect url throws i h0 =
     (let h = clearTimers i h0
      in if url = None \<or> url = Some [] then
           h\<lparr>wsEnabled := False, wsConnected := False, wsRetryCount := 0, wsLatencyMs := 0, wsLastMessage := ''disabled''\<rparr>
         else if throws then
           upd_inst i (\<lambda>v. v\<lparr>socket := None, reconnectTimer := True\<rparr>)
             (h\<lparr>wsEnabled := True, wsConnected := False, retryCountRef := Suc (retryCountRef h), wsRetryCount := Suc (retryCountRef h)\<rparr>)
         else upd_inst i (\<lambda>v. v\<lparr>socket := Some (length (sockets h))\<rparr>)
                (h\<lparr>wsEnabled := True, sockets := sockets h @ [(i, Connecting)]\<rparr>))"

definition closeWebSocket :: "nat option \<Rightarrow> hook \<Rightarrow> hook" where
  "closeWebSocket ws h =
     (case ws of
        Some k \<Rightarrow> if k < length (sockets h) \<and> snd (sockets h ! k) \<in> {Connecting, Open}
                  then h\<lparr>sockets := (sockets h)[k := (fst (sockets h ! k), Closing)]\<rparr> else h
      | None \<Rightarrow> h)"

text \<open>The function that the effect returns.\<close>

definition cleanup :: "hook \<Rightarrow> hook" where
  "cleanup h =
     (case mounted h of
        None \<Rightarrow> h
      | Some i \<Rightarrow> (closeWebSocket (socket (instances h ! i)) (clearTimers i h))\<lparr>mounted := None\<rparr>)"

definition run_effect :: "string option \<Rightarrow> bool \<Rightarrow> hook \<Rightarrow> hook" where
  "run_effect url throws h0 =
     (let h = cleanup h0; i = length (instances h)
      in connect url throws i
           (h\<lparr>instances := instances h @ [\<lparr>socket = None, pingTimer = False, reconnectTimer = False, lastPingSentAt = None\<rparr>], mounted := Some i\<rparr>))"

definition handleOpen :: "bool \<Rightarrow> bool \<Rightarrow> nat \<Rightarrow> hook \<Rightarrow> hook" where
  "handleOpen subBlocks subTransactions i h =
     upd_inst i (\<lambda>v. v\<lparr>pingTimer := True\<rparr>)
       (sendSubscriptions subBlocks subTransactions i (pushLastMessageToken ''connected'' (h\<lparr>wsConnected := True\<rparr>)))"

text \<open>The type of a message, when it has one that counts as true; a text that is no JSON is left aside.\<close>

definition handleMessage :: "int \<Rightarrow> string option \<Rightarrow> nat \<Rightarrow> hook \<Rightarrow> hook" where
  "handleMessage now type i h0 =
     (let h = pushLastMessageToken (case type of Some t \<Rightarrow> t | None \<Rightarrow> ''message'') h0
      in if type = Some ''pong'' then
           (case lastPingSentAt (instances h ! i) of
              Some t \<Rightarrow> if t \<noteq> 0 then h\<lparr>wsLatencyMs := max 0 (now - t)\<rparr> else h
            | None \<Rightarrow> h)
         else if type = Some ''block'' \<or> type = Some ''transaction'' then h\<lparr>activity := Suc (activity h)\<rparr> else h)"

definition handleError :: "hook \<Rightarrow> hook" where
  "handleError h = pushLastMessageToken ''error'' (h\<lparr>wsConnected := False\<rparr>)"

definition handleClose :: "nat \<Rightarrow> hook \<Rightarrow> hook" where
  "handleClose i h0 =
     (let h1 = pushLastMessageToken ''disconnected'' (h0\<lparr>wsConnected := False\<rparr>);
          h2 = h1\<lparr>retryCountRef := Suc (retryCountRef h1), wsRetryCount := Suc (retryCountRef h1)\<rparr>
      in upd_inst i (\<lambda>v. v\<lparr>reconnectTimer := True\<rparr>) (clearTimers i h2))"

datatype hook_event =
    RunEffect "string option" bool
  | Unmount
  | SocketOpen nat bool bool
  | SocketMessage nat int "string option"
  | SocketError nat
  | SocketClosed nat
  | PingDue nat int
  | ReconnectDue nat "string option" bool

text \<open>An event that cannot happen leaves the state. A closing socket still reads no more messages.\<close>

fun hook_step :: "hook_event \<Rightarrow> hook \<Rightarrow> hook" where
  "hook_step (RunEffect url throws) h = run_effect url throws h"
| "hook_step Unmount h = cleanup h"
| "hook_step (SocketOpen k b t) h =
     (if k < length (sockets h) \<and> snd (sockets h ! k) = Connecting
      then handleOpen b t (fst (sockets h ! k)) (h\<lparr>sockets := (sockets h)[k := (fst (sockets h ! k), Open)]\<rparr>) else h)"
| "hook_step (SocketMessage k now ty) h =
     (if k < length (sockets h) \<and> snd (sockets h ! k) = Open then handleMessage now ty (fst (sockets h ! k)) h else h)"
| "hook_step (SocketError k) h = (if k < length (sockets h) \<and> snd (sockets h ! k) \<noteq> Closed then handleError h else h)"
| "hook_step (SocketClosed k) h =
     (if k < length (sockets h) \<and> snd (sockets h ! k) \<noteq> Closed
      then handleClose (fst (sockets h ! k)) (h\<lparr>sockets := (sockets h)[k := (fst (sockets h ! k), Closed)]\<rparr>) else h)"
| "hook_step (PingDue i now) h =
     (if i < length (instances h) \<and> pingTimer (instances h ! i)
      then sendJson (socket (instances h ! i)) SendPing (upd_inst i (\<lambda>v. v\<lparr>lastPingSentAt := Some now\<rparr>) h) else h)"
| "hook_step (ReconnectDue i url throws) h =
     (if i < length (instances h) \<and> reconnectTimer (instances h ! i)
      then connect url throws i (upd_inst i (\<lambda>v. v\<lparr>reconnectTimer := False\<rparr>) h) else h)"

definition run_hook :: "hook_event list \<Rightarrow> hook \<Rightarrow> hook" where
  "run_hook evs h = fold hook_step evs h"

definition live :: "hook \<Rightarrow> nat" where
  "live h = length (filter (\<lambda>(i, st). st = Connecting \<or> st = Open) (sockets h))"

definition unclosed :: "nat \<Rightarrow> hook \<Rightarrow> nat" where
  "unclosed i h = length (filter (\<lambda>(j, st). j = i \<and> st \<noteq> Closed) (sockets h))"

subsection \<open>One socket per run of the effect\<close>

lemma length_filter_update:
  assumes "k < length xs"
  shows "length (filter P (xs[k := y])) + (if P (xs ! k) then 1 else 0) = length (filter P xs) + (if P y then 1 else 0)"
proof -
  have "length (filter P xs) = length (filter P (take k xs @ xs ! k # drop (Suc k) xs))" using id_take_nth_drop [OF assms] by simp
  then show ?thesis using assms by (simp add: upd_conv_take_nth_drop)
qed

lemma unclosed_update:
  assumes "k < length (sockets h)" and "fst (sockets h ! k) = j" and "snd (sockets h ! k) \<noteq> Closed"
  shows "unclosed i (h\<lparr>sockets := (sockets h)[k := (j, st)]\<rparr>) = unclosed i h - (if i = j \<and> st = Closed then 1 else 0) \<and> 0 < unclosed j h"
proof -
  have "sockets h ! k \<in> set (filter (\<lambda>(i, st). i = j \<and> st \<noteq> Closed) (sockets h))" using assms by (auto simp: case_prod_unfold)
  then have "0 < unclosed j h" by (auto simp: unclosed_def simp del: set_filter intro: length_pos_if_in_set)
  then show ?thesis
    using assms length_filter_update [OF assms(1), of "\<lambda>(j, st). j = i \<and> st \<noteq> Closed" "(j, st)"]
    by (auto simp: unclosed_def case_prod_unfold split: if_splits)
qed

definition one_each :: "hook \<Rightarrow> bool" where
  "one_each h \<longleftrightarrow>
     (\<forall>i. unclosed i h \<le> 1) \<and> (\<forall>i < length (instances h). reconnectTimer (instances h ! i) \<longrightarrow> unclosed i h = 0) \<and>
     (\<forall>s \<in> set (sockets h). fst s < length (instances h)) \<and> (\<forall>i. mounted h = Some i \<longrightarrow> i < length (instances h))"

lemma one_each_same:
  assumes "one_each h" and "sockets h' = sockets h" and "length (instances h') = length (instances h)"
    and "\<And>i. i < length (instances h) \<Longrightarrow> reconnectTimer (instances h' ! i) \<Longrightarrow> reconnectTimer (instances h ! i)"
    and "mounted h' = mounted h \<or> mounted h' = None"
  shows "one_each h'"
  using assms by (fastforce simp: one_each_def unclosed_def)

text \<open>The parts that leave sockets and timers alone.\<close>

lemma push_parts [simp]:
  "sockets (pushLastMessageToken t h) = sockets h" "instances (pushLastMessageToken t h) = instances h"
  "mounted (pushLastMessageToken t h) = mounted h" "unclosed i (pushLastMessageToken t h) = unclosed i h"
  by (simp_all add: pushLastMessageToken_def unclosed_def)

lemma send_parts [simp]:
  "sockets (sendJson ws r h) = sockets h" "instances (sendJson ws r h) = instances h" "mounted (sendJson ws r h) = mounted h"
  by (simp_all add: sendJson_def split: option.splits)

lemma subscribe_parts [simp]:
  "sockets (sendSubscriptions b t i h) = sockets h" "instances (sendSubscriptions b t i h) = instances h"
  "mounted (sendSubscriptions b t i h) = mounted h"
  by (simp_all add: sendSubscriptions_def Let_def)

lemma message_parts [simp]:
  "sockets (handleMessage now ty i h) = sockets h" "instances (handleMessage now ty i h) = instances h"
  "mounted (handleMessage now ty i h) = mounted h"
  by (simp_all add: handleMessage_def Let_def split: option.splits)

lemma upd_inst_parts [simp]:
  "sockets (upd_inst i f h) = sockets h" "length (instances (upd_inst i f h)) = length (instances h)" "mounted (upd_inst i f h) = mounted h"
  "i < length (instances h) \<Longrightarrow> instances (upd_inst i f h) ! j = (if j = i then f (instances h ! i) else instances h ! j)"
  "unclosed j (upd_inst i f h) = unclosed j h"
  by (simp_all add: upd_inst_def unclosed_def nth_list_update)

lemma clear_parts [simp]:
  "sockets (clearTimers i h) = sockets h" "length (instances (clearTimers i h)) = length (instances h)" "mounted (clearTimers i h) = mounted h"
  "unclosed j (clearTimers i h) = unclosed j h"
  by (simp_all add: clearTimers_def)

lemma clear_one_each: "one_each h \<Longrightarrow> i < length (instances h) \<Longrightarrow> one_each (clearTimers i h)"
  by (rule one_each_same) (auto simp: clearTimers_def split: if_splits)

lemma connect_one_each:
  assumes h: "one_each h" and i: "i < length (instances h)" and n: "unclosed i h = 0"
  shows "one_each (connect url throws i h)"
proof -
  have c: "one_each (clearTimers i h)" using clear_one_each [OF h i] .
  have new: "unclosed j (h'\<lparr>sockets := sockets h' @ [(i, Connecting)], wsEnabled := b\<rparr>) = unclosed j h' + (if j = i then 1 else 0)" for j h' b
    by (simp add: unclosed_def)
  show ?thesis
  proof (cases "url = None \<or> url = Some []")
    case True
    then show ?thesis by (auto simp: connect_def Let_def intro: one_each_same [OF c])
  next
    case False
    then show ?thesis
      using c i n by (auto simp: connect_def Let_def one_each_def unclosed_def clearTimers_def split: if_splits)
  qed
qed

lemma owner_known: "one_each h \<Longrightarrow> k < length (sockets h) \<Longrightarrow> fst (sockets h ! k) < length (instances h)"
  by (simp add: one_each_def)

lemma set_state_one_each:
  assumes "one_each h" and "k < length (sockets h)" and "snd (sockets h ! k) \<noteq> Closed"
  shows "one_each (h\<lparr>sockets := (sockets h)[k := (fst (sockets h ! k), st)]\<rparr>)"
proof -
  let ?h = "h\<lparr>sockets := (sockets h)[k := (fst (sockets h ! k), st)]\<rparr>"
  have u: "unclosed i ?h \<le> unclosed i h" for i using unclosed_update [OF assms(2) refl assms(3), of i st] by auto
  have "fst p < length (instances h)" if "p \<in> set (sockets ?h)" for p
    using that set_update_subset_insert [of "sockets h" k "(fst (sockets h ! k), st)"] owner_known [OF assms(1, 2)] assms(1)
    by (auto simp: one_each_def)
  moreover have "unclosed i ?h \<le> 1" for i using u [of i] assms(1) by (simp add: one_each_def) (meson order_trans)
  moreover have "unclosed i ?h = 0" if "i < length (instances h)" "reconnectTimer (instances h ! i)" for i
    using u [of i] assms(1) that by (simp add: one_each_def)
  ultimately show ?thesis using assms(1) by (simp add: one_each_def)
qed

lemma close_one_each: "one_each h \<Longrightarrow> one_each (closeWebSocket ws h)"
  by (auto simp: closeWebSocket_def set_state_one_each split: option.splits)

lemma cleanup_one_each:
  assumes "one_each h"
  shows "one_each (cleanup h)"
proof (cases "mounted h")
  case (Some i)
  then have "i < length (instances h)" using assms by (simp add: one_each_def)
  then have "one_each (closeWebSocket (socket (instances h ! i)) (clearTimers i h))" using assms by (simp add: close_one_each clear_one_each)
  then have "one_each ((closeWebSocket (socket (instances h ! i)) (clearTimers i h))\<lparr>mounted := None\<rparr>)" by (rule one_each_same) auto
  then show ?thesis using Some by (simp add: cleanup_def)
qed (use assms in \<open>simp add: cleanup_def\<close>)

lemma effect_one_each: "one_each h \<Longrightarrow> one_each (run_effect url throws h)"
proof -
  assume "one_each h"
  then have c: "one_each (cleanup h)" by (rule cleanup_one_each)
  let ?h = "(cleanup h)\<lparr>instances := instances (cleanup h) @ [\<lparr>socket = None, pingTimer = False, reconnectTimer = False, lastPingSentAt = None\<rparr>],
      mounted := Some (length (instances (cleanup h)))\<rparr>"
  have "unclosed i ?h = unclosed i (cleanup h)" for i by (simp add: unclosed_def)
  moreover have "unclosed (length (instances (cleanup h))) (cleanup h) = 0"
    using c by (auto simp: unclosed_def one_each_def filter_empty_conv)
  ultimately have "one_each ?h" "unclosed (length (instances (cleanup h))) ?h = 0"
    using c by (auto simp: one_each_def nth_append less_Suc_eq)
  then show ?thesis unfolding run_effect_def Let_def by (intro connect_one_each) simp_all
qed

lemma closed_one_each:
  assumes "one_each h" and "k < length (sockets h)" and "snd (sockets h ! k) \<noteq> Closed"
  shows "one_each (hook_step (SocketClosed k) h)"
proof -
  let ?i = "fst (sockets h ! k)" and ?h = "h\<lparr>sockets := (sockets h)[k := (fst (sockets h ! k), Closed)]\<rparr>"
  have "one_each ?h" by (rule set_state_one_each [OF assms])
  moreover have "unclosed ?i ?h = 0" using unclosed_update [OF assms(2) refl assms(3), of ?i Closed] assms(1) by (simp add: one_each_def)
  moreover note owner_known [OF assms(1, 2)]
  ultimately show ?thesis
    using assms(2, 3) by (auto simp: handleClose_def Let_def one_each_def clearTimers_def unclosed_def pushLastMessageToken_def)
qed

lemma step_one_each: "one_each h \<Longrightarrow> one_each (hook_step e h)"
proof (cases e)
  case (SocketOpen k b t)
  assume h: "one_each h"
  let ?h = "h\<lparr>sockets := (sockets h)[k := (fst (sockets h ! k), Open)]\<rparr>"
  show ?thesis
  proof (cases "k < length (sockets h) \<and> snd (sockets h ! k) = Connecting")
    case True
    then have "one_each ?h" using set_state_one_each [OF h, of k Open] by simp
    then have "one_each (handleOpen b t (fst (sockets h ! k)) ?h)"
      by (rule one_each_same) (use True owner_known [OF h, of k] in \<open>auto simp: handleOpen_def split: if_splits\<close>)
    then show ?thesis using SocketOpen True by simp
  qed (use h SocketOpen in auto)
next
  case (SocketMessage k now ty)
  assume "one_each h"
  then show ?thesis
    by (rule one_each_same) (auto simp: SocketMessage split: if_splits)
next
  case (SocketError k)
  assume "one_each h"
  then show ?thesis by (rule one_each_same) (auto simp: SocketError handleError_def split: if_splits)
next
  case (SocketClosed k)
  then show "one_each h \<Longrightarrow> ?thesis" using closed_one_each [of h k] by (cases "k < length (sockets h) \<and> snd (sockets h ! k) \<noteq> Closed") auto
next
  case (PingDue i now)
  assume "one_each h"
  then show ?thesis by (rule one_each_same) (auto simp: PingDue split: if_splits)
next
  case (ReconnectDue i url throws)
  assume h: "one_each h"
  let ?h = "upd_inst i (\<lambda>v. v\<lparr>reconnectTimer := False\<rparr>) h"
  show ?thesis
  proof (cases "i < length (instances h) \<and> reconnectTimer (instances h ! i)")
    case True
    then have "one_each ?h" "unclosed i ?h = 0"
      using h one_each_same [OF h, of ?h] by (auto simp: one_each_def split: if_splits)
    then show ?thesis using True connect_one_each [of ?h i url throws] by (simp add: ReconnectDue)
  qed (use h ReconnectDue in auto)
qed (simp_all add: effect_one_each cleanup_one_each)

text \<open>
  C40: However the events of the explorer's live connection interleave, each run of its effect has at most one
  socket that is not closed, and none while its reconnection waits.
\<close>

theorem one_socket_per_effect: "one_each (run_hook evs initial_hook)"
proof -
  have "one_each h \<Longrightarrow> one_each (fold hook_step evs h)" for h by (induction evs arbitrary: h) (simp_all add: step_one_each)
  moreover have "one_each initial_hook" by (simp add: one_each_def initial_hook_def unclosed_def)
  ultimately show ?thesis by (simp add: run_hook_def)
qed

subsection \<open>Runs of the effect pile up\<close>

text \<open>
  The page passes a new callback with every rendering, so that every change of what is shown runs the
  effect again. The cleanup closes the socket, and the handler of this closing starts a timer that
  connects again for an effect that is gone.
\<close>

definition holds :: "nat \<Rightarrow> nat \<Rightarrow> hook \<Rightarrow> bool" where
  "holds j c h \<longleftrightarrow> mounted h = Some j \<and> j < length (instances h) \<and> socket (instances h ! j) = Some c \<and>
     c < length (sockets h) \<and> sockets h ! c = (j, Connecting)"

definition rerun :: "string \<Rightarrow> nat \<Rightarrow> nat \<Rightarrow> hook_event list" where
  "rerun url j c = [RunEffect (Some url) False, SocketClosed c, ReconnectDue j (Some url) False]"

lemma rerun_adds_socket:
  assumes "url \<noteq> []" and "holds j c h"
  shows "\<exists>j' c'. holds j' c' (run_hook (rerun url j c) h) \<and> live (run_hook (rerun url j c) h) = Suc (live h)"
proof -
  let ?n = "length (instances h)" and ?m = "length (sockets h)" and ?r = "run_hook (rerun url j c) h"
  have c: "c < ?m" "j < ?n" "sockets h ! c = (j, Connecting)" using assms(2) by (simp_all add: holds_def)
  have s: "sockets ?r = (sockets h)[c := (j, Closed)] @ [(?n, Connecting), (j, Connecting)] \<and> mounted ?r = Some ?n \<and>
      length (instances ?r) = Suc ?n \<and> socket (instances ?r ! ?n) = Some ?m"
    using assms by (simp add: run_hook_def rerun_def holds_def run_effect_def cleanup_def closeWebSocket_def connect_def clearTimers_def upd_inst_def
        handleClose_def pushLastMessageToken_def Let_def nth_append nth_list_update list_update_append)
  have "length (filter (\<lambda>(i, st). st = Connecting \<or> st = Open) ((sockets h)[c := (j, Closed)])) + 1 = live h"
    using length_filter_update [OF c(1), of "\<lambda>(i, st). st = Connecting \<or> st = Open" "(j, Closed)"] c(3) by (simp add: live_def)
  then have "live ?r = Suc (live h)" using s by (simp add: live_def)
  moreover have "holds ?n ?m ?r" using s by (simp add: holds_def nth_append)
  ultimately show ?thesis by blast
qed

text \<open>
  The live connections of the explorer's page pile up: for every number there is a run after which that
  many sockets are connecting or open, though only the last effect is mounted.
\<close>

theorem sockets_pile_up:
  "\<exists>evs j. mounted (run_hook evs initial_hook) = Some j \<and> live (run_hook evs initial_hook) = Suc n"
proof -
  have "\<exists>evs j c. holds j c (run_hook evs initial_hook) \<and> live (run_hook evs initial_hook) = Suc n"
  proof (induction n)
    case 0
    have "holds 0 0 (run_hook [RunEffect (Some ''u'') False] initial_hook) \<and> live (run_hook [RunEffect (Some ''u'') False] initial_hook) = Suc 0"
      by (simp add: run_hook_def run_effect_def cleanup_def connect_def clearTimers_def upd_inst_def initial_hook_def holds_def live_def)
    then show ?case by blast
  next
    case (Suc n)
    then obtain evs j c where h: "holds j c (run_hook evs initial_hook)" "live (run_hook evs initial_hook) = Suc n" by blast
    have "run_hook (evs @ rerun ''u'' j c) initial_hook = run_hook (rerun ''u'' j c) (run_hook evs initial_hook)" by (simp add: run_hook_def)
    with rerun_adds_socket [of "''u''", OF _ h(1)] h(2) obtain j' c' where
      "holds j' c' (run_hook (evs @ rerun ''u'' j c) initial_hook) \<and> live (run_hook (evs @ rerun ''u'' j c) initial_hook) = Suc (Suc n)" by auto
    then show ?case by blast
  qed
  then show ?thesis by (auto simp: holds_def)
qed

text \<open>The connection does not survive its opening, which changes what is shown: the next rendering closes it.\<close>

lemma connect_keeps: "c < length (sockets h) \<Longrightarrow> sockets (connect url throws i h) ! c = sockets h ! c"
  by (simp add: connect_def Let_def nth_append)

lemma closed_on_opening:
  assumes "holds j c h"
  shows "wsConnected (hook_step (SocketOpen c b t) h) \<and>
         sockets (hook_step (RunEffect url throws) (hook_step (SocketOpen c b t) h)) ! c = (j, Closing)"
proof -
  let ?h = "hook_step (SocketOpen c b t) h"
  have h: "c < length (sockets h)" "mounted ?h = Some j" "sockets ?h = (sockets h)[c := (j, Open)]" "socket (instances ?h ! j) = Some c"
    using assms by (simp_all add: holds_def handleOpen_def)
  have "wsConnected (sendJson ws r g) = wsConnected g" for ws r g by (simp add: sendJson_def split: option.splits)
  then have "wsConnected ?h" using assms by (simp add: holds_def handleOpen_def upd_inst_def sendSubscriptions_def pushLastMessageToken_def Let_def)
  moreover have "sockets (cleanup ?h) = (sockets h)[c := (j, Closing)]"
    using h by (simp add: cleanup_def closeWebSocket_def del: hook_step.simps)
  ultimately show ?thesis using h(1) by (simp add: run_effect_def Let_def connect_keeps)
qed

section \<open>The latest blocks\<close>

text \<open>
  What the node answers to a call: a message that \<open>rpcCall\<close> throws, or the result. \<open>coerce\<close> is what
  arithmetic makes of a text, an array or an object; \<open>None\<close> is NaN.
\<close>

type_synonym node_answers = "string \<Rightarrow> json list \<Rightarrow> string + jval"

fun to_number :: "(json \<Rightarrow> jsnum option) \<Rightarrow> jval \<Rightarrow> jsnum option" where
  "to_number coerce (Some (JNum x)) = Some x"
| "to_number coerce (Some JNull) = Some 0"
| "to_number coerce (Some (JBool b)) = Some (of_bool b)"
| "to_number coerce (Some v) = coerce v"
| "to_number coerce None = None"

definition or_value :: "jval \<Rightarrow> jval \<Rightarrow> jval" where
  "or_value a b = (if json_truthy a then a else b)"

text \<open>\<open>v?.length\<close>\<close>

fun js_length :: "jval \<Rightarrow> jval" where
  "js_length (Some (JArr xs)) = Some (JNum (real (length xs)))"
| "js_length (Some (JStr t)) = Some (JNum (real (length t)))"
| "js_length (Some (JObj fs)) = map_of fs ''length''"
| "js_length _ = None"

record BlockData =
  b_hash :: jval
  b_height :: jsnum
  b_timestamp :: jval
  b_transactions :: jval

text \<open>The entry of one height; \<open>None\<close> when a call fails or the block is no object.\<close>

definition load_block :: "node_answers \<Rightarrow> jsnum \<Rightarrow> BlockData option" where
  "load_block rpc h =
     (case rpc ''getblockhash'' [JNum h] of
        Inl _ \<Rightarrow> None
      | Inr blockHash \<Rightarrow>
          (case rpc ''getblock'' [nullish blockHash JNull] of
             Inl _ \<Rightarrow> None
           | Inr block \<Rightarrow>
               if block = None \<or> block = Some JNull then None
               else Some \<lparr>b_hash = or_value (or_value (opt_property ''hash'' block) (opt_property ''blockhash'' block)) (Some (JStr [])),
                          b_height = h,
                          b_timestamp = or_value (opt_property ''time'' block) (opt_property ''timestamp'' block),
                          b_transactions = or_value (or_value (js_length (opt_property ''tx'' block)) (js_length (opt_property ''transactions'' block))) (Some (JNum 0))\<rparr>))"

text \<open>The heights that the loop visits.\<close>

definition loop_heights :: "jsnum \<Rightarrow> jsnum list" where
  "loop_heights h = takeWhile (\<lambda>x. x \<ge> 0) (map (\<lambda>i. h - real i) [0..<10])"

record explorer =
  ex_height :: jval
  ex_mempool :: jval
  latestBlocks :: "BlockData list"
  ex_error :: "string option"
  loadingData :: bool

definition loadData :: "(json \<Rightarrow> jsnum option) \<Rightarrow> node_answers \<Rightarrow> explorer \<Rightarrow> explorer" where
  "loadData coerce rpc s0 =
     (case rpc ''getblockcount'' [] of
        Inl m \<Rightarrow> s0\<lparr>ex_error := Some m, loadingData := False\<rparr>
      | Inr height \<Rightarrow>
          let s1 = s0\<lparr>ex_height := height\<rparr>
          in (case rpc ''getmempoolinfo'' [] of
                Inl m \<Rightarrow> s1\<lparr>ex_error := Some m, loadingData := False\<rparr>
              | Inr info \<Rightarrow>
                  s1\<lparr>ex_mempool := info,
                     latestBlocks := (case to_number coerce height of None \<Rightarrow> [] | Some h \<Rightarrow> List.map_filter (load_block rpc) (loop_heights h)),
                     ex_error := None, loadingData := False\<rparr>))"

lemma loop_heights_nat: "loop_heights (real n) = map (\<lambda>i. real n - real i) [0..<min 10 (Suc n)]"
proof -
  have u: "[0..<10] = [0..<min 10 (Suc n)] @ [min 10 (Suc n)..<10]" by (metis le_add_diff_inverse min.cobounded1 upt_add_eq_append zero_le)
  show ?thesis
  proof (cases "Suc n < 10")
    case True
    then have "map (\<lambda>i. real n - real i) [Suc n..<10] = (real n - real (Suc n)) # map (\<lambda>i. real n - real i) [Suc (Suc n)..<10]"
      by (simp add: upt_conv_Cons)
    then show ?thesis using True unfolding loop_heights_def u by (subst map_append, subst takeWhile_append2) (auto simp: min_def)
  next
    case False
    then show ?thesis by (auto simp: loop_heights_def takeWhile_eq_all_conv min_def)
  qed
qed

lemma map_filter_total: "(\<And>x. x \<in> set xs \<Longrightarrow> f x \<noteq> None) \<Longrightarrow> List.map_filter f xs = map (\<lambda>x. the (f x)) xs"
  by (induction xs) (auto simp: List.map_filter_def)

lemma load_block_height: "load_block rpc h = Some b \<Longrightarrow> b_height b = h"
  by (auto simp: load_block_def split: sum.splits if_splits)

text \<open>
  When the node is at a height and answers every call, the list has the blocks of the last ten heights, or of all
  when there are fewer, newest first.
\<close>

lemma latest_blocks_complete:
  assumes "rpc ''getblockcount'' [] = Inr (Some (JNum (real n)))" and "rpc ''getmempoolinfo'' [] = Inr info"
    and "\<And>h. h \<le> n \<Longrightarrow> load_block rpc (real h) \<noteq> None"
  shows "map b_height (latestBlocks (loadData coerce rpc s)) = map (\<lambda>i. real n - real i) [0..<min 10 (Suc n)]"
proof -
  have t: "load_block rpc x \<noteq> None" if x: "x \<in> set (loop_heights (real n))" for x
  proof -
    obtain i where "x = real n - real i" "i \<le> n" using x by (auto simp: loop_heights_nat)
    then show ?thesis using assms(3) [of "n - i"] by (simp add: of_nat_diff)
  qed
  then have "map b_height (List.map_filter (load_block rpc) (loop_heights (real n))) = loop_heights (real n)"
    using load_block_height by (force simp: map_filter_total intro: map_idI)
  then show ?thesis using assms(1, 2) by (simp add: loadData_def loop_heights_nat)
qed

text \<open>Whatever fails, the heights in the list are distinct and fall.\<close>

lemma latest_blocks_fall:
  "sorted_wrt (\<lambda>a b. b_height a > b_height b) (List.map_filter (load_block rpc) (loop_heights h))"
proof -
  have "sorted_wrt (>) hs \<Longrightarrow> sorted_wrt (\<lambda>a b. b_height a > b_height b) (List.map_filter (load_block rpc) hs)" for hs
  proof (induction hs)
    case (Cons x hs)
    have "b_height b \<in> set hs" if "b \<in> set (List.map_filter (load_block rpc) hs)" for b
      using that load_block_height by (auto simp: List.map_filter_def)
    then show ?case using Cons by (cases "load_block rpc x") (auto simp: List.map_filter_def dest: load_block_height)
  qed (simp add: List.map_filter_def)
  moreover have "sorted_wrt (>) (map (\<lambda>i. h - real i) [0..<10])" by (simp add: sorted_wrt_map sorted_wrt_iff_nth_less)
  then have "sorted_wrt (>) (loop_heights h)" unfolding loop_heights_def by (metis sorted_wrt_append takeWhile_dropWhile_id)
  ultimately show ?thesis by blast
qed

section \<open>The search\<close>

datatype found = FoundBlock jval | FoundTransaction jval

record search_page =
  searchResult :: "found option"
  se_error :: "string option"
  pushed :: "string list"

definition hash_of :: "jval \<Rightarrow> jval" where
  "hash_of r = or_value (opt_property ''hash'' r) (opt_property ''blockhash'' r)"

text \<open>\<open>str\<close> prints a value in an address. The number of a height is that of its digits.\<close>

definition handleSearch :: "(json \<Rightarrow> string) \<Rightarrow> node_answers \<Rightarrow> string \<Rightarrow> search_page \<Rightarrow> search_page" where
  "handleSearch str rpc searchQuery s0 =
     (let query = trim searchQuery
      in if query = [] then s0
         else let s = s0\<lparr>searchResult := None, se_error := None\<rparr>;
                  failed = (\<lambda>m. s\<lparr>se_error := Some (if m = [] then ''Not found'' else m)\<rparr>)
              in if list_all is_digit query then
                   (case rpc ''getblockhash'' [JNum (real (read_nat query))] of
                      Inl m \<Rightarrow> failed m
                    | Inr blockHash \<Rightarrow>
                        (case rpc ''getblock'' [nullish blockHash JNull] of
                           Inl m \<Rightarrow> failed m
                         | Inr result \<Rightarrow>
                             if json_truthy (hash_of result) then s\<lparr>pushed := pushed s @ [''/block/'' @ str (the (hash_of result))]\<rparr> else s))
                 else if length query = 64 \<and> list_all hex_char query then
                   (case rpc ''getblock'' [JStr query] of
                      Inr result \<Rightarrow>
                        s\<lparr>searchResult := Some (FoundBlock result),
                          pushed := pushed s @ [''/block/'' @ (if json_truthy (hash_of result) then str (the (hash_of result)) else query)]\<rparr>
                    | Inl _ \<Rightarrow>
                        (case rpc ''gettransaction'' [JStr query] of
                           Inl m \<Rightarrow> failed m
                         | Inr result \<Rightarrow> s\<lparr>searchResult := Some (FoundTransaction result)\<rparr>))
                 else s\<lparr>se_error := Some ''Invalid search query. Enter a block height, block hash, or transaction ID.''\<rparr>)"

text \<open>Every search that is not blank navigates, shows a result or an error, or the block has no hash.\<close>

lemma search_answers:
  assumes "trim q \<noteq> []" and "\<And>ps r. rpc ''getblock'' ps = Inr r \<Longrightarrow> json_truthy (hash_of r)"
  shows "searchResult (handleSearch str rpc q s) \<noteq> None \<or> se_error (handleSearch str rpc q s) \<noteq> None \<or>
         length (pushed (handleSearch str rpc q s)) = Suc (length (pushed s))"
  using assms by (auto simp: handleSearch_def Let_def split: sum.splits)

text \<open>
  The node has no method \<open>gettransaction\<close>: its answer is an error, and no search for a transaction finds it.
\<close>

lemma no_gettransaction: "''gettransaction'' \<notin> set node_methods"
  by (simp add: node_methods_def mining_methods_def wallet_methods_def network_methods_def chain_methods_def)

definition answers_as_node :: "node_answers \<Rightarrow> bool" where
  "answers_as_node rpc \<longleftrightarrow> (\<forall>m ps. m \<notin> set node_methods \<longrightarrow> rpc m ps = Inl (''method not found: '' @ m))"

lemma transactions_not_found:
  assumes "answers_as_node rpc"
  shows "\<nexists>r. searchResult (handleSearch str rpc q s) = Some (FoundTransaction r) \<and> searchResult s = None"
  using assms no_gettransaction by (auto simp: handleSearch_def answers_as_node_def Let_def split: sum.splits if_splits)

section \<open>Details of a block\<close>

text \<open>A request under way has the hash that it was made for; the page shows what was opened last.\<close>

record block_details =
  bd_open :: bool
  bd_title :: string
  bd_data :: jval
  bd_text :: string
  bd_loading :: bool
  bd_error :: "string option"
  bd_hash :: string
  bd_under_way :: "string list"

definition openBlockDetails :: "string \<Rightarrow> string \<Rightarrow> block_details \<Rightarrow> block_details" where
  "openBlockDetails hash height d =
     (if hash = [] then d
      else d\<lparr>bd_title := ''Block #'' @ height, bd_text := [], bd_error := None, bd_data := None, bd_hash := hash, bd_loading := True,
             bd_open := True, bd_under_way := bd_under_way d @ [hash]\<rparr>)"

definition details_answered :: "(jval \<Rightarrow> string) \<Rightarrow> nat \<Rightarrow> string + jval \<Rightarrow> block_details \<Rightarrow> block_details" where
  "details_answered js i r d =
     (if i < length (bd_under_way d) then
        let d1 = d\<lparr>bd_under_way := remove_nth i (bd_under_way d), bd_loading := False\<rparr>
        in case r of
             Inl m \<Rightarrow> d1\<lparr>bd_error := Some (if m = [] then ''Failed to load block details'' else m), bd_text := []\<rparr>
           | Inr v \<Rightarrow> d1\<lparr>bd_data := v, bd_text := js v\<rparr>
      else d)"

definition close_block_details :: "block_details \<Rightarrow> block_details" where
  "close_block_details d =
     d\<lparr>bd_open := False, bd_loading := False, bd_error := None, bd_data := None, bd_text := [], bd_hash := []\<rparr>"

text \<open>When two blocks are opened in turn, the answer for the first is shown under the hash of the second.\<close>

lemma details_of_other_block:
  assumes "a \<noteq> []" and "b \<noteq> []" and "bd_under_way d = []"
  shows "bd_hash (details_answered js 0 (Inr v) (openBlockDetails b hb (openBlockDetails a ha d))) = b \<and>
         bd_data (details_answered js 0 (Inr v) (openBlockDetails b hb (openBlockDetails a ha d))) = v \<and>
         \<not> bd_loading (details_answered js 0 (Inr v) (openBlockDetails b hb (openBlockDetails a ha d)))"
  using assms by (simp add: details_answered_def openBlockDetails_def)

end
