(* ===== verification/WalletDesk.thy ===== *)
theory WalletDesk
  imports WalletServer Forms
begin

text \<open>
  The page that works on the wallets of the node (apps/web/wallet/app/components/WalletClient.tsx), over the
  routes of WalletServer. Calls of the routes are under way while the user acts; their answers come in
  any order, each to the call whose rendering had seen a certain selection. A dialogue is modal: while one
  is open, the page behind it cannot be used.
\<close>

section \<open>Names, addresses and amounts\<close>

definition has_dat :: "string \<Rightarrow> bool" where
  "has_dat t \<longleftrightarrow> js_endsWith (toLowerCase t) ''.dat''"

definition normalizeWalletFile :: "string \<Rightarrow> string" where
  "normalizeWalletFile name =
     (let trimmed = trim name in if trimmed = [] then [] else if has_dat trimmed then trimmed else trimmed @ ''.dat'')"

definition displayWalletName :: "string \<Rightarrow> string" where
  "displayWalletName file = (let trimmed = trim file in if has_dat trimmed then take (length trimmed - 4) trimmed else trimmed)"

definition isLikelyAddress :: "string \<Rightarrow> bool" where
  "isLikelyAddress input =
     (let value = trim input
      in if length value < 5 then False else if list_ex is_space value then False else list_all alphanumeric value)"

lemma has_dat_append: "has_dat (t @ ''.dat'')"
  by (simp add: has_dat_def js_endsWith_def toLowerCase_def lower_char_def suffix_def)

lemma trim_dat: "t \<noteq> [] \<Longrightarrow> \<not> is_space (hd t) \<Longrightarrow> trim (t @ ''.dat'') = t @ ''.dat''"
  by (rule trim_trimmed) (auto simp: is_space_def)

text \<open>The name that is shown for a file is the name that the file was made from.\<close>

lemma display_normalize:
  assumes "trim n \<noteq> []" and "\<not> has_dat (trim n)"
  shows "displayWalletName (normalizeWalletFile n) = trim n"
  using assms trim_ends(1) [OF assms(1)]
  by (simp add: displayWalletName_def normalizeWalletFile_def has_dat_append trim_dat Let_def)

lemma normalize_file_idem: "normalizeWalletFile (normalizeWalletFile n) = normalizeWalletFile n"
proof (cases "trim n = [] \<or> has_dat (trim n)")
  case True
  have "trim [] = []" by (simp add: trim_def)
  with True show ?thesis by (auto simp: normalizeWalletFile_def Let_def)
next
  case False
  then have "trim (trim n @ ''.dat'') = trim n @ ''.dat''" using trim_dat [of "trim n"] trim_ends(1) [of n] by simp
  with False show ?thesis by (simp add: normalizeWalletFile_def has_dat_append)
qed

section \<open>The page\<close>

record WalletEntry =
  we_file :: string
  we_display :: string

datatype desk_tab = SendTab | HistoryTab

text \<open>
  A call under way: the list of wallets with the selection its rendering had seen and, when a creation waits
  for it, the name created; balance and history of a file; a payment; a creation.
\<close>

datatype flight = WalletsCall string "string option option" | BalanceCall string | HistoryCall string | SendCall string | CreateCall string

text \<open>\<open>fetch\<close> rejects, or answers with a status in the 200s or not, and a body whose parse may reject.\<close>

datatype reply = Failed string | Reply bool "string + json"

text \<open>
  \<open>info_of\<close> and \<open>posted\<close> are not part of the page: the file whose balance is shown, and the payments asked for
  so far with their senders.
\<close>

record desk =
  wallets :: "WalletEntry list"
  selectedWalletFile :: string
  walletInfo :: "json option"
  info_of :: string
  loadingBalance :: bool
  activeTab :: desk_tab
  sendTo :: string
  sendAmount :: string
  loading :: bool
  history :: jval
  txid :: jval
  error :: "string option"
  success :: "string option"
  createOpen :: bool
  createName :: string
  createdMnemonic :: jval
  confirmOpen :: bool
  pendingSend :: "(string \<times> int) option"
  flights :: "flight list"
  balance_timers :: "string list"
  posted :: "(string \<times> string \<times> int) list"

definition initial_desk :: desk where
  "initial_desk = \<lparr>wallets = [], selectedWalletFile = [], walletInfo = None, info_of = [], loadingBalance = False, activeTab = SendTab,
     sendTo = [], sendAmount = ''1000'', loading = False, history = Some (JArr []), txid = None, error = None, success = None,
     createOpen = False, createName = [], createdMnemonic = None, confirmOpen = False, pendingSend = None,
     flights = [WalletsCall [] None], balance_timers = [], posted = []\<rparr>"

definition launch :: "flight \<Rightarrow> desk \<Rightarrow> desk" where
  "launch f s = s\<lparr>flights := flights s @ [f]\<rparr>"

definition loadBalance :: "string \<Rightarrow> desk \<Rightarrow> desk" where
  "loadBalance file s = (if file = [] then s else launch (BalanceCall file) (s\<lparr>loadingBalance := True\<rparr>))"

definition loadHistory :: "string \<Rightarrow> desk \<Rightarrow> desk" where
  "loadHistory file s = (if file = [] then s else launch (HistoryCall file) s)"

text \<open>The effects that a new selection runs: the list, the balance and, on its tab, the history.\<close>

definition selection_effects :: "string \<Rightarrow> desk \<Rightarrow> desk" where
  "selection_effects old s =
     (if selectedWalletFile s = old then s
      else let s1 = loadBalance (selectedWalletFile s) (launch (WalletsCall (selectedWalletFile s) None) s)
           in if activeTab s1 = HistoryTab then loadHistory (selectedWalletFile s1) s1 else s1)"

definition select_file :: "string \<Rightarrow> desk \<Rightarrow> desk" where
  "select_file file s = selection_effects (selectedWalletFile s) (s\<lparr>selectedWalletFile := file\<rparr>)"

definition choose_tab :: "desk_tab \<Rightarrow> desk \<Rightarrow> desk" where
  "choose_tab t s = (if t = activeTab s then s else if t = HistoryTab then loadHistory (selectedWalletFile s) (s\<lparr>activeTab := t\<rparr>) else s\<lparr>activeTab := t\<rparr>)"

text \<open>The buttons of the list of wallets.\<close>

definition choose_wallet :: "string \<Rightarrow> desk \<Rightarrow> desk" where
  "choose_wallet file s = select_file file (s\<lparr>txid := None, success := None, error := None, activeTab := SendTab\<rparr>)"

text \<open>The names in the answer of the route, which are texts; \<open>data.wallets || []\<close>.\<close>

definition file_names :: "json \<Rightarrow> string + string list" where
  "file_names data =
     (case property ''wallets'' (Some data) of
        Inl m \<Rightarrow> Inl m
      | Inr v \<Rightarrow>
          if \<not> json_truthy v then Inr []
          else case v of
                 Some (JArr xs) \<Rightarrow> map_result (\<lambda>x. case x of JStr t \<Rightarrow> Inr t | _ \<Rightarrow> Inl ''(file || \"\").trim is not a function'') xs
               | _ \<Rightarrow> Inl ''files.map is not a function'')"

text \<open>The test wallet comes first, the others in the order of \<open>localeCompare\<close>, given by keys.\<close>

definition wallet_entries :: "(string \<Rightarrow> jsnum) \<Rightarrow> string list \<Rightarrow> WalletEntry list" where
  "wallet_entries collate files =
     (let es = map (\<lambda>f. \<lparr>we_file = f, we_display = displayWalletName f\<rparr>) files
      in filter (\<lambda>e. we_display e = ''test-wallet'') es @
         sort_key (\<lambda>e. collate (we_display e)) (filter (\<lambda>e. we_display e \<noteq> ''test-wallet'') es))"

definition preferred_file :: "WalletEntry list \<Rightarrow> string" where
  "preferred_file es =
     (let preferred = (case find (\<lambda>w. we_display w = ''test-wallet'') es of Some w \<Rightarrow> we_file w | None \<Rightarrow> [])
      in if preferred \<noteq> [] then preferred else case es of e # _ \<Rightarrow> we_file e | [] \<Rightarrow> [])"

definition reply_data :: "string \<Rightarrow> reply \<Rightarrow> string + json" where
  "reply_data failure r = (case r of Failed m \<Rightarrow> Inl m | Reply ok b \<Rightarrow> if \<not> ok then Inl failure else b)"

definition wallets_answered :: "(string \<Rightarrow> jsnum) \<Rightarrow> string \<Rightarrow> reply \<Rightarrow> desk \<Rightarrow> desk" where
  "wallets_answered collate captured r s =
     (case reply_data ''Failed to load wallets'' r of
        Inl m \<Rightarrow> s\<lparr>error := Some m\<rparr>
      | Inr data \<Rightarrow>
          (case file_names data of
             Inl m \<Rightarrow> s\<lparr>error := Some m\<rparr>
           | Inr files \<Rightarrow>
               let es = wallet_entries collate files; s1 = s\<lparr>wallets := es\<rparr>
               in if captured = [] then select_file (preferred_file es) s1 else s1))"

definition balance_answered :: "string \<Rightarrow> reply \<Rightarrow> desk \<Rightarrow> desk" where
  "balance_answered file r s =
     (case reply_data ''Failed to load balance'' r of
        Inl m \<Rightarrow> s\<lparr>error := Some m, loadingBalance := False\<rparr>
      | Inr data \<Rightarrow> s\<lparr>walletInfo := Some data, info_of := file, error := None, loadingBalance := False\<rparr>)"

text \<open>The status is not looked at: an error of the route has no transactions and empties the list.\<close>

definition history_answered :: "reply \<Rightarrow> desk \<Rightarrow> desk" where
  "history_answered r s =
     s\<lparr>history :=
       (case r of
          Reply _ (Inr data) \<Rightarrow>
            (case property ''transactions'' (Some data) of
               Inl _ \<Rightarrow> Some (JArr [])
             | Inr v \<Rightarrow> if json_truthy v then v else Some (JArr []))
        | _ \<Rightarrow> Some (JArr []))\<rparr>"

definition handleSendClick :: "desk \<Rightarrow> desk" where
  "handleSendClick s =
     (if selectedWalletFile s = [] then s
      else let to = trim (sendTo s); amount = js_parseInt (sendAmount s)
           in if to = [] then s
              else if \<not> isLikelyAddress to then s\<lparr>error := Some ''Invalid address''\<rparr>
              else case amount of
                     None \<Rightarrow> s\<lparr>error := Some ''Invalid amount''\<rparr>
                   | Some k \<Rightarrow> if k \<le> 0 then s\<lparr>error := Some ''Invalid amount''\<rparr>
                               else s\<lparr>error := None, pendingSend := Some (to, k), confirmOpen := True\<rparr>)"

definition executeSend :: "desk \<Rightarrow> desk" where
  "executeSend s =
     (case pendingSend s of
        Some (to, k) \<Rightarrow>
          if selectedWalletFile s = [] then s
          else launch (SendCall (selectedWalletFile s))
                 (s\<lparr>loading := True, error := None, success := None, txid := None, posted := posted s @ [(selectedWalletFile s, to, k)]\<rparr>)
      | None \<Rightarrow> s)"

text \<open>\<open>data.error || d\<close>, where a body that cannot be read is an empty object; \<open>str\<close> is \<open>String(v)\<close>.\<close>

definition body_or_empty :: "string + json \<Rightarrow> json" where
  "body_or_empty b = (case b of Inl _ \<Rightarrow> JObj [] | Inr data \<Rightarrow> data)"

definition route_error :: "(json \<Rightarrow> string) \<Rightarrow> json \<Rightarrow> string \<Rightarrow> string" where
  "route_error str data d =
     (case property ''error'' (Some data) of Inl m \<Rightarrow> m | Inr v \<Rightarrow> text_or str v d)"

definition send_answered :: "(json \<Rightarrow> string) \<Rightarrow> string \<Rightarrow> reply \<Rightarrow> desk \<Rightarrow> desk" where
  "send_answered str file r s =
     (case r of
        Failed m \<Rightarrow> s\<lparr>error := Some m, loading := False\<rparr>
      | Reply ok b \<Rightarrow>
          let data = body_or_empty b
          in if \<not> ok then s\<lparr>error := Some (route_error str data ''Send failed''), loading := False\<rparr>
             else case property ''txid'' (Some data) of
                    Inl m \<Rightarrow> s\<lparr>error := Some m, loading := False\<rparr>
                  | Inr t \<Rightarrow> s\<lparr>txid := t, success := Some ''Transaction sent successfully'', confirmOpen := False, pendingSend := None,
                               sendTo := [], sendAmount := ''1000'', balance_timers := balance_timers s @ [file], loading := False\<rparr>)"

definition handleCreateWallet :: "desk \<Rightarrow> desk" where
  "handleCreateWallet s =
     (if trim (createName s) = [] then s\<lparr>error := Some ''Wallet name is required''\<rparr>
      else launch (CreateCall (selectedWalletFile s)) (s\<lparr>loading := True, error := None, success := None, createdMnemonic := None\<rparr>))"

text \<open>After a creation the list is loaded; the answer selects the new wallet.\<close>

definition create_answered :: "(json \<Rightarrow> string) \<Rightarrow> string \<Rightarrow> reply \<Rightarrow> desk \<Rightarrow> desk" where
  "create_answered str captured r s =
     (case r of
        Failed m \<Rightarrow> s\<lparr>error := Some m, loading := False\<rparr>
      | Reply ok b \<Rightarrow>
          let data = body_or_empty b
          in if \<not> ok then s\<lparr>error := Some (route_error str data ''Create wallet failed''), loading := False\<rparr>
             else case property ''mnemonic'' (Some data) of
                    Inl m \<Rightarrow> s\<lparr>error := Some m, loading := False\<rparr>
                  | Inr m \<Rightarrow>
                      launch (WalletsCall captured
                          (Some (if json_truthy (opt_property ''name'' (Some data)) then Some (text_or str (opt_property ''name'' (Some data)) []) else None)))
                        (s\<lparr>createdMnemonic := (if json_truthy m then m else Some JNull), success := Some ''Wallet created''\<rparr>))"

definition create_finished :: "string option \<Rightarrow> desk \<Rightarrow> desk" where
  "create_finished name s =
     (case name of Some n \<Rightarrow> select_file (normalizeWalletFile n) s | None \<Rightarrow> s)\<lparr>loading := False\<rparr>"

fun flight_answered :: "(json \<Rightarrow> string) \<Rightarrow> (string \<Rightarrow> jsnum) \<Rightarrow> reply \<Rightarrow> flight \<Rightarrow> desk \<Rightarrow> desk" where
  "flight_answered str collate r (WalletsCall captured None) s = wallets_answered collate captured r s"
| "flight_answered str collate r (WalletsCall captured (Some n)) s = create_finished n (wallets_answered collate captured r s)"
| "flight_answered str collate r (BalanceCall file) s = balance_answered file r s"
| "flight_answered str collate r (HistoryCall file) s = history_answered r s"
| "flight_answered str collate r (SendCall file) s = send_answered str file r s"
| "flight_answered str collate r (CreateCall captured) s = create_answered str captured r s"

text \<open>\<open>filteredHistory\<close>; \<open>js\<close> is \<open>JSON.stringify\<close>.\<close>

definition filteredHistory :: "(json \<Rightarrow> string) \<Rightarrow> (json \<Rightarrow> string) \<Rightarrow> string \<Rightarrow> json list \<Rightarrow> json list" where
  "filteredHistory str js headerQuery txs =
     (let q = toLowerCase (trim headerQuery)
      in if q = [] then txs
         else filter (\<lambda>tx. str_includes (toLowerCase (text_or str (opt_property ''txid'' (Some tx)) (js tx))) q) txs)"

definition selectedWalletDisplay :: "desk \<Rightarrow> string" where
  "selectedWalletDisplay s =
     (if selectedWalletFile s = [] then []
      else let d = (case find (\<lambda>w. we_file w = selectedWalletFile s) (wallets s) of Some w \<Rightarrow> we_display w | None \<Rightarrow> [])
           in if d \<noteq> [] then d else displayWalletName (selectedWalletFile s))"

section \<open>Runs of the page\<close>

datatype desk_event =
    TypeTo string
  | TypeAmount string
  | SendClick
  | Confirm
  | Cancel
  | OpenCreate string
  | TypeName string
  | Create
  | CloseCreate
  | ChooseWallet string
  | ChooseTab desk_tab
  | Refresh
  | Interval
  | TimerDue nat
  | Answered nat reply

definition without :: "nat \<Rightarrow> 'a list \<Rightarrow> 'a list" where
  "without i xs = take i xs @ drop (Suc i) xs"

definition free :: "desk \<Rightarrow> bool" where
  "free s \<longleftrightarrow> \<not> confirmOpen s \<and> \<not> createOpen s"

fun desk_step :: "(json \<Rightarrow> string) \<Rightarrow> (string \<Rightarrow> jsnum) \<Rightarrow> desk_event \<Rightarrow> desk \<Rightarrow> desk" where
  "desk_step str collate (TypeTo t) s = (if free s then s\<lparr>sendTo := t\<rparr> else s)"
| "desk_step str collate (TypeAmount t) s = (if free s then s\<lparr>sendAmount := t\<rparr> else s)"
| "desk_step str collate SendClick s = (if free s \<and> \<not> loading s \<and> json_truthy (walletInfo s) \<and> activeTab s = SendTab then handleSendClick s else s)"
| "desk_step str collate Confirm s = (if confirmOpen s \<and> \<not> loading s then executeSend s else s)"
| "desk_step str collate Cancel s = (if confirmOpen s then s\<lparr>confirmOpen := False, pendingSend := None\<rparr> else s)"
| "desk_step str collate (OpenCreate n) s = (if free s then s\<lparr>createOpen := True, createName := n, createdMnemonic := None\<rparr> else s)"
| "desk_step str collate (TypeName n) s = (if createOpen s then s\<lparr>createName := n\<rparr> else s)"
| "desk_step str collate Create s = (if createOpen s \<and> \<not> loading s then handleCreateWallet s else s)"
| "desk_step str collate CloseCreate s = (if createOpen s then s\<lparr>createOpen := False, createdMnemonic := None\<rparr> else s)"
| "desk_step str collate (ChooseWallet f) s = (if free s \<and> f \<in> we_file ` set (wallets s) then choose_wallet f s else s)"
| "desk_step str collate (ChooseTab t) s = (if free s then choose_tab t s else s)"
| "desk_step str collate Refresh s = (if free s then loadBalance (selectedWalletFile s) s else s)"
| "desk_step str collate Interval s = loadBalance (selectedWalletFile s) s"
| "desk_step str collate (TimerDue i) s =
     (if i < length (balance_timers s) then loadBalance (balance_timers s ! i) (s\<lparr>balance_timers := without i (balance_timers s)\<rparr>) else s)"
| "desk_step str collate (Answered i r) s =
     (if i < length (flights s) then flight_answered str collate r (flights s ! i) (s\<lparr>flights := without i (flights s)\<rparr>) else s)"

definition run_desk :: "(json \<Rightarrow> string) \<Rightarrow> (string \<Rightarrow> jsnum) \<Rightarrow> desk_event list \<Rightarrow> desk \<Rightarrow> desk" where
  "run_desk str collate evs s = fold (desk_step str collate) evs s"

lemmas desk_defs = launch_def loadBalance_def loadHistory_def selection_effects_def select_file_def choose_tab_def choose_wallet_def
  wallets_answered_def balance_answered_def history_answered_def handleSendClick_def executeSend_def send_answered_def
  handleCreateWallet_def create_answered_def create_finished_def

text \<open>Payments that wait for their confirmation or have been asked for have passed the checks.\<close>

definition sound_payment :: "string \<times> int \<Rightarrow> bool" where
  "sound_payment p \<longleftrightarrow> isLikelyAddress (fst p) \<and> trim (fst p) = fst p \<and> 0 < snd p"

definition desk_sound :: "desk \<Rightarrow> bool" where
  "desk_sound s \<longleftrightarrow> (\<forall>p. pendingSend s = Some p \<longrightarrow> sound_payment p) \<and> (\<forall>(f, p) \<in> set (posted s). f \<noteq> [] \<and> sound_payment p)"

lemma selection_keeps [simp]:
  "pendingSend (select_file f s) = pendingSend s" "posted (select_file f s) = posted s" "walletInfo (select_file f s) = walletInfo s"
  "info_of (select_file f s) = info_of s" "loading (select_file f s) = loading s" "confirmOpen (select_file f s) = confirmOpen s"
  "selectedWalletFile (select_file f s) = f"
  by (simp_all add: select_file_def selection_effects_def loadBalance_def loadHistory_def launch_def Let_def)

lemma loads_keep [simp]:
  "pendingSend (loadBalance f s) = pendingSend s" "posted (loadBalance f s) = posted s" "loading (loadBalance f s) = loading s"
  "pendingSend (loadHistory f s) = pendingSend s" "posted (loadHistory f s) = posted s" "loading (loadHistory f s) = loading s"
  by (simp_all add: loadBalance_def loadHistory_def launch_def)

lemma wallets_keep [simp]:
  "pendingSend (wallets_answered c x r s) = pendingSend s" "posted (wallets_answered c x r s) = posted s"
  "loading (wallets_answered c x r s) = loading s"
  by (simp_all add: wallets_answered_def Let_def split: sum.splits)

lemma answered_payments:
  "posted (flight_answered str c r f s) = posted s \<and> (pendingSend (flight_answered str c r f s) = pendingSend s \<or> pendingSend (flight_answered str c r f s) = None)"
  by (cases "(str, c, r, f, s)" rule: flight_answered.cases)
    (auto simp: balance_answered_def history_answered_def send_answered_def create_answered_def create_finished_def launch_def Let_def
      split: sum.splits reply.splits option.splits)

lemma click_sound: "desk_sound s \<Longrightarrow> desk_sound (handleSendClick s)"
  by (auto simp: handleSendClick_def desk_sound_def sound_payment_def Let_def split: option.splits)

lemma execute_sound: "desk_sound s \<Longrightarrow> desk_sound (executeSend s)"
  by (auto simp: executeSend_def desk_sound_def launch_def split: option.splits)

lemma desk_sound_cong:
  "desk_sound s \<Longrightarrow> posted s' = posted s \<Longrightarrow> pendingSend s' = pendingSend s \<or> pendingSend s' = None \<Longrightarrow> desk_sound s'"
  by (auto simp: desk_sound_def)

lemma step_sound: "desk_sound s \<Longrightarrow> desk_sound (desk_step str collate e s)"
proof (cases e)
  case SendClick
  then show "desk_sound s \<Longrightarrow> ?thesis" by (simp add: click_sound)
next
  case Confirm
  then show "desk_sound s \<Longrightarrow> ?thesis" by (simp add: execute_sound)
next
  case (Answered i r)
  assume "desk_sound s"
  then show ?thesis
    by (rule desk_sound_cong) (use answered_payments [of str collate r "flights s ! i" "s\<lparr>flights := without i (flights s)\<rparr>"] Answered in auto)
qed (erule desk_sound_cong; auto simp: handleCreateWallet_def choose_wallet_def choose_tab_def launch_def)+

lemma run_sound: "desk_sound s \<Longrightarrow> desk_sound (run_desk str collate evs s)"
  unfolding run_desk_def by (induction evs arbitrary: s) (simp_all add: step_sound)


definition demo_clicks :: "desk_event list" where
  "demo_clicks = [Answered 0 (Reply True (Inr (JObj [(''wallets'', JArr [JStr ''a.dat''])]))), Answered 1 (Reply True (Inr (JObj []))),
     TypeTo ''abcde'', TypeAmount ''5'', SendClick, Confirm]"

lemma demo_clicks_post: "posted (run_desk (\<lambda>_. []) (\<lambda>_. 0) demo_clicks initial_desk) = [(''a.dat'', ''abcde'', 5)]"
  by code_simp


text \<open>One payment or creation is under way at a time, exactly while the buttons are disabled.\<close>

fun working :: "flight \<Rightarrow> bool" where
  "working (SendCall _) = True"
| "working (CreateCall _) = True"
| "working (WalletsCall _ n) = (n \<noteq> None)"
| "working _ = False"

definition one_at_a_time :: "desk \<Rightarrow> bool" where
  "one_at_a_time s \<longleftrightarrow> length (filter working (flights s)) = (if loading s then 1 else 0)"

lemma filter_without:
  assumes "i < length xs"
  shows "length (filter P xs) = length (filter P (without i xs)) + (if P (xs ! i) then 1 else 0)"
proof -
  have "length (filter P xs) = length (filter P (take i xs @ xs ! i # drop (Suc i) xs))" using id_take_nth_drop [OF assms] by simp
  then show ?thesis by (simp add: without_def)
qed

lemma loads_not_work [simp]:
  "filter working (flights (loadBalance f s)) = filter working (flights s)" "filter working (flights (loadHistory f s)) = filter working (flights s)"
  "filter working (flights (select_file f s)) = filter working (flights s)" "filter working (flights (choose_tab t s)) = filter working (flights s)"
  "filter working (flights (wallets_answered c x r s)) = filter working (flights s)"
  by (simp_all add: desk_defs Let_def split: sum.splits)

lemma answer_one_at_a_time:
  assumes "i < length (flights s)" and "one_at_a_time s"
  shows "one_at_a_time (desk_step str collate (Answered i r) s)"
proof -
  let ?s = "s\<lparr>flights := without i (flights s)\<rparr>"
  have w: "length (filter working (flights ?s)) = (if loading s then 1 else 0) - (if working (flights s ! i) then 1 else 0)"
    and l: "working (flights s ! i) \<longrightarrow> loading s"
    using filter_without [OF assms(1), of working] assms(2) by (auto simp: one_at_a_time_def split: if_splits)
  then show ?thesis
    using assms(1)
    by (cases "(str, collate, r, flights s ! i, ?s)" rule: flight_answered.cases)
      (auto simp: one_at_a_time_def balance_answered_def history_answered_def send_answered_def create_answered_def create_finished_def launch_def Let_def
        split: sum.splits reply.splits option.splits)
qed

lemma step_one_at_a_time: "one_at_a_time s \<Longrightarrow> one_at_a_time (desk_step str collate e s)"
proof (cases e)
  case (Answered i r)
  then show "one_at_a_time s \<Longrightarrow> ?thesis" using answer_one_at_a_time [of i s str collate r] by (cases "i < length (flights s)") auto
qed (auto simp: one_at_a_time_def handleSendClick_def executeSend_def handleCreateWallet_def choose_wallet_def choose_tab_def launch_def Let_def
  split: option.splits)

lemma never_two_payments: "one_at_a_time (run_desk str collate evs initial_desk)"
proof -
  have "one_at_a_time s \<Longrightarrow> one_at_a_time (fold (desk_step str collate) evs s)" for s
    by (induction evs arbitrary: s) (simp_all add: step_one_at_a_time)
  then show ?thesis by (simp add: run_desk_def one_at_a_time_def initial_desk_def)
qed

text \<open>
  A late answer to the first load of the list selects the preferred wallet: here the send button was
  pressed while \<open>b.dat\<close> was selected, and the payment leaves \<open>a.dat\<close>. The dialogue does not name the sender.
\<close>

definition both_wallets :: json where
  "both_wallets = JObj [(''wallets'', JArr [JStr ''a.dat'', JStr ''b.dat''])]"

definition late_list :: "desk_event list" where
  "late_list = [OpenCreate ''b'', Create, Answered 1 (Reply True (Inr (JObj [(''name'', JStr ''b.dat'')]))), Answered 1 (Reply True (Inr both_wallets)),
     CloseCreate, Answered 2 (Reply True (Inr (JObj []))), TypeTo ''abcde'', SendClick]"

lemma paid_by_other_wallet:
  "selectedWalletFile (run_desk (\<lambda>_. []) (\<lambda>_. 0) late_list initial_desk) = ''b.dat'' \<and>
   pendingSend (run_desk (\<lambda>_. []) (\<lambda>_. 0) late_list initial_desk) = Some (''abcde'', 1000) \<and>
   posted (run_desk (\<lambda>_. []) (\<lambda>_. 0) (late_list @ [Answered 0 (Reply True (Inr both_wallets)), Confirm]) initial_desk) = [(''a.dat'', ''abcde'', 1000)]"
  by code_simp

text \<open>When the balance of the wallet that was chosen cannot be loaded, the address and balance of the last one stay.\<close>

lemma failed_load_shows_other:
  "walletInfo (balance_answered f (Failed m) (choose_wallet f s)) = walletInfo s \<and>
   info_of (balance_answered f (Failed m) (choose_wallet f s)) = info_of s \<and>
   selectedWalletFile (balance_answered f (Failed m) (choose_wallet f s)) = f"
  by (simp add: balance_answered_def reply_data_def choose_wallet_def)

text \<open>A number field accepts \<open>1e6\<close>; the amount is then 1.\<close>

lemma exponent_cut: "js_parseInt ''1e6'' = Some 1"
  by code_simp

end
