(* ===== verification/Components.thy ===== *)
theory Components
  imports JsStore
begin

text \<open>
  Components and hooks that the pages share (apps/web/wallet/app/components and app/hooks):
  pagination, search with suggestions, stored values, debouncing, the clipboard and toggles. A
  component is its state and its handlers; what it draws is left out.
\<close>

section \<open>Pagination\<close>

datatype page_item = Page int | Ellipsis

definition effectiveTotalPages :: "int option \<Rightarrow> int option \<Rightarrow> int option \<Rightarrow> int option \<Rightarrow> int" where
  "effectiveTotalPages totalPages totalItems pageSize itemsPerPage =
     (case totalPages of
        Some n \<Rightarrow> n
      | None \<Rightarrow>
          (case (totalItems, case pageSize of Some p \<Rightarrow> Some p | None \<Rightarrow> itemsPerPage) of
             (Some t, Some p) \<Rightarrow> if t \<noteq> 0 \<and> p \<noteq> 0 then max 1 \<lceil>(of_int t / of_int p :: real)\<rceil> else 1
           | _ \<Rightarrow> 1))"

definition getPageItems :: "bool \<Rightarrow> int \<Rightarrow> int \<Rightarrow> page_item list" where
  "getPageItems small currentPage n =
     (let maxVisible = (if small then 3 else 5)
      in if n \<le> maxVisible + 2 then map Page [1..n]
         else [Page 1] @ (if currentPage > 3 then [Ellipsis] else []) @
              map Page [max 2 (currentPage - 1)..min (n - 1) (currentPage + 1)] @
              (if currentPage < n - 2 then [Ellipsis] else []) @ [Page n])"

text \<open>The items that are shown on a page, counted from one.\<close>

definition page_info :: "int \<Rightarrow> int \<Rightarrow> int \<Rightarrow> int \<times> int" where
  "page_info currentPage pageSize totalItems =
     (min ((currentPage - 1) * pageSize + 1) totalItems, min (currentPage * pageSize) totalItems)"

text \<open>\<open>items.slice((page - 1) * size, page * size)\<close>, as the pages cut their lists.\<close>

definition page_slice :: "nat \<Rightarrow> nat \<Rightarrow> 'a list \<Rightarrow> 'a list" where
  "page_slice n page xs = take n (drop ((page - 1) * n) xs)"

text \<open>The pages that a list of items stands for: an ellipsis stands for those between its neighbours.\<close>

fun stands_for :: "page_item list \<Rightarrow> int list" where
  "stands_for [] = []"
| "stands_for (Page a # Ellipsis # Page b # r) = [a..b - 1] @ stands_for (Page b # r)"
| "stands_for (Page a # r) = a # stands_for r"
| "stands_for (Ellipsis # r) = stands_for r"

fun no_empty_gap :: "page_item list \<Rightarrow> bool" where
  "no_empty_gap (Page a # Ellipsis # Page b # r) = (a + 1 < b \<and> no_empty_gap (Page b # r))"
| "no_empty_gap (Page a # r) = no_empty_gap r"
| "no_empty_gap [] = True"
| "no_empty_gap (Ellipsis # r) = False"

lemma stands_for_pages: "stands_for (map Page xs @ Page b # r) = xs @ stands_for (Page b # r)"
proof (induction xs)
  case (Cons x xs)
  then show ?case by (cases xs) simp_all
qed simp

lemma stands_for_pages_gap:
  "xs \<noteq> [] \<Longrightarrow> stands_for (map Page xs @ Ellipsis # Page b # r) = butlast xs @ [last xs..b - 1] @ stands_for (Page b # r)"
proof (induction xs)
  case (Cons x xs)
  then show ?case by (cases xs) simp_all
qed simp

lemma no_empty_gap_pages: "no_empty_gap (map Page xs @ Page b # r) = no_empty_gap (Page b # r)"
proof (induction xs)
  case (Cons x xs)
  then show ?case by (cases xs) simp_all
qed simp

lemma no_empty_gap_pages_gap:
  "xs \<noteq> [] \<Longrightarrow> no_empty_gap (map Page xs @ Ellipsis # Page b # r) = (last xs + 1 < b \<and> no_empty_gap (Page b # r))"
proof (induction xs)
  case (Cons x xs)
  then show ?case by (cases xs) simp_all
qed simp

lemma upto_split: "i \<le> j \<Longrightarrow> j \<le> k + 1 \<Longrightarrow> [i..j - 1] @ [j..k] = [i..k]" for i j k :: int
  by (cases "j = k + 1") (simp_all add: upto_split1 [symmetric])

lemma last_upto: "i \<le> j \<Longrightarrow> last [i..j] = j \<and> butlast [i..j] = [i..j - 1]" for i j :: int
  by (simp add: upto_rec2)

lemma middle_and_end:
  fixes a b n :: int
  assumes "a \<le> b" and "b < n" and "gap \<longleftrightarrow> b + 1 < n"
  shows "stands_for (map Page [a..b] @ (if gap then [Ellipsis] else []) @ [Page n]) = [a..n] \<and>
    no_empty_gap (map Page [a..b] @ (if gap then [Ellipsis] else []) @ [Page n])"
proof (cases gap)
  case True
  have "[a..b - 1] @ [b..n - 1] @ [n] = [a..n]" using assms upto_split [of a b n] upto_rec2 [of b n] by simp
  then show ?thesis
    using True assms last_upto [of a b] by (simp add: stands_for_pages_gap no_empty_gap_pages_gap)
next
  case False
  then have "n = b + 1" using assms by simp
  then have "[a..b] @ [n] = [a..n]" using assms upto_rec2 [of a n] by simp
  then show ?thesis using False stands_for_pages [of "[a..b]" n "[]"] no_empty_gap_pages [of "[a..b]" n "[]"] by simp
qed

lemma start_and_middle:
  fixes a b :: int
  assumes "2 \<le> a" and "a \<le> b" and "gap \<longleftrightarrow> 2 < a"
  shows "stands_for ([Page 1] @ (if gap then [Ellipsis] else []) @ map Page [a..b] @ r) = [1..a - 1] @ stands_for (map Page [a..b] @ r) \<and>
    no_empty_gap ([Page 1] @ (if gap then [Ellipsis] else []) @ map Page [a..b] @ r) = no_empty_gap (map Page [a..b] @ r)"
proof -
  have m: "map Page [a..b] = Page a # map Page [a + 1..b]" using assms by (simp add: upto_rec1)
  show ?thesis
  proof (cases gap)
    case True
    then show ?thesis using assms by (simp add: m)
  next
    case False
    then have "a = 2" using assms by simp
    then show ?thesis using False unfolding m by simp
  qed
qed

text \<open>
  For a current page within range, the pagination shows the current page, an ellipsis stands only where pages are left
  out, and together the items stand for all pages from first to last.
\<close>

theorem pagination_covers:
  assumes "1 \<le> c" and "c \<le> n"
  shows "stands_for (getPageItems small c n) = [1..n] \<and> no_empty_gap (getPageItems small c n) \<and> Page c \<in> set (getPageItems small c n)"
proof -
  define v :: int where "v = (if small then 3 else 5)"
  have v: "3 \<le> v" by (simp add: v_def)
  show ?thesis
  proof (cases "n \<le> v + 2")
    case True
    have "stands_for (map Page xs) = xs \<and> no_empty_gap (map Page xs)" for xs
    proof (induction xs)
      case (Cons x xs)
      then show ?case by (cases xs) simp_all
    qed simp
    then show ?thesis using True assms by (simp add: getPageItems_def v_def Let_def)
  next
    case False
    let ?a = "max 2 (c - 1)" and ?b = "min (n - 1) (c + 1)"
    let ?r = "(if c < n - 2 then [Ellipsis] else []) @ [Page n]"
    have ab: "2 \<le> ?a" "?a \<le> ?b" "?b < n" "c > 3 \<longleftrightarrow> 2 < ?a" "c < n - 2 \<longleftrightarrow> ?b + 1 < n" using False v assms by auto
    have items: "getPageItems small c n = [Page 1] @ (if c > 3 then [Ellipsis] else []) @ map Page [?a..?b] @ ?r"
      using False by (simp add: getPageItems_def v_def Let_def)
    have s: "stands_for (getPageItems small c n) = [1..?a - 1] @ stands_for (map Page [?a..?b] @ ?r)"
      "no_empty_gap (getPageItems small c n) = no_empty_gap (map Page [?a..?b] @ ?r)"
      using start_and_middle [OF ab(1,2,4)] unfolding items by simp_all
    have m: "stands_for (map Page [?a..?b] @ ?r) = [?a..n]" "no_empty_gap (map Page [?a..?b] @ ?r)"
      using middle_and_end [OF ab(2,3,5)] by simp_all
    have "[1..?a - 1] @ [?a..n] = [1..n]" using ab by (intro upto_split) auto
    moreover have "Page c \<in> set (getPageItems small c n)" unfolding items using assms by auto
    ultimately show ?thesis using s m by simp
  qed
qed

theorem pagination_covers_witness:
  "stands_for (getPageItems False 10 20) = [1..20] \<and> no_empty_gap (getPageItems False 10 20) \<and> Page 10 \<in> set (getPageItems False 10 20)"
  by (rule pagination_covers) simp_all

text \<open>The pages of a list, one after the other, are the list.\<close>

lemma page_slices: "concat (map (\<lambda>p. page_slice n p xs) [1..<Suc k]) = take (k * n) xs"
proof (induction k)
  case (Suc k)
  then show ?case by (simp add: page_slice_def take_add [symmetric] add.commute)
qed simp

section \<open>Search with suggestions\<close>

record search_box =
  query :: string
  showSuggestions :: bool
  focusedIndex :: int
  suggestions :: "string list"

datatype search_key = ArrowDown | ArrowUp | Enter | Escape

text \<open>Each handler gives the new state and the searches that it starts.\<close>

definition handleInputChange :: "string \<Rightarrow> search_box \<Rightarrow> search_box" where
  "handleInputChange v s = s\<lparr>query := v, showSuggestions := v \<noteq> [], focusedIndex := -1\<rparr>"

definition handleSubmit :: "search_box \<Rightarrow> search_box \<times> string option list" where
  "handleSubmit s = (if trim (query s) \<noteq> [] then (s\<lparr>showSuggestions := False\<rparr>, [Some (query s)]) else (s, []))"

text \<open>\<open>None\<close> is \<open>undefined\<close>.\<close>

definition handleSuggestionClick :: "string option \<Rightarrow> search_box \<Rightarrow> search_box \<times> string option list" where
  "handleSuggestionClick sg s = (s\<lparr>query := text_of sg, showSuggestions := False\<rparr>, [sg])"

definition handleKeyDown :: "search_key \<Rightarrow> search_box \<Rightarrow> search_box \<times> string option list" where
  "handleKeyDown k s =
     (if \<not> showSuggestions s \<or> suggestions s = [] then (s, [])
      else case k of
        ArrowDown \<Rightarrow> (s\<lparr>focusedIndex := (if focusedIndex s < int (length (suggestions s)) - 1 then focusedIndex s + 1 else focusedIndex s)\<rparr>, [])
      | ArrowUp \<Rightarrow> (s\<lparr>focusedIndex := (if focusedIndex s > 0 then focusedIndex s - 1 else -1)\<rparr>, [])
      | Enter \<Rightarrow>
          if focusedIndex s \<ge> 0
          then handleSuggestionClick (if nat (focusedIndex s) < length (suggestions s) then Some (suggestions s ! nat (focusedIndex s)) else None) s
          else (s, [])
      | Escape \<Rightarrow> (s\<lparr>showSuggestions := False, focusedIndex := -1\<rparr>, []))"

definition clear_search :: "search_box \<Rightarrow> search_box" where
  "clear_search s = s\<lparr>query := [], showSuggestions := False\<rparr>"

definition focus_search :: "search_box \<Rightarrow> search_box" where
  "focus_search s = (if query s \<noteq> [] then s\<lparr>showSuggestions := True\<rparr> else s)"

definition click_outside :: "search_box \<Rightarrow> search_box" where
  "click_outside s = s\<lparr>showSuggestions := False\<rparr>"

datatype search_event = Typed string | Submitted | Clicked nat | Key search_key | Cleared | Focused | Outside | Offered "string list"

fun search_step :: "search_event \<Rightarrow> search_box \<Rightarrow> search_box \<times> string option list" where
  "search_step (Typed v) s = (handleInputChange v s, [])"
| "search_step Submitted s = handleSubmit s"
| "search_step (Clicked i) s =
     (if showSuggestions s \<and> i < length (suggestions s) then handleSuggestionClick (Some (suggestions s ! i)) s else (s, []))"
| "search_step (Key k) s = handleKeyDown k s"
| "search_step Cleared s = (if query s \<noteq> [] then clear_search s else s, [])"
| "search_step Focused s = (focus_search s, [])"
| "search_step Outside s = (click_outside s, [])"
| "search_step (Offered sg) s = (s\<lparr>suggestions := sg\<rparr>, [])"

definition focus_in_range :: "search_box \<Rightarrow> bool" where
  "focus_in_range s \<longleftrightarrow> -1 \<le> focusedIndex s \<and> focusedIndex s < int (length (suggestions s))"

lemma focus_stays_in_range:
  assumes "focus_in_range s" and "\<And>sg. e = Offered sg \<Longrightarrow> length (suggestions s) \<le> length sg" and "search_step e s = (t, out)"
  shows "focus_in_range t \<and> None \<notin> set out"
proof (cases e)
  case (Key k)
  then show ?thesis
    using assms by (cases k) (auto simp: focus_in_range_def handleKeyDown_def handleSuggestionClick_def split: if_splits)
qed (use assms in \<open>auto simp: focus_in_range_def handleInputChange_def handleSubmit_def handleSuggestionClick_def clear_search_def
  focus_search_def click_outside_def split: if_splits\<close>)

text \<open>When fewer suggestions come in while one further down is in focus, Enter searches for undefined.\<close>

lemma shrinking_suggestions:
  "search_step (Key Enter) \<lparr>query = ''a'', showSuggestions = True, focusedIndex = 1, suggestions = [''ab'']\<rparr> =
     (\<lparr>query = [], showSuggestions = False, focusedIndex = 1, suggestions = [''ab'']\<rparr>, [None])"
  by (simp add: handleKeyDown_def handleSuggestionClick_def text_of_def)

section \<open>Hooks\<close>

subsection \<open>Stored values\<close>

record 'a stored_value =
  storedValue :: 'a
  sv_item :: "'a item"

definition useLocalStorage :: "bool \<Rightarrow> 'a \<Rightarrow> 'a item \<Rightarrow> 'a stored_value" where
  "useLocalStorage has_window initialValue i = \<lparr>storedValue = (if has_window then parse_item_or initialValue i else initialValue), sv_item = i\<rparr>"

text \<open>
  \<open>setValue\<close> with a function applies it to the value \<open>seen\<close> at the time of the last rendering.
\<close>

definition setValue :: "'a + ('a \<Rightarrow> 'a) \<Rightarrow> 'a \<Rightarrow> 'a stored_value \<Rightarrow> 'a stored_value" where
  "setValue v seen s =
     (let valueToStore = (case v of Inl x \<Rightarrow> x | Inr f \<Rightarrow> f seen) in s\<lparr>storedValue := valueToStore, sv_item := Json valueToStore\<rparr>)"

lemma stored_value_reloads: "storedValue (useLocalStorage True d (sv_item (setValue v seen s))) = storedValue (setValue v seen s)"
  by (simp add: useLocalStorage_def setValue_def Let_def)

text \<open>Of two updates between two renderings the first is lost.\<close>

lemma update_lost: "storedValue (setValue (Inr f) x (setValue (Inr g) x s)) = f x"
  by (simp add: setValue_def Let_def)

subsection \<open>Debouncing\<close>

text \<open>The value, what is shown of it, and when the timer is due.\<close>

record 'a debounced =
  db_value :: 'a
  debouncedValue :: 'a
  db_timer :: "int option"

definition useDebounce :: "int \<Rightarrow> int \<Rightarrow> 'a \<Rightarrow> 'a debounced" where
  "useDebounce delay now v = \<lparr>db_value = v, debouncedValue = v, db_timer = Some (now + delay)\<rparr>"

definition render_value :: "int \<Rightarrow> int \<Rightarrow> 'a \<Rightarrow> 'a debounced \<Rightarrow> 'a debounced" where
  "render_value delay now v s = (if v = db_value s then s else s\<lparr>db_value := v, db_timer := Some (now + delay)\<rparr>)"

definition timer_due :: "int \<Rightarrow> 'a debounced \<Rightarrow> 'a debounced" where
  "timer_due now s = (case db_timer s of Some d \<Rightarrow> if d \<le> now then s\<lparr>debouncedValue := db_value s, db_timer := None\<rparr> else s | None \<Rightarrow> s)"

text \<open>A run: values rendered at their times, the timer looked at before each of them.\<close>

definition debounce_run :: "int \<Rightarrow> (int \<times> 'a) list \<Rightarrow> 'a debounced \<Rightarrow> 'a debounced" where
  "debounce_run delay evs s = fold (\<lambda>(now, v) s. render_value delay now v (timer_due now s)) evs s"

definition debounce_inv :: "int \<Rightarrow> int \<Rightarrow> 'a debounced \<Rightarrow> bool" where
  "debounce_inv delay now s \<longleftrightarrow> (case db_timer s of None \<Rightarrow> debouncedValue s = db_value s | Some d \<Rightarrow> d \<le> now + delay)"

lemma debounce_inv_run:
  "debounce_inv delay t s \<Longrightarrow> sorted (t # map fst evs) \<Longrightarrow> debounce_inv delay (last (t # map fst evs)) (debounce_run delay evs s)"
proof (induction evs arbitrary: t s)
  case (Cons e evs)
  obtain now v where e: "e = (now, v)" by force
  have "debounce_inv delay now (render_value delay now v (timer_due now s))"
    using Cons.prems by (auto simp: e debounce_inv_def render_value_def timer_due_def split: option.splits if_splits)
  then show ?case using Cons.IH [of now] Cons.prems by (simp add: e debounce_run_def)
qed (simp add: debounce_run_def)

lemma last_value: "evs \<noteq> [] \<Longrightarrow> db_value (debounce_run delay evs s) = snd (last evs)"
proof (induction evs arbitrary: s)
  case (Cons e evs)
  then show ?case by (cases "evs = []") (auto simp: debounce_run_def render_value_def split: prod.splits)
qed simp

text \<open>Once the value has not changed for the delay, the last value is shown.\<close>

lemma debounce_settles:
  assumes "evs \<noteq> []" and "sorted (t # map fst evs)" and "fst (last evs) + delay \<le> now" and "debounce_inv delay t s"
  shows "debouncedValue (timer_due now (debounce_run delay evs s)) = snd (last evs)"
proof -
  have "last (t # map fst evs) = fst (last evs)" using assms(1) by (simp add: last_map)
  then have "debounce_inv delay (fst (last evs)) (debounce_run delay evs s)" using debounce_inv_run [OF assms(4,2)] by simp
  then show ?thesis
    using last_value [OF assms(1), of delay s] assms(3) by (auto simp: debounce_inv_def timer_due_def split: option.splits)
qed

subsection \<open>The clipboard\<close>

record clipboard =
  isCopied :: bool
  copy_timers :: "int list"

text \<open>\<open>ok\<close>: whether there is a clipboard and whether it takes the text.\<close>

definition copy :: "bool \<times> bool \<Rightarrow> int \<Rightarrow> int \<Rightarrow> clipboard \<Rightarrow> bool \<times> clipboard" where
  "copy ok timeout now s =
     (if \<not> fst ok then (False, s)
      else if snd ok then (True, s\<lparr>isCopied := True, copy_timers := copy_timers s @ [now + timeout]\<rparr>)
      else (False, s\<lparr>isCopied := False\<rparr>))"

definition clipboard_due :: "int \<Rightarrow> clipboard \<Rightarrow> clipboard" where
  "clipboard_due now s =
     (if list_ex (\<lambda>d. d \<le> now) (copy_timers s) then s\<lparr>isCopied := False, copy_timers := filter (\<lambda>d. now < d) (copy_timers s)\<rparr> else s)"

text \<open>The mark of a second copy goes out when the timer of the first one is due.\<close>

lemma mark_goes_out_early:
  "isCopied (clipboard_due 2000 (snd (copy (True, True) 2000 1500 (snd (copy (True, True) 2000 0 \<lparr>isCopied = False, copy_timers = []\<rparr>))))) = False"
  by (simp add: copy_def clipboard_due_def)

subsection \<open>Toggles and media\<close>

definition toggle :: "bool \<Rightarrow> bool" where
  "toggle v = (\<not> v)"

definition setTrue :: "bool \<Rightarrow> bool" where
  "setTrue v = True"

definition setFalse :: "bool \<Rightarrow> bool" where
  "setFalse v = False"

text \<open>Whether a query matches: at first no, then as the media are read, then as they change.\<close>

definition useMediaQuery :: "bool option \<Rightarrow> bool list \<Rightarrow> bool" where
  "useMediaQuery media changes = (case media of None \<Rightarrow> False | Some m \<Rightarrow> last (m # changes))"

end
