(* ===== verification/TransactionLabels.thy ===== *)
theory TransactionLabels
  imports JsStore "HOL-Library.Char_ord" "HOL-Library.List_Lexorder"
begin

text \<open>
  The transaction labels (services/transactionLabels.ts): notes, tags and categories by
  transaction, templates for them, search, export and import, bulk operations. The listeners that
  \<open>saveLabels\<close> calls are user interface callbacks and are left out.
\<close>

section \<open>State\<close>

record TransactionLabel =
  l_txid :: string
  l_note :: "string option"
  l_tags :: "string list"
  l_category :: "string option"
  l_createdAt :: int
  l_updatedAt :: int

record LabelTemplate =
  tp_id :: string
  tp_name :: string
  tp_note :: string
  tp_tags :: "string list"
  tp_category :: "string option"

record LabelUpdates =
  lu_note :: "string option option"
  lu_tags :: "string list option"
  lu_category :: "string option option"

record TemplateData =
  td_name :: string
  td_note :: string
  td_tags :: "string list"
  td_category :: "string option"

record TemplateUpdates =
  tu_name :: "string option"
  tu_note :: "string option"
  tu_tags :: "string list option"
  tu_category :: "string option option"

record tl_state =
  labels :: "(string, TransactionLabel) jsmap"
  templates :: "LabelTemplate list"
  labels_item :: "TransactionLabel list item"
  templates_item :: "LabelTemplate list item"
  is_browser :: bool

section \<open>Storage\<close>

definition saveLabels :: "tl_state \<Rightarrow> tl_state" where
  "saveLabels s = (if \<not> is_browser s then s else s\<lparr>labels_item := Json (map snd (labels s))\<rparr>)"

definition saveTemplates :: "tl_state \<Rightarrow> tl_state" where
  "saveTemplates s = (if \<not> is_browser s then s else s\<lparr>templates_item := Json (templates s)\<rparr>)"

definition loadLabels :: "tl_state \<Rightarrow> tl_state" where
  "loadLabels s =
     (if \<not> is_browser s then s
      else case labels_item s of Json ls \<Rightarrow> s\<lparr>labels := load_values l_txid ls\<rparr> | _ \<Rightarrow> s)"

definition default_templates :: "LabelTemplate list" where
  "default_templates =
     [\<lparr>tp_id = ''personal'', tp_name = ''Personal'', tp_note = ''Personal transaction'', tp_tags = [''personal''],
       tp_category = Some ''personal''\<rparr>,
      \<lparr>tp_id = ''business'', tp_name = ''Business'', tp_note = ''Business expense'', tp_tags = [''business'', ''expense''],
       tp_category = Some ''business''\<rparr>,
      \<lparr>tp_id = ''mining'', tp_name = ''Mining'', tp_note = ''Mining reward'', tp_tags = [''mining'', ''income''],
       tp_category = Some ''mining''\<rparr>,
      \<lparr>tp_id = ''exchange'', tp_name = ''Exchange'', tp_note = ''Exchange transfer'', tp_tags = [''exchange''],
       tp_category = Some ''exchange''\<rparr>,
      \<lparr>tp_id = ''payment'', tp_name = ''Payment'', tp_note = ''Payment received'', tp_tags = [''payment'', ''income''],
       tp_category = Some ''income''\<rparr>]"

text \<open>Stored templates, or the default ones, which are then stored; an unreadable item leaves none.\<close>

definition loadTemplates :: "tl_state \<Rightarrow> tl_state" where
  "loadTemplates s =
     (if \<not> is_browser s then s
      else case templates_item s of
        Json ts \<Rightarrow> s\<lparr>templates := ts\<rparr>
      | Garbled t \<Rightarrow> if t = [] then saveTemplates (s\<lparr>templates := default_templates\<rparr>) else s
      | Absent \<Rightarrow> saveTemplates (s\<lparr>templates := default_templates\<rparr>))"

definition new_Labels :: "bool \<Rightarrow> TransactionLabel list item \<Rightarrow> LabelTemplate list item \<Rightarrow> tl_state" where
  "new_Labels browser li ti =
     loadTemplates (loadLabels
       \<lparr>labels = [], templates = [], labels_item = li, templates_item = ti, is_browser = browser\<rparr>)"

section \<open>Labels\<close>

definition addLabel ::
    "clock \<Rightarrow> string \<Rightarrow> string option \<Rightarrow> string list \<Rightarrow> string option \<Rightarrow> tl_state \<Rightarrow> TransactionLabel \<times> tl_state" where
  "addLabel clk t note tags cat s =
     (let l = \<lparr>l_txid = t, l_note = note, l_tags = tags, l_category = cat, l_createdAt = clk 0, l_updatedAt = clk 0\<rparr>
      in (l, saveLabels (s\<lparr>labels := AList.update t l (labels s)\<rparr>)))"

definition updateLabel :: "clock \<Rightarrow> string \<Rightarrow> LabelUpdates \<Rightarrow> tl_state \<Rightarrow> bool \<times> tl_state" where
  "updateLabel clk t u s =
     (case map_of (labels s) t of
        None \<Rightarrow> (False, s)
      | Some l \<Rightarrow>
          (True, saveLabels (s\<lparr>labels := AList.update t
             (l\<lparr>l_note := or_keep (lu_note u) (l_note l), l_tags := or_keep (lu_tags u) (l_tags l),
                l_category := or_keep (lu_category u) (l_category l), l_updatedAt := clk 0\<rparr>) (labels s)\<rparr>)))"

definition deleteLabel :: "string \<Rightarrow> tl_state \<Rightarrow> bool \<times> tl_state" where
  "deleteLabel t s =
     (if map_of (labels s) t = None then (False, s)
      else (True, saveLabels (s\<lparr>labels := AList.delete t (labels s)\<rparr>)))"

definition getLabel :: "string \<Rightarrow> tl_state \<Rightarrow> TransactionLabel option" where
  "getLabel t s = map_of (labels s) t"

definition getAllLabels :: "tl_state \<Rightarrow> TransactionLabel list" where
  "getAllLabels s = map snd (labels s)"

definition getLabelsByTag :: "string \<Rightarrow> tl_state \<Rightarrow> TransactionLabel list" where
  "getLabelsByTag t s =
     filter (\<lambda>l. list_ex (\<lambda>x. toLowerCase x = toLowerCase t) (l_tags l)) (getAllLabels s)"

definition getLabelsByCategory :: "string \<Rightarrow> tl_state \<Rightarrow> TransactionLabel list" where
  "getLabelsByCategory c s =
     filter (\<lambda>l. map_option toLowerCase (l_category l) = Some (toLowerCase c)) (getAllLabels s)"

definition opt_includes :: "string option \<Rightarrow> string \<Rightarrow> bool" where
  "opt_includes x q = (case x of None \<Rightarrow> False | Some t \<Rightarrow> str_includes (toLowerCase t) q)"

definition label_matches :: "string \<Rightarrow> TransactionLabel \<Rightarrow> bool" where
  "label_matches q l \<longleftrightarrow> opt_includes (l_note l) q \<or> list_ex (\<lambda>t. str_includes (toLowerCase t) q) (l_tags l) \<or>
     opt_includes (l_category l) q \<or> str_includes (toLowerCase (l_txid l)) q"

definition searchLabels :: "string \<Rightarrow> tl_state \<Rightarrow> TransactionLabel list" where
  "searchLabels q s = filter (label_matches (toLowerCase q)) (getAllLabels s)"

definition getAllTags :: "tl_state \<Rightarrow> string list" where
  "getAllTags s = sort (remdups (concat (map l_tags (getAllLabels s))))"

definition getAllCategories :: "tl_state \<Rightarrow> string list" where
  "getAllCategories s =
     sort (remdups (map (\<lambda>l. the (l_category l)) (filter (\<lambda>l. truthy_string (l_category l)) (getAllLabels s))))"

section \<open>Templates\<close>

definition getTemplates :: "tl_state \<Rightarrow> LabelTemplate list" where
  "getTemplates s = templates s"

definition getTemplate :: "string \<Rightarrow> tl_state \<Rightarrow> LabelTemplate option" where
  "getTemplate i s = List.find (\<lambda>t. tp_id t = i) (templates s)"

definition applyTemplate :: "clock \<Rightarrow> string \<Rightarrow> string \<Rightarrow> tl_state \<Rightarrow> TransactionLabel option \<times> tl_state" where
  "applyTemplate clk t i s =
     (case getTemplate i s of
        None \<Rightarrow> (None, s)
      | Some tp \<Rightarrow> (case addLabel clk t (Some (tp_note tp)) (tp_tags tp) (tp_category tp) s of (l, s') \<Rightarrow> (Some l, s')))"

definition addTemplate :: "clock \<Rightarrow> string \<Rightarrow> TemplateData \<Rightarrow> tl_state \<Rightarrow> LabelTemplate \<times> tl_state" where
  "addTemplate clk rnd d s =
     (let t = \<lparr>tp_id = ''template_'' @ show_int (clk 0) @ ''_'' @ rnd, tp_name = td_name d, tp_note = td_note d,
            tp_tags = td_tags d, tp_category = td_category d\<rparr>
      in (t, saveTemplates (s\<lparr>templates := templates s @ [t]\<rparr>)))"

definition updateTemplate :: "string \<Rightarrow> TemplateUpdates \<Rightarrow> tl_state \<Rightarrow> bool \<times> tl_state" where
  "updateTemplate i u s =
     (case find_index (\<lambda>t. tp_id t = i) (templates s) of
        None \<Rightarrow> (False, s)
      | Some k \<Rightarrow>
          let t = templates s ! k
          in (True, saveTemplates (s\<lparr>templates := (templates s)[k :=
               t\<lparr>tp_name := or_keep (tu_name u) (tp_name t), tp_note := or_keep (tu_note u) (tp_note t),
                 tp_tags := or_keep (tu_tags u) (tp_tags t), tp_category := or_keep (tu_category u) (tp_category t)\<rparr>]\<rparr>)))"

definition deleteTemplate :: "string \<Rightarrow> tl_state \<Rightarrow> bool \<times> tl_state" where
  "deleteTemplate i s =
     (let s1 = s\<lparr>templates := filter (\<lambda>t. tp_id t \<noteq> i) (templates s)\<rparr>
      in if length (templates s1) < length (templates s) then (True, saveTemplates s1) else (False, s1))"

section \<open>Export, import, bulk operations\<close>

text \<open>
  The exported object without its time stamp; in an imported one each array may be missing, and an
  element \<open>None\<close> is \<open>null\<close>: it counts as a failed label and as no template (with no
  templates at all the code would store the \<open>null\<close>).
\<close>

record label_file =
  lf_labels :: "TransactionLabel option list option"
  lf_templates :: "LabelTemplate option list option"

definition exportLabels :: "tl_state \<Rightarrow> label_file" where
  "exportLabels s = \<lparr>lf_labels = Some (map Some (map snd (labels s))), lf_templates = Some (map Some (templates s))\<rparr>"

fun import_label :: "TransactionLabel option \<Rightarrow> (nat \<times> nat) \<times> tl_state \<Rightarrow> (nat \<times> nat) \<times> tl_state" where
  "import_label None ((ok, bad), s) = ((ok, Suc bad), s)"
| "import_label (Some l) ((ok, bad), s) =
     (if map_of (labels s) (l_txid l) = None
      then ((Suc ok, bad), s\<lparr>labels := AList.update (l_txid l) l (labels s)\<rparr>)
      else ((ok, Suc bad), s))"

fun import_template :: "LabelTemplate option \<Rightarrow> (nat \<times> nat) \<times> tl_state \<Rightarrow> (nat \<times> nat) \<times> tl_state" where
  "import_template None r = r"
| "import_template (Some t) ((ok, bad), s) =
     (if List.find (\<lambda>x. tp_id x = tp_id t) (templates s) = None
      then ((Suc ok, bad), s\<lparr>templates := templates s @ [t]\<rparr>)
      else ((ok, bad), s))"

text \<open>\<open>None\<close> is a text that is not JSON.\<close>

definition importLabels :: "label_file option \<Rightarrow> tl_state \<Rightarrow> (nat \<times> nat) \<times> tl_state" where
  "importLabels d s =
     (case d of
        None \<Rightarrow> ((0, 0), s)
      | Some f \<Rightarrow>
          (case fold import_template (list_of (lf_templates f)) (fold import_label (list_of (lf_labels f)) ((0, 0), s)) of
             (r, s') \<Rightarrow> (r, saveTemplates (saveLabels s'))))"

record LabelData =
  ld_txid :: string
  ld_note :: "string option"
  ld_tags :: "string list option"
  ld_category :: "string option"

text \<open>The clock of the k-th label is \<open>clk k\<close>; \<open>addLabel\<close> does not throw.\<close>

definition bulkAddLabels :: "(nat \<Rightarrow> clock) \<Rightarrow> LabelData list \<Rightarrow> tl_state \<Rightarrow> nat \<times> tl_state" where
  "bulkAddLabels clk ds s =
     (length ds, fold (\<lambda>(k, d) s. snd (addLabel (clk k) (ld_txid d) (ld_note d) (list_of (ld_tags d)) (ld_category d) s))
        (enumerate 0 ds) s)"

definition bulkDeleteLabels :: "string list \<Rightarrow> tl_state \<Rightarrow> nat \<times> tl_state" where
  "bulkDeleteLabels ts s =
     fold (\<lambda>t (n, s). case deleteLabel t s of (b, s') \<Rightarrow> (if b then Suc n else n, s')) ts (0, s)"

definition clearAllLabels :: "tl_state \<Rightarrow> tl_state" where
  "clearAllLabels s = saveLabels (s\<lparr>labels := []\<rparr>)"

datatype tl_op =
    AddLabel clock string "string option" "string list" "string option"
  | UpdateLabel clock string LabelUpdates
  | DeleteLabel string
  | ApplyTemplate clock string string
  | AddTemplate clock string TemplateData
  | UpdateTemplate string TemplateUpdates
  | DeleteTemplate string
  | ImportLabels "label_file option"
  | BulkAdd "nat \<Rightarrow> clock" "LabelData list"
  | BulkDelete "string list"
  | ClearAll

fun tl_step :: "tl_op \<Rightarrow> tl_state \<Rightarrow> tl_state" where
  "tl_step (AddLabel clk t n g c) s = snd (addLabel clk t n g c s)"
| "tl_step (UpdateLabel clk t u) s = snd (updateLabel clk t u s)"
| "tl_step (DeleteLabel t) s = snd (deleteLabel t s)"
| "tl_step (ApplyTemplate clk t i) s = snd (applyTemplate clk t i s)"
| "tl_step (AddTemplate clk r d) s = snd (addTemplate clk r d s)"
| "tl_step (UpdateTemplate i u) s = snd (updateTemplate i u s)"
| "tl_step (DeleteTemplate i) s = snd (deleteTemplate i s)"
| "tl_step (ImportLabels d) s = snd (importLabels d s)"
| "tl_step (BulkAdd clk ds) s = snd (bulkAddLabels clk ds s)"
| "tl_step (BulkDelete ts) s = snd (bulkDeleteLabels ts s)"
| "tl_step ClearAll s = clearAllLabels s"

section \<open>Storage is written through\<close>

definition tl_inv :: "tl_state \<Rightarrow> bool" where
  "tl_inv s \<longleftrightarrow> is_browser s \<and> keyed l_txid (labels s) \<and> in_sync (labels s) (labels_item s) \<and>
     templates_item s = Json (templates s)"

definition tl_reload :: "tl_state \<Rightarrow> tl_state" where
  "tl_reload s = new_Labels (is_browser s) (labels_item s) (templates_item s)"

lemma tl_inv_add: "tl_inv s \<Longrightarrow> tl_inv (snd (addLabel clk t n g c s))"
  by (auto simp: tl_inv_def addLabel_def saveLabels_def Let_def intro!: keyed_set)

lemma tl_inv_delete: "tl_inv s \<Longrightarrow> tl_inv (snd (deleteLabel t s))"
  by (auto simp: tl_inv_def deleteLabel_def saveLabels_def)

lemma fold_state_inv:
  "(\<And>x r. P (snd r) \<Longrightarrow> P (snd (f x r))) \<Longrightarrow> P (snd r) \<Longrightarrow> P (snd (fold f xs r))"
  by (induction xs arbitrary: r) auto

lemma import_keeps_wf:
  "is_browser (snd r) \<and> keyed l_txid (labels (snd r)) \<Longrightarrow>
     is_browser (snd (fold import_template ts (fold import_label ls r))) \<and>
     keyed l_txid (labels (snd (fold import_template ts (fold import_label ls r))))"
proof (rule fold_state_inv [where P = "\<lambda>s. is_browser s \<and> keyed l_txid (labels s)"])
  show "is_browser (snd (import_template x r)) \<and> keyed l_txid (labels (snd (import_template x r)))"
    if "is_browser (snd r) \<and> keyed l_txid (labels (snd r))" for x r
    using that by (cases "(x, r)" rule: import_template.cases) auto
  assume "is_browser (snd r) \<and> keyed l_txid (labels (snd r))"
  then show "is_browser (snd (fold import_label ls r)) \<and> keyed l_txid (labels (snd (fold import_label ls r)))"
  proof (rule fold_state_inv [where P = "\<lambda>s. is_browser s \<and> keyed l_txid (labels s)", rotated])
    show "is_browser (snd (import_label x r)) \<and> keyed l_txid (labels (snd (import_label x r)))"
      if "is_browser (snd r) \<and> keyed l_txid (labels (snd r))" for x r
      using that by (cases "(x, r)" rule: import_label.cases) (auto intro: keyed_set)
  qed
qed

lemma filter_same: "length (filter P xs) = length xs \<Longrightarrow> filter P xs = xs"
  by (metis filter_True length_filter_less less_irrefl)

lemma tl_step_inv:
  assumes "tl_inv s"
  shows "tl_inv (tl_step op s)"
proof (cases op)
  case (ImportLabels d)
  with assms show ?thesis
    using import_keeps_wf [of "((0, 0), s)"]
    by (auto simp: importLabels_def tl_inv_def saveLabels_def saveTemplates_def split: option.splits prod.splits)
      (metis snd_conv)+
next
  case (BulkAdd clk ds)
  have "tl_inv s \<Longrightarrow>
      tl_inv (fold (\<lambda>(k, d) s. snd (addLabel (clk k) (ld_txid d) (ld_note d) (list_of (ld_tags d)) (ld_category d) s)) es s)" for es
    by (induction es arbitrary: s) (auto simp: tl_inv_add)
  with assms BulkAdd show ?thesis by (simp add: bulkAddLabels_def)
next
  case (BulkDelete ts)
  have "tl_inv (snd (fold (\<lambda>t (n, s). case deleteLabel t s of (b, s') \<Rightarrow> (if b then Suc n else n, s')) ts (0, s)))"
    by (rule fold_state_inv [where P = tl_inv])
      (use assms tl_inv_delete in \<open>auto split: prod.splits\<close>, metis snd_conv)
  with BulkDelete show ?thesis by (simp add: bulkDeleteLabels_def)
next
  case (DeleteTemplate i)
  let ?ts = "filter (\<lambda>t. tp_id t \<noteq> i) (templates s)"
  have "length ?ts < length (templates s) \<or> ?ts = templates s"
    using filter_same length_filter_le by (metis nat_less_le)
  with assms DeleteTemplate show ?thesis
    by (auto simp: deleteTemplate_def tl_inv_def saveTemplates_def Let_def)
next
  case (UpdateLabel clk t u)
  with assms show ?thesis
    by (auto simp: updateLabel_def tl_inv_def saveLabels_def split: option.splits intro!: keyed_set dest: keyed_get)
next
  case (ApplyTemplate clk t i)
  with assms show ?thesis
    using tl_inv_add [OF assms] by (auto simp: applyTemplate_def split: option.splits prod.splits) (metis snd_conv)
qed (use assms in \<open>simp_all add: tl_inv_add tl_inv_delete\<close>,
    auto simp: addTemplate_def updateTemplate_def clearAllLabels_def tl_inv_def saveTemplates_def saveLabels_def in_sync_def Let_def
      split: option.splits)

lemma tl_reload_id: "tl_inv s \<Longrightarrow> tl_reload s = s"
  by (auto simp: tl_inv_def tl_reload_def new_Labels_def loadLabels_def loadTemplates_def in_sync_def load_values_inverse)

interpretation tl: write_through tl_step tl_reload tl_inv
  by unfold_locales (auto simp: tl_step_inv tl_reload_id)


section \<open>Importing\<close>

text \<open>What an import may do to the state: labels and templates are only added.\<close>

definition grows :: "tl_state \<Rightarrow> tl_state \<Rightarrow> bool" where
  "grows s s' \<longleftrightarrow> prefix (labels s) (labels s') \<and> prefix (templates s) (templates s')"

lemma grows_label: "grows s0 (snd r) \<Longrightarrow> grows s0 (snd (import_label x r))"
  by (cases "(x, r)" rule: import_label.cases) (auto simp: grows_def jsmap_set_fresh intro: prefix_prefix)

lemma grows_template: "grows s0 (snd r) \<Longrightarrow> grows s0 (snd (import_template x r))"
  by (cases "(x, r)" rule: import_template.cases) (auto simp: grows_def intro: prefix_prefix)

lemma import_grows: "grows s (snd (importLabels d s))"
proof (cases d)
  case (Some f)
  let ?r = "fold import_template (list_of (lf_templates f)) (fold import_label (list_of (lf_labels f)) ((0, 0), s))"
  have "grows s (snd ?r)"
    by (intro fold_state_inv [where P = "grows s"] grows_template grows_label) (simp_all add: grows_def)
  with Some show ?thesis
    by (auto simp: importLabels_def grows_def saveLabels_def saveTemplates_def split: prod.splits)
qed (simp add: importLabels_def grows_def)

lemma import_exported_labels:
  "keyed l_txid (labels s @ m) \<Longrightarrow>
     fold import_label (map Some (map snd m)) ((ok, bad), s) = ((ok + length m, bad), s\<lparr>labels := labels s @ m\<rparr>)"
proof (induction m arbitrary: s ok)
  case Nil
  then show ?case by simp
next
  case (Cons kl m)
  obtain k l where kl: "kl = (k, l)" by force
  let ?s = "s\<lparr>labels := labels s @ [(k, l)]\<rparr>"
  have k: "l_txid l = k" "map_of (labels s) k = None" using Cons.prems kl by (auto simp: keyed_def map_of_eq_None_iff)
  then have "AList.update k l (labels s) = labels s @ [(k, l)]" by (simp add: jsmap_set_fresh)
  with Cons.IH [of ?s "Suc ok"] Cons.prems kl k show ?case by simp
qed

lemma import_template_labels [simp]: "labels (snd (import_template x r)) = labels (snd r)"
  by (cases "(x, r)" rule: import_template.cases) auto

lemma import_templates_labels: "labels (snd (fold import_template ts r)) = labels (snd r)"
  by (induction ts arbitrary: r) auto

text \<open>
  An import of labels only adds. Existing labels and templates stay in place, whatever the file
  holds; and the file exported from any service restores all its labels, in order, when it is read
  into a service that has none.
\<close>

theorem label_import_adds:
  assumes "tl_inv s" and "labels t = []"
  shows "prefix (labels u) (labels (snd (importLabels d u))) \<and>
    prefix (templates u) (templates (snd (importLabels d u))) \<and>
    labels (snd (importLabels (Some (exportLabels s)) t)) = labels s"
proof -
  let ?r = "fold import_label (map Some (map snd (labels s))) ((0, 0), t)"
  have "labels (snd (fold import_template (map Some (templates s)) ?r)) = labels s"
    unfolding import_templates_labels using import_exported_labels [of t "labels s" 0 0] assms by (simp add: tl_inv_def)
  then have "labels (snd (importLabels (Some (exportLabels s)) t)) = labels s"
    by (cases "fold import_template (map Some (templates s)) ?r")
      (simp add: importLabels_def exportLabels_def list_of_def saveLabels_def saveTemplates_def)
  then show ?thesis using import_grows [of u d] by (simp add: grows_def)
qed

theorem label_import_adds_witness:
  "labels (snd (importLabels (Some (exportLabels (tl_step (AddLabel (\<lambda>_. 7) ''t1'' None [''x''] None) (new_Labels True Absent Absent))))
      (new_Labels True Absent Absent))) =
   [(''t1'', \<lparr>l_txid = ''t1'', l_note = None, l_tags = [''x''], l_category = None, l_createdAt = 7, l_updatedAt = 7\<rparr>)]"
proof -
  let ?t = "new_Labels True Absent Absent"
  have t: "tl_inv ?t" "labels ?t = []"
    by (simp_all add: new_Labels_def loadLabels_def loadTemplates_def saveTemplates_def tl_inv_def)
  have "tl_inv (tl_step (AddLabel (\<lambda>_. 7) ''t1'' None [''x''] None) ?t)" by (rule tl_step_inv [OF t(1)])
  from label_import_adds [OF this t(2), of ?t None] t show ?thesis by (simp add: addLabel_def saveLabels_def Let_def)
qed

text \<open>
  \<open>addLabel\<close> on a transaction that has a label replaces it and its creation time: applying a
  template loses the note that was there.
\<close>

lemma template_replaces_label:
  assumes "getTemplate i s = Some tp"
  shows "getLabel t (snd (applyTemplate clk t i s)) =
    Some \<lparr>l_txid = t, l_note = Some (tp_note tp), l_tags = tp_tags tp, l_category = tp_category tp,
      l_createdAt = clk 0, l_updatedAt = clk 0\<rparr>"
  using assms by (simp add: applyTemplate_def addLabel_def getLabel_def saveLabels_def Let_def)

end
