(* ===== verification/SendPages.thy ===== *)
theory SendPages
  imports WalletSpend TransactionLabels Forms
begin

text \<open>
  The pages that send (apps/web/wallet/app/wallet/send, wallet/batch-send, wallet/tx-builder and
  app/send). A page is a state that the user's actions and the answers of the services change; an
  action is possible only while the page shows it and it is not disabled. A handler that waits for
  the wallet service is cut at the call, so that the user can act in between; the answer is an event
  that carries any result.
\<close>

section \<open>The send page\<close>

datatype fee_choice = Slow | Medium | Fast

record estimates =
  est_slow :: jsnum
  est_medium :: jsnum
  est_fast :: jsnum

fun estimate :: "fee_choice \<Rightarrow> estimates \<Rightarrow> jsnum" where
  "estimate Slow e = est_slow e"
| "estimate Medium e = est_medium e"
| "estimate Fast e = est_fast e"

text \<open>The arguments of \<open>createTransaction\<close> and \<open>sendTransaction\<close>.\<close>

record send_args =
  arg_from :: string
  arg_to :: string
  arg_amount :: parsed
  arg_rate :: parsed

text \<open>What the page waits for.\<close>

datatype waiting = Idle | Creating | Sending

text \<open>
  \<open>checked\<close> and \<open>asked\<close> are not part of the page: the arguments that last passed validation with the
  balance they were checked against, and the calls of \<open>sendTransaction\<close> so far, each with what had been
  checked before it.
\<close>

record send_page =
  sp_wallets :: "WalletInfo list"
  sp_active :: "WalletInfo option"
  recipientAddress :: string
  amount_text :: string
  fee_rate :: fee_choice
  customFee :: string
  useCustomFee :: bool
  loading :: bool
  error :: "string option"
  success :: "string option"
  showConfirmation :: bool
  unsignedTx :: "UnsignedTransaction option"
  estimatedFees :: estimates
  pending :: waiting
  checked :: "(send_args \<times> jsnum) option"
  asked :: "(send_args \<times> (send_args \<times> jsnum) option) list"

definition initial_page :: send_page where
  "initial_page = \<lparr>sp_wallets = [], sp_active = None, recipientAddress = [], amount_text = [], fee_rate = Medium, customFee = [],
     useCustomFee = False, loading = False, error = None, success = None, showConfirmation = False, unsignedTx = None,
     estimatedFees = \<lparr>est_slow = 0, est_medium = 0, est_fast = 0\<rparr>, pending = Idle, checked = None, asked = []\<rparr>"

text \<open>\<open>/^KC1[a-zA-Z0-9]{6,}$/\<close> on the trimmed text.\<close>

definition letter_or_digit :: "char \<Rightarrow> bool" where
  "letter_or_digit c \<longleftrightarrow> is_digit c \<or> (97 \<le> (of_char c :: nat) \<and> (of_char c :: nat) \<le> 122) \<or> (65 \<le> (of_char c :: nat) \<and> (of_char c :: nat) \<le> 90)"

definition isLikelyKubercoinAddress :: "string \<Rightarrow> bool" where
  "isLikelyKubercoinAddress v \<longleftrightarrow>
     (let t = trim v in startsWith t ''KC1'' \<and> list_all letter_or_digit (drop 3 t) \<and> 6 \<le> length (drop 3 t))"

text \<open>The first half of \<open>loadWallets\<close> shows the wallets, the second half the active wallet with its new balance.\<close>

definition show_wallets :: "WalletInfo list \<Rightarrow> WalletInfo option \<Rightarrow> send_page \<Rightarrow> send_page" where
  "show_wallets ws act s = s\<lparr>sp_wallets := ws, sp_active := act\<rparr>"

definition show_balance :: "WalletInfo option \<Rightarrow> send_page \<Rightarrow> send_page" where
  "show_balance w s = (case w of Some w' \<Rightarrow> s\<lparr>sp_active := Some w'\<rparr> | None \<Rightarrow> s)"

definition or_default :: "jsnum option \<Rightarrow> jsnum \<Rightarrow> jsnum" where
  "or_default r d = (if truthy_num r then the r else d)"

definition loadFeeEstimates :: "js_error + (jsnum option \<times> jsnum option \<times> jsnum option) \<Rightarrow> send_page \<Rightarrow> send_page" where
  "loadFeeEstimates r s =
     s\<lparr>estimatedFees :=
       (case r of
          Inr (a, b, c) \<Rightarrow> \<lparr>est_slow = or_default a (1 / 100000), est_medium = or_default b (2 / 100000), est_fast = or_default c (5 / 100000)\<rparr>
        | Inl _ \<Rightarrow> \<lparr>est_slow = 1 / 100000, est_medium = 2 / 100000, est_fast = 5 / 100000\<rparr>)\<rparr>"

fun nan_or_negative :: "parsed \<Rightarrow> bool" where
  "nan_or_negative (Fin x) = (x < 0)"
| "nan_or_negative PosInf = False"
| "nan_or_negative NegInf = True"
| "nan_or_negative NaN = True"

text \<open>The message of the first condition that fails.\<close>

definition validateInputs :: "send_page \<Rightarrow> string option" where
  "validateInputs s =
     (case sp_active s of
        None \<Rightarrow> Some ''No active wallet selected''
      | Some w \<Rightarrow>
          if trim (recipientAddress s) = [] then Some ''Recipient address is required''
          else if \<not> isLikelyKubercoinAddress (recipientAddress s) then Some ''Invalid recipient address''
          else let amountNum = js_parseFloat (amount_text s)
               in if amountNum = NaN \<or> not_positive amountNum then Some ''Invalid amount''
                  else if exceeds amountNum (balance w) then Some (''Insufficient balance. Available: '' @ toFixed 8 (balance w) @ '' KBC'')
                  else if useCustomFee s \<and> nan_or_negative (js_parseFloat (customFee s)) then Some ''Invalid custom fee rate''
                  else None)"

definition current_args :: "WalletInfo \<Rightarrow> send_page \<Rightarrow> send_args" where
  "current_args w s =
     \<lparr>arg_from = address w, arg_to = recipientAddress s, arg_amount = js_parseFloat (amount_text s),
      arg_rate = (if useCustomFee s then js_parseFloat (customFee s) else Fin (estimate (fee_rate s) (estimatedFees s)))\<rparr>"

text \<open>\<open>handlePreviewTransaction\<close> up to the call of \<open>createTransaction\<close>, and after it.\<close>

definition preview_start :: "send_page \<Rightarrow> send_page" where
  "preview_start s =
     (let s1 = s\<lparr>error := None, success := None\<rparr>
      in case validateInputs s1 of
           Some m \<Rightarrow> s1\<lparr>error := Some m\<rparr>
         | None \<Rightarrow> (case sp_active s1 of
             Some w \<Rightarrow> s1\<lparr>loading := True, pending := Creating, checked := Some (current_args w s1, balance w)\<rparr>
           | None \<Rightarrow> s1))"

definition preview_done :: "js_error + UnsignedTransaction \<Rightarrow> send_page \<Rightarrow> send_page" where
  "preview_done r s =
     (case r of
        Inr tx \<Rightarrow> s\<lparr>unsignedTx := Some tx, showConfirmation := True, loading := False, pending := Idle\<rparr>
      | Inl e \<Rightarrow> s\<lparr>error := Some (message e), loading := False, pending := Idle\<rparr>)"

text \<open>\<open>handleSendTransaction\<close> up to the call of \<open>sendTransaction\<close>, and after it.\<close>

definition send_start :: "send_page \<Rightarrow> send_page" where
  "send_start s =
     (case (unsignedTx s, sp_active s) of
        (Some tx, Some w) \<Rightarrow> s\<lparr>loading := True, error := None, pending := Sending, asked := asked s @ [(current_args w s, checked s)]\<rparr>
      | _ \<Rightarrow> s)"

definition send_done :: "js_error + string \<Rightarrow> WalletInfo list \<Rightarrow> WalletInfo option \<Rightarrow> send_page \<Rightarrow> send_page" where
  "send_done r ws act s =
     (case r of
        Inr txid \<Rightarrow>
          show_wallets ws act
            (s\<lparr>success := Some (''Transaction sent successfully! TXID: '' @ txid), showConfirmation := False, recipientAddress := [],
               amount_text := [], unsignedTx := None, loading := False, pending := Idle\<rparr>)
      | Inl e \<Rightarrow> s\<lparr>error := Some (message e), loading := False, pending := Idle\<rparr>)"

definition handleCancel :: "send_page \<Rightarrow> send_page" where
  "handleCancel s = s\<lparr>showConfirmation := False, unsignedTx := None\<rparr>"

datatype send_event =
    WalletsLoaded "WalletInfo list" "WalletInfo option"
  | BalanceLoaded "WalletInfo option"
  | FeesLoaded "js_error + (jsnum option \<times> jsnum option \<times> jsnum option)"
  | TypeRecipient string | TypeAmount string | PressMax | PickFee fee_choice | SetCustom bool | TypeCustom string
  | Preview | Created "js_error + UnsignedTransaction"
  | Confirm | Sent "js_error + string" "WalletInfo list" "WalletInfo option" | Cancel

text \<open>\<open>show_num\<close> is how a balance prints.\<close>

fun send_page_step :: "(jsnum \<Rightarrow> string) \<Rightarrow> send_event \<Rightarrow> send_page \<Rightarrow> send_page" where
  "send_page_step show_num (WalletsLoaded ws act) s = show_wallets ws act s"
| "send_page_step show_num (BalanceLoaded w) s = show_balance w s"
| "send_page_step show_num (FeesLoaded r) s = loadFeeEstimates r s"
| "send_page_step show_num (TypeRecipient t) s = (if showConfirmation s then s else s\<lparr>recipientAddress := t\<rparr>)"
| "send_page_step show_num (TypeAmount t) s = (if showConfirmation s then s else s\<lparr>amount_text := t\<rparr>)"
| "send_page_step show_num PressMax s =
     (if showConfirmation s then s else case sp_active s of None \<Rightarrow> s | Some w \<Rightarrow> s\<lparr>amount_text := show_num (balance w)\<rparr>)"
| "send_page_step show_num (PickFee c) s = (if showConfirmation s then s else s\<lparr>fee_rate := c\<rparr>)"
| "send_page_step show_num (SetCustom b) s = (if showConfirmation s then s else s\<lparr>useCustomFee := b\<rparr>)"
| "send_page_step show_num (TypeCustom t) s = (if showConfirmation s then s else s\<lparr>customFee := t\<rparr>)"
| "send_page_step show_num Preview s = (if showConfirmation s \<or> loading s \<or> sp_active s = None then s else preview_start s)"
| "send_page_step show_num (Created r) s = (if pending s = Creating then preview_done r s else s)"
| "send_page_step show_num Confirm s = (if showConfirmation s \<and> \<not> loading s then send_start s else s)"
| "send_page_step show_num (Sent r ws act) s = (if pending s = Sending then send_done r ws act s else s)"
| "send_page_step show_num Cancel s = (if showConfirmation s \<and> \<not> loading s then handleCancel s else s)"

definition run_page :: "(jsnum \<Rightarrow> string) \<Rightarrow> send_event list \<Rightarrow> send_page \<Rightarrow> send_page" where
  "run_page show_num evs s = fold (send_page_step show_num) evs s"

subsection \<open>Shape of the page\<close>

text \<open>
  The page is loading exactly while it waits, the confirmation is shown only with a transaction, and it is open while a
  payment is under way.
\<close>

definition page_shape :: "send_page \<Rightarrow> bool" where
  "page_shape s \<longleftrightarrow>
     (loading s \<longleftrightarrow> pending s \<noteq> Idle) \<and> (showConfirmation s \<longrightarrow> unsignedTx s \<noteq> None) \<and>
     (pending s = Sending \<longrightarrow> showConfirmation s) \<and> (pending s = Creating \<longrightarrow> \<not> showConfirmation s)"

lemmas send_page_defs = show_wallets_def show_balance_def loadFeeEstimates_def preview_start_def preview_done_def send_start_def
  send_done_def handleCancel_def Let_def

lemma page_shape_step: "page_shape s \<Longrightarrow> page_shape (send_page_step show_num e s)"
  by (cases e) (auto simp: page_shape_def send_page_defs split: option.splits sum.splits)

lemma page_shape_run: "page_shape (run_page show_num evs initial_page)"
proof -
  have "page_shape s \<Longrightarrow> page_shape (run_page show_num evs s)" for s
    by (induction evs arbitrary: s) (simp_all add: run_page_def page_shape_step)
  then show ?thesis by (simp add: page_shape_def initial_page_def)
qed

subsection \<open>What is sent was checked\<close>

text \<open>Nothing that a payment depends on changes while the page creates a transaction or asks for confirmation.\<close>

fun disturbs :: "send_event \<Rightarrow> bool" where
  "disturbs (WalletsLoaded ws act) = True"
| "disturbs (BalanceLoaded w) = True"
| "disturbs (TypeRecipient t) = True"
| "disturbs (TypeAmount t) = True"
| "disturbs PressMax = True"
| "disturbs e = False"

fun quiet_run :: "(jsnum \<Rightarrow> string) \<Rightarrow> send_event list \<Rightarrow> send_page \<Rightarrow> bool" where
  "quiet_run show_num [] s = True"
| "quiet_run show_num (e # es) s =
     (((pending s = Creating \<or> showConfirmation s) \<longrightarrow> \<not> disturbs e) \<and> quiet_run show_num es (send_page_step show_num e s))"

definition sound_args :: "send_args \<times> jsnum \<Rightarrow> bool" where
  "sound_args c \<longleftrightarrow> isLikelyKubercoinAddress (arg_to (fst c)) \<and> (\<exists>x. arg_amount (fst c) = Fin x \<and> 0 < x \<and> x \<le> snd c)"

definition same_payment :: "send_args \<Rightarrow> send_args \<Rightarrow> bool" where
  "same_payment a b \<longleftrightarrow> arg_from a = arg_from b \<and> arg_to a = arg_to b \<and> arg_amount a = arg_amount b"

definition backed_call :: "send_args \<times> (send_args \<times> jsnum) option \<Rightarrow> bool" where
  "backed_call p \<longleftrightarrow> (\<exists>c. snd p = Some c \<and> sound_args c \<and> same_payment (fst p) (fst c))"

definition page_checked :: "send_page \<Rightarrow> bool" where
  "page_checked s \<longleftrightarrow>
     (pending s = Creating \<or> showConfirmation s \<longrightarrow>
        (\<exists>c w. checked s = Some c \<and> sp_active s = Some w \<and> sound_args c \<and> same_payment (current_args w s) (fst c)))"

lemma validated_sound:
  assumes "validateInputs s = None" and "sp_active s = Some w"
  shows "sound_args (current_args w s, balance w)"
  using assms by (cases "js_parseFloat (amount_text s)")
    (auto simp: validateInputs_def sound_args_def current_args_def Let_def split: if_splits)

lemma page_checked_step:
  assumes "page_shape s" and "page_checked s" and "pending s = Creating \<or> showConfirmation s \<longrightarrow> \<not> disturbs e"
  shows "page_checked (send_page_step show_num e s)"
proof (cases e)
  case Preview
  have v: "validateInputs (s\<lparr>error := None, success := None\<rparr>) = validateInputs s"
    by (cases "sp_active s") (auto simp: validateInputs_def Let_def)
  show ?thesis
  proof (cases "showConfirmation s \<or> loading s \<or> sp_active s = None")
    case True
    then show ?thesis using assms(2) Preview by simp
  next
    case False
    then obtain w where w: "sp_active s = Some w" by auto
    show ?thesis
    proof (cases "validateInputs s")
      case None
      then show ?thesis using Preview False w validated_sound [of s w] v
        by (simp add: page_checked_def preview_start_def Let_def current_args_def same_payment_def sound_args_def)
    next
      case (Some m)
      then show ?thesis using Preview False w v assms(1,2) by (auto simp: page_checked_def preview_start_def Let_def page_shape_def)
    qed
  qed
qed (use assms in \<open>auto simp: page_checked_def page_shape_def send_page_defs current_args_def same_payment_def split: option.splits sum.splits\<close>)

lemma backed_step:
  assumes "page_shape s" and "page_checked s" and "list_all backed_call (asked s)"
  shows "list_all backed_call (asked (send_page_step show_num e s))"
  using assms
  by (cases e) (auto simp: send_page_defs page_checked_def page_shape_def backed_call_def split: option.splits sum.splits)

lemma quiet_backed:
  assumes "page_shape s" and "page_checked s" and "list_all backed_call (asked s)" and "quiet_run show_num evs s"
  shows "list_all backed_call (asked (run_page show_num evs s))"
  using assms
proof (induction evs arbitrary: s)
  case (Cons e evs)
  then show ?case
    using page_shape_step [of s show_num e] page_checked_step [of s e show_num] backed_step [of s show_num e] by (simp add: run_page_def)
qed (simp add: run_page_def)

text \<open>
  C37: In every run of the send page in which neither the inputs nor the wallet change while a transaction is created or
  confirmed, each payment that the wallet service is asked for has passed validation: its sender, recipient and amount are
  those that were checked, the recipient has the form of an address, and the amount is positive and within the balance that
  was shown.
\<close>

theorem sent_was_checked:
  assumes "quiet_run show_num evs initial_page"
  shows "\<forall>(a, c) \<in> set (asked (run_page show_num evs initial_page)).
    \<exists>b bal x. c = Some (b, bal) \<and> arg_from a = arg_from b \<and> arg_to a = arg_to b \<and> arg_amount a = Fin x \<and>
      0 < x \<and> x \<le> bal \<and> isLikelyKubercoinAddress (arg_to a)"
proof -
  have "list_all backed_call (asked (run_page show_num evs initial_page))"
    by (rule quiet_backed [OF _ _ _ assms]) (simp_all add: page_shape_def page_checked_def initial_page_def)
  then show ?thesis
    by (fastforce simp: list_all_iff backed_call_def sound_args_def same_payment_def)
qed

definition demo_wallet :: WalletInfo where
  "demo_wallet = \<lparr>address = ''KC1sender'', label = ''w'', balance = 10, unconfirmedBalance = 0, privateKey = None, publicKey = None,
     createdAt = 0, watchOnly = None, xpub = None\<rparr>"

definition demo_unsigned :: UnsignedTransaction where
  "demo_unsigned = \<lparr>tx_inputs = [], tx_outputs = [], tx_fee = 0\<rparr>"

definition demo_start :: "send_event list" where
  "demo_start = [WalletsLoaded [demo_wallet] (Some demo_wallet), TypeRecipient ''KC1abcdef'', TypeAmount ''5'', Preview]"

lemma demo_likely: "isLikelyKubercoinAddress ''KC1abcdef''" "trim ''KC1abcdef'' \<noteq> []"
  by (simp_all add: isLikelyKubercoinAddress_def trim_def is_space_def startsWith_def letter_or_digit_def is_digit_def Let_def)

lemma demo_amounts_read: "js_parseFloat ''5'' = Fin 5" "js_parseFloat ''500'' = Fin 500"
  by (simp_all add: js_parseFloat_def take_sign_def is_space_def is_digit_def startsWith_def exponent_def read_nat_def digit_val_def Let_def)

lemmas demo_simps = demo_start_def run_page_def send_page_defs validateInputs_def demo_likely demo_amounts_read
  initial_page_def demo_wallet_def current_args_def

theorem sent_was_checked_witness:
  "map (arg_amount \<circ> fst) (asked (run_page (\<lambda>_. []) (demo_start @ [Created (Inr demo_unsigned), Confirm]) initial_page)) = [Fin 5] \<and>
   (\<exists>b bal x. snd (hd (asked (run_page (\<lambda>_. []) (demo_start @ [Created (Inr demo_unsigned), Confirm]) initial_page))) = Some (b, bal) \<and>
     arg_from b = arg_from (fst (hd (asked (run_page (\<lambda>_. []) (demo_start @ [Created (Inr demo_unsigned), Confirm]) initial_page)))) \<and>
     Fin x = Fin 5 \<and> 0 < x \<and> x \<le> bal)"
proof
  let ?a = "asked (run_page (\<lambda>_. []) (demo_start @ [Created (Inr demo_unsigned), Confirm]) initial_page)"
  show five: "map (arg_amount \<circ> fst) ?a = [Fin 5]" by (simp add: demo_simps)
  then have hd: "hd ?a \<in> set ?a" "arg_amount (fst (hd ?a)) = Fin 5" by auto
  have "quiet_run (\<lambda>_. []) (demo_start @ [Created (Inr demo_unsigned), Confirm]) initial_page"
    by (simp add: demo_simps)
  from bspec [OF sent_was_checked [OF this] hd(1)]
  show "\<exists>b bal x. snd (hd ?a) = Some (b, bal) \<and> arg_from b = arg_from (fst (hd ?a)) \<and> Fin x = Fin 5 \<and> 0 < x \<and> x \<le> bal"
    using hd(2) by (force simp: case_prod_unfold)
qed

text \<open>
  The inputs stay open while a transaction is created: an amount typed in that time is sent without a check, here fifty times
  the balance.
\<close>

lemma unchecked_amount_sent:
  "map (arg_amount \<circ> fst)
     (asked (run_page (\<lambda>_. []) (demo_start @ [TypeAmount ''500'', Created (Inr demo_unsigned), Confirm]) initial_page)) = [Fin 500]"
  by (simp add: demo_simps)

text \<open>The check trims the recipient, the payment does not: a recipient with white space around it is sent as it was typed.\<close>

lemma recipient_not_trimmed:
  "isLikelyKubercoinAddress '' KC1abcdef '' \<and> arg_to (current_args w (initial_page\<lparr>recipientAddress := '' KC1abcdef ''\<rparr>)) = '' KC1abcdef ''"
  by (simp add: isLikelyKubercoinAddress_def trim_def is_space_def startsWith_def letter_or_digit_def is_digit_def current_args_def Let_def)

section \<open>The batch page\<close>

record Recipient =
  rc_id :: string
  rc_address :: string
  rc_amount :: string
  rc_label :: string

text \<open>The sum of two numbers that may be infinite or not numbers.\<close>

fun parsed_add :: "parsed \<Rightarrow> parsed \<Rightarrow> parsed" where
  "parsed_add (Fin x) (Fin y) = Fin (x + y)"
| "parsed_add NaN y = NaN"
| "parsed_add x NaN = NaN"
| "parsed_add PosInf NegInf = NaN"
| "parsed_add NegInf PosInf = NaN"
| "parsed_add PosInf y = PosInf"
| "parsed_add x PosInf = PosInf"
| "parsed_add NegInf y = NegInf"
| "parsed_add x NegInf = NegInf"

definition calculateTotal :: "Recipient list \<Rightarrow> parsed" where
  "calculateTotal rs =
     foldl (\<lambda>sum r. parsed_add sum (let a = js_parseFloat (rc_amount r) in if a = NaN then Fin 0 else a)) (Fin 0) rs"

definition blank_recipient :: "string \<Rightarrow> Recipient" where
  "blank_recipient i = \<lparr>rc_id = i, rc_address = [], rc_amount = [], rc_label = []\<rparr>"

record batch_page =
  bp_active :: "WalletInfo option"
  recipients :: "Recipient list"
  bp_fee :: fee_choice
  bp_customFee :: string
  bp_useCustomFee :: bool
  bp_loading :: bool
  bp_error :: "string option"
  bp_success :: "string option"
  bp_confirm :: bool
  estimatedFee :: parsed

definition initial_batch :: batch_page where
  "initial_batch = \<lparr>bp_active = None, recipients = [blank_recipient ''1''], bp_fee = Medium, bp_customFee = ''0.00001'', bp_useCustomFee = False,
     bp_loading = False, bp_error = None, bp_success = None, bp_confirm = False, estimatedFee = Fin 0\<rparr>"

text \<open>\<open>parseInt(id) + 1\<close>; an identifier that is no number would give the text \<open>NaN\<close>.\<close>

definition next_id :: "string \<Rightarrow> string" where
  "next_id i = (case js_parseInt i of Some n \<Rightarrow> show_int (n + 1) | None \<Rightarrow> ''NaN'')"

definition addRecipient :: "batch_page \<Rightarrow> batch_page" where
  "addRecipient s = s\<lparr>recipients := recipients s @ [blank_recipient (next_id (rc_id (last (recipients s))))]\<rparr>"

definition removeRecipient :: "string \<Rightarrow> batch_page \<Rightarrow> batch_page" where
  "removeRecipient i s =
     (if length (recipients s) \<le> 1 then s\<lparr>bp_error := Some ''Must have at least one recipient''\<rparr>
      else s\<lparr>recipients := filter (\<lambda>r. rc_id r \<noteq> i) (recipients s)\<rparr>)"

text \<open>The fields that the page lets the user edit.\<close>

datatype recipient_field = AddressField | AmountField | LabelField

fun set_field :: "recipient_field \<Rightarrow> string \<Rightarrow> Recipient \<Rightarrow> Recipient" where
  "set_field AddressField v r = r\<lparr>rc_address := v\<rparr>"
| "set_field AmountField v r = r\<lparr>rc_amount := v\<rparr>"
| "set_field LabelField v r = r\<lparr>rc_label := v\<rparr>"

definition updateRecipient :: "string \<Rightarrow> recipient_field \<Rightarrow> string \<Rightarrow> batch_page \<Rightarrow> batch_page" where
  "updateRecipient i f v s = s\<lparr>recipients := map (\<lambda>r. if rc_id r = i then set_field f v r else r) (recipients s)\<rparr>"

definition recipient_problem :: "Recipient \<Rightarrow> string option" where
  "recipient_problem r =
     (if rc_address r = [] then Some (''Recipient '' @ rc_id r @ '': Address is required'')
      else let amount = js_parseFloat (rc_amount r)
           in if amount = NaN \<or> not_positive amount then Some (''Recipient '' @ rc_id r @ '': Invalid amount'') else None)"

fun first_problem :: "Recipient list \<Rightarrow> string option" where
  "first_problem [] = None"
| "first_problem (r # rs) = (case recipient_problem r of Some m \<Rightarrow> Some m | None \<Rightarrow> first_problem rs)"

definition validateBatchSend :: "batch_page \<Rightarrow> string option" where
  "validateBatchSend s =
     (case bp_active s of
        None \<Rightarrow> Some ''No active wallet selected''
      | Some w \<Rightarrow>
          if recipients s = [] then Some ''Must have at least one recipient''
          else (case first_problem (recipients s) of
            Some m \<Rightarrow> Some m
          | None \<Rightarrow>
              let totalAmount = calculateTotal (recipients s)
              in if not_positive totalAmount then Some ''Total amount must be greater than 0''
                 else if exceeds totalAmount (balance w) then Some (''Insufficient funds. You have '' @ toFixed 8 (balance w) @ '' KBC'')
                 else if bp_useCustomFee s \<and> nan_or_negative (js_parseFloat (bp_customFee s)) then Some ''Invalid custom fee rate''
                 else None))"

fun batch_rates :: "fee_choice \<Rightarrow> jsnum" where
  "batch_rates Slow = 1 / 100000"
| "batch_rates Medium = 2 / 100000"
| "batch_rates Fast = 5 / 100000"

definition batch_rate :: "batch_page \<Rightarrow> parsed" where
  "batch_rate s = (if bp_useCustomFee s then js_parseFloat (bp_customFee s) else Fin (batch_rates (bp_fee s)))"

text \<open>A positive multiple of a number.\<close>

fun scale :: "jsnum \<Rightarrow> parsed \<Rightarrow> parsed" where
  "scale k (Fin x) = Fin (x * k)"
| "scale k p = p"

definition handlePreview :: "batch_page \<Rightarrow> batch_page" where
  "handlePreview s =
     (case validateBatchSend s of
        Some m \<Rightarrow> s\<lparr>bp_error := Some m\<rparr>
      | None \<Rightarrow>
          let estimatedSize = 148 * 2 + 34 * (of_nat (length (recipients s)) + 1) + 10
          in s\<lparr>estimatedFee := scale (estimatedSize / 100000000) (batch_rate s), bp_confirm := True, bp_error := None\<rparr>)"

text \<open>What \<open>handleBatchSend\<close> asks the wallet service for.\<close>

definition batch_request :: "WalletInfo \<Rightarrow> batch_page \<Rightarrow> string \<times> (string \<times> parsed) list \<times> parsed" where
  "batch_request w s = (address w, map (\<lambda>r. (rc_address r, js_parseFloat (rc_amount r))) (recipients s), batch_rate s)"

text \<open>The labels of the recipients, after the payment.\<close>

definition label_batch :: "clock \<Rightarrow> string \<Rightarrow> Recipient list \<Rightarrow> tl_state \<Rightarrow> tl_state" where
  "label_batch clk txid rs s =
     fold (\<lambda>r s. if rc_label r \<noteq> []
       then snd (addLabel clk txid (Some (''Batch send to '' @ rc_label r)) [''batch-send'', ''outgoing''] (Some ''batch'') s) else s) rs s"

definition batch_done :: "clock \<Rightarrow> js_error + string \<Rightarrow> batch_page \<times> tl_state \<Rightarrow> batch_page \<times> tl_state" where
  "batch_done clk r st =
     (case st of (s, l) \<Rightarrow>
        (case r of
           Inr txid \<Rightarrow>
             (s\<lparr>bp_success := Some (''Batch transaction sent successfully! Transaction ID: '' @ txid), bp_confirm := False,
                recipients := [blank_recipient ''1''], bp_loading := False\<rparr>, label_batch clk txid (recipients s) l)
         | Inl e \<Rightarrow> (s\<lparr>bp_error := Some (message e), bp_confirm := False, bp_loading := False\<rparr>, l)))"

datatype batch_op = AddRecipient | RemoveRecipient string | UpdateRecipient string recipient_field string | PreviewBatch | BatchDone "js_error + string"

fun batch_step :: "batch_op \<Rightarrow> batch_page \<Rightarrow> batch_page" where
  "batch_step AddRecipient s = addRecipient s"
| "batch_step (RemoveRecipient i) s = removeRecipient i s"
| "batch_step (UpdateRecipient i f v) s = updateRecipient i f v s"
| "batch_step PreviewBatch s = handlePreview s"
| "batch_step (BatchDone r) s = fst (batch_done (\<lambda>_. 0) r (s, \<lparr>labels = [], templates = [], labels_item = Absent, templates_item = Absent, is_browser = True\<rparr>))"

subsection \<open>Identifiers\<close>

text \<open>The identifiers are printed numbers in ascending order; so each names one recipient.\<close>

definition ids_ascend :: "batch_page \<Rightarrow> bool" where
  "ids_ascend s \<longleftrightarrow> (\<exists>ns. map rc_id (recipients s) = map show_nat ns \<and> sorted_wrt (<) ns \<and> ns \<noteq> [])"

lemma next_id_show: "next_id (show_nat n) = show_nat (Suc n)"
  by (simp add: next_id_def js_parseInt_show show_int_def)

lemma set_field_id [simp]: "rc_id (set_field f v r) = rc_id r"
  by (cases f) auto

lemma ids_ascend_add: "ids_ascend s \<Longrightarrow> ids_ascend (addRecipient s)"
proof -
  assume "ids_ascend s"
  then obtain ns where ns: "map rc_id (recipients s) = map show_nat ns" "sorted_wrt (<) ns" "ns \<noteq> []" by (auto simp: ids_ascend_def)
  then have "recipients s \<noteq> []" by auto
  then have "rc_id (last (recipients s)) = show_nat (last ns)" using ns by (metis last_map)
  then have "map rc_id (recipients (addRecipient s)) = map show_nat (ns @ [Suc (last ns)])"
    using ns(1) by (simp add: addRecipient_def blank_recipient_def next_id_show)
  moreover have "n \<le> last ns" if "n \<in> set ns" for n
    using that ns(2,3) by (induction ns) (auto simp: less_imp_le split: if_splits)
  then have "sorted_wrt (<) (ns @ [Suc (last ns)])" using ns(2) by (auto simp: sorted_wrt_append less_Suc_eq_le)
  ultimately show ?thesis unfolding ids_ascend_def by blast
qed

lemma filter_ids:
  "map rc_id rs = map show_nat ns \<Longrightarrow>
   map rc_id (filter (\<lambda>r. rc_id r \<noteq> i) rs) = map show_nat (filter (\<lambda>n. show_nat n \<noteq> i) ns)"
proof (induction rs arbitrary: ns)
  case (Cons r rs)
  then show ?case by (cases ns) auto
qed simp

lemma ids_ascend_remove: "ids_ascend s \<Longrightarrow> ids_ascend (removeRecipient i s)"
proof -
  assume "ids_ascend s"
  then obtain ns where ns: "map rc_id (recipients s) = map show_nat ns" "sorted_wrt (<) ns" "ns \<noteq> []" by (auto simp: ids_ascend_def)
  show ?thesis
  proof (cases "length (recipients s) \<le> 1")
    case True
    then show ?thesis using ns by (auto simp: removeRecipient_def ids_ascend_def)
  next
    case False
    have len: "length ns = length (recipients s)" using ns(1) by (metis length_map)
    then obtain a b t where abt: "ns = a # b # t" using False by (cases ns; cases "tl ns") auto
    then have "a < b" using ns(2) by simp
    then have "show_nat a \<noteq> i \<or> show_nat b \<noteq> i" by auto
    then have "filter (\<lambda>n. show_nat n \<noteq> i) ns \<noteq> []" using abt by auto
    then show ?thesis
      using False filter_ids [OF ns(1), of i] ns(2) sorted_wrt_filter [of "(<)" ns "\<lambda>n. show_nat n \<noteq> i"]
      by (auto simp: removeRecipient_def ids_ascend_def)
  qed
qed

lemma ids_ascend_update: "ids_ascend s \<Longrightarrow> ids_ascend (updateRecipient i f v s)"
proof -
  have "map rc_id (recipients (updateRecipient i f v s)) = map rc_id (recipients s)" by (simp add: updateRecipient_def)
  then show "ids_ascend s \<Longrightarrow> ids_ascend (updateRecipient i f v s)" by (simp add: ids_ascend_def)
qed

lemma ids_ascend_blank: "recipients s = [blank_recipient ''1''] \<Longrightarrow> ids_ascend s"
proof -
  have "show_nat 1 = ''1''" by code_simp
  then show "recipients s = [blank_recipient ''1''] \<Longrightarrow> ids_ascend s"
    unfolding ids_ascend_def by (intro exI [of _ "[1]"]) (simp add: blank_recipient_def)
qed

lemma ids_ascend_same: "recipients t = recipients s \<Longrightarrow> ids_ascend s \<Longrightarrow> ids_ascend t"
  by (simp add: ids_ascend_def)

lemma ids_ascend_step: "ids_ascend s \<Longrightarrow> ids_ascend (batch_step op s)"
proof (cases op)
  case PreviewBatch
  then show "ids_ascend s \<Longrightarrow> ?thesis"
    by (auto simp: handlePreview_def Let_def split: option.split intro: ids_ascend_same [rotated])
next
  case (BatchDone r)
  then show "ids_ascend s \<Longrightarrow> ?thesis"
    by (cases r) (auto simp: batch_done_def intro: ids_ascend_blank ids_ascend_same [rotated])
qed (simp_all add: ids_ascend_add ids_ascend_remove ids_ascend_update)

lemma recipient_ids_distinct: "distinct (map rc_id (recipients (fold batch_step ops initial_batch)))"
proof -
  have "ids_ascend (fold batch_step ops s)" if "ids_ascend s" for s
    using that by (induction ops arbitrary: s) (simp_all add: ids_ascend_step)
  then have "ids_ascend (fold batch_step ops initial_batch)" by (simp add: ids_ascend_blank initial_batch_def)
  then obtain ns where "map rc_id (recipients (fold batch_step ops initial_batch)) = map show_nat ns" "sorted_wrt (<) ns"
    by (auto simp: ids_ascend_def)
  then show ?thesis by (simp add: distinct_map inj_on_def strict_sorted_iff)
qed

subsection \<open>Checks and labels\<close>

lemma first_problem_None: "first_problem rs = None \<longleftrightarrow> (\<forall>r \<in> set rs. recipient_problem r = None)"
  by (induction rs) (auto split: option.split)

text \<open>A batch that passes has only positive amounts, each to some address; whether it is one is left to the wallet service.\<close>

lemma validated_batch:
  "validateBatchSend s = None \<Longrightarrow> bp_active s = Some w \<Longrightarrow>
   (\<forall>(a, x) \<in> set (fst (snd (batch_request w s))). a \<noteq> [] \<and> x \<noteq> NaN \<and> \<not> not_positive x) \<and> \<not> exceeds (calculateTotal (recipients s)) (balance w)"
  by (auto simp: validateBatchSend_def first_problem_None recipient_problem_def batch_request_def Let_def split: option.splits if_splits)

text \<open>The labels of a batch are filed under one transaction: only the last one is kept.\<close>

lemma only_last_label:
  "rc_label r \<noteq> [] \<Longrightarrow> map_option l_note (map_of (labels (label_batch clk txid (rs @ [r]) s)) txid) = Some (Some (''Batch send to '' @ rc_label r))"
  by (simp add: label_batch_def addLabel_def saveLabels_def Let_def)

section \<open>The transaction builder\<close>

record TxOutput =
  o_id :: string
  o_address :: string
  o_amount :: jsnum

record builder =
  outputs :: "TxOutput list"
  b_feeRate :: string
  enableRBF :: bool
  selectedUTXOs :: "(string \<times> nat \<times> jsnum) list"
  customFeeRate :: string
  lockTime :: string

definition new_builder :: "string \<Rightarrow> builder" where
  "new_builder i = \<lparr>outputs = [\<lparr>o_id = i, o_address = [], o_amount = 0\<rparr>], b_feeRate = ''medium'', enableRBF = True, selectedUTXOs = [],
     customFeeRate = ''10'', lockTime = ''0''\<rparr>"

definition addOutput :: "string \<Rightarrow> builder \<Rightarrow> builder" where
  "addOutput i s = s\<lparr>outputs := outputs s @ [\<lparr>o_id = i, o_address = [], o_amount = 0\<rparr>]\<rparr>"

definition removeOutput :: "string \<Rightarrow> builder \<Rightarrow> builder" where
  "removeOutput i s = s\<lparr>outputs := filter (\<lambda>x. o_id x \<noteq> i) (outputs s)\<rparr>"

datatype output_change = SetAddress string | SetAmount jsnum

fun change_output :: "output_change \<Rightarrow> TxOutput \<Rightarrow> TxOutput" where
  "change_output (SetAddress a) x = x\<lparr>o_address := a\<rparr>"
| "change_output (SetAmount v) x = x\<lparr>o_amount := v\<rparr>"

definition updateOutput :: "string \<Rightarrow> output_change \<Rightarrow> builder \<Rightarrow> builder" where
  "updateOutput i c s = s\<lparr>outputs := map (\<lambda>x. if o_id x = i then change_output c x else x) (outputs s)\<rparr>"

definition builder_total :: "builder \<Rightarrow> jsnum" where
  "builder_total s = sum_by o_amount (outputs s)"

text \<open>The cost of each choice is fixed; the custom rate does not change it.\<close>

definition fee_costs :: "string \<Rightarrow> jsnum option" where
  "fee_costs k = map_of [(''slow'', 1 / 100000), (''medium'', 2 / 100000), (''fast'', 4 / 100000), (''custom'', 2 / 100000)] k"

definition builder_fee :: "builder \<Rightarrow> jsnum option" where
  "builder_fee s = fee_costs (b_feeRate s)"

record built_tx =
  bt_lockTime :: int
  bt_inputs :: "(string \<times> nat \<times> nat) list"
  bt_outputs :: "(string \<times> jsnum) list"
  bt_fee :: "jsnum option"

definition buildTransaction :: "builder \<Rightarrow> built_tx" where
  "buildTransaction s =
     \<lparr>bt_lockTime = (case js_parseInt (lockTime s) of Some n \<Rightarrow> n | None \<Rightarrow> 0),
      bt_inputs = map (\<lambda>(t, v, _). (t, v, if enableRBF s then 4294967293 else 4294967295)) (selectedUTXOs s),
      bt_outputs = map (\<lambda>x. (o_address x, o_amount x)) (outputs s), bt_fee = builder_fee s\<rparr>"

datatype builder_op = AddOutput string | RemoveOutput string | UpdateOutput string output_change | SetFee string | SetRBF bool | SetLock string | SetRate string

fun builder_step :: "builder_op \<Rightarrow> builder \<Rightarrow> builder" where
  "builder_step (AddOutput i) s = addOutput i s"
| "builder_step (RemoveOutput i) s = removeOutput i s"
| "builder_step (UpdateOutput i c) s = updateOutput i c s"
| "builder_step (SetFee k) s = s\<lparr>b_feeRate := k\<rparr>"
| "builder_step (SetRBF b) s = s\<lparr>enableRBF := b\<rparr>"
| "builder_step (SetLock t) s = s\<lparr>lockTime := t\<rparr>"
| "builder_step (SetRate t) s = s\<lparr>customFeeRate := t\<rparr>"

text \<open>There is no way to select coins: whatever the user does, the transaction that is built has no inputs.\<close>

lemma built_without_inputs: "bt_inputs (buildTransaction (fold builder_step ops (new_builder i))) = []"
proof -
  have "selectedUTXOs (fold builder_step ops s) = selectedUTXOs s" for s
  proof (induction ops arbitrary: s)
    case (Cons op ops)
    then show ?case by (cases op) (simp_all add: addOutput_def removeOutput_def updateOutput_def)
  qed simp
  then show ?thesis by (simp add: buildTransaction_def new_builder_def)
qed

section \<open>The simulated send page\<close>

text \<open>This page reports success for every valid input two seconds later; no service is asked.\<close>

record demo_page =
  dp_recipient :: string
  dp_amount :: string
  dp_fee :: string
  dp_memo :: string
  dp_errors :: "string option \<times> string option"
  dp_loading :: bool
  dp_success :: bool
  dp_message :: bool
  dp_timers :: "bool list"

definition demo_balance :: jsnum where
  "demo_balance = 12847.5"

text \<open>\<open>dp_timers\<close>: the timers that are set, \<open>False\<close> for the two seconds of the simulated call and \<open>True\<close> for the three seconds after it.\<close>

definition handleSend :: "(jsnum \<Rightarrow> string) \<Rightarrow> demo_page \<Rightarrow> demo_page" where
  "handleSend show_num s =
     (let e1 = v_error (Forms.validateAddress (dp_recipient s)); e2 = v_error (validateAmount show_num (dp_amount s) (Some demo_balance))
      in if e1 \<noteq> None \<or> e2 \<noteq> None then s\<lparr>dp_errors := (e1, e2)\<rparr>
         else s\<lparr>dp_errors := (None, None), dp_loading := True, dp_success := False, dp_message := False, dp_timers := dp_timers s @ [False]\<rparr>)"

definition call_simulated :: "demo_page \<Rightarrow> demo_page" where
  "call_simulated s = s\<lparr>dp_loading := False, dp_success := True, dp_message := True, dp_timers := remove1 False (dp_timers s) @ [True]\<rparr>"

definition message_over :: "demo_page \<Rightarrow> demo_page" where
  "message_over s = s\<lparr>dp_recipient := [], dp_amount := [], dp_memo := [], dp_fee := ''standard'', dp_message := False, dp_timers := remove1 True (dp_timers s)\<rparr>"

end
