(* ===== verification/AddressBook.thy ===== *)
theory AddressBook
  imports JsStore "HOL-Library.Char_ord" "HOL-Library.List_Lexorder"
begin

text \<open>
  The address book (services/addressBook.ts): contacts in a \<open>Map\<close>, stored as an object from
  identifiers to contacts, with search, usage counters, export and import; and the address filter
  (services/addressFilter.ts): black and white lists and the test of an address against them.
  Identifiers are not numerals, so the stored object keeps the order of insertion.
\<close>

section \<open>Contacts\<close>

record Contact =
  c_id :: string
  c_name :: string
  c_address :: string
  c_label :: "string option"
  c_tags :: "string list"
  c_notes :: "string option"
  favorite :: bool
  c_createdAt :: int
  lastUsed :: "int option"
  useCount :: int

text \<open>
  \<open>Partial<Omit<Contact, 'id' | 'createdAt' | 'useCount'>>\<close>; \<open>Some None\<close> is a key present with
  the value \<open>undefined\<close>.
\<close>

record ContactUpdates =
  up_name :: "string option"
  up_address :: "string option"
  up_label :: "string option option"
  up_tags :: "string list option"
  up_notes :: "string option option"
  up_favorite :: "bool option"
  up_lastUsed :: "int option option"

record ab_state =
  contacts :: "(string, Contact) jsmap"
  book_item :: "(string \<times> Contact) list item"
  is_browser :: bool

definition loadContacts :: "ab_state \<Rightarrow> ab_state" where
  "loadContacts s =
     (if \<not> is_browser s then s
      else case book_item s of Json es \<Rightarrow> s\<lparr>contacts := new_Map es\<rparr> | _ \<Rightarrow> s)"

definition new_AddressBook :: "bool \<Rightarrow> (string \<times> Contact) list item \<Rightarrow> ab_state" where
  "new_AddressBook browser i = loadContacts \<lparr>contacts = [], book_item = i, is_browser = browser\<rparr>"

definition saveContacts :: "ab_state \<Rightarrow> ab_state" where
  "saveContacts s = (if \<not> is_browser s then s else s\<lparr>book_item := Json (contacts s)\<rparr>)"

definition generateId :: "clock \<Rightarrow> string \<Rightarrow> string" where
  "generateId clk rnd = ''contact_'' @ show_int (clk 0) @ ''_'' @ rnd"

definition getAllContacts :: "ab_state \<Rightarrow> Contact list" where
  "getAllContacts s = map snd (contacts s)"

definition getContact :: "string \<Rightarrow> ab_state \<Rightarrow> Contact option" where
  "getContact i s = map_of (contacts s) i"

definition getContactByAddress :: "string \<Rightarrow> ab_state \<Rightarrow> Contact option" where
  "getContactByAddress a s = List.find (\<lambda>c. c_address c = a) (getAllContacts s)"

definition addContact ::
    "clock \<Rightarrow> string \<Rightarrow> string \<Rightarrow> string \<Rightarrow> string option \<Rightarrow> string list \<Rightarrow> string option \<Rightarrow> (ab_state, Contact) eff" where
  "addContact clk rnd name addr lbl tags notes s =
     (if getContactByAddress addr s \<noteq> None
      then (Inl (Error ''This address is already in your address book''), s)
      else
        let c = \<lparr>c_id = generateId clk rnd, c_name = name, c_address = addr, c_label = lbl, c_tags = tags,
              c_notes = notes, favorite = False, c_createdAt = clk 1, lastUsed = None, useCount = 0\<rparr>
        in (Inr c, saveContacts (s\<lparr>contacts := AList.update (c_id c) c (contacts s)\<rparr>)))"

definition spread_updates :: "ContactUpdates \<Rightarrow> Contact \<Rightarrow> Contact" where
  "spread_updates u c =
     c\<lparr>c_name := or_keep (up_name u) (c_name c), c_address := or_keep (up_address u) (c_address c),
       c_label := or_keep (up_label u) (c_label c), c_tags := or_keep (up_tags u) (c_tags c),
       c_notes := or_keep (up_notes u) (c_notes c), favorite := or_keep (up_favorite u) (favorite c),
       lastUsed := or_keep (up_lastUsed u) (lastUsed c)\<rparr>"

definition updateContact :: "string \<Rightarrow> ContactUpdates \<Rightarrow> ab_state \<Rightarrow> Contact option \<times> ab_state" where
  "updateContact i u s =
     (case map_of (contacts s) i of
        None \<Rightarrow> (None, s)
      | Some c \<Rightarrow>
          let c' = spread_updates u c
          in (Some c', saveContacts (s\<lparr>contacts := AList.update i c' (contacts s)\<rparr>)))"

definition deleteContact :: "string \<Rightarrow> ab_state \<Rightarrow> bool \<times> ab_state" where
  "deleteContact i s =
     (if map_of (contacts s) i = None then (False, s)
      else (True, saveContacts (s\<lparr>contacts := AList.delete i (contacts s)\<rparr>)))"

definition getFavorites :: "ab_state \<Rightarrow> Contact list" where
  "getFavorites s = filter favorite (getAllContacts s)"

text \<open>A missing or zero time of use is falsy; a limit is not negative.\<close>

definition getRecentlyUsed :: "nat \<Rightarrow> ab_state \<Rightarrow> Contact list" where
  "getRecentlyUsed limit s =
     take limit (sort_desc (\<lambda>c. the (lastUsed c))
       (filter (\<lambda>c. lastUsed c \<noteq> None \<and> lastUsed c \<noteq> Some 0) (getAllContacts s)))"

definition getFrequentlyUsed :: "nat \<Rightarrow> ab_state \<Rightarrow> Contact list" where
  "getFrequentlyUsed limit s = take limit (sort_desc useCount (getAllContacts s))"

text \<open>\<open>x?.toLowerCase().includes(q)\<close> of an optional text.\<close>

definition text_includes :: "string option \<Rightarrow> string \<Rightarrow> bool" where
  "text_includes x q = (case x of None \<Rightarrow> False | Some t \<Rightarrow> str_includes (toLowerCase t) q)"

definition contact_matches :: "string \<Rightarrow> Contact \<Rightarrow> bool" where
  "contact_matches q c \<longleftrightarrow>
     str_includes (toLowerCase (c_name c)) q \<or> str_includes (toLowerCase (c_address c)) q \<or>
     text_includes (c_label c) q \<or> list_ex (\<lambda>t. str_includes (toLowerCase t) q) (c_tags c) \<or>
     text_includes (c_notes c) q"

definition searchContacts :: "string \<Rightarrow> ab_state \<Rightarrow> Contact list" where
  "searchContacts q s = filter (contact_matches (toLowerCase q)) (getAllContacts s)"

definition getContactsByTag :: "string \<Rightarrow> ab_state \<Rightarrow> Contact list" where
  "getContactsByTag t s = filter (\<lambda>c. t \<in> set (c_tags c)) (getAllContacts s)"

definition toggleFavorite :: "string \<Rightarrow> ab_state \<Rightarrow> bool \<times> ab_state" where
  "toggleFavorite i s =
     (case map_of (contacts s) i of
        None \<Rightarrow> (False, s)
      | Some c \<Rightarrow>
          let c' = c\<lparr>favorite := \<not> favorite c\<rparr>
          in (favorite c', saveContacts (s\<lparr>contacts := AList.update i c' (contacts s)\<rparr>)))"

text \<open>
  The object found is changed where it stands, and then set under its own identifier.
\<close>

definition recordUsage :: "clock \<Rightarrow> string \<Rightarrow> ab_state \<Rightarrow> ab_state" where
  "recordUsage clk a s =
     (case List.find (\<lambda>(k, c). c_address c = a) (contacts s) of
        None \<Rightarrow> s
      | Some (k, c) \<Rightarrow>
          let c' = c\<lparr>lastUsed := Some (clk 0), useCount := useCount c + 1\<rparr>
          in saveContacts (s\<lparr>contacts := AList.update (c_id c') c' (AList.update k c' (contacts s))\<rparr>))"

definition getAllTags :: "ab_state \<Rightarrow> string list" where
  "getAllTags s = sort (remdups (concat (map c_tags (getAllContacts s))))"

text \<open>The exported text is the JSON array of the contacts; the model returns the array.\<close>

definition exportAddressBook :: "ab_state \<Rightarrow> Contact list" where
  "exportAddressBook s = map snd (contacts s)"

text \<open>
  The imported text: \<open>None\<close> is a text that is not a JSON array, an element \<open>None\<close> is
  \<open>null\<close>, on which reading the address throws.
\<close>

fun import_loop :: "Contact option list \<Rightarrow> nat \<times> nat \<Rightarrow> ab_state \<Rightarrow> (nat \<times> nat) \<times> ab_state" where
  "import_loop [] (ok, bad) s = ((ok, bad), s)"
| "import_loop (None # es) (ok, bad) s = import_loop es (ok, Suc bad) s"
| "import_loop (Some c # es) (ok, bad) s =
     (if getContactByAddress (c_address c) s \<noteq> None then import_loop es (ok, Suc bad) s
      else import_loop es (Suc ok, bad) (s\<lparr>contacts := AList.update (c_id c) c (contacts s)\<rparr>))"

definition importAddressBook :: "Contact option list option \<Rightarrow> (ab_state, nat \<times> nat) eff" where
  "importAddressBook d s =
     (case d of
        None \<Rightarrow> (Inl (Error ''Invalid address book data''), s)
      | Some es \<Rightarrow> (case import_loop es (0, 0) s of (r, s') \<Rightarrow> (Inr r, saveContacts s')))"

datatype ab_op =
    Add clock string string string "string option" "string list" "string option"
  | Update string ContactUpdates
  | Delete string
  | Toggle string
  | Use clock string
  | Import "Contact option list option"

fun ab_step :: "ab_op \<Rightarrow> ab_state \<Rightarrow> ab_state" where
  "ab_step (Add clk rnd n a l t o') s = snd (addContact clk rnd n a l t o' s)"
| "ab_step (Update i u) s = snd (updateContact i u s)"
| "ab_step (Delete i) s = snd (deleteContact i s)"
| "ab_step (Toggle i) s = snd (toggleFavorite i s)"
| "ab_step (Use clk a) s = recordUsage clk a s"
| "ab_step (Import d) s = snd (importAddressBook d s)"

section \<open>Storage is written through\<close>

definition ab_inv :: "ab_state \<Rightarrow> bool" where
  "ab_inv s \<longleftrightarrow> is_browser s \<and> keyed c_id (contacts s) \<and>
     (book_item s = Json (contacts s) \<or> (contacts s = [] \<and> book_item s = Absent))"

definition ab_reload :: "ab_state \<Rightarrow> ab_state" where
  "ab_reload s = new_AddressBook (is_browser s) (book_item s)"

lemma ab_inv_save: "is_browser s \<Longrightarrow> keyed c_id (contacts s) \<Longrightarrow> ab_inv (saveContacts s)"
  by (simp add: ab_inv_def saveContacts_def)

lemma import_loop_keyed:
  "keyed c_id (contacts s) \<Longrightarrow> keyed c_id (contacts (snd (import_loop es r s))) \<and>
     is_browser (snd (import_loop es r s)) = is_browser s"
  by (induction es r s rule: import_loop.induct) (auto intro: keyed_set)

lemma ab_step_inv: "ab_inv s \<Longrightarrow> ab_inv (ab_step op s)"
proof (cases op)
  case (Import d)
  then show "ab_inv s \<Longrightarrow> ab_inv (ab_step op s)"
    using import_loop_keyed [of s _ "(0, 0)"]
    by (auto simp: importAddressBook_def ab_inv_def saveContacts_def split: option.splits prod.splits) (metis snd_conv)+
next
  case (Use clk a)
  assume s: "ab_inv s"
  show ?thesis
  proof (cases "List.find (\<lambda>(k, c). c_address c = a) (contacts s)")
    case (Some kc)
    then have "kc \<in> set (contacts s)" using find_SomeD by fastforce
    with s have "c_id (snd kc) = fst kc" by (auto simp: ab_inv_def keyed_def)
    with s Some Use show ?thesis
      by (auto simp: recordUsage_def ab_inv_def Let_def case_prod_beta intro!: ab_inv_save [unfolded ab_inv_def] keyed_set)
  qed (use s Use in \<open>simp add: recordUsage_def\<close>)
qed (auto simp: addContact_def updateContact_def deleteContact_def toggleFavorite_def spread_updates_def ab_inv_def
    saveContacts_def Let_def split: option.splits intro!: keyed_set keyed_delete dest: keyed_get)

lemma ab_reload_id: "ab_inv s \<Longrightarrow> ab_reload s = s"
  by (auto simp: ab_inv_def ab_reload_def new_AddressBook_def loadContacts_def new_Map_distinct dest: keyed_distinct)

interpretation ab: write_through ab_step ab_reload ab_inv
  by unfold_locales (auto simp: ab_step_inv ab_reload_id)

section \<open>Export and import\<close>

definition one_address_each :: "ab_state \<Rightarrow> bool" where
  "one_address_each s \<longleftrightarrow> distinct (map c_address (getAllContacts s))"

lemma unknown_address: "getContactByAddress a s = None \<longleftrightarrow> a \<notin> set (map c_address (map snd (contacts s)))"
  by (auto simp: getContactByAddress_def getAllContacts_def find_None_iff)

lemma import_loop_fresh:
  assumes "keyed c_id (contacts s @ m)" and "distinct (map c_address (map snd (contacts s @ m)))"
  shows "import_loop (map Some (map snd m)) (ok, bad) s = ((ok + length m, bad), s\<lparr>contacts := contacts s @ m\<rparr>)"
  using assms
proof (induction m arbitrary: s ok)
  case Nil
  then show ?case by simp
next
  case (Cons kc m)
  obtain k c where kc: "kc = (k, c)" by force
  let ?s = "s\<lparr>contacts := contacts s @ [(k, c)]\<rparr>"
  have "getContactByAddress (c_address c) s = None"
    using Cons.prems(2) kc unfolding unknown_address by auto
  moreover have "AList.update (c_id c) c (contacts s) = contacts s @ [(k, c)]"
    using Cons.prems(1) kc by (auto simp: keyed_def map_of_eq_None_iff intro!: jsmap_set_fresh)
  ultimately show ?case using Cons.IH [of ?s "Suc ok"] Cons.prems kc by simp
qed


definition empty_book :: ab_state where
  "empty_book = new_AddressBook True Absent"

definition demo_entry :: Contact where
  "demo_entry = \<lparr>c_id = ''c1'', c_name = ''Ann'', c_address = ''KC1'', c_label = None, c_tags = [''x''],
     c_notes = None, favorite = True, c_createdAt = 3, lastUsed = Some 4, useCount = 2\<rparr>"

lemma empty_book_simps [simp]: "contacts empty_book = []" "book_item empty_book = Absent" "is_browser empty_book"
  by (simp_all add: empty_book_def new_AddressBook_def loadContacts_def)

text \<open>
  Exporting an address book in which no address occurs twice and importing it into an empty
  one gives the same contacts in the same order, in memory and in storage, with nothing counted as
  failed.
\<close>

theorem book_roundtrip:
  assumes "ab_inv s" and "one_address_each s"
  shows "\<exists>t. importAddressBook (Some (map Some (exportAddressBook s))) empty_book =
      (Inr (length (contacts s), 0), t) \<and> contacts t = contacts s \<and> book_item t = Json (contacts s)"
  using import_loop_fresh [of empty_book "contacts s" 0 0] assms
  by (simp add: importAddressBook_def exportAddressBook_def one_address_each_def getAllContacts_def ab_inv_def
      saveContacts_def)

theorem book_roundtrip_witness:
  "\<exists>t. importAddressBook (Some (map Some (exportAddressBook (empty_book\<lparr>contacts := [(''c1'', demo_entry)],
         book_item := Json [(''c1'', demo_entry)]\<rparr>)))) empty_book = (Inr (1, 0), t) \<and>
     contacts t = [(''c1'', demo_entry)] \<and> book_item t = Json [(''c1'', demo_entry)]"
  using book_roundtrip [of "empty_book\<lparr>contacts := [(''c1'', demo_entry)], book_item := Json [(''c1'', demo_entry)]\<rparr>"]
  by (simp add: ab_inv_def keyed_def demo_entry_def one_address_each_def getAllContacts_def)

section \<open>One contact per address\<close>

lemma import_loop_addresses:
  "one_address_each s \<Longrightarrow> one_address_each (snd (import_loop es r s))"
proof (induction es r s rule: import_loop.induct)
  case (3 c es ok bad s)
  show ?case
  proof (cases "getContactByAddress (c_address c) s = None")
    case True
    with 3 show ?thesis
      using jsmap_set_distinct [of c_address "contacts s" c "c_id c"] True [unfolded unknown_address]
      by (simp add: one_address_each_def getAllContacts_def)
  qed (use 3 in simp)
qed simp_all

text \<open>
  Every operation but \<open>updateContact\<close> keeps at most one contact per address: adding and importing
  refuse an address that is known, and the rest leave the addresses alone.
\<close>

lemma addresses_stay_unique:
  assumes "ab_inv s" and "one_address_each s" and "\<And>i u. op \<noteq> Update i u"
  shows "one_address_each (ab_step op s)"
proof (cases op)
  case (Add clk rnd n a l t o')
  show ?thesis
  proof (cases "getContactByAddress a s = None")
    case True
    have "distinct (map c_address (map snd (AList.update k c (contacts s))))" if "c_address c = a" for k c
      using assms(2) True [unfolded unknown_address] that
      by (intro jsmap_set_distinct) (simp_all add: one_address_each_def getAllContacts_def)
    with Add True show ?thesis
      by (simp add: addContact_def Let_def saveContacts_def one_address_each_def getAllContacts_def)
  qed (use assms Add in \<open>simp add: addContact_def\<close>)
next
  case (Delete i)
  with assms(2) show ?thesis
    using jsmap_delete_distinct [of c_address "contacts s" i]
    by (simp add: deleteContact_def saveContacts_def one_address_each_def getAllContacts_def)
next
  case (Toggle i)
  with assms(2) show ?thesis
    by (auto simp: toggleFavorite_def Let_def saveContacts_def one_address_each_def getAllContacts_def
        jsmap_set_project [simplified] split: option.splits)
next
  case (Use clk a)
  show ?thesis
  proof (cases "List.find (\<lambda>(k, c). c_address c = a) (contacts s)")
    case (Some kc)
    obtain k c where kc: "kc = (k, c)" by force
    have "(k, c) \<in> set (contacts s)" using find_SomeD [OF Some] kc by simp
    with assms(1) have "map_of (contacts s) k = Some c" "c_id c = k"
      by (auto simp: ab_inv_def keyed_def intro: map_of_is_SomeI)
    with assms(2) Use Some kc show ?thesis
      by (simp add: recordUsage_def Let_def saveContacts_def one_address_each_def getAllContacts_def
          jsmap_set_project [simplified])
  qed (use assms Use in \<open>simp add: recordUsage_def\<close>)
next
  case (Import d)
  show ?thesis
  proof (cases d)
    case (Some es)
    then show ?thesis
      using import_loop_addresses [OF assms(2), of es "(0, 0)"] Import
      by (cases "import_loop es (0, 0) s")
        (simp add: importAddressBook_def saveContacts_def one_address_each_def getAllContacts_def)
  qed (use assms Import in \<open>simp add: importAddressBook_def\<close>)
qed (use assms in auto)

text \<open>
  \<open>updateContact\<close> does not look for the new address: it makes two contacts with one address out
  of two with different ones.
\<close>

lemma update_duplicates_address:
  assumes "map_of (contacts s) i = Some c" and "map_of (contacts s) j = Some d" and "i \<noteq> j"
  shows "\<exists>u c'. fst (updateContact i u s) = Some c' \<and> c_address c' = c_address d \<and>
    map_of (contacts (snd (updateContact i u s))) j = Some d"
  using assms
  by (intro exI [of _ "\<lparr>up_name = None, up_address = Some (c_address d), up_label = None, up_tags = None,
      up_notes = None, up_favorite = None, up_lastUsed = None\<rparr>"])
    (simp add: updateContact_def spread_updates_def or_keep_def saveContacts_def Let_def)

text \<open>
  An import checks addresses but files by identifier: a contact with a known identifier and a new
  address silently replaces the contact that had it, and counts as a success.
\<close>

lemma import_replaces_contact:
  assumes "map_of (contacts s) (c_id c) = Some d" and "c_address c \<notin> c_address ` snd ` set (contacts s)"
  shows "\<exists>t. importAddressBook (Some [Some c]) s = (Inr (1, 0), t) \<and> map_of (contacts t) (c_id c) = Some c"
  using assms(2) by (simp add: importAddressBook_def saveContacts_def unknown_address [simplified] image_image)

section \<open>The address filter\<close>

datatype filter_type = Whitelist | Blacklist

record FilteredAddress =
  f_id :: string
  f_address :: string
  f_type :: filter_type
  f_label :: "string option"
  f_reason :: "string option"
  f_addedAt :: int
  reputationScore :: "jsnum option"

record filter_data =
  fd_addresses :: "FilteredAddress list"
  fd_whitelistOnlyMode :: "bool option"

record af_state =
  filtered :: "(string, FilteredAddress) jsmap"
  whitelistOnlyMode :: bool
  filter_item :: "filter_data item"

definition loadFiltered :: "filter_data item \<Rightarrow> js_error + af_state" where
  "loadFiltered i =
     (case i of
        Json d \<Rightarrow> Inr \<lparr>filtered = load_values f_id (fd_addresses d),
          whitelistOnlyMode = (fd_whitelistOnlyMode d = Some True), filter_item = i\<rparr>
      | Garbled t \<Rightarrow> if t = [] then Inr \<lparr>filtered = [], whitelistOnlyMode = False, filter_item = i\<rparr>
                     else Inl JsonSyntaxError
      | Absent \<Rightarrow> Inr \<lparr>filtered = [], whitelistOnlyMode = False, filter_item = i\<rparr>)"

definition saveFiltered :: "af_state \<Rightarrow> af_state" where
  "saveFiltered s =
     s\<lparr>filter_item := Json \<lparr>fd_addresses = map snd (filtered s), fd_whitelistOnlyMode = Some (whitelistOnlyMode s)\<rparr>\<rparr>"

definition filter_id :: "clock \<Rightarrow> string \<Rightarrow> string" where
  "filter_id clk rnd = ''filter_'' @ show_int (clk 0) @ ''_'' @ rnd"

definition addToWhitelist :: "clock \<Rightarrow> string \<Rightarrow> string \<Rightarrow> string option \<Rightarrow> af_state \<Rightarrow> af_state" where
  "addToWhitelist clk rnd a lbl s =
     (let e = \<lparr>f_id = filter_id clk rnd, f_address = a, f_type = Whitelist, f_label = lbl, f_reason = None,
            f_addedAt = clk 1, reputationScore = None\<rparr>
      in saveFiltered (s\<lparr>filtered := AList.update (f_id e) e (filtered s)\<rparr>))"

definition addToBlacklist :: "clock \<Rightarrow> string \<Rightarrow> string \<Rightarrow> string option \<Rightarrow> af_state \<Rightarrow> af_state" where
  "addToBlacklist clk rnd a reason s =
     (let e = \<lparr>f_id = filter_id clk rnd, f_address = a, f_type = Blacklist, f_label = None, f_reason = reason,
            f_addedAt = clk 1, reputationScore = Some 0\<rparr>
      in saveFiltered (s\<lparr>filtered := AList.update (f_id e) e (filtered s)\<rparr>))"

definition removeFromFilter :: "string \<Rightarrow> af_state \<Rightarrow> af_state" where
  "removeFromFilter i s = saveFiltered (s\<lparr>filtered := AList.delete i (filtered s)\<rparr>)"

definition isAddressAllowed :: "string \<Rightarrow> af_state \<Rightarrow> bool \<times> string option" where
  "isAddressAllowed a s =
     (case List.find (\<lambda>f. f_type f = Blacklist \<and> f_address f = a) (map snd (filtered s)) of
        Some f \<Rightarrow> (False, if truthy_string (f_reason f) then f_reason f else Some ''Address is blacklisted'')
      | None \<Rightarrow>
          if whitelistOnlyMode s \<and>
             List.find (\<lambda>f. f_type f = Whitelist \<and> f_address f = a) (map snd (filtered s)) = None
          then (False, Some ''Address not in whitelist'')
          else (True, None))"

definition getFilteredAddresses :: "filter_type option \<Rightarrow> af_state \<Rightarrow> FilteredAddress list" where
  "getFilteredAddresses ty s =
     (let all = map snd (filtered s)
      in sort_desc f_addedAt (case ty of None \<Rightarrow> all | Some t \<Rightarrow> filter (\<lambda>f. f_type f = t) all))"

definition setWhitelistOnlyMode :: "bool \<Rightarrow> af_state \<Rightarrow> af_state" where
  "setWhitelistOnlyMode b s = saveFiltered (s\<lparr>whitelistOnlyMode := b\<rparr>)"

definition isWhitelistOnlyMode :: "af_state \<Rightarrow> bool" where
  "isWhitelistOnlyMode s = whitelistOnlyMode s"

datatype af_op =
    White clock string string "string option"
  | Black clock string string "string option"
  | Remove string
  | Mode bool

fun af_step :: "af_op \<Rightarrow> af_state \<Rightarrow> af_state" where
  "af_step (White clk rnd a l) s = addToWhitelist clk rnd a l s"
| "af_step (Black clk rnd a r) s = addToBlacklist clk rnd a r s"
| "af_step (Remove i) s = removeFromFilter i s"
| "af_step (Mode b) s = setWhitelistOnlyMode b s"

definition af_inv :: "af_state \<Rightarrow> bool" where
  "af_inv s \<longleftrightarrow> keyed f_id (filtered s) \<and>
     (filter_item s = Json \<lparr>fd_addresses = map snd (filtered s), fd_whitelistOnlyMode = Some (whitelistOnlyMode s)\<rparr> \<or>
      (filtered s = [] \<and> \<not> whitelistOnlyMode s \<and> filter_item s = Absent))"

definition af_reload :: "af_state \<Rightarrow> af_state" where
  "af_reload s = (case loadFiltered (filter_item s) of Inl e \<Rightarrow> s | Inr t \<Rightarrow> t)"

interpretation af: write_through af_step af_reload af_inv
proof unfold_locales
  fix s op
  show "af_inv s \<Longrightarrow> af_inv (af_step op s)"
    by (cases op) (auto simp: af_inv_def addToWhitelist_def addToBlacklist_def removeFromFilter_def
        setWhitelistOnlyMode_def saveFiltered_def Let_def intro!: keyed_set keyed_delete)
  show "af_inv s \<Longrightarrow> af_reload s = s"
    by (auto simp: af_inv_def af_reload_def loadFiltered_def load_values_inverse)
qed

text \<open>The abstract filter: which addresses are on which list.\<close>

definition listed :: "filter_type \<Rightarrow> af_state \<Rightarrow> string set" where
  "listed t s = f_address ` set (filter (\<lambda>f. f_type f = t) (map snd (filtered s)))"

lemma not_listed_iff: "List.find (\<lambda>f. f_type f = t \<and> f_address f = a) (map snd (filtered s)) = None \<longleftrightarrow> a \<notin> listed t s"
  by (auto simp: find_None_iff listed_def)



end
