(* ===== verification/Templates.thy ===== *)
theory Templates
  imports JsStore
begin

text \<open>
  Transaction templates (services/templates.ts): saved payments in a \<open>Map\<close> that is written
  through to storage, their use, search, recurrence, export and import.
\<close>

section \<open>Data\<close>

datatype template_frequency = Daily | Weekly | Monthly

record Recurring =
  rc_enabled :: bool
  rc_frequency :: template_frequency
  rc_nextExecution :: "int option"

record TransactionTemplate =
  tt_id :: string
  tt_name :: string
  tt_recipient :: string
  tt_amount :: jsnum
  tt_note :: string
  tt_category :: string
  tt_tags :: "string list"
  tt_recurring :: "Recurring option"
  tt_createdAt :: int
  tt_lastUsed :: "int option"
  tt_useCount :: int

text \<open>\<open>Partial<TransactionTemplate>\<close>; \<open>Some None\<close> is a key present with the value \<open>undefined\<close>.\<close>

record TransactionTemplateUpdates =
  ut_id :: "string option"
  ut_name :: "string option"
  ut_recipient :: "string option"
  ut_amount :: "jsnum option"
  ut_note :: "string option"
  ut_category :: "string option"
  ut_tags :: "string list option"
  ut_recurring :: "Recurring option option"
  ut_createdAt :: "int option"
  ut_lastUsed :: "int option option"
  ut_useCount :: "int option"

record tm_state =
  tmpls :: "(string, TransactionTemplate) jsmap"
  tmpls_item :: "TransactionTemplate list item"
  tm_browser :: bool

section \<open>Operations\<close>

definition loadTemplates :: "tm_state \<Rightarrow> tm_state" where
  "loadTemplates s =
     (if \<not> tm_browser s then s
      else case tmpls_item s of
        Json ts \<Rightarrow> s\<lparr>tmpls := foldl (\<lambda>m t. AList.update (tt_id t) t m) (tmpls s) ts\<rparr>
      | _ \<Rightarrow> s)"

definition new_Templates :: "bool \<Rightarrow> TransactionTemplate list item \<Rightarrow> tm_state" where
  "new_Templates browser i = loadTemplates \<lparr>tmpls = [], tmpls_item = i, tm_browser = browser\<rparr>"

definition saveTemplates :: "tm_state \<Rightarrow> tm_state" where
  "saveTemplates s = (if \<not> tm_browser s then s else s\<lparr>tmpls_item := Json (map snd (tmpls s))\<rparr>)"

definition createTemplate ::
    "clock \<Rightarrow> string \<Rightarrow> string \<Rightarrow> string \<Rightarrow> jsnum \<Rightarrow> string \<Rightarrow> string \<Rightarrow> string list \<Rightarrow> tm_state \<Rightarrow>
     TransactionTemplate \<times> tm_state" where
  "createTemplate clk rnd name recipient amount note category tags s =
     (let t = \<lparr>tt_id = ''tmpl_'' @ show_int (clk 0) @ ''_'' @ rnd, tt_name = name, tt_recipient = recipient,
            tt_amount = amount, tt_note = note, tt_category = category, tt_tags = tags, tt_recurring = None,
            tt_createdAt = clk 1, tt_lastUsed = None, tt_useCount = 0\<rparr>
      in (t, saveTemplates (s\<lparr>tmpls := AList.update (tt_id t) t (tmpls s)\<rparr>)))"

definition getTemplate :: "string \<Rightarrow> tm_state \<Rightarrow> TransactionTemplate option" where
  "getTemplate i s = map_of (tmpls s) i"

definition getAllTemplates :: "tm_state \<Rightarrow> TransactionTemplate list" where
  "getAllTemplates s = sort_desc tt_createdAt (map snd (tmpls s))"

text \<open>The object in the map is changed in place and the map is saved.\<close>

definition change_template :: "string \<Rightarrow> (TransactionTemplate \<Rightarrow> TransactionTemplate) \<Rightarrow> tm_state \<Rightarrow> tm_state" where
  "change_template i f s =
     (case map_of (tmpls s) i of
        None \<Rightarrow> s
      | Some t \<Rightarrow> saveTemplates (s\<lparr>tmpls := AList.update i (f t) (tmpls s)\<rparr>))"

definition assign_template :: "TransactionTemplateUpdates \<Rightarrow> TransactionTemplate \<Rightarrow> TransactionTemplate" where
  "assign_template u t =
     \<lparr>tt_id = or_keep (ut_id u) (tt_id t), tt_name = or_keep (ut_name u) (tt_name t),
      tt_recipient = or_keep (ut_recipient u) (tt_recipient t), tt_amount = or_keep (ut_amount u) (tt_amount t),
      tt_note = or_keep (ut_note u) (tt_note t), tt_category = or_keep (ut_category u) (tt_category t),
      tt_tags = or_keep (ut_tags u) (tt_tags t), tt_recurring = or_keep (ut_recurring u) (tt_recurring t),
      tt_createdAt = or_keep (ut_createdAt u) (tt_createdAt t), tt_lastUsed = or_keep (ut_lastUsed u) (tt_lastUsed t),
      tt_useCount = or_keep (ut_useCount u) (tt_useCount t)\<rparr>"

definition updateTemplate :: "string \<Rightarrow> TransactionTemplateUpdates \<Rightarrow> tm_state \<Rightarrow> bool \<times> tm_state" where
  "updateTemplate i u s = (map_of (tmpls s) i \<noteq> None, change_template i (assign_template u) s)"

definition deleteTemplate :: "string \<Rightarrow> tm_state \<Rightarrow> bool \<times> tm_state" where
  "deleteTemplate i s =
     (if map_of (tmpls s) i = None then (False, s)
      else (True, saveTemplates (s\<lparr>tmpls := AList.delete i (tmpls s)\<rparr>)))"

definition used_at :: "int \<Rightarrow> TransactionTemplate \<Rightarrow> TransactionTemplate" where
  "used_at now t = t\<lparr>tt_useCount := tt_useCount t + 1, tt_lastUsed := Some now\<rparr>"

definition useTemplate :: "clock \<Rightarrow> string \<Rightarrow> tm_state \<Rightarrow> TransactionTemplate option \<times> tm_state" where
  "useTemplate clk i s = (map_option (used_at (clk 0)) (map_of (tmpls s) i), change_template i (used_at (clk 0)) s)"

definition template_matches :: "string \<Rightarrow> TransactionTemplate \<Rightarrow> bool" where
  "template_matches q t \<longleftrightarrow>
     str_includes (toLowerCase (tt_name t)) q \<or> str_includes (toLowerCase (tt_recipient t)) q \<or>
     str_includes (toLowerCase (tt_note t)) q \<or> list_ex (\<lambda>g. str_includes (toLowerCase g) q) (tt_tags t)"

definition searchTemplates :: "string \<Rightarrow> tm_state \<Rightarrow> TransactionTemplate list" where
  "searchTemplates q s = filter (template_matches (toLowerCase q)) (getAllTemplates s)"

definition getTemplatesByCategory :: "string \<Rightarrow> tm_state \<Rightarrow> TransactionTemplate list" where
  "getTemplatesByCategory c s = filter (\<lambda>t. tt_category t = c) (getAllTemplates s)"

definition getTemplatesByTag :: "string \<Rightarrow> tm_state \<Rightarrow> TransactionTemplate list" where
  "getTemplatesByTag g s = filter (\<lambda>t. g \<in> set (tt_tags t)) (getAllTemplates s)"

fun calculateNextExecution :: "int \<Rightarrow> template_frequency \<Rightarrow> int" where
  "calculateNextExecution now Daily = now + 24 * 60 * 60 * 1000"
| "calculateNextExecution now Weekly = now + 7 * (24 * 60 * 60 * 1000)"
| "calculateNextExecution now Monthly = now + 30 * (24 * 60 * 60 * 1000)"

definition setRecurring :: "clock \<Rightarrow> string \<Rightarrow> template_frequency \<Rightarrow> tm_state \<Rightarrow> bool \<times> tm_state" where
  "setRecurring clk i fr s =
     (map_of (tmpls s) i \<noteq> None,
      change_template i (\<lambda>t. t\<lparr>tt_recurring := Some \<lparr>rc_enabled = True, rc_frequency = fr,
        rc_nextExecution = Some (calculateNextExecution (clk 0) fr)\<rparr>\<rparr>) s)"

text \<open>A missing or zero time is falsy.\<close>

definition is_due :: "int \<Rightarrow> TransactionTemplate \<Rightarrow> bool" where
  "is_due now t =
     (case tt_recurring t of
        None \<Rightarrow> False
      | Some r \<Rightarrow> rc_enabled r \<and>
          (case rc_nextExecution r of None \<Rightarrow> False | Some n \<Rightarrow> n \<noteq> 0 \<and> n \<le> now))"

definition getDueTemplates :: "clock \<Rightarrow> tm_state \<Rightarrow> TransactionTemplate list" where
  "getDueTemplates clk s = filter (is_due (clk 0)) (getAllTemplates s)"

definition exportTemplates :: "tm_state \<Rightarrow> TransactionTemplate list" where
  "exportTemplates s = map snd (tmpls s)"

text \<open>
  The imported text: \<open>None\<close> is one that is not a JSON array; an element \<open>None\<close> is \<open>null\<close>, on
  which reading the identifier throws, with the templates before it already in the map.
\<close>

definition invalid_templates :: js_error where
  "invalid_templates = Error ''Invalid template data''"

fun import_templates :: "TransactionTemplate option list \<Rightarrow> nat \<Rightarrow> (tm_state, nat) eff" where
  "import_templates [] n s = (Inr n, saveTemplates s)"
| "import_templates (None # ts) n s = (Inl invalid_templates, s)"
| "import_templates (Some t # ts) n s =
     (if map_of (tmpls s) (tt_id t) = None
      then import_templates ts (Suc n) (s\<lparr>tmpls := AList.update (tt_id t) t (tmpls s)\<rparr>)
      else import_templates ts n s)"

definition importTemplates :: "TransactionTemplate option list option \<Rightarrow> (tm_state, nat) eff" where
  "importTemplates d s =
     (case d of None \<Rightarrow> (Inl invalid_templates, s) | Some ts \<Rightarrow> import_templates ts 0 s)"

definition clearAllTemplates :: "tm_state \<Rightarrow> tm_state" where
  "clearAllTemplates s = (if \<not> tm_browser s then s\<lparr>tmpls := []\<rparr> else s\<lparr>tmpls := [], tmpls_item := Absent\<rparr>)"

section \<open>Storage is written through\<close>

text \<open>
  Runs of the operations as the pages use them: updates that leave the identifier alone, imports of
  arrays of templates.
\<close>

datatype tm_op =
    CreateT clock string string string jsnum string string "string list"
  | UpdateT string TransactionTemplateUpdates
  | DeleteT string
  | UseT clock string
  | RecurT clock string template_frequency
  | ImportT "TransactionTemplate list option"
  | ClearT

fun tm_step :: "tm_op \<Rightarrow> tm_state \<Rightarrow> tm_state" where
  "tm_step (CreateT clk rnd n r a nt c g) s = snd (createTemplate clk rnd n r a nt c g s)"
| "tm_step (UpdateT i u) s = snd (updateTemplate i (u\<lparr>ut_id := None\<rparr>) s)"
| "tm_step (DeleteT i) s = snd (deleteTemplate i s)"
| "tm_step (UseT clk i) s = snd (useTemplate clk i s)"
| "tm_step (RecurT clk i fr) s = snd (setRecurring clk i fr s)"
| "tm_step (ImportT d) s = snd (importTemplates (map_option (map Some) d) s)"
| "tm_step ClearT s = clearAllTemplates s"

definition tm_inv :: "tm_state \<Rightarrow> bool" where
  "tm_inv s \<longleftrightarrow> tm_browser s \<and> keyed tt_id (tmpls s) \<and> in_sync (tmpls s) (tmpls_item s)"

definition tm_reload :: "tm_state \<Rightarrow> tm_state" where
  "tm_reload s = new_Templates (tm_browser s) (tmpls_item s)"

lemma tm_inv_saved: "tm_browser s \<Longrightarrow> keyed tt_id (tmpls s) \<Longrightarrow> tm_inv (saveTemplates s)"
  by (simp add: tm_inv_def saveTemplates_def)

lemma change_template_inv: "tm_inv s \<Longrightarrow> (\<And>t. tt_id (f t) = tt_id t) \<Longrightarrow> tm_inv (change_template i f s)"
  by (auto simp: change_template_def tm_inv_def saveTemplates_def split: option.splits intro!: keyed_set dest: keyed_get)

lemma import_templates_inv:
  "tm_browser s \<Longrightarrow> keyed tt_id (tmpls s) \<Longrightarrow> tm_inv (snd (import_templates (map Some ts) n s))"
proof (induction ts arbitrary: n s)
  case (Cons t ts)
  then show ?case using keyed_set [of tt_id "tmpls s" t "tt_id t"] by simp
qed (simp add: tm_inv_saved)

interpretation tm: write_through tm_step tm_reload tm_inv
proof unfold_locales
  fix op s
  assume s: "tm_inv s"
  show "tm_inv (tm_step op s)"
  proof (cases op)
    case (ImportT d)
    with s show ?thesis by (cases d) (auto simp: importTemplates_def tm_inv_def intro!: import_templates_inv [unfolded tm_inv_def])
  qed (use s in \<open>auto simp: updateTemplate_def useTemplate_def setRecurring_def assign_template_def used_at_def or_keep_def
      intro!: change_template_inv\<close>,
      auto simp: createTemplate_def deleteTemplate_def clearAllTemplates_def tm_inv_def saveTemplates_def Let_def
        intro!: keyed_set keyed_delete)
next
  show "tm_reload s = s" if "tm_inv s" for s
    using that
    by (auto simp: tm_inv_def tm_reload_def new_Templates_def loadTemplates_def in_sync_def load_values_inverse
        simp flip: load_values_def)
qed

text \<open>A file exported from one service restores all its templates, in order, in an empty one.\<close>

lemma import_fresh_templates:
  assumes "keyed tt_id (tmpls s @ m)"
  shows "import_templates (map Some (map snd m)) n s =
    (Inr (n + length m), saveTemplates (s\<lparr>tmpls := tmpls s @ m\<rparr>))"
  using assms
proof (induction m arbitrary: s n)
  case (Cons kt m)
  obtain k t where kt: "kt = (k, t)" by force
  let ?s = "s\<lparr>tmpls := tmpls s @ [(k, t)]\<rparr>"
  have k: "tt_id t = k" "map_of (tmpls s) k = None" using Cons.prems kt by (auto simp: keyed_def map_of_eq_None_iff)
  then have "AList.update k t (tmpls s) = tmpls s @ [(k, t)]" by (simp add: jsmap_set_fresh)
  with Cons.IH [of ?s "Suc n"] Cons.prems kt k show ?case by simp
qed simp

lemma templates_roundtrip:
  assumes "tm_inv s" and "tmpls t = []"
  shows "fst (importTemplates (Some (map Some (exportTemplates s))) t) = Inr (length (tmpls s)) \<and>
    tmpls (snd (importTemplates (Some (map Some (exportTemplates s))) t)) = tmpls s"
  using import_fresh_templates [of t "tmpls s" 0] assms
  by (simp add: importTemplates_def exportTemplates_def tm_inv_def saveTemplates_def)

section \<open>What goes wrong\<close>

text \<open>
  A recurring template is due from its first date on for ever: no operation but \<open>setRecurring\<close> and
  \<open>updateTemplate\<close> changes the date, in particular using the template does not.
\<close>

lemma due_stays_due:
  assumes "getTemplate i s = Some t" and "is_due now t" and "now \<le> later"
  shows "\<exists>t'. getTemplate i (snd (useTemplate clk i s)) = Some t' \<and> is_due later t'"
  using assms
  by (auto simp: getTemplate_def useTemplate_def change_template_def saveTemplates_def is_due_def used_at_def
      split: option.splits)

text \<open>
  An import that fails half way is neither taken back nor saved: the templates before the bad
  element are in memory and not in storage.
\<close>

lemma failed_import_half_done:
  assumes "map_of (tmpls s) (tt_id t) = None"
  shows "\<exists>s'. importTemplates (Some [Some t, None]) s = (Inl invalid_templates, s') \<and>
    map_of (tmpls s') (tt_id t) = Some t \<and> tmpls_item s' = tmpls_item s"
  using assms by (simp add: importTemplates_def)

end
