(* ===== verification/BookPages.thy ===== *)
theory BookPages
  imports AddressBook TransactionLabels Templates Forms Calendar WalletSpend
begin

text \<open>
  The pages over the address book, the transaction labels and the templates
  (apps/web/wallet/app/wallet/address-book, wallet/history and wallet/templates). A page holds
  copies of what its service keeps and a filtered list derived from them; an effect of React
  recomputes the list after an event exactly when one of the values it names has changed.
\<close>

section \<open>Tags as text\<close>

text \<open>The forms show tags as \<open>tags.join(', ')\<close> and read them by \<open>split(',')\<close>, trimming and dropping what is empty.\<close>

definition tags_text :: "string list \<Rightarrow> string" where
  "tags_text ts = join_with '', '' ts"

definition read_tags :: "string \<Rightarrow> string list" where
  "read_tags t = filter (\<lambda>x. x \<noteq> []) (map trim (split_on (CHR '','') t))"

definition plain_tag :: "string \<Rightarrow> bool" where
  "plain_tag t \<longleftrightarrow> t \<noteq> [] \<and> trim t = t \<and> CHR '','' \<notin> set t"

lemma trim_space: "is_space c \<Longrightarrow> trim (c # t) = trim t"
  by (simp add: trim_def dropWhile_append)

lemma split_tags_text: "ts \<noteq> [] \<Longrightarrow> \<forall>t \<in> set ts. CHR '','' \<notin> set t \<Longrightarrow> map trim (split_on (CHR '','') (tags_text ts)) = map trim ts"
proof -
  have sp: "d \<noteq> CHR '' '' \<Longrightarrow> split_on d (CHR '' '' # x) = (CHR '' '' # hd (split_on d x)) # tl (split_on d x)" for d x
    by (cases "split_on d x") auto
  show "ts \<noteq> [] \<Longrightarrow> \<forall>t \<in> set ts. CHR '','' \<notin> set t \<Longrightarrow> map trim (split_on (CHR '','') (tags_text ts)) = map trim ts"
    unfolding tags_text_def
  proof (induction "'', ''" ts rule: join_with.induct)
    case (3 w v ws)
    then have "map trim (split_on (CHR '','') (join_with '', '' (v # ws))) = map trim (v # ws)" by simp
    then show ?case using 3(3)
      by (cases "split_on (CHR '','') (join_with '', '' (v # ws))") (auto simp: split_on_append sp trim_space is_space_def)
  qed (auto simp: split_on_free)
qed

lemma read_tags_text: "list_all plain_tag ts \<Longrightarrow> read_tags (tags_text ts) = ts"
proof (cases "ts = []")
  case False
  assume "list_all plain_tag ts"
  then have *: "\<forall>t \<in> set ts. t \<noteq> [] \<and> trim t = t \<and> CHR '','' \<notin> set t" by (simp add: list_all_iff plain_tag_def)
  then have "map trim (split_on (CHR '','') (tags_text ts)) = map trim ts" using split_tags_text [OF False] by blast
  also have "\<dots> = ts" using * by (simp add: map_idI)
  finally show ?thesis using * by (simp add: read_tags_def)
qed (simp add: read_tags_def tags_text_def trim_def)

text \<open>What is read from any text is plain: saving and opening a form again loses nothing.\<close>

lemma split_on_parts: "w \<in> set (split_on d s) \<Longrightarrow> d \<notin> set w"
  by (induction s arbitrary: w) (auto split: list.splits if_splits)

lemma set_trim: "set (trim s) \<subseteq> set s"
  by (auto simp: trim_def dest!: set_dropWhileD)

lemma read_tags_plain: "list_all plain_tag (read_tags t)"
proof -
  have "CHR '','' \<notin> set (trim x)" if "x \<in> set (split_on (CHR '','') t)" for x
    using split_on_parts [OF that] set_trim [of x] by blast
  then show ?thesis by (auto simp: read_tags_def plain_tag_def list_all_iff)
qed

section \<open>The address book page\<close>

record contact_form =
  fm_name :: string
  fm_address :: string
  fm_label :: string
  fm_tags :: string
  fm_notes :: string

definition empty_form :: contact_form where
  "empty_form = \<lparr>fm_name = [], fm_address = [], fm_label = [], fm_tags = [], fm_notes = []\<rparr>"

record book_page =
  bp_contacts :: "Contact list"
  filteredContacts :: "Contact list"
  bp_searchTerm :: string
  selectedTag :: "string option"
  showFavoritesOnly :: bool
  showAddDialog :: bool
  showEditDialog :: bool
  editingContact :: "Contact option"
  formData :: contact_form
  bp_error :: "string option"
  bp_success :: "string option"

definition load_book :: "book_page \<times> ab_state \<Rightarrow> book_page \<times> ab_state" where
  "load_book ps = (case ps of (p, s) \<Rightarrow> (p\<lparr>bp_contacts := getAllContacts s\<rparr>, s))"

text \<open>
  Favourites first, then by name; \<open>collate\<close> ranks names as \<open>localeCompare\<close> does. An empty tag is
  falsy, as an empty search is.
\<close>

definition book_order :: "(string \<Rightarrow> nat) \<Rightarrow> Contact list \<Rightarrow> Contact list" where
  "book_order collate cs = sort_key (\<lambda>c. if favorite c then 0 else 1 :: nat) (sort_key (\<lambda>c. collate (c_name c)) cs)"

definition shown_contacts :: "(string \<Rightarrow> nat) \<Rightarrow> book_page \<Rightarrow> ab_state \<Rightarrow> Contact list" where
  "shown_contacts collate p s =
     (let f0 = bp_contacts p;
          f1 = (if showFavoritesOnly p then filter favorite f0 else f0);
          f2 = (if truthy_string (selectedTag p) then filter (\<lambda>c. the (selectedTag p) \<in> set (c_tags c)) f1 else f1);
          f3 = (if bp_searchTerm p \<noteq> [] then searchContacts (bp_searchTerm p) s else f2)
      in book_order collate f3)"

definition apply_book_filters :: "(string \<Rightarrow> nat) \<Rightarrow> book_page \<times> ab_state \<Rightarrow> book_page \<times> ab_state" where
  "apply_book_filters collate ps = (case ps of (p, s) \<Rightarrow> (p\<lparr>filteredContacts := shown_contacts collate p s\<rparr>, s))"

text \<open>\<open>addContact\<close> is given the texts of the form as they are.\<close>

definition handleAddContact :: "clock \<Rightarrow> string \<Rightarrow> book_page \<times> ab_state \<Rightarrow> book_page \<times> ab_state" where
  "handleAddContact clk rnd ps =
     (case ps of (p, s) \<Rightarrow>
        let p = p\<lparr>bp_error := None, bp_success := None\<rparr>; f = formData p
        in if trim (fm_name f) = [] then (p\<lparr>bp_error := Some ''Contact name is required''\<rparr>, s)
           else if trim (fm_address f) = [] then (p\<lparr>bp_error := Some ''Address is required''\<rparr>, s)
           else (case addContact clk rnd (fm_name f) (fm_address f) (Some (fm_label f)) (read_tags (fm_tags f)) (Some (fm_notes f)) s of
                   (Inl e, t) \<Rightarrow> (p\<lparr>bp_error := Some (message e)\<rparr>, t)
                 | (Inr _, t) \<Rightarrow>
                     load_book (p\<lparr>bp_success := Some ''Contact added successfully'', showAddDialog := False, formData := empty_form\<rparr>, t)))"

definition edit_updates :: "contact_form \<Rightarrow> ContactUpdates" where
  "edit_updates f = \<lparr>up_name = Some (fm_name f), up_address = None, up_label = Some (Some (fm_label f)),
     up_tags = Some (read_tags (fm_tags f)), up_notes = Some (Some (fm_notes f)), up_favorite = None, up_lastUsed = None\<rparr>"

text \<open>The result of \<open>updateContact\<close>, which is null for a contact that is gone, is not looked at.\<close>

definition handleEditContact :: "book_page \<times> ab_state \<Rightarrow> book_page \<times> ab_state" where
  "handleEditContact ps =
     (case ps of (p, s) \<Rightarrow>
        (case editingContact p of
           None \<Rightarrow> (p, s)
         | Some c \<Rightarrow>
             let p = p\<lparr>bp_error := None, bp_success := None\<rparr>; f = formData p
             in if trim (fm_name f) = [] then (p\<lparr>bp_error := Some ''Contact name is required''\<rparr>, s)
                else load_book (p\<lparr>bp_success := Some ''Contact updated successfully'', showEditDialog := False,
                       editingContact := None, formData := empty_form\<rparr>, snd (updateContact (c_id c) (edit_updates f) s))))"

definition handleDeleteContact :: "bool \<Rightarrow> bool \<Rightarrow> string \<Rightarrow> book_page \<times> ab_state \<Rightarrow> book_page \<times> ab_state" where
  "handleDeleteContact isAutomation confirmed i ps =
     (case ps of (p, s) \<Rightarrow>
        if \<not> isAutomation \<and> \<not> confirmed then (p, s)
        else (case deleteContact i s of
                (True, t) \<Rightarrow> load_book (p\<lparr>bp_success := Some ''Contact deleted successfully''\<rparr>, t)
              | (False, t) \<Rightarrow> (p\<lparr>bp_error := Some ''Failed to delete contact''\<rparr>, t)))"

definition handleToggleFavorite :: "string \<Rightarrow> book_page \<times> ab_state \<Rightarrow> book_page \<times> ab_state" where
  "handleToggleFavorite i ps = (case ps of (p, s) \<Rightarrow> load_book (p, snd (toggleFavorite i s)))"

definition openEditDialog :: "Contact \<Rightarrow> book_page \<Rightarrow> book_page" where
  "openEditDialog c p =
     p\<lparr>editingContact := Some c, formData := \<lparr>fm_name = c_name c, fm_address = c_address c, fm_label = text_of (c_label c),
         fm_tags = tags_text (c_tags c), fm_notes = text_of (c_notes c)\<rparr>, showEditDialog := True\<rparr>"

datatype book_event =
    SearchFor string | PickTag "string option" | FavoritesOnly bool | EditForm contact_form
  | OpenAdd | SubmitAdd clock string | CancelAdd | OpenEdit Contact | SubmitEdit | CancelEdit
  | PressDelete bool bool string | PressFavorite string | PressExport | PressCopy | CopyOver

fun book_handler :: "book_event \<Rightarrow> book_page \<times> ab_state \<Rightarrow> book_page \<times> ab_state" where
  "book_handler (SearchFor q) (p, s) = (p\<lparr>bp_searchTerm := q\<rparr>, s)"
| "book_handler (PickTag t) (p, s) = (p\<lparr>selectedTag := t\<rparr>, s)"
| "book_handler (FavoritesOnly b) (p, s) = (p\<lparr>showFavoritesOnly := b\<rparr>, s)"
| "book_handler (EditForm f) (p, s) = (if showAddDialog p \<or> showEditDialog p then (p\<lparr>formData := f\<rparr>, s) else (p, s))"
| "book_handler OpenAdd (p, s) = (p\<lparr>showAddDialog := True\<rparr>, s)"
| "book_handler (SubmitAdd clk rnd) (p, s) = (if showAddDialog p then handleAddContact clk rnd (p, s) else (p, s))"
| "book_handler CancelAdd (p, s) = (p\<lparr>showAddDialog := False, formData := empty_form, bp_error := None\<rparr>, s)"
| "book_handler (OpenEdit c) (p, s) = (openEditDialog c p, s)"
| "book_handler SubmitEdit (p, s) = (if showEditDialog p then handleEditContact (p, s) else (p, s))"
| "book_handler CancelEdit (p, s) =
     (p\<lparr>showEditDialog := False, editingContact := None, formData := empty_form, bp_error := None\<rparr>, s)"
| "book_handler (PressDelete auto ok i) (p, s) = handleDeleteContact auto ok i (p, s)"
| "book_handler (PressFavorite i) (p, s) = handleToggleFavorite i (p, s)"
| "book_handler PressExport (p, s) = (p\<lparr>bp_success := Some ''Address book exported successfully''\<rparr>, s)"
| "book_handler PressCopy (p, s) = (p\<lparr>bp_success := Some ''Address copied to clipboard''\<rparr>, s)"
| "book_handler CopyOver (p, s) = (p\<lparr>bp_success := None\<rparr>, s)"

text \<open>The effect that filters depends on these values.\<close>

definition book_deps :: "book_page \<Rightarrow> Contact list \<times> string \<times> string option \<times> bool" where
  "book_deps p = (bp_contacts p, bp_searchTerm p, selectedTag p, showFavoritesOnly p)"

definition book_step :: "(string \<Rightarrow> nat) \<Rightarrow> book_event \<Rightarrow> book_page \<times> ab_state \<Rightarrow> book_page \<times> ab_state" where
  "book_step collate e ps =
     (let ps' = book_handler e ps
      in if book_deps (fst ps') \<noteq> book_deps (fst ps) then apply_book_filters collate ps' else ps')"

definition book_mounted :: "(string \<Rightarrow> nat) \<Rightarrow> ab_state \<Rightarrow> book_page \<times> ab_state" where
  "book_mounted collate s =
     apply_book_filters collate (load_book
       (\<lparr>bp_contacts = [], filteredContacts = [], bp_searchTerm = [], selectedTag = None, showFavoritesOnly = False,
         showAddDialog = False, showEditDialog = False, editingContact = None, formData = empty_form, bp_error = None,
         bp_success = None\<rparr>, s))"

lemmas book_defs = load_book_def handleAddContact_def handleEditContact_def handleDeleteContact_def handleToggleFavorite_def
  openEditDialog_def apply_book_filters_def

subsection \<open>The page shows the book\<close>

definition book_current :: "(string \<Rightarrow> nat) \<Rightarrow> book_page \<times> ab_state \<Rightarrow> bool" where
  "book_current collate ps \<longleftrightarrow>
     bp_contacts (fst ps) = getAllContacts (snd ps) \<and> filteredContacts (fst ps) = shown_contacts collate (fst ps) (snd ps)"

lemma shown_by_deps:
  "book_deps p = book_deps p' \<Longrightarrow> getAllContacts s = getAllContacts s' \<Longrightarrow> shown_contacts collate p s = shown_contacts collate p' s'"
  unfolding shown_contacts_def book_deps_def searchContacts_def Let_def by auto

definition selects :: "book_page \<Rightarrow> Contact \<Rightarrow> bool" where
  "selects p c =
     (if bp_searchTerm p \<noteq> [] then contact_matches (toLowerCase (bp_searchTerm p)) c
      else (showFavoritesOnly p \<longrightarrow> favorite c) \<and> (case selectedTag p of None \<Rightarrow> True | Some g \<Rightarrow> g = [] \<or> g \<in> set (c_tags c)))"

lemma shown_is_filter:
  "bp_contacts p = getAllContacts s \<Longrightarrow> shown_contacts collate p s = book_order collate (filter (selects p) (getAllContacts s))"
  unfolding shown_contacts_def Let_def searchContacts_def
  by (rule arg_cong [where f = "book_order collate"]) (auto simp: selects_def truthy_string_iff split: option.splits intro!: filter_cong filter_True [symmetric])

lemma handler_loads:
  assumes "bp_contacts (fst ps) = getAllContacts (snd ps)"
  shows "bp_contacts (fst (book_handler e ps)) = getAllContacts (snd (book_handler e ps)) \<and>
         filteredContacts (fst (book_handler e ps)) = filteredContacts (fst ps)"
  using assms
  by (cases ps; cases e)
     (auto simp: book_defs Let_def addContact_def deleteContact_def split: option.splits prod.splits sum.splits bool.splits if_splits)

lemma book_current_step: "book_current collate ps \<Longrightarrow> book_current collate (book_step collate e ps)"
proof -
  assume cur: "book_current collate ps"
  let ?q = "book_handler e ps"
  have q: "bp_contacts (fst ?q) = getAllContacts (snd ?q)" "filteredContacts (fst ?q) = filteredContacts (fst ps)"
    using cur handler_loads by (auto simp: book_current_def)
  show ?thesis
  proof (cases "book_deps (fst ?q) = book_deps (fst ps)")
    case True
    then have "getAllContacts (snd ?q) = getAllContacts (snd ps)" using q cur by (simp add: book_current_def book_deps_def)
    then show ?thesis using True q cur shown_by_deps [OF True] by (simp add: book_step_def book_current_def Let_def)
  next
    case False
    then show ?thesis using q by (cases ?q) (simp add: book_step_def book_current_def apply_book_filters_def shown_contacts_def Let_def)
  qed
qed

lemma book_mounted_current: "book_current collate (book_mounted collate s)"
  by (simp add: book_mounted_def book_current_def book_defs shown_contacts_def Let_def)

text \<open>
  In every run of the address book page the contacts it holds are those of the service, and the
  list it shows holds each contact that the search or, without a search, the tag and the favourites
  select, as often as the book does, favourites first.
\<close>

theorem book_page_shows:
  assumes run: "fold (book_step collate) es (book_mounted collate s) = (p, t)"
  shows "bp_contacts p = getAllContacts t \<and> mset (filteredContacts p) = mset (filter (selects p) (getAllContacts t)) \<and>
         sorted (map (\<lambda>c. if favorite c then 0 else 1 :: nat) (filteredContacts p))"
proof -
  have "book_current collate (fold (book_step collate) es ps)" if "book_current collate ps" for ps
    using that by (induction es arbitrary: ps) (simp_all add: book_current_step)
  then have cur: "book_current collate (p, t)" using book_mounted_current run by metis
  then show ?thesis by (simp add: book_current_def shown_is_filter book_order_def)
qed

definition demo_book :: ab_state where
  "demo_book = snd (addContact (\<lambda>_. 5) ''x'' ''Ann'' ''KC1'' None [''work''] None (new_AddressBook True Absent))"

theorem book_page_shows_witness:
  "map c_name (filteredContacts (fst (fold (book_step length) [SearchFor ''an'', PickTag (Some ''home'')] (book_mounted length demo_book)))) = [''Ann''] \<and>
   sorted (map (\<lambda>c. if favorite c then 0 else 1 :: nat)
     (filteredContacts (fst (fold (book_step length) [SearchFor ''an'', PickTag (Some ''home'')] (book_mounted length demo_book)))))"
proof (rule conjI)
  show "map c_name (filteredContacts (fst (fold (book_step length) [SearchFor ''an'', PickTag (Some ''home'')] (book_mounted length demo_book)))) = [''Ann'']"
    by code_simp
qed (use book_page_shows [where es = "[SearchFor ''an'', PickTag (Some ''home'')]" and collate = length and s = demo_book, OF surjective_pairing] in blast)

text \<open>While something is searched, the tag and the favourites switch have no effect.\<close>

lemma search_discards_filters:
  "bp_searchTerm p \<noteq> [] \<Longrightarrow> shown_contacts collate (p\<lparr>selectedTag := g, showFavoritesOnly := b\<rparr>) s = shown_contacts collate p s"
  by (simp add: shown_contacts_def Let_def)

text \<open>
  Opening a contact and saving it as it is keeps it, when its tags are plain; a missing label or
  note becomes an empty one.
\<close>

lemma edit_unchanged:
  assumes "map_of (contacts s) (c_id c) = Some c" and "trim (c_name c) \<noteq> []" and "list_all plain_tag (c_tags c)"
  shows "getContact (c_id c) (snd (handleEditContact (openEditDialog c p, s))) =
         Some (c\<lparr>c_label := Some (text_of (c_label c)), c_notes := Some (text_of (c_notes c))\<rparr>)"
  using assms by (simp add: book_defs updateContact_def getContact_def saveContacts_def edit_updates_def spread_updates_def
      read_tags_text or_keep_def Let_def)

text \<open>A contact that is gone is reported as updated.\<close>

lemma gone_contact_updated:
  assumes "map_of (contacts s) (c_id c) = None" and "trim (c_name c) \<noteq> []"
  shows "bp_success (fst (handleEditContact (openEditDialog c p, s))) = Some ''Contact updated successfully'' \<and>
         snd (handleEditContact (openEditDialog c p, s)) = s"
  using assms by (simp add: book_defs updateContact_def Let_def)

section \<open>The history page\<close>

record history_record =
  hr_tx :: WalletTransactionRecord
  hr_label :: "TransactionLabel option"

datatype history_filter = AllTx | ReceivedTx | SentTx | PendingTx

datatype history_sort = ByDate | ByAmount | ByConfirmations

record history_page =
  transactions :: "history_record list"
  filteredTransactions :: "history_record list"
  hp_loading :: bool
  hp_error :: "string option"
  hp_filter :: history_filter
  sortBy :: history_sort
  hp_searchTerm :: string
  editingTxid :: "string option"
  labelNote :: string
  labelTags :: string
  labelCategory :: string
  tagFilter :: "string option"

definition initial_history :: history_page where
  "initial_history = \<lparr>transactions = [], filteredTransactions = [], hp_loading = False, hp_error = None, hp_filter = AllTx,
     sortBy = ByDate, hp_searchTerm = [], editingTxid = None, labelNote = [], labelTags = [], labelCategory = [], tagFilter = None\<rparr>"

text \<open>The answer of the wallet service; the labels are read when it arrives.\<close>

definition history_arrived :: "tl_state \<Rightarrow> js_error + WalletTransactionRecord list \<Rightarrow> history_page \<Rightarrow> history_page" where
  "history_arrived ls r p =
     (case r of
        Inl e \<Rightarrow> p\<lparr>hp_error := Some (message e), hp_loading := False\<rparr>
      | Inr txs \<Rightarrow> p\<lparr>transactions := map (\<lambda>tx. \<lparr>hr_tx = tx, hr_label = getLabel (wt_txid tx) ls\<rparr>) txs, hp_loading := False\<rparr>)"

fun of_type :: "history_filter \<Rightarrow> history_record \<Rightarrow> bool" where
  "of_type AllTx r = True"
| "of_type ReceivedTx r = (wt_type (hr_tx r) = Received)"
| "of_type SentTx r = (wt_type (hr_tx r) = WalletSpend.Sent)"
| "of_type PendingTx r = (wt_confirmations (hr_tx r) = 0)"

definition has_tag :: "string \<Rightarrow> history_record \<Rightarrow> bool" where
  "has_tag g r = (case hr_label r of None \<Rightarrow> False | Some l \<Rightarrow> g \<in> set (l_tags l))"

definition history_matches :: "string \<Rightarrow> history_record \<Rightarrow> bool" where
  "history_matches q r \<longleftrightarrow>
     str_includes (toLowerCase (wt_txid (hr_tx r))) (toLowerCase q) \<or>
     str_includes (toLowerCase (text_of (wt_address (hr_tx r)))) (toLowerCase q) \<or>
     (case hr_label r of
        None \<Rightarrow> False
      | Some l \<Rightarrow> truthy_string (l_note l) \<and> str_includes (toLowerCase (the (l_note l))) (toLowerCase q) \<or>
          list_ex (\<lambda>g. str_includes (toLowerCase g) (toLowerCase q)) (l_tags l))"

fun history_order :: "history_sort \<Rightarrow> history_record list \<Rightarrow> history_record list" where
  "history_order ByDate rs = sort_desc (\<lambda>r. case wt_timestamp (hr_tx r) of None \<Rightarrow> 0 | Some t \<Rightarrow> t) rs"
| "history_order ByAmount rs = sort_desc (\<lambda>r. wt_amount (hr_tx r)) rs"
| "history_order ByConfirmations rs = sort_desc (\<lambda>r. wt_confirmations (hr_tx r)) rs"

definition shown_history :: "history_page \<Rightarrow> history_record list" where
  "shown_history p =
     (let f1 = filter (of_type (hp_filter p)) (transactions p);
          f2 = (if truthy_string (tagFilter p) then filter (has_tag (the (tagFilter p))) f1 else f1);
          f3 = (if hp_searchTerm p \<noteq> [] then filter (history_matches (hp_searchTerm p)) f2 else f2)
      in history_order (sortBy p) f3)"

definition apply_history_filters :: "history_page \<Rightarrow> history_page" where
  "apply_history_filters p = p\<lparr>filteredTransactions := shown_history p\<rparr>"

definition history_row :: "history_record \<Rightarrow> string" where
  "history_row r =
     join_with '','' [wt_txid (hr_tx r),
       (case wt_type (hr_tx r) of Received \<Rightarrow> ''received'' | WalletSpend.Sent \<Rightarrow> ''sent'' | Other \<Rightarrow> ''other''),
       toFixed 8 (wt_amount (hr_tx r)), show_int (wt_confirmations (hr_tx r)), text_of (wt_address (hr_tx r)),
       (case wt_timestamp (hr_tx r) of None \<Rightarrow> ''N/A'' | Some t \<Rightarrow> if t = 0 then ''N/A'' else toISOString t)]"

definition history_csv :: "history_page \<Rightarrow> string" where
  "history_csv p =
     join_with [CHR 0x0A]
       (join_with '','' [''TXID'', ''Type'', ''Amount (KBC)'', ''Confirmations'', ''Address'', ''Timestamp''] # map history_row (filteredTransactions p))"

definition plural :: "int \<Rightarrow> string \<Rightarrow> string" where
  "plural n unit = show_int n @ '' '' @ unit @ (if n > 1 then ''s'' else []) @ '' ago''"

definition getTimestamp :: "int \<Rightarrow> int option \<Rightarrow> string" where
  "getTimestamp now ts =
     (case ts of
        None \<Rightarrow> ''Unknown''
      | Some t \<Rightarrow>
          if t = 0 then ''Unknown''
          else let diff = now - t; minutes = diff div 60000; hours = diff div 3600000; days = diff div 86400000
               in if days > 0 then plural days ''day'' else if hours > 0 then plural hours ''hour''
                  else if minutes > 0 then plural minutes ''min'' else ''Just now'')"

definition handleEditLabel :: "tl_state \<Rightarrow> string \<Rightarrow> history_page \<Rightarrow> history_page" where
  "handleEditLabel ls txid p =
     (case getLabel txid ls of
        Some l \<Rightarrow> p\<lparr>labelNote := text_of (l_note l), labelTags := tags_text (l_tags l), labelCategory := text_of (l_category l),
                  editingTxid := Some txid\<rparr>
      | None \<Rightarrow> p\<lparr>labelNote := [], labelTags := [], labelCategory := [], editingTxid := Some txid\<rparr>)"

text \<open>The first half of \<open>loadTransactionHistory\<close>, up to the call of the wallet service.\<close>

definition history_asked :: "bool \<Rightarrow> history_page \<Rightarrow> history_page" where
  "history_asked active p = (if active then p\<lparr>hp_loading := True, hp_error := None\<rparr> else p)"

definition handleSaveLabel :: "clock \<Rightarrow> bool \<Rightarrow> history_page \<times> tl_state \<Rightarrow> history_page \<times> tl_state" where
  "handleSaveLabel clk active ps =
     (case ps of (p, ls) \<Rightarrow>
        if \<not> truthy_string (editingTxid p) then (p, ls)
        else ((history_asked active p)\<lparr>editingTxid := None\<rparr>,
              snd (addLabel clk (the (editingTxid p)) (Some (labelNote p)) (read_tags (labelTags p)) (Some (labelCategory p)) ls)))"

definition handleDeleteLabel :: "string \<Rightarrow> bool \<Rightarrow> history_page \<times> tl_state \<Rightarrow> history_page \<times> tl_state" where
  "handleDeleteLabel txid active ps = (case ps of (p, ls) \<Rightarrow> (history_asked active p, snd (deleteLabel txid ls)))"

definition page_tags :: "history_page \<Rightarrow> string list" where
  "page_tags p = sort (remdups (concat (map (\<lambda>r. case hr_label r of None \<Rightarrow> [] | Some l \<Rightarrow> l_tags l) (transactions p))))"

datatype history_event =
    Arrives "js_error + WalletTransactionRecord list" | PickFilter history_filter | PickSort history_sort | PickHistoryTag "string option"
  | SearchHistory string | EditLabel string | TypeLabel string string string | SaveLabel clock bool | DeleteLabel string bool | CancelLabel

fun history_handler :: "history_event \<Rightarrow> history_page \<times> tl_state \<Rightarrow> history_page \<times> tl_state" where
  "history_handler (Arrives r) (p, ls) = (history_arrived ls r p, ls)"
| "history_handler (PickFilter f) (p, ls) = (p\<lparr>hp_filter := f\<rparr>, ls)"
| "history_handler (PickSort o') (p, ls) = (p\<lparr>sortBy := o'\<rparr>, ls)"
| "history_handler (PickHistoryTag g) (p, ls) = (p\<lparr>tagFilter := g\<rparr>, ls)"
| "history_handler (SearchHistory q) (p, ls) = (p\<lparr>hp_searchTerm := q\<rparr>, ls)"
| "history_handler (EditLabel t) (p, ls) = (handleEditLabel ls t p, ls)"
| "history_handler (TypeLabel n g c) (p, ls) = (p\<lparr>labelNote := n, labelTags := g, labelCategory := c\<rparr>, ls)"
| "history_handler (SaveLabel clk active) (p, ls) = handleSaveLabel clk active (p, ls)"
| "history_handler (DeleteLabel t active) (p, ls) = handleDeleteLabel t active (p, ls)"
| "history_handler CancelLabel (p, ls) = (p\<lparr>editingTxid := None\<rparr>, ls)"

text \<open>The effect names the transactions, the filter, the order and the search, but not the tag; a list that arrives is new, whatever it holds.\<close>

definition history_effect :: "history_event \<Rightarrow> history_page \<Rightarrow> history_page \<Rightarrow> bool" where
  "history_effect e p p' \<longleftrightarrow>
     (case e of Arrives (Inr _) \<Rightarrow> True | _ \<Rightarrow> hp_filter p' \<noteq> hp_filter p \<or> sortBy p' \<noteq> sortBy p \<or> hp_searchTerm p' \<noteq> hp_searchTerm p)"

definition history_step :: "history_event \<Rightarrow> history_page \<times> tl_state \<Rightarrow> history_page \<times> tl_state" where
  "history_step e ps =
     (case history_handler e ps of (p', ls) \<Rightarrow> if history_effect e (fst ps) p' then (apply_history_filters p', ls) else (p', ls))"

subsection \<open>What the page shows\<close>

text \<open>The list is the one for some tag: the tag that was chosen when the list was last computed.\<close>

definition history_current :: "string option \<Rightarrow> history_page \<Rightarrow> bool" where
  "history_current g p \<longleftrightarrow> filteredTransactions p = shown_history (p\<lparr>tagFilter := g\<rparr>)"

fun picks_tag :: "history_event \<Rightarrow> bool" where
  "picks_tag (PickHistoryTag g) = True"
| "picks_tag _ = False"

lemmas history_defs = history_arrived_def handleEditLabel_def handleSaveLabel_def handleDeleteLabel_def history_asked_def
  apply_history_filters_def

lemma shown_history_cong:
  "transactions p = transactions p' \<Longrightarrow> hp_filter p = hp_filter p' \<Longrightarrow> sortBy p = sortBy p' \<Longrightarrow> hp_searchTerm p = hp_searchTerm p' \<Longrightarrow>
   tagFilter p = tagFilter p' \<Longrightarrow> shown_history p = shown_history p'"
  unfolding shown_history_def Let_def by auto

lemma quiet_handler:
  assumes "\<not> history_effect e (fst ps) (fst (history_handler e ps))"
  shows "filteredTransactions (fst (history_handler e ps)) = filteredTransactions (fst ps) \<and>
         transactions (fst (history_handler e ps)) = transactions (fst ps) \<and>
         hp_filter (fst (history_handler e ps)) = hp_filter (fst ps) \<and> sortBy (fst (history_handler e ps)) = sortBy (fst ps) \<and>
         hp_searchTerm (fst (history_handler e ps)) = hp_searchTerm (fst ps)"
  using assms by (cases ps; cases e) (auto simp: history_defs history_effect_def split: option.splits sum.splits)

lemma handler_keeps_tag: "\<not> picks_tag e \<Longrightarrow> tagFilter (fst (history_handler e ps)) = tagFilter (fst ps)"
  by (cases ps; cases e) (auto simp: history_defs split: option.splits sum.splits)

lemma history_step_current:
  assumes "history_current g (fst ps)"
  shows "history_current g (fst (history_step e ps)) \<or> history_current (tagFilter (fst (history_step e ps))) (fst (history_step e ps))"
proof (cases "history_effect e (fst ps) (fst (history_handler e ps))")
  case True
  then show ?thesis
    by (cases "history_handler e ps")
       (auto simp: history_step_def history_current_def apply_history_filters_def intro!: disjI2 shown_history_cong)
next
  case False
  then have "filteredTransactions (fst (history_handler e ps)) = shown_history ((fst (history_handler e ps))\<lparr>tagFilter := g\<rparr>)"
    using assms quiet_handler [OF False] by (auto simp: history_current_def intro!: shown_history_cong)
  then show ?thesis using False by (cases "history_handler e ps") (simp add: history_step_def history_current_def)
qed

lemma untagged_history_shows:
  assumes "list_all (\<lambda>e. \<not> picks_tag e) es"
  shows "filteredTransactions (fst (fold history_step es (initial_history, ls))) = shown_history (fst (fold history_step es (initial_history, ls)))"
proof -
  have "tagFilter (fst (fold history_step es ps)) = None \<and> history_current None (fst (fold history_step es ps))"
    if "tagFilter (fst ps) = None" "history_current None (fst ps)" for ps
    using assms that
  proof (induction es arbitrary: ps)
    case (Cons e es)
    have "tagFilter (fst (history_step e ps)) = None"
      using Cons.prems handler_keeps_tag [of e ps]
      by (cases "history_handler e ps") (auto simp: history_step_def apply_history_filters_def)
    moreover from this have "history_current None (fst (history_step e ps))" using history_step_current [OF Cons.prems(3)] by metis
    ultimately show ?case using Cons by simp
  qed simp
  from this [of "(initial_history, ls)"]
  have "tagFilter (fst (fold history_step es (initial_history, ls))) = None \<and>
        history_current None (fst (fold history_step es (initial_history, ls)))"
    by (simp add: initial_history_def history_current_def shown_history_def sort_desc_def)
  then show ?thesis unfolding history_current_def by (metis (no_types, lifting) history_page.surjective history_page.update_convs(12))
qed

text \<open>Choosing a tag changes neither the list that is shown nor the one that is exported.\<close>

lemma tag_choice_waits:
  "filteredTransactions (fst (history_step (PickHistoryTag g) (p, ls))) = filteredTransactions p"
  by (simp add: history_step_def history_effect_def)

lemma stale_tag:
  assumes "r \<in> set txs" and "\<And>l. getLabel (wt_txid r) ls = Some l \<Longrightarrow> g \<notin> set (l_tags l)" and "g \<noteq> []"
  shows "let p = fst (fold history_step [Arrives (Inr txs), PickHistoryTag (Some g)] (initial_history, ls)) in
     tagFilter p = Some g \<and> (\<exists>x \<in> set (filteredTransactions p). \<not> has_tag g x)"
proof -
  have "\<not> has_tag g \<lparr>hr_tx = r, hr_label = getLabel (wt_txid r) ls\<rparr>"
    using assms(2) by (simp add: has_tag_def split: option.splits)
  then show ?thesis using assms(1)
    by (auto simp: history_step_def history_effect_def history_defs initial_history_def shown_history_def Let_def)
qed

text \<open>Opening a label and saving it as it is keeps note, tags and category, but the label is dated anew.\<close>

lemma edit_label_unchanged:
  assumes "getLabel t ls = Some l" and "l_txid l = t" and "t \<noteq> []" and "list_all plain_tag (l_tags l)"
  shows "getLabel t (snd (handleSaveLabel clk b (handleEditLabel ls t p, ls))) =
     Some (l\<lparr>l_note := Some (text_of (l_note l)), l_category := Some (text_of (l_category l)), l_createdAt := clk 0, l_updatedAt := clk 0\<rparr>)"
  using assms by (simp add: history_defs getLabel_def addLabel_def saveLabels_def read_tags_text Let_def)

section \<open>The templates page\<close>

record template_form =
  tf_name :: string
  tf_recipient :: string
  tf_amount :: string
  tf_note :: string
  tf_category :: string
  tf_tags :: string
  recurringEnabled :: bool
  tf_frequency :: template_frequency

definition resetForm :: "template_form \<Rightarrow> template_form" where
  "resetForm f = f\<lparr>tf_name := [], tf_recipient := [], tf_amount := [], tf_note := [], tf_category := [], tf_tags := [], recurringEnabled := False\<rparr>"

record templates_page =
  tpl_list :: "TransactionTemplate list"
  showCreateModal :: bool
  searchQuery :: string
  filterCategory :: string
  tpl_form :: template_form
  tpl_error :: string
  tpl_success :: string
  tpl_location :: "(string \<times> jsnum \<times> string) option"

definition load_templates :: "templates_page \<times> tm_state \<Rightarrow> templates_page \<times> tm_state" where
  "load_templates ps = (case ps of (p, s) \<Rightarrow> (p\<lparr>tpl_list := getAllTemplates s\<rparr>, s))"

text \<open>
  The browser submits the form only when the required name and recipient are not empty and the
  amount, an input of type number, is a number.
\<close>

definition handleCreateTemplate :: "clock \<Rightarrow> string \<Rightarrow> clock \<Rightarrow> templates_page \<times> tm_state \<Rightarrow> templates_page \<times> tm_state" where
  "handleCreateTemplate clk rnd clk' ps =
     (case ps of (p, s) \<Rightarrow>
        let f = tpl_form p
        in (case js_parseFloat (tf_amount f) of
              Fin a \<Rightarrow>
                if tf_name f = [] \<or> tf_recipient f = [] then (p, s)
                else (case createTemplate clk rnd (tf_name f) (tf_recipient f) a (tf_note f) (tf_category f) (read_tags (tf_tags f)) s of
                        (t, s1) \<Rightarrow>
                          let s2 = (if recurringEnabled f then snd (setRecurring clk' (tt_id t) (tf_frequency f) s1) else s1);
                              (q, s3) = load_templates (p\<lparr>tpl_error := [], tpl_success := ''Template created successfully!''\<rparr>, s2)
                          in (q\<lparr>tpl_form := resetForm f, showCreateModal := False\<rparr>, s3))
            | _ \<Rightarrow> (p, s)))"

text \<open>The page moves to the send page with recipient, amount and note in the query.\<close>

definition handleUseTemplate :: "clock \<Rightarrow> TransactionTemplate \<Rightarrow> templates_page \<times> tm_state \<Rightarrow> templates_page \<times> tm_state" where
  "handleUseTemplate clk t ps =
     (case ps of (p, s) \<Rightarrow> (p\<lparr>tpl_location := Some (tt_recipient t, tt_amount t, tt_note t)\<rparr>, snd (useTemplate clk (tt_id t) s)))"

definition handleDeleteTemplate :: "bool \<Rightarrow> string \<Rightarrow> templates_page \<times> tm_state \<Rightarrow> templates_page \<times> tm_state" where
  "handleDeleteTemplate confirmed i ps =
     (case ps of (p, s) \<Rightarrow>
        if confirmed then load_templates (p\<lparr>tpl_success := ''Template deleted''\<rparr>, snd (deleteTemplate i s)) else (p, s))"

definition handleImport :: "TransactionTemplate option list option \<Rightarrow> templates_page \<times> tm_state \<Rightarrow> templates_page \<times> tm_state" where
  "handleImport d ps =
     (case ps of (p, s) \<Rightarrow>
        (case importTemplates d s of
           (Inr n, t) \<Rightarrow> load_templates (p\<lparr>tpl_success := ''Imported '' @ show_nat n @ '' templates''\<rparr>, t)
         | (Inl e, t) \<Rightarrow> (p\<lparr>tpl_error := message e\<rparr>, t)))"

definition filteredTemplates :: "templates_page \<Rightarrow> tm_state \<Rightarrow> TransactionTemplate list" where
  "filteredTemplates p s =
     filter (\<lambda>t. if searchQuery p \<noteq> [] then list_ex (\<lambda>st. tt_id st = tt_id t) (searchTemplates (searchQuery p) s)
                 else if filterCategory p \<noteq> ''all'' then tt_category t = filterCategory p else True) (tpl_list p)"

definition template_categories :: "templates_page \<Rightarrow> string list" where
  "template_categories p = js_Set (filter (\<lambda>c. c \<noteq> []) (map tt_category (tpl_list p)))"

text \<open>With identifiers as keys the search through identifiers is the filter of the service.\<close>

lemma template_search:
  assumes "keyed tt_id (tmpls s)" and "tpl_list p = getAllTemplates s" and "searchQuery p \<noteq> []"
  shows "filteredTemplates p s = searchTemplates (searchQuery p) s"
proof -
  let ?m = "template_matches (toLowerCase (searchQuery p))"
  have "list_ex (\<lambda>st. tt_id st = tt_id t) (searchTemplates (searchQuery p) s) \<longleftrightarrow> ?m t" if "t \<in> set (getAllTemplates s)" for t
  proof -
    have "st = t" if "tt_id st = tt_id t" "(k, st) \<in> set (tmpls s)" "(j, t) \<in> set (tmpls s)" for st j k
    proof -
      have "st \<in> snd ` set (tmpls s)" "t \<in> snd ` set (tmpls s)" using that by force+
      then show ?thesis using that(1) keyed_value_iff [OF assms(1)] by (metis option.inject)
    qed
    then show ?thesis using that by (auto simp: searchTemplates_def list_ex_iff getAllTemplates_def) blast
  qed
  then have "filteredTemplates p s = filter ?m (getAllTemplates s)" using assms(2, 3) by (auto simp: filteredTemplates_def intro!: filter_cong)
  then show ?thesis by (simp add: searchTemplates_def)
qed

text \<open>A template that was made can be found by its name, and a recurring one is due in a day, a week or a month.\<close>

lemma created_template_listed:
  assumes "js_parseFloat (tf_amount (tpl_form p)) = Fin a" and "tf_name (tpl_form p) \<noteq> []" and "tf_recipient (tpl_form p) \<noteq> []"
    and "handleCreateTemplate clk rnd clk' (p, s) = (q, s')"
  shows "\<exists>t \<in> set (tpl_list q). tt_name t = tf_name (tpl_form p) \<and> tt_amount t = a \<and> tt_recipient t = tf_recipient (tpl_form p) \<and>
     tt_recurring t = (if recurringEnabled (tpl_form p)
        then Some \<lparr>rc_enabled = True, rc_frequency = tf_frequency (tpl_form p),
               rc_nextExecution = Some (calculateNextExecution (clk' 0) (tf_frequency (tpl_form p)))\<rparr> else None)"
proof -
  let ?f = "tpl_form p"
  obtain t s1 where t: "createTemplate clk rnd (tf_name ?f) (tf_recipient ?f) a (tf_note ?f) (tf_category ?f) (read_tags (tf_tags ?f)) s = (t, s1)"
    by (cases "createTemplate clk rnd (tf_name ?f) (tf_recipient ?f) a (tf_note ?f) (tf_category ?f) (read_tags (tf_tags ?f)) s") auto
  then have tt: "tt_name t = tf_name ?f" "tt_amount t = a" "tt_recipient t = tf_recipient ?f" "tt_recurring t = None" and s1: "map_of (tmpls s1) (tt_id t) = Some t"
    by (auto simp: createTemplate_def saveTemplates_def Let_def)
  let ?s2 = "if recurringEnabled ?f then snd (setRecurring clk' (tt_id t) (tf_frequency ?f) s1) else s1"
  have list: "tpl_list q = getAllTemplates ?s2" using assms t by (auto simp: handleCreateTemplate_def load_templates_def Let_def)
  have "map_of (tmpls ?s2) (tt_id t) = Some (if recurringEnabled ?f
      then t\<lparr>tt_recurring := Some \<lparr>rc_enabled = True, rc_frequency = tf_frequency ?f,
               rc_nextExecution = Some (calculateNextExecution (clk' 0) (tf_frequency ?f))\<rparr>\<rparr> else t)"
    using s1 by (simp add: setRecurring_def change_template_def saveTemplates_def)
  then have "(if recurringEnabled ?f
      then t\<lparr>tt_recurring := Some \<lparr>rc_enabled = True, rc_frequency = tf_frequency ?f,
               rc_nextExecution = Some (calculateNextExecution (clk' 0) (tf_frequency ?f))\<rparr>\<rparr> else t) \<in> set (tpl_list q)"
    unfolding list by (force simp: getAllTemplates_def dest: map_of_SomeD)
  then show ?thesis by (rule bexI [rotated]) (simp add: tt)
qed

end
