(* ===== verification/CoinPages.thy ===== *)
theory CoinPages
  imports WalletSpend Components
begin

text \<open>
  Coins and addresses on the screen (apps/web/wallet/app/wallet/utxos, wallet/receive and
  wallet/addresses). Which coins are frozen, and their labels, are kept by the page in storage,
  under keys with the address of the wallet; the wallet service does not read them.
\<close>

section \<open>The coin control page\<close>

text \<open>\<open>UTXO\<close> of the page: a coin of the node, whether it is spendable, and what storage says of it.\<close>

record page_coin =
  pc_coin :: UTXO
  pc_spendable :: bool
  pc_frozen :: bool
  pc_label :: "string option"

datatype coin_filter = AllCoins | SpendableCoins | FrozenCoins

datatype coin_sort = CoinAmount | CoinConfirmations | CoinAge

record coin_page =
  cp_active :: "WalletInfo option"
  cp_utxos :: "page_coin list"
  filteredUtxos :: "page_coin list"
  selectedUtxos :: "string list"
  cp_loading :: bool
  cp_error :: "string option"
  cp_success :: "string option"
  cp_filter :: coin_filter
  cp_sort :: coin_sort
  showConsolidateDialog :: bool
  consolidateAddress :: string

text \<open>The items \<open>kubercoin_frozen_utxos_...\<close> and \<open>kubercoin_utxo_labels_...\<close> by address of the wallet.\<close>

record coin_store =
  frozen_item :: "string \<Rightarrow> string list item"
  coin_labels_item :: "string \<Rightarrow> (string \<times> string) list item"

definition initial_coins :: "WalletInfo option \<Rightarrow> coin_page" where
  "initial_coins w = \<lparr>cp_active = w, cp_utxos = [], filteredUtxos = [], selectedUtxos = [], cp_loading = False, cp_error = None,
     cp_success = None, cp_filter = AllCoins, cp_sort = CoinAmount, showConsolidateDialog = False, consolidateAddress = []\<rparr>"

definition coin_key :: "string \<Rightarrow> int \<Rightarrow> string" where
  "coin_key txid vout = txid @ '':'' @ show_int vout"

text \<open>The active wallet, or the first one, which then becomes the active one of the service.\<close>

definition load_coin_wallets :: "'n ws \<Rightarrow> WalletInfo option \<times> 'n ws" where
  "load_coin_wallets s =
     (case getWallets s of (ws, s1) \<Rightarrow>
      case getActiveWallet s1 of (act, s2) \<Rightarrow>
        (case act of
           Some w \<Rightarrow> (Some w, s2)
         | None \<Rightarrow> (case ws of [] \<Rightarrow> (None, s2) | w # _ \<Rightarrow> (Some w, snd (setActiveWallet (address w) s2)))))"

definition load_start :: "coin_page \<Rightarrow> coin_page" where
  "load_start p = (case cp_active p of None \<Rightarrow> p | Some _ \<Rightarrow> p\<lparr>cp_loading := True, cp_error := None\<rparr>)"

definition show_coin :: "string list \<Rightarrow> (string \<times> string) list \<Rightarrow> UTXO \<times> bool \<Rightarrow> page_coin" where
  "show_coin frozen labels c =
     (case c of (u, sp) \<Rightarrow>
        let k = coin_key (u_txid u) (u_vout u); l = map_of labels k
        in \<lparr>pc_coin = u, pc_spendable = sp, pc_frozen = (k \<in> set frozen), pc_label = (if truthy_string l then l else None)\<rparr>)"

text \<open>
  The answer of \<open>getUtxos\<close> for the wallet at \<open>a\<close> (after five seconds the empty list); text in
  storage that cannot be parsed is an error like that of the node.
\<close>

definition load_done :: "string \<Rightarrow> js_error + (UTXO \<times> bool) list \<Rightarrow> coin_store \<Rightarrow> coin_page \<Rightarrow> coin_page" where
  "load_done a r st p =
     (let res = (case r of Inl e \<Rightarrow> Inl e | Inr us \<Rightarrow>
                (case parse_item [] (frozen_item st a) of Inl e \<Rightarrow> Inl e | Inr fz \<Rightarrow>
                (case parse_item [] (coin_labels_item st a) of Inl e \<Rightarrow> Inl e | Inr ls \<Rightarrow> Inr (map (show_coin fz ls) us))))
      in (case res of
            Inl e \<Rightarrow> p\<lparr>cp_utxos := [], cp_error := Some (message e), cp_loading := False\<rparr>
          | Inr cs \<Rightarrow> p\<lparr>cp_utxos := cs, cp_loading := False\<rparr>))"

fun coin_passes :: "coin_filter \<Rightarrow> page_coin \<Rightarrow> bool" where
  "coin_passes AllCoins c = True"
| "coin_passes SpendableCoins c = (pc_spendable c \<and> \<not> pc_frozen c)"
| "coin_passes FrozenCoins c = pc_frozen c"

fun coin_order :: "coin_sort \<Rightarrow> page_coin list \<Rightarrow> page_coin list" where
  "coin_order CoinAmount cs = sort_desc (\<lambda>c. u_amount (pc_coin c)) cs"
| "coin_order CoinConfirmations cs = sort_desc (\<lambda>c. u_confirmations (pc_coin c)) cs"
| "coin_order CoinAge cs = sort_key (\<lambda>c. u_confirmations (pc_coin c)) cs"

definition apply_coin_filters :: "coin_page \<Rightarrow> coin_page" where
  "apply_coin_filters p = p\<lparr>filteredUtxos := coin_order (cp_sort p) (filter (coin_passes (cp_filter p)) (cp_utxos p))\<rparr>"

text \<open>A \<open>Set\<close> in the order of insertion.\<close>

definition flip_key :: "string \<Rightarrow> string list \<Rightarrow> string list" where
  "flip_key k ks = (if k \<in> set ks then filter (\<lambda>x. x \<noteq> k) ks else ks @ [k])"

definition toggleUtxoSelection :: "string \<Rightarrow> int \<Rightarrow> coin_page \<Rightarrow> coin_page" where
  "toggleUtxoSelection txid vout p = p\<lparr>selectedUtxos := flip_key (coin_key txid vout) (selectedUtxos p)\<rparr>"

text \<open>Unreadable storage throws out of the handler, before anything has changed.\<close>

definition toggleFreeze :: "string \<Rightarrow> int \<Rightarrow> coin_page \<times> coin_store \<Rightarrow> coin_page \<times> coin_store" where
  "toggleFreeze txid vout ps =
     (case ps of (p, st) \<Rightarrow>
        (case cp_active p of
           None \<Rightarrow> (p, st)
         | Some w \<Rightarrow>
             (case parse_item [] (frozen_item st (address w)) of
                Inl e \<Rightarrow> (p, st)
              | Inr fz \<Rightarrow>
                  let k = coin_key txid vout; fz' = flip_key k (js_Set fz)
                  in (load_start (p\<lparr>cp_success := Some (if k \<in> set fz then ''UTXO unfrozen'' else ''UTXO frozen'')\<rparr>),
                      st\<lparr>frozen_item := (frozen_item st)(address w := Json fz')\<rparr>))))"

definition handleLabelUtxo :: "string option \<Rightarrow> string \<Rightarrow> int \<Rightarrow> coin_page \<times> coin_store \<Rightarrow> coin_page \<times> coin_store" where
  "handleLabelUtxo answer txid vout ps =
     (case ps of (p, st) \<Rightarrow>
        (case cp_active p of
           None \<Rightarrow> (p, st)
         | Some w \<Rightarrow>
             if \<not> truthy_string answer then (p, st)
             else (case parse_item [] (coin_labels_item st (address w)) of
                     Inl e \<Rightarrow> (p, st)
                   | Inr ls \<Rightarrow>
                       (load_start (p\<lparr>cp_success := Some ''Label added''\<rparr>),
                        st\<lparr>coin_labels_item := (coin_labels_item st)(address w := Json (AList.update (coin_key txid vout) (the answer) ls))\<rparr>))))"

text \<open>\<open>const [txid, vout] = key.split(':')\<close>, and the coin with them.\<close>

definition find_coin :: "page_coin list \<Rightarrow> string \<Rightarrow> page_coin option" where
  "find_coin cs k =
     (case split_on (CHR '':'') k of
        t # v # _ \<Rightarrow> List.find (\<lambda>c. u_txid (pc_coin c) = t \<and> show_int (u_vout (pc_coin c)) = v) cs
      | _ \<Rightarrow> None)"

definition selectedAmount :: "coin_page \<Rightarrow> jsnum" where
  "selectedAmount p = foldl (\<lambda>sum k. sum + (case find_coin (cp_utxos p) k of None \<Rightarrow> 0 | Some c \<Rightarrow> u_amount (pc_coin c))) 0 (selectedUtxos p)"

fun find_all :: "page_coin list \<Rightarrow> string list \<Rightarrow> page_coin list option" where
  "find_all cs [] = Some []"
| "find_all cs (k # ks) =
     (case find_coin cs k of None \<Rightarrow> None | Some c \<Rightarrow> map_option (\<lambda>r. c # r) (find_all cs ks))"

text \<open>\<open>handleConsolidate\<close> up to the call of the service: an error, or the coins and the destination it is given.\<close>

definition consolidate_request :: "coin_page \<Rightarrow> string + (string \<times> page_coin list \<times> string)" where
  "consolidate_request p =
     (case cp_active p of
        None \<Rightarrow> Inl ''Please select UTXOs to consolidate''
      | Some w \<Rightarrow>
          if selectedUtxos p = [] then Inl ''Please select UTXOs to consolidate''
          else if consolidateAddress p = [] then Inl ''Please enter destination address''
          else (case find_all (cp_utxos p) (selectedUtxos p) of
                  None \<Rightarrow> Inl ''Selected UTXO not found''
                | Some cs \<Rightarrow> Inr (address w, cs, consolidateAddress p)))"

definition coin_ref :: "page_coin \<Rightarrow> CoinRef" where
  "coin_ref c = \<lparr>cr_txid = u_txid (pc_coin c), cr_vout = u_vout (pc_coin c), cr_amount = u_amount (pc_coin c),
     cr_scriptPubKey = u_scriptPubKey (pc_coin c)\<rparr>"

definition handleConsolidate :: "'n node_api \<Rightarrow> coin_page \<Rightarrow> 'n ws \<Rightarrow> coin_page \<times> 'n ws" where
  "handleConsolidate api p s =
     (case consolidate_request p of
        Inl e \<Rightarrow> (p\<lparr>cp_error := Some e\<rparr>, s)
      | Inr (a, cs, dest) \<Rightarrow>
          (case consolidateUtxos api a (map coin_ref cs) dest None s of
             (Inl e, t) \<Rightarrow> (p\<lparr>cp_error := Some (message e)\<rparr>, t)
           | (Inr txid, t) \<Rightarrow>
               (load_start (p\<lparr>showConsolidateDialog := False, cp_success := Some (''Consolidation transaction created: '' @ txid),
                  selectedUtxos := []\<rparr>), t)))"

definition is_integer :: "jsnum \<Rightarrow> bool" where
  "is_integer x \<longleftrightarrow> of_int \<lfloor>x\<rfloor> = x"

definition calculatePrivacyScore :: "UTXO \<Rightarrow> int" where
  "calculatePrivacyScore u =
     (let s0 = 100;
          s1 = (if u_amount u > 100 then s0 - 20 else if u_amount u > 10 then s0 - 10 else s0);
          s2 = (if u_confirmations u < 6 then s1 - 30 else if u_confirmations u < 100 then s1 - 10 else s1);
          s3 = (if is_integer (u_amount u) then s2 - 15 else s2)
      in max 0 s3)"

definition getPrivacyColor :: "int \<Rightarrow> string" where
  "getPrivacyColor score = (if score \<ge> 80 then ''text-green-400'' else if score \<ge> 50 then ''text-yellow-400'' else ''text-red-400'')"

text \<open>
  The events of the page. The box of a coin can be ticked only while the coin is shown as spendable
  and not frozen; \<open>Reloaded\<close> is the answer to a load for the active wallet.
\<close>

datatype coin_event =
    Reloaded "js_error + (UTXO \<times> bool) list" | Tick page_coin | Freeze string int | LabelCoin "string option" string int
  | FilterCoins coin_filter | SortCoins coin_sort | ClearSelection | OpenConsolidate | TypeDestination string | CloseConsolidate

fun coin_step :: "coin_event \<Rightarrow> coin_page \<times> coin_store \<Rightarrow> coin_page \<times> coin_store" where
  "coin_step (Reloaded r) (p, st) = (case cp_active p of None \<Rightarrow> (p, st) | Some w \<Rightarrow> (apply_coin_filters (load_done (address w) r st p), st))"
| "coin_step (Tick c) (p, st) =
     (if c \<in> set (filteredUtxos p) \<and> \<not> pc_frozen c \<and> pc_spendable c
      then (toggleUtxoSelection (u_txid (pc_coin c)) (u_vout (pc_coin c)) p, st) else (p, st))"
| "coin_step (Freeze t v) (p, st) = toggleFreeze t v (p, st)"
| "coin_step (LabelCoin l t v) (p, st) = handleLabelUtxo l t v (p, st)"
| "coin_step (FilterCoins f) (p, st) = (apply_coin_filters (p\<lparr>cp_filter := f\<rparr>), st)"
| "coin_step (SortCoins o') (p, st) = (apply_coin_filters (p\<lparr>cp_sort := o'\<rparr>), st)"
| "coin_step ClearSelection (p, st) = (p\<lparr>selectedUtxos := []\<rparr>, st)"
| "coin_step OpenConsolidate (p, st) =
     (if length (selectedUtxos p) < 2 then (p, st)
      else (p\<lparr>consolidateAddress := (case cp_active p of None \<Rightarrow> [] | Some w \<Rightarrow> address w), showConsolidateDialog := True\<rparr>, st))"
| "coin_step (TypeDestination a) (p, st) = (p\<lparr>consolidateAddress := a\<rparr>, st)"
| "coin_step CloseConsolidate (p, st) = (p\<lparr>showConsolidateDialog := False\<rparr>, st)"

subsection \<open>Keys and selections\<close>

lemma set_flip_key: "set (flip_key k ks) = (if k \<in> set ks then set ks - {k} else insert k (set ks))"
  by (auto simp: flip_key_def)

lemma distinct_flip_key: "distinct ks \<Longrightarrow> distinct (flip_key k ks)"
  by (simp add: flip_key_def)

lemma flip_twice: "set (flip_key k (flip_key k ks)) = set ks"
  by (auto simp: set_flip_key)

text \<open>Freezing twice gives back the frozen coins, and no coin of another wallet is touched.\<close>

lemma freeze_twice:
  assumes "cp_active p = Some w" and "frozen_item st (address w) = Json fz" and "toggleFreeze t v (toggleFreeze t v (p, st)) = (p', st')"
  shows "\<exists>fz'. frozen_item st' (address w) = Json fz' \<and> set fz' = set fz"
    and "\<And>a. a \<noteq> address w \<Longrightarrow> frozen_item st' a = frozen_item st a"
proof -
  have "distinct (flip_key (coin_key t v) (js_Set fz))" by (simp add: distinct_flip_key)
  moreover have "cp_active (load_start q) = cp_active q" for q by (simp add: load_start_def split: option.splits)
  ultimately have st': "frozen_item st' = (frozen_item st)(address w := Json (flip_key (coin_key t v) (flip_key (coin_key t v) (js_Set fz))))"
    using assms by (auto simp: toggleFreeze_def Let_def js_Set_distinct split: if_splits)
  then show "\<exists>fz'. frozen_item st' (address w) = Json fz' \<and> set fz' = set fz"
    by (simp add: flip_twice)
  show "\<And>a. a \<noteq> address w \<Longrightarrow> frozen_item st' a = frozen_item st a" using st' by simp
qed

lemma show_int_no_colon: "CHR '':'' \<notin> set (show_int n)"
proof -
  have "\<not> is_digit (CHR '':'')" by (simp add: is_digit_def)
  then have "CHR '':'' \<notin> set (show_nat m)" for m using show_nat_digits [of m] by (auto simp: list_all_iff)
  then show ?thesis by (simp add: show_int_def)
qed

lemma split_coin_key: "CHR '':'' \<notin> set t \<Longrightarrow> split_on (CHR '':'') (coin_key t v) = [t, show_int v]"
  by (simp add: coin_key_def split_on_append split_on_free show_int_no_colon)

definition plain_ids :: "page_coin list \<Rightarrow> bool" where
  "plain_ids cs \<longleftrightarrow> (\<forall>c \<in> set cs. CHR '':'' \<notin> set (u_txid (pc_coin c))) \<and>
     distinct (map (\<lambda>c. (u_txid (pc_coin c), u_vout (pc_coin c))) cs)"

lemma find_coin_key:
  assumes "plain_ids cs" and "c \<in> set cs"
  shows "find_coin cs (coin_key (u_txid (pc_coin c)) (u_vout (pc_coin c))) = Some c"
proof -
  let ?P = "\<lambda>x. u_txid (pc_coin x) = u_txid (pc_coin c) \<and> show_int (u_vout (pc_coin x)) = show_int (u_vout (pc_coin c))"
  have "x = c" if "x \<in> set cs" "?P x" for x
    using that assms by (auto simp: plain_ids_def distinct_map dest: inj_onD)
  moreover have "List.find ?P cs \<noteq> None" using assms(2) by (auto simp: find_None_iff)
  ultimately have "List.find ?P cs = Some c" by (auto dest: find_SomeD)
  then show ?thesis using assms by (simp add: find_coin_def split_coin_key plain_ids_def)
qed

lemma find_all_keys:
  assumes "plain_ids cs" and "set sel \<subseteq> set cs"
  shows "find_all cs (map (\<lambda>c. coin_key (u_txid (pc_coin c)) (u_vout (pc_coin c))) sel) = Some sel"
  using assms(2) by (induction sel) (simp_all add: find_coin_key [OF assms(1)])

text \<open>
  When the selected keys are those of coins that are shown, with transaction identifiers
  without a colon, the service is given exactly these coins, in the order in which they were
  selected, and the amount shown is their sum.
\<close>

theorem consolidates_selection:
  assumes "plain_ids (cp_utxos p)" and "set sel \<subseteq> set (cp_utxos p)" and "sel \<noteq> []"
    and "selectedUtxos p = map (\<lambda>c. coin_key (u_txid (pc_coin c)) (u_vout (pc_coin c))) sel"
    and "cp_active p = Some w" and "consolidateAddress p \<noteq> []"
  shows "consolidate_request p = Inr (address w, sel, consolidateAddress p) \<and> selectedAmount p = sum_by (\<lambda>c. u_amount (pc_coin c)) sel"
proof
  show "consolidate_request p = Inr (address w, sel, consolidateAddress p)"
    using assms find_all_keys [OF assms(1, 2)] by (simp add: consolidate_request_def)
  have "(case find_coin (cp_utxos p) (coin_key (u_txid (pc_coin c)) (u_vout (pc_coin c))) of None \<Rightarrow> 0 | Some c \<Rightarrow> u_amount (pc_coin c)) = u_amount (pc_coin c)"
    if "c \<in> set sel" for c using that assms(2) find_coin_key [OF assms(1)] by auto
  then have "map (\<lambda>k. case find_coin (cp_utxos p) k of None \<Rightarrow> 0 | Some c \<Rightarrow> u_amount (pc_coin c)) (selectedUtxos p) = map (\<lambda>c. u_amount (pc_coin c)) sel"
    by (simp add: assms(4))
  then show "selectedAmount p = sum_by (\<lambda>c. u_amount (pc_coin c)) sel"
    by (simp add: selectedAmount_def foldl_add_sum_list sum_by_sum_list)
qed

definition demo_coin :: "string \<Rightarrow> jsnum \<Rightarrow> UTXO" where
  "demo_coin t a = \<lparr>u_txid = t, u_vout = 0, u_address = ''KC1a'', u_scriptPubKey = [], u_amount = a, u_confirmations = 9\<rparr>"

definition demo_owner :: WalletInfo where
  "demo_owner = \<lparr>address = ''KC1a'', label = ''main'', balance = 5, unconfirmedBalance = 0, privateKey = None, publicKey = None,
     createdAt = 0, watchOnly = None, xpub = None\<rparr>"

definition demo_store :: coin_store where
  "demo_store = \<lparr>frozen_item = (\<lambda>_. Absent), coin_labels_item = (\<lambda>_. Absent)\<rparr>"

definition shown :: "string \<Rightarrow> jsnum \<Rightarrow> page_coin" where
  "shown t a = show_coin [] [] (demo_coin t a, True)"

definition demo_coins :: "coin_event list" where
  "demo_coins = [Reloaded (Inr [(demo_coin ''t'' 2, True), (demo_coin ''u'' 3, True)]), Tick (shown ''t'' 2), Tick (shown ''u'' 3), OpenConsolidate]"

theorem consolidates_selection_witness:
  "consolidate_request (fst (fold coin_step demo_coins (initial_coins (Some demo_owner), demo_store))) =
     Inr (''KC1a'', [shown ''t'' 2, shown ''u'' 3], ''KC1a'') \<and>
   selectedAmount (fst (fold coin_step demo_coins (initial_coins (Some demo_owner), demo_store))) = 5"
proof -
  let ?p = "fst (fold coin_step demo_coins (initial_coins (Some demo_owner), demo_store))"
  have "plain_ids (cp_utxos ?p) \<and> set [shown ''t'' 2, shown ''u'' 3] \<subseteq> set (cp_utxos ?p)" by code_simp
  moreover have "selectedUtxos ?p = map (\<lambda>c. coin_key (u_txid (pc_coin c)) (u_vout (pc_coin c))) [shown ''t'' 2, shown ''u'' 3]" by code_simp
  moreover have "cp_active ?p = Some demo_owner \<and> consolidateAddress ?p = ''KC1a''" by code_simp
  moreover have "address demo_owner = ''KC1a'' \<and> sum_by (\<lambda>c. u_amount (pc_coin c)) [shown ''t'' 2, shown ''u'' 3] = 5" by code_simp
  ultimately show ?thesis using consolidates_selection [of ?p "[shown ''t'' 2, shown ''u'' 3]" demo_owner] by simp
qed

text \<open>
  A coin that was selected and then frozen stays selected, and its box can no longer be cleared: it
  is consolidated although it is frozen.
\<close>

lemma frozen_coin_consolidated:
  "let p = fst (fold coin_step (demo_coins @ [Freeze ''t'' 0, Reloaded (Inr [(demo_coin ''t'' 2, True), (demo_coin ''u'' 3, True)])])
                (initial_coins (Some demo_owner), demo_store))
   in (case consolidate_request p of Inr (_, cs, _) \<Rightarrow> map (\<lambda>c. (u_txid (pc_coin c), pc_frozen c)) cs | _ \<Rightarrow> []) = [(''t'', True), (''u'', False)]"
  by code_simp

text \<open>Only unfrozen coins come in by a tick, so what is selected was unfrozen when it was selected.\<close>

lemma tick_adds_unfrozen:
  assumes "k \<in> set (selectedUtxos (fst (coin_step e (p, st))))" and "k \<notin> set (selectedUtxos p)"
  shows "\<exists>c \<in> set (filteredUtxos p). e = Tick c \<and> pc_spendable c \<and> \<not> pc_frozen c \<and> k = coin_key (u_txid (pc_coin c)) (u_vout (pc_coin c))"
proof (cases e)
  case (Tick c)
  then show ?thesis using assms by (auto simp: toggleUtxoSelection_def flip_key_def split: if_splits)
qed (use assms in \<open>auto simp: load_done_def load_start_def apply_coin_filters_def toggleFreeze_def handleLabelUtxo_def Let_def
       split: option.splits sum.splits if_splits\<close>)

lemma coin_privacy_range: "35 \<le> calculatePrivacyScore u \<and> calculatePrivacyScore u \<le> 100"
  by (simp add: calculatePrivacyScore_def Let_def)

section \<open>The receive page\<close>

record receive_page =
  rp_wallets :: "WalletInfo list"
  rp_active :: "WalletInfo option"
  selectedAddress :: string
  rp_copied :: bool
  rp_loading :: bool
  rp_error :: "string option"
  addressHistory :: "string list"
  address_history_item :: "string list item"

text \<open>\<open>loadWallets\<close> up to the update of the balance, and what follows it.\<close>

definition receive_wallets :: "WalletInfo list \<Rightarrow> WalletInfo option \<Rightarrow> receive_page \<Rightarrow> receive_page" where
  "receive_wallets ws act p =
     (let p1 = p\<lparr>rp_wallets := ws, rp_active := act\<rparr>
      in case act of None \<Rightarrow> p1 | Some w \<Rightarrow> p1\<lparr>selectedAddress := address w\<rparr>)"

definition receive_balance :: "WalletInfo option \<Rightarrow> receive_page \<Rightarrow> receive_page" where
  "receive_balance updated p = (case updated of None \<Rightarrow> p | Some w \<Rightarrow> p\<lparr>rp_active := Some w\<rparr>)"

definition loadAddressHistory :: "receive_page \<Rightarrow> receive_page" where
  "loadAddressHistory p = (case address_history_item p of Json h \<Rightarrow> p\<lparr>addressHistory := h\<rparr> | _ \<Rightarrow> p)"

definition saveAddressToHistory :: "string \<Rightarrow> receive_page \<Rightarrow> receive_page" where
  "saveAddressToHistory a p =
     (let h = take 10 (js_Set (a # addressHistory p)) in p\<lparr>addressHistory := h, address_history_item := Json h\<rparr>)"

definition generate_start :: "receive_page \<Rightarrow> receive_page" where
  "generate_start p = (case rp_active p of None \<Rightarrow> p | Some _ \<Rightarrow> p\<lparr>rp_loading := True, rp_error := None\<rparr>)"

text \<open>The node has answered with a new address; the wallets are then loaded again.\<close>

definition generate_done :: "js_error + string \<Rightarrow> WalletInfo list \<Rightarrow> WalletInfo option \<Rightarrow> WalletInfo option \<Rightarrow> receive_page \<Rightarrow> receive_page" where
  "generate_done r ws act updated p =
     (case r of
        Inl e \<Rightarrow> p\<lparr>rp_error := Some (message e), rp_loading := False\<rparr>
      | Inr a \<Rightarrow>
          (let p1 = receive_wallets ws act (saveAddressToHistory a (p\<lparr>selectedAddress := a\<rparr>));
               p2 = (case act of None \<Rightarrow> p1 | Some _ \<Rightarrow> receive_balance updated p1)
           in p2\<lparr>rp_loading := False\<rparr>))"

definition receive_copy :: "receive_page \<Rightarrow> receive_page" where
  "receive_copy p = (if selectedAddress p = [] then p else p\<lparr>rp_copied := True\<rparr>)"

definition receive_select :: "WalletInfo \<Rightarrow> receive_page \<times> 'n ws \<Rightarrow> receive_page \<times> 'n ws" where
  "receive_select w ps =
     (case ps of (p, s) \<Rightarrow> (p\<lparr>rp_active := Some w, selectedAddress := address w\<rparr>, snd (setActiveWallet (address w) s)))"

definition getAddressUsageCount :: "string \<Rightarrow> receive_page \<Rightarrow> nat" where
  "getAddressUsageCount a p = length (filter (\<lambda>x. x = a) (addressHistory p))"

lemma history_short_distinct:
  "distinct (addressHistory (saveAddressToHistory a p)) \<and> length (addressHistory (saveAddressToHistory a p)) \<le> 10 \<and>
   hd (addressHistory (saveAddressToHistory a p)) = a \<and>
   addressHistory (loadAddressHistory (saveAddressToHistory a p)) = addressHistory (saveAddressToHistory a p)"
proof -
  have hd: "hd (js_Set (x # xs)) = x" for x :: string and xs
  proof -
    have "remdups (ys @ [x]) \<noteq> [] \<and> last (remdups (ys @ [x])) = x" for ys by (induction ys) auto
    then show ?thesis by (simp add: js_Set_def hd_rev)
  qed
  have "js_Set (a # addressHistory p) \<noteq> []" by (metis set_js_Set list.set_intros(1) empty_iff list.set(1))
  then show ?thesis using hd [of a "addressHistory p"] distinct_take [OF distinct_js_Set, of 10 "a # addressHistory p"]
    by (cases "js_Set (a # addressHistory p)") (simp_all add: saveAddressToHistory_def loadAddressHistory_def Let_def)
qed

text \<open>The usage count is therefore at most one.\<close>

lemma usage_at_most_once: "getAddressUsageCount b (saveAddressToHistory a p) \<le> 1"
proof -
  have "distinct xs \<Longrightarrow> length (filter (\<lambda>x. x = b) xs) \<le> 1" for xs :: "string list"
    by (induction xs) (auto simp: filter_empty_conv)
  then show ?thesis using history_short_distinct [of a p] by (simp add: getAddressUsageCount_def)
qed

text \<open>With an active wallet a new address is never left on the screen: loading the wallets selects that of the active wallet.\<close>

lemma new_address_hidden:
  "selectedAddress (generate_done (Inr a) ws (Some w) updated p) = address w"
  by (cases updated) (simp_all add: generate_done_def receive_wallets_def receive_balance_def Let_def)

section \<open>The addresses page\<close>

record Address =
  ad_address :: string
  ad_balance :: jsnum
  ad_used :: bool
  ad_txCount :: nat
  ad_lastUsed :: "int option"
  ad_path :: string
  ad_receive :: bool
  ad_watchOnly :: "bool option"

text \<open>The latest time of a history: the first after sorting downwards.\<close>

definition latest_time :: "WalletTransactionRecord list \<Rightarrow> int option" where
  "latest_time h = (case sort_desc id (List.map_filter wt_timestamp h) of [] \<Rightarrow> None | t # _ \<Rightarrow> Some t)"

definition address_row :: "nat \<Rightarrow> WalletInfo \<Rightarrow> WalletTransactionRecord list \<Rightarrow> Address" where
  "address_row i w h =
     \<lparr>ad_address = address w, ad_balance = balance w + unconfirmedBalance w,
      ad_used = (h \<noteq> [] \<or> balance w > 0 \<or> unconfirmedBalance w > 0), ad_txCount = length h,
      ad_lastUsed = (if latest_time h = Some 0 then None else latest_time h),
      ad_path = (if watchOnly w = Some True then ''watch-only'' else ''m/44'' @ [CHR 0x27] @ ''/0'' @ [CHR 0x27] @ ''/0'' @ [CHR 0x27] @ ''/0/'' @ show_nat i),
      ad_receive = True, ad_watchOnly = watchOnly w\<rparr>"

datatype address_tab = AllTab | UsedTab | UnusedTab | ReceiveTab | ChangeTab

record addresses_page =
  activeTab :: address_tab
  ap_searchQuery :: string
  currentPage :: nat
  showGenerateModal :: bool
  generateCount :: string
  ap_addresses :: "Address list"
  submitting :: bool
  ap_error :: "string option"
  ap_success :: "string option"

definition matchesTab :: "address_tab \<Rightarrow> Address \<Rightarrow> bool" where
  "matchesTab tab a \<longleftrightarrow>
     tab = AllTab \<or> (tab = UsedTab \<and> ad_used a) \<or> (tab = UnusedTab \<and> \<not> ad_used a) \<or>
     (tab = ReceiveTab \<and> ad_receive a) \<or> (tab = ChangeTab \<and> \<not> ad_receive a)"

definition matchesSearch :: "string \<Rightarrow> Address \<Rightarrow> bool" where
  "matchesSearch q a \<longleftrightarrow> q = [] \<or> str_includes (toLowerCase (ad_address a)) (toLowerCase q)"

definition filteredAddresses :: "addresses_page \<Rightarrow> Address list" where
  "filteredAddresses p = filter (\<lambda>a. matchesTab (activeTab p) a \<and> matchesSearch (ap_searchQuery p) a) (ap_addresses p)"

definition pageSize :: nat where
  "pageSize = 10"

definition pagedAddresses :: "addresses_page \<Rightarrow> Address list" where
  "pagedAddresses p = page_slice pageSize (currentPage p) (filteredAddresses p)"

text \<open>\<open>Math.ceil\<close> of a quotient, in whole numbers.\<close>

definition addresses_total :: "addresses_page \<Rightarrow> int" where
  "addresses_total p = max 1 (- (- int (length (filteredAddresses p)) div int pageSize))"

definition hasReuseWarning :: "addresses_page \<Rightarrow> bool" where
  "hasReuseWarning p = list_ex (\<lambda>a. ad_used a \<and> ad_balance a > 0) (ap_addresses p)"

text \<open>Choosing a tab or a search goes back to the first page.\<close>

definition pick_tab :: "address_tab \<Rightarrow> addresses_page \<Rightarrow> addresses_page" where
  "pick_tab t p = (if t = activeTab p then p else p\<lparr>activeTab := t, currentPage := 1\<rparr>)"

definition pick_search :: "string \<Rightarrow> addresses_page \<Rightarrow> addresses_page" where
  "pick_search q p = (if q = ap_searchQuery p then p else p\<lparr>ap_searchQuery := q, currentPage := 1\<rparr>)"

fun generate_all :: "'n node_api \<Rightarrow> clock \<Rightarrow> nat \<Rightarrow> nat \<Rightarrow> nat \<Rightarrow> ('n ws, unit) eff" where
  "generate_all api clk base i 0 = eret ()"
| "generate_all api clk base i (Suc n) =
     ebind (generateWallet api clk (''Receive Address '' @ show_nat (base + i + 1))) (\<lambda>_. generate_all api clk base (Suc i) n)"

text \<open>Up to the reload of the addresses; \<open>rows\<close> are the rows that it gives.\<close>

definition handleGenerateAddresses ::
    "'n node_api \<Rightarrow> clock \<Rightarrow> ('n ws \<Rightarrow> Address list) \<Rightarrow> addresses_page \<times> 'n ws \<Rightarrow> addresses_page \<times> 'n ws" where
  "handleGenerateAddresses api clk rows ps =
     (case ps of (p, s) \<Rightarrow>
        (case js_parseInt (generateCount p) of
           None \<Rightarrow> (p\<lparr>ap_error := Some ''Enter a number between 1 and 100''\<rparr>, s)
         | Some n \<Rightarrow>
             if n \<le> 0 \<or> n > 100 then (p\<lparr>ap_error := Some ''Enter a number between 1 and 100''\<rparr>, s)
             else (case generate_all api clk (length (ap_addresses p)) 0 (nat n) s of
                     (Inl e, t) \<Rightarrow> (p\<lparr>ap_error := Some (message e), ap_success := None, submitting := False\<rparr>, t)
                   | (Inr _, t) \<Rightarrow>
                       (p\<lparr>ap_error := None, ap_addresses := rows t,
                          ap_success := Some (''Generated '' @ show_int n @ '' new '' @ (if n = 1 then ''address'' else ''addresses'')),
                          showGenerateModal := False, generateCount := ''1'', submitting := False\<rparr>, t))))"

lemma latest_time_is_max:
  "latest_time h = (let ts = List.map_filter wt_timestamp h in if ts = [] then None else Some (Max (set ts)))"
proof (cases "sort_desc id (List.map_filter wt_timestamp h)")
  case Nil
  then have "List.map_filter wt_timestamp h = []" by (metis set_empty set_sort_desc)
  then show ?thesis using Nil by (simp add: latest_time_def)
next
  case (Cons t ts)
  let ?xs = "List.map_filter wt_timestamp h"
  have "sorted (map uminus (t # ts))" using Cons by (metis (no_types, lifting) id_apply map_eq_conv sort_desc_def sorted_sort_key)
  then have "\<forall>x \<in> set (t # ts). x \<le> t" by simp
  moreover have "set (t # ts) = set ?xs" using Cons by (metis set_sort_desc)
  ultimately have "Max (set ?xs) = t" by (metis List.finite_set Max_eqI list.set_intros(1))
  moreover have "?xs \<noteq> []" using \<open>set (t # ts) = set ?xs\<close> by auto
  ultimately show ?thesis using Cons by (simp add: latest_time_def)
qed

text \<open>Every row is of type receive: the tab for change addresses is always empty.\<close>

lemma change_tab_empty:
  "activeTab p = ChangeTab \<Longrightarrow> \<forall>a \<in> set (ap_addresses p). \<exists>i w h. a = address_row i w h \<Longrightarrow> filteredAddresses p = []"
  by (auto simp: filteredAddresses_def matchesTab_def address_row_def filter_empty_conv)

text \<open>The pages that are offered hold every filtered address once.\<close>

lemma address_pages_cover:
  "concat (map (\<lambda>k. pagedAddresses (p\<lparr>currentPage := k\<rparr>)) [1..<Suc (nat (addresses_total p))]) = filteredAddresses p"
proof -
  have "length (filteredAddresses p) \<le> nat (addresses_total p) * 10" by (simp add: addresses_total_def pageSize_def)
  moreover have "filteredAddresses (p\<lparr>currentPage := k\<rparr>) = filteredAddresses p" for k by (simp add: filteredAddresses_def)
  ultimately show ?thesis
    using page_slices [of 10 "filteredAddresses p" "nat (addresses_total p)"] by (simp add: pagedAddresses_def pageSize_def)
qed

text \<open>A count that is no number from 1 to 100 reaches neither the service nor the node.\<close>

lemma bad_count_refused:
  "(\<forall>n. js_parseInt (generateCount p) = Some n \<longrightarrow> n \<le> 0 \<or> n > 100) \<Longrightarrow> snd (handleGenerateAddresses api clk rows (p, s)) = s"
  by (auto simp: handleGenerateAddresses_def split: option.splits)

end
