(* ===== verification/Settings.thy ===== *)
theory Settings
  imports JsStore
begin

text \<open>
  The application settings (services/settings.ts): five sections with defaults, merged with what
  storage or an imported file holds, updates of each section, and the formatting of amounts. The
  merge is shallow: a stored section replaces the default one whole, and a field it lacks is then
  \<open>undefined\<close> (\<open>None\<close>). Sections that are present but \<open>null\<close> are not modelled.
\<close>

section \<open>Data\<close>

datatype theme = Dark | Light | Auto
datatype unit_name = KBC | MKBC | Sat
datatype network_name = Mainnet | Testnet | Regtest
datatype frequency = Daily | Weekly | Monthly

record GeneralSettings =
  g_language :: "string option"
  g_currency :: "string option"
  g_theme :: "theme option"

record DisplaySettings =
  d_unit :: "unit_name option"
  d_decimalPlaces :: "int option"
  d_hideSmallBalances :: "bool option"
  d_smallBalanceThreshold :: "jsnum option"

record NetworkSettings =
  n_nodeUrl :: "string option"
  n_network :: "network_name option"
  n_autoConnect :: "bool option"
  n_connectionTimeout :: "int option"

record PrivacySettings =
  p_addressDerivationGap :: "int option"
  p_autoConsolidateUtxos :: "bool option"
  p_consolidationThreshold :: "int option"
  p_dustThreshold :: "jsnum option"
  p_avoidAddressReuse :: "bool option"

record BackupSettings =
  b_autoBackup :: "bool option"
  b_backupFrequency :: "frequency option"
  b_backupLocation :: "string option"
  b_cloudSync :: "bool option"
  b_encryptBackups :: "bool option"

record AppSettings =
  general :: GeneralSettings
  display :: DisplaySettings
  network :: NetworkSettings
  privacy :: PrivacySettings
  backup :: BackupSettings

text \<open>
  What is read from storage or a file: the sections that the object has. A JSON text that is no
  object (\<open>null\<close>, a number, a truth value) spreads to nothing, as the empty object does.
\<close>

record StoredSettings =
  st_general :: "GeneralSettings option"
  st_display :: "DisplaySettings option"
  st_network :: "NetworkSettings option"
  st_privacy :: "PrivacySettings option"
  st_backup :: "BackupSettings option"

definition no_sections :: StoredSettings where
  "no_sections = \<lparr>st_general = None, st_display = None, st_network = None, st_privacy = None, st_backup = None\<rparr>"

record set_state =
  app_settings :: AppSettings
  app_item :: "StoredSettings item"

section \<open>Operations\<close>

definition getDefaultSettings :: AppSettings where
  "getDefaultSettings =
     \<lparr>general = \<lparr>g_language = Some ''en'', g_currency = Some ''USD'', g_theme = Some Dark\<rparr>,
      display = \<lparr>d_unit = Some KBC, d_decimalPlaces = Some 8, d_hideSmallBalances = Some False,
        d_smallBalanceThreshold = Some (1 / 100000)\<rparr>,
      network = \<lparr>n_nodeUrl = Some ''http://localhost:8332'', n_network = Some Mainnet, n_autoConnect = Some True,
        n_connectionTimeout = Some 30000\<rparr>,
      privacy = \<lparr>p_addressDerivationGap = Some 20, p_autoConsolidateUtxos = Some False,
        p_consolidationThreshold = Some 10, p_dustThreshold = Some (1 / 100000), p_avoidAddressReuse = Some True\<rparr>,
      backup = \<lparr>b_autoBackup = Some False, b_backupFrequency = Some Weekly, b_backupLocation = Some [],
        b_cloudSync = Some False, b_encryptBackups = Some True\<rparr>\<rparr>"

text \<open>\<open>{ ...settings, ...loaded }\<close>\<close>

definition spread_settings :: "AppSettings \<Rightarrow> StoredSettings \<Rightarrow> AppSettings" where
  "spread_settings a l =
     \<lparr>general = or_keep (st_general l) (general a), display = or_keep (st_display l) (display a),
      network = or_keep (st_network l) (network a), privacy = or_keep (st_privacy l) (privacy a),
      backup = or_keep (st_backup l) (backup a)\<rparr>"

text \<open>\<open>JSON.stringify(this.settings)\<close>: all five sections.\<close>

definition to_stored :: "AppSettings \<Rightarrow> StoredSettings" where
  "to_stored a = \<lparr>st_general = Some (general a), st_display = Some (display a), st_network = Some (network a),
     st_privacy = Some (privacy a), st_backup = Some (backup a)\<rparr>"

definition loadSettings :: "set_state \<Rightarrow> set_state" where
  "loadSettings s =
     (case app_item s of
        Json l \<Rightarrow> s\<lparr>app_settings := spread_settings (app_settings s) l\<rparr>
      | _ \<Rightarrow> s)"

definition new_Settings :: "StoredSettings item \<Rightarrow> set_state" where
  "new_Settings i = loadSettings \<lparr>app_settings = getDefaultSettings, app_item = i\<rparr>"

definition saveSettings :: "set_state \<Rightarrow> set_state" where
  "saveSettings s = s\<lparr>app_item := Json (to_stored (app_settings s))\<rparr>"

definition getSettings :: "set_state \<Rightarrow> AppSettings" where
  "getSettings s = app_settings s"

definition getGeneralSettings :: "set_state \<Rightarrow> GeneralSettings" where
  "getGeneralSettings s = general (app_settings s)"

definition getDisplaySettings :: "set_state \<Rightarrow> DisplaySettings" where
  "getDisplaySettings s = display (app_settings s)"

definition getNetworkSettings :: "set_state \<Rightarrow> NetworkSettings" where
  "getNetworkSettings s = network (app_settings s)"

definition getPrivacySettings :: "set_state \<Rightarrow> PrivacySettings" where
  "getPrivacySettings s = privacy (app_settings s)"

definition getBackupSettings :: "set_state \<Rightarrow> BackupSettings" where
  "getBackupSettings s = backup (app_settings s)"

text \<open>Updates are objects of the section's type; a field that is not updated is \<open>None\<close>.\<close>

definition given :: "'a option \<Rightarrow> 'a option \<Rightarrow> 'a option" where
  "given u x = (case u of None \<Rightarrow> x | Some y \<Rightarrow> Some y)"

definition updateGeneralSettings :: "GeneralSettings \<Rightarrow> set_state \<Rightarrow> set_state" where
  "updateGeneralSettings u s =
     (let o' = general (app_settings s)
      in saveSettings (s\<lparr>app_settings := (app_settings s)\<lparr>general :=
           \<lparr>g_language = given (g_language u) (g_language o'), g_currency = given (g_currency u) (g_currency o'),
            g_theme = given (g_theme u) (g_theme o')\<rparr>\<rparr>\<rparr>))"

definition updateDisplaySettings :: "DisplaySettings \<Rightarrow> set_state \<Rightarrow> set_state" where
  "updateDisplaySettings u s =
     (let o' = display (app_settings s)
      in saveSettings (s\<lparr>app_settings := (app_settings s)\<lparr>display :=
           \<lparr>d_unit = given (d_unit u) (d_unit o'), d_decimalPlaces = given (d_decimalPlaces u) (d_decimalPlaces o'),
            d_hideSmallBalances = given (d_hideSmallBalances u) (d_hideSmallBalances o'),
            d_smallBalanceThreshold = given (d_smallBalanceThreshold u) (d_smallBalanceThreshold o')\<rparr>\<rparr>\<rparr>))"

definition updateNetworkSettings :: "NetworkSettings \<Rightarrow> set_state \<Rightarrow> set_state" where
  "updateNetworkSettings u s =
     (let o' = network (app_settings s)
      in saveSettings (s\<lparr>app_settings := (app_settings s)\<lparr>network :=
           \<lparr>n_nodeUrl = given (n_nodeUrl u) (n_nodeUrl o'), n_network = given (n_network u) (n_network o'),
            n_autoConnect = given (n_autoConnect u) (n_autoConnect o'),
            n_connectionTimeout = given (n_connectionTimeout u) (n_connectionTimeout o')\<rparr>\<rparr>\<rparr>))"

definition updatePrivacySettings :: "PrivacySettings \<Rightarrow> set_state \<Rightarrow> set_state" where
  "updatePrivacySettings u s =
     (let o' = privacy (app_settings s)
      in saveSettings (s\<lparr>app_settings := (app_settings s)\<lparr>privacy :=
           \<lparr>p_addressDerivationGap = given (p_addressDerivationGap u) (p_addressDerivationGap o'),
            p_autoConsolidateUtxos = given (p_autoConsolidateUtxos u) (p_autoConsolidateUtxos o'),
            p_consolidationThreshold = given (p_consolidationThreshold u) (p_consolidationThreshold o'),
            p_dustThreshold = given (p_dustThreshold u) (p_dustThreshold o'),
            p_avoidAddressReuse = given (p_avoidAddressReuse u) (p_avoidAddressReuse o')\<rparr>\<rparr>\<rparr>))"

definition updateBackupSettings :: "BackupSettings \<Rightarrow> set_state \<Rightarrow> set_state" where
  "updateBackupSettings u s =
     (let o' = backup (app_settings s)
      in saveSettings (s\<lparr>app_settings := (app_settings s)\<lparr>backup :=
           \<lparr>b_autoBackup = given (b_autoBackup u) (b_autoBackup o'),
            b_backupFrequency = given (b_backupFrequency u) (b_backupFrequency o'),
            b_backupLocation = given (b_backupLocation u) (b_backupLocation o'),
            b_cloudSync = given (b_cloudSync u) (b_cloudSync o'),
            b_encryptBackups = given (b_encryptBackups u) (b_encryptBackups o')\<rparr>\<rparr>\<rparr>))"

definition resetSettings :: "set_state \<Rightarrow> set_state" where
  "resetSettings s = saveSettings (s\<lparr>app_settings := getDefaultSettings\<rparr>)"

definition exportSettings :: "set_state \<Rightarrow> StoredSettings" where
  "exportSettings s = to_stored (app_settings s)"

text \<open>The imported text; \<open>None\<close> is one that \<open>JSON.parse\<close> refuses.\<close>

definition importSettings :: "StoredSettings option \<Rightarrow> set_state \<Rightarrow> bool \<times> set_state" where
  "importSettings d s =
     (case d of
        None \<Rightarrow> (False, s)
      | Some l \<Rightarrow> (True, saveSettings (s\<lparr>app_settings := spread_settings getDefaultSettings l\<rparr>)))"

section \<open>Amounts\<close>

fun unit_text :: "unit_name option \<Rightarrow> string" where
  "unit_text None = ''undefined''"
| "unit_text (Some KBC) = ''KBC''"
| "unit_text (Some MKBC) = ''mKBC''"
| "unit_text (Some Sat) = ''sat''"

fun in_unit :: "unit_name option \<Rightarrow> jsnum \<Rightarrow> jsnum" where
  "in_unit (Some MKBC) a = a * 1000"
| "in_unit (Some Sat) a = a * 100000000"
| "in_unit _ a = a"

text \<open>\<open>toFixed\<close> throws outside 0 to 100 digits; \<open>undefined\<close> digits are 0.\<close>

definition js_toFixed :: "int option \<Rightarrow> jsnum \<Rightarrow> js_error + string" where
  "js_toFixed d x =
     (case d of
        None \<Rightarrow> Inr (toFixed 0 x)
      | Some n \<Rightarrow> if n < 0 \<or> n > 100 then Inl (Error ''toFixed() digits argument must be between 0 and 100'')
                  else Inr (toFixed (nat n) x))"

definition formatAmount :: "jsnum \<Rightarrow> set_state \<Rightarrow> js_error + string" where
  "formatAmount a s =
     (let ds = display (app_settings s)
      in map_sum id (\<lambda>t. t @ '' '' @ unit_text (d_unit ds)) (js_toFixed (d_decimalPlaces ds) (in_unit (d_unit ds) a)))"

section \<open>Runs and reloads\<close>

datatype set_op =
    UpdateGeneral GeneralSettings
  | UpdateDisplay DisplaySettings
  | UpdateNetwork NetworkSettings
  | UpdatePrivacy PrivacySettings
  | UpdateBackup BackupSettings
  | Reset
  | ImportText "StoredSettings option"

fun set_step :: "set_op \<Rightarrow> set_state \<Rightarrow> set_state" where
  "set_step (UpdateGeneral u) s = updateGeneralSettings u s"
| "set_step (UpdateDisplay u) s = updateDisplaySettings u s"
| "set_step (UpdateNetwork u) s = updateNetworkSettings u s"
| "set_step (UpdatePrivacy u) s = updatePrivacySettings u s"
| "set_step (UpdateBackup u) s = updateBackupSettings u s"
| "set_step Reset s = resetSettings s"
| "set_step (ImportText d) s = snd (importSettings d s)"

text \<open>
  In memory are always the defaults overlaid with the stored sections: what is stored has never
  been left behind by memory, and a refused item counts as one without sections.
\<close>

definition set_inv :: "set_state \<Rightarrow> bool" where
  "set_inv s \<longleftrightarrow> app_settings s = spread_settings getDefaultSettings (parse_item_or no_sections (app_item s))"

definition set_reload :: "set_state \<Rightarrow> set_state" where
  "set_reload s = new_Settings (app_item s)"

lemma spread_none [simp]: "spread_settings a no_sections = a"
  by (simp add: spread_settings_def no_sections_def or_keep_def)

lemma spread_all [simp]: "spread_settings a (to_stored b) = b"
  by (simp add: spread_settings_def to_stored_def or_keep_def)

lemma set_inv_saved [simp, intro]: "set_inv (saveSettings s)"
  by (simp add: set_inv_def saveSettings_def)

lemma set_inv_new: "set_inv (new_Settings i)"
  by (cases i) (simp_all add: set_inv_def new_Settings_def loadSettings_def)

interpretation st: write_through set_step set_reload set_inv
proof unfold_locales
  show "set_inv (set_step op s)" if "set_inv s" for op s
    using that
    by (cases op) (auto simp: updateGeneralSettings_def updateDisplaySettings_def updateNetworkSettings_def
        updatePrivacySettings_def updateBackupSettings_def resetSettings_def importSettings_def Let_def split: option.splits)
  show "set_reload s = s" if "set_inv s" for s
    using that by (cases "app_item s") (auto simp: set_reload_def new_Settings_def loadSettings_def set_inv_def)
qed

text \<open>Settings survive a reload after any run from any stored text, and an export and import.\<close>

lemma settings_reload_after_run:
  "set_reload (fold set_step ops (new_Settings i)) = fold set_step ops (new_Settings i)"
  by (rule st.reload_after_run [OF set_inv_new])

lemma settings_import_export:
  "importSettings (Some (exportSettings s)) t = (True, saveSettings (t\<lparr>app_settings := app_settings s\<rparr>))"
  by (simp add: importSettings_def exportSettings_def)

text \<open>An update of one section leaves the others alone.\<close>

lemma display_update_local:
  "general (app_settings (updateDisplaySettings u s)) = general (app_settings s)"
  "network (app_settings (updateDisplaySettings u s)) = network (app_settings s)"
  "privacy (app_settings (updateDisplaySettings u s)) = privacy (app_settings s)"
  "backup (app_settings (updateDisplaySettings u s)) = backup (app_settings s)"
  by (simp_all add: updateDisplaySettings_def saveSettings_def Let_def)

text \<open>
  A text without sections, such as \<open>null\<close> or a number, imports successfully: all settings go
  back to their defaults, in storage too.
\<close>

lemma import_null_resets: "importSettings (Some no_sections) s = (True, resetSettings s)"
  by (simp add: importSettings_def resetSettings_def)

section \<open>Amounts in the smallest unit\<close>

lemma digit_char_0: "digit_char 0 = CHR ''0''"
  by code_simp

lemma show_nat_times_ten: "0 < n \<Longrightarrow> show_nat (n * 10) = show_nat n @ ''0''"
  by (subst show_nat.simps) (simp add: digit_char_0)

lemma show_nat_shift: "0 < n \<Longrightarrow> show_nat (n * 10 ^ d) = show_nat n @ replicate d (CHR ''0'')"
proof (induction d)
  case (Suc d)
  have "show_nat (n * 10 ^ d * 10) = show_nat (n * 10 ^ d) @ ''0''"
    using Suc.prems by (intro show_nat_times_ten) simp
  then show ?case using Suc by (simp add: mult_ac replicate_append_same)
qed simp

lemma toFixed_whole:
  assumes "0 < n"
  shows "toFixed d (real n) = show_nat n @ (if d = 0 then [] else ''.'' @ replicate d (CHR ''0''))"
proof -
  have "\<lfloor>real n * 10 ^ d + 1 / 2\<rfloor> = int (n * 10 ^ d)"
    by (intro floor_unique) simp_all
  then have "nat \<lfloor>real n * 10 ^ d + 1 / 2\<rfloor> = n * 10 ^ d" by (metis nat_int)
  moreover have "Suc 0 \<le> length (show_nat n)" by (simp add: Suc_le_eq)
  ultimately show ?thesis
    using show_nat_shift [OF assms, of d]
    by (simp add: toFixed_def toFixed_nonneg_def padStart_def Let_def)
qed

text \<open>
  An amount of \<open>n > 0\<close> smallest units, shown in that unit, is printed exactly, whatever number of
  fraction digits the settings ask for; digits beyond 100 make the display throw.
\<close>

lemma format_sat_exact:
  assumes "0 < n" and "d_unit (display (app_settings s)) = Some Sat"
    and "d_decimalPlaces (display (app_settings s)) = Some (int d)" and "d \<le> 100"
  shows "formatAmount (real n / 100000000) s =
    Inr (show_nat n @ (if d = 0 then [] else ''.'' @ replicate d (CHR ''0'')) @ '' sat'')"
  using assms toFixed_whole [OF assms(1), of d]
  by (simp add: formatAmount_def js_toFixed_def Let_def)

lemma format_throws_iff:
  "(\<exists>e. formatAmount a s = Inl e) \<longleftrightarrow>
     (\<exists>n. d_decimalPlaces (display (app_settings s)) = Some n \<and> (n < 0 \<or> 100 < n))"
  by (auto simp: formatAmount_def js_toFixed_def Let_def split: option.splits if_splits)

end
