(* ===== verification/Backup.thy ===== *)
theory Backup
  imports WalletService AddressBook TransactionLabels Settings Security Calendar
begin

text \<open>
  Full backups (services/backup.ts), the client of five services: the wallets, the address book,
  the settings, the security settings and the transaction labels are written into one JSON text,
  encrypted when a password is given, and read back. A parsed text is the value it denotes; the
  bytes of the text that is encrypted are given by the parameters \<open>stringify\<close> (JSON and UTF-8) and
  \<open>parse\<close> (their inverses), since numbers are real in this model and have no text of their own.
\<close>

section \<open>Data\<close>

text \<open>
  A backup object: a member that is missing, falsy or (for the arrays) not an array is \<open>None\<close>, an
  element \<open>None\<close> is \<open>null\<close>. Contacts have their tags.
\<close>

record BackupData =
  bk_version :: "string option"
  bk_timestamp :: "int option"
  bk_wallets :: "WalletInfo list option"
  bk_addressBook :: "Contact option list option"
  bk_settings :: "StoredSettings option"
  bk_securitySettings :: "SecuritySettings option"
  bk_transactionLabels :: "TransactionLabel option list option"

text \<open>A JSON object, read for the members \<open>encrypted\<close> and \<open>data\<close> first.\<close>

record file_object =
  fo_encrypted :: bool
  fo_data :: string
  fo_backup :: BackupData

datatype json_text = NotJson | JsonNull | Object file_object

record 'n app =
  app_wallets :: "'n ws"
  app_book :: ab_state
  app_sets :: set_state
  app_security :: sec_state
  app_labels :: tl_state
  last_backup_item :: "string option"

definition BACKUP_VERSION :: string where
  "BACKUP_VERSION = ''1.0.0''"

section \<open>Writing\<close>

definition no_backup :: BackupData where
  "no_backup = \<lparr>bk_version = None, bk_timestamp = None, bk_wallets = None, bk_addressBook = None,
     bk_settings = None, bk_securitySettings = None, bk_transactionLabels = None\<rparr>"

definition collect_backup :: "clock \<Rightarrow> 'n app \<Rightarrow> BackupData \<times> 'n app" where
  "collect_backup clk s =
     (case getWallets (app_wallets s) of (wls, w) \<Rightarrow>
       (\<lparr>bk_version = Some BACKUP_VERSION, bk_timestamp = Some (clk 0), bk_wallets = Some wls,
         bk_addressBook = Some (map Some (getAllContacts (app_book s))),
         bk_settings = Some (to_stored (Settings.getSettings (app_sets s))),
         bk_securitySettings = Some (Security.getSettings (app_security s)),
         bk_transactionLabels = Some (map Some (getAllLabels (app_labels s)))\<rparr>,
        s\<lparr>app_wallets := w\<rparr>))"

definition plain_file :: "BackupData \<Rightarrow> json_text" where
  "plain_file b = Object \<lparr>fo_encrypted = False, fo_data = [], fo_backup = b\<rparr>"

definition sealed_file :: "string \<Rightarrow> json_text" where
  "sealed_file d = Object \<lparr>fo_encrypted = True, fo_data = d, fo_backup = no_backup\<rparr>"

text \<open>A password is the bytes of its text; an absent or empty one is falsy.\<close>

definition given_password :: "bytes option \<Rightarrow> bool" where
  "given_password p \<longleftrightarrow> p \<noteq> None \<and> p \<noteq> Some []"

definition createFullBackup ::
    "web_crypto \<Rightarrow> (BackupData \<Rightarrow> bytes) \<Rightarrow> clock \<Rightarrow> bytes \<Rightarrow> bytes \<Rightarrow> bytes option \<Rightarrow> ('n app, json_text) eff" where
  "createFullBackup c stringify clk salt iv pw s =
     (case collect_backup clk s of (b, s1) \<Rightarrow>
        if given_password pw then
          (case encrypt c salt iv (stringify b) (the pw) of
             Inl e \<Rightarrow> (Inl (wrap_error ''Failed to create backup: '' e), s1)
           | Inr t \<Rightarrow> (Inr (sealed_file t), s1))
        else (Inr (plain_file b), s1))"

section \<open>Reading\<close>

text \<open>
  The inner \<open>try\<close>: whatever fails inside it (a password that is missing or wrong, a decrypted text
  that is not JSON) leads to the text itself being parsed again.
\<close>

definition open_file :: "web_crypto \<Rightarrow> (bytes \<Rightarrow> json_text) \<Rightarrow> bytes option \<Rightarrow> json_text \<Rightarrow> js_error + json_text" where
  "open_file c parse pw f =
     (case f of
        NotJson \<Rightarrow> Inl JsonSyntaxError
      | JsonNull \<Rightarrow> Inr JsonNull
      | Object o' \<Rightarrow>
          if \<not> fo_encrypted o' then Inr f
          else if \<not> given_password pw then Inr f
          else (case decrypt c (fo_data o') (the pw) of
                  Inl e \<Rightarrow> Inr f
                | Inr t \<Rightarrow> (case parse t of NotJson \<Rightarrow> Inr f | g \<Rightarrow> Inr g)))"

text \<open>\<open>!data.version || !data.timestamp\<close>; reading a member of \<open>null\<close> throws.\<close>

definition valid_backup :: "BackupData \<Rightarrow> bool" where
  "valid_backup b \<longleftrightarrow> truthy_string (bk_version b) \<and> bk_timestamp b \<noteq> None \<and> bk_timestamp b \<noteq> Some 0"

text \<open>
  Contacts are added one by one with fresh identifiers (\<open>ids k\<close> is the clock and the random text
  of the k-th); an error is swallowed.
\<close>

fun restore_contact :: "(nat \<Rightarrow> clock \<times> string) \<Rightarrow> nat \<times> Contact option \<Rightarrow> ab_state \<Rightarrow> ab_state" where
  "restore_contact ids (k, None) s = s"
| "restore_contact ids (k, Some c) s =
     snd (addContact (fst (ids k)) (snd (ids k)) (c_name c) (c_address c) (c_label c) (c_tags c) (c_notes c) s)"

definition restore_contacts :: "(nat \<Rightarrow> clock \<times> string) \<Rightarrow> Contact option list \<Rightarrow> ab_state \<Rightarrow> ab_state" where
  "restore_contacts ids cs s = fold (restore_contact ids) (enumerate 0 cs) s"

text \<open>
  The part after the confirmation. The loop over the wallets of the backup has an empty body; only
  \<open>getWallets\<close> is called.
\<close>

definition restore_data :: "(nat \<Rightarrow> clock \<times> string) \<Rightarrow> BackupData \<Rightarrow> 'n app \<Rightarrow> 'n app" where
  "restore_data ids b s =
     (let s1 = (case bk_wallets b of None \<Rightarrow> s | Some _ \<Rightarrow> s\<lparr>app_wallets := snd (getWallets (app_wallets s))\<rparr>);
          s2 = (case bk_addressBook b of None \<Rightarrow> s1
                | Some cs \<Rightarrow> s1\<lparr>app_book := restore_contacts ids cs (app_book s1)\<rparr>);
          s3 = (case bk_settings b of None \<Rightarrow> s2
                | Some st \<Rightarrow> s2\<lparr>app_sets := snd (importSettings (Some st) (app_sets s2))\<rparr>)
      in (case bk_transactionLabels b of None \<Rightarrow> s3
          | Some ls \<Rightarrow> s3\<lparr>app_labels :=
              snd (importLabels (Some \<lparr>lf_labels = Some ls, lf_templates = None\<rparr>) (app_labels s3))\<rparr>))"

definition restore_failed :: "js_error \<Rightarrow> js_error" where
  "restore_failed e = wrap_error ''Failed to restore backup: '' e"

definition restoreFromBackup ::
    "web_crypto \<Rightarrow> (bytes \<Rightarrow> json_text) \<Rightarrow> bool \<Rightarrow> (nat \<Rightarrow> clock \<times> string) \<Rightarrow> json_text \<Rightarrow> bytes option \<Rightarrow> ('n app, unit) eff" where
  "restoreFromBackup c parse confirmed ids f pw s =
     (case open_file c parse pw f of
        Inl e \<Rightarrow> (Inl (restore_failed e), s)
      | Inr (Object o') \<Rightarrow>
          if \<not> valid_backup (fo_backup o') then (Inl (restore_failed (Error ''Invalid backup file format'')), s)
          else if \<not> confirmed then (Inl (restore_failed (Error ''Restore cancelled by user'')), s)
          else (Inr (), restore_data ids (fo_backup o') s)
      | Inr _ \<Rightarrow> (Inl (restore_failed (Error ''Cannot read properties of null (reading 'version')'')), s))"

section \<open>Single wallets, tables and the summary\<close>

record WalletBackup =
  wb_version :: string
  wb_timestamp :: int
  wb_type :: string
  wb_wallet :: WalletInfo

definition exportWalletOnly :: "clock \<Rightarrow> string \<Rightarrow> 'n app \<Rightarrow> WalletBackup option \<times> 'n app" where
  "exportWalletOnly clk a s =
     (case getWallet a (app_wallets s) of (r, w) \<Rightarrow>
        (map_option (\<lambda>x. \<lparr>wb_version = BACKUP_VERSION, wb_timestamp = clk 0, wb_type = ''single-wallet'', wb_wallet = x\<rparr>) r,
         s\<lparr>app_wallets := w\<rparr>))"

text \<open>
  The text, as far as it is read: not JSON, \<open>null\<close>, or a value with the member \<open>type\<close> and whether
  its member \<open>wallet\<close> is truthy.
\<close>

datatype wallet_text = BadText | NullText | WalletText "string option" bool

definition importWalletFromJSON :: "wallet_text \<Rightarrow> js_error + bool" where
  "importWalletFromJSON d =
     (case d of
        BadText \<Rightarrow> Inl (wrap_error ''Failed to import wallet: '' JsonSyntaxError)
      | NullText \<Rightarrow> Inl (wrap_error ''Failed to import wallet: '' (Error ''Cannot read properties of null (reading 'type')''))
      | WalletText t has_wallet \<Rightarrow>
          if t = Some ''single-wallet'' \<and> has_wallet
          then Inl (wrap_error ''Failed to import wallet: ''
                 (Error ''Please use the Import Wallet feature with your private key''))
          else Inr False)"

datatype csv_type = CsvWallets | CsvTransactions | CsvContacts

definition quoted :: "string \<Rightarrow> string" where
  "quoted t = CHR 0x22 # t @ [CHR 0x22]"

text \<open>\<open>show_num\<close> prints a number; the texts are the rows after the header.\<close>

definition wallet_row :: "(jsnum \<Rightarrow> string) \<Rightarrow> WalletInfo \<Rightarrow> string" where
  "wallet_row show_num w =
     quoted (label w) @ '','' @ quoted (address w) @ '','' @ show_num (balance w) @ '','' @ toISOString (createdAt w) @ [CHR 0x0A]"

definition contact_row :: "Contact \<Rightarrow> string" where
  "contact_row c =
     quoted (c_name c) @ '','' @ quoted (c_address c) @ '','' @ quoted (text_of (c_label c)) @ '','' @
     quoted (join_with '';'' (c_tags c)) @ '','' @ quoted (text_of (c_notes c)) @ [CHR 0x0A]"

definition label_row :: "TransactionLabel \<Rightarrow> string" where
  "label_row l =
     quoted (l_txid l) @ '','' @ quoted ''Transaction'' @ '',0,'' @ quoted (text_of (l_note l)) @ '','' @
     quoted (join_with '';'' (l_tags l)) @ [CHR 0x0A]"

definition label_header :: string where
  "label_header = ''TXID,Type,Amount,Confirmations,Note,Tags'' @ [CHR 0x0A]"

definition exportToCSV :: "(jsnum \<Rightarrow> string) \<Rightarrow> csv_type \<Rightarrow> 'n app \<Rightarrow> string \<times> 'n app" where
  "exportToCSV show_num ty s =
     (case ty of
        CsvWallets \<Rightarrow>
          (case getWallets (app_wallets s) of (wls, w) \<Rightarrow>
            (''Label,Address,Balance,Created'' @ [CHR 0x0A] @ concat (map (wallet_row show_num) wls), s\<lparr>app_wallets := w\<rparr>))
      | CsvContacts \<Rightarrow>
          (''Name,Address,Label,Tags,Notes'' @ [CHR 0x0A] @ concat (map contact_row (getAllContacts (app_book s))), s)
      | CsvTransactions \<Rightarrow> (label_header @ concat (map label_row (getAllLabels (app_labels s))), s))"

text \<open>\<open>None\<close> is \<open>undefined\<close>, \<open>Some None\<close> is NaN.\<close>

definition getLastBackupTimestamp :: "'n app \<Rightarrow> int option option" where
  "getLastBackupTimestamp s =
     (if truthy_string (last_backup_item s) then Some (js_parseInt (the (last_backup_item s))) else None)"

definition recordBackup :: "clock \<Rightarrow> 'n app \<Rightarrow> 'n app" where
  "recordBackup clk s = s\<lparr>last_backup_item := Some (show_int (clk 0))\<rparr>"

record backup_summary =
  walletCount :: nat
  contactCount :: nat
  labelCount :: nat
  lastBackup :: "int option option"

definition getBackupSummary :: "'n app \<Rightarrow> backup_summary \<times> 'n app" where
  "getBackupSummary s =
     (case getWallets (app_wallets s) of (wls, w) \<Rightarrow>
        (\<lparr>walletCount = length wls, contactCount = length (getAllContacts (app_book s)),
          labelCount = length (getAllLabels (app_labels s)), lastBackup = getLastBackupTimestamp s\<rparr>,
         s\<lparr>app_wallets := w\<rparr>))"

section \<open>What a restored backup gives back\<close>

definition contact_data :: "Contact \<Rightarrow> string \<times> string \<times> string option \<times> string list \<times> string option" where
  "contact_data c = (c_name c, c_address c, c_label c, c_tags c, c_notes c)"

definition fresh_ids :: "(nat \<Rightarrow> clock \<times> string) \<Rightarrow> bool" where
  "fresh_ids ids \<longleftrightarrow> inj (\<lambda>k. generateId (fst (ids k)) (snd (ids k)))"

lemma contacts_saved [simp]: "contacts (saveContacts s) = contacts s"
  by (simp add: saveContacts_def)

lemma add_fresh_contact:
  assumes "getContactByAddress a s = None" and "map_of (contacts s) (generateId clk rnd) = None"
  shows "\<exists>d. contacts (snd (addContact clk rnd n a l t o' s)) = contacts s @ [(generateId clk rnd, d)] \<and>
    c_id d = generateId clk rnd \<and> contact_data d = (n, a, l, t, o')"
  using assms by (simp add: addContact_def contact_data_def Let_def jsmap_set_fresh)

lemma restore_contacts_from:
  assumes "fresh_ids ids" and "distinct (map c_address cs)"
    and "keyed c_id (contacts s)" and "\<And>i. i \<in> fst ` set (contacts s) \<Longrightarrow> \<exists>k < n. i = generateId (fst (ids k)) (snd (ids k))"
    and "\<And>c d. c \<in> set cs \<Longrightarrow> d \<in> snd ` set (contacts s) \<Longrightarrow> c_address c \<noteq> c_address d"
  shows "map contact_data (getAllContacts (fold (restore_contact ids) (enumerate n (map Some cs)) s)) =
    map contact_data (getAllContacts s) @ map contact_data cs"
  using assms(2-)
proof (induction cs arbitrary: n s)
  case (Cons c cs)
  let ?i = "generateId (fst (ids n)) (snd (ids n))"
  let ?s = "restore_contact ids (n, Some c) s"
  have new: "getContactByAddress (c_address c) s = None"
    using Cons.prems(4) [of c] unfolding unknown_address by force
  have "?i \<notin> fst ` set (contacts s)"
    using Cons.prems(3) assms(1) by (fastforce simp: fresh_ids_def inj_def)
  then have "map_of (contacts s) ?i = None" by (simp add: map_of_eq_None_iff)
  then obtain d where d: "contacts ?s = contacts s @ [(?i, d)]" "c_id d = ?i" "contact_data d = contact_data c"
    using add_fresh_contact [OF new] unfolding restore_contact.simps contact_data_def [of c] by metis
  have "map contact_data (getAllContacts (fold (restore_contact ids) (enumerate (Suc n) (map Some cs)) ?s)) =
      map contact_data (getAllContacts ?s) @ map contact_data cs"
  proof (rule Cons.IH)
    show "distinct (map c_address cs)" using Cons.prems(1) by simp
    show "keyed c_id (contacts ?s)"
      using Cons.prems(2) d \<open>?i \<notin> _\<close> by (auto simp: keyed_def)
    show "\<exists>k < Suc n. i = generateId (fst (ids k)) (snd (ids k))" if "i \<in> fst ` set (contacts ?s)" for i
      using that Cons.prems(3) [of i] d(1) by (auto simp: less_Suc_eq)
    have "c_address d = c_address c" using d(3) by (simp add: contact_data_def)
    then show "c_address a \<noteq> c_address b" if "a \<in> set cs" "b \<in> snd ` set (contacts ?s)" for a b
      using that Cons.prems(1) Cons.prems(4) [of a b] d(1) by (auto dest: rev_image_eqI [of _ _ _ c_address])
  qed
  then show ?case using d by (simp add: getAllContacts_def)
qed simp

lemma restore_contacts_data:
  assumes "fresh_ids ids" and "distinct (map c_address cs)" and "contacts s = []"
  shows "map contact_data (getAllContacts (restore_contacts ids (map Some cs) s)) = map contact_data cs"
  using restore_contacts_from [of ids cs s 0] assms by (simp add: restore_contacts_def getAllContacts_def)

lemma import_only_labels:
  assumes "keyed l_txid (labels s)" and "labels t = []"
  shows "labels (snd (importLabels (Some \<lparr>lf_labels = Some (map Some (getAllLabels s)), lf_templates = None\<rparr>) t)) = labels s"
  using import_exported_labels [of t "labels s" 0 0] assms
  by (simp add: importLabels_def getAllLabels_def list_of_def saveLabels_def saveTemplates_def)

lemma open_created:
  assumes "crypto_ok c" and "is_bytes salt" and "length salt = 16" and "is_bytes iv" and "length iv = 12"
    and "createFullBackup c stringify clk salt iv pw s = (Inr f, s')"
    and "b = fst (collect_backup clk s)" and "parse (stringify b) = plain_file b"
  shows "open_file c parse pw f = Inr (plain_file b)"
proof (cases "given_password pw")
  case True
  with assms(6,7) obtain e where "seal c (kdf c 100000 (the pw) salt) iv (stringify b) = Inr e"
      "f = sealed_file (btoa (salt @ iv @ e))"
    by (auto simp: createFullBackup_def encrypt_def split: prod.splits sum.splits)
  then show ?thesis
    using open_sealed [OF assms(1-5), of "the pw"] True assms(8)
    by (simp add: open_file_def sealed_file_def plain_file_def)
next
  case False
  with assms(6,7) show ?thesis
    by (auto simp: createFullBackup_def open_file_def plain_file_def split: prod.splits)
qed


definition demo_app :: "unit app" where
  "demo_app = \<lparr>app_wallets = empty_service, app_book = empty_book, app_sets = new_Settings Absent,
     app_security = new_security Absent None, app_labels = new_Labels True Absent Absent, last_backup_item = None\<rparr>"

definition demo_source :: "unit app" where
  "demo_source = demo_app\<lparr>app_book := empty_book\<lparr>contacts := [(''c1'', demo_entry)]\<rparr>,
     app_sets := updateGeneralSettings \<lparr>g_language = Some ''de'', g_currency = None, g_theme = None\<rparr> (new_Settings Absent)\<rparr>"


section \<open>What a backup does not do\<close>

text \<open>
  An encrypted file without a password, or with a wrong one, is not reported as such: the fallback
  reads the outer object, which has no version, and the error is that of a malformed file.
\<close>

lemma missing_password_misreported:
  assumes "\<not> given_password pw \<or> (\<exists>e. decrypt c d (the pw) = Inl e)"
  shows "restoreFromBackup c parse confirmed ids (sealed_file d) pw s =
    (Inl (Error ''Failed to restore backup: Invalid backup file format''), s)"
  using assms
  by (auto simp: restoreFromBackup_def open_file_def sealed_file_def valid_backup_def no_backup_def restore_failed_def
      wrap_error_def)

text \<open>Whatever a file holds, a restore never changes the wallets that storage remembers.\<close>

lemma restore_keeps_wallets:
  assumes "restoreFromBackup c parse confirmed ids f pw s = (r, u)"
  shows "app_wallets u = app_wallets s \<or> app_wallets u = snd (getWallets (app_wallets s))"
  using assms
  by (auto simp: restoreFromBackup_def restore_data_def Let_def split: sum.splits json_text.splits if_splits option.splits)

lemma single_wallet_never_imported: "importWalletFromJSON d \<noteq> Inr True"
  by (auto simp: importWalletFromJSON_def split: wallet_text.splits)

text \<open>A private key that is in memory is in the backup in the clear when there is no password.\<close>

lemma plain_backup_has_keys:
  assumes "\<not> given_password pw" and "refreshFromStorageIfNeeded (app_wallets s) = app_wallets s"
    and "map_of (wallets (app_wallets s)) a = Some w" and "privateKey w = Some k"
  shows "\<exists>b wls. fst (createFullBackup c stringify clk salt iv pw s) = Inr (plain_file b) \<and>
    bk_wallets b = Some wls \<and> (\<exists>x \<in> set wls. privateKey x = Some k)"
  using assms map_of_SomeD [OF assms(3)]
  by (force simp: createFullBackup_def collect_backup_def getWallets_def Let_def)

text \<open>
  The table of transactions has six columns in its header and five in its rows (no confirmations),
  so notes stand under the confirmations.
\<close>

lemma label_rows_short:
  "length (split_on (CHR '','') label_header) = 6"
  "length (split_on (CHR '','') (label_row \<lparr>l_txid = ''t'', l_note = Some ''n'', l_tags = [''a''], l_category = None,
     l_createdAt = 0, l_updatedAt = 0\<rparr>)) = 5"
  by (simp_all add: label_header_def label_row_def quoted_def text_of_def)

text \<open>The time of the last backup is read as it was recorded.\<close>

lemma recorded_backup_time: "getLastBackupTimestamp (recordBackup clk s) = Some (Some (clk 0))"
proof (cases "clk 0 < 0")
  case True
  then show ?thesis
    by (simp add: getLastBackupTimestamp_def recordBackup_def show_int_def js_parseInt_def digits_int_show is_space_def)
next
  case False
  obtain x r where x: "show_nat (nat (clk 0)) = x # r" by (cases "show_nat (nat (clk 0))") auto
  then have "is_digit x" using show_nat_digits [of "nat (clk 0)"] by simp
  then show ?thesis
    using False digits_int_show [of "nat (clk 0)"] digit_not_sign [of x] x
    by (simp add: getLastBackupTimestamp_def recordBackup_def show_int_def js_parseInt_def)
qed

end
