(* ===== verification/WalletPages.thy ===== *)
theory WalletPages
  imports WalletSpend Backup
begin

text \<open>
  The pages that make, import, export and restore wallets (apps/web/wallet/app/wallet/manage,
  wallet/import-export, wallet/backup-recovery, wallet/backup and wallet/watch-only), over the
  wallet service and the backup service. Two of the pages call \<open>importWallet\<close> without waiting for
  it: their handlers give the page and the imports they have started, which \<open>settle_imports\<close> runs.
\<close>

section \<open>Imports that are not awaited\<close>

type_synonym import_request = "string \<times> string"

definition settle_imports :: "'n node_api \<Rightarrow> clock \<Rightarrow> import_request list \<Rightarrow> 'n ws \<Rightarrow> 'n ws" where
  "settle_imports api clk rs s = fold (\<lambda>(k, l) s. snd (importWallet api clk k l False s)) rs s"

section \<open>Import and export\<close>

record transfer_page =
  fileContent :: string
  tr_privateKey :: string
  tr_label :: string
  tr_error :: string
  tr_success :: string

definition or_imported :: "string \<Rightarrow> string" where
  "or_imported l = (if l = [] then ''Imported Wallet'' else l)"

text \<open>
  The parsed file: no JSON, no array, or an array whose elements are wallets or \<open>null\<close>. Reading a
  member of \<open>null\<close> throws after the imports before it have been started.
\<close>

datatype wallets_text = BadJson | NoArray | WalletArray "WalletInfo option list"

fun json_requests :: "WalletInfo option list \<Rightarrow> import_request list \<times> bool" where
  "json_requests [] = ([], True)"
| "json_requests (None # ws) = ([], False)"
| "json_requests (Some w # ws) =
     (case json_requests ws of (rs, ok) \<Rightarrow>
        ((if truthy_string (privateKey w) \<and> address w \<noteq> [] then (the (privateKey w), or_imported (label w)) # rs else rs), ok))"

definition imported_text :: "nat \<Rightarrow> string" where
  "imported_text n = ''Imported '' @ show_nat n @ '' wallet(s)''"

definition handleImportJSON :: "wallets_text \<Rightarrow> transfer_page \<Rightarrow> transfer_page \<times> import_request list" where
  "handleImportJSON d p =
     (case d of
        BadJson \<Rightarrow> (p\<lparr>tr_error := ''Failed to parse JSON file''\<rparr>, [])
      | NoArray \<Rightarrow> (p\<lparr>tr_error := ''Invalid JSON format''\<rparr>, [])
      | WalletArray ws \<Rightarrow>
          (case json_requests ws of
             (rs, True) \<Rightarrow> (p\<lparr>tr_success := imported_text (length rs)\<rparr>, rs)
           | (rs, False) \<Rightarrow> (p\<lparr>tr_error := ''Failed to parse JSON file''\<rparr>, rs)))"

definition cell :: "string list \<Rightarrow> nat \<Rightarrow> string" where
  "cell xs i = (if i < length xs then xs ! i else [])"

text \<open>A missing cell is \<open>undefined\<close> and falsy, like an empty one.\<close>

definition line_request :: "string \<Rightarrow> import_request list" where
  "line_request line =
     (let cs = map trim (split_on (CHR '','') line)
      in if cell cs 1 \<noteq> [] \<and> cell cs 0 \<noteq> [] then [(cell cs 1, or_imported (cell cs 2))] else [])"

definition csv_requests :: "string \<Rightarrow> import_request list" where
  "csv_requests t = concat (map line_request (drop 1 (filter (\<lambda>l. trim l \<noteq> []) (split_on (CHR 0x0A) t))))"

definition handleImportCSV :: "transfer_page \<Rightarrow> transfer_page \<times> import_request list" where
  "handleImportCSV p = (let rs = csv_requests (fileContent p) in (p\<lparr>tr_success := imported_text (length rs)\<rparr>, rs))"

definition handleImportPrivateKey :: "transfer_page \<Rightarrow> transfer_page \<times> import_request list" where
  "handleImportPrivateKey p =
     (if trim (tr_privateKey p) = [] then (p\<lparr>tr_error := ''Please enter a private key''\<rparr>, [])
      else (p\<lparr>tr_success := ''Wallet imported successfully'', tr_privateKey := [], tr_label := []\<rparr>,
            [(tr_privateKey p, or_imported (tr_label p))]))"

text \<open>\<open>show_num\<close> is how a balance prints.\<close>

definition csv_wallet :: "(jsnum \<Rightarrow> string) \<Rightarrow> WalletInfo \<Rightarrow> string" where
  "csv_wallet show_num w = address w @ '','' @ text_of (privateKey w) @ '','' @ label w @ '','' @ show_num (balance w)"

definition wallets_csv :: "(jsnum \<Rightarrow> string) \<Rightarrow> WalletInfo list \<Rightarrow> string" where
  "wallets_csv show_num ws = join_with [CHR 0x0A] (''Address,Private Key,Label,Balance'' # map (csv_wallet show_num) ws)"

definition handleExportCSV :: "(jsnum \<Rightarrow> string) \<Rightarrow> transfer_page \<times> 'n ws \<Rightarrow> string \<times> transfer_page \<times> 'n ws" where
  "handleExportCSV show_num ps =
     (case ps of (p, s) \<Rightarrow> case getWallets s of (ws, t) \<Rightarrow>
        (wallets_csv show_num ws, p\<lparr>tr_success := ''Wallets exported as CSV''\<rparr>, t))"

definition handleExportJSON :: "transfer_page \<times> 'n ws \<Rightarrow> WalletInfo list \<times> transfer_page \<times> 'n ws" where
  "handleExportJSON ps = (case ps of (p, s) \<Rightarrow> case getWallets s of (ws, t) \<Rightarrow> (ws, p\<lparr>tr_success := ''Wallets exported as JSON''\<rparr>, t))"

definition report_wallet :: "nat \<times> WalletInfo \<Rightarrow> string" where
  "report_wallet iw =
     (case iw of (i, w) \<Rightarrow>
        [CHR 0x0A] @ ''Wallet '' @ show_nat (i + 1) @ '':'' @ [CHR 0x0A] @ ''Label: '' @ label w @ [CHR 0x0A] @
        ''Address: '' @ address w @ [CHR 0x0A] @ ''Balance: '' @ toFixed 8 (balance w) @ '' KC'' @ [CHR 0x0A] @
        (if watchOnly w = Some True then ''Type: Watch-Only'' @ [CHR 0x0A] else []))"

definition wallets_report :: "string \<Rightarrow> WalletInfo list \<Rightarrow> string" where
  "wallets_report now ws =
     ''KUBERCOIN WALLET REPORT'' @ [CHR 0x0A, CHR 0x0A] @ ''Generated: '' @ now @ [CHR 0x0A] @
     ''Total Wallets: '' @ show_nat (length ws) @ [CHR 0x0A] @
     ''Total Balance: '' @ toFixed 8 (sum_by balance ws) @ '' KC'' @ [CHR 0x0A, CHR 0x0A] @ concat (map report_wallet (enumerate 0 ws))"

subsection \<open>Round trips\<close>

definition plain_cell :: "string \<Rightarrow> bool" where
  "plain_cell t \<longleftrightarrow> trim t = t \<and> CHR '','' \<notin> set t \<and> CHR 0x0A \<notin> set t"

definition plain_wallet :: "(jsnum \<Rightarrow> string) \<Rightarrow> WalletInfo \<Rightarrow> bool" where
  "plain_wallet show_num w \<longleftrightarrow> list_all plain_cell [address w, text_of (privateKey w), label w, show_num (balance w)] \<and> address w \<noteq> []"

definition keyed_requests :: "WalletInfo list \<Rightarrow> import_request list" where
  "keyed_requests ws = map (\<lambda>w. (the (privateKey w), or_imported (label w))) (filter (\<lambda>w. truthy_string (privateKey w)) ws)"

lemma trim_not_empty: "\<not> is_space c \<Longrightarrow> c \<in> set t \<Longrightarrow> trim t \<noteq> []"
proof -
  assume "\<not> is_space c" and "c \<in> set t"
  then have ne: "dropWhile is_space t \<noteq> []" by (auto simp: dropWhile_eq_Nil_conv)
  then have "\<exists>x \<in> set (dropWhile is_space t). \<not> is_space x" using hd_dropWhile [OF ne] hd_in_set [OF ne] by blast
  then show ?thesis by (auto simp: trim_def dropWhile_eq_Nil_conv)
qed

lemma comma_row: "trim (a @ CHR '','' # b) \<noteq> []"
  by (rule trim_not_empty [of "CHR '',''"]) (simp_all add: is_space_def)

lemma line_of_wallet:
  assumes "plain_wallet show_num w"
  shows "line_request (csv_wallet show_num w) = keyed_requests [w]"
proof -
  have "split_on (CHR '','') (csv_wallet show_num w) = [address w, text_of (privateKey w), label w, show_num (balance w)]"
    using assms by (simp add: csv_wallet_def plain_wallet_def plain_cell_def split_on_append split_on_free)
  then show ?thesis using assms
    by (cases "privateKey w") (auto simp: line_request_def cell_def keyed_requests_def plain_wallet_def plain_cell_def text_of_def Let_def)
qed

lemma rows_have_no_newline: "plain_wallet show_num w \<Longrightarrow> CHR 0x0A \<notin> set (csv_wallet show_num w)"
  by (simp add: csv_wallet_def plain_wallet_def plain_cell_def)

text \<open>
  The exported table, read by the import, starts the import of exactly the wallets whose key
  is in memory, each with its label, when labels, keys, addresses and numbers have no comma, no
  newline and no white space at their ends.
\<close>

theorem exported_csv_imports:
  assumes "\<forall>w \<in> set ws. plain_wallet show_num w"
  shows "csv_requests (wallets_csv show_num ws) = keyed_requests ws"
proof -
  let ?rows = "map (csv_wallet show_num) ws"
  have "split_on (CHR 0x0A) (wallets_csv show_num ws) = ''Address,Private Key,Label,Balance'' # ?rows"
    unfolding wallets_csv_def using assms rows_have_no_newline by (intro split_on_join) auto
  moreover have "trim r \<noteq> []" if "r \<in> set (''Address,Private Key,Label,Balance'' # ?rows)" for r
  proof -
    have "CHR '','' \<in> set r" using that by (auto simp: csv_wallet_def)
    then show ?thesis by (rule trim_not_empty [rotated]) (simp add: is_space_def)
  qed
  ultimately have "csv_requests (wallets_csv show_num ws) = concat (map line_request ?rows)" by (simp add: csv_requests_def)
  also have "\<dots> = concat (map (\<lambda>w. keyed_requests [w]) ws)" using assms line_of_wallet by (simp add: comp_def cong: map_cong)
  also have "\<dots> = keyed_requests ws" by (induction ws) (auto simp: keyed_requests_def)
  finally show ?thesis .
qed

definition demo_wallets :: "WalletInfo list" where
  "demo_wallets = [\<lparr>address = ''KC1a'', label = ''main'', balance = 5, unconfirmedBalance = 0, privateKey = Some ''k1'', publicKey = None,
     createdAt = 0, watchOnly = None, xpub = None\<rparr>]"

theorem exported_csv_imports_witness:
  "csv_requests (wallets_csv (\<lambda>_. ''5'') demo_wallets) = [(''k1'', ''main'')]"
proof -
  have "\<forall>w \<in> set demo_wallets. plain_wallet (\<lambda>_. ''5'') w" by code_simp
  moreover have "keyed_requests demo_wallets = [(''k1'', ''main'')]" by code_simp
  ultimately show ?thesis using exported_csv_imports [of demo_wallets "\<lambda>_. ''5''"] by simp
qed

text \<open>The table holds every key in memory as it is.\<close>

lemma row_in_table: "r \<in> set rs \<Longrightarrow> \<exists>u v. join_with d rs = u @ r @ v"
proof (induction d rs rule: join_with.induct)
  case (2 d w)
  then have "join_with d [w] = [] @ r @ []" by simp
  then show ?case by blast
next
  case (3 d x y rs)
  show ?case
  proof (cases "r = x")
    case True
    then have "join_with d (x # y # rs) = [] @ r @ (d @ join_with d (y # rs))" by simp
    then show ?thesis by blast
  next
    case False
    then obtain u v where "join_with d (y # rs) = u @ r @ v" using 3 by auto
    then have "join_with d (x # y # rs) = (x @ d @ u) @ r @ v" by simp
    then show ?thesis by blast
  qed
qed simp

lemma keys_in_table:
  assumes "w \<in> set ws" and "privateKey w = Some k"
  shows "\<exists>u v. wallets_csv show_num ws = u @ k @ v"
proof -
  have "csv_wallet show_num w \<in> set (''Address,Private Key,Label,Balance'' # map (csv_wallet show_num) ws)" using assms(1) by simp
  from row_in_table [OF this, of "[CHR 0x0A]"]
  obtain u v where "wallets_csv show_num ws = u @ csv_wallet show_num w @ v" unfolding wallets_csv_def by blast
  then have "wallets_csv show_num ws = (u @ address w @ '','') @ k @ ('','' @ label w @ '','' @ show_num (balance w)) @ v"
    using assms(2) by (simp add: csv_wallet_def text_of_def)
  then show ?thesis by blast
qed

text \<open>A comma in a label moves the cells: the rest of the label is lost.\<close>

lemma comma_cuts_label:
  "csv_requests (wallets_csv (\<lambda>_. ''5'') [hd demo_wallets\<lparr>label := ''a,b''\<rparr>]) = [(''k1'', ''a'')]"
  by code_simp

text \<open>The import of one key is reported as done whatever the node says: with a node that refuses every key nothing is imported.\<close>

lemma failed_import_reported:
  assumes "trim (tr_privateKey p) \<noteq> []" and "\<And>k l r n. \<exists>e. importPrivKey api k l r n = (Inl e, n)"
  shows "tr_success (fst (handleImportPrivateKey p)) = ''Wallet imported successfully'' \<and>
         settle_imports api clk (snd (handleImportPrivateKey p)) s = s"
proof -
  have "snd (importWallet api clk k l False s) = s" for k l
  proof -
    obtain e where "importPrivKey api k l False (node s) = (Inl e, node s)" using assms(2) by blast
    then show ?thesis by (simp add: importWallet_def ecatch_def ebind_def call_def ethrow_def)
  qed
  then show ?thesis using assms(1) by (simp add: handleImportPrivateKey_def settle_imports_def)
qed

section \<open>Recovery\<close>

text \<open>
  The text of the chosen file: none, one that starts with a brace, or another one, which \<open>atob\<close>
  refuses (\<open>None\<close>) or decodes. Nothing is decrypted on this page.
\<close>

datatype recovery_text = NoFile | Braced json_text | Coded "json_text option"

record recovery_page =
  recoveryFile :: recovery_text
  recoveryPassword :: string
  testMode :: bool
  rv_error :: string
  rv_success :: string

definition recovery_json :: "recovery_page \<Rightarrow> string + json_text" where
  "recovery_json p =
     (case recoveryFile p of
        NoFile \<Rightarrow> Inl ''Please select a backup file''
      | Braced j \<Rightarrow> Inr j
      | Coded d \<Rightarrow>
          if recoveryPassword p = [] then Inl ''Please enter the backup password''
          else (case d of None \<Rightarrow> Inr NotJson | Some j \<Rightarrow> Inr j))"

definition recover_requests :: "WalletInfo list \<Rightarrow> import_request list" where
  "recover_requests ws =
     map (\<lambda>w. (the (privateKey w), if label w = [] then ''Restored Wallet'' else label w)) (filter (\<lambda>w. truthy_string (privateKey w)) ws)"

definition handleRecover :: "bool \<Rightarrow> recovery_page \<Rightarrow> recovery_page \<times> import_request list" where
  "handleRecover confirmed p =
     (case recovery_json p of
        Inl e \<Rightarrow> (p\<lparr>rv_error := e\<rparr>, [])
      | Inr (Object f) \<Rightarrow>
          (case bk_wallets (fo_backup f) of
             None \<Rightarrow> (p\<lparr>rv_error := ''Invalid backup format''\<rparr>, [])
           | Some ws \<Rightarrow>
               if testMode p
               then (p\<lparr>rv_success := ''Backup verified! Found '' @ show_nat (length ws) @ '' wallet(s). Disable test mode to restore.''\<rparr>, [])
               else if \<not> confirmed then (p, [])
               else (p\<lparr>rv_success := ''Restored '' @ show_nat (length (recover_requests ws)) @ '' wallet(s) successfully!'',
                        recoveryFile := NoFile, recoveryPassword := []\<rparr>, recover_requests ws))
      | Inr _ \<Rightarrow> (p\<lparr>rv_error := ''Failed to recover backup. Invalid file or password.''\<rparr>, []))"


definition demo_recovery :: recovery_page where
  "demo_recovery = \<lparr>recoveryFile = Braced (plain_file (fst (collect_backup (\<lambda>_. 7) demo_app))), recoveryPassword = [], testMode = False,
     rv_error = [], rv_success = []\<rparr>"


section \<open>Schedules\<close>

datatype backup_frequency = DailyBackup | WeeklyBackup | MonthlyBackup

record BackupSchedule =
  sch_enabled :: bool
  sch_frequency :: backup_frequency
  sch_lastBackup :: int
  sch_nextBackup :: int

fun getScheduleInterval :: "backup_frequency \<Rightarrow> int" where
  "getScheduleInterval DailyBackup = 86400000"
| "getScheduleInterval WeeklyBackup = 604800000"
| "getScheduleInterval MonthlyBackup = 2592000000"

definition handleScheduleToggle :: "int \<Rightarrow> BackupSchedule \<Rightarrow> BackupSchedule" where
  "handleScheduleToggle now sc =
     sc\<lparr>sch_enabled := \<not> sch_enabled sc,
        sch_nextBackup := (if \<not> sch_enabled sc then now + getScheduleInterval (sch_frequency sc) else 0)\<rparr>"

definition pick_frequency :: "int \<Rightarrow> backup_frequency \<Rightarrow> BackupSchedule \<Rightarrow> BackupSchedule" where
  "pick_frequency now f sc =
     sc\<lparr>sch_frequency := f, sch_nextBackup := (if sch_enabled sc then now + getScheduleInterval f else 0)\<rparr>"

text \<open>Whatever is chosen, an enabled schedule points one interval ahead and a disabled one nowhere; no backup is ever recorded in it.\<close>

datatype schedule_event = ToggleSchedule int | PickFrequency int backup_frequency

fun schedule_step :: "schedule_event \<Rightarrow> BackupSchedule \<Rightarrow> BackupSchedule" where
  "schedule_step (ToggleSchedule now) sc = handleScheduleToggle now sc"
| "schedule_step (PickFrequency now f) sc = pick_frequency now f sc"

fun event_time :: "schedule_event \<Rightarrow> int" where
  "event_time (ToggleSchedule now) = now"
| "event_time (PickFrequency now f) = now"

lemma schedule_points_ahead:
  "let t = schedule_step e (fold schedule_step es sc) in
     sch_nextBackup t = (if sch_enabled t then event_time e + getScheduleInterval (sch_frequency t) else 0) \<and> sch_lastBackup t = sch_lastBackup sc"
proof -
  have step: "sch_lastBackup (schedule_step e sc) = sch_lastBackup sc" for e sc
    by (cases e) (simp_all add: handleScheduleToggle_def pick_frequency_def)
  have "sch_lastBackup (fold schedule_step es sc) = sch_lastBackup sc" by (induction es arbitrary: sc) (simp_all add: step)
  then show ?thesis by (cases e) (simp_all add: handleScheduleToggle_def pick_frequency_def Let_def)
qed

definition formatSize :: "nat \<Rightarrow> string" where
  "formatSize b =
     (if b < 1024 then show_nat b @ '' B''
      else if b < 1048576 then toFixed 1 (of_nat b / 1024) @ '' KB'' else toFixed 1 (of_nat b / 1048576) @ '' MB'')"

section \<open>The backup page\<close>

record backup_page =
  bkp_summary :: "backup_summary option"
  backupPassword :: bytes
  restorePassword :: bytes
  encryptBackup :: bool
  bkp_error :: "string option"
  bkp_success :: "string option"
  showRestoreDialog :: bool
  restoreFile :: "json_text option"

text \<open>\<open>typed\<close> is the value of the input itself, used when the state has no password.\<close>

definition handleCreateBackup ::
    "web_crypto \<Rightarrow> (BackupData \<Rightarrow> bytes) \<Rightarrow> clock \<Rightarrow> bytes \<Rightarrow> bytes \<Rightarrow> bytes \<Rightarrow> backup_page \<times> 'n app \<Rightarrow> json_text option \<times> backup_page \<times> 'n app" where
  "handleCreateBackup c stringify clk salt iv typed ps =
     (case ps of (p, s) \<Rightarrow>
        let p = p\<lparr>bkp_error := None, bkp_success := None\<rparr>;
            pw = (if \<not> encryptBackup p then [] else if backupPassword p \<noteq> [] then backupPassword p else typed)
        in if encryptBackup p \<and> pw = [] then (None, p\<lparr>bkp_error := Some ''Please enter a password for encrypted backup''\<rparr>, s)
           else (case createFullBackup c stringify clk salt iv (if encryptBackup p then Some pw else None) s of
                   (Inl e, t) \<Rightarrow> (None, p\<lparr>bkp_error := Some (message e)\<rparr>, t)
                 | (Inr f, t) \<Rightarrow>
                     (case getBackupSummary (recordBackup clk t) of (sm, u) \<Rightarrow>
                        (Some f, p\<lparr>bkp_summary := Some sm, bkp_success := Some ''Backup created successfully!'', backupPassword := []\<rparr>, u))))"

definition handleRestore ::
    "web_crypto \<Rightarrow> (bytes \<Rightarrow> json_text) \<Rightarrow> bool \<Rightarrow> (nat \<Rightarrow> clock \<times> string) \<Rightarrow> backup_page \<times> 'n app \<Rightarrow> backup_page \<times> 'n app" where
  "handleRestore c parse confirmed ids ps =
     (case ps of (p, s) \<Rightarrow>
        (case restoreFile p of
           None \<Rightarrow> (p, s)
         | Some f \<Rightarrow>
             (case restoreFromBackup c parse confirmed ids f (if restorePassword p = [] then None else Some (restorePassword p)) s of
                (Inl e, t) \<Rightarrow> (p\<lparr>bkp_error := Some (message e), bkp_success := None\<rparr>, t)
              | (Inr _, t) \<Rightarrow>
                  (p\<lparr>bkp_error := None, bkp_success := Some ''Backup restored successfully! Please reload the page.'',
                     showRestoreDialog := False, restoreFile := None, restorePassword := []\<rparr>, t))))"

text \<open>An encrypted backup is never made with an empty password.\<close>

lemma encrypted_is_sealed:
  assumes "handleCreateBackup c stringify clk salt iv typed (p, s) = (Some f, q, t)" and "encryptBackup p"
  shows "\<exists>d. f = sealed_file d"
  using assms
  by (auto simp: handleCreateBackup_def createFullBackup_def given_password_def Let_def split: prod.splits sum.splits if_splits)

text \<open>A restore that fails is shown as an error and leaves all services as they were.\<close>

lemma failed_restore_changes_nothing:
  assumes "handleRestore c parse confirmed ids (p, s) = (q, t)" and "bkp_success q = None"
  shows "t = s"
  using assms
  by (auto simp: handleRestore_def restoreFromBackup_def split: option.splits prod.splits sum.splits json_text.splits if_splits)

section \<open>The wallet management page\<close>

record manage_page =
  mp_wallets :: "WalletInfo list"
  mp_active :: "WalletInfo option"
  showCreateDialog :: bool
  showImportDialog :: bool
  showBackupDialog :: bool
  walletLabel :: string
  mp_privateKey :: string
  mp_error :: "string option"
  mp_success :: "string option"
  backupData :: "WalletInfo option"
  backupTitle :: string
  createdMnemonic :: "string option"

text \<open>The answer of the route \<open>/api/wallet/create\<close>.\<close>

record create_answer =
  ca_ok :: bool
  ca_error :: "string option"
  ca_address :: string
  ca_mnemonic :: "string option"

definition load_manage :: "'n node_api \<Rightarrow> manage_page \<times> 'n ws \<Rightarrow> manage_page \<times> 'n ws" where
  "load_manage api ps =
     (case ps of (p, s) \<Rightarrow>
      case getWallets s of (ws1, s1) \<Rightarrow>
      case getActiveWallet s1 of (act, s2) \<Rightarrow>
      case getWallets (updateAllBalances api s2) of (ws2, s3) \<Rightarrow>
        (p\<lparr>mp_wallets := ws2, mp_active := act\<rparr>, s3))"

definition handleCreateWallet :: "'n node_api \<Rightarrow> clock \<Rightarrow> js_error + create_answer \<Rightarrow> manage_page \<times> 'n ws \<Rightarrow> manage_page \<times> 'n ws" where
  "handleCreateWallet api clk r ps =
     (case ps of (p, s) \<Rightarrow>
        let p = p\<lparr>mp_error := None, mp_success := None, createdMnemonic := None\<rparr>
        in if trim (walletLabel p) = [] then (p\<lparr>mp_error := Some ''Wallet label is required''\<rparr>, s)
           else (case r of
                   Inl e \<Rightarrow> (p\<lparr>mp_error := Some (message e)\<rparr>, s)
                 | Inr a \<Rightarrow>
                     if \<not> ca_ok a
                     then (p\<lparr>mp_error := Some (if truthy_string (ca_error a) then the (ca_error a) else ''Failed to create wallet'')\<rparr>, s)
                     else (case registerWallet \<lparr>address = ca_address a, label = trim (walletLabel p), balance = 0, unconfirmedBalance = 0,
                                 privateKey = None, publicKey = None, createdAt = clk 0, watchOnly = None, xpub = None\<rparr> None s of
                             (w, t) \<Rightarrow>
                               load_manage api
                                 (p\<lparr>createdMnemonic := (case ca_mnemonic a of None \<Rightarrow> None | Some m \<Rightarrow> if trim m = [] then None else Some m),
                                    mp_success := Some (''Wallet created successfully! Address: '' @ address w),
                                    showCreateDialog := False, walletLabel := []\<rparr>, t))))"

definition handleImportWallet :: "'n node_api \<Rightarrow> clock \<Rightarrow> manage_page \<times> 'n ws \<Rightarrow> manage_page \<times> 'n ws" where
  "handleImportWallet api clk ps =
     (case ps of (p, s) \<Rightarrow>
        let p = p\<lparr>mp_error := None, mp_success := None\<rparr>
        in if trim (mp_privateKey p) = [] then (p\<lparr>mp_error := Some ''Private key is required''\<rparr>, s)
           else if trim (walletLabel p) = [] then (p\<lparr>mp_error := Some ''Wallet label is required''\<rparr>, s)
           else (case importWallet api clk (mp_privateKey p) (walletLabel p) False s of
                   (Inl e, t) \<Rightarrow> (p\<lparr>mp_error := Some (message e)\<rparr>, t)
                 | (Inr w, t) \<Rightarrow>
                     load_manage api
                       (p\<lparr>mp_success := Some (''Wallet imported successfully! Address: '' @ address w), showImportDialog := False,
                          walletLabel := [], mp_privateKey := []\<rparr>, t)))"

definition handleSetActive :: "string \<Rightarrow> manage_page \<times> 'n ws \<Rightarrow> manage_page \<times> 'n ws" where
  "handleSetActive a ps =
     (case ps of (p, s) \<Rightarrow>
        (case setActiveWallet a s of
           (True, t) \<Rightarrow> (case getActiveWallet t of (act, u) \<Rightarrow>
              (p\<lparr>mp_active := act, mp_success := Some (''Active wallet set to: '' @ take 16 a @ ''...'')\<rparr>, u))
         | (False, t) \<Rightarrow> (p, t)))"

definition handleDeleteWallet :: "'n node_api \<Rightarrow> bool \<Rightarrow> string \<Rightarrow> manage_page \<times> 'n ws \<Rightarrow> manage_page \<times> 'n ws" where
  "handleDeleteWallet api confirmed a ps =
     (case ps of (p, s) \<Rightarrow>
        if \<not> confirmed then (p, s)
        else (case deleteWallet a s of
                (True, t) \<Rightarrow> load_manage api (p\<lparr>mp_success := Some ''Wallet deleted successfully''\<rparr>, t)
              | (False, t) \<Rightarrow> (p\<lparr>mp_error := Some ''Failed to delete wallet''\<rparr>, t)))"

definition handleBackupWallet :: "string \<Rightarrow> manage_page \<times> 'n ws \<Rightarrow> manage_page \<times> 'n ws" where
  "handleBackupWallet a ps =
     (case ps of (p, s) \<Rightarrow>
        (case exportWallet a s of
           (Some w, t) \<Rightarrow> (p\<lparr>backupTitle := ''Wallet Metadata Export'', backupData := Some w, showBackupDialog := True\<rparr>, t)
         | (None, t) \<Rightarrow> (p\<lparr>mp_error := Some ''Failed to export wallet''\<rparr>, t)))"

datatype manage_event =
    CreateWallet clock "js_error + create_answer" | ImportWallet clock | SetActive string | DeleteWallet bool string | BackupWallet string
  | TypeWallet string string | OpenCreate | CancelCreate | OpenImport | CancelImport | CloseBackup

fun manage_step :: "'n node_api \<Rightarrow> manage_event \<Rightarrow> manage_page \<times> 'n ws \<Rightarrow> manage_page \<times> 'n ws" where
  "manage_step api (CreateWallet clk r) (p, s) = handleCreateWallet api clk r (p, s)"
| "manage_step api (ImportWallet clk) (p, s) = handleImportWallet api clk (p, s)"
| "manage_step api (SetActive a) (p, s) = handleSetActive a (p, s)"
| "manage_step api (DeleteWallet ok a) (p, s) = handleDeleteWallet api ok a (p, s)"
| "manage_step api (BackupWallet a) (p, s) = handleBackupWallet a (p, s)"
| "manage_step api (TypeWallet l k) (p, s) = (p\<lparr>walletLabel := l, mp_privateKey := k\<rparr>, s)"
| "manage_step api OpenCreate (p, s) = (p\<lparr>showCreateDialog := True\<rparr>, s)"
| "manage_step api CancelCreate (p, s) = (p\<lparr>showCreateDialog := False, walletLabel := [], mp_error := None\<rparr>, s)"
| "manage_step api OpenImport (p, s) = (p\<lparr>showImportDialog := True\<rparr>, s)"
| "manage_step api CancelImport (p, s) = (p\<lparr>showImportDialog := False, walletLabel := [], mp_privateKey := [], mp_error := None\<rparr>, s)"
| "manage_step api CloseBackup (p, s) = (p\<lparr>showBackupDialog := False, backupData := None, backupTitle := ''Wallet Backup''\<rparr>, s)"

subsection \<open>The page shows the registry\<close>

text \<open>Between events the list is the registry, and the badge is on the active wallet.\<close>

definition manage_current :: "manage_page \<times> 'n ws \<Rightarrow> bool" where
  "manage_current ps \<longleftrightarrow> stored (snd ps) \<and> mp_wallets (fst ps) = map snd (wallets (snd ps)) \<and>
     map_option address (mp_active (fst ps)) = truthy_active (activeWallet (snd ps))"

lemma update_active [simp]: "activeWallet (updateWalletBalance api a s) = activeWallet s"
  by (auto simp: updateWalletBalance_def finishBalanceUpdate_def call_def split: option.splits prod.splits sum.splits)

lemma updateAll_active [simp]: "activeWallet (updateAllBalances api s) = activeWallet s"
proof -
  have "activeWallet (fold (updateWalletBalance api) as s) = activeWallet s" for as
    by (induction as arbitrary: s) simp_all
  then show ?thesis by (simp add: updateAllBalances_def)
qed

lemma active_badge:
  assumes "stored s"
  shows "getActiveWallet s = (fst (getActiveWallet s), s)" and "map_option address (fst (getActiveWallet s)) = truthy_active (activeWallet s)"
proof -
  have "address w = a" if "map_of (wallets s) a = Some w" for a w
    using assms that by (auto simp: stored_def ws_inv_def dest: keyed_get)
  moreover have "map_of (wallets s) a \<noteq> None" if "activeWallet s = Some a" for a using assms that by (simp add: stored_def ws_inv_def)
  ultimately show "map_option address (fst (getActiveWallet s)) = truthy_active (activeWallet s)"
    using assms by (cases "activeWallet s") (auto simp: getActiveWallet_def stored_refresh truthy_active_def Let_def)
qed (simp add: getActiveWallet_def stored_refresh [OF assms] Let_def)

lemma load_manage_current: "stored s \<Longrightarrow> manage_current (load_manage api (p, s))"
proof -
  assume st: "stored s"
  then have u: "stored (updateAllBalances api s)" by (rule updateAll_stored)
  obtain act where act: "getActiveWallet s = (act, s)" using active_badge(1) [OF st] by blast
  then have "map_option address act = truthy_active (activeWallet s)" using active_badge(2) [OF st] by simp
  then show ?thesis using st u act by (simp add: load_manage_def getWallets_def stored_refresh manage_current_def Let_def)
qed

lemma failed_import_registry:
  assumes "importWallet api clk k l r s = (Inl e, t)"
  shows "wallets t = wallets s \<and> activeWallet t = activeWallet s"
  using assms by (auto simp: importWallet_def eff_simps call_def Let_def split: prod.splits)

lemma set_active_current:
  assumes "manage_current (p, s)"
  shows "manage_current (handleSetActive a (p, s))"
proof -
  have st: "stored s" using assms by (simp add: manage_current_def)
  show ?thesis
  proof (cases "map_of (wallets s) a")
    case None
    then show ?thesis using assms st by (simp add: handleSetActive_def setActiveWallet_def stored_refresh Let_def)
  next
    case (Some w)
    let ?t = "saveWalletsToStorage (s\<lparr>activeWallet := Some a\<rparr>)"
    have set: "setActiveWallet a s = (True, ?t)" using Some st by (simp add: setActiveWallet_def stored_refresh Let_def)
    then have t: "stored ?t" using setActive_stored [OF st, of a] by simp
    obtain act where act: "getActiveWallet ?t = (act, ?t)" using active_badge(1) [OF t] by blast
    then have "map_option address act = truthy_active (Some a)" using active_badge(2) [OF t] by simp
    then show ?thesis using assms set t act by (simp add: handleSetActive_def manage_current_def)
  qed
qed

lemma manage_step_current:
  assumes "manage_current ps"
  shows "manage_current (manage_step api e ps)"
proof -
  obtain p s where ps: "ps = (p, s)" by fastforce
  have st: "stored s" using assms ps by (simp add: manage_current_def)
  have keep: "manage_current (q, t)" if "mp_wallets q = mp_wallets p" "mp_active q = mp_active p" "stored t" "wallets t = wallets s" "activeWallet t = activeWallet s" for q t
    using that assms ps by (simp add: manage_current_def)
  show ?thesis
  proof (cases e)
    case (CreateWallet clk r)
    have "stored (snd (registerWallet w None s))" for w using st by (rule register_stored)
    then show ?thesis unfolding ps CreateWallet
      by (auto simp: handleCreateWallet_def Let_def intro!: keep st load_manage_current split: sum.splits prod.splits) (metis snd_conv)+
  next
    case (ImportWallet clk)
    have "stored (snd (importWallet api clk k l False s))" for k l using st by (rule import_stored)
    then show ?thesis unfolding ps ImportWallet
      by (auto simp: handleImportWallet_def Let_def intro!: keep st load_manage_current dest: failed_import_registry split: sum.splits prod.splits)
        (metis snd_conv)+
  next
    case (DeleteWallet ok a)
    have "stored (snd (deleteWallet a s))" using st by (rule delete_stored)
    moreover have "deleteWallet a s = (False, t) \<Longrightarrow> t = s" for t using delete_spec [OF st, of a] by (auto split: if_splits)
    ultimately show ?thesis unfolding ps DeleteWallet
      by (auto simp: handleDeleteWallet_def intro!: keep st load_manage_current split: prod.splits bool.splits)
  next
    case (BackupWallet a)
    then show ?thesis unfolding ps
      by (auto simp: handleBackupWallet_def exportWallet_def getWallet_def stored_refresh [OF st] Let_def intro!: keep st split: option.splits)
  qed (use assms ps set_active_current in \<open>auto intro!: keep st\<close>)
qed

text \<open>
  C38: In every run of the management page, from a page that has loaded, the list shown is the
  registry of the wallet service and the badge is on its active wallet.
\<close>

theorem manage_page_shows_registry:
  assumes "stored s" and "fold (manage_step api) es (load_manage api (p, s)) = (q, t)"
  shows "mp_wallets q = map snd (wallets t) \<and> map_option address (mp_active q) = truthy_active (activeWallet t)"
proof -
  have "manage_current (fold (manage_step api) es ps)" if "manage_current ps" for ps
    using that by (induction es arbitrary: ps) (simp_all add: manage_step_current)
  then have "manage_current (q, t)" using load_manage_current [OF assms(1), of api p] assms(2) by metis
  then show ?thesis by (simp add: manage_current_def)
qed

definition empty_manage :: manage_page where
  "empty_manage = \<lparr>mp_wallets = [], mp_active = None, showCreateDialog = False, showImportDialog = False, showBackupDialog = False,
     walletLabel = [], mp_privateKey = [], mp_error = None, mp_success = None, backupData = None, backupTitle = ''Wallet Backup'',
     createdMnemonic = None\<rparr>"

definition demo_manage :: "manage_event list" where
  "demo_manage = [OpenCreate, TypeWallet ''main'' [],
     CreateWallet (\<lambda>_. 7) (Inr \<lparr>ca_ok = True, ca_error = None, ca_address = ''KC1a'', ca_mnemonic = None\<rparr>)]"

theorem manage_page_shows_registry_witness:
  "map address (mp_wallets (fst (fold (manage_step echo_node) demo_manage (load_manage echo_node (empty_manage, empty_service))))) = [''KC1a''] \<and>
   map_option address (mp_active (fst (fold (manage_step echo_node) demo_manage (load_manage echo_node (empty_manage, empty_service))))) = Some ''KC1a''"
proof -
  let ?r = "fold (manage_step echo_node) demo_manage (load_manage echo_node (empty_manage, empty_service))"
  have "map (\<lambda>e. address (snd e)) (wallets (snd ?r)) = [''KC1a''] \<and> truthy_active (activeWallet (snd ?r)) = Some ''KC1a''" by code_simp
  then show ?thesis using manage_page_shows_registry [OF empty_stored, of echo_node demo_manage empty_manage "fst ?r" "snd ?r"]
    by (simp add: comp_def)
qed

section \<open>The watch-only page\<close>

record watch_page =
  watchOnlyWallets :: "WalletInfo list"
  showImportModal :: bool
  wo_address :: string
  wo_label :: string
  wo_xpub :: string
  wo_error :: string
  wo_success :: string

definition loadWatchOnlyWallets :: "'n node_api \<Rightarrow> watch_page \<times> 'n ws \<Rightarrow> watch_page \<times> 'n ws" where
  "loadWatchOnlyWallets api ps =
     (case ps of (p, s) \<Rightarrow>
        let t = fold (\<lambda>w. updateWalletBalance api (address w)) (getWatchOnlyWallets s) s
        in (p\<lparr>watchOnlyWallets := getWatchOnlyWallets t\<rparr>, t))"

definition handleImportWatch :: "'n node_api \<Rightarrow> clock \<Rightarrow> watch_page \<times> 'n ws \<Rightarrow> watch_page \<times> 'n ws" where
  "handleImportWatch api clk ps =
     (case ps of (p, s) \<Rightarrow>
        (case importWatchOnlyWallet clk (trim (wo_address p)) (if trim (wo_label p) = [] then ''Watch-Only Wallet'' else trim (wo_label p))
                (if trim (wo_xpub p) = [] then None else Some (trim (wo_xpub p))) s of
           (Inl e, t) \<Rightarrow> (p\<lparr>wo_error := message e, wo_success := []\<rparr>, t)
         | (Inr w, t) \<Rightarrow>
             loadWatchOnlyWallets api
               (p\<lparr>wo_error := [], wo_success := ''Watch-only wallet imported successfully!'', wo_address := [], wo_label := [],
                  wo_xpub := [], showImportModal := False\<rparr>, updateWalletBalance api (address w) t)))"

text \<open>The result of \<open>deleteWallet\<close> is not looked at.\<close>

definition handleRemove :: "'n node_api \<Rightarrow> bool \<Rightarrow> string \<Rightarrow> watch_page \<times> 'n ws \<Rightarrow> watch_page \<times> 'n ws" where
  "handleRemove api confirmed a ps =
     (case ps of (p, s) \<Rightarrow>
        if confirmed then loadWatchOnlyWallets api (p\<lparr>wo_success := ''Watch-only wallet removed''\<rparr>, snd (deleteWallet a s)) else (p, s))"

definition handleRefreshBalance :: "'n node_api \<Rightarrow> string \<Rightarrow> watch_page \<times> 'n ws \<Rightarrow> watch_page \<times> 'n ws" where
  "handleRefreshBalance api a ps =
     (case ps of (p, s) \<Rightarrow>
        (case loadWatchOnlyWallets api (p, updateWalletBalance api a s) of (q, t) \<Rightarrow> (q\<lparr>wo_success := ''Balance updated''\<rparr>, t)))"

text \<open>Updating balances changes no wallet but for its balances.\<close>

definition unpriced :: "WalletInfo \<Rightarrow> WalletInfo" where
  "unpriced w = w\<lparr>balance := 0, unconfirmedBalance := 0\<rparr>"

lemma update_unpriced:
  "map_option unpriced (map_of (wallets (updateWalletBalance api a s)) b) = map_option unpriced (map_of (wallets s) b)"
  by (auto simp: updateWalletBalance_def finishBalanceUpdate_def call_def unpriced_def split: option.splits prod.splits sum.splits)

lemma fold_update_unpriced:
  "map_option unpriced (map_of (wallets (fold (\<lambda>w. updateWalletBalance api (address w)) ws s)) b) = map_option unpriced (map_of (wallets s) b)"
  by (induction ws arbitrary: s) (simp_all add: update_unpriced)

text \<open>An address that is watched is on the list as soon as it has been imported, with its label.\<close>

lemma watched_is_listed:
  assumes "handleImportWatch api clk (p, s) = (q, t)" and "map_of (wallets s) (trim (wo_address p)) = None"
  shows "\<exists>w \<in> set (watchOnlyWallets q). address w = trim (wo_address p) \<and> watchOnly w = Some True \<and>
     label w = (if trim (wo_label p) = [] then ''Watch-Only Wallet'' else trim (wo_label p))"
proof -
  let ?a = "trim (wo_address p)" and ?l = "if trim (wo_label p) = [] then ''Watch-Only Wallet'' else trim (wo_label p)"
  obtain w s1 where imp: "importWatchOnlyWallet clk ?a ?l (if trim (wo_xpub p) = [] then None else Some (trim (wo_xpub p))) s = (Inr w, s1)"
      and w: "address w = ?a" "watchOnly w = Some True" "label w = ?l" "map_of (wallets s1) ?a = Some w"
    using assms(2) by (auto simp: importWatchOnlyWallet_def Let_def)
  let ?s2 = "updateWalletBalance api ?a s1"
  let ?t = "fold (\<lambda>w. updateWalletBalance api (address w)) (getWatchOnlyWallets ?s2) ?s2"
  have q: "watchOnlyWallets q = getWatchOnlyWallets ?t" using assms(1) imp w(1) by (auto simp: handleImportWatch_def loadWatchOnlyWallets_def Let_def)
  have "map_option unpriced (map_of (wallets ?t) ?a) = Some (unpriced w)"
    unfolding fold_update_unpriced update_unpriced using w(4) by simp
  then obtain v where v: "map_of (wallets ?t) ?a = Some v" "unpriced v = unpriced w" by (cases "map_of (wallets ?t) ?a") auto
  have "address x = address (unpriced x) \<and> watchOnly x = watchOnly (unpriced x) \<and> label x = label (unpriced x)" for x
    by (simp add: unpriced_def)
  then have "address v = address w" "watchOnly v = watchOnly w" "label v = label w" using v(2) by metis+
  then have "address v = ?a" "watchOnly v = Some True" "label v = ?l" using w by simp_all
  moreover from this(2) v(1) have "v \<in> set (getWatchOnlyWallets ?t)" by (force simp: getWatchOnlyWallets_def dest: map_of_SomeD)
  ultimately show ?thesis unfolding q by blast
qed

end
