(* ===== verification/AnalyticsPage.thy ===== *)
theory AnalyticsPage
  imports WalletSpend
begin

text \<open>
  The analytics page (apps/web/wallet/app/wallet/analytics): the balance over time, volumes by day,
  spending by recipient and totals, computed from the history that the wallet service gives. The
  comparisons of the page are numbers only when every transaction has a time; the model is of such
  histories. \<open>day\<close> is \<open>toLocaleDateString\<close> of a time, \<open>day_time\<close> the time that \<open>new Date\<close> reads from it.
\<close>

section \<open>Ranges\<close>

datatype time_range = Days7 | Days30 | Days90 | Year1 | AllTime

definition day_ms :: int where
  "day_ms = 24 * 60 * 60 * 1000"

text \<open>\<open>None\<close> is infinity.\<close>

fun timeRanges :: "time_range \<Rightarrow> int option" where
  "timeRanges Days7 = Some (7 * day_ms)"
| "timeRanges Days30 = Some (30 * day_ms)"
| "timeRanges Days90 = Some (90 * day_ms)"
| "timeRanges Year1 = Some (365 * day_ms)"
| "timeRanges AllTime = None"

fun intervals :: "time_range \<Rightarrow> int" where
  "intervals Days7 = day_ms"
| "intervals Days30 = day_ms"
| "intervals Days90 = 7 * day_ms"
| "intervals Year1 = 30 * day_ms"
| "intervals AllTime = 30 * day_ms"

definition stamp :: "WalletTransactionRecord \<Rightarrow> int" where
  "stamp tx = the (wt_timestamp tx)"

definition in_range :: "int \<Rightarrow> time_range \<Rightarrow> WalletTransactionRecord \<Rightarrow> bool" where
  "in_range now r tx =
     (case timeRanges r of
        None \<Rightarrow> True
      | Some w \<Rightarrow> (case wt_timestamp tx of None \<Rightarrow> 0 | Some t \<Rightarrow> t) \<ge> now - w)"

text \<open>\<open>parseFloat(x.toFixed(8))\<close>: the nearest multiple of the smallest unit, half away from zero.\<close>

definition round8 :: "jsnum \<Rightarrow> jsnum" where
  "round8 x = (if x < 0 then - (of_int \<lfloor>- x * 10 ^ 8 + 1 / 2\<rfloor> / 10 ^ 8) else of_int \<lfloor>x * 10 ^ 8 + 1 / 2\<rfloor> / 10 ^ 8)"

section \<open>The balance over time\<close>

record BalancePoint =
  pt_date :: string
  pt_balance :: jsnum
  pt_timestamp :: int

text \<open>What is not received counts as paid.\<close>

definition delta :: "WalletTransactionRecord \<Rightarrow> jsnum" where
  "delta tx = (if wt_type tx = Received then wt_amount tx else - wt_amount tx)"

fun advance :: "int \<Rightarrow> jsnum \<Rightarrow> WalletTransactionRecord list \<Rightarrow> jsnum \<times> WalletTransactionRecord list" where
  "advance t b [] = (b, [])"
| "advance t b (tx # txs) = (if stamp tx \<le> t then advance t (b + delta tx) txs else (b, tx # txs))"

lemma day_ms_pos [simp]: "0 < day_ms"
  by (simp add: day_ms_def)

lemma intervals_pos [simp]: "0 < intervals r"
  by (cases r) simp_all

function balance_points :: "(int \<Rightarrow> string) \<Rightarrow> time_range \<Rightarrow> int \<Rightarrow> int \<Rightarrow> jsnum \<Rightarrow> WalletTransactionRecord list \<Rightarrow> BalancePoint list" where
  "balance_points day r now t b txs =
     (if t \<le> now
      then (case advance t b txs of (b', rest) \<Rightarrow>
        \<lparr>pt_date = day t, pt_balance = round8 b', pt_timestamp = t\<rparr> # balance_points day r now (t + intervals r) b' rest)
      else [])"
  by pat_completeness auto
termination
proof (relation "measure (\<lambda>(day, r, now, t, b, txs). nat (now + 1 - t))")
  fix day r now t b txs p b' rest
  assume "(t :: int) \<le> now"
  then show "((day, r, now, t + intervals r, b', rest), day, r, now, t, b, txs) \<in> measure (\<lambda>(day, r, now, t, b, txs). nat (now + 1 - t))"
    using intervals_pos [of r] by simp
qed simp

declare balance_points.simps [simp del]

definition generateBalanceHistory ::
    "(int \<Rightarrow> string) \<Rightarrow> int \<Rightarrow> WalletTransactionRecord list \<Rightarrow> jsnum \<Rightarrow> time_range \<Rightarrow> BalancePoint list" where
  "generateBalanceHistory day now txs currentBalance r =
     (let sortedTxs = sort_key stamp txs;
          b = foldl (\<lambda>b tx. b - delta tx) currentBalance (rev sortedTxs);
          startTime = (case sortedTxs of [] \<Rightarrow> now - intervals (if r = AllTime then Year1 else r) | tx # _ \<Rightarrow> stamp tx)
      in balance_points day r now startTime b sortedTxs)"

lemma advance_spec:
  "sorted (map stamp txs) \<Longrightarrow>
   advance t b txs = (b + sum_by delta (filter (\<lambda>tx. stamp tx \<le> t) txs), filter (\<lambda>tx. \<not> stamp tx \<le> t) txs)"
proof (induction txs arbitrary: b)
  case (Cons tx txs)
  show ?case
  proof (cases "stamp tx \<le> t")
    case True
    then show ?thesis using Cons by (simp add: sum_by_sum_list)
  next
    case False
    then have "\<forall>y \<in> set txs. \<not> stamp y \<le> t" using Cons.prems by auto
    then have "filter (\<lambda>y. stamp y \<le> t) txs = []" "filter (\<lambda>y. \<not> stamp y \<le> t) txs = txs" by (auto simp: filter_empty_conv filter_id_conv)
    then show ?thesis using False by simp
  qed
qed simp

lemma balance_points_at:
  assumes "sorted (map stamp txs)" and "pt \<in> set (balance_points day r now t b txs)"
  shows "t \<le> pt_timestamp pt \<and> pt_timestamp pt \<le> now \<and> pt_date pt = day (pt_timestamp pt) \<and>
         pt_balance pt = round8 (b + sum_by delta (filter (\<lambda>tx. stamp tx \<le> pt_timestamp pt) txs))"
  using assms
proof (induction day r now t b txs rule: balance_points.induct)
  case (1 day r now t b txs)
  let ?b = "b + sum_by delta (filter (\<lambda>tx. stamp tx \<le> t) txs)" and ?rest = "filter (\<lambda>tx. \<not> stamp tx \<le> t) txs"
  have adv: "advance t b txs = (?b, ?rest)" using advance_spec [OF 1(2)] .
  have unfold: "balance_points day r now t b txs =
      (if t \<le> now then \<lparr>pt_date = day t, pt_balance = round8 ?b, pt_timestamp = t\<rparr> # balance_points day r now (t + intervals r) ?b ?rest else [])"
    by (subst balance_points.simps) (simp add: adv)
  have t: "t \<le> now" using 1(3) by (auto simp: unfold split: if_splits)
  consider "pt = \<lparr>pt_date = day t, pt_balance = round8 ?b, pt_timestamp = t\<rparr>" | "pt \<in> set (balance_points day r now (t + intervals r) ?b ?rest)"
    using 1(3) t by (auto simp: unfold)
  then show ?case
  proof cases
    case 1
    then show ?thesis using t by simp
  next
    case 2
    have "sorted (map stamp ?rest)" using 1(2) sorted_filter by blast
    then have IH: "t + intervals r \<le> pt_timestamp pt \<and> pt_timestamp pt \<le> now \<and> pt_date pt = day (pt_timestamp pt) \<and>
        pt_balance pt = round8 (?b + sum_by delta (filter (\<lambda>tx. stamp tx \<le> pt_timestamp pt) ?rest))"
      using "1.IH" [OF t adv [symmetric]] 2 by blast
    then have le: "t \<le> pt_timestamp pt" using intervals_pos [of r] by linarith
    have "filter (\<lambda>tx. stamp tx \<le> t) (filter (\<lambda>tx. stamp tx \<le> pt_timestamp pt) txs) = filter (\<lambda>tx. stamp tx \<le> t) txs"
      using le by (auto intro: filter_cong)
    moreover have "filter (\<lambda>tx. \<not> stamp tx \<le> t) (filter (\<lambda>tx. stamp tx \<le> pt_timestamp pt) txs) =
        filter (\<lambda>tx. stamp tx \<le> pt_timestamp pt) ?rest" by (auto intro: filter_cong)
    ultimately have "sum_by delta (filter (\<lambda>tx. stamp tx \<le> pt_timestamp pt) txs) =
        sum_by delta (filter (\<lambda>tx. stamp tx \<le> t) txs) + sum_by delta (filter (\<lambda>tx. stamp tx \<le> pt_timestamp pt) ?rest)"
      by (subst sum_by_filter_split [of _ _ "\<lambda>tx. stamp tx \<le> t"]) simp
    then show ?thesis using IH le by (simp add: add.assoc)
  qed
qed

lemma start_balance: "foldl (\<lambda>b tx. b - delta tx) c (rev txs) = c - sum_by delta txs"
proof -
  have "foldl (\<lambda>b tx. b - delta tx) c xs = c - sum_list (map delta xs)" for xs
    by (induction xs arbitrary: c) (simp_all add: algebra_simps)
  then show ?thesis by (simp add: sum_by_sum_list sum_list_rev flip: rev_map)
qed

text \<open>
  Every point of the balance chart shows, to the smallest unit, the current balance less what
  has moved since the time of the point.
\<close>

theorem balance_chart_sound:
  assumes "pt \<in> set (generateBalanceHistory day now txs currentBalance r)"
  shows "pt_balance pt = round8 (currentBalance - sum_by delta (filter (\<lambda>tx. stamp tx > pt_timestamp pt) txs)) \<and>
         pt_timestamp pt \<le> now \<and> pt_date pt = day (pt_timestamp pt)"
proof -
  let ?s = "sort_key stamp txs"
  have "sorted (map stamp ?s)" by simp
  then have pt: "pt_timestamp pt \<le> now" "pt_date pt = day (pt_timestamp pt)"
      "pt_balance pt = round8 (currentBalance - sum_by delta ?s + sum_by delta (filter (\<lambda>tx. stamp tx \<le> pt_timestamp pt) ?s))"
    using assms balance_points_at [of ?s pt day r now] unfolding generateBalanceHistory_def Let_def start_balance by blast+
  have "sum_by delta ?s = sum_by delta (filter (\<lambda>tx. stamp tx \<le> pt_timestamp pt) ?s) + sum_by delta (filter (\<lambda>tx. \<not> stamp tx \<le> pt_timestamp pt) ?s)"
    by (rule sum_by_filter_split)
  moreover have "sum_by delta (filter (\<lambda>tx. \<not> stamp tx \<le> pt_timestamp pt) ?s) = sum_by delta (filter (\<lambda>tx. stamp tx > pt_timestamp pt) txs)"
    by (rule sum_by_mset) (simp add: not_le)
  ultimately show ?thesis using pt by (simp add: algebra_simps)
qed

definition demo_tx :: "string \<Rightarrow> tx_type \<Rightarrow> jsnum \<Rightarrow> int \<Rightarrow> WalletTransactionRecord" where
  "demo_tx t ty a tm = \<lparr>wt_txid = t, wt_address = Some ''KC1abcdefgh'', wt_amount = a, wt_confirmations = 3, wt_fee = None, wt_type = ty,
     wt_timestamp = Some tm, wt_inputs = None, wt_outputs = None\<rparr>"

definition demo_history :: "WalletTransactionRecord list" where
  "demo_history = [demo_tx ''b'' WalletSpend.Sent 1 90000000, demo_tx ''a'' Received 4 1000]"

theorem balance_chart_sound_witness:
  "map pt_balance (generateBalanceHistory (\<lambda>_. ''d'') 100000000 demo_history 10 Days7) = [11, 11] \<and>
   pt_balance (last (generateBalanceHistory (\<lambda>_. ''d'') 100000000 demo_history 10 Days7)) = round8 11"
proof (rule conjI)
  show "map pt_balance (generateBalanceHistory (\<lambda>_. ''d'') 100000000 demo_history 10 Days7) = [11, 11]" by code_simp
  let ?h = "generateBalanceHistory (\<lambda>_. ''d'') 100000000 demo_history 10 Days7"
  have "?h \<noteq> [] \<and> 10 - sum_by delta (filter (\<lambda>tx. stamp tx > pt_timestamp (last ?h)) demo_history) = 11" by code_simp
  then show "pt_balance (last ?h) = round8 11" using balance_chart_sound [OF last_in_set, of "\<lambda>_. ''d''" 100000000 demo_history 10 Days7] by simp
qed

text \<open>
  The points stop up to an interval before now: what moved since is missing, and the chart of a year
  can end with a balance that is a month old.
\<close>

lemma chart_ends_early:
  "map pt_balance (generateBalanceHistory (\<lambda>_. ''d'') (45 * day_ms) [demo_tx ''a'' Received 4 0, demo_tx ''b'' WalletSpend.Sent 1 (40 * day_ms)] 3 Year1) = [4, 4]"
  by code_simp

text \<open>A reward, which is neither sent nor received, lowers the chart.\<close>

lemma reward_counts_as_paid: "wt_type tx = Other \<Longrightarrow> delta tx = - wt_amount tx"
  by (simp add: delta_def)

section \<open>Volumes by day\<close>

record TransactionVolume =
  tv_date :: string
  tv_incoming :: jsnum
  tv_outgoing :: jsnum
  tv_net :: jsnum

type_synonym day_volumes = "(string, jsnum \<times> jsnum) jsmap"

definition volume_at :: "day_volumes \<Rightarrow> string \<Rightarrow> jsnum \<times> jsnum" where
  "volume_at m d = (case map_of m d of None \<Rightarrow> (0, 0) | Some v \<Rightarrow> v)"

definition add_volume :: "(int \<Rightarrow> string) \<Rightarrow> WalletTransactionRecord \<Rightarrow> day_volumes \<Rightarrow> day_volumes" where
  "add_volume day tx m =
     (let d = day (stamp tx)
      in case volume_at m d of (i, o') \<Rightarrow>
        AList.update d (if wt_type tx = Received then (i + wt_amount tx, o') else (i, o' + \<bar>wt_amount tx\<bar>)) m)"

definition volume_row :: "string \<times> jsnum \<times> jsnum \<Rightarrow> TransactionVolume" where
  "volume_row e = (case e of (d, i, o') \<Rightarrow> \<lparr>tv_date = d, tv_incoming = round8 i, tv_outgoing = round8 o', tv_net = round8 (i - o')\<rparr>)"

definition generateVolumeData :: "(int \<Rightarrow> string) \<Rightarrow> (string \<Rightarrow> int) \<Rightarrow> WalletTransactionRecord list \<Rightarrow> TransactionVolume list" where
  "generateVolumeData day day_time txs =
     sort_key (\<lambda>v. day_time (tv_date v)) (map volume_row (fold (add_volume day) txs []))"

lemma volume_at_update: "volume_at (AList.update d v m) e = (if e = d then v else volume_at m e)"
  by (simp add: volume_at_def)

lemma volume_fold:
  "volume_at (fold (add_volume day) txs m) d =
     (fst (volume_at m d) + sum_by wt_amount (filter (\<lambda>tx. day (stamp tx) = d \<and> wt_type tx = Received) txs),
      snd (volume_at m d) + sum_by (\<lambda>tx. \<bar>wt_amount tx\<bar>) (filter (\<lambda>tx. day (stamp tx) = d \<and> wt_type tx \<noteq> Received) txs))"
proof (induction txs arbitrary: m)
  case (Cons tx txs)
  have "volume_at (add_volume day tx m) d =
      (if day (stamp tx) = d then (if wt_type tx = Received then (fst (volume_at m d) + wt_amount tx, snd (volume_at m d))
         else (fst (volume_at m d), snd (volume_at m d) + \<bar>wt_amount tx\<bar>)) else volume_at m d)"
    by (auto simp: add_volume_def volume_at_update Let_def split: prod.splits)
  then show ?case by (simp add: Cons.IH sum_by_sum_list)
qed simp

lemma volume_keys: "fst ` set (fold (add_volume day) txs m) = fst ` set m \<union> (\<lambda>tx. day (stamp tx)) ` set txs"
proof (induction txs arbitrary: m)
  case (Cons tx txs)
  have "fst ` set (add_volume day tx m) = insert (day (stamp tx)) (fst ` set m)"
    by (cases "volume_at m (day (stamp tx))") (simp add: add_volume_def Let_def dom_update)
  then show ?case using Cons by auto
qed simp

lemma volume_distinct: "distinct (map fst m) \<Longrightarrow> distinct (map fst (fold (add_volume day) txs m))"
  by (induction txs arbitrary: m) (simp_all add: add_volume_def Let_def distinct_update split: prod.splits)

text \<open>There is one row for each day with a transaction, with the sums of that day.\<close>

lemma volume_rows:
  "set (map tv_date (generateVolumeData day day_time txs)) = (\<lambda>tx. day (stamp tx)) ` set txs \<and>
   distinct (map tv_date (generateVolumeData day day_time txs)) \<and>
   (\<forall>v \<in> set (generateVolumeData day day_time txs).
      tv_incoming v = round8 (sum_by wt_amount (filter (\<lambda>tx. day (stamp tx) = tv_date v \<and> wt_type tx = Received) txs)) \<and>
      tv_outgoing v = round8 (sum_by (\<lambda>tx. \<bar>wt_amount tx\<bar>) (filter (\<lambda>tx. day (stamp tx) = tv_date v \<and> wt_type tx \<noteq> Received) txs)))"
proof (intro conjI ballI)
  let ?m = "fold (add_volume day) txs []"
  have dates: "map tv_date (map volume_row ?m) = map fst ?m" by (simp add: volume_row_def split: prod.splits)
  show "set (map tv_date (generateVolumeData day day_time txs)) = (\<lambda>tx. day (stamp tx)) ` set txs"
    using volume_keys [of day txs "[]"] dates by (metis (no_types, lifting) generateVolumeData_def list.set_map set_sort sup_bot_left image_empty list.set(1))
  have "distinct (map tv_date (map volume_row ?m))" unfolding dates using volume_distinct [of "[]"] by simp
  then show "distinct (map tv_date (generateVolumeData day day_time txs))"
    unfolding generateVolumeData_def by (subst mset_eq_imp_distinct_iff [of _ "map tv_date (map volume_row ?m)"]) (simp_all add: multiset.map_comp)
  fix v
  assume "v \<in> set (generateVolumeData day day_time txs)"
  then obtain d i o' where e: "(d, i, o') \<in> set ?m" and v: "v = volume_row (d, i, o')" by (auto simp: generateVolumeData_def)
  then have "volume_at ?m d = (i, o')" using volume_distinct [of "[]" day txs] by (simp add: volume_at_def)
  then show "tv_incoming v = round8 (sum_by wt_amount (filter (\<lambda>tx. day (stamp tx) = tv_date v \<and> wt_type tx = Received) txs))"
    and "tv_outgoing v = round8 (sum_by (\<lambda>tx. \<bar>wt_amount tx\<bar>) (filter (\<lambda>tx. day (stamp tx) = tv_date v \<and> wt_type tx \<noteq> Received) txs))"
    using v volume_fold [of day txs "[]" d] by (simp_all add: volume_row_def volume_at_def)
qed

section \<open>Spending and totals\<close>

record SpendingCategory =
  sc_name :: string
  sc_value :: jsnum
  sc_count :: nat

definition spend :: "string \<Rightarrow> jsnum \<Rightarrow> (string, jsnum \<times> nat) jsmap \<Rightarrow> (string, jsnum \<times> nat) jsmap" where
  "spend a x m =
     (let c = take 8 a @ ''...'' in
      case (case map_of m c of None \<Rightarrow> (0, 0) | Some p \<Rightarrow> p) of (v, n) \<Rightarrow> AList.update c (v + \<bar>x\<bar>, Suc n) m)"

text \<open>Reading the address of a payment that has none throws.\<close>

fun spending :: "WalletTransactionRecord list \<Rightarrow> (string, jsnum \<times> nat) jsmap \<Rightarrow> js_error + (string, jsnum \<times> nat) jsmap" where
  "spending [] m = Inr m"
| "spending (tx # txs) m =
     (case wt_address tx of
        None \<Rightarrow> Inl (Error ''Cannot read properties of undefined (reading 'substring')'')
      | Some a \<Rightarrow> spending txs (spend a (wt_amount tx) m))"

definition generateSpendingData :: "WalletTransactionRecord list \<Rightarrow> js_error + SpendingCategory list" where
  "generateSpendingData txs =
     (case spending (filter (\<lambda>tx. wt_type tx = WalletSpend.Sent) txs) [] of
        Inl e \<Rightarrow> Inl e
      | Inr m \<Rightarrow> Inr (take 6 (sort_desc sc_value (map (\<lambda>(c, v, n). \<lparr>sc_name = c, sc_value = round8 v, sc_count = n\<rparr>) m))))"

record BiggestTransaction =
  bt_txid :: string
  bt_amount :: jsnum
  bt_incoming :: bool
  bt_timestamp :: int
  bt_address :: string

definition biggest :: "WalletTransactionRecord list \<Rightarrow> BiggestTransaction list" where
  "biggest txs =
     map (\<lambda>tx. \<lparr>bt_txid = wt_txid tx, bt_amount = \<bar>wt_amount tx\<bar>, bt_incoming = (wt_type tx \<noteq> WalletSpend.Sent),
        bt_timestamp = (case wt_timestamp tx of None \<Rightarrow> 0 | Some t \<Rightarrow> t),
        bt_address = (if truthy_string (wt_address tx) then the (wt_address tx) else ''Unknown'')\<rparr>)
       (take 5 (sort_desc (\<lambda>tx. \<bar>wt_amount tx\<bar>) txs))"

record page_stats =
  totalReceived :: jsnum
  totalSent :: jsnum
  netChange :: jsnum
  transactionCount :: nat
  averageTransaction :: jsnum
  largestTransaction :: jsnum

definition page_totals :: "WalletTransactionRecord list \<Rightarrow> page_stats" where
  "page_totals txs =
     (let rcv = sum_by wt_amount (filter (\<lambda>tx. wt_type tx = Received) txs);
          snt = sum_by (\<lambda>tx. \<bar>wt_amount tx\<bar>) (filter (\<lambda>tx. wt_type tx = WalletSpend.Sent) txs)
      in \<lparr>totalReceived = rcv, totalSent = snt, netChange = rcv - snt, transactionCount = length txs,
          averageTransaction = (if txs \<noteq> [] then sum_by (\<lambda>tx. \<bar>wt_amount tx\<bar>) txs / of_nat (length txs) else 0),
          largestTransaction = (if txs \<noteq> [] then foldl max (\<bar>wt_amount (hd txs)\<bar>) (map (\<lambda>tx. \<bar>wt_amount tx\<bar>) (tl txs)) else 0)\<rparr>)"

record analytics_page =
  an_history :: "BalancePoint list"
  an_volume :: "TransactionVolume list"
  an_spending :: "SpendingCategory list"
  an_biggest :: "BiggestTransaction list"
  an_stats :: page_stats

text \<open>\<open>loadData\<close> after the history has arrived: an error ends it where it is thrown, and is only logged.\<close>

definition load_analytics ::
    "(int \<Rightarrow> string) \<Rightarrow> (string \<Rightarrow> int) \<Rightarrow> int \<Rightarrow> time_range \<Rightarrow> WalletInfo \<Rightarrow> WalletTransactionRecord list \<Rightarrow> analytics_page \<Rightarrow> analytics_page" where
  "load_analytics day day_time now r w txs p =
     (let f = filter (in_range now r) txs;
          p1 = p\<lparr>an_history := generateBalanceHistory day now f (balance w) r, an_volume := generateVolumeData day day_time f\<rparr>
      in case generateSpendingData f of
           Inl e \<Rightarrow> p1
         | Inr sp \<Rightarrow> p1\<lparr>an_spending := sp, an_biggest := biggest f, an_stats := page_totals (sort_desc (\<lambda>tx. \<bar>wt_amount tx\<bar>) f)\<rparr>)"

text \<open>The totals do not depend on the order of the transactions, and the largest is the largest.\<close>

lemma foldl_max: "foldl max (a :: jsnum) xs = Max (set (a # xs))"
proof (induction xs arbitrary: a)
  case (Cons x xs)
  then show ?case by (cases "xs = []") (simp_all add: max.assoc)
qed simp

lemma largest_is_max: "txs \<noteq> [] \<Longrightarrow> largestTransaction (page_totals txs) = Max ((\<lambda>tx. \<bar>wt_amount tx\<bar>) ` set txs)"
  by (cases txs) (simp_all add: page_totals_def foldl_max Let_def)

lemma average_at_most_largest:
  assumes "txs \<noteq> []"
  shows "averageTransaction (page_totals txs) \<le> largestTransaction (page_totals txs)"
proof -
  let ?M = "Max ((\<lambda>tx. \<bar>wt_amount tx\<bar>) ` set txs)"
  have "sum_by (\<lambda>tx. \<bar>wt_amount tx\<bar>) txs \<le> sum_by (\<lambda>_. ?M) txs" by (rule sum_by_mono) simp
  also have "\<dots> = of_nat (length txs) * ?M" by (simp add: sum_by_sum_list sum_list_triv)
  finally have "sum_by (\<lambda>tx. \<bar>wt_amount tx\<bar>) txs / of_nat (length txs) \<le> ?M" using assms by (simp add: divide_simps mult.commute)
  then show ?thesis using assms largest_is_max [OF assms] by (simp add: page_totals_def Let_def)
qed

text \<open>One payment whose address the node did not give leaves the totals and the spending as they were.\<close>

lemma missing_address_stops:
  assumes "tx \<in> set txs" and "in_range now r tx" and "wt_type tx = WalletSpend.Sent" and "wt_address tx = None"
  shows "an_stats (load_analytics day day_time now r w txs p) = an_stats p \<and> an_spending (load_analytics day day_time now r w txs p) = an_spending p"
proof -
  have "tx \<in> set l \<Longrightarrow> wt_address tx = None \<Longrightarrow> \<exists>e. spending l m = Inl e" for l m
    by (induction l arbitrary: m) (auto split: option.splits)
  then obtain e where "spending (filter (\<lambda>tx. wt_type tx = WalletSpend.Sent) (filter (in_range now r) txs)) [] = Inl e"
    using assms by (metis (mono_tags, lifting) set_filter mem_Collect_eq)
  then show ?thesis by (simp add: load_analytics_def generateSpendingData_def Let_def)
qed

end
