(* ===== verification/ConfigPages.thy ===== *)
theory ConfigPages
  imports Settings Security Forms WalletService
begin

text \<open>
  The pages for security, settings, the faucet and the network
  (apps/web/wallet/app/wallet/security, wallet/settings, wallet/faucet and wallet/network).
  Messages go away by a timer, which is an event of its own.
\<close>

section \<open>The security page\<close>

text \<open>Passwords are the bytes of their texts; the length that is checked is that of the text, given by \<open>chars\<close>.\<close>

record security_page =
  sec_settings :: SecuritySettings
  sec_hasPassword :: bool
  showSetPassword :: bool
  showChangePassword :: bool
  showRemovePassword :: bool
  currentPassword :: bytes
  newPassword :: bytes
  confirmPassword :: bytes
  sec_error :: "string option"
  sec_success :: "string option"

text \<open>The settings are read once, when the page is made.\<close>

definition security_mounted :: "sec_state \<Rightarrow> security_page" where
  "security_mounted s = \<lparr>sec_settings = Security.getSettings s, sec_hasPassword = hasPassword s, showSetPassword = False,
     showChangePassword = False, showRemovePassword = False, currentPassword = [], newPassword = [], confirmPassword = [],
     sec_error = None, sec_success = None\<rparr>"

datatype security_change = SetTimeout string | SetConfirmation bool | SetBiometric bool

fun change_security :: "security_change \<Rightarrow> SecuritySettings \<Rightarrow> SecuritySettings" where
  "change_security (SetTimeout t) st = st\<lparr>sessionTimeout := Some (case js_parseInt t of None \<Rightarrow> 0 | Some n \<Rightarrow> of_int n)\<rparr>"
| "change_security (SetConfirmation b) st = st\<lparr>requireConfirmation := Some b\<rparr>"
| "change_security (SetBiometric b) st = st\<lparr>biometricEnabled := Some b\<rparr>"

definition handleUpdateSettings :: "security_change \<Rightarrow> security_page \<times> sec_state \<Rightarrow> security_page \<times> sec_state" where
  "handleUpdateSettings ch ps =
     (case ps of (p, s) \<Rightarrow>
        let u = change_security ch (sec_settings p)
        in (p\<lparr>sec_settings := u, sec_success := Some ''Settings updated successfully''\<rparr>, Security.saveSettings u s))"

definition handleSetPassword :: "web_crypto \<Rightarrow> (bytes \<Rightarrow> nat) \<Rightarrow> bytes \<Rightarrow> security_page \<times> sec_state \<Rightarrow> security_page \<times> sec_state" where
  "handleSetPassword c chars rnd ps =
     (case ps of (p, s) \<Rightarrow>
        let p = p\<lparr>sec_error := None, sec_success := None\<rparr>
        in if newPassword p = [] \<or> chars (newPassword p) < 8 then (p\<lparr>sec_error := Some ''Password must be at least 8 characters long''\<rparr>, s)
           else if newPassword p \<noteq> confirmPassword p then (p\<lparr>sec_error := Some ''Passwords do not match''\<rparr>, s)
           else (p\<lparr>sec_hasPassword := True, sec_success := Some ''Password set successfully'', showSetPassword := False,
                    newPassword := [], confirmPassword := []\<rparr>, setPassword c rnd (newPassword p) s))"

definition handleChangePassword ::
    "web_crypto \<Rightarrow> (bytes \<Rightarrow> nat) \<Rightarrow> bytes \<Rightarrow> bytes \<Rightarrow> security_page \<times> sec_state \<Rightarrow> security_page \<times> sec_state" where
  "handleChangePassword c chars rnd rnd' ps =
     (case ps of (p, s) \<Rightarrow>
        let p = p\<lparr>sec_error := None, sec_success := None\<rparr>
        in if currentPassword p = [] then (p\<lparr>sec_error := Some ''Current password is required''\<rparr>, s)
           else if newPassword p = [] \<or> chars (newPassword p) < 8 then (p\<lparr>sec_error := Some ''New password must be at least 8 characters long''\<rparr>, s)
           else if newPassword p \<noteq> confirmPassword p then (p\<lparr>sec_error := Some ''Passwords do not match''\<rparr>, s)
           else (case changePassword c rnd rnd' (currentPassword p) (newPassword p) s of
                   (Inl e, t) \<Rightarrow> (p\<lparr>sec_error := Some (message e)\<rparr>, t)
                 | (Inr _, t) \<Rightarrow>
                     (p\<lparr>sec_success := Some ''Password changed successfully'', showChangePassword := False, currentPassword := [],
                        newPassword := [], confirmPassword := []\<rparr>, t)))"

definition handleRemovePassword :: "web_crypto \<Rightarrow> bytes \<Rightarrow> security_page \<times> sec_state \<Rightarrow> security_page \<times> sec_state" where
  "handleRemovePassword c rnd ps =
     (case ps of (p, s) \<Rightarrow>
        let p = p\<lparr>sec_error := None, sec_success := None\<rparr>
        in if currentPassword p = [] then (p\<lparr>sec_error := Some ''Password is required''\<rparr>, s)
           else (case removePassword c rnd (currentPassword p) s of
                   (Inl e, t) \<Rightarrow> (p\<lparr>sec_error := Some (message e)\<rparr>, t)
                 | (Inr _, t) \<Rightarrow>
                     (p\<lparr>sec_hasPassword := False, sec_success := Some ''Password protection removed'', showRemovePassword := False,
                        currentPassword := [], sec_settings := (sec_settings p)\<lparr>passwordEnabled := Some False\<rparr>\<rparr>, t)))"

datatype security_event =
    ChangeSetting security_change | TypePasswords bytes bytes bytes | SubmitSet bytes | SubmitChange bytes bytes | SubmitRemove bytes

fun security_step :: "web_crypto \<Rightarrow> (bytes \<Rightarrow> nat) \<Rightarrow> security_event \<Rightarrow> security_page \<times> sec_state \<Rightarrow> security_page \<times> sec_state" where
  "security_step c chars (ChangeSetting ch) (p, s) = handleUpdateSettings ch (p, s)"
| "security_step c chars (TypePasswords cur new cnf) (p, s) = (p\<lparr>currentPassword := cur, newPassword := new, confirmPassword := cnf\<rparr>, s)"
| "security_step c chars (SubmitSet rnd) (p, s) = handleSetPassword c chars rnd (p, s)"
| "security_step c chars (SubmitChange rnd rnd') (p, s) = handleChangePassword c chars rnd rnd' (p, s)"
| "security_step c chars (SubmitRemove rnd) (p, s) = handleRemovePassword c rnd (p, s)"

text \<open>The badge: whether a password is set is what the service says, in every run.\<close>

lemma set_has_password: "hasPassword (setPassword c rnd pw s)"
  by (simp add: setPassword_def deriveKey_def hasPassword_def Security.saveSettings_def Let_def)

lemma badge_step:
  assumes "sec_hasPassword (fst ps) = hasPassword (snd ps)"
  shows "sec_hasPassword (fst (security_step c chars e ps)) = hasPassword (snd (security_step c chars e ps))"
proof -
  obtain p s where ps: "ps = (p, s)" by fastforce
  have save: "hasPassword (Security.saveSettings u t) = hasPassword t" for u t by (simp add: hasPassword_def Security.saveSettings_def)
  have rem: "removePassword c rnd pw s = (Inr b, t) \<Longrightarrow> \<not> hasPassword t" for rnd pw b t
    by (auto simp: removePassword_def hasPassword_def lock_def Security.saveSettings_def Let_def split: if_splits)
  have chg: "changePassword c r1 r2 o' n s = (Inr b, t) \<Longrightarrow> hasPassword t \<and> hasPassword s" for r1 r2 o' n b t
    by (auto simp: changePassword_def verifyPassword_def set_has_password hasPassword_def [of s] split: if_splits option.splits)
  have fail: "removePassword c rnd pw s = (Inl e, t) \<Longrightarrow> t = s" "changePassword c r1 r2 o' n s = (Inl e, t) \<Longrightarrow> t = s" for rnd pw e t r1 r2 o' n
    by (auto simp: removePassword_def changePassword_def Let_def split: if_splits)
  show ?thesis using assms unfolding ps
    by (cases e)
       (auto simp: handleUpdateSettings_def handleSetPassword_def handleChangePassword_def handleRemovePassword_def save set_has_password
         Let_def dest: rem chg fail split: prod.splits sum.splits)
qed

lemma badge_run: "sec_hasPassword (fst (fold (security_step c chars) es (security_mounted s, s))) =
                  hasPassword (snd (fold (security_step c chars) es (security_mounted s, s)))"
proof -
  have "sec_hasPassword (fst (fold (security_step c chars) es ps)) = hasPassword (snd (fold (security_step c chars) es ps))"
    if "sec_hasPassword (fst ps) = hasPassword (snd ps)" for ps
    using that by (induction es arbitrary: ps) (simp_all add: badge_step)
  then show ?thesis by (simp add: security_mounted_def)
qed

text \<open>
  The page writes back settings that it read before: after a password has been set on it,
  changing any other setting stores that passwords are not enabled, although one is set.
\<close>

theorem setting_disables_password:
  assumes "passwordEnabled (Security.getSettings s) = Some False" and "pw \<noteq> []" and "8 \<le> chars pw"
    and "fold (security_step c chars) [TypePasswords [] pw pw, SubmitSet rnd, ChangeSetting ch] (security_mounted s, s) = (p, t)"
  shows "hasPassword t \<and> sec_hasPassword p \<and> passwordEnabled (Security.getSettings t) = Some False"
proof -
  have "passwordEnabled (change_security ch st) = passwordEnabled st" for st by (cases ch) simp_all
  moreover have "hasPassword (Security.saveSettings u t) = hasPassword t" for u t by (simp add: hasPassword_def Security.saveSettings_def)
  ultimately show ?thesis using assms
    by (auto simp: handleSetPassword_def handleUpdateSettings_def security_mounted_def set_has_password Let_def
        Security.saveSettings_def Security.getSettings_def Security.loadSettings_def)
qed

theorem setting_disables_password_witness:
  "let (p, t) = fold (security_step toy_crypto length) [TypePasswords [] (replicate 8 65) (replicate 8 65), SubmitSet [], ChangeSetting (SetBiometric True)]
       (security_mounted (new_security Absent None), new_security Absent None)
   in hasPassword t \<and> passwordEnabled (Security.getSettings t) = Some False"
proof -
  let ?run = "fold (security_step toy_crypto length) [TypePasswords [] (replicate 8 65) (replicate 8 65), SubmitSet [], ChangeSetting (SetBiometric True)]
       (security_mounted (new_security Absent None), new_security Absent None)"
  have "passwordEnabled (Security.getSettings (new_security Absent None)) = Some False"
    by (simp add: Security.getSettings_def Security.loadSettings_def new_security_def Security.getDefaultSettings_def)
  then have "hasPassword (snd ?run) \<and> passwordEnabled (Security.getSettings (snd ?run)) = Some False"
    using setting_disables_password [where s = "new_security Absent None" and pw = "replicate 8 65" and chars = length and c = toy_crypto
        and rnd = "[]" and ch = "SetBiometric True" and p = "fst ?run" and t = "snd ?run"] by simp
  then show ?thesis by (simp add: case_prod_beta Let_def)
qed

section \<open>The settings page\<close>

record settings_page =
  sp_settings :: AppSettings
  sp_success :: "string option"
  sp_error :: "string option"

text \<open>An update of one key is an update whose other fields are missing.\<close>

datatype settings_event =
    UpdateGeneral GeneralSettings | UpdateDisplay DisplaySettings | UpdateNetwork NetworkSettings | UpdatePrivacy PrivacySettings
  | UpdateBackup BackupSettings | ResetAll bool | ExportAll | ImportAll "StoredSettings option" | SuccessOver | ErrorOver

fun settings_service :: "settings_event \<Rightarrow> set_state \<Rightarrow> set_state" where
  "settings_service (UpdateGeneral u) s = updateGeneralSettings u s"
| "settings_service (UpdateDisplay u) s = updateDisplaySettings u s"
| "settings_service (UpdateNetwork u) s = updateNetworkSettings u s"
| "settings_service (UpdatePrivacy u) s = updatePrivacySettings u s"
| "settings_service (UpdateBackup u) s = updateBackupSettings u s"
| "settings_service (ResetAll ok) s = (if ok then resetSettings s else s)"
| "settings_service (ImportAll d) s = snd (importSettings d s)"
| "settings_service _ s = s"

fun settings_step :: "settings_event \<Rightarrow> settings_page \<times> set_state \<Rightarrow> settings_page \<times> set_state" where
  "settings_step (UpdateGeneral u) (p, s) =
     (let t = updateGeneralSettings u s in (p\<lparr>sp_settings := Settings.getSettings t, sp_success := Some ''Settings updated''\<rparr>, t))"
| "settings_step (UpdateDisplay u) (p, s) =
     (let t = updateDisplaySettings u s in (p\<lparr>sp_settings := Settings.getSettings t, sp_success := Some ''Display settings updated''\<rparr>, t))"
| "settings_step (UpdateNetwork u) (p, s) =
     (let t = updateNetworkSettings u s in (p\<lparr>sp_settings := Settings.getSettings t, sp_success := Some ''Network settings updated''\<rparr>, t))"
| "settings_step (UpdatePrivacy u) (p, s) =
     (let t = updatePrivacySettings u s in (p\<lparr>sp_settings := Settings.getSettings t, sp_success := Some ''Privacy settings updated''\<rparr>, t))"
| "settings_step (UpdateBackup u) (p, s) =
     (let t = updateBackupSettings u s in (p\<lparr>sp_settings := Settings.getSettings t, sp_success := Some ''Backup settings updated''\<rparr>, t))"
| "settings_step (ResetAll ok) (p, s) =
     (if ok then let t = resetSettings s in (p\<lparr>sp_settings := Settings.getSettings t, sp_success := Some ''Settings reset to defaults''\<rparr>, t) else (p, s))"
| "settings_step ExportAll (p, s) = (p\<lparr>sp_success := Some ''Settings exported''\<rparr>, s)"
| "settings_step (ImportAll d) (p, s) =
     (case importSettings d s of
        (True, t) \<Rightarrow> (p\<lparr>sp_settings := Settings.getSettings t, sp_success := Some ''Settings imported successfully''\<rparr>, t)
      | (False, t) \<Rightarrow> (p\<lparr>sp_error := Some ''Failed to import settings''\<rparr>, t))"
| "settings_step SuccessOver (p, s) = (p\<lparr>sp_success := None\<rparr>, s)"
| "settings_step ErrorOver (p, s) = (p\<lparr>sp_error := None\<rparr>, s)"

text \<open>The page always shows the settings of the service, and the service sees nothing but the updates.\<close>

lemma settings_page_current:
  assumes "sp_settings p = Settings.getSettings s" and "fold settings_step es (p, s) = (q, t)"
  shows "sp_settings q = Settings.getSettings t \<and> t = fold settings_service es s"
  using assms
proof (induction es arbitrary: p s)
  case (Cons e es)
  have "sp_settings (fst (settings_step e (p, s))) = Settings.getSettings (snd (settings_step e (p, s))) \<and>
        snd (settings_step e (p, s)) = settings_service e s"
    using Cons.prems(1) by (cases e) (auto simp: Let_def importSettings_def split: option.splits)
  then show ?case using Cons.IH [of "fst (settings_step e (p, s))" "settings_service e s"] Cons.prems(2) by (metis fold_simps(2) prod.collapse)
qed simp

section \<open>The faucet page\<close>

record FaucetInfo =
  fi_available :: bool
  fi_balance :: jsnum
  fi_maxAmount :: jsnum
  fi_cooldownSeconds :: int
  fi_requestsRemaining :: int
  fi_dailyLimit :: int

definition no_faucet :: FaucetInfo where
  "no_faucet = \<lparr>fi_available = False, fi_balance = 0, fi_maxAmount = 0, fi_cooldownSeconds = 0, fi_requestsRemaining = 0, fi_dailyLimit = 0\<rparr>"

record FaucetRequest =
  fr_id :: string
  fr_address :: string
  fr_amount :: jsnum
  fr_status :: string
  fr_txid :: "string option"
  fr_timestamp :: int
  fr_message :: string

record faucet_page =
  fa_address :: string
  fa_amount :: string
  fa_error :: "string option"
  fa_success :: "string option"
  faucetInfo :: "FaucetInfo option"
  requestHistory :: "FaucetRequest list"
  cooldownRemaining :: int
  isTestnet :: bool
  faucet_item :: "FaucetRequest list item"

definition safeFaucetInfo :: "faucet_page \<Rightarrow> FaucetInfo" where
  "safeFaucetInfo p = (case faucetInfo p of None \<Rightarrow> no_faucet | Some i \<Rightarrow> i)"

text \<open>The answer of the faucet, with whether it is for a test network; \<open>None\<close>: no faucet is configured or it cannot be reached.\<close>

definition loadFaucetInfo :: "(FaucetInfo \<times> bool) option \<Rightarrow> faucet_page \<Rightarrow> faucet_page" where
  "loadFaucetInfo r p = (case r of None \<Rightarrow> p\<lparr>faucetInfo := None, isTestnet := False\<rparr> | Some (i, t) \<Rightarrow> p\<lparr>faucetInfo := Some i, isTestnet := t\<rparr>)"

definition ceil_seconds :: "int \<Rightarrow> int" where
  "ceil_seconds ms = - ((- ms) div 1000)"

definition loadRequestHistory :: "int \<Rightarrow> faucet_page \<Rightarrow> faucet_page" where
  "loadRequestHistory now p =
     (case faucet_item p of
        Json h \<Rightarrow>
          (let p1 = p\<lparr>requestHistory := h\<rparr>
           in case h of
                [] \<Rightarrow> p1
              | r # _ \<Rightarrow>
                  if fr_status r = ''completed''
                  then let elapsed = now - fr_timestamp r; cooldown = fi_cooldownSeconds (safeFaucetInfo p) * 1000
                       in if elapsed < cooldown then p1\<lparr>cooldownRemaining := ceil_seconds (cooldown - elapsed)\<rparr> else p1
                  else p1)
      | _ \<Rightarrow> p)"

definition saveRequestHistory :: "FaucetRequest list \<Rightarrow> faucet_page \<Rightarrow> faucet_page" where
  "saveRequestHistory h p = p\<lparr>faucet_item := Json (take 20 h), requestHistory := take 20 h\<rparr>"

text \<open>The first effect: the history is read while the information about the faucet is still to come.\<close>

definition faucet_mounted :: "int \<Rightarrow> string \<Rightarrow> FaucetRequest list item \<Rightarrow> faucet_page" where
  "faucet_mounted now a i =
     loadRequestHistory now \<lparr>fa_address = a, fa_amount = ''1.0'', fa_error = None, fa_success = None, faucetInfo = None,
       requestHistory = [], cooldownRemaining = 0, isTestnet = False, faucet_item = i\<rparr>"

definition validateRequest :: "(jsnum \<Rightarrow> string) \<Rightarrow> faucet_page \<Rightarrow> string option" where
  "validateRequest show_num p =
     (let i = safeFaucetInfo p; a = js_parseFloat (fa_amount p)
      in if fa_address p = [] then Some ''Please select a wallet address''
         else if a = NaN \<or> not_positive a then Some ''Please enter a valid amount''
         else if exceeds a (fi_maxAmount i) then Some (''Amount cannot exceed '' @ show_num (fi_maxAmount i) @ '' KBC'')
         else if \<not> fi_available i then Some ''Faucet is currently unavailable''
         else if fi_requestsRemaining i \<le> 0 then Some ''Daily request limit reached. Please try again tomorrow.''
         else if cooldownRemaining p > 0
           then Some (''Cooldown active. Please wait '' @ show_int (cooldownRemaining p div 60) @ ''m '' @ show_int (cooldownRemaining p mod 60) @ ''s'')
         else if \<not> isTestnet p then Some ''Faucet is only available on testnet''
         else None)"

record faucet_answer =
  fan_status :: "string option"
  fan_txid :: "string option"
  fan_message :: "string option"

definition or_text :: "string option \<Rightarrow> string \<Rightarrow> string" where
  "or_text x d = (if truthy_string x then the x else d)"

text \<open>
  \<open>handleRequestFunds\<close>: what is posted, if anything, and the page when the answer \<open>r\<close> has come; an
  answer that is not OK, or no configured faucet, is an error.
\<close>

definition posted :: "(jsnum \<Rightarrow> string) \<Rightarrow> string \<Rightarrow> faucet_page \<Rightarrow> (string \<times> parsed) option" where
  "posted show_num faucetUrl p =
     (if validateRequest show_num p \<noteq> None \<or> faucetUrl = [] then None else Some (fa_address p, js_parseFloat (fa_amount p)))"

definition handleRequestFunds ::
    "(jsnum \<Rightarrow> string) \<Rightarrow> string \<Rightarrow> clock \<Rightarrow> js_error + faucet_answer \<Rightarrow> faucet_page \<Rightarrow> faucet_page" where
  "handleRequestFunds show_num faucetUrl clk r p =
     (case validateRequest show_num p of
        Some e \<Rightarrow> p\<lparr>fa_error := Some e\<rparr>
      | None \<Rightarrow>
          let p = p\<lparr>fa_error := None, fa_success := None\<rparr>; i = safeFaucetInfo p
          in if faucetUrl = [] then p\<lparr>fa_error := Some ''Faucet API not configured''\<rparr>
             else (case (r, js_parseFloat (fa_amount p)) of
                     (Inl e, _) \<Rightarrow> p\<lparr>fa_error := Some (message e)\<rparr>
                   | (Inr a, Fin x) \<Rightarrow>
                       let req = \<lparr>fr_id = ''req_'' @ show_int (clk 0), fr_address = fa_address p, fr_amount = x,
                                  fr_status = or_text (fan_status a) ''completed'', fr_txid = fan_txid a, fr_timestamp = clk 1,
                                  fr_message = or_text (fan_message a) ''Funds sent successfully''\<rparr>;
                           p1 = saveRequestHistory (req # requestHistory p) p;
                           p2 = (if fi_dailyLimit i > 0
                                 then p1\<lparr>faucetInfo := Some (i\<lparr>fi_requestsRemaining := max 0 (fi_requestsRemaining i - 1)\<rparr>)\<rparr> else p1)
                       in p2\<lparr>cooldownRemaining := fi_cooldownSeconds i,
                             fa_success := Some (''Successfully requested '' @ show_num x @ '' KBC! Transaction ID: '' @ or_text (fan_txid a) ''pending''),
                             fa_amount := ''1.0''\<rparr>
                   | _ \<Rightarrow> p))"

definition cooldown_tick :: "faucet_page \<Rightarrow> faucet_page" where
  "cooldown_tick p =
     (if cooldownRemaining p > 0 then p\<lparr>cooldownRemaining := (if cooldownRemaining p \<le> 1 then 0 else cooldownRemaining p - 1)\<rparr> else p)"

text \<open>Only a positive amount up to the limit is posted, to an open faucet of a test network and not in the cooldown.\<close>

lemma posted_is_allowed:
  assumes "posted show_num url p = Some (a, x)"
  shows "a = fa_address p \<and> a \<noteq> [] \<and> (\<exists>v. x = Fin v \<and> 0 < v \<and> v \<le> fi_maxAmount (safeFaucetInfo p)) \<and>
         0 < fi_requestsRemaining (safeFaucetInfo p) \<and> cooldownRemaining p \<le> 0 \<and> isTestnet p"
proof -
  have "validateRequest show_num p = None" "a = fa_address p" "js_parseFloat (fa_amount p) = x"
    using assms by (auto simp: posted_def split: if_splits)
  then show ?thesis by (cases x) (auto simp: validateRequest_def Let_def split: if_splits)
qed

text \<open>The cooldown runs out after as many seconds as it has, and not before.\<close>

lemma cooldown_runs_out:
  "0 \<le> cooldownRemaining p \<Longrightarrow> cooldownRemaining ((cooldown_tick ^^ k) p) = max 0 (cooldownRemaining p - int k)"
  by (induction k) (auto simp: cooldown_tick_def)

lemma faucet_history_bounded:
  "length (requestHistory (handleRequestFunds show_num url clk r p)) \<le> max 20 (length (requestHistory p))"
  by (auto simp: handleRequestFunds_def saveRequestHistory_def Let_def split: option.splits sum.splits parsed.splits)

text \<open>The history is read before the faucet has told its cooldown: after a reload there is none.\<close>

lemma cooldown_forgotten:
  assumes "h \<noteq> [] \<Longrightarrow> fr_timestamp (hd h) \<le> now"
  shows "cooldownRemaining (loadFaucetInfo f (faucet_mounted now a (Json h))) = 0"
  using assms by (cases h) (auto simp: faucet_mounted_def loadRequestHistory_def loadFaucetInfo_def safeFaucetInfo_def no_faucet_def Let_def
      split: option.splits)

section \<open>The network page\<close>

record NetworkStats =
  ns_hashrate :: jsnum
  ns_difficulty :: jsnum
  ns_blockHeight :: int
  ns_mempoolSize :: int
  ns_mempoolBytes :: int
  ns_connections :: int
  ns_version :: string
  ns_protocolVersion :: int

record network_page =
  np_stats :: "NetworkStats option"
  hashrateHistory :: "(string \<times> jsnum) list"
  difficultyHistory :: "(string \<times> jsnum) list"
  blockTimeData :: "(string \<times> jsnum) list"
  np_loading :: bool
  np_error :: "string option"

definition initial_network :: network_page where
  "initial_network = \<lparr>np_stats = None, hashrateHistory = [], difficultyHistory = [], blockTimeData = [], np_loading = True, np_error = None\<rparr>"

text \<open>What the three calls of the node answer together: difficulty, blocks, size and bytes of the pool, connections, version, protocol.\<close>

type_synonym network_answer = "jsnum \<times> int \<times> int \<times> int \<times> int \<times> string option \<times> int"

definition appendHistory :: "string \<Rightarrow> (string \<times> jsnum) list \<Rightarrow> jsnum \<Rightarrow> (string \<times> jsnum) list" where
  "appendHistory timeLabel cur v = slice_last 24 (cur @ [(timeLabel, v)])"

definition fetchNetworkStats :: "string \<Rightarrow> js_error + network_answer \<Rightarrow> network_page \<Rightarrow> network_page" where
  "fetchNetworkStats timeLabel r p =
     (case r of
        Inl e \<Rightarrow> p\<lparr>np_error := Some (message e), np_loading := False\<rparr>
      | Inr (d, blocks, sz, by, conns, ver, proto) \<Rightarrow>
          let hashrate = d * 2 ^ 32 / 600
          in p\<lparr>np_stats := Some \<lparr>ns_hashrate = hashrate, ns_difficulty = d, ns_blockHeight = blocks, ns_mempoolSize = sz, ns_mempoolBytes = by,
                 ns_connections = conns, ns_version = (if truthy_string ver then the ver else ''Unknown''), ns_protocolVersion = proto\<rparr>,
               hashrateHistory := appendHistory timeLabel (hashrateHistory p) (hashrate / 10 ^ 12),
               difficultyHistory := appendHistory timeLabel (difficultyHistory p) d,
               blockTimeData := appendHistory timeLabel (blockTimeData p) 600, np_loading := False\<rparr>)"

datatype network_view = LoadingView | ErrorView string | StatsView

definition network_shown :: "network_page \<Rightarrow> network_view" where
  "network_shown p = (if np_loading p then LoadingView else case np_error p of Some e \<Rightarrow> if e = [] then StatsView else ErrorView e | None \<Rightarrow> StatsView)"

lemma histories_bounded:
  "length (hashrateHistory (fold (\<lambda>(t, r). fetchNetworkStats t r) rs initial_network)) \<le> 24 \<and>
   length (difficultyHistory (fold (\<lambda>(t, r). fetchNetworkStats t r) rs initial_network)) =
   length (hashrateHistory (fold (\<lambda>(t, r). fetchNetworkStats t r) rs initial_network))"
proof -
  have "length (hashrateHistory (fold (\<lambda>(t, r). fetchNetworkStats t r) rs p)) \<le> 24 \<and>
        length (difficultyHistory (fold (\<lambda>(t, r). fetchNetworkStats t r) rs p)) = length (hashrateHistory (fold (\<lambda>(t, r). fetchNetworkStats t r) rs p))"
    if "length (hashrateHistory p) \<le> 24 \<and> length (difficultyHistory p) = length (hashrateHistory p)" for p
    using that
  proof (induction rs arbitrary: p)
    case (Cons tr rs)
    obtain t r where tr: "tr = (t, r)" by fastforce
    have "length (hashrateHistory (fetchNetworkStats t r p)) \<le> 24 \<and>
          length (difficultyHistory (fetchNetworkStats t r p)) = length (hashrateHistory (fetchNetworkStats t r p))"
      using Cons.prems by (auto simp: fetchNetworkStats_def appendHistory_def length_slice_last Let_def split: sum.splits)
    then show ?case using Cons.IH tr by simp
  qed simp
  then show ?thesis by (simp add: initial_network_def)
qed

text \<open>An error is never cleared: after one failed update the page shows an error for good, however many updates succeed.\<close>

lemma network_error_stays:
  assumes "np_error p = Some e" and "e \<noteq> []" and "\<not> np_loading p" and "list_all (\<lambda>(t, r). \<exists>a. r = Inr a) rs"
  shows "network_shown (fold (\<lambda>(t, r). fetchNetworkStats t r) rs p) = ErrorView e"
  using assms
proof (induction rs arbitrary: p)
  case (Cons tr rs)
  then show ?case by (cases tr) (auto simp: fetchNetworkStats_def Let_def)
qed (simp add: network_shown_def)

end
