(* ===== verification/ContactManager.thy ===== *)
theory ContactManager
  imports WalletSpend "HOL-Library.Char_ord" "HOL-Library.List_Lexorder"
begin

text \<open>
  The contact manager (services/contactManager.ts): contacts and groups that live in storage
  only and are read, changed and written back by every operation, the comma-separated export and
  import with the regular expression that takes a line apart, and the statistics over the history
  of the wallet service. A \<open>Date\<close> is its number of milliseconds.
\<close>

section \<open>State\<close>

record Contact =
  c_id :: string
  c_name :: string
  c_address :: string
  c_email :: "string option"
  c_phone :: "string option"
  c_notes :: "string option"
  c_tags :: "string list option"
  groupIds :: "string list option"
  isFavorite :: "bool option"
  c_createdAt :: int
  lastTransactionAt :: "int option"

text \<open>\<open>Omit<Contact, 'id' | 'createdAt'>\<close>\<close>

record ContactData =
  d_name :: string
  d_address :: string
  d_email :: "string option"
  d_phone :: "string option"
  d_notes :: "string option"
  d_tags :: "string list option"
  d_groupIds :: "string list option"
  d_isFavorite :: "bool option"
  d_lastTransactionAt :: "int option"

text \<open>
  \<open>Partial<Omit<Contact, 'id' | 'createdAt'>>\<close>. For an optional field \<open>Some None\<close> is a
  key that is present with the value \<open>undefined\<close>, which the spread writes.
\<close>

record ContactUpdates =
  up_name :: "string option"
  up_address :: "string option"
  up_email :: "string option option"
  up_phone :: "string option option"
  up_notes :: "string option option"
  up_tags :: "string list option option"
  up_groupIds :: "string list option option"
  up_isFavorite :: "bool option option"
  up_lastTransactionAt :: "int option option"

record ContactGroup =
  g_id :: string
  g_name :: string
  g_description :: "string option"
  g_color :: string
  g_createdAt :: int

record GroupUpdates =
  gu_name :: "string option"
  gu_description :: "string option option"
  gu_color :: "string option"

record TransactionStats =
  totalSent :: jsnum
  totalReceived :: jsnum
  transactionCount :: nat

record cm_state =
  contacts_item :: "Contact list item"
  groups_item :: "ContactGroup list item"

section \<open>Contacts\<close>

definition getAllContacts :: "(cm_state, Contact list) eff" where
  "getAllContacts s = (parse_item [] (contacts_item s), s)"

definition getAllGroups :: "(cm_state, ContactGroup list) eff" where
  "getAllGroups s = (parse_item [] (groups_item s), s)"

definition saveContacts :: "Contact list \<Rightarrow> cm_state \<Rightarrow> cm_state" where
  "saveContacts cs s = s\<lparr>contacts_item := Json cs\<rparr>"

definition saveGroups :: "ContactGroup list \<Rightarrow> cm_state \<Rightarrow> cm_state" where
  "saveGroups gs s = s\<lparr>groups_item := Json gs\<rparr>"

definition make_contact :: "clock \<Rightarrow> string \<Rightarrow> ContactData \<Rightarrow> Contact" where
  "make_contact clk rnd d =
     \<lparr>c_id = ''contact_'' @ show_int (clk 0) @ ''_'' @ rnd, c_name = d_name d, c_address = d_address d,
      c_email = d_email d, c_phone = d_phone d, c_notes = d_notes d, c_tags = d_tags d,
      groupIds = d_groupIds d, isFavorite = d_isFavorite d, c_createdAt = clk 1,
      lastTransactionAt = d_lastTransactionAt d\<rparr>"

definition addContact :: "clock \<Rightarrow> string \<Rightarrow> ContactData \<Rightarrow> (cm_state, Contact) eff" where
  "addContact clk rnd d =
     (if trim (d_name d) = [] then ethrow (Error ''Contact name is required'')
      else if \<not> startsWith (d_address d) ''KC'' then ethrow (Error ''Valid Kubercoin address is required'')
      else
        ebind getAllContacts (\<lambda>cs s.
          if list_ex (\<lambda>c. c_address c = d_address d) cs
          then (Inl (Error ''Contact with this address already exists''), s)
          else let c = make_contact clk rnd d in (Inr c, saveContacts (cs @ [c]) s)))"

text \<open>\<open>{ ...contact, ...updates }\<close>\<close>

definition spread_updates :: "ContactUpdates \<Rightarrow> Contact \<Rightarrow> Contact" where
  "spread_updates u c =
     c\<lparr>c_name := or_keep (up_name u) (c_name c), c_address := or_keep (up_address u) (c_address c),
       c_email := or_keep (up_email u) (c_email c), c_phone := or_keep (up_phone u) (c_phone c),
       c_notes := or_keep (up_notes u) (c_notes c), c_tags := or_keep (up_tags u) (c_tags c),
       groupIds := or_keep (up_groupIds u) (groupIds c),
       isFavorite := or_keep (up_isFavorite u) (isFavorite c),
       lastTransactionAt := or_keep (up_lastTransactionAt u) (lastTransactionAt c)\<rparr>"

definition updateContact :: "string \<Rightarrow> ContactUpdates \<Rightarrow> (cm_state, Contact) eff" where
  "updateContact i u =
     ebind getAllContacts (\<lambda>cs s.
       case find_index (\<lambda>c. c_id c = i) cs of
         None \<Rightarrow> (Inl (Error ''Contact not found''), s)
       | Some k \<Rightarrow>
           if truthy_string (up_address u) \<and> the (up_address u) \<noteq> c_address (cs ! k) \<and>
              list_ex (\<lambda>c. c_id c \<noteq> i \<and> c_address c = the (up_address u)) cs
           then (Inl (Error ''Contact with this address already exists''), s)
           else let c = spread_updates u (cs ! k) in (Inr c, saveContacts (cs[k := c]) s))"

definition deleteContact :: "string \<Rightarrow> (cm_state, bool) eff" where
  "deleteContact i =
     ebind getAllContacts (\<lambda>cs s.
       let rest = filter (\<lambda>c. c_id c \<noteq> i) cs
       in if length rest = length cs then (Inr False, s) else (Inr True, saveContacts rest s))"

definition getContactByAddress :: "string \<Rightarrow> (cm_state, Contact option) eff" where
  "getContactByAddress a =
     ebind getAllContacts (\<lambda>cs. eret (List.find (\<lambda>c. c_address c = a) cs))"

definition contact_matches :: "string \<Rightarrow> Contact \<Rightarrow> bool" where
  "contact_matches q c \<longleftrightarrow>
     str_includes (toLowerCase (c_name c)) q \<or>
     str_includes (toLowerCase (c_address c)) q \<or>
     str_includes (toLowerCase (text_of (c_email c))) q \<or>
     list_ex (\<lambda>t. str_includes (toLowerCase t) q) (list_of (c_tags c)) \<or>
     str_includes (toLowerCase (text_of (c_notes c))) q"

definition searchContacts :: "string \<Rightarrow> (cm_state, Contact list) eff" where
  "searchContacts q =
     ebind getAllContacts (\<lambda>cs. eret (filter (contact_matches (toLowerCase q)) cs))"

definition getContactsByTag :: "string \<Rightarrow> (cm_state, Contact list) eff" where
  "getContactsByTag t =
     ebind getAllContacts (\<lambda>cs. eret (filter (\<lambda>c. t \<in> set (list_of (c_tags c))) cs))"

definition getContactsByGroup :: "string \<Rightarrow> (cm_state, Contact list) eff" where
  "getContactsByGroup g =
     ebind getAllContacts (\<lambda>cs. eret (filter (\<lambda>c. g \<in> set (list_of (groupIds c))) cs))"

definition getFavoriteContacts :: "(cm_state, Contact list) eff" where
  "getFavoriteContacts = ebind getAllContacts (\<lambda>cs. eret (filter (\<lambda>c. isFavorite c = Some True) cs))"

text \<open>A \<open>Date\<close> object is truthy whatever its value; a limit is not negative.\<close>

definition getRecentContacts :: "nat \<Rightarrow> (cm_state, Contact list) eff" where
  "getRecentContacts limit =
     ebind getAllContacts (\<lambda>cs. eret (take limit
       (sort_desc (\<lambda>c. the (lastTransactionAt c)) (filter (\<lambda>c. lastTransactionAt c \<noteq> None) cs))))"

definition getAllTags :: "(cm_state, string list) eff" where
  "getAllTags = ebind getAllContacts (\<lambda>cs. eret (sort (remdups (concat (map (\<lambda>c. list_of (c_tags c)) cs)))))"

section \<open>Groups\<close>

definition createGroup ::
    "clock \<Rightarrow> string \<Rightarrow> string \<Rightarrow> string option \<Rightarrow> string \<Rightarrow> (cm_state, ContactGroup) eff" where
  "createGroup clk rnd name descr color =
     (if trim name = [] then ethrow (Error ''Group name is required'')
      else
        ebind getAllGroups (\<lambda>gs s.
          if list_ex (\<lambda>g. g_name g = name) gs then (Inl (Error ''Group with this name already exists''), s)
          else let g = \<lparr>g_id = ''group_'' @ show_int (clk 0) @ ''_'' @ rnd, g_name = name,
                     g_description = descr, g_color = color, g_createdAt = clk 1\<rparr>
               in (Inr g, saveGroups (gs @ [g]) s)))"

definition spread_group :: "GroupUpdates \<Rightarrow> ContactGroup \<Rightarrow> ContactGroup" where
  "spread_group u g =
     g\<lparr>g_name := or_keep (gu_name u) (g_name g), g_description := or_keep (gu_description u) (g_description g),
       g_color := or_keep (gu_color u) (g_color g)\<rparr>"

definition updateGroup :: "string \<Rightarrow> GroupUpdates \<Rightarrow> (cm_state, ContactGroup) eff" where
  "updateGroup i u =
     ebind getAllGroups (\<lambda>gs s.
       case find_index (\<lambda>g. g_id g = i) gs of
         None \<Rightarrow> (Inl (Error ''Group not found''), s)
       | Some k \<Rightarrow> let g = spread_group u (gs ! k) in (Inr g, saveGroups (gs[k := g]) s))"

definition leave_group :: "string \<Rightarrow> Contact \<Rightarrow> Contact" where
  "leave_group i c =
     (if i \<in> set (list_of (groupIds c))
      then c\<lparr>groupIds := map_option (filter (\<lambda>g. g \<noteq> i)) (groupIds c)\<rparr> else c)"

definition deleteGroup :: "string \<Rightarrow> (cm_state, bool) eff" where
  "deleteGroup i =
     ebind getAllGroups (\<lambda>gs s.
       let rest = filter (\<lambda>g. g_id g \<noteq> i) gs
       in if length rest = length gs then (Inr False, s)
          else ebind getAllContacts (\<lambda>cs s'.
            (Inr True, saveGroups rest (saveContacts (map (leave_group i) cs) s'))) s)"

section \<open>Statistics over the wallet's history\<close>

definition out_to :: "string \<Rightarrow> (string option \<times> jsnum option) list option \<Rightarrow> bool" where
  "out_to a ps \<longleftrightarrow> (case ps of None \<Rightarrow> False | Some xs \<Rightarrow> list_ex (\<lambda>(b, _). b = Some a) xs)"

text \<open>\<open>list.filter(p => p.address === address).reduce((sum, p) => sum + p.amount, 0)\<close>\<close>

definition paid_to :: "string \<Rightarrow> (string option \<times> jsnum option) list option \<Rightarrow> jsnum" where
  "paid_to a ps = sum_by (\<lambda>(_, x). the x) (filter (\<lambda>(b, _). b = Some a) (list_of ps))"

definition no_stats :: TransactionStats where
  "no_stats = \<lparr>totalSent = 0, totalReceived = 0, transactionCount = 0\<rparr>"

definition stats_of :: "string \<Rightarrow> WalletTransactionRecord list \<Rightarrow> TransactionStats" where
  "stats_of a txs =
     (let contactTxs = filter (\<lambda>tx. out_to a (wt_outputs tx) \<or> out_to a (wt_inputs tx)) txs
      in \<lparr>totalSent = sum_by (\<lambda>tx. paid_to a (wt_outputs tx)) contactTxs,
          totalReceived = sum_by (\<lambda>tx. paid_to a (wt_inputs tx)) contactTxs,
          transactionCount = length contactTxs\<rparr>)"

definition getContactTransactionStats ::
    "'n node_api \<Rightarrow> string \<Rightarrow> 'n ws \<Rightarrow> TransactionStats \<times> 'n ws" where
  "getContactTransactionStats api a s =
     (case getActiveWallet s of
        (None, s1) \<Rightarrow> (no_stats, s1)
      | (Some w, s1) \<Rightarrow>
          (case getTransactionHistory api (address w) 50 s1 of
             (Inl e, s2) \<Rightarrow> (no_stats, s2)
           | (Inr txs, s2) \<Rightarrow> (stats_of a txs, s2)))"

text \<open>\<open>Promise.all\<close> over the contacts, in the order in which the requests are made.\<close>

fun all_stats :: "'n node_api \<Rightarrow> Contact list \<Rightarrow> 'n ws \<Rightarrow> (Contact \<times> TransactionStats) list \<times> 'n ws" where
  "all_stats api [] s = ([], s)"
| "all_stats api (c # cs) s =
     (case getContactTransactionStats api (c_address c) s of
        (st, s1) \<Rightarrow> (case all_stats api cs s1 of (r, s2) \<Rightarrow> ((c, st) # r, s2)))"

definition getTopContacts ::
    "'n node_api \<Rightarrow> nat \<Rightarrow> cm_state \<Rightarrow> ('n ws, (Contact \<times> TransactionStats) list) eff" where
  "getTopContacts api limit cm s =
     (case fst (getAllContacts cm) of
        Inl e \<Rightarrow> (Inl e, s)
      | Inr cs \<Rightarrow>
          (case all_stats api cs s of
             (r, s') \<Rightarrow> (Inr (take limit (sort_desc (\<lambda>(_, st). totalSent st + totalReceived st) r)), s')))"

section \<open>Export\<close>

definition quote_cell :: "string \<Rightarrow> string" where
  "quote_cell x = CHR 0x22 # x @ [CHR 0x22]"

definition csv_cells :: "Contact \<Rightarrow> string list" where
  "csv_cells c =
     [c_name c, c_address c, text_of (c_email c), text_of (c_phone c), text_of (c_notes c),
      join_with '';'' (list_of (c_tags c)), if isFavorite c = Some True then ''true'' else ''false'']"

definition csv_row :: "Contact \<Rightarrow> string" where
  "csv_row c = join_with '','' (map quote_cell (csv_cells c))"

definition csv_header :: string where
  "csv_header = join_with '','' [''name'', ''address'', ''email'', ''phone'', ''notes'', ''tags'', ''favorite'']"

definition exportToCSV :: "(cm_state, string) eff" where
  "exportToCSV = ebind getAllContacts (\<lambda>cs. eret (join_with [CHR 0x0A] (csv_header # map csv_row cs)))"

section \<open>Import\<close>

text \<open>The lookahead \<open>(?=\s*,|\s*$)\<close>.\<close>

definition ahead :: "string \<Rightarrow> bool" where
  "ahead s \<longleftrightarrow> (case dropWhile is_space s of [] \<Rightarrow> True | c # _ \<Rightarrow> c = CHR '','')"

text \<open>
  The rest of \<open>".*?"\<close> after the opening quote: the first closing quote at which the
  lookahead holds; a dot does not match a line terminator.
\<close>

fun close_quote :: "string \<Rightarrow> (string \<times> string) option" where
  "close_quote [] = None"
| "close_quote (c # cs) =
     (if c = CHR 0x22 \<and> ahead cs then Some ([c], cs)
      else if c = CHR 0x0A \<or> c = CHR 0x0D then None
      else map_option (\<lambda>(t, r). (c # t, r)) (close_quote cs))"

text \<open>\<open>[^",]+\<close>: greedy, giving characters back until the lookahead holds.\<close>

fun longest_plain :: "nat \<Rightarrow> string \<Rightarrow> (string \<times> string) option" where
  "longest_plain 0 s = None"
| "longest_plain (Suc n) s =
     (if ahead (drop (Suc n) s) then Some (take (Suc n) s, drop (Suc n) s) else longest_plain n s)"

definition csv_token :: "string \<Rightarrow> (string \<times> string) option" where
  "csv_token s =
     (case s of
        [] \<Rightarrow> None
      | c # cs \<Rightarrow>
          if c = CHR 0x22 then map_option (\<lambda>(t, r). (c # t, r)) (close_quote cs)
          else longest_plain (length (takeWhile (\<lambda>x. x \<noteq> CHR 0x22 \<and> x \<noteq> CHR '','') s)) s)"

lemma close_quote_shorter: "close_quote s = Some (t, r) \<Longrightarrow> length r < length s"
  by (induction s arbitrary: t) (auto split: if_splits)

lemma longest_plain_shorter: "longest_plain n s = Some (t, r) \<Longrightarrow> s \<noteq> [] \<Longrightarrow> length r < length s"
  by (induction n) (auto split: if_splits)

lemma csv_token_shorter: "csv_token s = Some (t, r) \<Longrightarrow> length r < length s"
  by (auto simp: csv_token_def split: list.splits if_splits dest!: close_quote_shorter longest_plain_shorter)

text \<open>\<open>line.match(/.../g)\<close>: all matches from left to right.\<close>

function csv_matches :: "string \<Rightarrow> string list" where
  "csv_matches s =
     (case csv_token s of
        Some (t, r) \<Rightarrow> t # csv_matches r
      | None \<Rightarrow> (case s of [] \<Rightarrow> [] | _ # cs \<Rightarrow> csv_matches cs))"
  by pat_completeness auto
termination
  by (relation "measure length") (auto dest: csv_token_shorter)

declare csv_matches.simps [simp del]

text \<open>\<open>v.replace(/^"|"$/g, '')\<close>\<close>

definition strip_head :: "string \<Rightarrow> string" where
  "strip_head s = (case s of [] \<Rightarrow> [] | c # cs \<Rightarrow> if c = CHR 0x22 then cs else s)"

definition unquote :: "string \<Rightarrow> string" where
  "unquote s = rev (strip_head (rev (strip_head s)))"

definition nth_or_undefined :: "'a list \<Rightarrow> nat \<Rightarrow> 'a option" where
  "nth_or_undefined xs i = (if i < length xs then Some (xs ! i) else None)"

text \<open>\<open>x || undefined\<close>\<close>

definition non_empty :: "string option \<Rightarrow> string option" where
  "non_empty x = (if truthy_string x then x else None)"

definition csv_data :: "string list \<Rightarrow> ContactData" where
  "csv_data vs =
     \<lparr>d_name = text_of (nth_or_undefined vs 0), d_address = text_of (nth_or_undefined vs 1),
      d_email = non_empty (nth_or_undefined vs 2), d_phone = non_empty (nth_or_undefined vs 3),
      d_notes = non_empty (nth_or_undefined vs 4),
      d_tags = map_option (\<lambda>t. filter (\<lambda>x. x \<noteq> []) (split_on (CHR '';'') t)) (non_empty (nth_or_undefined vs 5)),
      d_groupIds = None, d_isFavorite = Some (nth_or_undefined vs 6 = Some ''true''),
      d_lastTransactionAt = None\<rparr>"

text \<open>The object has the keys from name to isFavorite, so an update writes all of these.\<close>

definition data_updates :: "ContactData \<Rightarrow> ContactUpdates" where
  "data_updates d =
     \<lparr>up_name = Some (d_name d), up_address = Some (d_address d), up_email = Some (d_email d),
      up_phone = Some (d_phone d), up_notes = Some (d_notes d), up_tags = Some (d_tags d),
      up_groupIds = None, up_isFavorite = Some (d_isFavorite d), up_lastTransactionAt = None\<rparr>"

text \<open>One line; the result says whether it counts, and a throw is caught.\<close>

definition import_line :: "clock \<Rightarrow> string \<Rightarrow> string \<Rightarrow> (cm_state, bool) eff" where
  "import_line clk rnd line =
     ecatch
       (let ms = csv_matches line
        in if length ms < 2 then eret False
           else
             let d = csv_data (map (\<lambda>v. trim (unquote v)) ms)
             in if d_name d = [] \<or> d_address d = [] then eret False
                else
                  ebind (getContactByAddress (d_address d)) (\<lambda>existing.
                    case existing of
                      Some c \<Rightarrow> ebind (updateContact (c_id c) (data_updates d)) (\<lambda>_. eret True)
                    | None \<Rightarrow> ebind (addContact clk rnd d) (\<lambda>_. eret True)))
       (\<lambda>_. eret False)"

text \<open>The clock readings and the random string of the k-th line are \<open>clk k\<close> and \<open>rnd k\<close>.\<close>

fun import_lines ::
    "(nat \<Rightarrow> clock) \<Rightarrow> (nat \<Rightarrow> string) \<Rightarrow> nat \<Rightarrow> string list \<Rightarrow> cm_state \<Rightarrow> nat \<times> cm_state" where
  "import_lines clk rnd k [] s = (0, s)"
| "import_lines clk rnd k (l # ls) s =
     (case import_line (clk k) (rnd k) l s of
        (r, s1) \<Rightarrow> (case import_lines clk rnd (Suc k) ls s1 of
          (n, s2) \<Rightarrow> (if r = Inr True then Suc n else n, s2)))"

definition importFromCSV ::
    "(nat \<Rightarrow> clock) \<Rightarrow> (nat \<Rightarrow> string) \<Rightarrow> string \<Rightarrow> (cm_state, nat) eff" where
  "importFromCSV clk rnd csv s =
     (let ls = filter (\<lambda>l. trim l \<noteq> []) (split_on (CHR 0x0A) csv)
      in if length ls < 2 then (Inl (Error ''Invalid CSV format''), s)
         else (case import_lines clk rnd 0 (drop 1 ls) s of (n, s') \<Rightarrow> (Inr n, s')))"

section \<open>Taking an exported line apart\<close>

lemma trim_eq_Nil: "trim s = [] \<longleftrightarrow> (\<forall>c \<in> set s. is_space c)"
proof
  assume "trim s = []"
  then have "\<forall>c \<in> set (dropWhile is_space s). is_space c" by (simp add: trim_def dropWhile_eq_Nil_conv)
  then have "dropWhile is_space s = []" by (metis hd_dropWhile hd_in_set)
  then show "\<forall>c \<in> set s. is_space c" by (simp add: dropWhile_eq_Nil_conv)
qed (simp add: trim_def dropWhile_eq_Nil_conv [THEN iffD2])

lemma set_join_with: "set (join_with d ws) \<subseteq> set d \<union> (\<Union>w \<in> set ws. set w)"
  by (induction d ws rule: join_with.induct) auto

text \<open>A cell that survives: no quote, no line terminator, no white space at its ends.\<close>

definition clean_cell :: "string \<Rightarrow> bool" where
  "clean_cell x \<longleftrightarrow> CHR 0x22 \<notin> set x \<and> CHR 0x0A \<notin> set x \<and> CHR 0x0D \<notin> set x \<and> trim x = x"

lemma ahead_simps [simp]: "ahead []" "ahead (CHR '','' # s)"
  by (simp_all add: ahead_def is_space_def)

lemma close_quote_cell: "clean_cell x \<Longrightarrow> ahead r \<Longrightarrow> close_quote (x @ CHR 0x22 # r) = Some (x @ [CHR 0x22], r)"
proof -
  have "CHR 0x22 \<notin> set x \<Longrightarrow> CHR 0x0A \<notin> set x \<Longrightarrow> CHR 0x0D \<notin> set x \<Longrightarrow> ahead r \<Longrightarrow>
      close_quote (x @ CHR 0x22 # r) = Some (x @ [CHR 0x22], r)"
    by (induction x) auto
  then show "clean_cell x \<Longrightarrow> ahead r \<Longrightarrow> close_quote (x @ CHR 0x22 # r) = Some (x @ [CHR 0x22], r)"
    by (simp add: clean_cell_def)
qed

lemma csv_token_cell: "clean_cell x \<Longrightarrow> ahead r \<Longrightarrow> csv_token (quote_cell x @ r) = Some (quote_cell x, r)"
  by (simp add: csv_token_def quote_cell_def close_quote_cell)

lemma csv_token_comma: "csv_token (CHR '','' # s) = None"
  by (simp add: csv_token_def)

lemma csv_matches_row:
  "(\<And>x. x \<in> set xs \<Longrightarrow> clean_cell x) \<Longrightarrow> csv_matches (join_with '','' (map quote_cell xs)) = map quote_cell xs"
proof (induction "'',''" xs rule: join_with.induct)
  case 1
  then show ?case by (simp add: csv_matches.simps csv_token_def)
next
  case (2 x)
  have "csv_matches [] = []" by (simp add: csv_matches.simps csv_token_def)
  then show ?case using csv_token_cell [of x "[]"] 2 by (simp add: csv_matches.simps [of "quote_cell x"])
next
  case (3 x y xs)
  let ?rest = "join_with '','' (map quote_cell (y # xs))"
  have "csv_token (quote_cell x @ CHR '','' # ?rest) = Some (quote_cell x, CHR '','' # ?rest)"
    using 3 by (intro csv_token_cell) auto
  moreover have "csv_matches (CHR '','' # ?rest) = csv_matches ?rest"
    by (subst csv_matches.simps) (simp add: csv_token_comma)
  moreover have "csv_matches ?rest = map quote_cell (y # xs)" using 3 by auto
  ultimately have "csv_matches (quote_cell x @ CHR '','' # ?rest) = quote_cell x # map quote_cell (y # xs)"
    by (subst csv_matches.simps) simp
  then show ?case by simp
qed

lemma unquote_cell [simp]: "unquote (quote_cell x) = x"
  by (simp add: unquote_def strip_head_def quote_cell_def)

section \<open>Export and import are inverse\<close>

text \<open>
  The contacts that an export preserves: clean cells, what \<open>addContact\<close> asks for, and no
  empty text where the import reads 'absent'.
\<close>

definition csv_safe :: "Contact \<Rightarrow> bool" where
  "csv_safe c \<longleftrightarrow>
     list_all clean_cell (csv_cells c) \<and> c_name c \<noteq> [] \<and> startsWith (c_address c) ''KC'' \<and>
     c_email c \<noteq> Some [] \<and> c_phone c \<noteq> Some [] \<and> c_notes c \<noteq> Some [] \<and> c_tags c \<noteq> Some [] \<and>
     list_all (\<lambda>t. t \<noteq> [] \<and> CHR '';'' \<notin> set t) (list_of (c_tags c))"

text \<open>What of a contact the export carries.\<close>

definition csv_view ::
    "Contact \<Rightarrow> string \<times> string \<times> string option \<times> string option \<times> string option \<times> string list option \<times> bool" where
  "csv_view c = (c_name c, c_address c, c_email c, c_phone c, c_notes c, c_tags c, isFavorite c = Some True)"

lemma non_empty_text: "x \<noteq> Some [] \<Longrightarrow> non_empty (Some (text_of x)) = x"
  by (cases x) (auto simp: non_empty_def text_of_def)

lemma tags_back:
  assumes "ts \<noteq> Some []" and "list_all (\<lambda>t. t \<noteq> [] \<and> CHR '';'' \<notin> set t) (list_of ts)"
  shows "map_option (\<lambda>t. filter (\<lambda>x. x \<noteq> []) (split_on (CHR '';'') t)) (non_empty (Some (join_with '';'' (list_of ts)))) = ts"
proof (cases ts)
  case None
  then show ?thesis by (simp add: list_of_def non_empty_def)
next
  case (Some xs)
  then obtain y ys where xs: "xs = y # ys" and ok: "list_all (\<lambda>t. t \<noteq> [] \<and> CHR '';'' \<notin> set t) xs"
    using assms by (cases xs) (auto simp: list_of_def)
  then have "join_with '';'' xs \<noteq> []" by (cases ys) auto
  moreover have "split_on (CHR '';'') (join_with '';'' xs) = xs"
    using xs ok by (intro split_on_join) (auto simp: list_all_iff)
  moreover have "filter (\<lambda>x. x \<noteq> []) xs = xs" using ok by (simp add: list_all_iff)
  ultimately show ?thesis using Some by (simp add: list_of_def non_empty_def)
qed

lemma row_values: "csv_safe c \<Longrightarrow> map (\<lambda>v. trim (unquote v)) (csv_matches (csv_row c)) = csv_cells c"
proof -
  assume "csv_safe c"
  then have "\<And>x. x \<in> set (csv_cells c) \<Longrightarrow> clean_cell x" by (simp add: csv_safe_def list_all_iff)
  then show ?thesis
    by (simp add: csv_row_def csv_matches_row comp_def clean_cell_def map_idI)
qed

lemma view_back: "csv_safe c \<Longrightarrow> csv_view (make_contact clk rnd (csv_data (csv_cells c))) = csv_view c"
  by (simp add: csv_safe_def csv_view_def make_contact_def csv_data_def csv_cells_def nth_or_undefined_def
      non_empty_text tags_back) (simp add: text_of_def)

lemma import_row:
  assumes "csv_safe c" and "parse_item [] (contacts_item s) = Inr cs" and "c_address c \<notin> c_address ` set cs"
  shows "import_line clk rnd (csv_row c) s =
    (Inr True, saveContacts (cs @ [make_contact clk rnd (csv_data (csv_cells c))]) s)"
proof -
  let ?d = "csv_data (csv_cells c)"
  have n: "d_name ?d = c_name c" "d_address ?d = c_address c"
    by (simp_all add: csv_data_def csv_cells_def nth_or_undefined_def text_of_def)
  have "trim (c_name c) = c_name c" using assms(1) by (simp add: csv_safe_def csv_cells_def clean_cell_def)
  moreover have "length (csv_matches (csv_row c)) = 7"
    using arg_cong [OF row_values [OF assms(1)], of length] by (simp add: csv_cells_def)
  moreover have "c_name c \<noteq> []" "c_address c \<noteq> []" "startsWith (c_address c) ''KC''"
    using assms(1) by (auto simp: csv_safe_def startsWith_def)
  moreover have f: "\<not> list_ex (\<lambda>x. c_address x = c_address c) cs"
    using assms(3) unfolding list_ex_iff by (metis imageI)
  moreover have "List.find (\<lambda>x. c_address x = c_address c) cs = None"
    using f by (simp add: find_None_iff list_ex_iff)
  ultimately show ?thesis
    using assms(2)
    by (simp add: import_line_def row_values [OF assms(1)] n ecatch_def ebind_def eret_def
        getContactByAddress_def getAllContacts_def addContact_def Let_def)
qed

lemma import_rows:
  assumes "list_all csv_safe ds" and "distinct (map c_address (cs @ ds))" and "parse_item [] (contacts_item s) = Inr cs"
  shows "\<exists>s' cs'. import_lines clk rnd k (map csv_row ds) s = (length ds, s') \<and>
    parse_item [] (contacts_item s') = Inr (cs @ cs') \<and> map csv_view cs' = map csv_view ds"
  using assms
proof (induction ds arbitrary: cs s k)
  case Nil
  then show ?case by simp
next
  case (Cons d ds)
  let ?c = "make_contact (clk k) (rnd k) (csv_data (csv_cells d))"
  let ?s = "saveContacts (cs @ [?c]) s"
  have d: "csv_safe d" "c_address d \<notin> c_address ` set cs" using Cons.prems by auto
  have v: "csv_view ?c = csv_view d" using d(1) by (rule view_back)
  then have "c_address ?c = c_address d" by (simp add: csv_view_def)
  with Cons.prems have "distinct (map c_address ((cs @ [?c]) @ ds))" by auto
  with Cons.IH [of "cs @ [?c]" ?s "Suc k"] Cons.prems obtain s' cs' where
    "import_lines clk rnd (Suc k) (map csv_row ds) ?s = (length ds, s')"
    "parse_item [] (contacts_item s') = Inr ((cs @ [?c]) @ cs')" "map csv_view cs' = map csv_view ds"
    by (auto simp: saveContacts_def)
  with import_row [OF d(1) Cons.prems(3) d(2)] v show ?case
    by (intro exI [of _ s'] exI [of _ "?c # cs'"]) simp
qed

lemma row_line: "csv_safe c \<Longrightarrow> CHR 0x0A \<notin> set (csv_row c) \<and> trim (csv_row c) \<noteq> []"
proof
  assume c: "csv_safe c"
  then have "\<forall>x \<in> set (csv_cells c). CHR 0x0A \<notin> set x" by (auto simp: csv_safe_def list_all_iff clean_cell_def)
  then show "CHR 0x0A \<notin> set (csv_row c)"
    using set_join_with [of "'',''" "map quote_cell (csv_cells c)"]
    unfolding csv_row_def quote_cell_def by fastforce
  have "CHR 0x22 \<in> set (csv_row c)" by (simp add: csv_row_def csv_cells_def quote_cell_def)
  moreover have "\<not> is_space (CHR 0x22)" by (simp add: is_space_def)
  ultimately show "trim (csv_row c) \<noteq> []" by (auto simp: trim_eq_Nil)
qed

lemma exported_lines:
  assumes "list_all csv_safe cs"
  shows "filter (\<lambda>l. trim l \<noteq> []) (split_on (CHR 0x0A) (join_with [CHR 0x0A] (csv_header # map csv_row cs))) =
    csv_header # map csv_row cs"
proof -
  have "CHR 0x0A \<notin> set csv_header \<and> trim csv_header \<noteq> []" by (simp add: csv_header_def trim_def is_space_def)
  with assms row_line show ?thesis
    by (subst split_on_join) (auto simp: list_all_iff filter_id_conv)
qed

definition demo_contact :: Contact where
  "demo_contact =
     \<lparr>c_id = ''c1'', c_name = ''Ann, Bob'', c_address = ''KC1'', c_email = Some ''a@b'', c_phone = None,
      c_notes = None, c_tags = Some [''x'', ''y''], groupIds = None, isFavorite = Some True,
      c_createdAt = 5, lastTransactionAt = None\<rparr>"

text \<open>
  Exporting the address list and importing the file into an empty contact manager gives the
  contacts back. For contacts whose cells hold no quotes, line breaks or surrounding blanks, all
  lines are imported and name, address, e-mail, telephone, notes, tags and favourite mark of every
  contact are what they were, in the same order.
\<close>

theorem csv_roundtrip:
  assumes "contacts_item s = Json cs" and "cs \<noteq> []" and "list_all csv_safe cs" and "distinct (map c_address cs)"
    and "contacts_item t = Absent"
  shows "\<exists>csv t' cs'. exportToCSV s = (Inr csv, s) \<and> importFromCSV clk rnd csv t = (Inr (length cs), t') \<and>
    contacts_item t' = Json cs' \<and> map csv_view cs' = map csv_view cs"
proof -
  let ?csv = "join_with [CHR 0x0A] (csv_header # map csv_row cs)"
  have e: "exportToCSV s = (Inr ?csv, s)"
    using assms(1) by (simp add: exportToCSV_def ebind_def eret_def getAllContacts_def)
  obtain t' cs' where i: "import_lines clk rnd 0 (map csv_row cs) t = (length cs, t')"
      "parse_item [] (contacts_item t') = Inr cs'" "map csv_view cs' = map csv_view cs"
    using import_rows [of cs "[]" t clk rnd 0] assms by auto
  have "cs' \<noteq> []" using i(3) assms(2) by auto
  with i(2) have "contacts_item t' = Json cs'" by (cases "contacts_item t'") (auto split: if_splits)
  moreover have "importFromCSV clk rnd ?csv t = (Inr (length cs), t')"
    unfolding importFromCSV_def exported_lines [OF assms(3)] using i(1) assms(2) by (cases cs) simp_all
  ultimately show ?thesis using e i(3) by blast
qed

theorem csv_roundtrip_witness:
  "\<exists>csv t' cs'. exportToCSV \<lparr>contacts_item = Json [demo_contact], groups_item = Absent\<rparr> =
       (Inr csv, \<lparr>contacts_item = Json [demo_contact], groups_item = Absent\<rparr>) \<and>
     importFromCSV (\<lambda>_ _. 0) (\<lambda>_. ''r'') csv \<lparr>contacts_item = Absent, groups_item = Absent\<rparr> = (Inr 1, t') \<and>
     contacts_item t' = Json cs' \<and> map csv_view cs' = [csv_view demo_contact]"
proof -
  have "csv_safe demo_contact"
    by (simp add: csv_safe_def csv_cells_def demo_contact_def clean_cell_def trim_def is_space_def text_of_def
        list_of_def startsWith_def)
  then show ?thesis
    using csv_roundtrip [of "\<lparr>contacts_item = Json [demo_contact], groups_item = Absent\<rparr>" "[demo_contact]"
        "\<lparr>contacts_item = Absent, groups_item = Absent\<rparr>" "\<lambda>_ _. 0" "\<lambda>_. ''r''"] by simp
qed

text \<open>
  A quote followed by a comma in a name is not escaped: the import reads what follows it as the
  address. The file of a list with one contact 'X","KCevil' at 'KCgood' comes back as a contact
  'X' at 'KCevil'.
\<close>

definition evil_contact :: Contact where
  "evil_contact = demo_contact\<lparr>c_name := ''X'' @ [CHR 0x22, CHR '','', CHR 0x22] @ ''KCevil'',
     c_address := ''KCgood'', c_email := None, c_tags := None\<rparr>"

lemma export_does_not_escape:
  "fst (exportToCSV \<lparr>contacts_item = Json [evil_contact], groups_item = Absent\<rparr>) =
     Inr (csv_header @ CHR 0x0A # csv_row evil_contact)"
  "map (\<lambda>v. trim (unquote v)) (take 2 (csv_matches (csv_row evil_contact))) = [''X'', ''KCevil'']"
  by (simp add: exportToCSV_def ebind_def eret_def getAllContacts_def) code_simp

section \<open>Contacts stay distinguishable\<close>

text \<open>No two contacts share an identifier or an address; the empty address is exempt.\<close>

definition distinguishable :: "Contact list \<Rightarrow> bool" where
  "distinguishable cs \<longleftrightarrow> distinct (map c_id cs) \<and>
     list_all (\<lambda>c. list_all (\<lambda>d. c_address c = c_address d \<and> c_address c \<noteq> [] \<longrightarrow> c_id c = c_id d) cs) cs"

definition cm_inv :: "cm_state \<Rightarrow> bool" where
  "cm_inv s = (case parse_item [] (contacts_item s) of Inl e \<Rightarrow> True | Inr cs \<Rightarrow> distinguishable cs)"

datatype cm_op =
    Add clock string ContactData
  | Update string ContactUpdates
  | Delete string
  | CreateGroup clock string string "string option" string
  | UpdateGroup string GroupUpdates
  | DeleteGroup string
  | ImportLine clock string string

fun cm_step :: "cm_op \<Rightarrow> cm_state \<Rightarrow> cm_state" where
  "cm_step (Add clk rnd d) s = snd (addContact clk rnd d s)"
| "cm_step (Update i u) s = snd (updateContact i u s)"
| "cm_step (Delete i) s = snd (deleteContact i s)"
| "cm_step (CreateGroup clk rnd n d c) s = snd (createGroup clk rnd n d c s)"
| "cm_step (UpdateGroup i u) s = snd (updateGroup i u s)"
| "cm_step (DeleteGroup i) s = snd (deleteGroup i s)"
| "cm_step (ImportLine clk rnd l) s = snd (import_line clk rnd l s)"

text \<open>The identifier that an operation may draw is not in use.\<close>

definition id_unused :: "clock \<Rightarrow> string \<Rightarrow> cm_state \<Rightarrow> bool" where
  "id_unused clk rnd s =
     (case parse_item [] (contacts_item s) of
        Inl e \<Rightarrow> True
      | Inr cs \<Rightarrow> list_all (\<lambda>c. c_id c \<noteq> ''contact_'' @ show_int (clk 0) @ ''_'' @ rnd) cs)"

fun draws_fresh :: "cm_op \<Rightarrow> cm_state \<Rightarrow> bool" where
  "draws_fresh (Add clk rnd d) s = id_unused clk rnd s"
| "draws_fresh (ImportLine clk rnd l) s = id_unused clk rnd s"
| "draws_fresh _ s = True"

lemma distinguishable_add:
  assumes "distinguishable cs" and "list_all (\<lambda>x. c_id x \<noteq> c_id c) cs" and "\<not> list_ex (\<lambda>x. c_address x = c_address c) cs"
  shows "distinguishable (cs @ [c])"
proof -
  have "c_id c \<notin> c_id ` set cs" using assms(2) unfolding list_all_iff by (metis imageE)
  moreover have "\<forall>x \<in> set cs. c_address x \<noteq> c_address c" using assms(3) by (simp add: list_ex_iff)
  ultimately show ?thesis
    using assms(1) unfolding distinguishable_def list_all_iff by (simp add: ball_Un) metis
qed

lemma distinguishable_map:
  "distinguishable cs \<Longrightarrow> (\<And>c. c_id (f c) = c_id c \<and> c_address (f c) = c_address c) \<Longrightarrow> distinguishable (map f cs)"
  unfolding distinguishable_def by (auto simp: list_all_iff comp_def)

lemma distinguishable_filter: "distinguishable cs \<Longrightarrow> distinguishable (filter P cs)"
  unfolding distinguishable_def by (auto simp: list_all_iff distinct_map_filter)

lemma distinguishable_update:
  assumes cs: "distinguishable cs" and k: "k < length cs" and "c_id c = c_id (cs ! k)"
    and "\<And>d. d \<in> set cs \<Longrightarrow> c_id d \<noteq> c_id c \<Longrightarrow> c_address d = c_address c \<Longrightarrow> c_address c = []"
  shows "distinguishable (cs[k := c])"
proof -
  have "map c_id (cs[k := c]) = map c_id cs"
    using k assms(3) by (metis list_update_id map_update nth_map)
  moreover have "x \<in> set (cs[k := c]) \<Longrightarrow> x = c \<or> x \<in> set cs" for x
    using set_update_subset_insert [of cs k c] by blast
  ultimately show ?thesis
    using cs assms(4) unfolding distinguishable_def list_all_iff by metis
qed

lemmas cm_eff = ebind_def eret_def ethrow_def getAllContacts_def getAllGroups_def saveContacts_def saveGroups_def

lemma add_inv: "cm_inv s \<Longrightarrow> id_unused clk rnd s \<Longrightarrow> cm_inv (snd (addContact clk rnd d s))"
  by (auto simp: cm_inv_def id_unused_def addContact_def make_contact_def cm_eff Let_def split: sum.splits
      intro!: distinguishable_add)

lemma update_inv: "cm_inv s \<Longrightarrow> cm_inv (snd (updateContact i u s))"
proof (cases "parse_item [] (contacts_item s)")
  case (Inr cs)
  assume s: "cm_inv s"
  show ?thesis
  proof (cases "find_index (\<lambda>c. c_id c = i) cs")
    case (Some k)
    let ?c = "spread_updates u (cs ! k)"
    note k = find_index_Some [OF Some]
    have ok: "distinguishable cs" using s Inr by (simp add: cm_inv_def)
    have c: "c_id ?c = c_id (cs ! k)" "c_address ?c = or_keep (up_address u) (c_address (cs ! k))"
      by (simp_all add: spread_updates_def)
    have "distinguishable (cs[k := ?c])"
      if "\<not> (truthy_string (up_address u) \<and> the (up_address u) \<noteq> c_address (cs ! k) \<and>
              list_ex (\<lambda>c. c_id c \<noteq> i \<and> c_address c = the (up_address u)) cs)"
    proof (rule distinguishable_update [OF ok conjunct1 [OF k] c(1)])
      fix d
      assume d: "d \<in> set cs" "c_id d \<noteq> c_id ?c" "c_address d = c_address ?c"
      then have "c_address ?c = c_address (cs ! k) \<Longrightarrow> c_address ?c = []"
        using ok k c(1) unfolding distinguishable_def list_all_iff by (metis nth_mem)
      moreover have "c_address ?c \<noteq> c_address (cs ! k) \<Longrightarrow> up_address u = Some (c_address ?c)"
        using c(2) by (cases "up_address u") (simp_all add: or_keep_def)
      ultimately show "c_address ?c = []"
        using that d k c(1)
        by (cases "c_address ?c = c_address (cs ! k)") (auto simp: list_ex_iff)
    qed
    with s Inr Some show ?thesis by (simp add: cm_inv_def updateContact_def cm_eff Let_def)
  qed (use s Inr in \<open>simp add: cm_inv_def updateContact_def cm_eff\<close>)
qed (simp add: cm_inv_def updateContact_def cm_eff)

lemma import_inv: "cm_inv s \<Longrightarrow> id_unused clk rnd s \<Longrightarrow> cm_inv (snd (import_line clk rnd l s))"
  using add_inv [of s clk rnd] update_inv [of s]
  by (auto simp: import_line_def getContactByAddress_def Let_def ecatch_def ebind_def eret_def getAllContacts_def
      split: sum.splits prod.splits option.splits) (metis snd_conv)+

text \<open>
  Whatever is done to the contacts, importing lines and deleting groups included, no two of
  them come to share an identifier or a non-empty address, provided that a new identifier is not
  already in use.
\<close>

theorem contacts_stay_distinguishable:
  assumes "cm_inv s" and "draws_fresh op s"
  shows "cm_inv (cm_step op s)"
proof (cases op)
  case (Delete i)
  with assms show ?thesis
    by (auto simp: cm_inv_def deleteContact_def cm_eff Let_def distinguishable_filter split: sum.splits)
next
  case (DeleteGroup i)
  with assms show ?thesis
    by (auto simp: cm_inv_def deleteGroup_def cm_eff Let_def leave_group_def distinguishable_map split: sum.splits)
next
  case (CreateGroup clk rnd n d c)
  with assms show ?thesis by (auto simp: cm_inv_def createGroup_def cm_eff Let_def split: sum.splits)
next
  case (UpdateGroup i u)
  with assms show ?thesis
    by (auto simp: cm_inv_def updateGroup_def cm_eff Let_def split: sum.splits option.splits)
qed (use assms in \<open>simp_all add: add_inv update_inv import_inv\<close>)

theorem contacts_stay_distinguishable_witness:
  "cm_inv (cm_step (Delete ''c1'') \<lparr>contacts_item = Json [demo_contact], groups_item = Absent\<rparr>)"
  by (rule contacts_stay_distinguishable) (simp_all add: cm_inv_def distinguishable_def)

text \<open>
  The statistics never find anything received: the history gives inputs without addresses, so
  \<open>totalReceived\<close> is zero for every contact, whatever the node reports.
\<close>

lemma nothing_received:
  "totalReceived (fst (getContactTransactionStats api a s)) = 0"
proof -
  have "totalReceived (stats_of a txs) = 0" if "getTransactionHistory api b k u = (Inr txs, u')" for b k u u' txs
  proof -
    have "paid_to a (wt_inputs tx) = 0" if "tx \<in> set txs" for tx
    proof -
      have "filter (\<lambda>(b, _). b = Some a) (list_of (wt_inputs tx)) = []"
        using history_inputs_unaddressed [OF \<open>getTransactionHistory api b k u = (Inr txs, u')\<close> that]
        by (auto simp: filter_empty_conv list_all_iff)
      then show ?thesis unfolding paid_to_def by (simp only: sum_by_Nil)
    qed
    then have "totalReceived (stats_of a txs) =
        sum_by (\<lambda>_. 0) (filter (\<lambda>tx. out_to a (wt_outputs tx) \<or> out_to a (wt_inputs tx)) txs)"
      unfolding stats_of_def by (auto simp: Let_def intro!: sum_by_cong)
    then show ?thesis by (simp add: sum_by_sum_list)
  qed
  then show ?thesis
    by (auto simp: getContactTransactionStats_def no_stats_def split: prod.splits option.splits sum.splits)
qed

text \<open>After a group is deleted nobody is in it, and nothing else about the contacts changed.\<close>

lemma deleted_group_is_empty:
  assumes "deleteGroup i s = (Inr True, s')" and "parse_item [] (contacts_item s) = Inr cs"
  shows "\<exists>cs'. contacts_item s' = Json cs' \<and> fst (getContactsByGroup i s') = Inr [] \<and>
    map (\<lambda>c. c\<lparr>groupIds := None\<rparr>) cs' = map (\<lambda>c. c\<lparr>groupIds := None\<rparr>) cs"
proof -
  have "contacts_item s' = Json (map (leave_group i) cs)"
    using assms by (auto simp: deleteGroup_def cm_eff Let_def split: sum.splits if_splits)
  moreover have "i \<notin> set (list_of (groupIds (leave_group i c)))" for c
    by (cases "groupIds c") (auto simp: leave_group_def list_of_def)
  moreover have "(leave_group i c)\<lparr>groupIds := None\<rparr> = c\<lparr>groupIds := None\<rparr>" for c
    by (simp add: leave_group_def)
  ultimately show ?thesis by (simp add: getContactsByGroup_def cm_eff comp_def filter_empty_conv)
qed

end
