(* ===== verification/TransactionSearch.thy ===== *)
theory TransactionSearch
  imports WalletSpend
begin

text \<open>
  Transaction search (services/transactionSearch.ts): the history of the active wallet joined with
  the metadata kept in storage (notes, tags, categories, attachments), text search, filters, saved
  presets, bulk tagging, statistics and export. Dates are milliseconds. What depends on the
  browser's locale or on number formatting is an argument: the end of a local day, the ISO form of
  a time, the text of a number, and the regular expression engine (a pattern that does not compile
  has no test).
\<close>

section \<open>Data\<close>

datatype TransactionCategory = Income | Expense | Transfer | Trading | OtherCategory

record TransactionMetadata =
  m_txId :: string
  m_note :: "string option"
  m_tags :: "string list"
  m_category :: "TransactionCategory option"
  m_attachments :: "string list option"

record SearchFilters =
  dateFrom :: "int option"
  dateTo :: "int option"
  amountMin :: "jsnum option"
  amountMax :: "jsnum option"
  feeMin :: "jsnum option"
  feeMax :: "jsnum option"
  confirmationsMin :: "int option"
  f_type :: "string option"
  f_categories :: "TransactionCategory list"
  f_tags :: "string list"
  contactAddress :: "string option"

record SearchPreset =
  p_id :: string
  p_name :: string
  p_description :: "string option"
  p_filters :: SearchFilters
  p_createdAt :: int

record ts_state =
  metadata_item :: "(string, TransactionMetadata) jsmap item"
  presets_item :: "SearchPreset list item"

text \<open>A transaction of the history with its metadata spread over it; the two share no key.\<close>

record SearchTx =
  s_tx :: WalletTransactionRecord
  s_meta :: TransactionMetadata

section \<open>Metadata\<close>

definition empty_metadata :: "string \<Rightarrow> TransactionMetadata" where
  "empty_metadata t = \<lparr>m_txId = t, m_note = None, m_tags = [], m_category = None, m_attachments = None\<rparr>"

definition getAllMetadata :: "(ts_state, (string, TransactionMetadata) jsmap) eff" where
  "getAllMetadata s = (parse_item [] (metadata_item s), s)"

definition saveMetadata :: "(string, TransactionMetadata) jsmap \<Rightarrow> ts_state \<Rightarrow> ts_state" where
  "saveMetadata m s = s\<lparr>metadata_item := Json m\<rparr>"

definition lookup_metadata :: "string \<Rightarrow> (string, TransactionMetadata) jsmap \<Rightarrow> TransactionMetadata" where
  "lookup_metadata t m = (case map_of m t of None \<Rightarrow> empty_metadata t | Some d \<Rightarrow> d)"

definition getMetadata :: "string \<Rightarrow> (ts_state, TransactionMetadata) eff" where
  "getMetadata t = ebind getAllMetadata (\<lambda>m. eret (lookup_metadata t m))"

text \<open>
  \<open>if (!metadata[txId]) metadata[txId] = { txId, tags: [] }\<close>, a change of the entry, and the
  write back.
\<close>

definition modify_metadata :: "string \<Rightarrow> (TransactionMetadata \<Rightarrow> TransactionMetadata) \<Rightarrow> (ts_state, unit) eff" where
  "modify_metadata t f =
     ebind getAllMetadata (\<lambda>m s. (Inr (), saveMetadata (AList.update t (f (lookup_metadata t m)) m) s))"

definition addTag :: "string \<Rightarrow> string \<Rightarrow> (ts_state, unit) eff" where
  "addTag t tag =
     (if trim tag = [] then ethrow (Error ''Tag cannot be empty'')
      else ebind getAllMetadata (\<lambda>m s.
        let d = lookup_metadata t m
        in if tag \<in> set (m_tags d) then (Inr (), s)
           else (Inr (), saveMetadata (AList.update t (d\<lparr>m_tags := m_tags d @ [tag]\<rparr>) m) s)))"

definition removeTag :: "string \<Rightarrow> string \<Rightarrow> (ts_state, unit) eff" where
  "removeTag t tag =
     ebind getAllMetadata (\<lambda>m s.
       case map_of m t of
         None \<Rightarrow> (Inr (), s)
       | Some d \<Rightarrow> (Inr (), saveMetadata (AList.update t (d\<lparr>m_tags := filter (\<lambda>x. x \<noteq> tag) (m_tags d)\<rparr>) m) s))"

definition setTags :: "string \<Rightarrow> string list \<Rightarrow> (ts_state, unit) eff" where
  "setTags t tags = modify_metadata t (\<lambda>d. d\<lparr>m_tags := tags\<rparr>)"

definition setCategory :: "string \<Rightarrow> TransactionCategory \<Rightarrow> (ts_state, unit) eff" where
  "setCategory t c = modify_metadata t (\<lambda>d. d\<lparr>m_category := Some c\<rparr>)"

definition setNote :: "string \<Rightarrow> string \<Rightarrow> (ts_state, unit) eff" where
  "setNote t n = modify_metadata t (\<lambda>d. d\<lparr>m_note := Some n\<rparr>)"

definition addAttachment :: "string \<Rightarrow> string \<Rightarrow> (ts_state, unit) eff" where
  "addAttachment t u = modify_metadata t (\<lambda>d. d\<lparr>m_attachments := Some (list_of (m_attachments d) @ [u])\<rparr>)"

definition removeAttachment :: "string \<Rightarrow> string \<Rightarrow> (ts_state, unit) eff" where
  "removeAttachment t u =
     ebind getAllMetadata (\<lambda>m s.
       case map_of m t of
         None \<Rightarrow> (Inr (), s)
       | Some d \<Rightarrow> (case m_attachments d of
             None \<Rightarrow> (Inr (), s)
           | Some as \<Rightarrow> (Inr (), saveMetadata (AList.update t
               (d\<lparr>m_attachments := Some (filter (\<lambda>a. a \<noteq> u) as)\<rparr>) m) s)))"

fun efor :: "('a \<Rightarrow> ('s, unit) eff) \<Rightarrow> 'a list \<Rightarrow> ('s, unit) eff" where
  "efor f [] = eret ()"
| "efor f (x # xs) = ebind (f x) (\<lambda>_. efor f xs)"

definition bulkSetCategory :: "string list \<Rightarrow> TransactionCategory \<Rightarrow> (ts_state, unit) eff" where
  "bulkSetCategory ts c = efor (\<lambda>t. setCategory t c) ts"

definition bulkAddTag :: "string list \<Rightarrow> string \<Rightarrow> (ts_state, unit) eff" where
  "bulkAddTag ts tag = efor (\<lambda>t. addTag t tag) ts"

definition bulkRemoveTag :: "string list \<Rightarrow> string \<Rightarrow> (ts_state, unit) eff" where
  "bulkRemoveTag ts tag = efor (\<lambda>t. removeTag t tag) ts"

section \<open>Transactions\<close>

text \<open>
  The state of the wallet service is threaded; what this service reads of its own storage is an
  argument. Any error gives the empty list.
\<close>

definition getAllTransactions :: "'n node_api \<Rightarrow> ts_state \<Rightarrow> 'n ws \<Rightarrow> SearchTx list \<times> 'n ws" where
  "getAllTransactions api ts s =
     (case getActiveWallet s of
        (None, s1) \<Rightarrow> ([], s1)
      | (Some w, s1) \<Rightarrow>
          (case getTransactionHistory api (address w) 50 s1 of
             (Inl e, s2) \<Rightarrow> ([], s2)
           | (Inr txs, s2) \<Rightarrow>
               (case fst (getAllMetadata ts) of
                  Inl e \<Rightarrow> ([], s2)
                | Inr m \<Rightarrow> (map (\<lambda>tx. \<lparr>s_tx = tx, s_meta = lookup_metadata (wt_txid tx) m\<rparr>) txs, s2))))"

definition TypeError :: js_error where
  "TypeError = Error ''Cannot read properties of undefined (reading 'toLowerCase')''"

text \<open>
  \<open>list?.some(p => p.address.toLowerCase().includes(q))\<close>: an element without an address throws,
  unless one before it matched.
\<close>

fun some_address :: "string \<Rightarrow> (string option \<times> 'a) list \<Rightarrow> js_error + bool" where
  "some_address q [] = Inr False"
| "some_address q ((None, _) # xs) = Inl TypeError"
| "some_address q ((Some a, _) # xs) = (if str_includes (toLowerCase a) q then Inr True else some_address q xs)"

definition text_match :: "string \<Rightarrow> SearchTx \<Rightarrow> js_error + bool" where
  "text_match q tx =
     (if str_includes (toLowerCase (wt_txid (s_tx tx))) q \<or>
         str_includes (toLowerCase (text_of (m_note (s_meta tx)))) q \<or>
         list_ex (\<lambda>t. str_includes (toLowerCase t) q) (m_tags (s_meta tx))
      then Inr True
      else case some_address q (list_of (wt_outputs (s_tx tx))) of
        Inl e \<Rightarrow> Inl e
      | Inr b \<Rightarrow> if b then Inr True else some_address q (list_of (wt_inputs (s_tx tx))))"

text \<open>A missing address is tested as the text 'undefined'.\<close>

definition address_text :: "string option \<Rightarrow> string" where
  "address_text a = (case a of None \<Rightarrow> ''undefined'' | Some t \<Rightarrow> t)"

definition regex_match :: "(string \<Rightarrow> bool) \<Rightarrow> SearchTx \<Rightarrow> bool" where
  "regex_match re tx \<longleftrightarrow>
     re (wt_txid (s_tx tx)) \<or> re (text_of (m_note (s_meta tx))) \<or> list_ex re (m_tags (s_meta tx)) \<or>
     list_ex (\<lambda>(a, _). re (address_text a)) (list_of (wt_outputs (s_tx tx))) \<or>
     list_ex (\<lambda>(a, _). re (address_text a)) (list_of (wt_inputs (s_tx tx)))"

fun filter_result :: "('a \<Rightarrow> js_error + bool) \<Rightarrow> 'a list \<Rightarrow> js_error + 'a list" where
  "filter_result p [] = Inr []"
| "filter_result p (x # xs) =
     (case p x of
        Inl e \<Rightarrow> Inl e
      | Inr b \<Rightarrow> (case filter_result p xs of Inl e \<Rightarrow> Inl e | Inr ys \<Rightarrow> Inr (if b then x # ys else ys)))"

definition search_in ::
    "(string \<Rightarrow> (string \<Rightarrow> bool) option) \<Rightarrow> string \<Rightarrow> bool \<Rightarrow> SearchTx list \<Rightarrow> js_error + SearchTx list" where
  "search_in RegExp query useRegex txs =
     (if query = [] then Inr txs
      else if useRegex
      then Inr (case RegExp query of None \<Rightarrow> [] | Some re \<Rightarrow> filter (regex_match re) txs)
      else filter_result (text_match (toLowerCase query)) txs)"

definition search ::
    "'n node_api \<Rightarrow> (string \<Rightarrow> (string \<Rightarrow> bool) option) \<Rightarrow> ts_state \<Rightarrow> string \<Rightarrow> bool \<Rightarrow> ('n ws, SearchTx list) eff" where
  "search api RegExp ts query useRegex s =
     (case getAllTransactions api ts s of (txs, s') \<Rightarrow> (search_in RegExp query useRegex txs, s'))"

section \<open>Filters\<close>

definition opt_filter :: "'b option \<Rightarrow> ('b \<Rightarrow> 'a \<Rightarrow> bool) \<Rightarrow> 'a list \<Rightarrow> 'a list" where
  "opt_filter x p xs = (case x of None \<Rightarrow> xs | Some v \<Rightarrow> filter (p v) xs)"

text \<open>A transaction without a time stamp has an invalid date, which no comparison accepts.\<close>

definition has_address :: "string \<Rightarrow> (string option \<times> jsnum option) list option \<Rightarrow> bool" where
  "has_address a ps \<longleftrightarrow> list_ex (\<lambda>(b, _). b = Some a) (list_of ps)"

definition tx_fee_or_0 :: "SearchTx \<Rightarrow> jsnum" where
  "tx_fee_or_0 tx = (case wt_fee (s_tx tx) of None \<Rightarrow> 0 | Some f \<Rightarrow> f)"

definition from_date :: "int \<Rightarrow> SearchTx \<Rightarrow> bool" where
  "from_date d tx = (case wt_timestamp (s_tx tx) of None \<Rightarrow> False | Some t \<Rightarrow> t \<ge> d)"

definition to_date :: "int \<Rightarrow> SearchTx \<Rightarrow> bool" where
  "to_date d tx = (case wt_timestamp (s_tx tx) of None \<Rightarrow> False | Some t \<Rightarrow> t \<le> d)"

definition filter_tx :: "(int \<Rightarrow> int) \<Rightarrow> SearchTx list \<Rightarrow> SearchFilters \<Rightarrow> SearchTx list" where
  "filter_tx endOfDay txs f =
     (let r = opt_filter (dateFrom f) from_date txs;
          r = opt_filter (dateTo f) (\<lambda>d. to_date (endOfDay d)) r;
          r = opt_filter (amountMin f) (\<lambda>m tx. wt_amount (s_tx tx) \<ge> m) r;
          r = opt_filter (amountMax f) (\<lambda>m tx. wt_amount (s_tx tx) \<le> m) r;
          r = opt_filter (feeMin f) (\<lambda>m tx. tx_fee_or_0 tx \<ge> m) r;
          r = opt_filter (feeMax f) (\<lambda>m tx. tx_fee_or_0 tx \<le> m) r;
          r = opt_filter (confirmationsMin f) (\<lambda>m tx. wt_confirmations (s_tx tx) \<ge> m) r;
          r = (if f_categories f \<noteq> []
               then filter (\<lambda>tx. m_category (s_meta tx) \<in> Some ` set (f_categories f)) r else r);
          r = (if f_tags f \<noteq> []
               then filter (\<lambda>tx. list_ex (\<lambda>t. t \<in> set (m_tags (s_meta tx))) (f_tags f)) r else r)
      in if truthy_string (contactAddress f)
         then filter (\<lambda>tx. has_address (the (contactAddress f)) (wt_outputs (s_tx tx)) \<or>
                has_address (the (contactAddress f)) (wt_inputs (s_tx tx))) r
         else r)"

text \<open>Partial filters: categories and tags default to none.\<close>

definition advancedSearch ::
    "'n node_api \<Rightarrow> (string \<Rightarrow> (string \<Rightarrow> bool) option) \<Rightarrow> (int \<Rightarrow> int) \<Rightarrow> ts_state \<Rightarrow> string option \<Rightarrow> bool
     \<Rightarrow> SearchFilters option \<Rightarrow> ('n ws, SearchTx list) eff" where
  "advancedSearch api RegExp endOfDay ts query useRegex filters s =
     (case getAllTransactions api ts s of
        (txs, s1) \<Rightarrow>
          (case (if truthy_string query then search api RegExp ts (the query) useRegex s1 else (Inr txs, s1)) of
             (Inl e, s2) \<Rightarrow> (Inl e, s2)
           | (Inr r, s2) \<Rightarrow> (Inr (case filters of None \<Rightarrow> r | Some f \<Rightarrow> filter_tx endOfDay r f), s2)))"

section \<open>Presets\<close>

definition getPresets :: "(ts_state, SearchPreset list) eff" where
  "getPresets s = (parse_item [] (presets_item s), s)"

definition savePreset ::
    "clock \<Rightarrow> string \<Rightarrow> string \<Rightarrow> string option \<Rightarrow> SearchFilters \<Rightarrow> (ts_state, SearchPreset) eff" where
  "savePreset clk rnd name descr f =
     (if trim name = [] then ethrow (Error ''Preset name is required'')
      else ebind getPresets (\<lambda>ps s.
        if list_ex (\<lambda>p. p_name p = name) ps then (Inl (Error ''Preset with this name already exists''), s)
        else let p = \<lparr>p_id = ''preset_'' @ show_int (clk 0) @ ''_'' @ rnd, p_name = name, p_description = descr,
                   p_filters = f, p_createdAt = clk 1\<rparr>
             in (Inr p, s\<lparr>presets_item := Json (ps @ [p])\<rparr>)))"

definition deletePreset :: "string \<Rightarrow> (ts_state, bool) eff" where
  "deletePreset i =
     ebind getPresets (\<lambda>ps s.
       let rest = filter (\<lambda>p. p_id p \<noteq> i) ps
       in if length rest = length ps then (Inr False, s) else (Inr True, s\<lparr>presets_item := Json rest\<rparr>))"

section \<open>Statistics and export\<close>

definition category_of :: "SearchTx \<Rightarrow> TransactionCategory" where
  "category_of tx = (case m_category (s_meta tx) of None \<Rightarrow> OtherCategory | Some c \<Rightarrow> c)"

definition category_stats :: "SearchTx list \<Rightarrow> TransactionCategory \<Rightarrow> nat \<times> jsnum" where
  "category_stats txs =
     fold (\<lambda>tx st. st(category_of tx := (case st (category_of tx) of (n, x) \<Rightarrow> (Suc n, x + wt_amount (s_tx tx)))))
       txs (\<lambda>_. (0, 0))"

definition getCategoryStats ::
    "'n node_api \<Rightarrow> ts_state \<Rightarrow> 'n ws \<Rightarrow> (TransactionCategory \<Rightarrow> nat \<times> jsnum) \<times> 'n ws" where
  "getCategoryStats api ts s = (case getAllTransactions api ts s of (txs, s') \<Rightarrow> (category_stats txs, s'))"

definition tag_stats :: "SearchTx list \<Rightarrow> (string, nat) jsmap" where
  "tag_stats txs = fold (\<lambda>tx m. fold tally (m_tags (s_meta tx)) m) txs []"

definition getTagStats :: "'n node_api \<Rightarrow> ts_state \<Rightarrow> 'n ws \<Rightarrow> (string, nat) jsmap \<times> 'n ws" where
  "getTagStats api ts s = (case getAllTransactions api ts s of (txs, s') \<Rightarrow> (tag_stats txs, s'))"

fun category_name :: "TransactionCategory \<Rightarrow> string" where
  "category_name Income = ''income''"
| "category_name Expense = ''expense''"
| "category_name Transfer = ''transfer''"
| "category_name Trading = ''trading''"
| "category_name OtherCategory = ''other''"

definition RangeError :: js_error where
  "RangeError = Error ''Invalid time value''"

text \<open>
  The first cell reads \<open>tx.id\<close>, which no transaction of the history has. A transaction without a
  time stamp makes \<open>toISOString\<close> throw.
\<close>

definition export_cells ::
    "(int \<Rightarrow> string) \<Rightarrow> (jsnum \<Rightarrow> string) \<Rightarrow> SearchTx \<Rightarrow> js_error + string list" where
  "export_cells isoDate num tx =
     (case wt_timestamp (s_tx tx) of
        None \<Rightarrow> Inl RangeError
      | Some t \<Rightarrow> Inr
          [''undefined'', isoDate t, num (wt_amount (s_tx tx)),
           case wt_fee (s_tx tx) of None \<Rightarrow> ''0'' | Some f \<Rightarrow> num f,
           num (of_int (wt_confirmations (s_tx tx))),
           case m_category (s_meta tx) of None \<Rightarrow> [] | Some c \<Rightarrow> category_name c,
           join_with '';'' (m_tags (s_meta tx)), text_of (m_note (s_meta tx))])"

fun map_result :: "('a \<Rightarrow> js_error + 'b) \<Rightarrow> 'a list \<Rightarrow> js_error + 'b list" where
  "map_result f [] = Inr []"
| "map_result f (x # xs) =
     (case f x of Inl e \<Rightarrow> Inl e | Inr y \<Rightarrow> (case map_result f xs of Inl e \<Rightarrow> Inl e | Inr ys \<Rightarrow> Inr (y # ys)))"

definition export_header :: string where
  "export_header =
     join_with '','' [''Transaction ID'', ''Date'', ''Amount'', ''Fee'', ''Confirmations'', ''Category'', ''Tags'', ''Note'']"

definition exportToCSV :: "(int \<Rightarrow> string) \<Rightarrow> (jsnum \<Rightarrow> string) \<Rightarrow> SearchTx list \<Rightarrow> js_error + string" where
  "exportToCSV isoDate num txs =
     (case map_result (export_cells isoDate num) txs of
        Inl e \<Rightarrow> Inl e
      | Inr rows \<Rightarrow> Inr (join_with [CHR 0x0A] (export_header #
          map (\<lambda>row. join_with '','' (map (\<lambda>c. CHR 0x22 # c @ [CHR 0x22]) row)) rows)))"


section \<open>Filtering is a conjunction\<close>

definition all_or :: "'b option \<Rightarrow> ('b \<Rightarrow> bool) \<Rightarrow> bool" where
  "all_or x p = (case x of None \<Rightarrow> True | Some v \<Rightarrow> p v)"

text \<open>The specification: one condition on a transaction.\<close>

definition accepted :: "(int \<Rightarrow> int) \<Rightarrow> SearchFilters \<Rightarrow> SearchTx \<Rightarrow> bool" where
  "accepted endOfDay f tx \<longleftrightarrow>
     all_or (dateFrom f) (\<lambda>d. from_date d tx) \<and> all_or (dateTo f) (\<lambda>d. to_date (endOfDay d) tx) \<and>
     all_or (amountMin f) (\<lambda>m. m \<le> wt_amount (s_tx tx)) \<and> all_or (amountMax f) (\<lambda>m. wt_amount (s_tx tx) \<le> m) \<and>
     all_or (feeMin f) (\<lambda>m. m \<le> tx_fee_or_0 tx) \<and> all_or (feeMax f) (\<lambda>m. tx_fee_or_0 tx \<le> m) \<and>
     all_or (confirmationsMin f) (\<lambda>m. m \<le> wt_confirmations (s_tx tx)) \<and>
     (f_categories f = [] \<or> m_category (s_meta tx) \<in> Some ` set (f_categories f)) \<and>
     (f_tags f = [] \<or> set (f_tags f) \<inter> set (m_tags (s_meta tx)) \<noteq> {}) \<and>
     (truthy_string (contactAddress f) \<longrightarrow>
        has_address (the (contactAddress f)) (wt_outputs (s_tx tx)) \<or>
        has_address (the (contactAddress f)) (wt_inputs (s_tx tx)))"

lemma opt_filter_all_or: "opt_filter x p xs = filter (\<lambda>y. all_or x (\<lambda>v. p v y)) xs"
  by (cases x) (simp_all add: opt_filter_def all_or_def)

lemma if_filter: "(if b then filter p xs else xs) = filter (\<lambda>y. b \<longrightarrow> p y) xs"
  by simp

text \<open>
  The ten passes of \<open>filter\<close> keep exactly the transactions that satisfy all given conditions,
  in their order; filters that are not given do not restrict, and filtering twice is filtering once.
\<close>

theorem filter_is_conjunction:
  "filter_tx endOfDay txs f = filter (accepted endOfDay f) txs \<and>
   filter_tx endOfDay (filter_tx endOfDay txs f) f = filter_tx endOfDay txs f"
proof -
  have "filter_tx endOfDay txs f = filter (accepted endOfDay f) txs" for txs
    unfolding filter_tx_def Let_def opt_filter_all_or if_filter filter_filter
    by (rule filter_cong) (auto simp: accepted_def list_ex_iff)
  then show ?thesis by simp
qed

section \<open>Statistics\<close>

lemma category_stats_eq:
  "category_stats txs c =
     (length (filter (\<lambda>tx. category_of tx = c) txs), sum_by (\<lambda>tx. wt_amount (s_tx tx)) (filter (\<lambda>tx. category_of tx = c) txs))"
  by (induction txs rule: rev_induct) (auto simp: category_stats_def)

text \<open>
  The five categories partition the transactions: the counts add up to their number and the totals
  to their sum, a transaction without a category counting as 'other'.
\<close>

lemma category_stats_partition:
  "(\<Sum>c\<leftarrow>[Income, Expense, Transfer, Trading, OtherCategory]. fst (category_stats txs c)) = length txs \<and>
   (\<Sum>c\<leftarrow>[Income, Expense, Transfer, Trading, OtherCategory]. snd (category_stats txs c)) =
     sum_by (\<lambda>tx. wt_amount (s_tx tx)) txs"
proof (induction txs)
  case Nil
  then show ?case by (simp add: category_stats_def)
next
  case (Cons tx txs)
  then show ?case by (cases "category_of tx") (simp_all add: category_stats_eq)
qed

text \<open>The tag statistics count how often each tag was given.\<close>

lemma tag_stats_count: "times t (tag_stats txs) = count_list (concat (map (\<lambda>tx. m_tags (s_meta tx)) txs)) t"
proof -
  have "times t (fold (\<lambda>tx m. fold tally (m_tags (s_meta tx)) m) txs m) =
      times t m + count_list (concat (map (\<lambda>tx. m_tags (s_meta tx)) txs)) t" for m
    by (induction txs arbitrary: m) (simp_all add: times_fold)
  then show ?thesis by (simp add: tag_stats_def)
qed

section \<open>Text search over the history\<close>

lemma filter_result_Inr: "filter_result p xs = Inr ys \<Longrightarrow> x \<in> set xs \<Longrightarrow> \<exists>b. p x = Inr b \<and> (b \<longrightarrow> x \<in> set ys)"
  by (induction xs arbitrary: ys) (auto split: sum.splits if_splits)

lemma some_address_unaddressed:
  "xs \<noteq> [] \<Longrightarrow> list_all (\<lambda>(b, _). b = None) xs \<Longrightarrow> some_address q xs = Inl TypeError"
  by (cases xs) auto

text \<open>
  A text search that succeeds does not narrow anything down. The inputs in the history have no
  addresses, and a transaction with an input that matches nowhere else makes the search throw: when
  it returns a result, every transaction with an input is in it.
\<close>

theorem search_never_narrows:
  assumes "search api RegExp ts q False s = (Inr r, s')" and "q \<noteq> []"
    and "getAllTransactions api ts s = (txs, s'')" and "tx \<in> set txs" and "list_of (wt_inputs (s_tx tx)) \<noteq> []"
  shows "tx \<in> set r"
proof -
  have "list_all (\<lambda>(b, _). b = None) (list_of (wt_inputs (s_tx tx)))"
    using assms(3,4) history_inputs_unaddressed
    by (auto simp: getAllTransactions_def split: prod.splits option.splits sum.splits) fastforce
  then have "some_address (toLowerCase q) (list_of (wt_inputs (s_tx tx))) = Inl TypeError"
    using assms(5) by (rule some_address_unaddressed [rotated])
  moreover have "filter_result (text_match (toLowerCase q)) txs = Inr r"
    using assms(1-3) by (simp add: search_def search_in_def)
  then obtain b where "text_match (toLowerCase q) tx = Inr b" "b \<longrightarrow> tx \<in> set r"
    using filter_result_Inr assms(4) by metis
  ultimately show ?thesis by (auto simp: text_match_def split: if_splits sum.splits)
qed

definition history_node :: "unit node_api" where
  "history_node = echo_node\<lparr>
     listTransactions := (\<lambda>l c k b. eret [\<lparr>nt_txid = ''abc'', nt_address = None, nt_category = ''send'', nt_amount = - 2,
        nt_confirmations = Some 1, nt_fee = None, nt_time = Some 5, nt_timereceived = None\<rparr>]),
     getRawTransaction := (\<lambda>t b. eret (Inr \<lparr>raw_vin = Some 1, raw_vout = Some []\<rparr>))\<rparr>"

definition one_wallet :: "unit ws" where
  "one_wallet = \<lparr>wallets = [(''w'', sample_wallet ''w'')], activeWallet = Some ''w'', storageSnapshot = (Absent, None),
     item_wallets = Absent, item_active = None, has_storage = False, node = ()\<rparr>"

definition abc_tx :: SearchTx where
  "abc_tx = \<lparr>s_tx = \<lparr>wt_txid = ''abc'', wt_address = None, wt_amount = 2, wt_confirmations = 1, wt_fee = None, wt_type = Sent,
     wt_timestamp = Some 5000, wt_inputs = Some [(None, None)], wt_outputs = Some []\<rparr>, s_meta = empty_metadata ''abc''\<rparr>"

lemma history_demo:
  "getAllTransactions history_node \<lparr>metadata_item = Absent, presets_item = Absent\<rparr> one_wallet = ([abc_tx], one_wallet)"
  by (simp add: getAllTransactions_def getActiveWallet_def refreshFromStorageIfNeeded_def one_wallet_def history_node_def
      getTransactionHistory_def ecatch_def ebind_def eret_def call_def tx_details_def to_record_def getAllMetadata_def
      lookup_metadata_def abc_tx_def)

theorem search_never_narrows_witness:
  "\<exists>r. search history_node (\<lambda>_. None) \<lparr>metadata_item = Absent, presets_item = Absent\<rparr> ''b'' False one_wallet =
     (Inr r, one_wallet) \<and> abc_tx \<in> set r"
proof -
  have "search history_node (\<lambda>_. None) \<lparr>metadata_item = Absent, presets_item = Absent\<rparr> ''b'' False one_wallet =
      (Inr [abc_tx], one_wallet)"
    by (simp add: search_def history_demo search_in_def text_match_def abc_tx_def str_includes_def toLowerCase_def
        lower_char_def sublist_code)
  with search_never_narrows [OF this _ history_demo, of abc_tx] show ?thesis
    by (simp add: abc_tx_def list_of_def)
qed

text \<open>The identifier column of an exported file reads 'undefined' in every row.\<close>

lemma exported_id_undefined:
  "map_result (export_cells isoDate num) txs = Inr rows \<Longrightarrow> row \<in> set rows \<Longrightarrow> hd row = ''undefined''"
  by (induction txs arbitrary: rows) (auto simp: export_cells_def split: sum.splits option.splits)

section \<open>Metadata of different transactions do not interfere\<close>

datatype ts_op =
    AddTag string string
  | RemoveTag string string
  | SetTags string "string list"
  | SetCategory string TransactionCategory
  | SetNote string string
  | AddAttachment string string
  | RemoveAttachment string string

fun ts_step :: "ts_op \<Rightarrow> ts_state \<Rightarrow> ts_state" where
  "ts_step (AddTag t x) s = snd (addTag t x s)"
| "ts_step (RemoveTag t x) s = snd (removeTag t x s)"
| "ts_step (SetTags t x) s = snd (setTags t x s)"
| "ts_step (SetCategory t x) s = snd (setCategory t x s)"
| "ts_step (SetNote t x) s = snd (setNote t x s)"
| "ts_step (AddAttachment t x) s = snd (addAttachment t x s)"
| "ts_step (RemoveAttachment t x) s = snd (removeAttachment t x s)"

fun op_txid :: "ts_op \<Rightarrow> string" where
  "op_txid (AddTag t x) = t"
| "op_txid (RemoveTag t x) = t"
| "op_txid (SetTags t x) = t"
| "op_txid (SetCategory t x) = t"
| "op_txid (SetNote t x) = t"
| "op_txid (AddAttachment t x) = t"
| "op_txid (RemoveAttachment t x) = t"

lemmas ts_defs = addTag_def removeTag_def setTags_def setCategory_def setNote_def addAttachment_def removeAttachment_def
  modify_metadata_def getAllMetadata_def saveMetadata_def ebind_def eret_def ethrow_def Let_def

lemma metadata_frame: "t \<noteq> op_txid op \<Longrightarrow> fst (getMetadata t (ts_step op s)) = fst (getMetadata t s)"
  by (cases op) (auto simp: ts_defs getMetadata_def lookup_metadata_def split: sum.splits option.splits)

lemma tags_stay_distinct:
  assumes "fst (getMetadata t s) = Inr d" and "distinct (m_tags d)" and "\<And>x. op = SetTags t x \<Longrightarrow> distinct x"
  shows "\<exists>d'. fst (getMetadata t (ts_step op s)) = Inr d' \<and> distinct (m_tags d')"
proof (cases "t = op_txid op")
  case False
  with assms show ?thesis by (simp add: metadata_frame)
next
  case True
  with assms show ?thesis
    by (cases op) (auto simp: ts_defs getMetadata_def lookup_metadata_def split: sum.splits option.splits)
qed

end
