(* ===== verification/ServicePages.thy ===== *)
theory ServicePages
  imports ContactManager NotificationCenter TransactionSearch
begin

text \<open>
  Pages under apps/web/wallet/src/app/wallet: contacts (over the contact manager), notifications (over the
  notification center) and history/advanced (over the transaction search). A handler works on the page
  together with the storage of its service; what it throws outside a \<open>try\<close> ends it and leaves the changes
  made before. Dialogues that only show something are left out; \<open>alert\<close> is the last text that was shown.
\<close>

section \<open>Pages that hold a copy\<close>

text \<open>A method of the service, called from the page.\<close>

definition call_service :: "('s, 'a) eff \<Rightarrow> ('p \<times> 's, 'a) eff" where
  "call_service m ps = (case ps of (p, s) \<Rightarrow> case m s of (r, s') \<Rightarrow> (r, p, s'))"

definition on_page :: "('p \<Rightarrow> 'p) \<Rightarrow> ('p \<times> 's, unit) eff" where
  "on_page f ps = (Inr (), f (fst ps), snd ps)"

text \<open>
  \<open>get\<close> reads the service's storage, \<open>held\<close> is the copy that the page holds and \<open>load\<close> renews it. A handler
  that calls a method and loads again leaves a current copy current, when the method leaves the storage
  readable and a method that throws has changed nothing.
\<close>

locale mirror =
  fixes get :: "'s \<Rightarrow> js_error + 'v" and held :: "'p \<Rightarrow> 'v" and load :: "('p \<times> 's, unit) eff"
  assumes load_gets: "get s = Inr v \<Longrightarrow> \<exists>p'. load (p, s) = (Inr (), p', s) \<and> held p' = v"
begin

definition current :: "'p \<times> 's \<Rightarrow> bool" where
  "current ps \<longleftrightarrow> get (snd ps) = Inr (held (fst ps))"

definition readable :: "'s \<Rightarrow> bool" where
  "readable s \<longleftrightarrow> (\<exists>v. get s = Inr v)"

lemma current_readable: "current (p, s) \<Longrightarrow> readable s"
  by (auto simp: current_def readable_def)

lemma load_current: "readable s \<Longrightarrow> \<exists>p'. load (p, s) = (Inr (), p', s) \<and> current (p', s)"
  using load_gets by (fastforce simp: readable_def current_def)

lemma call_then_load:
  assumes "current (p, s)" and "readable (snd (m s))" and "\<And>e. fst (m s) = Inl e \<Longrightarrow> snd (m s) = s"
  shows "current (snd (ebind (call_service m) (\<lambda>_. load) (p, s)))"
proof (cases "m s")
  case (Pair r s')
  show ?thesis
  proof (cases r)
    case (Inl e)
    then show ?thesis using Pair assms by (simp add: ebind_def call_service_def)
  next
    case (Inr x)
    obtain p' where "load (p, s') = (Inr (), p', s') \<and> current (p', s')" using load_current [of s' p] assms(2) Pair by auto
    then show ?thesis using Pair Inr by (simp add: ebind_def call_service_def)
  qed
qed

lemma call_load_page:
  assumes "current (p, s)" and "readable (snd (m s))" and "\<And>e. fst (m s) = Inl e \<Longrightarrow> snd (m s) = s"
    and "\<And>x q. held (f x q) = held q" and "\<And>e q. held (g e q) = held q"
  shows "current (snd (ecatch (ebind (call_service m) (\<lambda>x. ebind load (\<lambda>_. on_page (f x)))) (\<lambda>e. on_page (g e)) (p, s)))"
proof (cases "m s")
  case (Pair r s')
  show ?thesis
  proof (cases r)
    case (Inl e)
    then show ?thesis using Pair assms by (simp add: ecatch_def ebind_def call_service_def on_page_def current_def)
  next
    case (Inr x)
    obtain p' where "load (p, s') = (Inr (), p', s')" "current (p', s')" using load_current [of s' p] assms(2) Pair by auto
    then show ?thesis using Pair Inr assms(4) by (simp add: ecatch_def ebind_def call_service_def on_page_def current_def)
  qed
qed

lemma run_current:
  assumes "\<And>p s e. current (p, s) \<Longrightarrow> ok e \<Longrightarrow> current (step e (p, s))" and "current ps" and "list_all ok es"
  shows "current (fold step es ps)"
  using assms(2, 3)
proof (induction es arbitrary: ps)
  case (Cons e es)
  then show ?case using assms(1) [of "fst ps" "snd ps" e] by simp
qed simp

end

section \<open>Contacts\<close>

record ContactForm =
  cf_name :: string
  cf_address :: string
  cf_email :: string
  cf_phone :: string
  cf_notes :: string
  cf_tags :: "string list"
  cf_groupIds :: "string list"
  cf_isFavorite :: bool

definition empty_form :: ContactForm where
  "empty_form = \<lparr>cf_name = [], cf_address = [], cf_email = [], cf_phone = [], cf_notes = [], cf_tags = [], cf_groupIds = [], cf_isFavorite = False\<rparr>"

record contacts_page =
  pg_contacts :: "Contact list"
  pg_groups :: "ContactGroup list"
  showCreateContactModal :: bool
  showCreateGroupModal :: bool
  showImportModal :: bool
  selectedContact :: "Contact option"
  searchQuery :: string
  selectedGroup :: string
  selectedTags :: "string list"
  contactForm :: ContactForm
  groupForm :: "string \<times> string \<times> string"
  alerted :: "string option"

definition empty_group_form :: "string \<times> string \<times> string" where
  "empty_group_form = ([], [], ''#3b82f6'')"

definition new_contacts_page :: contacts_page where
  "new_contacts_page = \<lparr>pg_contacts = [], pg_groups = [], showCreateContactModal = False, showCreateGroupModal = False, showImportModal = False,
     selectedContact = None, searchQuery = [], selectedGroup = ''all'', selectedTags = [], contactForm = empty_form,
     groupForm = empty_group_form, alerted = None\<rparr>"

definition loadData :: "(contacts_page \<times> cm_state, unit) eff" where
  "loadData ps =
     (case ps of (p, s) \<Rightarrow>
        case fst (getAllContacts s) of
          Inl e \<Rightarrow> (Inl e, p, s)
        | Inr cs \<Rightarrow>
            (case fst (getAllGroups s) of
               Inl e \<Rightarrow> (Inl e, p\<lparr>pg_contacts := cs\<rparr>, s)
             | Inr gs \<Rightarrow> (Inr (), p\<lparr>pg_contacts := cs, pg_groups := gs\<rparr>, s)))"

definition form_updates :: "ContactForm \<Rightarrow> ContactUpdates" where
  "form_updates f =
     \<lparr>up_name = Some (cf_name f), up_address = Some (cf_address f), up_email = Some (Some (cf_email f)), up_phone = Some (Some (cf_phone f)),
      up_notes = Some (Some (cf_notes f)), up_tags = Some (Some (cf_tags f)), up_groupIds = Some (Some (cf_groupIds f)),
      up_isFavorite = Some (Some (cf_isFavorite f)), up_lastTransactionAt = None\<rparr>"

definition form_data :: "ContactForm \<Rightarrow> ContactData" where
  "form_data f =
     \<lparr>d_name = cf_name f, d_address = cf_address f, d_email = Some (cf_email f), d_phone = Some (cf_phone f), d_notes = Some (cf_notes f),
      d_tags = Some (cf_tags f), d_groupIds = Some (cf_groupIds f), d_isFavorite = Some (cf_isFavorite f), d_lastTransactionAt = None\<rparr>"

definition resetContactForm :: "contacts_page \<Rightarrow> contacts_page" where
  "resetContactForm p = p\<lparr>contactForm := empty_form, selectedContact := None\<rparr>"

definition resetGroupForm :: "contacts_page \<Rightarrow> contacts_page" where
  "resetGroupForm p = p\<lparr>groupForm := empty_group_form\<rparr>"

definition handleCreateContact :: "clock \<Rightarrow> string \<Rightarrow> (contacts_page \<times> cm_state, unit) eff" where
  "handleCreateContact clk rnd ps =
     ecatch
       (ebind (case selectedContact (fst ps) of
                 Some c \<Rightarrow> call_service (updateContact (c_id c) (form_updates (contactForm (fst ps))))
               | None \<Rightarrow> call_service (addContact clk rnd (form_data (contactForm (fst ps))))) (\<lambda>_.
        ebind loadData (\<lambda>_.
        on_page (\<lambda>p. (resetContactForm (p\<lparr>showCreateContactModal := False\<rparr>))
          \<lparr>alerted := Some (''Contact '' @ (if selectedContact (fst ps) \<noteq> None then ''updated'' else ''created'') @ '' successfully!'')\<rparr>))))
       (\<lambda>e. on_page (\<lambda>p. p\<lparr>alerted := Some (message e)\<rparr>)) ps"

definition handleCreateGroup :: "clock \<Rightarrow> string \<Rightarrow> (contacts_page \<times> cm_state, unit) eff" where
  "handleCreateGroup clk rnd ps =
     (case groupForm (fst ps) of (name, descr, color) \<Rightarrow>
        ecatch
          (ebind (call_service (createGroup clk rnd name (Some descr) color)) (\<lambda>_.
           ebind loadData (\<lambda>_.
           on_page (\<lambda>p. (resetGroupForm (p\<lparr>showCreateGroupModal := False\<rparr>))\<lparr>alerted := Some ''Group created successfully!''\<rparr>))))
          (\<lambda>e. on_page (\<lambda>p. p\<lparr>alerted := Some (message e)\<rparr>)) ps)"

definition handleDeleteContact :: "bool \<Rightarrow> string \<Rightarrow> (contacts_page \<times> cm_state, unit) eff" where
  "handleDeleteContact confirmed i = (if confirmed then ebind (call_service (deleteContact i)) (\<lambda>_. loadData) else eret ())"

definition no_updates :: ContactUpdates where
  "no_updates = \<lparr>up_name = None, up_address = None, up_email = None, up_phone = None, up_notes = None, up_tags = None, up_groupIds = None,
     up_isFavorite = None, up_lastTransactionAt = None\<rparr>"

definition handleToggleFavorite :: "string \<Rightarrow> (contacts_page \<times> cm_state, unit) eff" where
  "handleToggleFavorite i ps =
     (case List.find (\<lambda>c. c_id c = i) (pg_contacts (fst ps)) of
        Some c \<Rightarrow> ebind (call_service (updateContact i (no_updates\<lparr>up_isFavorite := Some (Some (isFavorite c \<noteq> Some True))\<rparr>))) (\<lambda>_. loadData) ps
      | None \<Rightarrow> (Inr (), ps))"

definition handleEditContact :: "Contact \<Rightarrow> contacts_page \<Rightarrow> contacts_page" where
  "handleEditContact c p =
     p\<lparr>selectedContact := Some c,
       contactForm := \<lparr>cf_name = c_name c, cf_address = c_address c, cf_email = text_of (c_email c), cf_phone = text_of (c_phone c),
         cf_notes = text_of (c_notes c), cf_tags = list_of (c_tags c), cf_groupIds = list_of (groupIds c), cf_isFavorite = (isFavorite c = Some True)\<rparr>,
       showCreateContactModal := True\<rparr>"

definition handleImportCSV :: "(nat \<Rightarrow> clock) \<Rightarrow> (nat \<Rightarrow> string) \<Rightarrow> string option \<Rightarrow> (contacts_page \<times> cm_state, unit) eff" where
  "handleImportCSV clk rnd file =
     (case file of
        None \<Rightarrow> eret ()
      | Some csv \<Rightarrow>
          ecatch
            (ebind (call_service (importFromCSV clk rnd csv)) (\<lambda>n.
             ebind loadData (\<lambda>_.
             on_page (\<lambda>p. p\<lparr>showImportModal := False, alerted := Some (''Successfully imported '' @ show_nat n @ '' contacts!'')\<rparr>))))
            (\<lambda>e. on_page (\<lambda>p. p\<lparr>alerted := Some (''Import failed: '' @ message e)\<rparr>)))"

definition addTag_form :: "string \<Rightarrow> contacts_page \<Rightarrow> contacts_page" where
  "addTag_form tag p =
     (if tag \<noteq> [] \<and> tag \<notin> set (cf_tags (contactForm p)) then p\<lparr>contactForm := (contactForm p)\<lparr>cf_tags := cf_tags (contactForm p) @ [tag]\<rparr>\<rparr> else p)"

definition removeTag_form :: "string \<Rightarrow> contacts_page \<Rightarrow> contacts_page" where
  "removeTag_form tag p = p\<lparr>contactForm := (contactForm p)\<lparr>cf_tags := filter (\<lambda>t. t \<noteq> tag) (cf_tags (contactForm p))\<rparr>\<rparr>"

definition toggled :: "'a \<Rightarrow> 'a list \<Rightarrow> 'a list" where
  "toggled x xs = (if x \<in> set xs then filter (\<lambda>y. y \<noteq> x) xs else xs @ [x])"

definition toggleGroupInForm :: "string \<Rightarrow> contacts_page \<Rightarrow> contacts_page" where
  "toggleGroupInForm g p = p\<lparr>contactForm := (contactForm p)\<lparr>cf_groupIds := toggled g (cf_groupIds (contactForm p))\<rparr>\<rparr>"

definition toggle_tag_filter :: "string \<Rightarrow> contacts_page \<Rightarrow> contacts_page" where
  "toggle_tag_filter t p = p\<lparr>selectedTags := toggled t (selectedTags p)\<rparr>"

text \<open>The condition of \<open>filteredContacts\<close>.\<close>

definition shown_contact :: "contacts_page \<Rightarrow> Contact \<Rightarrow> bool" where
  "shown_contact p c =
     (if searchQuery p \<noteq> [] \<and>
         (let query = toLowerCase (searchQuery p)
          in \<not> str_includes (toLowerCase (c_name c)) query \<and> \<not> str_includes (toLowerCase (c_address c)) query \<and>
             \<not> str_includes (toLowerCase (text_of (c_email c))) query \<and>
             \<not> list_ex (\<lambda>tag. str_includes (toLowerCase tag) query) (list_of (c_tags c))) then False
      else if selectedGroup p \<noteq> ''all'' \<and>
         (if selectedGroup p = ''favorites'' then isFavorite c \<noteq> Some True
          else if selectedGroup p = ''untagged'' then list_of (c_tags c) \<noteq> []
          else selectedGroup p \<notin> set (list_of (groupIds c))) then False
      else if selectedTags p \<noteq> [] \<and> \<not> list_ex (\<lambda>tag. tag \<in> set (list_of (c_tags c))) (selectedTags p) then False
      else True)"

definition filteredContacts :: "contacts_page \<Rightarrow> Contact list" where
  "filteredContacts p = filter (shown_contact p) (pg_contacts p)"

definition allTags :: "contacts_page \<Rightarrow> string list" where
  "allTags p = js_Set (concat (map (\<lambda>c. list_of (c_tags c)) (pg_contacts p)))"

subsection \<open>What the page shows\<close>

datatype contacts_event =
    Save clock string
  | SaveGroup clock string
  | DeleteC bool string
  | ToggleFavorite string
  | Edit Contact
  | ImportFile "(nat \<Rightarrow> clock) \<times> (nat \<Rightarrow> string)" "string option"
  | OnPage "contacts_page \<Rightarrow> contacts_page"

text \<open>\<open>OnPage\<close>: typing, filters and dialogues, which leave the copies of contacts and groups alone.\<close>

fun contacts_step :: "contacts_event \<Rightarrow> contacts_page \<times> cm_state \<Rightarrow> contacts_page \<times> cm_state" where
  "contacts_step (Save clk rnd) ps = snd (handleCreateContact clk rnd ps)"
| "contacts_step (SaveGroup clk rnd) ps = snd (handleCreateGroup clk rnd ps)"
| "contacts_step (DeleteC b i) ps = snd (handleDeleteContact b i ps)"
| "contacts_step (ToggleFavorite i) ps = snd (handleToggleFavorite i ps)"
| "contacts_step (Edit c) ps = (handleEditContact c (fst ps), snd ps)"
| "contacts_step (ImportFile env f) ps = snd (handleImportCSV (fst env) (snd env) f ps)"
| "contacts_step (OnPage f) ps = (f (fst ps), snd ps)"

fun plain_event :: "contacts_event \<Rightarrow> bool" where
  "plain_event (OnPage f) = (\<forall>p. pg_contacts (f p) = pg_contacts p \<and> pg_groups (f p) = pg_groups p)"
| "plain_event _ = True"

definition get_both :: "cm_state \<Rightarrow> js_error + Contact list \<times> ContactGroup list" where
  "get_both s = (case fst (getAllContacts s) of Inl e \<Rightarrow> Inl e | Inr cs \<Rightarrow> map_sum id (Pair cs) (fst (getAllGroups s)))"

definition held_both :: "contacts_page \<Rightarrow> Contact list \<times> ContactGroup list" where
  "held_both p = (pg_contacts p, pg_groups p)"

interpretation contacts_mirror: mirror get_both held_both loadData
  by unfold_locales (auto simp: get_both_def held_both_def loadData_def split: sum.splits)

lemma readable_store_iff:
  "contacts_mirror.readable s \<longleftrightarrow> (\<exists>cs gs. fst (getAllContacts s) = Inr cs \<and> fst (getAllGroups s) = Inr gs)"
  by (cases "fst (getAllGroups s)") (auto simp: contacts_mirror.readable_def get_both_def split: sum.splits)

lemma page_current_iff:
  "contacts_mirror.current ps \<longleftrightarrow>
     fst (getAllContacts (snd ps)) = Inr (pg_contacts (fst ps)) \<and> fst (getAllGroups (snd ps)) = Inr (pg_groups (fst ps))"
  by (cases "fst (getAllGroups (snd ps))") (auto simp: contacts_mirror.current_def get_both_def held_both_def split: sum.splits)

text \<open>The service never makes its storage unreadable, and a call that throws leaves it.\<close>

lemma update_readable: "contacts_mirror.readable s \<Longrightarrow> contacts_mirror.readable (snd (updateContact i u s))"
  by (auto simp: readable_store_iff updateContact_def cm_eff Let_def split: option.splits)

lemma add_readable: "contacts_mirror.readable s \<Longrightarrow> contacts_mirror.readable (snd (addContact clk rnd d s))"
  by (auto simp: readable_store_iff addContact_def cm_eff Let_def)

lemma import_line_readable: "contacts_mirror.readable s \<Longrightarrow> contacts_mirror.readable (snd (import_line clk rnd l s))"
  using update_readable [of s] add_readable [of s]
  by (auto simp: import_line_def getContactByAddress_def ecatch_def ebind_def eret_def getAllContacts_def Let_def
      split: sum.splits prod.splits option.splits) (metis snd_conv)+

lemma import_readable: "contacts_mirror.readable s \<Longrightarrow> contacts_mirror.readable (snd (import_lines clk rnd k ls s))"
proof (induction ls arbitrary: k s)
  case (Cons l ls)
  then show ?case using import_line_readable [of s "clk k" "rnd k" l] by (auto split: prod.splits) (metis snd_conv)
qed simp

lemma throw_keeps:
  "fst (updateContact i u s) = Inl e \<Longrightarrow> snd (updateContact i u s) = s"
  "fst (addContact clk rnd d s) = Inl e \<Longrightarrow> snd (addContact clk rnd d s) = s"
  "fst (createGroup clk rnd n ds c s) = Inl e \<Longrightarrow> snd (createGroup clk rnd n ds c s) = s"
  "fst (importFromCSV clks rnds t s) = Inl e \<Longrightarrow> snd (importFromCSV clks rnds t s) = s"
  by (auto simp: updateContact_def addContact_def createGroup_def importFromCSV_def cm_eff Let_def split: option.splits sum.splits if_splits prod.splits)

lemma delete_ok: "contacts_mirror.readable s \<Longrightarrow> contacts_mirror.readable (snd (deleteContact i s)) \<and> (\<exists>b. fst (deleteContact i s) = Inr b)"
  by (auto simp: readable_store_iff deleteContact_def cm_eff Let_def)

lemma group_readable: "contacts_mirror.readable s \<Longrightarrow> contacts_mirror.readable (snd (createGroup clk rnd n ds c s))"
  by (auto simp: readable_store_iff createGroup_def cm_eff Let_def)

lemma import_all_readable: "contacts_mirror.readable s \<Longrightarrow> contacts_mirror.readable (snd (importFromCSV clk rnd t s))"
  using import_readable [of s clk rnd 0] by (auto simp: importFromCSV_def Let_def split: prod.splits) (metis snd_conv)

lemma contacts_step_current:
  assumes "contacts_mirror.current (p, s)" and "plain_event e"
  shows "contacts_mirror.current (contacts_step e (p, s))"
proof -
  note r = contacts_mirror.current_readable [OF assms(1)]
  show ?thesis
  proof (cases e)
    case (Save clk rnd)
    show ?thesis
    proof (cases "selectedContact p")
      case None
      have "contacts_mirror.current (snd (handleCreateContact clk rnd (p, s)))" unfolding handleCreateContact_def fst_conv None option.case
        by (rule contacts_mirror.call_load_page [OF assms(1)], rule add_readable [OF r], erule throw_keeps(2)) (simp_all add: resetContactForm_def held_both_def)
      then show ?thesis by (simp add: Save)
    next
      case (Some c)
      have "contacts_mirror.current (snd (handleCreateContact clk rnd (p, s)))" unfolding handleCreateContact_def fst_conv Some option.case
        by (rule contacts_mirror.call_load_page [OF assms(1)], rule update_readable [OF r], erule throw_keeps(1)) (simp_all add: resetContactForm_def held_both_def)
      then show ?thesis by (simp add: Save)
    qed
  next
    case (SaveGroup clk rnd)
    obtain n d c where g: "groupForm p = (n, d, c)" by (cases "groupForm p")
    have "contacts_mirror.current (snd (handleCreateGroup clk rnd (p, s)))" unfolding handleCreateGroup_def fst_conv g prod.case
      by (rule contacts_mirror.call_load_page [OF assms(1)], rule group_readable [OF r], erule throw_keeps(3)) (simp_all add: resetGroupForm_def held_both_def)
    then show ?thesis by (simp add: SaveGroup)
  next
    case (DeleteC b i)
    have "contacts_mirror.current (snd (ebind (call_service (deleteContact i)) (\<lambda>_. loadData) (p, s)))"
      by (rule contacts_mirror.call_then_load [OF assms(1)]) (use delete_ok [OF r, of i] in auto)
    then show ?thesis using assms(1) by (simp add: DeleteC handleDeleteContact_def eret_def)
  next
    case (ToggleFavorite i)
    have "contacts_mirror.current (snd (ebind (call_service (updateContact i u)) (\<lambda>_. loadData) (p, s)))" for u
      by (rule contacts_mirror.call_then_load [OF assms(1)], rule update_readable [OF r], erule throw_keeps(1))
    then show ?thesis using assms(1) by (simp add: ToggleFavorite handleToggleFavorite_def split: option.splits)
  next
    case (ImportFile env f)
    show ?thesis
    proof (cases f)
      case (Some csv)
      have "contacts_mirror.current (snd (handleImportCSV (fst env) (snd env) (Some csv) (p, s)))" unfolding handleImportCSV_def option.case
        by (rule contacts_mirror.call_load_page [OF assms(1)], rule import_all_readable [OF r], erule throw_keeps(4)) (simp_all add: held_both_def)
      then show ?thesis by (simp add: ImportFile Some)
    qed (use assms(1) in \<open>simp add: ImportFile handleImportCSV_def eret_def\<close>)
  qed (use assms in \<open>simp_all add: page_current_iff handleEditContact_def\<close>)
qed

text \<open>
  In every run of the contacts page over a readable storage, what it holds is what the contact manager has,
  and the list shown is its selection by search, group and tags.
\<close>

theorem contacts_page_shows:
  assumes "fst (getAllContacts s) = Inr cs" and "fst (getAllGroups s) = Inr gs" and "list_all plain_event es"
    and "fold contacts_step es (snd (loadData (p0, s))) = (p, t)"
  shows "fst (getAllContacts t) = Inr (pg_contacts p) \<and> fst (getAllGroups t) = Inr (pg_groups p)"
proof -
  have "contacts_mirror.readable s" using assms(1, 2) by (simp add: readable_store_iff)
  then have "contacts_mirror.current (snd (loadData (p0, s)))" using contacts_mirror.load_current [of s p0] by auto
  from contacts_mirror.run_current [where ok = plain_event and step = contacts_step, OF contacts_step_current this assms(3)] show ?thesis using assms(4) by (simp add: page_current_iff)
qed

definition ann_form :: ContactForm where
  "ann_form = empty_form\<lparr>cf_name := ''Ann'', cf_address := ''KC1''\<rparr>"

theorem contacts_page_shows_witness:
  "map c_name (pg_contacts (fst (fold contacts_step [OnPage (\<lambda>p. p\<lparr>contactForm := ann_form\<rparr>), Save (\<lambda>_. 5) ''r'']
     (snd (loadData (new_contacts_page, \<lparr>contacts_item = Absent, groups_item = Absent\<rparr>)))))) = [''Ann'']"
proof -
  let ?s = "\<lparr>contacts_item = Absent, groups_item = Absent\<rparr> :: cm_state" and ?es = "[OnPage (\<lambda>p. p\<lparr>contactForm := ann_form\<rparr>), Save (\<lambda>_. 5) ''r'']"
  let ?r = "fold contacts_step ?es (snd (loadData (new_contacts_page, ?s)))"
  have "fst (getAllContacts ?s) = Inr []" "fst (getAllGroups ?s) = Inr []" by (simp_all add: getAllContacts_def getAllGroups_def)
  moreover have "list_all plain_event ?es" by simp
  ultimately have "fst (getAllContacts (snd ?r)) = Inr (pg_contacts (fst ?r))"
    using contacts_page_shows [of ?s "[]" "[]" ?es new_contacts_page "fst ?r" "snd ?r"] by (metis prod.collapse)
  moreover have "fst (getAllContacts (snd ?r)) = Inr [make_contact (\<lambda>_. 5) ''r'' (form_data ann_form)]" by code_simp
  ultimately have "pg_contacts (fst ?r) = [make_contact (\<lambda>_. 5) ''r'' (form_data ann_form)]" by (metis sum.inject(2))
  then have "map c_name (pg_contacts (fst ?r)) = [c_name (make_contact (\<lambda>_. 5) ''r'' (form_data ann_form))]" by (simp only: list.map)
  also have "\<dots> = [''Ann'']" by (simp add: make_contact_def form_data_def ann_form_def)
  finally show ?thesis .
qed

text \<open>Editing checks neither the name nor the address: a contact can be saved with both empty.\<close>

lemma edit_to_blank:
  assumes "fst (getAllContacts s) = Inr (c # cs)" and "selectedContact p = Some c" and "contactForm p = empty_form"
  shows "\<exists>c'. fst (getAllContacts (snd (snd (handleCreateContact clk rnd (p, s))))) = Inr (c' # cs) \<and> c_name c' = [] \<and> c_address c' = []"
proof -
  let ?c = "spread_updates (form_updates empty_form) c"
  have "updateContact (c_id c) (form_updates empty_form) s = (Inr ?c, saveContacts (?c # cs) s)"
    using assms(1) by (simp add: updateContact_def ebind_def getAllContacts_def form_updates_def empty_form_def Let_def)
  then have "fst (getAllContacts (snd (snd (handleCreateContact clk rnd (p, s))))) = Inr (?c # cs)"
    using assms(2, 3)
    by (auto simp: handleCreateContact_def ecatch_def ebind_def call_service_def on_page_def loadData_def getAllContacts_def saveContacts_def split: sum.splits prod.splits)
  then show ?thesis by (simp add: spread_updates_def form_updates_def empty_form_def or_keep_def)
qed

section \<open>Notifications\<close>

datatype read_filter = AllNotes | ReadNotes | UnreadNotes

record notes_page =
  np_notifications :: "Note list"
  np_preferences :: "CenterPreferences option"
  filterType :: "note_type option"
  filterRead :: read_filter

definition load_notes :: "(notes_page \<times> nc_state, unit) eff" where
  "load_notes ps =
     (case ps of (p, s) \<Rightarrow>
        case getNotifications s of
          Inl e \<Rightarrow> (Inl e, p, s)
        | Inr ns \<Rightarrow>
            (case getPreferences s of
               Inl e \<Rightarrow> (Inl e, p\<lparr>np_notifications := ns\<rparr>, s)
             | Inr pr \<Rightarrow> (Inr (), p\<lparr>np_notifications := ns, np_preferences := Some pr\<rparr>, s)))"

definition handleMarkRead :: "string \<Rightarrow> (notes_page \<times> nc_state, unit) eff" where
  "handleMarkRead i = ebind (call_service (markAsRead i)) (\<lambda>_. load_notes)"

definition handleMarkUnread :: "string \<Rightarrow> (notes_page \<times> nc_state, unit) eff" where
  "handleMarkUnread i = ebind (call_service (markAsUnread i)) (\<lambda>_. load_notes)"

definition handleMarkAllRead :: "(notes_page \<times> nc_state, unit) eff" where
  "handleMarkAllRead = ebind (call_service markAllAsRead) (\<lambda>_. load_notes)"

definition handleDelete :: "bool \<Rightarrow> string \<Rightarrow> (notes_page \<times> nc_state, unit) eff" where
  "handleDelete confirmed i = (if confirmed then ebind (call_service (deleteNotification i)) (\<lambda>_. load_notes) else eret ())"

definition handleClearAll :: "bool \<Rightarrow> (notes_page \<times> nc_state, unit) eff" where
  "handleClearAll confirmed = (if confirmed then ebind (call_service (\<lambda>s. (Inr (), clearAll s))) (\<lambda>_. load_notes) else eret ())"

text \<open>\<open>updates\<close> is the change that the spread of the updates makes.\<close>

definition handleUpdatePreferences :: "(CenterPreferences \<Rightarrow> CenterPreferences) \<Rightarrow> notes_page \<times> nc_state \<Rightarrow> notes_page \<times> nc_state" where
  "handleUpdatePreferences updates ps =
     (case ps of (p, s) \<Rightarrow>
        case np_preferences p of
          None \<Rightarrow> (p, s)
        | Some pr \<Rightarrow> (p\<lparr>np_preferences := Some (updates pr)\<rparr>, updatePreferences (updates pr) s))"

definition filteredNotifications :: "notes_page \<Rightarrow> Note list" where
  "filteredNotifications p =
     filter (\<lambda>n. if filterType p \<noteq> None \<and> filterType p \<noteq> Some (cn_type n) then False
                 else if filterRead p = ReadNotes \<and> \<not> cn_read n then False
                 else if filterRead p = UnreadNotes \<and> cn_read n then False else True) (np_notifications p)"

definition unreadCount :: "notes_page \<Rightarrow> nat" where
  "unreadCount p = length (filter (\<lambda>n. \<not> cn_read n) (np_notifications p))"

text \<open>The card \<open>This Week\<close>; \<open>weekAgo\<close> is the time seven days before now.\<close>

definition this_week :: "int \<Rightarrow> notes_page \<Rightarrow> nat" where
  "this_week weekAgo p = length (filter (\<lambda>n. cn_timestamp n > weekAgo) (np_notifications p))"

definition get_notes :: "nc_state \<Rightarrow> js_error + Note list \<times> CenterPreferences option" where
  "get_notes s = (case getNotifications s of Inl e \<Rightarrow> Inl e | Inr ns \<Rightarrow> (case getPreferences s of Inl e \<Rightarrow> Inl e | Inr pr \<Rightarrow> Inr (ns, Some pr)))"

definition held_notes :: "notes_page \<Rightarrow> Note list \<times> CenterPreferences option" where
  "held_notes p = (np_notifications p, np_preferences p)"

interpretation notes_mirror: mirror get_notes held_notes load_notes
  by unfold_locales (auto simp: get_notes_def held_notes_def load_notes_def split: sum.splits)

datatype notes_event = MarkRead string | MarkUnread string | MarkAll | DeleteNote bool string | ClearNotes bool
  | Prefer "CenterPreferences \<Rightarrow> CenterPreferences" | ShowType "note_type option" | ShowRead read_filter | Reload

fun notes_step :: "notes_event \<Rightarrow> notes_page \<times> nc_state \<Rightarrow> notes_page \<times> nc_state" where
  "notes_step (MarkRead i) ps = snd (handleMarkRead i ps)"
| "notes_step (MarkUnread i) ps = snd (handleMarkUnread i ps)"
| "notes_step MarkAll ps = snd (handleMarkAllRead ps)"
| "notes_step (DeleteNote b i) ps = snd (handleDelete b i ps)"
| "notes_step (ClearNotes b) ps = snd (handleClearAll b ps)"
| "notes_step (Prefer f) ps = handleUpdatePreferences f ps"
| "notes_step (ShowType t) ps = (fst ps\<lparr>filterType := t\<rparr>, snd ps)"
| "notes_step (ShowRead r) ps = (fst ps\<lparr>filterRead := r\<rparr>, snd ps)"
| "notes_step Reload ps = snd (load_notes ps)"

lemma center_edits:
  assumes "notes_mirror.readable s"
  shows "notes_mirror.readable (snd (edit_list f s))" "\<exists>u. fst (edit_list f s) = Inr u"
    "notes_mirror.readable (snd (set_read b i s))" "\<exists>u. fst (set_read b i s) = Inr u" "notes_mirror.readable (clearAll s)"
  using assms
  by (auto simp: notes_mirror.readable_def get_notes_def edit_list_def set_read_def clearAll_def ebind_def eread_def getNotifications_def
      getPreferences_def saveNotifications_def split: sum.splits)

lemma notes_step_current: "notes_mirror.current (p, s) \<Longrightarrow> notes_mirror.current (notes_step e (p, s))"
proof -
  assume c: "notes_mirror.current (p, s)"
  note r = notes_mirror.current_readable [OF c]
  have t: "notes_mirror.current (snd (ebind (call_service m) (\<lambda>_. load_notes) (p, s)))" if "notes_mirror.readable (snd (m s))" "\<exists>u. fst (m s) = Inr u" for m :: "(nc_state, unit) eff"
    by (rule notes_mirror.call_then_load [OF c], rule that(1)) (use that(2) in auto)
  have t1: "notes_mirror.current (snd (ebind (call_service (edit_list f)) (\<lambda>_. load_notes) (p, s)))" for f
    by (rule t, rule center_edits(1) [OF r], rule center_edits(2) [OF r])
  have t2: "notes_mirror.current (snd (ebind (call_service (set_read b i)) (\<lambda>_. load_notes) (p, s)))" for b i
    by (rule t, rule center_edits(3) [OF r], rule center_edits(4) [OF r])
  show ?thesis
  proof (cases e)
    case (Prefer f)
    obtain pr where "np_preferences p = Some pr"
      using c by (cases "np_preferences p") (auto simp: notes_mirror.current_def get_notes_def held_notes_def split: sum.splits)
    then show ?thesis
      using c by (auto simp: Prefer handleUpdatePreferences_def notes_mirror.current_def get_notes_def held_notes_def updatePreferences_def getNotifications_def getPreferences_def split: sum.splits)
  next
    case Reload
    then show ?thesis using notes_mirror.load_current [OF r, of p] by auto
  qed (use c t1 t2 t [of "\<lambda>s. (Inr (), clearAll s)"] center_edits(5) [OF r] in
      \<open>simp_all add: handleMarkRead_def handleMarkUnread_def handleMarkAllRead_def handleDelete_def handleClearAll_def markAsRead_def markAsUnread_def
        markAllAsRead_def deleteNotification_def eret_def notes_mirror.current_def held_notes_def\<close>)
qed

text \<open>In every run of the notifications page over a readable storage, the number of unread notifications shown is that of the center.\<close>

lemma notes_page_counts:
  assumes "getNotifications s = Inr ns" and "getPreferences s = Inr pr" and "fold notes_step es (snd (load_notes (p0, s))) = (p, t)"
  shows "getNotifications t = Inr (np_notifications p) \<and> getUnreadCount t = Inr (unreadCount p)"
proof -
  have "notes_mirror.readable s" using assms(1, 2) by (simp add: notes_mirror.readable_def get_notes_def)
  then have "notes_mirror.current (snd (load_notes (p0, s)))" using notes_mirror.load_current [of s p0] by auto
  from notes_mirror.run_current [where ok = "\<lambda>_. True" and step = notes_step, OF notes_step_current this]
  have "notes_mirror.current (p, t)" using assms(3) by (metis list.pred_True)
  then have "getNotifications t = Inr (np_notifications p)"
    by (cases "getPreferences t") (auto simp: notes_mirror.current_def get_notes_def held_notes_def split: sum.splits)
  then show ?thesis by (simp add: getUnreadCount_def unreadCount_def)
qed

section \<open>Advanced search\<close>

text \<open>The records of the history have no field \<open>id\<close>: what the page reads there is \<open>undefined\<close>.\<close>

definition tx_id :: "SearchTx \<Rightarrow> string option" where
  "tx_id tx = None"

text \<open>A search that is under way has the query, the switch and the filters that its rendering saw.\<close>

record search_state =
  transactions :: "SearchTx list"
  filteredTxs :: "SearchTx list"
  selectedTxs :: "string option list"
  selectedPreset :: "string option"
  presets :: "SearchPreset list"
  adv_query :: string
  useRegex :: bool
  filters :: SearchFilters
  searches :: "(string \<times> bool \<times> SearchFilters) list"
  adv_alert :: "string option"

definition no_filters :: SearchFilters where
  "no_filters = \<lparr>dateFrom = None, dateTo = None, amountMin = None, amountMax = None, feeMin = None, feeMax = None, confirmationsMin = None,
     f_type = None, f_categories = [], f_tags = [], contactAddress = None\<rparr>"

definition applyFilters :: "(int \<Rightarrow> int) \<Rightarrow> search_state \<Rightarrow> search_state" where
  "applyFilters endOfDay p =
     (if adv_query p \<noteq> [] then p\<lparr>searches := searches p @ [(adv_query p, useRegex p, filters p)]\<rparr>
      else p\<lparr>filteredTxs := filter_tx endOfDay (transactions p) (filters p)\<rparr>)"

definition search_answered :: "(int \<Rightarrow> int) \<Rightarrow> nat \<Rightarrow> js_error + SearchTx list \<Rightarrow> search_state \<Rightarrow> search_state" where
  "search_answered endOfDay i r p =
     (if i < length (searches p) then
        let p1 = p\<lparr>searches := take i (searches p) @ drop (Suc i) (searches p)\<rparr>
        in case r of Inl _ \<Rightarrow> p1 | Inr txs \<Rightarrow> p1\<lparr>filteredTxs := filter_tx endOfDay txs (snd (snd (searches p ! i)))\<rparr>
      else p)"

text \<open>Setting a value that the effect depends on runs it.\<close>

definition set_query :: "(int \<Rightarrow> int) \<Rightarrow> string \<Rightarrow> search_state \<Rightarrow> search_state" where
  "set_query endOfDay q p = (if q = adv_query p then p else applyFilters endOfDay (p\<lparr>adv_query := q\<rparr>))"

definition set_filters :: "(int \<Rightarrow> int) \<Rightarrow> SearchFilters \<Rightarrow> search_state \<Rightarrow> search_state" where
  "set_filters endOfDay f p = applyFilters endOfDay (p\<lparr>filters := f\<rparr>)"

definition transactions_loaded :: "(int \<Rightarrow> int) \<Rightarrow> SearchTx list \<Rightarrow> SearchPreset list \<Rightarrow> search_state \<Rightarrow> search_state" where
  "transactions_loaded endOfDay txs ps p = applyFilters endOfDay (p\<lparr>transactions := txs, presets := ps\<rparr>)"

text \<open>The call in the handler still sees the old filters; the effect runs with the new ones after it.\<close>

definition handleApplyPreset :: "(int \<Rightarrow> int) \<Rightarrow> SearchPreset \<Rightarrow> search_state \<Rightarrow> search_state" where
  "handleApplyPreset endOfDay preset p =
     set_filters endOfDay (p_filters preset) (applyFilters endOfDay (p\<lparr>selectedPreset := Some (p_id preset)\<rparr>))"

definition handleSavePreset :: "clock \<Rightarrow> string \<Rightarrow> string \<Rightarrow> string \<Rightarrow> (search_state \<times> ts_state, unit) eff" where
  "handleSavePreset clk rnd name descr ps =
     ecatch
       (ebind (call_service (savePreset clk rnd name (Some descr) (filters (fst ps)))) (\<lambda>_.
        on_page (\<lambda>p. p\<lparr>adv_alert := Some ''Preset saved successfully!''\<rparr>)))
       (\<lambda>e. on_page (\<lambda>p. p\<lparr>adv_alert := Some (message e)\<rparr>)) ps"

definition handleDeletePreset :: "bool \<Rightarrow> string \<Rightarrow> (search_state \<times> ts_state, unit) eff" where
  "handleDeletePreset confirmed i =
     (if confirmed then
        ebind (call_service (deletePreset i)) (\<lambda>_.
        on_page (\<lambda>p. if selectedPreset p = Some i then p\<lparr>selectedPreset := None\<rparr> else p))
      else eret ())"

definition handleSelectAll :: "search_state \<Rightarrow> search_state" where
  "handleSelectAll p =
     (if length (selectedTxs p) = length (filteredTxs p) then p\<lparr>selectedTxs := []\<rparr>
      else p\<lparr>selectedTxs := js_Set (map tx_id (filteredTxs p))\<rparr>)"

definition handleSelectTx :: "string option \<Rightarrow> search_state \<Rightarrow> search_state" where
  "handleSelectTx i p = p\<lparr>selectedTxs := toggled i (selectedTxs p)\<rparr>"

text \<open>\<open>undefined\<close> as the key of an object.\<close>

definition key_text :: "string option \<Rightarrow> string" where
  "key_text i = (case i of None \<Rightarrow> ''undefined'' | Some t \<Rightarrow> t)"

definition handleBulkTag :: "string option \<Rightarrow> (search_state \<times> ts_state, unit) eff" where
  "handleBulkTag tag ps =
     (if \<not> truthy_string tag then (Inr (), ps)
      else ebind (call_service (efor (\<lambda>i. addTag (key_text i) (the tag)) (selectedTxs (fst ps)))) (\<lambda>_.
           on_page (\<lambda>p. p\<lparr>adv_alert := Some (''Tagged '' @ show_nat (length (selectedTxs p)) @ '' transactions''), selectedTxs := []\<rparr>)) ps)"

definition named_category :: "string \<Rightarrow> TransactionCategory option" where
  "named_category n = List.find (\<lambda>c. category_name c = n) [Income, Expense, Transfer, Trading, OtherCategory]"

definition handleBulkCategorize :: "string option \<Rightarrow> (search_state \<times> ts_state, unit) eff" where
  "handleBulkCategorize category ps =
     (case (if truthy_string category then named_category (the category) else None) of
        None \<Rightarrow> on_page (\<lambda>p. p\<lparr>adv_alert := Some ''Invalid category''\<rparr>) ps
      | Some c \<Rightarrow>
          ebind (call_service (efor (\<lambda>i. setCategory (key_text i) c) (selectedTxs (fst ps)))) (\<lambda>_.
          on_page (\<lambda>p. p\<lparr>adv_alert := Some (''Categorized '' @ show_nat (length (selectedTxs p)) @ '' transactions''), selectedTxs := []\<rparr>)) ps)"

definition exported_selection :: "search_state \<Rightarrow> SearchTx list" where
  "exported_selection p = filter (\<lambda>tx. tx_id tx \<in> set (selectedTxs p)) (filteredTxs p)"

definition resetFilters :: "(int \<Rightarrow> int) \<Rightarrow> search_state \<Rightarrow> search_state" where
  "resetFilters endOfDay p = applyFilters endOfDay (p\<lparr>filters := no_filters, adv_query := [], useRegex := False, selectedPreset := None\<rparr>)"

text \<open>The page's own statistics, in the order in which the categories appear.\<close>

definition page_category_stats :: "SearchTx list \<Rightarrow> (TransactionCategory, nat \<times> jsnum) jsmap" where
  "page_category_stats txs =
     fold (\<lambda>tx m. AList.update (category_of tx)
             (case map_of m (category_of tx) of None \<Rightarrow> (1, wt_amount (s_tx tx)) | Some (n, x) \<Rightarrow> (Suc n, x + wt_amount (s_tx tx))) m) txs []"

definition category_percentage :: "SearchTx list \<Rightarrow> nat \<Rightarrow> jsnum" where
  "category_percentage txs n = real n / real (length txs) * 100"

text \<open>The first line of a row; reading \<open>slice\<close> of \<open>undefined\<close> throws.\<close>

definition row_title :: "SearchTx \<Rightarrow> js_error + string" where
  "row_title tx = (case tx_id tx of None \<Rightarrow> Inl TypeError | Some i \<Rightarrow> Inr (take 16 i @ ''...''))"

text \<open>The page cannot be drawn once there is a transaction to show.\<close>

lemma rows_throw: "filteredTxs p \<noteq> [] \<Longrightarrow> TransactionSearch.map_result row_title (filteredTxs p) = Inl TypeError"
  by (cases "filteredTxs p") (simp_all add: row_title_def tx_id_def)

text \<open>Selecting all selects the one undefined identifier, under which a tag or a category is then stored.\<close>

lemma js_Set_constant:
  assumes "xs \<noteq> []"
  shows "js_Set (map tx_id xs) = [None]"
proof -
  have "map tx_id xs = replicate (length xs) None" by (induction xs) (simp_all add: tx_id_def)
  then have "set (js_Set (map tx_id xs)) = {None}" using assms by (simp add: set_js_Set)
  moreover have "distinct (js_Set (map tx_id xs))" by (rule distinct_js_Set)
  moreover have "set l = {x} \<Longrightarrow> distinct l \<Longrightarrow> l = [x]" for l and x :: "string option" by (cases l; cases "tl l") auto
  ultimately show ?thesis by blast
qed

lemma select_all_undefined:
  assumes "length (selectedTxs p) \<noteq> length (filteredTxs p)" and "filteredTxs p \<noteq> []"
  shows "selectedTxs (handleSelectAll p) = [None] \<and> exported_selection (handleSelectAll p) = filteredTxs p"
  using assms by (simp add: handleSelectAll_def js_Set_constant exported_selection_def tx_id_def)

lemma bulk_tag_lost:
  assumes "selectedTxs p = [None]" and "fst (getAllMetadata s) = Inr m" and "trim tag \<noteq> []" and "tag \<noteq> []" and "t \<noteq> ''undefined''"
  shows "fst (getMetadata t (snd (snd (handleBulkTag (Some tag) (p, s))))) = fst (getMetadata t s)"
  using assms
  by (simp add: handleBulkTag_def ebind_def call_service_def on_page_def addTag_def key_text_def getAllMetadata_def getMetadata_def saveMetadata_def
      eret_def lookup_metadata_def Let_def)

text \<open>A search that ends late replaces the results of a newer one, here after the query was cleared.\<close>

lemma stale_results:
  assumes "adv_query p = []" and "q \<noteq> []" and "searches p = []"
  shows "filteredTxs (search_answered eod 0 (Inr txs) (set_query eod [] (set_query eod q p))) = filter_tx eod txs (filters p) \<and>
         adv_query (search_answered eod 0 (Inr txs) (set_query eod [] (set_query eod q p))) = []"
  using assms by (simp add: search_answered_def set_query_def applyFilters_def)

text \<open>Without a query the list shown is the selection of the filters, also after a preset.\<close>

lemma preset_applied:
  "adv_query p = [] \<Longrightarrow> filteredTxs (handleApplyPreset eod preset p) = filter_tx eod (transactions p) (p_filters preset)"
  by (simp add: handleApplyPreset_def set_filters_def applyFilters_def)

end
