(* ===== verification/Interfaces.thy ===== *)
theory Interfaces
  imports
    RpcClient WebSocket WalletServer WebServers OpsDashboard ExplorerPage WalletDesk
    Components SendPages BookPages CoinPages WalletPages AnalyticsPage ConfigPages ServicePages
begin

text \<open>
  What talks to the node (the browser's client, the live connection, the servers of the web applications and the
  dashboards over them) and the pages of the wallet over its services.
\<close>

end
