(* ===== verification/Spec2Isabelle.thy ===== *)
theory Spec2Isabelle
  imports
    PaymentServices MarketServices UserServices Interfaces
begin

text \<open>
  \<^bold>\<open>KuberCoin wallet services: a verification development\<close>

  \<^bold>\<open>The program.\<close> KuberCoin is a cryptocurrency: a node written in Rust (core/), native and
  web user interfaces, and a web wallet whose logic lives in TypeScript services under
  apps/web/wallet/src/services. This development models those services, the pages over them and the
  servers and dashboards around them. A service is a class
  with one exported instance: it keeps \<open>Map\<close>s and arrays in memory, writes them through to
  \<open>localStorage\<close>, reads the clock and \<open>Math.random()\<close>, and, where it touches the
  chain, calls the node over JSON-RPC (services/api.ts).

  \<^bold>\<open>Theories and sources\<close> (sources relative to apps/web/wallet/src/services).
  \<^item> Prelude: JavaScript's part (errors, the clock, truthiness, numerals, \<open>Math.round\<close>,
    \<open>toFixed\<close>, string and array helpers) and the effect type: a method maps a state to an
    outcome (\<open>Inl\<close> a thrown error, \<open>Inr\<close> a result) and the state it leaves, so a throw
    keeps the changes made before it.
  \<^item> JsStore: insertion-ordered maps, \<open>localStorage\<close> items (absent, garbled, or a JSON value),
    the locales \<open>persistent\<close> and \<open>write_through\<close> (a reload gives back the state, or a view of
    it) and \<open>ordered_map\<close>.
  \<^item> CoinSelect: the accumulation loop shared by wallet.ts, utxoManager.ts and optimizer.ts with
    its contract \<open>selection_loop\<close>; Threshold: collecting signatures up to a quorum, the
    contract \<open>threshold_collection\<close> that the three signature services interpret.
  \<^item> WalletService and WalletSpend: wallet.ts. The registry of wallets with its storage snapshot,
    and history, fees, building, signing and broadcasting of transactions, batches and
    consolidation. The RPC client is the record \<open>node_api\<close>, one state transformer per method
    over an arbitrary node state. Optimizer: optimizer.ts, a client of both.
  \<^item> UtxoManager: utxoManager.ts. Multisig: multisig.ts. MultisigWallet: multisigWallet.ts.
    SignatureManager: signatureManager.ts, with its 32-bit hash on machine words.
    SocialRecovery: socialRecovery.ts.
  \<^item> Lightning: lightning.ts as a step relation in which calls, page reloads and due timers
    interleave.
  \<^item> FeeManager: feeManager.ts. Rebalancer: rebalancer.ts, its \<open>while\<close> loop as a partial
    function. TradingEngine: tradingEngine.ts. TechnicalAnalysis: technicalAnalysis.ts.
    TaxCalculator: taxCalculator.ts and capitalGains.ts.
  \<^item> Security: security.ts, over Web Crypto as a parameter. SessionManager: sessionManager.ts.
  \<^item> ContactManager: contactManager.ts, with the regular expression of its CSV reader as a function.
    AddressBook: addressBook.ts and addressFilter.ts. TransactionLabels: transactionLabels.ts.
    TransactionSearch: transactionSearch.ts.
  \<^item> Calendar: the part of JavaScript's \<open>Date\<close> that the services use. Planning: batcher.ts,
    scheduler.ts and budgetManager.ts. Invoicing: invoicing.ts. TaxService: taxService.ts.
  \<^item> WalletApi: walletApi.ts, the client of the wallet's backend, and the pattern of a request with
    a local fallback. Its clients Staking (staking.ts, atomicSwap.ts), AuditLog (auditLog.ts) and
    ColdStorage (coldStorage.ts).
  \<^item> MultiCurrency: multiCurrency.ts. PriceService: priceService.ts. Portfolio:
    portfolioAnalysis.ts, over the wallet and the price service. WalletHealth: walletHealth.ts,
    over the wallet service.
  \<^item> Settings: settings.ts. Backup: backup.ts, over the wallet, address book, settings, label and
    security services. BackupManager: backupManager.ts. Templates: templates.ts. Notifications:
    notifications.ts. NotificationCenter: notificationCenter.ts.
  \<^item> Authentication: authentication.ts, its base 32 encoder on 32-bit words. NlpParser: nlpParser.ts.
  \<^item> DeFi: defi.ts. Nft: nftManager.ts, nftService.ts and nftMetadata.ts. MobileSync:
    mobileSync.ts. PrivacyTools: privacyTools.ts, over the backend client. Monitoring:
    securityMonitor.ts and threatDetection.ts.
  \<^item> WebSocket: websocket.ts, as a step relation in which the network, timers and callers
    interleave over all sockets and timers that were ever made.
  \<^item> Json: JSON values and property reads. NodeWallet: the wallet a node has loaded and its lock
    (Rust, core/node/src/rpc.rs and rpc_wallet.rs). WalletServer: the routes of the wallet's server
    (apps/web/wallet/app/api), as processes that call the node and may be interleaved. WebServers:
    access to the operations dashboard, health checks, statistics and proxies of the other servers
    (apps/web/ops, explorer, unified and monitoring). Forms: app/utils/validation.ts and
    formatters.ts.
  \<^item> Contracts: abiParser.ts and contractInteraction.ts. Devices: hardwareWallet.ts. SecretSharing:
    shamirSecret.ts and defiService.ts. TaxExport: taxExport.ts, over the tax calculator.
  \<^item> Assistants: aiAssistant.ts and mlEngine.ts. PaymentRequests: qrService.ts, with percent encoding
    and the parser of query strings. Locales: i18n.ts, analytics.ts and the explorer's lib/i18n.ts.
  \<^item> NodeRpc: the node's table of methods and the Rust handlers that the browser relies on.
    RpcClient: api.ts, and the wallet service run over this client and that node.
  \<^item> Pages (apps/web/wallet/app): the state of a React component is a record, a handler a function
    on it and on the state of the services it calls, an effect the function that a change of its
    dependencies runs. Components: the shared components and hooks (app/components, app/hooks).
    SendPages: wallet/send and batch-send. BookPages: wallet/address-book, history and templates.
    CoinPages: wallet/utxos, receive and addresses. WalletPages: wallet/manage, import-export,
    backup, backup-recovery and watch-only. AnalyticsPage: wallet/analytics. ConfigPages:
    wallet/security, settings, faucet and network. WalletDesk: components/WalletClient.tsx, over the
    routes of WalletServer. ServicePages: src/app/wallet/contacts, notifications and history/advanced;
    its locale \<open>mirror\<close> is the contract of a page that holds a copy of what a service stores.
  \<^item> OpsDashboard: the operations dashboard and its request console (apps/web/ops), with the metrics
    that the node prints (core/node/src/rpc.rs). ExplorerPage: the start page of the explorer
    (apps/web/explorer), its live connection as interleaved runs of a React effect.
  \<^item> PaymentServices, MarketServices, UserServices and Interfaces have no definitions: they group the
    theories by what they are about, and this theory imports the groups.

  \<^bold>\<open>What is shown.\<close>
  \<^item> Spending: a built transaction spends a prefix of the node's coins, pays the recipient and
    balances up to dust (createTransaction, batchSend); what is broadcast is the signature of
    exactly that transaction (sendTransaction); coin selection reaches its target with unlocked
    coins or all coins do not suffice (UtxoManager, Optimizer).
  \<^item> Storage: no private-key field ever reaches storage; reloading after any run gives back the
    state (write-through services), the state less private keys (wallet) or less pending timers
    (Lightning); the active wallet exists.
  \<^item> Signatures: completion, approval, readiness and execution need a quorum of distinct, allowed
    signers; requests move only forward; shares go only to verified contacts.
  \<^item> Security: decryption inverts encryption, verification accepts exactly the passwords with the
    derived key, the lock is opened only by a verified password and respects its timeout; sessions
    and events stay consistent and bounded.
  \<^item> Numbers: fee estimates fall with the target and stay within the market, replacements pay
    strictly more, RSI lies in [0, 100], averages lie between their data, lot matching conserves
    amounts and highest-in-first-out maximises the cost basis, rebalancing terminates without
    overselling, positions keep positive sizes and exact cost.
  \<^item> Collections: contacts and address books survive export and import, labels are only added,
    invoice numbers are unique, a filter is the conjunction of its conditions, the address filter
    is two sets and a mode, a budget is what was spent since its reset.
  \<^item> Backend clients: with fallbacks allowed nothing throws; the exported unsigned transaction is
    the one that was built; audit statistics are those of the events.
  \<^item> Analysis: alerts fire exactly when reached, the drawdown is the worst fall, tax reports add
    up, the health score is a percentage.
  \<^item> Backups: a full backup, encrypted or not, gives back contacts, settings and labels; encrypted
    texts are read back. Notifications: a reload keeps the newest hundred, price alerts are exactly
    the crossings of a sequence of prices.
  \<^item> Live updates: the server knows exactly the events that have listeners; a page keeps at most
    one live socket, reconnection and heartbeat, recovers while it has attempts left, and stays
    closed once closed.
  \<^item> Server: a wallet loaded for a request is always unloaded again; a payment that the send route
    reports was made from the named wallet when the request runs alone, and may be made from
    another wallet when requests interleave. The operations dashboard is closed without a key.
  \<^item> Browser, client and node together: no payment of the browser's wallet can be signed, an
    imported private key is stored in the clear, a new address is not the string it is taken for.
  \<^item> Texts: a payment request is read back as it was made unless its note has a percent sign; a
    template whose holes differ is filled in whatever the order of its parameters.
  \<^item> Pages: what the pages for payments broadcast was checked by their own validation, pagination
    shows every item once, the wallets shown are those of the registry, each point of the balance
    chart is the balance at its time; a payment of the wallet desk is followed from the click through
    the route to the node; a full backup taken on the recovery page cannot be restored there.
  \<^item> Dashboards: the metrics of the node are read back, alerts and charts belong to one reading, a run
    of the explorer's effect has at most one socket, though sockets of effects that are gone pile up.
  \<^item> Positions and tokens: pool reserves follow the positions, tokens are never lost.
  \<^item> Algorithms: the base 32 encoder is that of RFC 4648, the similarity is the edit distance.
  \<^item> Defects that the proofs brought out are stated as theorems too: a payment to oneself is
    burned, an imported private key becomes a stored address, a closed Lightning channel revives,
    a rejected transaction can be approved, one contact can approve a recovery alone, and others
    named in their theories.

  \<^bold>\<open>Abstractions.\<close> Numbers that carry money, rates or prices are real numbers: rounding of
  binary floating point, infinities and NaN are not modelled except where a text says so; counts
  and times are integers, hashes 32-bit words, bytes naturals below 256. The k-th reading of the
  clock in a call is \<open>clk k\<close>; random strings, numbers and bytes are arguments. JSON text is
  the value it denotes, and \<open>setItem\<close> succeeds. Code after an \<open>await\<close> runs without
  interference from other calls, except in Lightning and WebSocket, where the interleaving is the subject, and in
  the balance update of the wallet, whose second half is a definition of its own. Console output,
  notifications and the server-side (no \<open>window\<close>) branches are left out.

  \<^bold>\<open>Termination and fuel.\<close> Most loops are structural recursions or folds. The matching loop of the
  rebalancer is a partial function and \<open>rebalance_returns\<close> proves that it returns; the loop that draws
  a pairing code is one, too, and returns once a number below the bound is drawn; the loop over the
  days of a range has a measure, as has the loop over the points of the balance chart. No definition uses fuel.

  \<^bold>\<open>Not modelled.\<close> The Rust node (but for its loaded wallet and the handlers of NodeRpc) and
  miners, the native applications; of the React pages the markup and charts, and the pages under
  apps/web/wallet/src/app that ServicePages leaves out, whose services are modelled; the other pages of
  the other web applications
  (views of RPC data), deployment and monitoring files.
\<close>

section \<open>Two services share a storage key\<close>

text \<open>
  Both services keep their settings under the key 'kubercoin_security_settings'. What the session
  manager writes, the security service reads by its own field names: only \<open>biometricEnabled\<close>
  is common to both.
\<close>

definition as_security_settings :: "SessionSettings \<Rightarrow> SecuritySettings" where
  "as_security_settings st =
     \<lparr>passwordEnabled = None, sessionTimeout = None, requireConfirmation = None, biometricEnabled = biometric st\<rparr>"



end
